(* ===== verification/Prelude.thy ===== *)
theory Prelude
  imports Complex_Main "HOL-Library.AList" "HOL-Library.List_Lexorder" "HOL-Library.Char_ord"
begin

text \<open>
  Shared vocabulary of the Overseer development: the Python exceptions the sources raise, the
  string operations they use, insertion-ordered dictionaries, SQLite tables keyed by a text
  primary key, reachability of a step relation, and the interfaces (locales) through which the
  components use tables and invariants.

  Python strings are \<^typ>\<open>string\<close>, a list of characters; a \<^typ>\<open>char\<close> stands for a code point
  below 256 (Latin-1), which is every character the repository's own literals use. An
  optional string (\<open>str | None\<close>) is a \<^typ>\<open>string option\<close>.
\<close>

named_theorems value_simps \<open>the printed values of the enumerations\<close>
named_theorems gate_simps \<open>definitions of guards and gate predicates\<close>
named_theorems step_simps \<open>definitions of state-changing operations\<close>

section \<open>Exceptions\<close>

datatype py_error =
    ValueError string
  | KeyError string
  | TypeError string
  | RuntimeError string
  | OSError string
  | IndexError string
  | IntegrityError string
  | AgentOperationBlockedError string
  | AgentManagerError string
  | AgentManagerPausedError string
  | AgentAuthorizationError string
  | AgentHandoffError string
  | OverflowError string
  | AssertionError string
  | StorageAdapterError string string

type_synonym 'a result = "py_error + 'a"

definition res_bind :: "'a result \<Rightarrow> ('a \<Rightarrow> 'b result) \<Rightarrow> 'b result" where
  "res_bind m f = (case m of Inl e \<Rightarrow> Inl e | Inr x \<Rightarrow> f x)"

lemma res_bind_simps [simp]:
  "res_bind (Inl e) f = Inl e"
  "res_bind (Inr x) f = f x"
  by (simp_all add: res_bind_def)

lemma res_bind_Inr_iff:
  "res_bind m f = Inr y \<longleftrightarrow> (\<exists>x. m = Inr x \<and> f x = Inr y)"
  by (cases m) simp_all

lemma res_bind_cong [fundef_cong]:
  assumes "m = m'" and "\<And>x. m' = Inr x \<Longrightarrow> f x = g x"
  shows "res_bind m f = res_bind m' g"
  using assms by (cases m') (simp_all add: res_bind_def)

fun check_all :: "('a \<Rightarrow> unit result) \<Rightarrow> 'a list \<Rightarrow> unit result" where
  "check_all f [] = Inr ()"
| "check_all f (x # xs) = res_bind (f x) (\<lambda>_. check_all f xs)"

text \<open>Validation as a sequence of checks; the first failure is raised.\<close>

definition run_checks :: "unit result list \<Rightarrow> unit result" where
  "run_checks rs = check_all id rs"

lemma check_all_Inr: "check_all f xs = Inr () \<longleftrightarrow> (\<forall>x \<in> set xs. f x = Inr ())"
  by (induction xs) (auto simp: res_bind_Inr_iff)

lemma run_checks_Inr [simp]: "run_checks rs = Inr () \<longleftrightarrow> (\<forall>r \<in> set rs. r = Inr ())"
  by (simp add: run_checks_def check_all_Inr)

lemma run_checks_Inl: "run_checks rs = Inl e \<Longrightarrow> Inl e \<in> set rs"
  unfolding run_checks_def by (induction rs) (auto simp: res_bind_def split: sum.splits)

definition isOK :: "'a result \<Rightarrow> bool" where
  "isOK m = (case m of Inl _ \<Rightarrow> False | Inr _ \<Rightarrow> True)"

lemma isOK_simps [simp]:
  "isOK (Inl e) = False"
  "isOK (Inr x) = True"
  by (simp_all add: isOK_def)

section \<open>Strings\<close>

definition is_space :: "char \<Rightarrow> bool" where
  "is_space c = (let n = (of_char c :: nat) in
     (9 \<le> n \<and> n \<le> 13) \<or> (28 \<le> n \<and> n \<le> 32) \<or> n = 133 \<or> n = 160)"

definition py_strip :: "string \<Rightarrow> string" where
  "py_strip s = rev (dropWhile is_space (rev (dropWhile is_space s)))"

definition blank :: "string \<Rightarrow> bool" where
  "blank s \<longleftrightarrow> py_strip s = []"

definition lower_char :: "char \<Rightarrow> char" where
  "lower_char c = (let n = (of_char c :: nat) in
     if (65 \<le> n \<and> n \<le> 90) \<or> (192 \<le> n \<and> n \<le> 222 \<and> n \<noteq> 215) then char_of (n + 32) else c)"

definition py_lower :: "string \<Rightarrow> string" where
  "py_lower s = map lower_char s"

text \<open>\<^verbatim>\<open>str.upper\<close>; the two letters whose capitals lie outside Latin-1 are left as they are.\<close>

definition py_upper :: "string \<Rightarrow> string" where
  "py_upper s = concat (map (\<lambda>c. let n = (of_char c :: nat) in
     if (97 \<le> n \<and> n \<le> 122) \<or> (224 \<le> n \<and> n \<le> 254 \<and> n \<noteq> 247) then [char_of (n - 32)]
     else if n = 223 then ''SS'' else [c]) s)"

definition startswith :: "string \<Rightarrow> string \<Rightarrow> bool" where
  "startswith s p \<longleftrightarrow> take (length p) s = p"

definition removeprefix :: "string \<Rightarrow> string \<Rightarrow> string" where
  "removeprefix s p = (if startswith s p then drop (length p) s else s)"

definition endswith :: "string \<Rightarrow> string \<Rightarrow> bool" where
  "endswith s p \<longleftrightarrow> startswith (rev s) (rev p)"

text \<open>\<open>p in s\<close>, \<^verbatim>\<open>s.split(c)\<close> and \<^verbatim>\<open>str.splitlines\<close> on Latin-1 text.\<close>

fun py_contains :: "string \<Rightarrow> string \<Rightarrow> bool" where
  "py_contains p [] \<longleftrightarrow> p = []"
| "py_contains p (c # s) \<longleftrightarrow> startswith (c # s) p \<or> py_contains p s"

fun split_char :: "char \<Rightarrow> string \<Rightarrow> string list" where
  "split_char c [] = [[]]"
| "split_char c (d # s) =
     (if d = c then [] # split_char c s
      else case split_char c s of [] \<Rightarrow> [[d]] | t # ts \<Rightarrow> (d # t) # ts)"

definition is_line_end :: "char \<Rightarrow> bool" where
  "is_line_end c = (let n = (of_char c :: nat) in (10 \<le> n \<and> n \<le> 13) \<or> (28 \<le> n \<and> n \<le> 30) \<or> n = 133)"

fun splitlines_from :: "string \<Rightarrow> string \<Rightarrow> string list" where
  "splitlines_from line [] = (if line = [] then [] else [line])"
| "splitlines_from line (c # s) =
     (if is_line_end c then
        line # (case s of d # s' \<Rightarrow> if c = CHR 0x0D \<and> d = CHR 0x0A then splitlines_from [] s' else splitlines_from [] s
                | [] \<Rightarrow> [])
      else splitlines_from (line @ [c]) s)"

definition py_splitlines :: "string \<Rightarrow> string list" where
  "py_splitlines s = splitlines_from [] s"

definition is_digit :: "char \<Rightarrow> bool" where
  "is_digit c = (let n = (of_char c :: nat) in 48 \<le> n \<and> n \<le> 57)"

text \<open>The character classes \<^verbatim>\<open>[A-Za-z]\<close>, \<^verbatim>\<open>[A-Za-z0-9_]\<close> and \<^verbatim>\<open>\w\<close>.\<close>

definition is_letter :: "char \<Rightarrow> bool" where
  "is_letter c = (let n = (of_char c :: int) in (65 \<le> n \<and> n \<le> 90) \<or> (97 \<le> n \<and> n \<le> 122))"

definition name_char :: "char \<Rightarrow> bool" where
  "name_char c \<longleftrightarrow> is_letter c \<or> is_digit c \<or> c = CHR ''_''"

definition word_char :: "char \<Rightarrow> bool" where
  "word_char c = (let n = (of_char c :: int) in name_char c \<or> n \<in> {170, 178, 179, 181, 185, 186, 188, 189, 190} \<or>
     (192 \<le> n \<and> n \<noteq> 215 \<and> n \<noteq> 247))"

fun py_join :: "string \<Rightarrow> string list \<Rightarrow> string" where
  "py_join sep [] = []"
| "py_join sep [x] = x"
| "py_join sep (x # y # ys) = x @ sep @ py_join sep (y # ys)"

definition replace_char :: "char \<Rightarrow> string \<Rightarrow> string \<Rightarrow> string" where
  "replace_char c r s = concat (map (\<lambda>d. if d = c then r else [d]) s)"

fun str_nat :: "nat \<Rightarrow> string" where
  "str_nat n = (if n < 10 then [char_of (48 + n)] else str_nat (n div 10) @ [char_of (48 + n mod 10)])"

declare str_nat.simps [simp del]

definition str_int :: "int \<Rightarrow> string" where
  "str_int i = (if i < 0 then CHR ''-'' # str_nat (nat (- i)) else str_nat (nat i))"

text \<open>\<open>a or b\<close> on optional strings: \<open>None\<close> and the empty string are both false.\<close>

definition str_true :: "string option \<Rightarrow> bool" where
  "str_true a = (case a of None \<Rightarrow> False | Some s \<Rightarrow> s \<noteq> [])"

definition str_or :: "string option \<Rightarrow> string option \<Rightarrow> string option" where
  "str_or a b = (if str_true a then a else b)"

definition str_default :: "string option \<Rightarrow> string \<Rightarrow> string" where
  "str_default a d = (case a of None \<Rightarrow> d | Some s \<Rightarrow> if s = [] then d else s)"

lemma str_true_simps [simp]:
  "str_true None = False"
  "str_true (Some s) = (s \<noteq> [])"
  by (simp_all add: str_true_def)

lemma find_in_set: "find P xs = Some x \<Longrightarrow> x \<in> set xs \<and> P x"
  by (induction xs) (auto split: if_splits)

lemma dropWhile_eq_Nil: "dropWhile P xs = [] \<longleftrightarrow> (\<forall>x \<in> set xs. P x)"
  by (induction xs) auto

lemma blank_iff: "blank s \<longleftrightarrow> (\<forall>c \<in> set s. is_space c)"
proof -
  have "blank s \<longleftrightarrow> dropWhile is_space (rev (dropWhile is_space s)) = []"
    by (simp add: blank_def py_strip_def)
  also have "\<dots> \<longleftrightarrow> (\<forall>c \<in> set (dropWhile is_space s). is_space c)"
    by (simp add: dropWhile_eq_Nil)
  also have "\<dots> \<longleftrightarrow> (\<forall>c \<in> set s. is_space c)"
    by (metis dropWhile_eq_Nil dropWhile_eq_Nil_conv dropWhile_idem)
  finally show ?thesis .
qed

lemma blank_Nil [simp]: "blank []"
  by (simp add: blank_iff)

lemma blank_append [simp]: "blank (s @ t) \<longleftrightarrow> blank s \<and> blank t"
  by (auto simp: blank_iff)

lemma blank_Cons: "blank (c # s) \<longleftrightarrow> is_space c \<and> blank s"
  by (auto simp: blank_iff)

lemma str_nat_nonempty: "str_nat n \<noteq> []"
  by (subst str_nat.simps) simp

section \<open>Greatest and distinct items\<close>

text \<open>\<^verbatim>\<open>max(items, key=...)\<close>: the first of the items with the greatest key.\<close>

fun max_by :: "('a \<Rightarrow> 'k::linorder) \<Rightarrow> 'a \<Rightarrow> 'a list \<Rightarrow> 'a" where
  "max_by f x [] = x"
| "max_by f x (y # ys) = max_by f (if f x < f y then y else x) ys"

text \<open>\<^verbatim>\<open>dict.fromkeys\<close> keeps the first occurrence of every value.\<close>

definition dict_fromkeys :: "'a list \<Rightarrow> 'a list" where
  "dict_fromkeys xs = rev (remdups (rev xs))"

lemma max_by_props: "max_by f x ys \<in> set (x # ys) \<and> (\<forall>z \<in> set (x # ys). f z \<le> f (max_by f x ys))"
proof (induction ys arbitrary: x)
  case (Cons y ys)
  show ?case
  proof (cases "f x < f y")
    case True
    with Cons.IH [of y] have "f x \<le> f (max_by f y ys)" by (meson less_imp_le less_le_trans list.set_intros(1))
    with Cons.IH [of y] True show ?thesis by simp
  next
    case False
    with Cons.IH [of x] have "f y \<le> f (max_by f x ys)" by (meson leI order_trans list.set_intros(1))
    with Cons.IH [of x] False show ?thesis by simp blast
  qed
qed simp

lemma set_dict_fromkeys [simp]: "set (dict_fromkeys xs) = set xs"
  by (simp add: dict_fromkeys_def)

section \<open>Dictionaries in insertion order\<close>

type_synonym ('k, 'v) pydict = "('k \<times> 'v) list"

definition dict_get :: "('k, 'v) pydict \<Rightarrow> 'k \<Rightarrow> 'v option" where
  "dict_get d k = map_of d k"

definition dict_set :: "'k \<Rightarrow> 'v \<Rightarrow> ('k, 'v) pydict \<Rightarrow> ('k, 'v) pydict" where
  "dict_set k v d = AList.update k v d"

definition dict_values :: "('k, 'v) pydict \<Rightarrow> 'v list" where
  "dict_values d = map snd d"

definition dict_ok :: "('k, 'v) pydict \<Rightarrow> bool" where
  "dict_ok d = distinct (map fst d)"

lemma dict_get_Nil [simp]: "dict_get [] k = None"
  by (simp add: dict_get_def)

lemma dict_get_set: "dict_get (dict_set k v d) = (dict_get d)(k \<mapsto> v)"
  by (simp add: fun_eq_iff dict_get_def dict_set_def update_conv)

lemma dict_get_set_apply [simp]:
  "dict_get (dict_set k v d) k' = (if k' = k then Some v else dict_get d k')"
  by (simp add: dict_get_set)

lemma dict_ok_set [simp, intro]: "dict_ok d \<Longrightarrow> dict_ok (dict_set k v d)"
  by (simp add: dict_ok_def dict_set_def distinct_update)

lemma dict_ok_Nil [simp, intro]: "dict_ok []"
  by (simp add: dict_ok_def)

lemma dict_mem_iff: "dict_ok d \<Longrightarrow> (k, v) \<in> set d \<longleftrightarrow> dict_get d k = Some v"
  by (simp add: dict_ok_def dict_get_def)

text \<open>Sorting by the key and mapping over the values keep lookups.\<close>

lemma map_of_filter: "map_of ys k = map_option snd (List.find (\<lambda>p. True) (filter (\<lambda>p. fst p = k) ys))"
  by (induction ys) auto

lemma map_of_sort_key: "map_of (sort_key fst xs) k = map_of xs k"
  by (simp add: map_of_filter [of "sort_key fst xs"] map_of_filter [of xs] sort_key_stable)

lemma map_of_map_snd: "map_of (map (\<lambda>(k, v). (k, f v)) xs) k = map_option f (map_of xs k)"
  by (induction xs) auto

section \<open>SQLite tables keyed by a primary key\<close>

text \<open>
  A table is the list of its rows in the order of \<^verbatim>\<open>ORDER BY id\<close>. \<open>tbl_upsert\<close> is
  \<^verbatim>\<open>INSERT OR REPLACE\<close>, \<open>tbl_get\<close> is \<^verbatim>\<open>SELECT ... WHERE id = ?\<close>. Most keys are texts (\<open>tbl\<close>); the
  operations work for every ordered key.
\<close>

type_synonym 'v tbl = "(string \<times> 'v) list"

fun tbl_upsert :: "'k::linorder \<Rightarrow> 'v \<Rightarrow> ('k \<times> 'v) list \<Rightarrow> ('k \<times> 'v) list" where
  "tbl_upsert k v [] = [(k, v)]"
| "tbl_upsert k v ((a, b) # t) =
     (if k < a then (k, v) # (a, b) # t
      else if k = a then (k, v) # t
      else (a, b) # tbl_upsert k v t)"

definition tbl_get :: "('k::linorder \<times> 'v) list \<Rightarrow> 'k \<Rightarrow> 'v option" where
  "tbl_get t k = map_of t k"

definition tbl_ok :: "('k::linorder \<times> 'v) list \<Rightarrow> bool" where
  "tbl_ok t = sorted_wrt (<) (map fst t)"

lemma tbl_get_Nil [simp]: "tbl_get [] k = None"
  by (simp add: tbl_get_def)

lemma set_fst_tbl_upsert: "fst ` set (tbl_upsert k v t) = insert k (fst ` set t)"
  by (induction k v t rule: tbl_upsert.induct) auto

lemma map_of_sorted_None:
  "sorted_wrt (<) (a # map fst t) \<Longrightarrow> k < (a::'k::linorder) \<or> k = a \<Longrightarrow> map_of t k = None"
  by (induction t) (auto dest: less_trans)

lemma tbl_get_upsert: "tbl_ok t \<Longrightarrow> tbl_get (tbl_upsert k v t) = (tbl_get t)(k \<mapsto> v)"
proof (induction k v t rule: tbl_upsert.induct)
  case (2 k v a b t)
  have ok: "tbl_ok t" and srt: "sorted_wrt (<) (a # map fst t)"
    using "2.prems" by (simp_all add: tbl_ok_def)
  show ?case
  proof (cases "k < a \<or> k = a")
    case True
    then show ?thesis by (auto simp: fun_eq_iff tbl_get_def)
  next
    case False
    with "2.IH" ok have "tbl_get (tbl_upsert k v t) = (tbl_get t)(k \<mapsto> v)" by auto
    with False show ?thesis by (auto simp: fun_eq_iff tbl_get_def)
  qed
qed (simp add: fun_eq_iff tbl_get_def)

lemma tbl_ok_Nil [simp, intro]: "tbl_ok []"
  by (simp add: tbl_ok_def)

lemma tbl_ok_upsert [simp, intro]: "tbl_ok t \<Longrightarrow> tbl_ok (tbl_upsert k v t)"
proof (induction k v t rule: tbl_upsert.induct)
  case (2 k v a b t)
  have ok: "tbl_ok t" and lt: "\<forall>x \<in> fst ` set t. a < x"
    using "2.prems" by (auto simp: tbl_ok_def)
  show ?case
  proof (cases "k < a \<or> k = a")
    case True
    then show ?thesis using "2.prems" lt by (auto simp: tbl_ok_def dest: less_trans)
  next
    case False
    then have "a < k" by auto
    moreover have "tbl_ok (tbl_upsert k v t)" using "2.IH" False ok by auto
    moreover have "\<forall>x \<in> fst ` set (tbl_upsert k v t). a < x"
      using lt \<open>a < k\<close> by (simp add: set_fst_tbl_upsert)
    ultimately show ?thesis using False by (auto simp: tbl_ok_def)
  qed
qed (simp add: tbl_ok_def)

lemma tbl_ok_distinct: "tbl_ok t \<Longrightarrow> distinct (map fst t)"
  by (simp add: tbl_ok_def strict_sorted_iff)

lemma tbl_mem_iff: "tbl_ok t \<Longrightarrow> (k, v) \<in> set t \<longleftrightarrow> tbl_get t k = Some v"
  by (simp add: tbl_ok_distinct tbl_get_def)

text \<open>A column that no two rows share, and a table whose rows carry their own key.\<close>

definition unique_by :: "('r \<Rightarrow> string) \<Rightarrow> 'r tbl \<Rightarrow> bool" where
  "unique_by f t \<longleftrightarrow> (\<forall>i j x y. tbl_get t i = Some x \<and> tbl_get t j = Some y \<and> f x = f y \<longrightarrow> i = j)"

definition keyed_by :: "('r \<Rightarrow> string) \<Rightarrow> 'r tbl \<Rightarrow> bool" where
  "keyed_by ident t \<longleftrightarrow> tbl_ok t \<and> (\<forall>i x. tbl_get t i = Some x \<longrightarrow> ident x = i)"

lemma unique_by_update:
  assumes "tbl_ok t" "unique_by f t" "tbl_get t i = Some old" "f new = f old"
  shows "unique_by f (tbl_upsert i new t)"
  using assms unfolding unique_by_def by (simp add: tbl_get_upsert) metis

lemma unique_by_insert:
  assumes "tbl_ok t" "unique_by f t" "\<forall>j y. tbl_get t j = Some y \<longrightarrow> f y \<noteq> f new"
  shows "unique_by f (tbl_upsert i new t)"
  using assms unfolding unique_by_def by (simp add: tbl_get_upsert) metis

lemma keyed_by_upsert: "keyed_by ident t \<Longrightarrow> ident new = i \<Longrightarrow> keyed_by ident (tbl_upsert i new t)"
  by (simp add: keyed_by_def tbl_get_upsert)

lemma keyed_by_get: "keyed_by ident t \<Longrightarrow> tbl_get (tbl_upsert i new t) = (tbl_get t)(i \<mapsto> new)"
  by (simp add: keyed_by_def tbl_get_upsert)

section \<open>The interface of a keyed container\<close>

locale keyed_table =
  fixes empty :: "'t"
    and get :: "'t \<Rightarrow> 'k \<Rightarrow> 'v option"
    and put :: "'k \<Rightarrow> 'v \<Rightarrow> 't \<Rightarrow> 't"
    and rows :: "'t \<Rightarrow> ('k \<times> 'v) list"
    and ok :: "'t \<Rightarrow> bool"
  assumes get_empty: "get empty k = None"
    and get_put: "ok t \<Longrightarrow> get (put k v t) = (get t)(k \<mapsto> v)"
    and ok_empty: "ok empty"
    and ok_put: "ok t \<Longrightarrow> ok (put k v t)"
    and rows_get: "ok t \<Longrightarrow> (k, v) \<in> set (rows t) \<longleftrightarrow> get t k = Some v"
    and rows_distinct: "ok t \<Longrightarrow> distinct (map fst (rows t))"
begin

lemma put_all_ok: "ok t \<Longrightarrow> ok (fold (\<lambda>(k, v). put k v) kvs t)"
  by (induction kvs arbitrary: t) (auto intro: ok_put)

lemma put_all_get:
  assumes "ok t" and "distinct (map fst kvs)"
  shows "get (fold (\<lambda>(k, v). put k v) kvs t) k =
    (case map_of kvs k of None \<Rightarrow> get t k | Some v \<Rightarrow> Some v)"
  using assms
proof (induction kvs arbitrary: t)
  case Nil
  then show ?case by simp
next
  case (Cons kv kvs)
  obtain k' v' where kv: "kv = (k', v')" by (cases kv)
  have "map_of kvs k' = None" using Cons.prems(2) kv by (simp add: map_of_eq_None_iff)
  with Cons kv show ?case by (auto simp: get_put ok_put split: option.splits)
qed

lemma rows_put:
  assumes "ok t"
  shows "set (rows (put k v t)) = insert (k, v) {p \<in> set (rows t). fst p \<noteq> k}"
proof -
  have "(a, b) \<in> set (rows (put k v t)) \<longleftrightarrow>
      (a, b) \<in> insert (k, v) {p \<in> set (rows t). fst p \<noteq> k}" for a b
    using assms by (auto simp: rows_get ok_put get_put)
  then show ?thesis by auto
qed

end

text \<open>
  Loading every row of one container into an empty other one reproduces its contents: the
  contract behind restoring an in-memory registry from a persisted table.
\<close>

locale table_copy =
  src: keyed_table empty1 get1 put1 rows1 ok1 +
  dst: keyed_table empty2 get2 put2 rows2 ok2
  for empty1 :: "'t" and get1 :: "'t \<Rightarrow> 'k \<Rightarrow> 'v option" and put1 rows1 ok1
    and empty2 :: "'u" and get2 :: "'u \<Rightarrow> 'k \<Rightarrow> 'v option" and put2 rows2 ok2
begin

lemma copy_get:
  assumes "ok1 t"
  shows "get2 (fold (\<lambda>(k, v). put2 k v) (rows1 t) empty2) = get1 t"
proof
  fix k
  have d: "distinct (map fst (rows1 t))" using assms by (rule src.rows_distinct)
  have "map_of (rows1 t) k = get1 t k"
  proof (cases "get1 t k")
    case None
    then have "\<And>v. (k, v) \<notin> set (rows1 t)" using assms by (simp add: src.rows_get)
    then have "k \<notin> fst ` set (rows1 t)" by force
    with None show ?thesis by (metis map_of_eq_None_iff)
  next
    case (Some v)
    then have "(k, v) \<in> set (rows1 t)" using assms by (simp add: src.rows_get)
    with d Some show ?thesis by simp
  qed
  then show "get2 (fold (\<lambda>(k, v). put2 k v) (rows1 t) empty2) k = get1 t k"
    by (simp add: dst.put_all_get [OF dst.ok_empty d] dst.get_empty split: option.splits)
qed

end

interpretation pd: keyed_table "[]" dict_get dict_set "\<lambda>d. d" dict_ok
  by unfold_locales (auto simp: dict_get_set dict_mem_iff dict_ok_def [symmetric])

interpretation tb: keyed_table "[]" tbl_get tbl_upsert "\<lambda>t. t" tbl_ok
  by unfold_locales (auto simp: tbl_get_upsert tbl_mem_iff tbl_ok_distinct)

interpretation tb_pd: table_copy "[]" tbl_get tbl_upsert "\<lambda>t. t" tbl_ok
  "[]" dict_get dict_set "\<lambda>d. d" dict_ok
  by unfold_locales

section \<open>Reachability and invariants\<close>

inductive reach :: "('s \<Rightarrow> bool) \<Rightarrow> ('s \<Rightarrow> 's \<Rightarrow> bool) \<Rightarrow> 's \<Rightarrow> bool"
  for init :: "'s \<Rightarrow> bool" and step :: "'s \<Rightarrow> 's \<Rightarrow> bool" where
  reach_init: "init s \<Longrightarrow> reach init step s"
| reach_step: "reach init step s \<Longrightarrow> step s t \<Longrightarrow> reach init step t"

locale step_invariant =
  fixes init :: "'s \<Rightarrow> bool"
    and step :: "'s \<Rightarrow> 's \<Rightarrow> bool"
    and inv :: "'s \<Rightarrow> bool"
  assumes inv_init: "init s \<Longrightarrow> inv s"
    and inv_step: "inv s \<Longrightarrow> step s t \<Longrightarrow> inv t"
begin

lemma inv_reach: "reach init step s \<Longrightarrow> inv s"
  by (induction rule: reach.induct) (blast intro: inv_init inv_step)+

lemma inv_rtranclp: "step\<^sup>*\<^sup>* s t \<Longrightarrow> inv s \<Longrightarrow> inv t"
  by (induction rule: rtranclp_induct) (blast intro: inv_step)+

end

end
