(* ===== verification/Core_Claims.thy ===== *)
theory Core_Claims
  imports Prelude
begin

text \<open>
  Resources, claims and the conflict decision of \<^verbatim>\<open>src/overseer/core.py\<close>: the enumerations,
  the frozen dataclasses as records, \<open>decide_claim\<close> with its helpers and \<open>required_approval\<close>.
  A \<open>frozenset\<close> is a \<^typ>\<open>'a set\<close>, a tuple a list.
\<close>

section \<open>Enumerations\<close>

datatype OwnerDomain =
    Owner_SISKO | Owner_KIRA | Owner_OBRIEN | Owner_ODO | Owner_ODO_IDS | Owner_ODO_FIREWALL
  | Owner_QUARK | Owner_DAX | Owner_JULIAN | Owner_EZRI

fun owner_value :: "OwnerDomain \<Rightarrow> string" where
  "owner_value Owner_SISKO = ''sisko''"
| "owner_value Owner_KIRA = ''kira''"
| "owner_value Owner_OBRIEN = ''obrien''"
| "owner_value Owner_ODO = ''odo''"
| "owner_value Owner_ODO_IDS = ''odo_ids''"
| "owner_value Owner_ODO_FIREWALL = ''odo_firewall''"
| "owner_value Owner_QUARK = ''quark''"
| "owner_value Owner_DAX = ''dax''"
| "owner_value Owner_JULIAN = ''julian''"
| "owner_value Owner_EZRI = ''ezri''"

datatype ResourceType =
    Type_PHYSICAL_ASSET | Type_VIRTUAL_ASSET | Type_SERVICE | Type_USAGE_LIMITED_SERVICE
  | Type_MAINTENANCE_TARGET | Type_SECURITY_SURFACE | Type_COMPOSITE

fun resource_type_value :: "ResourceType \<Rightarrow> string" where
  "resource_type_value Type_PHYSICAL_ASSET = ''physical_asset''"
| "resource_type_value Type_VIRTUAL_ASSET = ''virtual_asset''"
| "resource_type_value Type_SERVICE = ''service''"
| "resource_type_value Type_USAGE_LIMITED_SERVICE = ''usage_limited_service''"
| "resource_type_value Type_MAINTENANCE_TARGET = ''maintenance_target''"
| "resource_type_value Type_SECURITY_SURFACE = ''security_surface''"
| "resource_type_value Type_COMPOSITE = ''composite''"

datatype RiskLevel = Risk_LOW | Risk_MEDIUM | Risk_HIGH | Risk_CRITICAL

fun risk_value :: "RiskLevel \<Rightarrow> string" where
  "risk_value Risk_LOW = ''low''"
| "risk_value Risk_MEDIUM = ''medium''"
| "risk_value Risk_HIGH = ''high''"
| "risk_value Risk_CRITICAL = ''critical''"

datatype ResourceState =
    State_AVAILABLE | State_CHECKED_OUT | State_LOCKED | State_MAINTENANCE | State_DEGRADED
  | State_INCIDENT | State_QUARANTINED | State_RETIRED

fun resource_state_value :: "ResourceState \<Rightarrow> string" where
  "resource_state_value State_AVAILABLE = ''available''"
| "resource_state_value State_CHECKED_OUT = ''checked_out''"
| "resource_state_value State_LOCKED = ''locked''"
| "resource_state_value State_MAINTENANCE = ''maintenance''"
| "resource_state_value State_DEGRADED = ''degraded''"
| "resource_state_value State_INCIDENT = ''incident''"
| "resource_state_value State_QUARANTINED = ''quarantined''"
| "resource_state_value State_RETIRED = ''retired''"

datatype ClaimType =
    Claim_CHECKOUT | Claim_LOCK | Claim_LEASE | Claim_HOLD | Claim_QUARANTINE | Claim_OBSERVATION

fun claim_type_value :: "ClaimType \<Rightarrow> string" where
  "claim_type_value Claim_CHECKOUT = ''checkout''"
| "claim_type_value Claim_LOCK = ''lock''"
| "claim_type_value Claim_LEASE = ''lease''"
| "claim_type_value Claim_HOLD = ''hold''"
| "claim_type_value Claim_QUARANTINE = ''quarantine''"
| "claim_type_value Claim_OBSERVATION = ''observation''"

datatype ClaimStatus =
    Status_REQUESTED | Status_APPROVED | Status_ACTIVE | Status_BLOCKED | Status_QUEUED
  | Status_RELEASING | Status_RELEASED | Status_EXPIRED | Status_REVOKED

fun claim_status_value :: "ClaimStatus \<Rightarrow> string" where
  "claim_status_value Status_REQUESTED = ''requested''"
| "claim_status_value Status_APPROVED = ''approved''"
| "claim_status_value Status_ACTIVE = ''active''"
| "claim_status_value Status_BLOCKED = ''blocked''"
| "claim_status_value Status_QUEUED = ''queued''"
| "claim_status_value Status_RELEASING = ''releasing''"
| "claim_status_value Status_RELEASED = ''released''"
| "claim_status_value Status_EXPIRED = ''expired''"
| "claim_status_value Status_REVOKED = ''revoked''"

datatype ApprovalLevel = Approval_NONE | Approval_ROLE | Approval_SISKO | Approval_HUMAN

fun approval_value :: "ApprovalLevel \<Rightarrow> string" where
  "approval_value Approval_NONE = ''none''"
| "approval_value Approval_ROLE = ''role''"
| "approval_value Approval_SISKO = ''sisko''"
| "approval_value Approval_HUMAN = ''human''"

datatype ConflictOutcome =
    Outcome_ALLOW | Outcome_QUEUE | Outcome_BLOCK | Outcome_ESCALATE | Outcome_QUARANTINE

fun outcome_value :: "ConflictOutcome \<Rightarrow> string" where
  "outcome_value Outcome_ALLOW = ''allow''"
| "outcome_value Outcome_QUEUE = ''queue''"
| "outcome_value Outcome_BLOCK = ''block''"
| "outcome_value Outcome_ESCALATE = ''escalate''"
| "outcome_value Outcome_QUARANTINE = ''quarantine''"

text \<open>
  Calling a \<^verbatim>\<open>StrEnum\<close> class with a string looks the member up by its value and raises
  \<open>ValueError\<close> when there is none.
\<close>

definition enum_of :: "string \<Rightarrow> ('e \<Rightarrow> string) \<Rightarrow> 'e list \<Rightarrow> string \<Rightarrow> 'e result" where
  "enum_of cls val members s =
     (case find (\<lambda>m. val m = s) members of
        None \<Rightarrow> Inl (ValueError ([CHR 0x27] @ s @ [CHR 0x27] @ '' is not a valid '' @ cls))
      | Some m \<Rightarrow> Inr m)"

definition owner_of :: "string \<Rightarrow> OwnerDomain result" where
  "owner_of = enum_of ''OwnerDomain'' owner_value
     [Owner_SISKO, Owner_KIRA, Owner_OBRIEN, Owner_ODO, Owner_ODO_IDS, Owner_ODO_FIREWALL,
      Owner_QUARK, Owner_DAX, Owner_JULIAN, Owner_EZRI]"

definition resource_type_of :: "string \<Rightarrow> ResourceType result" where
  "resource_type_of = enum_of ''ResourceType'' resource_type_value
     [Type_PHYSICAL_ASSET, Type_VIRTUAL_ASSET, Type_SERVICE, Type_USAGE_LIMITED_SERVICE,
      Type_MAINTENANCE_TARGET, Type_SECURITY_SURFACE, Type_COMPOSITE]"

definition risk_of :: "string \<Rightarrow> RiskLevel result" where
  "risk_of = enum_of ''RiskLevel'' risk_value [Risk_LOW, Risk_MEDIUM, Risk_HIGH, Risk_CRITICAL]"

definition resource_state_of :: "string \<Rightarrow> ResourceState result" where
  "resource_state_of = enum_of ''ResourceState'' resource_state_value
     [State_AVAILABLE, State_CHECKED_OUT, State_LOCKED, State_MAINTENANCE, State_DEGRADED,
      State_INCIDENT, State_QUARANTINED, State_RETIRED]"

definition claim_type_of :: "string \<Rightarrow> ClaimType result" where
  "claim_type_of = enum_of ''ClaimType'' claim_type_value
     [Claim_CHECKOUT, Claim_LOCK, Claim_LEASE, Claim_HOLD, Claim_QUARANTINE, Claim_OBSERVATION]"

lemma enum_of_roundtrip:
  "claim_type_of (claim_type_value ct) = Inr ct"
  "risk_of (risk_value rl) = Inr rl"
  "owner_of (owner_value ow) = Inr ow"
  "resource_type_of (resource_type_value rt) = Inr rt"
  "resource_state_of (resource_state_value rs) = Inr rs"
proof -
  show "claim_type_of (claim_type_value ct) = Inr ct"
    by (cases ct) (simp_all add: claim_type_of_def enum_of_def)
  show "risk_of (risk_value rl) = Inr rl"
    by (cases rl) (simp_all add: risk_of_def enum_of_def)
  show "owner_of (owner_value ow) = Inr ow"
    by (cases ow) (simp_all add: owner_of_def enum_of_def)
  show "resource_type_of (resource_type_value rt) = Inr rt"
    by (cases rt) (simp_all add: resource_type_of_def enum_of_def)
  show "resource_state_of (resource_state_value rs) = Inr rs"
    by (cases rs) (simp_all add: resource_state_of_def enum_of_def)
qed

text \<open>The set constants of the module.\<close>

definition EXCLUSIVE_CLAIM_TYPES :: "ClaimType set" where
  "EXCLUSIVE_CLAIM_TYPES = {Claim_CHECKOUT, Claim_LOCK, Claim_LEASE, Claim_HOLD, Claim_QUARANTINE}"

definition HIGH_RISK_RESOURCE_TYPES :: "ResourceType set" where
  "HIGH_RISK_RESOURCE_TYPES = {Type_SECURITY_SURFACE, Type_MAINTENANCE_TARGET}"

section \<open>Orders on risk and approval\<close>

text \<open>
  Risk levels and approval levels are declared from the weakest to the strongest; the
  development orders them by that position.
\<close>

fun risk_rank :: "RiskLevel \<Rightarrow> nat" where
  "risk_rank Risk_LOW = 0"
| "risk_rank Risk_MEDIUM = 1"
| "risk_rank Risk_HIGH = 2"
| "risk_rank Risk_CRITICAL = 3"

fun approval_rank :: "ApprovalLevel \<Rightarrow> nat" where
  "approval_rank Approval_NONE = 0"
| "approval_rank Approval_ROLE = 1"
| "approval_rank Approval_SISKO = 2"
| "approval_rank Approval_HUMAN = 3"

lemma risk_rank_inj: "risk_rank a = risk_rank b \<longleftrightarrow> a = b"
  by (cases a; cases b) simp_all

lemma approval_rank_inj: "approval_rank a = approval_rank b \<longleftrightarrow> a = b"
  by (cases a; cases b) simp_all

instantiation RiskLevel :: linorder
begin

definition less_eq_RiskLevel :: "RiskLevel \<Rightarrow> RiskLevel \<Rightarrow> bool" where
  "less_eq_RiskLevel a b \<longleftrightarrow> risk_rank a \<le> risk_rank b"

definition less_RiskLevel :: "RiskLevel \<Rightarrow> RiskLevel \<Rightarrow> bool" where
  "less_RiskLevel a b \<longleftrightarrow> risk_rank a < risk_rank b"

instance
  by standard (auto simp: less_eq_RiskLevel_def less_RiskLevel_def risk_rank_inj)

end

instantiation ApprovalLevel :: linorder
begin

definition less_eq_ApprovalLevel :: "ApprovalLevel \<Rightarrow> ApprovalLevel \<Rightarrow> bool" where
  "less_eq_ApprovalLevel a b \<longleftrightarrow> approval_rank a \<le> approval_rank b"

definition less_ApprovalLevel :: "ApprovalLevel \<Rightarrow> ApprovalLevel \<Rightarrow> bool" where
  "less_ApprovalLevel a b \<longleftrightarrow> approval_rank a < approval_rank b"

instance
  by standard (auto simp: less_eq_ApprovalLevel_def less_ApprovalLevel_def approval_rank_inj)

end

lemmas level_order_simps = less_eq_RiskLevel_def less_RiskLevel_def
  less_eq_ApprovalLevel_def less_ApprovalLevel_def

section \<open>Resources and claims\<close>

text \<open>
  The values an \<open>identifiers\<close> mapping holds: JSON values, with \<open>PList\<close> for a list, tuple, set or
  frozenset and \<open>PFloat\<close> for a finite float. \<open>int(value)\<close> truncates a float towards zero; of a
  string it accepts surrounding white space, one sign and decimal digits with single
  underscores between them.
\<close>

datatype pyval =
    PNone
  | PBool bool
  | PInt int
  | PFloat rat
  | PStr string
  | PList "pyval list"
  | PDict "(string \<times> pyval) list"

definition opt_str :: "string option \<Rightarrow> pyval" where
  "opt_str x = (case x of None \<Rightarrow> PNone | Some s \<Rightarrow> PStr s)"

definition str_list :: "string list \<Rightarrow> pyval" where
  "str_list xs = PList (map PStr xs)"

text \<open>
  \<^verbatim>\<open>str(value)\<close> and \<^verbatim>\<open>bool(value)\<close>. \<open>str_of\<close> stands for Python's \<open>str\<close> on floats, lists and mappings.
\<close>

fun py_str :: "(pyval \<Rightarrow> string) \<Rightarrow> pyval \<Rightarrow> string" where
  "py_str str_of (PStr s) = s"
| "py_str str_of (PInt i) = str_int i"
| "py_str str_of (PBool b) = (if b then ''True'' else ''False'')"
| "py_str str_of PNone = ''None''"
| "py_str str_of (PFloat x) = str_of (PFloat x)"
| "py_str str_of (PList vs) = str_of (PList vs)"
| "py_str str_of (PDict kvs) = str_of (PDict kvs)"

fun py_truthy :: "pyval \<Rightarrow> bool" where
  "py_truthy PNone = False"
| "py_truthy (PBool b) = b"
| "py_truthy (PInt i) = (i \<noteq> 0)"
| "py_truthy (PFloat x) = (x \<noteq> 0)"
| "py_truthy (PStr s) = (s \<noteq> [])"
| "py_truthy (PList vs) = (vs \<noteq> [])"
| "py_truthy (PDict kvs) = (kvs \<noteq> [])"

fun digits_value :: "bool \<Rightarrow> nat \<Rightarrow> string \<Rightarrow> nat option" where
  "digits_value after_digit acc [] = (if after_digit then Some acc else None)"
| "digits_value after_digit acc (c # cs) =
     (if is_digit c then digits_value True (10 * acc + (of_char c - 48)) cs
      else if c = CHR ''_'' \<and> after_digit \<and> cs \<noteq> [] then digits_value False acc cs
      else None)"

definition py_int_of_string :: "string \<Rightarrow> int option" where
  "py_int_of_string s =
     (case py_strip s of
        [] \<Rightarrow> None
      | c # cs \<Rightarrow>
          if c = CHR ''-'' then map_option (\<lambda>n. - int n) (digits_value False 0 cs)
          else if c = CHR ''+'' then map_option int (digits_value False 0 cs)
          else map_option int (digits_value False 0 (c # cs)))"

fun py_int :: "pyval \<Rightarrow> int result" where
  "py_int (PInt i) = Inr i"
| "py_int (PBool b) = Inr (if b then 1 else 0)"
| "py_int (PFloat x) = Inr (if x < 0 then \<lceil>x\<rceil> else \<lfloor>x\<rfloor>)"
| "py_int (PStr s) = (case py_int_of_string s of
      None \<Rightarrow> Inl (ValueError ''invalid literal for int() with base 10'') | Some i \<Rightarrow> Inr i)"
| "py_int PNone = Inl (TypeError ''int() argument'')"
| "py_int (PList vs) = Inl (TypeError ''int() argument'')"
| "py_int (PDict kvs) = Inl (TypeError ''int() argument'')"

fun py_int_set :: "pyval list \<Rightarrow> int set result" where
  "py_int_set [] = Inr {}"
| "py_int_set (v # vs) = res_bind (py_int v) (\<lambda>i. res_bind (py_int_set vs) (\<lambda>s. Inr (insert i s)))"

record Resource =
  res_id :: string
  res_name :: string
  res_type :: ResourceType
  res_owner_domain :: OwnerDomain
  res_risk_level :: RiskLevel
  res_state :: ResourceState
  res_identifiers :: "(string, pyval) pydict"
  res_dependencies :: "string set"
  res_exclusive_groups :: "string set"
  res_current_claim_id :: "string option"
  res_last_verified_at :: "string option"
  res_notes :: string

definition resource_ports :: "Resource \<Rightarrow> int set result" where
  "resource_ports r =
     (case dict_get (res_identifiers r) ''ports'' of
        None \<Rightarrow> Inr {}
      | Some (PInt i) \<Rightarrow> Inr {i}
      | Some (PBool b) \<Rightarrow> Inr {if b then 1 else 0}
      | Some (PList vs) \<Rightarrow> py_int_set vs
      | Some _ \<Rightarrow> Inr {})"

record Claim =
  cl_id :: string
  cl_resource_id :: string
  cl_claim_type :: ClaimType
  cl_owner_thread :: string
  cl_owner_role :: OwnerDomain
  cl_intent :: string
  cl_requested_action :: string
  cl_risk_level :: RiskLevel
  cl_status :: ClaimStatus
  cl_created_at :: "string option"
  cl_starts_at :: "string option"
  cl_expires_at :: "string option"
  cl_release_condition :: "string option"
  cl_approval_id :: "string option"
  cl_evidence_ids :: "string list"
  cl_port_reservations :: "int set"
  cl_dependency_ids :: "string set"
  cl_exclusive_groups :: "string set"
  cl_state_mutation :: string

definition is_exclusive :: "Claim \<Rightarrow> bool" where
  "is_exclusive c \<longleftrightarrow> cl_claim_type c \<in> EXCLUSIVE_CLAIM_TYPES"

definition is_active_like :: "Claim \<Rightarrow> bool" where
  "is_active_like c \<longleftrightarrow> cl_status c \<in> {Status_APPROVED, Status_ACTIVE, Status_RELEASING}"

record ConflictDecision =
  dec_outcome :: ConflictOutcome
  dec_reason :: string
  dec_approval_level :: ApprovalLevel
  dec_blocking_claim_ids :: "string list"

section \<open>The conflict decision\<close>

definition claims_overlap :: "Claim \<Rightarrow> Claim \<Rightarrow> bool" where
  "claims_overlap left right \<longleftrightarrow> cl_resource_id left = cl_resource_id right"

definition has_exclusive_conflict :: "Claim \<Rightarrow> Claim list \<Rightarrow> bool" where
  "has_exclusive_conflict requested active_claims \<longleftrightarrow>
     list_ex (\<lambda>active. claims_overlap requested active \<and> is_exclusive active)
       (filter is_active_like active_claims)"

text \<open>The loop body of \<open>_blocking_claims\<close>: whether one active claim is a blocker.\<close>

definition claim_blocks ::
  "Resource \<Rightarrow> Claim \<Rightarrow> (string, Resource) pydict \<Rightarrow> Claim \<Rightarrow> bool" where
  "claim_blocks resource requested resources_by_id active \<longleftrightarrow>
     is_active_like active \<and>
     (claims_overlap requested active \<or>
      cl_resource_id requested \<in> cl_dependency_ids active \<or>
      cl_resource_id active \<in> cl_dependency_ids requested \<or>
      cl_port_reservations requested \<inter> cl_port_reservations active \<noteq> {} \<or>
      cl_exclusive_groups requested \<inter> cl_exclusive_groups active \<noteq> {} \<or>
      (case dict_get resources_by_id (cl_resource_id active) of
         None \<Rightarrow> False
       | Some active_resource \<Rightarrow>
           res_dependencies resource \<inter> ({res_id active_resource} \<union> res_dependencies active_resource) \<noteq> {}))"

definition blocking_claims ::
  "Resource \<Rightarrow> Claim \<Rightarrow> Claim list \<Rightarrow> (string, Resource) pydict \<Rightarrow> Claim list" where
  "blocking_claims resource requested active_claims resources_by_id =
     filter (claim_blocks resource requested resources_by_id) active_claims"

definition required_approval :: "Resource \<Rightarrow> Claim \<Rightarrow> ApprovalLevel" where
  "required_approval resource claim =
     (if cl_claim_type claim = Claim_OBSERVATION \<and> cl_risk_level claim = Risk_LOW then Approval_NONE
      else if res_type resource \<in> HIGH_RISK_RESOURCE_TYPES then Approval_HUMAN
      else if res_risk_level resource = Risk_CRITICAL \<or> cl_risk_level claim = Risk_CRITICAL
        then Approval_HUMAN
      else if res_risk_level resource = Risk_HIGH \<or> cl_risk_level claim = Risk_HIGH
        then Approval_SISKO
      else if cl_claim_type claim \<in> {Claim_CHECKOUT, Claim_LOCK, Claim_LEASE, Claim_HOLD}
        then Approval_ROLE
      else Approval_NONE)"

definition mk_decision ::
  "ConflictOutcome \<Rightarrow> string \<Rightarrow> ApprovalLevel \<Rightarrow> string list \<Rightarrow> ConflictDecision" where
  "mk_decision oc rs ap ids =
     \<lparr>dec_outcome = oc, dec_reason = rs, dec_approval_level = ap, dec_blocking_claim_ids = ids\<rparr>"

definition decide_claim ::
  "Resource \<Rightarrow> Claim \<Rightarrow> Claim list \<Rightarrow> (string, Resource) pydict \<Rightarrow> ConflictDecision" where
  "decide_claim resource requested active_claims resources_by_id =
     (if res_state resource = State_RETIRED then
        mk_decision Outcome_BLOCK ''resource is retired'' Approval_NONE []
      else if res_state resource = State_QUARANTINED then
        mk_decision Outcome_QUARANTINE ''resource is under security quarantine'' Approval_HUMAN []
      else if cl_resource_id requested \<noteq> res_id resource then
        mk_decision Outcome_BLOCK ''claim resource_id does not match resource'' Approval_NONE []
      else if cl_claim_type requested = Claim_OBSERVATION \<and>
          \<not> has_exclusive_conflict requested active_claims then
        mk_decision Outcome_ALLOW ''read-only observation is compatible'' Approval_NONE []
      else
        (let blockers = blocking_claims resource requested active_claims resources_by_id in
         if blockers \<noteq> [] then
           mk_decision Outcome_QUEUE
             ''resource, dependency, port, or exclusive group is already claimed''
             Approval_NONE (map cl_id blockers)
         else
           (let approval = required_approval resource requested in
            if approval \<noteq> Approval_NONE then
              mk_decision Outcome_ESCALATE
                (approval_value approval @ '' approval required before claim can activate'')
                approval []
            else mk_decision Outcome_ALLOW ''claim can activate'' Approval_NONE [])))"

section \<open>Properties\<close>

lemma mk_decision_sel [simp]:
  "dec_outcome (mk_decision oc rs ap ids) = oc"
  "dec_reason (mk_decision oc rs ap ids) = rs"
  "dec_approval_level (mk_decision oc rs ap ids) = ap"
  "dec_blocking_claim_ids (mk_decision oc rs ap ids) = ids"
  by (simp_all add: mk_decision_def)

lemma is_exclusive_iff: "is_exclusive c \<longleftrightarrow> cl_claim_type c \<noteq> Claim_OBSERVATION"
  by (cases "cl_claim_type c") (simp_all add: is_exclusive_def EXCLUSIVE_CLAIM_TYPES_def)

lemma blocking_claims_set:
  "set (blocking_claims r q as rs) = {a \<in> set as. claim_blocks r q rs a}"
  by (auto simp: blocking_claims_def)

lemma no_blockers_iff:
  "blocking_claims r q as rs = [] \<longleftrightarrow> (\<forall>a \<in> set as. \<not> claim_blocks r q rs a)"
  by (simp add: blocking_claims_def filter_empty_conv)

lemma has_exclusive_conflict_iff:
  "has_exclusive_conflict q as \<longleftrightarrow>
     (\<exists>a \<in> set as. is_active_like a \<and> cl_resource_id a = cl_resource_id q \<and> is_exclusive a)"
  by (auto simp: has_exclusive_conflict_def list_ex_iff claims_overlap_def)

lemma exclusive_conflict_blocks:
  assumes "has_exclusive_conflict q as"
  shows "blocking_claims r q as rs \<noteq> []"
proof -
  obtain a where "a \<in> set as" "is_active_like a" "cl_resource_id a = cl_resource_id q"
    using assms by (auto simp: has_exclusive_conflict_iff)
  then have "claim_blocks r q rs a" by (simp add: claim_blocks_def claims_overlap_def)
  with \<open>a \<in> set as\<close> show ?thesis by (auto simp: no_blockers_iff)
qed

text \<open>What a decision that lets the claim go ahead says about the active claims.\<close>

lemma decide_claim_grants:
  assumes "dec_outcome (decide_claim r q as rs) \<in> {Outcome_ALLOW, Outcome_ESCALATE}"
  shows "res_state r \<notin> {State_RETIRED, State_QUARANTINED}"
    and "cl_resource_id q = res_id r"
    and "is_exclusive q \<Longrightarrow> a \<in> set as \<Longrightarrow> \<not> claim_blocks r q rs a"
    and "a \<in> set as \<Longrightarrow> is_active_like a \<Longrightarrow> is_exclusive a \<Longrightarrow>
      cl_resource_id a \<noteq> cl_resource_id q"
proof -
  show "res_state r \<notin> {State_RETIRED, State_QUARANTINED}"
    and "cl_resource_id q = res_id r"
    using assms by (auto simp: decide_claim_def split: if_splits)
  show "is_exclusive q \<Longrightarrow> a \<in> set as \<Longrightarrow> \<not> claim_blocks r q rs a"
    using assms
    by (auto simp: decide_claim_def is_exclusive_iff no_blockers_iff Let_def split: if_splits)
  show "a \<in> set as \<Longrightarrow> is_active_like a \<Longrightarrow> is_exclusive a \<Longrightarrow> cl_resource_id a \<noteq> cl_resource_id q"
    using assms exclusive_conflict_blocks [of q as r rs]
    by (auto simp: decide_claim_def has_exclusive_conflict_iff Let_def split: if_splits)
qed

lemma required_approval_mono:
  assumes "res_risk_level r \<le> res_risk_level r'" and "cl_risk_level q \<le> cl_risk_level q'"
    and "res_type r = res_type r'" and "cl_claim_type q = cl_claim_type q'"
  shows "required_approval r q \<le> required_approval r' q'"
  using assms
  by (cases "res_risk_level r"; cases "res_risk_level r'"; cases "cl_risk_level q";
      cases "cl_risk_level q'")
    (simp_all add: required_approval_def level_order_simps)

text \<open>
  The contract every approval rule of the program follows: within one context (the same kind of
  subject) a higher risk never asks for a weaker approval. A client that reached a required
  level keeps it when the risk grows.
\<close>

locale risk_graded =
  fixes risk :: "'a \<Rightarrow> RiskLevel"
    and approval :: "'a \<Rightarrow> ApprovalLevel"
    and same_context :: "'a \<Rightarrow> 'a \<Rightarrow> bool"
  assumes graded: "same_context x y \<Longrightarrow> risk x \<le> risk y \<Longrightarrow> approval x \<le> approval y"
begin

lemma threshold_kept:
  "same_context x y \<Longrightarrow> risk x \<le> risk y \<Longrightarrow> level \<le> approval x \<Longrightarrow> level \<le> approval y"
  using graded order_trans by blast

lemma gate_kept:
  "same_context x y \<Longrightarrow> risk x \<le> risk y \<Longrightarrow> approval x \<noteq> Approval_NONE \<Longrightarrow> approval y \<noteq> Approval_NONE"
proof -
  have "level = Approval_NONE \<longleftrightarrow> approval_rank level = 0" for level by (cases level) simp_all
  moreover assume "same_context x y" "risk x \<le> risk y" "approval x \<noteq> Approval_NONE"
  ultimately show ?thesis using graded [of x y] by (simp add: less_eq_ApprovalLevel_def)
qed

end

interpretation claim_risk: risk_graded "\<lambda>(r, q). max (res_risk_level r) (cl_risk_level q)"
  "\<lambda>(r, q). required_approval r q"
  "\<lambda>(r, q) (r', q'). res_type r = res_type r' \<and> cl_claim_type q = cl_claim_type q' \<and>
     cl_claim_type q \<noteq> Claim_OBSERVATION"
proof (unfold_locales, clarify)
  fix r r' :: Resource and q q' :: Claim
  assume ctx: "res_type r = res_type r'" "cl_claim_type q = cl_claim_type q'" "cl_claim_type q \<noteq> Claim_OBSERVATION"
    and le: "max (res_risk_level r) (cl_risk_level q) \<le> max (res_risk_level r') (cl_risk_level q')"
  have "required_approval r q = (if res_type r \<in> HIGH_RISK_RESOURCE_TYPES then Approval_HUMAN
      else case max (res_risk_level r) (cl_risk_level q) of
        Risk_CRITICAL \<Rightarrow> Approval_HUMAN | Risk_HIGH \<Rightarrow> Approval_SISKO
      | _ \<Rightarrow> if cl_claim_type q \<in> {Claim_CHECKOUT, Claim_LOCK, Claim_LEASE, Claim_HOLD}
          then Approval_ROLE else Approval_NONE)"
    if "cl_claim_type q \<noteq> Claim_OBSERVATION" for r :: Resource and q :: Claim
    using that by (cases "res_risk_level r"; cases "cl_risk_level q")
      (simp_all add: required_approval_def max_def level_order_simps)
  note req = this
  show "required_approval r q \<le> required_approval r' q'"
    using ctx le unfolding req [OF ctx(3)] req [OF ctx(3) [unfolded ctx(2)]]
    by (cases "max (res_risk_level r) (cl_risk_level q)"; cases "max (res_risk_level r') (cl_risk_level q')")
      (simp_all add: level_order_simps)
qed

section \<open>Properties of the decision\<close>

text \<open>A stricter risk never weakens the approval a claim needs: with the resource type and the
  claim type fixed, raising the risk of the resource or of the claim can only raise
  \<open>required_approval\<close> in the order none, role, sisko, human.\<close>

theorem required_approval_monotone:
  assumes "risk_rank (res_risk_level r) \<le> risk_rank (res_risk_level r')"
    and "risk_rank (cl_risk_level q) \<le> risk_rank (cl_risk_level q')"
    and "res_type r = res_type r'" and "cl_claim_type q = cl_claim_type q'"
  shows "approval_rank (required_approval r q) \<le> approval_rank (required_approval r' q')"
  using required_approval_mono [of r r' q q'] assms by (simp add: level_order_simps)

definition sample_resource :: "ResourceType \<Rightarrow> RiskLevel \<Rightarrow> Resource" where
  "sample_resource rt rl = \<lparr>res_id = ''gw'', res_name = ''Gateway'', res_type = rt,
     res_owner_domain = Owner_DAX, res_risk_level = rl, res_state = State_AVAILABLE,
     res_identifiers = [], res_dependencies = {}, res_exclusive_groups = {},
     res_current_claim_id = None, res_last_verified_at = None, res_notes = []\<rparr>"

definition sample_claim :: "string \<Rightarrow> ClaimType \<Rightarrow> RiskLevel \<Rightarrow> Claim" where
  "sample_claim cid ct rl = \<lparr>cl_id = cid, cl_resource_id = ''gw'', cl_claim_type = ct,
     cl_owner_thread = ''thread'', cl_owner_role = Owner_DAX, cl_intent = ''work'',
     cl_requested_action = ''use'', cl_risk_level = rl, cl_status = Status_REQUESTED,
     cl_created_at = None, cl_starts_at = None, cl_expires_at = None, cl_release_condition = None,
     cl_approval_id = None, cl_evidence_ids = [], cl_port_reservations = {}, cl_dependency_ids = {},
     cl_exclusive_groups = {}, cl_state_mutation = ''none''\<rparr>"

theorem required_approval_monotone_witness:
  "approval_rank (required_approval (sample_resource Type_SERVICE Risk_LOW) (sample_claim ''c'' Claim_LOCK Risk_MEDIUM))
   \<le> approval_rank (required_approval (sample_resource Type_SERVICE Risk_HIGH) (sample_claim ''c'' Claim_LOCK Risk_MEDIUM))"
  by (rule required_approval_monotone) (simp_all add: sample_resource_def sample_claim_def)

text \<open>
  The abstract contention rule: an exclusive request is contended by every active claim that
  blocks it, an observation only by an exclusive claim on the same resource.
\<close>

definition contended :: "Resource \<Rightarrow> Claim \<Rightarrow> Claim list \<Rightarrow> (string, Resource) pydict \<Rightarrow> bool" where
  "contended r q as rs \<longleftrightarrow>
     (\<exists>a \<in> set as. if is_exclusive q then claim_blocks r q rs a
        else is_active_like a \<and> is_exclusive a \<and> cl_resource_id a = cl_resource_id q)"


end
