(* ===== verification/Registry.thy ===== *)
theory Registry
  imports Core_Claims
begin

text \<open>
  The in-memory \<open>ResourceRegistry\<close> of \<^verbatim>\<open>src/overseer/registry.py\<close>. Its three dictionaries are the
  fields of a record; each method is a function from the registry to a result that carries the
  new registry and the returned value. The step relations below run the mutating methods in any
  order; the invariants say which claims can be active together.
\<close>

record ClaimRecord =
  rec_claim :: Claim
  rec_decision :: ConflictDecision

record ResourceRegistry =
  reg_resources :: "(string, Resource) pydict"
  reg_claims :: "(string, Claim) pydict"
  reg_decisions :: "(string, ConflictDecision) pydict"

definition empty_registry :: ResourceRegistry where
  "empty_registry = \<lparr>reg_resources = [], reg_claims = [], reg_decisions = []\<rparr>"

definition register_resource :: "Resource \<Rightarrow> ResourceRegistry \<Rightarrow> (ResourceRegistry \<times> Resource) result" where
  "register_resource r reg =
     (if dict_get (reg_resources reg) (res_id r) \<noteq> None
      then Inl (ValueError (''resource already registered: '' @ res_id r))
      else Inr (reg\<lparr>reg_resources := dict_set (res_id r) r (reg_resources reg)\<rparr>, r))"

definition get_resource :: "ResourceRegistry \<Rightarrow> string \<Rightarrow> Resource result" where
  "get_resource reg rid =
     (case dict_get (reg_resources reg) rid of None \<Rightarrow> Inl (KeyError rid) | Some r \<Rightarrow> Inr r)"

definition list_resources :: "ResourceRegistry \<Rightarrow> Resource list" where
  "list_resources reg = dict_values (reg_resources reg)"

definition restore_claim ::
  "Claim \<Rightarrow> ConflictDecision \<Rightarrow> ResourceRegistry \<Rightarrow> (ResourceRegistry \<times> ClaimRecord) result" where
  "restore_claim c d reg =
     (if dict_get (reg_resources reg) (cl_resource_id c) = None
      then Inl (KeyError (cl_resource_id c))
      else Inr (reg\<lparr>reg_claims := dict_set (cl_id c) c (reg_claims reg),
                    reg_decisions := dict_set (cl_id c) d (reg_decisions reg)\<rparr>,
                \<lparr>rec_claim = c, rec_decision = d\<rparr>))"

definition active_claims :: "ResourceRegistry \<Rightarrow> Claim list" where
  "active_claims reg = filter is_active_like (dict_values (reg_claims reg))"

definition queued_claims :: "ResourceRegistry \<Rightarrow> Claim list" where
  "queued_claims reg = filter (\<lambda>c. cl_status c = Status_QUEUED) (dict_values (reg_claims reg))"

definition claim_with_status :: "Claim \<Rightarrow> ConflictDecision \<Rightarrow> Claim" where
  "claim_with_status c d =
     (if dec_outcome d = Outcome_ALLOW then c\<lparr>cl_status := Status_ACTIVE\<rparr>
      else if dec_outcome d = Outcome_QUEUE then c\<lparr>cl_status := Status_QUEUED\<rparr>
      else if dec_outcome d \<in> {Outcome_BLOCK, Outcome_QUARANTINE} then c\<lparr>cl_status := Status_BLOCKED\<rparr>
      else c\<lparr>cl_status := Status_REQUESTED\<rparr>)"

definition request_claim :: "Claim \<Rightarrow> ResourceRegistry \<Rightarrow> (ResourceRegistry \<times> ClaimRecord) result" where
  "request_claim c reg =
     res_bind (get_resource reg (cl_resource_id c)) (\<lambda>resource.
       let decision = decide_claim resource c (active_claims reg) (reg_resources reg);
           stored = claim_with_status c decision;
           reg1 = reg\<lparr>reg_claims := dict_set (cl_id stored) stored (reg_claims reg),
                      reg_decisions := dict_set (cl_id stored) decision (reg_decisions reg)\<rparr>;
           reg2 = (if cl_status stored = Status_ACTIVE \<and> is_exclusive stored
                   then reg1\<lparr>reg_resources := dict_set (res_id resource)
                          (resource\<lparr>res_current_claim_id := Some (cl_id stored)\<rparr>) (reg_resources reg1)\<rparr>
                   else reg1)
       in Inr (reg2, \<lparr>rec_claim = stored, rec_decision = decision\<rparr>))"

definition release_claim :: "string \<Rightarrow> ResourceRegistry \<Rightarrow> (ResourceRegistry \<times> Claim) result" where
  "release_claim cid reg =
     (case dict_get (reg_claims reg) cid of
        None \<Rightarrow> Inl (KeyError cid)
      | Some c \<Rightarrow>
          let released = c\<lparr>cl_status := Status_RELEASED\<rparr>;
              reg1 = reg\<lparr>reg_claims := dict_set cid released (reg_claims reg)\<rparr>
          in Inr (case dict_get (reg_resources reg1) (cl_resource_id c) of
                    None \<Rightarrow> reg1
                  | Some resource \<Rightarrow>
                      if res_current_claim_id resource = Some cid
                      then reg1\<lparr>reg_resources := dict_set (res_id resource)
                             (resource\<lparr>res_current_claim_id := None\<rparr>) (reg_resources reg1)\<rparr>
                      else reg1,
                  released))"

definition activate_claim ::
  "string \<Rightarrow> string option \<Rightarrow> ResourceRegistry \<Rightarrow> (ResourceRegistry \<times> ClaimRecord) result" where
  "activate_claim cid approval_id reg =
     (case dict_get (reg_claims reg) cid of
        None \<Rightarrow> Inl (KeyError cid)
      | Some c \<Rightarrow>
          res_bind (get_resource reg (cl_resource_id c)) (\<lambda>resource.
            let decision = decide_claim resource c
                  (filter (\<lambda>active. cl_id active \<noteq> cid) (active_claims reg)) (reg_resources reg);
                approval = str_or approval_id (cl_approval_id c)
            in if dec_outcome decision = Outcome_QUEUE then
                 let queued = c\<lparr>cl_status := Status_QUEUED, cl_approval_id := approval\<rparr>
                 in Inr (reg\<lparr>reg_claims := dict_set cid queued (reg_claims reg),
                             reg_decisions := dict_set cid decision (reg_decisions reg)\<rparr>,
                         \<lparr>rec_claim = queued, rec_decision = decision\<rparr>)
               else if dec_outcome decision \<in> {Outcome_BLOCK, Outcome_QUARANTINE} then
                 let blocked = c\<lparr>cl_status := Status_BLOCKED, cl_approval_id := approval\<rparr>
                 in Inr (reg\<lparr>reg_claims := dict_set cid blocked (reg_claims reg),
                             reg_decisions := dict_set cid decision (reg_decisions reg)\<rparr>,
                         \<lparr>rec_claim = blocked, rec_decision = decision\<rparr>)
               else
                 let active = c\<lparr>cl_status := Status_ACTIVE, cl_approval_id := approval\<rparr>;
                     reg1 = reg\<lparr>reg_claims := dict_set cid active (reg_claims reg)\<rparr>;
                     reg2 = (if is_exclusive active
                             then reg1\<lparr>reg_resources := dict_set (res_id resource)
                                    (resource\<lparr>res_current_claim_id := Some (cl_id active)\<rparr>)
                                    (reg_resources reg1)\<rparr>
                             else reg1)
                 in Inr (reg2, \<lparr>rec_claim = active, rec_decision = decision\<rparr>)))"

fun decision_records ::
  "(string, ConflictDecision) pydict \<Rightarrow> (string, Claim) pydict \<Rightarrow> ClaimRecord list result" where
  "decision_records ds [] = Inr []"
| "decision_records ds ((cid, c) # cs) =
     (case dict_get ds cid of
        None \<Rightarrow> Inl (KeyError cid)
      | Some d \<Rightarrow> res_bind (decision_records ds cs)
          (\<lambda>rs. Inr (\<lparr>rec_claim = c, rec_decision = d\<rparr> # rs)))"

definition registry_decisions :: "ResourceRegistry \<Rightarrow> ClaimRecord list result" where
  "registry_decisions reg = decision_records (reg_decisions reg) (reg_claims reg)"

section \<open>The mutating methods as a step relation\<close>

inductive registry_step :: "ResourceRegistry \<Rightarrow> ResourceRegistry \<Rightarrow> bool" where
  rs_register: "register_resource r reg = Inr (reg', x) \<Longrightarrow> registry_step reg reg'"
| rs_request: "request_claim c reg = Inr (reg', y) \<Longrightarrow> registry_step reg reg'"
| rs_release: "release_claim cid reg = Inr (reg', z) \<Longrightarrow> registry_step reg reg'"
| rs_activate: "activate_claim cid ap reg = Inr (reg', y) \<Longrightarrow> registry_step reg reg'"

text \<open>
  The disciplined runs: a resource is registered free, a claim id is not requested twice, and
  only a claim that is not already active is activated.
\<close>

inductive registry_step_disciplined :: "ResourceRegistry \<Rightarrow> ResourceRegistry \<Rightarrow> bool" where
  rd_register: "register_resource r reg = Inr (reg', x) \<Longrightarrow> res_current_claim_id r = None \<Longrightarrow>
     registry_step_disciplined reg reg'"
| rd_request: "request_claim c reg = Inr (reg', y) \<Longrightarrow> dict_get (reg_claims reg) (cl_id c) = None \<Longrightarrow>
     registry_step_disciplined reg reg'"
| rd_release: "release_claim cid reg = Inr (reg', z) \<Longrightarrow> registry_step_disciplined reg reg'"
| rd_activate: "activate_claim cid ap reg = Inr (reg', y) \<Longrightarrow>
     dict_get (reg_claims reg) cid = Some c \<Longrightarrow> \<not> is_active_like c \<Longrightarrow>
     registry_step_disciplined reg reg'"

inductive_cases registry_stepE: "registry_step reg reg'"
inductive_cases registry_step_disciplinedE: "registry_step_disciplined reg reg'"

section \<open>Well-formedness\<close>

definition registry_wf :: "ResourceRegistry \<Rightarrow> bool" where
  "registry_wf reg \<longleftrightarrow>
     dict_ok (reg_resources reg) \<and> dict_ok (reg_claims reg) \<and> dict_ok (reg_decisions reg) \<and>
     (\<forall>rid r. dict_get (reg_resources reg) rid = Some r \<longrightarrow> res_id r = rid) \<and>
     (\<forall>cid c. dict_get (reg_claims reg) cid = Some c \<longrightarrow>
        cl_id c = cid \<and> dict_get (reg_resources reg) (cl_resource_id c) \<noteq> None \<and>
        dict_get (reg_decisions reg) cid \<noteq> None)"

text \<open>
  The documented ownership rule: an active exclusive claim shares its resource with no other
  active claim.
\<close>

definition exclusive_ok :: "ResourceRegistry \<Rightarrow> bool" where
  "exclusive_ok reg \<longleftrightarrow>
     (\<forall>i j c d. dict_get (reg_claims reg) i = Some c \<longrightarrow> dict_get (reg_claims reg) j = Some d \<longrightarrow>
        is_active_like c \<longrightarrow> is_active_like d \<longrightarrow> is_exclusive c \<longrightarrow>
        cl_resource_id c = cl_resource_id d \<longrightarrow> i = j)"

text \<open>The claim \<open>cid\<close> is active, exclusive and on the resource \<open>rid\<close>.\<close>

definition holds_exclusively :: "ResourceRegistry \<Rightarrow> string \<Rightarrow> string \<Rightarrow> bool" where
  "holds_exclusively reg rid cid \<longleftrightarrow>
     (case dict_get (reg_claims reg) cid of
        None \<Rightarrow> False
      | Some c \<Rightarrow> is_active_like c \<and> is_exclusive c \<and> cl_resource_id c = rid)"

text \<open>\<open>current_claim_id\<close> of a resource names exactly the claim that holds it exclusively.\<close>

definition current_ok :: "ResourceRegistry \<Rightarrow> bool" where
  "current_ok reg \<longleftrightarrow>
     (\<forall>rid r cid. dict_get (reg_resources reg) rid = Some r \<longrightarrow>
        (res_current_claim_id r = Some cid \<longleftrightarrow> holds_exclusively reg rid cid))"

lemma registry_wfD:
  assumes "registry_wf reg"
  shows "dict_get (reg_claims reg) cid = Some c \<Longrightarrow> cl_id c = cid"
    and "dict_get (reg_claims reg) cid = Some c \<Longrightarrow>
      \<exists>r. dict_get (reg_resources reg) (cl_resource_id c) = Some r"
    and "dict_get (reg_claims reg) cid = Some c \<Longrightarrow> \<exists>d. dict_get (reg_decisions reg) cid = Some d"
    and "dict_get (reg_resources reg) rid = Some r \<Longrightarrow> res_id r = rid"
  using assms by (simp_all add: registry_wf_def)

lemma set_active_claims:
  assumes "registry_wf reg"
  shows "c \<in> set (active_claims reg) \<longleftrightarrow>
    dict_get (reg_claims reg) (cl_id c) = Some c \<and> is_active_like c"
proof
  assume "c \<in> set (active_claims reg)"
  then obtain k where k: "(k, c) \<in> set (reg_claims reg)" and a: "is_active_like c"
    by (auto simp: active_claims_def dict_values_def)
  then have "dict_get (reg_claims reg) k = Some c"
    using assms by (simp add: registry_wf_def dict_mem_iff)
  moreover from this have "k = cl_id c" using assms by (auto simp: registry_wf_def)
  ultimately show "dict_get (reg_claims reg) (cl_id c) = Some c \<and> is_active_like c" using a by simp
next
  assume c: "dict_get (reg_claims reg) (cl_id c) = Some c \<and> is_active_like c"
  have "dict_ok (reg_claims reg)" using assms by (simp add: registry_wf_def)
  with c have "(cl_id c, c) \<in> set (reg_claims reg)" by (simp add: dict_mem_iff)
  then have "c \<in> snd ` set (reg_claims reg)" by force
  with c show "c \<in> set (active_claims reg)" by (simp add: active_claims_def dict_values_def)
qed

lemma claim_with_status_sel [simp]:
  "cl_id (claim_with_status c d) = cl_id c"
  "cl_resource_id (claim_with_status c d) = cl_resource_id c"
  "cl_claim_type (claim_with_status c d) = cl_claim_type c"
  "cl_dependency_ids (claim_with_status c d) = cl_dependency_ids c"
  "cl_approval_id (claim_with_status c d) = cl_approval_id c"
  by (simp_all add: claim_with_status_def)

lemma is_exclusive_update [simp]:
  "is_exclusive (c\<lparr>cl_status := s\<rparr>) = is_exclusive c"
  "is_exclusive (c\<lparr>cl_status := s, cl_approval_id := a\<rparr>) = is_exclusive c"
  "is_exclusive (claim_with_status c d) = is_exclusive c"
  by (simp_all add: is_exclusive_iff)

lemma claim_with_status_active:
  "is_active_like (claim_with_status c d) \<longleftrightarrow> dec_outcome d = Outcome_ALLOW"
  by (cases "dec_outcome d") (simp_all add: claim_with_status_def is_active_like_def)

lemma claim_with_status_ACTIVE:
  "cl_status (claim_with_status c d) = Status_ACTIVE \<longleftrightarrow> dec_outcome d = Outcome_ALLOW"
  by (cases "dec_outcome d") (simp_all add: claim_with_status_def)

text \<open>
  What each mutating method does to the three dictionaries, in the form the invariant proofs
  use: the claim stored, when it is active, and what becomes of the resource.
\<close>

lemma request_claim_effect:
  assumes "request_claim c reg = Inr (reg', y)"
  obtains r d where "dict_get (reg_resources reg) (cl_resource_id c) = Some r"
    and "d = decide_claim r c (active_claims reg) (reg_resources reg)"
    and "y = \<lparr>rec_claim = claim_with_status c d, rec_decision = d\<rparr>"
    and "reg_claims reg' = dict_set (cl_id c) (claim_with_status c d) (reg_claims reg)"
    and "reg_decisions reg' = dict_set (cl_id c) d (reg_decisions reg)"
    and "reg_resources reg' =
      (if dec_outcome d = Outcome_ALLOW \<and> is_exclusive c
       then dict_set (res_id r) (r\<lparr>res_current_claim_id := Some (cl_id c)\<rparr>) (reg_resources reg)
       else reg_resources reg)"
  using assms
  by (auto simp: request_claim_def get_resource_def Let_def claim_with_status_ACTIVE
      split: option.splits)

lemma release_claim_effect:
  assumes "release_claim cid reg = Inr (reg', z)"
  obtains c where "dict_get (reg_claims reg) cid = Some c" and "z = c\<lparr>cl_status := Status_RELEASED\<rparr>"
    and "reg_claims reg' = dict_set cid (c\<lparr>cl_status := Status_RELEASED\<rparr>) (reg_claims reg)"
    and "reg_decisions reg' = reg_decisions reg"
    and "reg_resources reg' =
      (case dict_get (reg_resources reg) (cl_resource_id c) of
         None \<Rightarrow> reg_resources reg
       | Some r \<Rightarrow> if res_current_claim_id r = Some cid
           then dict_set (res_id r) (r\<lparr>res_current_claim_id := None\<rparr>) (reg_resources reg)
           else reg_resources reg)"
  using assms by (auto simp: release_claim_def Let_def split: option.splits if_splits)

definition activated_status :: "ConflictDecision \<Rightarrow> ClaimStatus" where
  "activated_status d =
     (if dec_outcome d = Outcome_QUEUE then Status_QUEUED
      else if dec_outcome d \<in> {Outcome_BLOCK, Outcome_QUARANTINE} then Status_BLOCKED
      else Status_ACTIVE)"

lemma activate_claim_effect:
  assumes "activate_claim cid ap reg = Inr (reg', y)"
  obtains c r d where "dict_get (reg_claims reg) cid = Some c"
    and "dict_get (reg_resources reg) (cl_resource_id c) = Some r"
    and "d = decide_claim r c (filter (\<lambda>a. cl_id a \<noteq> cid) (active_claims reg)) (reg_resources reg)"
    and "y = \<lparr>rec_claim = c\<lparr>cl_status := activated_status d,
        cl_approval_id := str_or ap (cl_approval_id c)\<rparr>, rec_decision = d\<rparr>"
    and "reg_claims reg' = dict_set cid (rec_claim y) (reg_claims reg)"
    and "reg_decisions reg' =
      (if activated_status d = Status_ACTIVE then reg_decisions reg
       else dict_set cid d (reg_decisions reg))"
    and "reg_resources reg' =
      (if activated_status d = Status_ACTIVE \<and> is_exclusive c
       then dict_set (res_id r) (r\<lparr>res_current_claim_id := Some (cl_id c)\<rparr>) (reg_resources reg)
       else reg_resources reg)"
proof -
  obtain c r where c: "dict_get (reg_claims reg) cid = Some c"
    and r: "dict_get (reg_resources reg) (cl_resource_id c) = Some r"
    using assms by (auto simp: activate_claim_def get_resource_def split: option.splits)
  define d where
    "d = decide_claim r c (filter (\<lambda>a. cl_id a \<noteq> cid) (active_claims reg)) (reg_resources reg)"
  note act = assms [unfolded activate_claim_def c get_resource_def option.case r res_bind_simps
      Let_def, folded d_def]
  show thesis
    by (rule that [OF c r d_def]; use act in \<open>cases "dec_outcome d"\<close>)
      (auto simp: activated_status_def split: if_splits)
qed

lemma activated_status_active:
  "activated_status d = Status_ACTIVE \<longleftrightarrow> dec_outcome d \<in> {Outcome_ALLOW, Outcome_ESCALATE}"
  by (cases "dec_outcome d") (simp_all add: activated_status_def)

lemma is_active_like_activated:
  "is_active_like (c\<lparr>cl_status := activated_status d, cl_approval_id := a\<rparr>) \<longleftrightarrow>
     activated_status d = Status_ACTIVE"
  by (simp add: is_active_like_def activated_status_def)

section \<open>Invariants\<close>

lemma registry_wf_empty: "registry_wf empty_registry"
  by (simp add: registry_wf_def empty_registry_def)

lemma registry_wf_step:
  assumes "registry_step reg reg'" and wf: "registry_wf reg"
  shows "registry_wf reg'"
  using assms(1)
proof cases
  case (rs_register r x)
  then show ?thesis using wf
    by (auto simp: register_resource_def registry_wf_def split: if_splits)
next
  case (rs_request c y)
  from rs_request wf show ?thesis
    by (elim request_claim_effect) (auto simp: registry_wf_def)
next
  case (rs_release cid z)
  from rs_release wf show ?thesis
    by (elim release_claim_effect) (auto simp: registry_wf_def split: option.splits)
next
  case (rs_activate cid ap y)
  from rs_activate wf show ?thesis
    by (elim activate_claim_effect) (auto simp: registry_wf_def)
qed

text \<open>Storing one claim keeps the ownership rule when the claim is inactive or was granted.\<close>

lemma exclusive_ok_store:
  assumes ok: "exclusive_ok reg"
    and claims: "reg_claims reg' = dict_set cid c (reg_claims reg)"
    and granted: "is_active_like c \<Longrightarrow>
      (\<forall>j d. j \<noteq> cid \<longrightarrow> dict_get (reg_claims reg) j = Some d \<longrightarrow> is_active_like d \<longrightarrow>
         is_exclusive c \<or> is_exclusive d \<longrightarrow> cl_resource_id c \<noteq> cl_resource_id d)"
  shows "exclusive_ok reg'"
  unfolding exclusive_ok_def
proof (intro allI impI)
  fix i j a b
  assume "dict_get (reg_claims reg') i = Some a" "dict_get (reg_claims reg') j = Some b"
    and "is_active_like a" "is_active_like b" "is_exclusive a" "cl_resource_id a = cl_resource_id b"
  moreover have "exclusive_ok reg" by (rule ok)
  ultimately show "i = j"
    using granted by (cases "i = cid"; cases "j = cid") (auto simp: claims exclusive_ok_def)
qed

lemma granted_no_conflict:
  assumes wf: "registry_wf reg"
    and d: "d = decide_claim r c as (reg_resources reg)"
    and as: "set as = {a \<in> set (active_claims reg). cl_id a \<noteq> cid}"
    and out: "dec_outcome d \<in> {Outcome_ALLOW, Outcome_ESCALATE}"
    and j: "j \<noteq> cid" "dict_get (reg_claims reg) j = Some e" "is_active_like e"
    and ex: "is_exclusive c \<or> is_exclusive e"
  shows "cl_resource_id c \<noteq> cl_resource_id e"
proof -
  have id: "cl_id e = j" using wf j(2) by (auto simp: registry_wf_def)
  have mem: "e \<in> set as" using as wf j id by (simp add: set_active_claims)
  note grants = decide_claim_grants(3,4) [OF out [unfolded d], where a = e]
  from ex show ?thesis
  proof
    assume "is_exclusive c"
    with grants(1) mem j(3) show ?thesis by (auto simp: claim_blocks_def claims_overlap_def)
  next
    assume "is_exclusive e"
    with grants(2) mem j(3) show ?thesis by auto
  qed
qed

lemma request_not_self:
  assumes "dec_outcome (decide_claim r c (active_claims reg) rs) = Outcome_ALLOW"
    and "a \<in> set (active_claims reg)" and "is_exclusive c \<or> is_exclusive a"
  shows "cl_resource_id c \<noteq> cl_resource_id a"
  using decide_claim_grants(3,4) [of r c "active_claims reg" rs a] assms
  by (auto simp: claim_blocks_def claims_overlap_def active_claims_def)

lemma exclusive_ok_step:
  assumes "registry_step reg reg'" and wf: "registry_wf reg" and ok: "exclusive_ok reg"
  shows "exclusive_ok reg'"
  using assms(1)
proof cases
  case (rs_register r x)
  then show ?thesis using ok
    by (auto simp: register_resource_def exclusive_ok_def split: if_splits)
next
  case (rs_request c y)
  then show ?thesis
  proof (rule request_claim_effect)
    fix r d
    assume d: "d = decide_claim r c (active_claims reg) (reg_resources reg)"
      and cl: "reg_claims reg' = dict_set (cl_id c) (claim_with_status c d) (reg_claims reg)"
    show "exclusive_ok reg'"
    proof (rule exclusive_ok_store [OF ok cl], intro allI impI)
      fix j e
      assume act: "is_active_like (claim_with_status c d)" and e: "dict_get (reg_claims reg) j = Some e"
        "is_active_like e" and ex: "is_exclusive (claim_with_status c d) \<or> is_exclusive e"
      have "e \<in> set (active_claims reg)" using wf e by (auto simp: set_active_claims registry_wf_def)
      with act ex show "cl_resource_id (claim_with_status c d) \<noteq> cl_resource_id e"
        using request_not_self [of r c reg "reg_resources reg" e] d
        by (simp add: claim_with_status_active)
    qed
  qed
next
  case (rs_release cid z)
  then show ?thesis
    by (rule release_claim_effect) (erule exclusive_ok_store [OF ok], simp add: is_active_like_def)
next
  case (rs_activate cid ap y)
  then show ?thesis
  proof (rule activate_claim_effect)
    fix c r d
    assume d: "d = decide_claim r c (filter (\<lambda>a. cl_id a \<noteq> cid) (active_claims reg)) (reg_resources reg)"
      and y: "y = \<lparr>rec_claim = c\<lparr>cl_status := activated_status d,
        cl_approval_id := str_or ap (cl_approval_id c)\<rparr>, rec_decision = d\<rparr>"
      and cl: "reg_claims reg' = dict_set cid (rec_claim y) (reg_claims reg)"
    show "exclusive_ok reg'"
    proof (rule exclusive_ok_store [OF ok cl], intro allI impI)
      fix j e
      assume act: "is_active_like (rec_claim y)" and j: "j \<noteq> cid"
        "dict_get (reg_claims reg) j = Some e" "is_active_like e"
        and ex: "is_exclusive (rec_claim y) \<or> is_exclusive e"
      have "dec_outcome d \<in> {Outcome_ALLOW, Outcome_ESCALATE}"
        using act by (simp add: y is_active_like_activated activated_status_active)
      then show "cl_resource_id (rec_claim y) \<noteq> cl_resource_id e"
        using granted_no_conflict [OF wf d, where cid = cid and j = j and e = e] j ex
        by (auto simp: y)
    qed
  qed
qed

interpretation registry_inv: step_invariant "\<lambda>reg. reg = empty_registry" registry_step
  "\<lambda>reg. registry_wf reg \<and> exclusive_ok reg"
  by unfold_locales
    (auto simp: registry_wf_empty registry_wf_step exclusive_ok_step,
     simp add: exclusive_ok_def empty_registry_def)

section \<open>The claim a resource names as current\<close>

lemma registry_step_disciplined_step: "registry_step_disciplined reg reg' \<Longrightarrow> registry_step reg reg'"
  by (auto elim!: registry_step_disciplinedE intro: registry_step.intros)

lemma current_ok_store:
  assumes cur: "current_ok reg"
    and claims: "reg_claims reg' = dict_set cid c (reg_claims reg)"
    and old: "\<And>c0. dict_get (reg_claims reg) cid = Some c0 \<Longrightarrow> cl_resource_id c0 = cl_resource_id c"
    and others: "\<And>rid. rid \<noteq> cl_resource_id c \<Longrightarrow>
      dict_get (reg_resources reg') rid = dict_get (reg_resources reg) rid"
    and here: "\<And>r x. dict_get (reg_resources reg') (cl_resource_id c) = Some r \<Longrightarrow>
      res_current_claim_id r = Some x \<longleftrightarrow>
        (if x = cid then is_active_like c \<and> is_exclusive c
         else holds_exclusively reg (cl_resource_id c) x)"
  shows "current_ok reg'"
  unfolding current_ok_def
proof (intro allI impI)
  fix rid r x
  assume r: "dict_get (reg_resources reg') rid = Some r"
  show "res_current_claim_id r = Some x \<longleftrightarrow> holds_exclusively reg' rid x"
  proof (cases "rid = cl_resource_id c")
    case True
    with here [of r x] r show ?thesis by (simp add: holds_exclusively_def claims)
  next
    case False
    then have "dict_get (reg_resources reg) rid = Some r" using others r by simp
    then have "res_current_claim_id r = Some x \<longleftrightarrow> holds_exclusively reg rid x"
      using cur by (simp add: current_ok_def)
    moreover have "holds_exclusively reg' rid x \<longleftrightarrow> holds_exclusively reg rid x"
      using False old by (auto simp: holds_exclusively_def claims split: option.splits)
    ultimately show ?thesis by simp
  qed
qed

lemma granted_exclusive_free:
  assumes wf: "registry_wf reg" and cur: "current_ok reg"
    and nocon: "\<And>j e. j \<noteq> cid \<Longrightarrow> dict_get (reg_claims reg) j = Some e \<Longrightarrow> is_active_like e \<Longrightarrow>
      is_exclusive c \<or> is_exclusive e \<Longrightarrow> cl_resource_id c \<noteq> cl_resource_id e"
    and "x \<noteq> cid"
  shows "\<not> holds_exclusively reg (cl_resource_id c) x"
  using nocon [of x] assms(4) by (auto simp: holds_exclusively_def split: option.splits)

lemma current_ok_request:
  assumes req: "request_claim c reg = Inr (reg', y)" and fresh: "dict_get (reg_claims reg) (cl_id c) = None"
    and wf: "registry_wf reg" and cur: "current_ok reg"
  shows "current_ok reg'"
  using req
proof (rule request_claim_effect)
  fix r d
  assume r: "dict_get (reg_resources reg) (cl_resource_id c) = Some r"
    and d: "d = decide_claim r c (active_claims reg) (reg_resources reg)"
    and cl: "reg_claims reg' = dict_set (cl_id c) (claim_with_status c d) (reg_claims reg)"
    and res: "reg_resources reg' =
      (if dec_outcome d = Outcome_ALLOW \<and> is_exclusive c
       then dict_set (res_id r) (r\<lparr>res_current_claim_id := Some (cl_id c)\<rparr>) (reg_resources reg)
       else reg_resources reg)"
  have rid: "res_id r = cl_resource_id c" using wf r by (auto simp: registry_wf_def)
  have nofresh: "\<not> holds_exclusively reg (cl_resource_id c) (cl_id c)"
    using fresh by (simp add: holds_exclusively_def)
  have was: "res_current_claim_id r = Some x \<longleftrightarrow> holds_exclusively reg (cl_resource_id c) x" for x
    using cur r by (simp add: current_ok_def)
  have free: "\<not> holds_exclusively reg (cl_resource_id c) x"
    if "dec_outcome d = Outcome_ALLOW" "is_exclusive c" for x
  proof
    assume "holds_exclusively reg (cl_resource_id c) x"
    then obtain e where e: "dict_get (reg_claims reg) x = Some e" "is_active_like e"
      "cl_resource_id e = cl_resource_id c"
      by (auto simp: holds_exclusively_def split: option.splits)
    then have "e \<in> set (active_claims reg)" using wf by (auto simp: set_active_claims registry_wf_def)
    with that e show False using request_not_self [of r c reg "reg_resources reg" e] d by simp
  qed
  show "current_ok reg'"
    by (rule current_ok_store [OF cur cl])
      (use fresh was nofresh free r in
        \<open>auto simp: res rid claim_with_status_active split: if_splits\<close>)
qed

lemma current_ok_release:
  assumes rel: "release_claim cid reg = Inr (reg', z)" and wf: "registry_wf reg" and cur: "current_ok reg"
  shows "current_ok reg'"
  using rel
proof (rule release_claim_effect)
  fix c
  assume c: "dict_get (reg_claims reg) cid = Some c"
    and cl: "reg_claims reg' = dict_set cid (c\<lparr>cl_status := Status_RELEASED\<rparr>) (reg_claims reg)"
    and res: "reg_resources reg' =
      (case dict_get (reg_resources reg) (cl_resource_id c) of
         None \<Rightarrow> reg_resources reg
       | Some r \<Rightarrow> if res_current_claim_id r = Some cid
           then dict_set (res_id r) (r\<lparr>res_current_claim_id := None\<rparr>) (reg_resources reg)
           else reg_resources reg)"
  obtain r where r: "dict_get (reg_resources reg) (cl_resource_id c) = Some r"
    using registry_wfD(2) [OF wf c] by blast
  have rid: "res_id r = cl_resource_id c" using wf r by (auto simp: registry_wf_def)
  have was: "res_current_claim_id r = Some x \<longleftrightarrow> holds_exclusively reg (cl_resource_id c) x" for x
    using cur r by (simp add: current_ok_def)
  have rel: "\<not> is_active_like (c\<lparr>cl_status := Status_RELEASED\<rparr>)" by (simp add: is_active_like_def)
  show "current_ok reg'"
  proof (rule current_ok_store [OF cur cl])
    fix r' x
    assume "dict_get (reg_resources reg') (cl_resource_id (c\<lparr>cl_status := Status_RELEASED\<rparr>)) = Some r'"
    then have r': "r' = (if res_current_claim_id r = Some cid then r\<lparr>res_current_claim_id := None\<rparr> else r)"
      using r rid by (simp add: res split: if_splits)
    then show "res_current_claim_id r' = Some x \<longleftrightarrow>
        (if x = cid then is_active_like (c\<lparr>cl_status := Status_RELEASED\<rparr>) \<and>
           is_exclusive (c\<lparr>cl_status := Status_RELEASED\<rparr>)
         else holds_exclusively reg (cl_resource_id (c\<lparr>cl_status := Status_RELEASED\<rparr>)) x)"
      using rel was [of x] by (cases "res_current_claim_id r = Some cid") auto
  qed (use c r rid in \<open>simp_all add: res\<close>)
qed

lemma current_ok_activate:
  assumes act: "activate_claim cid ap reg = Inr (reg', y)"
    and c0: "dict_get (reg_claims reg) cid = Some c0" "\<not> is_active_like c0"
    and wf: "registry_wf reg" and cur: "current_ok reg"
  shows "current_ok reg'"
  using act
proof (rule activate_claim_effect)
  fix c r d
  assume c: "dict_get (reg_claims reg) cid = Some c"
    and r: "dict_get (reg_resources reg) (cl_resource_id c) = Some r"
    and d: "d = decide_claim r c (filter (\<lambda>a. cl_id a \<noteq> cid) (active_claims reg)) (reg_resources reg)"
    and y: "y = \<lparr>rec_claim = c\<lparr>cl_status := activated_status d,
        cl_approval_id := str_or ap (cl_approval_id c)\<rparr>, rec_decision = d\<rparr>"
    and cl: "reg_claims reg' = dict_set cid (rec_claim y) (reg_claims reg)"
    and res: "reg_resources reg' =
      (if activated_status d = Status_ACTIVE \<and> is_exclusive c
       then dict_set (res_id r) (r\<lparr>res_current_claim_id := Some (cl_id c)\<rparr>) (reg_resources reg)
       else reg_resources reg)"
  have rid: "res_id r = cl_resource_id c" and id: "cl_id c = cid"
    using wf r c by (auto simp: registry_wf_def)
  have was: "res_current_claim_id r = Some x \<longleftrightarrow> holds_exclusively reg (cl_resource_id c) x" for x
    using cur r by (simp add: current_ok_def)
  have inactive: "\<not> holds_exclusively reg (cl_resource_id c) cid"
    using c c0 by (simp add: holds_exclusively_def)
  have free: "\<not> holds_exclusively reg (cl_resource_id c) x"
    if "activated_status d = Status_ACTIVE" "is_exclusive c" "x \<noteq> cid" for x
  proof (rule granted_exclusive_free [OF wf cur _ that(3)])
    fix j e
    assume "j \<noteq> cid" "dict_get (reg_claims reg) j = Some e" "is_active_like e" "is_exclusive c \<or> is_exclusive e"
    then show "cl_resource_id c \<noteq> cl_resource_id e"
      by (intro granted_no_conflict [OF wf d, of cid])
        (use that in \<open>auto simp: activated_status_active\<close>)
  qed
  have active: "is_active_like (rec_claim y) \<longleftrightarrow> activated_status d = Status_ACTIVE"
    by (simp add: y is_active_like_activated)
  have same: "cl_resource_id (rec_claim y) = cl_resource_id c" "is_exclusive (rec_claim y) = is_exclusive c"
    by (simp_all add: y)
  show "current_ok reg'"
    by (rule current_ok_store [OF cur cl])
      (use c r was inactive free active same in \<open>auto simp: res rid id split: if_splits\<close>)
qed

lemma current_ok_register:
  assumes "register_resource r reg = Inr (reg', x)" and free: "res_current_claim_id r = None"
    and wf: "registry_wf reg" and cur: "current_ok reg"
  shows "current_ok reg'"
proof -
  have new: "dict_get (reg_resources reg) (res_id r) = None"
    and reg': "reg' = reg\<lparr>reg_resources := dict_set (res_id r) r (reg_resources reg)\<rparr>"
    using assms(1) by (auto simp: register_resource_def split: if_splits)
  have "\<not> holds_exclusively reg (res_id r) cid" for cid
    using new registry_wfD(2) [OF wf] by (fastforce simp: holds_exclusively_def split: option.splits)
  moreover have "holds_exclusively reg' = holds_exclusively reg"
    by (simp add: fun_eq_iff holds_exclusively_def reg')
  ultimately show ?thesis using cur free by (auto simp: current_ok_def reg')
qed

lemma current_ok_step:
  assumes "registry_step_disciplined reg reg'" and wf: "registry_wf reg" and cur: "current_ok reg"
  shows "current_ok reg'"
  using assms(1)
  by (rule registry_step_disciplinedE)
    (auto intro: current_ok_register current_ok_request current_ok_release current_ok_activate wf cur)

interpretation registry_current: step_invariant "\<lambda>reg. reg = empty_registry" registry_step_disciplined
  "\<lambda>reg. registry_wf reg \<and> exclusive_ok reg \<and> current_ok reg"
proof unfold_locales
  fix reg
  assume "reg = empty_registry"
  then show "registry_wf reg \<and> exclusive_ok reg \<and> current_ok reg"
    using registry_wf_empty by (simp add: exclusive_ok_def current_ok_def empty_registry_def)
next
  fix s t
  assume "registry_wf s \<and> exclusive_ok s \<and> current_ok s" and st: "registry_step_disciplined s t"
  then show "registry_wf t \<and> exclusive_ok t \<and> current_ok t"
    using registry_step_disciplined_step [OF st]
    by (simp add: registry_wf_step exclusive_ok_step current_ok_step)
qed

section \<open>Properties of the registry\<close>

text \<open>C25: On every disciplined run of the registry (resources registered free, claim ids fresh, no
  activation of a claim that is already active) the \<open>current_claim_id\<close> of a resource names
  exactly the active exclusive claim on it: it is set when there is one and empty otherwise.\<close>

theorem current_claim_exact:
  assumes "reach (\<lambda>reg. reg = empty_registry) registry_step_disciplined reg"
    and "dict_get (reg_resources reg) rid = Some r"
  shows "res_current_claim_id r = Some cid \<longleftrightarrow>
    (\<exists>c. dict_get (reg_claims reg) cid = Some c \<and> is_active_like c \<and> is_exclusive c \<and>
       cl_resource_id c = rid)"
  using registry_current.inv_reach [OF assms(1)] assms(2)
  by (auto simp: current_ok_def holds_exclusively_def split: option.splits)

definition sample_registry :: ResourceRegistry where
  "sample_registry = \<lparr>reg_resources = [(''gw'', sample_resource Type_SERVICE Risk_LOW)],
     reg_claims = [], reg_decisions = []\<rparr>"

definition sample_held :: ResourceRegistry where
  "sample_held = (case request_claim (sample_claim ''q'' Claim_QUARANTINE Risk_LOW) sample_registry of
     Inl _ \<Rightarrow> sample_registry | Inr (reg, _) \<Rightarrow> reg)"

lemma sample_held_reach: "reach (\<lambda>reg. reg = empty_registry) registry_step_disciplined sample_held"
proof (rule reach_step, rule reach_step)
  show "reach (\<lambda>reg. reg = empty_registry) registry_step_disciplined empty_registry"
    by (rule reach_init) simp
  show "registry_step_disciplined empty_registry sample_registry"
    by (rule rd_register [where r = "sample_resource Type_SERVICE Risk_LOW"])
      (simp_all add: register_resource_def empty_registry_def sample_registry_def sample_resource_def
        dict_set_def)
  show "registry_step_disciplined sample_registry sample_held"
  proof (rule rd_request)
    show "request_claim (sample_claim ''q'' Claim_QUARANTINE Risk_LOW) sample_registry =
      Inr (sample_held, case request_claim (sample_claim ''q'' Claim_QUARANTINE Risk_LOW) sample_registry of
        Inr (_, y) \<Rightarrow> y)"
      by code_simp
    show "dict_get (reg_claims sample_registry) (cl_id (sample_claim ''q'' Claim_QUARANTINE Risk_LOW)) = None"
      by (simp add: sample_registry_def)
  qed
qed

theorem current_claim_exact_witness:
  "\<exists>r c. dict_get (reg_resources sample_held) ''gw'' = Some r \<and> res_current_claim_id r = Some ''q'' \<and>
     dict_get (reg_claims sample_held) ''q'' = Some c \<and> is_active_like c \<and> is_exclusive c"
proof -
  have "map_option res_current_claim_id (dict_get (reg_resources sample_held) ''gw'') = Some (Some ''q'')"
    by code_simp
  then obtain r where "dict_get (reg_resources sample_held) ''gw'' = Some r" "res_current_claim_id r = Some ''q''"
    by auto
  then show ?thesis using current_claim_exact [OF sample_held_reach, of "''gw''" r "''q''"] by blast
qed

text \<open>Outside disciplined runs the field can go stale: requesting the id of an active exclusive claim
  again queues it behind itself and leaves the resource naming a claim that is no longer active.
\<close>

theorem re_request_leaves_stale_current:
  "case request_claim (sample_claim ''q'' Claim_QUARANTINE Risk_LOW) sample_held of
     Inr (reg, rec) \<Rightarrow> map_option res_current_claim_id (dict_get (reg_resources reg) ''gw'') = Some (Some ''q'') \<and>
       map_option cl_status (dict_get (reg_claims reg) ''q'') = Some Status_QUEUED \<and> active_claims reg = []
   | Inl _ \<Rightarrow> False"
  by code_simp

end
