(* ===== verification/Audit_Log.thy ===== *)
theory Audit_Log
  imports Core_Claims
begin

text \<open>
  Approval requests and audit events of \<^verbatim>\<open>src/overseer/audit.py\<close>, and the two constructors that
  turn a conflict decision into them.
\<close>

datatype ApprovalStatus =
    Appr_PENDING | Appr_APPROVED | Appr_REJECTED | Appr_EXPIRED | Appr_SUPERSEDED

datatype AuditEventType =
    Event_REQUESTED | Event_ALERT | Event_ALLOWED | Event_QUEUED | Event_BLOCKED | Event_ESCALATED
  | Event_QUARANTINED | Event_APPROVED | Event_REJECTED | Event_EXECUTED | Event_VERIFIED
  | Event_RELEASED

fun approval_status_value :: "ApprovalStatus \<Rightarrow> string" where
  "approval_status_value Appr_PENDING = ''pending''"
| "approval_status_value Appr_APPROVED = ''approved''"
| "approval_status_value Appr_REJECTED = ''rejected''"
| "approval_status_value Appr_EXPIRED = ''expired''"
| "approval_status_value Appr_SUPERSEDED = ''superseded''"

fun event_type_value :: "AuditEventType \<Rightarrow> string" where
  "event_type_value Event_REQUESTED = ''requested''"
| "event_type_value Event_ALERT = ''alert''"
| "event_type_value Event_ALLOWED = ''allowed''"
| "event_type_value Event_QUEUED = ''queued''"
| "event_type_value Event_BLOCKED = ''blocked''"
| "event_type_value Event_ESCALATED = ''escalated''"
| "event_type_value Event_QUARANTINED = ''quarantined''"
| "event_type_value Event_APPROVED = ''approved''"
| "event_type_value Event_REJECTED = ''rejected''"
| "event_type_value Event_EXECUTED = ''executed''"
| "event_type_value Event_VERIFIED = ''verified''"
| "event_type_value Event_RELEASED = ''released''"

record ApprovalRequest =
  apr_id :: string
  apr_subject_id :: string
  apr_approval_level :: ApprovalLevel
  apr_requester_thread :: string
  apr_owner_domain :: OwnerDomain
  apr_reason :: string
  apr_status :: ApprovalStatus
  apr_evidence_required :: "string list"
  apr_decided_by :: "string option"
  apr_decided_at :: "string option"

definition approval_can_execute :: "ApprovalRequest \<Rightarrow> bool" where
  "approval_can_execute a \<longleftrightarrow> apr_status a = Appr_APPROVED"

record AuditEvent =
  ev_id :: string
  ev_event_type :: AuditEventType
  ev_owner_domain :: OwnerDomain
  ev_subject_id :: string
  ev_summary :: string
  ev_risk_level :: RiskLevel
  ev_evidence_ids :: "string list"
  ev_occurred_at :: "string option"

definition approval_from_decision ::
  "string \<Rightarrow> string \<Rightarrow> string \<Rightarrow> OwnerDomain \<Rightarrow> ConflictDecision \<Rightarrow> string list \<Rightarrow>
   ApprovalRequest option" where
  "approval_from_decision approval_id subject_id requester_thread owner_domain decision evidence_required =
     (if dec_approval_level decision = Approval_NONE then None
      else Some \<lparr>apr_id = approval_id, apr_subject_id = subject_id,
        apr_approval_level = dec_approval_level decision,
        apr_requester_thread = requester_thread, apr_owner_domain = owner_domain,
        apr_reason = dec_reason decision, apr_status = Appr_PENDING,
        apr_evidence_required = evidence_required, apr_decided_by = None, apr_decided_at = None\<rparr>)"

fun event_type_for_outcome :: "ConflictOutcome \<Rightarrow> AuditEventType" where
  "event_type_for_outcome Outcome_ALLOW = Event_ALLOWED"
| "event_type_for_outcome Outcome_QUEUE = Event_QUEUED"
| "event_type_for_outcome Outcome_BLOCK = Event_BLOCKED"
| "event_type_for_outcome Outcome_ESCALATE = Event_ESCALATED"
| "event_type_for_outcome Outcome_QUARANTINE = Event_QUARANTINED"

definition audit_event_from_decision ::
  "string \<Rightarrow> string \<Rightarrow> OwnerDomain \<Rightarrow> RiskLevel \<Rightarrow> ConflictDecision \<Rightarrow> string list \<Rightarrow> AuditEvent" where
  "audit_event_from_decision event_id subject_id owner_domain risk_level decision evidence_ids =
     \<lparr>ev_id = event_id, ev_event_type = event_type_for_outcome (dec_outcome decision),
      ev_owner_domain = owner_domain, ev_subject_id = subject_id,
      ev_summary = dec_reason decision, ev_risk_level = risk_level,
      ev_evidence_ids = evidence_ids, ev_occurred_at = None\<rparr>"

lemma approval_from_decision_Some:
  "approval_from_decision aid sid th ow d ev = Some a \<Longrightarrow>
     apr_id a = aid \<and> apr_subject_id a = sid \<and> apr_status a = Appr_PENDING \<and>
     apr_approval_level a = dec_approval_level d"
  by (auto simp: approval_from_decision_def split: if_splits)

end
