(* ===== verification/Store_Model.thy ===== *)
theory Store_Model
  imports Registry Audit_Log
begin

text \<open>
  The tables of \<^verbatim>\<open>src/overseer/store.py\<close> that the coordinator uses. Each table holds the records
  themselves: the JSON payload of a row is written by \<open>_dump\<close> and read back by
  \<open>_load_dataclass\<close>, and the model identifies a record with its payload. A save is one
  \<^verbatim>\<open>INSERT OR REPLACE\<close>, a load raises \<open>KeyError\<close> for a missing row, a listing is in the
  order of the primary key.
\<close>

record OverseerStore =
  st_resources :: "Resource tbl"
  st_claims :: "Claim tbl"
  st_decisions :: "ConflictDecision tbl"
  st_approvals :: "ApprovalRequest tbl"
  st_audit_events :: "AuditEvent tbl"

definition empty_store :: OverseerStore where
  "empty_store = \<lparr>st_resources = [], st_claims = [], st_decisions = [], st_approvals = [],
     st_audit_events = []\<rparr>"

definition get_payload :: "'v tbl \<Rightarrow> string \<Rightarrow> 'v result" where
  "get_payload t k = (case tbl_get t k of None \<Rightarrow> Inl (KeyError k) | Some v \<Rightarrow> Inr v)"

definition save_resource :: "Resource \<Rightarrow> 'a OverseerStore_scheme \<Rightarrow> 'a OverseerStore_scheme" where
  "save_resource r st = st\<lparr>st_resources := tbl_upsert (res_id r) r (st_resources st)\<rparr>"

definition load_resource :: "'a OverseerStore_scheme \<Rightarrow> string \<Rightarrow> Resource result" where
  "load_resource st rid = get_payload (st_resources st) rid"

definition store_list_resources :: "'a OverseerStore_scheme \<Rightarrow> Resource list" where
  "store_list_resources st = map snd (st_resources st)"

definition save_claim ::
  "Claim \<Rightarrow> ConflictDecision option \<Rightarrow> 'a OverseerStore_scheme \<Rightarrow> 'a OverseerStore_scheme" where
  "save_claim c d st =
     (let st1 = st\<lparr>st_claims := tbl_upsert (cl_id c) c (st_claims st)\<rparr>
      in case d of
           None \<Rightarrow> st1
         | Some dec \<Rightarrow> st1\<lparr>st_decisions := tbl_upsert (cl_id c) dec (st_decisions st1)\<rparr>)"

definition load_claim :: "'a OverseerStore_scheme \<Rightarrow> string \<Rightarrow> Claim result" where
  "load_claim st cid = get_payload (st_claims st) cid"

definition list_claims :: "'a OverseerStore_scheme \<Rightarrow> Claim list" where
  "list_claims st = map snd (st_claims st)"

definition load_decision :: "'a OverseerStore_scheme \<Rightarrow> string \<Rightarrow> ConflictDecision result" where
  "load_decision st cid = get_payload (st_decisions st) cid"

definition save_approval :: "ApprovalRequest \<Rightarrow> 'a OverseerStore_scheme \<Rightarrow> 'a OverseerStore_scheme" where
  "save_approval a st = st\<lparr>st_approvals := tbl_upsert (apr_id a) a (st_approvals st)\<rparr>"

definition load_approval :: "'a OverseerStore_scheme \<Rightarrow> string \<Rightarrow> ApprovalRequest result" where
  "load_approval st aid = get_payload (st_approvals st) aid"

definition list_approvals :: "'a OverseerStore_scheme \<Rightarrow> ApprovalRequest list" where
  "list_approvals st = map snd (st_approvals st)"

definition save_audit_event :: "AuditEvent \<Rightarrow> 'a OverseerStore_scheme \<Rightarrow> 'a OverseerStore_scheme" where
  "save_audit_event e st = st\<lparr>st_audit_events := tbl_upsert (ev_id e) e (st_audit_events st)\<rparr>"

section \<open>Reading back what was saved\<close>

lemmas store_ops = save_resource_def save_claim_def save_approval_def save_audit_event_def
lemmas load_ops = load_resource_def load_claim_def load_decision_def load_approval_def get_payload_def

definition tables_ok :: "'a OverseerStore_scheme \<Rightarrow> bool" where
  "tables_ok st \<longleftrightarrow> tbl_ok (st_resources st) \<and> tbl_ok (st_claims st) \<and> tbl_ok (st_decisions st) \<and>
     tbl_ok (st_approvals st) \<and> tbl_ok (st_audit_events st)"

lemma tables_ok_save [simp]:
  "tables_ok st \<Longrightarrow> tables_ok (save_resource r st)"
  "tables_ok st \<Longrightarrow> tables_ok (save_claim c d st)"
  "tables_ok st \<Longrightarrow> tables_ok (save_approval a st)"
  "tables_ok st \<Longrightarrow> tables_ok (save_audit_event e st)"
  by (auto simp: tables_ok_def store_ops Let_def split: option.splits)

lemma tables_ok_save_back:
  assumes "tables_ok st"
  shows "load_resource (save_resource r st) rid = (if rid = res_id r then Inr r else load_resource st rid)"
    and "load_claim (save_claim c d st) cid = (if cid = cl_id c then Inr c else load_claim st cid)"
    and "load_decision (save_claim c (Some dec) st) cid =
      (if cid = cl_id c then Inr dec else load_decision st cid)"
    and "load_approval (save_approval a st) aid = (if aid = apr_id a then Inr a else load_approval st aid)"
  using assms
  by (auto simp: load_ops store_ops tables_ok_def Let_def tb.get_put split: option.splits)

end
