(* ===== verification/Coordinator.thy ===== *)
theory Coordinator
  imports Store_Model
begin

text \<open>
  The \<open>OverseerCoordinator\<close> of \<^verbatim>\<open>src/overseer/service.py\<close> and the claim commands of
  \<^verbatim>\<open>src/overseer/cli.py\<close> that drive it. A coordinator operation returns the new coordinator and a
  result, because an exception leaves the writes done before it in place. A command reads the
  store, rebuilds a registry from it (\<open>coordinator_from_store\<close>), runs one operation and returns
  the status dictionary it prints.
\<close>

record CoordinationResult =
  cr_record :: ClaimRecord
  cr_approval :: "ApprovalRequest option"
  cr_audit_event :: AuditEvent

record ApprovalDecisionResult =
  ad_approval :: ApprovalRequest
  ad_audit_event :: AuditEvent

record OverseerCoordinator =
  co_registry :: ResourceRegistry
  co_store :: "OverseerStore option"

type_synonym 'a co_op = "OverseerCoordinator \<Rightarrow> OverseerCoordinator \<times> 'a result"

definition co_save :: "(OverseerStore \<Rightarrow> OverseerStore) \<Rightarrow> OverseerCoordinator \<Rightarrow> OverseerCoordinator" where
  "co_save f co = co\<lparr>co_store := map_option f (co_store co)\<rparr>"

definition co_register_resource :: "Resource \<Rightarrow> Resource co_op" where
  "co_register_resource r co =
     (case register_resource r (co_registry co) of
        Inl e \<Rightarrow> (co, Inl e)
      | Inr (reg, stored) \<Rightarrow> (co_save (save_resource stored) (co\<lparr>co_registry := reg\<rparr>), Inr stored))"

text \<open>
  The tail shared by the three operations: save the claim, then the resource it names, which is
  looked up in the registry after the claim has been saved.
\<close>

definition co_save_claim_and_resource :: "Claim \<Rightarrow> ConflictDecision option \<Rightarrow> unit co_op" where
  "co_save_claim_and_resource c d co =
     (if co_store co = None then (co, Inr ())
      else let co1 = co_save (save_claim c d) co
           in case get_resource (co_registry co1) (cl_resource_id c) of
                Inl e \<Rightarrow> (co1, Inl e)
              | Inr r \<Rightarrow> (co_save (save_resource r) co1, Inr ()))"

definition co_persist_result ::
  "ClaimRecord \<Rightarrow> ApprovalRequest option \<Rightarrow> AuditEvent \<Rightarrow> unit co_op" where
  "co_persist_result rec approval event co =
     (case co_save_claim_and_resource (rec_claim rec) (Some (rec_decision rec)) co of
        (co1, Inl e) \<Rightarrow> (co1, Inl e)
      | (co1, Inr _) \<Rightarrow>
          let co2 = (case approval of None \<Rightarrow> co1 | Some a \<Rightarrow> co_save (save_approval a) co1)
          in (co_save (save_audit_event event) co2, Inr ()))"

definition co_request_claim :: "Claim \<Rightarrow> CoordinationResult co_op" where
  "co_request_claim c co =
     (case request_claim c (co_registry co) of
        Inl e \<Rightarrow> (co, Inl e)
      | Inr (reg, rec) \<Rightarrow>
          let claim = rec_claim rec;
              decision = rec_decision rec;
              approval = approval_from_decision (''approval.'' @ cl_id c) (cl_id claim)
                (cl_owner_thread claim) (cl_owner_role claim) decision [];
              event = audit_event_from_decision
                (''audit.'' @ cl_id c @ ''.'' @ outcome_value (dec_outcome decision)) (cl_id claim)
                (cl_owner_role claim) (cl_risk_level claim) decision (dec_blocking_claim_ids decision)
          in case co_persist_result rec approval event (co\<lparr>co_registry := reg\<rparr>) of
               (co1, Inl e) \<Rightarrow> (co1, Inl e)
             | (co1, Inr _) \<Rightarrow>
                 (co1, Inr \<lparr>cr_record = rec, cr_approval = approval, cr_audit_event = event\<rparr>))"

definition co_activate_claim :: "string \<Rightarrow> string option \<Rightarrow> ClaimRecord co_op" where
  "co_activate_claim cid approval_id co =
     (case activate_claim cid approval_id (co_registry co) of
        Inl e \<Rightarrow> (co, Inl e)
      | Inr (reg, rec) \<Rightarrow>
          case co_save_claim_and_resource (rec_claim rec) (Some (rec_decision rec))
                 (co\<lparr>co_registry := reg\<rparr>) of
            (co1, Inl e) \<Rightarrow> (co1, Inl e)
          | (co1, Inr _) \<Rightarrow> (co1, Inr rec))"

definition co_release_claim :: "string \<Rightarrow> Claim co_op" where
  "co_release_claim cid co =
     (case release_claim cid (co_registry co) of
        Inl e \<Rightarrow> (co, Inl e)
      | Inr (reg, released) \<Rightarrow>
          case co_save_claim_and_resource released None (co\<lparr>co_registry := reg\<rparr>) of
            (co1, Inl e) \<Rightarrow> (co1, Inl e)
          | (co1, Inr _) \<Rightarrow> (co1, Inr released))"

definition co_approve_request ::
  "string \<Rightarrow> string \<Rightarrow> string option \<Rightarrow> ApprovalDecisionResult co_op" where
  "co_approve_request approval_id decided_by decided_at co =
     (case co_store co of
        None \<Rightarrow> (co, Inl (ValueError ''approval decisions require a store''))
      | Some st \<Rightarrow>
          case load_approval st approval_id of
            Inl e \<Rightarrow> (co, Inl e)
          | Inr current \<Rightarrow>
              let approved = current\<lparr>apr_status := Appr_APPROVED, apr_decided_by := Some decided_by,
                    apr_decided_at := decided_at\<rparr>;
                  risk = (case load_claim st (apr_subject_id approved) of
                            Inl _ \<Rightarrow> Risk_LOW | Inr c \<Rightarrow> cl_risk_level c);
                  event = \<lparr>ev_id = ''audit.'' @ approval_id @ ''.approved'',
                    ev_event_type = Event_APPROVED, ev_owner_domain = apr_owner_domain approved,
                    ev_subject_id = apr_subject_id approved,
                    ev_summary = approval_value (apr_approval_level approved) @ '' approval granted'',
                    ev_risk_level = risk, ev_evidence_ids = [approval_id], ev_occurred_at = None\<rparr>
              in (co_save (save_audit_event event) (co_save (save_approval approved) co),
                  Inr \<lparr>ad_approval = approved, ad_audit_event = event\<rparr>))"

fun register_all :: "Resource list \<Rightarrow> ResourceRegistry \<Rightarrow> ResourceRegistry result" where
  "register_all [] reg = Inr reg"
| "register_all (r # rs) reg = res_bind (register_resource r reg) (\<lambda>(reg', _). register_all rs reg')"

fun restore_all ::
  "OverseerStore \<Rightarrow> Claim list \<Rightarrow> ResourceRegistry \<Rightarrow> ResourceRegistry result" where
  "restore_all st [] reg = Inr reg"
| "restore_all st (c # cs) reg =
     (case load_decision st (cl_id c) of
        Inl _ \<Rightarrow> restore_all st cs reg
      | Inr d \<Rightarrow> res_bind (restore_claim c d reg) (\<lambda>(reg', _). restore_all st cs reg'))"

definition coordinator_from_store :: "OverseerStore \<Rightarrow> OverseerCoordinator result" where
  "coordinator_from_store st =
     res_bind (register_all (store_list_resources st) empty_registry) (\<lambda>reg1.
     res_bind (restore_all st (list_claims st) reg1) (\<lambda>reg2.
       Inr \<lparr>co_registry = reg2, co_store = Some st\<rparr>))"

definition needs_operator_approval :: "CoordinationResult \<Rightarrow> bool" where
  "needs_operator_approval r \<longleftrightarrow>
     cr_approval r \<noteq> None \<and> cl_status (rec_claim (cr_record r)) = Status_REQUESTED"

section \<open>The registry mirrors the store\<close>

definition store_wf :: "OverseerStore \<Rightarrow> bool" where
  "store_wf st \<longleftrightarrow> tables_ok st \<and>
     (\<forall>rid r. tbl_get (st_resources st) rid = Some r \<longrightarrow> res_id r = rid) \<and>
     (\<forall>cid c. tbl_get (st_claims st) cid = Some c \<longrightarrow>
        cl_id c = cid \<and> tbl_get (st_resources st) (cl_resource_id c) \<noteq> None \<and>
        tbl_get (st_decisions st) cid \<noteq> None)"

definition store_exclusive :: "OverseerStore \<Rightarrow> bool" where
  "store_exclusive st \<longleftrightarrow>
     (\<forall>i j c d. tbl_get (st_claims st) i = Some c \<longrightarrow> tbl_get (st_claims st) j = Some d \<longrightarrow>
        is_active_like c \<longrightarrow> is_active_like d \<longrightarrow> is_exclusive c \<longrightarrow>
        cl_resource_id c = cl_resource_id d \<longrightarrow> i = j)"

definition mirrors :: "ResourceRegistry \<Rightarrow> OverseerStore \<Rightarrow> bool" where
  "mirrors reg st \<longleftrightarrow> tables_ok st \<and>
     dict_get (reg_resources reg) = tbl_get (st_resources st) \<and>
     dict_get (reg_claims reg) = tbl_get (st_claims st) \<and>
     (\<forall>cid. tbl_get (st_claims st) cid \<noteq> None \<longrightarrow> tbl_get (st_decisions st) cid \<noteq> None)"

lemma mirrors_store_wf: "mirrors reg st \<Longrightarrow> registry_wf reg \<Longrightarrow> store_wf st"
  by (simp add: mirrors_def registry_wf_def store_wf_def)

lemma mirrors_exclusive: "mirrors reg st \<Longrightarrow> exclusive_ok reg \<longleftrightarrow> store_exclusive st"
  by (simp add: mirrors_def exclusive_ok_def store_exclusive_def)

lemma register_all_fold:
  assumes "distinct (map res_id rs)" and "\<forall>r \<in> set rs. dict_get (reg_resources reg) (res_id r) = None"
  shows "register_all rs reg =
    Inr (reg\<lparr>reg_resources := fold (\<lambda>(k, v). dict_set k v) (map (\<lambda>r. (res_id r, r)) rs) (reg_resources reg)\<rparr>)"
  using assms
proof (induction rs arbitrary: reg)
  case (Cons r rs)
  then have "register_resource r reg = Inr (reg\<lparr>reg_resources := dict_set (res_id r) r (reg_resources reg)\<rparr>, r)"
    by (simp add: register_resource_def)
  moreover have "\<forall>x \<in> set rs. dict_get (dict_set (res_id r) r (reg_resources reg)) (res_id x) = None"
    using Cons.prems by (auto simp: image_iff)
  ultimately show ?case
    using Cons.IH [of "reg\<lparr>reg_resources := dict_set (res_id r) r (reg_resources reg)\<rparr>"] Cons.prems by simp
qed simp

lemma restore_all_fold:
  assumes "\<forall>c \<in> set cs. tbl_get (st_decisions st) (cl_id c) \<noteq> None \<and>
      dict_get (reg_resources reg) (cl_resource_id c) \<noteq> None"
    and "dict_ok (reg_decisions reg)"
  shows "\<exists>reg'. restore_all st cs reg = Inr reg' \<and> reg_resources reg' = reg_resources reg \<and>
    reg_claims reg' = fold (\<lambda>(k, v). dict_set k v) (map (\<lambda>c. (cl_id c, c)) cs) (reg_claims reg) \<and>
    dict_ok (reg_decisions reg') \<and>
    (\<forall>k. dict_get (reg_decisions reg') k = None \<longrightarrow> dict_get (reg_decisions reg) k = None \<and> k \<notin> cl_id ` set cs)"
  using assms
proof (induction cs arbitrary: reg)
  case (Cons c cs)
  obtain d where d: "tbl_get (st_decisions st) (cl_id c) = Some d" using Cons.prems(1) by auto
  let ?reg = "reg\<lparr>reg_claims := dict_set (cl_id c) c (reg_claims reg),
    reg_decisions := dict_set (cl_id c) d (reg_decisions reg)\<rparr>"
  have step: "restore_all st (c # cs) reg = restore_all st cs ?reg"
    using Cons.prems(1) d by (auto simp: load_decision_def get_payload_def restore_claim_def)
  have "\<exists>reg'. restore_all st cs ?reg = Inr reg' \<and> reg_resources reg' = reg_resources ?reg \<and>
    reg_claims reg' = fold (\<lambda>(k, v). dict_set k v) (map (\<lambda>c. (cl_id c, c)) cs) (reg_claims ?reg) \<and>
    dict_ok (reg_decisions reg') \<and>
    (\<forall>k. dict_get (reg_decisions reg') k = None \<longrightarrow> dict_get (reg_decisions ?reg) k = None \<and> k \<notin> cl_id ` set cs)"
    by (rule Cons.IH) (use Cons.prems in auto)
  then obtain reg' where "restore_all st cs ?reg = Inr reg'" "reg_resources reg' = reg_resources ?reg"
    "reg_claims reg' = fold (\<lambda>(k, v). dict_set k v) (map (\<lambda>c. (cl_id c, c)) cs) (reg_claims ?reg)"
    "dict_ok (reg_decisions reg')"
    and dec: "\<And>k. dict_get (reg_decisions reg') k = None \<Longrightarrow>
      dict_get (reg_decisions ?reg) k = None \<and> k \<notin> cl_id ` set cs"
    by blast
  moreover have "dict_get (reg_decisions reg) k = None \<and> k \<notin> cl_id ` set (c # cs)"
    if "dict_get (reg_decisions reg') k = None" for k
    using dec [OF that] by (simp split: if_splits)
  ultimately show ?case unfolding step by (intro exI [of _ reg']) simp
qed simp

lemma table_of_ids:
  assumes "\<And>k v. (k, v) \<in> set t \<Longrightarrow> idf v = k"
  shows "map (\<lambda>v. (idf v, v)) (map snd t) = t"
  using assms by (induction t) auto

lemma store_wf_rows:
  assumes "store_wf st"
  shows "map (\<lambda>r. (res_id r, r)) (store_list_resources st) = st_resources st"
    and "map (\<lambda>c. (cl_id c, c)) (list_claims st) = st_claims st"
    and "distinct (map res_id (store_list_resources st))"
proof -
  show rs: "map (\<lambda>r. (res_id r, r)) (store_list_resources st) = st_resources st"
    unfolding store_list_resources_def
    by (rule table_of_ids) (use assms in \<open>auto simp: store_wf_def tables_ok_def tbl_mem_iff\<close>)
  show "map (\<lambda>c. (cl_id c, c)) (list_claims st) = st_claims st"
    unfolding list_claims_def
    by (rule table_of_ids) (use assms in \<open>auto simp: store_wf_def tables_ok_def tbl_mem_iff\<close>)
  have "map res_id (store_list_resources st) = map fst (st_resources st)"
    by (subst rs [symmetric]) (simp add: comp_def)
  then show "distinct (map res_id (store_list_resources st))"
    using assms by (simp add: store_wf_def tables_ok_def tbl_ok_distinct)
qed

lemma list_claims_mem:
  assumes "store_wf st" and "c \<in> set (list_claims st)"
  shows "tbl_get (st_claims st) (cl_id c) = Some c"
proof -
  have "(cl_id c, c) \<in> set (map (\<lambda>c. (cl_id c, c)) (list_claims st))" using assms(2) by auto
  then have "(cl_id c, c) \<in> set (st_claims st)" unfolding store_wf_rows(2) [OF assms(1)] .
  moreover have "tbl_ok (st_claims st)" using assms(1) by (simp add: store_wf_def tables_ok_def)
  ultimately show ?thesis by (simp add: tbl_mem_iff)
qed

lemma coordinator_from_store_mirrors:
  assumes "store_wf st"
  shows "\<exists>co. coordinator_from_store st = Inr co \<and> co_store co = Some st \<and>
    registry_wf (co_registry co) \<and> mirrors (co_registry co) st"
proof -
  let ?reg1 = "empty_registry\<lparr>reg_resources := fold (\<lambda>(k, v). dict_set k v) (st_resources st) []\<rparr>"
  have ok: "tbl_ok (st_resources st)" "tbl_ok (st_claims st)"
    using assms by (simp_all add: store_wf_def tables_ok_def)
  have r1: "register_all (store_list_resources st) empty_registry = Inr ?reg1"
    using register_all_fold [of "store_list_resources st" empty_registry] assms
    by (simp add: store_wf_rows empty_registry_def)
  have res: "dict_get (reg_resources ?reg1) = tbl_get (st_resources st)"
    using tb_pd.copy_get [OF ok(1)] by simp
  have pre: "\<forall>c \<in> set (list_claims st). tbl_get (st_decisions st) (cl_id c) \<noteq> None \<and>
      dict_get (reg_resources ?reg1) (cl_resource_id c) \<noteq> None"
    unfolding res using list_claims_mem [OF assms] assms by (fastforce simp: store_wf_def)
  obtain reg2 where r2: "restore_all st (list_claims st) ?reg1 = Inr reg2"
    and res2: "reg_resources reg2 = reg_resources ?reg1"
    and cl2: "reg_claims reg2 = fold (\<lambda>(k, v). dict_set k v) (st_claims st) []"
    and dec: "dict_ok (reg_decisions reg2)"
      "\<forall>k. dict_get (reg_decisions reg2) k = None \<longrightarrow> k \<notin> cl_id ` set (list_claims st)"
    using restore_all_fold [OF pre] assms by (auto simp: store_wf_rows empty_registry_def)
  have claims: "dict_get (reg_claims reg2) = tbl_get (st_claims st)"
    using tb_pd.copy_get [OF ok(2)] by (simp add: cl2)
  have mem: "\<And>cid c. tbl_get (st_claims st) cid = Some c \<Longrightarrow> c \<in> set (list_claims st)"
    using ok(2) by (force simp: list_claims_def tbl_mem_iff [symmetric])
  have "registry_wf reg2"
    unfolding registry_wf_def
  proof (intro conjI allI impI)
    show "dict_ok (reg_resources reg2)" "dict_ok (reg_claims reg2)" "dict_ok (reg_decisions reg2)"
      using dec(1) by (simp_all add: res2 cl2 pd.put_all_ok)
    show "res_id r = rid" if "dict_get (reg_resources reg2) rid = Some r" for rid r
      using that assms res res2 by (simp add: store_wf_def)
    fix cid c
    assume "dict_get (reg_claims reg2) cid = Some c"
    then have c: "tbl_get (st_claims st) cid = Some c" by (simp add: claims)
    then show id: "cl_id c = cid" and "dict_get (reg_resources reg2) (cl_resource_id c) \<noteq> None"
      using assms res res2 by (simp_all add: store_wf_def)
    have "cid \<in> cl_id ` set (list_claims st)" using mem [OF c] id by auto
    then show "dict_get (reg_decisions reg2) cid \<noteq> None" using dec(2) by blast
  qed
  moreover have "mirrors reg2 st"
    using assms claims res unfolding res2 [symmetric] by (auto simp: mirrors_def store_wf_def)
  ultimately show ?thesis by (simp add: coordinator_from_store_def r1 r2)
qed

section \<open>Every coordinator operation keeps the mirror\<close>

text \<open>The shape of a registry method on the claim \<open>c\<close>: only it and its resource change.\<close>

definition stores_claim :: "ResourceRegistry \<Rightarrow> ResourceRegistry \<Rightarrow> Claim \<Rightarrow> bool" where
  "stores_claim reg reg' c \<longleftrightarrow>
     reg_claims reg' = dict_set (cl_id c) c (reg_claims reg) \<and>
     (\<exists>r. dict_get (reg_resources reg') (cl_resource_id c) = Some r \<and> res_id r = cl_resource_id c) \<and>
     (\<forall>rid. rid \<noteq> cl_resource_id c \<longrightarrow>
        dict_get (reg_resources reg') rid = dict_get (reg_resources reg) rid)"

lemma request_stores_claim:
  assumes "request_claim c reg = Inr (reg', y)" and "registry_wf reg"
  shows "stores_claim reg reg' (rec_claim y)"
  using assms
  by (elim request_claim_effect) (auto simp: stores_claim_def registry_wfD(4))

lemma activate_stores_claim:
  assumes "activate_claim cid ap reg = Inr (reg', y)" and "registry_wf reg"
  shows "stores_claim reg reg' (rec_claim y)"
  using assms
  by (elim activate_claim_effect) (auto simp: stores_claim_def registry_wfD(1) registry_wfD(4))

lemma release_stores_claim:
  assumes "release_claim cid reg = Inr (reg', z)" and wf: "registry_wf reg"
  shows "stores_claim reg reg' z" and "dict_get (reg_claims reg) (cl_id z) \<noteq> None"
proof -
  obtain c where c: "dict_get (reg_claims reg) cid = Some c" and z: "z = c\<lparr>cl_status := Status_RELEASED\<rparr>"
    and cl: "reg_claims reg' = dict_set cid z (reg_claims reg)"
    and res: "reg_resources reg' =
      (case dict_get (reg_resources reg) (cl_resource_id c) of
         None \<Rightarrow> reg_resources reg
       | Some r \<Rightarrow> if res_current_claim_id r = Some cid
           then dict_set (res_id r) (r\<lparr>res_current_claim_id := None\<rparr>) (reg_resources reg)
           else reg_resources reg)"
    using assms(1) by (elim release_claim_effect) auto
  have id: "cl_id c = cid" using registry_wfD(1) [OF wf c] .
  obtain r where r: "dict_get (reg_resources reg) (cl_resource_id c) = Some r"
    using registry_wfD(2) [OF wf c] by blast
  have "res_id r = cl_resource_id c" using registry_wfD(4) [OF wf r] .
  then show "stores_claim reg reg' z" by (simp add: stores_claim_def z cl res r id)
  show "dict_get (reg_claims reg) (cl_id z) \<noteq> None" by (simp add: z id c)
qed

lemma mirrors_save:
  assumes "mirrors reg st" and "stores_claim reg reg' c"
    and "dict_get (reg_resources reg') (cl_resource_id c) = Some r"
    and "d \<noteq> None \<or> dict_get (reg_claims reg) (cl_id c) \<noteq> None"
  shows "mirrors reg' (save_resource r (save_claim c d st))"
proof -
  have ok: "tbl_ok (st_resources st)" "tbl_ok (st_claims st)" "tbl_ok (st_decisions st)" "tables_ok st"
    using assms(1) by (simp_all add: mirrors_def tables_ok_def)
  have id: "res_id r = cl_resource_id c"
    using assms(2,3) by (auto simp: stores_claim_def)
  have res: "dict_get (reg_resources reg') = (dict_get (reg_resources reg))(cl_resource_id c \<mapsto> r)"
    using assms(2,3) by (auto simp: stores_claim_def fun_eq_iff)
  have tabs: "st_resources (save_resource r (save_claim c d st)) = tbl_upsert (res_id r) r (st_resources st)"
      "st_claims (save_resource r (save_claim c d st)) = tbl_upsert (cl_id c) c (st_claims st)"
      "st_decisions (save_resource r (save_claim c d st)) =
        (case d of None \<Rightarrow> st_decisions st | Some x \<Rightarrow> tbl_upsert (cl_id c) x (st_decisions st))"
    by (simp_all add: store_ops Let_def split: option.splits)
  have "mirrors reg st" by fact
  then show ?thesis
    using assms(2,4) ok
    by (auto simp: mirrors_def stores_claim_def tabs res id tb.get_put dict_get_set split: option.splits)
qed

lemma mirrors_save_other [simp]:
  "mirrors reg st \<Longrightarrow> mirrors reg (save_approval a st)"
  "mirrors reg st \<Longrightarrow> mirrors reg (save_audit_event e st)"
  by (auto simp: mirrors_def tables_ok_def save_approval_def save_audit_event_def)

definition co_ok :: "OverseerCoordinator \<Rightarrow> bool" where
  "co_ok co \<longleftrightarrow> registry_wf (co_registry co) \<and> exclusive_ok (co_registry co) \<and>
     (\<forall>st. co_store co = Some st \<longrightarrow> mirrors (co_registry co) st)"

lemma co_save_sel [simp]:
  "co_registry (co_save f co) = co_registry co"
  "co_store (co_save f co) = map_option f (co_store co)"
  by (simp_all add: co_save_def)

lemma co_save_claim_and_resource_ok:
  assumes "\<forall>st. co_store co = Some st \<longrightarrow> mirrors reg st" and "stores_claim reg (co_registry co) c"
    and "d \<noteq> None \<or> dict_get (reg_claims reg) (cl_id c) \<noteq> None"
  obtains co' where "co_save_claim_and_resource c d co = (co', Inr ())"
    and "co_registry co' = co_registry co" and "co_store co' = None \<longleftrightarrow> co_store co = None"
    and "\<forall>st. co_store co' = Some st \<longrightarrow> mirrors (co_registry co) st"
proof (cases "co_store co")
  case None
  then show ?thesis using that [of co] by (simp add: co_save_claim_and_resource_def)
next
  case (Some st)
  obtain r where r: "dict_get (reg_resources (co_registry co)) (cl_resource_id c) = Some r"
    using assms(2) by (auto simp: stores_claim_def)
  have "mirrors (co_registry co) (save_resource r (save_claim c d st))"
    using mirrors_save [OF _ assms(2) r assms(3)] assms(1) Some by simp
  with Some r show ?thesis
    using that [of "co_save (save_resource r) (co_save (save_claim c d) co)"]
    by (simp add: co_save_claim_and_resource_def get_resource_def Let_def)
qed

lemma co_ok_registry_step:
  assumes "co_ok co" and "registry_step (co_registry co) reg'"
    and "co_registry co' = reg'" and "\<forall>st. co_store co' = Some st \<longrightarrow> mirrors reg' st"
  shows "co_ok co'"
  using assms registry_wf_step [OF assms(2)] exclusive_ok_step [OF assms(2)] by (simp add: co_ok_def)

lemma co_ok_save_other [simp]:
  "co_ok co \<Longrightarrow> co_ok (co_save (save_approval a) co)"
  "co_ok co \<Longrightarrow> co_ok (co_save (save_audit_event e) co)"
  by (auto simp: co_ok_def)

lemma co_ok_register_resource:
  assumes "co_ok co"
  shows "co_ok (fst (co_register_resource r co))"
proof (cases "register_resource r (co_registry co)")
  case (Inr p)
  obtain reg x where p: "p = (reg, x)" by (cases p)
  have eff: "reg = (co_registry co)\<lparr>reg_resources := dict_set (res_id r) r (reg_resources (co_registry co))\<rparr>"
    and x: "x = r" using Inr p by (auto simp: register_resource_def split: if_splits)
  have "registry_step (co_registry co) reg" using Inr p by (auto intro: rs_register)
  then show ?thesis
    by (rule co_ok_registry_step [OF assms])
      (use assms Inr in \<open>auto simp: co_register_resource_def p eff x co_ok_def mirrors_def tables_ok_def
        save_resource_def tb.get_put dict_get_set\<close>)
qed (simp add: co_register_resource_def assms)

lemma co_request_claim_ok:
  assumes "co_ok co"
  shows "co_ok (fst (co_request_claim c co))"
    and "request_claim c (co_registry co) = Inr (reg, rec) \<Longrightarrow>
      \<exists>res. snd (co_request_claim c co) = Inr res \<and> cr_record res = rec"
proof -
  have "co_ok (fst (co_request_claim c co)) \<and>
    (\<forall>reg rec. request_claim c (co_registry co) = Inr (reg, rec) \<longrightarrow>
      (\<exists>res. snd (co_request_claim c co) = Inr res \<and> cr_record res = rec))"
  proof (cases "request_claim c (co_registry co)")
    case (Inr p)
    obtain reg rec where p: "p = (reg, rec)" by (cases p)
    have wf: "registry_wf (co_registry co)" and m: "\<forall>st. co_store co = Some st \<longrightarrow> mirrors (co_registry co) st"
      using assms by (simp_all add: co_ok_def)
    have "stores_claim (co_registry co) reg (rec_claim rec)"
      using request_stores_claim [OF _ wf] Inr p by simp
    then obtain co' where save: "co_save_claim_and_resource (rec_claim rec) (Some (rec_decision rec))
        (co\<lparr>co_registry := reg\<rparr>) = (co', Inr ())" and "co_registry co' = reg"
      and "\<forall>st. co_store co' = Some st \<longrightarrow> mirrors reg st"
      using co_save_claim_and_resource_ok [of "co\<lparr>co_registry := reg\<rparr>" "co_registry co" "rec_claim rec"
        "Some (rec_decision rec)"] m by auto
    moreover have "registry_step (co_registry co) reg" using Inr p by (auto intro: rs_request)
    ultimately have "co_ok co'" by (intro co_ok_registry_step [OF assms])
    then show ?thesis
      using Inr by (simp add: co_request_claim_def p Let_def co_persist_result_def save split: option.splits)
  qed (simp add: co_request_claim_def assms)
  then show "co_ok (fst (co_request_claim c co))"
    and "request_claim c (co_registry co) = Inr (reg, rec) \<Longrightarrow>
      \<exists>res. snd (co_request_claim c co) = Inr res \<and> cr_record res = rec"
    by auto
qed

lemma co_activate_claim_ok:
  assumes "co_ok co"
  shows "co_ok (fst (co_activate_claim cid ap co)) \<and>
    snd (co_activate_claim cid ap co) = map_sum id snd (activate_claim cid ap (co_registry co))"
proof (cases "activate_claim cid ap (co_registry co)")
  case (Inr p)
  obtain reg rec where p: "p = (reg, rec)" by (cases p)
  have wf: "registry_wf (co_registry co)" and m: "\<forall>st. co_store co = Some st \<longrightarrow> mirrors (co_registry co) st"
    using assms by (simp_all add: co_ok_def)
  have "stores_claim (co_registry co) reg (rec_claim rec)"
    using activate_stores_claim [OF _ wf] Inr p by simp
  then obtain co' where save: "co_save_claim_and_resource (rec_claim rec) (Some (rec_decision rec))
      (co\<lparr>co_registry := reg\<rparr>) = (co', Inr ())" and "co_registry co' = reg"
    and "\<forall>st. co_store co' = Some st \<longrightarrow> mirrors reg st"
    using co_save_claim_and_resource_ok [of "co\<lparr>co_registry := reg\<rparr>" "co_registry co" "rec_claim rec"
      "Some (rec_decision rec)"] m by auto
  moreover have "registry_step (co_registry co) reg" using Inr p by (auto intro: rs_activate)
  ultimately have "co_ok co'" by (intro co_ok_registry_step [OF assms])
  then show ?thesis using Inr by (simp add: co_activate_claim_def p save)
qed (simp add: co_activate_claim_def assms)

lemma co_release_claim_ok:
  assumes "co_ok co"
  shows "co_ok (fst (co_release_claim cid co)) \<and>
    snd (co_release_claim cid co) = map_sum id snd (release_claim cid (co_registry co))"
proof (cases "release_claim cid (co_registry co)")
  case (Inr p)
  obtain reg z where p: "p = (reg, z)" by (cases p)
  have wf: "registry_wf (co_registry co)" and m: "\<forall>st. co_store co = Some st \<longrightarrow> mirrors (co_registry co) st"
    using assms by (simp_all add: co_ok_def)
  have "stores_claim (co_registry co) reg z" "dict_get (reg_claims (co_registry co)) (cl_id z) \<noteq> None"
    using release_stores_claim [OF _ wf] Inr p by simp_all
  then obtain co' where save: "co_save_claim_and_resource z None (co\<lparr>co_registry := reg\<rparr>) = (co', Inr ())"
    and "co_registry co' = reg" and "\<forall>st. co_store co' = Some st \<longrightarrow> mirrors reg st"
    using co_save_claim_and_resource_ok [of "co\<lparr>co_registry := reg\<rparr>" "co_registry co" z None] m by auto
  moreover have "registry_step (co_registry co) reg" using Inr p by (auto intro: rs_release)
  ultimately have "co_ok co'" by (intro co_ok_registry_step [OF assms])
  then show ?thesis using Inr by (simp add: co_release_claim_def p save)
qed (simp add: co_release_claim_def assms)

lemma co_approve_request_ok: "co_ok co \<Longrightarrow> co_ok (fst (co_approve_request aid dby dat co))"
  by (auto simp: co_approve_request_def co_ok_def Let_def split: option.splits sum.splits)

inductive coordinator_step :: "OverseerCoordinator \<Rightarrow> OverseerCoordinator \<Rightarrow> bool" where
  cs_register: "coordinator_step co (fst (co_register_resource r co))"
| cs_request: "coordinator_step co (fst (co_request_claim c co))"
| cs_activate: "coordinator_step co (fst (co_activate_claim cid ap co))"
| cs_release: "coordinator_step co (fst (co_release_claim cid co))"
| cs_approve: "coordinator_step co (fst (co_approve_request aid dby dat co))"

definition co_initial :: "OverseerCoordinator \<Rightarrow> bool" where
  "co_initial co \<longleftrightarrow> co = \<lparr>co_registry = empty_registry, co_store = Some empty_store\<rparr> \<or>
     (\<exists>st. store_wf st \<and> store_exclusive st \<and> coordinator_from_store st = Inr co)"

lemma co_ok_initial: "co_initial co \<Longrightarrow> co_ok co"
proof (unfold co_initial_def, elim disjE exE conjE)
  assume "co = \<lparr>co_registry = empty_registry, co_store = Some empty_store\<rparr>"
  then show "co_ok co"
    using registry_wf_empty
    by (simp add: co_ok_def exclusive_ok_def mirrors_def tables_ok_def empty_registry_def empty_store_def
        fun_eq_iff)
next
  fix st
  assume wf: "store_wf st" and ex: "store_exclusive st" and co: "coordinator_from_store st = Inr co"
  then have "co_store co = Some st" "registry_wf (co_registry co)" "mirrors (co_registry co) st"
    using coordinator_from_store_mirrors [OF wf] by auto
  then show "co_ok co" using ex by (simp add: co_ok_def mirrors_exclusive)
qed

interpretation co_inv: step_invariant co_initial coordinator_step co_ok
proof unfold_locales
  show "co_ok co" if "co_initial co" for co using co_ok_initial [OF that] .
  show "co_ok t" if "co_ok s" and "coordinator_step s t" for s t
    using that(2,1)
    by cases (auto intro: co_ok_register_resource co_request_claim_ok(1) co_approve_request_ok
        simp: co_activate_claim_ok co_release_claim_ok)
qed

section \<open>Properties of the coordinator\<close>


definition sample_coordinator :: OverseerCoordinator where
  "sample_coordinator = fst (co_request_claim (sample_claim ''q'' Claim_QUARANTINE Risk_LOW)
     (fst (co_register_resource (sample_resource Type_SERVICE Risk_LOW)
       \<lparr>co_registry = empty_registry, co_store = Some empty_store\<rparr>)))"

lemma sample_coordinator_reach: "reach co_initial coordinator_step sample_coordinator"
  unfolding sample_coordinator_def
  by (intro reach_step [where step = coordinator_step, OF _ cs_request]
      reach_step [where step = coordinator_step, OF _ cs_register] reach_init) (simp add: co_initial_def)


end
