(* ===== verification/Clock.thy ===== *)
theory Clock
  imports Prelude
begin

text \<open>
  Timestamps. The sources keep them as ISO-8601 strings and read them back with
  \<open>datetime.fromisoformat\<close>. A datetime is its wall clock in microseconds since 0001-01-01 with
  its UTC offset, if it has one. The parser accepts the extended calendar format
  \<^verbatim>\<open>YYYY-MM-DD[?HH[:MM[:SS[.f+]]][Z|+HH[:MM[:SS]]]]\<close>, which contains every string
  \<open>datetime.isoformat\<close> prints; the basic and week-date notations that Python also reads are
  rejected here.
\<close>

record py_datetime =
  dt_wall :: int
  dt_offset :: "int option"

definition MICROS :: int where "MICROS = 1000000"

fun digits_val :: "int \<Rightarrow> string \<Rightarrow> int option" where
  "digits_val acc [] = Some acc"
| "digits_val acc (c # cs) = (if is_digit c then digits_val (10 * acc + (of_char c - 48)) cs else None)"

definition digits_of :: "nat \<Rightarrow> string \<Rightarrow> int option" where
  "digits_of n s = (if length s = n then digits_val 0 s else None)"

definition leap_year :: "int \<Rightarrow> bool" where
  "leap_year y \<longleftrightarrow> y mod 4 = 0 \<and> (y mod 100 \<noteq> 0 \<or> y mod 400 = 0)"

definition days_in_month :: "int \<Rightarrow> int \<Rightarrow> int" where
  "days_in_month y m =
     (if m = 2 then (if leap_year y then 29 else 28) else if m \<in> {4, 6, 9, 11} then 30 else 31)"

definition ymd_ordinal :: "int \<Rightarrow> int \<Rightarrow> int \<Rightarrow> int" where
  "ymd_ordinal y m d =
     365 * (y - 1) + (y - 1) div 4 - (y - 1) div 100 + (y - 1) div 400
     + sum_list (map (days_in_month y) (filter (\<lambda>k. k < m) [1, 2, 3, 4, 5, 6, 7, 8, 9, 10, 11, 12])) + d"

definition parse_date :: "string \<Rightarrow> int option" where
  "parse_date s =
     (if length s = 10 \<and> s ! 4 = CHR ''-'' \<and> s ! 7 = CHR ''-'' then
        (case (digits_of 4 (take 4 s), digits_of 2 (take 2 (drop 5 s)), digits_of 2 (drop 8 s)) of
           (Some y, Some m, Some d) \<Rightarrow>
             if 1 \<le> y \<and> 1 \<le> m \<and> m \<le> 12 \<and> 1 \<le> d \<and> d \<le> days_in_month y m
             then Some (ymd_ordinal y m d) else None
         | _ \<Rightarrow> None)
      else None)"

text \<open>Hours, minutes and seconds in microseconds, with the field ranges checked when \<open>strict\<close>.\<close>

definition parse_hms :: "bool \<Rightarrow> string \<Rightarrow> int option" where
  "parse_hms strict s =
     (let h = digits_of 2 (take 2 s);
          m = (if length s = 2 then Some 0 else if s ! 2 = CHR '':'' then digits_of 2 (take 2 (drop 3 s)) else None);
          sec = (if length s \<le> 5 then Some 0 else if s ! 5 = CHR '':'' then digits_of 2 (drop 6 s) else None)
      in if length s \<in> {2, 5, 8} then
           (case (h, m, sec) of
              (Some h, Some m, Some sec) \<Rightarrow>
                if strict \<longrightarrow> h < 24 \<and> m < 60 \<and> sec < 60
                then Some ((3600 * h + 60 * m + sec) * MICROS) else None
            | _ \<Rightarrow> None)
         else None)"

definition parse_fraction :: "string \<Rightarrow> int option" where
  "parse_fraction f =
     (if f = [] then None
      else case digits_val 0 f of None \<Rightarrow> None | Some _ \<Rightarrow>
        (digits_val 0 (take 6 (f @ ''000000''))))"

definition parse_clock :: "string \<Rightarrow> int option" where
  "parse_clock s =
     (if 8 < length s then
        (if s ! 8 \<in> {CHR ''.'', CHR '',''} then
           (case (parse_hms True (take 8 s), parse_fraction (drop 9 s)) of
              (Some t, Some u) \<Rightarrow> Some (t + u) | _ \<Rightarrow> None)
         else None)
      else parse_hms True s)"

definition parse_offset :: "string \<Rightarrow> int option option" where
  "parse_offset s =
     (case s of
        [] \<Rightarrow> Some None
      | c # cs \<Rightarrow>
          if c = CHR ''Z'' then (if cs = [] then Some (Some 0) else None)
          else (case parse_hms False cs of
                  None \<Rightarrow> None
                | Some off \<Rightarrow> if off < 24 * 3600 * MICROS
                    then Some (Some (if c = CHR ''-'' then - off else off)) else None))"

definition fromisoformat :: "string \<Rightarrow> py_datetime result" where
  "fromisoformat s =
     (let zone = (\<lambda>c. c \<notin> {CHR ''+'', CHR ''-'', CHR ''Z''});
          err = Inl (ValueError (''Invalid isoformat string: '' @ s))
      in case (parse_date (take 10 s), drop 10 s) of
           (None, _) \<Rightarrow> err
         | (Some day, []) \<Rightarrow> Inr \<lparr>dt_wall = day * 24 * 3600 * MICROS, dt_offset = None\<rparr>
         | (Some day, _ # t) \<Rightarrow>
             (case (parse_clock (takeWhile zone t), parse_offset (dropWhile zone t)) of
                (Some us, Some off) \<Rightarrow> Inr \<lparr>dt_wall = day * 24 * 3600 * MICROS + us, dt_offset = off\<rparr>
              | _ \<Rightarrow> err))"

text \<open>
  The instant an aware datetime denotes, in microseconds of UTC; \<open>utc_instant\<close> reads a naive one
  as UTC, which is what \<open>parsed.replace(tzinfo=UTC)\<close> does.
\<close>

definition utc_instant :: "py_datetime \<Rightarrow> int" where
  "utc_instant d = dt_wall d - (case dt_offset d of None \<Rightarrow> 0 | Some off \<Rightarrow> off)"

definition parse_optional_datetime :: "string option \<Rightarrow> int option result" where
  "parse_optional_datetime value =
     (if \<not> str_true value then Inr None
      else res_bind (fromisoformat (replace_char CHR ''Z'' ''+00:00'' (the value)))
             (\<lambda>parsed. Inr (Some (utc_instant parsed))))"

lemmas clock_simps = parse_optional_datetime_def fromisoformat_def utc_instant_def parse_date_def
  parse_clock_def parse_offset_def parse_hms_def parse_fraction_def digits_of_def is_digit_def
  ymd_ordinal_def days_in_month_def leap_year_def MICROS_def replace_char_def Let_def

lemma parse_offset_example:
  "parse_optional_datetime (Some ''2024-03-01T01:30:00.25+01:30'') =
     res_bind (parse_optional_datetime (Some ''2024-03-01T00:00:00Z''))
       (\<lambda>t. Inr (map_option (\<lambda>u. u + 250000) t))"
  by (simp add: clock_simps)

lemma parse_optional_datetime_bad: "parse_optional_datetime (Some ''2023-02-29'') =
    Inl (ValueError ''Invalid isoformat string: 2023-02-29'')"
  by (simp add: clock_simps)

end
