(* ===== verification/Claim_Commands.thy ===== *)
theory Claim_Commands
  imports Coordinator Clock
begin

text \<open>
  The claim, approval, release and claim-cleanup commands of \<^verbatim>\<open>src/overseer/cli.py\<close>. A command
  is a function from the persisted store to the store it leaves and the result: the status
  dictionary it returns, or the exception it raises after the writes already made. \<open>path\<close> is
  the store path it prints; \<open>clock\<close> is the instant \<open>datetime.now(UTC)\<close> would read.
\<close>

type_synonym command = "OverseerStore \<Rightarrow> OverseerStore \<times> pyval result"

definition with_coordinator ::
  "OverseerStore \<Rightarrow> 'a co_op \<Rightarrow> OverseerStore \<times> 'a result" where
  "with_coordinator st run =
     (case coordinator_from_store st of
        Inl e \<Rightarrow> (st, Inl e)
      | Inr co \<Rightarrow> (case run co of (co', r) \<Rightarrow>
          ((case co_store co' of None \<Rightarrow> st | Some st' \<Rightarrow> st'), r)))"

definition map_result :: "('a \<Rightarrow> 'b) \<Rightarrow> OverseerStore \<times> 'a result \<Rightarrow> OverseerStore \<times> 'b result" where
  "map_result f p = (fst p, map_sum id f (snd p))"

definition resource_status :: "Resource \<Rightarrow> pyval" where
  "resource_status r = PDict
     [(''id'', PStr (res_id r)), (''name'', PStr (res_name r)),
      (''type'', PStr (resource_type_value (res_type r))),
      (''owner_domain'', PStr (owner_value (res_owner_domain r))),
      (''risk_level'', PStr (risk_value (res_risk_level r))),
      (''state'', PStr (resource_state_value (res_state r))),
      (''identifiers'', PDict (res_identifiers r)),
      (''dependencies'', str_list (sorted_list_of_set (res_dependencies r))),
      (''exclusive_groups'', str_list (sorted_list_of_set (res_exclusive_groups r))),
      (''current_claim_id'', opt_str (res_current_claim_id r)),
      (''last_verified_at'', opt_str (res_last_verified_at r)),
      (''notes'', PStr (res_notes r))]"

definition record_resource_status ::
  "string \<Rightarrow> string \<Rightarrow> string \<Rightarrow> string \<Rightarrow> string \<Rightarrow> string \<Rightarrow> string \<Rightarrow> (string, pyval) pydict \<Rightarrow>
   string list \<Rightarrow> string list \<Rightarrow> string option \<Rightarrow> string option \<Rightarrow> string \<Rightarrow> command" where
  "record_resource_status path resource_id name resource_type owner_domain risk_level state
     identifiers dependencies exclusive_groups current_claim_id last_verified_at notes st =
     (case (res_bind (resource_type_of resource_type) (\<lambda>rt.
            res_bind (owner_of owner_domain) (\<lambda>ow.
            res_bind (risk_of risk_level) (\<lambda>rl.
            res_bind (resource_state_of state) (\<lambda>rs.
              Inr \<lparr>res_id = resource_id, res_name = name, res_type = rt, res_owner_domain = ow,
                res_risk_level = rl, res_state = rs, res_identifiers = identifiers,
                res_dependencies = set dependencies, res_exclusive_groups = set exclusive_groups,
                res_current_claim_id = current_claim_id, res_last_verified_at = last_verified_at,
                res_notes = notes\<rparr>))))) of
        Inl e \<Rightarrow> (st, Inl e)
      | Inr resource \<Rightarrow>
          (save_resource resource st,
           Inr (PDict [(''store'', PStr path), (''resource'', resource_status resource),
             (''mutation_performed'', PBool True), (''host_mutation_performed'', PBool False)])))"

definition request_claim_status ::
  "string \<Rightarrow> string \<Rightarrow> string \<Rightarrow> string \<Rightarrow> string \<Rightarrow> string \<Rightarrow> string \<Rightarrow> string \<Rightarrow> string \<Rightarrow>
   int list \<Rightarrow> string option \<Rightarrow> string option \<Rightarrow> string option \<Rightarrow> command" where
  "request_claim_status path claim_id resource_id claim_type owner_thread owner_role intent
     requested_action risk_level ports starts_at expires_at release_condition st =
     map_result (\<lambda>result. PDict
       [(''store'', PStr path), (''claim'', PStr (cl_id (rec_claim (cr_record result)))),
        (''claim_status'', PStr (claim_status_value (cl_status (rec_claim (cr_record result))))),
        (''decision'', PStr (outcome_value (dec_outcome (rec_decision (cr_record result))))),
        (''approval'', PStr (approval_value (dec_approval_level (rec_decision (cr_record result))))),
        (''approval_id'', opt_str (map_option apr_id (cr_approval result))),
        (''audit_event'', PStr (ev_id (cr_audit_event result))),
        (''blocking_claim_ids'', str_list (dec_blocking_claim_ids (rec_decision (cr_record result)))),
        (''reason'', PStr (dec_reason (rec_decision (cr_record result))))])
     (with_coordinator st (\<lambda>co.
        case (res_bind (claim_type_of claim_type) (\<lambda>ct.
              res_bind (owner_of owner_role) (\<lambda>ow.
              res_bind (risk_of risk_level) (\<lambda>rl.
                Inr \<lparr>cl_id = claim_id, cl_resource_id = resource_id, cl_claim_type = ct,
                  cl_owner_thread = owner_thread, cl_owner_role = ow, cl_intent = intent,
                  cl_requested_action = requested_action, cl_risk_level = rl,
                  cl_status = Status_REQUESTED, cl_created_at = None, cl_starts_at = starts_at,
                  cl_expires_at = expires_at, cl_release_condition = release_condition,
                  cl_approval_id = None, cl_evidence_ids = [], cl_port_reservations = set ports,
                  cl_dependency_ids = {}, cl_exclusive_groups = {}, cl_state_mutation = ''none''\<rparr>)))) of
          Inl e \<Rightarrow> (co, Inl e)
        | Inr claim \<Rightarrow> co_request_claim claim co))"

text \<open>The approval gate at the head of \<open>activate_claim_status\<close>.\<close>

definition activation_gate ::
  "OverseerStore \<Rightarrow> string \<Rightarrow> string option \<Rightarrow> unit result" where
  "activation_gate st claim_id approval_id =
     res_bind (load_decision st claim_id) (\<lambda>decision.
       if dec_approval_level decision \<noteq> Approval_NONE then
         (case approval_id of
            None \<Rightarrow> Inl (ValueError (''claim requires '' @ approval_value (dec_approval_level decision) @
              '' approval before activation''))
          | Some aid \<Rightarrow>
              res_bind (load_approval st aid) (\<lambda>approval.
                if apr_subject_id approval \<noteq> claim_id
                then Inl (ValueError ''approval subject does not match claim'')
                else if \<not> approval_can_execute approval
                then Inl (ValueError ''approval is not approved'')
                else Inr ()))
       else Inr ())"

definition activate_claim_status :: "string \<Rightarrow> string \<Rightarrow> string option \<Rightarrow> command" where
  "activate_claim_status path claim_id approval_id st =
     (case activation_gate st claim_id approval_id of
        Inl e \<Rightarrow> (st, Inl e)
      | Inr _ \<Rightarrow>
          map_result (\<lambda>rec. PDict
            [(''store'', PStr path), (''claim'', PStr (cl_id (rec_claim rec))),
             (''claim_status'', PStr (claim_status_value (cl_status (rec_claim rec)))),
             (''decision'', PStr (outcome_value (dec_outcome (rec_decision rec)))),
             (''approval'', PStr (approval_value (dec_approval_level (rec_decision rec)))),
             (''blocking_claim_ids'', str_list (dec_blocking_claim_ids (rec_decision rec))),
             (''reason'', PStr (dec_reason (rec_decision rec)))])
          (with_coordinator st (co_activate_claim claim_id approval_id)))"

definition approve_claim_status ::
  "string \<Rightarrow> string \<Rightarrow> string \<Rightarrow> string option \<Rightarrow> command" where
  "approve_claim_status path approval_id decided_by decided_at st =
     map_result (\<lambda>result. PDict
       [(''store'', PStr path), (''approval_id'', PStr (apr_id (ad_approval result))),
        (''subject_id'', PStr (apr_subject_id (ad_approval result))),
        (''approval_status'', PStr (approval_status_value (apr_status (ad_approval result)))),
        (''decided_by'', opt_str (apr_decided_by (ad_approval result))),
        (''audit_event'', PStr (ev_id (ad_audit_event result)))])
     (with_coordinator st (co_approve_request approval_id decided_by decided_at))"

definition audit_event_status :: "AuditEvent \<Rightarrow> pyval" where
  "audit_event_status e = PDict
     [(''id'', PStr (ev_id e)), (''event_type'', PStr (event_type_value (ev_event_type e))),
      (''subject_id'', PStr (ev_subject_id e)),
      (''owner_domain'', PStr (owner_value (ev_owner_domain e))),
      (''risk_level'', PStr (risk_value (ev_risk_level e))), (''summary'', PStr (ev_summary e)),
      (''evidence_ids'', str_list (ev_evidence_ids e)), (''occurred_at'', opt_str (ev_occurred_at e))]"

definition release_claim_status ::
  "string \<Rightarrow> string \<Rightarrow> string option \<Rightarrow> string option \<Rightarrow> string list \<Rightarrow> string option \<Rightarrow> command" where
  "release_claim_status path claim_id released_by reason evidence_ids released_at st =
     (case with_coordinator st (\<lambda>co.
             case load_claim st claim_id of
               Inl e \<Rightarrow> (co, Inl e)
             | Inr existing \<Rightarrow>
                 (case co_release_claim claim_id co of
                    (co', Inl e) \<Rightarrow> (co', Inl e)
                  | (co', Inr claim) \<Rightarrow>
                      let event = \<lparr>ev_id = ''audit.'' @ cl_id claim @ ''.released'',
                            ev_event_type = Event_RELEASED, ev_owner_domain = cl_owner_role claim,
                            ev_subject_id = cl_id claim,
                            ev_summary = str_default reason ''claim released by operator'',
                            ev_risk_level = cl_risk_level existing, ev_evidence_ids = evidence_ids,
                            ev_occurred_at = released_at\<rparr>
                      in (co_save (save_audit_event event) co', Inr (claim, event)))) of
        (st', Inl e) \<Rightarrow> (st', Inl e)
      | (st', Inr (claim, event)) \<Rightarrow>
          (st', Inr (PDict
            [(''store'', PStr path), (''claim'', PStr (cl_id claim)),
             (''claim_status'', PStr (claim_status_value (cl_status claim))),
             (''released_by'', opt_str released_by),
             (''reason'', PStr (str_default reason ''claim released by operator'')),
             (''release_evidence_complete'', PBool (evidence_ids \<noteq> [])),
             (''audit_event'', audit_event_status event)])))"

end
