(* ===== verification/Claim_Cleanup.thy ===== *)
theory Claim_Cleanup
  imports Claim_Commands
begin

text \<open>
  Claim review and cleanup of \<^verbatim>\<open>src/overseer/cli.py\<close>: which claims need attention, the approval
  a cleanup needs, and its execution.
\<close>

definition claim_is_expired :: "Claim \<Rightarrow> int \<Rightarrow> bool result" where
  "claim_is_expired c checked_at =
     res_bind (parse_optional_datetime (cl_expires_at c)) (\<lambda>expires_at.
       Inr (case expires_at of None \<Rightarrow> False | Some t \<Rightarrow> t \<le> checked_at))"

definition claim_review_next_step :: "Claim \<Rightarrow> bool \<Rightarrow> bool \<Rightarrow> string" where
  "claim_review_next_step c expired missing_release_condition =
     (if expired \<and> is_active_like c then
        ''operator review required before release, revocation, renewal, or takeover''
      else if missing_release_condition then
        ''add release evidence or release condition before considering the resource available''
      else if cl_status c = Status_QUEUED then
        ''wait for blocking claim release or re-evaluate after operator review''
      else if cl_status c = Status_ACTIVE then ''monitor release condition''
      else ''no operator action required'')"

text \<open>The fields of the review dictionary; the claim and resource it prints are kept whole.\<close>

record claim_review =
  rv_claim :: Claim
  rv_resource_name :: "string option"
  rv_resource_owner :: "string option"
  rv_active_like :: bool
  rv_exclusive :: bool
  rv_expired :: bool
  rv_missing_release_condition :: bool
  rv_operator_review_required :: bool
  rv_next_step :: string

definition claim_review_item_status ::
  "Claim \<Rightarrow> Resource option \<Rightarrow> int \<Rightarrow> claim_review result" where
  "claim_review_item_status c resource checked_at =
     res_bind (claim_is_expired c checked_at) (\<lambda>expired.
       let missing = (is_exclusive c \<and> is_active_like c \<and> \<not> str_true (cl_release_condition c))
       in Inr \<lparr>rv_claim = c, rv_resource_name = map_option res_name resource,
            rv_resource_owner = map_option (\<lambda>r. owner_value (res_owner_domain r)) resource,
            rv_active_like = is_active_like c, rv_exclusive = is_exclusive c, rv_expired = expired,
            rv_missing_release_condition = missing,
            rv_operator_review_required = ((expired \<and> is_active_like c) \<or> missing),
            rv_next_step = claim_review_next_step c expired missing\<rparr>)"

record claim_review_report =
  rr_claims :: nat
  rr_active_like :: nat
  rr_queued :: nat
  rr_expired_active_like :: nat
  rr_missing_release_condition :: nat
  rr_operator_review_required :: nat
  rr_items :: "claim_review list"

fun map_result_list :: "('a \<Rightarrow> 'b result) \<Rightarrow> 'a list \<Rightarrow> 'b list result" where
  "map_result_list f [] = Inr []"
| "map_result_list f (x # xs) = res_bind (f x) (\<lambda>y. res_bind (map_result_list f xs) (\<lambda>ys. Inr (y # ys)))"

definition count_if :: "('a \<Rightarrow> bool) \<Rightarrow> 'a list \<Rightarrow> nat" where
  "count_if P xs = length (filter P xs)"

definition resources_by_id :: "OverseerStore \<Rightarrow> (string, Resource) pydict" where
  "resources_by_id st = fold (\<lambda>r. dict_set (res_id r) r) (store_list_resources st) []"

definition claims_by_id :: "OverseerStore \<Rightarrow> (string, Claim) pydict" where
  "claims_by_id st = fold (\<lambda>c. dict_set (cl_id c) c) (list_claims st) []"

definition checked_now :: "int \<Rightarrow> string option \<Rightarrow> int result" where
  "checked_now clock now =
     res_bind (parse_optional_datetime now) (\<lambda>t. Inr (case t of None \<Rightarrow> clock | Some t \<Rightarrow> t))"

definition claim_review_status ::
  "int \<Rightarrow> string option \<Rightarrow> OverseerStore \<Rightarrow> claim_review_report result" where
  "claim_review_status clock now st =
     res_bind (checked_now clock now) (\<lambda>checked_at.
     res_bind (map_result_list (\<lambda>c. claim_review_item_status c
         (dict_get (resources_by_id st) (cl_resource_id c)) checked_at) (list_claims st)) (\<lambda>items.
       Inr \<lparr>rr_claims = length items, rr_active_like = count_if rv_active_like items,
         rr_queued = count_if (\<lambda>i. cl_status (rv_claim i) = Status_QUEUED) items,
         rr_expired_active_like = count_if (\<lambda>i. rv_expired i \<and> rv_active_like i) items,
         rr_missing_release_condition = count_if rv_missing_release_condition items,
         rr_operator_review_required = count_if rv_operator_review_required items,
         rr_items = items\<rparr>))"

definition claim_blocking_claim_ids :: "OverseerStore \<Rightarrow> string \<Rightarrow> string list" where
  "claim_blocking_claim_ids st cid =
     (case load_decision st cid of Inl _ \<Rightarrow> [] | Inr d \<Rightarrow> dec_blocking_claim_ids d)"

record cleanup_item =
  ci_review :: claim_review
  ci_cleanup_candidate :: bool
  ci_cleanup_action :: string
  ci_cleanup_next_step :: string
  ci_approval_required :: bool
  ci_required_gate :: string
  ci_blocking_claim_ids :: "string list"
  ci_active_blocking_claim_ids :: "string list"

definition claim_cleanup_plan_item_status ::
  "OverseerStore \<Rightarrow> Claim \<Rightarrow> Resource option \<Rightarrow> (string, Claim) pydict \<Rightarrow> int \<Rightarrow>
   cleanup_item result" where
  "claim_cleanup_plan_item_status st c resource by_id checked_at =
     res_bind (claim_review_item_status c resource checked_at) (\<lambda>review.
       let blocking = claim_blocking_claim_ids st (cl_id c);
           active_blocking = filter (\<lambda>b. case dict_get by_id b of
             None \<Rightarrow> False | Some o' \<Rightarrow> is_active_like o') blocking;
           (action, next_step, approval_required, gate) =
             (if rv_expired review \<and> rv_active_like review then
                (''review_expired_active_claim'',
                 ''operator must approve release, revocation, renewal, or takeover'', True, ''operator_review'')
              else if rv_missing_release_condition review then
                (''add_release_condition_or_evidence'',
                 ''record release condition or evidence before cleanup can proceed'', False, ''owner_evidence'')
              else if cl_status c = Status_QUEUED \<and> blocking \<noteq> [] \<and> active_blocking = [] then
                (''re_evaluate_stale_queue'',
                 ''re-run the claim decision because recorded blockers are no longer active-like'', False,
                 ''decision_review'')
              else if cl_status c = Status_BLOCKED then
                (''review_blocked_claim'',
                 ''operator should cancel, revise, or re-request the blocked claim'', False, ''operator_review'')
              else (''none'', ''no cleanup action required'', False, ''none''))
       in Inr \<lparr>ci_review = review, ci_cleanup_candidate = (action \<noteq> ''none''),
            ci_cleanup_action = action, ci_cleanup_next_step = next_step,
            ci_approval_required = approval_required, ci_required_gate = gate,
            ci_blocking_claim_ids = blocking, ci_active_blocking_claim_ids = active_blocking\<rparr>)"

definition claim_cleanup_candidate_for_store ::
  "OverseerStore \<Rightarrow> string \<Rightarrow> int \<Rightarrow> cleanup_item result" where
  "claim_cleanup_candidate_for_store st cid checked_at =
     (case load_claim st cid of
        Inl _ \<Rightarrow> Inl (ValueError (''claim does not exist: '' @ cid))
      | Inr c \<Rightarrow>
          res_bind (claim_cleanup_plan_item_status st c
              (dict_get (resources_by_id st) (cl_resource_id c)) (claims_by_id st) checked_at) (\<lambda>item.
            if \<not> ci_cleanup_candidate item
            then Inl (ValueError (''claim is not a cleanup candidate: '' @ cid))
            else Inr item))"

definition claim_cleanup_approval_level :: "cleanup_item \<Rightarrow> ApprovalLevel" where
  "claim_cleanup_approval_level item =
     (if ci_approval_required item then Approval_SISKO
      else if ci_cleanup_action item \<in> {''review_blocked_claim'', ''re_evaluate_stale_queue''}
        then Approval_ROLE
      else Approval_SISKO)"

definition claim_cleanup_risk_level :: "cleanup_item \<Rightarrow> RiskLevel" where
  "claim_cleanup_risk_level item =
     (if ci_approval_required item then Risk_HIGH
      else if ci_cleanup_action item = ''re_evaluate_stale_queue'' then Risk_MEDIUM
      else Risk_LOW)"

definition claim_cleanup_claim_id_from_subject :: "string \<Rightarrow> string result" where
  "claim_cleanup_claim_id_from_subject subject_id =
     (if \<not> startswith subject_id ''claim.cleanup.''
      then Inl (ValueError ''claim cleanup approval subject is required'')
      else Inr (drop (length ''claim.cleanup.'') subject_id))"

definition re_evaluate_stale_queued_claim ::
  "OverseerStore \<Rightarrow> Claim \<Rightarrow> string \<Rightarrow> (Claim \<times> ConflictDecision) result" where
  "re_evaluate_stale_queued_claim st c approval_id =
     (case dict_get (resources_by_id st) (cl_resource_id c) of
        None \<Rightarrow> Inl (KeyError (cl_resource_id c))
      | Some resource \<Rightarrow>
          let active = filter (\<lambda>i. cl_id i \<noteq> cl_id c \<and> is_active_like i) (list_claims st);
              decision = decide_claim resource c active (resources_by_id st);
              status = (case dec_outcome decision of
                 Outcome_ALLOW \<Rightarrow> Status_APPROVED
               | Outcome_QUEUE \<Rightarrow> Status_QUEUED
               | Outcome_ESCALATE \<Rightarrow> Status_REQUESTED
               | Outcome_QUARANTINE \<Rightarrow> Status_BLOCKED
               | Outcome_BLOCK \<Rightarrow> Status_BLOCKED)
          in Inr (c\<lparr>cl_status := status, cl_approval_id := Some approval_id,
                   cl_evidence_ids := cl_evidence_ids c @ [approval_id]\<rparr>, decision))"

section \<open>The cleanup commands\<close>

record cleanup_report =
  cp_claims :: nat
  cp_cleanup_candidates :: nat
  cp_expired_active_like :: nat
  cp_missing_release_condition :: nat
  cp_stale_queued :: nat
  cp_blocked :: nat
  cp_approval_required :: bool
  cp_items :: "cleanup_item list"

definition claim_cleanup_plan_status ::
  "int \<Rightarrow> string option \<Rightarrow> OverseerStore \<Rightarrow> cleanup_report result" where
  "claim_cleanup_plan_status clock now st =
     res_bind (checked_now clock now) (\<lambda>checked_at.
     res_bind (map_result_list (\<lambda>c. claim_cleanup_plan_item_status st c
         (dict_get (resources_by_id st) (cl_resource_id c)) (claims_by_id st) checked_at)
         (list_claims st)) (\<lambda>items.
       let candidates = filter ci_cleanup_candidate items;
           with_action = (\<lambda>a. count_if (\<lambda>i. ci_cleanup_action i = a) candidates)
       in Inr \<lparr>cp_claims = length items, cp_cleanup_candidates = length candidates,
            cp_expired_active_like = with_action ''review_expired_active_claim'',
            cp_missing_release_condition = with_action ''add_release_condition_or_evidence'',
            cp_stale_queued = with_action ''re_evaluate_stale_queue'',
            cp_blocked = with_action ''review_blocked_claim'',
            cp_approval_required = list_ex ci_approval_required candidates,
            cp_items = candidates\<rparr>))"

definition request_claim_cleanup_status ::
  "int \<Rightarrow> string \<Rightarrow> string \<Rightarrow> string option \<Rightarrow> string option \<Rightarrow> OverseerStore \<Rightarrow>
   OverseerStore \<times> (ApprovalRequest \<times> AuditEvent \<times> cleanup_item) result" where
  "request_claim_cleanup_status clock claim_id requested_by requested_at now st =
     (if blank claim_id then (st, Inl (ValueError ''claim_id is required''))
      else if blank requested_by then (st, Inl (ValueError ''requested_by is required''))
      else case res_bind (checked_now clock now) (claim_cleanup_candidate_for_store st claim_id) of
        Inl e \<Rightarrow> (st, Inl e)
      | Inr item \<Rightarrow>
          let subject = ''claim.cleanup.'' @ claim_id;
              approval = \<lparr>apr_id = ''approval.claim.cleanup.'' @ claim_id, apr_subject_id = subject,
                apr_approval_level = claim_cleanup_approval_level item,
                apr_requester_thread = requested_by, apr_owner_domain = Owner_SISKO,
                apr_reason = ''Approve cleanup action '' @ ci_cleanup_action item @ '' for claim '' @ claim_id,
                apr_status = Appr_PENDING,
                apr_evidence_required = [''claim.cleanup-plan.'' @ claim_id],
                apr_decided_by = None, apr_decided_at = None\<rparr>;
              event = \<lparr>ev_id = ''audit.'' @ apr_id approval @ ''.requested'',
                ev_event_type = Event_REQUESTED, ev_owner_domain = Owner_SISKO,
                ev_subject_id = subject, ev_summary = apr_reason approval,
                ev_risk_level = claim_cleanup_risk_level item,
                ev_evidence_ids = apr_evidence_required approval, ev_occurred_at = requested_at\<rparr>
          in (save_audit_event event (save_approval approval st), Inr (approval, event, item)))"

text \<open>The checks on the approval that the approve and execute commands share.\<close>

definition load_cleanup_approval :: "OverseerStore \<Rightarrow> string \<Rightarrow> ApprovalRequest result" where
  "load_cleanup_approval st approval_id =
     (case load_approval st approval_id of
        Inl _ \<Rightarrow> Inl (ValueError (''claim cleanup approval does not exist: '' @ approval_id))
      | Inr approval \<Rightarrow>
          if \<not> startswith (apr_id approval) ''approval.claim.cleanup.''
          then Inl (ValueError ''claim cleanup approval is required'')
          else Inr approval)"

definition approve_claim_cleanup_status ::
  "string \<Rightarrow> int \<Rightarrow> string \<Rightarrow> string \<Rightarrow> string option \<Rightarrow> string option \<Rightarrow> OverseerStore \<Rightarrow>
   OverseerStore \<times> (pyval \<times> string \<times> cleanup_item) result" where
  "approve_claim_cleanup_status path clock approval_id approved_by approved_at now st =
     (if blank approval_id then (st, Inl (ValueError ''approval_id is required''))
      else if blank approved_by then (st, Inl (ValueError ''approved_by is required''))
      else case (res_bind (load_cleanup_approval st approval_id) (\<lambda>approval.
                 res_bind (claim_cleanup_claim_id_from_subject (apr_subject_id approval)) (\<lambda>claim_id.
                 res_bind (checked_now clock now) (\<lambda>checked_at.
                 res_bind (claim_cleanup_candidate_for_store st claim_id checked_at) (\<lambda>item.
                   Inr (claim_id, item)))))) of
        Inl e \<Rightarrow> (st, Inl e)
      | Inr (claim_id, item) \<Rightarrow>
          map_result (\<lambda>approved. (approved, claim_id, item))
            (approve_claim_status path approval_id approved_by approved_at st))"

text \<open>One branch per cleanup action: the store it leaves and the execution action it reports.\<close>

definition cleanup_effect ::
  "OverseerStore \<Rightarrow> Claim \<Rightarrow> Resource \<Rightarrow> string \<Rightarrow> string \<Rightarrow> (OverseerStore \<times> string) result" where
  "cleanup_effect st c resource approval_id action =
     (let marked = c\<lparr>cl_evidence_ids := cl_evidence_ids c @ [approval_id]\<rparr>
      in if action = ''review_expired_active_claim'' then
           Inr (save_resource
                  (if res_current_claim_id resource = Some (cl_id c)
                   then resource\<lparr>res_state := State_AVAILABLE, res_current_claim_id := None\<rparr>
                   else resource)
                  (save_claim (marked\<lparr>cl_status := Status_EXPIRED\<rparr>) None st),
                ''expired_claim_released_from_resource'')
         else if action = ''re_evaluate_stale_queue'' then
           res_bind (re_evaluate_stale_queued_claim st c approval_id) (\<lambda>(updated, decision).
             Inr (save_claim updated (Some decision) st,
                  ''stale_queue_re_evaluated_'' @ outcome_value (dec_outcome decision)))
         else if action = ''add_release_condition_or_evidence'' then
           Inr (save_claim (marked\<lparr>cl_status := Status_RELEASING\<rparr>) None st,
                ''release_evidence_required_claim_marked_releasing'')
         else if action = ''review_blocked_claim'' then
           Inr (save_claim (marked\<lparr>cl_status := Status_REVOKED\<rparr>) None st, ''blocked_claim_revoked'')
         else Inl (ValueError (''cleanup action is not executable yet: '' @ action)))"

record cleanup_execution =
  ce_claim_id :: string
  ce_cleanup_action :: string
  ce_execution_action :: string
  ce_status_before :: ClaimStatus
  ce_status_after :: ClaimStatus
  ce_resource_id :: string
  ce_audit_event :: AuditEvent

definition execute_claim_cleanup_status ::
  "int \<Rightarrow> string \<Rightarrow> string \<Rightarrow> string option \<Rightarrow> string option \<Rightarrow> OverseerStore \<Rightarrow>
   OverseerStore \<times> cleanup_execution result" where
  "execute_claim_cleanup_status clock approval_id executed_by executed_at now st =
     (if blank approval_id then (st, Inl (ValueError ''approval_id is required''))
      else if blank executed_by then (st, Inl (ValueError ''executed_by is required''))
      else case (res_bind (load_cleanup_approval st approval_id) (\<lambda>approval.
                 if \<not> approval_can_execute approval
                 then Inl (ValueError ''claim cleanup approval is not approved'')
                 else
                 res_bind (claim_cleanup_claim_id_from_subject (apr_subject_id approval)) (\<lambda>claim_id.
                 res_bind (checked_now clock now) (\<lambda>checked_at.
                 res_bind (claim_cleanup_candidate_for_store st claim_id checked_at) (\<lambda>before.
                 res_bind (load_claim st claim_id) (\<lambda>c.
                 res_bind (load_resource st (cl_resource_id c)) (\<lambda>resource.
                 res_bind (cleanup_effect st c resource approval_id (ci_cleanup_action before))
                   (\<lambda>(st1, execution_action).
                     Inr (approval, claim_id, before, c, st1, execution_action))))))))) of
        Inl e \<Rightarrow> (st, Inl e)
      | Inr (approval, claim_id, before, c, st1, execution_action) \<Rightarrow>
          let event = \<lparr>ev_id = ''audit.'' @ apr_id approval @ ''.executed'',
                ev_event_type = Event_EXECUTED, ev_owner_domain = Owner_SISKO,
                ev_subject_id = apr_subject_id approval,
                ev_summary = ''Executed claim cleanup action '' @ ci_cleanup_action before @ '' for '' @ claim_id,
                ev_risk_level = claim_cleanup_risk_level before, ev_evidence_ids = [approval_id],
                ev_occurred_at = executed_at\<rparr>;
              st2 = save_audit_event event st1
          in (st2, res_bind (load_claim st2 claim_id) (\<lambda>after.
               Inr \<lparr>ce_claim_id = claim_id, ce_cleanup_action = ci_cleanup_action before,
                 ce_execution_action = execution_action, ce_status_before = cl_status c,
                 ce_status_after = cl_status after, ce_resource_id = cl_resource_id after,
                 ce_audit_event = event\<rparr>)))"

section \<open>Every command keeps the store well formed and exclusive\<close>

definition store_inv :: "OverseerStore \<Rightarrow> bool" where
  "store_inv st \<longleftrightarrow> store_wf st \<and> store_exclusive st"

lemma store_inv_empty: "store_inv empty_store"
  by (simp add: store_inv_def store_wf_def store_exclusive_def tables_ok_def empty_store_def)

lemma with_coordinator_inv:
  assumes "store_inv st" and run: "\<And>co. co_ok co \<Longrightarrow> co_ok (fst (run co))"
  shows "store_inv (fst (with_coordinator st run))"
proof -
  obtain co where co: "coordinator_from_store st = Inr co"
    using coordinator_from_store_mirrors assms(1) by (auto simp: store_inv_def)
  have "co_ok (fst (run co))"
    using run co_ok_initial assms(1) co by (auto simp: store_inv_def co_initial_def)
  then show ?thesis
    using assms(1) co mirrors_store_wf mirrors_exclusive
    by (auto simp: with_coordinator_def co_ok_def store_inv_def split: prod.splits option.splits)
qed

lemma fst_map_result [simp]: "fst (map_result f p) = fst p"
  by (simp add: map_result_def)

lemma store_inv_request: "store_inv st \<Longrightarrow> store_inv (fst (request_claim_status path cid rid ct th ow it
    ac rl ps sa ea rc st))"
  unfolding request_claim_status_def fst_map_result
  by (rule with_coordinator_inv) (auto simp: co_request_claim_ok split: sum.splits)

lemma store_inv_activate: "store_inv st \<Longrightarrow> store_inv (fst (activate_claim_status path cid aid st))"
  by (auto simp: activate_claim_status_def co_activate_claim_ok split: sum.splits
      intro!: with_coordinator_inv)

lemma store_inv_approve: "store_inv st \<Longrightarrow> store_inv (fst (approve_claim_status path aid dby dat st))"
  by (auto simp: approve_claim_status_def co_approve_request_ok intro!: with_coordinator_inv)

lemma store_inv_release:
  assumes "store_inv st"
  shows "store_inv (fst (release_claim_status path cid rby rs ev rat st))"
proof -
  have run: "co_ok (fst (case load_claim st cid of Inl e \<Rightarrow> (co, Inl e) | Inr existing \<Rightarrow>
      (case co_release_claim cid co of (co', Inl e) \<Rightarrow> (co', Inl e)
       | (co', Inr claim) \<Rightarrow> (co_save (save_audit_event (f existing claim)) co', Inr (g existing claim)))))"
    if "co_ok co" for co and f :: "Claim \<Rightarrow> Claim \<Rightarrow> AuditEvent" and g :: "Claim \<Rightarrow> Claim \<Rightarrow> 'b"
    using co_release_claim_ok [OF that, of cid] that
    by (auto split: sum.splits prod.splits)
  have drop: "fst (case p of (st', Inl e) \<Rightarrow> (st', Inl e) | (st', Inr (a, b)) \<Rightarrow> (st', Inr (h a b))) = fst p"
    for p :: "OverseerStore \<times> (py_error + 'c \<times> 'd)" and h :: "'c \<Rightarrow> 'd \<Rightarrow> pyval"
    by (auto split: prod.splits sum.splits)
  show ?thesis
    unfolding release_claim_status_def drop Let_def
    by (rule with_coordinator_inv [OF assms run])
qed

lemma store_inv_record_resource:
  assumes "store_inv st"
  shows "store_inv (fst (record_resource_status path rid nm rt ow rl rs ids deps gs cur ver nt st))"
proof -
  have "store_inv (save_resource r st)" for r
    using assms
    by (auto simp: store_inv_def store_wf_def store_exclusive_def save_resource_def tables_ok_def tb.get_put)
  then show ?thesis using assms by (auto simp: record_resource_status_def split: sum.splits)
qed

lemma store_inv_save_other [simp]:
  "store_inv st \<Longrightarrow> store_inv (save_approval a st)"
  "store_inv st \<Longrightarrow> store_inv (save_audit_event e st)"
  by (auto simp: store_inv_def store_wf_def store_exclusive_def save_approval_def save_audit_event_def
      tables_ok_def)

text \<open>Replacing a stored claim by a version of itself that conflicts with no other active claim.\<close>

lemma store_inv_save_claim:
  assumes inv: "store_inv st" and c0: "tbl_get (st_claims st) (cl_id c) = Some c0"
    and same: "cl_resource_id c = cl_resource_id c0"
    and free: "\<And>j e. is_active_like c \<Longrightarrow> j \<noteq> cl_id c \<Longrightarrow> tbl_get (st_claims st) j = Some e \<Longrightarrow>
      is_active_like e \<Longrightarrow> is_exclusive c \<or> is_exclusive e \<Longrightarrow> cl_resource_id c \<noteq> cl_resource_id e"
  shows "store_inv (save_claim c d st)"
proof -
  have ok: "tbl_ok (st_claims st)" "tbl_ok (st_decisions st)" "tables_ok st"
    using inv by (simp_all add: store_inv_def store_wf_def tables_ok_def)
  have cl: "tbl_get (st_claims (save_claim c d st)) = (tbl_get (st_claims st))(cl_id c \<mapsto> c)"
    and res: "st_resources (save_claim c d st) = st_resources st"
    and dec: "tbl_get (st_decisions (save_claim c d st)) k =
      (if k = cl_id c \<and> d \<noteq> None then d else tbl_get (st_decisions st) k)" for k
    using ok by (auto simp: save_claim_def Let_def tb.get_put split: option.splits)
  have "store_wf (save_claim c d st)"
    using inv c0 same ok(3) by (auto simp: store_inv_def store_wf_def cl res dec)
  moreover have "store_exclusive (save_claim c d st)"
    unfolding store_exclusive_def cl
  proof (intro allI impI)
    fix i j x y
    assume i: "((tbl_get (st_claims st))(cl_id c \<mapsto> c)) i = Some x"
      and j: "((tbl_get (st_claims st))(cl_id c \<mapsto> c)) j = Some y"
      and a: "is_active_like x" "is_active_like y" "is_exclusive x" "cl_resource_id x = cl_resource_id y"
    have "store_exclusive st" using inv by (simp add: store_inv_def)
    then show "i = j"
      using i j a free [of j y] free [of i x]
      by (cases "i = cl_id c"; cases "j = cl_id c") (auto simp: store_exclusive_def)
  qed
  ultimately show ?thesis by (simp add: store_inv_def)
qed

lemma store_inv_save_resource: "store_inv st \<Longrightarrow> store_inv (save_resource r st)"
  by (auto simp: store_inv_def store_wf_def store_exclusive_def save_resource_def tables_ok_def tb.get_put)

lemma load_claim_Inr: "load_claim st cid = Inr c \<longleftrightarrow> tbl_get (st_claims st) cid = Some c"
  by (simp add: load_claim_def get_payload_def split: option.splits)

lemma list_claims_Some:
  assumes "store_inv st" and "tbl_get (st_claims st) j = Some e"
  shows "e \<in> set (list_claims st)" and "cl_id e = j"
proof -
  have "(j, e) \<in> set (st_claims st)"
    using assms by (simp add: store_inv_def store_wf_def tables_ok_def tbl_mem_iff)
  then show "e \<in> set (list_claims st)" by (force simp: list_claims_def)
  show "cl_id e = j" using assms by (simp add: store_inv_def store_wf_def)
qed

lemma re_evaluate_free:
  assumes inv: "store_inv st" and re: "re_evaluate_stale_queued_claim st c aid = Inr (c', d)"
    and "is_active_like c'" and j: "j \<noteq> cl_id c" "tbl_get (st_claims st) j = Some e" "is_active_like e"
    and ex: "is_exclusive c \<or> is_exclusive e"
  shows "cl_resource_id c \<noteq> cl_resource_id e"
proof -
  define as where "as = filter (\<lambda>i. cl_id i \<noteq> cl_id c \<and> is_active_like i) (list_claims st)"
  obtain r where d: "d = decide_claim r c as (resources_by_id st)" and "dec_outcome d = Outcome_ALLOW"
    using re assms(3)
    by (auto simp: re_evaluate_stale_queued_claim_def Let_def as_def is_active_like_def
        split: option.splits ConflictOutcome.splits)
  then have g: "dec_outcome (decide_claim r c as (resources_by_id st)) \<in> {Outcome_ALLOW, Outcome_ESCALATE}"
    by simp
  have e: "e \<in> set as" using list_claims_Some [OF inv j(2)] j by (simp add: as_def)
  show ?thesis
  proof (cases "is_exclusive e")
    case True
    then show ?thesis using decide_claim_grants(4) [OF g e] j(3) by metis
  next
    case False
    then have "\<not> claim_blocks r c (resources_by_id st) e"
      using ex by (intro decide_claim_grants(3) [OF g _ e]) simp
    then show ?thesis using j(3) by (auto simp: claim_blocks_def claims_overlap_def)
  qed
qed

lemma is_exclusive_more [simp]:
  "is_exclusive (c\<lparr>cl_evidence_ids := ev\<rparr>) = is_exclusive c"
  "is_exclusive (c\<lparr>cl_status := s, cl_approval_id := a, cl_evidence_ids := ev\<rparr>) = is_exclusive c"
  "is_exclusive (c\<lparr>cl_evidence_ids := ev, cl_status := s\<rparr>) = is_exclusive c"
  by (simp_all add: is_exclusive_iff)

lemma store_inv_cleanup_effect:
  assumes inv: "store_inv st" and c: "tbl_get (st_claims st) (cl_id c) = Some c"
    and rel: "action = ''add_release_condition_or_evidence'' \<Longrightarrow> is_active_like c"
    and eff: "cleanup_effect st c r aid action = Inr (st', x)"
  shows "store_inv st'"
proof -
  have ex: "store_exclusive st" using inv by (simp add: store_inv_def)
  have dead: "store_inv (save_claim (c\<lparr>cl_evidence_ids := ev, cl_status := s\<rparr>) None st)"
    if "s \<in> {Status_EXPIRED, Status_REVOKED} \<or> is_active_like c" for s ev
  proof -
    have "cl_resource_id c \<noteq> cl_resource_id e"
      if "is_active_like c" "j \<noteq> cl_id c" "tbl_get (st_claims st) j = Some e" "is_active_like e"
        "is_exclusive c \<or> is_exclusive e" for j e
      using ex c that unfolding store_exclusive_def by metis
    moreover have "is_active_like (c\<lparr>cl_evidence_ids := ev, cl_status := s\<rparr>) \<Longrightarrow> is_active_like c"
      using that by (auto simp: is_active_like_def)
    ultimately show ?thesis
      using store_inv_save_claim [OF inv, where c = "c\<lparr>cl_evidence_ids := ev, cl_status := s\<rparr>" and c0 = c and d = None]
        c by simp
  qed
  have re: "store_inv (save_claim c' (Some d) st)" if "re_evaluate_stale_queued_claim st c aid = Inr (c', d)" for c' d
  proof -
    have same: "cl_id c' = cl_id c" "cl_resource_id c' = cl_resource_id c" "is_exclusive c' = is_exclusive c"
      using that by (auto simp: re_evaluate_stale_queued_claim_def Let_def split: option.splits)
    show ?thesis
      using store_inv_save_claim [OF inv, where c = c' and c0 = c and d = "Some d"] c same
        re_evaluate_free [OF inv that] by simp
  qed
  show ?thesis
    using eff dead re rel
    by (auto simp: cleanup_effect_def Let_def res_bind_Inr_iff store_inv_save_resource split: if_splits)
qed

lemma cleanup_item_release:
  assumes "claim_cleanup_plan_item_status st c r by_id t = Inr item"
    and "ci_cleanup_action item = ''add_release_condition_or_evidence''"
  shows "is_active_like c"
  using assms
  by (auto simp: claim_cleanup_plan_item_status_def claim_review_item_status_def Let_def res_bind_Inr_iff
      split: if_splits prod.splits)

lemma store_inv_execute_cleanup:
  assumes inv: "store_inv st"
  shows "store_inv (fst (execute_claim_cleanup_status clock aid eby eat now st))"
proof -
  have "store_inv st1"
    if "claim_cleanup_candidate_for_store st cid t = Inr before" "load_claim st cid = Inr c"
      "cleanup_effect st c r aid (ci_cleanup_action before) = Inr (st1, x)" for cid t before c r st1 x
  proof -
    have c: "tbl_get (st_claims st) cid = Some c" using that(2) by (simp add: load_claim_Inr)
    then have "tbl_get (st_claims st) (cl_id c) = Some c" using list_claims_Some(2) [OF inv c] by simp
    moreover have "ci_cleanup_action before = ''add_release_condition_or_evidence'' \<Longrightarrow> is_active_like c"
      using that(1,2) cleanup_item_release
      by (auto simp: claim_cleanup_candidate_for_store_def res_bind_Inr_iff split: sum.splits if_splits)
    ultimately show ?thesis using store_inv_cleanup_effect [OF inv _ _ that(3)] by blast
  qed
  then show ?thesis
    using inv
    by (auto simp: execute_claim_cleanup_status_def Let_def res_bind_Inr_iff split: sum.splits if_splits)
qed

lemma store_inv_request_cleanup:
  "store_inv st \<Longrightarrow> store_inv (fst (request_claim_cleanup_status clock cid rby rat now st))"
  by (auto simp: request_claim_cleanup_status_def Let_def split: sum.splits)

lemma store_inv_approve_cleanup:
  "store_inv st \<Longrightarrow> store_inv (fst (approve_claim_cleanup_status path clock aid aby aat now st))"
  by (auto simp: approve_claim_cleanup_status_def store_inv_approve split: sum.splits)

inductive command_step :: "OverseerStore \<Rightarrow> OverseerStore \<Rightarrow> bool" where
  cmd_record: "command_step st (fst (record_resource_status path rid nm rt ow rl rs ids deps gs cur ver nt st))"
| cmd_request: "command_step st (fst (request_claim_status path cid rid ct th ow it ac rl ps sa ea rc st))"
| cmd_activate: "command_step st (fst (activate_claim_status path cid aid st))"
| cmd_approve: "command_step st (fst (approve_claim_status path apid dby dat st))"
| cmd_release: "command_step st (fst (release_claim_status path cid rby rsn ev rat st))"
| cmd_request_cleanup: "command_step st (fst (request_claim_cleanup_status clock cid qby qat now st))"
| cmd_approve_cleanup: "command_step st (fst (approve_claim_cleanup_status path clock apid aby aat now st))"
| cmd_execute_cleanup: "command_step st (fst (execute_claim_cleanup_status clock apid eby eat now st))"

interpretation command_inv: step_invariant "\<lambda>st. st = empty_store" command_step store_inv
proof unfold_locales
  show "store_inv s" if "s = empty_store" for s using that store_inv_empty by simp
  show "store_inv t" if "store_inv s" and "command_step s t" for s t
    using that(2,1)
    by cases (simp_all add: store_inv_record_resource store_inv_request store_inv_activate store_inv_approve
        store_inv_release store_inv_request_cleanup store_inv_approve_cleanup store_inv_execute_cleanup)
qed

section \<open>Properties of the claim commands\<close>

text \<open>C1: Mutual exclusion across every run of the program: whatever sequence of resource, claim,
  approval, release and cleanup commands is run on a store that starts empty, failing commands
  included, an active exclusive claim shares its resource with no other active claim.\<close>

theorem claims_mutually_exclusive:
  assumes "reach (\<lambda>st. st = empty_store) command_step st"
    and "tbl_get (st_claims st) i = Some c" and "tbl_get (st_claims st) j = Some d"
    and "is_active_like c" and "is_active_like d" and "is_exclusive c"
    and "cl_resource_id c = cl_resource_id d"
  shows "i = j"
  using command_inv.inv_reach [OF assms(1)] assms(2-)
  by (auto simp: store_inv_def store_exclusive_def)

definition sample_store :: OverseerStore where
  "sample_store =
     fst (request_claim_status ''db'' ''q'' ''gw'' ''quarantine'' ''t1'' ''dax'' ''isolate'' ''isolate'' ''low''
       [] None None None
       (fst (record_resource_status ''db'' ''gw'' ''Gateway'' ''service'' ''dax'' ''low'' ''available''
         [] [] [] None None [] empty_store)))"

lemma sample_store_reach: "reach (\<lambda>st. st = empty_store) command_step sample_store"
  unfolding sample_store_def
  by (intro reach_step [where step = command_step, OF _ cmd_request]
      reach_step [where step = command_step, OF _ cmd_record] reach_init) simp

theorem claims_mutually_exclusive_witness:
  "\<exists>c. tbl_get (st_claims sample_store) ''q'' = Some c \<and> is_active_like c \<and> is_exclusive c \<and>
     (\<forall>j d. tbl_get (st_claims sample_store) j = Some d \<and> is_active_like d \<and>
        cl_resource_id d = cl_resource_id c \<longrightarrow> j = ''q'')"
proof -
  have "case tbl_get (st_claims sample_store) ''q'' of None \<Rightarrow> False
     | Some c \<Rightarrow> is_active_like c \<and> is_exclusive c"
    by code_simp
  then obtain c where c: "tbl_get (st_claims sample_store) ''q'' = Some c" "is_active_like c" "is_exclusive c"
    by (auto split: option.splits)
  then show ?thesis
    using claims_mutually_exclusive [OF sample_store_reach c(1) _ c(2) _ c(3)] by metis
qed

text \<open>C27: The activation gate: when the stored decision of a claim asks for an approval, the
  activate command succeeds only if it was given an approval that exists, is for this claim and is
  approved; when the gate refuses, the store is unchanged.\<close>

theorem activation_needs_recorded_approval:
  assumes "load_decision st cid = Inr d" and "dec_approval_level d \<noteq> Approval_NONE"
    and "\<not> (\<exists>aid a. approval_id = Some aid \<and> load_approval st aid = Inr a \<and> apr_subject_id a = cid \<and>
      apr_status a = Appr_APPROVED)"
  shows "fst (activate_claim_status path cid approval_id st) = st \<and>
    (\<exists>e. snd (activate_claim_status path cid approval_id st) = Inl e)"
proof -
  have "\<exists>e. activation_gate st cid approval_id = Inl e"
    using assms
    by (cases approval_id)
      (auto simp: activation_gate_def res_bind_def approval_can_execute_def split: sum.splits)
  then show ?thesis by (auto simp: activate_claim_status_def)
qed

definition sample_escalated :: OverseerStore where
  "sample_escalated =
     fst (request_claim_status ''db'' ''edit'' ''gw'' ''lock'' ''t1'' ''dax'' ''edit'' ''edit'' ''low''
       [] None None None
       (fst (record_resource_status ''db'' ''gw'' ''Gateway'' ''service'' ''dax'' ''low'' ''available''
         [] [] [] None None [] empty_store)))"

theorem activation_needs_recorded_approval_witness:
  "\<exists>d. load_decision sample_escalated ''edit'' = Inr d \<and> dec_approval_level d = Approval_ROLE \<and>
     fst (activate_claim_status ''db'' ''edit'' (Some ''approval.edit'') sample_escalated) = sample_escalated"
proof -
  have "case load_decision sample_escalated ''edit'' of Inl _ \<Rightarrow> False
     | Inr d \<Rightarrow> dec_approval_level d = Approval_ROLE" by code_simp
  then obtain d where d: "load_decision sample_escalated ''edit'' = Inr d" "dec_approval_level d = Approval_ROLE"
    by (auto split: sum.splits)
  have "case load_approval sample_escalated ''approval.edit'' of Inl _ \<Rightarrow> True
     | Inr a \<Rightarrow> apr_status a = Appr_PENDING" by code_simp
  then show ?thesis
    using activation_needs_recorded_approval [of sample_escalated "''edit''" d "Some ''approval.edit''" "''db''"] d
    by (auto split: sum.splits)
qed

text \<open>The cleanup gate: \<open>execute-claim-cleanup\<close> changes nothing in the store unless the approval
  it names exists, is a cleanup approval, is approved, names a claim through its subject, and that
  claim is at that moment a cleanup candidate.\<close>

theorem cleanup_needs_approval:
  assumes "fst (execute_claim_cleanup_status clock aid eby eat now st) \<noteq> st"
  shows "\<exists>a cid t item. load_approval st aid = Inr a \<and> apr_status a = Appr_APPROVED \<and>
    startswith (apr_id a) ''approval.claim.cleanup.'' \<and> apr_subject_id a = ''claim.cleanup.'' @ cid \<and>
    claim_cleanup_candidate_for_store st cid t = Inr item \<and> ci_cleanup_candidate item"
proof -
  have subj: "claim_cleanup_claim_id_from_subject s = Inr cid \<Longrightarrow> s = ''claim.cleanup.'' @ cid" for s cid
    by (auto simp: claim_cleanup_claim_id_from_subject_def startswith_def split: if_splits)
      (metis append_take_drop_id append_Cons append_Nil)
  have cand: "claim_cleanup_candidate_for_store st cid t = Inr item \<Longrightarrow> ci_cleanup_candidate item" for cid t item
    by (auto simp: claim_cleanup_candidate_for_store_def res_bind_Inr_iff split: sum.splits if_splits)
  show ?thesis
    using assms subj cand
    by (auto simp: execute_claim_cleanup_status_def load_cleanup_approval_def res_bind_Inr_iff
        approval_can_execute_def Let_def split: sum.splits if_splits) blast
qed

definition sample_cleanup :: OverseerStore where
  "sample_cleanup =
     fst (approve_claim_cleanup_status ''db'' 0 ''approval.claim.cleanup.q'' ''sisko'' None None
       (fst (request_claim_cleanup_status 0 ''q'' ''sisko'' None None sample_store)))"

theorem cleanup_needs_approval_witness:
  "\<exists>a cid. load_approval sample_cleanup ''approval.claim.cleanup.q'' = Inr a \<and>
     apr_status a = Appr_APPROVED \<and> apr_subject_id a = ''claim.cleanup.'' @ cid"
proof -
  have "map cl_status (list_claims (fst (execute_claim_cleanup_status 0 ''approval.claim.cleanup.q'' ''sisko''
      None None sample_cleanup))) = [Status_RELEASING] \<and> map cl_status (list_claims sample_cleanup) = [Status_ACTIVE]"
    by code_simp
  then have "fst (execute_claim_cleanup_status 0 ''approval.claim.cleanup.q'' ''sisko''
      None None sample_cleanup) \<noteq> sample_cleanup"
    by auto
  from cleanup_needs_approval [OF this] show ?thesis by blast
qed

section \<open>What the gates do not cover\<close>

text \<open>The run of the next property: an observation, a lock queued behind it, the observation released.\<close>

definition queued_lock_store :: OverseerStore where
  "queued_lock_store =
     (let st1 = fst (record_resource_status ''db'' ''fw'' ''Edge firewall'' ''security_surface'' ''odo'' ''high''
            ''available'' [] [] [] None None [] empty_store);
          st2 = fst (request_claim_status ''db'' ''look'' ''fw'' ''observation'' ''t1'' ''odo'' ''read rules''
            ''list'' ''low'' [] None None None st1);
          st3 = fst (request_claim_status ''db'' ''edit'' ''fw'' ''lock'' ''t2'' ''odo'' ''change rules''
            ''edit'' ''high'' [] None None None st2)
      in fst (release_claim_status ''db'' ''look'' None None [] None st3))"


text \<open>The run of the next property: the current claim of a resource expires after the resource was quarantined.\<close>

definition quarantined_store :: OverseerStore where
  "quarantined_store =
     (let st1 = fst (record_resource_status ''db'' ''gw'' ''Gateway'' ''service'' ''dax'' ''low'' ''available''
            [] [] [] None None [] empty_store);
          st2 = fst (request_claim_status ''db'' ''q'' ''gw'' ''quarantine'' ''t1'' ''dax'' ''isolate'' ''isolate'' ''low''
            [] None (Some ''2024-01-01'') (Some ''done'') st1);
          st3 = fst (record_resource_status ''db'' ''gw'' ''Gateway'' ''service'' ''dax'' ''low'' ''quarantined''
            [] [] [] (Some ''q'') None [] st2);
          st4 = fst (request_claim_cleanup_status (10 ^ 18) ''q'' ''sisko'' None None st3)
      in fst (approve_claim_cleanup_status ''db'' (10 ^ 18) ''approval.claim.cleanup.q'' ''sisko'' None None st4))"

text \<open>A side effect of cleanup, on a concrete run: cleaning up the expired claim that a
  quarantined resource names as current puts the resource back to available.\<close>

theorem cleanup_lifts_quarantine:
  "map_option res_state (tbl_get (st_resources quarantined_store) ''gw'') = Some State_QUARANTINED \<and>
   map_option res_state (tbl_get (st_resources (fst (execute_claim_cleanup_status (10 ^ 18)
     ''approval.claim.cleanup.q'' ''sisko'' None None quarantined_store))) ''gw'') = Some State_AVAILABLE"
  by code_simp

end
