(* ===== verification/Maintenance.thy ===== *)
theory Maintenance
  imports Core_Claims
begin

text \<open>
  Maintenance plans of \<^verbatim>\<open>src/overseer/maintenance.py\<close>: what a plan needs before it is ready and
  before it can be closed.
\<close>

datatype MaintenanceKind =
    Kind_INSTALL | Kind_UPDATE | Kind_PATCH | Kind_RESTART | Kind_BACKUP | Kind_CLEANUP
  | Kind_MIGRATION | Kind_AUDIT | Kind_REPAIR

fun maintenance_kind_value :: "MaintenanceKind \<Rightarrow> string" where
  "maintenance_kind_value Kind_INSTALL = ''install''"
| "maintenance_kind_value Kind_UPDATE = ''update''"
| "maintenance_kind_value Kind_PATCH = ''patch''"
| "maintenance_kind_value Kind_RESTART = ''restart''"
| "maintenance_kind_value Kind_BACKUP = ''backup''"
| "maintenance_kind_value Kind_CLEANUP = ''cleanup''"
| "maintenance_kind_value Kind_MIGRATION = ''migration''"
| "maintenance_kind_value Kind_AUDIT = ''audit''"
| "maintenance_kind_value Kind_REPAIR = ''repair''"

datatype InterruptionPolicy =
    Interrupt_NO_INTERRUPTION | Interrupt_RESTART_ALLOWED | Interrupt_DOWNTIME_ALLOWED
  | Interrupt_EXCLUSIVE_WINDOW_REQUIRED

datatype MaintenanceStatus =
    Maint_PLANNED | Maint_READY | Maint_BLOCKED | Maint_IN_PROGRESS | Maint_VERIFYING
  | Maint_COMPLETED | Maint_ROLLED_BACK | Maint_FAILED

record MaintenanceWindow =
  win_id :: string
  win_starts_at :: string
  win_ends_at :: string
  win_owner_domain :: OwnerDomain
  win_exclusive :: bool
  win_reason :: string

record MaintenancePlan =
  mp_id :: string
  mp_resource_id :: string
  mp_kind :: MaintenanceKind
  mp_requested_state :: string
  mp_risk_level :: RiskLevel
  mp_window :: MaintenanceWindow
  mp_interruption_policy :: InterruptionPolicy
  mp_affected_resource_ids :: "string set"
  mp_dependency_ids :: "string set"
  mp_precheck_ids :: "string list"
  mp_verification_ids :: "string list"
  mp_rollback_plan :: string
  mp_status :: MaintenanceStatus

definition all_resource_ids :: "MaintenancePlan \<Rightarrow> string set" where
  "all_resource_ids p = {mp_resource_id p} \<union> mp_affected_resource_ids p \<union> mp_dependency_ids p"

definition requires_rollback_plan :: "MaintenancePlan \<Rightarrow> bool" where
  "requires_rollback_plan p \<longleftrightarrow> mp_risk_level p \<in> {Risk_MEDIUM, Risk_HIGH, Risk_CRITICAL}"

definition has_required_rollback_plan :: "MaintenancePlan \<Rightarrow> bool" where
  "has_required_rollback_plan p \<longleftrightarrow> \<not> requires_rollback_plan p \<or> \<not> blank (mp_rollback_plan p)"

definition maintenance_required_approval :: "MaintenancePlan \<Rightarrow> ApprovalLevel" where
  "maintenance_required_approval p =
     (if mp_risk_level p = Risk_CRITICAL then Approval_HUMAN
      else if mp_risk_level p = Risk_HIGH then Approval_SISKO
      else if mp_interruption_policy p = Interrupt_EXCLUSIVE_WINDOW_REQUIRED then Approval_ROLE
      else Approval_NONE)"

record MaintenanceReadiness =
  mr_ready :: bool
  mr_status :: MaintenanceStatus
  mr_reason :: string
  mr_approval_level :: ApprovalLevel
  mr_missing_evidence :: "string list"

definition assess_maintenance_readiness :: "MaintenancePlan \<Rightarrow> MaintenanceReadiness" where
  "assess_maintenance_readiness p =
     (if win_starts_at (mp_window p) = [] \<or> win_ends_at (mp_window p) = [] then
        \<lparr>mr_ready = False, mr_status = Maint_BLOCKED, mr_reason = ''maintenance window is incomplete'',
         mr_approval_level = Approval_NONE, mr_missing_evidence = []\<rparr>
      else if \<not> has_required_rollback_plan p then
        \<lparr>mr_ready = False, mr_status = Maint_BLOCKED,
         mr_reason = ''rollback plan is required for medium or higher risk maintenance'',
         mr_approval_level = maintenance_required_approval p, mr_missing_evidence = [''rollback_plan'']\<rparr>
      else if mp_precheck_ids p = [] then
        \<lparr>mr_ready = False, mr_status = Maint_BLOCKED,
         mr_reason = ''pre-change verification evidence is required'',
         mr_approval_level = maintenance_required_approval p, mr_missing_evidence = [''precheck_ids'']\<rparr>
      else
        (let approval = maintenance_required_approval p in
         if approval \<noteq> Approval_NONE then
           \<lparr>mr_ready = True, mr_status = Maint_READY, mr_reason = ''approval required before execution'',
            mr_approval_level = approval, mr_missing_evidence = []\<rparr>
         else
           \<lparr>mr_ready = True, mr_status = Maint_READY, mr_reason = ''maintenance plan is ready'',
            mr_approval_level = Approval_NONE, mr_missing_evidence = []\<rparr>))"

definition can_close_maintenance :: "MaintenancePlan \<Rightarrow> MaintenanceReadiness" where
  "can_close_maintenance p =
     (if mp_status p = Maint_ROLLED_BACK then
        \<lparr>mr_ready = True, mr_status = Maint_ROLLED_BACK, mr_reason = ''rollback completed'',
         mr_approval_level = Approval_NONE, mr_missing_evidence = []\<rparr>
      else if mp_verification_ids p = [] then
        \<lparr>mr_ready = False, mr_status = Maint_VERIFYING,
         mr_reason = ''post-change verification evidence is required before closure'',
         mr_approval_level = maintenance_required_approval p, mr_missing_evidence = [''verification_ids'']\<rparr>
      else
        \<lparr>mr_ready = True, mr_status = Maint_COMPLETED, mr_reason = ''maintenance verified'',
         mr_approval_level = Approval_NONE, mr_missing_evidence = []\<rparr>)"

interpretation maintenance_risk: risk_graded mp_risk_level maintenance_required_approval
  "\<lambda>p p'. mp_interruption_policy p = mp_interruption_policy p'"
proof
  fix p p' :: MaintenancePlan
  assume "mp_interruption_policy p = mp_interruption_policy p'" "mp_risk_level p \<le> mp_risk_level p'"
  then show "maintenance_required_approval p \<le> maintenance_required_approval p'"
    by (cases "mp_risk_level p"; cases "mp_risk_level p'")
      (simp_all add: maintenance_required_approval_def level_order_simps)
qed

text \<open>The readiness gate asks for all of its evidence: a plan is ready exactly when its window
  is complete, it has a rollback plan that is not blank if its risk is above low, and it has a
  precheck; a ready plan carries exactly the approval its risk and interruption policy require, and
  a blocked one with a complete window names the one piece of evidence that is missing.\<close>

theorem maintenance_ready_iff:
  "(mr_ready (assess_maintenance_readiness p) \<longleftrightarrow>
     win_starts_at (mp_window p) \<noteq> [] \<and> win_ends_at (mp_window p) \<noteq> [] \<and>
     \<not> (mp_risk_level p \<noteq> Risk_LOW \<and> blank (mp_rollback_plan p)) \<and> mp_precheck_ids p \<noteq> []) \<and>
   (mr_status (assess_maintenance_readiness p) =
     (if mr_ready (assess_maintenance_readiness p) then Maint_READY else Maint_BLOCKED)) \<and>
   (mr_approval_level (assess_maintenance_readiness p) =
     (if win_starts_at (mp_window p) = [] \<or> win_ends_at (mp_window p) = [] then Approval_NONE
      else maintenance_required_approval p)) \<and>
   (mr_missing_evidence (assess_maintenance_readiness p) = [] \<longleftrightarrow>
     mr_ready (assess_maintenance_readiness p) \<or>
     win_starts_at (mp_window p) = [] \<or> win_ends_at (mp_window p) = [])"
  by (cases "mp_risk_level p")
    (simp_all add: assess_maintenance_readiness_def has_required_rollback_plan_def
      requires_rollback_plan_def Let_def)

end
