(* ===== verification/Usage_Limits.thy ===== *)
theory Usage_Limits
  imports Core_Claims
begin

text \<open>
  Usage limits and continuation requests of \<^verbatim>\<open>src/overseer/usage_limits.py\<close>. A confidence is a
  rational: the model reads a finite float as the number it denotes.
\<close>

datatype LimitKind =
    Limit_REQUESTS | Limit_TOKENS | Limit_CREDITS | Limit_DAILY_QUOTA | Limit_MONTHLY_QUOTA
  | Limit_COOLDOWN | Limit_MANUAL

datatype LimitDecision =
    LimitDecision_RUN_NOW | LimitDecision_QUEUE_UNTIL_RESET | LimitDecision_BLOCK
  | LimitDecision_ESCALATE

record UsageLimit =
  ul_id :: string
  ul_resource_id :: string
  ul_kind :: LimitKind
  ul_capacity :: int
  ul_remaining :: int
  ul_resets_at :: "string option"
  ul_window :: string
  ul_observed_at :: "string option"
  ul_confidence :: rat

definition has_capacity_for :: "UsageLimit \<Rightarrow> int \<Rightarrow> bool" where
  "has_capacity_for l requested_units \<longleftrightarrow> requested_units \<ge> 0 \<and> ul_remaining l \<ge> requested_units"

definition is_exhausted :: "UsageLimit \<Rightarrow> bool" where
  "is_exhausted l \<longleftrightarrow> ul_remaining l \<le> 0"

record LimitedWorkRequest =
  lw_id :: string
  lw_resource_id :: string
  lw_owner_thread :: string
  lw_requested_units :: int
  lw_intent :: string
  lw_risk_level :: RiskLevel
  lw_earliest_start :: "string option"
  lw_deadline :: "string option"

record UsageContinuationRequest =
  uc_id :: string
  uc_limit_id :: string
  uc_resource_id :: string
  uc_owner_thread :: "string option"
  uc_requested_units :: int
  uc_intent :: string
  uc_risk_level :: RiskLevel
  uc_earliest_start :: "string option"
  uc_deadline :: "string option"
  uc_requested_by :: string
  uc_requested_at :: "string option"
  uc_agent_session_id :: "string option"
  uc_driver_epoch_id :: "string option"
  uc_provider_id :: "string option"

definition to_limited_work_request :: "UsageContinuationRequest \<Rightarrow> LimitedWorkRequest" where
  "to_limited_work_request u =
     \<lparr>lw_id = uc_id u, lw_resource_id = uc_resource_id u,
      lw_owner_thread = str_default (str_or (uc_owner_thread u) (uc_agent_session_id u)) [],
      lw_requested_units = uc_requested_units u, lw_intent = uc_intent u,
      lw_risk_level = uc_risk_level u, lw_earliest_start = uc_earliest_start u,
      lw_deadline = uc_deadline u\<rparr>"

record UsageSchedule =
  us_decision :: LimitDecision
  us_owner_domain :: OwnerDomain
  us_reason :: string
  us_scheduled_for :: "string option"
  us_approval_level :: ApprovalLevel

definition mk_schedule ::
  "LimitDecision \<Rightarrow> string \<Rightarrow> string option \<Rightarrow> ApprovalLevel \<Rightarrow> UsageSchedule" where
  "mk_schedule d rs sched ap = \<lparr>us_decision = d, us_owner_domain = Owner_QUARK, us_reason = rs,
     us_scheduled_for = sched, us_approval_level = ap\<rparr>"

definition schedule_limited_work :: "UsageLimit \<Rightarrow> LimitedWorkRequest \<Rightarrow> UsageSchedule" where
  "schedule_limited_work limit request =
     (if ul_resource_id limit \<noteq> lw_resource_id request then
        mk_schedule LimitDecision_BLOCK ''request resource_id does not match usage limit'' None Approval_NONE
      else if lw_requested_units request < 0 then
        mk_schedule LimitDecision_BLOCK ''requested units cannot be negative'' None Approval_NONE
      else if ul_confidence limit < 1 / 2 then
        mk_schedule LimitDecision_ESCALATE ''usage limit confidence is too low to spend capacity''
          (lw_earliest_start request)
          (if lw_risk_level request \<in> {Risk_HIGH, Risk_CRITICAL} then Approval_SISKO else Approval_ROLE)
      else if has_capacity_for limit (lw_requested_units request) then
        mk_schedule LimitDecision_RUN_NOW ''sufficient capacity is available''
          (lw_earliest_start request) Approval_NONE
      else if str_true (ul_resets_at limit) then
        mk_schedule LimitDecision_QUEUE_UNTIL_RESET ''capacity is insufficient until reset''
          (ul_resets_at limit) Approval_NONE
      else
        mk_schedule LimitDecision_ESCALATE ''capacity is insufficient and no reset time is known''
          (lw_earliest_start request) Approval_ROLE)"

lemma mk_schedule_sel [simp]:
  "us_decision (mk_schedule d rs sched ap) = d"
  "us_reason (mk_schedule d rs sched ap) = rs"
  "us_scheduled_for (mk_schedule d rs sched ap) = sched"
  "us_approval_level (mk_schedule d rs sched ap) = ap"
  by (simp_all add: mk_schedule_def)

text \<open>
  The ledger a run of granted requests leaves: each request that is told to run now spends its
  units before the next one is scheduled.
\<close>

fun spend_all :: "UsageLimit \<Rightarrow> LimitedWorkRequest list \<Rightarrow> UsageLimit \<times> int" where
  "spend_all limit [] = (limit, 0)"
| "spend_all limit (q # qs) =
     (if us_decision (schedule_limited_work limit q) = LimitDecision_RUN_NOW then
        (case spend_all (limit\<lparr>ul_remaining := ul_remaining limit - lw_requested_units q\<rparr>) qs of
           (limit', n) \<Rightarrow> (limit', n + lw_requested_units q))
      else spend_all limit qs)"

lemma run_now_iff:
  "us_decision (schedule_limited_work l q) = LimitDecision_RUN_NOW \<longleftrightarrow>
     ul_resource_id l = lw_resource_id q \<and> 0 \<le> lw_requested_units q \<and>
     lw_requested_units q \<le> ul_remaining l \<and> 1 / 2 \<le> ul_confidence l"
  by (auto simp: schedule_limited_work_def has_capacity_for_def)

text \<open>Capacity is never overspent: running any sequence of requests, each scheduled against
  what the ones before it left, spends at least zero and at most the remaining units (nothing
  when the limit is exhausted) and leaves exactly the difference.\<close>

theorem schedule_never_overspends:
  "case spend_all limit qs of (limit', spent) \<Rightarrow>
     0 \<le> spent \<and> spent \<le> max 0 (ul_remaining limit) \<and>
     ul_remaining limit' = ul_remaining limit - spent"
proof (induction limit qs rule: spend_all.induct)
  case (2 limit q qs)
  show ?case
  proof (cases "us_decision (schedule_limited_work limit q) = LimitDecision_RUN_NOW")
    case True
    then have q: "0 \<le> lw_requested_units q" "lw_requested_units q \<le> ul_remaining limit"
      by (simp_all add: run_now_iff)
    show ?thesis using "2.IH"(1) [OF True] True q by (auto split: prod.splits)
  next
    case False
    then show ?thesis using "2.IH"(2) by (auto split: prod.splits)
  qed
qed simp

end
