(* ===== verification/Scheduling.thy ===== *)
theory Scheduling
  imports Maintenance Usage_Limits Clock
begin

text \<open>
  Scheduling decisions of \<^verbatim>\<open>src/overseer/scheduler.py\<close>. Window bounds are the strings the plans
  carry and are compared as strings, by code point; \<open>sorted\<close> with a key is the stable
  \<^const>\<open>sort_key\<close>.
\<close>

datatype ScheduledWorkStatus =
    Work_READY | Work_WAITING | Work_BLOCKED | Work_ESCALATED

record ScheduledWork =
  sw_id :: string
  sw_owner_thread :: string
  sw_resource_id :: string
  sw_status :: ScheduledWorkStatus
  sw_reason :: string
  sw_scheduled_for :: "string option"
  sw_blocking_ids :: "string list"

definition schedule_usage_limited_work :: "UsageLimit \<Rightarrow> LimitedWorkRequest \<Rightarrow> ScheduledWork" where
  "schedule_usage_limited_work limit request =
     (let schedule = schedule_limited_work limit request;
          work = (\<lambda>status sched. \<lparr>sw_id = lw_id request, sw_owner_thread = lw_owner_thread request,
            sw_resource_id = lw_resource_id request, sw_status = status, sw_reason = us_reason schedule,
            sw_scheduled_for = sched, sw_blocking_ids = []\<rparr>)
      in case us_decision schedule of
           LimitDecision_RUN_NOW \<Rightarrow> work Work_READY None
         | LimitDecision_QUEUE_UNTIL_RESET \<Rightarrow> work Work_WAITING (us_scheduled_for schedule)
         | LimitDecision_ESCALATE \<Rightarrow> work Work_ESCALATED (us_scheduled_for schedule)
         | LimitDecision_BLOCK \<Rightarrow> work Work_BLOCKED None)"

definition windows_overlap :: "string \<Rightarrow> string \<Rightarrow> string \<Rightarrow> string \<Rightarrow> bool" where
  "windows_overlap left_start left_end right_start right_end \<longleftrightarrow>
     left_start < right_end \<and> right_start < left_end"

definition maintenance_window_conflicts :: "MaintenancePlan \<Rightarrow> MaintenancePlan list \<Rightarrow> string list" where
  "maintenance_window_conflicts p active_plans =
     (if \<not> win_exclusive (mp_window p) then []
      else map mp_id (filter (\<lambda>active.
        win_exclusive (mp_window active) \<and>
        all_resource_ids p \<inter> all_resource_ids active \<noteq> {} \<and>
        windows_overlap (win_starts_at (mp_window p)) (win_ends_at (mp_window p))
          (win_starts_at (mp_window active)) (win_ends_at (mp_window active))) active_plans))"

definition schedule_maintenance_window :: "MaintenancePlan \<Rightarrow> MaintenancePlan list \<Rightarrow> ScheduledWork" where
  "schedule_maintenance_window p active_plans =
     (let blockers = maintenance_window_conflicts p active_plans in
      if blockers \<noteq> [] then
        \<lparr>sw_id = mp_id p, sw_owner_thread = ''maintenance'', sw_resource_id = mp_resource_id p,
         sw_status = Work_WAITING, sw_reason = ''exclusive maintenance window overlaps active plan'',
         sw_scheduled_for = Some (win_ends_at (mp_window p)), sw_blocking_ids = blockers\<rparr>
      else
        \<lparr>sw_id = mp_id p, sw_owner_thread = ''maintenance'', sw_resource_id = mp_resource_id p,
         sw_status = Work_READY, sw_reason = ''maintenance window is available'',
         sw_scheduled_for = Some (win_starts_at (mp_window p)), sw_blocking_ids = []\<rparr>)"

definition next_ready_work :: "ScheduledWork list \<Rightarrow> ScheduledWork list" where
  "next_ready_work items =
     sort_key (\<lambda>item. str_default (sw_scheduled_for item) [])
       (filter (\<lambda>item. sw_status item = Work_READY) items)"

section \<open>Admission of maintenance windows\<close>

text \<open>
  Two plans clash when both windows are exclusive, they touch a common resource and the windows
  overlap. \<open>admit_all\<close> runs the scheduler over a queue of plans and keeps the ready ones active.
\<close>

definition plans_clash :: "MaintenancePlan \<Rightarrow> MaintenancePlan \<Rightarrow> bool" where
  "plans_clash p q \<longleftrightarrow> win_exclusive (mp_window p) \<and> win_exclusive (mp_window q) \<and>
     all_resource_ids p \<inter> all_resource_ids q \<noteq> {} \<and>
     windows_overlap (win_starts_at (mp_window p)) (win_ends_at (mp_window p))
       (win_starts_at (mp_window q)) (win_ends_at (mp_window q))"

fun admit_all :: "MaintenancePlan list \<Rightarrow> MaintenancePlan list \<Rightarrow> MaintenancePlan list" where
  "admit_all active [] = active"
| "admit_all active (p # ps) =
     (if sw_status (schedule_maintenance_window p active) = Work_READY
      then admit_all (p # active) ps else admit_all active ps)"

lemma plans_clash_sym: "plans_clash p q \<longleftrightarrow> plans_clash q p"
  by (auto simp: plans_clash_def windows_overlap_def)

lemma conflicts_eq: "maintenance_window_conflicts p ps = map mp_id (filter (plans_clash p) ps)"
  by (simp add: maintenance_window_conflicts_def plans_clash_def [abs_def])

lemma schedule_ready_iff:
  "sw_status (schedule_maintenance_window p ps) = Work_READY \<longleftrightarrow> (\<forall>q \<in> set ps. \<not> plans_clash p q)"
  by (simp add: schedule_maintenance_window_def conflicts_eq Let_def filter_empty_conv)

lemma admit_all_pairwise:
  "pairwise (\<lambda>p q. \<not> plans_clash p q) (set active) \<Longrightarrow>
     pairwise (\<lambda>p q. \<not> plans_clash p q) (set (admit_all active ps))"
  by (induction active ps rule: admit_all.induct)
    (auto simp: schedule_ready_iff pairwise_insert plans_clash_sym)

text \<open>Admitted maintenance never collides: when plans are admitted one by one, each only if the
  scheduler finds its window available against those already active, no two different admitted
  plans with exclusive windows touch a common resource in overlapping windows.\<close>

theorem admitted_plans_never_clash:
  assumes "p \<in> set (admit_all [] ps)" and "q \<in> set (admit_all [] ps)" and "p \<noteq> q"
    and "win_exclusive (mp_window p)" and "win_exclusive (mp_window q)"
    and "r \<in> all_resource_ids p" and "r \<in> all_resource_ids q"
  shows "win_ends_at (mp_window q) \<le> win_starts_at (mp_window p) \<or>
    win_ends_at (mp_window p) \<le> win_starts_at (mp_window q)"
proof -
  have "\<not> plans_clash p q"
    using admit_all_pairwise [of "[]" ps] assms(1-3) by (simp add: pairwise_def)
  then show ?thesis using assms(4-) by (auto simp: plans_clash_def windows_overlap_def not_less)
qed

definition sample_plan :: "string \<Rightarrow> string \<Rightarrow> string \<Rightarrow> MaintenancePlan" where
  "sample_plan pid s e = \<lparr>mp_id = pid, mp_resource_id = ''gw'', mp_kind = Kind_PATCH,
     mp_requested_state = ''patched'', mp_risk_level = Risk_LOW,
     mp_window = \<lparr>win_id = pid, win_starts_at = s, win_ends_at = e, win_owner_domain = Owner_OBRIEN,
       win_exclusive = True, win_reason = []\<rparr>,
     mp_interruption_policy = Interrupt_NO_INTERRUPTION, mp_affected_resource_ids = {},
     mp_dependency_ids = {}, mp_precheck_ids = [''pre''], mp_verification_ids = [],
     mp_rollback_plan = ''restore'', mp_status = Maint_PLANNED\<rparr>"

theorem admitted_plans_never_clash_witness:
  "let p = sample_plan ''a'' ''2026-01-01T10'' ''2026-01-01T11'';
       q = sample_plan ''b'' ''2026-01-01T11'' ''2026-01-01T12'';
       x = sample_plan ''x'' ''2026-01-01T10'' ''2026-01-01T12''
   in set (admit_all [] [p, x, q]) = {p, q} \<and>
      (win_ends_at (mp_window q) \<le> win_starts_at (mp_window p) \<or>
       win_ends_at (mp_window p) \<le> win_starts_at (mp_window q))"
proof -
  define p q x where "p = sample_plan ''a'' ''2026-01-01T10'' ''2026-01-01T11''"
    and "q = sample_plan ''b'' ''2026-01-01T11'' ''2026-01-01T12''"
    and "x = sample_plan ''x'' ''2026-01-01T10'' ''2026-01-01T12''"
  note defs = p_def q_def x_def
  have adm: "admit_all [] [p, x, q] = [q, p]" unfolding defs by code_simp
  have "p \<noteq> q" by (simp add: defs sample_plan_def)
  then have "win_ends_at (mp_window q) \<le> win_starts_at (mp_window p) \<or>
      win_ends_at (mp_window p) \<le> win_starts_at (mp_window q)"
    by (intro admitted_plans_never_clash [where ps = "[p, x, q]" and r = "''gw''"], unfold adm)
      (simp_all add: p_def q_def sample_plan_def all_resource_ids_def)
  moreover have "set (admit_all [] [p, x, q]) = {p, q}" unfolding adm by auto
  ultimately show ?thesis by (simp only: Let_def defs)
qed

text \<open>The comparison is textual, so it is exact only for bounds written in one notation: two
  windows whose bounds carry different UTC offsets overlap in time, yet the scheduler admits both.\<close>

theorem offset_notation_hides_overlap:
  "let p = sample_plan ''a'' ''2026-01-01T10:00:00+00:00'' ''2026-01-01T11:00:00+00:00'';
       q = sample_plan ''b'' ''2026-01-01T05:30:00-05:00'' ''2026-01-01T06:30:00-05:00'';
       instant = (\<lambda>s. case parse_optional_datetime (Some s) of Inr (Some t) \<Rightarrow> t | _ \<Rightarrow> 0)
   in instant (win_starts_at (mp_window p)) < instant (win_starts_at (mp_window q)) \<and>
      instant (win_starts_at (mp_window q)) < instant (win_ends_at (mp_window p)) \<and>
      sw_status (schedule_maintenance_window q [p]) = Work_READY"
  by code_simp

lemma next_ready_work_sorted:
  "sorted (map (\<lambda>i. str_default (sw_scheduled_for i) []) (next_ready_work items))"
  by (simp add: next_ready_work_def)

end
