(* ===== verification/Security.thy ===== *)
theory Security
  imports Core_Claims
begin

text \<open>
  Security signals and the protective action recommended for them:
  \<^verbatim>\<open>src/overseer/security.py\<close>.
\<close>

datatype SecuritySignalType =
    Signal_INFO | Signal_SUSPICIOUS | Signal_INTRUSION_LIKELY | Signal_CONFIRMED_INCIDENT
  | Signal_POLICY_VIOLATION | Signal_VULNERABILITY

datatype ProtectiveAction =
    Action_MONITOR | Action_AUDIT | Action_ISOLATE | Action_QUARANTINE
  | Action_ROTATE_CREDENTIAL | Action_BLOCK_TRAFFIC | Action_STOP_SERVICE | Action_PATCH
  | Action_RESTORE | Action_ESCALATE

fun protective_action_value :: "ProtectiveAction \<Rightarrow> string" where
  "protective_action_value Action_MONITOR = ''monitor''"
| "protective_action_value Action_AUDIT = ''audit''"
| "protective_action_value Action_ISOLATE = ''isolate''"
| "protective_action_value Action_QUARANTINE = ''quarantine''"
| "protective_action_value Action_ROTATE_CREDENTIAL = ''rotate_credential''"
| "protective_action_value Action_BLOCK_TRAFFIC = ''block_traffic''"
| "protective_action_value Action_STOP_SERVICE = ''stop_service''"
| "protective_action_value Action_PATCH = ''patch''"
| "protective_action_value Action_RESTORE = ''restore''"
| "protective_action_value Action_ESCALATE = ''escalate''"

datatype SecurityStatus =
    Sec_OBSERVED | Sec_TRIAGED | Sec_ESCALATED | Sec_RESPONDING | Sec_CONTAINED | Sec_CLOSED

definition ACTIVE_DEFENSE_ACTIONS :: "ProtectiveAction set" where
  "ACTIVE_DEFENSE_ACTIONS = {Action_ISOLATE, Action_QUARANTINE, Action_ROTATE_CREDENTIAL,
     Action_BLOCK_TRAFFIC, Action_STOP_SERVICE, Action_PATCH, Action_RESTORE}"

record SecuritySignal =
  sig_id :: string
  sig_resource_id :: string
  sig_resource_type :: ResourceType
  sig_signal_type :: SecuritySignalType
  sig_severity :: RiskLevel
  sig_confidence :: rat
  sig_source :: string
  sig_indicator :: string
  sig_observed_at :: "string option"

record SecurityResponse =
  sr_action :: ProtectiveAction
  sr_owner_domain :: OwnerDomain
  sr_approval_level :: ApprovalLevel
  sr_active_defense :: bool
  sr_reason :: string

record SecurityIncident =
  inc_id :: string
  inc_signal_id :: string
  inc_resource_id :: string
  inc_status :: SecurityStatus
  inc_response :: SecurityResponse
  inc_evidence_ids :: "string list"
  inc_closure_note :: string

definition incident_can_close :: "SecurityIncident \<Rightarrow> bool" where
  "incident_can_close i \<longleftrightarrow> inc_status i = Sec_CONTAINED \<and>
     inc_evidence_ids i \<noteq> [] \<and> \<not> blank (inc_closure_note i)"

definition approval_for_signal :: "SecuritySignal \<Rightarrow> ProtectiveAction \<Rightarrow> ApprovalLevel" where
  "approval_for_signal s action =
     (if sig_severity s = Risk_CRITICAL then Approval_HUMAN
      else if sig_severity s = Risk_HIGH \<or> action \<in> ACTIVE_DEFENSE_ACTIONS then Approval_SISKO
      else Approval_NONE)"

definition owner_for_resource_type :: "ResourceType \<Rightarrow> OwnerDomain" where
  "owner_for_resource_type rt =
     (if rt = Type_PHYSICAL_ASSET then Owner_KIRA
      else if rt = Type_VIRTUAL_ASSET then Owner_DAX
      else if rt \<in> {Type_SERVICE, Type_USAGE_LIMITED_SERVICE} then Owner_JULIAN
      else if rt = Type_MAINTENANCE_TARGET then Owner_OBRIEN
      else Owner_ODO)"

definition mk_response ::
  "ProtectiveAction \<Rightarrow> OwnerDomain \<Rightarrow> ApprovalLevel \<Rightarrow> bool \<Rightarrow> string \<Rightarrow> SecurityResponse" where
  "mk_response ac ow ap ad rs = \<lparr>sr_action = ac, sr_owner_domain = ow, sr_approval_level = ap,
     sr_active_defense = ad, sr_reason = rs\<rparr>"

definition recommend_security_response :: "SecuritySignal \<Rightarrow> SecurityResponse" where
  "recommend_security_response s =
     (if sig_confidence s < 0 \<or> sig_confidence s > 1 then
        mk_response Action_ESCALATE Owner_ODO Approval_SISKO False ''signal confidence must be between 0 and 1''
      else if sig_signal_type s = Signal_INFO \<and> sig_severity s = Risk_LOW then
        mk_response Action_MONITOR Owner_ODO Approval_NONE False ''low-risk informational signal''
      else if sig_signal_type s = Signal_VULNERABILITY then
        mk_response Action_PATCH Owner_OBRIEN (approval_for_signal s Action_PATCH) True
          ''vulnerability requires maintenance remediation''
      else if sig_resource_type s = Type_SECURITY_SURFACE then
        mk_response Action_ESCALATE Owner_ODO Approval_HUMAN False
          ''security-surface mutation needs explicit human approval''
      else if sig_signal_type s \<in> {Signal_CONFIRMED_INCIDENT, Signal_INTRUSION_LIKELY} then
        (let action = (if sig_severity s \<in> {Risk_HIGH, Risk_CRITICAL} then Action_QUARANTINE else Action_ISOLATE)
         in mk_response action (owner_for_resource_type (sig_resource_type s))
              (approval_for_signal s action) True ''incident response requires containment'')
      else if sig_signal_type s \<in> {Signal_SUSPICIOUS, Signal_POLICY_VIOLATION} then
        mk_response Action_AUDIT Owner_ODO Approval_NONE False ''signal requires audit before active defense''
      else
        mk_response Action_ESCALATE Owner_SISKO Approval_SISKO False ''unclassified security signal'')"

lemma mk_response_sel [simp]:
  "sr_action (mk_response ac ow ap ad rs) = ac"
  "sr_owner_domain (mk_response ac ow ap ad rs) = ow"
  "sr_approval_level (mk_response ac ow ap ad rs) = ap"
  "sr_active_defense (mk_response ac ow ap ad rs) = ad"
  by (simp_all add: mk_response_def)

interpretation signal_risk: risk_graded sig_severity "\<lambda>s. approval_for_signal s action" "\<lambda>s s'. True"
proof
  fix s s' :: SecuritySignal
  assume "sig_severity s \<le> sig_severity s'"
  then show "approval_for_signal s action \<le> approval_for_signal s' action"
    by (cases "sig_severity s"; cases "sig_severity s'")
      (simp_all add: approval_for_signal_def level_order_simps)
qed

text \<open>Active defense is always gated: the recommended response is flagged as active defense
  exactly when its action is an active-defense action, it then needs at least Sisko's approval,
  and a human's when the severity is critical; a response that needs no approval only monitors or
  audits; and on a security surface the only active defense ever recommended is patching.\<close>

theorem active_defense_is_gated:
  "(sr_active_defense (recommend_security_response s) \<longleftrightarrow>
     sr_action (recommend_security_response s) \<in> ACTIVE_DEFENSE_ACTIONS) \<and>
   (sr_active_defense (recommend_security_response s) \<longrightarrow>
     approval_rank (sr_approval_level (recommend_security_response s)) \<ge>
       (if sig_severity s = Risk_CRITICAL then approval_rank Approval_HUMAN else approval_rank Approval_SISKO)) \<and>
   (sr_approval_level (recommend_security_response s) = Approval_NONE \<longrightarrow>
     sr_action (recommend_security_response s) \<in> {Action_MONITOR, Action_AUDIT}) \<and>
   (sig_resource_type s = Type_SECURITY_SURFACE \<and> sr_active_defense (recommend_security_response s) \<longrightarrow>
     sr_action (recommend_security_response s) = Action_PATCH)"
  by (simp add: recommend_security_response_def approval_for_signal_def ACTIVE_DEFENSE_ACTIONS_def Let_def)

definition sample_signal :: "SecuritySignalType \<Rightarrow> RiskLevel \<Rightarrow> SecuritySignal" where
  "sample_signal st sv = \<lparr>sig_id = ''s1'', sig_resource_id = ''gw'', sig_resource_type = Type_SERVICE,
     sig_signal_type = st, sig_severity = sv, sig_confidence = 1, sig_source = ''ids'',
     sig_indicator = ''beacon'', sig_observed_at = None\<rparr>"

theorem active_defense_is_gated_witness:
  "sr_active_defense (recommend_security_response (sample_signal Signal_CONFIRMED_INCIDENT Risk_CRITICAL)) \<and>
   approval_rank (sr_approval_level
     (recommend_security_response (sample_signal Signal_CONFIRMED_INCIDENT Risk_CRITICAL))) \<ge> 3"
proof -
  have act: "sr_active_defense (recommend_security_response (sample_signal Signal_CONFIRMED_INCIDENT Risk_CRITICAL))"
    by (simp add: recommend_security_response_def sample_signal_def Let_def)
  have crit: "sig_severity (sample_signal Signal_CONFIRMED_INCIDENT Risk_CRITICAL) = Risk_CRITICAL"
    by (simp add: sample_signal_def)
  show ?thesis
    using active_defense_is_gated [of "sample_signal Signal_CONFIRMED_INCIDENT Risk_CRITICAL"] act
    unfolding crit by simp
qed

end
