(* ===== verification/Planner.thy ===== *)
theory Planner
  imports Scheduling Security Audit_Log
begin

text \<open>
  The execution boundary of \<^verbatim>\<open>src/overseer/adapters.py\<close> and the dry-run planner of
  \<^verbatim>\<open>src/overseer/planner.py\<close>. The adapter protocols of the module declare signatures only.
\<close>

datatype ExecutionMode =
    Mode_DRY_RUN | Mode_LIVE

fun execution_mode_value :: "ExecutionMode \<Rightarrow> string" where
  "execution_mode_value Mode_DRY_RUN = ''dry_run''"
| "execution_mode_value Mode_LIVE = ''live''"

datatype ExecutionStatus =
    Exec_SKIPPED | Exec_PLANNED | Exec_COMPLETED | Exec_BLOCKED | Exec_FAILED

fun execution_status_value :: "ExecutionStatus \<Rightarrow> string" where
  "execution_status_value Exec_SKIPPED = ''skipped''"
| "execution_status_value Exec_PLANNED = ''planned''"
| "execution_status_value Exec_COMPLETED = ''completed''"
| "execution_status_value Exec_BLOCKED = ''blocked''"
| "execution_status_value Exec_FAILED = ''failed''"

record ExecutionRequest =
  xq_id :: string
  xq_action :: string
  xq_target_resource_id :: string
  xq_owner_domain :: OwnerDomain
  xq_mode :: ExecutionMode
  xq_reason :: string

record ExecutionResult =
  xr_id :: string
  xr_request_id :: string
  xr_status :: ExecutionStatus
  xr_owner_domain :: OwnerDomain
  xr_summary :: string
  xr_evidence_ids :: "string list"
  xr_mode :: ExecutionMode

definition changed_host_state :: "ExecutionResult \<Rightarrow> bool" where
  "changed_host_state r \<longleftrightarrow> xr_mode r = Mode_LIVE \<and> xr_status r = Exec_COMPLETED"

definition dry_run_execute :: "ExecutionRequest \<Rightarrow> ExecutionResult" where
  "dry_run_execute request =
     (if xq_mode request = Mode_LIVE then
        \<lparr>xr_id = ''exec.'' @ xq_id request @ ''.blocked'', xr_request_id = xq_id request,
         xr_status = Exec_BLOCKED, xr_owner_domain = xq_owner_domain request,
         xr_summary = ''live execution requires an authorized adapter'', xr_evidence_ids = [],
         xr_mode = xq_mode request\<rparr>
      else
        \<lparr>xr_id = ''exec.'' @ xq_id request @ ''.planned'', xr_request_id = xq_id request,
         xr_status = Exec_PLANNED, xr_owner_domain = xq_owner_domain request,
         xr_summary = ''dry run planned action '' @ xq_action request @ '' for '' @ xq_target_resource_id request,
         xr_evidence_ids = [''dryrun.'' @ xq_id request], xr_mode = xq_mode request\<rparr>)"

record PlannedOperation =
  po_request :: ExecutionRequest
  po_result :: ExecutionResult
  po_approval_level :: ApprovalLevel
  po_reason :: string
  po_approval_request :: "ApprovalRequest option"
  po_scheduled_work :: "ScheduledWork option"

definition requires_approval :: "PlannedOperation \<Rightarrow> bool" where
  "requires_approval op \<longleftrightarrow> po_approval_level op \<noteq> Approval_NONE"

definition approval_request_for_operation ::
  "ExecutionRequest \<Rightarrow> ApprovalLevel \<Rightarrow> string \<Rightarrow> string list \<Rightarrow> ApprovalRequest option" where
  "approval_request_for_operation request approval_level reason evidence_required =
     (if approval_level = Approval_NONE then None
      else Some \<lparr>apr_id = ''approval.operation.'' @ xq_id request, apr_subject_id = xq_id request,
        apr_approval_level = approval_level, apr_requester_thread = ''operation-planner'',
        apr_owner_domain = xq_owner_domain request, apr_reason = reason, apr_status = Appr_PENDING,
        apr_evidence_required = evidence_required, apr_decided_by = None, apr_decided_at = None\<rparr>)"

definition operation_reason :: "string \<Rightarrow> string \<Rightarrow> string" where
  "operation_reason readiness_reason schedule_reason =
     (if readiness_reason = schedule_reason then readiness_reason
      else readiness_reason @ ''; '' @ schedule_reason)"

text \<open>
  The planner is given its executor; \<open>None\<close> in the source selects the dry-run executor.
\<close>

definition plan_maintenance ::
  "(ExecutionRequest \<Rightarrow> ExecutionResult) \<Rightarrow> MaintenancePlan \<Rightarrow> MaintenancePlan list \<Rightarrow> PlannedOperation" where
  "plan_maintenance execute p active_plans =
     (let readiness = assess_maintenance_readiness p;
          scheduled_work = schedule_maintenance_window p active_plans;
          approval = mr_approval_level readiness;
          request = \<lparr>xq_id = mp_id p, xq_action = ''maintenance:'' @ maintenance_kind_value (mp_kind p),
            xq_target_resource_id = mp_resource_id p, xq_owner_domain = Owner_OBRIEN, xq_mode = Mode_DRY_RUN,
            xq_reason = operation_reason (mr_reason readiness) (sw_reason scheduled_work)\<rparr>
      in \<lparr>po_request = request, po_result = execute request, po_approval_level = approval,
          po_reason = mr_reason readiness,
          po_approval_request =
            approval_request_for_operation request approval (mr_reason readiness) (mp_precheck_ids p),
          po_scheduled_work = Some scheduled_work\<rparr>)"

definition plan_security_response ::
  "(ExecutionRequest \<Rightarrow> ExecutionResult) \<Rightarrow> SecuritySignal \<Rightarrow> PlannedOperation" where
  "plan_security_response execute s =
     (let response = recommend_security_response s;
          request = \<lparr>xq_id = ''security.'' @ sig_id s,
            xq_action = ''security:'' @ protective_action_value (sr_action response),
            xq_target_resource_id = sig_resource_id s, xq_owner_domain = sr_owner_domain response,
            xq_mode = Mode_DRY_RUN, xq_reason = sr_reason response\<rparr>
      in \<lparr>po_request = request, po_result = execute request,
          po_approval_level = sr_approval_level response, po_reason = sr_reason response,
          po_approval_request =
            approval_request_for_operation request (sr_approval_level response) (sr_reason response) [sig_id s],
          po_scheduled_work = None\<rparr>)"

definition plan_usage_limited_work :: "UsageLimit \<Rightarrow> LimitedWorkRequest \<Rightarrow> ScheduledWork" where
  "plan_usage_limited_work limit request = schedule_usage_limited_work limit request"

section \<open>The boundary\<close>

text \<open>
  The contract of an executor that can be left in place of the dry-run one: it never changes the
  host for a dry-run request. The planner only issues dry-run requests, so with any such executor
  planning has no effect on the host.
\<close>

locale safe_executor =
  fixes execute :: "ExecutionRequest \<Rightarrow> ExecutionResult"
  assumes dry_run_safe: "xq_mode request = Mode_DRY_RUN \<Longrightarrow> \<not> changed_host_state (execute request)"
begin

lemma planning_is_safe:
  "\<not> changed_host_state (po_result (plan_maintenance execute p ps))"
  "\<not> changed_host_state (po_result (plan_security_response execute s))"
  by (simp_all add: plan_maintenance_def plan_security_response_def Let_def dry_run_safe)

end

interpretation dry_run: safe_executor dry_run_execute
  by unfold_locales (simp add: dry_run_execute_def changed_host_state_def)

definition inert_plan :: "PlannedOperation \<Rightarrow> bool" where
  "inert_plan op \<longleftrightarrow> \<not> changed_host_state (po_result op) \<and>
     xr_request_id (po_result op) = xq_id (po_request op) \<and>
     (po_approval_request op = None \<longleftrightarrow> \<not> requires_approval op) \<and>
     (case po_approval_request op of None \<Rightarrow> True
      | Some a \<Rightarrow> apr_status a = Appr_PENDING \<and> apr_approval_level a = po_approval_level op \<and>
          apr_subject_id a = xq_id (po_request op))"

text \<open>Planning never acts: with the dry-run executor no planned maintenance or security
  operation reports a changed host, even live requests are blocked rather than executed, and the
  pending approval request is present exactly when the operation requires an approval, at the
  level the operation requires.\<close>

theorem planner_never_mutates_host:
  "inert_plan (plan_maintenance dry_run_execute p ps) \<and>
   inert_plan (plan_security_response dry_run_execute s) \<and>
   \<not> changed_host_state (dry_run_execute request)"
proof (intro conjI)
  show "inert_plan (plan_maintenance dry_run_execute p ps)"
    using dry_run.planning_is_safe(1) [of p ps]
    by (simp add: inert_plan_def plan_maintenance_def Let_def requires_approval_def
        approval_request_for_operation_def dry_run_execute_def)
  show "inert_plan (plan_security_response dry_run_execute s)"
    using dry_run.planning_is_safe(2) [of s]
    by (simp add: inert_plan_def plan_security_response_def Let_def requires_approval_def
        approval_request_for_operation_def dry_run_execute_def)
  show "\<not> changed_host_state (dry_run_execute request)"
    by (simp add: dry_run_execute_def changed_host_state_def)
qed

end
