(* ===== verification/Admin_Plans.thy ===== *)
theory Admin_Plans
  imports Core_Claims Audit_Log
begin

text \<open>
  Administrative change plans of \<^verbatim>\<open>src/overseer/admin.py\<close>: the plan record, the adapter
  capabilities, the builders that stage a plan for each kind of change, and the plan's life cycle
  (approve, cancel, archive, restore). A builder that raises returns the exception; an optional
  parameter of the source is an argument here, with the source's default supplied by the caller.
\<close>

datatype AdminChangeKind =
    Admin_USER_SERVICE_RESTART | Admin_APT_INSTALL | Admin_APT_UPDATE | Admin_APT_UPGRADE
  | Admin_FIRMWARE_UPDATE | Admin_FLATPAK_INSTALL | Admin_NPM_GLOBAL_INSTALL
  | Admin_DOCKER_COMPOSE_UPDATE | Admin_STORAGE_MOUNT_TEST | Admin_FIREWALL_ALLOW_TCP
  | Admin_FIREWALL_DENY_TCP | Admin_BLOCK_IP

fun admin_kind_value :: "AdminChangeKind \<Rightarrow> string" where
  "admin_kind_value Admin_USER_SERVICE_RESTART = ''user_service_restart''"
| "admin_kind_value Admin_APT_INSTALL = ''apt_install''"
| "admin_kind_value Admin_APT_UPDATE = ''apt_update''"
| "admin_kind_value Admin_APT_UPGRADE = ''apt_upgrade''"
| "admin_kind_value Admin_FIRMWARE_UPDATE = ''firmware_update''"
| "admin_kind_value Admin_FLATPAK_INSTALL = ''flatpak_install''"
| "admin_kind_value Admin_NPM_GLOBAL_INSTALL = ''npm_global_install''"
| "admin_kind_value Admin_DOCKER_COMPOSE_UPDATE = ''docker_compose_update''"
| "admin_kind_value Admin_STORAGE_MOUNT_TEST = ''storage_mount_test''"
| "admin_kind_value Admin_FIREWALL_ALLOW_TCP = ''firewall_allow_tcp''"
| "admin_kind_value Admin_FIREWALL_DENY_TCP = ''firewall_deny_tcp''"
| "admin_kind_value Admin_BLOCK_IP = ''block_ip''"

definition ADMIN_CHANGE_KINDS :: "AdminChangeKind list" where
  "ADMIN_CHANGE_KINDS = [Admin_USER_SERVICE_RESTART, Admin_APT_INSTALL, Admin_APT_UPDATE, Admin_APT_UPGRADE, Admin_FIRMWARE_UPDATE, Admin_FLATPAK_INSTALL, Admin_NPM_GLOBAL_INSTALL, Admin_DOCKER_COMPOSE_UPDATE, Admin_STORAGE_MOUNT_TEST, Admin_FIREWALL_ALLOW_TCP, Admin_FIREWALL_DENY_TCP, Admin_BLOCK_IP]"

definition admin_kind_of :: "string \<Rightarrow> AdminChangeKind result" where
  "admin_kind_of = enum_of ''AdminChangeKind'' admin_kind_value ADMIN_CHANGE_KINDS"

datatype AdminExecutionStatus =
    AdminExec_COMPLETED | AdminExec_BLOCKED | AdminExec_FAILED

fun admin_execution_status_value :: "AdminExecutionStatus \<Rightarrow> string" where
  "admin_execution_status_value AdminExec_COMPLETED = ''completed''"
| "admin_execution_status_value AdminExec_BLOCKED = ''blocked''"
| "admin_execution_status_value AdminExec_FAILED = ''failed''"

datatype AdminAdapterStatus =
    Adapter_ENABLED | Adapter_DISABLED | Adapter_UNSUPPORTED

fun adapter_status_value :: "AdminAdapterStatus \<Rightarrow> string" where
  "adapter_status_value Adapter_ENABLED = ''enabled''"
| "adapter_status_value Adapter_DISABLED = ''disabled''"
| "adapter_status_value Adapter_UNSUPPORTED = ''unsupported''"

record AdminCommandStep =
  as_title :: string
  as_command :: "string list"
  as_reason :: string

record AdminCommandResult =
  ar_title :: string
  ar_command :: "string list"
  ar_exit_code :: int
  ar_stdout :: string
  ar_stderr :: string

record AdminExecutionResult =
  ax_id :: string
  ax_plan_id :: string
  ax_status :: AdminExecutionStatus
  ax_summary :: string
  ax_command_results :: "AdminCommandResult list"
  ax_verification_results :: "AdminCommandResult list"
  ax_rollback_results :: "AdminCommandResult list"

record AdminExecutionCapability =
  cap_kind :: AdminChangeKind
  cap_adapter_name :: string
  cap_status :: AdminAdapterStatus
  cap_summary :: string
  cap_authorization_required_before_enable :: bool
  cap_approval_plan_required :: bool
  cap_supported_commands :: "string list list"

definition can_execute_live :: "AdminExecutionCapability \<Rightarrow> bool" where
  "can_execute_live cap \<longleftrightarrow> cap_status cap = Adapter_ENABLED"

record AdminChangePlan =
  ap_id :: string
  ap_kind :: AdminChangeKind
  ap_owner_domain :: OwnerDomain
  ap_risk_level :: RiskLevel
  ap_approval_level :: ApprovalLevel
  ap_target :: string
  ap_reason :: string
  ap_current_state :: string
  ap_proposed_state :: string
  ap_steps :: "AdminCommandStep list"
  ap_rollback_steps :: "AdminCommandStep list"
  ap_risks :: "string list"
  ap_verification_steps :: "AdminCommandStep list"
  ap_residual_scan_findings :: "string list"
  ap_approved :: bool
  ap_approved_by :: "string option"
  ap_approved_at :: "string option"
  ap_canceled :: bool
  ap_canceled_by :: "string option"
  ap_canceled_at :: "string option"
  ap_cancellation_reason :: "string option"
  ap_archived :: bool
  ap_archived_by :: "string option"
  ap_archived_at :: "string option"
  ap_archive_record_id :: "string option"

definition missing_admin_change_fields :: "AdminChangePlan \<Rightarrow> string list" where
  "missing_admin_change_fields p =
     (if blank (ap_current_state p) then [''current_state''] else []) @
     (if blank (ap_proposed_state p) then [''proposed_state''] else []) @
     (if blank (ap_reason p) then [''reason''] else []) @
     (if ap_steps p = [] then [''steps''] else []) @
     (if ap_rollback_steps p = [] then [''rollback_steps''] else []) @
     (if ap_risks p = [] then [''risks''] else []) @
     (if ap_verification_steps p = [] then [''verification_steps''] else [])"

definition requires_explicit_approval :: "AdminChangePlan \<Rightarrow> bool" where
  "requires_explicit_approval p \<longleftrightarrow>
     \<not> ap_canceled p \<and> (ap_approval_level p \<noteq> Approval_NONE \<or> ap_risk_level p \<noteq> Risk_LOW)"

definition can_execute :: "AdminChangePlan \<Rightarrow> bool" where
  "can_execute p \<longleftrightarrow> \<not> ap_archived p \<and> \<not> ap_canceled p \<and>
     (ap_approved p \<or> \<not> requires_explicit_approval p) \<and> missing_admin_change_fields p = []"

section \<open>Adapter capabilities\<close>

definition mk_capability ::
  "AdminChangeKind \<Rightarrow> string \<Rightarrow> AdminAdapterStatus \<Rightarrow> string \<Rightarrow> bool \<Rightarrow> bool \<Rightarrow> string list list \<Rightarrow>
   AdminExecutionCapability" where
  "mk_capability kind name status summary auth planreq cmds =
     \<lparr>cap_kind = kind, cap_adapter_name = name, cap_status = status, cap_summary = summary,
      cap_authorization_required_before_enable = auth, cap_approval_plan_required = planreq,
      cap_supported_commands = cmds\<rparr>"

definition DEFAULT_ADMIN_EXECUTION_CAPABILITIES ::
  "(AdminChangeKind, AdminExecutionCapability) pydict" where
  "DEFAULT_ADMIN_EXECUTION_CAPABILITIES = [
     (Admin_USER_SERVICE_RESTART, mk_capability Admin_USER_SERVICE_RESTART ''user-systemd-service'' Adapter_ENABLED
        ''approved user service restart execution is enabled''
        False False
        [[''systemctl'', ''--user'', ''restart''], [''systemctl'', ''--user'', ''status'']]),
     (Admin_APT_INSTALL, mk_capability Admin_APT_INSTALL ''apt-package-install'' Adapter_DISABLED
        ''live apt installs require a specific high-risk package adapter approval plan before enablement''
        True True
        [[''sudo'', ''apt-get'', ''install''], [''dpkg-query'', ''-W'']]),
     (Admin_APT_UPDATE, mk_capability Admin_APT_UPDATE ''apt-package-index-refresh'' Adapter_DISABLED
        ''live apt package index refresh requires a specific package-maintenance adapter approval plan before enablement''
        True True
        [[''sudo'', ''apt-get'', ''update''], [''sudo'', ''apt-get'', ''check'']]),
     (Admin_APT_UPGRADE, mk_capability Admin_APT_UPGRADE ''apt-package-upgrade'' Adapter_DISABLED
        ''live apt upgrades require a specific high-risk package-maintenance adapter approval plan before enablement''
        True True
        [[''sudo'', ''apt-get'', ''upgrade''], [''sudo'', ''apt-get'', ''install'', ''--only-upgrade''], [''sudo'', ''apt-get'', ''check''], [''apt'', ''list'', ''--upgradable'']]),
     (Admin_FIRMWARE_UPDATE, mk_capability Admin_FIRMWARE_UPDATE ''fwupd-firmware-update'' Adapter_DISABLED
        ''live firmware updates require explicit adapter enablement because they mutate boot-trust state and usually require a reboot''
        True True
        [[''fwupdmgr'', ''get-upgrades'', ''--no-reboot-check''], [''fwupdmgr'', ''update''], [''fwupdmgr'', ''get-history'']]),
     (Admin_FLATPAK_INSTALL, mk_capability Admin_FLATPAK_INSTALL ''flatpak-install'' Adapter_DISABLED
        ''live flatpak installs require a specific package-provider adapter approval plan before enablement''
        True True
        [[''flatpak'', ''install''], [''flatpak'', ''info''], [''flatpak'', ''uninstall'']]),
     (Admin_NPM_GLOBAL_INSTALL, mk_capability Admin_NPM_GLOBAL_INSTALL ''npm-global-install'' Adapter_DISABLED
        ''live npm global installs require a specific package-provider adapter approval plan before enablement''
        True True
        [[''npm'', ''install'', ''-g''], [''npm'', ''list'', ''-g''], [''npm'', ''uninstall'', ''-g'']]),
     (Admin_DOCKER_COMPOSE_UPDATE, mk_capability Admin_DOCKER_COMPOSE_UPDATE ''docker-compose-update'' Adapter_DISABLED
        ''live Docker Compose updates require explicit adapter enablement because they can restart services and mutate volumes''
        True True
        [[''sudo'', ''docker'', ''compose''], [''sudo'', ''docker'', ''run''], [''sudo'', ''docker'', ''image'', ''inspect''], [''trivy'', ''image''], [''curl'', ''-fsS'']]),
     (Admin_STORAGE_MOUNT_TEST, mk_capability Admin_STORAGE_MOUNT_TEST ''storage-mount-test'' Adapter_DISABLED
        ''live storage mount tests require explicit adapter enablement because they mount network storage and can expose backup paths''
        True True
        [[''mkdir'', ''-p''], [''sudo'', ''mount'', ''-t'', ''cifs''], [''findmnt'', ''--target''], [''sudo'', ''umount'']]),
     (Admin_FIREWALL_ALLOW_TCP, mk_capability Admin_FIREWALL_ALLOW_TCP ''ufw-firewall-allow'' Adapter_DISABLED
        ''live firewall allow rules require a specific high-risk firewall adapter approval plan before enablement''
        True True
        [[''sudo'', ''ufw'', ''allow''], [''sudo'', ''ufw'', ''status'']]),
     (Admin_FIREWALL_DENY_TCP, mk_capability Admin_FIREWALL_DENY_TCP ''host-firewall-deny'' Adapter_DISABLED
        ''live firewall deny rules require a specific high-risk firewall adapter approval plan before enablement''
        True True
        [[''sudo'', ''ufw'', ''deny''], [''sudo'', ''ufw'', ''status''], [''sudo'', ''firewall-cmd'', ''--zone=public'', ''--add-rich-rule''], [''sudo'', ''firewall-cmd'', ''--reload''], [''sudo'', ''firewall-cmd'', ''--zone=public'', ''--list-all'']]),
     (Admin_BLOCK_IP, mk_capability Admin_BLOCK_IP ''ufw-source-block'' Adapter_DISABLED
        ''live source blocks require a specific high-risk firewall adapter approval plan before enablement''
        True True
        [[''sudo'', ''ufw'', ''deny'', ''from''], [''sudo'', ''ufw'', ''status'']])]"

text \<open>The adapter kinds enabled by the operator; the source also accepts their string values.\<close>

definition admin_execution_capability_for ::
  "AdminChangeKind \<Rightarrow> AdminChangeKind list \<Rightarrow> AdminExecutionCapability" where
  "admin_execution_capability_for kind enabled_adapter_kinds =
     (let capability = (case dict_get DEFAULT_ADMIN_EXECUTION_CAPABILITIES kind of
            Some cap \<Rightarrow> cap
          | None \<Rightarrow> mk_capability kind ''unknown'' Adapter_UNSUPPORTED
              ''no live admin adapter is registered for this plan kind'' True True [])
      in if cap_status capability = Adapter_DISABLED \<and> kind \<in> set enabled_adapter_kinds
         then capability\<lparr>cap_status := Adapter_ENABLED,
                cap_summary := ''approved live '' @ cap_adapter_name capability @ '' execution is enabled''\<rparr>
         else capability)"

section \<open>Life cycle\<close>

definition archive_admin_change_plan ::
  "AdminChangePlan \<Rightarrow> string \<Rightarrow> string \<Rightarrow> string \<Rightarrow> AdminChangePlan result" where
  "archive_admin_change_plan p archive_record_id archived_by archived_at =
     (if blank archived_by then Inl (ValueError ''archived_by is required'')
      else if ap_archived p then Inl (ValueError ''admin change plan is already archived'')
      else Inr (p\<lparr>ap_archived := True, ap_archived_by := Some archived_by,
        ap_archived_at := Some archived_at, ap_archive_record_id := Some archive_record_id\<rparr>))"

definition unarchive_admin_change_plan :: "AdminChangePlan \<Rightarrow> string \<Rightarrow> AdminChangePlan result" where
  "unarchive_admin_change_plan p restored_by =
     (if blank restored_by then Inl (ValueError ''restored_by is required'')
      else if \<not> ap_archived p then Inl (ValueError ''admin change plan is not archived'')
      else Inr (p\<lparr>ap_archived := False, ap_archived_by := None, ap_archived_at := None,
        ap_archive_record_id := None\<rparr>))"

definition approve_admin_change_plan ::
  "AdminChangePlan \<Rightarrow> string \<Rightarrow> string option \<Rightarrow> AdminChangePlan result" where
  "approve_admin_change_plan p approved_by approved_at =
     (if ap_canceled p then Inl (ValueError ''cannot approve canceled admin change plan'')
      else if missing_admin_change_fields p \<noteq> []
        then Inl (ValueError ''cannot approve incomplete admin change plan'')
      else if blank approved_by then Inl (ValueError ''approved_by is required'')
      else Inr (p\<lparr>ap_approved := True, ap_approved_by := Some approved_by, ap_approved_at := approved_at\<rparr>))"

definition cancel_admin_change_plan ::
  "AdminChangePlan \<Rightarrow> string \<Rightarrow> string \<Rightarrow> string option \<Rightarrow> AdminChangePlan result" where
  "cancel_admin_change_plan p canceled_by cancellation_reason canceled_at =
     (if blank canceled_by then Inl (ValueError ''canceled_by is required'')
      else if blank cancellation_reason then Inl (ValueError ''cancellation_reason is required'')
      else Inr (p\<lparr>ap_canceled := True, ap_canceled_by := Some canceled_by, ap_canceled_at := canceled_at,
        ap_cancellation_reason := Some cancellation_reason, ap_approved := False, ap_approved_by := None,
        ap_approved_at := None\<rparr>))"

section \<open>Package identifiers\<close>

definition UNSUPPORTED_APT_PACKAGE_PREFIXES :: "string list" where
  "UNSUPPORTED_APT_PACKAGE_PREFIXES = [''flatpak:'', ''npm:'', ''pip:'', ''pipx:'', ''snap:'']"

fun unsupported_package_provider :: "string list \<Rightarrow> string option" where
  "unsupported_package_provider [] = None"
| "unsupported_package_provider (part # parts) =
     (case find (startswith (py_lower part)) UNSUPPORTED_APT_PACKAGE_PREFIXES of
        Some prefix \<Rightarrow> Some (butlast prefix)
      | None \<Rightarrow> unsupported_package_provider parts)"

definition validate_apt_package_identifiers :: "string list \<Rightarrow> unit result" where
  "validate_apt_package_identifiers packages =
     (case unsupported_package_provider packages of
        Some unsupported \<Rightarrow> Inl (ValueError (''unsupported package provider '' @ [CHR 0x27] @ unsupported @
          [CHR 0x27] @ ''; use a provider-specific admin adapter''))
      | None \<Rightarrow> Inr ())"

definition is_apt_command :: "string list \<Rightarrow> bool" where
  "is_apt_command command \<longleftrightarrow>
     (2 \<le> length command \<and> command ! 0 = ''sudo'' \<and> command ! 1 = ''apt-get'') \<or>
     (command \<noteq> [] \<and> command ! 0 = ''apt-get'')"

section \<open>Plan builders\<close>

definition dq :: string where "dq = [CHR 0x22]"

definition mk_step :: "string \<Rightarrow> string list \<Rightarrow> string \<Rightarrow> AdminCommandStep" where
  "mk_step title command reason = \<lparr>as_title = title, as_command = command, as_reason = reason\<rparr>"

definition mk_plan ::
  "string \<Rightarrow> AdminChangeKind \<Rightarrow> OwnerDomain \<Rightarrow> RiskLevel \<Rightarrow> ApprovalLevel \<Rightarrow> string \<Rightarrow> string \<Rightarrow> string \<Rightarrow>
   string \<Rightarrow> AdminCommandStep list \<Rightarrow> AdminCommandStep list \<Rightarrow> string list \<Rightarrow> AdminCommandStep list \<Rightarrow>
   AdminChangePlan" where
  "mk_plan plan_id kind owner risk approval target reason current_state proposed_state steps rollback_steps
     risks verification_steps =
     \<lparr>ap_id = plan_id, ap_kind = kind, ap_owner_domain = owner, ap_risk_level = risk,
      ap_approval_level = approval, ap_target = target, ap_reason = reason,
      ap_current_state = current_state, ap_proposed_state = proposed_state, ap_steps = steps,
      ap_rollback_steps = rollback_steps, ap_risks = risks, ap_verification_steps = verification_steps,
      ap_residual_scan_findings = [], ap_approved = False, ap_approved_by = None, ap_approved_at = None,
      ap_canceled = False, ap_canceled_by = None, ap_canceled_at = None, ap_cancellation_reason = None,
      ap_archived = False, ap_archived_by = None, ap_archived_at = None, ap_archive_record_id = None\<rparr>"

definition plan_user_service_restart ::
  "string \<Rightarrow> string \<Rightarrow> string \<Rightarrow> string \<Rightarrow> AdminChangePlan" where
  "plan_user_service_restart plan_id service_name reason current_state =
     (mk_plan plan_id Admin_USER_SERVICE_RESTART Owner_OBRIEN Risk_MEDIUM Approval_SISKO service_name reason current_state
      (''restart user service '' @ service_name @ '' and verify it is active'')
      [mk_step ''Restart user service''
         [''systemctl'', ''--user'', ''restart'', service_name]
         ''apply the approved service change'']
      [mk_step ''Stop service after failed restart''
         [''systemctl'', ''--user'', ''stop'', service_name]
         ''return the service to a non-running state if restart creates harm'']
      [''temporary service interruption'', ''dependent local threads may fail while the service restarts'']
      [mk_step ''Verify user service status''
         [''systemctl'', ''--user'', ''status'', service_name, ''--no-pager'']
         ''confirm the service reached the expected active state''])"

definition plan_apt_install ::
  "string \<Rightarrow> string list \<Rightarrow> string \<Rightarrow> string \<Rightarrow> AdminChangePlan result" where
  "plan_apt_install plan_id packages reason current_state =
     (if packages = [] then Inl (ValueError ''at least one package is required'')
      else res_bind (validate_apt_package_identifiers packages) (\<lambda>_.
      Inr (mk_plan plan_id Admin_APT_INSTALL Owner_OBRIEN Risk_HIGH Approval_HUMAN (py_join '' '' packages) reason current_state
      (''install apt packages: '' @ (py_join '' '' packages))
      ([mk_step ''Simulate package install''
         ([''sudo'', ''apt-get'', ''install'', ''--dry-run''] @ packages)
         ''preview package changes before live install'',
       mk_step ''Install packages''
         ([''sudo'', ''apt-get'', ''install'', ''-y''] @ packages)
         ''apply the approved package installation''])
      ([mk_step ''Remove installed packages''
         ([''sudo'', ''apt-get'', ''remove'', ''-y''] @ packages)
         ''undo package installation if verification fails''])
      [''sudo privilege use'', ''package dependency changes'', ''service behavior may change after install'']
      ([mk_step ''Verify package installation''
         ([''dpkg-query'', ''-W''] @ packages)
         ''confirm packages are installed and queryable'']))))"

definition plan_apt_update ::
  "string \<Rightarrow> string \<Rightarrow> string \<Rightarrow> AdminChangePlan" where
  "plan_apt_update plan_id reason current_state =
     (mk_plan plan_id Admin_APT_UPDATE Owner_OBRIEN Risk_LOW Approval_NONE ''apt package index'' reason current_state
      ''refresh apt package index and verify package manager consistency''
      [mk_step ''Refresh package index''
         [''sudo'', ''apt-get'', ''update'']
         ''refresh package metadata before planned installs or upgrades'']
      [mk_step ''Verify package manager state after refresh''
         [''sudo'', ''apt-get'', ''check'']
         ''package-index refresh has no direct rollback; confirm package manager consistency'']
      [''sudo privilege use'', ''repository metadata changes may affect later package decisions'']
      [mk_step ''Verify package manager consistency''
         [''sudo'', ''apt-get'', ''check'']
         ''confirm dependency metadata remains consistent after refresh''])"

definition plan_apt_upgrade ::
  "string \<Rightarrow> string list \<Rightarrow> string \<Rightarrow> string \<Rightarrow> AdminChangePlan result" where
  "plan_apt_upgrade plan_id package_args reason current_state =
     ((let target = (if package_args \<noteq> [] then py_join '' '' package_args else ''all upgradeable packages'');
           preview_command = (if package_args \<noteq> [] then [''sudo'', ''apt-get'', ''install'', ''--only-upgrade'', ''--dry-run''] @ package_args
             else [''sudo'', ''apt-get'', ''upgrade'', ''--dry-run'']);
           upgrade_command = (if package_args \<noteq> [] then [''sudo'', ''apt-get'', ''install'', ''--only-upgrade'', ''-y''] @ package_args
             else [''sudo'', ''apt-get'', ''upgrade'', ''-y'']);
           verification_command = (if package_args \<noteq> [] then [''dpkg-query'', ''-W''] @ package_args else [''sudo'', ''apt-get'', ''check''])
       in res_bind (validate_apt_package_identifiers package_args) (\<lambda>_.
      Inr (mk_plan plan_id Admin_APT_UPGRADE Owner_OBRIEN Risk_HIGH Approval_SISKO target reason current_state
      (''upgrade apt packages: '' @ target)
      [mk_step ''Simulate package upgrade''
         preview_command
         ''preview package changes before live upgrade'',
       mk_step ''Upgrade packages''
         upgrade_command
         ''apply the approved package upgrade'']
      [mk_step ''Check package manager state before rollback decision''
         [''sudo'', ''apt-get'', ''check'']
         ''verify dependency state before trying rollback or the next available package version'',
       mk_step ''Attempt package recovery''
         [''sudo'', ''apt-get'', ''-f'', ''install'', ''-y'']
         ''repair interrupted package configuration before retrying the next available version'']
      [''sudo privilege use'', ''package upgrades may restart or change local services'', ''downgrade rollback may be unavailable without cached package versions'']
      [mk_step ''Verify package upgrade''
         verification_command
         ''confirm upgraded packages or package manager state are queryable'']))))"

definition plan_firmware_update ::
  "string \<Rightarrow> string \<Rightarrow> string \<Rightarrow> string \<Rightarrow> string \<Rightarrow> string \<Rightarrow> AdminChangePlan result" where
  "plan_firmware_update plan_id target reason current_state release_id update_error =
     (if blank target then Inl (ValueError ''target is required'')
      else (let fwupd_target = (if py_strip release_id \<noteq> [] then py_strip release_id else py_strip target);
           blockers = (if py_strip update_error \<noteq> [] then [py_strip update_error] else [])
       in Inr (mk_plan plan_id Admin_FIRMWARE_UPDATE Owner_OBRIEN Risk_CRITICAL Approval_HUMAN (py_strip target) reason current_state
      (''apply approved fwupd firmware update for '' @ (py_strip target))
      [mk_step ''Inspect firmware update readiness''
         [''fwupdmgr'', ''get-upgrades'', ''--no-reboot-check'']
         ''confirm the target update is still available and blockers are resolved immediately before mutation'',
       mk_step ''Apply firmware update''
         [''fwupdmgr'', ''update'', fwupd_target]
         ''apply the explicitly approved firmware update through fwupd'']
      [mk_step ''Capture firmware history after failed update''
         [''fwupdmgr'', ''get-history'']
         ''preserve vendor/fwupd history for rollback assessment because firmware rollback may be unavailable'']
      ([''firmware mutation'', ''boot trust database changes'', ''reboot required'', ''vendor rollback may be unavailable''] @ blockers)
      [mk_step ''Verify firmware update history''
         [''fwupdmgr'', ''get-history'']
         ''confirm fwupd records the firmware update result after reboot'',
       mk_step ''Verify no remaining firmware upgrades''
         [''fwupdmgr'', ''get-upgrades'', ''--no-reboot-check'']
         ''confirm the targeted firmware update is no longer pending or record any remaining blockers''])))"

definition plan_flatpak_install ::
  "string \<Rightarrow> string \<Rightarrow> string \<Rightarrow> string \<Rightarrow> string \<Rightarrow> AdminChangePlan result" where
  "plan_flatpak_install plan_id app_id reason current_state remote =
     (if blank app_id then Inl (ValueError ''app_id is required'')
      else if blank remote then Inl (ValueError ''remote is required'')
      else Inr (mk_plan plan_id Admin_FLATPAK_INSTALL Owner_OBRIEN Risk_HIGH Approval_SISKO app_id reason current_state
      (''install Flatpak app '' @ app_id @ '' from '' @ remote)
      [mk_step ''Install Flatpak app''
         [''flatpak'', ''install'', ''-y'', remote, app_id]
         ''apply the approved Flatpak installation'']
      [mk_step ''Remove Flatpak app''
         [''flatpak'', ''uninstall'', ''-y'', app_id]
         ''undo Flatpak installation if verification fails'']
      [''user application changes'', ''provider repository metadata may change'', ''application permissions may affect local files'']
      [mk_step ''Verify Flatpak app''
         [''flatpak'', ''info'', app_id]
         ''confirm the Flatpak app is installed and queryable'']))"

definition plan_npm_global_install ::
  "string \<Rightarrow> string \<Rightarrow> string \<Rightarrow> string \<Rightarrow> AdminChangePlan result" where
  "plan_npm_global_install plan_id package reason current_state =
     (if blank package then Inl (ValueError ''package is required'')
      else Inr (mk_plan plan_id Admin_NPM_GLOBAL_INSTALL Owner_OBRIEN Risk_HIGH Approval_SISKO package reason current_state
      (''install global npm package '' @ package)
      [mk_step ''Install global npm package''
         [''npm'', ''install'', ''-g'', package]
         ''apply the approved global npm installation'']
      [mk_step ''Remove global npm package''
         [''npm'', ''uninstall'', ''-g'', package]
         ''undo global npm installation if verification fails'']
      [''global developer tooling changes'', ''provider package scripts may run'', ''package version drift may affect MCP behavior'']
      [mk_step ''Verify global npm package''
         [''npm'', ''list'', ''-g'', package, ''--depth=0'']
         ''confirm the global npm package is installed and queryable'']))"

text \<open>\<open>os.path.dirname\<close>: the part up to the last slash, without trailing slashes unless it is all slashes.\<close>

definition dirname :: "string \<Rightarrow> string" where
  "dirname p =
     (let head = rev (dropWhile (\<lambda>c. c \<noteq> CHR ''/'') (rev p))
      in if head \<noteq> [] \<and> list_ex (\<lambda>c. c \<noteq> CHR ''/'') head
         then rev (dropWhile (\<lambda>c. c = CHR ''/'') (rev head)) else head)"

definition plan_docker_compose_update ::
  "string \<Rightarrow> string \<Rightarrow> string \<Rightarrow> string \<Rightarrow> string option \<Rightarrow> string list \<Rightarrow> string list \<Rightarrow> string list \<Rightarrow> string list \<Rightarrow> string list \<Rightarrow> string option \<Rightarrow> string option \<Rightarrow> AdminChangePlan result" where
  "plan_docker_compose_update plan_id compose_file reason current_state project_directory env rollback_env extra_compose_files scan_images residual_scan_findings health_url backup_label =
     (if blank compose_file then Inl (ValueError ''compose_file is required'')
      else (let compose_path = py_strip compose_file;
           extra_paths = map py_strip (filter (\<lambda>path. \<not> blank path) extra_compose_files);
           project_dir = py_strip (if str_true project_directory then the project_directory
             else if dirname compose_path \<noteq> [] then dirname compose_path else ''.'');
           compose_file_args = concat (map (\<lambda>path. [''-f'', path]) (compose_path # extra_paths));
           compose_command = [''sudo'', ''docker'', ''compose''] @ compose_file_args;
           env_prefix = (if env \<noteq> [] then [''sudo'', ''env''] @ env else [''sudo'']);
           rollback_env_prefix = (if rollback_env \<noteq> [] then [''sudo'', ''env''] @ rollback_env else [''sudo'']);
           safe_label = replace_char CHR 0x20 ''_'' (replace_char CHR ''/'' ''_'' (str_default backup_label plan_id));
           backup_path = project_dir @ ''/local-secrets/admin-backups/'' @ safe_label;
           verification = [mk_step ''Verify Compose services'' (compose_command @ [''ps''])
               ''confirm the Compose project reports service state after the update''] @
             (if str_true health_url then
                [mk_step ''Verify service health endpoint'' [''curl'', ''-fsS'', the health_url]
                  ''confirm the updated service responds on its local health or UI endpoint''] else []);
           residual_findings = map py_strip (filter (\<lambda>finding. \<not> blank finding) residual_scan_findings);
           scan_exit_code = (if residual_findings \<noteq> [] then ''0'' else ''1'');
           scan_reason = (if residual_findings \<noteq> []
             then ''record current replacement image critical/high findings after explicit residual-risk approval''
             else ''block service recreation if the pulled replacement image still has critical or high vulnerabilities'');
           scan_steps = map (\<lambda>image. mk_step (''Scan updated image '' @ image)
             [''trivy'', ''image'', ''--severity'', ''CRITICAL,HIGH'', ''--exit-code'', scan_exit_code, image] scan_reason) scan_images;
           extra_backup_steps = map (\<lambda>(index, path). mk_step (''Backup Compose override '' @ str_nat index)
             [''cp'', path, backup_path @ ''/compose-override-'' @ str_nat index @ ''.yaml'']
             ''preserve the current Compose override declaration for rollback review'') (enumerate 1 extra_paths)
       in Inr ((mk_plan plan_id Admin_DOCKER_COMPOSE_UPDATE Owner_OBRIEN Risk_HIGH Approval_HUMAN compose_path reason current_state
      (''update Docker Compose project at '' @ compose_path @ '' and verify dependent services'')
      ([mk_step ''Create backup directory''
         [''mkdir'', ''-p'', backup_path]
         ''prepare local-only backup storage before changing Compose services'',
       mk_step ''Backup Compose file''
         [''cp'', compose_path, backup_path @ ''/docker-compose.yaml'']
         ''preserve the current Compose declaration for rollback'']
      @ extra_backup_steps
      @ [mk_step ''Backup Postgres volume''
         [''sudo'', ''docker'', ''run'', ''--rm'', ''-v'', ''penpot_penpot_postgres_v15:/volume:ro'', ''-v'', backup_path @ '':/backup'', ''alpine:latest'', ''tar'', ''czf'', ''/backup/postgres-volume.tgz'', ''-C'', ''/volume'', ''.'']
         ''preserve database volume data before an application or image update'',
       mk_step ''Backup asset volume''
         [''sudo'', ''docker'', ''run'', ''--rm'', ''-v'', ''penpot_penpot_assets:/volume:ro'', ''-v'', backup_path @ '':/backup'', ''alpine:latest'', ''tar'', ''czf'', ''/backup/assets-volume.tgz'', ''-C'', ''/volume'', ''.'']
         ''preserve application assets before the update'',
       mk_step ''Pull Compose images''
         (env_prefix @ [''docker'', ''compose''] @ compose_file_args @ [''pull''])
         ''download the approved image versions before recreating services'']
      @ scan_steps
      @ [mk_step ''Recreate Compose services''
         (env_prefix @ [''docker'', ''compose''] @ compose_file_args @ [''up'', ''-d''])
         ''apply the approved image update to the Compose project''])
      ([mk_step ''Rollback Compose services''
         (rollback_env_prefix @ [''docker'', ''compose'', ''-f'', compose_path, ''up'', ''-d''])
         ''return the Compose project to the base Compose file if verification fails''])
      [''Docker Compose services will restart'', ''application image updates may run irreversible migrations'', ''database and asset volumes must be backed up before service recreation'', ''dependent local integrations may fail while services restart'']
      verification)\<lparr>ap_residual_scan_findings := residual_findings\<rparr>)))"

definition plan_storage_mount_test ::
  "string \<Rightarrow> string \<Rightarrow> string \<Rightarrow> string \<Rightarrow> string \<Rightarrow> string \<Rightarrow> string \<Rightarrow> AdminChangePlan result" where
  "plan_storage_mount_test plan_id share mount_path credential_file reason current_state filesystem_type =
     (if blank share then Inl (ValueError ''share is required'')
      else if blank mount_path then Inl (ValueError ''mount_path is required'')
      else if blank credential_file then Inl (ValueError ''credential_file is required'')
      else if filesystem_type \<noteq> ''cifs'' then Inl (ValueError ''only cifs storage mount tests are currently supported'')
      else Inr (mk_plan plan_id Admin_STORAGE_MOUNT_TEST Owner_KIRA Risk_HIGH Approval_HUMAN (share @ '' -> '' @ mount_path) reason current_state
      (''temporarily mount '' @ share @ '' at '' @ mount_path @ '', verify access, then unmount unless follow-up approval keeps it mounted'')
      ([mk_step ''Create local mount directory''
         [''mkdir'', ''-p'', mount_path]
         ''prepare the approved local mount point without touching the remote share'',
       mk_step ''Mount storage share''
         [''sudo'', ''mount'', ''-t'', filesystem_type, share, mount_path, ''-o'', ''credentials='' @ credential_file @ '',rw'']
         ''connect the approved network storage target using the ignored credential file''])
      [mk_step ''Unmount storage share''
         [''sudo'', ''umount'', mount_path]
         ''disconnect the NAS share if validation fails or after the temporary test completes'']
      [''network storage credentials could be misused if local secret permissions are wrong'', ''mounting the wrong share could expose or overwrite unintended backup data'', ''a stale mount can cause backup jobs to write to local disk instead of NAS if not monitored'', ''NAS outage or DNS failure can block backup execution until remediated'']
      [mk_step ''Verify mount target''
         [''findmnt'', ''--target'', mount_path]
         ''confirm the mounted path resolves to the approved NAS share'']))"

definition plan_firewall_allow_tcp ::
  "string \<Rightarrow> int \<Rightarrow> string \<Rightarrow> string \<Rightarrow> AdminChangePlan result" where
  "plan_firewall_allow_tcp plan_id port reason current_state =
     (if port < 1 \<or> port > 65535 then Inl (ValueError ''port must be between 1 and 65535'')
      else Inr (mk_plan plan_id Admin_FIREWALL_ALLOW_TCP Owner_ODO_FIREWALL Risk_CRITICAL Approval_HUMAN (''tcp/'' @ str_int port) reason current_state
      (''allow inbound TCP traffic on port '' @ str_int port)
      ([mk_step ''Allow TCP port''
         [''sudo'', ''ufw'', ''allow'', str_int port @ ''/tcp'']
         ''open the approved inbound service port''])
      ([mk_step ''Deny TCP port''
         [''sudo'', ''ufw'', ''delete'', ''allow'', str_int port @ ''/tcp'']
         ''remove the inbound firewall exception''])
      [''external service exposure'', ''increased attack surface'', ''incorrect rule scope may expose more than intended'']
      [mk_step ''Verify firewall status''
         [''sudo'', ''ufw'', ''status'', ''verbose'']
         ''confirm the firewall rule exists only as approved'']))"

definition plan_firewall_deny_tcp ::
  "string \<Rightarrow> int \<Rightarrow> string \<Rightarrow> string \<Rightarrow> AdminChangePlan result" where
  "plan_firewall_deny_tcp plan_id port reason current_state =
     (if port < 1 \<or> port > 65535 then Inl (ValueError ''port must be between 1 and 65535'')
      else Inr (mk_plan plan_id Admin_FIREWALL_DENY_TCP Owner_ODO_FIREWALL Risk_CRITICAL Approval_HUMAN (''tcp/'' @ str_int port) reason current_state
      (''deny inbound TCP traffic on port '' @ str_int port)
      ([mk_step ''Deny TCP port''
         [''sudo'', ''ufw'', ''deny'', str_int port @ ''/tcp'']
         ''close the approved inbound service port''])
      ([mk_step ''Remove TCP deny rule''
         [''sudo'', ''ufw'', ''delete'', ''deny'', str_int port @ ''/tcp'']
         ''remove the deny rule if it disrupts legitimate work''])
      [''legitimate clients may lose access'', ''firewall policy changes require audit review'', ''service may still listen until its bind configuration is changed'']
      [mk_step ''Verify firewall status''
         [''sudo'', ''ufw'', ''status'', ''verbose'']
         ''confirm the deny rule exists only as approved'']))"

definition plan_firewalld_deny_tcp ::
  "string \<Rightarrow> int \<Rightarrow> string \<Rightarrow> string \<Rightarrow> string \<Rightarrow> AdminChangePlan result" where
  "plan_firewalld_deny_tcp plan_id port reason current_state zone =
     (if port < 1 \<or> port > 65535 then Inl (ValueError ''port must be between 1 and 65535'')
      else if blank zone then Inl (ValueError ''zone is required'')
      else (let rich_rule = ''rule port port='' @ dq @ str_int port @ dq @ '' protocol='' @ dq @ ''tcp'' @ dq @ '' log prefix='' @ dq @ ''overseer-deny-'' @ str_int port @ '' '' @ dq @ '' level='' @ dq @ ''warning'' @ dq @ '' limit value='' @ dq @ ''5/m'' @ dq @ '' reject''
       in Inr (mk_plan plan_id Admin_FIREWALL_DENY_TCP Owner_ODO_FIREWALL Risk_CRITICAL Approval_HUMAN (''tcp/'' @ str_int port) reason current_state
      (''deny inbound TCP traffic on port '' @ str_int port @ '' in firewalld zone '' @ zone)
      ([mk_step ''Add firewalld deny rich rule''
         [''sudo'', ''firewall-cmd'', ''--permanent'', ''--zone='' @ zone, ''--add-rich-rule='' @ rich_rule]
         ''stage the approved TCP deny rule with bounded logging'',
       mk_step ''Reload firewalld''
         [''sudo'', ''firewall-cmd'', ''--reload'']
         ''apply the approved permanent firewall rule''])
      ([mk_step ''Remove firewalld deny rich rule''
         [''sudo'', ''firewall-cmd'', ''--permanent'', ''--zone='' @ zone, ''--remove-rich-rule='' @ rich_rule]
         ''remove the deny rule if it disrupts legitimate work'',
       mk_step ''Reload firewalld after rollback''
         [''sudo'', ''firewall-cmd'', ''--reload'']
         ''apply the rollback firewall state''])
      [''legitimate clients may lose access'', ''firewall policy changes require audit review'', ''zone selection errors may affect the wrong interface set'', ''service may still listen until its bind configuration is changed'']
      ([mk_step ''Verify firewalld zone''
         [''sudo'', ''firewall-cmd'', ''--zone='' @ zone, ''--list-all'']
         ''confirm the deny rule exists only as approved'']))))"

definition plan_block_ip ::
  "string \<Rightarrow> string \<Rightarrow> string \<Rightarrow> string \<Rightarrow> AdminChangePlan result" where
  "plan_block_ip plan_id address reason current_state =
     (if blank address then Inl (ValueError ''address is required'')
      else Inr (mk_plan plan_id Admin_BLOCK_IP Owner_ODO_FIREWALL Risk_HIGH Approval_HUMAN address reason current_state
      (''block traffic from '' @ address)
      [mk_step ''Block source address''
         [''sudo'', ''ufw'', ''deny'', ''from'', address]
         ''apply the approved protective block'']
      [mk_step ''Remove source block''
         [''sudo'', ''ufw'', ''delete'', ''deny'', ''from'', address]
         ''remove the protective block if it disrupts legitimate work'']
      [''legitimate traffic may be blocked'', ''firewall policy changes require audit review'']
      [mk_step ''Verify firewall status''
         [''sudo'', ''ufw'', ''status'', ''verbose'']
         ''confirm the source block exists only as approved'']))"

end
