(* ===== verification/IDS_Review.thy ===== *)
theory IDS_Review
  imports Admin_Plans
begin

text \<open>
  Source reviews (\<^verbatim>\<open>src/overseer/source_review.py\<close>) and the IDS/firewall advisory packages of
  \<^verbatim>\<open>src/overseer/ids_review.py\<close>: when a source may be blocked, how a package is built from a
  plan, and its way from prepared to accepted. Writing the prompt file is file I/O and is not
  modelled; its default file name is.
\<close>

datatype SourceReviewDisposition =
    Disp_NEEDS_REVIEW | Disp_EXPECTED | Disp_SUSPICIOUS | Disp_HOSTILE | Disp_BENIGN

fun disposition_value :: "SourceReviewDisposition \<Rightarrow> string" where
  "disposition_value Disp_NEEDS_REVIEW = ''needs_review''"
| "disposition_value Disp_EXPECTED = ''expected''"
| "disposition_value Disp_SUSPICIOUS = ''suspicious''"
| "disposition_value Disp_HOSTILE = ''hostile''"
| "disposition_value Disp_BENIGN = ''benign''"

record HostSecuritySourceReview =
  hsr_id :: string
  hsr_source_connection_id :: string
  hsr_snapshot_id :: string
  hsr_listener :: string
  hsr_remote_address :: string
  hsr_remote_port :: string
  hsr_source_scope :: string
  hsr_evidence :: string
  hsr_disposition :: SourceReviewDisposition
  hsr_rationale :: string
  hsr_reviewed_by :: "string option"
  hsr_reviewed_at :: "string option"
  hsr_created_at :: "string option"

definition can_stage_block_plan :: "HostSecuritySourceReview \<Rightarrow> bool" where
  "can_stage_block_plan r \<longleftrightarrow> hsr_disposition r = Disp_HOSTILE \<and> hsr_source_scope r = ''external'' \<and>
     str_true (hsr_reviewed_by r) \<and> \<not> blank (hsr_rationale r)"

datatype IDSReviewPackageStatus =
    IDS_PREPARED | IDS_SUBMITTED | IDS_ACCEPTED | IDS_REVISION_REQUIRED

record HostSecurityIDSReviewPackage =
  ids_id :: string
  ids_plan_id :: string
  ids_plan_kind :: AdminChangeKind
  ids_target :: string
  ids_requested_by :: string
  ids_status :: IDSReviewPackageStatus
  ids_advisory_project_path :: string
  ids_advisory_command :: "string list"
  ids_interactive_thread :: string
  ids_current_state :: string
  ids_intended_traffic :: string
  ids_operational_reason :: string
  ids_sensitivity :: string
  ids_policy_gaps :: string
  ids_firewall_rule_drafts :: "string list"
  ids_ids_rule_drafts :: "string list"
  ids_logging_plan :: string
  ids_test_plan :: string
  ids_rollback_plan :: string
  ids_approval_boundary :: string
  ids_prompt :: string
  ids_source_review_id :: "string option"
  ids_created_at :: "string option"
  ids_submitted_by :: "string option"
  ids_submitted_at :: "string option"
  ids_prompt_path :: "string option"
  ids_reviewed_by :: "string option"
  ids_reviewed_at :: "string option"
  ids_advisory_result :: "string option"
  ids_dispatched_by :: "string option"
  ids_dispatched_at :: "string option"
  ids_dispatch_status :: "string option"
  ids_dispatch_reason :: "string option"
  ids_dispatch_thread :: "string option"
  ids_dispatch_conversation_id :: "string option"
  ids_dispatch_command :: "string option"
  ids_dispatch_exit_code :: "int option"

definition INTRUSION_DETECTION_PROJECT_PATH :: string where
  "INTRUSION_DETECTION_PROJECT_PATH = ''/home/god/Documents/Codex Workspace/Intrusion Detection''"

definition INTRUSION_DETECTION_ADVISOR :: string where
  "INTRUSION_DETECTION_ADVISOR = INTRUSION_DETECTION_PROJECT_PATH @ ''/ops/codex-advisor.sh''"

definition INTRUSION_DETECTION_THREAD :: string where
  "INTRUSION_DETECTION_THREAD = ''codex-intrusion-detection-019f09da''"

definition satisfies_pre_execution_review_gate :: "HostSecurityIDSReviewPackage \<Rightarrow> bool" where
  "satisfies_pre_execution_review_gate k \<longleftrightarrow>
     ids_status k = IDS_ACCEPTED \<and> \<not> blank (str_default (ids_advisory_result k) [])"

definition admin_plan_requires_ids_review :: "AdminChangePlan \<Rightarrow> bool" where
  "admin_plan_requires_ids_review p \<longleftrightarrow>
     ap_kind p \<in> {Admin_FIREWALL_ALLOW_TCP, Admin_FIREWALL_DENY_TCP, Admin_BLOCK_IP}"

section \<open>Text helpers of the standard library\<close>

text \<open>
  \<open>shlex.join\<close>: an argument made only of safe characters is itself, any other is put between
  single quotes, with each single quote inside it closed, double-quoted and reopened.
\<close>

definition ascii_word :: "char \<Rightarrow> bool" where
  "ascii_word c \<longleftrightarrow> (let n = (of_char c :: nat) in
     (48 \<le> n \<and> n \<le> 57) \<or> (65 \<le> n \<and> n \<le> 90) \<or> (97 \<le> n \<and> n \<le> 122) \<or> n = 95)"

definition shell_safe :: "char \<Rightarrow> bool" where
  "shell_safe c \<longleftrightarrow> ascii_word c \<or> c \<in> set ''@%+=:,./-''"

definition shlex_quote :: "string \<Rightarrow> string" where
  "shlex_quote s =
     (if s = [] then [CHR 0x27, CHR 0x27]
      else if list_all shell_safe s then s
      else [CHR 0x27] @ replace_char (CHR 0x27) [CHR 0x27, CHR 0x22, CHR 0x27, CHR 0x22, CHR 0x27] s @ [CHR 0x27])"

definition shlex_join :: "string list \<Rightarrow> string" where
  "shlex_join args = py_join [CHR 0x20] (map shlex_quote args)"

text \<open>The first group of \<open>re.search(r"intended_sources=([^;]+)", s)\<close>.\<close>

fun intended_sources_of :: "string \<Rightarrow> string option" where
  "intended_sources_of [] = None"
| "intended_sources_of (c # cs) =
     (let rest = drop (length ''intended_sources='') (c # cs);
          grp = takeWhile (\<lambda>d. d \<noteq> CHR '';'') rest
      in if startswith (c # cs) ''intended_sources='' \<and> grp \<noteq> [] then Some grp
         else intended_sources_of cs)"

definition py_isdigit :: "string \<Rightarrow> bool" where
  "py_isdigit s \<longleftrightarrow> s \<noteq> [] \<and> list_all (\<lambda>c. is_digit c \<or> c \<in> {CHR 0xB2, CHR 0xB3, CHR 0xB9}) s"

text \<open>\<open>re.sub\<close> of each maximal run of other characters by one dash, then \<open>strip(".-")\<close>.\<close>

definition filename_char :: "char \<Rightarrow> bool" where
  "filename_char c \<longleftrightarrow> ascii_word c \<or> c = CHR ''.'' \<or> c = CHR ''-''"

fun dash_runs :: "bool \<Rightarrow> string \<Rightarrow> string" where
  "dash_runs in_run [] = []"
| "dash_runs in_run (c # cs) =
     (if filename_char c then c # dash_runs False cs
      else (if in_run then dash_runs True cs else CHR ''-'' # dash_runs True cs))"

definition strip_dots_dashes :: "string \<Rightarrow> string" where
  "strip_dots_dashes s = (let edge = (\<lambda>c. c = CHR ''.'' \<or> c = CHR ''-'')
     in rev (dropWhile edge (rev (dropWhile edge s))))"

definition default_prompt_filename :: "HostSecurityIDSReviewPackage \<Rightarrow> string" where
  "default_prompt_filename k =
     (let safe_id = strip_dots_dashes (dash_runs False (ids_id k))
      in (if safe_id = [] then ''ids-review-package'' else safe_id) @ ''.prompt.md'')"

section \<open>The package of a plan\<close>

definition opt_text :: "string option \<Rightarrow> string" where
  "opt_text x = (case x of None \<Rightarrow> ''None'' | Some s \<Rightarrow> s)"

definition source_context_of :: "HostSecuritySourceReview option \<Rightarrow> string" where
  "source_context_of review =
     (case review of
        None \<Rightarrow> ''No source review record was linked to this plan.''
      | Some source_review \<Rightarrow>
      ''source_review='' @ hsr_id source_review @ ''; disposition='' @
      disposition_value (hsr_disposition source_review) @ ''; listener='' @
      hsr_listener source_review @ ''; remote='' @ hsr_remote_address source_review @ '':'' @
      hsr_remote_port source_review @ ''; scope='' @ hsr_source_scope source_review @
      ''; reviewer='' @ opt_text (hsr_reviewed_by source_review) @ ''; rationale='' @
      hsr_rationale source_review @ ''; evidence='' @ hsr_evidence source_review)"

definition after_last_colon :: "string \<Rightarrow> string" where
  "after_last_colon s = rev (takeWhile (\<lambda>c. c \<noteq> CHR '':'') (rev s))"

definition source_review_matches_plan :: "HostSecuritySourceReview \<Rightarrow> AdminChangePlan \<Rightarrow> bool" where
  "source_review_matches_plan source_review plan =
     (if ap_kind plan = Admin_BLOCK_IP then hsr_remote_address source_review = ap_target plan
      else if ap_kind plan = Admin_FIREWALL_DENY_TCP then
        (if \<not> startswith (ap_target plan) ''tcp/'' \<or> \<not> py_isdigit (removeprefix (ap_target plan) ''tcp/'') then False
         else (if startswith (hsr_listener source_review) ''tcp/'' then removeprefix (hsr_listener source_review) ''tcp/''
               else after_last_colon (hsr_listener source_review)) = removeprefix (ap_target plan) ''tcp/'')
      else False)"

definition intended_traffic_of :: "AdminChangePlan \<Rightarrow> string" where
  "intended_traffic_of plan =
     (if ap_kind plan = Admin_BLOCK_IP then
      ''deny traffic from source '' @ ap_target plan @
      ''; direction inbound or routed as interpreted by host firewall''
      else if ap_kind plan = Admin_FIREWALL_DENY_TCP then
        (let source_context = (case intended_sources_of (ap_current_state plan) of
               None \<Rightarrow> [] | Some grp \<Rightarrow> ''; allow only intended sources '' @ py_strip grp)
         in ''deny inbound TCP service traffic for '' @ ap_target plan @ source_context)
      else ''allow inbound TCP service traffic for '' @ ap_target plan)"

definition step_draft :: "AdminCommandStep \<Rightarrow> string" where
  "step_draft step = as_title step @ '': '' @ shlex_join (as_command step) @ '' ('' @ as_reason step @ '')''"

definition firewall_rule_drafts_of :: "AdminChangePlan \<Rightarrow> string list" where
  "firewall_rule_drafts_of plan = map step_draft (ap_steps plan)"

definition generic_ids_drafts :: "string list" where
  "generic_ids_drafts =
     [''Review existing IDS/IPS policy coverage for the target service before firewall enforcement.'',
      ''Draft custom IDS signatures for scanning, brute force, malformed protocol traffic, and unusual volume if no existing rule fits.'']"

definition ids_rule_drafts_of :: "AdminChangePlan \<Rightarrow> HostSecuritySourceReview option \<Rightarrow> string list" where
  "ids_rule_drafts_of plan review =
     (case review of
        Some source_review \<Rightarrow>
          if ap_kind plan = Admin_BLOCK_IP then
        [''Suricata/local rule draft: alert on repeated traffic from '' @
         hsr_remote_address source_review @ '' to '' @ hsr_listener source_review @
         '' before firewall enforcement; classify as attempted-admin-policy-bypass.'',
         ''Review whether a custom deny/log firewall rule plus IDS alert is preferable to a broad host source block.'']
          else generic_ids_drafts
      | None \<Rightarrow> generic_ids_drafts)"

definition logging_plan_of :: "AdminChangePlan \<Rightarrow> string" where
  "logging_plan_of plan =
     (if ap_kind plan = Admin_FIREWALL_DENY_TCP then
      ''Log allowed '' @ ap_target plan @ '' traffic during validation and log denied '' @
      ap_target plan @
      '' traffic with bounded rate limits. Alert on deny bursts, first-seen source networks, sustained attempts, logging silence after a controlled denied test, SSH authentication failures where applicable, unexpected usernames, root-login attempts, and source-address changes.''
      else
      ''Log filtered traffic for '' @ ap_target plan @
      '' during validation; alert on repeated denied attempts, unexpected source networks, protocol anomalies, and authentication failures where service logs exist.'')"

definition test_plan_of :: "AdminChangePlan \<Rightarrow> string" where
  "test_plan_of plan =
     (if ap_kind plan = Admin_FIREWALL_DENY_TCP then
      ''Before enforcement, capture active zones, interfaces, policies, direct rules, runtime/permanent rich rules, effective nftables ordering, service binds, routes, and current sessions for '' @
      ap_target plan @
      ''. Validate permanent configuration before reload. Keep the existing management session open, verify a second fresh session from an intended source, test denial from a separate source and IPv6 path, verify alert delivery, and confirm rollback removes the exact rules.''
      else
      ''Before enforcement, confirm current reachability and policy state for '' @ ap_target plan @
      ''. After approval, verify the exact rule exists, expected clients still work, denied traffic is logged, and rollback removes the rule.'')"

definition advisory_prompt_of ::
  "AdminChangePlan \<Rightarrow> string \<Rightarrow> string list \<Rightarrow> string list \<Rightarrow> string \<Rightarrow> string \<Rightarrow> string \<Rightarrow> string \<Rightarrow> string" where
  "advisory_prompt_of plan source_context firewall_rule_drafts ids_rule_drafts logging_plan test_plan
     rollback_plan approval_boundary =
     py_join [CHR 0x0A]
      ([''Evaluate this proposed Overseer security change before enforcement.'',
       [],
       ''Plan id: '' @ ap_id plan,
       ''Kind: '' @ admin_kind_value (ap_kind plan),
       ''Target: '' @ ap_target plan,
       ''Reason: '' @ ap_reason plan,
       ''Current state: '' @ ap_current_state plan,
       ''Proposed state: '' @ ap_proposed_state plan,
       ''Source review context: '' @ source_context,
       [],
       ''Please evaluate mitigation, inspection, logging, alerting, policy or rule gaps, rollback risk, and whether custom firewall or IDS rules are required.'',
       [],
       ''Firewall rule drafts:''] @
      map (\<lambda>item. ''- '' @ item) firewall_rule_drafts @
      [[],
       ''IDS rule drafts:''] @
      map (\<lambda>item. ''- '' @ item) ids_rule_drafts @
      [[],
       ''Logging plan: '' @ logging_plan,
       ''Test plan: '' @ test_plan,
       ''Rollback plan: '' @ rollback_plan,
       ''Approval boundary: '' @ approval_boundary])"

definition APPROVAL_BOUNDARY :: string where
  "APPROVAL_BOUNDARY = ''Prepared review package only. Do not apply firewall, IDS, IPS, route, VPN, NAT, service-bind, reload, restart, or alerting changes until explicit approval follows Intrusion Detection review.''"

definition build_ids_review_package ::
  "AdminChangePlan \<Rightarrow> HostSecuritySourceReview option \<Rightarrow> string option \<Rightarrow> string \<Rightarrow> string option \<Rightarrow>
   HostSecurityIDSReviewPackage result" where
  "build_ids_review_package plan source_review package_id requested_by created_at =
     (if \<not> admin_plan_requires_ids_review plan
        then Inl (ValueError ''admin plan does not require IDS/firewall review'')
      else if blank requested_by then Inl (ValueError ''requested_by is required'')
      else if (case source_review of None \<Rightarrow> False | Some r \<Rightarrow> \<not> source_review_matches_plan r plan)
        then Inl (ValueError ''source review target does not match admin plan target'')
      else
        (let rollback_plan = py_join ''; '' (map step_draft (ap_rollback_steps plan))
         in Inr \<lparr>ids_id = str_default package_id (''ids-review.'' @ ap_id plan), ids_plan_id = ap_id plan,
           ids_plan_kind = ap_kind plan, ids_target = ap_target plan, ids_requested_by = requested_by,
           ids_status = IDS_PREPARED, ids_advisory_project_path = INTRUSION_DETECTION_PROJECT_PATH,
           ids_advisory_command = [INTRUSION_DETECTION_ADVISOR, ''<prompt-file>''],
           ids_interactive_thread = INTRUSION_DETECTION_THREAD, ids_current_state = ap_current_state plan,
           ids_intended_traffic = intended_traffic_of plan, ids_operational_reason = ap_reason plan,
           ids_sensitivity = ''local host security control plane; policy mistakes may block legitimate local or remote work'',
           ids_policy_gaps = ''requires Intrusion Detection review for mitigation, inspection, logging, alerting, and custom rules'',
           ids_firewall_rule_drafts = firewall_rule_drafts_of plan,
           ids_ids_rule_drafts = ids_rule_drafts_of plan source_review,
           ids_logging_plan = logging_plan_of plan, ids_test_plan = test_plan_of plan,
           ids_rollback_plan = rollback_plan, ids_approval_boundary = APPROVAL_BOUNDARY,
           ids_prompt = advisory_prompt_of plan (source_context_of source_review) (firewall_rule_drafts_of plan)
             (ids_rule_drafts_of plan source_review) (logging_plan_of plan) (test_plan_of plan) rollback_plan
             APPROVAL_BOUNDARY,
           ids_source_review_id = map_option hsr_id source_review, ids_created_at = created_at,
           ids_submitted_by = None, ids_submitted_at = None, ids_prompt_path = None, ids_reviewed_by = None,
           ids_reviewed_at = None, ids_advisory_result = None, ids_dispatched_by = None, ids_dispatched_at = None,
           ids_dispatch_status = None, ids_dispatch_reason = None, ids_dispatch_thread = None, ids_dispatch_conversation_id = None,
           ids_dispatch_command = None, ids_dispatch_exit_code = None\<rparr>))"

section \<open>The review life cycle\<close>

definition mark_ids_review_package_submitted ::
  "HostSecurityIDSReviewPackage \<Rightarrow> string \<Rightarrow> string option \<Rightarrow> string option \<Rightarrow>
   HostSecurityIDSReviewPackage result" where
  "mark_ids_review_package_submitted k submitted_by submitted_at prompt_path =
     (if blank submitted_by then Inl (ValueError ''submitted_by is required'')
      else if ids_status k = IDS_ACCEPTED
        then Inl (ValueError ''accepted IDS review packages cannot be resubmitted'')
      else Inr (k\<lparr>ids_status := IDS_SUBMITTED, ids_submitted_by := Some submitted_by,
        ids_submitted_at := submitted_at, ids_prompt_path := prompt_path\<rparr>))"

definition record_ids_review_package_result ::
  "HostSecurityIDSReviewPackage \<Rightarrow> IDSReviewPackageStatus \<Rightarrow> string \<Rightarrow> string \<Rightarrow> string option \<Rightarrow>
   HostSecurityIDSReviewPackage result" where
  "record_ids_review_package_result k status advisory_result reviewed_by reviewed_at =
     (if status \<notin> {IDS_ACCEPTED, IDS_REVISION_REQUIRED}
        then Inl (ValueError ''IDS review result status must be accepted or revision_required'')
      else if blank advisory_result then Inl (ValueError ''advisory_result is required'')
      else if blank reviewed_by then Inl (ValueError ''reviewed_by is required'')
      else if ids_status k = IDS_PREPARED
        then Inl (ValueError ''IDS review package must be submitted before recording a result'')
      else Inr (k\<lparr>ids_status := status, ids_advisory_result := Some advisory_result,
        ids_reviewed_by := Some reviewed_by, ids_reviewed_at := reviewed_at\<rparr>))"

inductive ids_step :: "HostSecurityIDSReviewPackage \<Rightarrow> HostSecurityIDSReviewPackage \<Rightarrow> bool" where
  is_submit: "mark_ids_review_package_submitted k who t path = Inr k' \<Longrightarrow> ids_step k k'"
| is_result: "record_ids_review_package_result k status result who t = Inr k' \<Longrightarrow> ids_step k k'"

inductive_cases ids_stepE: "ids_step k k'"

definition built_package :: "HostSecurityIDSReviewPackage \<Rightarrow> bool" where
  "built_package k \<longleftrightarrow> (\<exists>p r pid who t. build_ids_review_package p r pid who t = Inr k)"

definition named :: "string option \<Rightarrow> bool" where
  "named x \<longleftrightarrow> (case x of None \<Rightarrow> False | Some s \<Rightarrow> \<not> blank s)"

definition package_ok :: "HostSecurityIDSReviewPackage \<Rightarrow> bool" where
  "package_ok k \<longleftrightarrow>
     (ids_status k \<noteq> IDS_PREPARED \<longrightarrow> named (ids_submitted_by k)) \<and>
     (ids_status k \<in> {IDS_ACCEPTED, IDS_REVISION_REQUIRED} \<longrightarrow>
        named (ids_advisory_result k) \<and> named (ids_reviewed_by k))"

interpretation ids_life: step_invariant built_package ids_step package_ok
proof unfold_locales
  fix k
  assume "built_package k"
  then show "package_ok k"
    by (auto simp: built_package_def build_ids_review_package_def Let_def package_ok_def split: if_splits)
next
  fix k k'
  assume "package_ok k" and "ids_step k k'"
  then show "package_ok k'"
    by (elim ids_stepE)
      (auto simp: package_ok_def mark_ids_review_package_submitted_def record_ids_review_package_result_def
        named_def split: if_splits)
qed

text \<open>The IDS gate means a real review: whatever sequence of submissions and recorded results a
  package went through, it satisfies the pre-execution gate exactly when it is accepted, and then it
  was submitted by a named person and its result is not blank and was recorded by a named reviewer;
  a package that was only prepared never satisfies the gate.\<close>

theorem ids_gate_means_review:
  assumes "reach built_package ids_step k"
  shows "(satisfies_pre_execution_review_gate k \<longleftrightarrow> ids_status k = IDS_ACCEPTED) \<and>
    (ids_status k = IDS_ACCEPTED \<longrightarrow>
       (\<exists>sub rev res. ids_submitted_by k = Some sub \<and> \<not> blank sub \<and> ids_reviewed_by k = Some rev \<and> \<not> blank rev \<and>
          ids_advisory_result k = Some res \<and> \<not> blank res))"
  using ids_life.inv_reach [OF assms]
  by (auto simp: package_ok_def satisfies_pre_execution_review_gate_def named_def str_default_def
      split: option.splits)

definition sample_review_flow :: "HostSecurityIDSReviewPackage result" where
  "sample_review_flow =
     res_bind (plan_block_ip ''b1'' ''203.0.113.9'' ''scan'' ''open'') (\<lambda>p.
     res_bind (build_ids_review_package p None None ''odo'' None) (\<lambda>k.
     res_bind (mark_ids_review_package_submitted k ''odo'' None None) (\<lambda>k'.
       record_ids_review_package_result k' IDS_ACCEPTED ''fine'' ''worf'' None)))"

theorem ids_gate_means_review_witness:
  "\<exists>k. sample_review_flow = Inr k \<and> satisfies_pre_execution_review_gate k \<and>
     (\<exists>rev. ids_reviewed_by k = Some rev \<and> \<not> blank rev)"
proof -
  have "case sample_review_flow of Inl _ \<Rightarrow> False | Inr k \<Rightarrow> ids_status k = IDS_ACCEPTED" by code_simp
  then obtain k where k: "sample_review_flow = Inr k" "ids_status k = IDS_ACCEPTED"
    by (auto split: sum.splits)
  then obtain p k0 k1 where "build_ids_review_package p None None ''odo'' None = Inr k0"
    "mark_ids_review_package_submitted k0 ''odo'' None None = Inr k1"
    "record_ids_review_package_result k1 IDS_ACCEPTED ''fine'' ''worf'' None = Inr k"
    by (auto simp: sample_review_flow_def res_bind_Inr_iff)
  then have b: "built_package k0" and st: "ids_step k0 k1" "ids_step k1 k"
    unfolding built_package_def by (blast intro: is_submit is_result)+
  have "reach built_package ids_step k0" using b by (rule reach_init)
  then have "reach built_package ids_step k1" using st(1) by (rule reach_step)
  then have "reach built_package ids_step k" using st(2) by (rule reach_step)
  then show ?thesis using ids_gate_means_review [of k] k by blast
qed

end
