(* ===== verification/Admin_Exec.thy ===== *)
theory Admin_Exec
  imports Admin_Plans
begin

text \<open>
  Execution of administrative plans: \<open>execute_admin_change_plan\<close> of \<^verbatim>\<open>src/overseer/admin.py\<close>.
  The command runner acts on the host: it takes the host state \<open>'s\<close> and a step, and returns the
  command result, or the exception that starting the command raised, with the new host state.
\<close>

type_synonym 's runner = "'s \<Rightarrow> AdminCommandStep \<Rightarrow> AdminCommandResult result \<times> 's"

text \<open>The loop that stops at the first step with a nonzero exit code.\<close>

fun run_until_failure ::
  "'s runner \<Rightarrow> AdminCommandStep list \<Rightarrow> 's \<Rightarrow>
   (AdminCommandResult list \<times> AdminCommandResult option) result \<times> 's" where
  "run_until_failure run [] s = (Inr ([], None), s)"
| "run_until_failure run (step # steps) s =
     (case run s step of
        (Inl e, s1) \<Rightarrow> (Inl e, s1)
      | (Inr r, s1) \<Rightarrow>
          if ar_exit_code r \<noteq> 0 then (Inr ([r], Some r), s1)
          else (case run_until_failure run steps s1 of
                  (Inl e, s2) \<Rightarrow> (Inl e, s2)
                | (Inr (rs, failed), s2) \<Rightarrow> (Inr (r # rs, failed), s2)))"

text \<open>The generator that runs every rollback step, whatever its exit code.\<close>

fun run_each ::
  "'s runner \<Rightarrow> AdminCommandStep list \<Rightarrow> 's \<Rightarrow> AdminCommandResult list result \<times> 's" where
  "run_each run [] s = (Inr [], s)"
| "run_each run (step # steps) s =
     (case run s step of
        (Inl e, s1) \<Rightarrow> (Inl e, s1)
      | (Inr r, s1) \<Rightarrow>
          (case run_each run steps s1 of
             (Inl e, s2) \<Rightarrow> (Inl e, s2)
           | (Inr rs, s2) \<Rightarrow> (Inr (r # rs), s2)))"

definition plan_commands :: "AdminChangePlan \<Rightarrow> string list" where
  "plan_commands p = concat (map as_command (ap_steps p @ ap_rollback_steps p @ ap_verification_steps p))"

definition unsupported_apt_provider_for_plan :: "AdminChangePlan \<Rightarrow> string option" where
  "unsupported_apt_provider_for_plan p =
     (if ap_kind p \<notin> {Admin_APT_INSTALL, Admin_APT_UPGRADE} then None
      else unsupported_package_provider (plan_commands p))"

definition mk_exec ::
  "AdminChangePlan \<Rightarrow> AdminExecutionStatus \<Rightarrow> string \<Rightarrow> AdminCommandResult list \<Rightarrow>
   AdminCommandResult list \<Rightarrow> AdminCommandResult list \<Rightarrow> AdminExecutionResult" where
  "mk_exec p status summary commands verifications rollbacks =
     \<lparr>ax_id = ''admin.exec.'' @ ap_id p @ ''.'' @ admin_execution_status_value status, ax_plan_id = ap_id p,
      ax_status = status, ax_summary = summary, ax_command_results = commands,
      ax_verification_results = verifications, ax_rollback_results = rollbacks\<rparr>"

text \<open>Running the rollback steps and reporting the failure that caused them.\<close>

definition roll_back ::
  "AdminChangePlan \<Rightarrow> 's runner \<Rightarrow> string \<Rightarrow> AdminCommandResult list \<Rightarrow> AdminCommandResult list \<Rightarrow> 's \<Rightarrow>
   AdminExecutionResult result \<times> 's" where
  "roll_back p run summary commands verifications s =
     (case run_each run (ap_rollback_steps p) s of
        (Inl e, s1) \<Rightarrow> (Inl e, s1)
      | (Inr rollbacks, s1) \<Rightarrow>
          (Inr (mk_exec p AdminExec_FAILED summary commands verifications rollbacks), s1))"

definition execute_admin_change_plan ::
  "AdminChangePlan \<Rightarrow> 's runner \<Rightarrow> AdminChangeKind list \<Rightarrow> 's \<Rightarrow> AdminExecutionResult result \<times> 's" where
  "execute_admin_change_plan p run enabled_adapter_kinds s =
     (let capability = admin_execution_capability_for (ap_kind p) enabled_adapter_kinds in
      if \<not> can_execute_live capability then
        (Inr (mk_exec p AdminExec_BLOCKED (''live adapter unavailable for '' @ admin_kind_value (ap_kind p) @
           '': '' @ cap_summary capability) [] [] []), s)
      else if \<not> can_execute p then
        (Inr (mk_exec p AdminExec_BLOCKED ''admin change plan is not approved or is incomplete'' [] [] []), s)
      else case unsupported_apt_provider_for_plan p of
        Some provider \<Rightarrow>
          (Inr (mk_exec p AdminExec_BLOCKED (''unsupported package provider '' @ [CHR 0x27] @ provider @
             [CHR 0x27] @ '' for '' @ admin_kind_value (ap_kind p) @
             ''; stage a provider-specific admin adapter instead of apt'') [] [] []), s)
      | None \<Rightarrow>
          (case run_until_failure run (ap_steps p) s of
             (Inl e, s1) \<Rightarrow> (Inl e, s1)
           | (Inr (commands, Some r), s1) \<Rightarrow>
               roll_back p run (''admin change failed during step: '' @ ar_title r @
                 ''; rollback steps attempted'') commands [] s1
           | (Inr (commands, None), s1) \<Rightarrow>
               (case run_until_failure run (ap_verification_steps p) s1 of
                  (Inl e, s2) \<Rightarrow> (Inl e, s2)
                | (Inr (verifications, Some r), s2) \<Rightarrow>
                    roll_back p run (''admin change verification failed during step: '' @ ar_title r @
                      ''; rollback steps attempted'') commands verifications s2
                | (Inr (verifications, None), s2) \<Rightarrow>
                    (case find (\<lambda>r. ar_exit_code r \<noteq> 0) commands of
                       Some failed \<Rightarrow>
                         roll_back p run (''admin change failed during step: '' @ ar_title failed @
                           ''; rollback steps attempted'') commands [] s2
                     | None \<Rightarrow>
                         (Inr (mk_exec p AdminExec_COMPLETED ''admin change completed and verified''
                            commands verifications []), s2)))))"

definition audit_event_from_admin_execution :: "AdminChangePlan \<Rightarrow> AdminExecutionResult \<Rightarrow> AuditEvent" where
  "audit_event_from_admin_execution p result =
     \<lparr>ev_id = ''audit.'' @ ax_id result,
      ev_event_type = (if ax_status result = AdminExec_COMPLETED then Event_EXECUTED else Event_BLOCKED),
      ev_owner_domain = ap_owner_domain p, ev_subject_id = ap_id p, ev_summary = ax_summary result,
      ev_risk_level = ap_risk_level p, ev_evidence_ids = [ax_id result], ev_occurred_at = None\<rparr>"

text \<open>
  The default runner. \<open>subprocess\<close> is the operating system's process execution: it returns the exit
  code and the captured output, or the exception when the program cannot be started. A \<open>None\<close>
  environment inherits the process environment.
\<close>

definition APT_NONINTERACTIVE_ENVIRONMENT :: "(string, string) pydict" where
  "APT_NONINTERACTIVE_ENVIRONMENT =
     [(''DEBIAN_FRONTEND'', ''noninteractive''), (''DEBIAN_PRIORITY'', ''critical''),
      (''APT_LISTCHANGES_FRONTEND'', ''none'')]"

definition admin_command_environment ::
  "(string, string) pydict \<Rightarrow> string list \<Rightarrow> (string, string) pydict option" where
  "admin_command_environment environ command =
     (if is_apt_command command
      then Some (fold (\<lambda>(k, v). dict_set k v) APT_NONINTERACTIVE_ENVIRONMENT environ)
      else None)"

definition run_admin_command_step ::
  "(string list \<Rightarrow> (string, string) pydict option \<Rightarrow> 's \<Rightarrow> (int \<times> string \<times> string) result \<times> 's) \<Rightarrow>
   (string, string) pydict \<Rightarrow> 's runner" where
  "run_admin_command_step subprocess environ s step =
     (case subprocess (as_command step) (admin_command_environment environ (as_command step)) s of
        (Inl e, s1) \<Rightarrow> (Inl e, s1)
      | (Inr (code, out, err), s1) \<Rightarrow>
          (Inr \<lparr>ar_title = as_title step, ar_command = as_command step, ar_exit_code = code,
            ar_stdout = py_strip out, ar_stderr = py_strip err\<rparr>, s1))"

definition authorization_next_step :: "AdminChangePlan \<Rightarrow> string" where
  "authorization_next_step p =
     (if ap_canceled p then ''canceled; no authorization or execution is required''
      else if ap_approved p then ''approved; execution still requires a live adapter and verification boundary''
      else if ap_approval_level p = Approval_HUMAN then
        ''human approval required for exact command list, risks, rollback, and verification''
      else if ap_approval_level p = Approval_SISKO then
        ''Sisko approval required for exact command list, risks, rollback, and verification''
      else if ap_approval_level p = Approval_ROLE then owner_value (ap_owner_domain p) @ '' role approval required''
      else ''no explicit approval required'')"

definition authorization_required_status :: "AdminChangePlan \<Rightarrow> pyval" where
  "authorization_required_status p = PDict
     [(''id'', PStr (ap_id p)), (''kind'', PStr (admin_kind_value (ap_kind p))), (''target'', PStr (ap_target p)),
      (''owner_domain'', PStr (owner_value (ap_owner_domain p))),
      (''risk_level'', PStr (risk_value (ap_risk_level p))),
      (''approval_level'', PStr (approval_value (ap_approval_level p))),
      (''approved'', PBool (ap_approved p)), (''canceled'', PBool (ap_canceled p)),
      (''can_execute'', PBool (can_execute p)), (''reason'', PStr (ap_reason p)),
      (''authorization_required'', PBool (requires_explicit_approval p \<and> \<not> ap_approved p)),
      (''next_step'', PStr (authorization_next_step p))]"

section \<open>The trace of an execution\<close>

text \<open>The runner that also records, in order, the steps it was asked to run.\<close>

definition recording :: "'s runner \<Rightarrow> ('s \<times> AdminCommandStep list) runner" where
  "recording run st step = (case run (fst st) step of (r, s1) \<Rightarrow> (r, (s1, snd st @ [step])))"

lemma recording_pair:
  "recording run (s, tr) step = (fst (run s step), (snd (run s step), tr @ [step]))"
  by (simp add: recording_def split: prod.splits)

lemma run_until_failure_trace:
  assumes "run_until_failure (recording run) steps (s, tr) = (Inr (rs, f), (s', tr'))"
  shows "tr' = tr @ take (length rs) steps \<and>
    (case f of None \<Rightarrow> length rs = length steps \<and> (\<forall>r \<in> set rs. ar_exit_code r = 0)
     | Some r \<Rightarrow> rs \<noteq> [] \<and> r = last rs \<and> ar_exit_code r \<noteq> 0 \<and> length rs \<le> length steps \<and>
         (\<forall>r \<in> set (butlast rs). ar_exit_code r = 0))"
  using assms
proof (induction steps arbitrary: s tr rs)
  case Nil
  then show ?case by auto
next
  case (Cons step steps)
  obtain r1 s1 where r1: "run s step = (r1, s1)" by (cases "run s step")
  show ?case
  proof (cases r1)
    case (Inl e)
    with Cons.prems r1 show ?thesis by (simp add: recording_pair)
  next
    case (Inr r)
    show ?thesis
    proof (cases "ar_exit_code r = 0")
      case True
      obtain rs' where rec: "run_until_failure (recording run) steps (s1, tr @ [step]) = (Inr (rs', f), (s', tr'))"
        and rs: "rs = r # rs'"
        using Cons.prems r1 Inr True
        by (auto simp: recording_pair split: prod.splits sum.splits)
      from Cons.IH [OF rec] show ?thesis by (auto simp: rs True split: option.splits)
    next
      case False
      with Cons.prems r1 Inr show ?thesis by (auto simp: recording_pair)
    qed
  qed
qed

lemma run_each_trace:
  assumes "run_each (recording run) steps (s, tr) = (Inr rs, (s', tr'))"
  shows "tr' = tr @ steps \<and> length rs = length steps"
  using assms
proof (induction steps arbitrary: s tr rs)
  case (Cons step steps)
  obtain r1 s1 where r1: "run s step = (r1, s1)" by (cases "run s step")
  show ?case
  proof (cases r1)
    case (Inl e)
    with Cons.prems r1 show ?thesis by (simp add: recording_pair)
  next
    case (Inr r)
    obtain rs' where rec: "run_each (recording run) steps (s1, tr @ [step]) = (Inr rs', (s', tr'))"
      and rs: "rs = r # rs'"
      using Cons.prems r1 Inr by (auto simp: recording_pair split: prod.splits sum.splits)
    from Cons.IH [OF rec] show ?thesis by (simp add: rs)
  qed
qed simp

section \<open>Properties of execution\<close>

text \<open>What a plan and the enabled adapters must satisfy before the first command runs.\<close>

definition execution_authorized :: "AdminChangePlan \<Rightarrow> AdminChangeKind list \<Rightarrow> bool" where
  "execution_authorized p kinds \<longleftrightarrow>
     can_execute_live (admin_execution_capability_for (ap_kind p) kinds) \<and> can_execute p \<and>
     unsupported_apt_provider_for_plan p = None"

lemma find_nonzero_None: "\<forall>r \<in> set rs. ar_exit_code r = 0 \<Longrightarrow> find (\<lambda>r. ar_exit_code r \<noteq> 0) rs = None"
  by (simp add: find_None_iff)

lemma mk_exec_sel [simp]:
  "ax_status (mk_exec p st sm cs vs rs) = st"
  "ax_command_results (mk_exec p st sm cs vs rs) = cs"
  "ax_verification_results (mk_exec p st sm cs vs rs) = vs"
  "ax_rollback_results (mk_exec p st sm cs vs rs) = rs"
  "ax_plan_id (mk_exec p st sm cs vs rs) = ap_id p"
  by (simp_all add: mk_exec_def)

text \<open>The specification of one finished execution: what ran, in which order, for each outcome.\<close>

definition execution_spec ::
  "AdminChangePlan \<Rightarrow> AdminExecutionResult \<Rightarrow> AdminCommandStep list \<Rightarrow> bool" where
  "execution_spec p x tr \<longleftrightarrow>
     (case ax_status x of
        AdminExec_BLOCKED \<Rightarrow> tr = []
      | AdminExec_COMPLETED \<Rightarrow> tr = ap_steps p @ ap_verification_steps p \<and>
          length (ax_command_results x) = length (ap_steps p) \<and>
          length (ax_verification_results x) = length (ap_verification_steps p) \<and>
          (\<forall>r \<in> set (ax_command_results x @ ax_verification_results x). ar_exit_code r = 0)
      | AdminExec_FAILED \<Rightarrow>
          (let ran = ax_command_results x @ ax_verification_results x
           in ran \<noteq> [] \<and> ar_exit_code (last ran) \<noteq> 0 \<and> (\<forall>r \<in> set (butlast ran). ar_exit_code r = 0) \<and>
              tr = take (length ran) (ap_steps p @ ap_verification_steps p) @ ap_rollback_steps p \<and>
              length (ax_rollback_results x) = length (ap_rollback_steps p)))"

lemma roll_back_trace:
  assumes "roll_back p (recording run) sm cs vs (s, tr) = (Inr x, (s', tr'))"
  shows "ax_status x = AdminExec_FAILED \<and> ax_command_results x = cs \<and> ax_verification_results x = vs \<and>
    tr' = tr @ ap_rollback_steps p \<and> length (ax_rollback_results x) = length (ap_rollback_steps p)"
  using assms run_each_trace [of run "ap_rollback_steps p" s tr]
  by (auto simp: roll_back_def split: prod.splits sum.splits)

lemma roll_back_spec:
  assumes rb: "roll_back p (recording run) sm cs vs (s, tr) = (Inr x, (s', tr'))"
    and tr: "tr = take (length (cs @ vs)) (ap_steps p @ ap_verification_steps p)"
    and last: "cs @ vs \<noteq> []" "ar_exit_code (last (cs @ vs)) \<noteq> 0" "\<forall>r \<in> set (butlast (cs @ vs)). ar_exit_code r = 0"
  shows "execution_spec p x tr' \<and> ax_status x \<noteq> AdminExec_BLOCKED"
proof -
  have eff: "ax_status x = AdminExec_FAILED" "ax_command_results x @ ax_verification_results x = cs @ vs"
    "tr' = tr @ ap_rollback_steps p" "length (ax_rollback_results x) = length (ap_rollback_steps p)"
    using roll_back_trace [OF rb] by auto
  show ?thesis using last unfolding execution_spec_def eff Let_def tr by simp
qed

lemma execution_spec_sound:
  assumes auth: "execution_authorized p kinds"
    and ex: "execute_admin_change_plan p (recording run) kinds (s, []) = (Inr x, (s', tr))"
  shows "execution_spec p x tr \<and> ax_status x \<noteq> AdminExec_BLOCKED"
proof -
  note gate = auth [unfolded execution_authorized_def]
  note body = ex [unfolded execute_admin_change_plan_def Let_def, simplified gate, simplified]
  obtain r1 s1 tr1 where e1: "run_until_failure (recording run) (ap_steps p) (s, []) = (r1, (s1, tr1))"
    by (metis prod.collapse)
  obtain cs f where r1: "r1 = Inr (cs, f)" using body e1 by (cases r1) auto
  note step1 = run_until_failure_trace [OF e1 [unfolded r1]]
  show ?thesis
  proof (cases f)
    case (Some r)
    then have "roll_back p (recording run) (''admin change failed during step: '' @ ar_title r @
        ''; rollback steps attempted'') cs [] (s1, tr1) = (Inr x, (s', tr))"
      using body e1 r1 by simp
    then show ?thesis by (rule roll_back_spec) (use step1 Some in auto)
  next
    case None
    then have all1: "length cs = length (ap_steps p)" "\<forall>r \<in> set cs. ar_exit_code r = 0" "tr1 = ap_steps p"
      using step1 by auto
    obtain r2 s2 tr2 where
      e2: "run_until_failure (recording run) (ap_verification_steps p) (s1, tr1) = (r2, (s2, tr2))"
      by (metis prod.collapse)
    obtain vs g where r2: "r2 = Inr (vs, g)" using body e1 r1 None e2 by (cases r2) auto
    note step2 = run_until_failure_trace [OF e2 [unfolded r2]]
    show ?thesis
    proof (cases g)
      case (Some r)
      then have "roll_back p (recording run) (''admin change verification failed during step: '' @ ar_title r @
          ''; rollback steps attempted'') cs vs (s2, tr2) = (Inr x, (s', tr))"
        using body e1 r1 None e2 r2 by simp
      then show ?thesis
        by (rule roll_back_spec) (use step2 Some all1 in \<open>auto simp: butlast_append\<close>)
    next
      case None
      then show ?thesis
        using body e1 r1 \<open>f = None\<close> e2 r2 all1 find_nonzero_None [OF all1(2)] step2
        by (auto simp: execution_spec_def)
    qed
  qed
qed

text \<open>Recording does not change what an execution does.\<close>

lemma run_until_failure_recording:
  "run_until_failure run steps s =
     (fst (run_until_failure (recording run) steps (s, tr)),
      fst (snd (run_until_failure (recording run) steps (s, tr))))"
proof (induction steps arbitrary: s tr)
  case (Cons step steps)
  obtain r1 s1 where r1: "run s step = (r1, s1)" by (cases "run s step")
  show ?case
    using Cons.IH [of s1 "tr @ [step]"]
    by (auto simp: recording_pair r1 split: prod.splits sum.splits)
qed simp

lemma run_each_recording:
  "run_each run steps s =
     (fst (run_each (recording run) steps (s, tr)), fst (snd (run_each (recording run) steps (s, tr))))"
proof (induction steps arbitrary: s tr)
  case (Cons step steps)
  obtain r1 s1 where r1: "run s step = (r1, s1)" by (cases "run s step")
  show ?case
    using Cons.IH [of s1 "tr @ [step]"]
    by (auto simp: recording_pair r1 split: prod.splits sum.splits)
qed simp

lemma roll_back_recording:
  "roll_back p run sm cs vs s = (fst (roll_back p (recording run) sm cs vs (s, tr)),
     fst (snd (roll_back p (recording run) sm cs vs (s, tr))))"
  using run_each_recording [of run "ap_rollback_steps p" s tr]
  by (auto simp: roll_back_def split: prod.splits sum.splits)

lemma execute_recording:
  "execute_admin_change_plan p run kinds s =
     (fst (execute_admin_change_plan p (recording run) kinds (s, tr)),
      fst (snd (execute_admin_change_plan p (recording run) kinds (s, tr))))"
proof -
  obtain r1 s1 tr1 where e1: "run_until_failure (recording run) (ap_steps p) (s, tr) = (r1, (s1, tr1))"
    by (metis prod.collapse)
  obtain r2 s2 tr2 where
    e2: "run_until_failure (recording run) (ap_verification_steps p) (s1, tr1) = (r2, (s2, tr2))"
    by (metis prod.collapse)
  have f1: "run_until_failure run (ap_steps p) s = (r1, s1)"
    using run_until_failure_recording [of run "ap_steps p" s tr] e1 by simp
  have f2: "run_until_failure run (ap_verification_steps p) s1 = (r2, s2)"
    using run_until_failure_recording [of run "ap_verification_steps p" s1 tr1] e2 by simp
  show ?thesis
    using roll_back_recording [of p run _ _ _ s1 tr1] roll_back_recording [of p run _ _ _ s2 tr2]
    by (simp add: execute_admin_change_plan_def Let_def e1 f1 e2 f2 split: option.splits sum.splits)
qed

text \<open>C3: What an execution runs: nothing runs, and the host is untouched, unless the adapter for the
  plan's kind is live, the plan is executable and its packages belong to apt; an execution that
  completes ran every step and then every verification step, in order, all with exit code zero; one
  that fails ran a prefix of them whose last command alone failed, followed by every rollback step.
  The recording runner used to state this changes neither the result nor the host state.\<close>

theorem admin_execution_correct:
  "case execute_admin_change_plan p (recording run) kinds (s, []) of
     (r, (s', tr)) \<Rightarrow>
       execute_admin_change_plan p run kinds s = (r, s') \<and>
       (if execution_authorized p kinds
        then (case r of Inl e \<Rightarrow> True | Inr x \<Rightarrow> ax_status x \<noteq> AdminExec_BLOCKED \<and> execution_spec p x tr)
        else tr = [] \<and> s' = s \<and> (case r of Inl e \<Rightarrow> False | Inr x \<Rightarrow> ax_status x = AdminExec_BLOCKED \<and>
          ax_command_results x = [] \<and> ax_rollback_results x = []))"
proof -
  obtain r s' tr where e: "execute_admin_change_plan p (recording run) kinds (s, []) = (r, (s', tr))"
    by (metis prod.collapse)
  have same: "execute_admin_change_plan p run kinds s = (r, s')"
    using execute_recording [of p run kinds s "[]"] e by simp
  show ?thesis
  proof (cases "execution_authorized p kinds")
    case True
    then show ?thesis using execution_spec_sound [OF True, of run s _ s' tr] e same by (simp split: sum.splits)
  next
    case False
    then have "tr = [] \<and> s' = s \<and> (case r of Inl e \<Rightarrow> False | Inr x \<Rightarrow> ax_status x = AdminExec_BLOCKED \<and>
        ax_command_results x = [] \<and> ax_rollback_results x = [])"
      using e by (auto simp: execute_admin_change_plan_def execution_authorized_def Let_def
          split: if_splits option.splits)
    with False e same show ?thesis by simp
  qed
qed

text \<open>
  Exceptions are not failures: a command whose program cannot be started raises out of the
  execution, and the rollback steps are not run.
\<close>

definition missing_program_runner :: "string \<Rightarrow> unit runner" where
  "missing_program_runner title s step =
     (if as_title step = title then (Inl (OSError ''No such file or directory''), s)
      else (Inr \<lparr>ar_title = as_title step, ar_command = as_command step, ar_exit_code = 0,
        ar_stdout = [], ar_stderr = []\<rparr>, s))"

definition sample_restart :: AdminChangePlan where
  "sample_restart = (plan_user_service_restart ''p1'' ''web'' ''rotate'' ''running'')
     \<lparr>ap_approved := True, ap_approved_by := Some ''sisko''\<rparr>"

text \<open>A gap in the rollback: when the program of a verification step is missing, the change has
  been applied, the exception escapes and no rollback step runs.\<close>

theorem missing_program_skips_rollback:
  "case execute_admin_change_plan sample_restart
     (recording (missing_program_runner ''Verify user service status'')) [] ((), []) of
     (r, (s', tr)) \<Rightarrow> r = Inl (OSError ''No such file or directory'') \<and>
       map as_title tr = [''Restart user service'', ''Verify user service status''] \<and>
       ap_rollback_steps sample_restart \<noteq> []"
  by code_simp

end
