(* ===== verification/Admin_Lifecycle.thy ===== *)
theory Admin_Lifecycle
  imports Admin_Exec
begin

text \<open>
  The life of an administrative plan: every way to build one, the transitions that approve, cancel,
  archive and restore it, and what these guarantee about execution.
\<close>

inductive built_plan :: "AdminChangePlan \<Rightarrow> bool" where
  "built_plan (plan_user_service_restart plan_id service reason current)"
| "plan_apt_install plan_id packages reason current = Inr p \<Longrightarrow> built_plan p"
| "built_plan (plan_apt_update plan_id reason current)"
| "plan_apt_upgrade plan_id packages reason current = Inr p \<Longrightarrow> built_plan p"
| "plan_firmware_update plan_id target reason current release err = Inr p \<Longrightarrow> built_plan p"
| "plan_flatpak_install plan_id app reason current remote = Inr p \<Longrightarrow> built_plan p"
| "plan_npm_global_install plan_id package reason current = Inr p \<Longrightarrow> built_plan p"
| "plan_docker_compose_update plan_id file reason current dir env renv extra imgs residual url label = Inr p \<Longrightarrow>
     built_plan p"
| "plan_storage_mount_test plan_id share mount cred reason current fs = Inr p \<Longrightarrow> built_plan p"
| "plan_firewall_allow_tcp plan_id port reason current = Inr p \<Longrightarrow> built_plan p"
| "plan_firewall_deny_tcp plan_id port reason current = Inr p \<Longrightarrow> built_plan p"
| "plan_firewalld_deny_tcp plan_id port reason current zone = Inr p \<Longrightarrow> built_plan p"
| "plan_block_ip plan_id address reason current = Inr p \<Longrightarrow> built_plan p"

inductive plan_step :: "AdminChangePlan \<Rightarrow> AdminChangePlan \<Rightarrow> bool" where
  ps_approve: "approve_admin_change_plan p by_whom t = Inr q \<Longrightarrow> plan_step p q"
| ps_cancel: "cancel_admin_change_plan p by_whom why t = Inr q \<Longrightarrow> plan_step p q"
| ps_archive: "archive_admin_change_plan p rid by_whom t' = Inr q \<Longrightarrow> plan_step p q"
| ps_unarchive: "unarchive_admin_change_plan p by_whom = Inr q \<Longrightarrow> plan_step p q"

inductive_cases plan_stepE: "plan_step p q"

lemmas builder_defs = plan_user_service_restart_def plan_apt_install_def plan_apt_update_def
  plan_apt_upgrade_def plan_firmware_update_def plan_flatpak_install_def plan_npm_global_install_def
  plan_docker_compose_update_def plan_storage_mount_test_def plan_firewall_allow_tcp_def
  plan_firewall_deny_tcp_def plan_firewalld_deny_tcp_def plan_block_ip_def

lemma mk_plan_sel [simp]:
  "ap_approved (mk_plan i k ow rl al tg rs cs pr st rb rk vf) = False"
  "ap_canceled (mk_plan i k ow rl al tg rs cs pr st rb rk vf) = False"
  "ap_archived (mk_plan i k ow rl al tg rs cs pr st rb rk vf) = False"
  "ap_approved_by (mk_plan i k ow rl al tg rs cs pr st rb rk vf) = None"
  "ap_archived_by (mk_plan i k ow rl al tg rs cs pr st rb rk vf) = None"
  "ap_archived_at (mk_plan i k ow rl al tg rs cs pr st rb rk vf) = None"
  "ap_archive_record_id (mk_plan i k ow rl al tg rs cs pr st rb rk vf) = None"
  "ap_kind (mk_plan i k ow rl al tg rs cs pr st rb rk vf) = k"
  "ap_risk_level (mk_plan i k ow rl al tg rs cs pr st rb rk vf) = rl"
  "ap_approval_level (mk_plan i k ow rl al tg rs cs pr st rb rk vf) = al"
  "ap_steps (mk_plan i k ow rl al tg rs cs pr st rb rk vf) = st"
  "ap_rollback_steps (mk_plan i k ow rl al tg rs cs pr st rb rk vf) = rb"
  "ap_verification_steps (mk_plan i k ow rl al tg rs cs pr st rb rk vf) = vf"
  "ap_risks (mk_plan i k ow rl al tg rs cs pr st rb rk vf) = rk"
  "ap_proposed_state (mk_plan i k ow rl al tg rs cs pr st rb rk vf) = pr"
  "ap_reason (mk_plan i k ow rl al tg rs cs pr st rb rk vf) = rs"
  "ap_current_state (mk_plan i k ow rl al tg rs cs pr st rb rk vf) = cs"
  by (simp_all add: mk_plan_def)

text \<open>
  What every builder guarantees: nothing decided yet, nothing missing but what the caller left
  blank, and an approval level that fits the risk.
\<close>

definition fresh_plan :: "AdminChangePlan \<Rightarrow> bool" where
  "fresh_plan p \<longleftrightarrow> \<not> ap_approved p \<and> \<not> ap_canceled p \<and> \<not> ap_archived p \<and>
     ap_approved_by p = None \<and> ap_archived_by p = None \<and> ap_archived_at p = None \<and>
     ap_archive_record_id p = None"

definition equipped_plan :: "AdminChangePlan \<Rightarrow> bool" where
  "equipped_plan p \<longleftrightarrow> ap_steps p \<noteq> [] \<and> ap_rollback_steps p \<noteq> [] \<and> ap_risks p \<noteq> [] \<and>
     ap_verification_steps p \<noteq> [] \<and> \<not> blank (ap_proposed_state p) \<and>
     (if ap_kind p = Admin_APT_UPDATE then ap_approval_level p = Approval_NONE \<and> ap_risk_level p = Risk_LOW
      else 2 \<le> approval_rank (ap_approval_level p) \<and> ap_risk_level p \<noteq> Risk_LOW \<and>
        (ap_risk_level p = Risk_CRITICAL \<longrightarrow> ap_approval_level p = Approval_HUMAN))"

definition shaped_plan :: "AdminChangePlan \<Rightarrow> bool" where
  "shaped_plan p \<longleftrightarrow> fresh_plan p \<and> equipped_plan p"

lemma shaped_mk_plan [simp]:
  "shaped_plan (mk_plan i k ow rl al tg rs cs pr st rb rk vf) \<longleftrightarrow>
     st \<noteq> [] \<and> rb \<noteq> [] \<and> rk \<noteq> [] \<and> vf \<noteq> [] \<and> \<not> blank pr \<and>
     (if k = Admin_APT_UPDATE then al = Approval_NONE \<and> rl = Risk_LOW
      else 2 \<le> approval_rank al \<and> rl \<noteq> Risk_LOW \<and> (rl = Risk_CRITICAL \<longrightarrow> al = Approval_HUMAN))"
  by (simp add: shaped_plan_def fresh_plan_def equipped_plan_def)

lemma shaped_residual [simp]: "shaped_plan (p\<lparr>ap_residual_scan_findings := x\<rparr>) = shaped_plan p"
  by (simp add: shaped_plan_def fresh_plan_def equipped_plan_def)

lemma shaped_simple:
  "shaped_plan (plan_user_service_restart plan_id service reason current)"
  "shaped_plan (plan_apt_update plan_id reason current)"
  by (simp_all add: plan_user_service_restart_def plan_apt_update_def blank_Cons is_space_def)

lemma shaped_apt:
  "plan_apt_install plan_id packages reason current = Inr p \<Longrightarrow> shaped_plan p"
  "plan_apt_upgrade plan_id packages reason current = Inr p \<Longrightarrow> shaped_plan p"
  by (auto simp: plan_apt_install_def plan_apt_upgrade_def Let_def res_bind_Inr_iff blank_Cons is_space_def
      split: if_splits)

lemma shaped_packages:
  "plan_firmware_update plan_id target reason current release err = Inr p \<Longrightarrow> shaped_plan p"
  "plan_flatpak_install plan_id app reason current remote = Inr p \<Longrightarrow> shaped_plan p"
  "plan_npm_global_install plan_id package reason current = Inr p \<Longrightarrow> shaped_plan p"
  by (auto simp: plan_firmware_update_def plan_flatpak_install_def plan_npm_global_install_def Let_def
      blank_Cons is_space_def split: if_splits)

lemma shaped_docker:
  assumes "plan_docker_compose_update plan_id file reason current dir env renv extra imgs residual url label = Inr p"
  shows "shaped_plan p"
proof -
  have nb: "\<not> blank file"
  proof
    assume "blank file"
    then show False using assms unfolding plan_docker_compose_update_def by (simp only: if_True sum.distinct)
  qed
  show ?thesis
    using assms unfolding plan_docker_compose_update_def Let_def if_not_P [OF nb] sum.inject
    by (elim subst)
      (simp only: shaped_residual shaped_mk_plan append_is_Nil_conv list.distinct blank_append,
        simp add: blank_Cons is_space_def)
qed

lemma shaped_network:
  "plan_storage_mount_test plan_id share mount cred reason current fs = Inr p \<Longrightarrow> shaped_plan p"
  "plan_firewall_allow_tcp plan_id port reason current = Inr p \<Longrightarrow> shaped_plan p"
  "plan_firewall_deny_tcp plan_id port reason current = Inr p \<Longrightarrow> shaped_plan p"
  "plan_firewalld_deny_tcp plan_id port reason current zone = Inr p \<Longrightarrow> shaped_plan p"
  "plan_block_ip plan_id address reason current = Inr p \<Longrightarrow> shaped_plan p"
  by (auto simp: plan_storage_mount_test_def plan_firewall_allow_tcp_def plan_firewall_deny_tcp_def
      plan_firewalld_deny_tcp_def plan_block_ip_def Let_def blank_Cons is_space_def split: if_splits)

lemmas shaped_builders = shaped_simple shaped_apt shaped_packages shaped_docker shaped_network

lemma built_plan_shape: "built_plan p \<Longrightarrow> shaped_plan p"
  by (induction rule: built_plan.induct) (fact shaped_builders)+

section \<open>Package identifiers survive to execution\<close>

definition apt_word :: "string \<Rightarrow> bool" where
  "apt_word w \<longleftrightarrow> find (startswith (py_lower w)) UNSUPPORTED_APT_PACKAGE_PREFIXES = None"

lemma unsupported_None_iff: "unsupported_package_provider ws = None \<longleftrightarrow> list_all apt_word ws"
  by (induction ws) (auto simp: apt_word_def split: option.splits)

lemma validate_ok_iff: "validate_apt_package_identifiers ws = Inr u \<longleftrightarrow> list_all apt_word ws"
  by (auto simp: validate_apt_package_identifiers_def unsupported_None_iff [symmetric] split: option.splits)

lemma apt_words:
  "list_all apt_word [''sudo'', ''apt-get'', ''install'', ''--dry-run'', ''-y'', ''remove'', ''dpkg-query'', ''-W'',
     ''--only-upgrade'', ''upgrade'', ''check'', ''-f'']"
  by code_simp

lemma as_command_mk_step [simp]: "as_command (mk_step t c r) = c"
  by (simp add: mk_step_def)

lemma apt_install_words:
  assumes "plan_apt_install plan_id packages reason current = Inr p"
  shows "list_all apt_word (plan_commands p)"
proof -
  have pk: "list_all apt_word packages"
    using assms by (auto simp: plan_apt_install_def res_bind_Inr_iff validate_ok_iff split: if_splits)
  have "plan_commands p = concat [[''sudo'', ''apt-get'', ''install'', ''--dry-run''] @ packages,
      [''sudo'', ''apt-get'', ''install'', ''-y''] @ packages, [''sudo'', ''apt-get'', ''remove'', ''-y''] @ packages,
      [''dpkg-query'', ''-W''] @ packages]"
    using assms by (auto simp: plan_apt_install_def res_bind_Inr_iff plan_commands_def split: if_splits)
  then show ?thesis using pk apt_words by simp
qed

lemma apt_upgrade_words:
  assumes "plan_apt_upgrade plan_id packages reason current = Inr p"
  shows "list_all apt_word (plan_commands p)"
proof -
  have pk: "list_all apt_word packages"
    using assms by (auto simp: plan_apt_upgrade_def res_bind_Inr_iff validate_ok_iff Let_def)
  have "plan_commands p = concat [
      (if packages \<noteq> [] then [''sudo'', ''apt-get'', ''install'', ''--only-upgrade'', ''--dry-run''] @ packages
       else [''sudo'', ''apt-get'', ''upgrade'', ''--dry-run'']),
      (if packages \<noteq> [] then [''sudo'', ''apt-get'', ''install'', ''--only-upgrade'', ''-y''] @ packages
       else [''sudo'', ''apt-get'', ''upgrade'', ''-y'']),
      [''sudo'', ''apt-get'', ''check''], [''sudo'', ''apt-get'', ''-f'', ''install'', ''-y''],
      (if packages \<noteq> [] then [''dpkg-query'', ''-W''] @ packages else [''sudo'', ''apt-get'', ''check''])]"
    using assms by (auto simp: plan_apt_upgrade_def res_bind_Inr_iff plan_commands_def Let_def)
  then show ?thesis using pk apt_words by simp
qed

definition plan_kind_ok :: "AdminChangePlan \<Rightarrow> bool" where
  "plan_kind_ok p \<longleftrightarrow> unsupported_apt_provider_for_plan p = None"

lemma kind_ok_other: "ap_kind p \<notin> {Admin_APT_INSTALL, Admin_APT_UPGRADE} \<Longrightarrow> plan_kind_ok p"
  by (simp add: plan_kind_ok_def unsupported_apt_provider_for_plan_def)

lemma kind_ok_words: "list_all apt_word (plan_commands p) \<Longrightarrow> plan_kind_ok p"
  by (simp add: plan_kind_ok_def unsupported_apt_provider_for_plan_def unsupported_None_iff)

lemma docker_kind:
  assumes "plan_docker_compose_update plan_id file reason current dir env renv extra imgs residual url label = Inr p"
  shows "ap_kind p = Admin_DOCKER_COMPOSE_UPDATE"
proof -
  have nb: "\<not> blank file"
  proof
    assume "blank file"
    then show False using assms unfolding plan_docker_compose_update_def by (simp only: if_True sum.distinct)
  qed
  show ?thesis
    using assms unfolding plan_docker_compose_update_def Let_def if_not_P [OF nb] sum.inject
    by (elim subst) (simp only: AdminChangePlan.simps mk_plan_def)
qed

lemma built_kind_ok: "built_plan p \<Longrightarrow> plan_kind_ok p"
proof (induction rule: built_plan.induct)
  case (2 plan_id packages reason current p)
  then show ?case by (intro kind_ok_words apt_install_words)
next
  case (4 plan_id packages reason current p)
  then show ?case by (intro kind_ok_words apt_upgrade_words)
next
  case 8
  from docker_kind [OF this] show ?case by (intro kind_ok_other) simp
qed (auto intro!: kind_ok_other simp: builder_defs Let_def split: if_splits)

section \<open>The life-cycle invariant\<close>

definition lifecycle_ok :: "AdminChangePlan \<Rightarrow> bool" where
  "lifecycle_ok p \<longleftrightarrow> equipped_plan p \<and> plan_kind_ok p \<and>
     (ap_canceled p \<longrightarrow> \<not> ap_approved p) \<and>
     (ap_approved p \<longrightarrow> missing_admin_change_fields p = [] \<and>
        (\<exists>who. ap_approved_by p = Some who \<and> \<not> blank who)) \<and>
     (\<not> ap_archived p \<longrightarrow> ap_archived_by p = None \<and> ap_archived_at p = None \<and> ap_archive_record_id p = None)"

text \<open>The fields no transition touches.\<close>

definition same_content :: "AdminChangePlan \<Rightarrow> AdminChangePlan \<Rightarrow> bool" where
  "same_content p q \<longleftrightarrow> ap_kind q = ap_kind p \<and> ap_steps q = ap_steps p \<and>
     ap_rollback_steps q = ap_rollback_steps p \<and> ap_verification_steps q = ap_verification_steps p \<and>
     ap_risks q = ap_risks p \<and> ap_proposed_state q = ap_proposed_state p \<and> ap_reason q = ap_reason p \<and>
     ap_current_state q = ap_current_state p \<and> ap_approval_level q = ap_approval_level p \<and>
     ap_risk_level q = ap_risk_level p"

lemma plan_step_content: "plan_step p q \<Longrightarrow> same_content p q"
  by (elim plan_stepE)
    (auto simp: approve_admin_change_plan_def cancel_admin_change_plan_def archive_admin_change_plan_def
      unarchive_admin_change_plan_def same_content_def split: if_splits)

lemma plan_step_keeps:
  assumes "plan_step p q"
  shows "missing_admin_change_fields q = missing_admin_change_fields p"
    and "equipped_plan q = equipped_plan p" and "plan_kind_ok q = plan_kind_ok p"
  using plan_step_content [OF assms]
  by (simp_all only: same_content_def missing_admin_change_fields_def equipped_plan_def plan_kind_ok_def
      unsupported_apt_provider_for_plan_def plan_commands_def)

lemma plan_step_canceled: "plan_step p q \<Longrightarrow> ap_canceled p \<Longrightarrow> ap_canceled q"
  by (elim plan_stepE)
    (auto simp: approve_admin_change_plan_def cancel_admin_change_plan_def archive_admin_change_plan_def
      unarchive_admin_change_plan_def split: if_splits)

lemma lifecycle_ok_step:
  assumes "lifecycle_ok p" and "plan_step p q"
  shows "lifecycle_ok q"
  using assms(2) plan_step_keeps [OF assms(2)] assms(1)
  by (auto elim!: plan_stepE
      simp: lifecycle_ok_def approve_admin_change_plan_def cancel_admin_change_plan_def
        archive_admin_change_plan_def unarchive_admin_change_plan_def
      split: if_splits)

interpretation plan_life: step_invariant built_plan plan_step lifecycle_ok
proof unfold_locales
  fix p
  assume "built_plan p"
  then have "shaped_plan p" "plan_kind_ok p" by (simp_all add: built_plan_shape built_kind_ok)
  then show "lifecycle_ok p" by (simp add: lifecycle_ok_def shaped_plan_def fresh_plan_def)
next
  show "lifecycle_ok q" if "lifecycle_ok p" "plan_step p q" for p q
    using that by (rule lifecycle_ok_step)
qed

section \<open>Properties of the life cycle\<close>


lemma sample_restart_reach: "reach built_plan plan_step sample_restart"
proof (rule reach_step)
  show "reach built_plan plan_step (plan_user_service_restart ''p1'' ''web'' ''rotate'' ''running'')"
    by (intro reach_init built_plan.intros(1))
  show "plan_step (plan_user_service_restart ''p1'' ''web'' ''rotate'' ''running'') sample_restart"
    by (rule ps_approve [where by_whom = "''sisko''" and t = None])
      (simp add: approve_admin_change_plan_def plan_user_service_restart_def mk_plan_def
        missing_admin_change_fields_def sample_restart_def blank_Cons is_space_def)
qed


text \<open>Cancellation is final: once a plan has been canceled, no later sequence of transitions makes
  it executable or approved again, whatever adapters are enabled.\<close>

theorem canceled_plan_never_executes:
  assumes "reach built_plan plan_step p" and "ap_canceled p" and "plan_step\<^sup>*\<^sup>* p q"
  shows "ap_canceled q \<and> \<not> ap_approved q \<and> \<not> can_execute q \<and>
    snd (execute_admin_change_plan q run kinds s) = s"
proof -
  have "ap_canceled q"
    using assms(3,2) by (induction rule: rtranclp_induct) (auto dest: plan_step_canceled)
  moreover have "lifecycle_ok q"
    using plan_life.inv_rtranclp [OF assms(3)] plan_life.inv_reach [OF assms(1)] by blast
  ultimately have q: "ap_canceled q" "\<not> ap_approved q" "\<not> can_execute q"
    by (simp_all add: lifecycle_ok_def can_execute_def)
  then have "snd (execute_admin_change_plan q run kinds s) = s"
    by (simp add: execute_admin_change_plan_def Let_def)
  with q show ?thesis by blast
qed

definition sample_canceled :: AdminChangePlan where
  "sample_canceled = (case cancel_admin_change_plan sample_restart ''sisko'' ''superseded'' None of
     Inl _ \<Rightarrow> sample_restart | Inr q \<Rightarrow> q)"

theorem canceled_plan_never_executes_witness:
  "ap_approved sample_restart \<and> ap_canceled sample_canceled \<and> \<not> ap_approved sample_canceled \<and>
   \<not> can_execute sample_canceled"
proof -
  have c: "cancel_admin_change_plan sample_restart ''sisko'' ''superseded'' None = Inr sample_canceled"
    by code_simp
  then have step: "plan_step sample_restart sample_canceled" by (rule ps_cancel)
  have "ap_approved sample_restart" and can: "ap_canceled sample_canceled" by code_simp+
  with canceled_plan_never_executes [OF reach_step [where step = plan_step, OF sample_restart_reach step] can
      rtranclp.rtrancl_refl, where run = "missing_program_runner []" and kinds = "[]" and s = "()"]
  show ?thesis by (elim conjE) (intro conjI)
qed

text \<open>Archiving is reversible: restoring an archived plan gives back exactly the plan that was
  archived, so its approval and its content survive, while an archived plan can not execute.\<close>

theorem archive_round_trip:
  assumes "reach built_plan plan_step p" and "archive_admin_change_plan p rid who t = Inr q"
    and "\<not> blank restorer"
  shows "unarchive_admin_change_plan q restorer = Inr p \<and> \<not> can_execute q"
  using plan_life.inv_reach [OF assms(1)] assms(2,3)
  by (auto simp: archive_admin_change_plan_def unarchive_admin_change_plan_def can_execute_def lifecycle_ok_def
      split: if_splits)

theorem archive_round_trip_witness:
  "\<exists>q. archive_admin_change_plan sample_restart ''r1'' ''kira'' ''2026-01-01'' = Inr q \<and>
     unarchive_admin_change_plan q ''kira'' = Inr sample_restart"
proof -
  have nb: "\<not> blank ''kira''" by (simp add: blank_Cons is_space_def)
  have "case archive_admin_change_plan sample_restart ''r1'' ''kira'' ''2026-01-01'' of Inl _ \<Rightarrow> False | Inr q \<Rightarrow> True"
    by code_simp
  then obtain q where "archive_admin_change_plan sample_restart ''r1'' ''kira'' ''2026-01-01'' = Inr q"
    by (auto split: sum.splits)
  then show ?thesis using archive_round_trip [OF sample_restart_reach _ nb] by blast
qed

text \<open>The package check made when a plan is staged is enough: no plan that a builder produced is
  refused at execution for naming a package of another provider, however it was approved, archived
  or restored since.\<close>

theorem staged_packages_pass_execution_check:
  assumes "reach built_plan plan_step p"
  shows "unsupported_apt_provider_for_plan p = None"
  using plan_life.inv_reach [OF assms] by (simp add: lifecycle_ok_def plan_kind_ok_def)

theorem staged_packages_pass_execution_check_witness:
  "\<exists>p. plan_apt_install ''p2'' [''nginx'', ''curl''] ''web'' ''absent'' = Inr p \<and>
     unsupported_apt_provider_for_plan p = None"
proof -
  have "case plan_apt_install ''p2'' [''nginx'', ''curl''] ''web'' ''absent'' of Inl _ \<Rightarrow> False | Inr p \<Rightarrow> True"
    by code_simp
  then obtain p where p: "plan_apt_install ''p2'' [''nginx'', ''curl''] ''web'' ''absent'' = Inr p"
    by (auto split: sum.splits)
  then have "reach built_plan plan_step p" by (intro reach_init built_plan.intros(2))
  with p show ?thesis using staged_packages_pass_execution_check by blast
qed

end
