(* ===== verification/Policy.thy ===== *)
theory Policy
  imports IDS_Review Admin_Lifecycle
begin

text \<open>
  The policy gate of \<^verbatim>\<open>src/overseer/policy.py\<close>: the nine checks of an administrative plan, the
  acceptance of warnings, the overall status, and the profiles that parametrise them, with the
  customization questions that edit a profile.
\<close>

datatype PolicyCheckStatus = Check_PASS | Check_WARN | Check_BLOCK

fun check_status_value :: "PolicyCheckStatus \<Rightarrow> string" where
  "check_status_value Check_PASS = ''pass''"
| "check_status_value Check_WARN = ''warn''"
| "check_status_value Check_BLOCK = ''block''"

record PolicyCheck =
  pc_id :: string
  pc_status :: PolicyCheckStatus
  pc_owner_domain :: OwnerDomain
  pc_summary :: string
  pc_evidence_ids :: "string list"

record PolicyDecision =
  pd_subject_id :: string
  pd_subject_kind :: string
  pd_status :: PolicyCheckStatus
  pd_checks :: "PolicyCheck list"
  pd_warnings_block_execution :: bool

definition can_proceed :: "PolicyDecision \<Rightarrow> bool" where
  "can_proceed d \<longleftrightarrow> pd_status d = Check_PASS \<or>
     (pd_status d = Check_WARN \<and> \<not> pd_warnings_block_execution d)"

fun APPROVAL_RANK :: "ApprovalLevel \<Rightarrow> int" where
  "APPROVAL_RANK Approval_NONE = 0"
| "APPROVAL_RANK Approval_ROLE = 1"
| "APPROVAL_RANK Approval_SISKO = 2"
| "APPROVAL_RANK Approval_HUMAN = 3"

record PolicyQuestion =
  pq_id :: string
  pq_prompt :: string
  pq_profile_key :: string
  pq_default :: pyval
  pq_options :: "pyval list"
  pq_rationale :: string

record PolicyProfile =
  pp_name :: string
  pp_description :: string
  pp_minimum_approval_by_risk :: "(RiskLevel, ApprovalLevel) pydict"
  pp_require_live_adapter_enabled :: bool
  pp_require_rollback_steps :: bool
  pp_warn_on_apt_upgrade_rollback :: bool
  pp_require_verification_steps :: bool
  pp_require_ids_review_for_firewall :: bool
  pp_block_warnings_until_accepted :: bool

definition BEST_PRACTICE_POLICY_PROFILE :: PolicyProfile where
  "BEST_PRACTICE_POLICY_PROFILE =
     \<lparr>pp_name = ''best-practice'',
      pp_description = ''Conservative local-admin defaults for Overseer-controlled host changes.'',
      pp_minimum_approval_by_risk = [(Risk_LOW, Approval_NONE), (Risk_MEDIUM, Approval_SISKO),
        (Risk_HIGH, Approval_SISKO), (Risk_CRITICAL, Approval_HUMAN)],
      pp_require_live_adapter_enabled = True, pp_require_rollback_steps = True,
      pp_warn_on_apt_upgrade_rollback = False, pp_require_verification_steps = True,
      pp_require_ids_review_for_firewall = True, pp_block_warnings_until_accepted = True\<rparr>"

definition mk_check ::
  "string \<Rightarrow> PolicyCheckStatus \<Rightarrow> OwnerDomain \<Rightarrow> string \<Rightarrow> string list \<Rightarrow> PolicyCheck" where
  "mk_check i st ow sm ev = \<lparr>pc_id = i, pc_status = st, pc_owner_domain = ow, pc_summary = sm,
     pc_evidence_ids = ev\<rparr>"

section \<open>The checks\<close>

definition apply_warning_acceptance :: "PolicyCheck list \<Rightarrow> string set \<Rightarrow> PolicyCheck list" where
  "apply_warning_acceptance checks accepted =
     map (\<lambda>check. if pc_status check = Check_WARN \<and> pc_id check \<in> accepted
       then mk_check (pc_id check) Check_PASS (pc_owner_domain check)
         (''accepted residual warning: '' @ pc_summary check) (pc_evidence_ids check)
       else check) checks"

definition overall_status :: "PolicyCheck list \<Rightarrow> PolicyCheckStatus" where
  "overall_status checks =
     (if list_ex (\<lambda>c. pc_status c = Check_BLOCK) checks then Check_BLOCK
      else if list_ex (\<lambda>c. pc_status c = Check_WARN) checks then Check_WARN
      else Check_PASS)"

definition plan_state_check :: "AdminChangePlan \<Rightarrow> PolicyCheck" where
  "plan_state_check p =
     (if ap_archived p then
        mk_check ''admin.plan.state'' Check_BLOCK (ap_owner_domain p) ''archived admin plans cannot execute''
          (if str_true (ap_archive_record_id p) then [the (ap_archive_record_id p)] else [])
      else if ap_canceled p then
        mk_check ''admin.plan.state'' Check_BLOCK (ap_owner_domain p) ''canceled admin plans cannot execute'' []
      else mk_check ''admin.plan.state'' Check_PASS (ap_owner_domain p) ''admin plan is active'' [])"

definition plan_completeness_check :: "AdminChangePlan \<Rightarrow> PolicyCheck" where
  "plan_completeness_check p =
     (let missing = missing_admin_change_fields p in
      if missing \<noteq> [] then
        mk_check ''admin.plan.completeness'' Check_BLOCK (ap_owner_domain p)
          (''admin plan is missing required fields: '' @ py_join '', '' missing) []
      else
        mk_check ''admin.plan.completeness'' Check_PASS (ap_owner_domain p)
          ''admin plan includes commands, risks, rollback, and verification'' [])"

definition approval_check :: "AdminChangePlan \<Rightarrow> PolicyCheck" where
  "approval_check p =
     (if requires_explicit_approval p \<and> \<not> ap_approved p then
        mk_check ''admin.plan.approval'' Check_BLOCK (ap_owner_domain p)
          (approval_value (ap_approval_level p) @ '' approval is required before execution'') []
      else if ap_approved p then
        mk_check ''admin.plan.approval'' Check_PASS (ap_owner_domain p)
          (''admin plan approved by '' @ str_default (ap_approved_by p) ''unknown approver'') []
      else mk_check ''admin.plan.approval'' Check_PASS (ap_owner_domain p) ''no explicit approval required'' [])"

definition adapter_check ::
  "AdminChangePlan \<Rightarrow> AdminExecutionCapability \<Rightarrow> PolicyProfile \<Rightarrow> PolicyCheck" where
  "adapter_check p capability profile =
     (if \<not> pp_require_live_adapter_enabled profile then
        mk_check ''admin.adapter.enabled'' Check_WARN (ap_owner_domain p)
          ''policy profile does not block on live adapter status; executor capability still applies'' []
      else if \<not> can_execute_live capability then
        mk_check ''admin.adapter.enabled'' Check_BLOCK (ap_owner_domain p)
          (''live adapter is '' @ adapter_status_value (cap_status capability) @ '': '' @ cap_summary capability) []
      else
        mk_check ''admin.adapter.enabled'' Check_PASS (ap_owner_domain p)
          (''live adapter is enabled: '' @ cap_adapter_name capability) [])"

definition ids_review_check ::
  "AdminChangePlan \<Rightarrow> HostSecurityIDSReviewPackage list \<Rightarrow> PolicyProfile \<Rightarrow> PolicyCheck" where
  "ids_review_check p packages profile =
     (if \<not> pp_require_ids_review_for_firewall profile then
        mk_check ''admin.ids.review'' Check_WARN Owner_ODO_IDS
          ''policy profile does not block firewall-affecting plans on IDS advisory review''
          (map ids_id packages)
      else if \<not> admin_plan_requires_ids_review p then
        mk_check ''admin.ids.review'' Check_PASS Owner_ODO_IDS ''IDS review is not required'' []
      else
        (let accepted = filter satisfies_pre_execution_review_gate packages in
         if accepted = [] then
           mk_check ''admin.ids.review'' Check_BLOCK Owner_ODO_IDS
             ''accepted IDS/firewall advisory is required before approval or execution'' (map ids_id packages)
         else
           mk_check ''admin.ids.review'' Check_PASS Owner_ODO_IDS
             ''accepted IDS/firewall advisory is present'' (map ids_id accepted)))"

definition residual_scan_findings_check :: "AdminChangePlan \<Rightarrow> PolicyCheck" where
  "residual_scan_findings_check p =
     (if ap_residual_scan_findings p = [] then
        mk_check ''admin.scan.residual-findings'' Check_PASS Owner_ODO
          ''no residual critical/high image findings declared'' []
      else
        mk_check ''admin.scan.residual-findings'' Check_WARN Owner_ODO
          (''replacement images still have residual critical/high findings: '' @
           py_join ''; '' (ap_residual_scan_findings p)) [])"

definition rollback_check :: "AdminChangePlan \<Rightarrow> PolicyProfile \<Rightarrow> PolicyCheck" where
  "rollback_check p profile =
     (if \<not> pp_require_rollback_steps profile then
        mk_check ''admin.rollback'' Check_WARN (ap_owner_domain p) ''policy profile allows missing rollback steps'' []
      else if ap_rollback_steps p = [] then
        mk_check ''admin.rollback'' Check_BLOCK (ap_owner_domain p) ''rollback steps are required'' []
      else if pp_warn_on_apt_upgrade_rollback profile \<and> ap_kind p = Admin_APT_UPGRADE then
        mk_check ''admin.rollback'' Check_WARN (ap_owner_domain p)
          ''apt upgrades may require operator-selected rollback because package downgrades are not always available'' []
      else mk_check ''admin.rollback'' Check_PASS (ap_owner_domain p) ''rollback steps are recorded'' [])"

definition verification_check :: "AdminChangePlan \<Rightarrow> PolicyProfile \<Rightarrow> PolicyCheck" where
  "verification_check p profile =
     (if \<not> pp_require_verification_steps profile then
        mk_check ''admin.verification'' Check_WARN Owner_JULIAN ''policy profile allows missing verification steps'' []
      else if ap_verification_steps p = [] then
        mk_check ''admin.verification'' Check_BLOCK (ap_owner_domain p) ''verification steps are required'' []
      else mk_check ''admin.verification'' Check_PASS Owner_JULIAN ''verification steps are recorded'' [])"

definition minimum_approval :: "PolicyProfile \<Rightarrow> RiskLevel \<Rightarrow> ApprovalLevel" where
  "minimum_approval profile risk =
     (case dict_get (pp_minimum_approval_by_risk profile) risk of None \<Rightarrow> Approval_HUMAN | Some l \<Rightarrow> l)"

definition risk_approval_check :: "AdminChangePlan \<Rightarrow> PolicyProfile \<Rightarrow> PolicyCheck" where
  "risk_approval_check p profile =
     (let minimum = minimum_approval profile (ap_risk_level p) in
      if APPROVAL_RANK (ap_approval_level p) < APPROVAL_RANK minimum then
        mk_check ''admin.risk.approval-level'' Check_BLOCK Owner_SISKO
          (risk_value (ap_risk_level p) @ ''-risk admin changes require at least '' @ approval_value minimum @
           '' approval'') []
      else
        mk_check ''admin.risk.approval-level'' Check_PASS Owner_SISKO
          ''risk level and approval level are compatible'' [])"

definition evaluate_admin_change_policy ::
  "AdminChangePlan \<Rightarrow> AdminExecutionCapability \<Rightarrow> HostSecurityIDSReviewPackage list \<Rightarrow> string list \<Rightarrow>
   PolicyProfile \<Rightarrow> PolicyDecision" where
  "evaluate_admin_change_policy p capability packages accepted_warning_check_ids profile =
     (let checks = apply_warning_acceptance
            [plan_state_check p, plan_completeness_check p, approval_check p,
             adapter_check p capability profile, ids_review_check p packages profile,
             residual_scan_findings_check p, rollback_check p profile, verification_check p profile,
             risk_approval_check p profile] (set accepted_warning_check_ids)
      in \<lparr>pd_subject_id = ap_id p, pd_subject_kind = admin_kind_value (ap_kind p),
          pd_status = overall_status checks, pd_checks = checks,
          pd_warnings_block_execution = pp_block_warnings_until_accepted profile\<rparr>)"

section \<open>Profiles as mappings\<close>

text \<open>
  A profile file is a mapping from strings to JSON values.
\<close>

text \<open>Equality of scalars, with booleans and floats equal to the integers they denote.\<close>

fun py_num :: "pyval \<Rightarrow> rat option" where
  "py_num (PInt i) = Some (of_int i)"
| "py_num (PBool b) = Some (if b then 1 else 0)"
| "py_num (PFloat x) = Some x"
| "py_num v = None"

definition py_eq :: "pyval \<Rightarrow> pyval \<Rightarrow> bool" where
  "py_eq a b =
     (case (py_num a, py_num b) of
        (Some x, Some y) \<Rightarrow> x = y
      | (None, None) \<Rightarrow> a = b
      | _ \<Rightarrow> False)"

definition bool_setting :: "(string, pyval) pydict \<Rightarrow> string \<Rightarrow> bool \<Rightarrow> bool result" where
  "bool_setting mapping key dflt =
     (let value = (case dict_get mapping key of None \<Rightarrow> PBool dflt | Some v \<Rightarrow> v);
          err = Inl (ValueError (key @ '' must be a boolean''))
      in case value of
           PBool b \<Rightarrow> Inr b
         | PStr s \<Rightarrow>
             (let lowered = py_lower (py_strip s) in
              if lowered \<in> {''true'', ''yes'', ''1'', ''on''} then Inr True
              else if lowered \<in> {''false'', ''no'', ''0'', ''off''} then Inr False
              else err)
         | _ \<Rightarrow> err)"

definition RISK_LEVELS :: "RiskLevel list" where
  "RISK_LEVELS = [Risk_LOW, Risk_MEDIUM, Risk_HIGH, Risk_CRITICAL]"

definition approval_of :: "string \<Rightarrow> ApprovalLevel result" where
  "approval_of = enum_of ''ApprovalLevel'' approval_value
     [Approval_NONE, Approval_ROLE, Approval_SISKO, Approval_HUMAN]"

fun approvals_from_items ::
  "(string \<times> string) list \<Rightarrow> (RiskLevel, ApprovalLevel) pydict \<Rightarrow>
   (RiskLevel, ApprovalLevel) pydict result" where
  "approvals_from_items [] acc = Inr acc"
| "approvals_from_items ((risk, level) # items) acc =
     res_bind (risk_of risk) (\<lambda>r.
     res_bind (approval_of level) (\<lambda>l. approvals_from_items items (dict_set r l acc)))"

definition default_approval_items :: "(string, string) pydict" where
  "default_approval_items =
     map (\<lambda>r. (risk_value r, approval_value (minimum_approval BEST_PRACTICE_POLICY_PROFILE r))) RISK_LEVELS"

definition policy_profile_from_mapping ::
  "(pyval \<Rightarrow> string) \<Rightarrow> (string, pyval) pydict \<Rightarrow> PolicyProfile result" where
  "policy_profile_from_mapping str_of mapping =
     (let text = (\<lambda>key dflt. case dict_get mapping key of None \<Rightarrow> dflt | Some v \<Rightarrow> py_str str_of v)
      in case (case dict_get mapping ''minimum_approval_by_risk'' of None \<Rightarrow> PDict [] | Some v \<Rightarrow> v) of
        PDict approvals \<Rightarrow>
          res_bind (approvals_from_items
            (fold (\<lambda>(risk, level). dict_set risk (py_str str_of level)) approvals default_approval_items) [])
            (\<lambda>by_risk.
          res_bind (bool_setting mapping ''require_live_adapter_enabled'' True) (\<lambda>live.
          res_bind (bool_setting mapping ''require_rollback_steps'' True) (\<lambda>rollback.
          res_bind (bool_setting mapping ''warn_on_apt_upgrade_rollback''
            (pp_warn_on_apt_upgrade_rollback BEST_PRACTICE_POLICY_PROFILE)) (\<lambda>apt.
          res_bind (bool_setting mapping ''require_verification_steps'' True) (\<lambda>verification.
          res_bind (bool_setting mapping ''require_ids_review_for_firewall'' True) (\<lambda>ids.
          res_bind (bool_setting mapping ''block_warnings_until_accepted'' True) (\<lambda>warnings.
            Inr \<lparr>pp_name = text ''name'' (pp_name BEST_PRACTICE_POLICY_PROFILE),
              pp_description = text ''description'' (pp_description BEST_PRACTICE_POLICY_PROFILE),
              pp_minimum_approval_by_risk = by_risk, pp_require_live_adapter_enabled = live,
              pp_require_rollback_steps = rollback, pp_warn_on_apt_upgrade_rollback = apt,
              pp_require_verification_steps = verification, pp_require_ids_review_for_firewall = ids,
              pp_block_warnings_until_accepted = warnings\<rparr>)))))))
      | _ \<Rightarrow> Inl (ValueError ''minimum_approval_by_risk must be an object''))"

fun approval_status_items ::
  "(RiskLevel, ApprovalLevel) pydict \<Rightarrow> RiskLevel list \<Rightarrow> (string \<times> pyval) list result" where
  "approval_status_items m [] = Inr []"
| "approval_status_items m (r # rs) =
     (case dict_get m r of
        None \<Rightarrow> Inl (KeyError (risk_value r))
      | Some l \<Rightarrow> res_bind (approval_status_items m rs) (\<lambda>xs. Inr ((risk_value r, PStr (approval_value l)) # xs)))"

definition policy_profile_status :: "PolicyProfile \<Rightarrow> (string, pyval) pydict result" where
  "policy_profile_status profile =
     res_bind (approval_status_items (pp_minimum_approval_by_risk profile) RISK_LEVELS) (\<lambda>approvals.
       Inr [(''name'', PStr (pp_name profile)), (''description'', PStr (pp_description profile)),
         (''minimum_approval_by_risk'', PDict approvals),
         (''require_live_adapter_enabled'', PBool (pp_require_live_adapter_enabled profile)),
         (''require_rollback_steps'', PBool (pp_require_rollback_steps profile)),
         (''warn_on_apt_upgrade_rollback'', PBool (pp_warn_on_apt_upgrade_rollback profile)),
         (''require_verification_steps'', PBool (pp_require_verification_steps profile)),
         (''require_ids_review_for_firewall'', PBool (pp_require_ids_review_for_firewall profile)),
         (''block_warnings_until_accepted'', PBool (pp_block_warnings_until_accepted profile))])"

section \<open>Customization\<close>

definition approval_options :: "pyval list" where
  "approval_options = map (\<lambda>l. PStr (approval_value l)) [Approval_NONE, Approval_ROLE, Approval_SISKO, Approval_HUMAN]"

definition policy_customization_questions :: "PolicyQuestion list" where
  "policy_customization_questions =
     [
      \<lparr>pq_id = ''risk-low-approval'',
       pq_prompt = ''What minimum approval should low-risk admin changes require?'',
       pq_profile_key = ''minimum_approval_by_risk.low'', pq_default = PStr (approval_value Approval_NONE), pq_options = approval_options,
       pq_rationale = ''Low-risk observation or localhost maintenance should not create unnecessary friction.''\<rparr>,
      \<lparr>pq_id = ''risk-medium-approval'',
       pq_prompt = ''What minimum approval should medium-risk admin changes require?'',
       pq_profile_key = ''minimum_approval_by_risk.medium'', pq_default = PStr (approval_value Approval_SISKO), pq_options = approval_options,
       pq_rationale = ''Medium-risk service or package work can interrupt local coordination.''\<rparr>,
      \<lparr>pq_id = ''risk-high-approval'',
       pq_prompt = ''What minimum approval should high-risk admin changes require?'',
       pq_profile_key = ''minimum_approval_by_risk.high'', pq_default = PStr (approval_value Approval_SISKO), pq_options = approval_options,
       pq_rationale = ''High-risk changes can affect network exposure, packages, or shared resources.''\<rparr>,
      \<lparr>pq_id = ''risk-critical-approval'',
       pq_prompt = ''What minimum approval should critical admin changes require?'',
       pq_profile_key = ''minimum_approval_by_risk.critical'', pq_default = PStr (approval_value Approval_HUMAN), pq_options = approval_options,
       pq_rationale = ''Critical changes should preserve a manual decision point.''\<rparr>,
      \<lparr>pq_id = ''live-adapter-required'',
       pq_prompt = ''Should execution require an enabled live adapter for the exact change kind?'',
       pq_profile_key = ''require_live_adapter_enabled'', pq_default = PBool True, pq_options = [PBool True, PBool False],
       pq_rationale = ''Typed adapters keep command boundaries auditable and prevent accidental shell execution.''\<rparr>,
      \<lparr>pq_id = ''rollback-required'',
       pq_prompt = ''Should admin plans require rollback steps before execution?'',
       pq_profile_key = ''require_rollback_steps'', pq_default = PBool True, pq_options = [PBool True, PBool False],
       pq_rationale = ''Rollback evidence is needed to recover from failed host changes.''\<rparr>,
      \<lparr>pq_id = ''apt-upgrade-warning'',
       pq_prompt = ''Should package upgrades keep a residual rollback warning until explicitly accepted?'',
       pq_profile_key = ''warn_on_apt_upgrade_rollback'', pq_default = PBool False, pq_options = [PBool True, PBool False],
       pq_rationale = ''Package downgrades are not always available or safe.''\<rparr>,
      \<lparr>pq_id = ''verification-required'',
       pq_prompt = ''Should admin plans require post-change verification steps?'',
       pq_profile_key = ''require_verification_steps'', pq_default = PBool True, pq_options = [PBool True, PBool False],
       pq_rationale = ''Verification confirms the requested state actually changed and the service is usable.''\<rparr>,
      \<lparr>pq_id = ''ids-review-required'',
       pq_prompt = ''Should firewall-affecting plans require accepted Intrusion Detection advisory review?'',
       pq_profile_key = ''require_ids_review_for_firewall'', pq_default = PBool True, pq_options = [PBool True, PBool False],
       pq_rationale = ''IDS review reduces the chance of weakening network defenses or blocking legitimate work.''\<rparr>,
      \<lparr>pq_id = ''warnings-block'',
       pq_prompt = ''Should warning policy decisions block execution until explicitly accepted?'',
       pq_profile_key = ''block_warnings_until_accepted'', pq_default = PBool True, pq_options = [PBool True, PBool False],
       pq_rationale = ''Warnings represent residual risk that should be acknowledged before execution.''\<rparr>]"

definition set_profile_value ::
  "(string, pyval) pydict \<Rightarrow> string \<Rightarrow> pyval \<Rightarrow> (string, pyval) pydict result" where
  "set_profile_value profile dotted_key value =
     (if startswith dotted_key ''minimum_approval_by_risk.'' then
        (let risk = removeprefix dotted_key ''minimum_approval_by_risk.''
         in case dict_get profile ''minimum_approval_by_risk'' of
              None \<Rightarrow> Inl (KeyError ''minimum_approval_by_risk'')
            | Some (PDict approvals) \<Rightarrow>
                Inr (dict_set ''minimum_approval_by_risk'' (PDict (dict_set risk value approvals)) profile)
            | Some _ \<Rightarrow> Inl (ValueError ''minimum_approval_by_risk must be an object''))
      else Inr (dict_set dotted_key value profile))"

fun apply_answers ::
  "(pyval \<Rightarrow> string) \<Rightarrow> (string \<times> pyval) list \<Rightarrow> (string, pyval) pydict \<Rightarrow> (string, pyval) pydict result" where
  "apply_answers str_of [] profile = Inr profile"
| "apply_answers str_of ((answer_id, value) # answers) profile =
     (if answer_id \<in> {''name'', ''description''} then apply_answers str_of answers profile
      else case find (\<lambda>question. pq_id question = answer_id) policy_customization_questions of
        None \<Rightarrow> Inl (ValueError (''unsupported policy answer id: '' @ answer_id))
      | Some question \<Rightarrow>
          if \<not> list_ex (py_eq value) (pq_options question)
          then Inl (ValueError (''unsupported value for '' @ answer_id @ '': '' @ py_str str_of value))
          else res_bind (set_profile_value profile (pq_profile_key question) value)
                 (apply_answers str_of answers))"

definition policy_profile_from_answers ::
  "(pyval \<Rightarrow> string) \<Rightarrow> (string, pyval) pydict \<Rightarrow> PolicyProfile \<Rightarrow> PolicyProfile result" where
  "policy_profile_from_answers str_of answers base_profile =
     res_bind (policy_profile_status base_profile) (\<lambda>profile.
       let named = (\<lambda>key dflt. case dict_get answers key of
             None \<Rightarrow> PStr dflt | Some v \<Rightarrow> PStr (py_str str_of v));
           start = dict_set ''description'' (named ''description'' ''Customized Overseer policy profile.'')
             (dict_set ''name'' (named ''name'' ''custom'') profile)
       in res_bind (apply_answers str_of answers start) (policy_profile_from_mapping str_of))"

definition policy_profile_from_answers_status ::
  "(pyval \<Rightarrow> string) \<Rightarrow> (string, pyval) pydict \<Rightarrow> pyval result" where
  "policy_profile_from_answers_status str_of answers =
     res_bind (policy_profile_from_answers str_of answers BEST_PRACTICE_POLICY_PROFILE) (\<lambda>profile.
     res_bind (policy_profile_status profile) (\<lambda>status.
       Inr (PDict [(''profile'', PDict status), (''source'', PStr ''policy_customization_answers'')])))"

definition policy_customization_helper_status :: "PolicyProfile \<Rightarrow> pyval result" where
  "policy_customization_helper_status profile =
     res_bind (policy_profile_status profile) (\<lambda>status.
       Inr (PDict [(''profile'', PDict status),
         (''questions'', PList (map (\<lambda>question. PDict
           [(''id'', PStr (pq_id question)), (''prompt'', PStr (pq_prompt question)),
            (''profile_key'', PStr (pq_profile_key question)), (''default'', pq_default question),
            (''options'', PList (pq_options question)), (''rationale'', PStr (pq_rationale question))])
           policy_customization_questions)),
         (''next_step'',
          PStr ''answer the questions, update the profile JSON fields, then pass the file with --policy-profile'')]))"

section \<open>Properties of the policy gate\<close>

lemma mk_check_sel [simp]:
  "pc_status (mk_check i st ow sm ev) = st"
  "pc_id (mk_check i st ow sm ev) = i"
  by (simp_all add: mk_check_def)

definition raw_checks ::
  "AdminChangePlan \<Rightarrow> AdminExecutionCapability \<Rightarrow> HostSecurityIDSReviewPackage list \<Rightarrow> PolicyProfile \<Rightarrow>
   PolicyCheck list" where
  "raw_checks p capability packages profile =
     [plan_state_check p, plan_completeness_check p, approval_check p, adapter_check p capability profile,
      ids_review_check p packages profile, residual_scan_findings_check p, rollback_check p profile,
      verification_check p profile, risk_approval_check p profile]"

lemma evaluate_status:
  "pd_status (evaluate_admin_change_policy p cap ks acc pf) =
     overall_status (apply_warning_acceptance (raw_checks p cap ks pf) (set acc))"
  "pd_warnings_block_execution (evaluate_admin_change_policy p cap ks acc pf) = pp_block_warnings_until_accepted pf"
  by (simp_all add: evaluate_admin_change_policy_def raw_checks_def Let_def)

lemma overall_after_acceptance:
  "overall_status (apply_warning_acceptance cs acc) =
     (if \<exists>c \<in> set cs. pc_status c = Check_BLOCK then Check_BLOCK
      else if \<exists>c \<in> set cs. pc_status c = Check_WARN \<and> pc_id c \<notin> acc then Check_WARN else Check_PASS)"
proof -
  define cs' where "cs' = apply_warning_acceptance cs acc"
  have b: "(\<exists>c \<in> set cs'. pc_status c = Check_BLOCK) \<longleftrightarrow> (\<exists>c \<in> set cs. pc_status c = Check_BLOCK)"
    by (force simp: cs'_def apply_warning_acceptance_def)
  have w: "(\<exists>c \<in> set cs'. pc_status c = Check_WARN) \<longleftrightarrow> (\<exists>c \<in> set cs. pc_status c = Check_WARN \<and> pc_id c \<notin> acc)"
    by (force simp: cs'_def apply_warning_acceptance_def)
  show ?thesis unfolding overall_status_def cs'_def [symmetric] list_ex_iff b w by simp
qed

text \<open>Warnings can be accepted, blocks can not: for every profile, whether the decision is a block
  does not depend on the accepted check ids, accepting more of them never turns a decision that may
  proceed into one that may not, and a blocked decision never proceeds.\<close>

theorem blocks_are_never_accepted:
  "(pd_status (evaluate_admin_change_policy p cap ks acc pf) = Check_BLOCK) =
     (pd_status (evaluate_admin_change_policy p cap ks [] pf) = Check_BLOCK) \<and>
   \<not> (can_proceed (evaluate_admin_change_policy p cap ks acc pf) \<and>
      \<not> can_proceed (evaluate_admin_change_policy p cap ks (acc @ extra) pf)) \<and>
   \<not> (pd_status (evaluate_admin_change_policy p cap ks [] pf) = Check_BLOCK \<and>
      can_proceed (evaluate_admin_change_policy p cap ks acc pf))"
  unfolding can_proceed_def evaluate_status overall_after_acceptance by auto

lemma APPROVAL_RANK_iff: "APPROVAL_RANK a < APPROVAL_RANK b \<longleftrightarrow> approval_rank a < approval_rank b"
  by (cases a; cases b) simp_all

lemma best_practice_sel [simp]:
  "pp_require_live_adapter_enabled BEST_PRACTICE_POLICY_PROFILE"
  "pp_require_rollback_steps BEST_PRACTICE_POLICY_PROFILE"
  "\<not> pp_warn_on_apt_upgrade_rollback BEST_PRACTICE_POLICY_PROFILE"
  "pp_require_verification_steps BEST_PRACTICE_POLICY_PROFILE"
  "pp_require_ids_review_for_firewall BEST_PRACTICE_POLICY_PROFILE"
  "pp_block_warnings_until_accepted BEST_PRACTICE_POLICY_PROFILE"
  by (simp_all add: BEST_PRACTICE_POLICY_PROFILE_def)

definition best_minimum :: "RiskLevel \<Rightarrow> ApprovalLevel" where
  "best_minimum = minimum_approval BEST_PRACTICE_POLICY_PROFILE"

lemma best_minimum_simps [simp]:
  "best_minimum Risk_LOW = Approval_NONE" "best_minimum Risk_MEDIUM = Approval_SISKO"
  "best_minimum Risk_HIGH = Approval_SISKO" "best_minimum Risk_CRITICAL = Approval_HUMAN"
  by (simp_all add: best_minimum_def minimum_approval_def BEST_PRACTICE_POLICY_PROFILE_def dict_get_def)

text \<open>The decision of the best-practice profile, check by check.\<close>

lemma best_practice_checks:
  "pc_status (plan_state_check p) = (if ap_archived p \<or> ap_canceled p then Check_BLOCK else Check_PASS)"
  "pc_status (plan_completeness_check p) = (if missing_admin_change_fields p \<noteq> [] then Check_BLOCK else Check_PASS)"
  "pc_status (approval_check p) = (if requires_explicit_approval p \<and> \<not> ap_approved p then Check_BLOCK else Check_PASS)"
  "pc_status (adapter_check p cap BEST_PRACTICE_POLICY_PROFILE) = (if can_execute_live cap then Check_PASS else Check_BLOCK)"
  "pc_status (ids_review_check p ks BEST_PRACTICE_POLICY_PROFILE) =
     (if admin_plan_requires_ids_review p \<and> \<not> (\<exists>k \<in> set ks. satisfies_pre_execution_review_gate k)
      then Check_BLOCK else Check_PASS)"
  "pc_status (residual_scan_findings_check p) = (if ap_residual_scan_findings p = [] then Check_PASS else Check_WARN)"
  "pc_id (residual_scan_findings_check p) = ''admin.scan.residual-findings''"
  "pc_status (rollback_check p BEST_PRACTICE_POLICY_PROFILE) = (if ap_rollback_steps p = [] then Check_BLOCK else Check_PASS)"
  "pc_status (verification_check p BEST_PRACTICE_POLICY_PROFILE) =
     (if ap_verification_steps p = [] then Check_BLOCK else Check_PASS)"
  "pc_status (risk_approval_check p BEST_PRACTICE_POLICY_PROFILE) =
     (if approval_rank (ap_approval_level p) < approval_rank (best_minimum (ap_risk_level p))
      then Check_BLOCK else Check_PASS)"
  by (simp_all add: plan_state_check_def plan_completeness_check_def approval_check_def adapter_check_def
      ids_review_check_def residual_scan_findings_check_def rollback_check_def verification_check_def
      risk_approval_check_def Let_def filter_empty_conv APPROVAL_RANK_iff best_minimum_def)

lemma missing_Nil_steps:
  "missing_admin_change_fields p = [] \<Longrightarrow> ap_rollback_steps p \<noteq> [] \<and> ap_verification_steps p \<noteq> []"
  by (auto simp: missing_admin_change_fields_def split: if_splits)

lemma best_practice_proceeds_iff:
  "can_proceed (evaluate_admin_change_policy p cap ks acc BEST_PRACTICE_POLICY_PROFILE) \<longleftrightarrow>
     can_execute p \<and> can_execute_live cap \<and>
     \<not> (admin_plan_requires_ids_review p \<and> \<not> (\<exists>k \<in> set ks. satisfies_pre_execution_review_gate k)) \<and>
     \<not> (ap_residual_scan_findings p \<noteq> [] \<and> ''admin.scan.residual-findings'' \<notin> set acc) \<and>
     approval_rank (best_minimum (ap_risk_level p)) \<le> approval_rank (ap_approval_level p)"
  using missing_Nil_steps [of p]
  by (simp add: can_proceed_def evaluate_status overall_after_acceptance raw_checks_def best_practice_checks
      can_execute_def not_less) blast



section \<open>Profiles survive a save and a load\<close>

lemma approval_of_value: "approval_of (approval_value l) = Inr l"
  by (cases l) (simp_all add: approval_of_def enum_of_def)

lemma bool_setting_PBool: "dict_get m key = Some (PBool b) \<Longrightarrow> bool_setting m key d = Inr b"
  by (simp add: bool_setting_def)

definition total_profile :: "PolicyProfile \<Rightarrow> bool" where
  "total_profile p \<longleftrightarrow> list_all (\<lambda>r. dict_get (pp_minimum_approval_by_risk p) r \<noteq> None) RISK_LEVELS"

definition normal_profile :: "PolicyProfile \<Rightarrow> PolicyProfile" where
  "normal_profile p = p\<lparr>pp_minimum_approval_by_risk := map (\<lambda>r. (r, minimum_approval p r)) RISK_LEVELS\<rparr>"

lemma normal_profile_same: "total_profile p \<Longrightarrow> minimum_approval (normal_profile p) r = minimum_approval p r"
  by (cases r) (simp_all add: normal_profile_def minimum_approval_def RISK_LEVELS_def dict_get_def)

lemma approvals_round_trip:
  "approvals_from_items
     (fold (\<lambda>(risk, level). dict_set risk (py_str str_of level))
       (map (\<lambda>r. (risk_value r, PStr (approval_value (f r)))) RISK_LEVELS) default_approval_items) [] =
   Inr (map (\<lambda>r. (r, f r)) RISK_LEVELS)"
  by (simp add: RISK_LEVELS_def default_approval_items_def dict_set_def enum_of_roundtrip
      enum_of_roundtrip(2) [of Risk_LOW, simplified] enum_of_roundtrip(2) [of Risk_MEDIUM, simplified]
      enum_of_roundtrip(2) [of Risk_HIGH, simplified] enum_of_roundtrip(2) [of Risk_CRITICAL, simplified]
      approval_of_value)

lemma status_items_total:
  "list_all (\<lambda>r. dict_get m r \<noteq> None) rs \<Longrightarrow>
     approval_status_items m rs = Inr (map (\<lambda>r. (risk_value r, PStr (approval_value (the (dict_get m r))))) rs)"
  by (induction rs) auto

text \<open>Saving a profile and loading it back changes nothing: for every profile that gives a
  minimum approval for each risk level, printing it as a mapping succeeds and reading the mapping
  back gives the profile with its approvals listed in the order of the risk levels, so every check
  decides the same.\<close>

theorem policy_profile_round_trip:
  assumes "total_profile p"
  shows "\<exists>m. policy_profile_status p = Inr m \<and>
    policy_profile_from_mapping str_of m = Inr (normal_profile p) \<and>
    (\<forall>r. minimum_approval (normal_profile p) r = minimum_approval p r)"
proof -
  let ?ap = "map (\<lambda>r. (risk_value r, PStr (approval_value (minimum_approval p r)))) RISK_LEVELS"
  have items: "approval_status_items (pp_minimum_approval_by_risk p) RISK_LEVELS = Inr ?ap"
    using assms status_items_total [of "pp_minimum_approval_by_risk p" RISK_LEVELS]
    by (auto simp: total_profile_def minimum_approval_def list_all_iff intro!: map_cong split: option.splits)
  obtain m where m: "policy_profile_status p = Inr m" by (simp add: policy_profile_status_def items)
  have get: "dict_get m ''minimum_approval_by_risk'' = Some (PDict ?ap)"
    "dict_get m ''name'' = Some (PStr (pp_name p))" "dict_get m ''description'' = Some (PStr (pp_description p))"
    "dict_get m ''require_live_adapter_enabled'' = Some (PBool (pp_require_live_adapter_enabled p))"
    "dict_get m ''require_rollback_steps'' = Some (PBool (pp_require_rollback_steps p))"
    "dict_get m ''warn_on_apt_upgrade_rollback'' = Some (PBool (pp_warn_on_apt_upgrade_rollback p))"
    "dict_get m ''require_verification_steps'' = Some (PBool (pp_require_verification_steps p))"
    "dict_get m ''require_ids_review_for_firewall'' = Some (PBool (pp_require_ids_review_for_firewall p))"
    "dict_get m ''block_warnings_until_accepted'' = Some (PBool (pp_block_warnings_until_accepted p))"
    using m by (auto simp: policy_profile_status_def items dict_get_def)
  have "policy_profile_from_mapping str_of m = Inr (normal_profile p)"
    by (simp add: policy_profile_from_mapping_def get bool_setting_PBool approvals_round_trip normal_profile_def)
  with m show ?thesis using normal_profile_same [OF assms] by blast
qed

theorem policy_profile_round_trip_witness:
  "total_profile BEST_PRACTICE_POLICY_PROFILE \<and>
   (\<exists>m. policy_profile_status BEST_PRACTICE_POLICY_PROFILE = Inr m \<and>
      policy_profile_from_mapping (\<lambda>_. []) m = Inr (normal_profile BEST_PRACTICE_POLICY_PROFILE))"
proof -
  have t: "total_profile BEST_PRACTICE_POLICY_PROFILE" by code_simp
  with policy_profile_round_trip [OF t, of "\<lambda>_. []"] show ?thesis by blast
qed

end
