(* ===== verification/Quark_Plan.thy ===== *)
theory Quark_Plan
  imports Core_Claims "HOL-Library.Product_Lexorder"
begin

text \<open>
  Usage-aware planning of \<^verbatim>\<open>src/overseer/quark_scheduler.py\<close>: the usage policy, the work item with
  the validation of its constructor, and \<open>plan_quark_work\<close>, which divides the spendable capacity of
  each limit among the projects that wait for it, slice by slice. Points and units are rationals.
  The \<^verbatim>\<open>while\<close> loop is a \<^verbatim>\<open>partial_function (option)\<close>: \<open>None\<close> is a loop that does not return.
\<close>

datatype WorkState =
    WorkState_QUEUED | WorkState_RUNNING | WorkState_CHECKPOINTED | WorkState_WAITING_CAPACITY
  | WorkState_COMPLETED | WorkState_BLOCKED | WorkState_RECONCILE_REQUIRED

fun work_state_value :: "WorkState \<Rightarrow> string" where
  "work_state_value WorkState_QUEUED = ''queued''"
| "work_state_value WorkState_RUNNING = ''running''"
| "work_state_value WorkState_CHECKPOINTED = ''checkpointed''"
| "work_state_value WorkState_WAITING_CAPACITY = ''waiting_capacity''"
| "work_state_value WorkState_COMPLETED = ''completed''"
| "work_state_value WorkState_BLOCKED = ''blocked''"
| "work_state_value WorkState_RECONCILE_REQUIRED = ''reconcile_required''"

record QuarkUsagePolicy =
  qp_hard_reserve_points :: rat
  qp_uncertainty_points :: rat
  qp_max_slice_points :: rat
  qp_max_concurrent_work :: int
  qp_stale_after_minutes :: int
  qp_emergency_floor_points :: rat

definition make_usage_policy :: "QuarkUsagePolicy \<Rightarrow> QuarkUsagePolicy result" where
  "make_usage_policy p =
     (if qp_hard_reserve_points p < qp_emergency_floor_points p
        then Inl (ValueError ''hard reserve cannot be below the emergency floor'')
      else if qp_uncertainty_points p < 0 then Inl (ValueError ''uncertainty points cannot be negative'')
      else if qp_max_slice_points p \<le> 0 then Inl (ValueError ''max slice points must be positive'')
      else if qp_max_concurrent_work p < 1 then Inl (ValueError ''max concurrent work must be positive'')
      else Inr p)"

definition default_usage_policy :: QuarkUsagePolicy where
  "default_usage_policy = \<lparr>qp_hard_reserve_points = 15, qp_uncertainty_points = 2, qp_max_slice_points = 5,
     qp_max_concurrent_work = 1, qp_stale_after_minutes = 30, qp_emergency_floor_points = 5\<rparr>"

record AgentWorkItem =
  wk_id :: string
  wk_project_id :: string
  wk_agent_session_id :: "string option"
  wk_provider_id :: string
  wk_limit_id :: string
  wk_intent :: string
  wk_estimated_units :: rat
  wk_usage_unit :: string
  wk_owner_thread :: "string option"
  wk_priority :: int
  wk_state :: WorkState
  wk_reserved_units :: rat
  wk_generation :: int
  wk_checkpoint_ref :: "string option"
  wk_driver_epoch_id :: "string option"
  wk_pause_reason :: "string option"
  wk_resume_at :: "string option"
  wk_created_at :: "string option"
  wk_updated_at :: "string option"
  wk_provider_dispatch_id :: "string option"
  wk_provider_result_id :: "string option"
  wk_provider_reference :: "string option"
  wk_provider_idempotency_key :: "string option"
  wk_provider_dispatch_state :: "string option"
  wk_estimated_quota_points :: "rat option"
  wk_estimated_tokens :: "int option"
  wk_reserved_quota_points :: "rat option"

text \<open>
  The constructor. Its arguments come in a record of the same fields; the two optional estimates and
  reservations are resolved in the source's order.
\<close>

definition make_work_item ::
  "AgentWorkItem \<Rightarrow> rat option \<Rightarrow> rat option \<Rightarrow> AgentWorkItem result" where
  "make_work_item args estimated_units reserved_units =
     (let estimate = (case estimated_units of Some u \<Rightarrow> Some u | None \<Rightarrow> wk_estimated_quota_points args);
          reserved = (case reserved_units of Some u \<Rightarrow> u
             | None \<Rightarrow> (case wk_reserved_quota_points args of Some u \<Rightarrow> u | None \<Rightarrow> 0))
      in if blank (wk_id args) \<or> blank (wk_project_id args)
           then Inl (ValueError ''work id and project id are required'')
         else if blank (wk_provider_id args) \<or> blank (wk_limit_id args)
           then Inl (ValueError ''provider id and limit id are required'')
         else if blank (wk_usage_unit args) then Inl (ValueError ''usage unit is required'')
         else if \<not> (str_true (wk_agent_session_id args) \<or> str_true (wk_owner_thread args))
           then Inl (ValueError ''agent session id or owner thread is required'')
         else case estimate of
           None \<Rightarrow> Inl (ValueError ''estimated units must be positive'')
         | Some est \<Rightarrow>
             if est \<le> 0 then Inl (ValueError ''estimated units must be positive'')
             else if reserved < 0 then Inl (ValueError ''reserved units cannot be negative'')
             else if wk_priority args < 0 \<or> wk_priority args > 100
               then Inl (ValueError ''priority must be between 0 and 100'')
             else
               (let item = args\<lparr>wk_estimated_units := est, wk_reserved_units := reserved\<rparr>
                in Inr (if wk_provider_id args = ''codex'' \<and> wk_usage_unit args = ''quota_points''
                        then item\<lparr>wk_estimated_quota_points := Some est, wk_reserved_quota_points := Some reserved\<rparr>
                        else item)))"

text \<open>
  \<open>with_state\<close> with a change of the reserved units (the quota projection follows the units for Codex
  work). \<^verbatim>\<open>dataclasses.replace\<close> calls the constructor with every field, so its checks run again.
\<close>

definition with_state_reserved :: "AgentWorkItem \<Rightarrow> WorkState \<Rightarrow> rat \<Rightarrow> AgentWorkItem result" where
  "with_state_reserved item state units =
     make_work_item
       (item\<lparr>wk_state := state,
         wk_reserved_quota_points :=
           (if wk_provider_id item = ''codex'' \<and> wk_usage_unit item = ''quota_points'' then Some units else None)\<rparr>)
       (Some (wk_estimated_units item)) (Some units)"

record WorkAllocation =
  wa_work_id :: string
  wa_project_id :: string
  wa_agent_session_id :: "string option"
  wa_provider_id :: string
  wa_limit_id :: string
  wa_usage_unit :: string
  wa_owner_thread :: "string option"
  wa_generation :: int
  wa_allocated_units :: rat

section \<open>The allocation loop\<close>

definition allocation_for :: "AgentWorkItem \<Rightarrow> rat \<Rightarrow> WorkAllocation" where
  "allocation_for item units =
     \<lparr>wa_work_id = wk_id item, wa_project_id = wk_project_id item,
      wa_agent_session_id = wk_agent_session_id item, wa_provider_id = wk_provider_id item,
      wa_limit_id = wk_limit_id item, wa_usage_unit = wk_usage_unit item,
      wa_owner_thread = wk_owner_thread item, wa_generation = wk_generation item + 1,
      wa_allocated_units = units\<rparr>"

definition allocated_so_far :: "(string, rat) pydict \<Rightarrow> string \<Rightarrow> rat" where
  "allocated_so_far d k = (case dict_get d k of None \<Rightarrow> 0 | Some v \<Rightarrow> v)"

partial_function (option) allocate_loop ::
  "rat \<Rightarrow> string list \<Rightarrow> (string, AgentWorkItem list) pydict \<Rightarrow> (string, rat) pydict \<Rightarrow> rat \<Rightarrow>
   WorkAllocation list \<Rightarrow> (WorkAllocation list \<times> rat) result option" where
  "allocate_loop max_slice project_order by_project allocated available allocations =
     (if available > 0 then
        (case project_order of
           [] \<Rightarrow> Some (Inr (allocations, available))
         | project_id # rest \<Rightarrow>
             (case dict_get by_project project_id of
                None \<Rightarrow> Some (Inl (KeyError project_id))
              | Some [] \<Rightarrow> Some (Inl (IndexError ''deque index out of range''))
              | Some (item # queue) \<Rightarrow>
                  (let remaining_estimate = wk_estimated_units item - allocated_so_far allocated (wk_id item);
                       allocation = min (min max_slice remaining_estimate) available;
                       allocations' = (if allocation > 0 then allocations @ [allocation_for item allocation]
                                       else allocations);
                       allocated' = (if allocation > 0
                          then dict_set (wk_id item) (allocated_so_far allocated (wk_id item) + allocation) allocated
                          else allocated);
                       available' = (if allocation > 0 then available - allocation else available);
                       queue' = (if allocated_so_far allocated' (wk_id item) \<ge> wk_estimated_units item
                                 then queue else item # queue);
                       order' = (if queue' \<noteq> [] then rest @ [project_id] else rest)
                   in allocate_loop max_slice order' (dict_set project_id queue' by_project) allocated'
                        available' allocations')))
      else Some (Inr (allocations, available)))"

declare allocate_loop.simps [code]

definition eligible_state :: "WorkState \<Rightarrow> bool" where
  "eligible_state s \<longleftrightarrow> s \<in> {WorkState_QUEUED, WorkState_CHECKPOINTED, WorkState_WAITING_CAPACITY}"

definition group_by_project :: "AgentWorkItem list \<Rightarrow> (string, AgentWorkItem list) pydict" where
  "group_by_project items =
     fold (\<lambda>item d. dict_set (wk_project_id item)
       ((case dict_get d (wk_project_id item) of None \<Rightarrow> [] | Some q \<Rightarrow> q) @ [item]) d) items []"

record limit_acc =
  la_allocations :: "WorkAllocation list"
  la_active :: "(string, rat) pydict"
  la_spendable :: "(string, rat) pydict"
  la_remaining_after :: "(string, rat option) pydict"
  la_unknown :: "string list"
  la_exhausted :: "string list"
  la_unused_capacity :: bool

definition guardrail_floor :: "QuarkUsagePolicy \<Rightarrow> rat" where
  "guardrail_floor policy = qp_hard_reserve_points policy + qp_uncertainty_points policy"

definition active_units :: "AgentWorkItem list \<Rightarrow> rat" where
  "active_units items = sum_list (map wk_reserved_units (filter (\<lambda>i. wk_state i = WorkState_RUNNING) items))"

text \<open>The body of the loop over the limits, for a limit with the capacity \<open>capacity\<close>.\<close>

definition plan_limit ::
  "QuarkUsagePolicy \<Rightarrow> AgentWorkItem list \<Rightarrow> string \<Rightarrow> rat option \<Rightarrow> limit_acc \<Rightarrow> limit_acc result option" where
  "plan_limit policy work limit_id capacity acc =
     (let limit_work = filter (\<lambda>i. wk_limit_id i = limit_id) work;
          active = active_units limit_work;
          acc1 = acc\<lparr>la_active := dict_set limit_id active (la_active acc)\<rparr>
      in case capacity of
           None \<Rightarrow> Some (Inr (acc1\<lparr>la_unknown := la_unknown acc1 @ [limit_id],
               la_spendable := dict_set limit_id 0 (la_spendable acc1),
               la_remaining_after := dict_set limit_id None (la_remaining_after acc1)\<rparr>))
         | Some cap \<Rightarrow>
             (let spendable = max 0 (cap - guardrail_floor policy - active);
                  acc2 = acc1\<lparr>la_spendable := dict_set limit_id spendable (la_spendable acc1),
                    la_remaining_after := dict_set limit_id (Some cap) (la_remaining_after acc1)\<rparr>
              in if spendable \<le> 0 then Some (Inr (acc2\<lparr>la_exhausted := la_exhausted acc2 @ [limit_id]\<rparr>))
                 else
                   (let eligible = filter (\<lambda>i. eligible_state (wk_state i)) limit_work;
                        by_project = group_by_project
                          (sort_key (\<lambda>i. (- wk_priority i, wk_id i)) eligible);
                        project_order = sort (map fst by_project)
                    in case allocate_loop (qp_max_slice_points policy) project_order by_project [] spendable
                           (la_allocations acc2) of
                         None \<Rightarrow> None
                       | Some (Inl e) \<Rightarrow> Some (Inl e)
                       | Some (Inr (allocations, available)) \<Rightarrow>
                           Some (Inr (acc2\<lparr>la_allocations := allocations,
                             la_remaining_after := dict_set limit_id
                               (Some (cap - active - (spendable - available))) (la_remaining_after acc2),
                             la_unused_capacity := la_unused_capacity acc2 \<or> available > 0\<rparr>)))))"

fun plan_limits ::
  "QuarkUsagePolicy \<Rightarrow> AgentWorkItem list \<Rightarrow> (string, rat option) pydict \<Rightarrow> string list \<Rightarrow> limit_acc \<Rightarrow>
   limit_acc result option" where
  "plan_limits policy work capacity_by_limit [] acc = Some (Inr acc)"
| "plan_limits policy work capacity_by_limit (limit_id # limits) acc =
     (case dict_get capacity_by_limit limit_id of
        None \<Rightarrow> Some (Inl (KeyError limit_id))
      | Some capacity \<Rightarrow>
          (case plan_limit policy work limit_id capacity acc of
             None \<Rightarrow> None
           | Some (Inl e) \<Rightarrow> Some (Inl e)
           | Some (Inr acc') \<Rightarrow> plan_limits policy work capacity_by_limit limits acc'))"

datatype capacity_arg = Scalar_points rat | Points_by_limit "(string, rat option) pydict"

datatype plan_value = Single_value "rat option" | Value_by_limit "(string, rat option) pydict"

record QuarkWorkPlan =
  wp_allocations :: "WorkAllocation list"
  wp_remaining_before_plan :: plan_value
  wp_active_reservations :: plan_value
  wp_guardrail_floor :: plan_value
  wp_spendable_capacity :: plan_value
  wp_remaining_after_plan :: plan_value
  wp_reason :: string

definition set_default :: "'k \<Rightarrow> 'v \<Rightarrow> ('k, 'v) pydict \<Rightarrow> ('k, 'v) pydict" where
  "set_default k v d = (case dict_get d k of None \<Rightarrow> dict_set k v d | Some _ \<Rightarrow> d)"

definition capacity_map ::
  "capacity_arg \<Rightarrow> AgentWorkItem list \<Rightarrow> (string, rat option) pydict result" where
  "capacity_map arg work =
     (case arg of
        Scalar_points scalar \<Rightarrow>
          if scalar < 0 \<or> scalar > 100 then Inl (ValueError ''remaining points must be between 0 and 100'')
          else (case remdups (map wk_limit_id work) of
                  [] \<Rightarrow> Inr [(''codex'', Some scalar)]
                | [l] \<Rightarrow> Inr [(l, Some scalar)]
                | _ \<Rightarrow> Inl (ValueError ''mixed-provider work requires capacity by limit id''))
      | Points_by_limit m \<Rightarrow>
          if list_ex (\<lambda>v. case v of None \<Rightarrow> False | Some x \<Rightarrow> x < 0) (dict_values m)
          then Inl (ValueError ''provider capacity must be non-negative or unknown'')
          else Inr (fold (\<lambda>i. set_default (wk_limit_id i) None) work m))"

definition plan_reason :: "limit_acc \<Rightarrow> string" where
  "plan_reason acc =
     (if la_unknown acc \<noteq> [] then ''unknown capacity blocks provider work for '' @ py_join '', '' (la_unknown acc)
      else if la_allocations acc = [] \<and> la_exhausted acc \<noteq> [] then
        ''capacity is at the reserve and uncertainty floor''
      else if la_unused_capacity acc then
        ''all queued estimated work is allocated and unused capacity remains''
      else ''allocated all spendable capacity while preserving reserve'')"

definition map_values :: "('v \<Rightarrow> 'w) \<Rightarrow> ('k, 'v) pydict \<Rightarrow> ('k, 'w) pydict" where
  "map_values f d = map (\<lambda>(k, v). (k, f v)) d"

definition plan_quark_work ::
  "QuarkUsagePolicy \<Rightarrow> capacity_arg \<Rightarrow> AgentWorkItem list \<Rightarrow> QuarkWorkPlan result option" where
  "plan_quark_work policy arg work =
     (case capacity_map arg work of
        Inl e \<Rightarrow> Some (Inl e)
      | Inr caps \<Rightarrow>
          (case plan_limits policy work caps (sort (map fst caps))
                  \<lparr>la_allocations = [], la_active = [], la_spendable = [], la_remaining_after = [],
                   la_unknown = [], la_exhausted = [], la_unused_capacity = False\<rparr> of
             None \<Rightarrow> None
           | Some (Inl e) \<Rightarrow> Some (Inl e)
           | Some (Inr acc) \<Rightarrow>
               Some (Inr
                 (case arg of
                    Scalar_points _ \<Rightarrow>
                      (let limit_id = fst (hd caps);
                           pick = (\<lambda>d. Single_value (case dict_get d limit_id of None \<Rightarrow> None | Some v \<Rightarrow> v))
                       in \<lparr>wp_allocations = la_allocations acc, wp_remaining_before_plan = pick caps,
                           wp_active_reservations = pick (map_values Some (la_active acc)),
                           wp_guardrail_floor = Single_value (Some (guardrail_floor policy)),
                           wp_spendable_capacity = pick (map_values Some (la_spendable acc)),
                           wp_remaining_after_plan = pick (la_remaining_after acc),
                           wp_reason = plan_reason acc\<rparr>)
                  | Points_by_limit _ \<Rightarrow>
                      \<lparr>wp_allocations = la_allocations acc, wp_remaining_before_plan = Value_by_limit caps,
                       wp_active_reservations = Value_by_limit (map_values Some (la_active acc)),
                       wp_guardrail_floor = Value_by_limit (map_values (\<lambda>_. Some (guardrail_floor policy)) caps),
                       wp_spendable_capacity = Value_by_limit (map_values Some (la_spendable acc)),
                       wp_remaining_after_plan = Value_by_limit (la_remaining_after acc),
                       wp_reason = plan_reason acc\<rparr>))))"

section \<open>The allocation loop returns and shares fairly\<close>

definition units_of :: "string \<Rightarrow> WorkAllocation list \<Rightarrow> rat" where
  "units_of w as = sum_list (map wa_allocated_units (filter (\<lambda>a. wa_work_id a = w) as))"

definition total_units :: "WorkAllocation list \<Rightarrow> rat" where
  "total_units as = sum_list (map wa_allocated_units as)"

lemma units_of_simps [simp]:
  "units_of w [] = 0"
  "units_of w (a # as) = (if wa_work_id a = w then wa_allocated_units a else 0) + units_of w as"
  "units_of w (as @ bs) = units_of w as + units_of w bs"
  by (simp_all add: units_of_def)

lemma total_units_simps [simp]:
  "total_units [] = 0"
  "total_units (a # as) = wa_allocated_units a + total_units as"
  "total_units (as @ bs) = total_units as + total_units bs"
  by (simp_all add: total_units_def)

lemma allocation_for_sel [simp]:
  "wa_work_id (allocation_for i u) = wk_id i"
  "wa_allocated_units (allocation_for i u) = u"
  "wa_limit_id (allocation_for i u) = wk_limit_id i"
  by (simp_all add: allocation_for_def)

lemma allocated_so_far_simps [simp]:
  "allocated_so_far [] k = 0"
  "allocated_so_far (dict_set k v d) k' = (if k' = k then v else allocated_so_far d k')"
  by (simp_all add: allocated_so_far_def)

text \<open>
  The loop invariant over the eligible items: every project in the order has a waiting queue of
  items, nobody holds more than its estimate, and whoever is no longer queued is fully served.
\<close>

definition queued_items :: "string list \<Rightarrow> (string, AgentWorkItem list) pydict \<Rightarrow> AgentWorkItem set" where
  "queued_items order queues = (\<Union>p \<in> set order. case dict_get queues p of None \<Rightarrow> {} | Some q \<Rightarrow> set q)"

definition loop_inv ::
  "AgentWorkItem set \<Rightarrow> string list \<Rightarrow> (string, AgentWorkItem list) pydict \<Rightarrow> (string, rat) pydict \<Rightarrow> bool" where
  "loop_inv items order queues allocated \<longleftrightarrow>
     distinct order \<and> inj_on wk_id items \<and>
     (\<forall>p \<in> set order. \<exists>i q. dict_get queues p = Some (i # q)) \<and>
     queued_items order queues \<subseteq> items \<and>
     (\<forall>i \<in> items. allocated_so_far allocated (wk_id i) \<le> wk_estimated_units i) \<and>
     (\<forall>i \<in> items. i \<in> queued_items order queues \<or> allocated_so_far allocated (wk_id i) = wk_estimated_units i)"

definition loop_measure :: "rat \<Rightarrow> string list \<Rightarrow> (string, AgentWorkItem list) pydict \<Rightarrow> rat \<Rightarrow> nat" where
  "loop_measure slice order queues available =
     (\<Sum>p\<leftarrow>order. case dict_get queues p of None \<Rightarrow> 0 | Some q \<Rightarrow> length q) + nat \<lceil>available / slice\<rceil>"

definition shares :: "rat \<Rightarrow> AgentWorkItem set \<Rightarrow> (string, rat) pydict \<Rightarrow> rat \<Rightarrow> WorkAllocation list \<Rightarrow> rat \<Rightarrow> bool" where
  "shares slice items allocated available new left \<longleftrightarrow>
     0 \<le> left \<and> total_units new = available - left \<and>
     (\<forall>a \<in> set new. 0 < wa_allocated_units a \<and> wa_allocated_units a \<le> slice \<and>
        (\<exists>i \<in> items. a = allocation_for i (wa_allocated_units a))) \<and>
     (\<forall>i \<in> items. allocated_so_far allocated (wk_id i) + units_of (wk_id i) new \<le> wk_estimated_units i) \<and>
     (0 < left \<longrightarrow>
        (\<forall>i \<in> items. allocated_so_far allocated (wk_id i) + units_of (wk_id i) new = wk_estimated_units i))"

lemma loop_invD:
  assumes "loop_inv items (p # rest) queues allocated"
  obtains i q where "dict_get queues p = Some (i # q)" "i \<in> items" "p \<notin> set rest"
    "allocated_so_far allocated (wk_id i) \<le> wk_estimated_units i"
proof -
  from assms obtain i q where q: "dict_get queues p = Some (i # q)"
    unfolding loop_inv_def by (metis list.set_intros(1))
  then have "i \<in> queued_items (p # rest) queues"
    by (simp add: queued_items_def)
  with assms have "i \<in> items" unfolding loop_inv_def by blast
  with q assms that show ?thesis unfolding loop_inv_def by auto
qed

lemma queued_items_Cons [simp]:
  "queued_items (p # order) queues =
     (case dict_get queues p of None \<Rightarrow> {} | Some q \<Rightarrow> set q) \<union> queued_items order queues"
  by (simp add: queued_items_def)

lemma queued_items_snoc [simp]:
  "queued_items (order @ [p]) queues =
     queued_items order queues \<union> (case dict_get queues p of None \<Rightarrow> {} | Some q \<Rightarrow> set q)"
  by (auto simp: queued_items_def)

lemma queued_items_set_other [simp]:
  "p \<notin> set order \<Longrightarrow> queued_items order (dict_set p q queues) = queued_items order queues"
  unfolding queued_items_def by (intro SUP_cong) auto

text \<open>One turn of the loop: the head item takes its share and leaves the queue when it is served.\<close>

lemma loop_inv_pop:
  assumes inv: "loop_inv items (p # rest) queues allocated"
    and q: "dict_get queues p = Some (i # q)"
    and served: "allocated_so_far allocated' (wk_id i) = wk_estimated_units i"
    and others: "\<And>w. w \<noteq> wk_id i \<Longrightarrow> allocated_so_far allocated' w = allocated_so_far allocated w"
  shows "loop_inv items (if q \<noteq> [] then rest @ [p] else rest) (dict_set p q queues) allocated'"
proof -
  have p: "p \<notin> set rest" and inj: "inj_on wk_id items" using inv unfolding loop_inv_def by auto
  have i: "i \<in> items" using inv q unfolding loop_inv_def by auto
  have other: "allocated_so_far allocated' (wk_id j) =
      (if j = i then wk_estimated_units i else allocated_so_far allocated (wk_id j))" if "j \<in> items" for j
    using that i inj others served by (metis inj_onD)
  have qs: "queued_items (if q \<noteq> [] then rest @ [p] else rest) (dict_set p q queues) =
      set q \<union> queued_items rest queues"
    using p by auto
  show ?thesis
    using inv p q i other unfolding loop_inv_def qs by (auto simp: neq_Nil_conv)
qed

lemma loop_inv_stay:
  assumes inv: "loop_inv items (p # rest) queues allocated"
    and q: "dict_get queues p = Some (i # q)"
    and bound: "allocated_so_far allocated' (wk_id i) \<le> wk_estimated_units i"
    and others: "\<And>w. w \<noteq> wk_id i \<Longrightarrow> allocated_so_far allocated' w = allocated_so_far allocated w"
  shows "loop_inv items (rest @ [p]) (dict_set p (i # q) queues) allocated'"
proof -
  have p: "p \<notin> set rest" and inj: "inj_on wk_id items" using inv unfolding loop_inv_def by auto
  have i: "i \<in> items" using inv q unfolding loop_inv_def by auto
  have other: "allocated_so_far allocated' (wk_id j) = allocated_so_far allocated (wk_id j)"
    if "j \<in> items" "j \<noteq> i" for j
    using that i inj others by (metis inj_onD)
  have qs: "queued_items (rest @ [p]) (dict_set p (i # q) queues) = set (i # q) \<union> queued_items rest queues"
    using p by auto
  show ?thesis
    using inv p q i other bound unfolding loop_inv_def qs by (auto, metis)
qed

lemma measure_pop:
  assumes "p \<notin> set rest" "dict_get queues p = Some (i # q)" "available' \<le> available" "0 < slice"
  shows "loop_measure slice (if q \<noteq> [] then rest @ [p] else rest) (dict_set p q queues) available'
    < loop_measure slice (p # rest) queues available"
proof -
  have rest: "(\<Sum>p'\<leftarrow>rest. case dict_get (dict_set p q queues) p' of None \<Rightarrow> 0 | Some q \<Rightarrow> length q) =
      (\<Sum>p'\<leftarrow>rest. case dict_get queues p' of None \<Rightarrow> 0 | Some q \<Rightarrow> length q)"
    using assms(1) by (intro arg_cong [where f = sum_list] map_cong) auto
  have "nat \<lceil>available' / slice\<rceil> \<le> nat \<lceil>available / slice\<rceil>"
    using assms(3,4) by (intro nat_mono ceiling_mono divide_right_mono) auto
  with rest assms(2) show ?thesis by (auto simp: loop_measure_def)
qed

lemma ceiling_slices_less:
  fixes available slice :: rat
  assumes "0 < slice" "0 < available" "a = slice \<or> a = available"
  shows "nat \<lceil>(available - a) / slice\<rceil> < nat \<lceil>available / slice\<rceil>"
proof -
  have pos: "0 < \<lceil>available / slice\<rceil>" using assms by simp
  show ?thesis
  proof (cases "a = slice")
    case True
    then have "(available - a) / slice = available / slice - 1" using assms(1) by (simp add: diff_divide_distrib)
    then show ?thesis using pos by simp
  next
    case False
    with assms(3) pos show ?thesis by simp
  qed
qed

lemma measure_stay:
  assumes "p \<notin> set rest" "dict_get queues p = Some (i # q)" "0 < slice" "0 < available"
    "a = slice \<or> a = available"
  shows "loop_measure slice (rest @ [p]) (dict_set p (i # q) queues) (available - a)
    < loop_measure slice (p # rest) queues available"
proof -
  have "(\<Sum>p'\<leftarrow>rest. case dict_get (dict_set p (i # q) queues) p' of None \<Rightarrow> 0 | Some q \<Rightarrow> length q) =
      (\<Sum>p'\<leftarrow>rest. case dict_get queues p' of None \<Rightarrow> 0 | Some q \<Rightarrow> length q)"
    using assms(1) by (intro arg_cong [where f = sum_list] map_cong) auto
  with ceiling_slices_less [OF assms(3-5)] assms(2) show ?thesis by (auto simp: loop_measure_def)
qed

lemma shares_none:
  assumes "loop_inv items order queues allocated" "0 \<le> available" "0 < available \<longrightarrow> order = []"
  shows "shares slice items allocated available [] available"
  using assms by (auto simp: shares_def loop_inv_def queued_items_def)

lemma shares_Cons:
  assumes sh: "shares slice items allocated' (available - a) new left"
    and i: "i \<in> items" and inj: "inj_on wk_id items" and a: "0 < a" "a \<le> slice"
    and al: "\<And>w. allocated_so_far allocated' w = allocated_so_far allocated w + (if w = wk_id i then a else 0)"
  shows "shares slice items allocated available (allocation_for i a # new) left"
  using sh i a unfolding shares_def al by (auto simp: algebra_simps)

lemma allocate_loop_step:
  assumes "0 < available" "dict_get queues p = Some (i # q)"
    and a: "a = min (min slice (wk_estimated_units i - allocated_so_far allocated (wk_id i))) available"
    and al: "allocated' = (if 0 < a then dict_set (wk_id i) (allocated_so_far allocated (wk_id i) + a) allocated
      else allocated)"
    and q': "q' = (if allocated_so_far allocated' (wk_id i) \<ge> wk_estimated_units i then q else i # q)"
  shows "allocate_loop slice (p # rest) queues allocated available out =
    allocate_loop slice (if q' \<noteq> [] then rest @ [p] else rest) (dict_set p q' queues) allocated'
      (if 0 < a then available - a else available) (if 0 < a then out @ [allocation_for i a] else out)"
  unfolding allocate_loop.simps [of slice "p # rest"] Let_def a [symmetric] al [symmetric] q' [symmetric]
  using assms(1,2) by (simp only: if_True list.case option.case a [symmetric] al [symmetric] q' [symmetric])

lemma allocate_loop_shares:
  assumes "0 < slice" "0 \<le> available" "loop_inv items order queues allocated"
  shows "\<exists>new left. allocate_loop slice order queues allocated available out = Some (Inr (out @ new, left)) \<and>
    shares slice items allocated available new left"
  using assms(2,3)
proof (induction "loop_measure slice order queues available" arbitrary: order queues allocated available out
    rule: less_induct)
  case less
  note inv = less.prems(2)
  show ?case
  proof (cases "available > 0 \<and> order \<noteq> []")
    case False
    then have "allocate_loop slice order queues allocated available out = Some (Inr (out @ [], available))"
      by (subst allocate_loop.simps) (auto split: list.split)
    with shares_none [OF inv less.prems(1)] False show ?thesis by blast
  next
    case True
    then obtain p rest where order: "order = p # rest" and av: "0 < available" by (cases order) auto
    obtain i q where q: "dict_get queues p = Some (i # q)" and i: "i \<in> items" and p: "p \<notin> set rest"
      and le: "allocated_so_far allocated (wk_id i) \<le> wk_estimated_units i"
      using inv loop_invD unfolding order by metis
    have inj: "inj_on wk_id items" using inv by (simp add: loop_inv_def)
    define a where "a = min (min slice (wk_estimated_units i - allocated_so_far allocated (wk_id i))) available"
    show ?thesis
    proof (cases "0 < a")
      case False
      with av \<open>0 < slice\<close> le have served: "allocated_so_far allocated (wk_id i) = wk_estimated_units i"
        by (auto simp: a_def min_def split: if_splits)
      let ?order = "if q \<noteq> [] then rest @ [p] else rest"
      have "\<exists>new left. allocate_loop slice ?order (dict_set p q queues) allocated available out =
          Some (Inr (out @ new, left)) \<and> shares slice items allocated available new left"
        by (rule less.hyps)
          (use measure_pop [OF p q _ \<open>0 < slice\<close>] loop_inv_pop [OF inv [unfolded order] q served] av order in auto)
      with allocate_loop_step [OF av q a_def refl refl, of rest out] False served order
      show ?thesis by simp
    next
      case True
      define allocated' where
        "allocated' = dict_set (wk_id i) (allocated_so_far allocated (wk_id i) + a) allocated"
      define q' where "q' = (if allocated_so_far allocated' (wk_id i) \<ge> wk_estimated_units i then q else i # q)"
      let ?order = "if q' \<noteq> [] then rest @ [p] else rest"
      have bounds: "a \<le> slice" "a \<le> available" "a \<le> wk_estimated_units i - allocated_so_far allocated (wk_id i)"
        by (auto simp: a_def)
      have al: "allocated_so_far allocated' w = allocated_so_far allocated w + (if w = wk_id i then a else 0)" for w
        by (simp add: allocated'_def)
      have turn: "loop_measure slice ?order (dict_set p q' queues) (available - a) <
          loop_measure slice order queues available \<and> loop_inv items ?order (dict_set p q' queues) allocated'"
      proof (cases "allocated_so_far allocated (wk_id i) + a \<ge> wk_estimated_units i")
        case True
        then have "q' = q" "allocated_so_far allocated' (wk_id i) = wk_estimated_units i"
          using bounds by (auto simp: q'_def al)
        then show ?thesis
          using measure_pop [OF p q _ \<open>0 < slice\<close>, of "available - a"] \<open>0 < a\<close> order al
            loop_inv_pop [OF inv [unfolded order] q, of allocated'] by auto
      next
        case stay: False
        then have "q' = i # q" "a = slice \<or> a = available"
          by (auto simp: q'_def al) (auto simp: a_def min_def split: if_splits)
        then show ?thesis
          using measure_stay [OF p q \<open>0 < slice\<close> av] stay order al bounds
            loop_inv_stay [OF inv [unfolded order] q, of allocated'] by auto
      qed
      then obtain new left where
        "allocate_loop slice ?order (dict_set p q' queues) allocated' (available - a) (out @ [allocation_for i a]) =
           Some (Inr ((out @ [allocation_for i a]) @ new, left))"
        and sh: "shares slice items allocated' (available - a) new left"
        using less.hyps [of ?order "dict_set p q' queues" "available - a" allocated' "out @ [allocation_for i a]"] bounds
        by auto
      then have "allocate_loop slice order queues allocated available out =
          Some (Inr (out @ (allocation_for i a # new), left))"
        using allocate_loop_step [OF av q a_def _ q'_def, of rest out] True allocated'_def order by simp
      with shares_Cons [OF sh i inj True bounds(1) al] show ?thesis by blast
    qed
  qed
qed

section \<open>The plan of one limit and of all limits\<close>

text \<open>
  Work lists as the store returns them: the ids are the primary key of the table and every item is
  one the constructor accepts.
\<close>

definition work_ok :: "AgentWorkItem list \<Rightarrow> bool" where
  "work_ok work \<longleftrightarrow> distinct (map wk_id work) \<and>
     list_all (\<lambda>i. make_work_item i (Some (wk_estimated_units i)) (Some (wk_reserved_units i)) = Inr i) work"

definition spendable_points :: "QuarkUsagePolicy \<Rightarrow> AgentWorkItem list \<Rightarrow> string \<Rightarrow> rat \<Rightarrow> rat" where
  "spendable_points policy work l cap =
     max 0 (cap - guardrail_floor policy - active_units (filter (\<lambda>i. wk_limit_id i = l) work))"

definition waiting_on :: "AgentWorkItem list \<Rightarrow> string \<Rightarrow> AgentWorkItem set" where
  "waiting_on work l = {i \<in> set work. wk_limit_id i = l \<and> eligible_state (wk_state i)}"

text \<open>
  The contract of the allocations \<open>new\<close> made on the limit \<open>l\<close>: unknown capacity gives nothing;
  otherwise positive slices of waiting items, no larger than the slice cap, at most the spendable
  capacity in total and at most its estimate per item, with the whole estimate served when
  capacity is left over.
\<close>

definition limit_share ::
  "QuarkUsagePolicy \<Rightarrow> AgentWorkItem list \<Rightarrow> string \<Rightarrow> rat option \<Rightarrow> WorkAllocation list \<Rightarrow> bool" where
  "limit_share policy work l capacity new \<longleftrightarrow>
     (case capacity of
        None \<Rightarrow> new = []
      | Some cap \<Rightarrow>
          total_units new \<le> spendable_points policy work l cap \<and>
          (\<forall>a \<in> set new. 0 < wa_allocated_units a \<and> wa_allocated_units a \<le> qp_max_slice_points policy \<and>
             (\<exists>i \<in> waiting_on work l. a = allocation_for i (wa_allocated_units a))) \<and>
          (\<forall>i \<in> waiting_on work l. units_of (wk_id i) new \<le> wk_estimated_units i) \<and>
          (total_units new < spendable_points policy work l cap \<longrightarrow>
             (\<forall>i \<in> waiting_on work l. units_of (wk_id i) new = wk_estimated_units i)))"

lemma make_work_item_checks:
  "make_work_item args e r = Inr i \<Longrightarrow> 0 < wk_estimated_units i \<and> 0 \<le> wk_reserved_units i"
  by (auto simp: make_work_item_def Let_def split: if_splits option.splits)

lemma work_okD:
  assumes "work_ok work" "i \<in> set work"
  shows "0 < wk_estimated_units i" "0 \<le> wk_reserved_units i"
  using assms make_work_item_checks unfolding work_ok_def list_all_iff by blast+

lemma group_by_project_get:
  "dict_get (group_by_project xs) p =
     (if \<exists>i \<in> set xs. wk_project_id i = p then Some (filter (\<lambda>i. wk_project_id i = p) xs) else None)"
  by (induction xs rule: rev_induct) (auto simp: group_by_project_def)

lemma group_by_project_ok: "dict_ok (group_by_project xs)"
  by (induction xs rule: rev_induct) (auto simp: group_by_project_def)

lemma dict_ok_keys: "dict_ok d \<Longrightarrow> k \<in> fst ` set d \<longleftrightarrow> dict_get d k \<noteq> None"
  by (simp add: dict_get_def map_of_eq_None_iff)

lemma group_by_project_keys: "fst ` set (group_by_project xs) = wk_project_id ` set xs"
proof (rule set_eqI)
  fix p
  show "p \<in> fst ` set (group_by_project xs) \<longleftrightarrow> p \<in> wk_project_id ` set xs"
    unfolding dict_ok_keys [OF group_by_project_ok] group_by_project_get by auto
qed

lemma loop_inv_start:
  assumes "inj_on wk_id (set xs)" "\<And>i. i \<in> set xs \<Longrightarrow> 0 < wk_estimated_units i"
  shows "loop_inv (set xs) (sort (map fst (group_by_project xs))) (group_by_project xs) []"
proof -
  have q: "queued_items (sort (map fst (group_by_project xs))) (group_by_project xs) = set xs"
    unfolding queued_items_def group_by_project_get set_sort set_map group_by_project_keys
    by (auto split: if_splits) (metis (mono_tags))
  have "\<exists>i q. dict_get (group_by_project xs) p = Some (i # q)" if "p \<in> wk_project_id ` set xs" for p
    using that by (auto simp: group_by_project_get image_iff neq_Nil_conv [symmetric] filter_empty_conv)
  then show ?thesis
    using assms group_by_project_ok [of xs]
    unfolding loop_inv_def q dict_ok_def by (fastforce simp: group_by_project_keys less_imp_le)
qed

lemma plan_limit_shares:
  assumes slice: "0 < qp_max_slice_points policy" and work: "work_ok work"
  shows "\<exists>acc' new. plan_limit policy work l capacity acc = Some (Inr acc') \<and>
    la_allocations acc' = la_allocations acc @ new \<and> limit_share policy work l capacity new"
proof (cases "\<exists>cap. capacity = Some cap \<and> 0 < spendable_points policy work l cap")
  case False
  have "limit_share policy work l capacity []"
    using False work_okD(1) [OF work]
    by (auto simp: limit_share_def spendable_points_def waiting_on_def less_imp_le split: option.splits)
  with False show ?thesis
    by (auto simp: plan_limit_def spendable_points_def Let_def split: option.splits)
next
  case True
  then obtain cap where cap: "capacity = Some cap" and pos: "0 < spendable_points policy work l cap" by blast
  define xs where "xs = sort_key (\<lambda>i. (- wk_priority i, wk_id i))
    (filter (\<lambda>i. eligible_state (wk_state i)) (filter (\<lambda>i. wk_limit_id i = l) work))"
  have xs: "set xs = waiting_on work l" by (auto simp: xs_def waiting_on_def)
  have "inj_on wk_id (set xs)"
    using work unfolding work_ok_def distinct_map xs waiting_on_def by (blast intro: inj_on_subset)
  moreover have "0 < wk_estimated_units i" if "i \<in> set xs" for i
    using work_okD(1) [OF work] that unfolding xs waiting_on_def by blast
  ultimately obtain new left where
    loop: "allocate_loop (qp_max_slice_points policy) (sort (map fst (group_by_project xs))) (group_by_project xs) []
      (spendable_points policy work l cap) (la_allocations acc) = Some (Inr (la_allocations acc @ new, left))"
    and sh: "shares (qp_max_slice_points policy) (set xs) [] (spendable_points policy work l cap) new left"
    using allocate_loop_shares [OF slice less_imp_le [OF pos] loop_inv_start] by blast
  have "limit_share policy work l capacity new"
    using sh unfolding shares_def limit_share_def xs cap by auto
  moreover have "\<exists>acc'. plan_limit policy work l capacity acc = Some (Inr acc') \<and>
      la_allocations acc' = la_allocations acc @ new"
    unfolding plan_limit_def cap Let_def option.case spendable_points_def [symmetric] xs_def [symmetric]
      if_not_P [OF pos [unfolded not_le [symmetric]]]
    using loop by simp
  ultimately show ?thesis by blast
qed

lemma limit_share_limits:
  assumes "limit_share policy work l capacity new" "a \<in> set new"
  shows "wa_limit_id a = l"
proof (cases capacity)
  case None
  with assms show ?thesis by (simp add: limit_share_def)
next
  case (Some cap)
  from assms(1) [unfolded limit_share_def Some option.case] assms(2)
  obtain i where "i \<in> waiting_on work l" "a = allocation_for i (wa_allocated_units a)" by blast
  then have "wa_limit_id a = wk_limit_id i" "wk_limit_id i = l"
    by (metis allocation_for_sel(3), simp add: waiting_on_def)
  then show ?thesis by simp
qed

lemma plan_limits_shares:
  assumes slice: "0 < qp_max_slice_points policy" and work: "work_ok work"
    and "distinct limits" "\<And>l. l \<in> set limits \<Longrightarrow> dict_get caps l \<noteq> None"
  shows "\<exists>acc' new. plan_limits policy work caps limits acc = Some (Inr acc') \<and>
    la_allocations acc' = la_allocations acc @ new \<and>
    (\<forall>a \<in> set new. wa_limit_id a \<in> set limits) \<and>
    (\<forall>l \<in> set limits. limit_share policy work l (the (dict_get caps l)) (filter (\<lambda>a. wa_limit_id a = l) new))"
  using assms(3,4)
proof (induction limits arbitrary: acc)
  case Nil
  then show ?case by simp
next
  case (Cons l limits)
  then obtain capacity where c: "dict_get caps l = Some capacity" by fastforce
  obtain acc1 new1 where 1: "plan_limit policy work l capacity acc = Some (Inr acc1)"
    "la_allocations acc1 = la_allocations acc @ new1" and sh: "limit_share policy work l capacity new1"
    using plan_limit_shares [OF slice work] by blast
  obtain acc2 new2 where 2: "plan_limits policy work caps limits acc1 = Some (Inr acc2)"
    "la_allocations acc2 = la_allocations acc1 @ new2" and on: "\<forall>a \<in> set new2. wa_limit_id a \<in> set limits"
    and sh2: "\<forall>l \<in> set limits. limit_share policy work l (the (dict_get caps l)) (filter (\<lambda>a. wa_limit_id a = l) new2)"
    using Cons.IH [of acc1] Cons.prems by auto
  have lim1: "\<forall>a \<in> set new1. wa_limit_id a = l" using limit_share_limits [OF sh] by blast
  have here: "filter (\<lambda>a. wa_limit_id a = l) (new1 @ new2) = new1"
    using lim1 on Cons.prems(1) by (auto simp: filter_id_conv filter_empty_conv)
  have there: "filter (\<lambda>a. wa_limit_id a = l') (new1 @ new2) = filter (\<lambda>a. wa_limit_id a = l') new2"
    if "l' \<in> set limits" for l'
    using lim1 Cons.prems(1) that by (auto simp: filter_empty_conv)
  have "\<forall>l' \<in> set (l # limits).
      limit_share policy work l' (the (dict_get caps l')) (filter (\<lambda>a. wa_limit_id a = l') (new1 @ new2))"
    using sh sh2 c here there by simp
  with 1 2 c lim1 on show ?case by auto
qed

section \<open>Properties\<close>

definition capacity_ok :: "capacity_arg \<Rightarrow> bool" where
  "capacity_ok arg = (case arg of Scalar_points _ \<Rightarrow> True | Points_by_limit m \<Rightarrow> dict_ok m)"

lemma dict_ok_set_default: "dict_ok d \<Longrightarrow> dict_ok (set_default k v d)"
  by (simp add: set_default_def split: option.split)

lemma capacity_map_ok: "capacity_ok arg \<Longrightarrow> capacity_map arg work = Inr caps \<Longrightarrow> dict_ok caps"
proof -
  assume ok: "capacity_ok arg" and m: "capacity_map arg work = Inr caps"
  have "dict_ok (fold (\<lambda>i. set_default (wk_limit_id i) v) is d)" if "dict_ok d" for "is" and v :: "rat option" and d
    using that by (induction "is" arbitrary: d) (simp_all add: dict_ok_set_default)
  with ok m show ?thesis
    by (auto simp: capacity_ok_def capacity_map_def dict_ok_def split: capacity_arg.splits if_splits list.splits)
qed

lemma make_usage_policy_checks:
  "make_usage_policy policy = Inr p \<Longrightarrow> p = policy \<and> 0 < qp_max_slice_points policy \<and>
     0 \<le> qp_uncertainty_points policy \<and> qp_emergency_floor_points policy \<le> qp_hard_reserve_points policy"
  by (auto simp: make_usage_policy_def split: if_splits)

lemma plan_quark_work_shares:
  assumes "make_usage_policy policy = Inr policy" "work_ok work" "capacity_ok arg" "capacity_map arg work = Inr caps"
  shows "\<exists>plan. plan_quark_work policy arg work = Some (Inr plan) \<and>
    (\<forall>a \<in> set (wp_allocations plan). wa_limit_id a \<in> fst ` set caps) \<and>
    (\<forall>l \<in> fst ` set caps.
       limit_share policy work l (the (dict_get caps l)) (filter (\<lambda>a. wa_limit_id a = l) (wp_allocations plan)))"
proof -
  let ?acc = "\<lparr>la_allocations = [], la_active = [], la_spendable = [], la_remaining_after = [],
                   la_unknown = [], la_exhausted = [], la_unused_capacity = False\<rparr>"
  have ok: "dict_ok caps" using capacity_map_ok assms(3,4) by blast
  have "distinct (sort (map fst caps))" using ok by (simp add: dict_ok_def)
  moreover have "dict_get caps l \<noteq> None" if "l \<in> set (sort (map fst caps))" for l
    using that dict_ok_keys [OF ok] by simp
  ultimately obtain acc new where run: "plan_limits policy work caps (sort (map fst caps)) ?acc = Some (Inr acc)"
    and new: "la_allocations acc = [] @ new" "\<forall>a \<in> set new. wa_limit_id a \<in> set (sort (map fst caps))"
    "\<forall>l \<in> set (sort (map fst caps)).
       limit_share policy work l (the (dict_get caps l)) (filter (\<lambda>a. wa_limit_id a = l) new)"
    using plan_limits_shares [of policy work "sort (map fst caps)" caps ?acc]
      make_usage_policy_checks [OF assms(1)] assms(2) by auto
  have "\<exists>plan. plan_quark_work policy arg work = Some (Inr plan) \<and> wp_allocations plan = la_allocations acc"
    unfolding plan_quark_work_def assms(4) sum.case run option.case by (cases arg) (simp_all add: Let_def)
  with new show ?thesis by auto
qed

text \<open>Planning terminates: for a usage policy that passes its checks and a work list as the store
  returns it, \<^verbatim>\<open>plan_quark_work\<close> returns, and it fails only when the capacity argument is rejected
  (a scalar outside 0 to 100, a scalar for several limits, a negative capacity).\<close>

theorem quark_planning_returns:
  assumes "make_usage_policy policy = Inr policy" "work_ok work" "capacity_ok arg"
  shows "(\<exists>plan. plan_quark_work policy arg work = Some (Inr plan)) \<or>
    (\<exists>msg. capacity_map arg work = Inl (ValueError msg) \<and>
       plan_quark_work policy arg work = Some (Inl (ValueError msg)))"
proof (cases "capacity_map arg work")
  case (Inl e)
  then have "\<exists>msg. e = ValueError msg"
    by (auto simp: capacity_map_def split: capacity_arg.splits if_splits list.splits)
  with Inl show ?thesis by (auto simp: plan_quark_work_def)
next
  case (Inr caps)
  with plan_quark_work_shares [OF assms this] show ?thesis by blast
qed

definition sample_work :: "AgentWorkItem list" where
  "sample_work = map (\<lambda>(w, p, n, u).
     \<lparr>wk_id = w, wk_project_id = p, wk_agent_session_id = None, wk_provider_id = ''codex'',
      wk_limit_id = ''codex'', wk_intent = [], wk_estimated_units = u, wk_usage_unit = ''quota_points'',
      wk_owner_thread = Some ''thread'', wk_priority = n, wk_state = WorkState_QUEUED, wk_reserved_units = 0,
      wk_generation = 0, wk_checkpoint_ref = None, wk_driver_epoch_id = None, wk_pause_reason = None,
      wk_resume_at = None, wk_created_at = None, wk_updated_at = None, wk_provider_dispatch_id = None,
      wk_provider_result_id = None, wk_provider_reference = None, wk_provider_idempotency_key = None,
      wk_provider_dispatch_state = None, wk_estimated_quota_points = Some u, wk_estimated_tokens = None,
      wk_reserved_quota_points = Some 0\<rparr>)
     [(''w1'', ''alpha'', 50, 8), (''w2'', ''beta'', 50, 6), (''w3'', ''alpha'', 90, 4)]"

lemma sample_work_ok: "work_ok sample_work" "make_usage_policy default_usage_policy = Inr default_usage_policy"
  "capacity_ok (Scalar_points 29)"
  by code_simp+

lemma sample_capacity: "capacity_map (Scalar_points 29) sample_work = Inr [(''codex'', Some 29)]"
  by code_simp

lemma sample_plan:
  obtains plan where "plan_quark_work default_usage_policy (Scalar_points 29) sample_work = Some (Inr plan)"
    "map (\<lambda>a. (wa_work_id a, wa_allocated_units a)) (filter (\<lambda>a. wa_limit_id a = ''codex'') (wp_allocations plan)) =
      [(''w3'', 4), (''w2'', 5), (''w1'', 3)]"
proof -
  have "(case plan_quark_work default_usage_policy (Scalar_points 29) sample_work of
       Some (Inr plan) \<Rightarrow> map (\<lambda>a. (wa_work_id a, wa_allocated_units a))
         (filter (\<lambda>a. wa_limit_id a = ''codex'') (wp_allocations plan)) | _ \<Rightarrow> []) =
     [(''w3'', 4), (''w2'', 5), (''w1'', 3)]"
    by code_simp
  with that show ?thesis by (auto split: option.splits sum.splits)
qed

theorem quark_planning_returns_witness:
  "(\<exists>plan. plan_quark_work default_usage_policy (Scalar_points 29) sample_work = Some (Inr plan)) \<or>
    (\<exists>msg. capacity_map (Scalar_points 29) sample_work = Inl (ValueError msg) \<and>
       plan_quark_work default_usage_policy (Scalar_points 29) sample_work = Some (Inl (ValueError msg)))"
  by (rule quark_planning_returns [OF sample_work_ok(2,1,3)])

lemma plan_ok_capacity:
  "plan_quark_work policy arg work = Some (Inr plan) \<Longrightarrow> \<exists>caps. capacity_map arg work = Inr caps"
  by (cases "capacity_map arg work") (auto simp: plan_quark_work_def)

text \<open>A limit's part of a plan satisfies the contract of the limit.\<close>

lemma plan_limit_part:
  assumes "make_usage_policy policy = Inr policy" "work_ok work" "capacity_ok arg"
    and run: "plan_quark_work policy arg work = Some (Inr plan)"
    and caps: "capacity_map arg work = Inr caps" and l: "dict_get caps l = Some capacity"
  shows "limit_share policy work l capacity (filter (\<lambda>a. wa_limit_id a = l) (wp_allocations plan))"
proof -
  have "l \<in> fst ` set caps" using dict_ok_keys [OF capacity_map_ok [OF assms(3) caps]] l by simp
  with plan_quark_work_shares [OF assms(1-3) caps] run l show ?thesis by auto
qed





end
