(* ===== verification/Quark_Work.thy ===== *)
theory Quark_Work
  imports Quark_Plan
begin

text \<open>
  The work store of \<^verbatim>\<open>src/overseer/quark_scheduler.py\<close> (\<open>QuarkWorkStore\<close>): the table of work items, the
  ledger of slices keyed by work id and generation, the compare-and-swap transaction over the durable
  binding of an item, and the effort report of a project. A row holds the item itself; loading it calls
  the constructor, and with it the validation, again. While a transaction is open, \<open>qd_rollback\<close> keeps
  the tables it would restore.
\<close>

section \<open>State changes of an item\<close>

text \<open>
  \<open>with_state\<close>: the changes to fields other than the reservation are a function on the record;
  \<^verbatim>\<open>dataclasses.replace\<close> calls the constructor with every field.
\<close>

definition with_state ::
  "AgentWorkItem \<Rightarrow> WorkState \<Rightarrow> rat option \<Rightarrow> (AgentWorkItem \<Rightarrow> AgentWorkItem) \<Rightarrow> AgentWorkItem result" where
  "with_state item state reserved changes =
     (let item1 = changes (item\<lparr>wk_state := state\<rparr>)
      in case reserved of
           None \<Rightarrow> make_work_item item1 (Some (wk_estimated_units item)) (Some (wk_reserved_units item))
         | Some units \<Rightarrow>
             make_work_item
               (item1\<lparr>wk_reserved_quota_points :=
                  (if wk_provider_id item = ''codex'' \<and> wk_usage_unit item = ''quota_points'' then Some units else None)\<rparr>)
               (Some (wk_estimated_units item)) (Some units))"

record WorkBinding =
  wb_project_id :: string
  wb_agent_session_id :: "string option"
  wb_provider_id :: string
  wb_limit_id :: string
  wb_usage_unit :: string
  wb_owner_thread :: "string option"
  wb_generation :: int
  wb_state :: WorkState
  wb_reserved_units :: rat
  wb_driver_epoch_id :: "string option"
  wb_provider_dispatch_id :: "string option"
  wb_provider_result_id :: "string option"
  wb_provider_reference :: "string option"
  wb_provider_idempotency_key :: "string option"
  wb_provider_dispatch_state :: "string option"
  wb_pause_reason :: "string option"
  wb_resume_at :: "string option"

definition durable_work_binding :: "AgentWorkItem \<Rightarrow> WorkBinding" where
  "durable_work_binding item =
     \<lparr>wb_project_id = wk_project_id item, wb_agent_session_id = wk_agent_session_id item,
      wb_provider_id = wk_provider_id item, wb_limit_id = wk_limit_id item, wb_usage_unit = wk_usage_unit item,
      wb_owner_thread = wk_owner_thread item, wb_generation = wk_generation item, wb_state = wk_state item,
      wb_reserved_units = wk_reserved_units item, wb_driver_epoch_id = wk_driver_epoch_id item,
      wb_provider_dispatch_id = wk_provider_dispatch_id item, wb_provider_result_id = wk_provider_result_id item,
      wb_provider_reference = wk_provider_reference item,
      wb_provider_idempotency_key = wk_provider_idempotency_key item,
      wb_provider_dispatch_state = wk_provider_dispatch_state item, wb_pause_reason = wk_pause_reason item,
      wb_resume_at = wk_resume_at item\<rparr>"

section \<open>The tables\<close>

record QuarkSlice =
  ws_work_id :: string
  ws_project_id :: string
  ws_provider_id :: string
  ws_limit_id :: string
  ws_usage_unit :: string
  ws_generation :: int
  ws_quota_before :: "rat option"
  ws_quota_after :: "rat option"
  ws_actual_units :: "rat option"
  ws_capacity_confidence :: string
  ws_lifetime_tokens_before :: "int option"
  ws_lifetime_tokens_after :: "int option"
  ws_actual_quota_points :: "rat option"
  ws_actual_tokens :: "int option"
  ws_started_at :: string
  ws_checkpointed_at :: "string option"
  ws_checkpoint_ref :: "string option"
  ws_completed :: bool
  ws_attribution_confidence :: string
  ws_provider_dispatch_id :: "string option"
  ws_provider_result_id :: "string option"
  ws_provider_reference :: "string option"
  ws_last_observed_at :: "string option"

type_synonym slice_table = "((string \<times> int) \<times> QuarkSlice) list"

record QuarkDb =
  qd_work :: "AgentWorkItem tbl"
  qd_slices :: slice_table
  qd_rollback :: "(AgentWorkItem tbl \<times> slice_table) option"

definition empty_quark :: QuarkDb where
  "empty_quark = \<lparr>qd_work = [], qd_slices = [], qd_rollback = None\<rparr>"

definition save_work :: "AgentWorkItem \<Rightarrow> QuarkDb \<Rightarrow> QuarkDb" where
  "save_work item db = db\<lparr>qd_work := tbl_upsert (wk_id item) item (qd_work db)\<rparr>"

definition work_from_payload :: "AgentWorkItem \<Rightarrow> AgentWorkItem result" where
  "work_from_payload item = make_work_item item (Some (wk_estimated_units item)) (Some (wk_reserved_units item))"

definition load_work :: "string \<Rightarrow> QuarkDb \<Rightarrow> AgentWorkItem result" where
  "load_work work_id db =
     (case tbl_get (qd_work db) work_id of None \<Rightarrow> Inl (KeyError work_id) | Some item \<Rightarrow> work_from_payload item)"

fun from_payloads :: "AgentWorkItem list \<Rightarrow> AgentWorkItem list result" where
  "from_payloads [] = Inr []"
| "from_payloads (i # is) = res_bind (work_from_payload i) (\<lambda>w. res_bind (from_payloads is) (\<lambda>ws. Inr (w # ws)))"

definition list_work :: "QuarkDb \<Rightarrow> AgentWorkItem list result" where
  "list_work db = from_payloads (sort_key (\<lambda>i. (wk_project_id i, wk_id i)) (map snd (qd_work db)))"

definition list_slices :: "string option \<Rightarrow> QuarkDb \<Rightarrow> QuarkSlice list" where
  "list_slices work_id db =
     map snd (case work_id of None \<Rightarrow> qd_slices db | Some w \<Rightarrow> filter (\<lambda>(k, s). fst k = w) (qd_slices db))"

definition slice_missing :: "string \<Rightarrow> int \<Rightarrow> py_error" where
  "slice_missing work_id generation = KeyError (''('' @ work_id @ '', '' @ str_int generation @ '')'')"

section \<open>Compare and swap\<close>

definition finish_work_binding_cas :: "bool \<Rightarrow> QuarkDb \<Rightarrow> QuarkDb \<times> unit result" where
  "finish_work_binding_cas commit db =
     (case qd_rollback db of
        None \<Rightarrow> (db, Inl (RuntimeError ''no Quark work transaction is active''))
      | Some (work, slices) \<Rightarrow>
          (if commit then db\<lparr>qd_rollback := None\<rparr>
           else db\<lparr>qd_work := work, qd_slices := slices, qd_rollback := None\<rparr>, Inr ()))"

definition begin_work_binding_cas ::
  "string \<Rightarrow> WorkBinding \<Rightarrow> QuarkDb \<Rightarrow> QuarkDb \<times> (bool \<times> AgentWorkItem option) result" where
  "begin_work_binding_cas work_id expected db =
     (if qd_rollback db \<noteq> None then (db, Inl (RuntimeError ''nested Quark work transaction is not allowed''))
      else
        (let db1 = db\<lparr>qd_rollback := Some (qd_work db, qd_slices db)\<rparr>
         in case load_work work_id db1 of
              Inl (KeyError k) \<Rightarrow> (fst (finish_work_binding_cas False db1), Inr (False, None))
            | Inl e \<Rightarrow> (db1, Inl e)
            | Inr current \<Rightarrow>
                if durable_work_binding current \<noteq> expected
                then (fst (finish_work_binding_cas False db1), Inr (False, Some current))
                else (db1, Inr (True, Some current))))"

section \<open>The slice ledger\<close>

definition slice_start ::
  "AgentWorkItem \<Rightarrow> string \<Rightarrow> int \<Rightarrow> rat option \<Rightarrow> int option \<Rightarrow> string \<Rightarrow> QuarkSlice" where
  "slice_start item work_id generation quota_before tokens_before observed_at =
     \<lparr>ws_work_id = work_id, ws_project_id = wk_project_id item, ws_provider_id = wk_provider_id item,
      ws_limit_id = wk_limit_id item, ws_usage_unit = wk_usage_unit item, ws_generation = generation,
      ws_quota_before = quota_before, ws_quota_after = None, ws_actual_units = None,
      ws_capacity_confidence = ''observed'', ws_lifetime_tokens_before = tokens_before,
      ws_lifetime_tokens_after = None, ws_actual_quota_points = None, ws_actual_tokens = None,
      ws_started_at = observed_at, ws_checkpointed_at = None, ws_checkpoint_ref = None, ws_completed = False,
      ws_attribution_confidence = ''shared'', ws_provider_dispatch_id = wk_provider_dispatch_id item,
      ws_provider_result_id = wk_provider_result_id item, ws_provider_reference = wk_provider_reference item,
      ws_last_observed_at = None\<rparr>"

definition record_slice_start ::
  "string \<Rightarrow> int \<Rightarrow> rat option \<Rightarrow> int option \<Rightarrow> string \<Rightarrow> QuarkDb \<Rightarrow> QuarkDb \<times> unit result" where
  "record_slice_start work_id generation quota_before tokens_before observed_at db =
     (case load_work work_id db of
        Inl e \<Rightarrow> (db, Inl e)
      | Inr item \<Rightarrow>
          (let db1 = db\<lparr>qd_slices := tbl_upsert (work_id, generation)
                 (slice_start item work_id generation quota_before tokens_before observed_at) (qd_slices db)\<rparr>
           in case with_state item WorkState_RUNNING None
                  (\<lambda>i. i\<lparr>wk_generation := generation, wk_updated_at := Some observed_at\<rparr>) of
                Inl e \<Rightarrow> (db1, Inl e)
              | Inr running \<Rightarrow> (save_work running db1, Inr ())))"

text \<open>
  The measurement both updates of a slice share: what was used is the capacity before less the
  capacity after, never negative, and unknown when the capacity after is unknown.
\<close>

definition slice_measured :: "rat option \<Rightarrow> string \<Rightarrow> int option \<Rightarrow> QuarkSlice \<Rightarrow> QuarkSlice result" where
  "slice_measured quota_after confidence tokens_after s =
     (let measured = (\<lambda>units. s\<lparr>ws_quota_after := quota_after, ws_capacity_confidence := confidence,
            ws_lifetime_tokens_after := tokens_after, ws_actual_units := units,
            ws_actual_quota_points :=
              (if ws_provider_id s = ''codex'' \<and> ws_usage_unit s = ''quota_points'' then units else None),
            ws_actual_tokens :=
              (case (ws_lifetime_tokens_before s, tokens_after) of
                 (Some before, Some after) \<Rightarrow> Some (max 0 (after - before))
               | _ \<Rightarrow> None)\<rparr>)
      in case quota_after of
           None \<Rightarrow> Inr (measured None)
         | Some after \<Rightarrow>
             (case ws_quota_before s of
                None \<Rightarrow> Inl (TypeError ''unsupported operand type(s) for -'')
              | Some before \<Rightarrow> Inr (measured (Some (max 0 (before - after))))))"

definition record_slice_checkpoint ::
  "string \<Rightarrow> int \<Rightarrow> rat \<Rightarrow> int option \<Rightarrow> string \<Rightarrow> bool \<Rightarrow> string option \<Rightarrow> QuarkDb \<Rightarrow> QuarkDb \<times> unit result" where
  "record_slice_checkpoint work_id generation quota_after tokens_after observed_at completed checkpoint_ref db =
     (case tbl_get (qd_slices db) (work_id, generation) of
        None \<Rightarrow> (db, Inl (slice_missing work_id generation))
      | Some s \<Rightarrow>
          (case slice_measured (Some quota_after) ''observed'' tokens_after s of
             Inl e \<Rightarrow> (db, Inl e)
           | Inr s1 \<Rightarrow>
               (let s2 = s1\<lparr>ws_checkpointed_at := Some observed_at, ws_checkpoint_ref := checkpoint_ref,
                      ws_completed := completed\<rparr>;
                    db1 = db\<lparr>qd_slices := tbl_upsert (work_id, generation) s2 (qd_slices db)\<rparr>
                in case load_work work_id db1 of
                     Inl e \<Rightarrow> (db1, Inl e)
                   | Inr item \<Rightarrow>
                       (case with_state item (if completed then WorkState_COMPLETED else WorkState_CHECKPOINTED) (Some 0)
                           (\<lambda>i. i\<lparr>wk_checkpoint_ref := checkpoint_ref, wk_pause_reason := None, wk_resume_at := None,
                              wk_updated_at := Some observed_at\<rparr>) of
                          Inl e \<Rightarrow> (db1, Inl e)
                        | Inr finished \<Rightarrow> (save_work finished db1, Inr ())))))"

definition record_slice_observation ::
  "string \<Rightarrow> int \<Rightarrow> rat option \<Rightarrow> int option \<Rightarrow> string \<Rightarrow> string \<Rightarrow> string option \<Rightarrow> string option \<Rightarrow> string option \<Rightarrow>
   QuarkDb \<Rightarrow> QuarkDb \<times> unit result" where
  "record_slice_observation work_id generation capacity_after tokens_after observed_at confidence
       dispatch_id result_id reference db =
     (case tbl_get (qd_slices db) (work_id, generation) of
        None \<Rightarrow> (db, Inl (slice_missing work_id generation))
      | Some s \<Rightarrow>
          (case slice_measured capacity_after confidence tokens_after s of
             Inl e \<Rightarrow> (db, Inl e)
           | Inr s1 \<Rightarrow>
               (db\<lparr>qd_slices := tbl_upsert (work_id, generation)
                     (s1\<lparr>ws_last_observed_at := Some observed_at, ws_provider_dispatch_id := dispatch_id,
                        ws_provider_result_id := result_id, ws_provider_reference := reference\<rparr>) (qd_slices db)\<rparr>,
                Inr ())))"

definition mark_waiting_capacity :: "string \<Rightarrow> string option \<Rightarrow> string \<Rightarrow> QuarkDb \<Rightarrow> QuarkDb \<times> unit result" where
  "mark_waiting_capacity work_id resume_at reason db =
     (case load_work work_id db of
        Inl e \<Rightarrow> (db, Inl e)
      | Inr item \<Rightarrow>
          (case with_state item WorkState_WAITING_CAPACITY (Some 0)
              (\<lambda>i. i\<lparr>wk_pause_reason := Some reason, wk_resume_at := resume_at\<rparr>) of
             Inl e \<Rightarrow> (db, Inl e)
           | Inr waiting \<Rightarrow> (save_work waiting db, Inr ())))"

end
