(* ===== verification/Agent_Contracts.thy ===== *)
theory Agent_Contracts
  imports Core_Claims Clock
begin

text \<open>
  The provider-neutral contracts of \<^verbatim>\<open>src/overseer/agent_contracts.py\<close>: the enumerations, the frozen
  dataclasses as records, and their \<^verbatim>\<open>__post_init__\<close> methods as checks on the record they validate. The
  checks that only test the Python type of a field hold of every record of the model. \<open>Mapping\<close> fields
  are \<open>pydict\<close>s of JSON values.
\<close>

section \<open>Enumerations\<close>

datatype AgentTransport =
    Trans_INTERACTIVE_CLI | Trans_NONINTERACTIVE_CLI | Trans_API | Trans_GATEWAY

fun transport_value :: "AgentTransport \<Rightarrow> string" where
  "transport_value Trans_INTERACTIVE_CLI = ''interactive_cli''"
| "transport_value Trans_NONINTERACTIVE_CLI = ''noninteractive_cli''"
| "transport_value Trans_API = ''api''"
| "transport_value Trans_GATEWAY = ''gateway''"

datatype AgentOperationState =
    Op_QUEUED | Op_ACKNOWLEDGED | Op_RUNNING | Op_SUCCEEDED | Op_FAILED | Op_BLOCKED
  | Op_CANCELLED | Op_QUARANTINED

fun operation_state_value :: "AgentOperationState \<Rightarrow> string" where
  "operation_state_value Op_QUEUED = ''queued''"
| "operation_state_value Op_ACKNOWLEDGED = ''acknowledged''"
| "operation_state_value Op_RUNNING = ''running''"
| "operation_state_value Op_SUCCEEDED = ''succeeded''"
| "operation_state_value Op_FAILED = ''failed''"
| "operation_state_value Op_BLOCKED = ''blocked''"
| "operation_state_value Op_CANCELLED = ''cancelled''"
| "operation_state_value Op_QUARANTINED = ''quarantined''"

definition operation_state_of :: "string \<Rightarrow> AgentOperationState result" where
  "operation_state_of = enum_of ''AgentOperationState'' operation_state_value
     [Op_QUEUED, Op_ACKNOWLEDGED, Op_RUNNING, Op_SUCCEEDED, Op_FAILED, Op_BLOCKED, Op_CANCELLED, Op_QUARANTINED]"

datatype AgentTransitionState =
    Transit_IMPORTING | Transit_IMPORT_ACKNOWLEDGED | Transit_RECONCILING | Transit_FAILED
  | Transit_COMPLETED | Transit_ROLLED_BACK

fun transition_state_value :: "AgentTransitionState \<Rightarrow> string" where
  "transition_state_value Transit_IMPORTING = ''importing''"
| "transition_state_value Transit_IMPORT_ACKNOWLEDGED = ''import_acknowledged''"
| "transition_state_value Transit_RECONCILING = ''reconciling''"
| "transition_state_value Transit_FAILED = ''failed''"
| "transition_state_value Transit_COMPLETED = ''completed''"
| "transition_state_value Transit_ROLLED_BACK = ''rolled_back''"

datatype AgentOperationFenceState =
    Fence_OPEN | Fence_FENCED

fun fence_state_value :: "AgentOperationFenceState \<Rightarrow> string" where
  "fence_state_value Fence_OPEN = ''open''"
| "fence_state_value Fence_FENCED = ''fenced''"

datatype ProviderHealthState =
    Health_HEALTHY | Health_TRANSPORT_FAILURE | Health_FAILED | Health_SLOW

fun provider_health_value :: "ProviderHealthState \<Rightarrow> string" where
  "provider_health_value Health_HEALTHY = ''healthy''"
| "provider_health_value Health_TRANSPORT_FAILURE = ''transport_failure''"
| "provider_health_value Health_FAILED = ''failed''"
| "provider_health_value Health_SLOW = ''slow''"

datatype ActiveAgentRiskLevel =
    ARisk_LOW | ARisk_MEDIUM | ARisk_HIGH

fun active_risk_value :: "ActiveAgentRiskLevel \<Rightarrow> string" where
  "active_risk_value ARisk_LOW = ''low''"
| "active_risk_value ARisk_MEDIUM = ''medium''"
| "active_risk_value ARisk_HIGH = ''high''"

datatype FailoverExecutionState =
    FExec_RESERVED | FExec_DRAINING | FExec_BLOCKED_PREIMPORT | FExec_RECOVERING
  | FExec_RECOVERED | FExec_TRANSITION_STARTED

fun failover_execution_value :: "FailoverExecutionState \<Rightarrow> string" where
  "failover_execution_value FExec_RESERVED = ''reserved''"
| "failover_execution_value FExec_DRAINING = ''draining''"
| "failover_execution_value FExec_BLOCKED_PREIMPORT = ''blocked_preimport''"
| "failover_execution_value FExec_RECOVERING = ''recovering''"
| "failover_execution_value FExec_RECOVERED = ''recovered''"
| "failover_execution_value FExec_TRANSITION_STARTED = ''transition_started''"

datatype AgentRecoveryAttemptState =
    Attempt_PENDING | Attempt_EXTERNAL_STARTED | Attempt_RESULT_RECORDED | Attempt_FINALIZED
  | Attempt_BLOCKED

fun recovery_attempt_value :: "AgentRecoveryAttemptState \<Rightarrow> string" where
  "recovery_attempt_value Attempt_PENDING = ''pending''"
| "recovery_attempt_value Attempt_EXTERNAL_STARTED = ''external_started''"
| "recovery_attempt_value Attempt_RESULT_RECORDED = ''result_recorded''"
| "recovery_attempt_value Attempt_FINALIZED = ''finalized''"
| "recovery_attempt_value Attempt_BLOCKED = ''blocked''"

datatype AgentErrorCategory =
    AErr_UNSUPPORTED_CAPABILITY | AErr_CONFIGURATION_ERROR | AErr_PROVIDER_UNAVAILABLE
  | AErr_SESSION_NOT_FOUND | AErr_AUTHENTICATION_REQUIRED | AErr_DISPATCH_REJECTED
  | AErr_DISPATCH_TIMEOUT | AErr_PROVIDER_PROTOCOL_ERROR | AErr_POLICY_BLOCKED
  | AErr_HANDOFF_INCOMPATIBLE | AErr_CHECKPOINT_STALE | AErr_CANCELLED | AErr_QUARANTINED

fun error_category_value :: "AgentErrorCategory \<Rightarrow> string" where
  "error_category_value AErr_UNSUPPORTED_CAPABILITY = ''unsupported_capability''"
| "error_category_value AErr_CONFIGURATION_ERROR = ''configuration_error''"
| "error_category_value AErr_PROVIDER_UNAVAILABLE = ''provider_unavailable''"
| "error_category_value AErr_SESSION_NOT_FOUND = ''session_not_found''"
| "error_category_value AErr_AUTHENTICATION_REQUIRED = ''authentication_required''"
| "error_category_value AErr_DISPATCH_REJECTED = ''dispatch_rejected''"
| "error_category_value AErr_DISPATCH_TIMEOUT = ''dispatch_timeout''"
| "error_category_value AErr_PROVIDER_PROTOCOL_ERROR = ''provider_protocol_error''"
| "error_category_value AErr_POLICY_BLOCKED = ''policy_blocked''"
| "error_category_value AErr_HANDOFF_INCOMPATIBLE = ''handoff_incompatible''"
| "error_category_value AErr_CHECKPOINT_STALE = ''checkpoint_stale''"
| "error_category_value AErr_CANCELLED = ''cancelled''"
| "error_category_value AErr_QUARANTINED = ''quarantined''"

definition error_category_of :: "string \<Rightarrow> AgentErrorCategory result" where
  "error_category_of = enum_of ''AgentErrorCategory'' error_category_value
     [AErr_UNSUPPORTED_CAPABILITY, AErr_CONFIGURATION_ERROR, AErr_PROVIDER_UNAVAILABLE, AErr_SESSION_NOT_FOUND, AErr_AUTHENTICATION_REQUIRED, AErr_DISPATCH_REJECTED, AErr_DISPATCH_TIMEOUT, AErr_PROVIDER_PROTOCOL_ERROR, AErr_POLICY_BLOCKED, AErr_HANDOFF_INCOMPATIBLE, AErr_CHECKPOINT_STALE, AErr_CANCELLED, AErr_QUARANTINED]"

definition RECOVERABLE_FAILOVER_EXECUTION_STATES :: "FailoverExecutionState set" where
  "RECOVERABLE_FAILOVER_EXECUTION_STATES = {FExec_RESERVED, FExec_DRAINING, FExec_BLOCKED_PREIMPORT, FExec_RECOVERING}"

definition FAILOVER_BLOCKER_VOCABULARY :: "string list" where
  "FAILOVER_BLOCKER_VOCABULARY =
     [''failover policy missing or not approved'',
      ''policy approval does not predate failure sequence'',
      ''slow response is not a failover trigger'',
      ''failure threshold not reached'',
      ''checkpoint missing, stale, expired, or incorrectly bound'',
      ''unresolved high-risk action'',
      ''non-transferable active operation or checkpoint state'',
      ''no healthy approved fallback'',
      ''fallback capability mismatch or missing handoff_import'',
      ''transition, reservation, or epoch already changed'']"

section \<open>Validation helpers\<close>

definition require_identifier :: "string \<Rightarrow> string \<Rightarrow> unit result" where
  "require_identifier value label =
     (if blank value then Inl (ValueError (label @ '' must be a stable non-empty identifier'')) else Inr ())"

text \<open>\<^verbatim>\<open>re.search\<close> of a pattern, tried at every position with the character before it.\<close>

fun re_search :: "(char option \<Rightarrow> string \<Rightarrow> bool) \<Rightarrow> char option \<Rightarrow> string \<Rightarrow> bool" where
  "re_search p prev [] = p prev []"
| "re_search p prev (c # s) \<longleftrightarrow> p prev (c # s) \<or> re_search p (Some c) s"

definition word_start :: "char option \<Rightarrow> bool" where
  "word_start prev = (case prev of None \<Rightarrow> True | Some c \<Rightarrow> \<not> word_char c)"

definition head_in :: "(char \<Rightarrow> bool) \<Rightarrow> string \<Rightarrow> bool" where
  "head_in p s = (case s of [] \<Rightarrow> False | c # _ \<Rightarrow> p c)"

text \<open>\<^verbatim>\<open>(?:bearer\s+|password\s*[:=]|secret\s*[:=]|\bsk-[A-Za-z0-9])\<close>, ignoring case.\<close>

definition secret_identifier_at :: "char option \<Rightarrow> string \<Rightarrow> bool" where
  "secret_identifier_at prev s0 =
     (let s = py_lower s0; assigned = (\<lambda>r. head_in (\<lambda>c. c \<in> set '':='') (dropWhile is_space r))
      in (startswith s ''bearer'' \<and> head_in is_space (drop 6 s)) \<or>
         (startswith s ''password'' \<and> assigned (drop 8 s)) \<or>
         (startswith s ''secret'' \<and> assigned (drop 6 s)) \<or>
         (word_start prev \<and> startswith s ''sk-'' \<and> head_in (\<lambda>c. is_letter c \<or> is_digit c) (drop 3 s)))"

definition require_safe_identifier :: "string \<Rightarrow> string \<Rightarrow> unit result" where
  "require_safe_identifier value label =
     run_checks [require_identifier value label,
       if re_search secret_identifier_at None value
       then Inl (ValueError (label @ '' cannot contain secret-like material'')) else Inr ()]"

definition validate_optional_identifier :: "string option \<Rightarrow> string \<Rightarrow> unit result" where
  "validate_optional_identifier value label =
     (case value of None \<Rightarrow> Inr () | Some v \<Rightarrow> require_identifier v label)"

text \<open>Freezing a mapping keeps its items; it only rejects blank keys, at every depth.\<close>

fun freeze_mapping :: "(string \<times> pyval) list \<Rightarrow> unit result"
  and freeze_value :: "pyval \<Rightarrow> unit result"
  and freeze_values :: "pyval list \<Rightarrow> unit result" where
  "freeze_mapping [] = Inr ()"
| "freeze_mapping ((k, v) # kvs) =
     (if blank k then Inl (TypeError ''record mapping keys must be non-empty strings'')
      else res_bind (freeze_value v) (\<lambda>_. freeze_mapping kvs))"
| "freeze_value (PDict kvs) = freeze_mapping kvs"
| "freeze_value (PList vs) = freeze_values vs"
| "freeze_value PNone = Inr ()"
| "freeze_value (PBool b) = Inr ()"
| "freeze_value (PInt i) = Inr ()"
| "freeze_value (PFloat x) = Inr ()"
| "freeze_value (PStr s) = Inr ()"
| "freeze_values [] = Inr ()"
| "freeze_values (v # vs) = res_bind (freeze_value v) (\<lambda>_. freeze_values vs)"

definition validate_identifier_collection :: "string list \<Rightarrow> string \<Rightarrow> unit result" where
  "validate_identifier_collection values label = check_all (\<lambda>v. require_identifier v label) values"

definition validate_unique_identifier_collection :: "string list \<Rightarrow> string \<Rightarrow> unit result" where
  "validate_unique_identifier_collection values label =
     run_checks [validate_identifier_collection values label,
       if \<not> distinct values then Inl (ValueError (label @ '' values must be unique'')) else Inr ()]"

text \<open>The instant of a timestamp with a timezone.\<close>

definition require_timestamp :: "string \<Rightarrow> string \<Rightarrow> int result" where
  "require_timestamp value label =
     res_bind (require_identifier value label) (\<lambda>_.
       case fromisoformat value of
         Inl _ \<Rightarrow> Inl (ValueError (label @ '' must be an ISO-8601 timestamp''))
       | Inr d \<Rightarrow> (case dt_offset d of
           None \<Rightarrow> Inl (ValueError (label @ '' must include a timezone''))
         | Some off \<Rightarrow> Inr (dt_wall d - off)))"

definition check_timestamp :: "string \<Rightarrow> string \<Rightarrow> unit result" where
  "check_timestamp value label = map_sum id (\<lambda>_. ()) (require_timestamp value label)"

definition check_positive :: "int \<Rightarrow> string \<Rightarrow> unit result" where
  "check_positive n msg = (if n < 1 then Inl (ValueError msg) else Inr ())"

text \<open>\<^verbatim>\<open>[a-z][a-z0-9_.-]{0,63}\<close>\<close>

definition redacted_category :: "string \<Rightarrow> bool" where
  "redacted_category s \<longleftrightarrow>
     (let lower = (\<lambda>c. is_letter c \<and> lower_char c = c)
      in case s of [] \<Rightarrow> False
         | c # r \<Rightarrow> lower c \<and> length r \<le> 63 \<and> list_all (\<lambda>d. lower d \<or> is_digit d \<or> d \<in> set ''_.-'') r)"

section \<open>Providers, instances, sessions and epochs\<close>

record AgentCapabilities =
  cap_session_discovery :: bool
  cap_session_resume :: bool
  cap_interactive_dispatch :: bool
  cap_noninteractive_dispatch :: bool
  cap_structured_events :: bool
  cap_checkpoints :: bool
  cap_cancellation :: bool
  cap_delegated_workers :: bool
  cap_usage_observation :: bool
  cap_handoff_import :: bool

definition capability_values :: "AgentCapabilities \<Rightarrow> bool list" where
  "capability_values c =
     [cap_session_discovery c, cap_session_resume c, cap_interactive_dispatch c, cap_noninteractive_dispatch c,
      cap_structured_events c, cap_checkpoints c, cap_cancellation c, cap_delegated_workers c,
      cap_usage_observation c, cap_handoff_import c]"

definition supports :: "AgentCapabilities \<Rightarrow> AgentCapabilities \<Rightarrow> bool" where
  "supports available required =
     list_all (\<lambda>(a, r). \<not> r \<or> a) (zip (capability_values available) (capability_values required))"

text \<open>\<^verbatim>\<open>secret://[A-Za-z0-9][A-Za-z0-9._/-]*\<close>\<close>

definition credential_reference_ok :: "string \<Rightarrow> unit result" where
  "credential_reference_ok ident =
     (let alnum = (\<lambda>c. is_letter c \<or> is_digit c); r = drop 9 ident
      in if startswith ident ''secret://'' \<and> head_in alnum r \<and> list_all (\<lambda>c. alnum c \<or> c \<in> set ''._/-'') r
         then Inr () else Inl (ValueError ''credential reference must use a secret:// identifier''))"

definition freeze_credential_references :: "(string, string) pydict \<Rightarrow> unit result" where
  "freeze_credential_references refs = check_all (\<lambda>(k, _). require_identifier k ''credential reference name'') refs"

record AgentProvider =
  apr_id :: string
  apr_adapter_id :: string
  apr_capabilities :: AgentCapabilities
  apr_transports :: "AgentTransport list"
  apr_display_name :: "string option"
  apr_executable_allowlist :: "string list"
  apr_required_secret_references :: "string list"
  apr_profile_ids :: "string list"
  apr_health_source_id :: "string option"
  apr_usage_limit_source_id :: "string option"

definition agent_provider_post_init :: "AgentProvider \<Rightarrow> unit result" where
  "agent_provider_post_init r = run_checks
     [require_identifier (apr_id r) ''provider id'',
      require_identifier (apr_adapter_id r) ''adapter id'',
      validate_identifier_collection (apr_executable_allowlist r) ''executable'',
      validate_identifier_collection (apr_required_secret_references r) ''required secret reference'',
      validate_identifier_collection (apr_profile_ids r) ''profile id'',
      validate_optional_identifier (apr_health_source_id r) ''health source id'',
      validate_optional_identifier (apr_usage_limit_source_id r) ''usage limit source id'']"

record AgentInstanceProfile =
  aip_id :: string
  aip_primary_provider_id :: string
  aip_transport :: AgentTransport
  aip_workspace :: string
  aip_primary_adapter_id :: "string option"
  aip_model_profile_id :: "string option"
  aip_external_session_id :: "string option"
  aip_declared_capabilities :: AgentCapabilities
  aip_required_capabilities :: AgentCapabilities
  aip_detected_capabilities :: "AgentCapabilities option"
  aip_credential_references :: "(string, string) pydict"
  aip_permission_policy_ref :: "string option"
  aip_execution_policy_ref :: "string option"
  aip_provider_health_source_id :: "string option"
  aip_usage_limit_source_id :: "string option"
  aip_approved_fallback_provider_ids :: "string list"
  aip_controlled_failover_policy_ref :: "string option"

definition agent_instance_profile_post_init :: "AgentInstanceProfile \<Rightarrow> unit result" where
  "agent_instance_profile_post_init r = run_checks
     [require_identifier (aip_id r) ''instance id'',
      require_identifier (aip_primary_provider_id r) ''primary provider id'',
      if blank (aip_workspace r) then Inl (ValueError ''workspace must be non-empty'') else Inr (),
      validate_optional_identifier (aip_primary_adapter_id r) ''primary adapter id'',
      validate_optional_identifier (aip_model_profile_id r) ''model profile id'',
      validate_optional_identifier (aip_external_session_id r) ''external session id'',
      validate_optional_identifier (aip_permission_policy_ref r) ''permission policy reference'',
      validate_optional_identifier (aip_execution_policy_ref r) ''execution policy reference'',
      validate_optional_identifier (aip_provider_health_source_id r) ''provider health source id'',
      validate_optional_identifier (aip_usage_limit_source_id r) ''usage limit source id'',
      validate_optional_identifier (aip_controlled_failover_policy_ref r) ''controlled failover policy reference'',
      validate_unique_identifier_collection (aip_approved_fallback_provider_ids r) ''fallback provider id'',
      if aip_primary_provider_id r \<in> set (aip_approved_fallback_provider_ids r) then Inl (ValueError ''primary provider cannot be its own fallback'') else Inr (),
      freeze_credential_references (aip_credential_references r)]"

record AgentSession =
  ags_id :: string
  ags_provider_id :: string
  ags_external_session_id :: "string option"
  ags_workspace :: string
  ags_transport :: AgentTransport
  ags_capabilities :: AgentCapabilities
  ags_instance_id :: "string option"
  ags_model_profile_id :: "string option"
  ags_legacy_references :: "(string, pyval) pydict"
  ags_discovered_at :: "string option"
  ags_last_observed_at :: "string option"

definition agent_session_post_init :: "AgentSession \<Rightarrow> unit result" where
  "agent_session_post_init r = run_checks
     [require_identifier (ags_id r) ''session id'',
      require_identifier (ags_provider_id r) ''provider id'',
      validate_optional_identifier (ags_external_session_id r) ''external session id'',
      if blank (ags_workspace r) then Inl (ValueError ''workspace must be non-empty'') else Inr (),
      validate_optional_identifier (ags_instance_id r) ''instance id'',
      validate_optional_identifier (ags_model_profile_id r) ''model profile id'',
      freeze_mapping (ags_legacy_references r)]"

record DriverEpoch =
  ep_id :: string
  ep_instance_id :: string
  ep_session_id :: string
  ep_provider_id :: string
  ep_ordinal :: int
  ep_state :: AgentOperationState
  ep_opened_at :: "string option"
  ep_closed_at :: "string option"
  ep_reason :: "string option"
  ep_replacement_epoch_id :: "string option"

definition driver_epoch_post_init :: "DriverEpoch \<Rightarrow> unit result" where
  "driver_epoch_post_init r = run_checks
     [require_identifier (ep_id r) ''driver epoch id'',
      require_identifier (ep_instance_id r) ''instance id'',
      require_identifier (ep_session_id r) ''session id'',
      require_identifier (ep_provider_id r) ''provider id'',
      check_positive (ep_ordinal r) ''driver epoch ordinal must be a positive integer'',
      validate_optional_identifier (ep_replacement_epoch_id r) ''replacement epoch id'']"

section \<open>Operations, dispatches and checkpoints\<close>

record AgentInstanceTransition =
  it_instance_id :: string
  it_handoff_id :: string
  it_outgoing_epoch_id :: string
  it_incoming_epoch_id :: string
  it_state :: AgentTransitionState
  it_updated_at :: string
  it_reason :: "string option"

definition agent_instance_transition_post_init :: "AgentInstanceTransition \<Rightarrow> unit result" where
  "agent_instance_transition_post_init r = run_checks
     [require_identifier (it_instance_id r) ''instance id'',
      require_identifier (it_handoff_id r) ''handoff id'',
      require_identifier (it_outgoing_epoch_id r) ''outgoing epoch id'',
      require_identifier (it_incoming_epoch_id r) ''incoming epoch id'',
      require_identifier (it_updated_at r) ''transition timestamp'']"

record AgentOperationReservation =
  or_instance_id :: string
  or_generation :: int
  or_state :: AgentOperationFenceState
  or_owner_token :: "string option"
  or_updated_at :: string

definition agent_operation_post_init :: "AgentOperationReservation \<Rightarrow> unit result" where
  "agent_operation_post_init r = run_checks
     [require_identifier (or_instance_id r) ''instance id'',
      check_positive (or_generation r) ''operation generation must be a positive integer'',
      validate_optional_identifier (or_owner_token r) ''operation owner token'',
      require_identifier (or_updated_at r) ''operation timestamp'']"

record AgentDispatchRequest =
  dq_id :: string
  dq_instance_id :: string
  dq_session_id :: string
  dq_driver_epoch_id :: string
  dq_idempotency_key :: string
  dq_prompt :: string
  dq_requested_at :: "string option"
  dq_requested_by :: "string option"
  dq_evidence :: "(string, pyval) pydict"

definition agent_dispatch_post_init :: "AgentDispatchRequest \<Rightarrow> unit result" where
  "agent_dispatch_post_init r = run_checks
     [require_identifier (dq_id r) ''dispatch id'',
      require_identifier (dq_instance_id r) ''instance id'',
      require_identifier (dq_session_id r) ''session id'',
      require_identifier (dq_driver_epoch_id r) ''driver epoch id'',
      require_identifier (dq_idempotency_key r) ''idempotency key'',
      if blank (dq_prompt r) then Inl (ValueError ''prompt must be non-empty'') else Inr (),
      validate_optional_identifier (dq_requested_by r) ''requested by'',
      freeze_mapping (dq_evidence r)]"

record AgentDispatchResult =
  dr_id :: string
  dr_request_id :: string
  dr_instance_id :: string
  dr_session_id :: string
  dr_driver_epoch_id :: string
  dr_provider_id :: string
  dr_state :: AgentOperationState
  dr_error_category :: "AgentErrorCategory option"
  dr_error_message :: "string option"
  dr_provider_reference :: "string option"
  dr_external_session_id :: "string option"
  dr_acknowledged_at :: "string option"
  dr_completed_at :: "string option"
  dr_evidence :: "(string, pyval) pydict"

definition agent_dispatch_result_post_init :: "AgentDispatchResult \<Rightarrow> unit result" where
  "agent_dispatch_result_post_init r = run_checks
     [require_identifier (dr_id r) ''dispatch result id'',
      require_identifier (dr_request_id r) ''dispatch request id'',
      require_identifier (dr_instance_id r) ''instance id'',
      require_identifier (dr_session_id r) ''session id'',
      require_identifier (dr_driver_epoch_id r) ''driver epoch id'',
      require_identifier (dr_provider_id r) ''provider id'',
      validate_optional_identifier (dr_provider_reference r) ''provider reference'',
      validate_optional_identifier (dr_external_session_id r) ''external session id'',
      freeze_mapping (dr_evidence r)]"

definition unsupported_result :: "AgentDispatchRequest \<Rightarrow> string \<Rightarrow> string \<Rightarrow> AgentDispatchResult result" where
  "unsupported_result request provider_id capability =
     (let r = \<lparr>dr_id = dq_id request @ ''.unsupported'', dr_request_id = dq_id request,
            dr_instance_id = dq_instance_id request, dr_session_id = dq_session_id request,
            dr_driver_epoch_id = dq_driver_epoch_id request, dr_provider_id = provider_id, dr_state = Op_FAILED,
            dr_error_category = Some AErr_UNSUPPORTED_CAPABILITY,
            dr_error_message = Some (''unsupported capability: '' @ capability), dr_provider_reference = None,
            dr_external_session_id = None, dr_acknowledged_at = None, dr_completed_at = None,
            dr_evidence = [(''unsupported_capability'', PStr capability)]\<rparr>
      in res_bind (run_checks [require_identifier provider_id ''provider id'', require_identifier capability ''capability'',
           agent_dispatch_result_post_init r]) (\<lambda>_. Inr r))"

record AgentCheckpoint =
  ck_id :: string
  ck_instance_id :: string
  ck_session_id :: string
  ck_driver_epoch_id :: string
  ck_evidence :: "(string, pyval) pydict"
  ck_created_at :: "string option"
  ck_expires_at :: "string option"

definition agent_checkpoint_post_init :: "AgentCheckpoint \<Rightarrow> unit result" where
  "agent_checkpoint_post_init r = run_checks
     [require_identifier (ck_id r) ''checkpoint id'',
      require_identifier (ck_instance_id r) ''instance id'',
      require_identifier (ck_session_id r) ''session id'',
      require_identifier (ck_driver_epoch_id r) ''driver epoch id'',
      freeze_mapping (ck_evidence r)]"

section \<open>Failover and recovery\<close>

record FailoverPolicy =
  fp_id :: string
  fp_instance_id :: string
  fp_approved :: bool
  fp_approval_ref :: "string option"
  fp_approved_at :: "string option"
  fp_failure_threshold :: int
  fp_checkpoint_max_age_seconds :: int
  fp_approved_fallback_provider_ids :: "string list"
  fp_decision_lifetime_seconds :: int

definition failover_policy_post_init :: "FailoverPolicy \<Rightarrow> unit result" where
  "failover_policy_post_init r = run_checks
     [require_safe_identifier (fp_id r) ''failover policy id'',
      require_safe_identifier (fp_instance_id r) ''instance id'',
      validate_optional_identifier (fp_approval_ref r) ''approval reference'',
      if fp_approved r \<and> (fp_approval_ref r = None \<or> fp_approved_at r = None) then Inl (ValueError ''approved failover policy requires approval evidence'') else Inr (),
      case fp_approved_at r of None \<Rightarrow> Inr () | Some t \<Rightarrow> check_timestamp t ''policy approval timestamp'',
      check_positive (fp_failure_threshold r) ''failure threshold must be a positive integer'',
      check_positive (fp_checkpoint_max_age_seconds r) ''checkpoint maximum age must be a positive integer'',
      check_positive (fp_decision_lifetime_seconds r) ''decision lifetime must be a positive integer'',
      validate_unique_identifier_collection (fp_approved_fallback_provider_ids r) ''fallback provider id'']"

record ProviderHealthObservation =
  ho_id :: string
  ho_instance_id :: string
  ho_provider_id :: string
  ho_state :: ProviderHealthState
  ho_observed_at :: string
  ho_reason_category :: string

definition health_observation_post_init :: "ProviderHealthObservation \<Rightarrow> unit result" where
  "health_observation_post_init r = run_checks
     [require_safe_identifier (ho_id r) ''health evidence id'',
      require_safe_identifier (ho_instance_id r) ''instance id'',
      require_safe_identifier (ho_provider_id r) ''provider id'',
      check_timestamp (ho_observed_at r) ''health observation timestamp'',
      if \<not> redacted_category (ho_reason_category r) then Inl (ValueError ''health reason must be a redacted category'') else Inr ()]"

record ActiveAgentRisk =
  rk_id :: string
  rk_instance_id :: string
  rk_risk_level :: ActiveAgentRiskLevel
  rk_resolved :: bool
  rk_transferable :: bool
  rk_evidence_ref :: string

definition active_risk_post_init :: "ActiveAgentRisk \<Rightarrow> unit result" where
  "active_risk_post_init r = run_checks
     [require_safe_identifier (rk_id r) ''active risk id'',
      require_safe_identifier (rk_instance_id r) ''instance id'',
      require_safe_identifier (rk_evidence_ref r) ''risk evidence reference'']"

record FailoverDecision =
  fd_id :: string
  fd_instance_id :: string
  fd_outgoing_epoch_id :: string
  fd_outgoing_provider_id :: string
  fd_operation_generation :: int
  fd_policy_id :: "string option"
  fd_incoming_provider_id :: "string option"
  fd_allowed :: bool
  fd_blockers :: "string list"
  fd_health_evidence_ids :: "string list"
  fd_risk_evidence_ids :: "string list"
  fd_evidence_timestamps :: "string list"
  fd_readiness_evidence_refs :: "string list"
  fd_checkpoint_id :: "string option"
  fd_evaluated_at :: string
  fd_expires_at :: string
  fd_consumed_at :: "string option"

definition failover_decision_post_init :: "FailoverDecision \<Rightarrow> unit result" where
  "failover_decision_post_init r = run_checks
     [require_safe_identifier (fd_id r) ''failover decision id'',
      require_safe_identifier (fd_instance_id r) ''instance id'',
      require_safe_identifier (fd_outgoing_epoch_id r) ''outgoing epoch id'',
      require_safe_identifier (fd_outgoing_provider_id r) ''outgoing provider id'',
      validate_optional_identifier (fd_policy_id r) ''failover policy id'',
      validate_optional_identifier (fd_incoming_provider_id r) ''incoming provider id'',
      validate_optional_identifier (fd_checkpoint_id r) ''checkpoint id'',
      check_positive (fd_operation_generation r) ''operation generation must be positive'',
      validate_unique_identifier_collection (fd_health_evidence_ids r) ''health evidence id'',
      validate_unique_identifier_collection (fd_risk_evidence_ids r) ''risk evidence id'',
      check_all (\<lambda>t. check_timestamp t ''failover evidence timestamp'') (fd_evidence_timestamps r),
      validate_unique_identifier_collection (fd_readiness_evidence_refs r) ''readiness evidence reference'',
      check_all (\<lambda>v. require_safe_identifier v ''failover evidence reference'')
        (fd_health_evidence_ids r @ fd_risk_evidence_ids r @ fd_readiness_evidence_refs r),
      if \<not> distinct (fd_blockers r) then Inl (ValueError ''failover blockers must be unique'') else Inr (),
      if \<not> set (fd_blockers r) \<subseteq> set FAILOVER_BLOCKER_VOCABULARY then Inl (ValueError ''failover blocker is not recognized'') else Inr (),
      if fd_blockers r \<noteq> filter (\<lambda>b. b \<in> set (fd_blockers r)) FAILOVER_BLOCKER_VOCABULARY then Inl (ValueError ''failover blockers must use deterministic order'') else Inr (),
      res_bind (require_timestamp (fd_evaluated_at r) ''decision evaluation timestamp'') (\<lambda>evaluated.
        res_bind (require_timestamp (fd_expires_at r) ''decision expiry timestamp'') (\<lambda>expires.
          if expires \<le> evaluated then Inl (ValueError ''decision expiry must follow evaluation'') else Inr ())),
      case fd_consumed_at r of None \<Rightarrow> Inr () | Some t \<Rightarrow> check_timestamp t ''decision consumed timestamp'',
      if fd_allowed r \<noteq> (fd_blockers r = []) then Inl (ValueError ''allowed decision must have no blockers'') else Inr (),
      if fd_allowed r \<and> (fd_policy_id r = None \<or> fd_incoming_provider_id r = None \<or> fd_checkpoint_id r = None) then Inl (ValueError ''allowed decision requires policy, checkpoint, and fallback'') else Inr ()]"

record FailoverExecution =
  fe_id :: string
  fe_decision_id :: string
  fe_instance_id :: string
  fe_outgoing_epoch_id :: string
  fe_outgoing_session_id :: string
  fe_outgoing_provider_id :: string
  fe_checkpoint_id :: string
  fe_operation_generation :: int
  fe_operation_owner_ref :: string
  fe_state :: FailoverExecutionState
  fe_created_at :: string
  fe_updated_at :: string
  fe_reason :: "string option"
  fe_resume_result_ref :: "string option"

definition failover_execution_post_init :: "FailoverExecution \<Rightarrow> unit result" where
  "failover_execution_post_init r = run_checks
     [require_safe_identifier (fe_id r) ''failover execution id'',
      require_safe_identifier (fe_decision_id r) ''failover decision id'',
      require_safe_identifier (fe_instance_id r) ''instance id'',
      require_safe_identifier (fe_outgoing_epoch_id r) ''outgoing epoch id'',
      require_safe_identifier (fe_outgoing_session_id r) ''outgoing session id'',
      require_safe_identifier (fe_outgoing_provider_id r) ''outgoing provider id'',
      require_safe_identifier (fe_checkpoint_id r) ''checkpoint id'',
      require_safe_identifier (fe_operation_owner_ref r) ''operation owner reference'',
      check_positive (fe_operation_generation r) ''operation generation must be positive'',
      check_timestamp (fe_created_at r) ''execution creation timestamp'',
      check_timestamp (fe_updated_at r) ''execution update timestamp'',
      validate_optional_identifier (fe_resume_result_ref r) ''resume result reference'',
      case fe_reason r of None \<Rightarrow> Inr ()
      | Some c \<Rightarrow> if redacted_category c then Inr () else Inl (ValueError ''execution reason must be a redacted category'')]"

record AgentRecoveryAttempt =
  rt_id :: string
  rt_idempotency_key :: string
  rt_execution_id :: string
  rt_decision_id :: string
  rt_instance_id :: string
  rt_outgoing_epoch_id :: string
  rt_provider_id :: string
  rt_internal_session_id :: string
  rt_external_session_id :: "string option"
  rt_operation_generation :: int
  rt_operation_owner_ref :: string
  rt_state :: AgentRecoveryAttemptState
  rt_created_at :: string
  rt_updated_at :: string

definition recovery_attempt_post_init :: "AgentRecoveryAttempt \<Rightarrow> unit result" where
  "recovery_attempt_post_init r = run_checks
     [require_safe_identifier (rt_id r) ''recovery attempt id'',
      require_safe_identifier (rt_idempotency_key r) ''recovery idempotency key'',
      require_safe_identifier (rt_execution_id r) ''failover execution id'',
      require_safe_identifier (rt_decision_id r) ''failover decision id'',
      require_safe_identifier (rt_instance_id r) ''instance id'',
      require_safe_identifier (rt_outgoing_epoch_id r) ''outgoing epoch id'',
      require_safe_identifier (rt_provider_id r) ''provider id'',
      require_safe_identifier (rt_internal_session_id r) ''internal session id'',
      require_safe_identifier (rt_operation_owner_ref r) ''operation owner reference'',
      validate_optional_identifier (rt_external_session_id r) ''external session id'',
      check_positive (rt_operation_generation r) ''operation generation must be positive'',
      check_timestamp (rt_created_at r) ''attempt creation timestamp'',
      check_timestamp (rt_updated_at r) ''attempt update timestamp'']"

definition ACKNOWLEDGED_RECOVERY_STATES :: "AgentOperationState set" where
  "ACKNOWLEDGED_RECOVERY_STATES = {Op_ACKNOWLEDGED, Op_RUNNING, Op_SUCCEEDED}"

record AgentRecoveryOutcome =
  ro_id :: string
  ro_attempt_id :: string
  ro_raw_result_id :: string
  ro_request_id :: string
  ro_provenance_ref :: string
  ro_state :: AgentOperationState
  ro_recorded_at :: string

definition recovery_outcome_post_init :: "AgentRecoveryOutcome \<Rightarrow> unit result" where
  "recovery_outcome_post_init r = run_checks
     [require_safe_identifier (ro_id r) ''recovery outcome id'',
      require_safe_identifier (ro_attempt_id r) ''recovery attempt id'',
      require_safe_identifier (ro_raw_result_id r) ''raw result id'',
      require_safe_identifier (ro_request_id r) ''request id'',
      require_safe_identifier (ro_provenance_ref r) ''result provenance reference'',
      if ro_state r \<notin> ACKNOWLEDGED_RECOVERY_STATES then Inl (ValueError ''recovery outcome state is not resumable'') else Inr (),
      check_timestamp (ro_recorded_at r) ''outcome timestamp'']"

record AgentRecoveryRequest =
  rq_id :: string
  rq_idempotency_key :: string
  rq_attempt_id :: string
  rq_execution_id :: string
  rq_instance_id :: string
  rq_driver_epoch_id :: string
  rq_provider_id :: string
  rq_internal_session_id :: string
  rq_external_session_id :: "string option"
  rq_requested_at :: string

definition recovery_request_post_init :: "AgentRecoveryRequest \<Rightarrow> unit result" where
  "recovery_request_post_init r = run_checks
     [require_safe_identifier (rq_id r) ''recovery request id'',
      require_safe_identifier (rq_idempotency_key r) ''recovery idempotency key'',
      require_safe_identifier (rq_attempt_id r) ''recovery attempt id'',
      require_safe_identifier (rq_execution_id r) ''failover execution id'',
      require_safe_identifier (rq_instance_id r) ''instance id'',
      require_safe_identifier (rq_driver_epoch_id r) ''driver epoch id'',
      require_safe_identifier (rq_provider_id r) ''provider id'',
      require_safe_identifier (rq_internal_session_id r) ''internal session id'',
      validate_optional_identifier (rq_external_session_id r) ''external session id'',
      check_timestamp (rq_requested_at r) ''recovery request timestamp'']"

record AgentHandoffPackage =
  hp_id :: string
  hp_instance_id :: string
  hp_outgoing_epoch_id :: string
  hp_incoming_provider_id :: string
  hp_objective :: string
  hp_checkpoint_id :: "string option"
  hp_required_capabilities :: AgentCapabilities
  hp_evidence :: "(string, pyval) pydict"
  hp_created_at :: "string option"
  hp_attestation_version :: "string option"
  hp_signature :: "string option"

definition handoff_package_post_init :: "AgentHandoffPackage \<Rightarrow> unit result" where
  "handoff_package_post_init r = run_checks
     [require_identifier (hp_id r) ''handoff id'',
      require_identifier (hp_instance_id r) ''instance id'',
      require_identifier (hp_outgoing_epoch_id r) ''outgoing epoch id'',
      require_identifier (hp_incoming_provider_id r) ''incoming provider id'',
      if blank (hp_objective r) then Inl (ValueError ''handoff objective must be non-empty'') else Inr (),
      validate_optional_identifier (hp_checkpoint_id r) ''checkpoint id'',
      if hp_attestation_version r \<noteq> None \<and> hp_attestation_version r \<noteq> Some ''hmac-sha256-v1'' then Inl (ValueError ''unsupported handoff attestation version'') else Inr (),
      case hp_signature r of None \<Rightarrow> Inr ()
      | Some s \<Rightarrow> if length s = 64 \<and> list_all (\<lambda>c. c \<in> set ''0123456789abcdef'') s then Inr ()
          else Inl (ValueError ''handoff signature must be a lowercase SHA-256 HMAC''),
      freeze_mapping (hp_evidence r)]"

end
