(* ===== verification/Agent_Store.thy ===== *)
theory Agent_Store
  imports Agent_Contracts
begin

text \<open>
  The agent tables of \<^verbatim>\<open>src/overseer/store.py\<close>: the sanitiser every agent record passes before it is
  written, the generic save with its immutable identity fields, the dispatches with the trigger that
  guards their insertion, operation reservations, transitions, activation reservations, sessions,
  epochs and results. A row is the record its payload loads to; the columns beside the payload repeat
  fields of the record. A stored mapping has its keys sorted. Every store call is one atomic step.
\<close>

section \<open>Sanitising\<close>

definition AGENT_CREDENTIAL_KEYS :: "string list" where
  "AGENT_CREDENTIAL_KEYS =
     [''credential'', ''credentials'', ''secret'', ''client_secret'', ''client_secret_value'', ''password'',
      ''authorization'', ''cookie'', ''private_key'', ''access_key'', ''api_key'', ''bearer'', ''token'',
      ''access_token'', ''refresh_token'', ''id_token'']"

definition AGENT_TRANSCRIPT_KEYS :: "string list" where
  "AGENT_TRANSCRIPT_KEYS =
     [''transcript'', ''conversation'', ''history'', ''raw_message'', ''raw_messages'', ''raw_output'',
      ''raw_outputs'', ''provider_output'', ''message'', ''messages'', ''output'', ''outputs'', ''prompt'',
      ''body'', ''content'']"

definition AGENT_SAFE_EVIDENCE_KEYS :: "string list" where
  "AGENT_SAFE_EVIDENCE_KEYS =
     [''status'', ''state'', ''reason'', ''available'', ''healthy'', ''provider'', ''model'', ''version'',
      ''capability'', ''reference'', ''hash'', ''duration'', ''duration_ms'', ''exit_code'']"

definition REDACTED_DISPATCH_PROMPT :: string where
  "REDACTED_DISPATCH_PROMPT = ''[redacted dispatch prompt]''"

definition REDACTED_AGENT_TRANSCRIPT :: string where
  "REDACTED_AGENT_TRANSCRIPT = ''[redacted agent transcript]''"

text \<open>
  \<^verbatim>\<open>_normalize_agent_key\<close>: an underscore between a lower-case letter or digit and a capital, then one
  between two capitals when a lower-case letter follows, then lower case with every run of other
  characters replaced by one underscore.
\<close>

definition is_upper :: "char \<Rightarrow> bool" where
  "is_upper c = (let n = (of_char c :: int) in 65 \<le> n \<and> n \<le> 90)"

definition is_lower :: "char \<Rightarrow> bool" where
  "is_lower c = (let n = (of_char c :: int) in 97 \<le> n \<and> n \<le> 122)"

fun camel_boundaries :: "char option \<Rightarrow> string \<Rightarrow> string" where
  "camel_boundaries prev [] = []"
| "camel_boundaries prev (c # s) =
     (case prev of
        Some p \<Rightarrow> if (is_lower p \<or> is_digit p) \<and> is_upper c then CHR ''_'' # c # camel_boundaries (Some c) s
                  else c # camel_boundaries (Some c) s
      | None \<Rightarrow> c # camel_boundaries (Some c) s)"

fun acronym_boundaries :: "char option \<Rightarrow> string \<Rightarrow> string" where
  "acronym_boundaries prev [] = []"
| "acronym_boundaries prev (c # s) =
     (if (case prev of Some p \<Rightarrow> is_upper p | None \<Rightarrow> False) \<and> is_upper c \<and> head_in is_lower s
      then CHR ''_'' # c # acronym_boundaries (Some c) s else c # acronym_boundaries (Some c) s)"

fun underscore_runs :: "bool \<Rightarrow> string \<Rightarrow> string" where
  "underscore_runs in_run [] = []"
| "underscore_runs in_run (c # s) =
     (if is_lower c \<or> is_digit c then c # underscore_runs False s
      else if in_run then underscore_runs True s else CHR ''_'' # underscore_runs True s)"

definition strip_underscores :: "string \<Rightarrow> string" where
  "strip_underscores s = rev (dropWhile (\<lambda>c. c = CHR ''_'') (rev (dropWhile (\<lambda>c. c = CHR ''_'') s)))"

definition normalize_agent_key :: "string \<Rightarrow> string" where
  "normalize_agent_key key =
     strip_underscores (underscore_runs False (py_lower (acronym_boundaries None (camel_boundaries None key))))"

definition is_safe_evidence_key :: "string option \<Rightarrow> bool" where
  "is_safe_evidence_key key =
     (case key of
        None \<Rightarrow> False
      | Some k \<Rightarrow> k \<in> set AGENT_SAFE_EVIDENCE_KEYS \<or>
          list_ex (endswith k) [''_id'', ''_ref'', ''_hash'', ''_at'', ''_count'', ''_tokens'', ''_units''] \<or>
          startswith k ''supports_'' \<or>
          list_ex (endswith k) [''_available'', ''_healthy'', ''_enabled'', ''_supported''])"

text \<open>
  \<^verbatim>\<open>\bbearer\s+\S+\<close>, \<^verbatim>\<open>\bsk-[A-Za-z0-9_-]{8,}\<close>, \<^verbatim>\<open>-----BEGIN(?: [A-Z]+)? PRIVATE KEY-----\<close> and
  \<^verbatim>\<open>(?:^|[;,\s])(?:session|auth|access)?_?token=\S+\<close>, ignoring case.
\<close>

definition token_assignment :: "string \<Rightarrow> bool" where
  "token_assignment s \<longleftrightarrow>
     list_ex (\<lambda>pre. list_ex (\<lambda>us. let p = pre @ us @ ''token=''
       in startswith s p \<and> head_in (\<lambda>c. \<not> is_space c) (drop (length p) s)) [[], ''_''])
       [[], ''session'', ''auth'', ''access'']"

definition private_key_header :: "string \<Rightarrow> bool" where
  "private_key_header s \<longleftrightarrow> startswith s ''-----begin'' \<and>
     (let r = drop 10 s; tail = '' private key-----''
      in startswith r tail \<or>
         (startswith r '' '' \<and> head_in is_letter (drop 1 r) \<and> startswith (dropWhile is_letter (drop 1 r)) tail))"

definition secret_value_at :: "char option \<Rightarrow> string \<Rightarrow> bool" where
  "secret_value_at prev s0 =
     (let s = py_lower s0
      in (word_start prev \<and> startswith s ''bearer'' \<and> head_in is_space (drop 6 s) \<and> dropWhile is_space (drop 6 s) \<noteq> []) \<or>
         (word_start prev \<and> startswith s ''sk-'' \<and> length s \<ge> 11 \<and>
            list_all (\<lambda>c. is_letter c \<or> is_digit c \<or> c \<in> set ''_-'') (take 8 (drop 3 s))) \<or>
         private_key_header s \<or>
         (prev = None \<and> token_assignment s) \<or>
         (head_in (\<lambda>c. c \<in> set '';,'' \<or> is_space c) s \<and> token_assignment (drop 1 s)))"

definition secret_value :: "string \<Rightarrow> bool" where
  "secret_value s = re_search secret_value_at None s"

definition CREDENTIAL_ERROR :: py_error where
  "CREDENTIAL_ERROR = ValueError ''agent records cannot persist credential material''"

text \<open>\<open>key\<close> is the normalised key the value stands under, \<open>dyn\<close> tells whether it is part of the evidence.\<close>

fun sanitize_agent_json :: "string option \<Rightarrow> bool \<Rightarrow> pyval \<Rightarrow> pyval result"
  and sanitize_agent_items :: "bool \<Rightarrow> (string \<times> pyval) list \<Rightarrow> (string \<times> pyval) list result"
  and sanitize_agent_list :: "string option \<Rightarrow> bool \<Rightarrow> pyval list \<Rightarrow> pyval list result" where
  "sanitize_agent_json key dyn v =
     (if key = Some ''prompt'' then Inr (PStr REDACTED_DISPATCH_PROMPT)
      else if key \<in> Some ` set AGENT_TRANSCRIPT_KEYS then Inr (PStr REDACTED_AGENT_TRANSCRIPT)
      else if key \<in> Some ` set AGENT_CREDENTIAL_KEYS then Inl CREDENTIAL_ERROR
      else case v of
        PDict kvs \<Rightarrow> map_sum id PDict (sanitize_agent_items
          (dyn \<or> key \<in> {Some ''evidence'', Some ''legacy_references''}) kvs)
      | PList vs \<Rightarrow> map_sum id PList (sanitize_agent_list key dyn vs)
      | PStr s \<Rightarrow>
          if secret_value s then Inl CREDENTIAL_ERROR
          else if dyn \<and> \<not> is_safe_evidence_key key then Inr (PStr ''[redacted agent evidence]'')
          else Inr (PStr s)
      | _ \<Rightarrow> Inr v)"
| "sanitize_agent_items dyn [] = Inr []"
| "sanitize_agent_items dyn ((k, v) # kvs) =
     res_bind (sanitize_agent_json (Some (normalize_agent_key k)) dyn v) (\<lambda>w.
     res_bind (sanitize_agent_items dyn kvs) (\<lambda>ws. Inr ((k, w) # ws)))"
| "sanitize_agent_list key dyn [] = Inr []"
| "sanitize_agent_list key dyn (v # vs) =
     res_bind (sanitize_agent_json key dyn v) (\<lambda>w.
     res_bind (sanitize_agent_list key dyn vs) (\<lambda>ws. Inr (w # ws)))"

declare sanitize_agent_json.simps [simp del]

text \<open>\<^verbatim>\<open>json.dumps(..., sort_keys=True)\<close>, read back.\<close>

fun json_sorted :: "pyval \<Rightarrow> pyval" where
  "json_sorted (PDict kvs) = PDict (sort_key fst (map (\<lambda>(k, v). (k, json_sorted v)) kvs))"
| "json_sorted (PList vs) = PList (map json_sorted vs)"
| "json_sorted PNone = PNone"
| "json_sorted (PBool b) = PBool b"
| "json_sorted (PInt i) = PInt i"
| "json_sorted (PFloat x) = PFloat x"
| "json_sorted (PStr s) = PStr s"

definition sanitize_mapping :: "(string, pyval) pydict \<Rightarrow> (string, pyval) pydict result" where
  "sanitize_mapping kvs =
     res_bind (sanitize_agent_items True kvs) (\<lambda>ws. Inr (sort_key fst (map (\<lambda>(k, v). (k, json_sorted v)) ws)))"

definition sanitize_text :: "string \<Rightarrow> unit result" where
  "sanitize_text s = (if secret_value s then Inl CREDENTIAL_ERROR else Inr ())"

definition sanitize_optional :: "string option \<Rightarrow> unit result" where
  "sanitize_optional v = (case v of None \<Rightarrow> Inr () | Some s \<Rightarrow> sanitize_text s)"

text \<open>
  A record as it is stored and read back: no text field looks like a secret, the prompt and the
  evidence are redacted, and the loaded record passes its own validation. All failures of the sanitiser
  raise the same error, so the order of the fields does not matter.
\<close>

definition stored_dispatch :: "AgentDispatchRequest \<Rightarrow> AgentDispatchRequest result" where
  "stored_dispatch d =
     res_bind (run_checks (map sanitize_text [dq_id d, dq_instance_id d, dq_session_id d, dq_driver_epoch_id d, dq_idempotency_key d] @
       map sanitize_optional [dq_requested_at d, dq_requested_by d])) (\<lambda>_.
     res_bind (sanitize_mapping (dq_evidence d)) (\<lambda>ev.
     let d' = d\<lparr>dq_prompt := REDACTED_DISPATCH_PROMPT, dq_evidence := ev\<rparr>
     in res_bind (agent_dispatch_post_init d') (\<lambda>_. Inr d')))"

definition stored_result :: "AgentDispatchResult \<Rightarrow> AgentDispatchResult result" where
  "stored_result r =
     res_bind (run_checks (map sanitize_text [dr_id r, dr_request_id r, dr_instance_id r, dr_session_id r, dr_driver_epoch_id r, dr_provider_id r] @
       map sanitize_optional [dr_error_message r, dr_provider_reference r, dr_external_session_id r, dr_acknowledged_at r, dr_completed_at r])) (\<lambda>_.
     res_bind (sanitize_mapping (dr_evidence r)) (\<lambda>ev.
     let r' = r\<lparr>dr_evidence := ev\<rparr>
     in res_bind (agent_dispatch_result_post_init r') (\<lambda>_. Inr r')))"

definition stored_session :: "AgentSession \<Rightarrow> AgentSession result" where
  "stored_session s =
     res_bind (run_checks (map sanitize_text [ags_id s, ags_provider_id s, ags_workspace s] @
       map sanitize_optional [ags_external_session_id s, ags_instance_id s, ags_model_profile_id s, ags_discovered_at s, ags_last_observed_at s])) (\<lambda>_.
     res_bind (sanitize_mapping (ags_legacy_references s)) (\<lambda>refs.
     let s' = s\<lparr>ags_legacy_references := refs\<rparr>
     in res_bind (agent_session_post_init s') (\<lambda>_. Inr s')))"

definition stored_handoff :: "AgentHandoffPackage \<Rightarrow> AgentHandoffPackage result" where
  "stored_handoff h =
     res_bind (run_checks (map sanitize_text [hp_id h, hp_instance_id h, hp_outgoing_epoch_id h, hp_incoming_provider_id h, hp_objective h] @
       map sanitize_optional [hp_checkpoint_id h, hp_created_at h, hp_attestation_version h, hp_signature h])) (\<lambda>_.
     res_bind (sanitize_mapping (hp_evidence h)) (\<lambda>ev.
     let h' = h\<lparr>hp_evidence := ev\<rparr>
     in res_bind (handoff_package_post_init h') (\<lambda>_. Inr h')))"

definition stored_epoch :: "DriverEpoch \<Rightarrow> DriverEpoch result" where
  "stored_epoch e =
     res_bind (run_checks (map sanitize_text [ep_id e, ep_instance_id e, ep_session_id e, ep_provider_id e] @
       map sanitize_optional [ep_opened_at e, ep_closed_at e, ep_reason e, ep_replacement_epoch_id e])) (\<lambda>_.
     res_bind (driver_epoch_post_init e) (\<lambda>_. Inr e))"

section \<open>Tables\<close>

record AgentActivationReservation =
  av_instance_id :: string
  av_reservation_id :: string
  av_owner_id :: string
  av_generation :: int
  av_state :: string
  av_started_at :: string
  av_lease_expires_at :: string
  av_epoch_id :: "string option"
  av_reason :: "string option"

record AgentStore =
  as_dispatches :: "AgentDispatchRequest tbl"
  as_results :: "AgentDispatchResult tbl"
  as_operations :: "AgentOperationReservation tbl"
  as_transitions :: "AgentInstanceTransition tbl"
  as_activations :: "AgentActivationReservation tbl"
  as_sessions :: "AgentSession tbl"
  as_epochs :: "DriverEpoch tbl"
  as_handoffs :: "AgentHandoffPackage tbl"

definition empty_agents :: AgentStore where
  "empty_agents = \<lparr>as_dispatches = [], as_results = [], as_operations = [], as_transitions = [],
     as_activations = [], as_sessions = [], as_epochs = [], as_handoffs = []\<rparr>"

text \<open>
  \<^verbatim>\<open>_save_agent_record\<close> on one table: \<open>same\<close> compares the immutable fields, \<open>blocked\<close> is the condition of a
  trigger on insertion.
\<close>

definition save_agent_record ::
  "string \<Rightarrow> ('r \<Rightarrow> string) \<Rightarrow> ('r \<Rightarrow> 'r \<Rightarrow> bool) \<Rightarrow> ('r \<Rightarrow> bool) \<Rightarrow> 'r result \<Rightarrow> 'r tbl \<Rightarrow> 'r tbl result" where
  "save_agent_record table ident same blocked sanitized t =
     res_bind sanitized (\<lambda>r. case tbl_get t (ident r) of
         Some existing \<Rightarrow>
           if \<not> same existing r then Inl (ValueError (table @ '' immutable identity cannot change''))
           else Inr (tbl_upsert (ident r) r t)
       | None \<Rightarrow>
           if blocked r then Inl (IntegrityError ''agent transition active'')
           else Inr (tbl_upsert (ident r) r t))"

definition reject_agent_secondary_collision :: "('r \<Rightarrow> bool) \<Rightarrow> string \<Rightarrow> string \<Rightarrow> 'r tbl \<Rightarrow> unit result" where
  "reject_agent_secondary_collision matches record_id label t =
     (case find (\<lambda>(k, r). matches r) t of
        Some (k, _) \<Rightarrow> if k \<noteq> record_id then Inl (ValueError (label @ '' already belongs to '' @ k)) else Inr ()
      | None \<Rightarrow> Inr ())"

subsection \<open>Dispatches and results\<close>

text \<open>
  The trigger \<^verbatim>\<open>agent_dispatch_transition_fence\<close>. A payload without a generation makes the comparison
  NULL, which does not fire the trigger on an open fence.
\<close>

definition generation_mismatch :: "pyval option \<Rightarrow> int \<Rightarrow> bool" where
  "generation_mismatch v generation =
     (case v of None \<Rightarrow> False | Some (PInt i) \<Rightarrow> i \<noteq> generation | Some _ \<Rightarrow> True)"

definition agent_dispatch_transition_fence :: "AgentStore \<Rightarrow> AgentDispatchRequest \<Rightarrow> bool" where
  "agent_dispatch_transition_fence st d \<longleftrightarrow>
     (case tbl_get (as_transitions st) (dq_instance_id d) of
        None \<Rightarrow> False
      | Some t \<Rightarrow> it_state t \<in> {Transit_IMPORTING, Transit_IMPORT_ACKNOWLEDGED, Transit_RECONCILING, Transit_FAILED}) \<or>
     (case tbl_get (as_operations st) (dq_instance_id d) of
        None \<Rightarrow> False
      | Some op \<Rightarrow> or_state op \<noteq> Fence_OPEN \<or>
          generation_mismatch (dict_get (dq_evidence d) ''operation_generation'') (or_generation op))"

definition same_dispatch :: "AgentDispatchRequest \<Rightarrow> AgentDispatchRequest \<Rightarrow> bool" where
  "same_dispatch a b \<longleftrightarrow> dq_id a = dq_id b \<and> dq_instance_id a = dq_instance_id b \<and> dq_session_id a = dq_session_id b \<and>
     dq_driver_epoch_id a = dq_driver_epoch_id b \<and> dq_idempotency_key a = dq_idempotency_key b \<and>
     dq_requested_at a = dq_requested_at b \<and> dq_requested_by a = dq_requested_by b"

definition save_agent_dispatch :: "AgentDispatchRequest \<Rightarrow> AgentStore \<Rightarrow> AgentStore \<times> unit result" where
  "save_agent_dispatch d st =
     (case res_bind (reject_agent_secondary_collision
             (\<lambda>r. dq_instance_id r = dq_instance_id d \<and> dq_idempotency_key r = dq_idempotency_key d)
             (dq_id d) ''dispatch idempotency key'' (as_dispatches st)) (\<lambda>_.
           save_agent_record ''agent_dispatches'' dq_id same_dispatch (agent_dispatch_transition_fence st)
             (stored_dispatch d) (as_dispatches st)) of
        Inl e \<Rightarrow> (st, Inl e)
      | Inr t \<Rightarrow> (st\<lparr>as_dispatches := t\<rparr>, Inr ()))"

definition load_agent_dispatch :: "string \<Rightarrow> AgentStore \<Rightarrow> AgentDispatchRequest result" where
  "load_agent_dispatch i st =
     (case tbl_get (as_dispatches st) i of None \<Rightarrow> Inl (KeyError i) | Some d \<Rightarrow> Inr d)"

definition list_agent_dispatches :: "AgentStore \<Rightarrow> AgentDispatchRequest list" where
  "list_agent_dispatches st = map snd (as_dispatches st)"

definition load_agent_dispatch_by_idempotency :: "string \<Rightarrow> string \<Rightarrow> AgentStore \<Rightarrow> AgentDispatchRequest result" where
  "load_agent_dispatch_by_idempotency instance_id key st =
     (case find (\<lambda>d. dq_instance_id d = instance_id \<and> dq_idempotency_key d = key) (list_agent_dispatches st) of
        None \<Rightarrow> Inl (KeyError key) | Some d \<Rightarrow> Inr d)"

definition save_agent_dispatch_result :: "AgentDispatchResult \<Rightarrow> AgentStore \<Rightarrow> AgentStore \<times> unit result" where
  "save_agent_dispatch_result r st =
     (case save_agent_record ''agent_dispatch_results'' dr_id (=) (\<lambda>_. False) (stored_result r) (as_results st) of
        Inl e \<Rightarrow> (st, Inl e)
      | Inr t \<Rightarrow> (st\<lparr>as_results := t\<rparr>, Inr ()))"

subsection \<open>Operation reservations\<close>

definition load_agent_operation :: "string \<Rightarrow> AgentStore \<Rightarrow> AgentOperationReservation result" where
  "load_agent_operation instance_id st =
     (case tbl_get (as_operations st) instance_id of None \<Rightarrow> Inl (KeyError instance_id) | Some op \<Rightarrow> Inr op)"

text \<open>\<^verbatim>\<open>INSERT OR IGNORE\<close> of an open fence of generation 1.\<close>

definition ensure_agent_operation ::
  "string \<Rightarrow> string \<Rightarrow> AgentStore \<Rightarrow> AgentStore \<times> AgentOperationReservation result" where
  "ensure_agent_operation instance_id updated_at st =
     (let op = \<lparr>or_instance_id = instance_id, or_generation = 1, or_state = Fence_OPEN, or_owner_token = None,
            or_updated_at = updated_at\<rparr>
      in case agent_operation_post_init op of
           Inl e \<Rightarrow> (st, Inl e)
         | Inr _ \<Rightarrow>
             (let st' = (case tbl_get (as_operations st) instance_id of
                    Some _ \<Rightarrow> st
                  | None \<Rightarrow> st\<lparr>as_operations := tbl_upsert instance_id op (as_operations st)\<rparr>)
              in (st', load_agent_operation instance_id st')))"

text \<open>The compare-and-swap on generation, state and owner.\<close>

definition save_agent_operation ::
  "AgentOperationReservation \<Rightarrow> int \<Rightarrow> AgentOperationFenceState \<Rightarrow> string option \<Rightarrow> AgentStore \<Rightarrow>
   AgentStore \<times> unit result" where
  "save_agent_operation op expected_generation expected_state expected_owner st =
     (case tbl_get (as_operations st) (or_instance_id op) of
        Some cur \<Rightarrow>
          if or_generation cur = expected_generation \<and> or_state cur = expected_state \<and> or_owner_token cur = expected_owner
          then (st\<lparr>as_operations := tbl_upsert (or_instance_id op) op (as_operations st)\<rparr>, Inr ())
          else (st, Inl (ValueError ''agent operation reservation changed concurrently''))
      | None \<Rightarrow> (st, Inl (ValueError ''agent operation reservation changed concurrently'')))"

subsection \<open>Transitions\<close>

fun transition_successors :: "AgentTransitionState \<Rightarrow> AgentTransitionState set" where
  "transition_successors Transit_IMPORTING =
     {Transit_IMPORT_ACKNOWLEDGED, Transit_RECONCILING, Transit_FAILED, Transit_ROLLED_BACK}"
| "transition_successors Transit_IMPORT_ACKNOWLEDGED = {Transit_COMPLETED, Transit_FAILED, Transit_ROLLED_BACK}"
| "transition_successors Transit_RECONCILING =
     {Transit_IMPORT_ACKNOWLEDGED, Transit_RECONCILING, Transit_FAILED, Transit_ROLLED_BACK}"
| "transition_successors Transit_FAILED = {Transit_RECONCILING, Transit_ROLLED_BACK}"
| "transition_successors Transit_COMPLETED = {}"
| "transition_successors Transit_ROLLED_BACK = {}"

definition load_agent_transition :: "string \<Rightarrow> AgentStore \<Rightarrow> AgentInstanceTransition result" where
  "load_agent_transition instance_id st =
     (case tbl_get (as_transitions st) instance_id of None \<Rightarrow> Inl (KeyError instance_id) | Some t \<Rightarrow> Inr t)"

definition begin_agent_transition :: "AgentInstanceTransition \<Rightarrow> AgentStore \<Rightarrow> AgentStore \<times> bool result" where
  "begin_agent_transition t st =
     (if it_state t \<noteq> Transit_IMPORTING
      then (st, Inl (ValueError ''new agent transition must begin in importing state''))
      else case tbl_get (as_transitions st) (it_instance_id t) of
        Some old \<Rightarrow>
          if it_state old \<in> {Transit_COMPLETED, Transit_ROLLED_BACK}
          then (st\<lparr>as_transitions := tbl_upsert (it_instance_id t) t (as_transitions st)\<rparr>, Inr True)
          else (st, Inr False)
      | None \<Rightarrow> (st\<lparr>as_transitions := tbl_upsert (it_instance_id t) t (as_transitions st)\<rparr>, Inr True))"

definition save_agent_transition :: "AgentInstanceTransition \<Rightarrow> AgentStore \<Rightarrow> AgentStore \<times> unit result" where
  "save_agent_transition t st =
     (case load_agent_transition (it_instance_id t) st of
        Inl e \<Rightarrow> (st, Inl e)
      | Inr cur \<Rightarrow>
          if it_handoff_id cur \<noteq> it_handoff_id t \<or> it_outgoing_epoch_id cur \<noteq> it_outgoing_epoch_id t \<or>
             it_incoming_epoch_id cur \<noteq> it_incoming_epoch_id t
          then (st, Inl (ValueError ''agent transition identity cannot change''))
          else if it_state t \<notin> transition_successors (it_state cur)
          then (st, Inl (ValueError (''invalid agent transition '' @ transition_state_value (it_state cur) @ '' to '' @
                 transition_state_value (it_state t))))
          else (st\<lparr>as_transitions := tbl_upsert (it_instance_id t) t (as_transitions st)\<rparr>, Inr ()))"

definition list_agent_transitions :: "AgentStore \<Rightarrow> AgentInstanceTransition list" where
  "list_agent_transitions st = map snd (as_transitions st)"

subsection \<open>Activation reservations, sessions and epochs\<close>

text \<open>\<open>julianday\<close> is the SQLite function; NULL, on text it cannot read, makes a comparison false.\<close>

definition reserve_agent_activation ::
  "(string \<Rightarrow> rat option) \<Rightarrow> string \<Rightarrow> string \<Rightarrow> string \<Rightarrow> string \<Rightarrow> string \<Rightarrow> bool \<Rightarrow> string \<Rightarrow> AgentStore \<Rightarrow>
   AgentStore \<times> bool" where
  "reserve_agent_activation julianday instance_id reservation_id owner_id started_at lease_expires_at
     allow_blocked_retry observed_at st =
     (let put = (\<lambda>gen. st\<lparr>as_activations := tbl_upsert instance_id
            \<lparr>av_instance_id = instance_id, av_reservation_id = reservation_id, av_owner_id = owner_id, av_generation = gen,
             av_state = ''starting'', av_started_at = started_at, av_lease_expires_at = lease_expires_at,
             av_epoch_id = None, av_reason = None\<rparr> (as_activations st)\<rparr>)
      in case tbl_get (as_activations st) instance_id of
           None \<Rightarrow> (put 1, True)
         | Some cur \<Rightarrow>
             if (av_state cur = ''blocked'' \<and> allow_blocked_retry) \<or>
                (av_state cur = ''starting'' \<and>
                 (case (julianday (av_lease_expires_at cur), julianday observed_at) of
                    (Some a, Some b) \<Rightarrow> a \<le> b | _ \<Rightarrow> False))
             then (put (av_generation cur + 1), True) else (st, False))"

definition load_agent_activation :: "string \<Rightarrow> AgentStore \<Rightarrow> AgentActivationReservation result" where
  "load_agent_activation instance_id st =
     (case tbl_get (as_activations st) instance_id of None \<Rightarrow> Inl (KeyError instance_id) | Some a \<Rightarrow> Inr a)"

definition finish_agent_activation ::
  "string \<Rightarrow> string \<Rightarrow> string \<Rightarrow> int \<Rightarrow> string \<Rightarrow> string option \<Rightarrow> string option \<Rightarrow> AgentStore \<Rightarrow> AgentStore \<times> unit result" where
  "finish_agent_activation instance_id reservation_id owner_id generation state epoch_id reason st =
     (case tbl_get (as_activations st) instance_id of
        Some cur \<Rightarrow>
          if av_reservation_id cur = reservation_id \<and> av_owner_id cur = owner_id \<and> av_generation cur = generation \<and>
             av_state cur = ''starting''
          then (st\<lparr>as_activations := tbl_upsert instance_id
                  (cur\<lparr>av_state := state, av_epoch_id := epoch_id, av_reason := reason\<rparr>) (as_activations st)\<rparr>, Inr ())
          else (st, Inl (ValueError ''activation reservation ownership changed''))
      | None \<Rightarrow> (st, Inl (ValueError ''activation reservation ownership changed'')))"

definition load_agent_session :: "string \<Rightarrow> AgentStore \<Rightarrow> AgentSession result" where
  "load_agent_session i st = (case tbl_get (as_sessions st) i of None \<Rightarrow> Inl (KeyError i) | Some s \<Rightarrow> Inr s)"

definition list_agent_sessions :: "AgentStore \<Rightarrow> AgentSession list" where
  "list_agent_sessions st = map snd (as_sessions st)"

definition same_session :: "AgentSession \<Rightarrow> AgentSession \<Rightarrow> bool" where
  "same_session a b \<longleftrightarrow> ags_id a = ags_id b \<and> ags_provider_id a = ags_provider_id b \<and> ags_workspace a = ags_workspace b \<and>
     ags_transport a = ags_transport b \<and> ags_instance_id a = ags_instance_id b \<and>
     ags_model_profile_id a = ags_model_profile_id b \<and> ags_discovered_at a = ags_discovered_at b"

definition save_agent_session :: "AgentSession \<Rightarrow> AgentStore \<Rightarrow> AgentStore \<times> unit result" where
  "save_agent_session s st =
     (if (case tbl_get (as_sessions st) (ags_id s) of
            None \<Rightarrow> False
          | Some old \<Rightarrow> ags_external_session_id old \<noteq> None \<and> ags_external_session_id s \<noteq> ags_external_session_id old)
      then (st, Inl (ValueError ''agent_sessions immutable identity field external_session_id cannot change''))
      else case save_agent_record ''agent_sessions'' ags_id same_session (\<lambda>_. False) (stored_session s) (as_sessions st) of
        Inl e \<Rightarrow> (st, Inl e)
      | Inr t \<Rightarrow> (st\<lparr>as_sessions := t\<rparr>, Inr ()))"

definition same_epoch :: "DriverEpoch \<Rightarrow> DriverEpoch \<Rightarrow> bool" where
  "same_epoch a b \<longleftrightarrow> ep_id a = ep_id b \<and> ep_instance_id a = ep_instance_id b \<and> ep_session_id a = ep_session_id b \<and>
     ep_provider_id a = ep_provider_id b \<and> ep_ordinal a = ep_ordinal b \<and> ep_opened_at a = ep_opened_at b"

definition save_driver_epoch :: "DriverEpoch \<Rightarrow> AgentStore \<Rightarrow> AgentStore \<times> unit result" where
  "save_driver_epoch e st =
     (case res_bind (reject_agent_secondary_collision
             (\<lambda>r. ep_instance_id r = ep_instance_id e \<and> ep_ordinal r = ep_ordinal e)
             (ep_id e) ''driver epoch instance_id and ordinal'' (as_epochs st)) (\<lambda>_.
           save_agent_record ''agent_driver_epochs'' ep_id same_epoch (\<lambda>_. False) (stored_epoch e) (as_epochs st)) of
        Inl err \<Rightarrow> (st, Inl err)
      | Inr t \<Rightarrow> (st\<lparr>as_epochs := t\<rparr>, Inr ()))"

definition load_driver_epoch :: "string \<Rightarrow> AgentStore \<Rightarrow> DriverEpoch result" where
  "load_driver_epoch i st = (case tbl_get (as_epochs st) i of None \<Rightarrow> Inl (KeyError i) | Some e \<Rightarrow> Inr e)"

definition same_handoff :: "AgentHandoffPackage \<Rightarrow> AgentHandoffPackage \<Rightarrow> bool" where
  "same_handoff a b \<longleftrightarrow> hp_id a = hp_id b \<and> hp_instance_id a = hp_instance_id b \<and>
     hp_outgoing_epoch_id a = hp_outgoing_epoch_id b \<and> hp_incoming_provider_id a = hp_incoming_provider_id b \<and>
     hp_objective a = hp_objective b \<and> hp_checkpoint_id a = hp_checkpoint_id b \<and>
     hp_required_capabilities a = hp_required_capabilities b \<and> hp_created_at a = hp_created_at b"

definition save_agent_handoff :: "AgentHandoffPackage \<Rightarrow> AgentStore \<Rightarrow> AgentStore \<times> unit result" where
  "save_agent_handoff h st =
     (case save_agent_record ''agent_handoffs'' hp_id same_handoff (\<lambda>_. False) (stored_handoff h) (as_handoffs st) of
        Inl e \<Rightarrow> (st, Inl e)
      | Inr t \<Rightarrow> (st\<lparr>as_handoffs := t\<rparr>, Inr ()))"

definition list_agent_handoffs :: "AgentStore \<Rightarrow> AgentHandoffPackage list" where
  "list_agent_handoffs st = map snd (as_handoffs st)"

definition list_driver_epochs :: "AgentStore \<Rightarrow> DriverEpoch list" where
  "list_driver_epochs st = map snd (as_epochs st)"

section \<open>What sanitising guarantees\<close>

text \<open>A value free of credential keys and of texts that look like secrets.\<close>

fun json_clean :: "pyval \<Rightarrow> bool" where
  "json_clean (PDict kvs) \<longleftrightarrow>
     list_all (\<lambda>(k, v). normalize_agent_key k \<notin> set AGENT_CREDENTIAL_KEYS \<and> json_clean v) kvs"
| "json_clean (PList vs) \<longleftrightarrow> list_all json_clean vs"
| "json_clean (PStr s) \<longleftrightarrow> \<not> secret_value s"
| "json_clean PNone \<longleftrightarrow> True"
| "json_clean (PBool b) \<longleftrightarrow> True"
| "json_clean (PInt i) \<longleftrightarrow> True"
| "json_clean (PFloat x) \<longleftrightarrow> True"

lemma redacted_not_secret [simp]:
  "\<not> secret_value REDACTED_DISPATCH_PROMPT"
  "\<not> secret_value REDACTED_AGENT_TRANSCRIPT"
  "\<not> secret_value ''[redacted agent evidence]''"
  by code_simp+

lemma credential_keys_not_transcript:
  "k \<in> set AGENT_CREDENTIAL_KEYS \<Longrightarrow> k \<notin> set AGENT_TRANSCRIPT_KEYS \<and> k \<noteq> ''prompt''"
  by (auto simp: AGENT_CREDENTIAL_KEYS_def AGENT_TRANSCRIPT_KEYS_def)

lemma sanitize_credential:
  "k \<in> set AGENT_CREDENTIAL_KEYS \<Longrightarrow> sanitize_agent_json (Some k) dyn v = Inl CREDENTIAL_ERROR"
  using credential_keys_not_transcript [of k] by (auto simp: sanitize_agent_json.simps)

lemma map_sum_Inr_iff: "map_sum f g x = Inr y \<longleftrightarrow> (\<exists>z. x = Inr z \<and> y = g z)"
  by (cases x) auto

lemma sanitize_clean:
  "sanitize_agent_json key dyn v = Inr w \<Longrightarrow> json_clean w"
  "sanitize_agent_items dyn kvs = Inr ws \<Longrightarrow> json_clean (PDict ws)"
  "sanitize_agent_list key dyn vs = Inr us \<Longrightarrow> json_clean (PList us)"
proof (induction key dyn v and dyn kvs and key dyn vs arbitrary: w and ws and us
    rule: sanitize_agent_json_sanitize_agent_items_sanitize_agent_list.induct)
  case (1 key dyn v)
  then show ?case
    by (auto simp: sanitize_agent_json.simps [of key dyn v] map_sum_Inr_iff split: if_splits pyval.splits)
next
  case (3 dyn k v kvs)
  then show ?case using sanitize_credential by (fastforce simp: res_bind_Inr_iff)
qed (auto simp: res_bind_Inr_iff)

lemma sanitize_idem:
  "sanitize_agent_json key dyn v = Inr w \<Longrightarrow> sanitize_agent_json key dyn w = Inr w"
  "sanitize_agent_items dyn kvs = Inr ws \<Longrightarrow> sanitize_agent_items dyn ws = Inr ws"
  "sanitize_agent_list key dyn vs = Inr us \<Longrightarrow> sanitize_agent_list key dyn us = Inr us"
proof (induction key dyn v and dyn kvs and key dyn vs arbitrary: w and ws and us
    rule: sanitize_agent_json_sanitize_agent_items_sanitize_agent_list.induct)
  case (1 key dyn v)
  then show ?case
    by (auto simp: sanitize_agent_json.simps map_sum_Inr_iff split: if_splits pyval.splits)
qed (auto simp: res_bind_Inr_iff)


text \<open>Sorting the keys changes neither a lookup nor what the sanitiser accepts.\<close>

lemma sanitize_items_iff:
  "sanitize_agent_items dyn kvs = Inr kvs \<longleftrightarrow>
     (\<forall>(k, v) \<in> set kvs. sanitize_agent_json (Some (normalize_agent_key k)) dyn v = Inr v)"
  by (induction kvs) (auto simp: res_bind_Inr_iff)

lemma sanitize_list_iff:
  "sanitize_agent_list key dyn vs = Inr vs \<longleftrightarrow> (\<forall>v \<in> set vs. sanitize_agent_json key dyn v = Inr v)"
  by (induction vs) (auto simp: res_bind_Inr_iff)

lemma sanitize_json_sorted:
  "sanitize_agent_json key dyn w = Inr w \<Longrightarrow> sanitize_agent_json key dyn (json_sorted w) = Inr (json_sorted w)"
proof (induction w arbitrary: key dyn rule: json_sorted.induct)
  case (1 kvs)
  then show ?case
    by (fastforce simp: sanitize_agent_json.simps [of key dyn "PDict _"] sanitize_items_iff map_sum_Inr_iff split: if_splits)
next
  case (2 vs)
  then show ?case
    by (auto simp: sanitize_agent_json.simps [of key dyn "PList _"] sanitize_list_iff map_sum_Inr_iff split: if_splits)
qed simp_all

lemma json_clean_sorted: "json_clean (json_sorted v) = json_clean v"
  by (induction v rule: json_sorted.induct) (fastforce simp: list_all_iff)+

lemma sort_key_id: "sorted (map f xs) \<Longrightarrow> sort_key f xs = xs"
  by (induction xs) (auto simp: insort_is_Cons)

lemma json_sorted_idem: "json_sorted (json_sorted v) = json_sorted v"
proof (induction v rule: json_sorted.induct)
  case (1 kvs)
  let ?f = "\<lambda>(k, v). (k, json_sorted v)"
  have "map ?f (sort_key fst (map ?f kvs)) = sort_key fst (map ?f kvs)"
    using 1 by (intro map_idI) auto
  then show ?case by (simp add: sort_key_id)
qed simp_all


text \<open>Lookups in a stored mapping, and storing it again.\<close>

lemma sanitize_items_get:
  "sanitize_agent_items dyn kvs = Inr ws \<Longrightarrow>
   (case map_of kvs k of
      None \<Rightarrow> map_of ws k = None
    | Some v \<Rightarrow> \<exists>w. sanitize_agent_json (Some (normalize_agent_key k)) dyn v = Inr w \<and> map_of ws k = Some w)"
  by (induction kvs arbitrary: ws) (auto simp: res_bind_Inr_iff split: option.splits if_splits)

lemma sanitize_mapping_get:
  assumes "sanitize_mapping kvs = Inr ev"
  shows "case dict_get kvs k of
      None \<Rightarrow> dict_get ev k = None
    | Some v \<Rightarrow> \<exists>w. sanitize_agent_json (Some (normalize_agent_key k)) True v = Inr w \<and> dict_get ev k = Some (json_sorted w)"
proof -
  obtain ws where "sanitize_agent_items True kvs = Inr ws" "ev = sort_key fst (map (\<lambda>(k, v). (k, json_sorted v)) ws)"
    using assms by (auto simp: sanitize_mapping_def res_bind_Inr_iff)
  with sanitize_items_get [of True kvs ws k] show ?thesis
    by (auto simp: dict_get_def map_of_sort_key map_of_map_snd split: option.splits)
qed

lemma sanitize_mapping_idem:
  assumes "sanitize_mapping kvs = Inr ev"
  shows "sanitize_agent_items True ev = Inr ev \<and> map (\<lambda>(k, v). (k, json_sorted v)) ev = ev"
proof -
  obtain ws where ws: "sanitize_agent_items True kvs = Inr ws" "ev = sort_key fst (map (\<lambda>(k, v). (k, json_sorted v)) ws)"
    using assms by (auto simp: sanitize_mapping_def res_bind_Inr_iff)
  have "sanitize_agent_items True ws = Inr ws" by (rule sanitize_idem(2) [OF ws(1)])
  then have "\<forall>(k, v) \<in> set ev. sanitize_agent_json (Some (normalize_agent_key k)) True v = Inr v"
    using sanitize_json_sorted by (fastforce simp: sanitize_items_iff ws(2))
  moreover have "map (\<lambda>(k, v). (k, json_sorted v)) ev = ev"
    by (intro map_idI) (auto simp: ws(2) json_sorted_idem)
  ultimately show ?thesis by (simp add: sanitize_items_iff)
qed

lemma dict_set_items: "set (dict_set k v d) \<subseteq> insert (k, v) (set d)"
  unfolding dict_set_def by (induction d) auto

text \<open>Writing a scalar under a key the sanitiser keeps succeeds on a stored mapping.\<close>

lemma sanitize_mapping_set:
  assumes "sanitize_mapping kvs = Inr ev" "sanitize_agent_json (Some (normalize_agent_key k)) True v = Inr v" "json_sorted v = v"
  shows "sanitize_mapping (dict_set k v ev) = Inr (sort_key fst (dict_set k v ev))"
proof -
  note ev = sanitize_mapping_idem [OF assms(1)]
  have "sanitize_agent_items True (dict_set k v ev) = Inr (dict_set k v ev)"
    using ev assms(2) dict_set_items [of k v ev] by (fastforce simp: sanitize_items_iff)
  moreover have "map (\<lambda>(k, v). (k, json_sorted v)) (dict_set k v ev) = dict_set k v ev"
    using ev assms(3) dict_set_items [of k v ev]
    by (intro map_idI) (fastforce simp: map_idI dest: map_eq_conv [THEN iffD1, of _ _ id, simplified])
  ultimately show ?thesis by (simp add: sanitize_mapping_def)
qed

lemma evidence_keys [simp]:
  "normalize_agent_key ''status'' = ''status''"
  "normalize_agent_key ''operation_generation'' = ''operation_generation''"
  by code_simp+

lemma sanitize_status: "\<not> secret_value s \<Longrightarrow> sanitize_agent_json (Some ''status'') True (PStr s) = Inr (PStr s)"
  by (simp add: sanitize_agent_json.simps AGENT_TRANSCRIPT_KEYS_def AGENT_CREDENTIAL_KEYS_def is_safe_evidence_key_def
    AGENT_SAFE_EVIDENCE_KEYS_def)

lemma sanitize_status_cases:
  "sanitize_agent_json (Some ''status'') True (PStr s) = Inr w \<Longrightarrow> w = PStr s"
  by (auto simp: sanitize_agent_json.simps AGENT_TRANSCRIPT_KEYS_def AGENT_CREDENTIAL_KEYS_def is_safe_evidence_key_def
    AGENT_SAFE_EVIDENCE_KEYS_def split: if_splits)

lemma sanitize_generation: "sanitize_agent_json (Some ''operation_generation'') True (PInt i) = Inr (PInt i)"
  by (simp add: sanitize_agent_json.simps AGENT_TRANSCRIPT_KEYS_def AGENT_CREDENTIAL_KEYS_def)

end
