(* ===== verification/Agent_Operations.thy ===== *)
theory Agent_Operations
  imports Agent_Store
begin

text \<open>
  The operation coordinator of \<^verbatim>\<open>src/overseer/agent_operations.py\<close>: fencing an agent instance, binding a
  dispatch to the generation of the fence, claiming it for execution, completing it, and draining what
  is in flight. An operation that reads and then writes outside a transaction is split into its two
  parts, so that the parts of concurrent calls can interleave. \<open>clock k\<close> is the text of the k-th
  clock reading of a call.
\<close>

section \<open>Evidence\<close>

text \<open>\<^verbatim>\<open>evidence.get(key)\<close>, and \<open>==\<close> on what it returns: numbers and booleans compare by value.\<close>

definition ev_get :: "(string, pyval) pydict \<Rightarrow> string \<Rightarrow> pyval" where
  "ev_get ev key = (case dict_get ev key of None \<Rightarrow> PNone | Some v \<Rightarrow> v)"

fun py_number :: "pyval \<Rightarrow> rat option" where
  "py_number (PInt i) = Some (of_int i)"
| "py_number (PBool b) = Some (if b then 1 else 0)"
| "py_number (PFloat x) = Some x"
| "py_number PNone = None"
| "py_number (PStr s) = None"
| "py_number (PList vs) = None"
| "py_number (PDict kvs) = None"

definition py_equal :: "pyval \<Rightarrow> pyval \<Rightarrow> bool" where
  "py_equal a b = (case (py_number a, py_number b) of (Some x, Some y) \<Rightarrow> x = y | _ \<Rightarrow> a = b)"

definition dispatch_status :: "AgentDispatchRequest \<Rightarrow> pyval" where
  "dispatch_status d = ev_get (dq_evidence d) ''status''"

definition with_status :: "string \<Rightarrow> AgentDispatchRequest \<Rightarrow> AgentDispatchRequest" where
  "with_status s d = d\<lparr>dq_evidence := dict_set ''status'' (PStr s) (dq_evidence d)\<rparr>"

definition TERMINAL_DISPATCH_STATUSES :: "string list" where
  "TERMINAL_DISPATCH_STATUSES =
     map operation_state_value [Op_SUCCEEDED, Op_FAILED, Op_BLOCKED, Op_CANCELLED, Op_QUARANTINED]"

section \<open>The fence\<close>

definition reserve ::
  "(nat \<Rightarrow> string) \<Rightarrow> string \<Rightarrow> string \<Rightarrow> AgentStore \<Rightarrow> AgentStore \<times> AgentOperationReservation result" where
  "reserve clock instance_id owner_token st =
     (case ensure_agent_operation instance_id (clock 0) st of
        (_, Inl e) \<Rightarrow> (st, Inl e)
      | (st1, Inr current) \<Rightarrow>
          if or_state current \<noteq> Fence_OPEN
          then (st, Inl (AgentOperationBlockedError (''agent instance '' @ instance_id @ '' operation is already fenced'')))
          else
            (let reserved = current\<lparr>or_state := Fence_FENCED, or_owner_token := Some owner_token, or_updated_at := clock 1\<rparr>
             in case agent_operation_post_init reserved of
                  Inl e \<Rightarrow> (st, Inl e)
                | Inr _ \<Rightarrow>
                    (case save_agent_operation reserved (or_generation current) Fence_OPEN None st1 of
                       (_, Inl e) \<Rightarrow> (st, Inl e)
                     | (st2, Inr _) \<Rightarrow> (st2, Inr reserved))))"

definition require_open ::
  "(nat \<Rightarrow> string) \<Rightarrow> string \<Rightarrow> AgentStore \<Rightarrow> AgentStore \<times> AgentOperationReservation result" where
  "require_open clock instance_id st =
     (case ensure_agent_operation instance_id (clock 0) st of
        (st1, Inl e) \<Rightarrow> (st1, Inl e)
      | (st1, Inr op) \<Rightarrow>
          if or_state op \<noteq> Fence_OPEN
          then (st1, Inl (AgentOperationBlockedError (''agent instance '' @ instance_id @ '' operation is fenced'')))
          else (st1, Inr op))"

definition verify_owned :: "AgentOperationReservation \<Rightarrow> AgentStore \<Rightarrow> unit result" where
  "verify_owned r st =
     (case load_agent_operation (or_instance_id r) st of
        Inl _ \<Rightarrow> Inl (AgentOperationBlockedError (''agent instance '' @ or_instance_id r @ '' reservation was lost''))
      | Inr current \<Rightarrow>
          if current \<noteq> r
          then Inl (AgentOperationBlockedError (''agent instance '' @ or_instance_id r @ '' reservation ownership changed''))
          else Inr ())"

definition release ::
  "(nat \<Rightarrow> string) \<Rightarrow> AgentOperationReservation \<Rightarrow> AgentStore \<Rightarrow> AgentStore \<times> AgentOperationReservation result" where
  "release clock r st =
     (let released = r\<lparr>or_generation := or_generation r + 1, or_state := Fence_OPEN, or_owner_token := None,
            or_updated_at := clock 0\<rparr>
      in case agent_operation_post_init released of
           Inl e \<Rightarrow> (st, Inl e)
         | Inr _ \<Rightarrow>
             (case save_agent_operation released (or_generation r) Fence_FENCED (or_owner_token r) st of
                (_, Inl e) \<Rightarrow> (st, Inl e)
              | (st1, Inr _) \<Rightarrow> (st1, Inr released)))"

definition release_if_owned ::
  "(nat \<Rightarrow> string) \<Rightarrow> AgentOperationReservation \<Rightarrow> AgentStore \<Rightarrow> AgentStore \<times> bool result" where
  "release_if_owned clock r st =
     (case verify_owned r st of
        Inl _ \<Rightarrow> (st, Inr False)
      | Inr _ \<Rightarrow> map_prod id (map_sum id (\<lambda>_. True)) (release clock r st))"

section \<open>Dispatches\<close>

text \<open>\<open>accept_dispatch\<close> reads the fence, then saves the dispatch bound to the generation it read.\<close>

definition accept_begin ::
  "(nat \<Rightarrow> string) \<Rightarrow> AgentDispatchRequest \<Rightarrow> AgentStore \<Rightarrow> AgentStore \<times> AgentDispatchRequest result" where
  "accept_begin clock request st =
     map_prod id (map_sum id (\<lambda>op. request\<lparr>dq_evidence :=
         dict_set ''status'' (PStr ''accepted'')
           (dict_set ''operation_generation'' (PInt (or_generation op)) (dq_evidence request))\<rparr>))
       (require_open clock (dq_instance_id request) st)"

definition accept_dispatch ::
  "(nat \<Rightarrow> string) \<Rightarrow> AgentDispatchRequest \<Rightarrow> AgentStore \<Rightarrow> AgentStore \<times> AgentDispatchRequest result" where
  "accept_dispatch clock request st =
     (case accept_begin clock request st of
        (st1, Inl e) \<Rightarrow> (st1, Inl e)
      | (st1, Inr accepted) \<Rightarrow> map_prod id (map_sum id (\<lambda>_. accepted)) (save_agent_dispatch accepted st1))"

definition claim_dispatch_execution :: "AgentDispatchRequest \<Rightarrow> AgentStore \<Rightarrow> AgentStore \<times> bool result" where
  "claim_dispatch_execution request st =
     (case load_agent_dispatch (dq_id request) st of
        Inl e \<Rightarrow> (st, Inl e)
      | Inr current \<Rightarrow>
          (case load_agent_operation (dq_instance_id request) st of
             Inl e \<Rightarrow> (st, Inl e)
           | Inr op \<Rightarrow>
               if dispatch_status current \<noteq> PStr ''accepted'' then (st, Inr (dispatch_status current = PStr ''executing''))
               else
                 (let may_execute = (or_state op = Fence_OPEN \<and>
                        py_equal (ev_get (dq_evidence current) ''operation_generation'') (PInt (or_generation op)))
                  in case save_agent_dispatch (with_status (if may_execute then ''executing'' else ''cancelled'') current) st of
                       (_, Inl e) \<Rightarrow> (st, Inl e)
                     | (st1, Inr _) \<Rightarrow> (st1, Inr may_execute))))"

text \<open>
  \<open>complete_dispatch\<close> reads the dispatch and computes what to write; \<open>Inl\<close> returns the current record
  without writing.
\<close>

definition completed_evidence :: "AgentDispatchResult \<Rightarrow> (string, pyval) pydict \<Rightarrow> (string, pyval) pydict" where
  "completed_evidence result ev =
     (let ev1 = dict_set ''status'' (PStr (operation_state_value (dr_state result)))
            (dict_set ''provider_id'' (PStr (dr_provider_id result)) (dict_set ''result_id'' (PStr (dr_id result)) ev))
      in case dr_error_category result of
           None \<Rightarrow> ev1 | Some c \<Rightarrow> dict_set ''reason'' (PStr (error_category_value c)) ev1)"

definition complete_begin ::
  "AgentDispatchRequest \<Rightarrow> AgentDispatchResult \<Rightarrow> AgentStore \<Rightarrow> (AgentDispatchRequest + AgentDispatchRequest) result" where
  "complete_begin request result st =
     res_bind (load_agent_dispatch (dq_id request) st) (\<lambda>current.
       if \<not> py_equal (ev_get (dq_evidence current) ''operation_generation'') (ev_get (dq_evidence request) ''operation_generation'')
       then Inl (AgentOperationBlockedError ''dispatch generation binding changed'')
       else if dispatch_status current \<in> {PStr (operation_state_value Op_CANCELLED), PStr (operation_state_value Op_QUARANTINED)} \<and>
            dr_state result \<notin> {Op_CANCELLED, Op_QUARANTINED}
       then Inr (Inl current)
       else Inr (Inr (current\<lparr>dq_evidence := completed_evidence result (dq_evidence current)\<rparr>)))"

definition complete_dispatch ::
  "AgentDispatchRequest \<Rightarrow> AgentDispatchResult \<Rightarrow> AgentStore \<Rightarrow> AgentStore \<times> AgentDispatchRequest result" where
  "complete_dispatch request result st =
     (case complete_begin request result st of
        Inl e \<Rightarrow> (st, Inl e)
      | Inr (Inl current) \<Rightarrow> (st, Inr current)
      | Inr (Inr completed) \<Rightarrow> map_prod id (map_sum id (\<lambda>_. completed)) (save_agent_dispatch completed st))"

definition cancelled_result ::
  "AgentDispatchRequest \<Rightarrow> string \<Rightarrow> string \<Rightarrow> AgentDispatchResult result" where
  "cancelled_result request provider_id result_id =
     (case dict_get (dq_evidence request) ''operation_generation'' of
        None \<Rightarrow> Inl (KeyError ''operation_generation'')
      | Some g \<Rightarrow>
          (let r = \<lparr>dr_id = result_id, dr_request_id = dq_id request, dr_instance_id = dq_instance_id request,
                 dr_session_id = dq_session_id request, dr_driver_epoch_id = dq_driver_epoch_id request,
                 dr_provider_id = provider_id, dr_state = Op_CANCELLED, dr_error_category = Some AErr_CANCELLED,
                 dr_error_message = None, dr_provider_reference = None, dr_external_session_id = None,
                 dr_acknowledged_at = None, dr_completed_at = None,
                 dr_evidence = [(''operation_generation'', g),
                   (''reason'', PStr ''operation_fenced_before_provider_execution'')]\<rparr>
           in res_bind (agent_dispatch_result_post_init r) (\<lambda>_. Inr r)))"

section \<open>Draining\<close>

definition generation_within :: "pyval \<Rightarrow> int \<Rightarrow> bool" where
  "generation_within v g = (case v of PInt i \<Rightarrow> i \<le> g | PBool b \<Rightarrow> (if b then 1 else 0) \<le> g | _ \<Rightarrow> True)"

definition in_flight :: "AgentOperationReservation \<Rightarrow> AgentDispatchRequest \<Rightarrow> bool" where
  "in_flight r d \<longleftrightarrow> dq_instance_id d = or_instance_id r \<and>
     generation_within (ev_get (dq_evidence d) ''operation_generation'') (or_generation r) \<and>
     dispatch_status d \<notin> PStr ` set TERMINAL_DISPATCH_STATUSES"

definition inflight :: "AgentOperationReservation \<Rightarrow> AgentStore \<Rightarrow> AgentDispatchRequest list" where
  "inflight r st = filter (in_flight r) (list_agent_dispatches st)"

fun save_dispatches :: "AgentDispatchRequest list \<Rightarrow> AgentStore \<Rightarrow> AgentStore \<times> unit result" where
  "save_dispatches [] st = (st, Inr ())"
| "save_dispatches (d # ds) st =
     (case save_agent_dispatch d st of
        (st1, Inl e) \<Rightarrow> (st1, Inl e)
      | (st1, Inr _) \<Rightarrow> save_dispatches ds st1)"

text \<open>A transaction that checks the reservation and marks some of the dispatches in flight as cancelled.\<close>

definition cancel_inflight ::
  "(AgentDispatchRequest \<Rightarrow> bool) \<Rightarrow> string \<Rightarrow> AgentOperationReservation \<Rightarrow> AgentStore \<Rightarrow> AgentStore \<times> unit result" where
  "cancel_inflight sel changed r st =
     (case load_agent_operation (or_instance_id r) st of
        Inl e \<Rightarrow> (st, Inl e)
      | Inr current \<Rightarrow>
          if current \<noteq> r then (st, Inl (AgentOperationBlockedError changed))
          else case save_dispatches (map (with_status ''cancelled'') (filter sel (inflight r st))) st of
                 (_, Inl e) \<Rightarrow> (st, Inl e)
               | (st1, Inr _) \<Rightarrow> (st1, Inr ()))"

definition cancel_unclaimed :: "AgentOperationReservation \<Rightarrow> AgentStore \<Rightarrow> AgentStore \<times> unit result" where
  "cancel_unclaimed r st = cancel_inflight (\<lambda>d. dispatch_status d = PStr ''accepted'') ''operation reservation changed'' r st"

definition verify_quiescent :: "AgentOperationReservation \<Rightarrow> AgentStore \<Rightarrow> unit result" where
  "verify_quiescent r st =
     (if inflight r st \<noteq> []
      then Inl (AgentOperationBlockedError (''agent instance '' @ or_instance_id r @ '' is not quiescent'')) else Inr ())"

text \<open>\<open>driver\<close> is the provider's \<open>cancel\<close>; other callers may change the store while it runs (\<open>during\<close>).\<close>

definition cancel_and_verify ::
  "(AgentSession \<Rightarrow> AgentDispatchResult result) \<Rightarrow> (AgentStore \<Rightarrow> AgentStore) \<Rightarrow> AgentOperationReservation \<Rightarrow> AgentSession \<Rightarrow>
   AgentStore \<Rightarrow> AgentStore \<times> AgentDispatchResult result" where
  "cancel_and_verify driver during r session st =
     (if (case ags_external_session_id session of None \<Rightarrow> True | Some e \<Rightarrow> blank e)
      then (st, Inl (AgentOperationBlockedError ''provider cancellation lacks durable external session identity''))
      else case driver session of
        Inl _ \<Rightarrow> (during st, Inl (AgentOperationBlockedError ''provider cancellation could not be verified''))
      | Inr result \<Rightarrow>
          if dr_instance_id result \<noteq> or_instance_id r \<or> dr_provider_id result \<noteq> ags_provider_id session \<or>
             dr_external_session_id result \<noteq> ags_external_session_id session \<or>
             dr_state result \<notin> {Op_CANCELLED, Op_SUCCEEDED}
          then (during st, Inl (AgentOperationBlockedError ''provider cancellation did not reach a verified terminal state''))
          else map_prod id (map_sum id (\<lambda>_. result))
                 (cancel_inflight (\<lambda>_. True) ''operation reservation changed during cancellation'' r (during st)))"

text \<open>The wait for running dispatches: at most \<open>polls\<close> polls fit before the deadline.\<close>

fun drain_wait :: "(nat \<Rightarrow> AgentStore \<Rightarrow> AgentStore) \<Rightarrow> AgentOperationReservation \<Rightarrow> nat \<Rightarrow> AgentStore \<Rightarrow> AgentStore" where
  "drain_wait env r 0 st = st"
| "drain_wait env r (Suc polls) st = (if inflight r st = [] then st else drain_wait env r polls (env polls st))"

definition drain ::
  "(AgentSession \<Rightarrow> AgentDispatchResult result) \<Rightarrow> (nat \<Rightarrow> AgentStore \<Rightarrow> AgentStore) \<Rightarrow> nat \<Rightarrow> AgentOperationReservation \<Rightarrow>
   AgentSession \<Rightarrow> AgentStore \<Rightarrow> AgentStore \<times> unit result" where
  "drain driver env polls r session st =
     (case cancel_unclaimed r st of
        (st1, Inl e) \<Rightarrow> (st1, Inl e)
      | (st1, Inr _) \<Rightarrow>
          (let st2 = drain_wait env r polls st1
           in if inflight r st2 = [] then (st2, verify_quiescent r st2)
              else case cancel_and_verify driver (env polls) r session st2 of
                     (st3, Inl e) \<Rightarrow> (st3, Inl e)
                   | (st3, Inr _) \<Rightarrow> (st3, verify_quiescent r st3)))"

end
