(* ===== verification/Agent_Manager.thy ===== *)
theory Agent_Manager
  imports Agent_Operations
begin

text \<open>
  The dispatch path of \<^verbatim>\<open>src/overseer/agent_manager.py\<close>: the authoritative epoch of an instance, dispatching
  a prompt under an idempotency key, recording or quarantining what the provider returned. Parameters
  are the authorization callback (\<open>authorized\<close>, true when it returns \<open>True\<close> or a policy decision that
  can proceed), the registry's lookup of a provider driver (\<open>driver_for\<close>), the identifiers a call draws
  (\<open>new_id\<close>, one per prefix) and the clock.
\<close>

section \<open>Epochs\<close>

definition open_epochs :: "string \<Rightarrow> AgentStore \<Rightarrow> DriverEpoch list" where
  "open_epochs instance_id st =
     filter (\<lambda>e. ep_instance_id e = instance_id \<and> ep_closed_at e = None) (list_driver_epochs st)"

definition transition_epoch_ids :: "(pyval \<Rightarrow> string) \<Rightarrow> string \<Rightarrow> AgentStore \<Rightarrow> string set" where
  "transition_epoch_ids str_of instance_id st =
     set (map (py_str str_of) (filter (\<lambda>v. v \<noteq> PNone) (map (\<lambda>p. ev_get (hp_evidence p) ''incoming_epoch_id'')
       (filter (\<lambda>p. hp_instance_id p = instance_id) (list_agent_handoffs st)))))"

definition authoritative_epochs :: "(pyval \<Rightarrow> string) \<Rightarrow> string \<Rightarrow> AgentStore \<Rightarrow> DriverEpoch list" where
  "authoritative_epochs str_of instance_id st =
     filter (\<lambda>e. \<not> (ep_id e \<in> transition_epoch_ids str_of instance_id st \<and>
         ep_state e \<in> {Op_QUEUED, Op_BLOCKED, Op_QUARANTINED})) (open_epochs instance_id st)"

definition active_epoch :: "(pyval \<Rightarrow> string) \<Rightarrow> string \<Rightarrow> AgentStore \<Rightarrow> DriverEpoch result" where
  "active_epoch str_of instance_id st =
     (case authoritative_epochs str_of instance_id st of
        [] \<Rightarrow> Inl (KeyError (''no active driver epoch for '' @ instance_id))
      | [e] \<Rightarrow> Inr e
      | _ \<Rightarrow> Inl (AgentManagerError (''multiple open driver epochs for '' @ instance_id)))"

definition BLOCKING_TRANSITION_STATES :: "AgentTransitionState set" where
  "BLOCKING_TRANSITION_STATES = {Transit_IMPORTING, Transit_IMPORT_ACKNOWLEDGED, Transit_RECONCILING, Transit_FAILED}"

definition blocking_transition :: "string \<Rightarrow> AgentStore \<Rightarrow> AgentInstanceTransition option" where
  "blocking_transition instance_id st =
     (case load_agent_transition instance_id st of
        Inl _ \<Rightarrow> None
      | Inr t \<Rightarrow> if it_state t \<in> BLOCKING_TRANSITION_STATES then Some t else None)"

text \<open>\<^verbatim>\<open>_raise_transition_required\<close> with \<open>error_type=AgentManagerPausedError\<close>, as every dispatch calls it.\<close>

definition raise_transition_required :: "string \<Rightarrow> AgentStore \<Rightarrow> unit result" where
  "raise_transition_required instance_id st =
     (case blocking_transition instance_id st of
        Some t \<Rightarrow> Inl (AgentManagerPausedError (''agent instance '' @ instance_id @ '' transition '' @
          transition_state_value (it_state t) @ '' blocks this operation''))
      | None \<Rightarrow>
          (case load_agent_operation instance_id st of
             Inl _ \<Rightarrow> Inr ()
           | Inr op \<Rightarrow>
               if or_state op = Fence_FENCED
               then Inl (AgentManagerPausedError (''agent instance '' @ instance_id @ '' operation generation '' @
                 str_int (or_generation op) @ '' is fenced''))
               else Inr ()))"

section \<open>Results\<close>

definition keep_result_key :: "string \<Rightarrow> bool" where
  "keep_result_key k \<longleftrightarrow> list_ex (endswith k) [''_id'', ''_ref'', ''_at'']"

fun safe_result_evidence :: "(string, pyval) pydict \<Rightarrow> (string, pyval) pydict" where
  "safe_result_evidence [] = []"
| "safe_result_evidence ((k, v) # kvs) =
     (if keep_result_key k \<or> k \<in> {''status'', ''reason''} \<or> py_number v \<noteq> None
      then (k, v) # safe_result_evidence kvs else safe_result_evidence kvs)"

definition quarantine_result ::
  "(string \<Rightarrow> string) \<Rightarrow> AgentDispatchResult \<Rightarrow> string \<Rightarrow> AgentStore \<Rightarrow> AgentStore \<times> AgentDispatchResult result" where
  "quarantine_result new_id result reason st =
     (let evidence = dict_set ''reason'' (PStr reason)
            (dict_set ''source_result_id'' (PStr (dr_id result)) (safe_result_evidence (dr_evidence result)));
          q = result\<lparr>dr_id := new_id ''quarantine'', dr_state := Op_QUARANTINED, dr_error_category := Some AErr_QUARANTINED,
            dr_error_message := None, dr_evidence := evidence\<rparr>
      in case agent_dispatch_result_post_init q of
           Inl e \<Rightarrow> (st, Inl e)
         | Inr _ \<Rightarrow> map_prod id (map_sum id (\<lambda>_. q)) (save_agent_dispatch_result q st))"

definition set_optional :: "string \<Rightarrow> string option \<Rightarrow> (string, pyval) pydict \<Rightarrow> (string, pyval) pydict" where
  "set_optional k v ev = (case v of None \<Rightarrow> ev | Some s \<Rightarrow> dict_set k (PStr s) ev)"

definition result_evidence :: "AgentDispatchRequest \<Rightarrow> AgentDispatchResult \<Rightarrow> (string, pyval) pydict" where
  "result_evidence request result =
     (let generation = ev_get (dq_evidence request) ''operation_generation'';
          ev0 = [(''result_id'', PStr (dr_id result)), (''provider_id'', PStr (dr_provider_id result)),
                 (''status'', PStr (operation_state_value (dr_state result)))];
          ev1 = (case generation of PInt _ \<Rightarrow> dict_set ''operation_generation'' generation ev0
                 | PBool _ \<Rightarrow> dict_set ''operation_generation'' generation ev0 | _ \<Rightarrow> ev0);
          ev2 = set_optional ''completed_at'' (dr_completed_at result) (set_optional ''acknowledged_at'' (dr_acknowledged_at result)
            (set_optional ''reason'' (map_option error_category_value (dr_error_category result))
              (set_optional ''external_session_id'' (dr_external_session_id result)
                (set_optional ''provider_ref'' (dr_provider_reference result) ev1))))
      in fold (\<lambda>(k, v) ev. if k \<in> fst ` set ev \<or> k \<in> {''status'', ''reason''} then ev
               else if keep_result_key k then dict_set k v ev else ev) (dr_evidence result) ev2)"

definition TERMINAL_RESULT_STATES :: "AgentOperationState list" where
  "TERMINAL_RESULT_STATES = [Op_SUCCEEDED, Op_CANCELLED, Op_QUARANTINED]"

text \<open>
  \<^verbatim>\<open>_record_dispatch_result\<close> reads the dispatch and computes the result to record and, unless the dispatch
  already ended, the dispatch to write.
\<close>

definition record_begin ::
  "AgentDispatchResult \<Rightarrow> AgentStore \<Rightarrow> (AgentDispatchResult \<times> AgentDispatchRequest option) result" where
  "record_begin result st =
     res_bind (load_agent_dispatch (dr_request_id result) st) (\<lambda>request.
       let evidence = result_evidence request result;
           recorded = result\<lparr>dr_error_message := None, dr_evidence := evidence\<rparr>
       in res_bind (agent_dispatch_result_post_init recorded) (\<lambda>_.
          Inr (recorded,
            if dispatch_status request \<in> PStr ` operation_state_value ` set TERMINAL_RESULT_STATES then None
            else Some (request\<lparr>dq_evidence := evidence\<rparr>))))"

definition record_dispatch_result ::
  "AgentDispatchResult \<Rightarrow> AgentStore \<Rightarrow> AgentStore \<times> AgentDispatchResult result" where
  "record_dispatch_result result st =
     (case record_begin result st of
        Inl e \<Rightarrow> (st, Inl e)
      | Inr (recorded, update) \<Rightarrow>
          (case save_agent_dispatch_result recorded st of
             (st1, Inl e) \<Rightarrow> (st1, Inl e)
           | (st1, Inr _) \<Rightarrow>
               (case update of
                  None \<Rightarrow> (st1, Inr recorded)
                | Some request \<Rightarrow> map_prod id (map_sum id (\<lambda>_. recorded)) (save_agent_dispatch request st1))))"

definition record_provider_result ::
  "(string \<Rightarrow> (string, pyval) pydict \<Rightarrow> bool) \<Rightarrow> (pyval \<Rightarrow> string) \<Rightarrow> (string \<Rightarrow> string) \<Rightarrow> string \<Rightarrow> AgentDispatchResult \<Rightarrow>
   AgentStore \<Rightarrow> AgentStore \<times> AgentDispatchResult result" where
  "record_provider_result authorized str_of new_id epoch_id result st =
     (if \<not> authorized ''record_provider_result'' [(''driver_epoch_id'', PStr epoch_id), (''result_id'', PStr (dr_id result)),
            (''request_id'', PStr (dr_request_id result))]
      then (st, Inl (AgentAuthorizationError ''record_provider_result rejected by Overseer policy callback''))
      else case load_agent_dispatch (dr_request_id result) st of
        Inl _ \<Rightarrow> quarantine_result new_id result ''unknown_dispatch_request'' st
      | Inr request \<Rightarrow>
          if dispatch_status request = PStr (operation_state_value Op_CANCELLED)
          then quarantine_result new_id result ''cancelled_operation_generation'' st
          else case load_driver_epoch epoch_id st of
            Inl _ \<Rightarrow> quarantine_result new_id result ''unknown_driver_epoch'' st
          | Inr epoch \<Rightarrow>
              (case active_epoch str_of (ep_instance_id epoch) st of
                 Inl (KeyError _) \<Rightarrow> quarantine_result new_id result ''unknown_driver_epoch'' st
               | Inl e \<Rightarrow> (st, Inl e)
               | Inr active \<Rightarrow>
                   if \<not> (dq_instance_id request = dr_instance_id result \<and> dr_instance_id result = ep_instance_id epoch \<and>
                          dq_session_id request = dr_session_id result \<and> dr_session_id result = ep_session_id epoch \<and>
                          dq_driver_epoch_id request = dr_driver_epoch_id result \<and> dr_driver_epoch_id result = ep_id epoch \<and>
                          dr_provider_id result = ep_provider_id epoch)
                   then quarantine_result new_id result ''dispatch_request_binding_mismatch'' st
                   else if ep_closed_at epoch \<noteq> None \<or> ep_id active \<noteq> ep_id epoch
                   then quarantine_result new_id result ''closed_or_inactive_driver_epoch'' st
                   else record_dispatch_result result st))"

section \<open>Dispatching\<close>

definition dispatch_for_idempotency_key :: "string \<Rightarrow> string \<Rightarrow> AgentStore \<Rightarrow> AgentDispatchRequest option" where
  "dispatch_for_idempotency_key instance_id key st =
     (case load_agent_dispatch_by_idempotency instance_id key st of Inl _ \<Rightarrow> None | Inr d \<Rightarrow> Some d)"

definition ev_text :: "(pyval \<Rightarrow> string) \<Rightarrow> (string, pyval) pydict \<Rightarrow> string \<Rightarrow> string option" where
  "ev_text str_of ev k = map_option (py_str str_of) (dict_get ev k)"

definition result_from_dispatch ::
  "(pyval \<Rightarrow> string) \<Rightarrow> AgentDispatchRequest \<Rightarrow> AgentStore \<Rightarrow> AgentDispatchResult result" where
  "result_from_dispatch str_of d st =
     (let ev = dq_evidence d
      in res_bind (load_driver_epoch (dq_driver_epoch_id d) st) (\<lambda>epoch.
         let status = (case ev_text str_of ev ''status'' of None \<Rightarrow> operation_state_value Op_QUEUED | Some s \<Rightarrow> s)
         in res_bind (if status \<in> {''accepted'', ''executing''} then Inr Op_QUEUED else operation_state_of status) (\<lambda>state.
            let r = \<lparr>dr_id = (case ev_text str_of ev ''result_id'' of None \<Rightarrow> dq_id d @ ''.queued'' | Some i \<Rightarrow> i),
                   dr_request_id = dq_id d, dr_instance_id = dq_instance_id d, dr_session_id = dq_session_id d,
                   dr_driver_epoch_id = dq_driver_epoch_id d,
                   dr_provider_id = (case ev_text str_of ev ''provider_id'' of None \<Rightarrow> ep_provider_id epoch | Some p \<Rightarrow> p),
                   dr_state = state,
                   dr_error_category = (case dict_get ev ''reason'' of
                      Some (PStr s) \<Rightarrow> (case error_category_of s of Inr c \<Rightarrow> Some c | Inl _ \<Rightarrow> None) | _ \<Rightarrow> None),
                   dr_error_message = None, dr_provider_reference = ev_text str_of ev ''provider_ref'',
                   dr_external_session_id = ev_text str_of ev ''external_session_id'',
                   dr_acknowledged_at = ev_text str_of ev ''acknowledged_at'',
                   dr_completed_at = ev_text str_of ev ''completed_at'', dr_evidence = ev\<rparr>
            in res_bind (agent_dispatch_result_post_init r) (\<lambda>_. Inr r))))"

definition DISPATCHABLE_STATES :: "AgentOperationState set" where
  "DISPATCHABLE_STATES = {Op_ACKNOWLEDGED, Op_RUNNING, Op_SUCCEEDED}"

definition dispatch_request ::
  "(nat \<Rightarrow> string) \<Rightarrow> (string \<Rightarrow> string) \<Rightarrow> DriverEpoch \<Rightarrow> string \<Rightarrow> string \<Rightarrow> string \<Rightarrow> string option \<Rightarrow> AgentDispatchRequest" where
  "dispatch_request clock new_id epoch instance_id prompt key requested_by =
     \<lparr>dq_id = new_id ''dispatch'', dq_instance_id = instance_id, dq_session_id = ep_session_id epoch,
      dq_driver_epoch_id = ep_id epoch, dq_idempotency_key = key, dq_prompt = prompt, dq_requested_at = Some (clock 0),
      dq_requested_by = requested_by, dq_evidence = []\<rparr>"

text \<open>\<^verbatim>\<open>except (sqlite3.IntegrityError, ValueError)\<close>\<close>

definition store_conflict :: "py_error \<Rightarrow> bool" where
  "store_conflict e = (case e of IntegrityError _ \<Rightarrow> True | ValueError _ \<Rightarrow> True | _ \<Rightarrow> False)"

text \<open>The dispatch after it was accepted: claim it, run the driver, record the result.\<close>

definition run_accepted ::
  "(string \<Rightarrow> (string, pyval) pydict \<Rightarrow> bool) \<Rightarrow> (pyval \<Rightarrow> string) \<Rightarrow> (string \<Rightarrow> string) \<Rightarrow>
   (AgentDispatchRequest \<Rightarrow> AgentDispatchResult result) \<Rightarrow> DriverEpoch \<Rightarrow> AgentDispatchRequest \<Rightarrow> AgentStore \<Rightarrow>
   AgentStore \<times> AgentDispatchResult result" where
  "run_accepted authorized str_of new_id driver epoch request st =
     (case claim_dispatch_execution request st of
        (st1, Inl e) \<Rightarrow> (st1, Inl e)
      | (st1, Inr False) \<Rightarrow>
          (case cancelled_result request (ep_provider_id epoch) (new_id ''result'') of
             Inl e \<Rightarrow> (st1, Inl e)
           | Inr result \<Rightarrow>
               (case complete_dispatch request result st1 of
                  (st2, Inl e) \<Rightarrow> (st2, Inl e)
                | (st2, Inr _) \<Rightarrow> record_dispatch_result result st2))
      | (st1, Inr True) \<Rightarrow>
          (let failed = \<lparr>dr_id = new_id ''result'', dr_request_id = dq_id request, dr_instance_id = dq_instance_id request,
                 dr_session_id = dq_session_id request, dr_driver_epoch_id = dq_driver_epoch_id request,
                 dr_provider_id = ep_provider_id epoch, dr_state = Op_FAILED,
                 dr_error_category = Some AErr_PROVIDER_UNAVAILABLE, dr_error_message = None, dr_provider_reference = None,
                 dr_external_session_id = None, dr_acknowledged_at = None, dr_completed_at = None, dr_evidence = []\<rparr>;
               result = (case driver request of Inl _ \<Rightarrow> failed | Inr r \<Rightarrow> r)
           in case record_provider_result authorized str_of new_id (ep_id epoch) result st1 of
                (st2, Inl e) \<Rightarrow> (st2, Inl e)
              | (st2, Inr recorded) \<Rightarrow>
                  map_prod id (map_sum id (\<lambda>_. recorded)) (complete_dispatch request recorded st2)))"

definition dispatch ::
  "(string \<Rightarrow> (string, pyval) pydict \<Rightarrow> bool) \<Rightarrow> (pyval \<Rightarrow> string) \<Rightarrow> (nat \<Rightarrow> string) \<Rightarrow> (string \<Rightarrow> string) \<Rightarrow>
   (string \<Rightarrow> string \<Rightarrow> (AgentDispatchRequest \<Rightarrow> AgentDispatchResult result) result) \<Rightarrow>
   string \<Rightarrow> string \<Rightarrow> string \<Rightarrow> string option \<Rightarrow> AgentStore \<Rightarrow> AgentStore \<times> AgentDispatchResult result" where
  "dispatch authorized str_of clock new_id driver_for instance_id prompt key requested_by st =
     (case raise_transition_required instance_id st of
        Inl e \<Rightarrow> (st, Inl e)
      | Inr _ \<Rightarrow>
          (case dispatch_for_idempotency_key instance_id key st of
             Some recorded \<Rightarrow> (st, result_from_dispatch str_of recorded st)
           | None \<Rightarrow>
               (case active_epoch str_of instance_id st of
                  Inl e \<Rightarrow> (st, Inl e)
                | Inr epoch \<Rightarrow>
                    if ep_state epoch \<notin> DISPATCHABLE_STATES
                    then (st, Inl (AgentManagerPausedError (''agent instance '' @ instance_id @ '' is paused in epoch '' @ ep_id epoch)))
                    else if \<not> authorized ''dispatch'' [(''instance_id'', PStr instance_id), (''driver_epoch_id'', PStr (ep_id epoch)),
                        (''provider_id'', PStr (ep_provider_id epoch)), (''idempotency_key'', PStr key),
                        (''requested_by'', PStr (str_default requested_by ''unspecified''))]
                    then (st, Inl (AgentAuthorizationError ''dispatch rejected by Overseer policy callback''))
                    else
                      (let request = dispatch_request clock new_id epoch instance_id prompt key requested_by
                       in case agent_dispatch_post_init request of
                            Inl e \<Rightarrow> (st, Inl e)
                          | Inr _ \<Rightarrow>
                              (case accept_dispatch (\<lambda>k. clock (k + 1)) request st of
                                 (st1, Inl (AgentOperationBlockedError m)) \<Rightarrow> (st1, Inl (AgentManagerPausedError m))
                               | (st1, Inl e) \<Rightarrow>
                                   if \<not> store_conflict e then (st1, Inl e)
                                   else (case dispatch_for_idempotency_key instance_id key st1 of
                                      Some winner \<Rightarrow> (st1, result_from_dispatch str_of winner st1)
                                    | None \<Rightarrow> (st1, res_bind (raise_transition_required instance_id st1) (\<lambda>_. Inl e)))
                               | (st1, Inr accepted) \<Rightarrow>
                                   (case driver_for (ep_provider_id epoch) instance_id of
                                      Inl e \<Rightarrow> (st1, Inl e)
                                    | Inr driver \<Rightarrow> run_accepted authorized str_of new_id driver epoch accepted st1))))))"

end
