(* ===== verification/Quark_Exec.thy ===== *)
theory Quark_Exec
  imports Quark_Work Agent_Manager
begin

text \<open>
  The executor of one slice (\<open>ProviderWorkExecutor\<close> of \<^verbatim>\<open>src/overseer/quark_scheduler.py\<close>). It reads the work
  store and calls an agent manager, or for legacy Codex work a command runner. Both are parameters that
  act on a world: the work database together with whatever else they touch. A call may therefore also
  change the work database, as another process can while a provider works. The result dictionary is a
  record; a key the source leaves out is \<open>None\<close> where the readers treat both alike.
\<close>

record 'm quark_world =
  qw_db :: QuarkDb
  qw_rest :: 'm

record 'm agent_manager =
  mg_load_session :: "string \<Rightarrow> 'm quark_world \<Rightarrow> AgentSession result"
  mg_recover :: "string \<Rightarrow> 'm quark_world \<Rightarrow> 'm quark_world \<times> DriverEpoch result"
  mg_dispatch :: "string \<Rightarrow> string \<Rightarrow> string \<Rightarrow> 'm quark_world \<Rightarrow> 'm quark_world \<times> AgentDispatchResult result"

record run_output =
  ro_stdout :: "string option"
  ro_stderr :: "string option"
  ro_returncode :: int

record 'm work_executor =
  ex_manager :: "'m agent_manager option"
  ex_has_work_store :: bool
  ex_codex_path :: string
  ex_runner :: "string list \<Rightarrow> 'm quark_world \<Rightarrow> 'm quark_world \<times> run_output result"

record slice_result =
  sr_status :: string
  sr_completed :: bool
  sr_terminal :: bool
  sr_successful :: bool
  sr_checkpoint_ref :: "string option"
  sr_exit_code :: "int option"
  sr_allocated_units :: "rat option"
  sr_driver_epoch_id :: "string option"
  sr_provider_dispatch_id :: "string option"
  sr_provider_result_id :: "string option"
  sr_provider_reference :: "string option"
  sr_idempotency_key :: "string option"
  sr_error_reason :: "string option"
  sr_persistence_allowed :: bool
  sr_rejection_scope :: "string option"
  sr_rejected_generation :: "int option"
  sr_rejected_provider_dispatch_id :: "string option"
  sr_rejected_provider_result_id :: "string option"
  sr_rejected_idempotency_key :: "string option"
  sr_expected_work_binding :: "WorkBinding option"
  sr_stdout :: string
  sr_stderr :: string

section \<open>Validation\<close>

definition policy_block :: "AgentWorkItem \<Rightarrow> string \<Rightarrow> slice_result" where
  "policy_block item reason =
     \<lparr>sr_status = ''policy_blocked'', sr_completed = False, sr_terminal = True, sr_successful = False,
      sr_checkpoint_ref = wk_provider_reference item, sr_exit_code = Some 1,
      sr_allocated_units = Some (wk_reserved_units item), sr_driver_epoch_id = wk_driver_epoch_id item,
      sr_provider_dispatch_id = wk_provider_dispatch_id item, sr_provider_result_id = wk_provider_result_id item,
      sr_provider_reference = wk_provider_reference item, sr_idempotency_key = wk_provider_idempotency_key item,
      sr_error_reason = Some reason, sr_persistence_allowed = True, sr_rejection_scope = None,
      sr_rejected_generation = None, sr_rejected_provider_dispatch_id = None, sr_rejected_provider_result_id = None,
      sr_rejected_idempotency_key = None, sr_expected_work_binding = None, sr_stdout = [], sr_stderr = []\<rparr>"

text \<open>\<open>_policy_block\<close> with \<^verbatim>\<open>persistence_allowed=False\<close>.\<close>

definition policy_reject :: "AgentWorkItem \<Rightarrow> string \<Rightarrow> string \<Rightarrow> slice_result" where
  "policy_reject item reason scope =
     (policy_block item reason)\<lparr>sr_persistence_allowed := False, sr_rejection_scope := Some scope,
        sr_rejected_generation := Some (wk_generation item),
        sr_rejected_provider_dispatch_id := wk_provider_dispatch_id item,
        sr_rejected_provider_result_id := wk_provider_result_id item,
        sr_rejected_idempotency_key := wk_provider_idempotency_key item\<rparr>"

definition with_expected_work_binding :: "slice_result \<Rightarrow> WorkBinding \<Rightarrow> slice_result" where
  "with_expected_work_binding r b = r\<lparr>sr_expected_work_binding := Some b\<rparr>"

text \<open>
  The text of an exception, as \<open>str(exc)\<close> gives it: a \<^verbatim>\<open>KeyError\<close> prints its key quoted. The quotation
  mark Python chooses for a key that holds one is not modelled.
\<close>

fun exc_text :: "py_error \<Rightarrow> string" where
  "exc_text (KeyError k) = [char_of (39 :: nat)] @ k @ [char_of (39 :: nat)]"
| "exc_text (ValueError m) = m"
| "exc_text (TypeError m) = m"
| "exc_text (RuntimeError m) = m"
| "exc_text (OSError m) = m"
| "exc_text (IndexError m) = m"
| "exc_text (IntegrityError m) = m"
| "exc_text (AgentOperationBlockedError m) = m"
| "exc_text (AgentManagerError m) = m"
| "exc_text (AgentManagerPausedError m) = m"
| "exc_text (AgentAuthorizationError m) = m"
| "exc_text (AgentHandoffError m) = m"
| "exc_text (OverflowError m) = m"
| "exc_text (AssertionError m) = m"
| "exc_text (StorageAdapterError c m) = m"

fun load_error :: "py_error \<Rightarrow> bool" where
  "load_error (KeyError k) = True"
| "load_error (ValueError m) = True"
| "load_error e = False"

text \<open>
  \<open>_load_persisted_work\<close>: \<open>Inr None\<close> stands for an executor without a work store, \<open>Inl\<close> for an exception
  that is not caught, and the inner \<open>Inl\<close> for a blocked result.
\<close>

definition load_persisted_work ::
  "'m work_executor \<Rightarrow> AgentWorkItem \<Rightarrow> QuarkDb \<Rightarrow> (slice_result + AgentWorkItem option) result" where
  "load_persisted_work ex item db =
     (if \<not> ex_has_work_store ex then Inr (Inr None)
      else case load_work (wk_id item) db of
        Inr persisted \<Rightarrow> Inr (Inr (Some persisted))
      | Inl e \<Rightarrow>
          if load_error e
          then Inr (Inl (policy_reject item (''persisted work could not be loaded: '' @ exc_text e) ''persisted_work_load''))
          else Inl e)"

definition named_mismatches :: "(string \<times> bool) list \<Rightarrow> string list" where
  "named_mismatches tests = map fst (filter (\<lambda>(name, same). \<not> same) tests)"

definition mismatch_text :: "string list \<Rightarrow> string" where
  "mismatch_text names = py_join '', '' (sort (remdups names))"

definition validate_initial_work_transition ::
  "'m work_executor \<Rightarrow> AgentWorkItem \<Rightarrow> rat \<Rightarrow> QuarkDb \<Rightarrow> slice_result option result" where
  "validate_initial_work_transition ex item allocated_units db =
     res_bind (load_persisted_work ex item db) (\<lambda>loaded.
       case loaded of
         Inl blocked \<Rightarrow> Inr (Some blocked)
       | Inr None \<Rightarrow> Inr None
       | Inr (Some p) \<Rightarrow>
           (let mismatches = named_mismatches
              [(''project_id'', wk_project_id p = wk_project_id item),
               (''agent_session_id'', wk_agent_session_id p = wk_agent_session_id item),
               (''provider_id'', wk_provider_id p = wk_provider_id item),
               (''limit_id'', wk_limit_id p = wk_limit_id item),
               (''usage_unit'', wk_usage_unit p = wk_usage_unit item),
               (''owner_thread'', wk_owner_thread p = wk_owner_thread item),
               (''driver_epoch_id'', wk_driver_epoch_id p = wk_driver_epoch_id item),
               (''provider_dispatch_id'', wk_provider_dispatch_id p = wk_provider_dispatch_id item),
               (''provider_result_id'', wk_provider_result_id p = wk_provider_result_id item),
               (''provider_reference'', wk_provider_reference p = wk_provider_reference item),
               (''provider_idempotency_key'', wk_provider_idempotency_key p = wk_provider_idempotency_key item),
               (''provider_dispatch_state'', wk_provider_dispatch_state p = wk_provider_dispatch_state item),
               (''source_state'', eligible_state (wk_state item)),
               (''state'', wk_state p = WorkState_RUNNING),
               (''generation'', wk_generation p = wk_generation item + 1),
               (''reserved_units'', wk_reserved_units p = allocated_units)]
            in Inr (if mismatches = [] then None
                    else Some (policy_reject item (''persisted work transition mismatch: '' @ mismatch_text mismatches)
                           ''initial_transition''))))"

definition validate_reconcile_work_binding ::
  "'m work_executor \<Rightarrow> AgentWorkItem \<Rightarrow> QuarkDb \<Rightarrow> slice_result option result" where
  "validate_reconcile_work_binding ex item db =
     res_bind (load_persisted_work ex item db) (\<lambda>loaded.
       case loaded of
         Inl blocked \<Rightarrow> Inr (Some blocked)
       | Inr None \<Rightarrow> Inr None
       | Inr (Some p) \<Rightarrow>
           (let mismatches = named_mismatches
              [(''project_id'', wk_project_id p = wk_project_id item),
               (''agent_session_id'', wk_agent_session_id p = wk_agent_session_id item),
               (''provider_id'', wk_provider_id p = wk_provider_id item),
               (''limit_id'', wk_limit_id p = wk_limit_id item),
               (''usage_unit'', wk_usage_unit p = wk_usage_unit item),
               (''owner_thread'', wk_owner_thread p = wk_owner_thread item),
               (''generation'', wk_generation p = wk_generation item),
               (''state'', wk_state p = wk_state item),
               (''reserved_units'', wk_reserved_units p = wk_reserved_units item),
               (''driver_epoch_id'', wk_driver_epoch_id p = wk_driver_epoch_id item),
               (''provider_dispatch_id'', wk_provider_dispatch_id p = wk_provider_dispatch_id item),
               (''provider_result_id'', wk_provider_result_id p = wk_provider_result_id item),
               (''provider_reference'', wk_provider_reference p = wk_provider_reference item),
               (''provider_idempotency_key'', wk_provider_idempotency_key p = wk_provider_idempotency_key item),
               (''provider_dispatch_state'', wk_provider_dispatch_state p = wk_provider_dispatch_state item),
               (''pause_reason'', wk_pause_reason p = wk_pause_reason item),
               (''resume_at'', wk_resume_at p = wk_resume_at item),
               (''lifecycle_state'', wk_state p = WorkState_RUNNING)]
            in Inr (if mismatches = [] then None
                    else Some (policy_reject item (''persisted work binding mismatch: '' @ mismatch_text mismatches)
                           ''reconcile_binding''))))"

definition validate_persisted_session ::
  "'m agent_manager \<Rightarrow> AgentWorkItem \<Rightarrow> string \<Rightarrow> 'm quark_world \<Rightarrow> slice_result option result" where
  "validate_persisted_session manager item session_id w =
     (case mg_load_session manager session_id w of
        Inl e \<Rightarrow>
          if load_error e
          then Inr (Some (policy_block item (''persisted work session could not be loaded: '' @ exc_text e)))
          else Inl e
      | Inr session \<Rightarrow>
          Inr (if ags_id session \<noteq> session_id
               then Some (policy_block item ''persisted session id does not match work session'')
               else if ags_provider_id session \<noteq> wk_provider_id item
               then Some (policy_block item ''persisted session provider does not match work provider'')
               else None))"

definition validate_epoch :: "AgentWorkItem \<Rightarrow> DriverEpoch \<Rightarrow> slice_result option" where
  "validate_epoch item epoch =
     (if ep_provider_id epoch \<noteq> wk_provider_id item
      then Some (policy_block item ''recovered epoch provider does not match work provider'')
      else if Some (ep_session_id epoch) \<noteq> wk_agent_session_id item
      then Some (policy_block item ''recovered epoch session does not match work session'')
      else if str_true (wk_driver_epoch_id item) \<and> Some (ep_id epoch) \<noteq> wk_driver_epoch_id item
      then Some (policy_block item ''recovered driver epoch does not match dispatched work'')
      else None)"

definition TERMINAL_OPERATION_STATES :: "AgentOperationState set" where
  "TERMINAL_OPERATION_STATES = {Op_SUCCEEDED, Op_FAILED, Op_BLOCKED, Op_CANCELLED, Op_QUARANTINED}"

definition provider_result ::
  "AgentWorkItem \<Rightarrow> DriverEpoch \<Rightarrow> AgentDispatchResult \<Rightarrow> rat \<Rightarrow> string \<Rightarrow> string option \<Rightarrow> WorkBinding \<Rightarrow> slice_result" where
  "provider_result item epoch result allocated_units idempotency_key expected_dispatch_id expected =
     (let mismatches = named_mismatches
        [(''provider_id'', dr_provider_id result = wk_provider_id item),
         (''session_id'', Some (dr_session_id result) = wk_agent_session_id item),
         (''driver_epoch_id'', dr_driver_epoch_id result = ep_id epoch),
         (''request_id'', expected_dispatch_id = None \<or> Some (dr_request_id result) = expected_dispatch_id)];
          terminal = dr_state result \<in> TERMINAL_OPERATION_STATES;
          successful = (dr_state result = Op_SUCCEEDED)
      in if mismatches \<noteq> []
         then with_expected_work_binding
                (policy_block item (''provider result binding mismatch: '' @ py_join '', '' (sort mismatches))) expected
         else \<lparr>sr_status = operation_state_value (dr_state result), sr_completed = successful, sr_terminal = terminal,
           sr_successful = successful, sr_checkpoint_ref = dr_provider_reference result,
           sr_exit_code = (if successful then Some 0 else if terminal then Some 1 else None),
           sr_allocated_units = Some allocated_units, sr_driver_epoch_id = Some (ep_id epoch),
           sr_provider_dispatch_id = Some (dr_request_id result), sr_provider_result_id = Some (dr_id result),
           sr_provider_reference = dr_provider_reference result, sr_idempotency_key = Some idempotency_key,
           sr_error_reason = None, sr_persistence_allowed = True, sr_rejection_scope = None,
           sr_rejected_generation = None, sr_rejected_provider_dispatch_id = None,
           sr_rejected_provider_result_id = None, sr_rejected_idempotency_key = None,
           sr_expected_work_binding = Some expected, sr_stdout = [], sr_stderr = []\<rparr>)"

section \<open>Running and reconciling a slice\<close>

text \<open>\<^verbatim>\<open>line.split(marker, 1)[1]\<close> and \<^verbatim>\<open>s.strip(c)\<close>.\<close>

fun after_marker :: "string \<Rightarrow> string \<Rightarrow> string" where
  "after_marker marker [] = []"
| "after_marker marker (c # s) =
     (if startswith (c # s) marker then drop (length marker) (c # s) else after_marker marker s)"

definition strip_char :: "char \<Rightarrow> string \<Rightarrow> string" where
  "strip_char c s = rev (dropWhile ((=) c) (rev (dropWhile ((=) c) s)))"

definition checkpoint_ref_of :: "string \<Rightarrow> string option" where
  "checkpoint_ref_of output =
     fold (\<lambda>line acc. if py_contains ''QUARK_CHECKPOINT:'' line
         then Some (strip_char CHR 0x22 (py_strip (after_marker ''QUARK_CHECKPOINT:'' line))) else acc)
       (py_splitlines output) None"

definition legacy_run :: "'m work_executor \<Rightarrow> AgentWorkItem \<Rightarrow> rat \<Rightarrow> string \<Rightarrow> 'm quark_world \<Rightarrow>
    'm quark_world \<times> slice_result result" where
  "legacy_run ex item allocated prompt w =
     (if \<not> str_true (wk_owner_thread item) then (w, Inl (ValueError ''legacy Codex execution requires owner_thread''))
      else case ex_runner ex [ex_codex_path ex, ''exec'', ''resume'', the (wk_owner_thread item), prompt, ''--json''] w of
        (w1, Inl e) \<Rightarrow> (w1, Inl e)
      | (w1, Inr completed) \<Rightarrow>
          (let output = str_default (ro_stdout completed) [];
               work_completed = py_contains ''QUARK_WORK_COMPLETED'' output
           in (w1, Inr \<lparr>sr_status = (if work_completed then ''completed'' else ''checkpointed''),
                 sr_completed = work_completed, sr_terminal = True, sr_successful = (ro_returncode completed = 0),
                 sr_checkpoint_ref = checkpoint_ref_of output, sr_exit_code = Some (ro_returncode completed),
                 sr_allocated_units = None, sr_driver_epoch_id = None, sr_provider_dispatch_id = None,
                 sr_provider_result_id = None, sr_provider_reference = None, sr_idempotency_key = None,
                 sr_error_reason = None, sr_persistence_allowed = True, sr_rejection_scope = None,
                 sr_rejected_generation = None, sr_rejected_provider_dispatch_id = None,
                 sr_rejected_provider_result_id = None, sr_rejected_idempotency_key = None,
                 sr_expected_work_binding = None, sr_stdout = output,
                 sr_stderr = str_default (ro_stderr completed) []\<rparr>)))"

text \<open>
  The part \<open>run_slice\<close> and \<open>reconcile_slice\<close> share: check the persisted session, recover the driver epoch,
  check it, dispatch under the idempotency key and bind the result to the expected work.
\<close>

definition dispatch_bound ::
  "'m agent_manager \<Rightarrow> AgentWorkItem \<Rightarrow> string \<Rightarrow> WorkBinding \<Rightarrow> rat \<Rightarrow> string \<Rightarrow> string \<Rightarrow> string option \<Rightarrow>
   'm quark_world \<Rightarrow> 'm quark_world \<times> slice_result result" where
  "dispatch_bound manager item session_id expected allocated prompt key expected_dispatch_id w =
     (case validate_persisted_session manager item session_id w of
        Inl e \<Rightarrow> (w, Inl e)
      | Inr (Some blocked) \<Rightarrow> (w, Inr (with_expected_work_binding blocked expected))
      | Inr None \<Rightarrow>
          (case mg_recover manager session_id w of
             (w1, Inl e) \<Rightarrow> (w1, Inl e)
           | (w1, Inr epoch) \<Rightarrow>
               (case validate_epoch item epoch of
                  Some blocked \<Rightarrow> (w1, Inr (with_expected_work_binding blocked expected))
                | None \<Rightarrow>
                    (case mg_dispatch manager (ep_instance_id epoch) prompt key w1 of
                       (w2, Inl e) \<Rightarrow> (w2, Inl e)
                     | (w2, Inr result) \<Rightarrow>
                         (w2, Inr (provider_result item epoch result allocated key expected_dispatch_id expected))))))"

definition slice_key :: "AgentWorkItem \<Rightarrow> string" where
  "slice_key item = ''quark:'' @ wk_id item @ '':'' @ str_int (wk_generation item + 1)"

definition run_slice ::
  "'m work_executor \<Rightarrow> AgentWorkItem \<Rightarrow> rat \<Rightarrow> string \<Rightarrow> 'm quark_world \<Rightarrow> 'm quark_world \<times> slice_result result" where
  "run_slice ex item allocated prompt w =
     (case (ex_manager ex, wk_agent_session_id item) of
        (Some manager, Some session_id) \<Rightarrow>
          (case validate_initial_work_transition ex item allocated (qw_db w) of
             Inl e \<Rightarrow> (w, Inl e)
           | Inr (Some blocked) \<Rightarrow> (w, Inr blocked)
           | Inr None \<Rightarrow>
               (case with_state item WorkState_RUNNING (Some allocated) (\<lambda>i. i\<lparr>wk_generation := wk_generation item + 1\<rparr>) of
                  Inl e \<Rightarrow> (w, Inl e)
                | Inr reserved \<Rightarrow>
                    dispatch_bound manager item session_id (durable_work_binding reserved) allocated prompt
                      (slice_key item) None w))
      | _ \<Rightarrow> legacy_run ex item allocated prompt w)"

definition reconcile_slice ::
  "'m work_executor \<Rightarrow> AgentWorkItem \<Rightarrow> string \<Rightarrow> 'm quark_world \<Rightarrow> 'm quark_world \<times> slice_result result" where
  "reconcile_slice ex item prompt w =
     (case (ex_manager ex, wk_agent_session_id item) of
        (Some manager, Some session_id) \<Rightarrow>
          if \<not> str_true (wk_provider_idempotency_key item)
          then (w, Inl (ValueError ''provider reconciliation requires idempotency key''))
          else
            (case validate_reconcile_work_binding ex item (qw_db w) of
               Inl e \<Rightarrow> (w, Inl e)
             | Inr (Some blocked) \<Rightarrow> (w, Inr blocked)
             | Inr None \<Rightarrow>
                 dispatch_bound manager item session_id (durable_work_binding item) (wk_reserved_units item) prompt
                   (the (wk_provider_idempotency_key item)) (wk_provider_dispatch_id item) w)
      | _ \<Rightarrow> (w, Inl (ValueError ''provider reconciliation requires agent manager and session id'')))"

end
