(* ===== verification/Quark_Cycle.thy ===== *)
theory Quark_Cycle
  imports Quark_Exec
begin

text \<open>
  One scheduling cycle (\<open>QuarkSchedulerService\<close> of \<^verbatim>\<open>src/overseer/quark_scheduler.py\<close>): refresh the usage
  snapshot, reconcile running work, plan, reserve, run and persist the results under a compare-and-swap
  of the durable binding. The usage source and the executor act on the world; the clock is read from
  it. A cycle is \<open>None\<close> only if planning does not return.
\<close>

section \<open>Usage snapshots\<close>

record usage_window =
  uw_name :: "string option"
  uw_usage_unit :: "string option"
  uw_resets_at :: "string option"
  uw_values :: "(string, pyval) pydict"

record limit_usage =
  lu_limit_id :: "string option"
  lu_windows :: "usage_window list"

record usage_snapshot =
  us_observed_at :: "string option"
  us_rate_limits :: "limit_usage list"
  us_lifetime_tokens :: "pyval option"

definition primary_window :: "usage_snapshot \<Rightarrow> string \<Rightarrow> usage_window result" where
  "primary_window snapshot limit_id =
     (case find (\<lambda>w. uw_name w = Some ''primary'')
         (concat (map lu_windows (filter (\<lambda>l. lu_limit_id l = Some limit_id) (us_rate_limits snapshot)))) of
        None \<Rightarrow> Inl (ValueError (''usage snapshot does not include a primary window for '' @ limit_id))
      | Some w \<Rightarrow> Inr w)"

definition json_number :: "pyval option \<Rightarrow> rat option" where
  "json_number v = (case v of Some (PInt i) \<Rightarrow> Some (of_int i) | Some (PFloat x) \<Rightarrow> Some x | _ \<Rightarrow> None)"

definition window_remaining_capacity :: "usage_window \<Rightarrow> rat option" where
  "window_remaining_capacity w =
     (case json_number (dict_get (uw_values w) ''remaining_units'') of
        Some x \<Rightarrow> Some x
      | None \<Rightarrow>
          (case json_number (dict_get (uw_values w) ''remaining'') of
             Some x \<Rightarrow> Some x
           | None \<Rightarrow> json_number (dict_get (uw_values w) ''remaining_percent'')))"

definition legacy_codex_work :: "AgentWorkItem list \<Rightarrow> bool" where
  "legacy_codex_work items \<longleftrightarrow>
     list_all (\<lambda>i. wk_agent_session_id i = None \<and> wk_provider_id i = ''codex'' \<and> wk_usage_unit i = ''quota_points'') items"

definition usage_unit_mismatch_reason :: "usage_window \<Rightarrow> AgentWorkItem list \<Rightarrow> string \<Rightarrow> string option" where
  "usage_unit_mismatch_reason w work limit_id =
     (let relevant = filter (\<lambda>i. eligible_state (wk_state i) \<or> wk_state i = WorkState_RUNNING) work;
          units = remdups (map wk_usage_unit relevant);
          window_unit = (if uw_usage_unit w = None \<and> legacy_codex_work relevant \<and>
                            dict_get (uw_values w) ''remaining_percent'' \<noteq> None
                         then Some ''quota_points'' else uw_usage_unit w)
      in if relevant = [] then None
         else if length units \<noteq> 1 \<or> window_unit \<notin> Some ` set units
         then Some (''usage unit mismatch for '' @ limit_id @ '': queued work requires '' @ py_join '', '' (sort units) @
                ''; usage window reports '' @ (case window_unit of Some u \<Rightarrow> u | None \<Rightarrow> ''missing''))
         else None)"

definition lifetime_tokens :: "usage_snapshot \<Rightarrow> int option" where
  "lifetime_tokens s =
     (case us_lifetime_tokens s of Some (PInt i) \<Rightarrow> Some i | Some (PBool b) \<Rightarrow> Some (if b then 1 else 0) | _ \<Rightarrow> None)"

definition checkpoint_prompt :: "AgentWorkItem \<Rightarrow> int \<Rightarrow> string" where
  "checkpoint_prompt item generation =
     ''Quark work slice '' @ wk_id item @ '' generation '' @ str_int generation @ ''. '' @
     ''Continue this durable project work: '' @ wk_intent item @ ''. '' @
     ''Work only through one bounded, coherent step. Before ending, create a durable checkpoint '' @
     ''(commit when appropriate, otherwise preserve a clean status and exact next action). '' @
     ''End with `QUARK_CHECKPOINT: <reference>` when more work remains, or '' @
     ''`QUARK_WORK_COMPLETED` when the requested work is genuinely finished. '' @
     ''Do not start another broad step after the checkpoint.''"

section \<open>Persisting a result\<close>

record execution_report =
  xr_work_id :: string
  xr_generation :: int
  xr_durable_generation :: "int option"
  xr_allocated_units :: rat
  xr_allocated_quota_points :: "rat option"
  xr_usage_unit :: string
  xr_provider_id :: string
  xr_limit_id :: string
  xr_status :: string
  xr_exit_code :: "int option"
  xr_checkpoint_ref :: "string option"
  xr_provider_dispatch_id :: "string option"
  xr_provider_result_id :: "string option"
  xr_provider_reference :: "string option"
  xr_capacity_confidence :: string
  xr_persistence_performed :: bool
  xr_rejection_scope :: "string option"
  xr_error_reason :: "string option"
  xr_rejected_idempotency_key :: "string option"

definition quota_projection :: "AgentWorkItem \<Rightarrow> rat \<Rightarrow> rat option" where
  "quota_projection item units =
     (if wk_provider_id item = ''codex'' \<and> wk_usage_unit item = ''quota_points'' then Some units else None)"

definition rejection_report :: "AgentWorkItem \<Rightarrow> slice_result \<Rightarrow> QuarkDb \<Rightarrow> execution_report result" where
  "rejection_report item r db =
     (let report = (\<lambda>durable. \<lparr>xr_work_id = wk_id item,
            xr_generation = (case sr_rejected_generation r of Some g \<Rightarrow> g | None \<Rightarrow> wk_generation item),
            xr_durable_generation = Some (wk_generation durable),
            xr_allocated_units = (case sr_allocated_units r of Some u \<Rightarrow> u | None \<Rightarrow> wk_reserved_units item),
            xr_allocated_quota_points =
              quota_projection item (case sr_allocated_units r of Some u \<Rightarrow> u | None \<Rightarrow> wk_reserved_units item),
            xr_usage_unit = wk_usage_unit item, xr_provider_id = wk_provider_id item, xr_limit_id = wk_limit_id item,
            xr_status = sr_status r, xr_exit_code = sr_exit_code r, xr_checkpoint_ref = sr_checkpoint_ref r,
            xr_provider_dispatch_id = sr_rejected_provider_dispatch_id r,
            xr_provider_result_id = sr_rejected_provider_result_id r,
            xr_provider_reference = sr_provider_reference r, xr_capacity_confidence = ''not_recorded'',
            xr_persistence_performed = False, xr_rejection_scope = sr_rejection_scope r,
            xr_error_reason = sr_error_reason r, xr_rejected_idempotency_key = sr_rejected_idempotency_key r\<rparr>)
      in case load_work (wk_id item) db of
           Inr durable \<Rightarrow> Inr (report durable)
         | Inl (KeyError k) \<Rightarrow> Inr (report item)
         | Inl e \<Rightarrow> Inl e)"

definition result_changes :: "slice_result \<Rightarrow> string \<Rightarrow> AgentWorkItem \<Rightarrow> AgentWorkItem" where
  "result_changes r observed_at i =
     i\<lparr>wk_provider_dispatch_id := sr_provider_dispatch_id r, wk_provider_result_id := sr_provider_result_id r,
       wk_provider_reference := sr_provider_reference r, wk_provider_idempotency_key := sr_idempotency_key r,
       wk_provider_dispatch_state := Some (sr_status r), wk_driver_epoch_id := sr_driver_epoch_id r,
       wk_updated_at := Some observed_at\<rparr>"

definition UNKNOWN_CAPACITY :: string where
  "UNKNOWN_CAPACITY = ''provider completed but post-dispatch capacity is unknown; reconcile usage before resuming''"

definition save_changed :: "AgentWorkItem result \<Rightarrow> QuarkDb \<Rightarrow> QuarkDb \<times> unit result" where
  "save_changed changed db = (case changed of Inl e \<Rightarrow> (db, Inl e) | Inr item \<Rightarrow> (save_work item db, Inr ()))"

definition persist_outcome ::
  "AgentWorkItem \<Rightarrow> slice_result \<Rightarrow> rat option \<Rightarrow> int option \<Rightarrow> string \<Rightarrow> QuarkDb \<Rightarrow> QuarkDb \<times> unit result" where
  "persist_outcome item r capacity_after tokens_after observed_at db =
     (if \<not> sr_terminal r then
        save_changed (with_state item WorkState_RUNNING None (result_changes r observed_at)) db
      else if sr_successful r then
        (case capacity_after of
           Some after \<Rightarrow>
             (case save_changed (with_state item (wk_state item) None (result_changes r observed_at)) db of
                (db1, Inl e) \<Rightarrow> (db1, Inl e)
              | (db1, Inr _) \<Rightarrow>
                  record_slice_checkpoint (wk_id item) (wk_generation item) after tokens_after observed_at
                    (sr_completed r) (sr_checkpoint_ref r) db1)
         | None \<Rightarrow>
             save_changed (with_state item WorkState_RECONCILE_REQUIRED None
               (\<lambda>i. result_changes r observed_at (i\<lparr>wk_pause_reason := Some UNKNOWN_CAPACITY\<rparr>))) db)
      else
        save_changed (with_state item
          (if sr_status r = operation_state_value Op_BLOCKED then WorkState_BLOCKED else WorkState_RECONCILE_REQUIRED)
          (Some 0) (\<lambda>i. result_changes r observed_at
             (i\<lparr>wk_pause_reason := Some (''provider dispatch ended without success: '' @ sr_status r)\<rparr>))) db)"

definition persist_execution_result_unchecked ::
  "string \<Rightarrow> AgentWorkItem \<Rightarrow> slice_result \<Rightarrow> rat option \<Rightarrow> usage_snapshot \<Rightarrow> QuarkDb \<Rightarrow>
   QuarkDb \<times> execution_report result" where
  "persist_execution_result_unchecked stamp item r capacity_after snapshot db =
     (if \<not> sr_persistence_allowed r then (db, rejection_report item r db)
      else
        (let observed_at = str_default (us_observed_at snapshot) stamp;
             confidence = (if capacity_after \<noteq> None then ''observed'' else ''unknown'')
         in case record_slice_observation (wk_id item) (wk_generation item) capacity_after (lifetime_tokens snapshot)
                  observed_at confidence (sr_provider_dispatch_id r) (sr_provider_result_id r)
                  (sr_provider_reference r) db of
              (db1, Inl e) \<Rightarrow> (db1, Inl e)
            | (db1, Inr _) \<Rightarrow>
                map_prod id (map_sum id (\<lambda>_.
                  \<lparr>xr_work_id = wk_id item, xr_generation = wk_generation item, xr_durable_generation = None,
                   xr_allocated_units = wk_reserved_units item,
                   xr_allocated_quota_points = quota_projection item (wk_reserved_units item),
                   xr_usage_unit = wk_usage_unit item, xr_provider_id = wk_provider_id item,
                   xr_limit_id = wk_limit_id item, xr_status = sr_status r, xr_exit_code = sr_exit_code r,
                   xr_checkpoint_ref = sr_checkpoint_ref r, xr_provider_dispatch_id = sr_provider_dispatch_id r,
                   xr_provider_result_id = sr_provider_result_id r, xr_provider_reference = sr_provider_reference r,
                   xr_capacity_confidence = confidence, xr_persistence_performed = True, xr_rejection_scope = None,
                   xr_error_reason = None, xr_rejected_idempotency_key = None\<rparr>))
                (persist_outcome item r capacity_after (lifetime_tokens snapshot) observed_at db1)))"

definition cas_conflict :: "slice_result \<Rightarrow> WorkBinding \<Rightarrow> slice_result" where
  "cas_conflict r expected =
     r\<lparr>sr_persistence_allowed := False, sr_rejection_scope := Some ''persistence_compare_and_swap'',
       sr_error_reason := Some ''durable work binding advanced after provider validation; result was not persisted'',
       sr_rejected_generation := Some (wb_generation expected),
       sr_rejected_provider_dispatch_id := sr_provider_dispatch_id r,
       sr_rejected_provider_result_id := sr_provider_result_id r,
       sr_rejected_idempotency_key := sr_idempotency_key r\<rparr>"

definition persist_execution_result ::
  "string \<Rightarrow> AgentWorkItem \<Rightarrow> slice_result \<Rightarrow> rat option \<Rightarrow> usage_snapshot \<Rightarrow> QuarkDb \<Rightarrow>
   QuarkDb \<times> execution_report result" where
  "persist_execution_result stamp item r capacity_after snapshot db =
     (case (if sr_persistence_allowed r then sr_expected_work_binding r else None) of
        None \<Rightarrow> persist_execution_result_unchecked stamp item r capacity_after snapshot db
      | Some expected \<Rightarrow>
          (case begin_work_binding_cas (wk_id item) expected db of
             (db1, Inl e) \<Rightarrow> (db1, Inl e)
           | (db1, Inr (False, durable)) \<Rightarrow>
               persist_execution_result_unchecked stamp (case durable of Some d \<Rightarrow> d | None \<Rightarrow> item)
                 (cas_conflict r expected) capacity_after snapshot db1
           | (db1, Inr (True, durable)) \<Rightarrow>
               (case persist_execution_result_unchecked stamp item r capacity_after snapshot db1 of
                  (db2, Inl e) \<Rightarrow> (fst (finish_work_binding_cas False db2), Inl e)
                | (db2, Inr report) \<Rightarrow> map_prod id (map_sum id (\<lambda>_. report)) (finish_work_binding_cas True db2))))"

section \<open>The cycle\<close>

record 'm quark_service =
  qs_refresh :: "'m quark_world \<Rightarrow> 'm quark_world \<times> usage_snapshot result"
  qs_timestamp :: "'m quark_world \<Rightarrow> string"
  qs_executor :: "'m work_executor"
  qs_policy :: QuarkUsagePolicy
  qs_work_filter :: "AgentWorkItem \<Rightarrow> bool"

record cycle_report =
  cy_planned :: nat
  cy_executed :: nat
  cy_reconcile_results :: "execution_report list"
  cy_allocations :: "WorkAllocation list"
  cy_results :: "execution_report list"
  cy_plan :: QuarkWorkPlan
  cy_resume_at :: "string option"
  cy_reason :: string

definition work_for_limit :: "'m quark_service \<Rightarrow> string \<Rightarrow> QuarkDb \<Rightarrow> AgentWorkItem list result" where
  "work_for_limit svc limit_id db =
     map_sum id (filter (\<lambda>i. wk_limit_id i = limit_id \<and> qs_work_filter svc i)) (list_work db)"

fun reconcile_all ::
  "'m quark_service \<Rightarrow> rat option \<Rightarrow> usage_snapshot \<Rightarrow> AgentWorkItem list \<Rightarrow> 'm quark_world \<Rightarrow>
   'm quark_world \<times> execution_report list result" where
  "reconcile_all svc remaining before [] w = (w, Inr [])"
| "reconcile_all svc remaining before (running # items) w =
     (case reconcile_slice (qs_executor svc) running (checkpoint_prompt running (wk_generation running)) w of
        (w1, Inl e) \<Rightarrow> (w1, Inl e)
      | (w1, Inr r) \<Rightarrow>
          (case persist_execution_result (qs_timestamp svc w1) running r remaining before (qw_db w1) of
             (db, Inl e) \<Rightarrow> (w1\<lparr>qw_db := db\<rparr>, Inl e)
           | (db, Inr report) \<Rightarrow>
               map_prod id (map_sum id (Cons report)) (reconcile_all svc remaining before items (w1\<lparr>qw_db := db\<rparr>))))"

fun mark_all_waiting :: "AgentWorkItem list \<Rightarrow> string option \<Rightarrow> string \<Rightarrow> QuarkDb \<Rightarrow> QuarkDb \<times> unit result" where
  "mark_all_waiting [] resume_at reason db = (db, Inr ())"
| "mark_all_waiting (i # items) resume_at reason db =
     (if eligible_state (wk_state i) then
        (case mark_waiting_capacity (wk_id i) resume_at reason db of
           (db1, Inl e) \<Rightarrow> (db1, Inl e)
         | (db1, Inr _) \<Rightarrow> mark_all_waiting items resume_at reason db1)
      else mark_all_waiting items resume_at reason db)"

text \<open>The reservation of one allocation: the item is stored as running and its slice is opened.\<close>

definition reserve_slice ::
  "WorkAllocation \<Rightarrow> string \<Rightarrow> rat option \<Rightarrow> int option \<Rightarrow> QuarkDb \<Rightarrow> QuarkDb \<times> AgentWorkItem result" where
  "reserve_slice a started_at remaining tokens db =
     (case load_work (wa_work_id a) db of
        Inl e \<Rightarrow> (db, Inl e)
      | Inr item \<Rightarrow>
          (case with_state item WorkState_RUNNING (Some (wa_allocated_units a))
              (\<lambda>i. i\<lparr>wk_generation := wa_generation a, wk_updated_at := Some started_at\<rparr>) of
             Inl e \<Rightarrow> (db, Inl e)
           | Inr reserved \<Rightarrow>
               map_prod id (map_sum id (\<lambda>_. item))
                 (record_slice_start (wk_id item) (wa_generation a) remaining tokens started_at (save_work reserved db))))"

definition execute_allocation ::
  "'m quark_service \<Rightarrow> string \<Rightarrow> usage_snapshot \<Rightarrow> rat option \<Rightarrow> WorkAllocation \<Rightarrow> 'm quark_world \<Rightarrow>
   'm quark_world \<times> execution_report result" where
  "execute_allocation svc limit_id before remaining a w =
     (case reserve_slice a (str_default (us_observed_at before) (qs_timestamp svc w)) remaining
             (lifetime_tokens before) (qw_db w) of
        (db, Inl e) \<Rightarrow> (w\<lparr>qw_db := db\<rparr>, Inl e)
      | (db, Inr item) \<Rightarrow>
          (case run_slice (qs_executor svc) item (wa_allocated_units a) (checkpoint_prompt item (wa_generation a))
                  (w\<lparr>qw_db := db\<rparr>) of
             (w1, Inl e) \<Rightarrow> (w1, Inl e)
           | (w1, Inr r) \<Rightarrow>
               (case qs_refresh svc w1 of
                  (w2, Inl e) \<Rightarrow> (w2, Inl e)
                | (w2, Inr after) \<Rightarrow>
                    (case primary_window after limit_id of
                       Inl e \<Rightarrow> (w2, Inl e)
                     | Inr window \<Rightarrow>
                         (case load_work (wk_id item) (qw_db w2) of
                            Inl e \<Rightarrow> (w2, Inl e)
                          | Inr current \<Rightarrow>
                              (case persist_execution_result (qs_timestamp svc w2) current r
                                      (window_remaining_capacity window) after (qw_db w2) of
                                 (db2, report) \<Rightarrow> (w2\<lparr>qw_db := db2\<rparr>, report)))))))"

fun execute_all ::
  "'m quark_service \<Rightarrow> string \<Rightarrow> usage_snapshot \<Rightarrow> rat option \<Rightarrow> WorkAllocation list \<Rightarrow> 'm quark_world \<Rightarrow>
   'm quark_world \<times> execution_report list result" where
  "execute_all svc limit_id before remaining [] w = (w, Inr [])"
| "execute_all svc limit_id before remaining (a # as) w =
     (case execute_allocation svc limit_id before remaining a w of
        (w1, Inl e) \<Rightarrow> (w1, Inl e)
      | (w1, Inr report) \<Rightarrow> map_prod id (map_sum id (Cons report)) (execute_all svc limit_id before remaining as w1))"

text \<open>The running items a cycle reconciles, and the work list it then plans with.\<close>

definition reconcile_phase ::
  "'m quark_service \<Rightarrow> bool \<Rightarrow> string \<Rightarrow> rat option \<Rightarrow> usage_snapshot \<Rightarrow> AgentWorkItem list \<Rightarrow> 'm quark_world \<Rightarrow>
   'm quark_world \<times> (execution_report list \<times> AgentWorkItem list) result" where
  "reconcile_phase svc execute limit_id remaining before work w =
     (if \<not> execute then (w, Inr ([], work))
      else case reconcile_all svc remaining before
          (filter (\<lambda>i. wk_state i = WorkState_RUNNING \<and> wk_agent_session_id i \<noteq> None \<and>
             wk_provider_dispatch_id i \<noteq> None) work) w of
        (w1, Inl e) \<Rightarrow> (w1, Inl e)
      | (w1, Inr reports) \<Rightarrow> (w1, map_sum id (Pair reports) (work_for_limit svc limit_id (qw_db w1))))"

definition capacity_argument :: "string \<Rightarrow> rat option \<Rightarrow> AgentWorkItem list \<Rightarrow> capacity_arg" where
  "capacity_argument limit_id remaining work =
     (case remaining of
        Some points \<Rightarrow>
          if limit_id = ''codex'' \<and>
             list_all (\<lambda>i. wk_provider_id i = ''codex'' \<and> wk_usage_unit i = ''quota_points'') work
          then Scalar_points points else Points_by_limit [(limit_id, Some points)]
      | None \<Rightarrow> Points_by_limit [(limit_id, None)])"

definition plan_phase ::
  "'m quark_service \<Rightarrow> bool \<Rightarrow> string \<Rightarrow> rat option \<Rightarrow> usage_snapshot \<Rightarrow> usage_window \<Rightarrow> execution_report list \<Rightarrow>
   AgentWorkItem list \<Rightarrow> QuarkWorkPlan \<Rightarrow> 'm quark_world \<Rightarrow> 'm quark_world \<times> cycle_report result" where
  "plan_phase svc execute limit_id remaining before window reconciled work plan w =
     (let selected = take (nat (qp_max_concurrent_work (qs_policy svc))) (wp_allocations plan);
          report = \<lparr>cy_planned = length selected, cy_executed = 0, cy_reconcile_results = reconciled,
            cy_allocations = selected, cy_results = [], cy_plan = plan, cy_resume_at = None,
            cy_reason = ''dry-run plan; no agent work was started''\<rparr>
      in if wp_allocations plan = [] then
           (case mark_all_waiting work (uw_resets_at window) (wp_reason plan) (qw_db w) of
              (db, r) \<Rightarrow> (w\<lparr>qw_db := db\<rparr>, map_sum id (\<lambda>_. report\<lparr>cy_planned := 0,
                 cy_resume_at := uw_resets_at window, cy_reason := wp_reason plan\<rparr>) r))
         else if \<not> execute then (w, Inr report)
         else map_prod id (map_sum id (\<lambda>results. report\<lparr>cy_executed := length results, cy_results := results,
                cy_reason := ''bounded agent slices reached a natural turn checkpoint''\<rparr>))
              (execute_all svc limit_id before remaining selected w))"

definition run_cycle ::
  "'m quark_service \<Rightarrow> bool \<Rightarrow> string \<Rightarrow> 'm quark_world \<Rightarrow> ('m quark_world \<times> cycle_report result) option" where
  "run_cycle svc execute limit_id w0 =
     (case qs_refresh svc w0 of
        (w, Inl e) \<Rightarrow> Some (w, Inl e)
      | (w, Inr before) \<Rightarrow>
          (case primary_window before limit_id of
             Inl e \<Rightarrow> Some (w, Inl e)
           | Inr window \<Rightarrow>
               (case work_for_limit svc limit_id (qw_db w) of
                  Inl e \<Rightarrow> Some (w, Inl e)
                | Inr work \<Rightarrow>
                    (case usage_unit_mismatch_reason window work limit_id of
                       Some reason \<Rightarrow>
                         map_option (\<lambda>r. (w, map_sum id (\<lambda>plan. \<lparr>cy_planned = 0, cy_executed = 0,
                             cy_reconcile_results = [], cy_allocations = [], cy_results = [],
                             cy_plan = plan\<lparr>wp_reason := reason\<rparr>, cy_resume_at = uw_resets_at window,
                             cy_reason = reason\<rparr>) r))
                           (plan_quark_work (qs_policy svc) (Points_by_limit [(limit_id, None)]) work)
                     | None \<Rightarrow>
                         (let remaining = window_remaining_capacity window
                          in case reconcile_phase svc execute limit_id remaining before work w of
                               (w1, Inl e) \<Rightarrow> Some (w1, Inl e)
                             | (w1, Inr (reconciled, work1)) \<Rightarrow>
                                 (case plan_quark_work (qs_policy svc) (capacity_argument limit_id remaining work1) work1 of
                                    None \<Rightarrow> None
                                  | Some (Inl e) \<Rightarrow> Some (w1, Inl e)
                                  | Some (Inr plan) \<Rightarrow>
                                      Some (plan_phase svc execute limit_id remaining before window reconciled work1
                                              plan w1)))))))"

end
