(* ===== verification/Quark_Runs.thy ===== *)
theory Quark_Runs
  imports Quark_Cycle
begin

text \<open>
  The work store over every interleaving of schedulers (\<open>quark_step\<close>): items are submitted, reserved,
  marked as waiting and have results persisted, in any order and from any reading of the store. The
  ledger stays consistent, the result of a running slice is always recorded, and a result that was
  computed for an older binding changes nothing.
\<close>

section \<open>Valid items\<close>

definition work_valid :: "AgentWorkItem \<Rightarrow> bool" where
  "work_valid i \<longleftrightarrow> work_from_payload i = Inr i"

definition codex_points :: "AgentWorkItem \<Rightarrow> bool" where
  "codex_points i \<longleftrightarrow> wk_provider_id i = ''codex'' \<and> wk_usage_unit i = ''quota_points''"

definition work_fields_ok :: "AgentWorkItem \<Rightarrow> bool" where
  "work_fields_ok i \<longleftrightarrow> \<not> blank (wk_id i) \<and> \<not> blank (wk_project_id i) \<and> \<not> blank (wk_provider_id i) \<and>
     \<not> blank (wk_limit_id i) \<and> \<not> blank (wk_usage_unit i) \<and>
     (str_true (wk_agent_session_id i) \<or> str_true (wk_owner_thread i)) \<and>
     0 \<le> wk_priority i \<and> wk_priority i \<le> 100"

lemma make_work_item_Inr:
  "make_work_item args (Some est) (Some units) = Inr i \<longleftrightarrow>
     work_fields_ok args \<and> 0 < est \<and> 0 \<le> units \<and>
     i = (let item = args\<lparr>wk_estimated_units := est, wk_reserved_units := units\<rparr>
        in if codex_points args
           then item\<lparr>wk_estimated_quota_points := Some est, wk_reserved_quota_points := Some units\<rparr> else item)"
  by (auto simp: make_work_item_def work_fields_ok_def codex_points_def Let_def not_le not_less)

lemma work_valid_iff:
  "work_valid i \<longleftrightarrow> work_fields_ok i \<and> 0 < wk_estimated_units i \<and> 0 \<le> wk_reserved_units i \<and>
     (codex_points i \<longrightarrow> wk_estimated_quota_points i = Some (wk_estimated_units i) \<and>
        wk_reserved_quota_points i = Some (wk_reserved_units i))"
  unfolding work_valid_def work_from_payload_def make_work_item_Inr Let_def
  by (cases i) auto


text \<open>What a change of state keeps of an item: everything that names and sizes the work.\<close>

definition same_identity :: "AgentWorkItem \<Rightarrow> AgentWorkItem \<Rightarrow> bool" where
  "same_identity i j \<longleftrightarrow> wk_id j = wk_id i \<and> wk_project_id j = wk_project_id i \<and>
     wk_agent_session_id j = wk_agent_session_id i \<and> wk_provider_id j = wk_provider_id i \<and>
     wk_limit_id j = wk_limit_id i \<and> wk_usage_unit j = wk_usage_unit i \<and> wk_owner_thread j = wk_owner_thread i \<and>
     wk_priority j = wk_priority i \<and> wk_estimated_units j = wk_estimated_units i \<and>
     wk_estimated_quota_points j = wk_estimated_quota_points i \<and> wk_intent j = wk_intent i"

lemma with_state_valid:
  assumes "work_valid item" "same_identity item (changes (item\<lparr>wk_state := s\<rparr>))"
    "wk_reserved_quota_points (changes (item\<lparr>wk_state := s\<rparr>)) = wk_reserved_quota_points item"
    "case reserved of None \<Rightarrow> True | Some u \<Rightarrow> 0 \<le> u"
  obtains q where "with_state item s reserved changes =
      Inr ((changes (item\<lparr>wk_state := s\<rparr>))\<lparr>wk_reserved_units := (case reserved of None \<Rightarrow> wk_reserved_units item | Some u \<Rightarrow> u),
        wk_reserved_quota_points := q\<rparr>)"
    "work_valid ((changes (item\<lparr>wk_state := s\<rparr>))\<lparr>wk_reserved_units := (case reserved of None \<Rightarrow> wk_reserved_units item | Some u \<Rightarrow> u),
        wk_reserved_quota_points := q\<rparr>)"
proof -
  let ?c = "changes (item\<lparr>wk_state := s\<rparr>)"
  let ?u = "case reserved of None \<Rightarrow> wk_reserved_units item | Some u \<Rightarrow> u"
  let ?q = "if codex_points item then Some ?u else if reserved = None then wk_reserved_quota_points item else None"
  have v: "work_fields_ok item" "0 < wk_estimated_units item" "0 \<le> wk_reserved_units item"
    "codex_points item \<Longrightarrow> wk_estimated_quota_points item = Some (wk_estimated_units item)"
    "codex_points item \<Longrightarrow> wk_reserved_quota_points item = Some (wk_reserved_units item)"
    using assms(1) by (simp_all add: work_valid_iff)
  have id: "wk_id ?c = wk_id item" "wk_project_id ?c = wk_project_id item"
    "wk_agent_session_id ?c = wk_agent_session_id item" "wk_provider_id ?c = wk_provider_id item"
    "wk_limit_id ?c = wk_limit_id item" "wk_usage_unit ?c = wk_usage_unit item" "wk_owner_thread ?c = wk_owner_thread item"
    "wk_priority ?c = wk_priority item" "wk_estimated_units ?c = wk_estimated_units item"
    "wk_estimated_quota_points ?c = wk_estimated_quota_points item"
    using assms(2) by (simp_all add: same_identity_def)
  have eq: "work_fields_ok ?c = work_fields_ok item" "codex_points ?c = codex_points item"
    by (simp_all add: work_fields_ok_def codex_points_def id)
  have u: "0 \<le> ?u" using assms(4) v(3) by (cases reserved) auto
  have tag: "work_fields_ok (?c\<lparr>wk_reserved_quota_points := x\<rparr>) = work_fields_ok item"
      "codex_points (?c\<lparr>wk_reserved_quota_points := x\<rparr>) = codex_points item" for x
    by (simp_all add: work_fields_ok_def codex_points_def id)
  have upd: "?c\<lparr>wk_estimated_units := wk_estimated_units item\<rparr> = ?c"
      "codex_points item \<Longrightarrow> ?c\<lparr>wk_estimated_quota_points := Some (wk_estimated_units item)\<rparr> = ?c"
    using id v(4) by (cases "?c"; simp)+
  have "with_state item s reserved changes = Inr (?c\<lparr>wk_reserved_units := ?u, wk_reserved_quota_points := ?q\<rparr>)"
  proof (cases reserved)
    case None
    have "make_work_item ?c (Some (wk_estimated_units item)) (Some (wk_reserved_units item)) =
        Inr (?c\<lparr>wk_reserved_units := ?u, wk_reserved_quota_points := ?q\<rparr>)"
      unfolding make_work_item_Inr eq Let_def using v u upd assms(3) None id by (cases "?c") auto
    with None show ?thesis by (simp add: with_state_def)
  next
    case (Some x)
    let ?d = "?c\<lparr>wk_reserved_quota_points := (if codex_points item then Some x else None)\<rparr>"
    have "make_work_item ?d (Some (wk_estimated_units item)) (Some x) =
        Inr (?c\<lparr>wk_reserved_units := ?u, wk_reserved_quota_points := ?q\<rparr>)"
      unfolding make_work_item_Inr tag Let_def using v u upd Some id by (cases "?c") auto
    with Some show ?thesis by (simp add: with_state_def codex_points_def)
  qed
  moreover have "work_valid (?c\<lparr>wk_reserved_units := ?u, wk_reserved_quota_points := ?q\<rparr>)"
    using v u id unfolding work_valid_iff work_fields_ok_def codex_points_def by auto
  ultimately show ?thesis using that by blast
qed

section \<open>The ledger\<close>

definition ledger_ok :: "QuarkDb \<Rightarrow> bool" where
  "ledger_ok db \<longleftrightarrow> tbl_ok (qd_work db) \<and> tbl_ok (qd_slices db) \<and> qd_rollback db = None \<and>
     (\<forall>k i. tbl_get (qd_work db) k = Some i \<longrightarrow> wk_id i = k \<and> work_valid i) \<and>
     (\<forall>k s. tbl_get (qd_slices db) k = Some s \<longrightarrow> ws_quota_before s \<noteq> None) \<and>
     (\<forall>k i. tbl_get (qd_work db) k = Some i \<and> wk_state i = WorkState_RUNNING \<longrightarrow>
        tbl_get (qd_slices db) (k, wk_generation i) \<noteq> None)"

lemma load_work_valid:
  assumes "ledger_ok db"
  shows "load_work wid db = (case tbl_get (qd_work db) wid of None \<Rightarrow> Inl (KeyError wid) | Some i \<Rightarrow> Inr i)"
  using assms by (auto simp: load_work_def ledger_ok_def work_valid_def split: option.split)

text \<open>Writing one item and its slice, seen through the lookups.\<close>

definition wrote :: "QuarkDb \<Rightarrow> QuarkDb \<Rightarrow> AgentWorkItem \<Rightarrow> QuarkSlice \<Rightarrow> bool" where
  "wrote db db' i s \<longleftrightarrow> tbl_ok (qd_work db') \<and> tbl_ok (qd_slices db') \<and> qd_rollback db' = qd_rollback db \<and>
     tbl_get (qd_work db') = (tbl_get (qd_work db))(wk_id i \<mapsto> i) \<and>
     tbl_get (qd_slices db') = (tbl_get (qd_slices db))((wk_id i, wk_generation i) \<mapsto> s)"

lemma wrote_ledger_ok:
  assumes "ledger_ok db" "wrote db db' i s" "work_valid i" "ws_quota_before s \<noteq> None"
  shows "ledger_ok db'"
proof -
  have w: "tbl_get (qd_work db') = (tbl_get (qd_work db))(wk_id i \<mapsto> i)"
    and sl: "tbl_get (qd_slices db') = (tbl_get (qd_slices db))((wk_id i, wk_generation i) \<mapsto> s)"
    using assms(2) by (simp_all add: wrote_def)
  show ?thesis
    using assms(1,3,4) assms(2) unfolding ledger_ok_def wrote_def w sl by auto
qed

lemma saved_ledger_ok:
  assumes "ledger_ok db" "work_valid i"
    "wk_state i = WorkState_RUNNING \<longrightarrow> tbl_get (qd_slices db) (wk_id i, wk_generation i) \<noteq> None"
  shows "ledger_ok (save_work i db)"
  using assms unfolding ledger_ok_def save_work_def by (auto simp: tbl_get_upsert)

section \<open>Persisting the result of a slice\<close>

definition used_units :: "rat option \<Rightarrow> rat option \<Rightarrow> rat option" where
  "used_units before after =
     (case (before, after) of (Some b, Some a) \<Rightarrow> Some (max 0 (b - a)) | _ \<Rightarrow> None)"

lemma slice_measured_known:
  assumes "ws_quota_before s \<noteq> None"
  obtains s' where "slice_measured after confidence tokens s = Inr s'" "ws_quota_before s' = ws_quota_before s"
    "ws_actual_units s' = used_units (ws_quota_before s) after" "ws_quota_after s' = after"
  using assms by (cases after) (auto simp: slice_measured_def used_units_def Let_def)

text \<open>The state an item reaches, and the units it keeps reserved, by the result of its slice.\<close>

definition outcome_state :: "slice_result \<Rightarrow> rat option \<Rightarrow> WorkState" where
  "outcome_state r capacity_after =
     (if \<not> sr_terminal r then WorkState_RUNNING
      else if \<not> sr_successful r then (if sr_status r = ''blocked'' then WorkState_BLOCKED else WorkState_RECONCILE_REQUIRED)
      else if capacity_after = None then WorkState_RECONCILE_REQUIRED
      else if sr_completed r then WorkState_COMPLETED else WorkState_CHECKPOINTED)"

definition outcome_reserved :: "AgentWorkItem \<Rightarrow> slice_result \<Rightarrow> rat option \<Rightarrow> rat" where
  "outcome_reserved item r capacity_after =
     (if sr_terminal r \<and> (sr_successful r \<longrightarrow> capacity_after \<noteq> None) then 0 else wk_reserved_units item)"

definition recorded_item :: "AgentWorkItem \<Rightarrow> slice_result \<Rightarrow> rat option \<Rightarrow> AgentWorkItem \<Rightarrow> bool" where
  "recorded_item item r capacity_after i \<longleftrightarrow>
     work_valid i \<and> same_identity item i \<and> wk_generation i = wk_generation item \<and>
     wk_state i = outcome_state r capacity_after \<and> wk_reserved_units i = outcome_reserved item r capacity_after \<and>
     wk_provider_dispatch_id i = sr_provider_dispatch_id r \<and> wk_provider_result_id i = sr_provider_result_id r \<and>
     wk_provider_idempotency_key i = sr_idempotency_key r \<and> wk_driver_epoch_id i = sr_driver_epoch_id r"

definition recorded_slice :: "QuarkSlice \<Rightarrow> rat option \<Rightarrow> QuarkSlice \<Rightarrow> bool" where
  "recorded_slice s capacity_after s' \<longleftrightarrow>
     ws_quota_before s' = ws_quota_before s \<and> ws_quota_after s' = capacity_after \<and>
     ws_actual_units s' = used_units (ws_quota_before s) capacity_after"

lemma result_changes_identity:
  "same_identity i (result_changes r t (i\<lparr>wk_state := st\<rparr>))"
  "same_identity i (result_changes r t (i\<lparr>wk_state := st, wk_pause_reason := p\<rparr>))"
  "wk_reserved_quota_points (result_changes r t (i\<lparr>wk_state := st\<rparr>)) = wk_reserved_quota_points i"
  "wk_reserved_quota_points (result_changes r t (i\<lparr>wk_state := st, wk_pause_reason := p\<rparr>)) = wk_reserved_quota_points i"
  by (simp_all add: same_identity_def result_changes_def)

lemma result_changes_sel [simp]:
  "wk_id (result_changes r t i) = wk_id i" "wk_generation (result_changes r t i) = wk_generation i"
  "wk_state (result_changes r t i) = wk_state i"
  "wk_provider_dispatch_id (result_changes r t i) = sr_provider_dispatch_id r"
  "wk_provider_result_id (result_changes r t i) = sr_provider_result_id r"
  "wk_provider_idempotency_key (result_changes r t i) = sr_idempotency_key r"
  "wk_driver_epoch_id (result_changes r t i) = sr_driver_epoch_id r"
  by (simp_all add: result_changes_def)

lemma saved_wrote:
  assumes "tbl_ok (qd_work db)" "tbl_ok (qd_slices db)" "tbl_get (qd_slices db) (wk_id i, wk_generation i) = Some s"
  shows "wrote db (save_work i db) i s"
  using assms by (auto simp: wrote_def save_work_def tbl_get_upsert fun_eq_iff)

lemma save_with_state:
  assumes "work_valid item" "same_identity item (changes (item\<lparr>wk_state := st\<rparr>))"
    "wk_reserved_quota_points (changes (item\<lparr>wk_state := st\<rparr>)) = wk_reserved_quota_points item"
    "case reserved of None \<Rightarrow> True | Some u \<Rightarrow> 0 \<le> u"
    "wk_generation (changes (item\<lparr>wk_state := st\<rparr>)) = wk_generation item"
    "tbl_ok (qd_work db)" "tbl_ok (qd_slices db)" "tbl_get (qd_slices db) (wk_id item, wk_generation item) = Some s"
  obtains i q where "with_state item st reserved changes = Inr i"
    "i = (changes (item\<lparr>wk_state := st\<rparr>))\<lparr>wk_reserved_units := (case reserved of None \<Rightarrow> wk_reserved_units item | Some u \<Rightarrow> u),
        wk_reserved_quota_points := q\<rparr>"
    "work_valid i" "wrote db (save_work i db) i s"
proof -
  let ?i = "\<lambda>q. (changes (item\<lparr>wk_state := st\<rparr>))\<lparr>wk_reserved_units := (case reserved of None \<Rightarrow> wk_reserved_units item | Some u \<Rightarrow> u),
        wk_reserved_quota_points := q\<rparr>"
  obtain q where q: "with_state item st reserved changes = Inr (?i q)" and v: "work_valid (?i q)"
    using with_state_valid [where changes = changes and s = st, OF assms(1-4)] by blast
  have "wrote db (save_work (?i q) db) (?i q) s"
    using assms(2,5-8) by (intro saved_wrote) (simp_all add: same_identity_def)
  with that q v show ?thesis by blast
qed

lemma same_identity_update:
  "same_identity i (j\<lparr>wk_reserved_units := u, wk_reserved_quota_points := q\<rparr>) = same_identity i j"
  by (simp add: same_identity_def)

lemma checkpoint_wrote:
  assumes "tbl_ok (qd_work db)" "tbl_ok (qd_slices db)" "tbl_get (qd_work db) wid = Some i" "wk_id i = wid" "work_valid i"
    "tbl_get (qd_slices db) (wid, wk_generation i) = Some s" "ws_quota_before s \<noteq> None"
  obtains db' i' s' where
    "record_slice_checkpoint wid (wk_generation i) after tokens t completed ref db = (db', Inr ())"
    "wrote db db' i' s'" "work_valid i'" "same_identity i i'" "wk_generation i' = wk_generation i"
    "wk_state i' = (if completed then WorkState_COMPLETED else WorkState_CHECKPOINTED)" "wk_reserved_units i' = 0"
    "wk_provider_dispatch_id i' = wk_provider_dispatch_id i" "wk_provider_result_id i' = wk_provider_result_id i"
    "wk_provider_idempotency_key i' = wk_provider_idempotency_key i" "wk_driver_epoch_id i' = wk_driver_epoch_id i"
    "recorded_slice s (Some after) s'"
proof -
  obtain s1 where s1: "slice_measured (Some after) ''observed'' tokens s = Inr s1" "ws_quota_before s1 = ws_quota_before s"
    "ws_actual_units s1 = used_units (ws_quota_before s) (Some after)" "ws_quota_after s1 = Some after"
    by (rule slice_measured_known [OF assms(7)])
  let ?s = "s1\<lparr>ws_checkpointed_at := Some t, ws_checkpoint_ref := ref, ws_completed := completed\<rparr>"
  let ?db = "db\<lparr>qd_slices := tbl_upsert (wid, wk_generation i) ?s (qd_slices db)\<rparr>"
  let ?f = "\<lambda>i. i\<lparr>wk_checkpoint_ref := ref, wk_pause_reason := None, wk_resume_at := None, wk_updated_at := Some t\<rparr>"
  let ?st = "if completed then WorkState_COMPLETED else WorkState_CHECKPOINTED"
  have ok: "tbl_ok (qd_work ?db)" "tbl_ok (qd_slices ?db)" "tbl_get (qd_slices ?db) (wk_id i, wk_generation i) = Some ?s"
    using assms(1,2,4) by (simp_all add: tbl_get_upsert)
  have id: "same_identity i (?f (i\<lparr>wk_state := ?st\<rparr>))"
      "wk_reserved_quota_points (?f (i\<lparr>wk_state := ?st\<rparr>)) = wk_reserved_quota_points i"
      "wk_generation (?f (i\<lparr>wk_state := ?st\<rparr>)) = wk_generation i"
    by (simp_all add: same_identity_def)
  obtain i' q where i': "with_state i ?st (Some 0) ?f = Inr i'"
    "i' = (?f (i\<lparr>wk_state := ?st\<rparr>))\<lparr>wk_reserved_units := 0, wk_reserved_quota_points := q\<rparr>" "work_valid i'"
    "wrote ?db (save_work i' ?db) i' ?s"
    using save_with_state [where changes = ?f and st = ?st and reserved = "Some 0", OF assms(5) id(1,2) _ id(3) ok] by auto
  moreover have "load_work wid ?db = Inr i" using assms(3,5) by (simp add: load_work_def work_valid_def)
  ultimately have run: "record_slice_checkpoint wid (wk_generation i) after tokens t completed ref db = (save_work i' ?db, Inr ())"
    using assms(6) s1(1) by (simp add: record_slice_checkpoint_def Let_def)
  have "wrote db (save_work i' ?db) i' ?s"
    using i'(4) assms(1,2,4) i'(2) by (auto simp: wrote_def tbl_get_upsert fun_eq_iff)
  moreover have "recorded_slice s (Some after) ?s" using s1 by (simp add: recorded_slice_def)
  ultimately show ?thesis
    using that [OF run] i'(2,3) by (auto simp: same_identity_def)
qed

lemma recorded_simple:
  assumes "work_valid item" "tbl_ok (qd_work db)" "tbl_ok (qd_slices db)"
    "tbl_get (qd_slices db) (wk_id item, wk_generation item) = Some s"
    "changes = result_changes r t \<or> changes = (\<lambda>i. result_changes r t (i\<lparr>wk_pause_reason := p\<rparr>))"
    "st = outcome_state r cap"
    "reserved = Some 0 \<and> outcome_reserved item r cap = 0 \<or> reserved = None \<and> outcome_reserved item r cap = wk_reserved_units item"
  shows "\<exists>i. save_changed (with_state item st reserved changes) db = (save_work i db, Inr ()) \<and>
    recorded_item item r cap i \<and> wrote db (save_work i db) i s"
proof -
  have id: "same_identity item (changes (item\<lparr>wk_state := st\<rparr>))"
    "wk_reserved_quota_points (changes (item\<lparr>wk_state := st\<rparr>)) = wk_reserved_quota_points item"
    "wk_generation (changes (item\<lparr>wk_state := st\<rparr>)) = wk_generation item"
    "wk_state (changes (item\<lparr>wk_state := st\<rparr>)) = st"
    "wk_provider_dispatch_id (changes (item\<lparr>wk_state := st\<rparr>)) = sr_provider_dispatch_id r"
    "wk_provider_result_id (changes (item\<lparr>wk_state := st\<rparr>)) = sr_provider_result_id r"
    "wk_provider_idempotency_key (changes (item\<lparr>wk_state := st\<rparr>)) = sr_idempotency_key r"
    "wk_driver_epoch_id (changes (item\<lparr>wk_state := st\<rparr>)) = sr_driver_epoch_id r"
    using assms(5) by (auto simp: result_changes_identity)
  have u: "case reserved of None \<Rightarrow> True | Some u \<Rightarrow> 0 \<le> u" using assms(7) by auto
  obtain i q where i: "with_state item st reserved changes = Inr i"
    "i = (changes (item\<lparr>wk_state := st\<rparr>))\<lparr>wk_reserved_units := (case reserved of None \<Rightarrow> wk_reserved_units item | Some u \<Rightarrow> u),
        wk_reserved_quota_points := q\<rparr>" "work_valid i" "wrote db (save_work i db) i s"
    using save_with_state [where changes = changes and st = st, OF assms(1) id(1,2) u id(3) assms(2-4)] by blast
  have "recorded_item item r cap i"
    using i(3) id(1,3-8) assms(6,7) unfolding recorded_item_def i(2) same_identity_update by auto
  with i show ?thesis by (auto simp: save_changed_def)
qed

lemma persist_outcome_wrote:
  assumes item: "work_valid item" and ok: "tbl_ok (qd_work db)" "tbl_ok (qd_slices db)"
    and s: "tbl_get (qd_slices db) (wk_id item, wk_generation item) = Some s" "ws_quota_before s \<noteq> None"
    and m: "recorded_slice s0 cap s" "ws_quota_before s0 = ws_quota_before s"
  shows "\<exists>db' i s'. persist_outcome item r cap tokens t db = (db', Inr ()) \<and> recorded_item item r cap i \<and>
    recorded_slice s0 cap s' \<and> wrote db db' i s'"
proof (cases "sr_terminal r \<and> sr_successful r \<and> cap \<noteq> None")
  case True
  then obtain after where cap: "cap = Some after" by blast
  have id: "same_identity item (result_changes r t (item\<lparr>wk_state := wk_state item\<rparr>))"
    "wk_reserved_quota_points (result_changes r t (item\<lparr>wk_state := wk_state item\<rparr>)) = wk_reserved_quota_points item"
    "wk_generation (result_changes r t (item\<lparr>wk_state := wk_state item\<rparr>)) = wk_generation item"
    by (simp_all add: same_identity_def result_changes_def)
  obtain i q where i: "with_state item (wk_state item) None (result_changes r t) = Inr i"
    "i = (result_changes r t (item\<lparr>wk_state := wk_state item\<rparr>))\<lparr>wk_reserved_units := wk_reserved_units item,
        wk_reserved_quota_points := q\<rparr>" "work_valid i" "wrote db (save_work i db) i s"
    using save_with_state [where changes = "result_changes r t" and st = "wk_state item" and reserved = None,
        OF item id(1,2) _ id(3) ok s(1)] by auto
  have wid: "wk_id i = wk_id item" "wk_generation i = wk_generation item" and same: "same_identity item i"
    using i(2) id(1) by (simp_all add: same_identity_update)
  let ?db = "save_work i db"
  have "tbl_ok (qd_work ?db)" "tbl_ok (qd_slices ?db)" "tbl_get (qd_work ?db) (wk_id item) = Some i"
    "tbl_get (qd_slices ?db) (wk_id item, wk_generation i) = Some s"
    using i(4) ok s(1) wid by (auto simp: wrote_def save_work_def)
  then obtain db' i' s' where c:
    "record_slice_checkpoint (wk_id item) (wk_generation i) after tokens t (sr_completed r) (sr_checkpoint_ref r) ?db = (db', Inr ())"
    "wrote ?db db' i' s'" "work_valid i'" "same_identity i i'" "wk_generation i' = wk_generation i"
    "wk_state i' = (if sr_completed r then WorkState_COMPLETED else WorkState_CHECKPOINTED)" "wk_reserved_units i' = 0"
    "wk_provider_dispatch_id i' = wk_provider_dispatch_id i" "wk_provider_result_id i' = wk_provider_result_id i"
    "wk_provider_idempotency_key i' = wk_provider_idempotency_key i" "wk_driver_epoch_id i' = wk_driver_epoch_id i"
    "recorded_slice s (Some after) s'"
    using checkpoint_wrote [of ?db "wk_id item" i s] wid(1) i(3) s(2) by metis
  have "persist_outcome item r cap tokens t db = (db', Inr ())"
    using True cap i(1) c(1) wid by (simp add: persist_outcome_def save_changed_def)
  moreover have "recorded_item item r cap i'"
    using True c(3-11) same i(2) cap wid
    by (auto simp: recorded_item_def outcome_state_def outcome_reserved_def same_identity_def)
  moreover have "recorded_slice s0 cap s'" using c(12) m(2) cap by (simp add: recorded_slice_def)
  moreover have "wrote db db' i' s'"
    using c(2,4,5) i(4) wid by (auto simp: wrote_def same_identity_def fun_eq_iff)
  ultimately show ?thesis by blast
next
  case False
  have "\<exists>i. persist_outcome item r cap tokens t db = (save_work i db, Inr ()) \<and> recorded_item item r cap i \<and>
      wrote db (save_work i db) i s"
  proof (cases "sr_terminal r")
    case running: False
    then show ?thesis
      using recorded_simple [OF item ok s(1), of "result_changes r t" r t None WorkState_RUNNING cap None]
      by (auto simp: persist_outcome_def outcome_state_def outcome_reserved_def)
  next
    case terminal: True
    show ?thesis
    proof (cases "sr_successful r")
      case success: True
      with False terminal have "cap = None" by simp
      with terminal success show ?thesis
        using recorded_simple [OF item ok s(1), of _ r t "Some UNKNOWN_CAPACITY" WorkState_RECONCILE_REQUIRED cap None]
        by (auto simp: persist_outcome_def outcome_state_def outcome_reserved_def)
    next
      case failure: False
      let ?p = "Some (''provider dispatch ended without success: '' @ sr_status r)"
      have "operation_state_value Op_BLOCKED = ''blocked''" by simp
      with terminal failure show ?thesis
        using recorded_simple [OF item ok s(1), of "\<lambda>i. result_changes r t (i\<lparr>wk_pause_reason := ?p\<rparr>)" r t ?p
            "outcome_state r cap" cap "Some 0"]
        by (auto simp: persist_outcome_def outcome_state_def outcome_reserved_def)
    qed
  qed
  with m show ?thesis by blast
qed

lemma unchecked_wrote:
  assumes "work_valid item" "tbl_ok (qd_work db)" "tbl_ok (qd_slices db)" "sr_persistence_allowed r"
    "tbl_get (qd_slices db) (wk_id item, wk_generation item) = Some s" "ws_quota_before s \<noteq> None"
  shows "\<exists>db' rep i s'. persist_execution_result_unchecked stamp item r cap snap db = (db', Inr rep) \<and>
    xr_persistence_performed rep \<and> recorded_item item r cap i \<and> recorded_slice s cap s' \<and> wrote db db' i s'"
proof -
  let ?t = "str_default (us_observed_at snap) stamp"
  let ?c = "if cap \<noteq> None then ''observed'' else ''unknown''"
  obtain s1 where s1: "slice_measured cap ?c (lifetime_tokens snap) s = Inr s1" "ws_quota_before s1 = ws_quota_before s"
    "ws_actual_units s1 = used_units (ws_quota_before s) cap" "ws_quota_after s1 = cap"
    by (rule slice_measured_known [OF assms(6)])
  let ?s = "s1\<lparr>ws_last_observed_at := Some ?t, ws_provider_dispatch_id := sr_provider_dispatch_id r,
      ws_provider_result_id := sr_provider_result_id r, ws_provider_reference := sr_provider_reference r\<rparr>"
  let ?db = "db\<lparr>qd_slices := tbl_upsert (wk_id item, wk_generation item) ?s (qd_slices db)\<rparr>"
  have obs: "record_slice_observation (wk_id item) (wk_generation item) cap (lifetime_tokens snap) ?t ?c
      (sr_provider_dispatch_id r) (sr_provider_result_id r) (sr_provider_reference r) db = (?db, Inr ())"
    using assms(5) s1(1) by (simp add: record_slice_observation_def)
  have "tbl_ok (qd_work ?db)" "tbl_ok (qd_slices ?db)"
    "tbl_get (qd_slices ?db) (wk_id item, wk_generation item) = Some ?s" "ws_quota_before ?s \<noteq> None"
    "recorded_slice s cap ?s" "ws_quota_before s = ws_quota_before ?s"
    using assms(2,3,6) s1 by (simp_all add: tbl_get_upsert recorded_slice_def)
  from persist_outcome_wrote [OF assms(1) this, of r "lifetime_tokens snap" ?t]
  obtain db' i s' where run: "persist_outcome item r cap (lifetime_tokens snap) ?t ?db = (db', Inr ())"
    and i: "recorded_item item r cap i" "recorded_slice s cap s'" and w: "wrote ?db db' i s'"
    by blast
  have "wrote db db' i s'"
    using w i(1) assms(3) by (auto simp: wrote_def recorded_item_def same_identity_def tbl_get_upsert fun_eq_iff)
  with run i obs assms(4) show ?thesis by (auto simp: persist_execution_result_unchecked_def Let_def)
qed

lemma unchecked_missing:
  assumes "sr_persistence_allowed r" "tbl_get (qd_slices db) (wk_id item, wk_generation item) = None"
  shows "persist_execution_result_unchecked stamp item r cap snap db = (db, Inl (slice_missing (wk_id item) (wk_generation item)))"
  using assms by (simp add: persist_execution_result_unchecked_def record_slice_observation_def Let_def)

lemma unchecked_rejected:
  assumes "ledger_ok db" "\<not> sr_persistence_allowed r"
  shows "\<exists>rep. persist_execution_result_unchecked stamp item r cap snap db = (db, Inr rep) \<and>
    \<not> xr_persistence_performed rep \<and> xr_rejection_scope rep = sr_rejection_scope r \<and>
    (\<forall>cur. load_work (wk_id item) db = Inr cur \<longrightarrow> xr_durable_generation rep = Some (wk_generation cur))"
  using assms
  by (auto simp: persist_execution_result_unchecked_def rejection_report_def Let_def load_work_valid split: option.splits)

lemma rollback_restores:
  "qd_rollback db = None \<Longrightarrow>
     fst (finish_work_binding_cas False (db\<lparr>qd_rollback := Some (qd_work db, qd_slices db)\<rparr>)) = db"
  by (simp add: finish_work_binding_cas_def)

text \<open>Beginning the compare-and-swap on a consistent ledger.\<close>

lemma begin_cas:
  assumes "ledger_ok db"
  shows "begin_work_binding_cas wid expected db =
    (case tbl_get (qd_work db) wid of
       None \<Rightarrow> (db, Inr (False, None))
     | Some cur \<Rightarrow>
         if durable_work_binding cur = expected
         then (db\<lparr>qd_rollback := Some (qd_work db, qd_slices db)\<rparr>, Inr (True, Some cur))
         else (db, Inr (False, Some cur)))"
proof -
  have none: "qd_rollback db = None" using assms by (simp add: ledger_ok_def)
  have "load_work wid (db\<lparr>qd_rollback := x\<rparr>) = load_work wid db" for x by (simp add: load_work_def)
  then show ?thesis
    using none rollback_restores [OF none]
    by (simp add: begin_work_binding_cas_def load_work_valid [OF assms] Let_def split: option.split)
qed

lemma persist_checked_wrote:
  assumes "ledger_ok db" "work_valid item" "sr_persistence_allowed r"
    "tbl_get (qd_slices db) (wk_id item, wk_generation item) = Some s"
    "sr_expected_work_binding r = None \<or>
     (\<exists>cur. tbl_get (qd_work db) (wk_id item) = Some cur \<and> sr_expected_work_binding r = Some (durable_work_binding cur))"
  shows "\<exists>db' rep i s'. persist_execution_result stamp item r cap snap db = (db', Inr rep) \<and>
    xr_persistence_performed rep \<and> recorded_item item r cap i \<and> recorded_slice s cap s' \<and> wrote db db' i s'"
proof -
  have ok: "tbl_ok (qd_work db)" "tbl_ok (qd_slices db)" "qd_rollback db = None" "ws_quota_before s \<noteq> None"
    using assms(1,4) unfolding ledger_ok_def by blast+
  show ?thesis
  proof (cases "sr_expected_work_binding r")
    case None
    then show ?thesis
      using unchecked_wrote [OF assms(2) ok(1,2) assms(3,4) ok(4)] by (simp add: persist_execution_result_def)
  next
    case (Some b)
    let ?db = "db\<lparr>qd_rollback := Some (qd_work db, qd_slices db)\<rparr>"
    have "begin_work_binding_cas (wk_id item) b db = (?db, Inr (True, tbl_get (qd_work db) (wk_id item)))"
      using Some assms(5) by (auto simp: begin_cas [OF assms(1)])
    moreover obtain db' rep i s' where u: "persist_execution_result_unchecked stamp item r cap snap ?db = (db', Inr rep)"
      "xr_persistence_performed rep" "recorded_item item r cap i" "recorded_slice s cap s'" "wrote ?db db' i s'"
      using unchecked_wrote [OF assms(2), of ?db r s stamp cap snap] ok assms(3,4) by auto
    moreover have "finish_work_binding_cas True db' = (db'\<lparr>qd_rollback := None\<rparr>, Inr ())"
      using u(5) by (simp add: finish_work_binding_cas_def wrote_def)
    moreover have "wrote db (db'\<lparr>qd_rollback := None\<rparr>) i s'" using u(5) ok(3) by (simp add: wrote_def)
    ultimately show ?thesis using Some assms(3) by (simp add: persist_execution_result_def) blast
  qed
qed

lemma persist_stale:
  assumes "ledger_ok db" "sr_persistence_allowed r" "sr_expected_work_binding r = Some b"
    "\<forall>cur. tbl_get (qd_work db) (wk_id item) = Some cur \<longrightarrow> durable_work_binding cur \<noteq> b \<and> wk_id cur = wk_id item"
  shows "\<exists>rep. persist_execution_result stamp item r cap snap db = (db, Inr rep) \<and> \<not> xr_persistence_performed rep \<and>
    xr_rejection_scope rep = Some ''persistence_compare_and_swap'' \<and>
    (\<forall>cur. tbl_get (qd_work db) (wk_id item) = Some cur \<longrightarrow> xr_durable_generation rep = Some (wk_generation cur))"
proof -
  have no: "\<not> sr_persistence_allowed (cas_conflict r b)"
    "sr_rejection_scope (cas_conflict r b) = Some ''persistence_compare_and_swap''"
    by (simp_all add: cas_conflict_def)
  show ?thesis
  proof (cases "tbl_get (qd_work db) (wk_id item)")
    case None
    then show ?thesis
      using assms(2,3) unchecked_rejected [OF assms(1) no(1), of stamp item cap snap] no(2)
      by (auto simp: persist_execution_result_def begin_cas [OF assms(1)])
  next
    case (Some cur)
    with assms(4) have "durable_work_binding cur \<noteq> b" "wk_id cur = wk_id item" by blast+
    with Some show ?thesis
      using assms(2,3) unchecked_rejected [OF assms(1) no(1), of stamp cur cap snap] no(2)
      by (auto simp: persist_execution_result_def begin_cas [OF assms(1)] load_work_valid [OF assms(1)])
  qed
qed

lemma persist_ledger_ok:
  assumes "ledger_ok db" "work_valid item"
  shows "ledger_ok (fst (persist_execution_result stamp item r cap snap db))"
proof (cases "sr_persistence_allowed r")
  case False
  then show ?thesis
    using unchecked_rejected [OF assms(1) False, of stamp item cap snap] assms(1)
    by (auto simp: persist_execution_result_def)
next
  case allowed: True
  let ?match = "sr_expected_work_binding r = None \<or>
     (\<exists>cur. tbl_get (qd_work db) (wk_id item) = Some cur \<and> sr_expected_work_binding r = Some (durable_work_binding cur))"
  show ?thesis
  proof (cases ?match)
    case False
    then obtain b where b: "sr_expected_work_binding r = Some b" by auto
    with False assms(1) have "\<forall>cur. tbl_get (qd_work db) (wk_id item) = Some cur \<longrightarrow>
        durable_work_binding cur \<noteq> b \<and> wk_id cur = wk_id item"
      unfolding ledger_ok_def by blast
    from persist_stale [OF assms(1) allowed b this, of stamp cap snap] assms(1) show ?thesis by auto
  next
    case match: True
    show ?thesis
    proof (cases "tbl_get (qd_slices db) (wk_id item, wk_generation item)")
      case None
      have none: "qd_rollback db = None" using assms(1) by (simp add: ledger_ok_def)
      let ?db = "db\<lparr>qd_rollback := Some (qd_work db, qd_slices db)\<rparr>"
      have "fst (persist_execution_result stamp item r cap snap db) = db"
        using match allowed None unchecked_missing [OF allowed, of db item] unchecked_missing [OF allowed, of ?db item]
          rollback_restores [OF none]
        by (auto simp: persist_execution_result_def begin_cas [OF assms(1)])
      with assms(1) show ?thesis by simp
    next
      case (Some s)
      then obtain db' rep i s' where p: "persist_execution_result stamp item r cap snap db = (db', Inr rep)"
        "recorded_item item r cap i" "recorded_slice s cap s'" "wrote db db' i s'"
        using persist_checked_wrote [OF assms allowed Some match] by blast
      have "ws_quota_before s \<noteq> None" using assms(1) Some unfolding ledger_ok_def by blast
      with p have "ledger_ok db'"
        by (intro wrote_ledger_ok [OF assms(1) p(4)]) (auto simp: recorded_item_def recorded_slice_def)
      with p(1) show ?thesis by simp
    qed
  qed
qed

section \<open>Runs\<close>

text \<open>
  What schedulers do to the store, in any order: a new or revised item is submitted, an allocation is
  reserved, a result is persisted for an item as it was read at any earlier time, waiting items are
  marked.
\<close>

inductive quark_step :: "QuarkDb \<Rightarrow> QuarkDb \<Rightarrow> bool" where
  step_submit: "work_valid item \<Longrightarrow> wk_state item \<noteq> WorkState_RUNNING \<Longrightarrow> quark_step db (save_work item db)"
| step_reserve_slice: "0 \<le> wa_allocated_units a \<Longrightarrow> quark_step db (fst (reserve_slice a t (Some capacity) tokens db))"
| step_persist: "work_valid item \<Longrightarrow> quark_step db (fst (persist_execution_result stamp item r cap snap db))"
| step_wait: "quark_step db (fst (mark_waiting_capacity wid resume_at reason db))"

lemma mark_waiting_ledger_ok:
  assumes "ledger_ok db"
  shows "ledger_ok (fst (mark_waiting_capacity wid resume_at reason db))"
proof (cases "tbl_get (qd_work db) wid")
  case None
  then show ?thesis using assms by (simp add: mark_waiting_capacity_def load_work_valid)
next
  case (Some i)
  let ?f = "\<lambda>i. i\<lparr>wk_pause_reason := Some reason, wk_resume_at := resume_at\<rparr>"
  have v: "work_valid i" using assms Some unfolding ledger_ok_def by blast
  obtain q where "with_state i WorkState_WAITING_CAPACITY (Some 0) ?f =
      Inr ((?f (i\<lparr>wk_state := WorkState_WAITING_CAPACITY\<rparr>))\<lparr>wk_reserved_units := 0, wk_reserved_quota_points := q\<rparr>)"
    "work_valid ((?f (i\<lparr>wk_state := WorkState_WAITING_CAPACITY\<rparr>))\<lparr>wk_reserved_units := 0, wk_reserved_quota_points := q\<rparr>)"
    using with_state_valid [where changes = ?f and s = WorkState_WAITING_CAPACITY and reserved = "Some 0", OF v]
    by (auto simp: same_identity_def)
  with Some show ?thesis
    by (simp add: mark_waiting_capacity_def load_work_valid [OF assms] saved_ledger_ok [OF assms])
qed

lemma reserve_slice_cases:
  assumes "ledger_ok db" "0 \<le> wa_allocated_units a"
  shows "case tbl_get (qd_work db) (wa_work_id a) of
      None \<Rightarrow> reserve_slice a t capacity tokens db = (db, Inl (KeyError (wa_work_id a)))
    | Some item \<Rightarrow> \<exists>db' i s. reserve_slice a t capacity tokens db = (db', Inr item) \<and> wrote db db' i s \<and>
        work_valid i \<and> same_identity item i \<and> wk_state i = WorkState_RUNNING \<and> wk_generation i = wa_generation a \<and>
        wk_reserved_units i = wa_allocated_units a \<and> ws_quota_before s = capacity"
proof (cases "tbl_get (qd_work db) (wa_work_id a)")
  case None
  then show ?thesis by (simp add: reserve_slice_def load_work_valid [OF assms(1)])
next
  case (Some item)
  let ?f = "\<lambda>i. i\<lparr>wk_generation := wa_generation a, wk_updated_at := Some t\<rparr>"
  have v: "work_valid item" and id: "wk_id item = wa_work_id a" and ok: "tbl_ok (qd_work db)" "tbl_ok (qd_slices db)"
    using assms(1) Some unfolding ledger_ok_def by blast+
  have f: "same_identity x (?f (x\<lparr>wk_state := st\<rparr>))"
      "wk_reserved_quota_points (?f (x\<lparr>wk_state := st\<rparr>)) = wk_reserved_quota_points x" for x st
    by (simp_all add: same_identity_def)
  let ?i = "\<lambda>u q. (?f (item\<lparr>wk_state := WorkState_RUNNING\<rparr>))\<lparr>wk_reserved_units := u, wk_reserved_quota_points := q\<rparr>"
  obtain q where q: "with_state item WorkState_RUNNING (Some (wa_allocated_units a)) ?f = Inr (?i (wa_allocated_units a) q)"
      "work_valid (?i (wa_allocated_units a) q)"
    using with_state_valid [where changes = ?f and s = WorkState_RUNNING and reserved = "Some (wa_allocated_units a)", OF v f]
      assms(2) by auto
  define i where "i = ?i (wa_allocated_units a) q"
  have i: "with_state item WorkState_RUNNING (Some (wa_allocated_units a)) ?f = Inr i" "work_valid i"
    "same_identity item i" "wk_state i = WorkState_RUNNING" "wk_generation i = wa_generation a"
    "wk_reserved_units i = wa_allocated_units a"
    using q unfolding i_def by (simp_all add: same_identity_def)
  have idi: "wk_id i = wa_work_id a" using i(3) id by (simp add: same_identity_def)
  let ?j = "\<lambda>u q. (?f (i\<lparr>wk_state := WorkState_RUNNING\<rparr>))\<lparr>wk_reserved_units := u, wk_reserved_quota_points := q\<rparr>"
  obtain q' where q': "with_state i WorkState_RUNNING None ?f = Inr (?j (wk_reserved_units i) q')"
      "work_valid (?j (wk_reserved_units i) q')"
    using with_state_valid [where changes = ?f and s = WorkState_RUNNING and reserved = None, OF i(2) f] by auto
  define j where "j = ?j (wk_reserved_units i) q'"
  have j: "with_state i WorkState_RUNNING None ?f = Inr j" "work_valid j" "same_identity i j"
    "wk_state j = WorkState_RUNNING" "wk_generation j = wa_generation a" "wk_reserved_units j = wa_allocated_units a"
    using q' i(6) unfolding j_def by (simp_all add: same_identity_def)
  let ?s = "slice_start i (wk_id item) (wa_generation a) capacity tokens t"
  let ?db = "save_work i db"
  let ?db' = "save_work j (?db\<lparr>qd_slices := tbl_upsert (wk_id item, wa_generation a) ?s (qd_slices ?db)\<rparr>)"
  have "load_work (wk_id item) ?db = Inr i"
    using i(2) ok id idi by (simp add: load_work_def save_work_def tbl_get_upsert work_valid_def)
  then have "reserve_slice a t capacity tokens db = (?db', Inr item)"
    using i(1) j(1) Some by (simp add: reserve_slice_def record_slice_start_def load_work_valid [OF assms(1)] Let_def)
  moreover have "wrote db ?db' j ?s"
    using ok j(3,5) idi id by (auto simp: wrote_def save_work_def tbl_get_upsert fun_eq_iff same_identity_def)
  moreover have "same_identity item j" using i(3) j(3) by (simp add: same_identity_def)
  moreover have "ws_quota_before ?s = capacity" by (simp add: slice_start_def)
  ultimately show ?thesis using Some j(2,4-6) by auto
qed

lemma ledger_ok_step:
  assumes "ledger_ok db" "quark_step db db'"
  shows "ledger_ok db'"
  using assms(2)
proof cases
  case (step_submit item)
  with assms(1) show ?thesis by (simp add: saved_ledger_ok)
next
  case (step_reserve_slice a t capacity tokens)
  show ?thesis
  proof (cases "tbl_get (qd_work db) (wa_work_id a)")
    case None
    with step_reserve_slice assms(1) reserve_slice_cases [OF assms(1) step_reserve_slice(2), of t "Some capacity" tokens]
    show ?thesis by simp
  next
    case (Some item)
    then obtain db1 i s where r: "reserve_slice a t (Some capacity) tokens db = (db1, Inr item)" "wrote db db1 i s"
      "work_valid i" "ws_quota_before s = Some capacity"
      using reserve_slice_cases [OF assms(1) step_reserve_slice(2), of t "Some capacity" tokens] by auto
    with wrote_ledger_ok [OF assms(1) r(2,3)] step_reserve_slice(1) show ?thesis by simp
  qed
next
  case (step_persist item stamp r cap snap)
  with assms(1) show ?thesis by (simp add: persist_ledger_ok)
next
  case (step_wait wid resume_at reason)
  with assms(1) show ?thesis by (simp add: mark_waiting_ledger_ok)
qed

lemma ledger_ok_empty: "ledger_ok empty_quark"
  by (simp add: ledger_ok_def empty_quark_def)

interpretation ledger_inv: step_invariant "\<lambda>db. db = empty_quark" quark_step ledger_ok
  by unfold_locales (auto simp: ledger_ok_empty intro: ledger_ok_step)


text \<open>C15: A stale result changes nothing. In every state schedulers can reach, a result computed for a durable
  binding that the stored item no longer has leaves the store exactly as it is, and the report says
  so, with the generation that is stored.\<close>

theorem stale_result_changes_nothing:
  assumes "reach (\<lambda>db. db = empty_quark) quark_step db" "load_work (wk_id item) db = Inr cur"
    "sr_persistence_allowed r" "sr_expected_work_binding r = Some b" "b \<noteq> durable_work_binding cur"
  shows "\<exists>rep. persist_execution_result stamp item r cap snap db = (db, Inr rep) \<and> \<not> xr_persistence_performed rep \<and>
    xr_rejection_scope rep = Some ''persistence_compare_and_swap'' \<and> xr_durable_generation rep = Some (wk_generation cur)"
proof -
  have ok: "ledger_ok db" by (rule ledger_inv.inv_reach [OF assms(1)])
  have cur: "tbl_get (qd_work db) (wk_id item) = Some cur"
    using assms(2) by (auto simp: load_work_valid [OF ok] split: option.splits)
  then have "wk_id cur = wk_id item" using ok unfolding ledger_ok_def by blast
  with persist_stale [OF ok assms(3,4), of item stamp cap snap] cur assms(5) show ?thesis by auto
qed

section \<open>Cycles\<close>

text \<open>The outside world may change the work store while it is called, but only as a scheduler does.\<close>

definition executor_calm :: "'m work_executor \<Rightarrow> bool" where
  "executor_calm ex \<longleftrightarrow>
     (\<forall>args w. quark_step\<^sup>*\<^sup>* (qw_db w) (qw_db (fst (ex_runner ex args w)))) \<and>
     (\<forall>m. ex_manager ex = Some m \<longrightarrow>
        (\<forall>sid w. quark_step\<^sup>*\<^sup>* (qw_db w) (qw_db (fst (mg_recover m sid w)))) \<and>
        (\<forall>i p k w. quark_step\<^sup>*\<^sup>* (qw_db w) (qw_db (fst (mg_dispatch m i p k w)))))"

definition service_calm :: "'m quark_service \<Rightarrow> bool" where
  "service_calm svc \<longleftrightarrow> executor_calm (qs_executor svc) \<and>
     (\<forall>w. quark_step\<^sup>*\<^sup>* (qw_db w) (qw_db (fst (qs_refresh svc w))))"

lemma from_payload_valid: "work_from_payload i = Inr j \<Longrightarrow> work_valid j"
  by (auto simp: work_valid_iff work_from_payload_def make_work_item_Inr work_fields_ok_def codex_points_def Let_def
      split: if_splits)

lemma load_valid: "load_work wid db = Inr i \<Longrightarrow> work_valid i"
  by (auto simp: load_work_def from_payload_valid split: option.splits)

lemma dispatch_bound_steps:
  assumes "executor_calm ex" "ex_manager ex = Some m"
  shows "quark_step\<^sup>*\<^sup>* (qw_db w) (qw_db (fst (dispatch_bound m item sid b u prompt key d w)))"
proof -
  have r: "quark_step\<^sup>*\<^sup>* (qw_db w) (qw_db w1)" if "mg_recover m sid w = (w1, x)" for w1 x
    using assms that unfolding executor_calm_def by (metis fst_conv)
  have "quark_step\<^sup>*\<^sup>* (qw_db w1) (qw_db w2)" if "mg_dispatch m i p k w1 = (w2, x)" for i p k w1 w2 x
    using assms that unfolding executor_calm_def by (metis fst_conv)
  with r show ?thesis
    by (fastforce simp: dispatch_bound_def split: sum.splits option.splits prod.splits intro: rtranclp_trans)
qed

lemma legacy_run_steps:
  assumes "executor_calm ex"
  shows "quark_step\<^sup>*\<^sup>* (qw_db w) (qw_db (fst (legacy_run ex item u prompt w)))"
proof -
  have "quark_step\<^sup>*\<^sup>* (qw_db w) (qw_db w1)" if "ex_runner ex args w = (w1, x)" for args w1 x
    using assms that unfolding executor_calm_def by (metis fst_conv)
  then show ?thesis by (fastforce simp: legacy_run_def Let_def split: sum.splits prod.splits)
qed

lemma run_slice_steps:
  assumes "executor_calm ex"
  shows "quark_step\<^sup>*\<^sup>* (qw_db w) (qw_db (fst (run_slice ex item u prompt w)))"
  using legacy_run_steps [OF assms] dispatch_bound_steps [OF assms]
  by (auto simp: run_slice_def split: option.split sum.split)

lemma reconcile_slice_steps:
  assumes "executor_calm ex"
  shows "quark_step\<^sup>*\<^sup>* (qw_db w) (qw_db (fst (reconcile_slice ex item prompt w)))"
  using dispatch_bound_steps [OF assms] by (auto simp: reconcile_slice_def split: option.split sum.split)

lemma reconcile_all_steps:
  assumes "executor_calm (qs_executor svc)" "\<forall>i \<in> set items. work_valid i"
  shows "quark_step\<^sup>*\<^sup>* (qw_db w) (qw_db (fst (reconcile_all svc remaining before items w)))"
  using assms(2)
proof (induction items arbitrary: w)
  case (Cons i items)
  obtain w1 x where run: "reconcile_slice (qs_executor svc) i (checkpoint_prompt i (wk_generation i)) w = (w1, x)"
    by fastforce
  have one: "quark_step\<^sup>*\<^sup>* (qw_db w) (qw_db w1)" using reconcile_slice_steps [OF assms(1)] run by (metis fst_conv)
  show ?case
  proof (cases x)
    case (Inl e)
    with run one show ?thesis by simp
  next
    case (Inr r)
    obtain db y where per: "persist_execution_result (qs_timestamp svc w1) i r remaining before (qw_db w1) = (db, y)"
      by fastforce
    have "quark_step (qw_db w1) db" using step_persist [of i "qw_db w1"] Cons.prems per by (metis fst_conv list.set_intros(1))
    with one have two: "quark_step\<^sup>*\<^sup>* (qw_db w) db" by simp
    have "quark_step\<^sup>*\<^sup>* db (qw_db (fst (reconcile_all svc remaining before items (w1\<lparr>qw_db := db\<rparr>))))"
      using Cons.IH [of "w1\<lparr>qw_db := db\<rparr>"] Cons.prems by simp
    with run Inr per two show ?thesis by (cases y) (auto intro: rtranclp_trans)
  qed
qed simp

lemma mark_all_waiting_steps: "quark_step\<^sup>*\<^sup>* db (fst (mark_all_waiting items resume_at reason db))"
proof (induction items arbitrary: db)
  case (Cons i items)
  obtain db1 x where m: "mark_waiting_capacity (wk_id i) resume_at reason db = (db1, x)" by fastforce
  then have "quark_step db db1" using step_wait by (metis fst_conv)
  with Cons.IH [of db1] Cons.IH [of db] m show ?case
    by (cases x) (auto intro: converse_rtranclp_into_rtranclp)
qed simp

lemma execute_allocation_steps:
  assumes "service_calm svc" "0 \<le> wa_allocated_units a"
  shows "quark_step\<^sup>*\<^sup>* (qw_db w) (qw_db (fst (execute_allocation svc limit_id before (Some points) a w)))"
proof -
  let ?t = "str_default (us_observed_at before) (qs_timestamp svc w)"
  obtain db x where res: "reserve_slice a ?t (Some points) (lifetime_tokens before) (qw_db w) = (db, x)" by fastforce
  then have one: "quark_step (qw_db w) db" using step_reserve_slice [OF assms(2)] by (metis fst_conv)
  show ?thesis
  proof (cases x)
    case (Inl e)
    with res one show ?thesis by (simp add: execute_allocation_def)
  next
    case (Inr item)
    obtain w1 y where run: "run_slice (qs_executor svc) item (wa_allocated_units a)
        (checkpoint_prompt item (wa_generation a)) (w\<lparr>qw_db := db\<rparr>) = (w1, y)" by fastforce
    have "quark_step\<^sup>*\<^sup>* db (qw_db w1)"
      using run_slice_steps [of "qs_executor svc" "w\<lparr>qw_db := db\<rparr>" item "wa_allocated_units a"
          "checkpoint_prompt item (wa_generation a)"] assms(1) run by (simp add: service_calm_def)
    with one have two: "quark_step\<^sup>*\<^sup>* (qw_db w) (qw_db w1)" by (rule converse_rtranclp_into_rtranclp)
    obtain w2 z where ref: "qs_refresh svc w1 = (w2, z)" by fastforce
    then have "quark_step\<^sup>*\<^sup>* (qw_db w1) (qw_db w2)" using assms(1) unfolding service_calm_def by (metis fst_conv)
    with two have three: "quark_step\<^sup>*\<^sup>* (qw_db w) (qw_db w2)" by (rule rtranclp_trans)
    have "quark_step\<^sup>*\<^sup>* (qw_db w) (fst (persist_execution_result stamp cur r cap snap (qw_db w2)))"
      if "load_work (wk_id item) (qw_db w2) = Inr cur" for stamp cur r cap snap
      using three step_persist [OF load_valid [OF that]] by (rule rtranclp.rtrancl_into_rtrancl)
    then show ?thesis
      using res Inr run two ref three
      by (auto simp: execute_allocation_def split: sum.split prod.split) (metis fst_conv)+
  qed
qed

lemma execute_all_steps:
  assumes "service_calm svc" "\<forall>a \<in> set as. 0 \<le> wa_allocated_units a"
  shows "quark_step\<^sup>*\<^sup>* (qw_db w) (qw_db (fst (execute_all svc limit_id before (Some points) as w)))"
  using assms(2)
proof (induction as arbitrary: w)
  case (Cons a as)
  obtain w1 x where e: "execute_allocation svc limit_id before (Some points) a w = (w1, x)" by fastforce
  then have "quark_step\<^sup>*\<^sup>* (qw_db w) (qw_db w1)"
    using execute_allocation_steps [OF assms(1)] Cons.prems by (metis fst_conv list.set_intros(1))
  with e Cons.IH [of w1] Cons.prems show ?case by (cases x) (auto intro: rtranclp_trans)
qed simp

lemma from_payloads_valid: "from_payloads is = Inr js \<Longrightarrow> \<forall>j \<in> set js. work_valid j"
  by (induction "is" arbitrary: js) (auto simp: res_bind_Inr_iff from_payload_valid)

lemma from_payloads_id: "\<forall>i \<in> set is. work_valid i \<Longrightarrow> from_payloads is = Inr is"
  by (induction "is") (auto simp: work_valid_def)

lemma list_work_ok:
  assumes "ledger_ok db"
  obtains work where "list_work db = Inr work" "work_ok work"
proof -
  let ?rows = "sort_key (\<lambda>i. (wk_project_id i, wk_id i)) (map snd (qd_work db))"
  have ok: "tbl_ok (qd_work db)" using assms by (simp add: ledger_ok_def)
  have rows: "wk_id i = k \<and> work_valid i" if "(k, i) \<in> set (qd_work db)" for k i
    using assms that by (simp add: ledger_ok_def tbl_mem_iff [OF ok])
  have "map wk_id (map snd (qd_work db)) = map fst (qd_work db)" using rows by (auto simp: case_prod_beta)
  then have "distinct (map wk_id (map snd (qd_work db)))" by (simp only: tbl_ok_distinct [OF ok])
  then have d: "distinct (map wk_id ?rows)"
    by (metis distinct_map distinct_sort set_sort)
  have v: "\<forall>i \<in> set ?rows. work_valid i" using rows by auto
  then have "list_work db = Inr ?rows" by (simp add: list_work_def from_payloads_id)
  moreover have "work_ok ?rows"
    using d v by (simp add: work_ok_def list_all_iff work_valid_def work_from_payload_def)
  ultimately show ?thesis by (rule that)
qed

lemma work_for_limit_ok:
  assumes "ledger_ok db"
  obtains work where "work_for_limit svc limit_id db = Inr work" "work_ok work" "\<forall>i \<in> set work. wk_limit_id i = limit_id"
    "\<forall>i \<in> set work. work_valid i"
proof -
  obtain work where w: "list_work db = Inr work" "work_ok work" using list_work_ok [OF assms] by blast
  let ?work = "filter (\<lambda>i. wk_limit_id i = limit_id \<and> qs_work_filter svc i) work"
  have "work_ok ?work" using w(2) by (auto simp: work_ok_def list_all_iff distinct_map_filter)
  moreover have "\<forall>i \<in> set ?work. work_valid i"
    using w(2) by (simp add: work_ok_def list_all_iff work_valid_def work_from_payload_def)
  moreover have "work_for_limit svc limit_id db = Inr ?work" by (simp add: work_for_limit_def w(1))
  moreover have "\<forall>i \<in> set ?work. wk_limit_id i = limit_id" by simp
  ultimately show ?thesis by (intro that)
qed

lemma set_default_same:
  "dict_get d l \<noteq> None \<Longrightarrow> \<forall>i \<in> set work. wk_limit_id i = l \<Longrightarrow> fold (\<lambda>i. set_default (wk_limit_id i) None) work d = d"
  by (induction work) (auto simp: set_default_def split: option.splits)

text \<open>A cycle's plan allocates positive units, and nothing when the capacity is unknown.\<close>

lemma cycle_plan_ok:
  assumes "make_usage_policy policy = Inr policy" "work_ok work" "\<forall>i \<in> set work. wk_limit_id i = limit_id"
    "plan_quark_work policy (capacity_argument limit_id remaining work) work = Some (Inr plan)"
  shows "\<forall>a \<in> set (wp_allocations plan). 0 \<le> wa_allocated_units a" "remaining = None \<Longrightarrow> wp_allocations plan = []"
proof -
  let ?arg = "capacity_argument limit_id remaining work"
  have arg: "capacity_ok ?arg"
    by (auto simp: capacity_argument_def capacity_ok_def dict_ok_def split: option.splits)
  obtain caps where caps: "capacity_map ?arg work = Inr caps" using plan_ok_capacity [OF assms(4)] by blast
  have share: "\<forall>a \<in> set (wp_allocations plan). wa_limit_id a \<in> fst ` set caps"
    "\<forall>l \<in> fst ` set caps. limit_share policy work l (the (dict_get caps l)) (filter (\<lambda>a. wa_limit_id a = l) (wp_allocations plan))"
    using plan_quark_work_shares [OF assms(1,2) arg caps] assms(4) by auto
  show "\<forall>a \<in> set (wp_allocations plan). 0 \<le> wa_allocated_units a"
  proof
    fix a assume a: "a \<in> set (wp_allocations plan)"
    let ?l = "wa_limit_id a"
    have "limit_share policy work ?l (the (dict_get caps ?l)) (filter (\<lambda>b. wa_limit_id b = ?l) (wp_allocations plan))"
      using share a by blast
    moreover have "a \<in> set (filter (\<lambda>b. wa_limit_id b = ?l) (wp_allocations plan))" using a by simp
    ultimately show "0 \<le> wa_allocated_units a"
      unfolding limit_share_def by (cases "the (dict_get caps ?l)") (force simp: less_imp_le)+
  qed
  show "wp_allocations plan = []" if "remaining = None"
  proof -
    have "fold (\<lambda>i. set_default (wk_limit_id i) None) work [(limit_id, None)] = [(limit_id, None :: rat option)]"
      by (rule set_default_same [OF _ assms(3)]) (simp add: dict_get_def)
    then have "capacity_map ?arg work = Inr [(limit_id, None)]"
      using that by (simp add: capacity_argument_def capacity_map_def dict_values_def)
    with caps have "caps = [(limit_id, None)]" by simp
    with share have "\<forall>a \<in> set (wp_allocations plan). wa_limit_id a = limit_id"
      "filter (\<lambda>a. wa_limit_id a = limit_id) (wp_allocations plan) = []"
      by (simp_all add: limit_share_def dict_get_def)
    then show ?thesis by (simp add: filter_empty_conv)
  qed
qed

lemma plan_returns:
  assumes "make_usage_policy policy = Inr policy" "work_ok work" "capacity_ok arg"
  shows "\<exists>r. plan_quark_work policy arg work = Some r"
proof (cases "capacity_map arg work")
  case (Inl e)
  then show ?thesis by (simp add: plan_quark_work_def)
next
  case (Inr caps)
  with plan_quark_work_shares [OF assms Inr] show ?thesis by blast
qed

lemma plan_phase_steps:
  assumes "service_calm svc" "\<forall>a \<in> set (wp_allocations plan). 0 \<le> wa_allocated_units a"
    "remaining = None \<Longrightarrow> wp_allocations plan = []"
  shows "quark_step\<^sup>*\<^sup>* (qw_db w) (qw_db (fst (plan_phase svc execute limit_id remaining before window reports work plan w)))"
proof (cases "wp_allocations plan = []")
  case True
  with mark_all_waiting_steps [of "qw_db w"] show ?thesis
    by (simp add: plan_phase_def Let_def split: prod.split) (metis fst_conv)
next
  case False
  with assms(3) obtain points where "remaining = Some points" by blast
  moreover have "\<forall>a \<in> set (take n (wp_allocations plan)). 0 \<le> wa_allocated_units a" for n
    using assms(2) by (auto dest: in_set_takeD)
  ultimately show ?thesis
    using execute_all_steps [OF assms(1)] False by (simp add: plan_phase_def Let_def)
qed

lemma reconcile_phase_steps:
  assumes "service_calm svc" "ledger_ok (qw_db w)" "work_for_limit svc limit_id (qw_db w) = Inr work"
    "reconcile_phase svc execute limit_id remaining before work w = (w', r)"
  shows "quark_step\<^sup>*\<^sup>* (qw_db w) (qw_db w')"
    "r = Inr (reports, work1) \<Longrightarrow> work_ok work1 \<and> (\<forall>i \<in> set work1. wk_limit_id i = limit_id)"
proof -
  obtain work' where "work_for_limit svc limit_id (qw_db w) = Inr work'" "work_ok work'"
    "\<forall>i \<in> set work'. wk_limit_id i = limit_id" "\<forall>i \<in> set work'. work_valid i"
    by (rule work_for_limit_ok [OF assms(2)])
  with assms(3) have work: "work_ok work" "\<forall>i \<in> set work. wk_limit_id i = limit_id" "\<forall>i \<in> set work. work_valid i"
    by auto
  show steps: "quark_step\<^sup>*\<^sup>* (qw_db w) (qw_db w')"
    using assms(1,4) work(3) reconcile_all_steps [of svc "filter (\<lambda>i. wk_state i = WorkState_RUNNING \<and>
        wk_agent_session_id i \<noteq> None \<and> wk_provider_dispatch_id i \<noteq> None) work" w remaining before]
    by (auto simp: reconcile_phase_def service_calm_def split: if_splits prod.splits sum.splits)
  obtain work2 where "work_for_limit svc limit_id (qw_db w') = Inr work2" "work_ok work2"
    "\<forall>i \<in> set work2. wk_limit_id i = limit_id" "\<forall>i \<in> set work2. work_valid i"
    by (rule work_for_limit_ok [OF ledger_inv.inv_rtranclp [OF steps assms(2)]])
  then show "work_ok work1 \<and> (\<forall>i \<in> set work1. wk_limit_id i = limit_id)" if "r = Inr (reports, work1)"
    using assms(4) that work(1,2) by (auto simp: reconcile_phase_def split: if_splits prod.splits sum.splits)
qed

lemma planning_part_steps:
  assumes "service_calm svc" "make_usage_policy (qs_policy svc) = Inr (qs_policy svc)"
    "work_ok work" "\<forall>i \<in> set work. wk_limit_id i = limit_id"
  shows "\<exists>w' r. (case plan_quark_work (qs_policy svc) (capacity_argument limit_id remaining work) work of
      None \<Rightarrow> None
    | Some (Inl e) \<Rightarrow> Some (w, Inl e)
    | Some (Inr plan) \<Rightarrow> Some (plan_phase svc execute limit_id remaining before window reports work plan w)) = Some (w', r) \<and>
    quark_step\<^sup>*\<^sup>* (qw_db w) (qw_db w')"
proof -
  have "capacity_ok (capacity_argument limit_id remaining work)"
    by (auto simp: capacity_argument_def capacity_ok_def dict_ok_def split: option.splits)
  from plan_returns [OF assms(2,3) this]
  obtain p where p: "plan_quark_work (qs_policy svc) (capacity_argument limit_id remaining work) work = Some p" by blast
  show ?thesis
  proof (cases p)
    case (Inr plan)
    with p have "quark_step\<^sup>*\<^sup>* (qw_db w) (qw_db (fst (plan_phase svc execute limit_id remaining before window reports work plan w)))"
      using plan_phase_steps [OF assms(1)] cycle_plan_ok [OF assms(2-4)] by blast
    with p Inr show ?thesis
      by (cases "plan_phase svc execute limit_id remaining before window reports work plan w") simp
  qed (simp add: p)
qed


section \<open>Examples\<close>

definition quark_item :: AgentWorkItem where
  "quark_item = \<lparr>wk_id = ''w'', wk_project_id = ''p'', wk_agent_session_id = Some ''s'', wk_provider_id = ''codex'',
     wk_limit_id = ''codex'', wk_intent = ''fix'', wk_estimated_units = 10, wk_usage_unit = ''quota_points'',
     wk_owner_thread = None, wk_priority = 50, wk_state = WorkState_QUEUED, wk_reserved_units = 0, wk_generation = 0,
     wk_checkpoint_ref = None, wk_driver_epoch_id = None, wk_pause_reason = None, wk_resume_at = None,
     wk_created_at = None, wk_updated_at = None, wk_provider_dispatch_id = None, wk_provider_result_id = None,
     wk_provider_reference = None, wk_provider_idempotency_key = None, wk_provider_dispatch_state = None,
     wk_estimated_quota_points = Some 10, wk_estimated_tokens = None, wk_reserved_quota_points = Some 0\<rparr>"

definition quark_submitted :: QuarkDb where
  "quark_submitted = save_work quark_item empty_quark"

definition quark_reserved :: QuarkDb where
  "quark_reserved = fst (reserve_slice (allocation_for quark_item 5) ''t'' (Some 50) None quark_submitted)"

definition quark_running :: AgentWorkItem where
  "quark_running = (case load_work ''w'' quark_reserved of Inr i \<Rightarrow> i | Inl e \<Rightarrow> quark_item)"

definition quark_epoch :: DriverEpoch where
  "quark_epoch = \<lparr>ep_id = ''e'', ep_instance_id = ''i'', ep_session_id = ''s'', ep_provider_id = ''codex'',
     ep_ordinal = 1, ep_state = Op_RUNNING, ep_opened_at = None, ep_closed_at = None, ep_reason = None,
     ep_replacement_epoch_id = None\<rparr>"

definition quark_answer :: AgentDispatchResult where
  "quark_answer = \<lparr>dr_id = ''r'', dr_request_id = ''d'', dr_instance_id = ''i'', dr_session_id = ''s'',
     dr_driver_epoch_id = ''e'', dr_provider_id = ''codex'', dr_state = Op_SUCCEEDED, dr_error_category = None,
     dr_error_message = None, dr_provider_reference = None, dr_external_session_id = None,
     dr_acknowledged_at = None, dr_completed_at = None, dr_evidence = []\<rparr>"

definition quark_success :: slice_result where
  "quark_success = provider_result quark_item quark_epoch quark_answer 5 (slice_key quark_item) None
     (durable_work_binding quark_running)"

definition quark_usage :: usage_snapshot where
  "quark_usage = \<lparr>us_observed_at = Some ''t'',
     us_rate_limits = [\<lparr>lu_limit_id = Some ''codex'', lu_windows =
       [\<lparr>uw_name = Some ''primary'', uw_usage_unit = Some ''quota_points'', uw_resets_at = None,
         uw_values = [(''remaining_percent'', PInt 50)]\<rparr>]\<rparr>],
     us_lifetime_tokens = None\<rparr>"

definition quark_session :: AgentSession where
  "quark_session = \<lparr>ags_id = ''s'', ags_provider_id = ''codex'', ags_external_session_id = None, ags_workspace = ''/w'',
     ags_transport = Trans_NONINTERACTIVE_CLI,
     ags_capabilities = \<lparr>cap_session_discovery = False, cap_session_resume = False, cap_interactive_dispatch = False,
       cap_noninteractive_dispatch = True, cap_structured_events = False, cap_checkpoints = False,
       cap_cancellation = False, cap_delegated_workers = False, cap_usage_observation = False,
       cap_handoff_import = False\<rparr>,
     ags_instance_id = Some ''i'', ags_model_profile_id = None, ags_legacy_references = [], ags_discovered_at = None,
     ags_last_observed_at = None\<rparr>"

text \<open>A service whose provider is paused or available, as the rest of the world says.\<close>

definition quark_service_of :: "int \<Rightarrow> bool quark_service" where
  "quark_service_of concurrent =
     \<lparr>qs_refresh = (\<lambda>w. (w, Inr quark_usage)), qs_timestamp = (\<lambda>w. ''now''),
      qs_executor =
        \<lparr>ex_manager = Some
           \<lparr>mg_load_session = (\<lambda>sid w. Inr quark_session),
            mg_recover = (\<lambda>sid w. (w, if qw_rest w then Inr quark_epoch else Inl (AgentManagerPausedError ''paused''))),
            mg_dispatch = (\<lambda>i p k w. (w, Inr quark_answer))\<rparr>,
         ex_has_work_store = True, ex_codex_path = ''codex'',
         ex_runner = (\<lambda>args w. (w, Inl (OSError ''no runner'')))\<rparr>,
      qs_policy = default_usage_policy\<lparr>qp_max_concurrent_work := concurrent\<rparr>, qs_work_filter = (\<lambda>i. True)\<rparr>"

lemma quark_submitted_reach: "reach (\<lambda>db. db = empty_quark) quark_step quark_submitted"
proof -
  have "work_valid quark_item" "wk_state quark_item \<noteq> WorkState_RUNNING" by code_simp+
  then show ?thesis unfolding quark_submitted_def by (blast intro: reach_init reach_step step_submit)
qed

lemma quark_reserved_reach: "reach (\<lambda>db. db = empty_quark) quark_step quark_reserved"
  unfolding quark_reserved_def
  by (rule reach_step [where step = quark_step, OF quark_submitted_reach step_reserve_slice]) (simp add: allocation_for_def)

lemma quark_running_loaded:
  "load_work ''w'' quark_reserved = Inr quark_running" "wk_state quark_running = WorkState_RUNNING"
  "sr_persistence_allowed quark_success" "sr_expected_work_binding quark_success = Some (durable_work_binding quark_running)"
  by code_simp+


theorem stale_result_changes_nothing_witness:
  "\<exists>rep. persist_execution_result ''t'' quark_item (quark_success\<lparr>sr_expected_work_binding := Some (durable_work_binding quark_item)\<rparr>)
      (Some 47) quark_usage quark_reserved = (quark_reserved, Inr rep) \<and> \<not> xr_persistence_performed rep \<and>
    xr_durable_generation rep = Some 1"
proof -
  have id: "load_work (wk_id quark_item) quark_reserved = Inr quark_running" "wk_generation quark_running = 1"
    "durable_work_binding quark_item \<noteq> durable_work_binding quark_running"
    by code_simp+
  from stale_result_changes_nothing [OF quark_reserved_reach id(1), of
      "quark_success\<lparr>sr_expected_work_binding := Some (durable_work_binding quark_item)\<rparr>"
      "durable_work_binding quark_item" "''t''" "Some 47" quark_usage]
  show ?thesis using quark_running_loaded(3) id(2,3) by auto
qed


text \<open>A failed dispatch orphans its reservation. When the provider is paused, the exception leaves the cycle after
  the item was stored as running; without a dispatch id it is never reconciled and never planned, so
  later cycles leave it running and its units reserved, although the provider is available again.\<close>

theorem failed_dispatch_orphans_reservation:
  "case run_cycle (quark_service_of 1) True ''codex'' \<lparr>qw_db = quark_submitted, qw_rest = False\<rparr> of
     Some (w, Inl e) \<Rightarrow>
       e = AgentManagerPausedError ''paused'' \<and>
       map (\<lambda>(k, i). (k, wk_state i, wk_reserved_units i, wk_provider_dispatch_id i)) (qd_work (qw_db w)) =
         [(''w'', WorkState_RUNNING, 5, None)] \<and>
       (case run_cycle (quark_service_of 1) True ''codex'' (w\<lparr>qw_rest := True\<rparr>) of
          Some (w', Inr report) \<Rightarrow> qw_db w' = qw_db w \<and> cy_planned report = 0 \<and> cy_reconcile_results report = []
        | _ \<Rightarrow> False)
   | _ \<Rightarrow> False"
  by code_simp

text \<open>A second slice of the same item undoes the first. A plan may give one item two slices; with two slots per
  cycle the first slice completes the item, then the item is stored as running again, its ledger row
  is overwritten, the second slice is refused, and the completed item is left running.\<close>

theorem second_slice_restarts_completed_work:
  "case run_cycle (quark_service_of 2) True ''codex'' \<lparr>qw_db = quark_submitted, qw_rest = True\<rparr> of
     Some (w, Inr report) \<Rightarrow>
       map (\<lambda>x. (xr_status x, xr_persistence_performed x)) (cy_results report) =
         [(''succeeded'', True), (''policy_blocked'', False)] \<and>
       map (\<lambda>(k, i). (k, wk_state i, wk_reserved_units i)) (qd_work (qw_db w)) = [(''w'', WorkState_RUNNING, 5)] \<and>
       map (\<lambda>(k, s). (k, ws_completed s)) (qd_slices (qw_db w)) = [((''w'', 1), False)]
   | _ \<Rightarrow> False"
  by code_simp

end
