(* ===== verification/Quark_Effort.thy ===== *)
theory Quark_Effort
  imports Quark_Work
begin

text \<open>
  The effort report of a project (\<open>project_effort\<close> of \<^verbatim>\<open>src/overseer/quark_scheduler.py\<close>): totals of estimated,
  reserved and used units by provider, limit and unit, and the same totals regrouped by limit. Token
  counts are integers and enter the totals as numbers like the units.
\<close>

type_synonym totals = "(string, (string, (string, rat) pydict) pydict) pydict"

definition sub_dict :: "('k, ('l, 'v) pydict) pydict \<Rightarrow> 'k \<Rightarrow> ('l, 'v) pydict" where
  "sub_dict d k = (case dict_get d k of Some e \<Rightarrow> e | None \<Rightarrow> [])"

definition unit_total :: "(string, rat) pydict \<Rightarrow> string \<Rightarrow> rat" where
  "unit_total d u = (case dict_get d u of Some v \<Rightarrow> v | None \<Rightarrow> 0)"

text \<open>\<^verbatim>\<open>totals.setdefault(p, {}).setdefault(l, {})[u] += v\<close>\<close>

definition add_total :: "string \<Rightarrow> string \<Rightarrow> string \<Rightarrow> rat \<Rightarrow> totals \<Rightarrow> totals" where
  "add_total p l u v totals =
     (let limits = sub_dict totals p; units = sub_dict limits l
      in dict_set p (dict_set l (dict_set u (unit_total units u + v) units) limits) totals)"

definition sorted_binding_totals :: "totals \<Rightarrow> totals" where
  "sorted_binding_totals totals =
     map (\<lambda>(p, limits). (p, map (\<lambda>(l, units). (l, sort_key fst units)) (sort_key fst limits))) (sort_key fst totals)"

definition work_totals_by_binding :: "AgentWorkItem list \<Rightarrow> (AgentWorkItem \<Rightarrow> rat) \<Rightarrow> totals" where
  "work_totals_by_binding work value =
     sorted_binding_totals
       (fold (\<lambda>i. add_total (wk_provider_id i) (wk_limit_id i) (wk_usage_unit i) (value i)) work [])"

definition slice_totals_by_binding :: "QuarkSlice list \<Rightarrow> (QuarkSlice \<Rightarrow> rat) \<Rightarrow> totals" where
  "slice_totals_by_binding slices value =
     sorted_binding_totals
       (fold (\<lambda>s. add_total (ws_provider_id s) (ws_limit_id s) (ws_usage_unit s) (value s)) slices [])"

definition by_limit_projection :: "totals \<Rightarrow> totals" where
  "by_limit_projection by_provider =
     sorted_binding_totals
       (fold (\<lambda>(p, limits). fold (\<lambda>(l, units) by_limit. dict_set l (dict_set p units (sub_dict by_limit l)) by_limit) limits)
         by_provider [])"

record ProjectEffort =
  pe_project_id :: string
  pe_work_items :: nat
  pe_estimated_units_by_limit :: totals
  pe_reserved_units_by_limit :: totals
  pe_actual_units_by_limit :: totals
  pe_estimated_units_by_provider :: totals
  pe_reserved_units_by_provider :: totals
  pe_actual_units_by_provider :: totals
  pe_estimated_tokens_by_limit :: totals
  pe_actual_tokens_by_limit :: totals
  pe_estimated_tokens_by_provider :: totals
  pe_actual_tokens_by_provider :: totals
  pe_estimated_quota_points :: "rat option"
  pe_estimated_tokens :: "int option"
  pe_actual_quota_points :: "rat option"
  pe_actual_tokens :: "int option"
  pe_completed_slices :: nat
  pe_work_states :: "(string, nat) pydict"
  pe_attribution :: "string list"

definition or_zero :: "'a::zero option \<Rightarrow> 'a" where
  "or_zero v = (case v of Some x \<Rightarrow> x | None \<Rightarrow> 0)"

definition slice_units :: "QuarkSlice \<Rightarrow> rat" where
  "slice_units s = (case ws_actual_units s of Some u \<Rightarrow> u | None \<Rightarrow> or_zero (ws_actual_quota_points s))"

definition count_states :: "AgentWorkItem list \<Rightarrow> (string, nat) pydict" where
  "count_states work =
     fold (\<lambda>i d. let k = work_state_value (wk_state i)
       in dict_set k ((case dict_get d k of Some n \<Rightarrow> n | None \<Rightarrow> 0) + 1) d) work []"

definition project_effort :: "string \<Rightarrow> (AgentWorkItem \<Rightarrow> bool) \<Rightarrow> QuarkDb \<Rightarrow> ProjectEffort result" where
  "project_effort project_id work_filter db =
     res_bind (list_work db) (\<lambda>all_work.
       let work = filter (\<lambda>i. wk_project_id i = project_id \<and> work_filter i) all_work;
           slices = filter (\<lambda>s. ws_project_id s = project_id \<and> ws_work_id s \<in> wk_id ` set work) (list_slices None db);
           estimated = work_totals_by_binding work wk_estimated_units;
           reserved = work_totals_by_binding work wk_reserved_units;
           estimated_tokens = work_totals_by_binding work (\<lambda>i. of_int (or_zero (wk_estimated_tokens i)));
           actual = slice_totals_by_binding slices slice_units;
           actual_tokens = slice_totals_by_binding slices (\<lambda>s. of_int (or_zero (ws_actual_tokens s)));
           legacy = (work \<noteq> [] \<and> list_all (\<lambda>i. wk_agent_session_id i = None \<and> wk_provider_id i = ''codex'' \<and>
              wk_usage_unit i = ''quota_points'') work)
       in Inr \<lparr>pe_project_id = project_id, pe_work_items = length work,
            pe_estimated_units_by_limit = by_limit_projection estimated,
            pe_reserved_units_by_limit = by_limit_projection reserved,
            pe_actual_units_by_limit = by_limit_projection actual,
            pe_estimated_units_by_provider = estimated, pe_reserved_units_by_provider = reserved,
            pe_actual_units_by_provider = actual,
            pe_estimated_tokens_by_limit = by_limit_projection estimated_tokens,
            pe_actual_tokens_by_limit = by_limit_projection actual_tokens,
            pe_estimated_tokens_by_provider = estimated_tokens, pe_actual_tokens_by_provider = actual_tokens,
            pe_estimated_quota_points = (if legacy then Some (sum_list (map wk_estimated_units work)) else None),
            pe_estimated_tokens =
              (if legacy then Some (sum_list (map (\<lambda>i. or_zero (wk_estimated_tokens i)) work)) else None),
            pe_actual_quota_points =
              (if legacy then Some (sum_list (map (\<lambda>s. or_zero (ws_actual_quota_points s)) slices)) else None),
            pe_actual_tokens =
              (if legacy then Some (sum_list (map (\<lambda>s. or_zero (ws_actual_tokens s)) slices)) else None),
            pe_completed_slices = length (filter (\<lambda>s. str_true (ws_checkpointed_at s)) slices),
            pe_work_states = count_states work,
            pe_attribution = sort (remdups (map ws_attribution_confidence slices))\<rparr>)"

section \<open>The totals are exact\<close>

definition total_of :: "totals \<Rightarrow> string \<Rightarrow> string \<Rightarrow> string \<Rightarrow> rat" where
  "total_of d p l u = unit_total (sub_dict (sub_dict d p) l) u"

definition totals_ok :: "totals \<Rightarrow> bool" where
  "totals_ok d \<longleftrightarrow> dict_ok d \<and> (\<forall>(p, ls) \<in> set d. dict_ok ls \<and> (\<forall>(l, us) \<in> set ls. dict_ok us))"

lemma sub_dict_simps [simp]:
  "sub_dict (dict_set k e d) k' = (if k' = k then e else sub_dict d k')"
  "sub_dict [] k = []"
  by (simp_all add: sub_dict_def)

lemma unit_total_simps [simp]:
  "unit_total (dict_set k v d) k' = (if k' = k then v else unit_total d k')"
  "unit_total [] k = 0"
  by (simp_all add: unit_total_def)

lemma total_of_add:
  "total_of (add_total p l u v d) p' l' u' = total_of d p' l' u' + (if p' = p \<and> l' = l \<and> u' = u then v else 0)"
  by (simp add: total_of_def add_total_def Let_def)

lemma total_of_adds:
  "total_of (fold (\<lambda>x. add_total (fp x) (fl x) (fu x) (v x)) xs d) p l u =
     total_of d p l u + sum_list (map v (filter (\<lambda>x. fp x = p \<and> fl x = l \<and> fu x = u) xs))"
  by (induction xs arbitrary: d) (auto simp: total_of_add)

lemma sub_dict_ok: "totals_ok d \<Longrightarrow> dict_ok (sub_dict d p) \<and> dict_ok (sub_dict (sub_dict d p) l)"
  by (auto simp: totals_ok_def sub_dict_def dict_get_def split: option.splits dest!: map_of_SomeD)

lemma totals_ok_add: "totals_ok d \<Longrightarrow> totals_ok (add_total p l u v d)"
  unfolding add_total_def Let_def
  using sub_dict_ok [of d p l]
  by (auto simp: totals_ok_def pd.rows_put [simplified] sub_dict_def dict_get_def split: option.splits dest!: map_of_SomeD)

lemma dict_get_sorted: "dict_get (sort_key fst d) k = dict_get d k"
  by (simp add: dict_get_def map_of_sort_key)

lemma dict_get_map: "dict_get (map (\<lambda>(k, e). (k, f e)) d) k = map_option f (dict_get d k)"
  by (simp add: dict_get_def map_of_map_snd)

lemma total_of_sorted: "total_of (sorted_binding_totals d) p l u = total_of d p l u"
proof (cases "dict_get d p")
  case (Some ls)
  then show ?thesis
    by (cases "dict_get ls l")
      (simp_all add: total_of_def sorted_binding_totals_def sub_dict_def unit_total_def dict_get_map dict_get_sorted)
qed (simp add: total_of_def sorted_binding_totals_def sub_dict_def unit_total_def dict_get_map dict_get_sorted)

text \<open>Regrouping: an inner pass files the limits of one provider, the outer pass every provider.\<close>

lemma regroup_limits:
  assumes "dict_ok limits"
  shows "sub_dict (sub_dict (fold (\<lambda>(l, units) d. dict_set l (dict_set p units (sub_dict d l)) d) limits acc) l) q =
    (if q = p then (case dict_get limits l of Some us \<Rightarrow> us | None \<Rightarrow> sub_dict (sub_dict acc l) p)
     else sub_dict (sub_dict acc l) q)"
  using assms
proof (induction limits arbitrary: acc)
  case (Cons x limits)
  obtain l' us where x: "x = (l', us)" by (cases x)
  have "dict_ok limits" "map_of limits l' = None"
    using Cons.prems by (auto simp: dict_ok_def x map_of_eq_None_iff)
  with Cons.IH show ?case by (auto simp: x dict_get_def split: option.split)
qed simp

lemma regroup_providers:
  assumes "totals_ok d"
  shows "sub_dict (sub_dict (fold (\<lambda>(p, limits). fold (\<lambda>(l, units) e. dict_set l (dict_set p units (sub_dict e l)) e) limits)
      d acc) l) p =
    (case dict_get (sub_dict d p) l of Some us \<Rightarrow> us | None \<Rightarrow> sub_dict (sub_dict acc l) p)"
  using assms
proof (induction d arbitrary: acc)
  case (Cons x d)
  obtain p' ls where x: "x = (p', ls)" by (cases x)
  have ok: "totals_ok d" "dict_ok ls" "map_of d p' = None"
    using Cons.prems by (auto simp: totals_ok_def dict_ok_def x map_of_eq_None_iff)
  show ?case
  proof (cases "p = p'")
    case True
    then have "sub_dict d p = []" "sub_dict (x # d) p = ls" using ok(3) by (simp_all add: x sub_dict_def dict_get_def)
    then show ?thesis
      using Cons.IH [OF ok(1)] regroup_limits [OF ok(2), of p acc l p] unfolding True [symmetric] x by simp
  next
    case False
    then have "sub_dict (x # d) p = sub_dict d p" by (simp add: x sub_dict_def dict_get_def)
    then show ?thesis
      using Cons.IH [OF ok(1)] regroup_limits [OF ok(2), of p' acc l p] False unfolding x by (simp cong: option.case_cong)
  qed
qed simp

lemma total_of_by_limit: "totals_ok d \<Longrightarrow> total_of (by_limit_projection d) l p u = total_of d p l u"
  unfolding by_limit_projection_def total_of_sorted
  using regroup_providers [of d "[]" l p] unfolding total_of_def sub_dict_simps by (simp add: sub_dict_def)

lemma totals_ok_adds: "totals_ok d \<Longrightarrow> totals_ok (fold (\<lambda>x. add_total (fp x) (fl x) (fu x) (v x)) xs d)"
  by (induction xs arbitrary: d) (auto intro: totals_ok_add)

lemma dict_ok_sort_key [simp]: "dict_ok (sort_key fst e) = dict_ok e"
  unfolding dict_ok_def by (metis distinct_map distinct_sort set_sort)

lemma dict_ok_map [simp]: "dict_ok (map (\<lambda>(k, e). (k, f e)) d) = dict_ok d"
  by (simp add: dict_ok_def case_prod_beta comp_def)

lemma totals_ok_sorted: "totals_ok d \<Longrightarrow> totals_ok (sorted_binding_totals d)"
  by (fastforce simp: sorted_binding_totals_def totals_ok_def)

text \<open>An effort report adds up. For every provider, limit and unit, the totals of a project are the sums over
  its work items and over the slices of those items, nothing is counted twice or lost, and the report
  by limit is the report by provider regrouped.\<close>

theorem effort_totals_exact:
  assumes "project_effort project_id work_filter db = Inr report" "list_work db = Inr all_work"
    "work = filter (\<lambda>i. wk_project_id i = project_id \<and> work_filter i) all_work"
    "slices = filter (\<lambda>s. ws_project_id s = project_id \<and> ws_work_id s \<in> wk_id ` set work) (map snd (qd_slices db))"
  shows "total_of (pe_estimated_units_by_provider report) p l u =
      (\<Sum>i\<leftarrow>filter (\<lambda>i. wk_provider_id i = p \<and> wk_limit_id i = l \<and> wk_usage_unit i = u) work. wk_estimated_units i) \<and>
    total_of (pe_reserved_units_by_provider report) p l u =
      (\<Sum>i\<leftarrow>filter (\<lambda>i. wk_provider_id i = p \<and> wk_limit_id i = l \<and> wk_usage_unit i = u) work. wk_reserved_units i) \<and>
    total_of (pe_actual_units_by_provider report) p l u =
      (\<Sum>s\<leftarrow>filter (\<lambda>s. ws_provider_id s = p \<and> ws_limit_id s = l \<and> ws_usage_unit s = u) slices. slice_units s) \<and>
    total_of (pe_estimated_units_by_limit report) l p u = total_of (pe_estimated_units_by_provider report) p l u \<and>
    total_of (pe_reserved_units_by_limit report) l p u = total_of (pe_reserved_units_by_provider report) p l u \<and>
    total_of (pe_actual_units_by_limit report) l p u = total_of (pe_actual_units_by_provider report) p l u"
proof -
  have ok: "totals_ok (work_totals_by_binding w f)" "totals_ok (slice_totals_by_binding ss g)" for w f ss g
    unfolding work_totals_by_binding_def slice_totals_by_binding_def
    by (intro totals_ok_sorted totals_ok_adds, simp add: totals_ok_def)+
  have w: "total_of (work_totals_by_binding w f) p l u =
      (\<Sum>i\<leftarrow>filter (\<lambda>i. wk_provider_id i = p \<and> wk_limit_id i = l \<and> wk_usage_unit i = u) w. f i)" for w f
    by (simp add: work_totals_by_binding_def total_of_sorted total_of_adds) (simp add: total_of_def)
  have s: "total_of (slice_totals_by_binding ss g) p l u =
      (\<Sum>s\<leftarrow>filter (\<lambda>s. ws_provider_id s = p \<and> ws_limit_id s = l \<and> ws_usage_unit s = u) ss. g s)" for ss g
    by (simp add: slice_totals_by_binding_def total_of_sorted total_of_adds) (simp add: total_of_def)
  have "pe_estimated_units_by_provider report = work_totals_by_binding work wk_estimated_units"
    "pe_reserved_units_by_provider report = work_totals_by_binding work wk_reserved_units"
    "pe_actual_units_by_provider report = slice_totals_by_binding slices slice_units"
    "pe_estimated_units_by_limit report = by_limit_projection (work_totals_by_binding work wk_estimated_units)"
    "pe_reserved_units_by_limit report = by_limit_projection (work_totals_by_binding work wk_reserved_units)"
    "pe_actual_units_by_limit report = by_limit_projection (slice_totals_by_binding slices slice_units)"
    using assms by (auto simp: project_effort_def list_slices_def Let_def)
  then show ?thesis by (simp only: total_of_by_limit [OF ok(1)] total_of_by_limit [OF ok(2)] w s)
qed

definition effort_item :: "string \<Rightarrow> rat \<Rightarrow> AgentWorkItem" where
  "effort_item wid units = \<lparr>wk_id = wid, wk_project_id = ''p'', wk_agent_session_id = Some ''s'', wk_provider_id = ''codex'',
     wk_limit_id = ''codex'', wk_intent = ''fix'', wk_estimated_units = units, wk_usage_unit = ''quota_points'',
     wk_owner_thread = None, wk_priority = 50, wk_state = WorkState_QUEUED, wk_reserved_units = 0, wk_generation = 0,
     wk_checkpoint_ref = None, wk_driver_epoch_id = None, wk_pause_reason = None, wk_resume_at = None,
     wk_created_at = None, wk_updated_at = None, wk_provider_dispatch_id = None, wk_provider_result_id = None,
     wk_provider_reference = None, wk_provider_idempotency_key = None, wk_provider_dispatch_state = None,
     wk_estimated_quota_points = Some units, wk_estimated_tokens = None, wk_reserved_quota_points = Some 0\<rparr>"

definition effort_db :: QuarkDb where
  "effort_db = save_work (effort_item ''b'' 4) (save_work (effort_item ''a'' 3) empty_quark)"

theorem effort_totals_exact_witness:
  "\<exists>report. project_effort ''p'' (\<lambda>i. True) effort_db = Inr report \<and>
     total_of (pe_estimated_units_by_limit report) ''codex'' ''codex'' ''quota_points'' = 7"
proof -
  have work: "list_work effort_db = Inr [effort_item ''a'' 3, effort_item ''b'' 4]" by code_simp
  have "isOK (project_effort ''p'' (\<lambda>i. True) effort_db)" by code_simp
  then obtain report where r: "project_effort ''p'' (\<lambda>i. True) effort_db = Inr report"
    by (cases "project_effort ''p'' (\<lambda>i. True) effort_db") auto
  from effort_totals_exact [OF r work refl refl, of "''codex''" "''codex''" "''quota_points''"]
  have "total_of (pe_estimated_units_by_limit report) ''codex'' ''codex'' ''quota_points'' = 7"
    by (simp add: effort_item_def)
  with r show ?thesis by blast
qed

end
