(* ===== verification/Iso_Time.thy ===== *)
theory Iso_Time
  imports Clock
begin

text \<open>
  Printing of UTC instants: \<open>datetime.isoformat\<close> and the \<^verbatim>\<open>strftime\<close> stamps the sources put into
  identifiers. An instant is an integer of microseconds, with the ordinal of 0001-01-01 equal to 1;
  Python's datetimes are the instants from \<open>FIRST_INSTANT\<close> up to, but not including, \<open>END_INSTANT\<close>. Reading a
  printed instant back gives the instant.
\<close>

section \<open>Decimal fields\<close>

definition digit_char :: "int \<Rightarrow> char" where
  "digit_char n = char_of (48 + nat (n mod 10))"

fun pad_digits :: "nat \<Rightarrow> int \<Rightarrow> string" where
  "pad_digits 0 n = []"
| "pad_digits (Suc k) n = pad_digits k (n div 10) @ [digit_char n]"

lemma digit_char_code [code]:
  "digit_char n = (let m = n mod 10 in
     if m = 0 then CHR ''0'' else if m = 1 then CHR ''1'' else if m = 2 then CHR ''2'' else if m = 3 then CHR ''3''
     else if m = 4 then CHR ''4'' else if m = 5 then CHR ''5'' else if m = 6 then CHR ''6''
     else if m = 7 then CHR ''7'' else if m = 8 then CHR ''8'' else CHR ''9'')"
proof -
  have "n mod 10 \<in> {0, 1, 2, 3, 4, 5, 6, 7, 8, 9}"
    using pos_mod_bound [of 10 n] pos_mod_sign [of 10 n] by (simp; presburger)
  then show ?thesis unfolding digit_char_def Let_def by (auto simp: char_of_def bit_0)
qed

lemma of_char_digit_nat: "(of_char (digit_char n) :: nat) = 48 + nat (n mod 10)"
proof -
  have "48 + nat (n mod 10) < 256" by (simp add: nat_less_iff)
  then show ?thesis unfolding digit_char_def by (simp only: of_char_of mod_less)
qed

lemma of_char_digit_char [simp]: "(of_char (digit_char n) :: int) = 48 + n mod 10"
proof -
  have "(of_char (digit_char n) :: int) = int (of_char (digit_char n))" by (rule of_nat_of_char [symmetric])
  also have "\<dots> = 48 + n mod 10" by (subst of_char_digit_nat) simp
  finally show ?thesis .
qed

lemma is_digit_digit_char [simp]: "is_digit (digit_char n)"
  unfolding is_digit_def of_char_digit_nat Let_def by (simp add: nat_le_iff)

lemma digit_char_neq: "\<not> is_digit c \<Longrightarrow> digit_char n \<noteq> c"
  using is_digit_digit_char by metis

lemma length_pad_digits [simp]: "length (pad_digits k n) = k"
  by (induction k n rule: pad_digits.induct) auto

lemma digits_val_append:
  "digits_val acc (s @ t) = (case digits_val acc s of None \<Rightarrow> None | Some a \<Rightarrow> digits_val a t)"
  by (induction acc s rule: digits_val.induct) auto

lemma digits_val_pad: "digits_val acc (pad_digits k n) = Some (acc * 10 ^ k + n mod 10 ^ k)"
proof (induction k n arbitrary: acc rule: pad_digits.induct)
  case (2 k n)
  have "n mod 10 ^ Suc k = 10 * (n div 10 mod 10 ^ k) + n mod 10"
    using mod_mult2_eq' [of n 10 "10 ^ k"] by (simp add: zmod_zmult2_eq)
  with 2 show ?case by (simp add: digits_val_append algebra_simps)
qed simp

lemma digits_of_pad: "0 \<le> n \<Longrightarrow> n < 10 ^ k \<Longrightarrow> digits_of k (pad_digits k n) = Some n"
  by (simp add: digits_of_def digits_val_pad)

section \<open>Calendar dates of ordinals\<close>

definition days_before_year :: "int \<Rightarrow> int" where
  "days_before_year y = 365 * (y - 1) + (y - 1) div 4 - (y - 1) div 100 + (y - 1) div 400"

definition days_before_month :: "int \<Rightarrow> int \<Rightarrow> int" where
  "days_before_month y m =
     sum_list (map (days_in_month y) (filter (\<lambda>k. k < m) [1, 2, 3, 4, 5, 6, 7, 8, 9, 10, 11, 12]))"

function year_of_ordinal :: "int \<Rightarrow> int \<Rightarrow> int" where
  "year_of_ordinal n y = (if days_before_year y < n \<or> y \<le> 1 then y else year_of_ordinal n (y - 1))"
  by pat_completeness auto
termination
  by (relation "measure (\<lambda>(n, y). nat y)") auto

function month_day :: "int \<Rightarrow> int \<Rightarrow> int \<Rightarrow> int \<times> int" where
  "month_day y m d =
     (if d \<le> days_in_month y m \<or> 12 \<le> m then (m, d) else month_day y (m + 1) (d - days_in_month y m))"
  by pat_completeness auto
termination
  by (relation "measure (\<lambda>(y, m, d). nat (12 - m))") auto

declare year_of_ordinal.simps [simp del] month_day.simps [simp del]

definition civil_of_ordinal :: "int \<Rightarrow> int \<times> int \<times> int" where
  "civil_of_ordinal n =
     (let y = year_of_ordinal n (n div 365 + 1) in (y, month_day y 1 (n - days_before_year y)))"

lemma div_pred:
  fixes y k :: int
  assumes "0 < k"
  shows "y div k - (y - 1) div k = (if y mod k = 0 then 1 else 0)"
proof (cases "y mod k = 0")
  case True
  have "(y - 1) div k = y div k - 1"
    by (rule int_div_pos_eq [where r = "k - 1"])
      (use assms True mult_div_mod_eq [of k y] in \<open>auto simp: algebra_simps\<close>)
  with True show ?thesis by simp
next
  case False
  have "0 \<le> y mod k" "y mod k < k" using assms by simp_all
  then have "(y - 1) div k = y div k"
    by (intro int_div_pos_eq [where r = "y mod k - 1"])
      (use False mult_div_mod_eq [of k y] in auto)
  with False show ?thesis by simp
qed

lemma leap_sum:
  fixes y :: int
  assumes "a - a' - (b - b') + (c - c') = (if p then 1 else 0)"
  shows "365 * y + a - b + c = (365 * (y - 1) + a' - b' + c') + (if p then 366 else 365)"
  using assms by (auto split: if_splits)

lemma leap_cases:
  assumes "c \<longrightarrow> b" "b \<longrightarrow> a"
  shows "(if a then 1 else 0) - (if b then 1 else 0) + (if c then 1 else 0) =
    (if a \<and> (\<not> b \<or> c) then 1 else (0 :: int))"
  using assms by (cases a; cases b; cases c) simp_all

lemma days_before_year_Suc: "days_before_year (y + 1) = days_before_year y + (if leap_year y then 366 else 365)"
proof -
  have "(4 :: int) dvd 100" "(100 :: int) dvd 400" by simp_all
  then have "y mod 400 = 0 \<longrightarrow> y mod 100 = 0" "y mod 100 = 0 \<longrightarrow> y mod 4 = 0"
    unfolding mod_eq_0_iff_dvd by (blast intro: dvd_trans)+
  then have "y div 4 - (y - 1) div 4 - (y div 100 - (y - 1) div 100) + (y div 400 - (y - 1) div 400) =
      (if leap_year y then 1 else 0)"
    unfolding div_pred [OF zero_less_numeral] leap_year_def by (rule leap_cases)
  then show ?thesis unfolding days_before_year_def add_diff_cancel_right' by (rule leap_sum)
qed

lemma days_before_year_mono: "y \<le> z \<Longrightarrow> days_before_year y \<le> days_before_year z"
proof (induction z rule: int_ge_induct)
  case (step z)
  then show ?case using days_before_year_Suc [of z] by (auto split: if_splits)
qed simp

lemma year_of_ordinal_spec:
  assumes "1 \<le> n" "1 \<le> y" "n \<le> days_before_year (y + 1)"
  shows "1 \<le> year_of_ordinal n y \<and> days_before_year (year_of_ordinal n y) < n \<and>
    n \<le> days_before_year (year_of_ordinal n y + 1)"
  using assms
proof (induction n y rule: year_of_ordinal.induct)
  case (1 n y)
  show ?case
  proof (cases "days_before_year y < n \<or> y \<le> 1")
    case True
    moreover have "days_before_year 1 = 0" by (simp add: days_before_year_def)
    moreover have "y \<le> 1 \<Longrightarrow> y = 1" using "1.prems" by simp
    ultimately have "year_of_ordinal n y = y" "days_before_year y < n"
      using "1.prems" by (auto simp: year_of_ordinal.simps [of n y])
    with "1.prems" show ?thesis by simp
  next
    case False
    then have "year_of_ordinal n y = year_of_ordinal n (y - 1)" by (simp add: year_of_ordinal.simps [of n y])
    with "1.IH" [OF False] "1.prems" False show ?thesis by simp
  qed
qed

lemma year_start: "1 \<le> n \<Longrightarrow> n \<le> days_before_year (n div 365 + 1 + 1)"
proof -
  assume "1 \<le> n"
  define x where "x = n div 365 + 1"
  have bound: "k * q + r < k * (q + 1)" if "r < k" for k q r :: int using that by (simp add: algebra_simps)
  have "365 * (n div 365) + n mod 365 < 365 * x" unfolding x_def by (rule bound) simp
  then have "n < 365 * x" by (simp only: mult_div_mod_eq)
  moreover have x: "0 \<le> x" using \<open>1 \<le> n\<close> by (simp add: x_def)
  have "x div 100 \<le> x div 4" using x by (intro zdiv_mono2) auto
  moreover have "0 \<le> x div 400" using x by simp
  moreover have "n \<le> 365 * x + a - b + c" if "n < 365 * x" "b \<le> a" "0 \<le> c" for a b c
    using that by simp
  ultimately show ?thesis unfolding x_def [symmetric] days_before_year_def add_diff_cancel_right' by blast
qed

lemma days_before_month_Suc:
  "1 \<le> m \<Longrightarrow> m \<le> 11 \<Longrightarrow> days_before_month y (m + 1) = days_before_month y m + days_in_month y m"
proof -
  assume "1 \<le> m" "m \<le> 11"
  then have "m \<in> {1, 2, 3, 4, 5, 6, 7, 8, 9, 10, 11}" by (simp; presburger)
  then show ?thesis by (auto simp: days_before_month_def)
qed

lemma days_before_month_12: "days_before_month y 12 + days_in_month y 12 = (if leap_year y then 366 else 365)"
  by (simp add: days_before_month_def days_in_month_def)

lemma month_day_spec:
  assumes "1 \<le> m" "m \<le> 12" "1 \<le> d" "days_before_month y m + d \<le> (if leap_year y then 366 else 365)"
  shows "case month_day y m d of (m', d') \<Rightarrow> 1 \<le> m' \<and> m' \<le> 12 \<and> 1 \<le> d' \<and> d' \<le> days_in_month y m' \<and>
    days_before_month y m' + d' = days_before_month y m + d"
  using assms
proof (induction y m d rule: month_day.induct)
  case (1 y m d)
  show ?case
  proof (cases "d \<le> days_in_month y m \<or> 12 \<le> m")
    case True
    moreover have "12 \<le> m \<Longrightarrow> d \<le> days_in_month y m"
      using "1.prems" days_before_month_12 [of y] by (cases "m = 12") auto
    ultimately show ?thesis using "1.prems" by (auto simp: month_day.simps [of y m d])
  next
    case False
    with "1.prems" have "m \<le> 11" by simp
    with "1.prems" "1.IH" [OF False] False days_before_month_Suc [of m y] show ?thesis
      by (simp add: month_day.simps [of y m d])
  qed
qed

text \<open>Every ordinal of a Python date is the ordinal of exactly the date it is printed as.\<close>

definition LAST_ORDINAL :: int where "LAST_ORDINAL = 3652059"

lemma civil_of_ordinal_spec:
  assumes "1 \<le> n" "n \<le> LAST_ORDINAL" "civil_of_ordinal n = (y, m, d)"
  shows "1 \<le> y" "y \<le> 9999" "1 \<le> m" "m \<le> 12" "1 \<le> d" "d \<le> days_in_month y m" "ymd_ordinal y m d = n"
proof -
  have y: "y = year_of_ordinal n (n div 365 + 1)" and md: "month_day y 1 (n - days_before_year y) = (m, d)"
    using assms(3) by (auto simp: civil_of_ordinal_def Let_def)
  have "1 \<le> n div 365 + 1" using assms(1) by simp
  from year_of_ordinal_spec [OF assms(1) this year_start [OF assms(1)]]
  have spec: "1 \<le> y" "days_before_year y < n" "n \<le> days_before_year (y + 1)" unfolding y by auto
  show "1 \<le> y" by (rule spec(1))
  have "days_before_year 10000 = LAST_ORDINAL" by (simp add: days_before_year_def LAST_ORDINAL_def)
  with spec(2) assms(2) days_before_year_mono [of 10000 y] show "y \<le> 9999" by linarith
  have z: "days_before_month y 1 = 0" by (simp add: days_before_month_def)
  have "n - days_before_year y \<le> (if leap_year y then 366 else 365)"
    using spec(3) days_before_year_Suc [of y] by simp
  with month_day_spec [of 1 "n - days_before_year y" y] md spec(2) z
  show "1 \<le> m" "m \<le> 12" "1 \<le> d" "d \<le> days_in_month y m" "ymd_ordinal y m d = n"
    by (auto simp: ymd_ordinal_def days_before_year_def days_before_month_def)
qed

section \<open>Printing and reading back\<close>

definition DAY_MICROS :: int where "DAY_MICROS = 24 * 3600 * MICROS"

definition FIRST_INSTANT :: int where "FIRST_INSTANT = DAY_MICROS"

definition END_INSTANT :: int where "END_INSTANT = (LAST_ORDINAL + 1) * DAY_MICROS"

definition date_text :: "int \<times> int \<times> int \<Rightarrow> string" where
  "date_text ymd = (case ymd of (y, m, d) \<Rightarrow> pad_digits 4 y @ ''-'' @ pad_digits 2 m @ ''-'' @ pad_digits 2 d)"

definition clock_text :: "int \<Rightarrow> string" where
  "clock_text sec = pad_digits 2 (sec div 3600) @ '':'' @ pad_digits 2 (sec div 60 mod 60) @ '':'' @
     pad_digits 2 (sec mod 60)"

definition isoformat_utc :: "int \<Rightarrow> string" where
  "isoformat_utc t =
     (let micros = t mod DAY_MICROS; fraction = micros mod MICROS
      in date_text (civil_of_ordinal (t div DAY_MICROS)) @ ''T'' @ clock_text (micros div MICROS) @
         (if fraction = 0 then [] else ''.'' @ pad_digits 6 fraction) @ ''+00:00'')"

text \<open>\<^verbatim>\<open>strftime("%Y%m%dT%H%M%SZ")\<close>\<close>

definition stamp_utc :: "int \<Rightarrow> string" where
  "stamp_utc t =
     (let sec = t mod DAY_MICROS div MICROS
      in (case civil_of_ordinal (t div DAY_MICROS) of (y, m, d) \<Rightarrow>
            pad_digits 4 y @ pad_digits 2 m @ pad_digits 2 d) @ ''T'' @
         pad_digits 2 (sec div 3600) @ pad_digits 2 (sec div 60 mod 60) @ pad_digits 2 (sec mod 60) @ ''Z'')"

lemma parse_date_text:
  assumes "1 \<le> y" "y \<le> 9999" "1 \<le> m" "m \<le> 12" "1 \<le> d" "d \<le> days_in_month y m"
  shows "parse_date (date_text (y, m, d)) = Some (ymd_ordinal y m d)"
proof -
  have "d \<le> 31" using assms(6) by (auto simp: days_in_month_def split: if_splits)
  then have "digits_of 4 (pad_digits 4 y) = Some y" "digits_of 2 (pad_digits 2 m) = Some m"
    "digits_of 2 (pad_digits 2 d) = Some d"
    using assms by (auto intro!: digits_of_pad)
  then show ?thesis using assms by (simp add: parse_date_def date_text_def nth_append)
qed

lemma parse_hms_text:
  assumes "0 \<le> sec" "sec < 24 * 3600"
  shows "parse_hms True (clock_text sec) = Some (sec * MICROS)"
proof -
  define h m r where "h = sec div 3600" "m = sec div 60 mod 60" "r = sec mod 60"
  have "h = sec div 60 div 60" by (simp add: h_m_r_def(1) div_mult2_eq [symmetric] zdiv_zmult2_eq [symmetric])
  then have "60 * h + m = sec div 60" unfolding h_m_r_def(2) by (simp only: mult_div_mod_eq)
  moreover have "60 * (sec div 60) + r = sec" unfolding h_m_r_def(3) by (simp only: mult_div_mod_eq)
  ultimately have "60 * (60 * h + m) + r = sec" by (simp only:)
  then have sum: "3600 * h + 60 * m + r = sec" by simp
  have "0 \<le> h" "h < 24" "0 \<le> m" "m < 60" "0 \<le> r" "r < 60"
    using assms by (auto simp: h_m_r_def)
  moreover from this have "digits_of 2 (pad_digits 2 h) = Some h" "digits_of 2 (pad_digits 2 m) = Some m"
    "digits_of 2 (pad_digits 2 r) = Some r"
    by (auto intro!: digits_of_pad)
  moreover have "clock_text sec = pad_digits 2 h @ '':'' @ pad_digits 2 m @ '':'' @ pad_digits 2 r"
    by (simp add: clock_text_def h_m_r_def)
  ultimately show ?thesis using sum by (simp add: parse_hms_def nth_append Let_def)
qed

lemma parse_clock_text:
  assumes "0 \<le> sec" "sec < 24 * 3600" "0 \<le> f" "f < MICROS"
  shows "parse_clock (clock_text sec @ (if f = 0 then [] else ''.'' @ pad_digits 6 f)) = Some (sec * MICROS + f)"
proof -
  have len: "length (clock_text sec) = 8" by (simp add: clock_text_def)
  have "digits_val 0 (pad_digits 6 f) = Some f" using assms by (simp add: digits_val_pad MICROS_def)
  then have "parse_fraction (pad_digits 6 f) = Some f"
    by (auto simp: parse_fraction_def dest: arg_cong [of _ _ length])
  with len parse_hms_text [OF assms(1,2)] show ?thesis
    by (auto simp: parse_clock_def nth_append)
qed

lemma set_pad_digits: "c \<in> set (pad_digits k n) \<Longrightarrow> is_digit c"
  by (induction k n rule: pad_digits.induct) auto

lemma clock_text_chars:
  "c \<in> set (clock_text sec @ (if f = 0 then [] else ''.'' @ pad_digits 6 f)) \<Longrightarrow>
     c \<notin> {CHR ''+'', CHR ''-'', CHR ''Z''}"
  by (auto simp: clock_text_def is_digit_def dest!: set_pad_digits split: if_splits)

lemma fromisoformat_isoformat_utc:
  assumes "FIRST_INSTANT \<le> t" "t < END_INSTANT"
  shows "fromisoformat (isoformat_utc t) = Inr \<lparr>dt_wall = t, dt_offset = Some 0\<rparr>"
proof -
  define n u where "n = t div DAY_MICROS" "u = t mod DAY_MICROS"
  have pos: "0 < DAY_MICROS" "0 < MICROS" by (simp_all add: DAY_MICROS_def MICROS_def)
  have t: "t = n * DAY_MICROS + u" by (simp add: n_u_def)
  have u: "0 \<le> u" "u < DAY_MICROS" using pos by (simp_all add: n_u_def)
  have n1: "1 \<le> n"
    using zdiv_mono1 [of DAY_MICROS t DAY_MICROS] assms(1) pos by (simp add: n_u_def FIRST_INSTANT_def)
  have "\<not> LAST_ORDINAL + 1 \<le> n"
  proof
    assume "LAST_ORDINAL + 1 \<le> n"
    then have "(LAST_ORDINAL + 1) * DAY_MICROS \<le> n * DAY_MICROS" using pos by (intro mult_right_mono) auto
    with assms(2) u t show False unfolding END_INSTANT_def by linarith
  qed
  then have n2: "n \<le> LAST_ORDINAL" by simp
  obtain y m d where ymd: "civil_of_ordinal n = (y, m, d)" by (cases "civil_of_ordinal n")
  note spec = civil_of_ordinal_spec [OF n1 n2 ymd]
  have date: "parse_date (date_text (y, m, d)) = Some n"
    using parse_date_text [OF spec(1-6)] spec(7) by simp
  define sec f where "sec = u div MICROS" "f = u mod MICROS"
  have "u = sec * MICROS + f" by (simp add: sec_f_def)
  moreover have "0 \<le> f" "f < MICROS" "0 \<le> sec" using pos u by (simp_all add: sec_f_def pos_imp_zdiv_nonneg_iff)
  moreover have "sec < 24 * 3600"
    using u(2) calculation by (auto simp: DAY_MICROS_def MICROS_def)
  ultimately have clock:
    "parse_clock (clock_text sec @ (if f = 0 then [] else ''.'' @ pad_digits 6 f)) = Some u"
    using parse_clock_text [of sec f] by simp
  let ?clock = "clock_text sec @ (if f = 0 then [] else ''.'' @ pad_digits 6 f)"
  have printed: "isoformat_utc t = date_text (y, m, d) @ CHR ''T'' # ?clock @ ''+00:00''"
    using ymd by (simp add: isoformat_utc_def n_u_def sec_f_def Let_def)
  have len: "length (date_text (y, m, d)) = 10" by (simp add: date_text_def)
  let ?zone = "\<lambda>c. c \<notin> {CHR ''+'', CHR ''-'', CHR ''Z''}"
  have "takeWhile ?zone (?clock @ ''+00:00'') = ?clock" "dropWhile ?zone (?clock @ ''+00:00'') = ''+00:00''"
    using clock_text_chars [of _ sec f] by (subst takeWhile_append2 dropWhile_append2; auto)+
  moreover have "parse_offset ''+00:00'' = Some (Some 0)" by code_simp
  ultimately have "fromisoformat (isoformat_utc t) = Inr \<lparr>dt_wall = n * 24 * 3600 * MICROS + u, dt_offset = Some 0\<rparr>"
    unfolding fromisoformat_def printed Let_def using date clock len by simp
  moreover have "n * 24 * 3600 * MICROS + u = t" using t by (simp add: DAY_MICROS_def)
  ultimately show ?thesis by simp
qed

text \<open>
  \<^verbatim>\<open>fromisoformat(text.replace("Z", "+00:00"))\<close>: a printed instant contains no \<open>Z\<close>, so the replacement
  leaves it alone.
\<close>

lemma replace_char_id: "c \<notin> set s \<Longrightarrow> replace_char c r s = s"
  by (induction s) (auto simp: replace_char_def)

lemma Z_not_in_isoformat: "CHR ''Z'' \<notin> set (isoformat_utc t)"
  using clock_text_chars [of "CHR ''Z''"]
  by (auto simp: isoformat_utc_def date_text_def is_digit_def Let_def split: prod.splits if_splits
    dest!: set_pad_digits)

end
