(* ===== verification/Py_Paths.thy ===== *)
theory Py_Paths
  imports Prelude
begin

text \<open>
  \<^verbatim>\<open>pathlib.Path\<close> on POSIX: a path is the list of its parts, with the root as the first part of an
  absolute path. Parsing drops empty and \<open>.\<close> components; printing joins the parts.
\<close>

type_synonym path = "string list"

definition path_roots :: "string list" where
  "path_roots = [''/'', ''//'']"

definition path_of :: "string \<Rightarrow> path" where
  "path_of s =
     (if startswith s ''//'' \<and> \<not> startswith s ''///'' then [''//''] else if startswith s ''/'' then [''/''] else [])
     @ filter (\<lambda>c. c \<noteq> [] \<and> c \<noteq> ''.'') (split_char CHR ''/'' s)"

definition path_str :: "path \<Rightarrow> string" where
  "path_str p =
     (case p of
        [] \<Rightarrow> ''.''
      | r # rest \<Rightarrow> if r \<in> set path_roots then r @ py_join ''/'' rest else py_join ''/'' p)"

definition is_root :: "path \<Rightarrow> bool" where
  "is_root p \<longleftrightarrow> (case p of [r] \<Rightarrow> r \<in> set path_roots | _ \<Rightarrow> False)"

definition path_name :: "path \<Rightarrow> string" where
  "path_name p = (if p = [] \<or> is_root p then [] else last p)"

definition path_parent :: "path \<Rightarrow> path" where
  "path_parent p = (if p = [] \<or> is_root p then p else butlast p)"

section \<open>Printing and parsing\<close>

definition component_ok :: "string \<Rightarrow> bool" where
  "component_ok c \<longleftrightarrow> c \<noteq> [] \<and> c \<noteq> ''.'' \<and> CHR ''/'' \<notin> set c"

definition path_ok :: "path \<Rightarrow> bool" where
  "path_ok p \<longleftrightarrow>
     (case p of [] \<Rightarrow> True | r # rest \<Rightarrow> (r \<in> set path_roots \<or> component_ok r) \<and> list_all component_ok rest)"

lemma split_char_nonempty: "split_char c s \<noteq> []"
  by (cases s) (auto split: list.splits)

lemma split_char_plain: "c \<notin> set s \<Longrightarrow> split_char c s = [s]"
  by (induction s) auto

lemma split_char_append: "c \<notin> set s \<Longrightarrow> split_char c (s @ c # t) = s # split_char c t"
  by (induction s) (auto split: list.splits)

lemma split_join:
  "list_all component_ok cs \<Longrightarrow> cs \<noteq> [] \<Longrightarrow> split_char CHR ''/'' (py_join ''/'' cs) = cs"
  by (induction "''/'' :: string" cs rule: py_join.induct)
    (auto simp: component_ok_def split_char_plain split_char_append)

lemma filter_components: "list_all component_ok cs \<Longrightarrow> filter (\<lambda>c. c \<noteq> [] \<and> c \<noteq> ''.'') cs = cs"
  by (induction cs) (auto simp: component_ok_def)

lemma join_start:
  assumes "list_all component_ok cs" "cs \<noteq> []"
  shows "\<exists>c s. py_join ''/'' cs = c # s \<and> c \<noteq> CHR ''/''"
proof -
  obtain c cs' where cs: "cs = c # cs'" using assms(2) by (cases cs) auto
  with assms(1) obtain d s where "c = d # s" "d \<noteq> CHR ''/''"
    by (cases c) (auto simp: component_ok_def)
  with cs show ?thesis by (cases cs') auto
qed

lemma path_of_relative:
  assumes "list_all component_ok cs" "cs \<noteq> []"
  shows "path_of (py_join ''/'' cs) = cs"
  using join_start [OF assms] split_join [OF assms] filter_components [OF assms(1)]
  by (auto simp: path_of_def startswith_def)

lemma path_of_str:
  assumes "path_ok p"
  shows "path_of (path_str p) = p"
proof (cases p)
  case Nil
  then show ?thesis by (simp add: path_str_def path_of_def startswith_def)
next
  case (Cons r rest)
  show ?thesis
  proof (cases "r \<in> set path_roots")
    case False
    then have "list_all component_ok p" using assms Cons by (simp add: path_ok_def)
    with False Cons show ?thesis using path_of_relative [of p] by (simp add: path_str_def)
  next
    case True
    have ok: "list_all component_ok rest" using assms Cons by (simp add: path_ok_def)
    have parts: "filter (\<lambda>c. c \<noteq> [] \<and> c \<noteq> ''.'') (split_char CHR ''/'' (py_join ''/'' rest)) = rest"
      using split_join [OF ok] filter_components [OF ok] by (cases "rest = []") auto
    have "rest \<noteq> [] \<Longrightarrow> \<exists>c s. py_join ''/'' rest = c # s \<and> c \<noteq> CHR ''/''"
      using join_start [OF ok] by blast
    with True Cons parts show ?thesis
      by (cases "rest = []") (auto simp: path_str_def path_of_def path_roots_def startswith_def)
  qed
qed

lemma path_ok_append: "path_ok p \<Longrightarrow> list_all component_ok cs \<Longrightarrow> path_ok (p @ cs)"
  by (cases p; cases cs) (auto simp: path_ok_def)

end
