(* ===== verification/Key_Broker.thy ===== *)
theory Key_Broker
  imports Store_Model Iso_Time Py_Paths
begin

text \<open>
  The key broker of \<^verbatim>\<open>src/overseer/key_broker.py\<close>: provider records, token requests, grants, and the
  commands that record a provider, request, approve, issue and revoke a token. The state is the
  store with the broker's three tables and the files the broker reads and writes (a map from paths to
  text). \<open>now k\<close> is what the clock reads at its k-th reading in a command, \<open>hex\<close> and \<open>urlsafe\<close> are the
  random texts drawn from \<^verbatim>\<open>secrets\<close>, \<open>sha256\<close> is the digest function, \<open>expanduser\<close> the
  home-directory expansion, \<open>jwt_sign\<close> the signature of the third-party cryptography package and
  \<open>http_post\<close> the GitHub service.
\<close>

datatype KeyProviderKind =
    KeyKind_STATIC_TOKEN | KeyKind_GITHUB_APP | KeyKind_BREAK_GLASS

fun key_provider_kind_value :: "KeyProviderKind \<Rightarrow> string" where
  "key_provider_kind_value KeyKind_STATIC_TOKEN = ''static_token''"
| "key_provider_kind_value KeyKind_GITHUB_APP = ''github_app''"
| "key_provider_kind_value KeyKind_BREAK_GLASS = ''break_glass''"

definition key_provider_kind_of :: "string \<Rightarrow> KeyProviderKind result" where
  "key_provider_kind_of = enum_of ''KeyProviderKind'' key_provider_kind_value
     [KeyKind_STATIC_TOKEN, KeyKind_GITHUB_APP, KeyKind_BREAK_GLASS]"

datatype KeyBrokerRequestStatus =
    KeyReq_PENDING_APPROVAL | KeyReq_APPROVED | KeyReq_ISSUED | KeyReq_DENIED | KeyReq_CANCELED

fun key_request_status_value :: "KeyBrokerRequestStatus \<Rightarrow> string" where
  "key_request_status_value KeyReq_PENDING_APPROVAL = ''pending_approval''"
| "key_request_status_value KeyReq_APPROVED = ''approved''"
| "key_request_status_value KeyReq_ISSUED = ''issued''"
| "key_request_status_value KeyReq_DENIED = ''denied''"
| "key_request_status_value KeyReq_CANCELED = ''canceled''"

datatype KeyBrokerGrantStatus =
    KeyGrant_ACTIVE | KeyGrant_REVOKED | KeyGrant_EXPIRED

fun key_grant_status_value :: "KeyBrokerGrantStatus \<Rightarrow> string" where
  "key_grant_status_value KeyGrant_ACTIVE = ''active''"
| "key_grant_status_value KeyGrant_REVOKED = ''revoked''"
| "key_grant_status_value KeyGrant_EXPIRED = ''expired''"

record KeyProviderRecord =
  kp_id :: string
  kp_display_name :: string
  kp_provider_kind :: KeyProviderKind
  kp_owner_domain :: OwnerDomain
  kp_enabled :: bool
  kp_secret_ref :: string
  kp_allowed_subjects :: "string list"
  kp_allowed_scopes :: "string list"
  kp_metadata :: "(string, pyval) pydict"
  kp_created_at :: string
  kp_updated_at :: string

record KeyBrokerTokenRequest =
  kr_id :: string
  kr_provider_id :: string
  kr_subject :: string
  kr_requested_scopes :: "string list"
  kr_requested_by :: string
  kr_justification :: string
  kr_ttl_minutes :: int
  kr_status :: KeyBrokerRequestStatus
  kr_risk_level :: RiskLevel
  kr_approval_id :: "string option"
  kr_approved_by :: "string option"
  kr_approved_at :: "string option"
  kr_denial_reason :: "string option"
  kr_created_at :: string
  kr_updated_at :: string

record KeyBrokerTokenGrant =
  kg_id :: string
  kg_request_id :: string
  kg_provider_id :: string
  kg_subject :: string
  kg_scopes :: "string list"
  kg_token_hash :: string
  kg_token_path :: string
  kg_status :: KeyBrokerGrantStatus
  kg_issued_by :: string
  kg_issued_at :: string
  kg_expires_at :: string
  kg_revoked_by :: "string option"
  kg_revoked_at :: "string option"
  kg_revoke_reason :: "string option"

record BrokerState = OverseerStore +
  kb_providers :: "KeyProviderRecord tbl"
  kb_requests :: "KeyBrokerTokenRequest tbl"
  kb_grants :: "KeyBrokerTokenGrant tbl"
  kb_files :: "path \<rightharpoonup> string"

type_synonym broker_command = "BrokerState \<Rightarrow> BrokerState \<times> pyval result"

definition empty_broker :: BrokerState where
  "empty_broker = OverseerStore.extend empty_store
     \<lparr>kb_providers = [], kb_requests = [], kb_grants = [], kb_files = Map.empty\<rparr>"

definition save_key_provider :: "KeyProviderRecord \<Rightarrow> BrokerState \<Rightarrow> BrokerState" where
  "save_key_provider p st = st\<lparr>kb_providers := tbl_upsert (kp_id p) p (kb_providers st)\<rparr>"

definition load_key_provider :: "BrokerState \<Rightarrow> string \<Rightarrow> KeyProviderRecord result" where
  "load_key_provider st k = get_payload (kb_providers st) k"

definition save_key_broker_token_request :: "KeyBrokerTokenRequest \<Rightarrow> BrokerState \<Rightarrow> BrokerState" where
  "save_key_broker_token_request r st = st\<lparr>kb_requests := tbl_upsert (kr_id r) r (kb_requests st)\<rparr>"

definition load_key_broker_token_request :: "BrokerState \<Rightarrow> string \<Rightarrow> KeyBrokerTokenRequest result" where
  "load_key_broker_token_request st k = get_payload (kb_requests st) k"

definition save_key_broker_token_grant :: "KeyBrokerTokenGrant \<Rightarrow> BrokerState \<Rightarrow> BrokerState" where
  "save_key_broker_token_grant g st = st\<lparr>kb_grants := tbl_upsert (kg_id g) g (kb_grants st)\<rparr>"

definition load_key_broker_token_grant :: "BrokerState \<Rightarrow> string \<Rightarrow> KeyBrokerTokenGrant result" where
  "load_key_broker_token_grant st k = get_payload (kb_grants st) k"

section \<open>Checks and normalisation\<close>

definition MAX_TOKEN_TTL_MINUTES :: int where "MAX_TOKEN_TTL_MINUTES = 60"

definition id_char :: "char \<Rightarrow> bool" where
  "id_char c = (let n = (of_char c :: int) in
     (65 \<le> n \<and> n \<le> 90) \<or> (97 \<le> n \<and> n \<le> 122) \<or> (48 \<le> n \<and> n \<le> 57) \<or> c \<in> set ''_.:-'')"

text \<open>\<^verbatim>\<open>re.fullmatch("[A-Za-z0-9_.:-]{1,160}", cleaned)\<close>\<close>

definition safe_id :: "string \<Rightarrow> string \<Rightarrow> string result" where
  "safe_id value field =
     (let cleaned = py_strip value
      in if cleaned \<noteq> [] \<and> length cleaned \<le> 160 \<and> list_all id_char cleaned then Inr cleaned
         else Inl (ValueError (field @ '' must contain only letters, numbers, underscore, dash, dot, or colon'')))"

definition safe_subject :: "string \<Rightarrow> string result" where
  "safe_subject value =
     (let cleaned = py_strip value
      in if cleaned = [] \<or> list_ex (\<lambda>part. py_contains part (py_lower cleaned)) [''token'', ''secret'', ''password'']
         then Inl (ValueError ''invalid subject'') else Inr cleaned)"

fun collect_values :: "bool \<Rightarrow> string list \<Rightarrow> string list result" where
  "collect_values allow_wildcard [] = Inr []"
| "collect_values allow_wildcard (v # vs) =
     (let item = py_strip v
      in if item = [] then collect_values allow_wildcard vs
         else if item = ''*'' \<and> \<not> allow_wildcard then Inl (ValueError ''wildcard is not allowed here'')
         else res_bind (collect_values allow_wildcard vs) (\<lambda>rest. Inr (item # rest)))"

definition normalized_values :: "string list \<Rightarrow> bool \<Rightarrow> string list result" where
  "normalized_values values allow_wildcard =
     res_bind (collect_values allow_wildcard values) (\<lambda>normalized.
       if normalized = [] then Inl (ValueError ''at least one value is required'')
       else Inr (dict_fromkeys normalized))"

definition assert_allowed :: "string \<Rightarrow> string list \<Rightarrow> string \<Rightarrow> unit result" where
  "assert_allowed value allowed label =
     (if ''*'' \<in> set allowed \<or> value \<in> set allowed then Inr ()
      else Inl (ValueError (label @ '' is outside provider allowlist'')))"

fun assert_scopes :: "string list \<Rightarrow> string list \<Rightarrow> unit result" where
  "assert_scopes [] allowed = Inr ()"
| "assert_scopes (s # scopes) allowed =
     res_bind (assert_allowed s allowed ''scope'') (\<lambda>_. assert_scopes scopes allowed)"

definition redact_mapping :: "(string, pyval) pydict \<Rightarrow> (string, pyval) pydict" where
  "redact_mapping d =
     map (\<lambda>(k, v). (k, if list_ex (\<lambda>part. py_contains part (py_lower k)) [''token'', ''secret'', ''password'', ''key'']
                        then PStr ''[redacted]'' else v)) d"

definition redact_secret_ref :: "string \<Rightarrow> string" where
  "redact_secret_ref secret_ref = (if secret_ref = [] then [] else path_name (path_of secret_ref))"

definition request_risk :: "KeyProviderRecord \<Rightarrow> string list \<Rightarrow> RiskLevel" where
  "request_risk provider scopes =
     (if kp_provider_kind provider = KeyKind_BREAK_GLASS \<or> ''*'' \<in> set scopes then Risk_CRITICAL
      else if kp_provider_kind provider = KeyKind_GITHUB_APP then Risk_HIGH
      else Risk_LOW)"

definition broker_audit_event :: "string \<Rightarrow> string \<Rightarrow> string \<Rightarrow> int \<Rightarrow> int \<Rightarrow> AuditEvent result" where
  "broker_audit_event event_type subject_id summary t1 t2 =
     res_bind (safe_id subject_id ''subject_id'') (\<lambda>sid.
       Inr \<lparr>ev_id = ''audit.key-broker.'' @ sid @ ''.'' @ stamp_utc t1,
         ev_event_type = (if py_contains ''requested'' event_type \<or> py_contains ''recorded'' event_type
           then Event_REQUESTED else Event_EXECUTED),
         ev_owner_domain = Owner_ODO, ev_subject_id = subject_id, ev_summary = summary,
         ev_risk_level = Risk_HIGH, ev_evidence_ids = [], ev_occurred_at = Some (isoformat_utc t2)\<rparr>)"

definition refresh_grant_status :: "int \<Rightarrow> KeyBrokerTokenGrant \<Rightarrow> KeyBrokerTokenGrant result" where
  "refresh_grant_status clock g =
     (if kg_status g \<noteq> KeyGrant_ACTIVE then Inr g
      else res_bind (fromisoformat (kg_expires_at g)) (\<lambda>d.
        case dt_offset d of
          None \<Rightarrow> Inl (TypeError ''can't compare offset-naive and offset-aware datetimes'')
        | Some off \<Rightarrow> Inr (if dt_wall d - off \<le> clock then g\<lparr>kg_status := KeyGrant_EXPIRED\<rparr> else g)))"

section \<open>Status dictionaries\<close>

definition provider_status :: "KeyProviderRecord \<Rightarrow> pyval" where
  "provider_status p = PDict
     [(''id'', PStr (kp_id p)), (''display_name'', PStr (kp_display_name p)),
      (''provider_kind'', PStr (key_provider_kind_value (kp_provider_kind p))),
      (''owner_domain'', PStr (owner_value (kp_owner_domain p))), (''enabled'', PBool (kp_enabled p)),
      (''secret_ref'', PStr (redact_secret_ref (kp_secret_ref p))),
      (''allowed_subjects'', str_list (kp_allowed_subjects p)), (''allowed_scopes'', str_list (kp_allowed_scopes p)),
      (''metadata'', PDict (kp_metadata p)), (''created_at'', PStr (kp_created_at p)),
      (''updated_at'', PStr (kp_updated_at p))]"

definition request_status :: "KeyBrokerTokenRequest \<Rightarrow> pyval" where
  "request_status r = PDict
     [(''id'', PStr (kr_id r)), (''provider_id'', PStr (kr_provider_id r)), (''subject'', PStr (kr_subject r)),
      (''requested_scopes'', str_list (kr_requested_scopes r)), (''requested_by'', PStr (kr_requested_by r)),
      (''justification'', PStr (kr_justification r)), (''ttl_minutes'', PInt (kr_ttl_minutes r)),
      (''status'', PStr (key_request_status_value (kr_status r))), (''risk_level'', PStr (risk_value (kr_risk_level r))),
      (''approval_id'', opt_str (kr_approval_id r)), (''approved_by'', opt_str (kr_approved_by r)),
      (''approved_at'', opt_str (kr_approved_at r)), (''created_at'', PStr (kr_created_at r)),
      (''updated_at'', PStr (kr_updated_at r))]"

definition grant_status :: "int \<Rightarrow> KeyBrokerTokenGrant \<Rightarrow> pyval result" where
  "grant_status clock g =
     res_bind (refresh_grant_status clock g) (\<lambda>r. Inr (PDict
       [(''id'', PStr (kg_id r)), (''request_id'', PStr (kg_request_id r)), (''provider_id'', PStr (kg_provider_id r)),
        (''subject'', PStr (kg_subject r)), (''scopes'', str_list (kg_scopes r)),
        (''token_hash_prefix'', PStr (take 19 (kg_token_hash r))), (''token_path'', PStr (kg_token_path r)),
        (''status'', PStr (key_grant_status_value (kg_status r))), (''issued_by'', PStr (kg_issued_by r)),
        (''issued_at'', PStr (kg_issued_at r)), (''expires_at'', PStr (kg_expires_at r)),
        (''revoked_by'', opt_str (kg_revoked_by r)), (''revoked_at'', opt_str (kg_revoked_at r)),
        (''revoke_reason'', opt_str (kg_revoke_reason r))]))"

section \<open>Minting\<close>

fun split_once :: "char \<Rightarrow> string \<Rightarrow> string \<times> string" where
  "split_once c [] = ([], [])"
| "split_once c (d # s) = (if d = c then ([], s) else map_prod (Cons d) id (split_once c s))"

definition github_permissions_step :: "string \<Rightarrow> (string, string) pydict \<Rightarrow> (string, string) pydict result" where
  "github_permissions_step scope permissions =
     (if CHR '':'' \<notin> set scope then Inl (ValueError (''invalid github scope '' @ scope))
      else let (permission, level) = split_once CHR '':'' scope
           in if level \<notin> {''read'', ''write''} then Inl (ValueError (''invalid github permission level '' @ level))
              else if dict_get permissions permission = Some ''write'' then Inr permissions
              else Inr (dict_set permission level permissions))"

fun github_permissions_loop :: "string list \<Rightarrow> (string, string) pydict \<Rightarrow> (string, string) pydict result" where
  "github_permissions_loop [] permissions = Inr permissions"
| "github_permissions_loop (s # scopes) permissions =
     res_bind (github_permissions_step s permissions) (github_permissions_loop scopes)"

definition github_permissions_for_scopes :: "string list \<Rightarrow> (string, string) pydict result" where
  "github_permissions_for_scopes scopes =
     res_bind (github_permissions_loop scopes []) (\<lambda>permissions.
       Inr (if dict_get permissions ''metadata'' = None then dict_set ''metadata'' ''read'' permissions
            else permissions))"

definition read_env_file :: "(path \<rightharpoonup> string) \<Rightarrow> path \<Rightarrow> (string, string) pydict result" where
  "read_env_file files p =
     (case files p of
        None \<Rightarrow> Inl (ValueError ''github app environment file is missing'')
      | Some text \<Rightarrow>
          Inr (fold (\<lambda>line values.
            let stripped = py_strip line
            in if stripped = [] \<or> startswith stripped ''#'' \<or> CHR ''='' \<notin> set stripped then values
               else let (key, value) = split_once CHR ''='' stripped
                    in dict_set (py_strip key) (py_strip value) values) (py_splitlines text) []))"

record github_config =
  gc_app_id :: string
  gc_installation_id :: string
  gc_private_key_path :: path
  gc_owner :: string
  gc_repository :: string

definition github_app_config ::
  "(string \<Rightarrow> string) \<Rightarrow> (path \<rightharpoonup> string) \<Rightarrow> KeyProviderRecord \<Rightarrow> github_config result" where
  "github_app_config expanduser files provider =
     (let private_key_path = path_of (expanduser (kp_secret_ref provider))
      in if files private_key_path = None then Inl (ValueError ''github app private key file is missing'')
         else res_bind (read_env_file files (path_parent private_key_path @ [''overseer-github-app.env''])) (\<lambda>values.
           let app_id = dict_get values ''GITHUB_APP_ID'';
               installation_id = dict_get values ''GITHUB_APP_INSTALLATION_ID''
           in if \<not> str_true app_id \<or> \<not> str_true installation_id
              then Inl (ValueError ''github app id and installation id are required'')
              else Inr \<lparr>gc_app_id = the app_id, gc_installation_id = the installation_id,
                gc_private_key_path = private_key_path,
                gc_owner = (case dict_get values ''GITHUB_APP_OWNER'' of None \<Rightarrow> [] | Some v \<Rightarrow> v),
                gc_repository = (case dict_get values ''GITHUB_APP_REPOSITORY'' of None \<Rightarrow> [] | Some v \<Rightarrow> v)\<rparr>))"

definition mint_github_app_installation_token ::
  "(string \<Rightarrow> string) \<Rightarrow> (string \<Rightarrow> path \<Rightarrow> string result) \<Rightarrow> (string \<Rightarrow> string \<Rightarrow> pyval \<Rightarrow> (string, pyval) pydict result) \<Rightarrow>
   (path \<rightharpoonup> string) \<Rightarrow> KeyProviderRecord \<Rightarrow> KeyBrokerTokenRequest \<Rightarrow> string result" where
  "mint_github_app_installation_token expanduser jwt_sign http_post files provider request =
     res_bind (github_app_config expanduser files provider) (\<lambda>config.
     res_bind (jwt_sign (gc_app_id config) (gc_private_key_path config)) (\<lambda>jwt_token.
     res_bind (github_permissions_for_scopes (kr_requested_scopes request)) (\<lambda>permissions.
       let payload = (''permissions'', PDict (map (\<lambda>(k, v). (k, PStr v)) permissions)) #
             (if gc_repository config \<noteq> [] \<and> kr_subject request = ''project:Overseer''
              then [(''repositories'', str_list [gc_repository config])] else [])
       in res_bind (http_post (''https://api.github.com/app/installations/'' @ gc_installation_id config @
                       ''/access_tokens'') jwt_token (PDict payload)) (\<lambda>parsed.
            case dict_get parsed ''token'' of
              Some (PStr token) \<Rightarrow>
                if token = [] then Inl (ValueError ''github app token exchange returned no token'') else Inr token
            | _ \<Rightarrow> Inl (ValueError ''github app token exchange returned no token'')))))"

definition mint_broker_token ::
  "(KeyProviderRecord \<Rightarrow> KeyBrokerTokenRequest \<Rightarrow> string result) \<Rightarrow> string \<Rightarrow>
   KeyProviderRecord \<Rightarrow> KeyBrokerTokenRequest \<Rightarrow> string result" where
  "mint_broker_token github urlsafe provider request =
     (if kp_provider_kind provider = KeyKind_GITHUB_APP then github provider request
      else if kp_provider_kind provider = KeyKind_BREAK_GLASS then Inr (''obb_'' @ urlsafe)
      else Inr (''obs_'' @ urlsafe))"

definition broker_root :: "path \<Rightarrow> path" where
  "broker_root project_root = project_root @ [''local-secrets'', ''key-broker'']"

definition write_token_file ::
  "path \<Rightarrow> string \<Rightarrow> string \<Rightarrow> (path \<rightharpoonup> string) \<Rightarrow> (path \<times> (path \<rightharpoonup> string)) result" where
  "write_token_file project_root token_id token files =
     res_bind (safe_id token_id ''token_id'') (\<lambda>tid.
       let p = broker_root project_root @ [''tokens'', tid @ ''.token'']
       in Inr (p, files(p \<mapsto> token)))"

section \<open>Commands\<close>

text \<open>The last lines of every command: the audit event is built, saved and named in the result.\<close>

definition finish_with_event ::
  "string \<Rightarrow> string \<Rightarrow> string \<Rightarrow> int \<Rightarrow> int \<Rightarrow> (string \<Rightarrow> pyval result) \<Rightarrow> broker_command" where
  "finish_with_event event_type subject_id summary t1 t2 k st =
     (case broker_audit_event event_type subject_id summary t1 t2 of
        Inl e \<Rightarrow> (st, Inl e)
      | Inr event \<Rightarrow> (save_audit_event event st, k (ev_id event)))"

definition record_key_provider_status ::
  "(nat \<Rightarrow> int) \<Rightarrow> string \<Rightarrow> string \<Rightarrow> string \<Rightarrow> string \<Rightarrow> string list \<Rightarrow> string list \<Rightarrow> bool \<Rightarrow>
   (string, pyval) pydict \<Rightarrow> broker_command" where
  "record_key_provider_status now provider_id display_name provider_kind secret_ref allowed_subjects
     allowed_scopes enabled metadata st =
     (let created_at = (case load_key_provider st provider_id of
            Inr existing \<Rightarrow> kp_created_at existing | Inl _ \<Rightarrow> isoformat_utc (now 0))
      in case res_bind (safe_id provider_id ''provider_id'') (\<lambda>pid.
              res_bind (key_provider_kind_of provider_kind) (\<lambda>kind.
              res_bind (normalized_values allowed_subjects True) (\<lambda>subjects.
              res_bind (normalized_values allowed_scopes True) (\<lambda>scopes.
                Inr \<lparr>kp_id = pid, kp_display_name = display_name, kp_provider_kind = kind,
                  kp_owner_domain = Owner_ODO, kp_enabled = enabled, kp_secret_ref = secret_ref,
                  kp_allowed_subjects = subjects, kp_allowed_scopes = scopes,
                  kp_metadata = redact_mapping metadata, kp_created_at = created_at,
                  kp_updated_at = isoformat_utc (now 0)\<rparr>)))) of
           Inl e \<Rightarrow> (st, Inl e)
         | Inr provider \<Rightarrow>
             finish_with_event ''key_provider_recorded'' (kp_id provider)
               (''Key provider '' @ kp_id provider @ '' recorded'') (now 1) (now 2)
               (\<lambda>eid. Inr (PDict [(''provider'', provider_status provider), (''audit_event'', PStr eid),
                 (''mutation_performed'', PBool True), (''host_mutation_performed'', PBool False)]))
               (save_key_provider provider st))"

definition token_request ::
  "(nat \<Rightarrow> int) \<Rightarrow> string \<Rightarrow> KeyProviderRecord \<Rightarrow> string \<Rightarrow> string \<Rightarrow> string list \<Rightarrow> string \<Rightarrow> string \<Rightarrow> int \<Rightarrow>
   KeyBrokerTokenRequest result" where
  "token_request now hex provider provider_id subject requested_scopes requested_by justification ttl_minutes =
     (if \<not> kp_enabled provider then Inl (ValueError ''key provider is disabled'')
      else res_bind (safe_subject subject) (\<lambda>subj.
           res_bind (normalized_values requested_scopes False) (\<lambda>scopes.
           res_bind (assert_allowed subj (kp_allowed_subjects provider) ''subject'') (\<lambda>_.
           res_bind (assert_scopes scopes (kp_allowed_scopes provider)) (\<lambda>_.
           res_bind (safe_id provider_id ''provider_id'') (\<lambda>pid.
             let risk = request_risk provider scopes
             in Inr \<lparr>kr_id = ''kbr.'' @ pid @ ''.'' @ stamp_utc (now 1) @ ''.'' @ hex,
                  kr_provider_id = kp_id provider, kr_subject = subj, kr_requested_scopes = scopes,
                  kr_requested_by = requested_by, kr_justification = justification,
                  kr_ttl_minutes = max 1 (min ttl_minutes MAX_TOKEN_TTL_MINUTES),
                  kr_status = (if risk \<noteq> Risk_LOW then KeyReq_PENDING_APPROVAL else KeyReq_APPROVED),
                  kr_risk_level = risk, kr_approval_id = None, kr_approved_by = None, kr_approved_at = None,
                  kr_denial_reason = None, kr_created_at = isoformat_utc (now 0),
                  kr_updated_at = isoformat_utc (now 0)\<rparr>))))))"

definition request_key_broker_token_status ::
  "(nat \<Rightarrow> int) \<Rightarrow> string \<Rightarrow> string \<Rightarrow> string \<Rightarrow> string list \<Rightarrow> string \<Rightarrow> string \<Rightarrow> int \<Rightarrow> broker_command" where
  "request_key_broker_token_status now hex provider_id subject requested_scopes requested_by justification
     ttl_minutes st =
     (case res_bind (load_key_provider st provider_id) (\<lambda>provider.
             token_request now hex provider provider_id subject requested_scopes requested_by justification
               ttl_minutes) of
        Inl e \<Rightarrow> (st, Inl e)
      | Inr request \<Rightarrow>
          finish_with_event ''key_token_requested'' (kr_id request)
            (''Key token request '' @ kr_id request @ '' created'') (now 2) (now 3)
            (\<lambda>eid. Inr (PDict [(''request'', request_status request), (''audit_event'', PStr eid),
              (''next_step'', PStr (if kr_status request = KeyReq_PENDING_APPROVAL
                 then ''approve request before issuance'' else ''issue scoped token'')),
              (''mutation_performed'', PBool True), (''host_mutation_performed'', PBool False)]))
            (save_key_broker_token_request request st))"

definition approve_key_broker_token_request_status ::
  "(nat \<Rightarrow> int) \<Rightarrow> string \<Rightarrow> string \<Rightarrow> string \<Rightarrow> string option \<Rightarrow> broker_command" where
  "approve_key_broker_token_request_status now request_id approved_by approval_id approved_at st =
     (case load_key_broker_token_request st request_id of
        Inl e \<Rightarrow> (st, Inl e)
      | Inr request \<Rightarrow>
          if kr_status request \<notin> {KeyReq_PENDING_APPROVAL, KeyReq_APPROVED}
          then (st, Inl (ValueError ''request is not approvable''))
          else
            (let approved = request\<lparr>kr_status := KeyReq_APPROVED, kr_approval_id := Some approval_id,
                   kr_approved_by := Some approved_by,
                   kr_approved_at := Some (str_default approved_at (isoformat_utc (now 0))),
                   kr_updated_at := isoformat_utc (now 1)\<rparr>
             in finish_with_event ''key_token_approved'' (kr_id approved)
                  (''Key token request '' @ kr_id approved @ '' approved'') (now 2) (now 3)
                  (\<lambda>eid. Inr (PDict [(''request'', request_status approved), (''audit_event'', PStr eid),
                    (''mutation_performed'', PBool True)]))
                  (save_key_broker_token_request approved st)))"

definition token_grant ::
  "int \<Rightarrow> string \<Rightarrow> string \<Rightarrow> path \<Rightarrow> string \<Rightarrow> KeyProviderRecord \<Rightarrow> KeyBrokerTokenRequest \<Rightarrow> KeyBrokerTokenGrant" where
  "token_grant t grant_id token_hash token_path issued_by provider request =
     \<lparr>kg_id = grant_id, kg_request_id = kr_id request, kg_provider_id = kp_id provider,
      kg_subject = kr_subject request, kg_scopes = kr_requested_scopes request, kg_token_hash = token_hash,
      kg_token_path = path_str token_path, kg_status = KeyGrant_ACTIVE, kg_issued_by = issued_by,
      kg_issued_at = isoformat_utc t,
      kg_expires_at = isoformat_utc (t + kr_ttl_minutes request * 60 * MICROS),
      kg_revoked_by = None, kg_revoked_at = None, kg_revoke_reason = None\<rparr>"

text \<open>\<open>issue_key_broker_token_status\<close> up to its first write to the store.\<close>

definition prepare_grant ::
  "int \<Rightarrow> (string \<Rightarrow> string) \<Rightarrow>
   ((path \<rightharpoonup> string) \<Rightarrow> KeyProviderRecord \<Rightarrow> KeyBrokerTokenRequest \<Rightarrow> string result) \<Rightarrow> string \<Rightarrow> string \<Rightarrow>
   path \<Rightarrow> string \<Rightarrow> string \<Rightarrow> BrokerState \<Rightarrow>
   (KeyBrokerTokenRequest \<times> KeyBrokerTokenGrant \<times> (path \<rightharpoonup> string)) result" where
  "prepare_grant t sha256 github urlsafe hex project_root request_id issued_by st =
     res_bind (load_key_broker_token_request st request_id) (\<lambda>request.
       if kr_status request \<noteq> KeyReq_APPROVED
       then Inl (ValueError ''request must be approved before issuance'')
       else res_bind (load_key_provider st (kr_provider_id request)) (\<lambda>provider.
         if \<not> kp_enabled provider then Inl (ValueError ''key provider is disabled'')
         else res_bind (mint_broker_token (github (kb_files st)) urlsafe provider request) (\<lambda>raw_token.
           res_bind (safe_id (kp_id provider) ''provider_id'') (\<lambda>pid.
             let grant_id = ''kbg.'' @ pid @ ''.'' @ stamp_utc t @ ''.'' @ hex
             in res_bind (write_token_file project_root grant_id raw_token (kb_files st)) (\<lambda>(p, files).
                  Inr (request, token_grant t grant_id (''sha256:'' @ sha256 raw_token) p issued_by
                    provider request, files))))))"

definition issue_key_broker_token_status ::
  "(nat \<Rightarrow> int) \<Rightarrow> (string \<Rightarrow> string) \<Rightarrow>
   ((path \<rightharpoonup> string) \<Rightarrow> KeyProviderRecord \<Rightarrow> KeyBrokerTokenRequest \<Rightarrow> string result) \<Rightarrow> string \<Rightarrow> string \<Rightarrow>
   path \<Rightarrow> string \<Rightarrow> string \<Rightarrow> broker_command" where
  "issue_key_broker_token_status now sha256 github urlsafe hex project_root request_id issued_by st =
     (case prepare_grant (now 0) sha256 github urlsafe hex project_root request_id issued_by st of
        Inl e \<Rightarrow> (st, Inl e)
      | Inr (request, grant, files) \<Rightarrow>
          (let issued_request = request\<lparr>kr_status := KeyReq_ISSUED, kr_updated_at := isoformat_utc (now 1)\<rparr>
           in finish_with_event ''key_token_issued'' (kg_id grant)
                (''Scoped key token '' @ kg_id grant @ '' issued'') (now 2) (now 3)
                (\<lambda>eid. res_bind (grant_status (now 4) grant) (\<lambda>gs. Inr (PDict
                  [(''grant'', gs), (''request'', request_status issued_request),
                   (''token_source'', PStr (''key-broker-token:'' @ kg_id grant)), (''audit_event'', PStr eid),
                   (''raw_token_returned'', PBool False), (''mutation_performed'', PBool True),
                   (''host_mutation_performed'', PBool False)])))
                (save_key_broker_token_request issued_request
                  (save_key_broker_token_grant grant (st\<lparr>kb_files := files\<rparr>)))))"

definition revoke_key_broker_token_status ::
  "(nat \<Rightarrow> int) \<Rightarrow> string \<Rightarrow> string \<Rightarrow> string \<Rightarrow> broker_command" where
  "revoke_key_broker_token_status now grant_id revoked_by reason st =
     (case load_key_broker_token_grant st grant_id of
        Inl e \<Rightarrow> (st, Inl e)
      | Inr grant \<Rightarrow>
          (let revoked = grant\<lparr>kg_status := KeyGrant_REVOKED, kg_revoked_by := Some revoked_by,
                 kg_revoked_at := Some (isoformat_utc (now 0)), kg_revoke_reason := Some reason\<rparr>;
               st1 = save_key_broker_token_grant revoked st;
               p = path_of (kg_token_path revoked);
               st2 = (if kb_files st1 p \<noteq> None \<and> endswith (path_name p) ''.token'' \<and>
                         path_name (path_parent p) = ''tokens'' \<and>
                         path_name (path_parent (path_parent p)) = ''key-broker''
                      then st1\<lparr>kb_files := (kb_files st1)(p \<mapsto> [])\<rparr> else st1)
           in finish_with_event ''key_token_revoked'' (kg_id revoked)
                (''Scoped key token '' @ kg_id revoked @ '' revoked'') (now 1) (now 2)
                (\<lambda>eid. res_bind (grant_status (now 3) revoked) (\<lambda>gs. Inr (PDict
                  [(''grant'', gs), (''audit_event'', PStr eid), (''mutation_performed'', PBool True)])))
                st2))"

fun refresh_all :: "int \<Rightarrow> KeyBrokerTokenGrant list \<Rightarrow> KeyBrokerTokenGrant list result" where
  "refresh_all clock [] = Inr []"
| "refresh_all clock (g # gs) =
     res_bind (refresh_grant_status clock g) (\<lambda>g'. res_bind (refresh_all clock gs) (\<lambda>gs'. Inr (g' # gs')))"

fun grant_statuses :: "int \<Rightarrow> KeyBrokerTokenGrant list \<Rightarrow> pyval list result" where
  "grant_statuses clock [] = Inr []"
| "grant_statuses clock (g # gs) =
     res_bind (grant_status clock g) (\<lambda>v. res_bind (grant_statuses clock gs) (\<lambda>vs. Inr (v # vs)))"

definition key_broker_status :: "int \<Rightarrow> int \<Rightarrow> path \<Rightarrow> BrokerState \<Rightarrow> pyval result" where
  "key_broker_status t1 t2 project_root st =
     (let providers = map snd (kb_providers st); requests = map snd (kb_requests st)
      in res_bind (refresh_all t1 (map snd (kb_grants st))) (\<lambda>grants.
         res_bind (grant_statuses t2 grants) (\<lambda>grant_items.
           Inr (PDict
             [(''project_root'', PStr (path_str project_root)),
              (''broker_root'', PStr (path_str (broker_root project_root))),
              (''providers'', PList (map provider_status providers)),
              (''requests'', PList (map request_status requests)), (''grants'', PList grant_items),
              (''summary'', PDict
                [(''providers'', PInt (int (length providers))),
                 (''enabled_providers'', PInt (int (length (filter kp_enabled providers)))),
                 (''pending_approval'', PInt (int (length (filter (\<lambda>r. kr_status r = KeyReq_PENDING_APPROVAL) requests)))),
                 (''active_grants'', PInt (int (length (filter (\<lambda>g. kg_status g = KeyGrant_ACTIVE) grants))))]),
              (''secret_policy'', PStr ''raw provider secrets and issued tokens are not stored in SQLite or returned by status APIs''),
              (''host_mutation_performed'', PBool False)]))))"

section \<open>Runs of the broker\<close>

text \<open>
  The steps are the five commands with any arguments. Two assumptions are about the outside: a random
  text is not drawn twice (\<open>unused\<close>), and the clock reads instants a Python datetime can hold.
\<close>

definition unused :: "string \<Rightarrow> 'v tbl \<Rightarrow> bool" where
  "unused hex t \<longleftrightarrow> list_all (\<lambda>(k, v). \<not> endswith k (''.'' @ hex)) t"

inductive broker_step :: "BrokerState \<Rightarrow> BrokerState \<Rightarrow> bool" where
  step_record: "broker_step st (fst (record_key_provider_status now pid name kind ref subjects scopes en meta st))"
| step_request: "unused hex (kb_requests st) \<Longrightarrow>
    broker_step st (fst (request_key_broker_token_status now hex pid subject scopes rby just ttl st))"
| step_approve: "broker_step st (fst (approve_key_broker_token_request_status now rid aby aid aat st))"
| step_issue: "unused hex (kb_grants st) \<Longrightarrow>
    broker_step st (fst (issue_key_broker_token_status now sha256 github urlsafe hex proot rid iby st))"
| step_revoke: "broker_step st (fst (revoke_key_broker_token_status now gid rby reason st))"

definition request_ok :: "string \<Rightarrow> KeyBrokerTokenRequest \<Rightarrow> bool" where
  "request_ok k r \<longleftrightarrow> kr_id r = k \<and> kr_requested_scopes r \<noteq> [] \<and> ''*'' \<notin> set (kr_requested_scopes r) \<and> 1 \<le> kr_ttl_minutes r \<and> kr_ttl_minutes r \<le> MAX_TOKEN_TTL_MINUTES \<and>
     (kr_status r \<in> {KeyReq_APPROVED, KeyReq_ISSUED} \<and> kr_risk_level r \<noteq> Risk_LOW \<longrightarrow>
        kr_approved_by r \<noteq> None \<and> kr_approval_id r \<noteq> None)"

definition grant_ok :: "KeyBrokerTokenRequest tbl \<Rightarrow> string \<Rightarrow> KeyBrokerTokenGrant \<Rightarrow> bool" where
  "grant_ok requests k g \<longleftrightarrow> kg_id g = k \<and>
     (\<exists>r. tbl_get requests (kg_request_id g) = Some r \<and> kr_status r = KeyReq_ISSUED \<and>
        kg_subject g = kr_subject r \<and> kg_scopes g = kr_requested_scopes r)"

definition broker_ok :: "BrokerState \<Rightarrow> bool" where
  "broker_ok st \<longleftrightarrow> tbl_ok (kb_requests st) \<and> tbl_ok (kb_grants st) \<and>
     (\<forall>k r. tbl_get (kb_requests st) k = Some r \<longrightarrow> request_ok k r) \<and>
     (\<forall>k g. tbl_get (kb_grants st) k = Some g \<longrightarrow> grant_ok (kb_requests st) k g) \<and>
     (\<forall>k k' g g'. tbl_get (kb_grants st) k = Some g \<longrightarrow> tbl_get (kb_grants st) k' = Some g' \<longrightarrow>
        kg_request_id g = kg_request_id g' \<longrightarrow> k = k')"

lemma finish_with_event_sel [simp]:
  "kb_requests (fst (finish_with_event ty sid sm t1 t2 k st)) = kb_requests st"
  "kb_grants (fst (finish_with_event ty sid sm t1 t2 k st)) = kb_grants st"
  "kb_files (fst (finish_with_event ty sid sm t1 t2 k st)) = kb_files st"
  "kb_providers (fst (finish_with_event ty sid sm t1 t2 k st)) = kb_providers st"
  by (auto simp: finish_with_event_def save_audit_event_def split: sum.splits)

lemmas broker_saves = save_key_provider_def save_key_broker_token_request_def save_key_broker_token_grant_def

lemma record_effect:
  "kb_requests (fst (record_key_provider_status now pid name kind ref subjects scopes en meta st)) = kb_requests st"
  "kb_grants (fst (record_key_provider_status now pid name kind ref subjects scopes en meta st)) = kb_grants st"
  by (auto simp: record_key_provider_status_def broker_saves Let_def split: sum.splits)

lemma collect_values_wildcard: "collect_values False vs = Inr xs \<Longrightarrow> ''*'' \<notin> set xs"
  by (induction vs arbitrary: xs) (auto simp: Let_def res_bind_Inr_iff split: if_splits)

lemma normalized_values_Inr:
  assumes "normalized_values vs False = Inr xs"
  shows "xs \<noteq> []" "''*'' \<notin> set xs"
  using assms collect_values_wildcard unfolding normalized_values_def
  by (auto simp: res_bind_Inr_iff split: if_splits) (metis set_dict_fromkeys set_empty)

lemma token_request_Inr:
  assumes "token_request now hex provider pid subject scopes rby just ttl = Inr r"
  shows "endswith (kr_id r) (''.'' @ hex) \<and> request_ok (kr_id r) r \<and> kr_status r \<noteq> KeyReq_ISSUED"
  using assms
  by (auto simp: token_request_def res_bind_Inr_iff Let_def request_ok_def MAX_TOKEN_TTL_MINUTES_def
    endswith_def startswith_def dest: normalized_values_Inr split: if_splits)

lemma unused_fresh: "unused hex t \<Longrightarrow> endswith k (''.'' @ hex) \<Longrightarrow> tbl_get t k = None"
  by (auto simp: unused_def list_all_iff tbl_get_def map_of_eq_None_iff)

lemma request_effect:
  assumes "unused hex (kb_requests st)"
    and "st' = fst (request_key_broker_token_status now hex pid subject scopes rby just ttl st)"
  shows "kb_grants st' = kb_grants st \<and> (kb_requests st' = kb_requests st \<or>
    (\<exists>r. kb_requests st' = tbl_upsert (kr_id r) r (kb_requests st) \<and> tbl_get (kb_requests st) (kr_id r) = None \<and>
       request_ok (kr_id r) r))"
proof (cases "res_bind (load_key_provider st pid) (\<lambda>p. token_request now hex p pid subject scopes rby just ttl)")
  case (Inl e)
  then show ?thesis using assms(2) by (simp add: request_key_broker_token_status_def)
next
  case (Inr r)
  then have "endswith (kr_id r) (''.'' @ hex)" "request_ok (kr_id r) r"
    using token_request_Inr by (auto simp: res_bind_Inr_iff)
  with Inr assms unused_fresh show ?thesis
    by (auto simp: request_key_broker_token_status_def broker_saves)
qed

lemma approve_effect:
  assumes "st' = fst (approve_key_broker_token_request_status now rid aby aid aat st)"
  shows "kb_grants st' = kb_grants st \<and> (kb_requests st' = kb_requests st \<or>
    (\<exists>r r'. tbl_get (kb_requests st) rid = Some r \<and> kr_status r \<noteq> KeyReq_ISSUED \<and>
       kb_requests st' = tbl_upsert (kr_id r) r' (kb_requests st) \<and>
       (request_ok (kr_id r) r \<longrightarrow> request_ok (kr_id r) r')))"
  using assms
  by (auto simp: approve_key_broker_token_request_status_def load_key_broker_token_request_def get_payload_def
    broker_saves request_ok_def Let_def split: option.splits if_splits)

lemma prepare_grant_Inr:
  assumes "prepare_grant t sha256 github urlsafe hex proot rid iby st = Inr (r, g, files)"
  obtains provider tok tid p where "tbl_get (kb_requests st) rid = Some r" "kr_status r = KeyReq_APPROVED"
    "load_key_provider st (kr_provider_id r) = Inr provider" "kp_enabled provider"
    "mint_broker_token (github (kb_files st)) urlsafe provider r = Inr tok"
    "g = token_grant t (kg_id g) (''sha256:'' @ sha256 tok) p iby provider r"
    "endswith (kg_id g) (''.'' @ hex)" "safe_id (kg_id g) ''token_id'' = Inr tid"
    "p = broker_root proot @ [''tokens'', tid @ ''.token'']" "files = (kb_files st)(p \<mapsto> tok)"
proof -
  from assms obtain provider tok pid tid where
    "tbl_get (kb_requests st) rid = Some r" "kr_status r = KeyReq_APPROVED"
    "load_key_provider st (kr_provider_id r) = Inr provider" "kp_enabled provider"
    "mint_broker_token (github (kb_files st)) urlsafe provider r = Inr tok"
    and id: "safe_id (''kbg.'' @ pid @ ''.'' @ stamp_utc t @ ''.'' @ hex) ''token_id'' = Inr tid"
    "g = token_grant t (''kbg.'' @ pid @ ''.'' @ stamp_utc t @ ''.'' @ hex) (''sha256:'' @ sha256 tok)
       (broker_root proot @ [''tokens'', tid @ ''.token'']) iby provider r"
    and "files = (kb_files st)(broker_root proot @ [''tokens'', tid @ ''.token''] \<mapsto> tok)"
    unfolding prepare_grant_def
    by (auto simp: res_bind_Inr_iff load_key_broker_token_request_def get_payload_def Let_def
      write_token_file_def split: option.splits if_splits)
  moreover from id have "kg_id g = ''kbg.'' @ pid @ ''.'' @ stamp_utc t @ ''.'' @ hex" by (simp add: token_grant_def)
  ultimately show ?thesis using that by (simp add: endswith_def startswith_def)
qed

lemma issue_effect:
  assumes "unused hex (kb_grants st)"
    and "st' = fst (issue_key_broker_token_status now sha256 github urlsafe hex proot rid iby st)"
  shows "st' = st \<or> (\<exists>r g. tbl_get (kb_requests st) rid = Some r \<and> kr_status r = KeyReq_APPROVED \<and>
    kg_request_id g = kr_id r \<and> kg_subject g = kr_subject r \<and> kg_scopes g = kr_requested_scopes r \<and>
    tbl_get (kb_grants st) (kg_id g) = None \<and>
    kb_grants st' = tbl_upsert (kg_id g) g (kb_grants st) \<and>
    kb_requests st' = tbl_upsert (kr_id r)
      (r\<lparr>kr_status := KeyReq_ISSUED, kr_updated_at := isoformat_utc (now 1)\<rparr>) (kb_requests st))"
proof (cases "prepare_grant (now 0) sha256 github urlsafe hex proot rid iby st")
  case (Inl e)
  then show ?thesis using assms(2) by (simp add: issue_key_broker_token_status_def)
next
  case (Inr x)
  obtain r g files where x: "x = (r, g, files)" by (cases x)
  obtain provider tok tid p where g: "tbl_get (kb_requests st) rid = Some r" "kr_status r = KeyReq_APPROVED"
    "g = token_grant (now 0) (kg_id g) (''sha256:'' @ sha256 tok) p iby provider r" "endswith (kg_id g) (''.'' @ hex)"
    using Inr x prepare_grant_Inr by metis
  then have "kg_request_id g = kr_id r" "kg_subject g = kr_subject r" "kg_scopes g = kr_requested_scopes r"
    by (metis token_grant_def KeyBrokerTokenGrant.select_convs(2,4,5))+
  moreover have "kb_grants st' = tbl_upsert (kg_id g) g (kb_grants st)" "kb_requests st' = tbl_upsert (kr_id r)
      (r\<lparr>kr_status := KeyReq_ISSUED, kr_updated_at := isoformat_utc (now 1)\<rparr>) (kb_requests st)"
    using Inr x assms(2) by (simp_all add: issue_key_broker_token_status_def broker_saves Let_def)
  ultimately show ?thesis using g unused_fresh [OF assms(1)] by blast
qed

lemma revoke_effect:
  assumes "st' = fst (revoke_key_broker_token_status now gid rby reason st)"
  shows "kb_requests st' = kb_requests st \<and> (kb_grants st' = kb_grants st \<or>
    (\<exists>g g'. tbl_get (kb_grants st) gid = Some g \<and> kb_grants st' = tbl_upsert (kg_id g) g' (kb_grants st) \<and>
       kg_id g' = kg_id g \<and> kg_request_id g' = kg_request_id g \<and> kg_subject g' = kg_subject g \<and> kg_scopes g' = kg_scopes g))"
proof (cases "tbl_get (kb_grants st) gid")
  case None
  then show ?thesis using assms by (simp add: revoke_key_broker_token_status_def load_key_broker_token_grant_def get_payload_def)
next
  case (Some g)
  define g' where "g' = g\<lparr>kg_status := KeyGrant_REVOKED, kg_revoked_by := Some rby,
    kg_revoked_at := Some (isoformat_utc (now 0)), kg_revoke_reason := Some reason\<rparr>"
  have "kb_grants st' = tbl_upsert (kg_id g) g' (kb_grants st)" "kb_requests st' = kb_requests st"
    using Some assms unfolding g'_def
    by (simp_all add: revoke_key_broker_token_status_def load_key_broker_token_grant_def get_payload_def Let_def
      broker_saves)
  with Some show ?thesis by (auto simp: g'_def)
qed

section \<open>The broker invariant\<close>

lemma broker_ok_same:
  "kb_requests st' = kb_requests st \<Longrightarrow> kb_grants st' = kb_grants st \<Longrightarrow> broker_ok st \<Longrightarrow> broker_ok st'"
  by (simp add: broker_ok_def)

text \<open>Storing a request that no grant refers to keeps the invariant.\<close>

lemma broker_ok_request:
  assumes "broker_ok st" "kb_grants st' = kb_grants st"
    "kb_requests st' = tbl_upsert k r (kb_requests st)" "request_ok k r"
    and unissued: "\<And>r0. tbl_get (kb_requests st) k = Some r0 \<Longrightarrow> kr_status r0 \<noteq> KeyReq_ISSUED"
  shows "broker_ok st'"
proof -
  have ok: "tbl_ok (kb_requests st)" using assms(1) by (simp add: broker_ok_def)
  have "grant_ok (kb_requests st') k' g" if "tbl_get (kb_grants st) k' = Some g" for k' g
  proof -
    have "grant_ok (kb_requests st) k' g" using assms(1) that by (simp add: broker_ok_def)
    with unissued show ?thesis unfolding assms(3) grant_ok_def tb.get_put [OF ok] by auto
  qed
  with assms ok show ?thesis by (auto simp: broker_ok_def tb.get_put)
qed

lemma broker_ok_issue:
  assumes "broker_ok st" "tbl_get (kb_requests st) rid = Some r" "kr_status r = KeyReq_APPROVED"
    "kg_request_id g = kr_id r" "kg_subject g = kr_subject r" "kg_scopes g = kr_requested_scopes r"
    "kb_grants st' = tbl_upsert (kg_id g) g (kb_grants st)"
    "kb_requests st' = tbl_upsert (kr_id r) (r\<lparr>kr_status := KeyReq_ISSUED, kr_updated_at := u\<rparr>) (kb_requests st)"
  shows "broker_ok st'"
proof -
  have ok: "tbl_ok (kb_requests st)" "tbl_ok (kb_grants st)" and r: "request_ok rid r"
    using assms(1,2) by (auto simp: broker_ok_def)
  then have rid: "kr_id r = rid" by (simp add: request_ok_def)
  have old: "grant_ok (kb_requests st') k g' \<and> kg_request_id g' \<noteq> rid" if "tbl_get (kb_grants st) k = Some g'" for k g'
  proof -
    have "grant_ok (kb_requests st) k g'" using assms(1) that by (simp add: broker_ok_def)
    then show ?thesis using assms(2,3) unfolding assms(8) grant_ok_def tb.get_put [OF ok(1)] by (auto simp: rid)
  qed
  have new: "grant_ok (kb_requests st') (kg_id g) g"
    using assms(4-6) unfolding assms(8) grant_ok_def tb.get_put [OF ok(1)] by simp
  have "request_ok rid (r\<lparr>kr_status := KeyReq_ISSUED, kr_updated_at := u\<rparr>)"
    using r assms(3) by (simp add: request_ok_def)
  then have "request_ok k r'" if "tbl_get (kb_requests st') k = Some r'" for k r'
    using that assms(1,8) unfolding broker_ok_def by (auto simp: tb.get_put ok rid split: if_splits)
  moreover have "k = k'" if "tbl_get (kb_grants st') k = Some g1" "tbl_get (kb_grants st') k' = Some g2"
    "kg_request_id g1 = kg_request_id g2" for k k' g1 g2
    using that old assms(1,4) unfolding assms(7) tb.get_put [OF ok(2)] broker_ok_def
    by (auto simp: rid split: if_splits)
  moreover have "grant_ok (kb_requests st') k g'" if "tbl_get (kb_grants st') k = Some g'" for k g'
    using that old new unfolding assms(7) tb.get_put [OF ok(2)] by (auto split: if_splits)
  ultimately show ?thesis
    using ok unfolding broker_ok_def by (auto simp: assms(7,8))
qed

lemma broker_ok_revoke:
  assumes "broker_ok st" "kb_requests st' = kb_requests st" "tbl_get (kb_grants st) gid = Some g"
    "kb_grants st' = tbl_upsert (kg_id g) g' (kb_grants st)" "kg_id g' = kg_id g"
    "kg_request_id g' = kg_request_id g" "kg_subject g' = kg_subject g" "kg_scopes g' = kg_scopes g"
  shows "broker_ok st'"
proof -
  have ok: "tbl_ok (kb_grants st)" and g: "kg_id g = gid" "grant_ok (kb_requests st) gid g"
    using assms(1,3) by (auto simp: broker_ok_def grant_ok_def)
  have get: "tbl_get (kb_grants st') k = Some g1 \<Longrightarrow>
      \<exists>g0. tbl_get (kb_grants st) k = Some g0 \<and> kg_request_id g0 = kg_request_id g1 \<and>
        (grant_ok (kb_requests st) k g0 \<longrightarrow> grant_ok (kb_requests st) k g1)" for k g1
    using assms(3-8) g unfolding assms(4) tb.get_put [OF ok] by (auto simp: grant_ok_def split: if_splits)
  have "grant_ok (kb_requests st') k g1" if "tbl_get (kb_grants st') k = Some g1" for k g1
    using get [OF that] assms(1,2) unfolding broker_ok_def by metis
  moreover have "k = k'" if "tbl_get (kb_grants st') k = Some g1" "tbl_get (kb_grants st') k' = Some g2"
    "kg_request_id g1 = kg_request_id g2" for k k' g1 g2
    using get [OF that(1)] get [OF that(2)] that(3) assms(1) unfolding broker_ok_def by metis
  moreover have "tbl_ok (kb_grants st')" using ok assms(4) by simp
  moreover have "tbl_ok (kb_requests st')" "\<forall>k r. tbl_get (kb_requests st') k = Some r \<longrightarrow> request_ok k r"
    using assms(1,2) by (simp_all add: broker_ok_def)
  ultimately show ?thesis unfolding broker_ok_def by blast
qed

lemma broker_ok_step:
  assumes "broker_ok st" "broker_step st st'"
  shows "broker_ok st'"
  using assms(2)
proof cases
  case step_record
  then show ?thesis using broker_ok_same [OF _ _ assms(1)] record_effect by simp
next
  case (step_request hex now pid subject scopes rby just ttl)
  from request_effect [OF step_request(2,1)] assms(1) show ?thesis
    by (elim conjE disjE exE) (auto intro: broker_ok_same broker_ok_request)
next
  case (step_approve now rid aby aid aat)
  from approve_effect [OF step_approve] show ?thesis
  proof (elim conjE disjE exE)
    fix r r'
    assume "kb_grants st' = kb_grants st" "tbl_get (kb_requests st) rid = Some r" "kr_status r \<noteq> KeyReq_ISSUED"
      "kb_requests st' = tbl_upsert (kr_id r) r' (kb_requests st)" "request_ok (kr_id r) r \<longrightarrow> request_ok (kr_id r) r'"
    moreover from this assms(1) have "request_ok rid r" by (simp add: broker_ok_def)
    moreover from this have "kr_id r = rid" by (simp add: request_ok_def)
    ultimately show ?thesis by (intro broker_ok_request [OF assms(1), of st' rid r']) auto
  qed (use assms(1) broker_ok_same in blast)
next
  case (step_issue hex now sha256 github urlsafe proot rid iby)
  from issue_effect [OF step_issue(2,1)] assms(1) show ?thesis
    by (elim conjE disjE exE) (auto intro: broker_ok_issue)
next
  case (step_revoke now gid rby reason)
  from revoke_effect [OF step_revoke] assms(1) show ?thesis
    by (elim conjE disjE exE) (auto intro: broker_ok_same broker_ok_revoke)
qed

lemma broker_ok_empty: "broker_ok empty_broker"
  by (simp add: broker_ok_def empty_broker_def OverseerStore.extend_def)

interpretation broker_inv: step_invariant "\<lambda>st. st = empty_broker" broker_step broker_ok
  using broker_ok_empty broker_ok_step by unfold_locales auto

section \<open>Properties\<close>


text \<open>A run: a GitHub-free provider is recorded, and a token requested, issued and revoked.\<close>

definition sample_now :: "nat \<Rightarrow> int" where
  "sample_now k = FIRST_INSTANT + int k"

definition sample_recorded :: BrokerState where
  "sample_recorded = fst (record_key_provider_status sample_now ''vault'' ''Vault'' ''break_glass'' ''/keys/vault.pem''
     [''*''] [''read''] True [(''note'', PStr ''spare'')] empty_broker)"

definition sample_requested :: BrokerState where
  "sample_requested = fst (request_key_broker_token_status sample_now ''0a0b0c0d'' ''vault'' ''project:Overseer''
     [''read''] ''sisko'' ''restore'' 90 sample_recorded)"

definition sample_request_id :: string where
  "sample_request_id = hd (map fst (kb_requests sample_requested))"

definition sample_approved :: BrokerState where
  "sample_approved = fst (approve_key_broker_token_request_status sample_now sample_request_id ''sisko''
     ''approval.1'' None sample_requested)"

definition sample_issued :: BrokerState where
  "sample_issued = fst (issue_key_broker_token_status sample_now (\<lambda>s. rev s) (\<lambda>_ _ _. Inl (ValueError ''offline''))
     ''u1u2'' ''1a1b1c1d'' [''/'', ''srv''] sample_request_id ''odo'' sample_approved)"

lemma sample_requested_reach: "reach (\<lambda>st. st = empty_broker) broker_step sample_requested"
proof -
  have 1: "reach (\<lambda>st. st = empty_broker) broker_step sample_recorded"
    unfolding sample_recorded_def
    by (rule reach_step [where step = broker_step, OF reach_init broker_step.step_record]) simp
  show ?thesis
    unfolding sample_requested_def
    by (rule reach_step [where step = broker_step, OF 1 broker_step.step_request]) code_simp
qed

lemma sample_approved_reach: "reach (\<lambda>st. st = empty_broker) broker_step sample_approved"
  unfolding sample_approved_def
  by (rule reach_step [where step = broker_step, OF sample_requested_reach broker_step.step_approve])

lemma sample_issued_reach: "reach (\<lambda>st. st = empty_broker) broker_step sample_issued"
  unfolding sample_issued_def
  by (rule reach_step [where step = broker_step, OF sample_approved_reach broker_step.step_issue]) code_simp

lemma sample_issued_grant: "map (\<lambda>(k, g). (kg_scopes g, kg_status g)) (kb_grants sample_issued) = [([''read''], KeyGrant_ACTIVE)]"
  by code_simp


lemma issue_tables:
  "broker_ok st \<Longrightarrow> tbl_ok (kb_grants (fst (issue_key_broker_token_status now sha256 github urlsafe hex proot rid iby st)))"
  by (auto simp: issue_key_broker_token_status_def broker_saves broker_ok_def Let_def split: sum.splits)

text \<open>The grant a successful issue adds.\<close>

lemma issue_new_grant:
  assumes "broker_ok st"
    "tbl_get (kb_grants (fst (issue_key_broker_token_status now sha256 github urlsafe hex proot rid iby st))) gid = Some g"
    "tbl_get (kb_grants st) gid = None"
  obtains r files provider tok tid where
    "prepare_grant (now 0) sha256 github urlsafe hex proot rid iby st = Inr (r, g, files)"
    "request_ok rid r" "gid = kg_id g"
    "g = token_grant (now 0) (kg_id g) (''sha256:'' @ sha256 tok)
       (broker_root proot @ [''tokens'', tid @ ''.token'']) iby provider r"
    "safe_id (kg_id g) ''token_id'' = Inr tid"
    "files = (kb_files st)(broker_root proot @ [''tokens'', tid @ ''.token''] \<mapsto> tok)"
    "kb_files (fst (issue_key_broker_token_status now sha256 github urlsafe hex proot rid iby st)) = files"
proof (cases "prepare_grant (now 0) sha256 github urlsafe hex proot rid iby st")
  case (Inl e)
  then show ?thesis using assms(2,3) by (simp add: issue_key_broker_token_status_def)
next
  case (Inr x)
  obtain r g' files where x: "x = (r, g', files)" by (cases x)
  have st': "kb_grants (fst (issue_key_broker_token_status now sha256 github urlsafe hex proot rid iby st)) =
      tbl_upsert (kg_id g') g' (kb_grants st)"
    "kb_files (fst (issue_key_broker_token_status now sha256 github urlsafe hex proot rid iby st)) = files"
    using Inr x by (simp_all add: issue_key_broker_token_status_def broker_saves Let_def)
  have "gid = kg_id g'" "g = g'"
    using assms st'(1) unfolding broker_ok_def by (auto simp: tb.get_put split: if_splits)
  with Inr x st'(2) assms(1) that show ?thesis
    by (metis broker_ok_def prepare_grant_Inr)
qed

lemma token_grant_sel [simp]:
  "kg_expires_at (token_grant t i h p by pr r) = isoformat_utc (t + kr_ttl_minutes r * 60 * MICROS)"
  "kg_status (token_grant t i h p by pr r) = KeyGrant_ACTIVE"
  "kg_token_path (token_grant t i h p by pr r) = path_str p"
  by (simp_all add: token_grant_def)

text \<open>A grant lives exactly as long as its request allows, and at most an hour: read back from its printed
  expiry, a grant issued at the instant \<open>now 0\<close> is active before the end of the requested minutes and
  expired from then on, for every request the commands can produce.\<close>

theorem grant_expires_on_time:
  assumes "reach (\<lambda>st. st = empty_broker) broker_step st"
    "tbl_get (kb_grants (fst (issue_key_broker_token_status now sha256 github urlsafe hex proot rid iby st))) gid = Some g"
    "tbl_get (kb_grants st) gid = None"
    "FIRST_INSTANT \<le> now 0" "now 0 + MAX_TOKEN_TTL_MINUTES * 60 * MICROS < END_INSTANT"
  shows "\<exists>ttl. 1 \<le> ttl \<and> ttl \<le> MAX_TOKEN_TTL_MINUTES \<and>
    (\<forall>clock. map_sum id kg_status (refresh_grant_status clock g) =
       Inr (if clock < now 0 + ttl * 60 * MICROS then KeyGrant_ACTIVE else KeyGrant_EXPIRED))"
proof -
  obtain r tok tid provider where r: "request_ok rid r" and g: "g = token_grant (now 0) (kg_id g) (''sha256:'' @ sha256 tok)
       (broker_root proot @ [''tokens'', tid @ ''.token'']) iby provider r"
    using issue_new_grant [OF broker_inv.inv_reach [OF assms(1)] assms(2,3)] by metis
  define e where "e = now 0 + kr_ttl_minutes r * 60 * MICROS"
  have ttl: "1 \<le> kr_ttl_minutes r" "kr_ttl_minutes r \<le> MAX_TOKEN_TTL_MINUTES" using r by (auto simp: request_ok_def)
  then have "FIRST_INSTANT \<le> e" "e < END_INSTANT" using assms(4,5) by (auto simp: e_def MICROS_def)
  then have parsed: "fromisoformat (isoformat_utc e) = Inr \<lparr>dt_wall = e, dt_offset = Some 0\<rparr>"
    by (rule fromisoformat_isoformat_utc)
  have "kg_expires_at g = isoformat_utc e" "kg_status g = KeyGrant_ACTIVE"
    by (subst g, simp add: e_def)+
  then have "map_sum id kg_status (refresh_grant_status clock g) =
      Inr (if clock < e then KeyGrant_ACTIVE else KeyGrant_EXPIRED)" for clock
    by (simp add: refresh_grant_status_def parsed)
  with ttl show ?thesis unfolding e_def by blast
qed

lemma id_char_plain: "id_char c \<Longrightarrow> c \<noteq> CHR ''/''"
  by (auto simp: id_char_def Let_def)

lemma safe_id_component:
  assumes "safe_id x f = Inr y"
  shows "component_ok (y @ ''.token'')"
  using assms by (auto simp: safe_id_def component_ok_def list_all_iff Let_def dest: id_char_plain split: if_splits)

text \<open>Revoking a grant withdraws it: after a token was issued into a project directory, revoking the grant
  leaves the token file empty and the stored grant revoked, whatever the clock shows.\<close>

theorem revoked_token_is_erased:
  assumes "reach (\<lambda>st. st = empty_broker) broker_step st" "path_ok proot"
    "st1 = fst (issue_key_broker_token_status now sha256 github urlsafe hex proot rid iby st)"
    "tbl_get (kb_grants st1) gid = Some g" "tbl_get (kb_grants st) gid = None"
    "st2 = fst (revoke_key_broker_token_status now' gid rby reason st1)"
  shows "kb_files st2 (path_of (kg_token_path g)) = Some [] \<and>
    (\<exists>g'. tbl_get (kb_grants st2) gid = Some g' \<and> kg_token_path g' = kg_token_path g \<and>
       (\<forall>clock. map_sum id kg_status (refresh_grant_status clock g') = Inr KeyGrant_REVOKED))"
proof -
  obtain r files tok tid provider where gid: "gid = kg_id g" and tid: "safe_id (kg_id g) ''token_id'' = Inr tid"
    and g: "g = token_grant (now 0) (kg_id g) (''sha256:'' @ sha256 tok)
       (broker_root proot @ [''tokens'', tid @ ''.token'']) iby provider r"
    and files: "kb_files st1 = (kb_files st)(broker_root proot @ [''tokens'', tid @ ''.token''] \<mapsto> tok)"
    using issue_new_grant [OF broker_inv.inv_reach [OF assms(1)] assms(4,5) [unfolded assms(3)]] assms(3) by metis
  define p where "p = broker_root proot @ [''tokens'', tid @ ''.token'']"
  have "path_ok p"
    using assms(2) safe_id_component [OF tid] path_ok_append [of proot "[''local-secrets'', ''key-broker'', ''tokens'', tid @ ''.token'']"]
    by (simp add: p_def broker_root_def component_ok_def)
  then have path: "path_of (kg_token_path g) = p" by (subst g) (simp add: p_def [symmetric] path_of_str)
  have names: "endswith (path_name p) ''.token''" "path_name (path_parent p) = ''tokens''"
    "path_name (path_parent (path_parent p)) = ''key-broker''"
    by (simp_all add: p_def broker_root_def path_name_def path_parent_def is_root_def endswith_def startswith_def
      butlast_append split: list.splits)
  define g' where "g' = g\<lparr>kg_status := KeyGrant_REVOKED, kg_revoked_by := Some rby,
    kg_revoked_at := Some (isoformat_utc (now' 0)), kg_revoke_reason := Some reason\<rparr>"
  have load: "load_key_broker_token_grant st1 gid = Inr g"
    using assms(4) by (simp add: load_key_broker_token_grant_def get_payload_def)
  have "kb_files st1 p \<noteq> None" using files by (simp add: p_def)
  with load path names have "kb_grants st2 = tbl_upsert gid g' (kb_grants st1)" "kb_files st2 p = Some []"
    unfolding assms(6) gid g'_def by (simp_all add: revoke_key_broker_token_status_def Let_def broker_saves)
  moreover have "tbl_ok (kb_grants st1)"
    using issue_tables [OF broker_inv.inv_reach [OF assms(1)]] assms(3) by simp
  ultimately have "tbl_get (kb_grants st2) gid = Some g'" "kb_files st2 p = Some []" by (simp_all add: tb.get_put)
  then show ?thesis unfolding path by (auto simp: g'_def refresh_grant_status_def)
qed

lemma sample_issue_facts:
  "tbl_get (kb_grants sample_approved) gid = None"
  "\<exists>gid g. tbl_get (kb_grants sample_issued) gid = Some g"
  "FIRST_INSTANT \<le> sample_now 0" "sample_now 0 + MAX_TOKEN_TTL_MINUTES * 60 * MICROS < END_INSTANT"
  "path_ok [''/'', ''srv'']"
proof -
  have "kb_grants sample_approved = []" by code_simp
  then show "tbl_get (kb_grants sample_approved) gid = None" by simp
  obtain k g where "kb_grants sample_issued = [(k, g)]"
    using sample_issued_grant by (cases "kb_grants sample_issued") (auto split: prod.splits)
  then have "tbl_get (kb_grants sample_issued) k = Some g" by (simp add: tbl_get_def)
  then show "\<exists>gid g. tbl_get (kb_grants sample_issued) gid = Some g" by blast
qed (simp_all add: sample_now_def FIRST_INSTANT_def END_INSTANT_def DAY_MICROS_def LAST_ORDINAL_def MICROS_def
  MAX_TOKEN_TTL_MINUTES_def path_ok_def path_roots_def component_ok_def)

theorem grant_expires_on_time_witness:
  "\<exists>gid g ttl. tbl_get (kb_grants sample_issued) gid = Some g \<and> 1 \<le> ttl \<and> ttl \<le> MAX_TOKEN_TTL_MINUTES \<and>
    (\<forall>clock. map_sum id kg_status (refresh_grant_status clock g) =
       Inr (if clock < sample_now 0 + ttl * 60 * MICROS then KeyGrant_ACTIVE else KeyGrant_EXPIRED))"
  using grant_expires_on_time [where now = sample_now, OF sample_approved_reach _ sample_issue_facts(1,3,4)]
    sample_issue_facts(2)
  unfolding sample_issued_def by blast

theorem revoked_token_is_erased_witness:
  "\<exists>gid g. tbl_get (kb_grants sample_issued) gid = Some g \<and>
    kb_files (fst (revoke_key_broker_token_status sample_now gid ''odo'' ''done'' sample_issued))
      (path_of (kg_token_path g)) = Some []"
  using revoked_token_is_erased [OF sample_approved_reach sample_issue_facts(5) sample_issued_def _ sample_issue_facts(1) refl]
    sample_issue_facts(2) by blast

text \<open>Audit events can be lost: the event id has a resolution of one second, so the event of an approval
  given in the same second as the request replaces the event of the request.\<close>

theorem approval_event_replaces_request_event:
  "map (\<lambda>(k, e). (ev_subject_id e = sample_request_id, ev_event_type e)) (st_audit_events sample_requested) =
     [(True, Event_REQUESTED), (False, Event_REQUESTED)] \<and>
   map (\<lambda>(k, e). (ev_subject_id e = sample_request_id, ev_event_type e)) (st_audit_events sample_approved) =
     [(True, Event_EXECUTED), (False, Event_REQUESTED)]"
  by code_simp

end
