(* ===== verification/Remote_Testing.thy ===== *)
theory Remote_Testing
  imports Core_Claims Iso_Time Py_Paths
begin

text \<open>
  The remote testing queue of \<^verbatim>\<open>src/overseer/remote_testing.py\<close>: test accounts, scoped test tokens, leases
  and queued jobs. The control state is the JSON file \<^verbatim>\<open>quark-control.json\<close>; it is written with sorted
  keys, so its mappings are tables in key order. A command loads it, fills in the default profile,
  and saves it; the state a command leaves is returned with its result, also when it raises. Fields that
  hold the same constant in every record (owner, security owner, redaction flags) are left out.
  \<open>now k\<close> is the k-th clock reading of a call, \<open>hex\<close> and \<open>urlsafe\<close> are drawn from \<^verbatim>\<open>secrets\<close>, \<open>sha256\<close> is
  the digest, \<open>str_of\<close> is Python's \<open>str\<close> on floats and containers. Paths hold no symbolic links.
\<close>

section \<open>Control state\<close>

definition DEFAULT_PROFILE_ID :: string where "DEFAULT_PROFILE_ID = ''remote-testing.tank-msi''"

definition TEST_TOKEN_PREFIX :: string where "TEST_TOKEN_PREFIX = ''qrt_''"

definition MAX_TEST_TOKEN_TTL_MINUTES :: int where "MAX_TEST_TOKEN_TTL_MINUTES = 120"

definition SUPPORTED_AGENT_KINDS :: "string list" where
  "SUPPORTED_AGENT_KINDS = [''windows'', ''android'', ''ios'', ''macos'', ''linux'', ''browser'', ''gateway'']"

definition SUPPORTED_JOB_TYPES :: "string list" where
  "SUPPORTED_JOB_TYPES =
     [''ping'', ''overseer.http_status'', ''overseer.auth_panel_smoke'', ''overseer.admin_approve_smoke'',
      ''overseer.full_ui_regression'', ''overseer.performance_regression'', ''protected_gateway.request_sequence'',
      ''tank.local_facility_request'', ''roadex.authenticated_session_prompt'', ''roadex.project_creation_flow'']"

definition SCOPED_TOKEN_REQUIRED_JOB_TYPES :: "string list" where
  "SCOPED_TOKEN_REQUIRED_JOB_TYPES = [''roadex.authenticated_session_prompt'']"

definition SENSITIVE_KEY_PARTS :: "string list" where
  "SENSITIVE_KEY_PARTS =
     [''token'', ''cookie'', ''secret'', ''password'', ''api_key'', ''apikey'', ''bearer'', ''authorization'',
      ''local_storage'', ''storage_state'']"

definition READ_METHODS :: "string list" where
  "READ_METHODS = [''GET'', ''HEAD'', ''OPTIONS'']"

record TestProfile =
  tp_profile_id :: string
  tp_display_name :: string
  tp_remote_host :: string
  tp_worker_hint :: string
  tp_queue_root :: string
  tp_base_url :: string
  tp_ui_path :: string
  tp_gateway_path :: string
  tp_token_source :: string
  tp_recorded_by :: string
  tp_recorded_at :: string

record TestAccount =
  ta_account_id :: string
  ta_display_name :: string
  ta_agent_kind :: string
  ta_agent_id :: string
  ta_enabled :: bool
  ta_allowed_projects :: "string list"
  ta_allowed_service_paths :: "string list"
  ta_allowed_gateway_origins :: "string list"
  ta_gateway_principal :: string
  ta_auto_disable :: bool
  ta_recorded_by :: string
  ta_recorded_at :: string
  ta_updated_at :: string
  ta_disabled_by :: "string option"
  ta_disabled_at :: "string option"
  ta_disable_reason :: "string option"

record TestGrant =
  tg_token_id :: string
  tg_token_hash :: string
  tg_account_id :: string
  tg_lease_id :: "string option"
  tg_job_id :: "string option"
  tg_project :: string
  tg_thread_id :: "string option"
  tg_service_paths :: "string list"
  tg_gateway_origins :: "string list"
  tg_allowed_methods :: "string list"
  tg_allowed_routes :: "string list"
  tg_mutates :: bool
  tg_mutation_scope :: "(string, pyval) pydict"
  tg_status :: string
  tg_issued_by :: string
  tg_issued_at :: string
  tg_expires_at :: string
  tg_token_source :: string
  tg_token_path :: string
  tg_revoked_by :: "string option"
  tg_revoked_at :: "string option"
  tg_revoke_reason :: "string option"

record TestLease =
  ls_lease_id :: string
  ls_profile_id :: string
  ls_project :: string
  ls_purpose :: string
  ls_requested_by :: string
  ls_requested_at :: string
  ls_expires_at :: string
  ls_priority :: string
  ls_job_types :: "string list"
  ls_status :: string
  ls_job_ids :: "string list"
  ls_last_job_id :: "string option"
  ls_updated_at :: "string option"

record AuthEvent =
  ae_event_id :: string
  ae_event_type :: string
  ae_account_id :: "string option"
  ae_token_id :: "string option"
  ae_actor :: string
  ae_occurred_at :: string
  ae_evidence :: "(string, pyval) pydict"

record TestJob =
  tj_job_id :: string
  tj_job_type :: string
  tj_created_at :: string
  tj_requested_by :: string
  tj_project :: string
  tj_base_url :: string
  tj_ui_path :: string
  tj_gateway_path :: string
  tj_token_source :: string
  tj_auth_token_id :: "string option"
  tj_lease_id :: string
  tj_mutates :: bool
  tj_params :: "(string, pyval) pydict"

record RemoteControl =
  rc_profiles :: "TestProfile tbl"
  rc_default_profile_id :: "string option"
  rc_leases :: "TestLease tbl"
  rc_test_accounts :: "TestAccount tbl"
  rc_test_tokens :: "TestGrant tbl"
  rc_test_auth_events :: "AuthEvent list"
  rc_pending_jobs :: "TestJob tbl"
  rc_files :: "path \<rightharpoonup> string"

definition empty_control :: RemoteControl where
  "empty_control = \<lparr>rc_profiles = [], rc_default_profile_id = None, rc_leases = [], rc_test_accounts = [],
     rc_test_tokens = [], rc_test_auth_events = [], rc_pending_jobs = [], rc_files = Map.empty\<rparr>"

definition with_default_profile :: "int \<Rightarrow> RemoteControl \<Rightarrow> RemoteControl" where
  "with_default_profile t st =
     (let st1 = (case tbl_get (rc_profiles st) DEFAULT_PROFILE_ID of
            Some _ \<Rightarrow> st
          | None \<Rightarrow> st\<lparr>rc_profiles := tbl_upsert DEFAULT_PROFILE_ID
              \<lparr>tp_profile_id = DEFAULT_PROFILE_ID, tp_display_name = ''Tank on MSI remote testing queue'',
               tp_remote_host = ''god@10.50.0.100'', tp_worker_hint = ''overseer-msi-test-agent'',
               tp_queue_root = ''local-secrets/remote-testing'', tp_base_url = ''http://127.0.0.1:8766'',
               tp_ui_path = ''/Overseer/ui'', tp_gateway_path = ''/Overseer'', tp_token_source = ''state/api-token'',
               tp_recorded_by = ''quark'', tp_recorded_at = isoformat_utc t\<rparr> (rc_profiles st)\<rparr>)
      in st1\<lparr>rc_default_profile_id :=
           (case rc_default_profile_id st1 of None \<Rightarrow> Some DEFAULT_PROFILE_ID | Some d \<Rightarrow> Some d)\<rparr>)"

section \<open>Normalisation and scopes\<close>

definition required_id :: "string \<Rightarrow> string \<Rightarrow> string result" where
  "required_id value field =
     (let v = py_strip value in if v = [] then Inl (ValueError (field @ '' is required'')) else Inr v)"

definition slug_char :: "char \<Rightarrow> bool" where
  "slug_char c = (let n = (of_char c :: int) in
     (65 \<le> n \<and> n \<le> 90) \<or> (97 \<le> n \<and> n \<le> 122) \<or> (48 \<le> n \<and> n \<le> 57) \<or> c \<in> set ''_.-'')"

text \<open>\<^verbatim>\<open>re.sub("[^a-zA-Z0-9_.-]+", "-", s)\<close>: a run of other characters becomes one dash.\<close>

fun dash_runs :: "bool \<Rightarrow> string \<Rightarrow> string" where
  "dash_runs in_run [] = []"
| "dash_runs in_run (c # s) =
     (if slug_char c then c # dash_runs False s else if in_run then dash_runs True s else CHR ''-'' # dash_runs True s)"

definition strip_dashes :: "string \<Rightarrow> string" where
  "strip_dashes s = rev (dropWhile (\<lambda>c. c = CHR ''-'') (rev (dropWhile (\<lambda>c. c = CHR ''-'') s)))"

definition safe_slug :: "string \<Rightarrow> string" where
  "safe_slug value =
     (let cleaned = py_lower (strip_dashes (dash_runs False (py_strip value)))
      in if cleaned = [] then ''remote-test'' else cleaned)"

fun scope_items :: "bool \<Rightarrow> string list \<Rightarrow> string list \<Rightarrow> string list result" where
  "scope_items allow_wildcard seen [] = Inr (rev seen)"
| "scope_items allow_wildcard seen (v # vs) =
     (let item = py_strip v
      in if item = [] then scope_items allow_wildcard seen vs
         else if item = ''*'' \<and> \<not> allow_wildcard then Inl (ValueError ''wildcard scope is not allowed here'')
         else if item \<in> set seen then scope_items allow_wildcard seen vs
         else scope_items allow_wildcard (item # seen) vs)"

definition normalized_scope_list :: "string list \<Rightarrow> bool \<Rightarrow> string list result" where
  "normalized_scope_list values allow_wildcard =
     res_bind (scope_items allow_wildcard [] values) (\<lambda>normalized.
       if normalized = [] then Inl (ValueError ''scope list cannot be empty'') else Inr normalized)"

definition normalized_service_paths :: "string list \<Rightarrow> bool \<Rightarrow> string list result" where
  "normalized_service_paths values allow_wildcard =
     res_bind (normalized_scope_list values allow_wildcard) (\<lambda>normalized.
     res_bind (check_all (\<lambda>p.
         if p = ''*'' then Inr ()
         else if \<not> startswith p ''/'' then Inl (ValueError ''service paths must start with /'')
         else if py_contains ''//'' p then Inl (ValueError ''service paths must not contain empty path segments'')
         else Inr ()) normalized) (\<lambda>_. Inr normalized))"

definition normalized_routes :: "string list \<Rightarrow> string list result" where
  "normalized_routes values =
     res_bind (normalized_scope_list values True) (\<lambda>normalized.
     res_bind (check_all (\<lambda>p.
         if p = ''*'' then Inr ()
         else if \<not> startswith p ''/'' then Inl (ValueError ''routes must start with /'') else Inr ()) normalized)
       (\<lambda>_. Inr normalized))"

text \<open>Iterating over a JSON value and taking \<open>str\<close> of every item.\<close>

fun iter_strings :: "(pyval \<Rightarrow> string) \<Rightarrow> pyval \<Rightarrow> string list result" where
  "iter_strings str_of (PList vs) = Inr (map (py_str str_of) vs)"
| "iter_strings str_of (PStr s) = Inr (map (\<lambda>c. [c]) s)"
| "iter_strings str_of (PDict kvs) = Inr (map fst kvs)"
| "iter_strings str_of PNone = Inl (TypeError ''object is not iterable'')"
| "iter_strings str_of (PBool b) = Inl (TypeError ''object is not iterable'')"
| "iter_strings str_of (PInt i) = Inl (TypeError ''object is not iterable'')"
| "iter_strings str_of (PFloat x) = Inl (TypeError ''object is not iterable'')"

text \<open>\<^verbatim>\<open>scope.get(key, scope.get(alias, []))\<close>\<close>

definition scope_get :: "(string, pyval) pydict \<Rightarrow> string \<Rightarrow> string \<Rightarrow> pyval" where
  "scope_get scope key alias =
     (case dict_get scope key of
        Some v \<Rightarrow> v
      | None \<Rightarrow> (case dict_get scope alias of Some v \<Rightarrow> v | None \<Rightarrow> PList []))"

definition path_matches_service_scope :: "string \<Rightarrow> string list \<Rightarrow> bool" where
  "path_matches_service_scope raw_path service_paths \<longleftrightarrow>
     ''*'' \<in> set service_paths \<or>
     list_ex (\<lambda>service_path. raw_path = service_path \<or> startswith raw_path (service_path @ ''/'')) service_paths"

text \<open>
  A route with parameters. \<^verbatim>\<open>re.sub(":[A-Za-z][A-Za-z0-9_]*", "[^/]+", re.escape(route))\<close> leaves every
  other character literal; \<open>route_tokens\<close> is the resulting pattern and \<open>route_match\<close> its full match.
\<close>

datatype route_token = Lit char | Param

fun route_tokens :: "bool \<Rightarrow> string \<Rightarrow> route_token list" where
  "route_tokens in_name [] = []"
| "route_tokens in_name (c # s) =
     (if in_name \<and> name_char c then route_tokens True s
      else if c = CHR '':'' \<and> (case s of d # _ \<Rightarrow> is_letter d | [] \<Rightarrow> False) then Param # route_tokens True s
      else Lit c # route_tokens False s)"

fun route_match :: "route_token list \<Rightarrow> string \<Rightarrow> bool" where
  "route_match [] s \<longleftrightarrow> s = []"
| "route_match (Lit c # ts) [] \<longleftrightarrow> False"
| "route_match (Lit c # ts) (d # s) \<longleftrightarrow> c = d \<and> route_match ts s"
| "route_match (Param # ts) [] \<longleftrightarrow> False"
| "route_match (Param # ts) (d # s) \<longleftrightarrow> d \<noteq> CHR ''/'' \<and> (route_match ts s \<or> route_match (Param # ts) s)"

definition route_allows :: "string \<Rightarrow> string \<Rightarrow> bool" where
  "route_allows normalized_path route \<longleftrightarrow>
     (endswith route ''/*'' \<and> startswith normalized_path (butlast route)) \<or>
     (CHR '':'' \<in> set route \<and> route_match (route_tokens False route) normalized_path) \<or>
     normalized_path = route"

definition route_allowed :: "string \<Rightarrow> string list \<Rightarrow> bool" where
  "route_allowed normalized_path allowed_routes \<longleftrightarrow>
     ''*'' \<in> set allowed_routes \<or> list_ex (route_allows normalized_path) allowed_routes"

definition mutation_scope_allowed ::
  "(pyval \<Rightarrow> string) \<Rightarrow> TestGrant \<Rightarrow> string \<Rightarrow> string \<Rightarrow> string \<Rightarrow> bool result" where
  "mutation_scope_allowed str_of grant method raw_path normalized_path =
     (let scope = tg_mutation_scope grant
      in res_bind (iter_strings str_of (scope_get scope ''allowed_methods'' ''methods'')) (\<lambda>ms.
         res_bind (normalized_scope_list ms False) (\<lambda>methods.
         res_bind (iter_strings str_of (scope_get scope ''allowed_routes'' ''routes'')) (\<lambda>rs.
         res_bind (normalized_routes rs) (\<lambda>routes.
         let raw_service_paths = (case dict_get scope ''service_paths'' of Some v \<Rightarrow> v | None \<Rightarrow> PList [])
         in res_bind (if py_truthy raw_service_paths
              then res_bind (iter_strings str_of raw_service_paths) (\<lambda>ps. normalized_service_paths ps False)
              else Inr []) (\<lambda>service_paths.
              Inr (py_upper method \<in> set methods \<and>
                   (routes = [] \<or> route_allowed normalized_path routes) \<and>
                   (service_paths = [] \<or> path_matches_service_scope raw_path service_paths))))))))"

section \<open>Authentication events\<close>

text \<open>\<^verbatim>\<open>del events[:-200]\<close> keeps the last 200 entries.\<close>

definition keep_last :: "nat \<Rightarrow> 'a list \<Rightarrow> 'a list" where
  "keep_last n xs = drop (length xs - n) xs"

definition stamp_micros :: "int \<Rightarrow> string" where
  "stamp_micros t = butlast (stamp_utc t) @ pad_digits 6 (t mod MICROS) @ ''Z''"

definition record_auth_event ::
  "int \<Rightarrow> int \<Rightarrow> string option \<Rightarrow> string option \<Rightarrow> string \<Rightarrow> string \<Rightarrow> (string, pyval) pydict \<Rightarrow>
   RemoteControl \<Rightarrow> RemoteControl" where
  "record_auth_event t1 t2 account_id token_id event_type actor evidence st =
     st\<lparr>rc_test_auth_events := keep_last 200 (rc_test_auth_events st @
       [\<lparr>ae_event_id = ''auth-event.'' @ stamp_micros t1 @ ''.'' @ safe_slug event_type, ae_event_type = event_type,
         ae_account_id = account_id, ae_token_id = token_id, ae_actor = actor, ae_occurred_at = isoformat_utc t2,
         ae_evidence = evidence\<rparr>])\<rparr>"

definition redacted_path :: "string \<Rightarrow> string" where
  "redacted_path p = takeWhile (\<lambda>c. c \<noteq> CHR ''?'') p"

definition SCOPE_VIOLATIONS :: "string list" where
  "SCOPE_VIOLATIONS = [''service_path_not_allowed'', ''route_not_allowed'', ''method_not_allowed'',
     ''mutation_not_allowed'', ''mutation_scope_not_allowed'']"

definition auth_denied ::
  "(nat \<Rightarrow> int) \<Rightarrow> string option \<Rightarrow> string option \<Rightarrow> string \<Rightarrow> string \<Rightarrow> string \<Rightarrow> RemoteControl \<Rightarrow> RemoteControl" where
  "auth_denied now account_id token_id reason method raw_path st =
     (let st1 = record_auth_event (now 2) (now 3) account_id token_id ''token_denied'' ''api''
            [(''reason'', PStr reason), (''method'', PStr method), (''path'', PStr (redacted_path raw_path))] st
      in if str_true account_id \<and> reason \<in> set SCOPE_VIOLATIONS then
           (case tbl_get (rc_test_accounts st1) (the account_id) of
              None \<Rightarrow> st1
            | Some account \<Rightarrow>
                if ta_auto_disable account
                then st1\<lparr>rc_test_accounts := tbl_upsert (the account_id)
                       (account\<lparr>ta_enabled := False, ta_disabled_by := Some ''odo'',
                          ta_disabled_at := Some (isoformat_utc (now 4)), ta_disable_reason := Some reason\<rparr>)
                       (rc_test_accounts st1)\<rparr>
                else st1)
         else st1)"

definition is_expired_at :: "int \<Rightarrow> string \<Rightarrow> bool result" where
  "is_expired_at clock expires_at =
     (case fromisoformat (replace_char CHR ''Z'' ''+00:00'' expires_at) of
        Inl _ \<Rightarrow> Inr True
      | Inr d \<Rightarrow> (case dt_offset d of
            None \<Rightarrow> Inl (TypeError ''can't compare offset-naive and offset-aware datetimes'')
          | Some off \<Rightarrow> Inr (dt_wall d - off \<le> clock)))"

definition lease_status_at :: "int \<Rightarrow> TestLease \<Rightarrow> string result" where
  "lease_status_at clock lease =
     (case fromisoformat (replace_char CHR ''Z'' ''+00:00'' (ls_expires_at lease)) of
        Inl _ \<Rightarrow> Inr (ls_status lease)
      | Inr d \<Rightarrow> (case dt_offset d of
            None \<Rightarrow> Inl (TypeError ''can't compare offset-naive and offset-aware datetimes'')
          | Some off \<Rightarrow> Inr (if dt_wall d - off \<le> clock then ''expired'' else ls_status lease)))"

section \<open>Validation of a token\<close>

record test_auth =
  au_account_id :: string
  au_token_id :: string
  au_project :: string
  au_thread_id :: "string option"
  au_mutates :: bool
  au_gateway_principal :: string

datatype auth_result = Not_test_token | Denied string | Authorized test_auth

text \<open>
  The checks on a grant whose account is enabled, in the source's order: \<open>Some reason\<close> denies. The
  expiry check is not among them.
\<close>

definition scope_denial ::
  "(pyval \<Rightarrow> string) \<Rightarrow> TestGrant \<Rightarrow> string \<Rightarrow> string \<Rightarrow> string \<Rightarrow> string option result" where
  "scope_denial str_of grant method raw_path normalized_path =
     (if method \<notin> set (tg_allowed_methods grant) then Inr (Some ''method_not_allowed'')
      else if method \<notin> set READ_METHODS \<and> \<not> tg_mutates grant then Inr (Some ''mutation_not_allowed'')
      else if \<not> path_matches_service_scope raw_path (tg_service_paths grant) then Inr (Some ''service_path_not_allowed'')
      else if \<not> route_allowed normalized_path (tg_allowed_routes grant) then Inr (Some ''route_not_allowed'')
      else if method \<notin> set READ_METHODS then
        res_bind (mutation_scope_allowed str_of grant method raw_path normalized_path) (\<lambda>ok.
          Inr (if ok then None else Some ''mutation_scope_not_allowed''))
      else Inr None)"

definition validate_remote_testing_token ::
  "(pyval \<Rightarrow> string) \<Rightarrow> (nat \<Rightarrow> int) \<Rightarrow> (string \<Rightarrow> string) \<Rightarrow> string \<Rightarrow> string \<Rightarrow> string \<Rightarrow> string \<Rightarrow>
   RemoteControl \<Rightarrow> RemoteControl \<times> auth_result result" where
  "validate_remote_testing_token str_of now sha256 raw_token method0 raw_path normalized_path st0 =
     (if \<not> startswith raw_token TEST_TOKEN_PREFIX then (st0, Inr Not_test_token)
      else
        (let st = with_default_profile (now 0) st0;
             deny = (\<lambda>account_id token_id reason method s.
               (auth_denied now account_id token_id reason method raw_path s, Inr (Denied reason)))
         in case find (\<lambda>g. tg_token_hash g = ''sha256:'' @ sha256 raw_token) (map snd (rc_test_tokens st)) of
              None \<Rightarrow> deny None None ''unknown_token'' method0 st
            | Some grant \<Rightarrow>
                (let account_id = tg_account_id grant; token_id = tg_token_id grant
                 in case tbl_get (rc_test_accounts st) account_id of
                      None \<Rightarrow> deny (Some account_id) (Some token_id) ''account_disabled'' method0 st
                    | Some account \<Rightarrow>
                        if \<not> ta_enabled account
                        then deny (Some account_id) (Some token_id) ''account_disabled'' method0 st
                        else if tg_status grant \<noteq> ''active''
                        then deny (Some account_id) (Some token_id) (''token_'' @ tg_status grant) method0 st
                        else case is_expired_at (now 1) (tg_expires_at grant) of
                          Inl e \<Rightarrow> (st0, Inl e)
                        | Inr True \<Rightarrow> deny (Some account_id) (Some token_id) ''token_expired'' method0
                            (st\<lparr>rc_test_tokens := tbl_upsert token_id (grant\<lparr>tg_status := ''expired''\<rparr>)
                               (rc_test_tokens st)\<rparr>)
                        | Inr False \<Rightarrow>
                            (let method = py_upper method0
                             in case scope_denial str_of grant method raw_path normalized_path of
                                  Inl e \<Rightarrow> (st0, Inl e)
                                | Inr (Some reason) \<Rightarrow> deny (Some account_id) (Some token_id) reason method st
                                | Inr None \<Rightarrow>
                                    (record_auth_event (now 2) (now 3) (Some account_id) (Some token_id) ''token_used'' ''api''
                                       [(''method'', PStr method), (''path'', PStr (redacted_path raw_path)),
                                        (''normalized_path'', PStr (redacted_path normalized_path))] st,
                                     Inr (Authorized
                                       \<lparr>au_account_id = account_id, au_token_id = token_id, au_project = tg_project grant,
                                        au_thread_id = tg_thread_id grant, au_mutates = tg_mutates grant,
                                        au_gateway_principal = ta_gateway_principal account\<rparr>))))))"

section \<open>Commands\<close>

definition build_account ::
  "int \<Rightarrow> string \<Rightarrow> string \<Rightarrow> string \<Rightarrow> string \<Rightarrow> string list \<Rightarrow> string list \<Rightarrow> string list \<Rightarrow> string \<Rightarrow> bool \<Rightarrow>
   string \<Rightarrow> TestAccount result" where
  "build_account t account_id display_name agent_kind agent_id allowed_projects allowed_service_paths
     allowed_gateway_origins gateway_principal enabled recorded_by =
     res_bind (required_id account_id ''account_id'') (\<lambda>aid.
     res_bind (required_id agent_id ''agent_id'') (\<lambda>agent.
     res_bind (normalized_scope_list allowed_projects True) (\<lambda>projects.
     res_bind (normalized_service_paths allowed_service_paths True) (\<lambda>paths.
     res_bind (normalized_scope_list allowed_gateway_origins True) (\<lambda>origins.
     res_bind (required_id gateway_principal ''gateway_principal'') (\<lambda>principal.
       Inr \<lparr>ta_account_id = aid, ta_display_name = display_name, ta_agent_kind = agent_kind, ta_agent_id = agent,
         ta_enabled = enabled, ta_allowed_projects = projects, ta_allowed_service_paths = paths,
         ta_allowed_gateway_origins = origins, ta_gateway_principal = principal, ta_auto_disable = True,
         ta_recorded_by = recorded_by, ta_recorded_at = isoformat_utc t, ta_updated_at = isoformat_utc t,
         ta_disabled_by = None, ta_disabled_at = None, ta_disable_reason = None\<rparr>))))))"

definition record_remote_testing_account_status ::
  "(nat \<Rightarrow> int) \<Rightarrow> string \<Rightarrow> string \<Rightarrow> string \<Rightarrow> string \<Rightarrow> string list \<Rightarrow> string list \<Rightarrow> string list \<Rightarrow> string \<Rightarrow>
   bool \<Rightarrow> string \<Rightarrow> RemoteControl \<Rightarrow> RemoteControl \<times> TestAccount result" where
  "record_remote_testing_account_status now account_id display_name agent_kind agent_id allowed_projects
     allowed_service_paths allowed_gateway_origins gateway_principal enabled recorded_by st0 =
     (if agent_kind \<notin> set SUPPORTED_AGENT_KINDS then (st0, Inl (ValueError ''unsupported agent_kind''))
      else
        (let st = with_default_profile (now 0) st0
         in case build_account (now 1) account_id display_name agent_kind agent_id allowed_projects
                   allowed_service_paths allowed_gateway_origins gateway_principal enabled recorded_by of
              Inl e \<Rightarrow> (st0, Inl e)
            | Inr account \<Rightarrow>
                (record_auth_event (now 2) (now 3) (Some (ta_account_id account)) None ''account_recorded'' ''quark''
                   [(''enabled'', PBool enabled)]
                   (st\<lparr>rc_test_accounts := tbl_upsert (ta_account_id account) account (rc_test_accounts st)\<rparr>),
                 Inr account)))"

definition queue_root :: "path \<Rightarrow> path" where
  "queue_root project_root = project_root @ [''local-secrets'', ''remote-testing'']"

definition check_mutation_scope ::
  "(pyval \<Rightarrow> string) \<Rightarrow> bool \<Rightarrow> (string, pyval) pydict \<Rightarrow> string list \<Rightarrow> unit result" where
  "check_mutation_scope str_of mutates mutation_scope methods =
     (if mutates \<and> mutation_scope = []
        then Inl (ValueError ''mutating test tokens require an exact mutation_scope'')
      else if mutates then
        res_bind (iter_strings str_of (scope_get mutation_scope ''allowed_methods'' ''methods'')) (\<lambda>ms.
        res_bind (normalized_scope_list ms False) (\<lambda>scope_methods.
        res_bind (iter_strings str_of (scope_get mutation_scope ''allowed_routes'' ''routes'')) (\<lambda>rs.
        res_bind (normalized_routes rs) (\<lambda>scope_routes.
          if scope_methods = [] \<or> scope_routes = []
          then Inl (ValueError ''mutating test tokens require mutation_scope.allowed_methods and mutation_scope.allowed_routes'')
          else Inr ()))))
      else if list_ex (\<lambda>m. m \<notin> set READ_METHODS) methods
        then Inl (ValueError ''read-only test tokens may only allow GET, HEAD, or OPTIONS'')
      else Inr ())"

definition check_lease :: "int \<Rightarrow> string option \<Rightarrow> string option \<Rightarrow> RemoteControl \<Rightarrow> unit result" where
  "check_lease clock lease_id job_id st =
     (if \<not> str_true lease_id then Inr ()
      else case tbl_get (rc_leases st) (the lease_id) of
        None \<Rightarrow> Inl (ValueError ''lease_id is not active'')
      | Some lease \<Rightarrow> res_bind (lease_status_at clock lease) (\<lambda>status.
          if status \<noteq> ''active'' then Inl (ValueError ''lease_id is not active'')
          else if str_true job_id \<and> the job_id \<notin> set (ls_job_ids lease)
            then Inl (ValueError ''job_id is not registered on the lease'')
          else Inr ()))"

record token_args =
  ar_lease_id :: "string option"
  ar_job_id :: "string option"
  ar_project :: string
  ar_thread_id :: "string option"
  ar_service_paths :: "string list"
  ar_gateway_origins :: "string list"
  ar_allowed_methods :: "string list"
  ar_allowed_routes :: "string list"
  ar_ttl_minutes :: int
  ar_mutates :: bool
  ar_mutation_scope :: "(string, pyval) pydict"
  ar_issued_by :: string

definition build_test_grant ::
  "(pyval \<Rightarrow> string) \<Rightarrow> (nat \<Rightarrow> int) \<Rightarrow> (string \<Rightarrow> string) \<Rightarrow> string \<Rightarrow> string \<Rightarrow> path \<Rightarrow> string \<Rightarrow> token_args \<Rightarrow>
   RemoteControl \<Rightarrow> (TestGrant \<times> path) result" where
  "build_test_grant str_of now sha256 hex raw_token project_root account_id a st =
     res_bind (check_lease (now 8) (ar_lease_id a) (ar_job_id a) st) (\<lambda>_.
       let methods = map py_upper (ar_allowed_methods a)
       in res_bind (check_mutation_scope str_of (ar_mutates a) (ar_mutation_scope a) methods) (\<lambda>_.
          res_bind (normalized_service_paths (ar_service_paths a) True) (\<lambda>service_paths.
          res_bind (normalized_scope_list (ar_gateway_origins a) True) (\<lambda>origins.
          res_bind (normalized_routes (ar_allowed_routes a)) (\<lambda>routes.
            let token_id = ''rtt.'' @ safe_slug account_id @ ''.'' @ stamp_utc (now 9) @ ''.'' @ hex;
                p = queue_root project_root @ [''tokens'', safe_slug token_id @ ''.token'']
            in Inr (\<lparr>tg_token_id = token_id, tg_token_hash = ''sha256:'' @ sha256 raw_token, tg_account_id = account_id,
                 tg_lease_id = ar_lease_id a, tg_job_id = ar_job_id a, tg_project = ar_project a,
                 tg_thread_id = ar_thread_id a, tg_service_paths = service_paths, tg_gateway_origins = origins,
                 tg_allowed_methods = methods, tg_allowed_routes = routes, tg_mutates = ar_mutates a,
                 tg_mutation_scope = ar_mutation_scope a, tg_status = ''active'', tg_issued_by = ar_issued_by a,
                 tg_issued_at = isoformat_utc (now 10),
                 tg_expires_at = isoformat_utc (now 10 + min (ar_ttl_minutes a) MAX_TEST_TOKEN_TTL_MINUTES * 60 * MICROS),
                 tg_token_source = ''remote-testing-token:'' @ token_id, tg_token_path = path_str p,
                 tg_revoked_by = None, tg_revoked_at = None, tg_revoke_reason = None\<rparr>, p))))))"

text \<open>The evidence of a token event: the grant without its hash and its path.\<close>

definition redacted_token_status :: "TestGrant \<Rightarrow> (string, pyval) pydict" where
  "redacted_token_status g =
     [(''token_id'', PStr (tg_token_id g)), (''account_id'', PStr (tg_account_id g)),
      (''lease_id'', opt_str (tg_lease_id g)), (''job_id'', opt_str (tg_job_id g)), (''project'', PStr (tg_project g)),
      (''thread_id'', opt_str (tg_thread_id g)), (''service_paths'', str_list (tg_service_paths g)),
      (''gateway_origins'', str_list (tg_gateway_origins g)), (''allowed_methods'', str_list (tg_allowed_methods g)),
      (''allowed_routes'', str_list (tg_allowed_routes g)), (''mutates'', PBool (tg_mutates g)),
      (''mutation_scope'', PDict (tg_mutation_scope g)), (''status'', PStr (tg_status g)),
      (''issued_by'', PStr (tg_issued_by g)), (''issued_at'', PStr (tg_issued_at g)),
      (''expires_at'', PStr (tg_expires_at g)), (''revoked_by'', opt_str (tg_revoked_by g)),
      (''revoked_at'', opt_str (tg_revoked_at g)), (''revoke_reason'', opt_str (tg_revoke_reason g)),
      (''token_source'', PStr (tg_token_source g)), (''token_hash_prefix'', PStr (take 19 (tg_token_hash g)))]"

text \<open>An unknown account is recorded with the defaults before the token is issued.\<close>

definition ensure_account :: "(nat \<Rightarrow> int) \<Rightarrow> string \<Rightarrow> string \<Rightarrow> RemoteControl \<Rightarrow> RemoteControl \<times> unit result" where
  "ensure_account now account_id issued_by st0 =
     (case tbl_get (rc_test_accounts (with_default_profile (now 0) st0)) account_id of
        Some _ \<Rightarrow> (st0, Inr ())
      | None \<Rightarrow>
          map_prod id (map_sum id (\<lambda>_. ()))
            (record_remote_testing_account_status (\<lambda>k. now (k + 1)) account_id ''Tank/MSI gateway test account''
               ''windows'' ''tank-msi'' [''*''] [''*''] [''*''] ''owner'' True issued_by st0))"

definition issue_remote_testing_token_status ::
  "(pyval \<Rightarrow> string) \<Rightarrow> (nat \<Rightarrow> int) \<Rightarrow> (string \<Rightarrow> string) \<Rightarrow> string \<Rightarrow> string \<Rightarrow> path \<Rightarrow> string \<Rightarrow> token_args \<Rightarrow>
   RemoteControl \<Rightarrow> RemoteControl \<times> TestGrant result" where
  "issue_remote_testing_token_status str_of now sha256 hex urlsafe project_root account_id a st0 =
     (if ar_ttl_minutes a \<le> 0 then (st0, Inl (ValueError ''ttl_minutes must be positive''))
      else
        (let (st1, pre) = ensure_account now account_id (ar_issued_by a) st0;
             st2 = with_default_profile (now 5) st1;
             enabled = (case tbl_get (rc_test_accounts st2) account_id of
               None \<Rightarrow> False | Some account \<Rightarrow> ta_enabled account);
             raw_token = TEST_TOKEN_PREFIX @ urlsafe
         in case res_bind pre (\<lambda>_.
               if \<not> enabled then Inl (ValueError ''remote testing account is disabled'')
               else build_test_grant str_of now sha256 hex raw_token project_root account_id a st2) of
              Inl e \<Rightarrow> (st1, Inl e)
            | Inr (grant, p) \<Rightarrow>
                (record_auth_event (now 11) (now 12) (Some account_id) (Some (tg_token_id grant)) ''token_issued''
                   (ar_issued_by a) (redacted_token_status grant)
                   (st2\<lparr>rc_files := (rc_files st2)(p \<mapsto> raw_token @ [CHR 0x0A]),
                      rc_test_tokens := tbl_upsert (tg_token_id grant) grant (rc_test_tokens st2)\<rparr>),
                 Inr grant)))"

definition revoke_remote_testing_token_status ::
  "(nat \<Rightarrow> int) \<Rightarrow> path \<Rightarrow> string \<Rightarrow> string \<Rightarrow> string \<Rightarrow> RemoteControl \<Rightarrow> RemoteControl \<times> TestGrant result" where
  "revoke_remote_testing_token_status now project_root token_id revoked_by reason st0 =
     (let st = with_default_profile (now 0) st0
      in case tbl_get (rc_test_tokens st) token_id of
           None \<Rightarrow> (st0, Inl (ValueError ''token_id is not registered''))
         | Some grant \<Rightarrow>
             (let revoked = grant\<lparr>tg_status := ''revoked'', tg_revoked_by := Some revoked_by,
                    tg_revoked_at := Some (isoformat_utc (now 1)), tg_revoke_reason := Some reason\<rparr>;
                  p = path_of (tg_token_path grant);
                  files = (if rc_files st p \<noteq> None \<and> take (length (queue_root project_root)) p = queue_root project_root
                           then (rc_files st)(p := None) else rc_files st)
              in (record_auth_event (now 2) (now 3) (Some (tg_account_id grant)) (Some token_id) ''token_revoked'' revoked_by
                    [(''reason'', PStr reason)]
                    (st\<lparr>rc_files := files, rc_test_tokens := tbl_upsert token_id revoked (rc_test_tokens st)\<rparr>),
                  Inr revoked)))"

definition record_remote_testing_profile_status ::
  "(nat \<Rightarrow> int) \<Rightarrow> TestProfile \<Rightarrow> RemoteControl \<Rightarrow> RemoteControl \<times> TestProfile result" where
  "record_remote_testing_profile_status now args st0 =
     (let st = with_default_profile (now 0) st0
      in case required_id (tp_profile_id args) ''profile_id'' of
           Inl e \<Rightarrow> (st0, Inl e)
         | Inr pid \<Rightarrow>
             (let profile = args\<lparr>tp_profile_id := pid, tp_recorded_at := isoformat_utc (now 1)\<rparr>
              in (st\<lparr>rc_profiles := tbl_upsert pid profile (rc_profiles st), rc_default_profile_id := Some pid\<rparr>,
                  Inr profile)))"

definition request_remote_testing_lease_status ::
  "(nat \<Rightarrow> int) \<Rightarrow> string \<Rightarrow> string \<Rightarrow> string \<Rightarrow> string \<Rightarrow> string list \<Rightarrow> int \<Rightarrow> string \<Rightarrow> string \<Rightarrow>
   RemoteControl \<Rightarrow> RemoteControl \<times> TestLease result" where
  "request_remote_testing_lease_status now lease_id project purpose requested_by job_types ttl_minutes priority
     profile_id st0 =
     (let invalid = filter (\<lambda>t. t \<notin> set SUPPORTED_JOB_TYPES) job_types;
          st = with_default_profile (now 0) st0
      in if ttl_minutes \<le> 0 then (st0, Inl (ValueError ''ttl_minutes must be positive''))
         else if invalid \<noteq> [] then (st0, Inl (ValueError (''unsupported job type(s): '' @ py_join '', '' invalid)))
         else if tbl_get (rc_profiles st) profile_id = None
           then (st0, Inl (ValueError ''profile_id is not registered''))
         else case required_id lease_id ''lease_id'' of
           Inl e \<Rightarrow> (st0, Inl e)
         | Inr lid \<Rightarrow>
             (let lease = \<lparr>ls_lease_id = lid, ls_profile_id = profile_id, ls_project = project, ls_purpose = purpose,
                    ls_requested_by = requested_by, ls_requested_at = isoformat_utc (now 1),
                    ls_expires_at = isoformat_utc (now 1 + ttl_minutes * 60 * MICROS), ls_priority = priority,
                    ls_job_types = job_types, ls_status = ''active'', ls_job_ids = [], ls_last_job_id = None,
                    ls_updated_at = None\<rparr>
              in (st\<lparr>rc_leases := tbl_upsert lid lease (rc_leases st)\<rparr>, Inr lease)))"

section \<open>Queued jobs carry no secrets\<close>

text \<open>
  \<^verbatim>\<open>re.search("\bBearer\s+\S+|sk-[A-Za-z0-9_-]+", s)\<close>, scanning with the character before the current
  position.
\<close>

definition bearer_at :: "char option \<Rightarrow> string \<Rightarrow> bool" where
  "bearer_at prev s \<longleftrightarrow> (case prev of None \<Rightarrow> True | Some c \<Rightarrow> \<not> word_char c) \<and> startswith s ''Bearer'' \<and>
     (case drop 6 s of c # rest \<Rightarrow> is_space c \<and> dropWhile is_space rest \<noteq> [] | [] \<Rightarrow> False)"

definition sk_at :: "string \<Rightarrow> bool" where
  "sk_at s \<longleftrightarrow> startswith s ''sk-'' \<and> (case drop 3 s of c # _ \<Rightarrow> name_char c \<or> c = CHR ''-'' | [] \<Rightarrow> False)"

fun secret_like :: "char option \<Rightarrow> string \<Rightarrow> bool" where
  "secret_like prev [] = False"
| "secret_like prev (c # s) \<longleftrightarrow> bearer_at prev (c # s) \<or> sk_at (c # s) \<or> secret_like (Some c) s"

definition sensitive_key :: "string \<Rightarrow> bool" where
  "sensitive_key k \<longleftrightarrow> (let lowered = py_lower k
     in lowered \<noteq> ''mutation_authorization'' \<and> list_ex (\<lambda>part. py_contains part lowered) SENSITIVE_KEY_PARTS)"

fun assert_redacted_safe :: "string \<Rightarrow> pyval \<Rightarrow> unit result"
  and assert_items_safe :: "string \<Rightarrow> (string \<times> pyval) list \<Rightarrow> unit result"
  and assert_list_safe :: "string \<Rightarrow> nat \<Rightarrow> pyval list \<Rightarrow> unit result" where
  "assert_redacted_safe path (PDict kvs) = assert_items_safe path kvs"
| "assert_redacted_safe path (PList vs) = assert_list_safe path 0 vs"
| "assert_redacted_safe path (PStr s) =
     (if secret_like None s
      then Inl (ValueError (path @ '' appears to contain secret material and cannot be queued'')) else Inr ())"
| "assert_redacted_safe path PNone = Inr ()"
| "assert_redacted_safe path (PBool b) = Inr ()"
| "assert_redacted_safe path (PInt i) = Inr ()"
| "assert_redacted_safe path (PFloat x) = Inr ()"
| "assert_items_safe path [] = Inr ()"
| "assert_items_safe path ((k, v) # kvs) =
     (if sensitive_key k
      then Inl (ValueError (path @ ''.'' @ k @ '' may contain secret material and cannot be queued''))
      else res_bind (assert_redacted_safe (path @ ''.'' @ k) v) (\<lambda>_. assert_items_safe path kvs))"
| "assert_list_safe path i [] = Inr ()"
| "assert_list_safe path i (v # vs) =
     res_bind (assert_redacted_safe (path @ ''['' @ str_nat i @ '']'') v) (\<lambda>_. assert_list_safe path (Suc i) vs)"

definition fixture_allows_mutation :: "(string, pyval) pydict \<Rightarrow> bool" where
  "fixture_allows_mutation params \<longleftrightarrow>
     (let truthy = (\<lambda>k. case dict_get params k of None \<Rightarrow> False | Some v \<Rightarrow> py_truthy v)
      in truthy ''fixture_id'' \<or> truthy ''disposable_fixture'' \<or>
         (dict_get params ''allow_mutation'' = Some (PBool True) \<and>
          dict_get params ''require_explicit_user_approval'' = Some (PBool True)))"

record job_args =
  ja_requested_by :: string
  ja_project :: string
  ja_params :: "(string, pyval) pydict"
  ja_base_url :: string
  ja_ui_path :: string
  ja_gateway_path :: string
  ja_token_source :: string
  ja_auth_token_id :: "string option"
  ja_mutates :: bool

definition check_job_token :: "string \<Rightarrow> job_args \<Rightarrow> RemoteControl \<Rightarrow> unit result" where
  "check_job_token lease_id a st =
     (if \<not> str_true (ja_auth_token_id a) then Inr ()
      else case tbl_get (rc_test_tokens st) (the (ja_auth_token_id a)) of
        None \<Rightarrow> Inl (ValueError ''auth_token_id is not active'')
      | Some grant \<Rightarrow>
          if tg_status grant \<noteq> ''active'' then Inl (ValueError ''auth_token_id is not active'')
          else if str_true (tg_lease_id grant) \<and> tg_lease_id grant \<noteq> Some lease_id
            then Inl (ValueError ''auth_token_id is not scoped to this lease'')
          else if tg_project grant \<noteq> ja_project a
            then Inl (ValueError ''auth_token_id is not scoped to this project'')
          else if \<not> path_matches_service_scope (ja_gateway_path a) (tg_service_paths grant)
            then Inl (ValueError ''auth_token_id is not scoped to this gateway path'')
          else if ja_base_url a \<notin> set (tg_gateway_origins grant) \<and> ''*'' \<notin> set (tg_gateway_origins grant)
            then Inl (ValueError ''auth_token_id is not scoped to this gateway origin'')
          else if ja_mutates a \<and> \<not> tg_mutates grant
            then Inl (ValueError ''auth_token_id does not authorize mutation'')
          else Inr ())"

definition check_job ::
  "int \<Rightarrow> string \<Rightarrow> string \<Rightarrow> job_args \<Rightarrow> RemoteControl \<Rightarrow> TestLease result" where
  "check_job clock lease_id job_type a st =
     (if job_type \<notin> set SUPPORTED_JOB_TYPES then Inl (ValueError ''unsupported job_type'')
      else res_bind (assert_redacted_safe ''params'' (PDict (ja_params a))) (\<lambda>_.
        case tbl_get (rc_leases st) lease_id of
          None \<Rightarrow> Inl (ValueError ''lease_id is not active or registered'')
        | Some lease \<Rightarrow> res_bind (lease_status_at clock lease) (\<lambda>status.
            if status \<noteq> ''active'' then Inl (ValueError ''lease is not active'')
            else if job_type \<notin> set (ls_job_types lease) then Inl (ValueError ''job_type is not allowed by lease'')
            else if ja_mutates a \<and> \<not> fixture_allows_mutation (ja_params a)
              then Inl (ValueError ''mutating remote test jobs require an explicit disposable fixture'')
            else if job_type \<in> set SCOPED_TOKEN_REQUIRED_JOB_TYPES \<and> \<not> str_true (ja_auth_token_id a)
              then Inl (ValueError (job_type @ '' requires a Quark-issued auth_token_id''))
            else res_bind (check_job_token lease_id a st) (\<lambda>_. Inr lease))))"

definition enqueue_remote_test_job_status ::
  "(nat \<Rightarrow> int) \<Rightarrow> string \<Rightarrow> string \<Rightarrow> job_args \<Rightarrow> RemoteControl \<Rightarrow> RemoteControl \<times> TestJob result" where
  "enqueue_remote_test_job_status now lease_id job_type a st0 =
     (let st = with_default_profile (now 0) st0
      in case check_job (now 1) lease_id job_type a st of
           Inl e \<Rightarrow> (st0, Inl e)
         | Inr lease \<Rightarrow>
             (let short_id = take 40 (safe_slug (lease_id @ ''-'' @ job_type));
                  name = stamp_utc (now 2) @ ''-'' @ safe_slug job_type @ ''-'' @ short_id;
                  job = \<lparr>tj_job_id = ''job-'' @ name, tj_job_type = job_type, tj_created_at = isoformat_utc (now 2),
                    tj_requested_by = ja_requested_by a, tj_project = ja_project a, tj_base_url = ja_base_url a,
                    tj_ui_path = ja_ui_path a, tj_gateway_path = ja_gateway_path a,
                    tj_token_source = (if str_true (ja_auth_token_id a)
                      then ''remote-testing-token:'' @ the (ja_auth_token_id a) else ja_token_source a),
                    tj_auth_token_id = ja_auth_token_id a, tj_lease_id = lease_id, tj_mutates = ja_mutates a,
                    tj_params = ja_params a\<rparr>
              in (st\<lparr>rc_pending_jobs := tbl_upsert (name @ ''.json'') job (rc_pending_jobs st),
                     rc_leases := tbl_upsert lease_id (lease\<lparr>ls_job_ids := ls_job_ids lease @ [tj_job_id job],
                       ls_last_job_id := Some (tj_job_id job), ls_updated_at := Some (isoformat_utc (now 2))\<rparr>)
                       (rc_leases st)\<rparr>,
                  Inr job)))"

end
