(* ===== verification/Remote_Auth.thy ===== *)
theory Remote_Auth
  imports Remote_Testing
begin

text \<open>
  What the remote testing tokens guarantee: the meaning of route patterns, the invariant of the control
  state over all runs of its commands, the conditions under which a request is authorized, and the
  lock-out after a scope violation.
\<close>

section \<open>Route patterns\<close>

text \<open>The language of a pattern: literals stand for themselves, a parameter for one nonempty segment part.\<close>

definition token_text :: "route_token \<Rightarrow> string \<Rightarrow> bool" where
  "token_text t s = (case t of Lit c \<Rightarrow> s = [c] | Param \<Rightarrow> s \<noteq> [] \<and> CHR ''/'' \<notin> set s)"

text \<open>Matching a route pattern is membership in its language: a path matches exactly when it splits into one
  part per token, a literal standing for itself and a parameter for a nonempty text without a slash.\<close>

theorem route_match_parts:
  "route_match ts s \<longleftrightarrow> (\<exists>parts. list_all2 token_text ts parts \<and> concat parts = s)"
proof (induction ts s rule: route_match.induct)
  case (1 s)
  then show ?case by (auto simp: token_text_def)
next
  case (2 c ts)
  then show ?case by (auto simp: list_all2_Cons1 token_text_def)
next
  case (3 c ts d s)
  then show ?case by (fastforce simp: list_all2_Cons1 token_text_def)
next
  case (4 ts)
  then show ?case by (auto simp: list_all2_Cons1 token_text_def)
next
  case (5 ts d s)
  have "(\<exists>parts. list_all2 token_text (Param # ts) parts \<and> concat parts = d # s) \<longleftrightarrow>
      d \<noteq> CHR ''/'' \<and> ((\<exists>parts. list_all2 token_text ts parts \<and> concat parts = s) \<or>
        (\<exists>parts. list_all2 token_text (Param # ts) parts \<and> concat parts = s))" (is "?L \<longleftrightarrow> ?R")
  proof
    assume ?L
    then obtain p ps where "token_text Param p" "list_all2 token_text ts ps" "p @ concat ps = d # s"
      by (auto simp: list_all2_Cons1)
    moreover from this obtain p' where "p = d # p'" by (cases p) (auto simp: token_text_def)
    ultimately show ?R by (cases "p' = []") (force simp: list_all2_Cons1 token_text_def)+
  next
    assume r: ?R
    then show ?L
    proof (elim conjE disjE exE)
      fix parts assume "d \<noteq> CHR ''/''" "list_all2 token_text ts parts" "concat parts = s"
      then show ?L by (intro exI [of _ "[d] # parts"]) (simp add: token_text_def)
    next
      fix parts assume d: "d \<noteq> CHR ''/''" and "list_all2 token_text (Param # ts) parts" "concat parts = s"
      then obtain p ps where "parts = p # ps" "token_text Param p" "list_all2 token_text ts ps"
        by (auto simp: list_all2_Cons1)
      with d \<open>concat parts = s\<close> show ?L by (intro exI [of _ "(d # p) # ps"]) (simp add: token_text_def)
    qed
  qed
  with 5 show ?case by simp
qed

section \<open>The invariant of the control state\<close>

definition clock_ok :: "(nat \<Rightarrow> int) \<Rightarrow> bool" where
  "clock_ok now \<longleftrightarrow> (\<forall>k. FIRST_INSTANT \<le> now k \<and> now k + MAX_TEST_TOKEN_TTL_MINUTES * 60 * MICROS < END_INSTANT)"

text \<open>
  The steps of the control state. \<open>may_record\<close> says which account ids a step may record; issuing a
  token for an unknown account records it.
\<close>

inductive remote_step :: "(string \<Rightarrow> bool) \<Rightarrow> RemoteControl \<Rightarrow> RemoteControl \<Rightarrow> bool" for may_record where
  step_validate: "remote_step may_record st
    (fst (validate_remote_testing_token str_of now sha256 raw method raw_path norm_path st))"
| step_account: "may_record (py_strip aid) \<Longrightarrow> remote_step may_record st
    (fst (record_remote_testing_account_status now aid name kind agent projects paths origins princ en by st))"
| step_issue: "clock_ok now \<Longrightarrow> (tbl_get (rc_test_accounts st) aid = None \<longrightarrow> may_record (py_strip aid)) \<Longrightarrow>
    remote_step may_record st
    (fst (issue_remote_testing_token_status str_of now sha256 hex urlsafe proot aid args st))"
| step_revoke: "remote_step may_record st
    (fst (revoke_remote_testing_token_status now proot tid by reason st))"
| step_profile: "remote_step may_record st (fst (record_remote_testing_profile_status now profile st))"
| step_lease: "remote_step may_record st
    (fst (request_remote_testing_lease_status now lid project purpose by types ttl prio pid st))"
| step_job: "remote_step may_record st (fst (enqueue_remote_test_job_status now lid type jargs st))"

text \<open>
  A grant is sound when its printed expiry is an issue instant plus 1 to 120 minutes, a read-only grant
  lists read methods only, and a mutating one passed the check of its mutation scope.
\<close>

definition grant_times :: "TestGrant \<Rightarrow> bool" where
  "grant_times g \<longleftrightarrow> (\<exists>t ttl. FIRST_INSTANT \<le> t \<and> t + ttl * 60 * MICROS < END_INSTANT \<and> 1 \<le> ttl \<and>
     ttl \<le> MAX_TEST_TOKEN_TTL_MINUTES \<and> tg_issued_at g = isoformat_utc t \<and>
     tg_expires_at g = isoformat_utc (t + ttl * 60 * MICROS))"

definition grant_methods :: "TestGrant \<Rightarrow> bool" where
  "grant_methods g \<longleftrightarrow>
     (\<exists>str_of. check_mutation_scope str_of (tg_mutates g) (tg_mutation_scope g) (tg_allowed_methods g) = Inr ())"

definition account_ok :: "string \<Rightarrow> TestAccount \<Rightarrow> bool" where
  "account_ok k a \<longleftrightarrow> ta_auto_disable a \<and> k \<noteq> []"

definition remote_ok :: "RemoteControl \<Rightarrow> bool" where
  "remote_ok st \<longleftrightarrow> tbl_ok (rc_test_tokens st) \<and> tbl_ok (rc_test_accounts st) \<and>
     (\<forall>k g. tbl_get (rc_test_tokens st) k = Some g \<longrightarrow> tg_token_id g = k \<and> grant_times g \<and> grant_methods g) \<and>
     (\<forall>k a. tbl_get (rc_test_accounts st) k = Some a \<longrightarrow> account_ok k a) \<and>
     length (rc_test_auth_events st) \<le> 200"

lemma with_default_profile_sel [simp]:
  "rc_test_tokens (with_default_profile t st) = rc_test_tokens st"
  "rc_test_accounts (with_default_profile t st) = rc_test_accounts st"
  "rc_test_auth_events (with_default_profile t st) = rc_test_auth_events st"
  "rc_leases (with_default_profile t st) = rc_leases st"
  "rc_files (with_default_profile t st) = rc_files st"
  by (simp_all add: with_default_profile_def Let_def split: option.split)

lemma record_auth_event_sel [simp]:
  "rc_test_tokens (record_auth_event t1 t2 a tk ty ac ev st) = rc_test_tokens st"
  "rc_test_accounts (record_auth_event t1 t2 a tk ty ac ev st) = rc_test_accounts st"
  "rc_leases (record_auth_event t1 t2 a tk ty ac ev st) = rc_leases st"
  "rc_files (record_auth_event t1 t2 a tk ty ac ev st) = rc_files st"
  "length (rc_test_auth_events (record_auth_event t1 t2 a tk ty ac ev st)) \<le> 200"
  by (simp_all add: record_auth_event_def keep_last_def)

lemma auth_denied_sel [simp]:
  "rc_test_tokens (auth_denied now a tk reason m p st) = rc_test_tokens st"
  "length (rc_test_auth_events (auth_denied now a tk reason m p st)) \<le> 200"
  by (auto simp: auth_denied_def Let_def split: option.split)

text \<open>The account table after a denial: only a scope violation of a monitored account changes it.\<close>

definition locked :: "(nat \<Rightarrow> int) \<Rightarrow> string \<Rightarrow> TestAccount \<Rightarrow> TestAccount" where
  "locked now reason acct = acct\<lparr>ta_enabled := False, ta_disabled_by := Some ''odo'',
     ta_disabled_at := Some (isoformat_utc (now 4)), ta_disable_reason := Some reason\<rparr>"

lemma locked_sel [simp]: "\<not> ta_enabled (locked now reason acct)" "ta_auto_disable (locked now reason acct) = ta_auto_disable acct"
  by (simp_all add: locked_def)

lemma auth_denied_accounts:
  "rc_test_accounts (auth_denied now a tk reason m p st) =
     (case (if str_true a \<and> reason \<in> set SCOPE_VIOLATIONS then tbl_get (rc_test_accounts st) (the a) else None) of
        None \<Rightarrow> rc_test_accounts st
      | Some acct \<Rightarrow> if ta_auto_disable acct
          then tbl_upsert (the a) (locked now reason acct) (rc_test_accounts st) else rc_test_accounts st)"
  by (simp add: auth_denied_def locked_def Let_def split: option.split)

text \<open>Saving a sound grant and a monitored account keeps the invariant.\<close>

lemma remote_ok_update:
  assumes "remote_ok st" "length (rc_test_auth_events st') \<le> 200"
    and "rc_test_tokens st' = rc_test_tokens st \<or>
      (\<exists>g. rc_test_tokens st' = tbl_upsert (tg_token_id g) g (rc_test_tokens st) \<and> grant_times g \<and> grant_methods g)"
    and "rc_test_accounts st' = rc_test_accounts st \<or>
      (\<exists>k a. rc_test_accounts st' = tbl_upsert k a (rc_test_accounts st) \<and> account_ok k a)"
  shows "remote_ok st'"
proof -
  have ok: "tbl_ok (rc_test_tokens st)" "tbl_ok (rc_test_accounts st)" using assms(1) by (simp_all add: remote_ok_def)
  have "tbl_ok (rc_test_tokens st') \<and>
      (\<forall>k g. tbl_get (rc_test_tokens st') k = Some g \<longrightarrow> tg_token_id g = k \<and> grant_times g \<and> grant_methods g)"
    using assms(1,3) ok(1) by (auto simp: remote_ok_def tb.get_put split: if_splits)
  moreover have "tbl_ok (rc_test_accounts st') \<and>
      (\<forall>k a. tbl_get (rc_test_accounts st') k = Some a \<longrightarrow> account_ok k a)"
    using assms(1,4) ok(2) by (auto simp: remote_ok_def tb.get_put split: if_splits)
  ultimately show ?thesis using assms(2) by (simp add: remote_ok_def)
qed

lemma remote_ok_denied:
  assumes "remote_ok st"
  shows "remote_ok (auth_denied now a tk reason m p st)"
proof (rule remote_ok_update [OF assms])
  show "rc_test_accounts (auth_denied now a tk reason m p st) = rc_test_accounts st \<or>
      (\<exists>k acct. rc_test_accounts (auth_denied now a tk reason m p st) = tbl_upsert k acct (rc_test_accounts st) \<and>
        account_ok k acct)"
  proof (cases "rc_test_accounts (auth_denied now a tk reason m p st) = rc_test_accounts st")
    case False
    then obtain acct where "str_true a" "ta_auto_disable acct"
      "rc_test_accounts (auth_denied now a tk reason m p st) = tbl_upsert (the a) (locked now reason acct) (rc_test_accounts st)"
      by (auto simp: auth_denied_accounts split: option.splits if_splits)
    moreover from this have "account_ok (the a) (locked now reason acct)"
      by (cases a) (auto simp: account_ok_def str_true_def)
    ultimately show ?thesis by blast
  qed simp
qed auto

lemma remote_ok_same:
  "remote_ok st \<Longrightarrow> rc_test_tokens st' = rc_test_tokens st \<Longrightarrow> rc_test_accounts st' = rc_test_accounts st \<Longrightarrow>
   length (rc_test_auth_events st') \<le> 200 \<Longrightarrow> remote_ok st'"
  by (rule remote_ok_update) auto

lemma remote_ok_validate:
  assumes "remote_ok st0"
  shows "remote_ok (fst (validate_remote_testing_token str_of now sha256 raw m rp np st0))"
proof -
  define st where "st = with_default_profile (now 0) st0"
  have st: "remote_ok st" using remote_ok_same [OF assms] assms by (simp add: st_def remote_ok_def)
  have expired: "remote_ok (st\<lparr>rc_test_tokens := tbl_upsert (tg_token_id g) (g\<lparr>tg_status := ''expired''\<rparr>) (rc_test_tokens st)\<rparr>)"
    if found: "find P (map snd (rc_test_tokens st)) = Some g" for g P
  proof -
    obtain k where "(k, g) \<in> set (rc_test_tokens st)"
      using find_in_set [OF found] by auto
    with st have "grant_times g" "grant_methods g" by (auto simp: remote_ok_def tb.rows_get)
    then have "grant_times (g\<lparr>tg_status := ''expired''\<rparr>)" "grant_methods (g\<lparr>tg_status := ''expired''\<rparr>)"
      by (simp_all add: grant_times_def grant_methods_def)
    with st show ?thesis
      by (intro remote_ok_update [OF st]) (auto simp: remote_ok_def intro!: exI [of _ "g\<lparr>tg_status := ''expired''\<rparr>"])
  qed
  have used: "remote_ok (record_auth_event t1 t2 a tk ty ac ev st)" for t1 t2 a tk ty ac ev
    by (rule remote_ok_same [OF st]) simp_all
  show ?thesis
    unfolding validate_remote_testing_token_def st_def [symmetric] Let_def
    using assms remote_ok_denied [OF st] remote_ok_denied [OF expired] used
    by (auto split: option.split sum.split bool.split)
qed

lemma build_account_Inr:
  "build_account t aid name kind agent projects paths origins princ en by = Inr acct \<Longrightarrow>
     account_ok (py_strip aid) acct \<and> ta_account_id acct = py_strip aid"
  by (auto simp: build_account_def res_bind_Inr_iff required_id_def account_ok_def Let_def split: if_splits)

lemma account_effect:
  assumes "record_remote_testing_account_status now aid name kind agent projects paths origins princ en by st = (st', r)"
  shows "rc_test_tokens st' = rc_test_tokens st \<and>
    (st' = st \<or> (\<exists>acct. rc_test_accounts st' = tbl_upsert (py_strip aid) acct (rc_test_accounts st) \<and>
       account_ok (py_strip aid) acct \<and> length (rc_test_auth_events st') \<le> 200))"
  using assms build_account_Inr
  by (auto simp: record_remote_testing_account_status_def Let_def split: if_splits sum.splits)

lemma remote_ok_account:
  assumes "remote_ok st" "record_remote_testing_account_status now aid name kind agent projects paths origins princ en by st = (st', r)"
  shows "remote_ok st'"
proof -
  note e = account_effect [OF assms(2)]
  show ?thesis
  proof (cases "st' = st")
    case False
    with e show ?thesis by (intro remote_ok_update [OF assms(1)]) auto
  qed (use assms(1) in simp)
qed

lemma build_test_grant_Inr:
  assumes "clock_ok now" "1 \<le> ar_ttl_minutes a"
    "build_test_grant str_of now sha256 hex raw proot aid a st = Inr (g, p)"
  shows "grant_times g \<and> grant_methods g \<and> tg_account_id g = aid"
proof -
  define ttl where "ttl = min (ar_ttl_minutes a) MAX_TEST_TOKEN_TTL_MINUTES"
  have g: "tg_issued_at g = isoformat_utc (now 10)" "tg_expires_at g = isoformat_utc (now 10 + ttl * 60 * MICROS)"
    "check_mutation_scope str_of (tg_mutates g) (tg_mutation_scope g) (tg_allowed_methods g) = Inr ()"
    "tg_account_id g = aid"
    using assms(3) by (auto simp: build_test_grant_def res_bind_Inr_iff ttl_def Let_def)
  have "1 \<le> ttl" "ttl \<le> MAX_TEST_TOKEN_TTL_MINUTES" using assms(2) by (auto simp: ttl_def MAX_TEST_TOKEN_TTL_MINUTES_def)
  moreover from this have "ttl * 60 * MICROS \<le> MAX_TEST_TOKEN_TTL_MINUTES * 60 * MICROS" by (simp add: MICROS_def)
  moreover have "FIRST_INSTANT \<le> now 10" "now 10 + MAX_TEST_TOKEN_TTL_MINUTES * 60 * MICROS < END_INSTANT"
    using assms(1) by (auto simp: clock_ok_def)
  ultimately have "FIRST_INSTANT \<le> now 10" "now 10 + ttl * 60 * MICROS < END_INSTANT" "1 \<le> ttl"
    "ttl \<le> MAX_TEST_TOKEN_TTL_MINUTES" by auto
  with g show ?thesis unfolding grant_times_def grant_methods_def by blast
qed

lemma ensure_account_effect:
  assumes "ensure_account now aid by st0 = (st1, pre)"
  shows "rc_test_tokens st1 = rc_test_tokens st0"
    and "tbl_get (rc_test_accounts st0) aid \<noteq> None \<Longrightarrow> st1 = st0"
    and "remote_ok st0 \<Longrightarrow> remote_ok st1"
    and "rc_test_accounts st1 = rc_test_accounts st0 \<or>
      (\<exists>acct. rc_test_accounts st1 = tbl_upsert (py_strip aid) acct (rc_test_accounts st0))"
proof -
  obtain s r where rec: "record_remote_testing_account_status (\<lambda>k. now (k + 1)) aid ''Tank/MSI gateway test account''
      ''windows'' ''tank-msi'' [''*''] [''*''] [''*''] ''owner'' True by st0 = (s, r)"
    by fastforce
  have cases: "st1 = st0 \<or> tbl_get (rc_test_accounts st0) aid = None \<and> st1 = s"
    using assms rec unfolding ensure_account_def by (auto split: option.splits)
  show "rc_test_tokens st1 = rc_test_tokens st0" using cases account_effect [OF rec] by auto
  show "tbl_get (rc_test_accounts st0) aid \<noteq> None \<Longrightarrow> st1 = st0" using cases by auto
  show "remote_ok st1" if "remote_ok st0" using cases remote_ok_account [OF that rec] that by auto
  show "rc_test_accounts st1 = rc_test_accounts st0 \<or>
      (\<exists>acct. rc_test_accounts st1 = tbl_upsert (py_strip aid) acct (rc_test_accounts st0))"
    using cases account_effect [OF rec] by auto
qed

lemma issue_token_effect:
  assumes "clock_ok now"
    and "issue_remote_testing_token_status str_of now sha256 hex urlsafe proot aid a st0 = (st', r)"
  obtains st1 pre where "ensure_account now aid (ar_issued_by a) st0 = (st1, pre)" "st' = st0 \<or> st' = st1 \<or>
    (\<exists>g. rc_test_tokens st' = tbl_upsert (tg_token_id g) g (rc_test_tokens st1) \<and>
      rc_test_accounts st' = rc_test_accounts st1 \<and> length (rc_test_auth_events st') \<le> 200 \<and>
      grant_times g \<and> grant_methods g \<and> (\<exists>acct. tbl_get (rc_test_accounts st1) aid = Some acct \<and> ta_enabled acct))"
proof -
  obtain st1 pre where e: "ensure_account now aid (ar_issued_by a) st0 = (st1, pre)" by fastforce
  show ?thesis
  proof (cases "ar_ttl_minutes a \<le> 0")
    case True
    with assms(2) e that show ?thesis by (simp add: issue_remote_testing_token_status_def)
  next
    case False
    let ?enabled = "case tbl_get (rc_test_accounts st1) aid of None \<Rightarrow> False | Some account \<Rightarrow> ta_enabled account"
    let ?r = "res_bind pre (\<lambda>_. if \<not> ?enabled then Inl (ValueError ''remote testing account is disabled'')
        else build_test_grant str_of now sha256 hex (TEST_TOKEN_PREFIX @ urlsafe) proot aid a (with_default_profile (now 5) st1))"
    show ?thesis
    proof (cases ?r)
      case (Inl e')
      with assms(2) e that False show ?thesis by (simp add: issue_remote_testing_token_status_def)
    next
      case (Inr gp)
      obtain g p where gp: "gp = (g, p)" by (cases gp)
      with Inr have en: ?enabled and b: "build_test_grant str_of now sha256 hex (TEST_TOKEN_PREFIX @ urlsafe) proot aid a
          (with_default_profile (now 5) st1) = Inr (g, p)"
        by (auto simp: res_bind_Inr_iff split: if_splits)
      from Inr gp assms(2) e False have "rc_test_tokens st' = tbl_upsert (tg_token_id g) g (rc_test_tokens st1)"
        "rc_test_accounts st' = rc_test_accounts st1" "length (rc_test_auth_events st') \<le> 200"
        by (auto simp: issue_remote_testing_token_status_def)
      moreover have "grant_times g" "grant_methods g" using build_test_grant_Inr [OF assms(1) _ b] False by auto
      ultimately show ?thesis using that [OF e] en by (auto split: option.splits)
    qed
  qed
qed

lemma remote_ok_issue:
  assumes "remote_ok st0" "clock_ok now"
  shows "remote_ok (fst (issue_remote_testing_token_status str_of now sha256 hex urlsafe proot aid a st0))"
proof -
  obtain st' r where i: "issue_remote_testing_token_status str_of now sha256 hex urlsafe proot aid a st0 = (st', r)"
    by fastforce
  obtain st1 pre where e: "ensure_account now aid (ar_issued_by a) st0 = (st1, pre)" and c: "st' = st0 \<or> st' = st1 \<or>
    (\<exists>g. rc_test_tokens st' = tbl_upsert (tg_token_id g) g (rc_test_tokens st1) \<and>
      rc_test_accounts st' = rc_test_accounts st1 \<and> length (rc_test_auth_events st') \<le> 200 \<and>
      grant_times g \<and> grant_methods g \<and> (\<exists>acct. tbl_get (rc_test_accounts st1) aid = Some acct \<and> ta_enabled acct))"
    by (rule issue_token_effect [OF assms(2) i])
  have st1: "remote_ok st1" by (rule ensure_account_effect(3) [OF e assms(1)])
  from c have "remote_ok st'"
  proof (elim disjE exE conjE)
    fix g
    assume "rc_test_tokens st' = tbl_upsert (tg_token_id g) g (rc_test_tokens st1)"
      "rc_test_accounts st' = rc_test_accounts st1" "length (rc_test_auth_events st') \<le> 200" "grant_times g" "grant_methods g"
    then show ?thesis by (intro remote_ok_update [OF st1]) blast+
  qed (use assms(1) st1 in simp_all)
  then show ?thesis using i by simp
qed

lemma remote_ok_revoke:
  assumes "remote_ok st0"
  shows "remote_ok (fst (revoke_remote_testing_token_status now proot tid by reason st0))"
proof (cases "tbl_get (rc_test_tokens st0) tid")
  case None
  with assms show ?thesis by (simp add: revoke_remote_testing_token_status_def Let_def)
next
  case (Some g)
  define g' where "g' = g\<lparr>tg_status := ''revoked'', tg_revoked_by := Some by,
    tg_revoked_at := Some (isoformat_utc (now 1)), tg_revoke_reason := Some reason\<rparr>"
  have "tg_token_id g = tid" "grant_times g" "grant_methods g" using assms Some by (auto simp: remote_ok_def)
  then have g': "tg_token_id g' = tid" "grant_times g'" "grant_methods g'"
    by (simp_all add: g'_def grant_times_def grant_methods_def)
  let ?st = "fst (revoke_remote_testing_token_status now proot tid by reason st0)"
  have "rc_test_tokens ?st = tbl_upsert tid g' (rc_test_tokens st0)" "rc_test_accounts ?st = rc_test_accounts st0"
    "length (rc_test_auth_events ?st) \<le> 200"
    using Some by (simp_all add: revoke_remote_testing_token_status_def g'_def Let_def)
  with g' show ?thesis by (intro remote_ok_update [OF assms]) auto
qed

lemma quiet_commands:
  "rc_test_tokens (fst (record_remote_testing_profile_status now profile st)) = rc_test_tokens st"
  "rc_test_accounts (fst (record_remote_testing_profile_status now profile st)) = rc_test_accounts st"
  "rc_test_auth_events (fst (record_remote_testing_profile_status now profile st)) = rc_test_auth_events st"
  "rc_test_tokens (fst (request_remote_testing_lease_status now lid project purpose by types ttl prio pid st)) = rc_test_tokens st"
  "rc_test_accounts (fst (request_remote_testing_lease_status now lid project purpose by types ttl prio pid st)) = rc_test_accounts st"
  "rc_test_auth_events (fst (request_remote_testing_lease_status now lid project purpose by types ttl prio pid st)) = rc_test_auth_events st"
  "rc_test_tokens (fst (enqueue_remote_test_job_status now lid type jargs st)) = rc_test_tokens st"
  "rc_test_accounts (fst (enqueue_remote_test_job_status now lid type jargs st)) = rc_test_accounts st"
  "rc_test_auth_events (fst (enqueue_remote_test_job_status now lid type jargs st)) = rc_test_auth_events st"
  by (auto simp: record_remote_testing_profile_status_def request_remote_testing_lease_status_def
    enqueue_remote_test_job_status_def Let_def split: sum.split)

lemma remote_ok_step:
  assumes "remote_ok st" "remote_step may_record st st'"
  shows "remote_ok st'"
  using assms(2)
proof cases
  case step_account
  then show ?thesis using remote_ok_account [OF assms(1)] by (metis prod.collapse)
qed (use assms(1) in \<open>auto simp: remote_ok_def [of st] quiet_commands intro: remote_ok_validate remote_ok_issue remote_ok_revoke remote_ok_same [OF assms(1)]\<close>)

lemma remote_ok_empty: "remote_ok empty_control"
  by (simp add: remote_ok_def empty_control_def)

interpretation remote_inv: step_invariant "\<lambda>st. st = empty_control" "remote_step may_record" remote_ok
  using remote_ok_empty remote_ok_step by unfold_locales auto

section \<open>Authorization\<close>

lemma validate_Authorized:
  assumes "validate_remote_testing_token str_of now sha256 raw m rp np st = (st', Inr (Authorized a))"
  obtains g acct where "find (\<lambda>g. tg_token_hash g = ''sha256:'' @ sha256 raw) (map snd (rc_test_tokens st)) = Some g"
    "tbl_get (rc_test_accounts st) (tg_account_id g) = Some acct" "ta_enabled acct" "tg_status g = ''active''"
    "is_expired_at (now 1) (tg_expires_at g) = Inr False" "scope_denial str_of g (py_upper m) rp np = Inr None"
    "au_token_id a = tg_token_id g" "au_account_id a = tg_account_id g" "au_mutates a = tg_mutates g"
  using assms that unfolding validate_remote_testing_token_def
  by (auto simp: Let_def split: if_splits option.splits sum.splits bool.splits)

lemma is_expired_before:
  assumes "grant_times g" "is_expired_at clock (tg_expires_at g) = Inr False"
  obtains t where "tg_issued_at g = isoformat_utc t" "clock < t + MAX_TEST_TOKEN_TTL_MINUTES * 60 * MICROS"
proof -
  obtain t ttl where t: "FIRST_INSTANT \<le> t" "t + ttl * 60 * MICROS < END_INSTANT" "1 \<le> ttl"
    "ttl \<le> MAX_TEST_TOKEN_TTL_MINUTES" "tg_issued_at g = isoformat_utc t"
    "tg_expires_at g = isoformat_utc (t + ttl * 60 * MICROS)"
    using assms(1) unfolding grant_times_def by blast
  have "FIRST_INSTANT \<le> t + ttl * 60 * MICROS" using t(1,3) by (simp add: MICROS_def)
  then have "fromisoformat (replace_char CHR ''Z'' ''+00:00'' (tg_expires_at g)) =
      Inr \<lparr>dt_wall = t + ttl * 60 * MICROS, dt_offset = Some 0\<rparr>"
    using t(2,6) by (simp add: fromisoformat_isoformat_utc replace_char_id Z_not_in_isoformat)
  with assms(2) have "clock < t + ttl * 60 * MICROS" by (simp add: is_expired_at_def)
  moreover have "ttl * 60 * MICROS \<le> MAX_TEST_TOKEN_TTL_MINUTES * 60 * MICROS" using t(4) by (simp add: MICROS_def)
  ultimately show ?thesis using that [OF t(5)] by simp
qed

lemma scope_items_exact: "scope_items False seen vs = Inr xs \<Longrightarrow> ''*'' \<notin> set seen \<Longrightarrow> ''*'' \<notin> set xs"
  by (induction vs arbitrary: seen) (auto simp: Let_def split: if_splits)

lemma normalized_scope_exact: "normalized_scope_list vs False = Inr xs \<Longrightarrow> ''*'' \<notin> set xs"
  using scope_items_exact [of "[]"] by (auto simp: normalized_scope_list_def res_bind_Inr_iff split: if_splits)

lemma read_only_grant:
  "grant_methods g \<Longrightarrow> \<not> tg_mutates g \<Longrightarrow> set (tg_allowed_methods g) \<subseteq> set READ_METHODS"
  by (auto simp: grant_methods_def check_mutation_scope_def list_ex_iff split: if_splits)

definition write_scope :: "(pyval \<Rightarrow> string) \<Rightarrow> TestGrant \<Rightarrow> string list result" where
  "write_scope str_of g =
     res_bind (iter_strings str_of (scope_get (tg_mutation_scope g) ''allowed_methods'' ''methods''))
       (\<lambda>ms. normalized_scope_list ms False)"

lemma mutation_scope_methods:
  assumes "mutation_scope_allowed str_of g m rp np = Inr True"
  obtains methods where "write_scope str_of g = Inr methods" "py_upper m \<in> set methods" "''*'' \<notin> set methods"
  using assms that normalized_scope_exact
  by (auto simp: mutation_scope_allowed_def write_scope_def res_bind_Inr_iff Let_def)

lemma py_upper_idem: "py_upper (py_upper m) = py_upper m"
proof -
  define up where "up = (\<lambda>c. let n = (of_char c :: nat) in
     if (97 \<le> n \<and> n \<le> 122) \<or> (224 \<le> n \<and> n \<le> 254 \<and> n \<noteq> 247) then [char_of (n - 32)]
     else if n = 223 then ''SS'' else [c])"
  have nat: "of_char (char_of k :: char) = k" if "k < 256" for k :: nat
    using that by simp
  have up: "concat (map up (up c)) = up c" for c
    by (auto simp: up_def Let_def nat)
  have "concat (map up (concat (map up s))) = concat (map up s)" for s
    by (induction s) (simp_all add: up)
  then show ?thesis by (simp add: py_upper_def up_def)
qed


definition sample_args :: token_args where
  "sample_args = \<lparr>ar_lease_id = None, ar_job_id = None, ar_project = ''p'', ar_thread_id = None,
     ar_service_paths = [''/a''], ar_gateway_origins = [''*''], ar_allowed_methods = [''get'', ''post''],
     ar_allowed_routes = [''/a/:x''], ar_ttl_minutes = 500, ar_mutates = True,
     ar_mutation_scope = [(''methods'', PList [PStr ''POST'']), (''routes'', PList [PStr ''/a/b''])], ar_issued_by = ''q''\<rparr>"

definition sample_clock :: "nat \<Rightarrow> int" where
  "sample_clock k = FIRST_INSTANT"

definition sample_issued :: "RemoteControl \<times> TestGrant result" where
  "sample_issued = issue_remote_testing_token_status (\<lambda>_. []) sample_clock id ''0'' ''s'' [] ''acct'' sample_args empty_control"

lemma clock_ok_sample: "clock_ok sample_clock"
  by (simp add: clock_ok_def sample_clock_def FIRST_INSTANT_def END_INSTANT_def MAX_TEST_TOKEN_TTL_MINUTES_def MICROS_def
    DAY_MICROS_def LAST_ORDINAL_def)

lemma reach_sample: "reach (\<lambda>st. st = empty_control) (remote_step (\<lambda>_. True)) (fst sample_issued)"
  unfolding sample_issued_def
  by (rule reach_step [OF reach_init]) (auto intro: step_issue clock_ok_sample)

definition sample_request :: "string \<Rightarrow> string \<Rightarrow> RemoteControl \<times> auth_result result" where
  "sample_request m route = validate_remote_testing_token (\<lambda>_. []) sample_clock id ''qrt_s'' m route route (fst sample_issued)"

lemma sample_post: "case snd (sample_request ''post'' ''/a/b'') of Inr (Authorized a) \<Rightarrow> au_account_id a = ''acct'' | _ \<Rightarrow> False"
  by code_simp


section \<open>The lock-out after a scope violation\<close>

lemma validate_violation:
  assumes "validate_remote_testing_token str_of now sha256 raw m rp np st = (st', Inr (Denied reason))"
    "reason \<in> set SCOPE_VIOLATIONS"
    "find (\<lambda>g. tg_token_hash g = ''sha256:'' @ sha256 raw) (map snd (rc_test_tokens st)) = Some g"
  obtains acct m' where "tbl_get (rc_test_accounts st) (tg_account_id g) = Some acct"
    "st' = auth_denied now (Some (tg_account_id g)) (Some (tg_token_id g)) reason m' rp (with_default_profile (now 0) st)"
proof -
  have "''token_'' @ s \<notin> set SCOPE_VIOLATIONS" "''account_disabled'' \<notin> set SCOPE_VIOLATIONS"
    "''token_expired'' \<notin> set SCOPE_VIOLATIONS" for s
    by (simp_all add: SCOPE_VIOLATIONS_def)
  then show ?thesis
    using assms that unfolding validate_remote_testing_token_def
    by (auto simp: Let_def split: if_splits option.splits sum.splits bool.splits)
qed

definition disabled_in :: "string \<Rightarrow> RemoteControl \<Rightarrow> bool" where
  "disabled_in aid st \<longleftrightarrow> (\<exists>acct. tbl_get (rc_test_accounts st) aid = Some acct \<and> \<not> ta_enabled acct)"

lemma disabled_in_same: "disabled_in aid st \<Longrightarrow> rc_test_accounts st' = rc_test_accounts st \<Longrightarrow> disabled_in aid st'"
  by (simp add: disabled_in_def)

lemma disabled_in_validate:
  assumes "remote_ok st0" "disabled_in aid st0"
  shows "disabled_in aid (fst (validate_remote_testing_token str_of now sha256 raw m rp np st0))"
proof -
  define st where "st = with_default_profile (now 0) st0"
  have st: "disabled_in aid st" using disabled_in_same [OF assms(2)] by (simp add: st_def)
  have denied: "disabled_in aid (auth_denied now a tk reason m' p s)" if "rc_test_accounts s = rc_test_accounts st" for a tk reason m' p s
  proof -
    have "tbl_ok (rc_test_accounts s)" using assms(1) that by (simp add: st_def remote_ok_def)
    with st that show ?thesis
      by (auto simp: disabled_in_def auth_denied_accounts tb.get_put split: option.split)
  qed
  show ?thesis
    unfolding validate_remote_testing_token_def st_def [symmetric] Let_def
    using assms denied disabled_in_same [OF st]
    by (auto split: option.split sum.split bool.split)
qed

lemma revoke_accounts:
  "rc_test_accounts (fst (revoke_remote_testing_token_status now proot tid rby reason st)) = rc_test_accounts st"
  by (simp add: revoke_remote_testing_token_status_def Let_def split: option.split)

lemma disabled_in_step:
  assumes "remote_ok st" "disabled_in aid st" "remote_step (\<lambda>x. x \<noteq> aid) st st'"
  shows "disabled_in aid st'"
  using assms(3)
proof cases
  case (step_account id now name kind agent projects paths origins princ en rby)
  obtain r where rec: "record_remote_testing_account_status now id name kind agent projects paths origins princ en rby st = (st', r)"
    using step_account(1) by (metis prod.collapse)
  from account_effect [OF rec] step_account(2) assms(1,2) show ?thesis
    by (auto simp: disabled_in_def remote_ok_def tb.get_put)
next
  case (step_issue now id str_of sha256 hex urlsafe proot args)
  obtain r where i: "issue_remote_testing_token_status str_of now sha256 hex urlsafe proot id args st = (st', r)"
    using step_issue(1) by (metis prod.collapse)
  obtain st1 pre where e: "ensure_account now id (ar_issued_by args) st = (st1, pre)" and
    c: "st' = st \<or> st' = st1 \<or> rc_test_accounts st' = rc_test_accounts st1"
    using issue_token_effect [OF step_issue(2) i] by metis
  have "disabled_in aid st1"
  proof (cases "tbl_get (rc_test_accounts st) id")
    case None
    then have "py_strip id \<noteq> aid" using step_issue(3) by simp
    then show ?thesis using ensure_account_effect(4) [OF e] assms(1,2)
      by (auto simp: disabled_in_def remote_ok_def tb.get_put)
  qed (use ensure_account_effect(2) [OF e] assms(2) in simp)
  with c assms(2) show ?thesis by (auto intro: disabled_in_same)
qed (use assms disabled_in_validate in \<open>auto simp: quiet_commands revoke_accounts intro: disabled_in_same [OF assms(2)]\<close>)

lemma disabled_in_steps:
  "(remote_step (\<lambda>x. x \<noteq> aid))\<^sup>*\<^sup>* st st' \<Longrightarrow> remote_ok st \<Longrightarrow> disabled_in aid st \<Longrightarrow> disabled_in aid st'"
  by (induction rule: converse_rtranclp_induct) (auto intro: disabled_in_step remote_ok_step)

text \<open>C36: A scope violation locks the account out. Once a request was denied for leaving its token's scope, no
  token of that account authorizes any request, whatever commands run in between, until the account is
  recorded again.\<close>

theorem scope_violation_locks_account:
  assumes "reach (\<lambda>st. st = empty_control) (remote_step may_record) st"
    "find (\<lambda>g. tg_token_hash g = ''sha256:'' @ sha256 raw) (map snd (rc_test_tokens st)) = Some g"
    "validate_remote_testing_token str_of now sha256 raw m rp np st = (st1, Inr (Denied reason))"
    "reason \<in> set SCOPE_VIOLATIONS"
    "(remote_step (\<lambda>x. x \<noteq> tg_account_id g))\<^sup>*\<^sup>* st1 st2"
    "snd (validate_remote_testing_token str_of' now' sha256' raw' m' rp' np' st2) = Inr (Authorized a)"
  shows "au_account_id a \<noteq> tg_account_id g"
proof -
  have ok: "remote_ok st" by (rule remote_inv.inv_reach [OF assms(1)])
  obtain acct m'' where acct: "tbl_get (rc_test_accounts st) (tg_account_id g) = Some acct"
    "st1 = auth_denied now (Some (tg_account_id g)) (Some (tg_token_id g)) reason m'' rp (with_default_profile (now 0) st)"
    by (rule validate_violation [OF assms(3,4,2)])
  then have "disabled_in (tg_account_id g) st1"
    using ok assms(4)
    by (auto simp: disabled_in_def auth_denied_accounts remote_ok_def account_ok_def str_true_def tb.get_put split: option.split)
  moreover have "remote_ok st1" using remote_ok_step [OF ok step_validate] assms(3) by (metis fst_conv)
  ultimately have "disabled_in (tg_account_id g) st2" using disabled_in_steps [OF assms(5)] by blast
  moreover obtain st3 where "validate_remote_testing_token str_of' now' sha256' raw' m' rp' np' st2 = (st3, Inr (Authorized a))"
    using assms(6) by (metis prod.collapse)
  ultimately show ?thesis using validate_Authorized by (metis disabled_in_def option.inject)
qed

lemma sample_violation: "snd (sample_request ''post'' ''/a/c'') = Inr (Denied ''mutation_scope_not_allowed'')"
  by code_simp

definition sample_second :: "RemoteControl \<times> TestGrant result" where
  "sample_second = issue_remote_testing_token_status (\<lambda>_. []) sample_clock id ''0'' ''s2'' [] ''other'' sample_args
     (fst (sample_request ''post'' ''/a/c''))"

definition sample_second_post :: "RemoteControl \<times> auth_result result" where
  "sample_second_post = validate_remote_testing_token (\<lambda>_. []) sample_clock id ''qrt_s2'' ''post'' ''/a/b'' ''/a/b'' (fst sample_second)"

lemma sample_second_authorized: "case snd sample_second_post of Inr (Authorized a) \<Rightarrow> True | _ \<Rightarrow> False"
  by code_simp

lemma sample_grant: "\<exists>g. find (\<lambda>g. tg_token_hash g = ''sha256:'' @ id ''qrt_s'') (map snd (rc_test_tokens (fst sample_issued))) = Some g \<and>
    tg_account_id g = ''acct''"
proof -
  have "case find (\<lambda>g. tg_token_hash g = ''sha256:'' @ id ''qrt_s'') (map snd (rc_test_tokens (fst sample_issued))) of
    Some g \<Rightarrow> tg_account_id g = ''acct'' | None \<Rightarrow> False" by code_simp
  then show ?thesis by (auto split: option.splits)
qed

theorem scope_violation_locks_account_witness:
  "\<exists>a. snd (sample_request ''post'' ''/a/c'') = Inr (Denied ''mutation_scope_not_allowed'') \<and>
     snd sample_second_post = Inr (Authorized a) \<and> au_account_id a \<noteq> ''acct''"
proof -
  obtain a where a: "snd sample_second_post = Inr (Authorized a)"
    using sample_second_authorized by (auto split: sum.splits auth_result.splits)
  obtain g where g: "find (\<lambda>g. tg_token_hash g = ''sha256:'' @ id ''qrt_s'') (map snd (rc_test_tokens (fst sample_issued))) = Some g"
    "tg_account_id g = ''acct''" using sample_grant by blast
  have v: "validate_remote_testing_token (\<lambda>_. []) sample_clock id ''qrt_s'' ''post'' ''/a/c'' ''/a/c'' (fst sample_issued) =
      (fst (sample_request ''post'' ''/a/c''), Inr (Denied ''mutation_scope_not_allowed''))"
    using sample_violation unfolding sample_request_def by (metis prod.collapse)
  have "py_strip ''other'' \<noteq> ''acct''" by code_simp
  then have "remote_step (\<lambda>x. x \<noteq> tg_account_id g) (fst (sample_request ''post'' ''/a/c'')) (fst sample_second)"
    unfolding sample_second_def by (intro step_issue clock_ok_sample) (simp add: g(2))
  then have "(remote_step (\<lambda>x. x \<noteq> tg_account_id g))\<^sup>*\<^sup>* (fst (sample_request ''post'' ''/a/c'')) (fst sample_second)" ..
  then show ?thesis
    using scope_violation_locks_account [OF reach_sample g(1) v _ _ a [unfolded sample_second_post_def]] a sample_violation g(2)
    by (simp add: SCOPE_VIOLATIONS_def)
qed

definition sample_padded :: "RemoteControl \<times> TestGrant result" where
  "sample_padded = issue_remote_testing_token_status (\<lambda>_. []) sample_clock id ''1'' ''s3'' [] '' acct'' sample_args
     (fst (sample_request ''post'' ''/a/c''))"

text \<open>Padding an account id lifts the lock-out: after a scope violation disabled an account, asking for a
  token under its id with a leading space fails, but records the account anew and leaves it enabled, and
  the old token authorizes again.\<close>

theorem padded_account_id_lifts_lockout:
  "map_option ta_enabled (tbl_get (rc_test_accounts (fst (sample_request ''post'' ''/a/c''))) ''acct'') = Some False \<and>
   snd sample_padded = Inl (ValueError ''remote testing account is disabled'') \<and>
   map_option ta_enabled (tbl_get (rc_test_accounts (fst sample_padded)) ''acct'') = Some True \<and>
   (case snd (validate_remote_testing_token (\<lambda>_. []) sample_clock id ''qrt_s'' ''get'' ''/a/b'' ''/a/b'' (fst sample_padded)) of
      Inr (Authorized a) \<Rightarrow> au_account_id a = ''acct'' | _ \<Rightarrow> False)"
  by code_simp

end
