(* ===== verification/Agent_Runs.thy ===== *)
theory Agent_Runs
  imports Agent_Manager
begin

text \<open>
  Concurrent runs of the operation coordinator. Callers share the store; each call is cut at the points
  where other callers can run: accepting, completing and recording read first and write later, every
  other operation is one transaction. \<open>ow_calls\<close> holds the writes of the calls that have read.
\<close>

section \<open>Steps\<close>

datatype op_call =
    Accepting AgentDispatchRequest
  | Completing AgentDispatchRequest
  | Recording AgentDispatchResult "AgentDispatchRequest option"

record op_world =
  ow_store :: AgentStore
  ow_calls :: "op_call list"

text \<open>The write of a call that has read.\<close>

fun call_write :: "op_call \<Rightarrow> AgentStore \<Rightarrow> AgentStore" where
  "call_write (Accepting d) st = fst (save_agent_dispatch d st)"
| "call_write (Completing d) st = fst (save_agent_dispatch d st)"
| "call_write (Recording r update) st =
     (case save_agent_dispatch_result r st of
        (st1, Inl _) \<Rightarrow> st1
      | (st1, Inr _) \<Rightarrow> (case update of None \<Rightarrow> st1 | Some d \<Rightarrow> fst (save_agent_dispatch d st1)))"

fun call_dispatch :: "op_call \<Rightarrow> AgentDispatchRequest option" where
  "call_dispatch (Accepting d) = Some d"
| "call_dispatch (Completing d) = Some d"
| "call_dispatch (Recording r update) = update"

definition fresh_id :: "string \<Rightarrow> op_world \<Rightarrow> bool" where
  "fresh_id i w \<longleftrightarrow> tbl_get (as_dispatches (ow_store w)) i = None \<and>
     (\<forall>d. Accepting d \<in> set (ow_calls w) \<longrightarrow> dq_id d \<noteq> i)"

text \<open>
  \<open>results\<close> restricts the states providers return, \<open>may_release\<close> the reservations that may be released.
  A dispatch id is fresh when its dispatch is accepted, and claiming passes the accepted request.
\<close>

inductive op_step ::
  "(AgentOperationState \<Rightarrow> bool) \<Rightarrow> (AgentOperationReservation \<Rightarrow> bool) \<Rightarrow> op_world \<Rightarrow> op_world \<Rightarrow> bool"
  for results may_release where
  step_reserve: "op_step results may_release w (w\<lparr>ow_store := fst (reserve clock i owner (ow_store w))\<rparr>)"
| step_release: "may_release r \<Longrightarrow>
    op_step results may_release w (w\<lparr>ow_store := fst (release clock r (ow_store w))\<rparr>)"
| step_accept_refused: "accept_begin clock d (ow_store w) = (st, Inl e) \<Longrightarrow>
    op_step results may_release w (w\<lparr>ow_store := st\<rparr>)"
| step_accept: "fresh_id (dq_id d) w \<Longrightarrow> accept_begin clock d (ow_store w) = (st, Inr accepted) \<Longrightarrow>
    op_step results may_release w (w\<lparr>ow_store := st, ow_calls := Accepting accepted # ow_calls w\<rparr>)"
| step_claim: "(\<forall>cur. tbl_get (as_dispatches (ow_store w)) (dq_id d) = Some cur \<longrightarrow> dq_instance_id d = dq_instance_id cur) \<Longrightarrow>
    op_step results may_release w (w\<lparr>ow_store := fst (claim_dispatch_execution d (ow_store w))\<rparr>)"
| step_complete: "results (dr_state r) \<Longrightarrow> complete_begin d r (ow_store w) = Inr (Inr completed) \<Longrightarrow>
    op_step results may_release w (w\<lparr>ow_calls := Completing completed # ow_calls w\<rparr>)"
| step_record: "results (dr_state r) \<Longrightarrow> record_begin r (ow_store w) = Inr (recorded, update) \<Longrightarrow>
    op_step results may_release w (w\<lparr>ow_calls := Recording recorded update # ow_calls w\<rparr>)"
| step_write: "c \<in> set (ow_calls w) \<Longrightarrow>
    op_step results may_release w (w\<lparr>ow_store := call_write c (ow_store w), ow_calls := remove1 c (ow_calls w)\<rparr>)"
| step_quarantine: "op_step results may_release w (w\<lparr>ow_store := fst (quarantine_result new_id r reason (ow_store w))\<rparr>)"
| step_cancel_unclaimed: "op_step results may_release w (w\<lparr>ow_store := fst (cancel_unclaimed r (ow_store w))\<rparr>)"
| step_cancel_inflight: "op_step results may_release w (w\<lparr>ow_store := fst (cancel_inflight sel msg r (ow_store w))\<rparr>)"
| step_begin_transition: "op_step results may_release w (w\<lparr>ow_store := fst (begin_agent_transition t (ow_store w))\<rparr>)"
| step_save_transition: "op_step results may_release w (w\<lparr>ow_store := fst (save_agent_transition t (ow_store w))\<rparr>)"
| step_save_session: "op_step results may_release w (w\<lparr>ow_store := fst (save_agent_session s (ow_store w))\<rparr>)"
| step_save_epoch: "op_step results may_release w (w\<lparr>ow_store := fst (save_driver_epoch e (ow_store w))\<rparr>)"
| step_save_handoff: "op_step results may_release w (w\<lparr>ow_store := fst (save_agent_handoff h (ow_store w))\<rparr>)"
| step_activate: "op_step results may_release w
    (w\<lparr>ow_store := fst (reserve_agent_activation julianday i rid owner started expires retry observed (ow_store w))\<rparr>)"
| step_finish_activation: "op_step results may_release w
    (w\<lparr>ow_store := fst (finish_agent_activation i rid owner g state epoch reason (ow_store w))\<rparr>)"

section \<open>Effects on the store\<close>

lemma stored_dispatch_sel:
  assumes "stored_dispatch d = Inr d'"
  shows "dq_id d' = dq_id d" "dq_instance_id d' = dq_instance_id d" "dq_idempotency_key d' = dq_idempotency_key d"
    "agent_dispatch_post_init d' = Inr ()" "sanitize_mapping (dq_evidence d) = Inr (dq_evidence d')"
    "dq_prompt d' = REDACTED_DISPATCH_PROMPT"
  using assms by (auto simp: stored_dispatch_def res_bind_Inr_iff Let_def)

lemma stored_status:
  assumes "stored_dispatch d = Inr d'" "dispatch_status d = PStr s"
  shows "dispatch_status d' = PStr s"
  using sanitize_mapping_get [OF stored_dispatch_sel(5) [OF assms(1)], of "''status''"] assms(2)
  by (auto simp: dispatch_status_def ev_get_def split: option.splits dest!: sanitize_status_cases)

lemma stored_generation:
  assumes "stored_dispatch d = Inr d'" "ev_get (dq_evidence d) ''operation_generation'' = PInt g"
  shows "ev_get (dq_evidence d') ''operation_generation'' = PInt g"
  using sanitize_mapping_get [OF stored_dispatch_sel(5) [OF assms(1)], of "''operation_generation''"] assms(2)
  by (auto simp: ev_get_def sanitize_generation split: option.splits)

definition same_key :: "AgentDispatchRequest \<Rightarrow> AgentDispatchRequest \<Rightarrow> bool" where
  "same_key d x \<longleftrightarrow> dq_instance_id x = dq_instance_id d \<and> dq_idempotency_key x = dq_idempotency_key d"

lemma no_collision:
  assumes "reject_agent_secondary_collision (\<lambda>r. dq_instance_id r = dq_instance_id d \<and> dq_idempotency_key r = dq_idempotency_key d)
      i label t = Inr ()" "tbl_get t i = None"
  shows "\<forall>(k, x) \<in> set t. \<not> same_key d x"
proof (cases "find (\<lambda>(k, r). dq_instance_id r = dq_instance_id d \<and> dq_idempotency_key r = dq_idempotency_key d) t")
  case None
  then show ?thesis by (auto simp: find_None_iff same_key_def)
next
  case (Some p)
  obtain k x where p: "p = (k, x)" by (cases p)
  with assms(1) Some have "k = i" by (auto simp: reject_agent_secondary_collision_def split: if_splits)
  moreover have "(k, x) \<in> set t" using find_in_set [OF Some] p by simp
  ultimately show ?thesis using assms(2) by (force simp: tbl_get_def map_of_eq_None_iff)
qed

lemma save_agent_dispatch_cases:
  assumes "save_agent_dispatch d st = (st', r)"
  obtains (unchanged) e where "st' = st" "r = Inl e"
  | (inserted) d' where "stored_dispatch d = Inr d'" "tbl_get (as_dispatches st) (dq_id d) = None"
      "\<not> agent_dispatch_transition_fence st d'" "r = Inr ()"
      "\<forall>(k, x) \<in> set (as_dispatches st). \<not> same_key d x"
      "st' = st\<lparr>as_dispatches := tbl_upsert (dq_id d) d' (as_dispatches st)\<rparr>"
  | (updated) d' old where "stored_dispatch d = Inr d'" "tbl_get (as_dispatches st) (dq_id d) = Some old"
      "same_dispatch old d'" "r = Inr ()" "st' = st\<lparr>as_dispatches := tbl_upsert (dq_id d) d' (as_dispatches st)\<rparr>"
proof (cases r)
  case (Inl e)
  with assms unchanged show ?thesis by (simp add: save_agent_dispatch_def split: sum.splits)
next
  case (Inr u)
  then obtain t where t: "save_agent_record ''agent_dispatches'' dq_id same_dispatch (agent_dispatch_transition_fence st)
      (stored_dispatch d) (as_dispatches st) = Inr t" "st' = st\<lparr>as_dispatches := t\<rparr>"
    and rej: "reject_agent_secondary_collision (\<lambda>r. dq_instance_id r = dq_instance_id d \<and> dq_idempotency_key r = dq_idempotency_key d)
      (dq_id d) ''dispatch idempotency key'' (as_dispatches st) = Inr ()"
    using assms by (auto simp: save_agent_dispatch_def res_bind_def split: sum.splits)
  then obtain d' where d': "stored_dispatch d = Inr d'" by (auto simp: save_agent_record_def res_bind_Inr_iff)
  note id = stored_dispatch_sel(1) [OF d']
  show ?thesis
  proof (cases "tbl_get (as_dispatches st) (dq_id d)")
    case None
    with t d' id Inr no_collision [OF rej None] show ?thesis
      by (intro inserted [of d']) (auto simp: save_agent_record_def split: if_splits)
  next
    case (Some old)
    with t d' id Inr show ?thesis by (intro updated [of d' old]) (auto simp: save_agent_record_def split: if_splits)
  qed
qed

text \<open>No write of a dispatch touches the fences; no operation on fences touches the dispatches.\<close>

lemma save_agent_dispatch_sel [simp]:
  "as_operations (fst (save_agent_dispatch d st)) = as_operations st"
  "as_transitions (fst (save_agent_dispatch d st)) = as_transitions st"
  by (simp_all add: save_agent_dispatch_def split: sum.split)

lemma save_agent_dispatch_result_sel [simp]:
  "as_operations (fst (save_agent_dispatch_result r st)) = as_operations st"
  "as_dispatches (fst (save_agent_dispatch_result r st)) = as_dispatches st"
  "as_transitions (fst (save_agent_dispatch_result r st)) = as_transitions st"
  by (simp_all add: save_agent_dispatch_result_def split: sum.split)

lemma save_dispatches_sel [simp]:
  "as_operations (fst (save_dispatches ds st)) = as_operations st"
  "as_transitions (fst (save_dispatches ds st)) = as_transitions st"
proof -
  have "as_operations (fst (save_dispatches ds st)) = as_operations st \<and>
    as_transitions (fst (save_dispatches ds st)) = as_transitions st"
  proof (induction ds arbitrary: st)
    case (Cons d ds)
    obtain st1 r where s: "save_agent_dispatch d st = (st1, r)" by fastforce
    then show ?case using Cons [of st1] save_agent_dispatch_sel [of d st] by (auto split: sum.split)
  qed simp
  then show "as_operations (fst (save_dispatches ds st)) = as_operations st"
    "as_transitions (fst (save_dispatches ds st)) = as_transitions st" by simp_all
qed

lemma save_frame:
  "save_agent_dispatch d st = (st', r) \<Longrightarrow> as_operations st' = as_operations st \<and> as_transitions st' = as_transitions st"
  using save_agent_dispatch_sel [of d st] by simp

lemma save_result_frame:
  "save_agent_dispatch_result d st = (st', r) \<Longrightarrow> as_operations st' = as_operations st \<and>
    as_transitions st' = as_transitions st \<and> as_dispatches st' = as_dispatches st"
  using save_agent_dispatch_result_sel [of d st] by simp

lemma save_all_frame:
  "save_dispatches ds st = (st', r) \<Longrightarrow> as_operations st' = as_operations st \<and> as_transitions st' = as_transitions st"
  using save_dispatches_sel [of ds st] by simp

lemma cancel_inflight_operations [simp]: "as_operations (fst (cancel_inflight sel msg r st)) = as_operations st"
  by (auto simp: cancel_inflight_def split: sum.split prod.split dest: save_all_frame)

lemma claim_operations [simp]: "as_operations (fst (claim_dispatch_execution d st)) = as_operations st"
  by (auto simp: claim_dispatch_execution_def Let_def split: sum.split prod.split dest!: save_frame)

lemma call_write_operations [simp]: "as_operations (call_write c st) = as_operations st"
  by (cases c) (auto split: sum.split prod.split option.split dest: save_result_frame)


text \<open>Operations on the fence.\<close>

lemma ensure_cases:
  assumes "ensure_agent_operation i t st = (st', r)"
  shows "as_dispatches st' = as_dispatches st \<and>
    (st' = st \<or> tbl_get (as_operations st) i = None \<and>
       (\<exists>op. st' = st\<lparr>as_operations := tbl_upsert i op (as_operations st)\<rparr> \<and> agent_operation_post_init op = Inr () \<and>
         or_instance_id op = i \<and> or_state op = Fence_OPEN \<and> or_owner_token op = None)) \<and>
    (\<forall>op. r = Inr op \<longrightarrow> tbl_get (as_operations st') i = Some op)"
  using assms
  by (auto simp: ensure_agent_operation_def load_agent_operation_def Let_def split: sum.splits option.splits)

lemma save_operation_cases:
  assumes "save_agent_operation op g s owner st = (st', r)"
  shows "st' = st \<and> isOK r = False \<or> isOK r \<and> st' = st\<lparr>as_operations := tbl_upsert (or_instance_id op) op (as_operations st)\<rparr> \<and>
    (\<exists>cur. tbl_get (as_operations st) (or_instance_id op) = Some cur \<and> or_generation cur = g \<and> or_state cur = s \<and>
       or_owner_token cur = owner)"
  using assms by (auto simp: save_agent_operation_def split: option.splits if_splits)

text \<open>What a step may do to the fence of an instance: create it open, close it, or open the next generation.\<close>

definition op_ok :: "string \<Rightarrow> AgentOperationReservation \<Rightarrow> bool" where
  "op_ok i op \<longleftrightarrow> or_instance_id op = i \<and> agent_operation_post_init op = Inr () \<and>
     (or_state op = Fence_OPEN \<longleftrightarrow> or_owner_token op = None)"

definition fence_change ::
  "(AgentOperationReservation \<Rightarrow> bool) \<Rightarrow> AgentOperationReservation option \<Rightarrow> AgentOperationReservation option \<Rightarrow> bool" where
  "fence_change may_release old new \<longleftrightarrow> new = old \<or>
     (\<exists>op'. new = Some op' \<and>
       (old = None \<or>
        (\<exists>op. old = Some op \<and> or_state op = Fence_OPEN \<and> or_generation op' = or_generation op) \<or>
        (\<exists>op r. old = Some op \<and> or_state op = Fence_FENCED \<and> or_generation op' = or_generation op + 1 \<and> may_release r \<and>
           or_instance_id r = or_instance_id op' \<and> or_generation r = or_generation op \<and> or_owner_token r = or_owner_token op)))"

definition ops_ok :: "AgentStore \<Rightarrow> bool" where
  "ops_ok st \<longleftrightarrow> tbl_ok (as_operations st) \<and> (\<forall>i op. tbl_get (as_operations st) i = Some op \<longrightarrow> op_ok i op)"

lemma ops_put:
  assumes "ops_ok st" "op_ok i op" "st' = st\<lparr>as_operations := tbl_upsert i op (as_operations st)\<rparr>"
  shows "ops_ok st'" "tbl_get (as_operations st') j = (if j = i then Some op else tbl_get (as_operations st) j)"
    "as_dispatches st' = as_dispatches st"
  using assms by (auto simp: ops_ok_def tb.get_put split: if_splits)

lemma ensure_ops:
  assumes "ops_ok st" "ensure_agent_operation i t st = (st', r)"
  shows "ops_ok st'" "as_dispatches st' = as_dispatches st"
    "tbl_get (as_operations st') j = tbl_get (as_operations st) j \<or> tbl_get (as_operations st) j = None \<and> j = i"
    "r = Inr op \<Longrightarrow> tbl_get (as_operations st') i = Some op"
proof -
  note e = ensure_cases [OF assms(2)]
  have "ops_ok st' \<and> (\<forall>j. tbl_get (as_operations st') j = tbl_get (as_operations st) j \<or> tbl_get (as_operations st) j = None \<and> j = i)"
  proof (cases "st' = st")
    case False
    then obtain op where "tbl_get (as_operations st) i = None" "op_ok i op"
      "st' = st\<lparr>as_operations := tbl_upsert i op (as_operations st)\<rparr>"
      using e by (auto simp: op_ok_def)
    with ops_put [OF assms(1), of i op st'] show ?thesis by simp
  qed (use assms(1) in simp)
  then show "ops_ok st'" "tbl_get (as_operations st') j = tbl_get (as_operations st) j \<or> tbl_get (as_operations st) j = None \<and> j = i"
    by blast+
  show "as_dispatches st' = as_dispatches st" "r = Inr op \<Longrightarrow> tbl_get (as_operations st') i = Some op" using e by auto
qed

lemma reserve_ops:
  assumes "ops_ok st" "reserve clock i owner st = (st', r)"
  shows "ops_ok st' \<and> as_dispatches st' = as_dispatches st \<and>
    (\<forall>j. fence_change may_release (tbl_get (as_operations st) j) (tbl_get (as_operations st') j)) \<and>
    (\<forall>op. r = Inr op \<longrightarrow> tbl_get (as_operations st') i = Some op \<and> or_state op = Fence_FENCED \<and> or_instance_id op = i)"
proof (cases "isOK r")
  case False
  then have "st' = st" using assms(2) by (auto simp: reserve_def Let_def split: prod.splits sum.splits if_splits)
  with assms(1) False show ?thesis by (auto simp: fence_change_def isOK_def split: sum.splits)
next
  case True
  then obtain st1 cur where e: "ensure_agent_operation i (clock 0) st = (st1, Inr cur)" "or_state cur = Fence_OPEN"
    and p: "agent_operation_post_init (cur\<lparr>or_state := Fence_FENCED, or_owner_token := Some owner, or_updated_at := clock 1\<rparr>) = Inr ()"
    and s: "save_agent_operation (cur\<lparr>or_state := Fence_FENCED, or_owner_token := Some owner, or_updated_at := clock 1\<rparr>)
        (or_generation cur) Fence_OPEN None st1 = (st', Inr ())"
    and r: "r = Inr (cur\<lparr>or_state := Fence_FENCED, or_owner_token := Some owner, or_updated_at := clock 1\<rparr>)"
    using assms(2) by (auto simp: reserve_def Let_def split: prod.splits sum.splits if_splits)
  let ?y = "cur\<lparr>or_state := Fence_FENCED, or_owner_token := Some owner, or_updated_at := clock 1\<rparr>"
  note st1 = ensure_ops [OF assms(1) e(1)]
  have cur: "tbl_get (as_operations st1) i = Some cur" by (rule st1(4)) simp
  then have i: "or_instance_id cur = i" using st1(1) by (simp add: ops_ok_def op_ok_def)
  have st': "st' = st1\<lparr>as_operations := tbl_upsert i ?y (as_operations st1)\<rparr>"
    using save_operation_cases [OF s] i by simp
  have "op_ok i ?y" using p i by (simp add: op_ok_def)
  note put = ops_put [OF st1(1) this st']
  have "fence_change may_release (tbl_get (as_operations st) j) (tbl_get (as_operations st') j)" for j
    using put(2) [of j] st1(3) [of j] cur e(2) by (auto simp: fence_change_def)
  with put st1(2) r i show ?thesis by simp
qed

lemma release_ops:
  assumes "ops_ok st" "release clock x st = (st', r)" "may_release x"
  shows "ops_ok st' \<and> as_dispatches st' = as_dispatches st \<and>
    (\<forall>j. fence_change may_release (tbl_get (as_operations st) j) (tbl_get (as_operations st') j))"
proof (cases "isOK r")
  case False
  then have "st' = st" using assms(2) by (auto simp: release_def Let_def split: prod.splits sum.splits)
  with assms(1) show ?thesis by (simp add: fence_change_def)
next
  case True
  let ?y = "x\<lparr>or_generation := or_generation x + 1, or_state := Fence_OPEN, or_owner_token := None, or_updated_at := clock 0\<rparr>"
  from True have p: "agent_operation_post_init ?y = Inr ()" and
    s: "save_agent_operation ?y (or_generation x) Fence_FENCED (or_owner_token x) st = (st', Inr ())"
    using assms(2) by (auto simp: release_def Let_def split: prod.splits sum.splits)
  obtain cur where cur: "tbl_get (as_operations st) (or_instance_id x) = Some cur" "or_generation cur = or_generation x"
    "or_state cur = Fence_FENCED" "or_owner_token cur = or_owner_token x"
    and st': "st' = st\<lparr>as_operations := tbl_upsert (or_instance_id x) ?y (as_operations st)\<rparr>"
    using save_operation_cases [OF s] by auto
  have "op_ok (or_instance_id x) ?y" using p by (simp add: op_ok_def)
  note put = ops_put [OF assms(1) this st']
  have "fence_change may_release (tbl_get (as_operations st) j) (tbl_get (as_operations st') j)" for j
  proof (cases "j = or_instance_id x")
    case True
    with put(2) [of j] cur assms(3) show ?thesis by (fastforce simp: fence_change_def)
  qed (use put(2) [of j] in \<open>simp add: fence_change_def\<close>)
  with put show ?thesis by simp
qed


section \<open>Effects on the dispatches\<close>

definition gen_int :: "AgentDispatchRequest \<Rightarrow> bool" where
  "gen_int d \<longleftrightarrow> (\<exists>g. ev_get (dq_evidence d) ''operation_generation'' = PInt g)"

definition keys_unique :: "AgentDispatchRequest tbl \<Rightarrow> bool" where
  "keys_unique t \<longleftrightarrow> (\<forall>k d k' d'. tbl_get t k = Some d \<and> tbl_get t k' = Some d' \<and> same_key d d' \<longrightarrow> k = k')"

definition rows_ok :: "AgentStore \<Rightarrow> bool" where
  "rows_ok st \<longleftrightarrow> tbl_ok (as_dispatches st) \<and> (\<forall>k d. tbl_get (as_dispatches st) k = Some d \<longrightarrow>
     dq_id d = k \<and> (\<exists>d0. stored_dispatch d0 = Inr d) \<and> gen_int d) \<and>
   keys_unique (as_dispatches st)"

text \<open>The fence of the dispatch's instance is open at the generation the dispatch is bound to.\<close>

definition bound_open :: "AgentStore \<Rightarrow> AgentDispatchRequest \<Rightarrow> bool" where
  "bound_open st d \<longleftrightarrow> (\<exists>op. tbl_get (as_operations st) (dq_instance_id d) = Some op \<and> or_state op = Fence_OPEN \<and>
     ev_get (dq_evidence d) ''operation_generation'' = PInt (or_generation op))"

definition ended :: "(AgentOperationState \<Rightarrow> bool) \<Rightarrow> AgentDispatchRequest \<Rightarrow> bool" where
  "ended ends d \<longleftrightarrow> (\<exists>s. ends s \<and> dispatch_status d = PStr (operation_state_value s))"

text \<open>What a step may do to a row: insert it accepted, start it, or record a provider state on it.\<close>

definition end_change ::
  "(AgentOperationState \<Rightarrow> bool) \<Rightarrow> AgentDispatchRequest option \<Rightarrow> AgentDispatchRequest option \<Rightarrow> bool" where
  "end_change ends old new \<longleftrightarrow> new = old \<or>
     (\<exists>d d'. old = Some d \<and> new = Some d' \<and> dq_instance_id d' = dq_instance_id d \<and> ended ends d')"

definition dispatch_change ::
  "(AgentOperationState \<Rightarrow> bool) \<Rightarrow> AgentStore \<Rightarrow> AgentDispatchRequest option \<Rightarrow> AgentDispatchRequest option \<Rightarrow> bool" where
  "dispatch_change ends st old new \<longleftrightarrow> end_change ends old new \<or>
     (\<exists>d'. new = Some d' \<and> bound_open st d' \<and>
        (old = None \<and> dispatch_status d' = PStr ''accepted'' \<or>
         (\<exists>d. old = Some d \<and> dq_instance_id d' = dq_instance_id d \<and> dispatch_status d = PStr ''accepted'' \<and>
            dispatch_status d' = PStr ''executing'')))"

lemma end_change_trans: "end_change ends a b \<Longrightarrow> end_change ends b c \<Longrightarrow> end_change ends a c"
  unfolding end_change_def by (elim disjE exE conjE) auto

lemma stored_gen_int: "stored_dispatch d = Inr d' \<Longrightarrow> gen_int d \<Longrightarrow> gen_int d'"
  using stored_generation by (auto simp: gen_int_def)

lemma stored_ended: "stored_dispatch d = Inr d' \<Longrightarrow> ended ends d \<Longrightarrow> ended ends d'"
  using stored_status by (auto simp: ended_def)

lemma dispatch_rows_put:
  assumes "rows_ok st" "stored_dispatch d = Inr d'" "gen_int d"
    "\<forall>k x. tbl_get (as_dispatches st) k = Some x \<and> same_key d x \<longrightarrow> k = dq_id d"
    "st' = st\<lparr>as_dispatches := tbl_upsert (dq_id d) d' (as_dispatches st)\<rparr>"
  shows "rows_ok st'" "tbl_get (as_dispatches st') k = (if k = dq_id d then Some d' else tbl_get (as_dispatches st) k)"
proof -
  have ok: "tbl_ok (as_dispatches st)" using assms(1) by (simp add: rows_ok_def)
  show get: "tbl_get (as_dispatches st') k = (if k = dq_id d then Some d' else tbl_get (as_dispatches st) k)" for k
    using ok assms(5) by (simp add: tb.get_put)
  have key: "same_key d' x \<longleftrightarrow> same_key d x" "same_key x d' \<longleftrightarrow> same_key d x" for x
    using stored_dispatch_sel(2,3) [OF assms(2)] by (auto simp: same_key_def)
  have u: "k = k'" if "tbl_get (as_dispatches st) k = Some x" "tbl_get (as_dispatches st) k' = Some x'" "same_key x x'" for k k' x x'
    using assms(1) that unfolding rows_ok_def keys_unique_def by blast
  have "k = k'" if "tbl_get (as_dispatches st') k = Some x" "tbl_get (as_dispatches st') k' = Some x'" "same_key x x'" for k k' x x'
  proof (cases "k = dq_id d")
    case True
    with that key assms(4) show ?thesis by (auto simp: get split: if_splits)
  next
    case False
    with that key assms(4) show ?thesis by (cases "k' = dq_id d") (auto simp: get dest: u)
  qed
  then have "keys_unique (as_dispatches st')" unfolding keys_unique_def by blast
  moreover have "dq_id x = k \<and> (\<exists>d0. stored_dispatch d0 = Inr x) \<and> gen_int x" if "tbl_get (as_dispatches st') k = Some x" for k x
    using that assms(1,2) stored_dispatch_sel(1) [OF assms(2)] stored_gen_int [OF assms(2,3)]
    by (auto simp: get rows_ok_def split: if_splits)
  ultimately show "rows_ok st'" using ok assms(5) by (auto simp: rows_ok_def)
qed

text \<open>An update keeps the idempotency key of its row, an insertion brings a new one.\<close>

lemma update_key:
  assumes "rows_ok st" "stored_dispatch d = Inr d'" "tbl_get (as_dispatches st) (dq_id d) = Some old" "same_dispatch old d'"
  shows "\<forall>k x. tbl_get (as_dispatches st) k = Some x \<and> same_key d x \<longrightarrow> k = dq_id d"
proof -
  have "same_key x old" if "same_key d x" for x
    using that stored_dispatch_sel(2,3) [OF assms(2)] assms(4) by (simp add: same_key_def same_dispatch_def)
  with assms(1,3) show ?thesis unfolding rows_ok_def keys_unique_def by blast
qed

lemma insert_key:
  assumes "rows_ok st" "\<forall>(k, x) \<in> set (as_dispatches st). \<not> same_key d x"
  shows "\<forall>k x. tbl_get (as_dispatches st) k = Some x \<and> same_key d x \<longrightarrow> k = dq_id d"
  using assms by (auto simp: rows_ok_def tb.rows_get [symmetric])

lemma save_existing:
  assumes "rows_ok st" "save_agent_dispatch d st = (st', r)" "gen_int d" "tbl_get (as_dispatches st) (dq_id d) \<noteq> None" "ended ends d"
  shows "rows_ok st'" "end_change ends (tbl_get (as_dispatches st) k) (tbl_get (as_dispatches st') k)"
proof -
  have "rows_ok st' \<and> (\<forall>k. end_change ends (tbl_get (as_dispatches st) k) (tbl_get (as_dispatches st') k))"
    using assms(2)
  proof (cases rule: save_agent_dispatch_cases)
    case (updated d' old)
    note put = dispatch_rows_put [OF assms(1) updated(1) assms(3) update_key [OF assms(1) updated(1,2,3)] updated(5)]
    have "dq_instance_id d' = dq_instance_id old" using updated(3) by (simp add: same_dispatch_def)
    with put updated(2) stored_ended [OF updated(1) assms(5)] show ?thesis by (auto simp: end_change_def)
  qed (use assms(1,4) in \<open>auto simp: end_change_def\<close>)
  then show "rows_ok st'" "end_change ends (tbl_get (as_dispatches st) k) (tbl_get (as_dispatches st') k)" by blast+
qed

lemma save_accepted:
  assumes "rows_ok st" "save_agent_dispatch d st = (st', r)" "gen_int d" "tbl_get (as_dispatches st) (dq_id d) = None"
    "dispatch_status d = PStr ''accepted''" "tbl_get (as_operations st) (dq_instance_id d) \<noteq> None"
  shows "rows_ok st'" "dispatch_change ends st (tbl_get (as_dispatches st) k) (tbl_get (as_dispatches st') k)"
    "k \<noteq> dq_id d \<Longrightarrow> tbl_get (as_dispatches st') k = tbl_get (as_dispatches st) k"
proof -
  have "rows_ok st' \<and> (\<forall>k. dispatch_change ends st (tbl_get (as_dispatches st) k) (tbl_get (as_dispatches st') k) \<and>
      (k \<noteq> dq_id d \<longrightarrow> tbl_get (as_dispatches st') k = tbl_get (as_dispatches st) k))"
    using assms(2)
  proof (cases rule: save_agent_dispatch_cases)
    case (inserted d')
    note put = dispatch_rows_put [OF assms(1) inserted(1) assms(3) insert_key [OF assms(1) inserted(5)] inserted(6)]
    obtain g where g: "ev_get (dq_evidence d') ''operation_generation'' = PInt g"
      using stored_gen_int [OF inserted(1) assms(3)] by (auto simp: gen_int_def)
    then have "dict_get (dq_evidence d') ''operation_generation'' = Some (PInt g)"
      by (simp add: ev_get_def split: option.splits)
    then have "bound_open st d'"
      using inserted(3) assms(6) g stored_dispatch_sel(2) [OF inserted(1)]
      by (auto simp: bound_open_def agent_dispatch_transition_fence_def generation_mismatch_def)
    with put inserted(2) stored_status [OF inserted(1) assms(5)] show ?thesis
      by (auto simp: dispatch_change_def end_change_def)
  qed (use assms(1,4) in \<open>auto simp: dispatch_change_def end_change_def\<close>)
  then show "rows_ok st'" "dispatch_change ends st (tbl_get (as_dispatches st) k) (tbl_get (as_dispatches st') k)"
    "k \<noteq> dq_id d \<Longrightarrow> tbl_get (as_dispatches st') k = tbl_get (as_dispatches st) k" by blast+
qed

lemma end_change_None: "end_change ends old new \<Longrightarrow> new = None \<longleftrightarrow> old = None"
  by (auto simp: end_change_def)

lemma save_all_existing:
  assumes "rows_ok st" "save_dispatches ds st = (st', r)"
    "\<forall>d \<in> set ds. gen_int d \<and> tbl_get (as_dispatches st) (dq_id d) \<noteq> None \<and> ended ends d"
  shows "rows_ok st' \<and> (\<forall>k. end_change ends (tbl_get (as_dispatches st) k) (tbl_get (as_dispatches st') k))"
  using assms
proof (induction ds arbitrary: st)
  case Nil
  then show ?case by (simp add: end_change_def)
next
  case (Cons d ds)
  obtain st1 r1 where s: "save_agent_dispatch d st = (st1, r1)" by fastforce
  have st1: "rows_ok st1" "\<And>k. end_change ends (tbl_get (as_dispatches st) k) (tbl_get (as_dispatches st1) k)"
    using save_existing [OF Cons.prems(1) s, of ends] Cons.prems(3) by auto
  show ?case
  proof (cases r1)
    case (Inl e)
    with Cons.prems(2) s st1 show ?thesis by simp
  next
    case (Inr u)
    with Cons.prems(2) s have "save_dispatches ds st1 = (st', r)" by simp
    moreover have "\<forall>d \<in> set ds. gen_int d \<and> tbl_get (as_dispatches st1) (dq_id d) \<noteq> None \<and> ended ends d"
      using Cons.prems(3) end_change_None [OF st1(2)] by simp
    ultimately show ?thesis using Cons.IH [OF st1(1)] end_change_trans st1(2) by blast
  qed
qed


lemma with_status_sel [simp]:
  "dq_id (with_status s d) = dq_id d" "dq_instance_id (with_status s d) = dq_instance_id d"
  "dispatch_status (with_status s d) = PStr s"
  "ev_get (dq_evidence (with_status s d)) ''operation_generation'' = ev_get (dq_evidence d) ''operation_generation''"
  "gen_int (with_status s d) = gen_int d"
  by (simp_all add: with_status_def dispatch_status_def ev_get_def gen_int_def)

lemma list_dispatches_iff:
  assumes "rows_ok st"
  shows "d \<in> set (list_agent_dispatches st) \<longleftrightarrow> tbl_get (as_dispatches st) (dq_id d) = Some d"
proof -
  have "d \<in> set (list_agent_dispatches st) \<longleftrightarrow> (\<exists>k. (k, d) \<in> set (as_dispatches st))"
    by (force simp: list_agent_dispatches_def)
  also have "\<dots> \<longleftrightarrow> (\<exists>k. tbl_get (as_dispatches st) k = Some d)" using assms by (simp add: rows_ok_def tb.rows_get)
  finally show ?thesis using assms by (auto simp: rows_ok_def)
qed

lemma cancel_change:
  assumes "rows_ok st" "cancel_inflight sel msg x st = (st', r)" "ends Op_CANCELLED"
  shows "rows_ok st' \<and> (\<forall>k. end_change ends (tbl_get (as_dispatches st) k) (tbl_get (as_dispatches st') k))"
proof (cases "st' = st")
  case False
  then obtain r1 where s: "save_dispatches (map (with_status ''cancelled'') (filter sel (inflight x st))) st = (st', r1)"
    using assms(2) by (auto simp: cancel_inflight_def split: sum.splits if_splits prod.splits)
  have "\<forall>d \<in> set (inflight x st). gen_int d \<and> tbl_get (as_dispatches st) (dq_id d) \<noteq> None"
    using assms(1) list_dispatches_iff [OF assms(1)] by (auto simp: inflight_def rows_ok_def)
  moreover have "ended ends (with_status ''cancelled'' d)" for d
    using assms(3) by (auto simp: ended_def intro!: exI [of _ Op_CANCELLED])
  ultimately show ?thesis by (intro save_all_existing [OF assms(1) s]) auto
qed (use assms(1) in \<open>simp add: end_change_def\<close>)

lemma py_equal_int: "py_equal (PInt a) (PInt b) \<longleftrightarrow> a = b"
  by (simp add: py_equal_def)

lemma claim_change:
  assumes "rows_ok st" "claim_dispatch_execution d st = (st', r)" "ends Op_CANCELLED"
    "\<forall>cur. tbl_get (as_dispatches st) (dq_id d) = Some cur \<longrightarrow> dq_instance_id d = dq_instance_id cur"
  shows "rows_ok st'" "dispatch_change ends st (tbl_get (as_dispatches st) k) (tbl_get (as_dispatches st') k)"
    "tbl_get (as_dispatches st') k = None \<longleftrightarrow> tbl_get (as_dispatches st) k = None"
proof -
  have "rows_ok st' \<and> (\<forall>k. dispatch_change ends st (tbl_get (as_dispatches st) k) (tbl_get (as_dispatches st') k) \<and>
      (tbl_get (as_dispatches st') k = None \<longleftrightarrow> tbl_get (as_dispatches st) k = None))"
  proof (cases "st' = st")
    case False
    then obtain cur op may r1 where cur: "tbl_get (as_dispatches st) (dq_id d) = Some cur" "dispatch_status cur = PStr ''accepted''"
      and op: "tbl_get (as_operations st) (dq_instance_id d) = Some op"
      and may: "may \<longleftrightarrow> or_state op = Fence_OPEN \<and>
        py_equal (ev_get (dq_evidence cur) ''operation_generation'') (PInt (or_generation op))"
      and s: "save_agent_dispatch (with_status (if may then ''executing'' else ''cancelled'') cur) st = (st', r1)"
      using assms(2)
      by (auto simp: claim_dispatch_execution_def load_agent_dispatch_def load_agent_operation_def Let_def
        split: sum.splits option.splits if_splits prod.splits)
    have id: "dq_id cur = dq_id d" and g: "gen_int cur" and inst: "dq_instance_id d = dq_instance_id cur"
      using assms(1,4) cur(1) by (auto simp: rows_ok_def)
    show ?thesis
    proof (cases may)
      case True
      from s show ?thesis
      proof (cases rule: save_agent_dispatch_cases)
        case (updated d' old)
        note put = dispatch_rows_put [OF assms(1) updated(1) _ update_key [OF assms(1) updated(1,2,3)] updated(5)]
        obtain n where n: "ev_get (dq_evidence cur) ''operation_generation'' = PInt n" using g by (auto simp: gen_int_def)
        then have "ev_get (dq_evidence d') ''operation_generation'' = PInt n"
          using stored_generation [OF updated(1)] by simp
        moreover have "n = or_generation op" "or_state op = Fence_OPEN" using may True n by (simp_all add: py_equal_int)
        moreover have "dq_instance_id d' = dq_instance_id cur" using stored_dispatch_sel(2) [OF updated(1)] by simp
        ultimately have "bound_open st d'" using op inst by (simp add: bound_open_def)
        moreover have "dispatch_status d' = PStr ''executing''" using stored_status [OF updated(1)] True by simp
        ultimately show ?thesis
          using put g id cur \<open>dq_instance_id d' = dq_instance_id cur\<close>
          by (auto simp: dispatch_change_def end_change_def)
      qed (use assms(1) cur id in \<open>auto simp: dispatch_change_def end_change_def\<close>)
    next
      case False
      have "ended ends (with_status ''cancelled'' cur)" using assms(3) by (auto simp: ended_def intro!: exI [of _ Op_CANCELLED])
      with save_existing [OF assms(1) s, of ends] False g cur id
      show ?thesis using end_change_None by (auto simp: dispatch_change_def)
    qed
  qed (use assms(1) in \<open>simp add: dispatch_change_def end_change_def\<close>)
  then show "rows_ok st'" "dispatch_change ends st (tbl_get (as_dispatches st) k) (tbl_get (as_dispatches st') k)"
    "tbl_get (as_dispatches st') k = None \<longleftrightarrow> tbl_get (as_dispatches st) k = None" by blast+
qed

section \<open>The invariant of a run\<close>

text \<open>Pending writes: an accepted dispatch is new and its fence exists; the others concern a stored dispatch.\<close>

definition call_ok :: "AgentStore \<Rightarrow> op_call \<Rightarrow> bool" where
  "call_ok st c = (case c of
     Accepting d \<Rightarrow> tbl_get (as_dispatches st) (dq_id d) = None \<and> dispatch_status d = PStr ''accepted'' \<and> gen_int d \<and>
       tbl_get (as_operations st) (dq_instance_id d) \<noteq> None
   | _ \<Rightarrow> (\<forall>d. call_dispatch c = Some d \<longrightarrow>
       tbl_get (as_dispatches st) (dq_id d) \<noteq> None \<and> gen_int d \<and> ended (\<lambda>_. True) d))"

fun accept_ids :: "op_call list \<Rightarrow> string list" where
  "accept_ids [] = []"
| "accept_ids (Accepting d # cs) = dq_id d # accept_ids cs"
| "accept_ids (_ # cs) = accept_ids cs"

definition world_ok :: "op_world \<Rightarrow> bool" where
  "world_ok w \<longleftrightarrow> ops_ok (ow_store w) \<and> rows_ok (ow_store w) \<and> list_all (call_ok (ow_store w)) (ow_calls w) \<and>
     distinct (accept_ids (ow_calls w))"

lemma accept_ids_set: "i \<in> set (accept_ids cs) \<longleftrightarrow> (\<exists>d. Accepting d \<in> set cs \<and> dq_id d = i)"
  by (induction cs rule: accept_ids.induct) auto

lemma accept_ids_remove: "Accepting d \<in> set cs \<Longrightarrow> distinct (accept_ids cs) \<Longrightarrow> dq_id d \<notin> set (accept_ids (remove1 (Accepting d) cs))"
  by (induction cs rule: accept_ids.induct) (auto simp: accept_ids_set)

lemma accept_ids_remove1: "distinct (accept_ids cs) \<Longrightarrow> distinct (accept_ids (remove1 c cs))"
proof (induction cs rule: accept_ids.induct)
  case (2 d cs)
  then show ?case by (auto simp: accept_ids_set dest: notin_set_remove1)
qed auto


lemma complete_begin_write:
  assumes "rows_ok st" "complete_begin d r st = Inr (Inr c)" "results (dr_state r)"
  shows "tbl_get (as_dispatches st) (dq_id c) \<noteq> None \<and> gen_int c \<and> ended results c"
proof -
  obtain cur where cur: "tbl_get (as_dispatches st) (dq_id d) = Some cur"
    "c = cur\<lparr>dq_evidence := completed_evidence r (dq_evidence cur)\<rparr>"
    using assms(2) by (auto simp: complete_begin_def load_agent_dispatch_def res_bind_Inr_iff split: option.splits if_splits)
  have "ev_get (completed_evidence r ev) ''operation_generation'' = ev_get ev ''operation_generation''"
    "ev_get (completed_evidence r ev) ''status'' = PStr (operation_state_value (dr_state r))" for ev
    by (simp_all add: completed_evidence_def ev_get_def Let_def split: option.split)
  with cur assms(1,3) show ?thesis by (auto simp: rows_ok_def gen_int_def ended_def dispatch_status_def)
qed

lemma keep_evidence:
  "dict_get ev k = Some v \<Longrightarrow>
   dict_get (fold (\<lambda>(k, v) ev. if k \<in> fst ` set ev \<or> k \<in> K then ev else if P k then dict_set k v ev else ev) kvs ev) k = Some v"
proof (induction kvs arbitrary: ev)
  case (Cons kv kvs)
  obtain k' v' where kv: "kv = (k', v')" by (cases kv)
  have "k \<in> fst ` set ev" using Cons.prems by (metis dict_get_def map_of_eq_None_iff option.distinct(1))
  then have "dict_get (if k' \<in> fst ` set ev \<or> k' \<in> K then ev else if P k' then dict_set k' v' ev else ev) k = Some v"
    using Cons.prems by auto
  from Cons.IH [OF this] kv show ?case by simp
qed simp

lemma set_optional_get: "k \<noteq> k' \<Longrightarrow> dict_get (set_optional k' v ev) k = dict_get ev k"
  by (simp add: set_optional_def split: option.split)

lemma dict_get_Cons: "dict_get ((a, b) # d) k = (if k = a then Some b else dict_get d k)"
  by (simp add: dict_get_def)

lemma result_evidence_status:
  "dict_get (result_evidence d r) ''status'' = Some (PStr (operation_state_value (dr_state r)))"
  unfolding result_evidence_def Let_def
  by (rule keep_evidence) (simp add: set_optional_get dict_get_Cons split: pyval.split)

lemma result_evidence_generation:
  assumes "ev_get (dq_evidence d) ''operation_generation'' = PInt g"
  shows "dict_get (result_evidence d r) ''operation_generation'' = Some (PInt g)"
  unfolding result_evidence_def Let_def by (rule keep_evidence) (simp add: assms set_optional_get)

lemma record_begin_write:
  assumes "rows_ok st" "record_begin r st = Inr (recorded, Some c)" "results (dr_state r)"
  shows "tbl_get (as_dispatches st) (dq_id c) \<noteq> None \<and> gen_int c \<and> ended results c"
proof -
  obtain cur where cur: "tbl_get (as_dispatches st) (dr_request_id r) = Some cur"
    "c = cur\<lparr>dq_evidence := result_evidence cur r\<rparr>"
    using assms(2) by (auto simp: record_begin_def load_agent_dispatch_def res_bind_Inr_iff Let_def split: option.splits if_splits)
  obtain g where "ev_get (dq_evidence cur) ''operation_generation'' = PInt g" using assms(1) cur(1) by (auto simp: rows_ok_def gen_int_def)
  with result_evidence_status [of cur r] result_evidence_generation [of cur _ r] have "gen_int c" "ended results c"
    using cur(2) assms(3) by (auto simp: gen_int_def ended_def dispatch_status_def ev_get_def)
  with cur assms(1) show ?thesis by (auto simp: rows_ok_def)
qed


lemma call_ok_mono:
  assumes "call_ok st c" "\<And>d. c = Accepting d \<Longrightarrow> tbl_get (as_dispatches st') (dq_id d) = None"
    "\<And>k. tbl_get (as_dispatches st) k \<noteq> None \<Longrightarrow> tbl_get (as_dispatches st') k \<noteq> None"
    "\<And>k. tbl_get (as_operations st) k \<noteq> None \<Longrightarrow> tbl_get (as_operations st') k \<noteq> None"
  shows "call_ok st' c"
  using assms by (cases c) (auto simp: call_ok_def)

text \<open>
  One step: fences change only as \<open>fence_change\<close> allows, rows only as \<open>dispatch_change\<close> allows, and the invariant
  is kept. \<open>ends\<close> bounds the provider states of the pending writes.
\<close>

definition pending_within :: "(AgentOperationState \<Rightarrow> bool) \<Rightarrow> op_world \<Rightarrow> bool" where
  "pending_within ends w \<longleftrightarrow> (\<forall>c \<in> set (ow_calls w). \<forall>d. call_dispatch c = Some d \<longrightarrow>
     (\<exists>d'. c = Accepting d') \<or> ended ends d)"

definition good_step ::
  "(AgentOperationState \<Rightarrow> bool) \<Rightarrow> (AgentOperationReservation \<Rightarrow> bool) \<Rightarrow> op_world \<Rightarrow> op_world \<Rightarrow> bool" where
  "good_step ends may_release w w' \<longleftrightarrow> world_ok w' \<and>
     (\<forall>i. fence_change may_release (tbl_get (as_operations (ow_store w)) i) (tbl_get (as_operations (ow_store w')) i)) \<and>
     (\<forall>k. dispatch_change ends (ow_store w) (tbl_get (as_dispatches (ow_store w)) k) (tbl_get (as_dispatches (ow_store w')) k))"

lemma fence_change_Some: "fence_change mr old new \<Longrightarrow> old \<noteq> None \<Longrightarrow> new \<noteq> None"
  by (auto simp: fence_change_def)

text \<open>Steps that only change the store, and insert no dispatch.\<close>

lemma good_store_step:
  assumes "world_ok w" "ops_ok st" "rows_ok st" "w' = w\<lparr>ow_store := st\<rparr>"
    "\<And>i. fence_change may_release (tbl_get (as_operations (ow_store w)) i) (tbl_get (as_operations st) i)"
    "\<And>k. dispatch_change ends (ow_store w) (tbl_get (as_dispatches (ow_store w)) k) (tbl_get (as_dispatches st) k)"
    "\<And>k. tbl_get (as_dispatches st) k = None \<longleftrightarrow> tbl_get (as_dispatches (ow_store w)) k = None"
  shows "good_step ends may_release w w'"
proof -
  have "call_ok st c" if "c \<in> set (ow_calls w)" for c
  proof (rule call_ok_mono [of "ow_store w"])
    show ok: "call_ok (ow_store w) c" using assms(1) that by (simp add: world_ok_def list_all_iff)
    show "tbl_get (as_dispatches st) (dq_id d) = None" if "c = Accepting d" for d
      using ok that assms(7) by (simp add: call_ok_def)
    show "tbl_get (as_dispatches st) k \<noteq> None" if "tbl_get (as_dispatches (ow_store w)) k \<noteq> None" for k
      using that assms(7) by simp
    show "tbl_get (as_operations st) k \<noteq> None" if "tbl_get (as_operations (ow_store w)) k \<noteq> None" for k
      by (rule fence_change_Some [OF assms(5) that])
  qed
  with assms show ?thesis by (simp add: good_step_def world_ok_def list_all_iff)
qed

lemmas change_simps = dispatch_change_def end_change_def fence_change_def

lemma good_fence_step:
  assumes "world_ok w" "ops_ok st" "as_dispatches st = as_dispatches (ow_store w)"
    "\<forall>i. fence_change may_release (tbl_get (as_operations (ow_store w)) i) (tbl_get (as_operations st) i)"
  shows "good_step ends may_release w (w\<lparr>ow_store := st\<rparr>)"
proof (rule good_store_step [OF assms(1,2) _ refl])
  show "rows_ok st" using assms(1,3) by (simp add: world_ok_def rows_ok_def)
qed (use assms(3,4) in \<open>auto simp: dispatch_change_def end_change_def\<close>)

lemma good_end_step:
  assumes "world_ok w" "rows_ok st" "as_operations st = as_operations (ow_store w)"
    "\<forall>k. end_change ends (tbl_get (as_dispatches (ow_store w)) k) (tbl_get (as_dispatches st) k)"
  shows "good_step ends may_release w (w\<lparr>ow_store := st\<rparr>)"
proof (rule good_store_step [OF assms(1) _ assms(2) refl])
  show "ops_ok st" using assms(1,3) by (simp add: world_ok_def ops_ok_def)
  show "tbl_get (as_dispatches st) k = None \<longleftrightarrow> tbl_get (as_dispatches (ow_store w)) k = None" for k
    using assms(4) by (blast dest: end_change_None)
qed (use assms(3,4) in \<open>auto simp: fence_change_def dispatch_change_def\<close>)

text \<open>Steps that only add or drop pending writes.\<close>

lemma good_call_step:
  assumes "world_ok w" "call_ok (ow_store w) c" "\<And>d. c = Accepting d \<Longrightarrow> dq_id d \<notin> set (accept_ids (ow_calls w))"
  shows "good_step ends may_release w (w\<lparr>ow_calls := c # ow_calls w\<rparr>)"
  using assms by (cases c) (auto simp: good_step_def world_ok_def change_simps)

lemma good_step_drop:
  assumes "good_step ends may_release w (w\<lparr>ow_store := st\<rparr>)"
  shows "good_step ends may_release w (w\<lparr>ow_store := st, ow_calls := remove1 c (ow_calls w)\<rparr>)"
  using assms accept_ids_remove1 [of "ow_calls w" c]
  by (auto simp: good_step_def world_ok_def list_all_iff dest: notin_set_remove1)

lemma good_write_existing:
  assumes "world_ok w" "c \<in> set (ow_calls w)" "\<And>d. call_dispatch c = Some d \<Longrightarrow> ended ends d" "\<And>d. c \<noteq> Accepting d"
  shows "good_step ends may_release w (w\<lparr>ow_store := call_write c (ow_store w), ow_calls := remove1 c (ow_calls w)\<rparr>)"
proof (rule good_step_drop, rule good_end_step [OF assms(1)])
  have ok: "call_ok (ow_store w) c" "rows_ok (ow_store w)" using assms(1,2) by (auto simp: world_ok_def list_all_iff)
  have "rows_ok (call_write c (ow_store w)) \<and>
      (\<forall>k. end_change ends (tbl_get (as_dispatches (ow_store w)) k) (tbl_get (as_dispatches (call_write c (ow_store w))) k))"
  proof (cases c)
    case (Completing d)
    obtain st r where s: "save_agent_dispatch d (ow_store w) = (st, r)" by fastforce
    with save_existing [OF ok(2) s, of ends] ok(1) assms(3) Completing show ?thesis by (auto simp: call_ok_def)
  next
    case (Recording x upd)
    obtain st1 r1 where x: "save_agent_dispatch_result x (ow_store w) = (st1, r1)" by fastforce
    have st1: "rows_ok st1" "as_dispatches st1 = as_dispatches (ow_store w)"
      using save_result_frame [OF x] ok(2) by (simp_all add: rows_ok_def)
    show ?thesis
    proof (cases "isOK r1 \<and> upd \<noteq> None")
      case True
      then obtain d where d: "upd = Some d" "r1 = Inr ()" by (auto simp: isOK_def split: sum.splits)
      obtain st r where s: "save_agent_dispatch d st1 = (st, r)" by fastforce
      with save_existing [OF st1(1) s, of ends] ok(1) assms(3) Recording d x st1(2) show ?thesis by (auto simp: call_ok_def)
    next
      case False
      then have "call_write c (ow_store w) = st1" using Recording x by (auto simp: isOK_def split: sum.splits option.splits)
      with st1 show ?thesis by (simp add: end_change_def)
    qed
  qed (use assms(4) in simp)
  then show "rows_ok (call_write c (ow_store w))"
    "\<forall>k. end_change ends (tbl_get (as_dispatches (ow_store w)) k) (tbl_get (as_dispatches (call_write c (ow_store w))) k)"
    by simp_all
qed simp

lemma good_write_accepting:
  assumes "world_ok w" "Accepting d \<in> set (ow_calls w)"
  shows "good_step ends may_release w
    (w\<lparr>ow_store := call_write (Accepting d) (ow_store w), ow_calls := remove1 (Accepting d) (ow_calls w)\<rparr>)"
proof -
  obtain st r where s: "save_agent_dispatch d (ow_store w) = (st, r)" by fastforce
  have ok: "call_ok (ow_store w) (Accepting d)" "rows_ok (ow_store w)" using assms by (auto simp: world_ok_def list_all_iff)
  then have a: "gen_int d" "tbl_get (as_dispatches (ow_store w)) (dq_id d) = None" "dispatch_status d = PStr ''accepted''"
    "tbl_get (as_operations (ow_store w)) (dq_instance_id d) \<noteq> None" by (auto simp: call_ok_def)
  note sv = save_accepted [OF ok(2) s a]
  have ops: "as_operations st = as_operations (ow_store w)" using save_frame [OF s] by simp
  have "call_ok st c" if "c \<in> set (remove1 (Accepting d) (ow_calls w))" for c
  proof (rule call_ok_mono [of "ow_store w"])
    have c: "c \<in> set (ow_calls w)" using that notin_set_remove1 by fastforce
    then show "call_ok (ow_store w) c" using assms(1) by (simp add: world_ok_def list_all_iff)
    show "tbl_get (as_dispatches st) (dq_id d') = None" if c': "c = Accepting d'" for d'
    proof -
      have "dq_id d' \<noteq> dq_id d" using accept_ids_remove [OF assms(2)] assms(1) that \<open>c \<in> set (remove1 (Accepting d) (ow_calls w))\<close>
        by (auto simp: world_ok_def accept_ids_set)
      then show ?thesis using sv(3) \<open>call_ok (ow_store w) c\<close> c' by (simp add: call_ok_def)
    qed
    show "tbl_get (as_dispatches st) k \<noteq> None" if "tbl_get (as_dispatches (ow_store w)) k \<noteq> None" for k
      using that a(2) sv(3) [of k] by (cases "k = dq_id d") auto
    show "tbl_get (as_operations st) k \<noteq> None" if "tbl_get (as_operations (ow_store w)) k \<noteq> None" for k
      using that ops by simp
  qed
  then show ?thesis
    using sv ops s assms(1) accept_ids_remove1
    by (auto simp: good_step_def world_ok_def list_all_iff ops_ok_def fence_change_def)
qed


lemma accept_begin_cases:
  assumes "accept_begin clock d st = (st', r)"
  obtains r0 where "ensure_agent_operation (dq_instance_id d) (clock 0) st = (st', r0)"
    "\<forall>a. r = Inr a \<longrightarrow> (\<exists>op. r0 = Inr op \<and> dq_id a = dq_id d \<and> dq_instance_id a = dq_instance_id d \<and>
       dispatch_status a = PStr ''accepted'' \<and> gen_int a)"
proof -
  obtain st1 r0 where e: "ensure_agent_operation (dq_instance_id d) (clock 0) st = (st1, r0)" by fastforce
  show ?thesis
  proof (rule that [of r0])
    show "ensure_agent_operation (dq_instance_id d) (clock 0) st = (st', r0)"
      using assms e by (auto simp: accept_begin_def require_open_def split: sum.splits if_splits)
    show "\<forall>a. r = Inr a \<longrightarrow> (\<exists>op. r0 = Inr op \<and> dq_id a = dq_id d \<and> dq_instance_id a = dq_instance_id d \<and>
       dispatch_status a = PStr ''accepted'' \<and> gen_int a)"
      using assms e by (auto simp: accept_begin_def require_open_def dispatch_status_def ev_get_def gen_int_def
        split: sum.splits if_splits)
  qed
qed

lemma quarantine_frame:
  "as_operations (fst (quarantine_result new_id r reason st)) = as_operations st"
  "as_dispatches (fst (quarantine_result new_id r reason st)) = as_dispatches st"
  by (auto simp: quarantine_result_def Let_def split: sum.split)

lemma transition_frame:
  "as_operations (fst (begin_agent_transition t st)) = as_operations st"
  "as_dispatches (fst (begin_agent_transition t st)) = as_dispatches st"
  "as_operations (fst (save_agent_transition t st)) = as_operations st"
  "as_dispatches (fst (save_agent_transition t st)) = as_dispatches st"
  by (auto simp: begin_agent_transition_def save_agent_transition_def split: sum.split option.split)

lemma record_frame:
  "as_operations (fst (save_agent_session s st)) = as_operations st"
  "as_dispatches (fst (save_agent_session s st)) = as_dispatches st"
  "as_operations (fst (save_driver_epoch e st)) = as_operations st"
  "as_dispatches (fst (save_driver_epoch e st)) = as_dispatches st"
  "as_operations (fst (save_agent_handoff h st)) = as_operations st"
  "as_dispatches (fst (save_agent_handoff h st)) = as_dispatches st"
  "as_operations (fst (reserve_agent_activation julianday i rid owner started expires retry observed st)) = as_operations st"
  "as_dispatches (fst (reserve_agent_activation julianday i rid owner started expires retry observed st)) = as_dispatches st"
  "as_operations (fst (finish_agent_activation i rid owner g state epoch reason st)) = as_operations st"
  "as_dispatches (fst (finish_agent_activation i rid owner g state epoch reason st)) = as_dispatches st"
  by (simp_all add: save_agent_session_def save_driver_epoch_def save_agent_handoff_def reserve_agent_activation_def
    finish_agent_activation_def Let_def split: sum.split option.split)

lemma good_quiet_step:
  assumes "world_ok w" "as_operations st = as_operations (ow_store w)" "as_dispatches st = as_dispatches (ow_store w)"
  shows "good_step ends may_release w (w\<lparr>ow_store := st\<rparr>)"
  using assms by (intro good_fence_step) (auto simp: world_ok_def ops_ok_def fence_change_def)

lemma good_claim_step:
  assumes "world_ok w" "ends Op_CANCELLED"
    "\<forall>cur. tbl_get (as_dispatches (ow_store w)) (dq_id d) = Some cur \<longrightarrow> dq_instance_id d = dq_instance_id cur"
  shows "good_step ends may_release w (w\<lparr>ow_store := fst (claim_dispatch_execution d (ow_store w))\<rparr>)"
proof -
  have ok: "ops_ok (ow_store w)" "rows_ok (ow_store w)" using assms(1) by (simp_all add: world_ok_def)
  obtain st r where s: "claim_dispatch_execution d (ow_store w) = (st, r)" by fastforce
  note c = claim_change [where ends = ends, OF ok(2) s assms(2,3)]
  have ops: "as_operations st = as_operations (ow_store w)" using claim_operations [of d "ow_store w"] s by simp
  have "good_step ends may_release w (w\<lparr>ow_store := st\<rparr>)"
    by (rule good_store_step [OF assms(1) _ c(1) refl _ c(2) c(3)])
      (use ok(1) ops in \<open>simp_all add: ops_ok_def fence_change_def\<close>)
  then show ?thesis using s by simp
qed

lemma good_cancel_step:
  assumes "world_ok w" "ends Op_CANCELLED"
  shows "good_step ends may_release w (w\<lparr>ow_store := fst (cancel_inflight sel msg r (ow_store w))\<rparr>)"
proof -
  obtain st x where s: "cancel_inflight sel msg r (ow_store w) = (st, x)" by fastforce
  have "rows_ok (ow_store w)" using assms(1) by (simp add: world_ok_def)
  note c = cancel_change [OF this s, of ends]
  have "as_operations st = as_operations (ow_store w)" using cancel_inflight_operations [of sel msg r "ow_store w"] s by simp
  with c assms s show ?thesis by (simp add: good_end_step)
qed

lemma good_reserve_step:
  assumes "world_ok w"
  shows "good_step ends may_release w (w\<lparr>ow_store := fst (reserve clock i owner (ow_store w))\<rparr>)"
proof -
  obtain st r where s: "reserve clock i owner (ow_store w) = (st, r)" by fastforce
  with reserve_ops [OF _ s] assms show ?thesis by (simp add: good_fence_step world_ok_def)
qed

lemma good_release_step:
  assumes "world_ok w" "may_release r"
  shows "good_step ends may_release w (w\<lparr>ow_store := fst (release clock r (ow_store w))\<rparr>)"
proof -
  obtain st x where s: "release clock r (ow_store w) = (st, x)" by fastforce
  with release_ops [where may_release = may_release, OF _ s assms(2)] assms show ?thesis by (simp add: good_fence_step world_ok_def)
qed

lemma good_accept_read:
  assumes "world_ok w" "accept_begin clock d (ow_store w) = (st, r)"
  shows "good_step ends may_release w (w\<lparr>ow_store := st\<rparr>)"
    "r = Inr a \<Longrightarrow> fresh_id (dq_id d) w \<Longrightarrow> good_step ends may_release w (w\<lparr>ow_store := st, ow_calls := Accepting a # ow_calls w\<rparr>)"
proof -
  obtain r0 where e: "ensure_agent_operation (dq_instance_id d) (clock 0) (ow_store w) = (st, r0)" and
    a: "\<forall>a. r = Inr a \<longrightarrow> (\<exists>op. r0 = Inr op \<and> dq_id a = dq_id d \<and> dq_instance_id a = dq_instance_id d \<and>
       dispatch_status a = PStr ''accepted'' \<and> gen_int a)"
    by (rule accept_begin_cases [OF assms(2)])
  have ok: "ops_ok (ow_store w)" using assms(1) by (simp add: world_ok_def)
  note en = ensure_ops [OF ok e]
  show g: "good_step ends may_release w (w\<lparr>ow_store := st\<rparr>)"
    by (rule good_fence_step [OF assms(1) en(1,2)]) (use en(3) in \<open>force simp: fence_change_def\<close>)
  show "good_step ends may_release w (w\<lparr>ow_store := st, ow_calls := Accepting a # ow_calls w\<rparr>)"
    if ra: "r = Inr a" and fresh: "fresh_id (dq_id d) w"
  proof -
    obtain op where op: "r0 = Inr op" "dq_id a = dq_id d" "dq_instance_id a = dq_instance_id d"
      "dispatch_status a = PStr ''accepted''" "gen_int a" using a ra by blast
    have "call_ok st (Accepting a)"
      using op en(2) en(4) [OF op(1)] fresh by (simp add: call_ok_def fresh_id_def)
    moreover have "dq_id a \<notin> set (accept_ids (ow_calls w))"
      using fresh op(2) by (auto simp: fresh_id_def accept_ids_set)
    ultimately show ?thesis using g by (simp add: good_step_def world_ok_def)
  qed
qed

lemma op_step_good:
  assumes "world_ok w" "op_step results may_release w w'" "pending_within ends w" "\<And>s. results s \<Longrightarrow> ends s" "ends Op_CANCELLED"
  shows "good_step ends may_release w w'"
  using assms(2)
proof cases
  case (step_complete r d completed)
  have "rows_ok (ow_store w)" using assms(1) by (simp add: world_ok_def)
  note c = complete_begin_write [where results = results, OF this step_complete(3,2)]
  then show ?thesis unfolding step_complete(1)
    by (intro good_call_step [OF assms(1)]) (auto simp: call_ok_def ended_def)
next
  case (step_record r recorded update)
  have "rows_ok (ow_store w)" using assms(1) by (simp add: world_ok_def)
  note c = record_begin_write [where results = results, OF this _ step_record(2)]
  show ?thesis unfolding step_record(1)
    using c step_record(3) by (intro good_call_step [OF assms(1)]) (auto simp: call_ok_def ended_def)
next
  case (step_write c)
  show ?thesis
  proof (cases "\<exists>d. c = Accepting d")
    case True
    with step_write good_write_accepting [OF assms(1)] show ?thesis by auto
  next
    case False
    then show ?thesis unfolding step_write(1)
      using step_write(2) assms(3) by (intro good_write_existing [OF assms(1)]) (auto simp: pending_within_def)
  qed
qed (use assms(1,5) in \<open>simp_all add: good_reserve_step good_release_step good_accept_read good_claim_step good_cancel_step
  cancel_unclaimed_def good_quiet_step quarantine_frame transition_frame record_frame\<close>)

lemma op_step_pending:
  assumes "world_ok w" "op_step results may_release w w'" "pending_within ends w" "\<And>s. results s \<Longrightarrow> ends s"
  shows "pending_within ends w'"
proof -
  have ok: "rows_ok (ow_store w)" using assms(1) by (simp add: world_ok_def)
  have mono: "ended results d \<Longrightarrow> ended ends d" for d using assms(4) by (auto simp: ended_def)
  have add: "pending_within ends (w\<lparr>ow_calls := c # ow_calls w\<rparr>)"
    if "\<And>d. call_dispatch c = Some d \<Longrightarrow> (\<exists>d'. c = Accepting d') \<or> ended ends d" for c
    using assms(3) that by (auto simp: pending_within_def)
  from assms(2) show ?thesis
  proof cases
    case (step_complete r d completed)
    with complete_begin_write [where results = results, OF ok step_complete(3,2)] mono add [of "Completing completed"]
    show ?thesis by simp
  next
    case (step_record r recorded update)
    with record_begin_write [where results = results, OF ok _ step_record(2)] mono add [of "Recording recorded update"]
    show ?thesis by simp
  next
    case (step_write c)
    then show ?thesis using assms(3) by (auto simp: pending_within_def dest: notin_set_remove1)
  qed (use assms(3) in \<open>auto simp: pending_within_def\<close>)
qed


definition empty_world :: op_world where
  "empty_world = \<lparr>ow_store = empty_agents, ow_calls = []\<rparr>"

lemma world_ok_pending: "world_ok w \<Longrightarrow> pending_within (\<lambda>_. True) w"
  unfolding pending_within_def
proof (intro ballI allI impI)
  fix c d assume "world_ok w" "c \<in> set (ow_calls w)" "call_dispatch c = Some d"
  then show "(\<exists>d'. c = Accepting d') \<or> ended (\<lambda>_. True) d"
    by (cases c) (auto simp: world_ok_def list_all_iff call_ok_def)
qed

lemma world_ok_step: "world_ok w \<Longrightarrow> op_step results may_release w w' \<Longrightarrow> world_ok w'"
  using op_step_good [of w results may_release w' "\<lambda>_. True"] world_ok_pending [of w] by (simp add: good_step_def)

lemma world_ok_empty: "world_ok empty_world"
  by (simp add: world_ok_def empty_world_def empty_agents_def ops_ok_def rows_ok_def keys_unique_def)

interpretation op_inv: step_invariant "\<lambda>w. w = empty_world" "op_step results may_release" world_ok
  using world_ok_empty world_ok_step by unfold_locales auto

section \<open>The fence\<close>

definition same_claim :: "AgentOperationReservation \<Rightarrow> AgentOperationReservation \<Rightarrow> bool" where
  "same_claim r x \<longleftrightarrow> or_instance_id x = or_instance_id r \<and> or_generation x = or_generation r \<and> or_owner_token x = or_owner_token r"

definition held :: "AgentOperationReservation \<Rightarrow> op_world \<Rightarrow> bool" where
  "held r w \<longleftrightarrow> world_ok w \<and> tbl_get (as_operations (ow_store w)) (or_instance_id r) = Some r \<and> or_state r = Fence_FENCED"

lemma held_step:
  assumes "held r w" "op_step results (\<lambda>x. \<not> same_claim r x) w w'"
  shows "held r w'"
proof -
  have ok: "world_ok w" using assms(1) by (simp add: held_def)
  have "good_step (\<lambda>_. True) (\<lambda>x. \<not> same_claim r x) w w'"
    by (rule op_step_good [OF ok assms(2) world_ok_pending [OF ok]]) simp_all
  then have c: "fence_change (\<lambda>x. \<not> same_claim r x) (Some r) (tbl_get (as_operations (ow_store w')) (or_instance_id r))"
    and ok': "world_ok w'"
    using assms(1) unfolding good_step_def held_def by metis+
  have "or_instance_id op = or_instance_id r" if "tbl_get (as_operations (ow_store w')) (or_instance_id r) = Some op" for op
    using that ok' by (simp add: world_ok_def ops_ok_def op_ok_def)
  with c have "tbl_get (as_operations (ow_store w')) (or_instance_id r) = Some r"
    using assms(1) by (auto simp: fence_change_def same_claim_def held_def)
  with ok' assms(1) show ?thesis by (simp add: held_def)
qed

lemma held_run: "(op_step results (\<lambda>x. \<not> same_claim r x))\<^sup>*\<^sup>* w w' \<Longrightarrow> held r w \<Longrightarrow> held r w'"
  by (induction rule: rtranclp_induct) (auto intro: held_step)

lemma reserve_held:
  assumes "world_ok w" "reserve clock i owner (ow_store w) = (st, Inr r)"
  shows "held r (w\<lparr>ow_store := st\<rparr>)"
proof -
  have ok: "ops_ok (ow_store w)" using assms(1) by (simp add: world_ok_def)
  have "good_step (\<lambda>_. True) (\<lambda>_. True) w (w\<lparr>ow_store := st\<rparr>)"
    using good_reserve_step [OF assms(1), where clock = clock and i = i and owner = owner] assms(2) by simp
  then show ?thesis using reserve_ops [OF ok assms(2)] by (simp add: held_def good_step_def)
qed

text \<open>A fence is exclusive. After a reservation succeeded, and through every run in which it is not released
  with its own generation and owner token, its holder still owns it and no other reservation of the
  instance succeeds.\<close>

theorem fence_is_exclusive:
  assumes "reach (\<lambda>w. w = empty_world) (op_step results may_release) w"
    "reserve clock i owner (ow_store w) = (st, Inr r)"
    "(op_step results (\<lambda>x. \<not> same_claim r x))\<^sup>*\<^sup>* (w\<lparr>ow_store := st\<rparr>) w'"
  shows "verify_owned r (ow_store w') = Inr () \<and>
    \<not> isOK (snd (reserve clock' i owner' (ow_store w'))) \<and> fst (reserve clock' i owner' (ow_store w')) = ow_store w'"
proof -
  have ok: "world_ok w" by (rule op_inv.inv_reach [OF assms(1)])
  have h: "held r w'" by (rule held_run [OF assms(3) reserve_held [OF ok assms(2)]])
  have i: "or_instance_id r = i" using reserve_ops [OF _ assms(2)] ok by (simp add: world_ok_def)
  from h i show ?thesis
    by (auto simp: held_def verify_owned_def load_agent_operation_def reserve_def ensure_agent_operation_def Let_def
      split: sum.split)
qed

section \<open>A fenced generation does not start again\<close>

definition past_fence :: "AgentOperationReservation \<Rightarrow> AgentStore \<Rightarrow> bool" where
  "past_fence r st \<longleftrightarrow> (\<exists>op. tbl_get (as_operations st) (or_instance_id r) = Some op \<and>
     (or_generation r < or_generation op \<or> or_generation op = or_generation r \<and> or_state op = Fence_FENCED))"

lemma past_fence_change:
  assumes "past_fence r st" "fence_change mr (tbl_get (as_operations st) (or_instance_id r)) (tbl_get (as_operations st') (or_instance_id r))"
  shows "past_fence r st'"
  using assms by (auto simp: past_fence_def fence_change_def)

definition executing_before :: "AgentOperationReservation \<Rightarrow> AgentStore \<Rightarrow> string \<Rightarrow> bool" where
  "executing_before r st k \<longleftrightarrow> (\<exists>d. tbl_get (as_dispatches st) k = Some d \<and> dq_instance_id d = or_instance_id r \<and>
     generation_within (ev_get (dq_evidence d) ''operation_generation'') (or_generation r) \<and> dispatch_status d = PStr ''executing'')"

lemma ended_not_executing: "ended ends d \<Longrightarrow> dispatch_status d \<noteq> PStr ''executing''"
proof -
  have "operation_state_value s \<noteq> ''executing''" for s by (cases s) simp_all
  then show "ended ends d \<Longrightarrow> dispatch_status d \<noteq> PStr ''executing''" by (metis ended_def pyval.inject(4))
qed

lemma executing_step:
  assumes "world_ok w" "past_fence r (ow_store w)" "op_step results may_release w w'" "executing_before r (ow_store w') k"
  shows "executing_before r (ow_store w) k"
proof -
  have "good_step (\<lambda>_. True) may_release w w'"
    by (rule op_step_good [OF assms(1,3) world_ok_pending [OF assms(1)]]) simp_all
  then have c: "dispatch_change (\<lambda>_. True) (ow_store w) (tbl_get (as_dispatches (ow_store w)) k) (tbl_get (as_dispatches (ow_store w')) k)"
    by (simp add: good_step_def)
  have "\<not> bound_open (ow_store w) d" if "dq_instance_id d = or_instance_id r"
    "generation_within (ev_get (dq_evidence d) ''operation_generation'') (or_generation r)" for d
    using assms(2) that by (auto simp: bound_open_def past_fence_def generation_within_def)
  with c assms(4) ended_not_executing show ?thesis
    by (fastforce simp: executing_before_def dispatch_change_def end_change_def)
qed

text \<open>C11: A fence stops its generation for good. Once an instance was fenced, in every later state, also after the
  fence was released and reopened, a dispatch bound to that generation or an earlier one is executing
  only if it was already executing when the fence closed.\<close>

theorem fenced_generation_never_starts:
  assumes "reach (\<lambda>w. w = empty_world) (op_step results may_release) w"
    "tbl_get (as_operations (ow_store w)) (or_instance_id r) = Some r" "or_state r = Fence_FENCED"
    "(op_step results' may_release')\<^sup>*\<^sup>* w w'" "executing_before r (ow_store w') k"
  shows "executing_before r (ow_store w) k"
proof -
  have ok: "world_ok w" by (rule op_inv.inv_reach [OF assms(1)])
  have "world_ok w' \<and> past_fence r (ow_store w') \<and> (executing_before r (ow_store w') k \<longrightarrow> executing_before r (ow_store w) k)"
    using assms(4)
  proof (induction rule: rtranclp_induct)
    case base
    then show ?case using ok assms(2,3) by (simp add: past_fence_def)
  next
    case (step y z)
    have y: "world_ok y" "past_fence r (ow_store y)" using step.IH by simp_all
    have "good_step (\<lambda>_. True) may_release' y z"
      by (rule op_step_good [OF y(1) step.hyps(2) world_ok_pending [OF y(1)]]) simp_all
    then have "past_fence r (ow_store z)" using past_fence_change [OF y(2)] by (auto simp: good_step_def)
    with y step.IH world_ok_step [OF y(1) step.hyps(2)] executing_step [OF y step.hyps(2)] show ?case by blast
  qed
  then show ?thesis using assms(5) by blast
qed

section \<open>Quiescence\<close>

definition terminal :: "AgentOperationState \<Rightarrow> bool" where
  "terminal s \<longleftrightarrow> operation_state_value s \<in> set TERMINAL_DISPATCH_STATUSES"

lemma inflight_Nil:
  assumes "rows_ok st"
  shows "inflight r st = [] \<longleftrightarrow> (\<forall>k d. tbl_get (as_dispatches st) k = Some d \<longrightarrow> \<not> in_flight r d)"
proof -
  have "tbl_get (as_dispatches st) k = Some d \<Longrightarrow> dq_id d = k" for k d using assms by (simp add: rows_ok_def)
  then show ?thesis unfolding inflight_def filter_empty_conv using list_dispatches_iff [OF assms] by metis
qed

lemma quiescent_step:
  assumes "held r w" "inflight r (ow_store w) = []" "pending_within terminal w"
    "op_step terminal (\<lambda>x. \<not> same_claim r x) w w'"
  shows "inflight r (ow_store w') = []"
proof -
  have ok: "world_ok w" "rows_ok (ow_store w)" "world_ok w'" "rows_ok (ow_store w')"
    using assms(1) world_ok_step [OF _ assms(4)] by (auto simp: held_def world_ok_def)
  have "good_step terminal (\<lambda>x. \<not> same_claim r x) w w'"
    by (rule op_step_good [OF ok(1) assms(4,3)]) (simp_all add: terminal_def TERMINAL_DISPATCH_STATUSES_def)
  then have c: "dispatch_change terminal (ow_store w) (tbl_get (as_dispatches (ow_store w)) k) (tbl_get (as_dispatches (ow_store w')) k)" for k
    by (simp add: good_step_def)
  have "\<not> in_flight r d" if "tbl_get (as_dispatches (ow_store w')) k = Some d" for k d
  proof
    assume f: "in_flight r d"
    then have "\<not> bound_open (ow_store w) d" using assms(1) by (auto simp: held_def bound_open_def in_flight_def)
    moreover have "\<not> ended terminal d" using f by (auto simp: ended_def terminal_def in_flight_def)
    ultimately have "tbl_get (as_dispatches (ow_store w)) k = Some d"
      using c [of k] that by (auto simp: dispatch_change_def end_change_def)
    with f assms(2) show False by (auto simp: inflight_Nil [OF ok(2)])
  qed
  then show ?thesis by (simp add: inflight_Nil [OF ok(4)])
qed

text \<open>C2: Quiescence lasts. When nothing is in flight under a held fence and the calls still running end with a
  terminal provider state, nothing of that generation is in flight in any later state until the fence
  is released; a dispatch accepted from a stale reading of the fence is refused when it is stored.\<close>

theorem quiescence_is_stable:
  assumes "reach (\<lambda>w. w = empty_world) (op_step results may_release) w"
    "tbl_get (as_operations (ow_store w)) (or_instance_id r) = Some r" "or_state r = Fence_FENCED"
    "inflight r (ow_store w) = []" "pending_within terminal w"
    "(op_step terminal (\<lambda>x. \<not> same_claim r x))\<^sup>*\<^sup>* w w'"
  shows "inflight r (ow_store w') = []"
proof -
  have ok: "world_ok w" by (rule op_inv.inv_reach [OF assms(1)])
  have "held r w' \<and> inflight r (ow_store w') = [] \<and> pending_within terminal w'"
    using assms(6)
  proof (induction rule: rtranclp_induct)
    case base
    then show ?case using ok assms(2-5) by (simp add: held_def)
  next
    case (step y z)
    then have y: "held r y" "inflight r (ow_store y) = []" "pending_within terminal y" and ok: "world_ok y"
      by (simp_all add: held_def)
    show ?case
      using held_step [OF y(1) step.hyps(2)] quiescent_step [OF y step.hyps(2)] op_step_pending [OF ok step.hyps(2) y(3)] by simp
  qed
  then show ?thesis by blast
qed

end
