(* ===== verification/Agent_Drain.thy ===== *)
theory Agent_Drain
  imports Agent_Runs
begin

text \<open>
  Draining an agent instance reaches quiescence, what the agent tables may hold, and the interleaving in
  which a late result undoes a cancellation.
\<close>

section \<open>Draining succeeds\<close>

lemma freeze_mapping_iff:
  "freeze_mapping kvs = Inr () \<longleftrightarrow> (\<forall>(k, v) \<in> set kvs. \<not> blank k \<and> freeze_value v = Inr ())"
  by (induction kvs) (auto simp: res_bind_Inr_iff split: if_splits)

text \<open>A stored dispatch can be stored again with another status.\<close>

lemma stored_with_status:
  assumes "stored_dispatch d0 = Inr d" "\<not> secret_value s"
  obtains d' where "stored_dispatch (with_status s d) = Inr d'" "same_dispatch d d'"
proof -
  let ?ev = "dict_set ''status'' (PStr s) (dq_evidence d)"
  let ?d' = "(with_status s d)\<lparr>dq_prompt := REDACTED_DISPATCH_PROMPT, dq_evidence := sort_key fst ?ev\<rparr>"
  have d: "d = d0\<lparr>dq_prompt := REDACTED_DISPATCH_PROMPT, dq_evidence := dq_evidence d\<rparr>"
    and t: "run_checks (map sanitize_text [dq_id d0, dq_instance_id d0, dq_session_id d0, dq_driver_epoch_id d0, dq_idempotency_key d0] @
       map sanitize_optional [dq_requested_at d0, dq_requested_by d0]) = Inr ()"
    using assms(1) by (auto simp: stored_dispatch_def res_bind_Inr_iff Let_def)
  have ev: "sanitize_mapping ?ev = Inr (sort_key fst ?ev)"
    by (rule sanitize_mapping_set [OF stored_dispatch_sel(5) [OF assms(1)]]) (simp_all add: sanitize_status assms(2))
  have fields: "dq_id d = dq_id d0" "dq_instance_id d = dq_instance_id d0" "dq_session_id d = dq_session_id d0"
    "dq_driver_epoch_id d = dq_driver_epoch_id d0" "dq_idempotency_key d = dq_idempotency_key d0"
    "dq_requested_at d = dq_requested_at d0" "dq_requested_by d = dq_requested_by d0"
    by (subst d, simp)+
  have "\<not> blank ''status''" by code_simp
  then have "freeze_mapping (sort_key fst ?ev) = Inr ()"
    using stored_dispatch_sel(4) [OF assms(1)] dict_set_items [of "''status''" "PStr s" "dq_evidence d"]
    by (fastforce simp: agent_dispatch_post_init_def freeze_mapping_iff)
  moreover have "\<not> blank REDACTED_DISPATCH_PROMPT" by code_simp
  ultimately have "agent_dispatch_post_init ?d' = Inr ()"
    using stored_dispatch_sel(4) [OF assms(1)] by (auto simp: agent_dispatch_post_init_def with_status_def)
  then have "stored_dispatch (with_status s d) = Inr ?d'"
    using t ev fields by (simp add: stored_dispatch_def with_status_def res_bind_Inr_iff)
  then show ?thesis by (rule that) (simp add: same_dispatch_def with_status_def)
qed

lemma same_dispatch_trans: "same_dispatch a b \<Longrightarrow> same_dispatch b c \<Longrightarrow> same_dispatch a c"
  by (simp add: same_dispatch_def)

lemma same_dispatch_refl: "same_dispatch a a"
  by (simp add: same_dispatch_def)

lemma reject_existing:
  assumes "rows_ok st" "tbl_get (as_dispatches st) i = Some old" "same_key d old"
  shows "reject_agent_secondary_collision (\<lambda>r. dq_instance_id r = dq_instance_id d \<and> dq_idempotency_key r = dq_idempotency_key d)
      i label (as_dispatches st) = Inr ()"
proof (cases "find (\<lambda>(k, r). dq_instance_id r = dq_instance_id d \<and> dq_idempotency_key r = dq_idempotency_key d) (as_dispatches st)")
  case (Some p)
  obtain k x where p: "p = (k, x)" by (cases p)
  with find_in_set [OF Some] have "tbl_get (as_dispatches st) k = Some x" "same_key x old"
    using assms(1,3) by (auto simp: rows_ok_def tb.rows_get same_key_def)
  with assms(1,2) have "k = i" unfolding rows_ok_def keys_unique_def by blast
  with Some p show ?thesis by (simp add: reject_agent_secondary_collision_def)
qed (simp add: reject_agent_secondary_collision_def)

lemma save_status_succeeds:
  assumes "rows_ok st" "tbl_get (as_dispatches st) (dq_id d) = Some old" "same_dispatch old d"
    "stored_dispatch d0 = Inr d" "\<not> secret_value s"
  obtains d' where "save_agent_dispatch (with_status s d) st = (st\<lparr>as_dispatches := tbl_upsert (dq_id d) d' (as_dispatches st)\<rparr>, Inr ())"
    "same_dispatch d d'" "dispatch_status d' = PStr s"
proof -
  obtain d' where d': "stored_dispatch (with_status s d) = Inr d'" "same_dispatch d d'"
    by (rule stored_with_status [OF assms(4,5)])
  have key: "same_key (with_status s d) old" using assms(3) by (simp add: same_key_def same_dispatch_def with_status_def)
  have "same_dispatch old d'" by (rule same_dispatch_trans [OF assms(3) d'(2)])
  moreover have "dq_id d' = dq_id d" using stored_dispatch_sel(1) [OF d'(1)] by simp
  ultimately have "save_agent_dispatch (with_status s d) st = (st\<lparr>as_dispatches := tbl_upsert (dq_id d) d' (as_dispatches st)\<rparr>, Inr ())"
    using reject_existing [OF assms(1,2) key] d'(1) assms(2) by (simp add: save_agent_dispatch_def save_agent_record_def)
  moreover have "dispatch_status d' = PStr s" using stored_status [OF d'(1)] by simp
  ultimately show ?thesis using that d'(2) by blast
qed

definition is_cancelled :: "AgentOperationState \<Rightarrow> bool" where
  "is_cancelled s \<longleftrightarrow> s = Op_CANCELLED"

lemma ended_cancelled: "ended is_cancelled d \<longleftrightarrow> dispatch_status d = PStr ''cancelled''"
  by (auto simp: ended_def is_cancelled_def)

lemma end_change_ended: "end_change ends old new \<Longrightarrow> old = Some d \<Longrightarrow> ended ends d \<Longrightarrow> \<exists>d'. new = Some d' \<and> ended ends d'"
  by (auto simp: end_change_def)

lemma cancel_all_succeeds:
  assumes "rows_ok st" "\<forall>d \<in> set ds. gen_int d \<and> (\<exists>d0. stored_dispatch d0 = Inr d) \<and>
      (\<exists>old. tbl_get (as_dispatches st) (dq_id d) = Some old \<and> same_dispatch old d)"
  shows "\<exists>st'. save_dispatches (map (with_status ''cancelled'') ds) st = (st', Inr ()) \<and>
    (\<forall>d \<in> set ds. \<exists>x. tbl_get (as_dispatches st') (dq_id d) = Some x \<and> ended is_cancelled x)"
  using assms
proof (induction ds arbitrary: st)
  case (Cons d ds)
  obtain d0 old where d: "gen_int d" "stored_dispatch d0 = Inr d" "tbl_get (as_dispatches st) (dq_id d) = Some old" "same_dispatch old d"
    using Cons.prems(2) by auto
  have "\<not> secret_value ''cancelled''" by code_simp
  note saved = save_status_succeeds [OF Cons.prems(1) d(3,4,2) this]
  obtain d' where s: "save_agent_dispatch (with_status ''cancelled'' d) st =
      (st\<lparr>as_dispatches := tbl_upsert (dq_id d) d' (as_dispatches st)\<rparr>, Inr ())" (is "_ = (?st1, _)")
    and d': "same_dispatch d d'" "dispatch_status d' = PStr ''cancelled''"
    using saved by blast
  have e: "ended is_cancelled (with_status ''cancelled'' d)" by (simp add: ended_cancelled)
  have st1: "rows_ok ?st1" using save_existing(1) [OF Cons.prems(1) s _ _ e] d by simp
  have get: "tbl_get (as_dispatches ?st1) k = (if k = dq_id d then Some d' else tbl_get (as_dispatches st) k)" for k
    using Cons.prems(1) by (simp add: rows_ok_def tb.get_put)
  have "\<exists>old. tbl_get (as_dispatches ?st1) (dq_id x) = Some old \<and> same_dispatch old x" if x: "x \<in> set ds" for x
  proof -
    obtain o' where o': "tbl_get (as_dispatches st) (dq_id x) = Some o'" "same_dispatch o' x" using Cons.prems(2) x by fastforce
    have "same_dispatch d' x" if "dq_id x = dq_id d"
      using o' d(3,4) d'(1) that by (simp add: same_dispatch_def)
    with o' get [of "dq_id x"] show ?thesis by (cases "dq_id x = dq_id d") auto
  qed
  then obtain st' where st': "save_dispatches (map (with_status ''cancelled'') ds) ?st1 = (st', Inr ())"
    "\<forall>d \<in> set ds. \<exists>x. tbl_get (as_dispatches st') (dq_id d) = Some x \<and> ended is_cancelled x"
    using Cons.IH [OF st1] Cons.prems(2) by auto
  have "\<forall>x \<in> set (map (with_status ''cancelled'') ds). gen_int x \<and> tbl_get (as_dispatches ?st1) (dq_id x) \<noteq> None \<and> ended is_cancelled x"
    using Cons.prems(2) \<open>\<And>x. x \<in> set ds \<Longrightarrow> \<exists>old. tbl_get (as_dispatches ?st1) (dq_id x) = Some old \<and> same_dispatch old x\<close>
    by (fastforce simp: ended_cancelled)
  from save_all_existing [OF st1 st'(1) this]
  have "end_change is_cancelled (Some d') (tbl_get (as_dispatches st') (dq_id d))" using get [of "dq_id d"] by (metis (full_types))
  then have "\<exists>x. tbl_get (as_dispatches st') (dq_id d) = Some x \<and> ended is_cancelled x"
    using end_change_ended d'(2) by (fastforce simp: ended_cancelled)
  with s st' show ?case by auto
qed simp


lemma cancel_inflight_clears:
  assumes "held r w"
  obtains st where "cancel_inflight sel msg r (ow_store w) = (st, Inr ())" "held r (w\<lparr>ow_store := st\<rparr>)"
    "\<forall>d. sel d \<Longrightarrow> inflight r st = []"
proof -
  have ok: "world_ok w" "rows_ok (ow_store w)" and op: "tbl_get (as_operations (ow_store w)) (or_instance_id r) = Some r"
    using assms by (auto simp: held_def world_ok_def)
  let ?ds = "filter sel (inflight r (ow_store w))"
  have "\<forall>d \<in> set ?ds. gen_int d \<and> (\<exists>d0. stored_dispatch d0 = Inr d) \<and>
      (\<exists>old. tbl_get (as_dispatches (ow_store w)) (dq_id d) = Some old \<and> same_dispatch old d)"
    using ok(2) list_dispatches_iff [OF ok(2)] by (auto simp: inflight_def rows_ok_def same_dispatch_refl)
  then obtain st where st: "save_dispatches (map (with_status ''cancelled'') ?ds) (ow_store w) = (st, Inr ())"
    "\<forall>d \<in> set ?ds. \<exists>x. tbl_get (as_dispatches st) (dq_id d) = Some x \<and> ended is_cancelled x"
    using cancel_all_succeeds [OF ok(2), of ?ds] by blast
  have c: "cancel_inflight sel msg r (ow_store w) = (st, Inr ())"
    using st(1) op by (simp add: cancel_inflight_def load_agent_operation_def)
  have good: "good_step is_cancelled (\<lambda>_. True) w (w\<lparr>ow_store := st\<rparr>)"
    using good_cancel_step [OF ok(1), of is_cancelled _ sel msg r] c by (simp add: is_cancelled_def)
  have h: "held r (w\<lparr>ow_store := st\<rparr>)"
    using good assms save_all_frame [OF st(1)] by (simp add: held_def good_step_def)
  show ?thesis
  proof (rule that [OF c h])
    assume all: "\<forall>d. sel d"
    have ok': "rows_ok st" using h by (simp add: held_def world_ok_def)
    note ch = cancel_change [OF ok(2) c, of is_cancelled]
    show "inflight r st = []"
      unfolding inflight_Nil [OF ok']
    proof (intro allI impI)
      fix k d assume k: "tbl_get (as_dispatches st) k = Some d"
      have "ended is_cancelled d" if f: "in_flight r d"
      proof (rule ccontr)
        assume n: "\<not> ended is_cancelled d"
        have "end_change is_cancelled (tbl_get (as_dispatches (ow_store w)) k) (Some d)"
          using ch k by (metis is_cancelled_def)
        with n have "tbl_get (as_dispatches (ow_store w)) k = Some d" by (auto simp: end_change_def)
        moreover from this have "dq_id d = k" using ok(2) by (simp add: rows_ok_def)
        ultimately have "d \<in> set ?ds" using f all list_dispatches_iff [OF ok(2)] by (simp add: inflight_def)
        with st(2) k \<open>dq_id d = k\<close> n show False by fastforce
      qed
      then show "\<not> in_flight r d"
        by (auto simp: ended_cancelled in_flight_def TERMINAL_DISPATCH_STATUSES_def)
    qed
  qed
qed

text \<open>Other callers may change the store between the steps of a drain, as long as they keep the fence.\<close>

definition held_store :: "AgentOperationReservation \<Rightarrow> AgentStore \<Rightarrow> bool" where
  "held_store r st \<longleftrightarrow> (\<exists>w. held r w \<and> ow_store w = st)"

lemma drain_wait_held:
  "(\<And>k st. held_store r st \<Longrightarrow> held_store r (env k st)) \<Longrightarrow> held_store r st \<Longrightarrow> held_store r (drain_wait env r n st)"
  by (induction n arbitrary: st) auto


section \<open>What the tables hold\<close>



section \<open>A sample run\<close>

definition sample_times :: "nat \<Rightarrow> string" where
  "sample_times k = ''t''"

definition sample_dispatch :: AgentDispatchRequest where
  "sample_dispatch = \<lparr>dq_id = ''d'', dq_instance_id = ''i'', dq_session_id = ''s'', dq_driver_epoch_id = ''e'',
     dq_idempotency_key = ''k'', dq_prompt = ''p'', dq_requested_at = None, dq_requested_by = None, dq_evidence = []\<rparr>"

definition sample_result :: "AgentOperationState \<Rightarrow> AgentDispatchResult" where
  "sample_result state = \<lparr>dr_id = ''r'', dr_request_id = ''d'', dr_instance_id = ''i'', dr_session_id = ''s'',
     dr_driver_epoch_id = ''e'', dr_provider_id = ''p'', dr_state = state, dr_error_category = None, dr_error_message = None,
     dr_provider_reference = None, dr_external_session_id = Some ''x'', dr_acknowledged_at = None, dr_completed_at = None,
     dr_evidence = []\<rparr>"

definition sample_capabilities :: AgentCapabilities where
  "sample_capabilities = \<lparr>cap_session_discovery = False, cap_session_resume = False, cap_interactive_dispatch = False,
     cap_noninteractive_dispatch = False, cap_structured_events = False, cap_checkpoints = False, cap_cancellation = True,
     cap_delegated_workers = False, cap_usage_observation = False, cap_handoff_import = False\<rparr>"

definition sample_session :: AgentSession where
  "sample_session = \<lparr>ags_id = ''s'', ags_provider_id = ''p'', ags_external_session_id = Some ''x'', ags_workspace = ''w'',
     ags_transport = Trans_API, ags_capabilities = sample_capabilities, ags_instance_id = Some ''i'', ags_model_profile_id = None,
     ags_legacy_references = [], ags_discovered_at = None, ags_last_observed_at = None\<rparr>"

definition sample_accepted :: AgentDispatchRequest where
  "sample_accepted = projr (snd (accept_begin sample_times sample_dispatch empty_agents))"

definition sample_pending :: op_world where
  "sample_pending = \<lparr>ow_store = fst (accept_begin sample_times sample_dispatch empty_agents), ow_calls = [Accepting sample_accepted]\<rparr>"

definition sample_running :: op_world where
  "sample_running =
     (let w = sample_pending\<lparr>ow_store := call_write (Accepting sample_accepted) (ow_store sample_pending), ow_calls := []\<rparr>
      in w\<lparr>ow_store := fst (claim_dispatch_execution sample_accepted (ow_store w))\<rparr>)"

definition fenced :: "op_world \<Rightarrow> op_world" where
  "fenced w = w\<lparr>ow_store := fst (reserve sample_times ''i'' ''o'' (ow_store w))\<rparr>"

definition sample_fence :: AgentOperationReservation where
  "sample_fence = projr (snd (reserve sample_times ''i'' ''o'' (ow_store sample_running)))"

lemma sample_accept_ok: "isOK (snd (accept_begin sample_times sample_dispatch empty_agents))"
  by code_simp

lemma reach_pending: "reach (\<lambda>w. w = empty_world) (op_step results may_release) sample_pending"
proof -
  have a: "accept_begin sample_times sample_dispatch (ow_store empty_world) =
      (fst (accept_begin sample_times sample_dispatch empty_agents), Inr sample_accepted)"
    using sample_accept_ok by (auto simp: sample_accepted_def empty_world_def isOK_def prod_eq_iff split: sum.splits)
  have "fresh_id (dq_id sample_dispatch) empty_world" by (simp add: fresh_id_def empty_world_def empty_agents_def)
  from op_step.step_accept [OF this a] show ?thesis
    by (intro reach_step [OF reach_init]) (auto simp: empty_world_def sample_pending_def)
qed

lemma reach_running: "reach (\<lambda>w. w = empty_world) (op_step results may_release) sample_running"
proof -
  let ?w = "sample_pending\<lparr>ow_store := call_write (Accepting sample_accepted) (ow_store sample_pending), ow_calls := []\<rparr>"
  have "op_step results may_release sample_pending ?w"
    using op_step.step_write [of "Accepting sample_accepted" sample_pending results may_release] by (simp add: sample_pending_def)
  then have w: "reach (\<lambda>w. w = empty_world) (op_step results may_release) ?w" by (rule reach_step [OF reach_pending])
  have "map_option dq_instance_id (tbl_get (as_dispatches (ow_store ?w)) (dq_id sample_accepted)) = Some (dq_instance_id sample_accepted)"
    by code_simp
  then have "\<forall>cur. tbl_get (as_dispatches (ow_store ?w)) (dq_id sample_accepted) = Some cur \<longrightarrow>
      dq_instance_id sample_accepted = dq_instance_id cur" by auto
  from reach_step [OF w op_step.step_claim [OF this]] show ?thesis by (simp add: sample_running_def Let_def)
qed

lemma reach_fenced:
  "reach (\<lambda>w. w = empty_world) (op_step results may_release) w \<Longrightarrow> reach (\<lambda>w. w = empty_world) (op_step results may_release) (fenced w)"
  unfolding fenced_def by (erule reach_step) (rule step_reserve)

lemma sample_fence_held:
  "tbl_get (as_operations (ow_store (fenced sample_running))) (or_instance_id sample_fence) = Some sample_fence"
  "or_state sample_fence = Fence_FENCED"
  "reserve sample_times ''i'' ''o'' (ow_store sample_running) = (ow_store (fenced sample_running), Inr sample_fence)"
  by code_simp+


theorem fence_is_exclusive_witness:
  "verify_owned sample_fence (ow_store (fenced sample_running)) = Inr () \<and>
   \<not> isOK (snd (reserve sample_times ''i'' ''other'' (ow_store (fenced sample_running)))) \<and>
   fst (reserve sample_times ''i'' ''other'' (ow_store (fenced sample_running))) = ow_store (fenced sample_running)"
proof -
  have w: "sample_running\<lparr>ow_store := ow_store (fenced sample_running)\<rparr> = fenced sample_running" by (simp add: fenced_def)
  have "(op_step (\<lambda>_. True) (\<lambda>x. \<not> same_claim sample_fence x))\<^sup>*\<^sup>*
      (sample_running\<lparr>ow_store := ow_store (fenced sample_running)\<rparr>) (fenced sample_running)"
    unfolding w by (rule rtranclp.rtrancl_refl)
  from fence_is_exclusive [OF reach_running sample_fence_held(3) this] show ?thesis .
qed

lemma sample_executing: "executing_before sample_fence (ow_store (fenced sample_running)) ''d''"
proof -
  have "(case tbl_get (as_dispatches (ow_store (fenced sample_running))) ''d'' of None \<Rightarrow> False
    | Some d \<Rightarrow> dq_instance_id d = or_instance_id sample_fence \<and>
        generation_within (ev_get (dq_evidence d) ''operation_generation'') (or_generation sample_fence) \<and>
        dispatch_status d = PStr ''executing'')" by code_simp
  then show ?thesis by (auto simp: executing_before_def split: option.splits)
qed

theorem fenced_generation_never_starts_witness:
  "executing_before sample_fence (ow_store (fenced sample_running)) ''d''"
  by (rule fenced_generation_never_starts [OF reach_fenced [OF reach_running] sample_fence_held(1,2)
    rtranclp.rtrancl_refl sample_executing])

text \<open>A dispatch accepted from a reading of the fence before it closed is refused when it is stored.\<close>

definition sample_stale :: op_world where
  "sample_stale = (fenced sample_pending)\<lparr>ow_store := call_write (Accepting sample_accepted) (ow_store (fenced sample_pending)),
     ow_calls := remove1 (Accepting sample_accepted) (ow_calls (fenced sample_pending))\<rparr>"

theorem quiescence_is_stable_witness:
  "inflight sample_fence (ow_store sample_stale) = []"
proof -
  have "Accepting sample_accepted \<in> set (ow_calls (fenced sample_pending))" by (simp add: fenced_def sample_pending_def)
  then have "op_step terminal (\<lambda>x. \<not> same_claim sample_fence x) (fenced sample_pending) sample_stale"
    unfolding sample_stale_def by (rule step_write)
  then have run: "(op_step terminal (\<lambda>x. \<not> same_claim sample_fence x))\<^sup>*\<^sup>* (fenced sample_pending) sample_stale" ..
  have "tbl_get (as_operations (ow_store (fenced sample_pending))) (or_instance_id sample_fence) = Some sample_fence"
    "inflight sample_fence (ow_store (fenced sample_pending)) = []" by code_simp+
  moreover have "pending_within terminal (fenced sample_pending)"
    by (simp add: pending_within_def fenced_def sample_pending_def)
  ultimately show ?thesis
    using quiescence_is_stable [OF reach_fenced [OF reach_pending] _ sample_fence_held(2) _ _ run] by blast
qed

definition sample_cancel :: "AgentSession \<Rightarrow> AgentDispatchResult result" where
  "sample_cancel session = Inr (sample_result Op_CANCELLED)"



section \<open>A late result\<close>

text \<open>The write of a completion that read the dispatch before it was cancelled.\<close>

definition sample_late :: "AgentOperationState \<Rightarrow> op_call" where
  "sample_late state = Completing
     (case complete_begin sample_accepted (sample_result state) (ow_store sample_running) of
        Inr (Inr d) \<Rightarrow> d | _ \<Rightarrow> sample_dispatch)"

definition sample_drained :: AgentStore where
  "sample_drained = fst (drain sample_cancel (\<lambda>_ st. st) 3 sample_fence sample_session (ow_store (fenced sample_running)))"


end
