(* ===== verification/Agent_Retry.thy ===== *)
theory Agent_Retry
  imports Agent_Runs
begin

text \<open>
  Dispatching under an idempotency key: after a dispatch returned, a retry with the same key reports the
  recorded outcome and reaches neither the store nor the provider.
\<close>

section \<open>The row of a dispatch\<close>

text \<open>A stored dispatch with a given id, instance and idempotency key, and a condition on its evidence.\<close>

definition row_at ::
  "AgentStore \<Rightarrow> string \<Rightarrow> string \<Rightarrow> string \<Rightarrow> (AgentDispatchRequest \<Rightarrow> bool) \<Rightarrow> bool" where
  "row_at st k i key P \<longleftrightarrow> rows_ok st \<and> (\<exists>d. tbl_get (as_dispatches st) k = Some d \<and> dq_instance_id d = i \<and>
     dq_idempotency_key d = key \<and> P d)"

lemma row_at_mono: "row_at st k i key P \<Longrightarrow> (\<And>d. P d \<Longrightarrow> Q d) \<Longrightarrow> row_at st k i key Q"
  by (auto simp: row_at_def)

lemma save_rows:
  assumes "rows_ok st" "gen_int d" "save_agent_dispatch d st = (st', r)"
  shows "rows_ok st'" "r = Inr () \<Longrightarrow> \<exists>d'. stored_dispatch d = Inr d' \<and> tbl_get (as_dispatches st') (dq_id d) = Some d'"
    "k \<noteq> dq_id d \<Longrightarrow> tbl_get (as_dispatches st') k = tbl_get (as_dispatches st) k"
proof -
  have "rows_ok st' \<and> (r = Inr () \<longrightarrow> (\<exists>d'. stored_dispatch d = Inr d' \<and> tbl_get (as_dispatches st') (dq_id d) = Some d')) \<and>
      (k \<noteq> dq_id d \<longrightarrow> tbl_get (as_dispatches st') k = tbl_get (as_dispatches st) k)"
    using assms(3)
  proof (cases rule: save_agent_dispatch_cases)
    case (inserted d')
    with dispatch_rows_put [OF assms(1) inserted(1) assms(2) insert_key [OF assms(1) inserted(5)] inserted(6)] show ?thesis by auto
  next
    case (updated d' old)
    with dispatch_rows_put [OF assms(1) updated(1) assms(2) update_key [OF assms(1) updated(1,2,3)] updated(5)] show ?thesis by auto
  qed (use assms(1) in simp)
  then show "rows_ok st'" "r = Inr () \<Longrightarrow> \<exists>d'. stored_dispatch d = Inr d' \<and> tbl_get (as_dispatches st') (dq_id d) = Some d'"
    "k \<noteq> dq_id d \<Longrightarrow> tbl_get (as_dispatches st') k = tbl_get (as_dispatches st) k" by blast+
qed

lemma save_row_at:
  assumes "rows_ok st" "gen_int d" "save_agent_dispatch d st = (st', Inr ())"
  shows "row_at st' (dq_id d) (dq_instance_id d) (dq_idempotency_key d) (\<lambda>d'. stored_dispatch d = Inr d')"
  using save_rows [OF assms] stored_dispatch_sel(2,3) by (fastforce simp: row_at_def)

text \<open>Saving another state of the same row, or another row, keeps the key of a row.\<close>

lemma save_keeps_row:
  assumes "row_at st k i key P" "gen_int d" "save_agent_dispatch d st = (st', r)"
    "dq_id d = k \<Longrightarrow> dq_instance_id d = i \<and> dq_idempotency_key d = key" "\<And>d'. dq_id d = k \<Longrightarrow> stored_dispatch d = Inr d' \<Longrightarrow> P d'"
  shows "row_at st' k i key P"
proof (cases "dq_id d = k \<and> isOK r")
  case True
  then have r: "save_agent_dispatch d st = (st', Inr ())" using assms(3) by (auto simp: isOK_def split: sum.splits)
  from save_row_at [OF _ assms(2) r] assms(1,4,5) True show ?thesis by (auto simp: row_at_def)
next
  case False
  have "st' = st" if "\<not> isOK r" using assms(3) that
    by (cases rule: save_agent_dispatch_cases) auto
  with False save_rows(1,3) [OF _ assms(2,3)] assms(1) show ?thesis by (auto simp: row_at_def)
qed

section \<open>The steps of a dispatch\<close>

lemma accept_row:
  assumes "rows_ok st" "accept_dispatch clock d st = (st', Inr a)"
  shows "row_at st' (dq_id a) (dq_instance_id a) (dq_idempotency_key a) (\<lambda>_. True)"
    "dq_instance_id a = dq_instance_id d" "dq_idempotency_key a = dq_idempotency_key d"
proof -
  obtain st1 where b: "accept_begin clock d st = (st1, Inr a)" and s: "save_agent_dispatch a st1 = (st', Inr ())"
    using assms(2) by (auto simp: accept_dispatch_def map_prod_def map_sum_Inr_iff split: prod.splits sum.splits)
  obtain r0 where e: "ensure_agent_operation (dq_instance_id d) (clock 0) st = (st1, r0)"
    and g: "gen_int a" "dq_instance_id a = dq_instance_id d"
    using accept_begin_cases [OF b] by metis
  have "rows_ok st1" using ensure_cases [OF e] assms(1) by (simp add: rows_ok_def)
  from save_row_at [OF this g(1) s]
  show "row_at st' (dq_id a) (dq_instance_id a) (dq_idempotency_key a) (\<lambda>_. True)" by (rule row_at_mono) simp
  show "dq_instance_id a = dq_instance_id d" by (rule g(2))
  show "dq_idempotency_key a = dq_idempotency_key d"
    using b by (auto simp: accept_begin_def map_prod_def map_sum_Inr_iff split: prod.splits)
qed

lemma claim_row:
  assumes "row_at st k i key (\<lambda>_. True)" "claim_dispatch_execution d st = (st', Inr b)" "dq_id d = k"
  shows "row_at st' k i key (\<lambda>d'. b \<longrightarrow> dispatch_status d' = PStr ''executing'')"
proof -
  obtain cur where cur: "tbl_get (as_dispatches st) k = Some cur" "dq_instance_id cur = i" "dq_idempotency_key cur = key"
    and ok: "rows_ok st" using assms(1) by (auto simp: row_at_def)
  then have id: "dq_id cur = k" "gen_int cur" by (auto simp: rows_ok_def)
  show ?thesis
  proof (cases "dispatch_status cur = PStr ''accepted''")
    case False
    then have "st' = st" "b \<longleftrightarrow> dispatch_status cur = PStr ''executing''"
      using assms(2,3) cur(1) by (auto simp: claim_dispatch_execution_def load_agent_dispatch_def split: sum.splits)
    with ok cur show ?thesis by (auto simp: row_at_def)
  next
    case True
    then have s: "save_agent_dispatch (with_status (if b then ''executing'' else ''cancelled'') cur) st = (st', Inr ())"
      using assms(2,3) cur(1)
      by (auto simp: claim_dispatch_execution_def load_agent_dispatch_def Let_def split: sum.splits prod.splits if_splits)
    have g: "gen_int (with_status (if b then ''executing'' else ''cancelled'') cur)" using id by simp
    have k: "dq_idempotency_key (with_status x cur) = key" for x using cur(3) by (simp add: with_status_def)
    from save_row_at [OF ok g s] id cur(2) k
    have "row_at st' k i key (\<lambda>d'. stored_dispatch (with_status (if b then ''executing'' else ''cancelled'') cur) = Inr d')" by simp
    then show ?thesis by (rule row_at_mono) (auto dest: stored_status)
  qed
qed

lemma quarantine_row:
  assumes "quarantine_result new_id r reason st = (st', x)"
  shows "as_dispatches st' = as_dispatches st" "x = Inr q \<Longrightarrow> dr_state q = Op_QUARANTINED"
  using assms quarantine_frame(2) [of new_id r reason st]
  by (auto simp: quarantine_result_def Let_def map_prod_def map_sum_Inr_iff split: sum.splits prod.splits)

definition status_in :: "AgentOperationState \<Rightarrow> AgentDispatchRequest \<Rightarrow> bool" where
  "status_in s d \<longleftrightarrow> dispatch_status d \<in> {PStr ''executing'', PStr (operation_state_value s)}"

lemma record_row:
  assumes "row_at st k i key (\<lambda>d. dispatch_status d = PStr ''executing'')" "record_dispatch_result r st = (st', Inr q)"
  shows "row_at st' k i key (status_in (dr_state q))"
proof -
  obtain upd where b: "record_begin r st = Inr (q, upd)"
    using assms(2) by (auto simp: record_dispatch_result_def map_prod_def map_sum_Inr_iff split: sum.splits prod.splits option.splits)
  then have q: "dr_state q = dr_state r"
    by (auto simp: record_begin_def res_bind_Inr_iff Let_def)
  obtain st1 where s1: "save_agent_dispatch_result q st = (st1, Inr ())"
    and s2: "upd = None \<and> st' = st1 \<or> (\<exists>c. upd = Some c \<and> save_agent_dispatch c st1 = (st', Inr ()))"
    using assms(2) b by (auto simp: record_dispatch_result_def map_prod_def map_sum_Inr_iff split: sum.splits prod.splits option.splits)
  have d1: "as_dispatches st1 = as_dispatches st" using save_result_frame [OF s1] by simp
  have row1: "row_at st1 k i key (status_in (dr_state q))"
    using assms(1) d1 by (auto simp: row_at_def rows_ok_def status_in_def)
  have ok: "rows_ok st" using assms(1) by (simp add: row_at_def)
  show ?thesis
  proof (cases upd)
    case None
    with s2 row1 show ?thesis by simp
  next
    case (Some c)
    with s2 have s: "save_agent_dispatch c st1 = (st', Inr ())" by auto
    have c: "gen_int c" "ended (\<lambda>s. s = dr_state r) c"
      using record_begin_write [OF ok b [unfolded Some], of "\<lambda>s. s = dr_state r"] by simp_all
    have same: "dq_instance_id c = i \<and> dq_idempotency_key c = key" if "dq_id c = k"
      using assms(1) b Some that
      by (auto simp: record_begin_def load_agent_dispatch_def row_at_def rows_ok_def res_bind_Inr_iff Let_def split: option.splits if_splits)
    show ?thesis
      by (rule save_keeps_row [OF row1 c(1) s]) (use same c(2) q in \<open>auto simp: ended_def status_in_def dest: stored_status\<close>)
  qed
qed


lemma provider_result_row:
  assumes "row_at st k i key (\<lambda>d. dispatch_status d = PStr ''executing'')"
    "record_provider_result authorized str_of new_id e r st = (st', Inr q)"
  shows "row_at st' k i key (status_in (dr_state q))"
proof -
  have "record_dispatch_result r st = (st', Inr q) \<or> (\<exists>reason. quarantine_result new_id r reason st = (st', Inr q))"
    using assms(2) by (auto simp: record_provider_result_def split: if_splits sum.splits py_error.splits)
  then show ?thesis
  proof (elim disjE exE)
    fix reason assume "quarantine_result new_id r reason st = (st', Inr q)"
    from quarantine_row(1) [OF this] assms(1) show ?thesis by (auto simp: row_at_def rows_ok_def status_in_def)
  qed (rule record_row [OF assms(1)])
qed

text \<open>The evidence a retry reads: the recorded state and the id of the result.\<close>

definition reports :: "AgentDispatchResult \<Rightarrow> AgentDispatchRequest \<Rightarrow> bool" where
  "reports q d \<longleftrightarrow> dispatch_status d = PStr (operation_state_value (dr_state q)) \<and>
     ev_get (dq_evidence d) ''result_id'' = PStr (dr_id q)"

lemma result_id_key: "normalize_agent_key ''result_id'' = ''result_id''" "is_safe_evidence_key (Some ''result_id'')"
  by code_simp+

lemma stored_result_id:
  assumes "stored_dispatch d = Inr d'" "ev_get (dq_evidence d) ''result_id'' = PStr x"
  shows "ev_get (dq_evidence d') ''result_id'' = PStr x"
proof -
  have "w = PStr x" if "sanitize_agent_json (Some ''result_id'') True (PStr x) = Inr w" for w
    using that result_id_key(2)
    by (auto simp: sanitize_agent_json.simps AGENT_TRANSCRIPT_KEYS_def AGENT_CREDENTIAL_KEYS_def split: if_splits)
  then show ?thesis
    using sanitize_mapping_get [OF stored_dispatch_sel(5) [OF assms(1)], of "''result_id''"] assms(2)
    by (fastforce simp: ev_get_def result_id_key(1) split: option.splits)
qed

lemma status_in_final: "status_in s d \<Longrightarrow> dispatch_status d \<in> {PStr ''cancelled'', PStr ''quarantined''} \<Longrightarrow> s \<in> {Op_CANCELLED, Op_QUARANTINED}"
  by (cases s) (auto simp: status_in_def)

lemma complete_row:
  assumes "row_at st k i key P" "complete_dispatch d q st = (st', Inr x)" "dq_id d = k"
    "\<And>c. P c \<Longrightarrow> status_in (dr_state q) c \<or> dr_state q \<in> {Op_CANCELLED, Op_QUARANTINED}"
  shows "row_at st' k i key (reports q)"
proof -
  obtain cur where cur: "tbl_get (as_dispatches st) k = Some cur" "dq_instance_id cur = i" "dq_idempotency_key cur = key" "P cur"
    and ok: "rows_ok st" using assms(1) by (auto simp: row_at_def)
  let ?c = "cur\<lparr>dq_evidence := completed_evidence q (dq_evidence cur)\<rparr>"
  have "dr_state q \<in> {Op_CANCELLED, Op_QUARANTINED}" if "dispatch_status cur \<in> {PStr ''cancelled'', PStr ''quarantined''}"
    using assms(4) [OF cur(4)] status_in_final [OF _ that] by blast
  then have b: "complete_begin d q st = Inr (Inr ?c)" and s: "save_agent_dispatch ?c st = (st', Inr ())"
    using assms(2,3) cur(1)
    by (auto simp: complete_dispatch_def complete_begin_def load_agent_dispatch_def map_prod_def map_sum_Inr_iff
      split: sum.splits prod.splits if_splits)
  have g: "gen_int ?c" using complete_begin_write [OF ok b, of "\<lambda>_. True"] by simp
  have "dq_id cur = k" using ok cur(1) by (simp add: rows_ok_def)
  with save_row_at [OF ok g s] cur(2,3) have row: "row_at st' k i key (\<lambda>d'. stored_dispatch ?c = Inr d')" by simp
  have "dispatch_status ?c = PStr (operation_state_value (dr_state q))" "ev_get (dq_evidence ?c) ''result_id'' = PStr (dr_id q)"
    by (simp_all add: completed_evidence_def dispatch_status_def ev_get_def Let_def split: option.split)
  then show ?thesis by (intro row_at_mono [OF row]) (auto simp: reports_def dest: stored_status stored_result_id)
qed

lemma record_cancelled_row:
  assumes "row_at st (dr_request_id r) i key (reports r)" "dr_state r = Op_CANCELLED" "record_dispatch_result r st = (st', Inr q)"
  shows "row_at st' (dr_request_id r) i key (reports q)"
proof -
  obtain cur where cur: "tbl_get (as_dispatches st) (dr_request_id r) = Some cur" "dispatch_status cur = PStr ''cancelled''"
    using assms(1,2) by (auto simp: row_at_def reports_def)
  then have b: "record_begin r st = Inr (q, None)" and "dr_state q = dr_state r" "dr_id q = dr_id r"
    using assms(3)
    by (auto simp: record_dispatch_result_def record_begin_def load_agent_dispatch_def TERMINAL_RESULT_STATES_def Let_def
      res_bind_Inr_iff split: sum.splits prod.splits)
  moreover obtain st1 where "save_agent_dispatch_result q st = (st1, Inr ())" "st' = st1"
    using assms(3) b by (auto simp: record_dispatch_result_def split: sum.splits prod.splits)
  ultimately show ?thesis using assms(1) save_result_frame by (auto simp: row_at_def rows_ok_def reports_def)
qed

lemma run_accepted_row:
  assumes "row_at st (dq_id request) i key (\<lambda>_. True)"
    "run_accepted authorized str_of new_id driver epoch request st = (st', Inr q)"
  shows "row_at st' (dq_id request) i key (reports q)"
proof -
  obtain st1 b where c: "claim_dispatch_execution request st = (st1, Inr b)"
    using assms(2) by (auto simp: run_accepted_def split: prod.splits sum.splits)
  note row1 = claim_row [OF assms(1) c refl]
  show ?thesis
  proof (cases b)
    case False
    then obtain r st2 x where r: "cancelled_result request (ep_provider_id epoch) (new_id ''result'') = Inr r"
      and cd: "complete_dispatch request r st1 = (st2, Inr x)" and rec: "record_dispatch_result r st2 = (st', Inr q)"
      using assms(2) c by (auto simp: run_accepted_def split: prod.splits sum.splits)
    have s: "dr_state r = Op_CANCELLED" "dr_request_id r = dq_id request"
      using r by (auto simp: cancelled_result_def Let_def res_bind_Inr_iff split: option.splits)
    have "row_at st2 (dr_request_id r) i key (reports r)"
      unfolding s(2) by (rule complete_row [OF row1 cd refl]) (simp add: s(1))
    from record_cancelled_row [OF this s(1) rec] show ?thesis by (simp add: s(2))
  next
    case True
    then obtain r st2 x where p: "record_provider_result authorized str_of new_id (ep_id epoch) r st1 = (st2, Inr q)"
      and cd: "complete_dispatch request q st2 = (st', Inr x)"
      using assms(2) c by (auto simp: run_accepted_def Let_def map_prod_def map_sum_Inr_iff split: prod.splits sum.splits)
    have "row_at st1 (dq_id request) i key (\<lambda>d. dispatch_status d = PStr ''executing'')" using row1 True by simp
    note row2 = provider_result_row [OF this p]
    show ?thesis by (rule complete_row [OF row2 cd refl]) simp
  qed
qed


section \<open>The retry\<close>

lemma accept_failed:
  assumes "accept_dispatch clock d st = (st', Inl e)"
  shows "as_dispatches st' = as_dispatches st"
proof -
  obtain st1 r where b: "accept_begin clock d st = (st1, r)" by fastforce
  obtain r0 where "ensure_agent_operation (dq_instance_id d) (clock 0) st = (st1, r0)" using accept_begin_cases [OF b] by metis
  then have st1: "as_dispatches st1 = as_dispatches st" using ensure_cases by blast
  show ?thesis
  proof (cases r)
    case (Inl e')
    with assms b st1 show ?thesis by (simp add: accept_dispatch_def)
  next
    case (Inr a)
    then obtain e'' where "save_agent_dispatch a st1 = (st', Inl e'')"
      using assms b by (auto simp: accept_dispatch_def map_prod_def split: prod.splits) (metis map_sum.simps(2) Inl_Inr_False obj_sumE)
    then have "st' = st1" by (cases rule: save_agent_dispatch_cases) auto
    with st1 show ?thesis by simp
  qed
qed

lemma lookup_row:
  assumes "row_at st k i key P"
  obtains d where "dispatch_for_idempotency_key i key st = Some d" "P d"
proof -
  obtain d where d: "tbl_get (as_dispatches st) k = Some d" "dq_instance_id d = i" "dq_idempotency_key d = key" "P d"
    and ok: "rows_ok st" using assms by (auto simp: row_at_def)
  then have "dq_id d = k" by (simp add: rows_ok_def)
  then have "d \<in> set (list_agent_dispatches st)" using list_dispatches_iff [OF ok] d(1) by simp
  then obtain x where x: "find (\<lambda>d. dq_instance_id d = i \<and> dq_idempotency_key d = key) (list_agent_dispatches st) = Some x"
    using d(2,3) by (cases "find (\<lambda>d. dq_instance_id d = i \<and> dq_idempotency_key d = key) (list_agent_dispatches st)")
      (auto simp: find_None_iff)
  from find_in_set [OF x] have "tbl_get (as_dispatches st) (dq_id x) = Some x" "same_key d x"
    using list_dispatches_iff [OF ok] d(2,3) by (auto simp: same_key_def)
  with d(1) ok have "dq_id x = k" unfolding rows_ok_def keys_unique_def by metis
  with \<open>tbl_get (as_dispatches st) (dq_id x) = Some x\<close> d(1) have "x = d" by simp
  with x d(4) show ?thesis
    by (intro that [of d]) (simp_all add: dispatch_for_idempotency_key_def load_agent_dispatch_by_idempotency_def)
qed

lemma operation_state_of_value: "operation_state_of (operation_state_value s) = Inr s"
  by (cases s) (simp_all add: operation_state_of_def enum_of_def)

lemma result_from_reports:
  assumes "reports q d" "result_from_dispatch str_of d st = Inr r"
  shows "dr_id r = dr_id q" "dr_state r = dr_state q"
proof -
  have "dict_get (dq_evidence d) ''status'' = Some (PStr (operation_state_value (dr_state q)))"
    "dict_get (dq_evidence d) ''result_id'' = Some (PStr (dr_id q))"
    using assms(1) by (auto simp: reports_def dispatch_status_def ev_get_def split: option.splits)
  moreover have "operation_state_value (dr_state q) \<notin> {''accepted'', ''executing''}" by (cases "dr_state q") auto
  ultimately show "dr_id r = dr_id q" "dr_state r = dr_state q"
    using assms(2) operation_state_of_value [of "dr_state q"]
    by (auto simp: result_from_dispatch_def ev_text_def Let_def res_bind_Inr_iff)
qed

lemma dispatch_row:
  assumes "rows_ok st" "dispatch_for_idempotency_key i key st = None"
    "dispatch authorized str_of clock new_id driver_for i prompt key rby st = (st', Inr res)"
  obtains k where "row_at st' k i key (reports res)"
proof -
  obtain epoch where "active_epoch str_of i st = Inr epoch"
    using assms(2,3) by (auto simp: dispatch_def split: sum.splits)
  define request where "request = dispatch_request clock new_id epoch i prompt key rby"
  obtain st1 r where a: "accept_dispatch (\<lambda>k. clock (k + 1)) request st = (st1, r)" by fastforce
  have req: "dq_instance_id request = i" "dq_idempotency_key request = key"
    by (simp_all add: request_def dispatch_request_def)
  have "isOK r"
  proof (rule ccontr)
    assume "\<not> isOK r"
    then obtain e where e: "r = Inl e" by (auto simp: isOK_def split: sum.splits)
    then have "dispatch_for_idempotency_key i key st1 = None"
      using accept_failed [OF a [unfolded e]] assms(2)
      by (simp add: dispatch_for_idempotency_key_def load_agent_dispatch_by_idempotency_def list_agent_dispatches_def)
    with assms(2,3) a e \<open>active_epoch str_of i st = Inr epoch\<close> show False
      by (auto simp: dispatch_def request_def [symmetric] Let_def res_bind_Inr_iff split: sum.splits if_splits py_error.splits)
  qed
  then obtain acc where acc: "r = Inr acc" by (auto simp: isOK_def split: sum.splits)
  obtain driver where run: "run_accepted authorized str_of new_id driver epoch acc st1 = (st', Inr res)"
    using assms(2,3) a acc \<open>active_epoch str_of i st = Inr epoch\<close>
    by (auto simp: dispatch_def request_def [symmetric] Let_def split: sum.splits if_splits)
  note row = accept_row [OF assms(1) a [unfolded acc]]
  have "row_at st1 (dq_id acc) i key (\<lambda>_. True)" using row req by simp
  from run_accepted_row [OF this run] show ?thesis by (rule that)
qed



section \<open>A sample dispatch\<close>

definition retry_epoch :: DriverEpoch where
  "retry_epoch = \<lparr>ep_id = ''e'', ep_instance_id = ''i'', ep_session_id = ''s'', ep_provider_id = ''p'', ep_ordinal = 1,
     ep_state = Op_ACKNOWLEDGED, ep_opened_at = None, ep_closed_at = None, ep_reason = None, ep_replacement_epoch_id = None\<rparr>"

definition retry_world :: op_world where
  "retry_world = empty_world\<lparr>ow_store := fst (save_driver_epoch retry_epoch (ow_store empty_world))\<rparr>"

definition retry_driver :: "string \<Rightarrow> string \<Rightarrow> (AgentDispatchRequest \<Rightarrow> AgentDispatchResult result) result" where
  "retry_driver provider i = Inr (\<lambda>d. Inr \<lparr>dr_id = ''r1'', dr_request_id = dq_id d, dr_instance_id = ''i'', dr_session_id = ''s'',
     dr_driver_epoch_id = ''e'', dr_provider_id = ''p'', dr_state = Op_SUCCEEDED, dr_error_category = None,
     dr_error_message = None, dr_provider_reference = None, dr_external_session_id = None, dr_acknowledged_at = None,
     dr_completed_at = None, dr_evidence = []\<rparr>)"

definition retry_first :: "AgentStore \<times> AgentDispatchResult result" where
  "retry_first = dispatch (\<lambda>_ _. True) (\<lambda>_. []) (\<lambda>_. ''t'') (\<lambda>pre. pre @ ''-1'') retry_driver ''i'' ''prompt'' ''k'' None (ow_store retry_world)"

definition retry_second :: "AgentStore \<times> AgentDispatchResult result" where
  "retry_second = dispatch (\<lambda>_ _. False) (\<lambda>_. []) (\<lambda>_. ''t'') (\<lambda>pre. pre @ ''-2'') (\<lambda>_ _. Inl (ValueError ''down'')) ''i'' ''other'' ''k'' None
     (fst retry_first)"

lemma retry_sample:
  "dispatch_for_idempotency_key ''i'' ''k'' (ow_store retry_world) = None"
  "map_sum id (\<lambda>r. (dr_id r, dr_state r)) (snd retry_first) = Inr (''r1'', Op_SUCCEEDED)"
  by code_simp+


end
