(* ===== verification/Agent_Failover.thy ===== *)
theory Agent_Failover
  imports Agent_Manager Iso_Time
begin

text \<open>
  Controlled failover: \<open>evaluate_failover_evidence\<close> of \<^verbatim>\<open>src/overseer/agent_handoff.py\<close>, the collection of the
  evidence and the reservation of a failover in \<^verbatim>\<open>src/overseer/agent_manager.py\<close>, and the failover tables of
  \<^verbatim>\<open>src/overseer/store.py\<close>. The registry (profiles, providers, adapter factories), the search for an
  executable, SHA-256, the clock, the id factory and the authorization callback are parameters.
\<close>

section \<open>Timestamps\<close>

text \<open>\<open>_aware\<close> of the handoff module and \<open>_aware_datetime\<close> of the manager.\<close>

definition aware :: "string option \<Rightarrow> py_datetime result" where
  "aware value =
     (case value of
        None \<Rightarrow> Inl (ValueError ''timestamp is required'')
      | Some s \<Rightarrow> res_bind (fromisoformat s) (\<lambda>parsed.
          if dt_offset parsed = None then Inl (ValueError ''timestamp must be timezone-aware'') else Inr parsed))"

definition aware_datetime :: "string option \<Rightarrow> int result" where
  "aware_datetime value =
     (case value of
        None \<Rightarrow> Inl (ValueError ''timestamp is required'')
      | Some s \<Rightarrow> res_bind (fromisoformat (replace_char CHR ''Z'' ''+00:00'' s)) (\<lambda>parsed.
          if dt_offset parsed = None then Inl (ValueError ''timestamp must be timezone-aware'')
          else Inr (utc_instant parsed)))"

definition offset_text :: "int \<Rightarrow> string" where
  "offset_text off =
     (let a = abs off; sec = a div MICROS; frac = a mod MICROS
      in (if off < 0 then ''-'' else ''+'') @ pad_digits 2 (sec div 3600) @ '':'' @ pad_digits 2 (sec div 60 mod 60) @
         (if sec mod 60 = 0 \<and> frac = 0 then []
          else '':'' @ pad_digits 2 (sec mod 60) @ (if frac = 0 then [] else ''.'' @ pad_digits 6 frac)))"

text \<open>\<open>datetime.isoformat\<close> of a datetime with an offset.\<close>

definition isoformat :: "py_datetime \<Rightarrow> string" where
  "isoformat d =
     (let micros = dt_wall d mod DAY_MICROS; fraction = micros mod MICROS
      in date_text (civil_of_ordinal (dt_wall d div DAY_MICROS)) @ ''T'' @ clock_text (micros div MICROS) @
         (if fraction = 0 then [] else ''.'' @ pad_digits 6 fraction) @
         (case dt_offset d of None \<Rightarrow> [] | Some off \<Rightarrow> offset_text off))"

definition add_seconds :: "py_datetime \<Rightarrow> int \<Rightarrow> py_datetime result" where
  "add_seconds d s =
     (let wall = dt_wall d + s * MICROS
      in if FIRST_INSTANT \<le> wall \<and> wall < END_INSTANT then Inr (d\<lparr>dt_wall := wall\<rparr>)
         else Inl (OverflowError ''date value out of range''))"

section \<open>Evaluation of the evidence\<close>

fun aware_times :: "('a \<Rightarrow> string option) \<Rightarrow> 'a list \<Rightarrow> (int \<times> 'a) list result" where
  "aware_times stamp [] = Inr []"
| "aware_times stamp (x # xs) =
     res_bind (aware (stamp x)) (\<lambda>t. res_bind (aware_times stamp xs) (\<lambda>ts. Inr ((utc_instant t, x) # ts)))"

definition FAILURE_STATES :: "ProviderHealthState set" where
  "FAILURE_STATES = {Health_TRANSPORT_FAILURE, Health_FAILED}"

text \<open>The failures at the end of the observations in order of time, oldest first.\<close>

definition trailing_failures :: "(int \<times> ProviderHealthObservation) list \<Rightarrow> (int \<times> ProviderHealthObservation) list" where
  "trailing_failures timed = rev (takeWhile (\<lambda>(t, h). ho_state h \<in> FAILURE_STATES) (rev (sort_key fst timed)))"

text \<open>Membership of a JSON value in a set of texts hashes the value; a mapping cannot be hashed.\<close>

fun hashable :: "pyval \<Rightarrow> bool" where
  "hashable (PDict kvs) = False"
| "hashable (PList vs) = list_all hashable vs"
| "hashable PNone = True"
| "hashable (PBool b) = True"
| "hashable (PInt i) = True"
| "hashable (PFloat x) = True"
| "hashable (PStr s) = True"

definition checkpoint_ready :: "AgentCheckpoint \<Rightarrow> bool result" where
  "checkpoint_ready c =
     (let status = (case dict_get (ck_evidence c) ''status'' of None \<Rightarrow> PNone | Some v \<Rightarrow> v)
      in if hashable status then Inr (status \<in> {PStr ''ready'', PStr ''completed'', PStr ''checkpointed''})
         else Inl (TypeError ''unhashable type''))"

definition checkpoint_fresh :: "string \<Rightarrow> DriverEpoch \<Rightarrow> FailoverPolicy option \<Rightarrow> int \<Rightarrow> AgentCheckpoint \<Rightarrow> bool" where
  "checkpoint_fresh instance_id epoch policy now c =
     (case (aware (ck_created_at c), if str_true (ck_expires_at c) then map_sum id Some (aware (ck_expires_at c)) else Inr None) of
        (Inr created, Inr expires) \<Rightarrow>
          ck_instance_id c = instance_id \<and> ck_driver_epoch_id c = ep_id epoch \<and> ck_session_id c = ep_session_id epoch \<and>
          utc_instant created \<le> now \<and>
          now - utc_instant created \<le> (case policy of Some p \<Rightarrow> fp_checkpoint_max_age_seconds p | None \<Rightarrow> 0) * MICROS \<and>
          (case expires of None \<Rightarrow> True | Some e \<Rightarrow> now < utc_instant e)
      | _ \<Rightarrow> False)"

definition fallback_ids :: "FailoverPolicy option \<Rightarrow> string list" where
  "fallback_ids policy = (case policy of Some p \<Rightarrow> fp_approved_fallback_provider_ids p | None \<Rightarrow> [])"

definition fallback_ready ::
  "FailoverPolicy option \<Rightarrow> string set \<Rightarrow> (string, AgentCapabilities) pydict \<Rightarrow> (string, string) pydict \<Rightarrow> string list" where
  "fallback_ready policy healthy capabilities readiness =
     filter (\<lambda>p. p \<in> healthy \<and> dict_get capabilities p \<noteq> None \<and> dict_get readiness p \<noteq> None) (fallback_ids policy)"

definition select_fallback ::
  "string list \<Rightarrow> (string, AgentCapabilities) pydict \<Rightarrow> AgentCapabilities \<Rightarrow> string option" where
  "select_fallback ordered capabilities required =
     find (\<lambda>p. case dict_get capabilities p of None \<Rightarrow> False | Some c \<Rightarrow> cap_handoff_import c \<and> supports c required) ordered"

definition block_if :: "bool \<Rightarrow> string \<Rightarrow> string list" where
  "block_if b msg = (if b then [msg] else [])"

record failover_evidence =
  fv_decision_id :: string
  fv_instance_id :: string
  fv_outgoing_epoch :: DriverEpoch
  fv_operation_generation :: int
  fv_policy :: "FailoverPolicy option"
  fv_health :: "ProviderHealthObservation list"
  fv_checkpoint :: "AgentCheckpoint option"
  fv_risks :: "ActiveAgentRisk list"
  fv_candidate_capabilities :: "(string, AgentCapabilities) pydict"
  fv_healthy_candidates :: "string set"
  fv_candidate_readiness :: "(string, string) pydict"
  fv_required_capabilities :: AgentCapabilities
  fv_evaluated_at :: string
  fv_transition_changed :: bool

definition foreign_evidence :: "failover_evidence \<Rightarrow> unit result" where
  "foreign_evidence v =
     (let i = fv_instance_id v; epoch = fv_outgoing_epoch v
      in if (case fv_policy v of Some p \<Rightarrow> fp_instance_id p \<noteq> i | None \<Rightarrow> False)
           then Inl (ValueError ''failover policy belongs to another instance'')
         else if list_ex (\<lambda>h. ho_instance_id h \<noteq> i \<or>
             ho_provider_id h \<notin> insert (ep_provider_id epoch) (set (fallback_ids (fv_policy v)))) (fv_health v)
           then Inl (ValueError ''foreign health evidence is not allowed'')
         else if list_ex (\<lambda>r. rk_instance_id r \<noteq> i) (fv_risks v)
           then Inl (ValueError ''foreign risk evidence is not allowed'')
         else if (case fv_checkpoint v of None \<Rightarrow> False
             | Some c \<Rightarrow> ck_instance_id c \<noteq> i \<or> ck_driver_epoch_id c \<noteq> ep_id epoch \<or> ck_session_id c \<noteq> ep_session_id epoch)
           then Inl (ValueError ''foreign checkpoint evidence is not allowed'')
         else Inr ())"

definition outgoing_health :: "failover_evidence \<Rightarrow> ProviderHealthObservation list" where
  "outgoing_health v = filter (\<lambda>h. ho_instance_id h = fv_instance_id v \<and>
     ho_provider_id h = ep_provider_id (fv_outgoing_epoch v)) (fv_health v)"

text \<open>
  The blockers, in the order of the source: \<open>approval\<close> is the approval instant of the policy, \<open>timed\<close> the
  outgoing observations with their instants, \<open>ready\<close> whether the checkpoint state allows a handoff.
\<close>

definition failover_blockers ::
  "failover_evidence \<Rightarrow> int \<Rightarrow> int option \<Rightarrow> (int \<times> ProviderHealthObservation) list \<Rightarrow> bool \<Rightarrow> string list" where
  "failover_blockers v now approval timed ready =
     (let policy = fv_policy v; failures = trailing_failures timed;
          ordered = fallback_ready policy (fv_healthy_candidates v) (fv_candidate_capabilities v) (fv_candidate_readiness v);
          mine = (\<lambda>r. rk_instance_id r = fv_instance_id v)
      in block_if (case policy of None \<Rightarrow> True | Some p \<Rightarrow> \<not> fp_approved p) ''failover policy missing or not approved'' @
         block_if (failures \<noteq> [] \<and> (case approval of None \<Rightarrow> True | Some a \<Rightarrow> a \<ge> Min (set (map fst failures))))
           ''policy approval does not predate failure sequence'' @
         block_if (outgoing_health v \<noteq> [] \<and> list_all (\<lambda>h. ho_state h = Health_SLOW) (outgoing_health v))
           ''slow response is not a failover trigger'' @
         block_if (int (length failures) < (case policy of Some p \<Rightarrow> fp_failure_threshold p | None \<Rightarrow> 1))
           ''failure threshold not reached'' @
         block_if (case fv_checkpoint v of None \<Rightarrow> True
             | Some c \<Rightarrow> \<not> checkpoint_fresh (fv_instance_id v) (fv_outgoing_epoch v) policy now c)
           ''checkpoint missing, stale, expired, or incorrectly bound'' @
         block_if (list_ex (\<lambda>r. mine r \<and> rk_risk_level r = ARisk_HIGH \<and> \<not> rk_resolved r) (fv_risks v))
           ''unresolved high-risk action'' @
         block_if ((fv_checkpoint v \<noteq> None \<and> \<not> ready) \<or>
             list_ex (\<lambda>r. mine r \<and> \<not> rk_transferable r \<and> \<not> rk_resolved r) (fv_risks v))
           ''non-transferable active operation or checkpoint state'' @
         (if ordered = [] then [''no healthy approved fallback'']
          else block_if (select_fallback ordered (fv_candidate_capabilities v) (fv_required_capabilities v) = None)
            ''fallback capability mismatch or missing handoff_import'') @
         block_if (fv_transition_changed v) ''transition, reservation, or epoch already changed'')"

definition failover_decision ::
  "failover_evidence \<Rightarrow> string list \<Rightarrow> string \<Rightarrow> FailoverDecision" where
  "failover_decision v blockers expires_at =
     (let policy = fv_policy v; epoch = fv_outgoing_epoch v; checkpoint = fv_checkpoint v;
          ordered = fallback_ready policy (fv_healthy_candidates v) (fv_candidate_capabilities v) (fv_candidate_readiness v);
          selected = select_fallback ordered (fv_candidate_capabilities v) (fv_required_capabilities v)
      in \<lparr>fd_id = fv_decision_id v, fd_instance_id = fv_instance_id v, fd_outgoing_epoch_id = ep_id epoch,
          fd_outgoing_provider_id = ep_provider_id epoch, fd_operation_generation = fv_operation_generation v,
          fd_policy_id = map_option fp_id policy, fd_incoming_provider_id = (if blockers = [] then selected else None),
          fd_allowed = (blockers = []), fd_blockers = blockers,
          fd_health_evidence_ids = map ho_id (fv_health v), fd_risk_evidence_ids = map rk_id (fv_risks v),
          fd_evidence_timestamps =
            (case policy of Some p \<Rightarrow> (case fp_approved_at p of Some t \<Rightarrow> [t] | None \<Rightarrow> []) | None \<Rightarrow> []) @
            map ho_observed_at (fv_health v) @
            (case checkpoint of Some c \<Rightarrow>
                (case ck_created_at c of Some t \<Rightarrow> [t] | None \<Rightarrow> []) @ (case ck_expires_at c of Some t \<Rightarrow> [t] | None \<Rightarrow> [])
              | None \<Rightarrow> []),
          fd_readiness_evidence_refs = List.map_filter (dict_get (fv_candidate_readiness v)) (fallback_ids policy),
          fd_checkpoint_id = map_option ck_id checkpoint, fd_evaluated_at = fv_evaluated_at v,
          fd_expires_at = expires_at, fd_consumed_at = None\<rparr>)"

definition evaluate_failover_evidence :: "failover_evidence \<Rightarrow> FailoverDecision result" where
  "evaluate_failover_evidence v =
     res_bind (aware (Some (fv_evaluated_at v))) (\<lambda>now.
     res_bind (foreign_evidence v) (\<lambda>_.
     res_bind (case fv_policy v of
         Some p \<Rightarrow> if str_true (fp_approved_at p) then map_sum id (Some \<circ> utc_instant) (aware (fp_approved_at p)) else Inr None
       | None \<Rightarrow> Inr None) (\<lambda>approval.
     res_bind (aware_times (Some \<circ> ho_observed_at) (outgoing_health v)) (\<lambda>timed.
     res_bind (case fv_checkpoint v of None \<Rightarrow> Inr True | Some c \<Rightarrow> checkpoint_ready c) (\<lambda>ready.
     res_bind (add_seconds now (case fv_policy v of Some p \<Rightarrow> fp_decision_lifetime_seconds p | None \<Rightarrow> 1)) (\<lambda>expires.
       let d = failover_decision v (failover_blockers v (utc_instant now) approval timed ready) (isoformat expires)
       in res_bind (failover_decision_post_init d) (\<lambda>_. Inr d)))))))"

section \<open>When a failover is allowed\<close>

definition failing :: "ProviderHealthObservation \<Rightarrow> bool" where
  "failing h \<longleftrightarrow> ho_state h \<in> FAILURE_STATES"

definition usable_fallback :: "failover_evidence \<Rightarrow> string \<Rightarrow> bool" where
  "usable_fallback v p \<longleftrightarrow> p \<in> fv_healthy_candidates v \<and> dict_get (fv_candidate_readiness v) p \<noteq> None \<and>
     (\<exists>c. dict_get (fv_candidate_capabilities v) p = Some c \<and> cap_handoff_import c \<and> supports c (fv_required_capabilities v))"

text \<open>
  The specification: an approved policy whose approval is older than the run of failures at the end of
  the outgoing provider's observations, a run of at least the threshold, a checkpoint that is fresh,
  bound to the epoch and ready, no open risk that is high or cannot be transferred, no transition under
  way, and \<open>q\<close> is the first approved fallback that can be used.
\<close>

definition failure_run :: "failover_evidence \<Rightarrow> (int \<times> ProviderHealthObservation) list \<Rightarrow> bool" where
  "failure_run v failures \<longleftrightarrow> (\<exists>timed earlier. aware_times (Some \<circ> ho_observed_at) (outgoing_health v) = Inr timed \<and>
     sort_key fst timed = earlier @ failures \<and> (\<forall>(t, h) \<in> set failures. failing h) \<and>
     (earlier \<noteq> [] \<longrightarrow> \<not> failing (snd (last earlier))))"

definition justified_failover :: "failover_evidence \<Rightarrow> string \<Rightarrow> bool" where
  "justified_failover v q \<longleftrightarrow> (\<exists>p c a now failures preferred rest.
     fv_policy v = Some p \<and> fp_approved p \<and> aware (fp_approved_at p) = Inr a \<and>
     failure_run v failures \<and> fp_failure_threshold p \<le> int (length failures) \<and>
     (\<forall>(t, h) \<in> set failures. utc_instant a < t) \<and>
     aware (Some (fv_evaluated_at v)) = Inr now \<and> fv_checkpoint v = Some c \<and>
     checkpoint_fresh (fv_instance_id v) (fv_outgoing_epoch v) (Some p) (utc_instant now) c \<and> checkpoint_ready c = Inr True \<and>
     (\<forall>r \<in> set (fv_risks v). rk_resolved r \<or> rk_risk_level r \<noteq> ARisk_HIGH \<and> rk_transferable r) \<and>
     \<not> fv_transition_changed v \<and>
     fp_approved_fallback_provider_ids p = preferred @ q # rest \<and> usable_fallback v q \<and>
     (\<forall>x \<in> set preferred. \<not> usable_fallback v x))"

lemma block_if_Nil [simp]: "block_if b m = [] \<longleftrightarrow> \<not> b"
  by (simp add: block_if_def)

lemma trailing_failures_run:
  assumes "aware_times (Some \<circ> ho_observed_at) (outgoing_health v) = Inr timed"
  shows "failure_run v failures \<longleftrightarrow> failures = trailing_failures timed"
proof -
  let ?f = "\<lambda>(t, h). ho_state h \<in> FAILURE_STATES" and ?s = "sort_key fst timed"
  have "failure_run v failures \<longleftrightarrow> (\<exists>earlier. ?s = earlier @ failures \<and> (\<forall>x \<in> set failures. ?f x) \<and>
      (earlier \<noteq> [] \<longrightarrow> \<not> ?f (last earlier)))"
    using assms by (auto simp: failure_run_def failing_def split_beta)
  also have "\<dots> \<longleftrightarrow> failures = rev (takeWhile ?f (rev ?s))" (is "?l = ?r")
  proof
    assume ?l
    then obtain earlier where e: "?s = earlier @ failures" "\<forall>x \<in> set failures. ?f x" "earlier \<noteq> [] \<longrightarrow> \<not> ?f (last earlier)"
      by (elim exE conjE) (rule that)
    have "takeWhile ?f (rev failures @ rev earlier) = rev failures @ takeWhile ?f (rev earlier)"
      using e(2) by (intro takeWhile_append2) auto
    moreover have "takeWhile ?f (rev earlier) = []"
      using e(3) by (cases earlier rule: rev_cases) auto
    ultimately show ?r using e(1) by simp
  next
    assume r: ?r
    define earlier where "earlier = rev (dropWhile ?f (rev ?s))"
    have "?s = earlier @ failures"
      unfolding earlier_def r by (simp only: rev_append [symmetric] takeWhile_dropWhile_id rev_rev_ident)
    moreover have "\<forall>x \<in> set failures. ?f x" unfolding r by (auto dest: set_takeWhileD)
    moreover have "\<not> ?f (last earlier)" if "earlier \<noteq> []"
      using that hd_dropWhile [of ?f "rev ?s"] unfolding earlier_def by (simp add: last_rev)
    ultimately show ?l by (intro exI [of _ earlier] conjI impI)
  qed
  finally show ?thesis by (simp add: trailing_failures_def)
qed

lemma find_first: "find P xs = Some x \<longleftrightarrow> (\<exists>ys zs. xs = ys @ x # zs \<and> P x \<and> (\<forall>y \<in> set ys. \<not> P y))"
proof
  assume "find P xs = Some x"
  then show "\<exists>ys zs. xs = ys @ x # zs \<and> P x \<and> (\<forall>y \<in> set ys. \<not> P y)"
  proof (induction xs)
    case (Cons a xs)
    show ?case
    proof (cases "P a")
      case False
      with Cons obtain ys zs where "xs = ys @ x # zs" "P x" "\<forall>y \<in> set ys. \<not> P y" by auto
      with False have "a # xs = (a # ys) @ x # zs" "\<forall>y \<in> set (a # ys). \<not> P y" by auto
      with \<open>P x\<close> show ?thesis by blast
    qed (use Cons in fastforce)
  qed simp
next
  assume "\<exists>ys zs. xs = ys @ x # zs \<and> P x \<and> (\<forall>y \<in> set ys. \<not> P y)"
  then obtain ys zs where "xs = ys @ x # zs" "P x" "\<forall>y \<in> set ys. \<not> P y" by blast
  then show "find P xs = Some x" by (induction ys arbitrary: xs) auto
qed

lemma find_filter: "find P (filter Q xs) = find (\<lambda>x. Q x \<and> P x) xs"
  by (induction xs) auto

lemma select_fallback_usable:
  "select_fallback (fallback_ready policy (fv_healthy_candidates v) (fv_candidate_capabilities v) (fv_candidate_readiness v))
     (fv_candidate_capabilities v) (fv_required_capabilities v) = find (usable_fallback v) (fallback_ids policy)"
proof -
  have "(\<lambda>x. (x \<in> fv_healthy_candidates v \<and> dict_get (fv_candidate_capabilities v) x \<noteq> None \<and> dict_get (fv_candidate_readiness v) x \<noteq> None) \<and>
      (case dict_get (fv_candidate_capabilities v) x of None \<Rightarrow> False
       | Some c \<Rightarrow> cap_handoff_import c \<and> supports c (fv_required_capabilities v))) = usable_fallback v"
    by (auto simp: usable_fallback_def fun_eq_iff split: option.splits)
  then show ?thesis by (simp add: select_fallback_def fallback_ready_def find_filter)
qed

lemma below_Min: "xs \<noteq> [] \<Longrightarrow> \<not> Min (set (map fst xs)) \<le> (a :: int) \<longleftrightarrow> (\<forall>(t, h) \<in> set xs. a < t)"
  by (auto simp: not_le)

lemma failures_observed:
  assumes "aware_times (Some \<circ> ho_observed_at) hs = Inr timed" "trailing_failures timed \<noteq> []"
  shows "\<not> list_all (\<lambda>h. ho_state h = Health_SLOW) hs"
proof -
  have same: "map snd timed = hs" using assms(1)
    by (induction hs arbitrary: timed) (auto simp: res_bind_Inr_iff)
  obtain t h where "(t, h) \<in> set (trailing_failures timed)" using assms(2) by (cases "trailing_failures timed") auto
  then have "(t, h) \<in> set timed" "ho_state h \<in> FAILURE_STATES"
    by (auto simp: trailing_failures_def dest: set_takeWhileD)
  then have "h \<in> set hs" "ho_state h \<noteq> Health_SLOW"
    using same by (force simp: FAILURE_STATES_def)+
  then show ?thesis by (auto simp: list_all_iff)
qed

text \<open>The blockers of evidence with a policy and a checkpoint, condition by condition.\<close>

lemma no_blockers_for_policy:
  assumes "fv_policy v = Some p" "fv_checkpoint v = Some c" "1 \<le> fp_failure_threshold p"
    "aware_times (Some \<circ> ho_observed_at) (outgoing_health v) = Inr timed" "\<forall>r \<in> set (fv_risks v). rk_instance_id r = fv_instance_id v"
  shows "failover_blockers v now approval timed ready = [] \<longleftrightarrow>
    fp_approved p \<and> fp_failure_threshold p \<le> int (length (trailing_failures timed)) \<and>
    (\<exists>a. approval = Some a \<and> (\<forall>(t, h) \<in> set (trailing_failures timed). a < t)) \<and>
    checkpoint_fresh (fv_instance_id v) (fv_outgoing_epoch v) (Some p) now c \<and> ready \<and>
    (\<forall>r \<in> set (fv_risks v). rk_resolved r \<or> rk_risk_level r \<noteq> ARisk_HIGH \<and> rk_transferable r) \<and>
    \<not> fv_transition_changed v \<and> find (usable_fallback v) (fallback_ids (fv_policy v)) \<noteq> None"
    (is "?l \<longleftrightarrow> ?r")
proof (cases "fp_failure_threshold p \<le> int (length (trailing_failures timed))")
  case True
  with assms(3) have some: "trailing_failures timed \<noteq> []" by auto
  have "find (usable_fallback v) (fallback_ids (fv_policy v)) = None"
    if "fallback_ready (fv_policy v) (fv_healthy_candidates v) (fv_candidate_capabilities v) (fv_candidate_readiness v) = []"
    using that select_fallback_usable [of "fv_policy v" v] by (simp add: select_fallback_def)
  moreover note below_Min [OF some] failures_observed [OF assms(4) some]
  ultimately show ?thesis
    using True some assms(1,2,5)
    by (auto simp: failover_blockers_def Let_def select_fallback_usable list_ex_iff split: option.splits)
next
  case False
  then show ?thesis using assms(1) by (auto simp: failover_blockers_def Let_def)
qed

lemma aware_empty: "isOK (aware (Some [])) = False"
  by code_simp

lemma approval_instant:
  assumes "(if str_true given then map_sum id (Some \<circ> utc_instant) (aware given) else Inr None) = Inr approval"
  shows "(\<exists>a. aware given = Inr a \<and> Q (utc_instant a)) \<longleftrightarrow> (\<exists>a. approval = Some a \<and> Q a)"
proof (cases "str_true given")
  case True
  with assms show ?thesis by (auto simp: map_sum_Inr_iff)
next
  case False
  then have "given = None \<or> given = Some []" by (cases given) (auto simp: str_true_def)
  then have "\<not> isOK (aware given)" using aware_empty by (auto simp: aware_def [of None])
  then have "aware given \<noteq> Inr a" for a by auto
  with False assms show ?thesis by simp
qed

lemma allowed_conditions:
  assumes "evaluate_failover_evidence v = Inr d"
  obtains now approval timed ready where "aware (Some (fv_evaluated_at v)) = Inr now" "foreign_evidence v = Inr ()"
    "(case fv_policy v of
        Some p \<Rightarrow> if str_true (fp_approved_at p) then map_sum id (Some \<circ> utc_instant) (aware (fp_approved_at p)) else Inr None
      | None \<Rightarrow> Inr None) = Inr approval"
    "aware_times (Some \<circ> ho_observed_at) (outgoing_health v) = Inr timed"
    "(case fv_checkpoint v of None \<Rightarrow> Inr True | Some c \<Rightarrow> checkpoint_ready c) = Inr ready"
    "fd_allowed d \<longleftrightarrow> failover_blockers v (utc_instant now) approval timed ready = []"
    "fd_incoming_provider_id d = (if fd_allowed d then find (usable_fallback v) (fallback_ids (fv_policy v)) else None)"
  using assms by (auto simp: evaluate_failover_evidence_def res_bind_Inr_iff Let_def failover_decision_def select_fallback_usable)

lemma allowed_iff_justified:
  assumes "evaluate_failover_evidence v = Inr d" "\<forall>p. fv_policy v = Some p \<longrightarrow> failover_policy_post_init p = Inr ()"
  shows "(fd_allowed d \<longleftrightarrow> (\<exists>q. justified_failover v q)) \<and>
    (\<forall>q. justified_failover v q \<longleftrightarrow> fd_incoming_provider_id d = Some q)"
proof -
  obtain now approval timed ready where now: "aware (Some (fv_evaluated_at v)) = Inr now" and own: "foreign_evidence v = Inr ()"
    and approval: "(case fv_policy v of
        Some p \<Rightarrow> if str_true (fp_approved_at p) then map_sum id (Some \<circ> utc_instant) (aware (fp_approved_at p)) else Inr None
      | None \<Rightarrow> Inr None) = Inr approval"
    and timed: "aware_times (Some \<circ> ho_observed_at) (outgoing_health v) = Inr timed"
    and ready: "(case fv_checkpoint v of None \<Rightarrow> Inr True | Some c \<Rightarrow> checkpoint_ready c) = Inr ready"
    and allowed: "fd_allowed d \<longleftrightarrow> failover_blockers v (utc_instant now) approval timed ready = []"
    and incoming: "fd_incoming_provider_id d = (if fd_allowed d then find (usable_fallback v) (fallback_ids (fv_policy v)) else None)"
    by (rule allowed_conditions [OF assms(1)])
  have "justified_failover v q \<longleftrightarrow> fd_allowed d \<and> find (usable_fallback v) (fallback_ids (fv_policy v)) = Some q" for q
  proof (cases "\<exists>p c. fv_policy v = Some p \<and> fv_checkpoint v = Some c")
    case False
    then show ?thesis using allowed by (auto simp: justified_failover_def failover_blockers_def Let_def split: option.splits)
  next
    case True
    then obtain p c where p: "fv_policy v = Some p" and c: "fv_checkpoint v = Some c" by blast
    have pos: "1 \<le> fp_failure_threshold p"
      using assms(2) p by (auto simp: failover_policy_post_init_def run_checks_Inr check_positive_def split: if_splits)
    have mine: "\<forall>r \<in> set (fv_risks v). rk_instance_id r = fv_instance_id v"
      using own by (auto simp: foreign_evidence_def Let_def list_ex_iff split: if_splits)
    note none = no_blockers_for_policy [OF p c pos timed mine, of "utc_instant now" approval ready]
    have ids: "fallback_ids (Some p) = fp_approved_fallback_provider_ids p" by (simp add: fallback_ids_def)
    have given: "(\<exists>a. aware (fp_approved_at p) = Inr a \<and> Q (utc_instant a)) \<longleftrightarrow> (\<exists>a. approval = Some a \<and> Q a)" for Q
      using approval approval_instant [of "fp_approved_at p" approval Q] by (simp add: p)
    from ready c have "checkpoint_ready c = Inr ready" by simp
    then show ?thesis
      unfolding justified_failover_def allowed none
      using p c now given [of "\<lambda>a. \<forall>(t, h) \<in> set (trailing_failures timed). a < t"]
      by (simp add: trailing_failures_run [OF timed] find_first ids) blast
  qed
  moreover have "find (usable_fallback v) (fallback_ids (fv_policy v)) \<noteq> None" if "fd_allowed d"
    using that allowed select_fallback_usable [of "fv_policy v" v]
    by (auto simp: failover_blockers_def Let_def split: if_splits)
  ultimately show ?thesis using incoming by auto
qed

text \<open>C20: A failover is allowed exactly when the evidence justifies it. Whenever the evaluation returns a
  decision for a valid policy, the decision is allowed if and only if some provider is justified as
  its target, and then it names that provider; a blocked decision names none.\<close>

theorem failover_allowed_iff_justified:
  assumes "evaluate_failover_evidence v = Inr d" "\<forall>p. fv_policy v = Some p \<longrightarrow> failover_policy_post_init p = Inr ()"
  shows "(fd_allowed d \<longleftrightarrow> (\<exists>q. justified_failover v q)) \<and>
    (\<forall>q. justified_failover v q \<longleftrightarrow> fd_incoming_provider_id d = Some q)"
  using assms by (rule allowed_iff_justified)

section \<open>Examples\<close>

definition no_capabilities :: AgentCapabilities where
  "no_capabilities = \<lparr>cap_session_discovery = False, cap_session_resume = False, cap_interactive_dispatch = False,
     cap_noninteractive_dispatch = False, cap_structured_events = False, cap_checkpoints = False, cap_cancellation = False,
     cap_delegated_workers = False, cap_usage_observation = False, cap_handoff_import = False\<rparr>"

definition sample_policy :: FailoverPolicy where
  "sample_policy = \<lparr>fp_id = ''policy.1'', fp_instance_id = ''agent.1'', fp_approved = True, fp_approval_ref = Some ''approval.1'',
     fp_approved_at = Some ''2026-01-01T00:00:00+00:00'', fp_failure_threshold = 2, fp_checkpoint_max_age_seconds = 3600,
     fp_approved_fallback_provider_ids = [''gemini'', ''claude''], fp_decision_lifetime_seconds = 60\<rparr>"

definition sample_health :: "string \<Rightarrow> string \<Rightarrow> ProviderHealthState \<Rightarrow> string \<Rightarrow> ProviderHealthObservation" where
  "sample_health i provider state time = \<lparr>ho_id = i, ho_instance_id = ''agent.1'', ho_provider_id = provider, ho_state = state,
     ho_observed_at = time, ho_reason_category = ''timeout''\<rparr>"

definition sample_epoch :: DriverEpoch where
  "sample_epoch = \<lparr>ep_id = ''epoch.1'', ep_instance_id = ''agent.1'', ep_session_id = ''session.1'', ep_provider_id = ''codex'',
     ep_ordinal = 1, ep_state = Op_RUNNING, ep_opened_at = None, ep_closed_at = None, ep_reason = None,
     ep_replacement_epoch_id = None\<rparr>"

definition sample_checkpoint :: AgentCheckpoint where
  "sample_checkpoint = \<lparr>ck_id = ''cp.1'', ck_instance_id = ''agent.1'', ck_session_id = ''session.1'',
     ck_driver_epoch_id = ''epoch.1'', ck_evidence = [(''status'', PStr ''ready'')],
     ck_created_at = Some ''2026-01-02T09:30:00+00:00'', ck_expires_at = None\<rparr>"

definition sample_evidence :: failover_evidence where
  "sample_evidence = \<lparr>fv_decision_id = ''decision.1'', fv_instance_id = ''agent.1'', fv_outgoing_epoch = sample_epoch,
     fv_operation_generation = 1, fv_policy = Some sample_policy,
     fv_health = [sample_health ''h.1'' ''codex'' Health_HEALTHY ''2026-01-02T08:00:00+00:00'',
       sample_health ''h.2'' ''codex'' Health_TRANSPORT_FAILURE ''2026-01-02T09:40:00+00:00'',
       sample_health ''h.3'' ''codex'' Health_FAILED ''2026-01-02T09:50:00+00:00'',
       sample_health ''h.4'' ''claude'' Health_HEALTHY ''2026-01-02T09:55:00+00:00'',
       sample_health ''h.5'' ''gemini'' Health_HEALTHY ''2026-01-02T09:55:00+00:00''],
     fv_checkpoint = Some sample_checkpoint, fv_risks = [],
     fv_candidate_capabilities = [(''gemini'', no_capabilities), (''claude'', no_capabilities\<lparr>cap_handoff_import := True\<rparr>)],
     fv_healthy_candidates = {''claude'', ''gemini''},
     fv_candidate_readiness = [(''gemini'', ''readiness.gemini.0''), (''claude'', ''readiness.claude.0'')],
     fv_required_capabilities = no_capabilities, fv_evaluated_at = ''2026-01-02T10:00:00+00:00'',
     fv_transition_changed = False\<rparr>"

definition sample_decision :: FailoverDecision where
  "sample_decision = failover_decision sample_evidence [] ''2026-01-02T10:01:00+00:00''"

definition sample_now :: py_datetime where
  "sample_now = \<lparr>dt_wall = 63903031200000000, dt_offset = Some 0\<rparr>"

definition sample_timed :: "(int \<times> ProviderHealthObservation) list" where
  "sample_timed = zip [63903024000000000, 63903030000000000, 63903030600000000] (outgoing_health sample_evidence)"

lemma sample_instants:
  "aware (Some (fv_evaluated_at sample_evidence)) = Inr sample_now"
  "map_sum id (Some \<circ> utc_instant) (aware (fp_approved_at sample_policy)) = Inr (Some 63902908800000000)"
  "aware_times (Some \<circ> ho_observed_at) (outgoing_health sample_evidence) = Inr sample_timed"
  "map_sum id isoformat (add_seconds sample_now 60) = Inr ''2026-01-02T10:01:00+00:00''"
  by code_simp+

lemma sample_decision_evaluated: "evaluate_failover_evidence sample_evidence = Inr sample_decision"
proof -
  have blockers: "failover_blockers sample_evidence (utc_instant sample_now) (Some 63902908800000000) sample_timed True = []"
    by code_simp
  have valid: "foreign_evidence sample_evidence = Inr ()" "failover_decision_post_init sample_decision = Inr ()"
    "checkpoint_ready sample_checkpoint = Inr True" by code_simp+
  have given: "fv_policy sample_evidence = Some sample_policy" "fv_checkpoint sample_evidence = Some sample_checkpoint"
    "str_true (fp_approved_at sample_policy) = True" "fp_decision_lifetime_seconds sample_policy = 60" by code_simp+
  obtain later where later: "add_seconds sample_now 60 = Inr later" "isoformat later = ''2026-01-02T10:01:00+00:00''"
    using sample_instants(4) by (auto simp: map_sum_Inr_iff)
  show ?thesis
    using blockers valid by (simp add: evaluate_failover_evidence_def sample_instants given later sample_decision_def [symmetric])
qed

lemma sample_policy_valid: "failover_policy_post_init sample_policy = Inr ()"
  by code_simp

theorem failover_allowed_iff_justified_witness:
  "justified_failover sample_evidence ''claude'' \<and> fd_incoming_provider_id sample_decision = Some ''claude'' \<and>
   \<not> justified_failover sample_evidence ''gemini''"
proof -
  have policy: "\<forall>p. fv_policy sample_evidence = Some p \<longrightarrow> failover_policy_post_init p = Inr ()"
    using sample_policy_valid by (simp add: sample_evidence_def)
  have "fd_incoming_provider_id sample_decision = Some ''claude''" by code_simp
  with failover_allowed_iff_justified [OF sample_decision_evaluated policy] show ?thesis by simp
qed

end
