(* ===== verification/Failover_Store.thy ===== *)
theory Failover_Store
  imports Agent_Failover
begin

text \<open>
  The failover tables of \<^verbatim>\<open>src/overseer/store.py\<close> (policies, health observations, active risks, checkpoints,
  decisions, executions, recovery attempts and outcomes) and the operations of
  \<^verbatim>\<open>src/overseer/agent_manager.py\<close> that use them: collecting the evidence for a decision, persisting an allowed
  decision, reserving its execution, and recovering an execution that stopped before the import.
\<close>

section \<open>Tables\<close>

record FailoverDb =
  fo_agents :: AgentStore
  fo_policies :: "FailoverPolicy tbl"
  fo_health :: "ProviderHealthObservation tbl"
  fo_risks :: "ActiveAgentRisk tbl"
  fo_checkpoints :: "AgentCheckpoint tbl"
  fo_decisions :: "FailoverDecision tbl"
  fo_executions :: "FailoverExecution tbl"
  fo_attempts :: "AgentRecoveryAttempt tbl"
  fo_outcomes :: "AgentRecoveryOutcome tbl"

definition empty_failover :: FailoverDb where
  "empty_failover = \<lparr>fo_agents = empty_agents, fo_policies = [], fo_health = [], fo_risks = [], fo_checkpoints = [],
     fo_decisions = [], fo_executions = [], fo_attempts = [], fo_outcomes = []\<rparr>"

text \<open>A record as it is stored: no text looks like a secret, and the loaded record passes its validation.\<close>

definition stored_plain :: "('r \<Rightarrow> string list) \<Rightarrow> ('r \<Rightarrow> unit result) \<Rightarrow> 'r \<Rightarrow> 'r result" where
  "stored_plain texts valid r =
     res_bind (check_all sanitize_text (texts r)) (\<lambda>_. res_bind (valid r) (\<lambda>_. Inr r))"

definition policy_texts :: "FailoverPolicy \<Rightarrow> string list" where
  "policy_texts p = [fp_id p, fp_instance_id p] @ List.map_filter id [fp_approval_ref p, fp_approved_at p] @
     fp_approved_fallback_provider_ids p"

definition health_texts :: "ProviderHealthObservation \<Rightarrow> string list" where
  "health_texts h = [ho_id h, ho_instance_id h, ho_provider_id h, ho_observed_at h, ho_reason_category h]"

definition risk_texts :: "ActiveAgentRisk \<Rightarrow> string list" where
  "risk_texts r = [rk_id r, rk_instance_id r, rk_evidence_ref r]"

definition decision_texts :: "FailoverDecision \<Rightarrow> string list" where
  "decision_texts d = [fd_id d, fd_instance_id d, fd_outgoing_epoch_id d, fd_outgoing_provider_id d, fd_evaluated_at d, fd_expires_at d] @
     List.map_filter id [fd_policy_id d, fd_incoming_provider_id d, fd_checkpoint_id d, fd_consumed_at d] @
     fd_blockers d @ fd_health_evidence_ids d @ fd_risk_evidence_ids d @ fd_evidence_timestamps d @ fd_readiness_evidence_refs d"

definition execution_texts :: "FailoverExecution \<Rightarrow> string list" where
  "execution_texts e = [fe_id e, fe_decision_id e, fe_instance_id e, fe_outgoing_epoch_id e, fe_outgoing_session_id e,
     fe_outgoing_provider_id e, fe_checkpoint_id e, fe_operation_owner_ref e, fe_created_at e, fe_updated_at e] @
     List.map_filter id [fe_reason e, fe_resume_result_ref e]"

definition attempt_texts :: "AgentRecoveryAttempt \<Rightarrow> string list" where
  "attempt_texts a = [rt_id a, rt_idempotency_key a, rt_execution_id a, rt_decision_id a, rt_instance_id a, rt_outgoing_epoch_id a,
     rt_provider_id a, rt_internal_session_id a, rt_operation_owner_ref a, rt_created_at a, rt_updated_at a] @
     List.map_filter id [rt_external_session_id a]"

definition outcome_texts :: "AgentRecoveryOutcome \<Rightarrow> string list" where
  "outcome_texts x = [ro_id x, ro_attempt_id x, ro_raw_result_id x, ro_request_id x, ro_provenance_ref x, ro_recorded_at x]"

definition stored_checkpoint :: "AgentCheckpoint \<Rightarrow> AgentCheckpoint result" where
  "stored_checkpoint c =
     res_bind (check_all sanitize_text ([ck_id c, ck_instance_id c, ck_session_id c, ck_driver_epoch_id c] @
       List.map_filter id [ck_created_at c, ck_expires_at c])) (\<lambda>_.
     res_bind (sanitize_mapping (ck_evidence c)) (\<lambda>ev.
     let c' = c\<lparr>ck_evidence := ev\<rparr>
     in res_bind (agent_checkpoint_post_init c') (\<lambda>_. Inr c')))"

definition save_failover_policy :: "FailoverPolicy \<Rightarrow> FailoverDb \<Rightarrow> FailoverDb \<times> unit result" where
  "save_failover_policy p db =
     (case save_agent_record ''agent_failover_policies'' fp_id (=) (\<lambda>_. False)
             (stored_plain policy_texts failover_policy_post_init p) (fo_policies db) of
        Inl e \<Rightarrow> (db, Inl e) | Inr t \<Rightarrow> (db\<lparr>fo_policies := t\<rparr>, Inr ()))"

definition load_failover_policy :: "string \<Rightarrow> FailoverDb \<Rightarrow> FailoverPolicy result" where
  "load_failover_policy i db = (case tbl_get (fo_policies db) i of None \<Rightarrow> Inl (KeyError i) | Some p \<Rightarrow> Inr p)"

definition save_provider_health_observation ::
  "ProviderHealthObservation \<Rightarrow> FailoverDb \<Rightarrow> FailoverDb \<times> unit result" where
  "save_provider_health_observation h db =
     (case save_agent_record ''agent_provider_health_observations'' ho_id (=) (\<lambda>_. False)
             (stored_plain health_texts health_observation_post_init h) (fo_health db) of
        Inl e \<Rightarrow> (db, Inl e) | Inr t \<Rightarrow> (db\<lparr>fo_health := t\<rparr>, Inr ()))"

definition list_provider_health_observations :: "string \<Rightarrow> FailoverDb \<Rightarrow> ProviderHealthObservation list" where
  "list_provider_health_observations instance_id db =
     filter (\<lambda>h. ho_instance_id h = instance_id) (map snd (fo_health db))"

definition save_active_agent_risk :: "ActiveAgentRisk \<Rightarrow> FailoverDb \<Rightarrow> FailoverDb \<times> unit result" where
  "save_active_agent_risk r db =
     (case save_agent_record ''agent_active_risks'' rk_id (=) (\<lambda>_. False)
             (stored_plain risk_texts active_risk_post_init r) (fo_risks db) of
        Inl e \<Rightarrow> (db, Inl e) | Inr t \<Rightarrow> (db\<lparr>fo_risks := t\<rparr>, Inr ()))"

definition list_active_agent_risks :: "string \<Rightarrow> FailoverDb \<Rightarrow> ActiveAgentRisk list" where
  "list_active_agent_risks instance_id db = filter (\<lambda>r. rk_instance_id r = instance_id) (map snd (fo_risks db))"

definition same_checkpoint :: "AgentCheckpoint \<Rightarrow> AgentCheckpoint \<Rightarrow> bool" where
  "same_checkpoint a b \<longleftrightarrow> ck_id a = ck_id b \<and> ck_instance_id a = ck_instance_id b \<and> ck_session_id a = ck_session_id b \<and>
     ck_driver_epoch_id a = ck_driver_epoch_id b \<and> ck_created_at a = ck_created_at b \<and> ck_expires_at a = ck_expires_at b"

definition save_agent_checkpoint :: "AgentCheckpoint \<Rightarrow> FailoverDb \<Rightarrow> FailoverDb \<times> unit result" where
  "save_agent_checkpoint c db =
     (case save_agent_record ''agent_checkpoints'' ck_id same_checkpoint (\<lambda>_. False) (stored_checkpoint c) (fo_checkpoints db) of
        Inl e \<Rightarrow> (db, Inl e) | Inr t \<Rightarrow> (db\<lparr>fo_checkpoints := t\<rparr>, Inr ()))"

definition load_agent_checkpoint :: "string \<Rightarrow> FailoverDb \<Rightarrow> AgentCheckpoint result" where
  "load_agent_checkpoint i db = (case tbl_get (fo_checkpoints db) i of None \<Rightarrow> Inl (KeyError i) | Some c \<Rightarrow> Inr c)"

definition list_agent_checkpoints :: "FailoverDb \<Rightarrow> AgentCheckpoint list" where
  "list_agent_checkpoints db = map snd (fo_checkpoints db)"

subsection \<open>Decisions and executions\<close>

definition save_failover_decision :: "FailoverDecision \<Rightarrow> FailoverDb \<Rightarrow> FailoverDb \<times> unit result" where
  "save_failover_decision d db =
     (case save_agent_record ''agent_failover_decisions'' fd_id (=) (\<lambda>_. False)
             (stored_plain decision_texts failover_decision_post_init d) (fo_decisions db) of
        Inl e \<Rightarrow> (db, Inl e) | Inr t \<Rightarrow> (db\<lparr>fo_decisions := t\<rparr>, Inr ()))"

definition load_failover_decision :: "string \<Rightarrow> FailoverDb \<Rightarrow> FailoverDecision result" where
  "load_failover_decision i db = (case tbl_get (fo_decisions db) i of None \<Rightarrow> Inl (KeyError i) | Some d \<Rightarrow> Inr d)"

definition consume_failover_decision ::
  "string \<Rightarrow> int \<Rightarrow> string \<Rightarrow> FailoverDb \<Rightarrow> FailoverDb \<times> FailoverDecision result" where
  "consume_failover_decision decision_id expected_generation consumed_at db =
     (case load_failover_decision decision_id db of
        Inl e \<Rightarrow> (db, Inl e)
      | Inr current \<Rightarrow>
          if fd_consumed_at current \<noteq> None then (db, Inl (ValueError ''failover decision is already consumed''))
          else if fd_operation_generation current \<noteq> expected_generation
          then (db, Inl (ValueError ''failover decision generation changed''))
          else (case stored_plain decision_texts failover_decision_post_init (current\<lparr>fd_consumed_at := Some consumed_at\<rparr>) of
                  Inl e \<Rightarrow> (db, Inl e)
                | Inr updated \<Rightarrow> (db\<lparr>fo_decisions := tbl_upsert decision_id updated (fo_decisions db)\<rparr>, Inr updated)))"

definition same_execution :: "FailoverExecution \<Rightarrow> FailoverExecution \<Rightarrow> bool" where
  "same_execution a b \<longleftrightarrow> fe_id a = fe_id b \<and> fe_decision_id a = fe_decision_id b \<and> fe_instance_id a = fe_instance_id b \<and>
     fe_outgoing_epoch_id a = fe_outgoing_epoch_id b \<and> fe_outgoing_session_id a = fe_outgoing_session_id b \<and>
     fe_outgoing_provider_id a = fe_outgoing_provider_id b \<and> fe_checkpoint_id a = fe_checkpoint_id b \<and>
     fe_operation_generation a = fe_operation_generation b \<and> fe_operation_owner_ref a = fe_operation_owner_ref b \<and>
     fe_created_at a = fe_created_at b"

definition save_failover_execution :: "FailoverExecution \<Rightarrow> FailoverDb \<Rightarrow> FailoverDb \<times> unit result" where
  "save_failover_execution e db =
     (case save_agent_record ''agent_failover_executions'' fe_id same_execution (\<lambda>_. False)
             (stored_plain execution_texts failover_execution_post_init e) (fo_executions db) of
        Inl er \<Rightarrow> (db, Inl er) | Inr t \<Rightarrow> (db\<lparr>fo_executions := t\<rparr>, Inr ()))"

definition load_failover_execution :: "string \<Rightarrow> FailoverDb \<Rightarrow> FailoverExecution result" where
  "load_failover_execution i db = (case tbl_get (fo_executions db) i of None \<Rightarrow> Inl (KeyError i) | Some e \<Rightarrow> Inr e)"

definition list_failover_executions :: "FailoverDb \<Rightarrow> FailoverExecution list" where
  "list_failover_executions db = map snd (fo_executions db)"

fun execution_successors :: "FailoverExecutionState \<Rightarrow> FailoverExecutionState set" where
  "execution_successors FExec_RESERVED = {FExec_DRAINING, FExec_RECOVERED}"
| "execution_successors FExec_DRAINING = {FExec_BLOCKED_PREIMPORT, FExec_TRANSITION_STARTED, FExec_RECOVERED}"
| "execution_successors FExec_BLOCKED_PREIMPORT = {FExec_RECOVERING}"
| "execution_successors FExec_RECOVERING = {FExec_BLOCKED_PREIMPORT, FExec_RECOVERED}"
| "execution_successors _ = {}"

definition transition_failover_execution ::
  "string \<Rightarrow> FailoverExecutionState \<Rightarrow> FailoverExecutionState \<Rightarrow> string \<Rightarrow> string option \<Rightarrow> string option \<Rightarrow> FailoverDb \<Rightarrow>
   FailoverDb \<times> FailoverExecution result" where
  "transition_failover_execution execution_id expected_state state updated_at reason resume_result_ref db =
     (case load_failover_execution execution_id db of
        Inl e \<Rightarrow> (db, Inl e)
      | Inr current \<Rightarrow>
          if fe_state current \<noteq> expected_state then (db, Inl (ValueError ''failover execution state changed''))
          else if state \<notin> execution_successors expected_state then (db, Inl (ValueError ''invalid failover execution transition''))
          else (case stored_plain execution_texts failover_execution_post_init (current\<lparr>fe_state := state, fe_updated_at := updated_at,
                       fe_reason := reason, fe_resume_result_ref := resume_result_ref\<rparr>) of
                  Inl e \<Rightarrow> (db, Inl e)
                | Inr updated \<Rightarrow> (db\<lparr>fo_executions := tbl_upsert execution_id updated (fo_executions db)\<rparr>, Inr updated)))"

subsection \<open>Recovery attempts and outcomes\<close>

definition same_attempt :: "AgentRecoveryAttempt \<Rightarrow> AgentRecoveryAttempt \<Rightarrow> bool" where
  "same_attempt a b \<longleftrightarrow> rt_id a = rt_id b \<and> rt_idempotency_key a = rt_idempotency_key b \<and> rt_execution_id a = rt_execution_id b \<and>
     rt_decision_id a = rt_decision_id b \<and> rt_instance_id a = rt_instance_id b \<and> rt_outgoing_epoch_id a = rt_outgoing_epoch_id b \<and>
     rt_provider_id a = rt_provider_id b \<and> rt_internal_session_id a = rt_internal_session_id b \<and>
     rt_external_session_id a = rt_external_session_id b \<and> rt_operation_generation a = rt_operation_generation b \<and>
     rt_operation_owner_ref a = rt_operation_owner_ref b \<and> rt_created_at a = rt_created_at b"

definition save_agent_recovery_attempt :: "AgentRecoveryAttempt \<Rightarrow> FailoverDb \<Rightarrow> FailoverDb \<times> unit result" where
  "save_agent_recovery_attempt a db =
     (case save_agent_record ''agent_recovery_attempts'' rt_id same_attempt (\<lambda>_. False)
             (stored_plain attempt_texts recovery_attempt_post_init a) (fo_attempts db) of
        Inl e \<Rightarrow> (db, Inl e) | Inr t \<Rightarrow> (db\<lparr>fo_attempts := t\<rparr>, Inr ()))"

definition load_agent_recovery_attempt :: "string \<Rightarrow> FailoverDb \<Rightarrow> AgentRecoveryAttempt result" where
  "load_agent_recovery_attempt i db = (case tbl_get (fo_attempts db) i of None \<Rightarrow> Inl (KeyError i) | Some a \<Rightarrow> Inr a)"

definition recovery_attempt_for_execution :: "string \<Rightarrow> FailoverDb \<Rightarrow> AgentRecoveryAttempt option result" where
  "recovery_attempt_for_execution execution_id db =
     (case filter (\<lambda>a. rt_execution_id a = execution_id) (map snd (fo_attempts db)) of
        [] \<Rightarrow> Inr None
      | [a] \<Rightarrow> Inr (Some a)
      | _ \<Rightarrow> Inl (ValueError ''multiple recovery attempts for one execution''))"

definition claim_failover_recovery ::
  "string \<Rightarrow> AgentRecoveryAttempt \<Rightarrow> string \<Rightarrow> FailoverDb \<Rightarrow> FailoverDb \<times> FailoverExecution result" where
  "claim_failover_recovery execution_id attempt updated_at db =
     (case recovery_attempt_for_execution execution_id db of
        Inl e \<Rightarrow> (db, Inl e)
      | Inr (Some _) \<Rightarrow> (db, Inl (ValueError ''recovery attempt already exists''))
      | Inr None \<Rightarrow>
          (case transition_failover_execution execution_id FExec_BLOCKED_PREIMPORT FExec_RECOVERING updated_at None None db of
             (_, Inl e) \<Rightarrow> (db, Inl e)
           | (db1, Inr execution) \<Rightarrow>
               (case save_agent_recovery_attempt attempt db1 of
                  (_, Inl e) \<Rightarrow> (db, Inl e)
                | (db2, Inr _) \<Rightarrow> (db2, Inr execution))))"

definition transition_agent_recovery_attempt ::
  "string \<Rightarrow> AgentRecoveryAttemptState \<Rightarrow> AgentRecoveryAttemptState \<Rightarrow> string \<Rightarrow> FailoverDb \<Rightarrow>
   FailoverDb \<times> AgentRecoveryAttempt result" where
  "transition_agent_recovery_attempt attempt_id expected_state state updated_at db =
     (case load_agent_recovery_attempt attempt_id db of
        Inl e \<Rightarrow> (db, Inl e)
      | Inr current \<Rightarrow>
          if rt_state current \<noteq> expected_state then (db, Inl (ValueError ''recovery attempt state changed''))
          else (case stored_plain attempt_texts recovery_attempt_post_init
                       (current\<lparr>rt_state := state, rt_updated_at := updated_at\<rparr>) of
                  Inl e \<Rightarrow> (db, Inl e)
                | Inr updated \<Rightarrow> (db\<lparr>fo_attempts := tbl_upsert attempt_id updated (fo_attempts db)\<rparr>, Inr updated)))"

definition recovery_outcome_for_attempt :: "string \<Rightarrow> FailoverDb \<Rightarrow> AgentRecoveryOutcome option result" where
  "recovery_outcome_for_attempt attempt_id db =
     (case filter (\<lambda>x. ro_attempt_id x = attempt_id) (map snd (fo_outcomes db)) of
        [] \<Rightarrow> Inr None
      | [x] \<Rightarrow> Inr (Some x)
      | _ \<Rightarrow> Inl (ValueError ''multiple recovery outcomes for one attempt''))"

definition save_agent_recovery_outcome :: "AgentRecoveryOutcome \<Rightarrow> FailoverDb \<Rightarrow> FailoverDb \<times> unit result" where
  "save_agent_recovery_outcome x db =
     (if (case tbl_get (fo_outcomes db) (ro_id x) of None \<Rightarrow> False | Some existing \<Rightarrow> existing \<noteq> x)
      then (db, Inl (ValueError ''recovery outcome is immutable''))
      else case save_agent_record ''agent_recovery_outcomes'' ro_id (=) (\<lambda>_. False)
             (stored_plain outcome_texts recovery_outcome_post_init x) (fo_outcomes db) of
        Inl e \<Rightarrow> (db, Inl e) | Inr t \<Rightarrow> (db\<lparr>fo_outcomes := t\<rparr>, Inr ()))"

definition load_agent_dispatch_result :: "string \<Rightarrow> AgentStore \<Rightarrow> AgentDispatchResult result" where
  "load_agent_dispatch_result i st = (case tbl_get (as_results st) i of None \<Rightarrow> Inl (KeyError i) | Some r \<Rightarrow> Inr r)"

definition save_failover_result :: "AgentDispatchResult \<Rightarrow> FailoverDb \<Rightarrow> FailoverDb \<times> unit result" where
  "save_failover_result result db =
     map_prod (\<lambda>st. db\<lparr>fo_agents := st\<rparr>) id (save_agent_dispatch_result result (fo_agents db))"

definition record_agent_recovery_result_bundle ::
  "AgentDispatchResult \<Rightarrow> AgentRecoveryOutcome \<Rightarrow> string \<Rightarrow> string \<Rightarrow> FailoverDb \<Rightarrow> FailoverDb \<times> unit result" where
  "record_agent_recovery_result_bundle result outcome attempt_id updated_at db =
     (case load_agent_dispatch_result (dr_id result) (fo_agents db) of
        Inr existing \<Rightarrow> (db, Inl (ValueError (if existing \<noteq> result then ''forged preexisting recovery result''
          else ''recovery result already exists without owned outcome'')))
      | Inl _ \<Rightarrow>
          (case recovery_outcome_for_attempt attempt_id db of
             Inl e \<Rightarrow> (db, Inl e)
           | Inr (Some _) \<Rightarrow> (db, Inl (ValueError ''recovery outcome already exists''))
           | Inr None \<Rightarrow>
               (case save_failover_result result db of
                  (_, Inl e) \<Rightarrow> (db, Inl e)
                | (db1, Inr _) \<Rightarrow>
                    (case save_agent_recovery_outcome outcome db1 of
                       (_, Inl e) \<Rightarrow> (db, Inl e)
                     | (db2, Inr _) \<Rightarrow>
                         (case transition_agent_recovery_attempt attempt_id Attempt_EXTERNAL_STARTED Attempt_RESULT_RECORDED
                                 updated_at db2 of
                            (_, Inl e) \<Rightarrow> (db, Inl e)
                          | (db3, Inr _) \<Rightarrow> (db3, Inr ()))))))"

end
