(* ===== verification/Failover_Manager.thy ===== *)
theory Failover_Manager
  imports Failover_Store
begin

text \<open>
  Controlled failover in \<^verbatim>\<open>src/overseer/agent_manager.py\<close>: \<^verbatim>\<open>_evaluate_failover\<close>, \<^verbatim>\<open>evaluate_failover\<close>, the
  reservation that \<^verbatim>\<open>execute_failover\<close> makes before it hands over, and the recovery of an execution that
  stopped before the import. The registry, the search for an executable, SHA-256 and the provider
  driver are parameters.
\<close>

record recovery_driver =
  pd_inspect :: "AgentSession \<Rightarrow> AgentDispatchResult result"
  pd_recover :: "AgentRecoveryRequest \<Rightarrow> AgentSession \<Rightarrow> AgentDispatchResult result"

record failover_env =
  en_profile :: "string \<Rightarrow> AgentInstanceProfile result"
  en_providers :: "(string, AgentProvider) pydict"
  en_adapter_available :: "string \<Rightarrow> bool"
  en_resolve :: "string \<Rightarrow> string option"
  en_sha256 :: "string \<Rightarrow> string"
  en_str :: "pyval \<Rightarrow> string"
  en_authorized :: "string \<Rightarrow> (string, pyval) pydict \<Rightarrow> bool"
  en_new_id :: "string \<Rightarrow> string"
  en_driver :: "string \<Rightarrow> string \<Rightarrow> recovery_driver result"

section \<open>Collecting the evidence\<close>

text \<open>
  \<open>en_resolve\<close> answers the resolved path of the first allowed executable: the file itself when it is
  absolute and exists, otherwise what the search path finds.
\<close>

definition provider_readiness_reference :: "failover_env \<Rightarrow> string \<Rightarrow> string option result" where
  "provider_readiness_reference en provider_id =
     (case dict_get (en_providers en) provider_id of
        None \<Rightarrow> Inl (KeyError provider_id)
      | Some provider \<Rightarrow> Inr (
          if \<not> en_adapter_available en (apr_adapter_id provider) then None
          else if apr_id provider \<in> {''qwen-code'', ''mistral-vibe'', ''antigravity''} then None
          else case apr_executable_allowlist provider of
            [] \<Rightarrow> None
          | configured # _ \<Rightarrow>
              map_option (\<lambda>path. ''readiness.'' @ provider_id @ ''.'' @ take 16 (en_sha256 en path)) (en_resolve en configured)))"

text \<open>The instants \<^verbatim>\<open>_aware_datetime\<close> reads from a list of records.\<close>

fun read_times :: "('a \<Rightarrow> string option) \<Rightarrow> 'a list \<Rightarrow> (int \<times> 'a) list result" where
  "read_times stamp [] = Inr []"
| "read_times stamp (x # xs) =
     res_bind (aware_datetime (stamp x)) (\<lambda>t. res_bind (read_times stamp xs) (\<lambda>ts. Inr ((t, x) # ts)))"

text \<open>\<^verbatim>\<open>max\<close> returns the first of the greatest elements.\<close>

definition latest_first :: "(int \<times> 'a) list \<Rightarrow> 'a option" where
  "latest_first ts = map_option snd (find (\<lambda>(t, x). \<forall>(u, y) \<in> set ts. u \<le> t) ts)"

definition latest_health ::
  "(int \<times> ProviderHealthObservation) list \<Rightarrow> (string, ProviderHealthObservation) pydict" where
  "latest_health timed = fold (\<lambda>(t, h) d. dict_set (ho_provider_id h) h d) (sort_key fst timed) []"

definition healthy_candidates :: "(int \<times> ProviderHealthObservation) list \<Rightarrow> string set" where
  "healthy_candidates timed = fst ` set (filter (\<lambda>(p, h). ho_state h = Health_HEALTHY) (latest_health timed))"

definition candidate_capabilities ::
  "failover_env \<Rightarrow> AgentInstanceProfile \<Rightarrow> FailoverPolicy option \<Rightarrow> (string, AgentCapabilities) pydict" where
  "candidate_capabilities en profile policy =
     fold (\<lambda>p d. case dict_get (en_providers en) p of
         Some provider \<Rightarrow> if p \<in> set (aip_approved_fallback_provider_ids profile)
           then dict_set p (apr_capabilities provider) d else d
       | None \<Rightarrow> d) (fallback_ids policy) []"

fun candidate_readiness :: "failover_env \<Rightarrow> string list \<Rightarrow> (string, string) pydict result" where
  "candidate_readiness en [] = Inr []"
| "candidate_readiness en (p # ps) =
     res_bind (provider_readiness_reference en p) (\<lambda>r. res_bind (candidate_readiness en ps) (\<lambda>rest.
       Inr (case r of None \<Rightarrow> rest | Some s \<Rightarrow> (p, s) # rest)))"

definition failover_policy_for ::
  "AgentInstanceProfile \<Rightarrow> string option \<Rightarrow> FailoverDb \<Rightarrow> FailoverPolicy option" where
  "failover_policy_for profile policy_id db =
     (let selected = (if str_true policy_id then policy_id else aip_controlled_failover_policy_ref profile)
      in if str_true selected then (case load_failover_policy (the selected) db of Inl _ \<Rightarrow> None | Inr p \<Rightarrow> Some p) else None)"

definition failover_operation :: "string \<Rightarrow> AgentStore \<Rightarrow> int \<times> bool" where
  "failover_operation instance_id st =
     (case load_agent_operation instance_id st of
        Inl _ \<Rightarrow> (1, False)
      | Inr op \<Rightarrow> (or_generation op, or_state op \<noteq> Fence_OPEN \<or> or_owner_token op \<noteq> None))"

definition has_active_transition :: "string \<Rightarrow> AgentStore \<Rightarrow> bool" where
  "has_active_transition instance_id st \<longleftrightarrow> blocking_transition instance_id st \<noteq> None"

definition failover_health ::
  "string \<Rightarrow> DriverEpoch \<Rightarrow> FailoverPolicy option \<Rightarrow> FailoverDb \<Rightarrow> ProviderHealthObservation list" where
  "failover_health instance_id epoch policy db =
     filter (\<lambda>h. ho_provider_id h \<in> insert (ep_provider_id epoch) (set (fallback_ids policy)))
       (list_provider_health_observations instance_id db)"

definition collect_failover_evidence ::
  "failover_env \<Rightarrow> string \<Rightarrow> string option \<Rightarrow> string option \<Rightarrow> string \<Rightarrow> FailoverDb \<Rightarrow> failover_evidence result" where
  "collect_failover_evidence en instance_id policy_id decision_id now db =
     res_bind (en_profile en instance_id) (\<lambda>profile.
     let policy = failover_policy_for profile policy_id db
     in res_bind (active_epoch (en_str en) instance_id (fo_agents db)) (\<lambda>epoch.
     let (generation, changed) = failover_operation instance_id (fo_agents db);
         health = failover_health instance_id epoch policy db;
         checkpoints = filter (\<lambda>c. ck_instance_id c = instance_id \<and> ck_driver_epoch_id c = ep_id epoch) (list_agent_checkpoints db)
     in res_bind (read_times ck_created_at checkpoints) (\<lambda>dated.
        res_bind (read_times (Some \<circ> ho_observed_at) health) (\<lambda>timed.
        let capabilities = candidate_capabilities en profile policy
        in res_bind (candidate_readiness en (map fst capabilities)) (\<lambda>readiness.
           Inr \<lparr>fv_decision_id = (if str_true decision_id then the decision_id else en_new_id en ''failover-decision''),
             fv_instance_id = instance_id, fv_outgoing_epoch = epoch, fv_operation_generation = generation,
             fv_policy = policy, fv_health = health, fv_checkpoint = latest_first dated,
             fv_risks = list_active_agent_risks instance_id db, fv_candidate_capabilities = capabilities,
             fv_healthy_candidates = healthy_candidates timed, fv_candidate_readiness = readiness,
             fv_required_capabilities = aip_required_capabilities profile, fv_evaluated_at = now,
             fv_transition_changed = (changed \<or> has_active_transition instance_id (fo_agents db))\<rparr>)))))"

definition evaluate_failover_in ::
  "failover_env \<Rightarrow> string \<Rightarrow> string option \<Rightarrow> string option \<Rightarrow> string \<Rightarrow> FailoverDb \<Rightarrow> FailoverDecision result" where
  "evaluate_failover_in en instance_id policy_id decision_id now db =
     res_bind (collect_failover_evidence en instance_id policy_id decision_id now db) evaluate_failover_evidence"

definition evaluate_failover ::
  "failover_env \<Rightarrow> (nat \<Rightarrow> string) \<Rightarrow> string \<Rightarrow> string option \<Rightarrow> FailoverDb \<Rightarrow> FailoverDb \<times> FailoverDecision result" where
  "evaluate_failover en clock instance_id policy_id db =
     (case evaluate_failover_in en instance_id policy_id None (clock 0) db of
        Inl e \<Rightarrow> (db, Inl e)
      | Inr decision \<Rightarrow>
          if fd_allowed decision then map_prod id (map_sum id (\<lambda>_. decision)) (save_failover_decision decision db)
          else (db, Inr decision))"

section \<open>Executing a decision\<close>

text \<open>The fields that must be the same when the evidence is evaluated again.\<close>

definition same_evidence :: "FailoverDecision \<Rightarrow> FailoverDecision \<Rightarrow> bool" where
  "same_evidence a b \<longleftrightarrow> fd_instance_id a = fd_instance_id b \<and> fd_outgoing_epoch_id a = fd_outgoing_epoch_id b \<and>
     fd_outgoing_provider_id a = fd_outgoing_provider_id b \<and> fd_operation_generation a = fd_operation_generation b \<and>
     fd_policy_id a = fd_policy_id b \<and> fd_incoming_provider_id a = fd_incoming_provider_id b \<and>
     fd_allowed a = fd_allowed b \<and> fd_blockers a = fd_blockers b \<and>
     fd_health_evidence_ids a = fd_health_evidence_ids b \<and> fd_risk_evidence_ids a = fd_risk_evidence_ids b \<and>
     fd_evidence_timestamps a = fd_evidence_timestamps b \<and> fd_readiness_evidence_refs a = fd_readiness_evidence_refs b \<and>
     fd_checkpoint_id a = fd_checkpoint_id b \<and> fd_id a = fd_id b"

definition decision_expired :: "FailoverDecision \<Rightarrow> string \<Rightarrow> unit result" where
  "decision_expired d now =
     res_bind (aware_datetime (Some (fd_expires_at d))) (\<lambda>expires. res_bind (aware_datetime (Some now)) (\<lambda>t.
       if expires \<le> t then Inl (AgentHandoffError ''failover decision is expired'') else Inr ()))"

definition failover_authorization :: "failover_env \<Rightarrow> string \<Rightarrow> string \<Rightarrow> string \<Rightarrow> string \<Rightarrow> FailoverDecision \<Rightarrow> bool" where
  "failover_authorization en instance_id decision_id initiated_by approval_id original =
     en_authorized en ''controlled_failover''
       [(''approval_id'', PStr approval_id), (''decision_id'', PStr decision_id), (''instance_id'', PStr instance_id),
        (''incoming_provider_id'', case fd_incoming_provider_id original of None \<Rightarrow> PNone | Some p \<Rightarrow> PStr p),
        (''initiated_by'', PStr initiated_by)]"

text \<open>Reading the decision and asking for the authorization, before the transaction.\<close>

definition execute_begin ::
  "failover_env \<Rightarrow> string \<Rightarrow> string \<Rightarrow> string \<Rightarrow> string \<Rightarrow> string \<Rightarrow> FailoverDb \<Rightarrow> FailoverDecision result" where
  "execute_begin en now instance_id decision_id initiated_by approval_id db =
     (if blank approval_id then Inl (ValueError ''approval_id is required'')
      else res_bind (load_failover_decision decision_id db) (\<lambda>original.
        if fd_instance_id original \<noteq> instance_id
        then Inl (AgentHandoffError ''failover decision belongs to another instance'')
        else if \<not> fd_allowed original \<or> fd_consumed_at original \<noteq> None
        then Inl (AgentHandoffError ''failover decision is blocked or already used'')
        else res_bind (decision_expired original now) (\<lambda>_.
          if \<not> failover_authorization en instance_id decision_id initiated_by approval_id original
          then Inl (AgentAuthorizationError ''controlled_failover rejected by Overseer policy callback'')
          else Inr original)))"

text \<open>
  The fence of the failover; an operation that is already fenced is reported as a handoff error. The
  operation manager has a clock of its own (\<open>op_clock\<close>).
\<close>

definition reserve_for_failover ::
  "failover_env \<Rightarrow> (nat \<Rightarrow> string) \<Rightarrow> string \<Rightarrow> AgentStore \<Rightarrow> AgentStore \<times> AgentOperationReservation result" where
  "reserve_for_failover en op_clock instance_id st =
     (case reserve op_clock instance_id (en_new_id en ''operation.failover'') st of
        (st1, Inl (AgentOperationBlockedError m)) \<Rightarrow> (st1, Inl (AgentHandoffError m))
      | r \<Rightarrow> r)"

definition failover_execution_for ::
  "failover_env \<Rightarrow> string \<Rightarrow> FailoverDecision \<Rightarrow> AgentOperationReservation \<Rightarrow> DriverEpoch \<Rightarrow> string \<Rightarrow> string \<Rightarrow> FailoverExecution" where
  "failover_execution_for en instance_id current reserved epoch created updated =
     \<lparr>fe_id = en_new_id en ''failover-execution'', fe_decision_id = fd_id current, fe_instance_id = instance_id,
      fe_outgoing_epoch_id = fd_outgoing_epoch_id current, fe_outgoing_session_id = ep_session_id epoch,
      fe_outgoing_provider_id = fd_outgoing_provider_id current,
      fe_checkpoint_id = (case fd_checkpoint_id current of None \<Rightarrow> ''None'' | Some c \<Rightarrow> c),
      fe_operation_generation = or_generation reserved,
      fe_operation_owner_ref = (case or_owner_token reserved of None \<Rightarrow> ''None'' | Some x \<Rightarrow> x),
      fe_state = FExec_RESERVED, fe_created_at = created, fe_updated_at = updated, fe_reason = None, fe_resume_result_ref = None\<rparr>"

text \<open>The transaction: evaluate again, reserve the fence, store the execution, consume the decision.\<close>

definition execute_reserve ::
  "failover_env \<Rightarrow> (nat \<Rightarrow> string) \<Rightarrow> (nat \<Rightarrow> string) \<Rightarrow> string \<Rightarrow> string \<Rightarrow> FailoverDecision \<Rightarrow> FailoverDb \<Rightarrow>
   FailoverDb \<times> (FailoverExecution \<times> AgentOperationReservation) result" where
  "execute_reserve en clock op_clock instance_id decision_id original db =
     (case res_bind (load_failover_decision decision_id db) (\<lambda>current.
             if current \<noteq> original then Inl (AgentHandoffError ''failover decision record changed'')
             else res_bind (evaluate_failover_in en instance_id (fd_policy_id current) (Some (fd_id current)) (clock 1) db) (\<lambda>again.
               if \<not> same_evidence current again then Inl (AgentHandoffError ''failover evidence or generation changed'')
               else Inr current)) of
        Inl e \<Rightarrow> (db, Inl e)
      | Inr current \<Rightarrow>
          (case reserve_for_failover en op_clock instance_id (fo_agents db) of
             (_, Inl e) \<Rightarrow> (db, Inl e)
           | (st1, Inr reserved) \<Rightarrow>
               (case res_bind (decision_expired current (clock 2)) (\<lambda>_. active_epoch (en_str en) instance_id st1) of
                  Inl e \<Rightarrow> (db, Inl e)
                | Inr epoch \<Rightarrow>
                    (let execution = failover_execution_for en instance_id current reserved epoch (clock 3) (clock 4)
                     in case failover_execution_post_init execution of
                          Inl e \<Rightarrow> (db, Inl e)
                        | Inr _ \<Rightarrow>
                            (case save_failover_execution execution (db\<lparr>fo_agents := st1\<rparr>) of
                               (_, Inl e) \<Rightarrow> (db, Inl e)
                             | (db2, Inr _) \<Rightarrow>
                                 (case consume_failover_decision decision_id (fd_operation_generation current) (clock 5) db2 of
                                    (_, Inl e) \<Rightarrow> (db, Inl e)
                                  | (db3, Inr _) \<Rightarrow> (db3, Inr (execution, reserved))))))))"

section \<open>Recovering an execution\<close>

text \<open>The checks of \<^verbatim>\<open>recover_failover_execution\<close> before anything is written.\<close>

definition execution_binding :: "FailoverExecution \<Rightarrow> AgentOperationReservation \<Rightarrow> bool" where
  "execution_binding execution operation \<longleftrightarrow> or_generation operation = fe_operation_generation execution \<and>
     or_owner_token operation = Some (fe_operation_owner_ref execution) \<and> or_state operation = Fence_FENCED"

definition outgoing_binding :: "FailoverExecution \<Rightarrow> DriverEpoch \<Rightarrow> AgentStore \<Rightarrow> bool" where
  "outgoing_binding execution outgoing st \<longleftrightarrow> ep_instance_id outgoing = fe_instance_id execution \<and>
     ep_session_id outgoing = fe_outgoing_session_id execution \<and> ep_provider_id outgoing = fe_outgoing_provider_id execution \<and>
     \<not> list_ex (\<lambda>e. ep_instance_id e = fe_instance_id execution \<and> ep_ordinal e > ep_ordinal outgoing \<and> ep_closed_at e = None)
       (list_driver_epochs st)"

definition recover_begin ::
  "failover_env \<Rightarrow> string \<Rightarrow> string \<Rightarrow> string \<Rightarrow> FailoverDb \<Rightarrow> (FailoverExecution \<times> AgentOperationReservation) result" where
  "recover_begin en execution_id initiated_by approval_id db =
     (if blank approval_id then Inl (ValueError ''approval_id is required'')
      else res_bind (load_failover_execution execution_id db) (\<lambda>execution.
        if fe_state execution \<notin> RECOVERABLE_FAILOVER_EXECUTION_STATES
        then Inl (AgentHandoffError ''failover execution is not recoverable'')
        else if \<not> en_authorized en ''recover_failover_execution''
              [(''execution_id'', PStr (fe_id execution)), (''instance_id'', PStr (fe_instance_id execution)),
               (''approval_id'', PStr approval_id), (''initiated_by'', PStr initiated_by)]
        then Inl (AgentAuthorizationError ''recover_failover_execution rejected by Overseer policy callback'')
        else res_bind (load_agent_operation (fe_instance_id execution) (fo_agents db)) (\<lambda>operation.
          if \<not> execution_binding execution operation then Inl (AgentHandoffError ''failover recovery fence binding changed'')
          else if has_active_transition (fe_instance_id execution) (fo_agents db)
          then Inl (AgentHandoffError ''active transition blocks failover recovery'')
          else res_bind (load_driver_epoch (fe_outgoing_epoch_id execution) (fo_agents db)) (\<lambda>outgoing.
            if \<not> outgoing_binding execution outgoing (fo_agents db)
            then Inl (AgentHandoffError ''outgoing failover epoch binding changed'')
            else Inr (execution, operation)))))"

definition recovery_session ::
  "failover_env \<Rightarrow> FailoverExecution \<Rightarrow> FailoverDb \<Rightarrow> (AgentSession \<times> recovery_driver) result" where
  "recovery_session en execution db =
     res_bind (load_agent_session (fe_outgoing_session_id execution) (fo_agents db)) (\<lambda>stored.
     let session = stored\<lparr>ags_legacy_references :=
           dict_set ''driver_epoch_id'' (PStr (fe_outgoing_epoch_id execution)) (ags_legacy_references stored)\<rparr>
     in res_bind (agent_session_post_init session) (\<lambda>_.
        res_bind (en_driver en (fe_outgoing_provider_id execution) (fe_instance_id execution)) (\<lambda>driver.
          Inr (session, driver))))"

definition recovery_adapter :: "failover_env \<Rightarrow> FailoverExecution \<Rightarrow> string result" where
  "recovery_adapter en execution =
     (case dict_get (en_providers en) (fe_outgoing_provider_id execution) of
        None \<Rightarrow> Inl (KeyError (fe_outgoing_provider_id execution))
      | Some provider \<Rightarrow> Inr (apr_adapter_id provider))"

definition validate_recovery_result ::
  "failover_env \<Rightarrow> FailoverExecution \<Rightarrow> AgentSession \<Rightarrow> string option \<Rightarrow> AgentDispatchResult \<Rightarrow> unit result" where
  "validate_recovery_result en execution session attempt_id result =
     res_bind (recovery_adapter en execution) (\<lambda>adapter_id.
       if dr_state result \<notin> ACKNOWLEDGED_RECOVERY_STATES \<or> dr_instance_id result \<noteq> fe_instance_id execution \<or>
          dr_provider_id result \<noteq> fe_outgoing_provider_id execution \<or>
          dr_driver_epoch_id result \<noteq> fe_outgoing_epoch_id execution \<or>
          Some (dr_session_id result) \<notin> {Some (ags_id session), ags_external_session_id session} \<or>
          dr_external_session_id result \<notin> {None, ags_external_session_id session} \<or>
          blank (dr_id result) \<or> blank (dr_request_id result) \<or>
          (case attempt_id of
             None \<Rightarrow> False
           | Some a \<Rightarrow> dr_request_id result \<noteq> ''recovery-request.'' @ a \<or>
               ev_get (dr_evidence result) ''recovery_request_id'' \<noteq> PStr (''recovery-request.'' @ a) \<or>
               ev_get (dr_evidence result) ''adapter_id'' \<noteq> PStr adapter_id) \<or>
          (case dr_provider_reference result of None \<Rightarrow> False | Some r \<Rightarrow> blank r)
       then Inl (AgentHandoffError ''outgoing provider result binding mismatch'') else Inr ())"

definition finalize_attempt :: "string \<Rightarrow> AgentRecoveryAttempt option \<Rightarrow> FailoverDb \<Rightarrow> FailoverDb \<times> unit result" where
  "finalize_attempt updated_at attempt db =
     (case attempt of
        Some a \<Rightarrow> if rt_state a \<in> {Attempt_EXTERNAL_STARTED, Attempt_RESULT_RECORDED}
          then map_prod id (map_sum id (\<lambda>_. ()))
            (transition_agent_recovery_attempt (rt_id a) (rt_state a) Attempt_FINALIZED updated_at db)
          else (db, Inr ())
      | None \<Rightarrow> (db, Inr ()))"

definition finalize_failover_recovery ::
  "(nat \<Rightarrow> string) \<Rightarrow> (nat \<Rightarrow> string) \<Rightarrow> FailoverExecution \<Rightarrow> AgentOperationReservation \<Rightarrow> string option \<Rightarrow> FailoverDb \<Rightarrow>
   FailoverDb \<times> FailoverExecution result" where
  "finalize_failover_recovery clock op_clock execution operation resume_result_ref db =
     (case res_bind (verify_owned operation (fo_agents db)) (\<lambda>_. recovery_attempt_for_execution (fe_id execution) db) of
        Inl e \<Rightarrow> (db, Inl e)
      | Inr attempt \<Rightarrow>
          (case finalize_attempt (clock 0) attempt db of
             (_, Inl e) \<Rightarrow> (db, Inl e)
           | (db1, Inr _) \<Rightarrow>
               (case release op_clock operation (fo_agents db1) of
                  (_, Inl e) \<Rightarrow> (db, Inl e)
                | (st1, Inr _) \<Rightarrow>
                    (case transition_failover_execution (fe_id execution) (fe_state execution) FExec_RECOVERED (clock 1) None
                            resume_result_ref (db1\<lparr>fo_agents := st1\<rparr>) of
                       (_, Inl e) \<Rightarrow> (db, Inl e)
                     | (db2, Inr recovered) \<Rightarrow> (db2, Inr recovered)))))"

definition inspect_session :: "recovery_driver \<Rightarrow> AgentSession \<Rightarrow> AgentDispatchResult result" where
  "inspect_session driver session =
     (case pd_inspect driver session of
        Inl _ \<Rightarrow> Inl (AgentHandoffError ''inspection_unavailable'')
      | Inr result \<Rightarrow> if dr_error_category result = Some AErr_UNSUPPORTED_CAPABILITY
          then Inl (AgentHandoffError ''inspection_unavailable'') else Inr result)"

text \<open>An execution that stopped while draining: inspect the session, record the result, release the fence.\<close>

definition recover_draining ::
  "failover_env \<Rightarrow> (nat \<Rightarrow> string) \<Rightarrow> (nat \<Rightarrow> string) \<Rightarrow> FailoverExecution \<Rightarrow> AgentOperationReservation \<Rightarrow> AgentSession \<Rightarrow>
   AgentDispatchResult \<Rightarrow> FailoverDb \<Rightarrow> FailoverDb \<times> FailoverExecution result" where
  "recover_draining en clock op_clock execution operation session result db =
     (case validate_recovery_result en execution session None result of
        Inl e \<Rightarrow> (db, Inl e)
      | Inr _ \<Rightarrow>
          (case save_failover_result result db of
             (db1, Inl e) \<Rightarrow> (db1, Inl e)
           | (db1, Inr _) \<Rightarrow> finalize_failover_recovery clock op_clock execution operation (Some (dr_id result)) db1))"

definition new_recovery_attempt ::
  "failover_env \<Rightarrow> string \<Rightarrow> string \<Rightarrow> FailoverExecution \<Rightarrow> AgentSession \<Rightarrow> AgentRecoveryAttempt" where
  "new_recovery_attempt en created updated execution session =
     \<lparr>rt_id = en_new_id en ''recovery-attempt'', rt_idempotency_key = ''recover.'' @ fe_id execution,
      rt_execution_id = fe_id execution, rt_decision_id = fe_decision_id execution, rt_instance_id = fe_instance_id execution,
      rt_outgoing_epoch_id = fe_outgoing_epoch_id execution, rt_provider_id = fe_outgoing_provider_id execution,
      rt_internal_session_id = ags_id session, rt_external_session_id = ags_external_session_id session,
      rt_operation_generation = fe_operation_generation execution, rt_operation_owner_ref = fe_operation_owner_ref execution,
      rt_state = Attempt_PENDING, rt_created_at = created, rt_updated_at = updated\<rparr>"

text \<open>The attempt to work with: the stored one, or a new one claimed for an execution blocked before the import.\<close>

definition recover_claim ::
  "failover_env \<Rightarrow> (nat \<Rightarrow> string) \<Rightarrow> FailoverExecution \<Rightarrow> AgentSession \<Rightarrow> FailoverDb \<Rightarrow>
   FailoverDb \<times> (FailoverExecution \<times> AgentRecoveryAttempt) result" where
  "recover_claim en clock execution session db =
     (case recovery_attempt_for_execution (fe_id execution) db of
        Inl e \<Rightarrow> (db, Inl e)
      | Inr found \<Rightarrow>
          if fe_state execution = FExec_BLOCKED_PREIMPORT
          then if found \<noteq> None then (db, Inl (AgentHandoffError ''recovery attempt already exists''))
            else (let attempt = new_recovery_attempt en (clock 0) (clock 1) execution session
                  in case recovery_attempt_post_init attempt of
                       Inl e \<Rightarrow> (db, Inl e)
                     | Inr _ \<Rightarrow>
                         (case claim_failover_recovery (fe_id execution) attempt (clock 2) db of
                            (db1, Inl (ValueError _)) \<Rightarrow> (db1, Inl (AgentHandoffError ''failover recovery claim requires repair''))
                          | (db1, Inl e) \<Rightarrow> (db1, Inl e)
                          | (db1, Inr claimed) \<Rightarrow> (db1, Inr (claimed, attempt))))
          else (case found of
                  None \<Rightarrow> (db, Inl (AssertionError ''''))
                | Some attempt \<Rightarrow> (db, Inr (execution, attempt))))"

definition recovery_provenance :: "failover_env \<Rightarrow> string \<Rightarrow> AgentDispatchResult \<Rightarrow> string" where
  "recovery_provenance en adapter_id result =
     ''provenance.'' @ en_sha256 en (adapter_id @ ''|'' @ dr_request_id result @ ''|'' @ dr_id result @ ''|'' @ dr_request_id result)"

text \<open>An outcome that was recorded before: check it against its result and finish.\<close>

definition recover_from_outcome ::
  "failover_env \<Rightarrow> (nat \<Rightarrow> string) \<Rightarrow> (nat \<Rightarrow> string) \<Rightarrow> FailoverExecution \<Rightarrow> AgentOperationReservation \<Rightarrow> AgentSession \<Rightarrow>
   AgentRecoveryAttempt \<Rightarrow> AgentRecoveryOutcome \<Rightarrow> FailoverDb \<Rightarrow> FailoverDb \<times> FailoverExecution result" where
  "recover_from_outcome en clock op_clock execution operation session attempt outcome db =
     (case res_bind (load_agent_dispatch_result (ro_raw_result_id outcome) (fo_agents db)) (\<lambda>raw.
           res_bind (validate_recovery_result en execution session
               (if ev_get (dr_evidence raw) ''recovery_request_id'' \<noteq> PNone then Some (rt_id attempt) else None) raw) (\<lambda>_.
           res_bind (recovery_adapter en execution) (\<lambda>adapter_id.
             if ro_request_id outcome \<noteq> dr_request_id raw \<or> ro_state outcome \<noteq> dr_state raw \<or>
                ro_provenance_ref outcome \<noteq> recovery_provenance en adapter_id raw
             then Inl (AgentHandoffError ''recovery outcome provenance mismatch'') else Inr ()))) of
        Inl e \<Rightarrow> (db, Inl e)
      | Inr _ \<Rightarrow> finalize_failover_recovery clock op_clock execution operation (Some (ro_raw_result_id outcome)) db)"

definition recovery_request_for ::
  "string \<Rightarrow> FailoverExecution \<Rightarrow> AgentSession \<Rightarrow> AgentRecoveryAttempt \<Rightarrow> AgentRecoveryRequest" where
  "recovery_request_for now execution session attempt =
     \<lparr>rq_id = ''recovery-request.'' @ rt_id attempt, rq_idempotency_key = rt_idempotency_key attempt, rq_attempt_id = rt_id attempt,
      rq_execution_id = fe_id execution, rq_instance_id = fe_instance_id execution,
      rq_driver_epoch_id = fe_outgoing_epoch_id execution, rq_provider_id = fe_outgoing_provider_id execution,
      rq_internal_session_id = ags_id session, rq_external_session_id = ags_external_session_id session, rq_requested_at = now\<rparr>"

text \<open>Marking the attempt as started, before the provider is asked to recover the session.\<close>

definition recover_start ::
  "(nat \<Rightarrow> string) \<Rightarrow> FailoverExecution \<Rightarrow> AgentSession \<Rightarrow> AgentRecoveryAttempt \<Rightarrow> FailoverDb \<Rightarrow>
   FailoverDb \<times> AgentRecoveryRequest result" where
  "recover_start clock execution session attempt db =
     (case transition_agent_recovery_attempt (rt_id attempt) Attempt_PENDING Attempt_EXTERNAL_STARTED (clock 0) db of
        (db1, Inl e) \<Rightarrow> (db1, Inl e)
      | (db1, Inr started) \<Rightarrow>
          (let request = recovery_request_for (clock 1) execution session started
           in case recovery_request_post_init request of Inl e \<Rightarrow> (db1, Inl e) | Inr _ \<Rightarrow> (db1, Inr request)))"

definition new_recovery_outcome ::
  "failover_env \<Rightarrow> string \<Rightarrow> FailoverExecution \<Rightarrow> AgentSession \<Rightarrow> AgentRecoveryAttempt \<Rightarrow> bool \<Rightarrow> AgentDispatchResult \<Rightarrow>
   AgentRecoveryOutcome result" where
  "new_recovery_outcome en now execution session attempt from_recover result =
     res_bind (validate_recovery_result en execution session (if from_recover then Some (rt_id attempt) else None) result) (\<lambda>_.
     res_bind (recovery_adapter en execution) (\<lambda>adapter_id.
     let outcome = \<lparr>ro_id = en_new_id en ''recovery-outcome'', ro_attempt_id = rt_id attempt, ro_raw_result_id = dr_id result,
           ro_request_id = dr_request_id result, ro_provenance_ref = recovery_provenance en adapter_id result,
           ro_state = dr_state result, ro_recorded_at = now\<rparr>
     in res_bind (recovery_outcome_post_init outcome) (\<lambda>_. Inr outcome)))"

definition recover_record ::
  "failover_env \<Rightarrow> (nat \<Rightarrow> string) \<Rightarrow> FailoverExecution \<Rightarrow> AgentSession \<Rightarrow> AgentRecoveryAttempt \<Rightarrow> bool \<Rightarrow> AgentDispatchResult \<Rightarrow>
   FailoverDb \<Rightarrow> FailoverDb \<times> unit result" where
  "recover_record en clock execution session attempt from_recover result db =
     (case new_recovery_outcome en (clock 0) execution session attempt from_recover result of
        Inl e \<Rightarrow> (db, Inl e)
      | Inr outcome \<Rightarrow>
          (case record_agent_recovery_result_bundle result outcome (rt_id attempt) (clock 1) db of
             (db1, Inl (ValueError m)) \<Rightarrow> (db1, Inl (AgentHandoffError m))
           | r \<Rightarrow> r))"

section \<open>The whole recovery\<close>

text \<open>The store and the recovery requests sent to providers, in order.\<close>

record failover_world =
  fw_db :: FailoverDb
  fw_requests :: "AgentRecoveryRequest list"

definition in_db :: "failover_world \<Rightarrow> FailoverDb \<times> 'a result \<Rightarrow> failover_world \<times> 'a result" where
  "in_db w r = (w\<lparr>fw_db := fst r\<rparr>, snd r)"

text \<open>
  From an attempt on. Other callers may change the store while the provider works (\<open>during\<close>). The
  clock readings of the parts are taken at \<open>clock 10\<close>, \<open>clock 20\<close>, \<open>clock 30\<close> and following.
\<close>

definition recover_finish ::
  "failover_env \<Rightarrow> (nat \<Rightarrow> string) \<Rightarrow> (nat \<Rightarrow> string) \<Rightarrow> FailoverExecution \<Rightarrow> AgentOperationReservation \<Rightarrow> AgentSession \<Rightarrow>
   AgentRecoveryAttempt \<Rightarrow> bool \<Rightarrow> AgentDispatchResult \<Rightarrow> failover_world \<Rightarrow> failover_world \<times> FailoverExecution result" where
  "recover_finish en clock op_clock execution operation session attempt from_recover result w =
     (case in_db w (recover_record en (\<lambda>i. clock (20 + i)) execution session attempt from_recover result (fw_db w)) of
        (w1, Inl e) \<Rightarrow> (w1, Inl e)
      | (w1, Inr _) \<Rightarrow> in_db w1 (finalize_failover_recovery (\<lambda>i. clock (30 + i)) op_clock execution operation
          (Some (dr_id result)) (fw_db w1)))"

definition recover_attempt ::
  "failover_env \<Rightarrow> (nat \<Rightarrow> string) \<Rightarrow> (nat \<Rightarrow> string) \<Rightarrow> (failover_world \<Rightarrow> failover_world) \<Rightarrow> FailoverExecution \<Rightarrow>
   AgentOperationReservation \<Rightarrow> AgentSession \<Rightarrow> recovery_driver \<Rightarrow> AgentRecoveryAttempt \<Rightarrow> failover_world \<Rightarrow>
   failover_world \<times> FailoverExecution result" where
  "recover_attempt en clock op_clock during execution operation session driver attempt w =
     (case recovery_outcome_for_attempt (rt_id attempt) (fw_db w) of
        Inl e \<Rightarrow> (w, Inl e)
      | Inr (Some outcome) \<Rightarrow>
          in_db w (recover_from_outcome en (\<lambda>i. clock (30 + i)) op_clock execution operation session attempt outcome (fw_db w))
      | Inr None \<Rightarrow>
          if rt_state attempt = Attempt_PENDING
          then (case in_db w (recover_start (\<lambda>i. clock (10 + i)) execution session attempt (fw_db w)) of
                  (w1, Inl e) \<Rightarrow> (w1, Inl e)
                | (w1, Inr request) \<Rightarrow>
                    (let w2 = during (w1\<lparr>fw_requests := fw_requests w1 @ [request]\<rparr>)
                     in case pd_recover driver request session of
                          Inl _ \<Rightarrow> (w2, Inl (AgentHandoffError ''outgoing provider recovery is uncertain''))
                        | Inr result \<Rightarrow> recover_finish en clock op_clock execution operation session attempt True result w2))
          else (case inspect_session driver session of
                  Inl e \<Rightarrow> (during w, Inl e)
                | Inr result \<Rightarrow> recover_finish en clock op_clock execution operation session attempt False result (during w)))"

definition recover_failover_execution ::
  "failover_env \<Rightarrow> (nat \<Rightarrow> string) \<Rightarrow> (nat \<Rightarrow> string) \<Rightarrow> (failover_world \<Rightarrow> failover_world) \<Rightarrow> string \<Rightarrow> string \<Rightarrow> string \<Rightarrow>
   failover_world \<Rightarrow> failover_world \<times> FailoverExecution result" where
  "recover_failover_execution en clock op_clock during execution_id initiated_by approval_id w =
     (case recover_begin en execution_id initiated_by approval_id (fw_db w) of
        Inl e \<Rightarrow> (w, Inl e)
      | Inr (execution, operation) \<Rightarrow>
          if fe_state execution = FExec_RESERVED
          then in_db w (finalize_failover_recovery (\<lambda>i. clock (30 + i)) op_clock execution operation None (fw_db w))
          else case recovery_session en execution (fw_db w) of
            Inl e \<Rightarrow> (w, Inl e)
          | Inr (session, driver) \<Rightarrow>
              if fe_state execution = FExec_DRAINING
              then (case inspect_session driver session of
                      Inl e \<Rightarrow> (during w, Inl e)
                    | Inr result \<Rightarrow>
                        in_db (during w) (recover_draining en (\<lambda>i. clock (30 + i)) op_clock execution operation session result
                          (fw_db (during w))))
              else (case in_db w (recover_claim en clock execution session (fw_db w)) of
                      (w1, Inl e) \<Rightarrow> (w1, Inl e)
                    | (w1, Inr (claimed, attempt)) \<Rightarrow>
                        recover_attempt en clock op_clock during claimed operation session driver attempt w1))"

end
