(* ===== verification/Failover_Runs.thy ===== *)
theory Failover_Runs
  imports Failover_Manager Agent_Runs
begin

text \<open>
  Failovers under interleaved callers: every store transaction of the evaluation, the execution and the
  recovery of a failover is one step, and other managers change the agent tables between any two. A
  decision is executed at most once, a finished execution stays finished, and the outgoing provider is
  asked at most once to recover an execution.
\<close>

section \<open>Steps\<close>

inductive failover_step :: "failover_world \<Rightarrow> failover_world \<Rightarrow> bool" where
  policy: "failover_step w (w\<lparr>fw_db := fst (save_failover_policy p (fw_db w))\<rparr>)"
| health: "failover_step w (w\<lparr>fw_db := fst (save_provider_health_observation h (fw_db w))\<rparr>)"
| risk: "failover_step w (w\<lparr>fw_db := fst (save_active_agent_risk r (fw_db w))\<rparr>)"
| checkpoint: "failover_step w (w\<lparr>fw_db := fst (save_agent_checkpoint c (fw_db w))\<rparr>)"
| agents: "ops_ok st \<Longrightarrow> failover_step w (w\<lparr>fw_db := (fw_db w)\<lparr>fo_agents := st\<rparr>\<rparr>)"
| evaluate: "failover_step w (w\<lparr>fw_db := fst (evaluate_failover en clock i policy_id (fw_db w))\<rparr>)"
| execute: "execute_begin en now i d initiated_by approval_id earlier = Inr original \<Longrightarrow>
    failover_step w (w\<lparr>fw_db := fst (execute_reserve en clock op_clock i d original (fw_db w))\<rparr>)"
| transition: "failover_step w (w\<lparr>fw_db := fst (transition_failover_execution e from to t reason ref (fw_db w))\<rparr>)"
| claim: "failover_step w (w\<lparr>fw_db := fst (recover_claim en clock x session (fw_db w))\<rparr>)"
| start: "recover_start clock x session a (fw_db w) = (db, r) \<Longrightarrow>
    failover_step w (w\<lparr>fw_db := db, fw_requests := fw_requests w @ (case r of Inl _ \<Rightarrow> [] | Inr q \<Rightarrow> [q])\<rparr>)"
| record_result: "failover_step w (w\<lparr>fw_db := fst (recover_record en clock x session a from_recover result (fw_db w))\<rparr>)"
| finalize: "failover_step w (w\<lparr>fw_db := fst (finalize_failover_recovery clock op_clock x operation ref (fw_db w))\<rparr>)"

inductive_cases failover_stepE: "failover_step w w'"

definition no_failovers :: "failover_world \<Rightarrow> bool" where
  "no_failovers w \<longleftrightarrow> w = \<lparr>fw_db = empty_failover, fw_requests = []\<rparr>"

section \<open>What a step writes\<close>

lemma stored_plain_Inr: "stored_plain texts valid r = Inr s \<longleftrightarrow> s = r \<and> check_all sanitize_text (texts r) = Inr () \<and> valid r = Inr ()"
  by (auto simp: stored_plain_def res_bind_Inr_iff)

lemma save_plain_Inr:
  assumes "save_agent_record table ident same (\<lambda>_. False) (stored_plain texts valid r) t = Inr t'"
  shows "t' = tbl_upsert (ident r) r t \<and> (\<forall>old. tbl_get t (ident r) = Some old \<longrightarrow> same old r)"
  using assms by (auto simp: save_agent_record_def res_bind_Inr_iff stored_plain_Inr split: option.splits if_splits)

definition same_tables :: "FailoverDb \<Rightarrow> FailoverDb \<Rightarrow> bool" where
  "same_tables db db' \<longleftrightarrow> fo_decisions db' = fo_decisions db \<and> fo_executions db' = fo_executions db \<and> fo_attempts db' = fo_attempts db"

lemma evidence_same_tables:
  "same_tables db (fst (save_failover_policy p db))"
  "same_tables db (fst (save_provider_health_observation h db))"
  "same_tables db (fst (save_active_agent_risk r db))"
  "same_tables db (fst (save_agent_checkpoint c db))"
  "same_tables db (fst (save_failover_result result db))"
  "same_tables db (fst (save_agent_recovery_outcome x db))"
  by (auto simp: same_tables_def save_failover_policy_def save_provider_health_observation_def save_active_agent_risk_def
      save_agent_checkpoint_def save_failover_result_def save_agent_recovery_outcome_def split: sum.splits)

lemma evaluate_effect:
  "same_tables db (fst (evaluate_failover en clock i p db)) \<or>
   (\<exists>d. fst (evaluate_failover en clock i p db) = db\<lparr>fo_decisions := tbl_upsert (fd_id d) d (fo_decisions db)\<rparr> \<and>
      (tbl_get (fo_decisions db) (fd_id d) = None \<or> tbl_get (fo_decisions db) (fd_id d) = Some d))"
proof (cases "evaluate_failover_in en i p None (clock 0) db")
  case (Inl e)
  then show ?thesis by (simp add: evaluate_failover_def same_tables_def)
next
  case (Inr d)
  show ?thesis
  proof (cases "save_agent_record ''agent_failover_decisions'' fd_id (=) (\<lambda>_. False)
      (stored_plain decision_texts failover_decision_post_init d) (fo_decisions db)")
    case (Inl e)
    with Inr show ?thesis by (simp add: evaluate_failover_def save_failover_decision_def same_tables_def)
  next
    case t: (Inr t)
    note save_plain_Inr [OF t]
    moreover have "fst (evaluate_failover en clock i p db) \<in> {db, db\<lparr>fo_decisions := t\<rparr>}"
      using Inr t by (auto simp: evaluate_failover_def save_failover_decision_def)
    ultimately show ?thesis by (cases "tbl_get (fo_decisions db) (fd_id d)") (auto simp: same_tables_def)
  qed
qed

lemma transition_execution_effect:
  "fst (transition_failover_execution i from to t reason ref db) = db \<or>
   (\<exists>old new. tbl_get (fo_executions db) i = Some old \<and>
      fst (transition_failover_execution i from to t reason ref db) = db\<lparr>fo_executions := tbl_upsert i new (fo_executions db)\<rparr> \<and>
      same_execution old new \<and> fe_state old = from \<and> fe_state new = to \<and> to \<in> execution_successors from)"
  by (auto simp: transition_failover_execution_def load_failover_execution_def same_execution_def stored_plain_Inr
      split: sum.splits option.splits)

lemma transition_execution_Inr:
  assumes "transition_failover_execution i from to t reason ref db = (db', Inr x)"
  shows "\<exists>old. tbl_get (fo_executions db) i = Some old \<and> same_execution old x \<and> fe_state old = from \<and> fe_state x = to \<and>
    to \<in> execution_successors from \<and> db' = db\<lparr>fo_executions := tbl_upsert i x (fo_executions db)\<rparr>"
  using assms by (auto simp: transition_failover_execution_def load_failover_execution_def same_execution_def stored_plain_Inr
      split: sum.splits option.splits if_splits)

lemma transition_attempt_effect:
  assumes "transition_agent_recovery_attempt i from to t db = (db', r)"
  shows "db' = db \<and> isOK r = False \<or>
   (\<exists>old new. tbl_get (fo_attempts db) i = Some old \<and> r = Inr new \<and> db' = db\<lparr>fo_attempts := tbl_upsert i new (fo_attempts db)\<rparr> \<and>
      same_attempt old new \<and> rt_state old = from \<and> rt_state new = to)"
proof (cases "tbl_get (fo_attempts db) i")
  case None
  then show ?thesis using assms by (auto simp: transition_agent_recovery_attempt_def load_agent_recovery_attempt_def)
next
  case (Some old)
  let ?new = "old\<lparr>rt_state := to, rt_updated_at := t\<rparr>"
  show ?thesis
  proof (cases "rt_state old = from \<and> isOK (stored_plain attempt_texts recovery_attempt_post_init ?new)")
    case True
    then have "stored_plain attempt_texts recovery_attempt_post_init ?new = Inr ?new"
      by (auto simp: isOK_def stored_plain_Inr split: sum.splits)
    with True Some assms have "db' = db\<lparr>fo_attempts := tbl_upsert i ?new (fo_attempts db)\<rparr>" "r = Inr ?new"
      by (simp_all add: transition_agent_recovery_attempt_def load_agent_recovery_attempt_def)
    with True Some show ?thesis by (intro disjI2 exI [of _ old] exI [of _ ?new]) (simp add: same_attempt_def)
  next
    case False
    with Some show ?thesis using assms
      by (auto simp: transition_agent_recovery_attempt_def load_agent_recovery_attempt_def isOK_def split: sum.splits if_splits)
  qed
qed

lemma reserve_Inr:
  assumes "ops_ok st" "reserve clock i owner st = (st', Inr op)"
  shows "ops_ok st'" "tbl_get (as_operations st') i = Some op" "or_generation op = fst (failover_operation i st)"
    "or_owner_token op = Some owner" "or_state op = Fence_FENCED"
    "\<forall>old. tbl_get (as_operations st) i = Some old \<longrightarrow> or_state old = Fence_OPEN"
proof -
  from reserve_ops [OF assms(1), of clock i owner, OF assms(2)] show "ops_ok st'" "tbl_get (as_operations st') i = Some op"
    "or_state op = Fence_FENCED" by simp_all
  obtain st1 cur where e: "ensure_agent_operation i (clock 0) st = (st1, Inr cur)" "or_state cur = Fence_OPEN"
    and op: "op = cur\<lparr>or_state := Fence_FENCED, or_owner_token := Some owner, or_updated_at := clock 1\<rparr>"
    using assms(2) by (auto simp: reserve_def Let_def split: prod.splits sum.splits if_splits)
  from op show "or_owner_token op = Some owner" by simp
  have "tbl_ok (as_operations st)" using assms(1) by (simp add: ops_ok_def)
  with e(1) have "or_generation cur = fst (failover_operation i st) \<and>
      (\<forall>old. tbl_get (as_operations st) i = Some old \<longrightarrow> old = cur)"
    by (auto simp: ensure_agent_operation_def load_agent_operation_def failover_operation_def Let_def tbl_get_upsert
        split: sum.splits option.splits)
  with op e(2) show "or_generation op = fst (failover_operation i st)"
    "\<forall>old. tbl_get (as_operations st) i = Some old \<longrightarrow> or_state old = Fence_OPEN" by auto
qed

lemma reserve_for_failover_Inr:
  "reserve_for_failover en op_clock i st = (st', Inr op) \<longleftrightarrow> reserve op_clock i (en_new_id en ''operation.failover'') st = (st', Inr op)"
  by (auto simp: reserve_for_failover_def split: prod.splits sum.splits py_error.splits)

lemma save_execution_Inr:
  assumes "save_failover_execution x db = (db', Inr ())"
  shows "db' = db\<lparr>fo_executions := tbl_upsert (fe_id x) x (fo_executions db)\<rparr>"
    "\<forall>old. tbl_get (fo_executions db) (fe_id x) = Some old \<longrightarrow> same_execution old x"
proof -
  obtain t where t: "save_agent_record ''agent_failover_executions'' fe_id same_execution (\<lambda>_. False)
      (stored_plain execution_texts failover_execution_post_init x) (fo_executions db) = Inr t" "db' = db\<lparr>fo_executions := t\<rparr>"
    using assms by (auto simp: save_failover_execution_def split: sum.splits)
  from save_plain_Inr [OF t(1)] t(2) show "db' = db\<lparr>fo_executions := tbl_upsert (fe_id x) x (fo_executions db)\<rparr>"
    "\<forall>old. tbl_get (fo_executions db) (fe_id x) = Some old \<longrightarrow> same_execution old x" by simp_all
qed

lemma consume_Inr:
  assumes "consume_failover_decision d g t db = (db', Inr u)"
  shows "\<exists>current. tbl_get (fo_decisions db) d = Some current \<and> fd_consumed_at current = None \<and>
    db' = db\<lparr>fo_decisions := tbl_upsert d (current\<lparr>fd_consumed_at := Some t\<rparr>) (fo_decisions db)\<rparr>"
proof (cases "tbl_get (fo_decisions db) d")
  case None
  then show ?thesis using assms by (simp add: consume_failover_decision_def load_failover_decision_def)
next
  case (Some current)
  then have c: "fd_consumed_at current = None"
    and "(case stored_plain decision_texts failover_decision_post_init (current\<lparr>fd_consumed_at := Some t\<rparr>) of
        Inl e \<Rightarrow> (db, Inl e)
      | Inr updated \<Rightarrow> (db\<lparr>fo_decisions := tbl_upsert d updated (fo_decisions db)\<rparr>, Inr updated)) = (db', Inr u)"
    using assms by (auto simp: consume_failover_decision_def load_failover_decision_def split: if_splits)
  from this(2) have "stored_plain decision_texts failover_decision_post_init (current\<lparr>fd_consumed_at := Some t\<rparr>) = Inr u"
    "db' = db\<lparr>fo_decisions := tbl_upsert d u (fo_decisions db)\<rparr>"
    by (simp_all split: sum.splits)
  with Some c show ?thesis by (auto simp: stored_plain_Inr)
qed

text \<open>A successful reservation of a failover, and everything it rests on.\<close>

lemma execute_reserve_Inr:
  assumes "execute_reserve en clock op_clock i d original db = (db', Inr (x, op))"
  obtains again st epoch where "load_failover_decision d db = Inr original"
    "evaluate_failover_in en i (fd_policy_id original) (Some (fd_id original)) (clock 1) db = Inr again" "same_evidence original again"
    "reserve op_clock i (en_new_id en ''operation.failover'') (fo_agents db) = (st, Inr op)"
    "decision_expired original (clock 2) = Inr ()" "active_epoch (en_str en) i st = Inr epoch"
    "x = failover_execution_for en i original op epoch (clock 3) (clock 4)" "fd_consumed_at original = None"
    "\<forall>old. tbl_get (fo_executions db) (fe_id x) = Some old \<longrightarrow> same_execution old x"
    "db' = db\<lparr>fo_agents := st, fo_executions := tbl_upsert (fe_id x) x (fo_executions db),
       fo_decisions := tbl_upsert d (original\<lparr>fd_consumed_at := Some (clock 5)\<rparr>) (fo_decisions db)\<rparr>"
proof -
  from assms obtain again st epoch db2 u where load: "load_failover_decision d db = Inr original"
    and eval: "evaluate_failover_in en i (fd_policy_id original) (Some (fd_id original)) (clock 1) db = Inr again"
      "same_evidence original again"
    and res: "reserve_for_failover en op_clock i (fo_agents db) = (st, Inr op)"
    and exp: "decision_expired original (clock 2) = Inr ()" and epoch: "active_epoch (en_str en) i st = Inr epoch"
    and x: "x = failover_execution_for en i original op epoch (clock 3) (clock 4)"
    and save: "save_failover_execution x (db\<lparr>fo_agents := st\<rparr>) = (db2, Inr ())"
    and consume: "consume_failover_decision d (fd_operation_generation original) (clock 5) db2 = (db', Inr u)"
    by (auto simp: execute_reserve_def Let_def res_bind_Inr_iff split: sum.splits prod.splits if_splits)
  have dec: "tbl_get (fo_decisions db) d = Some original"
    using load by (simp add: load_failover_decision_def split: option.splits)
  note db2 = save_execution_Inr [OF save]
  from consume_Inr [OF consume] db2(1) dec
  have con: "fd_consumed_at original = None"
    "db' = db2\<lparr>fo_decisions := tbl_upsert d (original\<lparr>fd_consumed_at := Some (clock 5)\<rparr>) (fo_decisions db)\<rparr>" by auto
  show ?thesis
    by (rule that [OF load eval _ exp epoch x con(1)]) (use res db2 con in \<open>simp_all add: reserve_for_failover_Inr\<close>)
qed

lemma execute_reserve_Inl:
  assumes "execute_reserve en clock op_clock i d original db = (db', Inl e)"
  shows "db' = db"
  using assms by (auto simp: execute_reserve_def Let_def split: sum.splits prod.splits)

lemma claim_effect:
  assumes "claim_failover_recovery i a t db = (db', r)" "db' \<noteq> db"
  shows "\<exists>old new. tbl_get (fo_executions db) i = Some old \<and> same_execution old new \<and> fe_state old = FExec_BLOCKED_PREIMPORT \<and>
    fe_state new = FExec_RECOVERING \<and> recovery_attempt_for_execution i db = Inr None \<and> (\<forall>b. tbl_get (fo_attempts db) (rt_id a) = Some b \<longrightarrow> same_attempt b a) \<and>
    db' = db\<lparr>fo_executions := tbl_upsert i new (fo_executions db), fo_attempts := tbl_upsert (rt_id a) a (fo_attempts db)\<rparr>"
proof -
  obtain db1 x where none: "recovery_attempt_for_execution i db = Inr None"
    and tr: "transition_failover_execution i FExec_BLOCKED_PREIMPORT FExec_RECOVERING t None None db = (db1, Inr x)"
    and sv: "save_agent_recovery_attempt a db1 = (db', Inr ())"
    using assms by (auto simp: claim_failover_recovery_def split: sum.splits prod.splits option.splits)
  obtain u where u: "save_agent_record ''agent_recovery_attempts'' rt_id same_attempt (\<lambda>_. False)
      (stored_plain attempt_texts recovery_attempt_post_init a) (fo_attempts db1) = Inr u" "db' = db1\<lparr>fo_attempts := u\<rparr>"
    using sv by (auto simp: save_agent_recovery_attempt_def split: sum.splits)
  from transition_execution_Inr [OF tr] obtain old where "tbl_get (fo_executions db) i = Some old" "same_execution old x"
    "fe_state old = FExec_BLOCKED_PREIMPORT" "db1 = db\<lparr>fo_executions := tbl_upsert i x (fo_executions db)\<rparr>"
    "fe_state x = FExec_RECOVERING" by blast
  with save_plain_Inr [OF u(1)] u(2) none show ?thesis by (intro exI [of _ old] exI [of _ x]) simp
qed

lemma recover_claim_db:
  "fst (recover_claim en clock x session db) = db \<or>
   (\<exists>a t. fst (recover_claim en clock x session db) = fst (claim_failover_recovery (fe_id x) a t db) \<and>
      rt_execution_id a = fe_id x \<and> rt_state a = Attempt_PENDING)"
proof (cases "fe_state x = FExec_BLOCKED_PREIMPORT \<and> recovery_attempt_for_execution (fe_id x) db = Inr None \<and>
    recovery_attempt_post_init (new_recovery_attempt en (clock 0) (clock 1) x session) = Inr ()")
  case True
  let ?a = "new_recovery_attempt en (clock 0) (clock 1) x session"
  have "fst (recover_claim en clock x session db) = fst (claim_failover_recovery (fe_id x) ?a (clock 2) db)"
    using True by (simp add: recover_claim_def Let_def split: prod.split sum.split py_error.split)
  moreover have "rt_execution_id ?a = fe_id x" "rt_state ?a = Attempt_PENDING" by (simp_all add: new_recovery_attempt_def)
  ultimately show ?thesis by blast
next
  case False
  then show ?thesis by (auto simp: recover_claim_def Let_def split: sum.splits option.splits)
qed

lemma recover_start_effect:
  assumes "recover_start clock x session a db = (db', r)"
  shows "db' = db \<and> isOK r = False \<or>
   (\<exists>old new. tbl_get (fo_attempts db) (rt_id a) = Some old \<and> db' = db\<lparr>fo_attempts := tbl_upsert (rt_id a) new (fo_attempts db)\<rparr> \<and>
      same_attempt old new \<and> rt_state old = Attempt_PENDING \<and> rt_state new = Attempt_EXTERNAL_STARTED \<and>
      (\<forall>q. r = Inr q \<longrightarrow> rq_attempt_id q = rt_id new))"
proof -
  obtain db1 y where y: "transition_agent_recovery_attempt (rt_id a) Attempt_PENDING Attempt_EXTERNAL_STARTED (clock 0) db = (db1, y)"
    by fastforce
  with assms transition_attempt_effect [OF y] show ?thesis
    by (auto simp: recover_start_def recovery_request_for_def Let_def isOK_def split: sum.splits)
qed

text \<open>
  What the steps after the provider call do to the failover tables: attempts move on and never back to
  \<open>pending\<close>, and executions follow their state graph.
\<close>

definition attempt_moves :: "FailoverDb \<Rightarrow> FailoverDb \<Rightarrow> bool" where
  "attempt_moves db db' \<longleftrightarrow> fo_attempts db' = fo_attempts db \<or>
     (\<exists>i old new. tbl_get (fo_attempts db) i = Some old \<and> same_attempt old new \<and> rt_state new \<noteq> Attempt_PENDING \<and>
        fo_attempts db' = tbl_upsert i new (fo_attempts db))"

definition execution_moves :: "FailoverDb \<Rightarrow> FailoverDb \<Rightarrow> bool" where
  "execution_moves db db' \<longleftrightarrow> fo_executions db' = fo_executions db \<or>
     (\<exists>i old new. tbl_get (fo_executions db) i = Some old \<and> same_execution old new \<and> fe_state new \<in> execution_successors (fe_state old) \<and>
        fo_executions db' = tbl_upsert i new (fo_executions db))"

lemma execution_movesI:
  assumes "tbl_get (fo_executions db) i = Some old" "same_execution old new" "fe_state new \<in> execution_successors (fe_state old)"
    "fo_executions db' = tbl_upsert i new (fo_executions db)"
  shows "execution_moves db db'"
  using assms unfolding execution_moves_def by blast

lemma attempt_movesI:
  assumes "tbl_get (fo_attempts db) i = Some old" "same_attempt old new" "rt_state new \<noteq> Attempt_PENDING"
    "fo_attempts db' = tbl_upsert i new (fo_attempts db)"
  shows "attempt_moves db db'"
  using assms unfolding attempt_moves_def by blast

definition recovery_change :: "FailoverDb \<Rightarrow> FailoverDb \<Rightarrow> bool" where
  "recovery_change db db' \<longleftrightarrow> ops_ok (fo_agents db') \<and> fo_policies db' = fo_policies db \<and> fo_decisions db' = fo_decisions db \<and>
     execution_moves db db' \<and> attempt_moves db db'"

lemma recovery_change_refl: "ops_ok (fo_agents db) \<Longrightarrow> recovery_change db db"
  by (simp add: recovery_change_def execution_moves_def attempt_moves_def)

lemma ops_ok_result: "ops_ok (fst (save_agent_dispatch_result r st)) \<longleftrightarrow> ops_ok st"
  by (simp add: ops_ok_def)

lemma bundle_effect:
  assumes "ops_ok (fo_agents db)"
  shows "recovery_change db (fst (record_agent_recovery_result_bundle result x i t db))"
proof (cases "isOK (snd (record_agent_recovery_result_bundle result x i t db))")
  case False
  then have "fst (record_agent_recovery_result_bundle result x i t db) = db"
    by (auto simp: record_agent_recovery_result_bundle_def split: sum.splits prod.splits option.splits)
  with assms show ?thesis by (simp add: recovery_change_refl)
next
  case True
  obtain db3 where fin: "record_agent_recovery_result_bundle result x i t db = (db3, Inr ())"
    using True by (cases "record_agent_recovery_result_bundle result x i t db") (auto simp: isOK_def split: sum.splits)
  then obtain db1 db2 y where one: "save_failover_result result db = (db1, Inr ())" and two: "save_agent_recovery_outcome x db1 = (db2, Inr ())"
    and three: "transition_agent_recovery_attempt i Attempt_EXTERNAL_STARTED Attempt_RESULT_RECORDED t db2 = (db3, Inr y)"
    by (auto simp: record_agent_recovery_result_bundle_def split: sum.splits prod.splits option.splits)
  have "db1 = db\<lparr>fo_agents := fst (save_agent_dispatch_result result (fo_agents db))\<rparr>"
    using one by (cases "save_agent_dispatch_result result (fo_agents db)") (auto simp: save_failover_result_def)
  moreover obtain u where "db2 = db1\<lparr>fo_outcomes := u\<rparr>"
    using two by (auto simp: save_agent_recovery_outcome_def split: sum.splits if_splits)
  moreover obtain old where "tbl_get (fo_attempts db2) i = Some old" "same_attempt old y" "rt_state y = Attempt_RESULT_RECORDED"
    "db3 = db2\<lparr>fo_attempts := tbl_upsert i y (fo_attempts db2)\<rparr>"
    using transition_attempt_effect [OF three] by auto
  ultimately have row: "tbl_get (fo_attempts db) i = Some old" "same_attempt old y" "rt_state y \<noteq> Attempt_PENDING"
    and db3: "db3 = db\<lparr>fo_agents := fst (save_agent_dispatch_result result (fo_agents db)), fo_outcomes := u,
      fo_attempts := tbl_upsert i y (fo_attempts db)\<rparr>" by simp_all
  have "attempt_moves db db3" by (rule attempt_movesI [OF row]) (simp add: db3)
  with assms fin db3 show ?thesis by (simp add: recovery_change_def execution_moves_def ops_ok_result)
qed

lemma record_effect_failover:
  assumes "ops_ok (fo_agents db)"
  shows "recovery_change db (fst (recover_record en clock x session a from_recover result db))"
proof (cases "new_recovery_outcome en (clock 0) x session a from_recover result")
  case (Inl e)
  with recovery_change_refl [OF assms] show ?thesis by (simp add: recover_record_def)
next
  case (Inr outcome)
  then have "fst (recover_record en clock x session a from_recover result db) =
      fst (record_agent_recovery_result_bundle result outcome (rt_id a) (clock 1) db)"
    by (simp add: recover_record_def split: prod.split sum.split py_error.split)
  with bundle_effect [OF assms] show ?thesis by simp
qed

lemma finalize_attempt_effect:
  assumes "finalize_attempt t attempt db = (db', Inr ())"
  shows "attempt_moves db db' \<and> (\<exists>u. db' = db\<lparr>fo_attempts := u\<rparr>)"
proof (cases "\<exists>a. attempt = Some a \<and> rt_state a \<in> {Attempt_EXTERNAL_STARTED, Attempt_RESULT_RECORDED}")
  case True
  then obtain a where a: "attempt = Some a" "rt_state a \<in> {Attempt_EXTERNAL_STARTED, Attempt_RESULT_RECORDED}" by blast
  obtain db1 r where tr: "transition_agent_recovery_attempt (rt_id a) (rt_state a) Attempt_FINALIZED t db = (db1, r)" by fastforce
  with assms a have "db1 = db'" "isOK r" by (auto simp: finalize_attempt_def isOK_def split: sum.splits)
  with transition_attempt_effect [OF tr] obtain old new where "tbl_get (fo_attempts db) (rt_id a) = Some old" "same_attempt old new"
    "rt_state new = Attempt_FINALIZED" and db': "db' = db\<lparr>fo_attempts := tbl_upsert (rt_id a) new (fo_attempts db)\<rparr>" by auto
  moreover from db' have "fo_attempts db' = tbl_upsert (rt_id a) new (fo_attempts db)" by simp
  ultimately have "attempt_moves db db'" by (intro attempt_movesI) simp_all
  with db' show ?thesis by blast
next
  case False
  with assms have "db' = db" by (auto simp: finalize_attempt_def split: option.splits)
  then show ?thesis by (auto simp: attempt_moves_def intro: exI [of _ "fo_attempts db"])
qed

lemma finalize_Inr:
  assumes "finalize_failover_recovery clock op_clock x operation ref db = (db', Inr y)"
  obtains db1 st released where "verify_owned operation (fo_agents db) = Inr ()" "attempt_moves db db1" "\<exists>u. db1 = db\<lparr>fo_attempts := u\<rparr>"
    "release op_clock operation (fo_agents db) = (st, Inr released)"
    "transition_failover_execution (fe_id x) (fe_state x) FExec_RECOVERED (clock 1) None ref (db1\<lparr>fo_agents := st\<rparr>) = (db', Inr y)"
proof -
  obtain attempt db1 st released where v: "verify_owned operation (fo_agents db) = Inr ()"
    and db1: "finalize_attempt (clock 0) attempt db = (db1, Inr ())"
    and rel: "release op_clock operation (fo_agents db1) = (st, Inr released)"
    and tr: "transition_failover_execution (fe_id x) (fe_state x) FExec_RECOVERED (clock 1) None ref (db1\<lparr>fo_agents := st\<rparr>) = (db', Inr y)"
    using assms unfolding finalize_failover_recovery_def
    by (auto simp: res_bind_Inr_iff split: sum.splits prod.splits)
  note moves = finalize_attempt_effect [OF db1]
  from moves have "fo_agents db1 = fo_agents db" by auto
  with rel have "release op_clock operation (fo_agents db) = (st, Inr released)" by simp
  from that [OF v _ _ this tr] moves show ?thesis by blast
qed

lemma finalize_effect:
  assumes "ops_ok (fo_agents db)"
  shows "recovery_change db (fst (finalize_failover_recovery clock op_clock x operation ref db))"
proof (cases "finalize_failover_recovery clock op_clock x operation ref db")
  case (Pair db' r)
  show ?thesis
  proof (cases r)
    case (Inl e)
    with Pair have "db' = db"
      unfolding finalize_failover_recovery_def by (auto split: sum.splits prod.splits)
    with Pair assms show ?thesis by (simp add: recovery_change_refl)
  next
    case (Inr y)
    from finalize_Inr [OF Pair [unfolded Inr]] obtain db1 st released where
      m: "attempt_moves db db1" "\<exists>u. db1 = db\<lparr>fo_attempts := u\<rparr>" and rel: "release op_clock operation (fo_agents db) = (st, Inr released)"
      and tr: "transition_failover_execution (fe_id x) (fe_state x) FExec_RECOVERED (clock 1) None ref (db1\<lparr>fo_agents := st\<rparr>) = (db', Inr y)"
      by metis
    have "ops_ok st" using release_ops [where may_release = "\<lambda>_. True", OF assms rel] by simp
    moreover obtain old where old: "tbl_get (fo_executions db) (fe_id x) = Some old" "same_execution old y"
      "fe_state y \<in> execution_successors (fe_state old)"
      and db': "db' = db1\<lparr>fo_agents := st, fo_executions := tbl_upsert (fe_id x) y (fo_executions db)\<rparr>"
      using transition_execution_Inr [OF tr] m(2) by auto
    moreover have "execution_moves db db'" by (rule execution_movesI [OF old]) (simp add: db')
    moreover have "attempt_moves db db'" using m(1) by (simp add: attempt_moves_def db')
    ultimately show ?thesis using m(2) Pair by (auto simp: recovery_change_def)
  qed
qed

section \<open>The invariant\<close>

text \<open>The decision an execution was reserved for.\<close>

definition spent_by :: "FailoverDecision \<Rightarrow> FailoverExecution \<Rightarrow> bool" where
  "spent_by d x \<longleftrightarrow> fd_allowed d \<and> fd_consumed_at d \<noteq> None \<and> fd_id d = fe_decision_id x \<and> fd_instance_id d = fe_instance_id x \<and>
     fd_outgoing_epoch_id d = fe_outgoing_epoch_id x \<and> fd_outgoing_provider_id d = fe_outgoing_provider_id x \<and>
     fd_operation_generation d = fe_operation_generation x"

definition all_spent :: "FailoverDecision tbl \<Rightarrow> FailoverExecution tbl \<Rightarrow> bool" where
  "all_spent decisions executions \<longleftrightarrow> (\<forall>i x. tbl_get executions i = Some x \<longrightarrow>
     (\<exists>d. tbl_get decisions (fe_decision_id x) = Some d \<and> spent_by d x))"

definition executions_ok :: "FailoverDecision tbl \<Rightarrow> FailoverExecution tbl \<Rightarrow> bool" where
  "executions_ok decisions executions \<longleftrightarrow> keyed_by fd_id decisions \<and> keyed_by fe_id executions \<and>
     all_spent decisions executions \<and> unique_by fe_decision_id executions"

definition asked :: "AgentRecoveryAttempt tbl \<Rightarrow> AgentRecoveryRequest list \<Rightarrow> bool" where
  "asked attempts requests \<longleftrightarrow>
     (\<forall>q \<in> set requests. \<exists>a. tbl_get attempts (rq_attempt_id q) = Some a \<and> rt_state a \<noteq> Attempt_PENDING)"

definition requests_ok :: "AgentRecoveryAttempt tbl \<Rightarrow> AgentRecoveryRequest list \<Rightarrow> bool" where
  "requests_ok attempts requests \<longleftrightarrow> keyed_by rt_id attempts \<and> unique_by rt_execution_id attempts \<and>
     asked attempts requests \<and> distinct (map rq_attempt_id requests)"

definition failover_ok :: "failover_world \<Rightarrow> bool" where
  "failover_ok w \<longleftrightarrow> ops_ok (fo_agents (fw_db w)) \<and> tbl_ok (fo_policies (fw_db w)) \<and>
     (\<forall>i p. tbl_get (fo_policies (fw_db w)) i = Some p \<longrightarrow> failover_policy_post_init p = Inr ()) \<and>
     executions_ok (fo_decisions (fw_db w)) (fo_executions (fw_db w)) \<and>
     requests_ok (fo_attempts (fw_db w)) (fw_requests w)"

lemma same_execution_spent: "same_execution x y \<Longrightarrow> spent_by d x = spent_by d y"
  by (simp add: same_execution_def spent_by_def)

lemma executions_ok_decided:
  assumes "executions_ok ds xs" "tbl_get ds (fd_id d) = None \<or> tbl_get ds (fd_id d) = Some d"
  shows "executions_ok (tbl_upsert (fd_id d) d ds) xs"
proof -
  have keyed: "keyed_by fd_id ds" using assms(1) by (simp add: executions_ok_def)
  have "tbl_get (tbl_upsert (fd_id d) d ds) j = Some e" if "tbl_get ds j = Some e" for j e
    using assms(2) that by (auto simp: keyed_by_get [OF keyed])
  with assms(1) keyed_by_upsert [OF keyed] show ?thesis unfolding executions_ok_def all_spent_def by blast
qed

lemma executions_ok_moved:
  assumes "executions_ok ds xs" "tbl_get xs i = Some old" "same_execution old new"
  shows "executions_ok ds (tbl_upsert i new xs)"
proof -
  have keyed: "keyed_by fe_id xs" and spent: "all_spent ds xs" and unique: "unique_by fe_decision_id xs"
    using assms(1) by (simp_all add: executions_ok_def)
  have same: "fe_id new = i" "fe_decision_id new = fe_decision_id old"
    using assms keyed by (simp_all add: keyed_by_def same_execution_def)
  obtain d where "tbl_get ds (fe_decision_id new) = Some d" "spent_by d new"
    using spent assms(2) same(2) same_execution_spent [OF assms(3)] unfolding all_spent_def by metis
  then have "all_spent ds (tbl_upsert i new xs)"
    using spent unfolding all_spent_def by (simp add: keyed_by_get [OF keyed])
  moreover have "unique_by fe_decision_id (tbl_upsert i new xs)"
    using unique_by_update [OF _ unique assms(2) same(2)] keyed by (simp add: keyed_by_def)
  ultimately show ?thesis using assms(1) keyed_by_upsert [OF keyed same(1)] by (simp add: executions_ok_def)
qed

lemma executions_ok_reserved:
  assumes "executions_ok ds xs" "tbl_get ds i = Some d" "fd_consumed_at d = None" "spent_by (d\<lparr>fd_consumed_at := Some t\<rparr>) x"
    "\<forall>old. tbl_get xs (fe_id x) = Some old \<longrightarrow> same_execution old x"
  shows "executions_ok (tbl_upsert i (d\<lparr>fd_consumed_at := Some t\<rparr>) ds) (tbl_upsert (fe_id x) x xs)"
    "\<forall>j y. tbl_get xs j = Some y \<longrightarrow> fe_decision_id y \<noteq> fe_decision_id x" "tbl_get xs (fe_id x) = None"
proof -
  have keyed: "keyed_by fd_id ds" "keyed_by fe_id xs" and spent: "all_spent ds xs" and unique: "unique_by fe_decision_id xs"
    using assms(1) by (simp_all add: executions_ok_def)
  have i: "fd_id d = i" "fe_decision_id x = i" using keyed(1) assms(2,4) by (auto simp: keyed_by_def spent_by_def)
  have unspent: "fe_decision_id y \<noteq> fe_decision_id x" if "tbl_get xs j = Some y" for j y
  proof
    assume "fe_decision_id y = fe_decision_id x"
    with spent that assms(2) i(2) have "spent_by d y" unfolding all_spent_def by fastforce
    with assms(3) show False by (simp add: spent_by_def)
  qed
  then show "\<forall>j y. tbl_get xs j = Some y \<longrightarrow> fe_decision_id y \<noteq> fe_decision_id x" by blast
  show "tbl_get xs (fe_id x) = None"
    using unspent assms(5) by (cases "tbl_get xs (fe_id x)") (auto simp: same_execution_def)
  have "all_spent (tbl_upsert i (d\<lparr>fd_consumed_at := Some t\<rparr>) ds) (tbl_upsert (fe_id x) x xs)"
    using spent assms(4) unspent i unfolding all_spent_def
    by (auto simp: keyed_by_get [OF keyed(1)] keyed_by_get [OF keyed(2)])
  moreover have "unique_by fe_decision_id (tbl_upsert (fe_id x) x xs)"
    using unique_by_insert [OF _ unique] unspent keyed(2) by (simp add: keyed_by_def)
  ultimately show "executions_ok (tbl_upsert i (d\<lparr>fd_consumed_at := Some t\<rparr>) ds) (tbl_upsert (fe_id x) x xs)"
    using keyed_by_upsert [OF keyed(1), of "d\<lparr>fd_consumed_at := Some t\<rparr>" i] keyed_by_upsert [OF keyed(2)] i
    by (simp add: executions_ok_def)
qed

lemma requests_ok_moved:
  assumes "requests_ok as qs" "tbl_get as i = Some old" "same_attempt old new" "rt_state new \<noteq> Attempt_PENDING"
  shows "requests_ok (tbl_upsert i new as) qs"
proof -
  have keyed: "keyed_by rt_id as" and unique: "unique_by rt_execution_id as" using assms(1) by (simp_all add: requests_ok_def)
  have same: "rt_id new = i" "rt_execution_id new = rt_execution_id old"
    using assms keyed by (simp_all add: keyed_by_def same_attempt_def)
  have "asked (tbl_upsert i new as) qs"
    using assms(1,4) unfolding requests_ok_def asked_def by (simp add: keyed_by_get [OF keyed])
  moreover have "unique_by rt_execution_id (tbl_upsert i new as)"
    using unique_by_update [OF _ unique assms(2) same(2)] keyed by (simp add: keyed_by_def)
  ultimately show ?thesis using assms(1) keyed_by_upsert [OF keyed same(1)] by (simp add: requests_ok_def)
qed

lemma requests_ok_started:
  assumes "requests_ok as qs" "tbl_get as i = Some old" "same_attempt old new" "rt_state old = Attempt_PENDING"
    "rt_state new \<noteq> Attempt_PENDING" "rq_attempt_id q = i"
  shows "requests_ok (tbl_upsert i new as) (qs @ [q])"
proof -
  have keyed: "keyed_by rt_id as" using assms(1) by (simp add: requests_ok_def)
  have "i \<notin> rq_attempt_id ` set qs" using assms(1,2,4) by (fastforce simp: requests_ok_def asked_def)
  with requests_ok_moved [OF assms(1-3,5)] assms(5,6) show ?thesis
    by (simp add: requests_ok_def asked_def keyed_by_get [OF keyed])
qed

lemma requests_ok_claimed:
  assumes "requests_ok as qs" "\<forall>j b. tbl_get as j = Some b \<longrightarrow> rt_execution_id b \<noteq> rt_execution_id a"
    "\<forall>b. tbl_get as (rt_id a) = Some b \<longrightarrow> same_attempt b a"
  shows "requests_ok (tbl_upsert (rt_id a) a as) qs"
proof -
  have keyed: "keyed_by rt_id as" and unique: "unique_by rt_execution_id as" using assms(1) by (simp_all add: requests_ok_def)
  have "tbl_get as (rt_id a) = None"
    using assms(2,3) by (cases "tbl_get as (rt_id a)") (auto simp: same_attempt_def)
  then have "asked (tbl_upsert (rt_id a) a as) qs"
    using assms(1) unfolding requests_ok_def asked_def by (fastforce simp: keyed_by_get [OF keyed])
  moreover have "unique_by rt_execution_id (tbl_upsert (rt_id a) a as)"
    using unique_by_insert [OF _ unique assms(2)] keyed by (simp add: keyed_by_def)
  ultimately show ?thesis using assms(1) keyed_by_upsert [OF keyed] by (simp add: requests_ok_def)
qed

section \<open>Every step keeps it\<close>

text \<open>An execution keeps its identity and moves along its state graph.\<close>

definition progress :: "FailoverExecution tbl \<Rightarrow> FailoverExecution tbl \<Rightarrow> bool" where
  "progress xs xs' \<longleftrightarrow> (\<forall>i x. tbl_get xs i = Some x \<longrightarrow> (\<exists>y. tbl_get xs' i = Some y \<and> same_execution x y \<and>
     (y = x \<or> fe_state y \<in> execution_successors (fe_state x))))"

definition good_change :: "failover_world \<Rightarrow> failover_world \<Rightarrow> bool" where
  "good_change w w' \<longleftrightarrow> failover_ok w' \<and> progress (fo_executions (fw_db w)) (fo_executions (fw_db w'))"

lemma same_execution_refl [simp]: "same_execution x x"
  by (simp add: same_execution_def)

lemma progress_refl [simp]: "progress xs xs"
  by (simp add: progress_def)

lemma progress_moved:
  assumes "tbl_ok xs" "tbl_get xs i = Some old" "same_execution old new" "fe_state new \<in> execution_successors (fe_state old)"
  shows "progress xs (tbl_upsert i new xs)"
  using assms by (simp add: progress_def tbl_get_upsert)

lemma progress_inserted: "tbl_ok xs \<Longrightarrow> tbl_get xs i = None \<Longrightarrow> progress xs (tbl_upsert i new xs)"
  by (auto simp: progress_def tbl_get_upsert)

lemma failover_ok_sel:
  assumes "failover_ok w"
  shows "ops_ok (fo_agents (fw_db w))" "executions_ok (fo_decisions (fw_db w)) (fo_executions (fw_db w))"
    "requests_ok (fo_attempts (fw_db w)) (fw_requests w)" "tbl_ok (fo_executions (fw_db w))" "tbl_ok (fo_attempts (fw_db w))"
    "tbl_ok (fo_decisions (fw_db w))"
  using assms by (simp_all add: failover_ok_def executions_ok_def requests_ok_def keyed_by_def)

lemma good_same:
  assumes "failover_ok w" "same_tables (fw_db w) db" "fo_policies db = fo_policies (fw_db w)" "ops_ok (fo_agents db)"
  shows "good_change w (w\<lparr>fw_db := db\<rparr>)"
  using assms by (simp add: good_change_def failover_ok_def same_tables_def)

lemma good_evidence:
  assumes "failover_ok w"
  shows "good_change w (w\<lparr>fw_db := fst (save_provider_health_observation h (fw_db w))\<rparr>)"
    "good_change w (w\<lparr>fw_db := fst (save_active_agent_risk r (fw_db w))\<rparr>)"
    "good_change w (w\<lparr>fw_db := fst (save_agent_checkpoint c (fw_db w))\<rparr>)"
  using failover_ok_sel(1) [OF assms]
  by (intro good_same [OF assms] evidence_same_tables;
      simp add: save_provider_health_observation_def save_active_agent_risk_def save_agent_checkpoint_def split: sum.split)+

lemma good_policy:
  assumes "failover_ok w"
  shows "good_change w (w\<lparr>fw_db := fst (save_failover_policy p (fw_db w))\<rparr>)"
proof (cases "save_agent_record ''agent_failover_policies'' fp_id (=) (\<lambda>_. False)
    (stored_plain policy_texts failover_policy_post_init p) (fo_policies (fw_db w))")
  case (Inl e)
  with assms show ?thesis by (simp add: save_failover_policy_def good_change_def)
next
  case (Inr t)
  have "failover_policy_post_init p = Inr ()"
    using Inr by (auto simp: save_agent_record_def res_bind_Inr_iff stored_plain_Inr)
  with assms save_plain_Inr [OF Inr] Inr show ?thesis
    by (simp add: save_failover_policy_def good_change_def failover_ok_def tbl_get_upsert)
qed

lemma good_recovery:
  assumes "failover_ok w" "recovery_change (fw_db w) db"
  shows "good_change w (w\<lparr>fw_db := db\<rparr>)"
proof -
  note sel = failover_ok_sel [OF assms(1)]
  have change: "ops_ok (fo_agents db)" "fo_policies db = fo_policies (fw_db w)" "fo_decisions db = fo_decisions (fw_db w)"
    "execution_moves (fw_db w) db" "attempt_moves (fw_db w) db" using assms(2) by (simp_all add: recovery_change_def)
  from change(4) have "executions_ok (fo_decisions (fw_db w)) (fo_executions db) \<and> progress (fo_executions (fw_db w)) (fo_executions db)"
    unfolding execution_moves_def using sel(2,4) by (auto intro: executions_ok_moved progress_moved)
  moreover from change(5) have "requests_ok (fo_attempts db) (fw_requests w)"
    unfolding attempt_moves_def using sel(3) by (auto intro: requests_ok_moved)
  ultimately show ?thesis using assms(1) change by (simp add: good_change_def failover_ok_def)
qed

lemma good_evaluate:
  assumes "failover_ok w"
  shows "good_change w (w\<lparr>fw_db := fst (evaluate_failover en clock i p (fw_db w))\<rparr>)"
  using evaluate_effect [of "fw_db w" en clock i p]
proof
  assume "same_tables (fw_db w) (fst (evaluate_failover en clock i p (fw_db w)))"
  moreover have "fo_policies (fst (evaluate_failover en clock i p (fw_db w))) = fo_policies (fw_db w)"
    "fo_agents (fst (evaluate_failover en clock i p (fw_db w))) = fo_agents (fw_db w)"
    by (simp_all add: evaluate_failover_def save_failover_decision_def split: sum.split)
  ultimately show ?thesis using good_same [OF assms] failover_ok_sel(1) [OF assms] by simp
next
  assume "\<exists>d. fst (evaluate_failover en clock i p (fw_db w)) =
      (fw_db w)\<lparr>fo_decisions := tbl_upsert (fd_id d) d (fo_decisions (fw_db w))\<rparr> \<and>
      (tbl_get (fo_decisions (fw_db w)) (fd_id d) = None \<or> tbl_get (fo_decisions (fw_db w)) (fd_id d) = Some d)"
  then show ?thesis
    using assms executions_ok_decided [OF failover_ok_sel(2) [OF assms]] by (auto simp: good_change_def failover_ok_def)
qed

lemma good_transition:
  assumes "failover_ok w"
  shows "good_change w (w\<lparr>fw_db := fst (transition_failover_execution i from to t reason ref (fw_db w))\<rparr>)"
proof (cases "fst (transition_failover_execution i from to t reason ref (fw_db w)) = fw_db w")
  case True
  with assms show ?thesis by (simp add: good_change_def)
next
  case False
  then obtain old new where "tbl_get (fo_executions (fw_db w)) i = Some old" "same_execution old new"
    "fe_state new \<in> execution_successors (fe_state old)" and
    db: "fst (transition_failover_execution i from to t reason ref (fw_db w)) =
      (fw_db w)\<lparr>fo_executions := tbl_upsert i new (fo_executions (fw_db w))\<rparr>"
    using transition_execution_effect [of i "from" to t reason ref "fw_db w"] by auto
  then have "execution_moves (fw_db w) (fst (transition_failover_execution i from to t reason ref (fw_db w)))"
    by (intro execution_movesI) simp_all
  then show ?thesis
    using db failover_ok_sel(1) [OF assms] by (intro good_recovery [OF assms]) (simp add: recovery_change_def attempt_moves_def)
qed

lemma no_attempt:
  assumes "recovery_attempt_for_execution i db = Inr None" "tbl_ok (fo_attempts db)" "tbl_get (fo_attempts db) j = Some b"
  shows "rt_execution_id b \<noteq> i"
proof -
  have "filter (\<lambda>a. rt_execution_id a = i) (map snd (fo_attempts db)) = []"
    using assms(1) by (auto simp: recovery_attempt_for_execution_def split: list.splits)
  moreover have "b \<in> set (map snd (fo_attempts db))"
    using assms(2,3) by (force simp: tbl_mem_iff [symmetric])
  ultimately show ?thesis by (auto simp: filter_empty_conv)
qed

lemma good_claim:
  assumes "failover_ok w"
  shows "good_change w (w\<lparr>fw_db := fst (recover_claim en clock x session (fw_db w))\<rparr>)"
proof (cases "fst (recover_claim en clock x session (fw_db w)) = fw_db w")
  case True
  with assms show ?thesis by (simp add: good_change_def)
next
  case False
  with recover_claim_db [of en clock x session "fw_db w"] obtain a t where
    a: "fst (recover_claim en clock x session (fw_db w)) = fst (claim_failover_recovery (fe_id x) a t (fw_db w))"
    "rt_execution_id a = fe_id x" by blast
  obtain db' r where c: "claim_failover_recovery (fe_id x) a t (fw_db w) = (db', r)" by fastforce
  with False a(1) have ne: "db' \<noteq> fw_db w" by simp
  obtain old new where old: "tbl_get (fo_executions (fw_db w)) (fe_id x) = Some old" "same_execution old new"
    and st: "fe_state old = FExec_BLOCKED_PREIMPORT" "fe_state new = FExec_RECOVERING"
    and none: "recovery_attempt_for_execution (fe_id x) (fw_db w) = Inr None"
    and same: "\<forall>b. tbl_get (fo_attempts (fw_db w)) (rt_id a) = Some b \<longrightarrow> same_attempt b a"
    and db': "db' = (fw_db w)\<lparr>fo_executions := tbl_upsert (fe_id x) new (fo_executions (fw_db w)),
      fo_attempts := tbl_upsert (rt_id a) a (fo_attempts (fw_db w))\<rparr>"
    using claim_effect [OF c ne] by blast
  note sel = failover_ok_sel [OF assms]
  have "requests_ok (tbl_upsert (rt_id a) a (fo_attempts (fw_db w))) (fw_requests w)"
    using no_attempt [OF none sel(5)] a(2) by (intro requests_ok_claimed [OF sel(3) _ same]) simp
  moreover have "executions_ok (fo_decisions (fw_db w)) (tbl_upsert (fe_id x) new (fo_executions (fw_db w)))"
    by (rule executions_ok_moved [OF sel(2) old])
  moreover have "progress (fo_executions (fw_db w)) (tbl_upsert (fe_id x) new (fo_executions (fw_db w)))"
    using progress_moved [OF sel(4) old] st by simp
  ultimately show ?thesis using assms a(1) c db' by (simp add: good_change_def failover_ok_def)
qed

lemma good_start:
  assumes "failover_ok w" "recover_start clock x session a (fw_db w) = (db, r)"
  shows "good_change w (w\<lparr>fw_db := db, fw_requests := fw_requests w @ (case r of Inl _ \<Rightarrow> [] | Inr q \<Rightarrow> [q])\<rparr>)"
  using recover_start_effect [OF assms(2)]
proof
  assume "db = fw_db w \<and> isOK r = False"
  with assms(1) show ?thesis by (cases r) (simp_all add: good_change_def)
next
  assume "\<exists>old new. tbl_get (fo_attempts (fw_db w)) (rt_id a) = Some old \<and>
      db = (fw_db w)\<lparr>fo_attempts := tbl_upsert (rt_id a) new (fo_attempts (fw_db w))\<rparr> \<and>
      same_attempt old new \<and> rt_state old = Attempt_PENDING \<and> rt_state new = Attempt_EXTERNAL_STARTED \<and>
      (\<forall>q. r = Inr q \<longrightarrow> rq_attempt_id q = rt_id new)"
  then obtain old new where row: "tbl_get (fo_attempts (fw_db w)) (rt_id a) = Some old" "same_attempt old new"
    and st: "rt_state old = Attempt_PENDING" "rt_state new \<noteq> Attempt_PENDING" and q: "\<forall>q. r = Inr q \<longrightarrow> rq_attempt_id q = rt_id new"
    and db: "db = (fw_db w)\<lparr>fo_attempts := tbl_upsert (rt_id a) new (fo_attempts (fw_db w))\<rparr>" by auto
  note ok = failover_ok_sel(3) [OF assms(1)]
  have "rt_id new = rt_id a" using ok row by (auto simp: requests_ok_def keyed_by_def same_attempt_def)
  with q have "requests_ok (fo_attempts db) (fw_requests w @ (case r of Inl _ \<Rightarrow> [] | Inr q \<Rightarrow> [q]))"
    using requests_ok_moved [OF ok row st(2)] requests_ok_started [OF ok row st] db by (cases r) simp_all
  with assms(1) db show ?thesis by (simp add: good_change_def failover_ok_def)
qed

lemma collect_operation:
  "collect_failover_evidence en i p d now db = Inr v \<Longrightarrow>
   fv_operation_generation v = fst (failover_operation i (fo_agents db)) \<and> fv_instance_id v = i"
  by (cases "failover_operation i (fo_agents db)") (auto simp: collect_failover_evidence_def res_bind_Inr_iff Let_def)

lemma evaluate_operation:
  "evaluate_failover_in en i p d now db = Inr x \<Longrightarrow> fd_operation_generation x = fst (failover_operation i (fo_agents db))"
  using collect_operation
  by (fastforce simp: evaluate_failover_in_def evaluate_failover_evidence_def failover_decision_def res_bind_Inr_iff Let_def)

lemma execute_begin_Inr:
  "execute_begin en now i d initiated_by approval_id db = Inr original \<Longrightarrow>
   fd_instance_id original = i \<and> fd_allowed original \<and> fd_consumed_at original = None \<and> \<not> blank approval_id \<and>
   failover_authorization en i d initiated_by approval_id original"
  by (auto simp: execute_begin_def res_bind_Inr_iff split: if_splits)

lemma execute_spends:
  assumes "failover_ok w" "fd_allowed original" "fd_instance_id original = i"
    "execute_reserve en clock op_clock i d original (fw_db w) = (db', Inr (x, op))"
  shows "good_change w (w\<lparr>fw_db := db'\<rparr>)" "\<forall>j y. tbl_get (fo_executions (fw_db w)) j = Some y \<longrightarrow> fe_decision_id y \<noteq> d"
proof -
  note sel = failover_ok_sel [OF assms(1)]
  obtain again st epoch where load: "load_failover_decision d (fw_db w) = Inr original"
    and eval: "evaluate_failover_in en i (fd_policy_id original) (Some (fd_id original)) (clock 1) (fw_db w) = Inr again"
      "same_evidence original again"
    and res: "reserve op_clock i (en_new_id en ''operation.failover'') (fo_agents (fw_db w)) = (st, Inr op)"
    and x: "x = failover_execution_for en i original op epoch (clock 3) (clock 4)" and unused: "fd_consumed_at original = None"
    and same: "\<forall>old. tbl_get (fo_executions (fw_db w)) (fe_id x) = Some old \<longrightarrow> same_execution old x"
    and db': "db' = (fw_db w)\<lparr>fo_agents := st, fo_executions := tbl_upsert (fe_id x) x (fo_executions (fw_db w)),
       fo_decisions := tbl_upsert d (original\<lparr>fd_consumed_at := Some (clock 5)\<rparr>) (fo_decisions (fw_db w))\<rparr>"
    by (rule execute_reserve_Inr [OF assms(4)])
  have dec: "tbl_get (fo_decisions (fw_db w)) d = Some original"
    using load by (simp add: load_failover_decision_def split: option.splits)
  then have d: "fd_id original = d" using sel(2) by (simp add: executions_ok_def keyed_by_def)
  have "fd_operation_generation original = or_generation op"
    using evaluate_operation [OF eval(1)] eval(2) reserve_Inr(3) [OF sel(1) res] by (simp add: same_evidence_def)
  then have spent: "spent_by (original\<lparr>fd_consumed_at := Some (clock 5)\<rparr>) x"
    using assms(2,3) by (simp add: spent_by_def x failover_execution_for_def)
  note reserved = executions_ok_reserved [OF sel(2) dec unused spent same]
  show "good_change w (w\<lparr>fw_db := db'\<rparr>)"
    using assms(1) reserved(1) reserve_Inr(1) [OF sel(1) res] progress_inserted [OF sel(4) reserved(3)]
    by (simp add: good_change_def failover_ok_def db')
  show "\<forall>j y. tbl_get (fo_executions (fw_db w)) j = Some y \<longrightarrow> fe_decision_id y \<noteq> d"
    using reserved(2) d by (simp add: x failover_execution_for_def)
qed

lemma good_step:
  assumes "failover_ok w" "failover_step w w'"
  shows "good_change w w'"
  using assms(2)
proof cases
  case (agents st)
  with assms(1) show ?thesis by (simp add: good_change_def failover_ok_def)
next
  case (execute en now i d initiated_by approval_id earlier original clock op_clock)
  obtain db r where r: "execute_reserve en clock op_clock i d original (fw_db w) = (db, r)" by fastforce
  show ?thesis
  proof (cases r)
    case (Inl e)
    with execute_reserve_Inl r execute assms(1) show ?thesis by (fastforce simp: good_change_def)
  next
    case (Inr xo)
    with execute_spends(1) [OF assms(1)] execute_begin_Inr [OF execute(2)] r execute(1) show ?thesis by (cases xo) auto
  qed
qed (use assms(1) failover_ok_sel(1) [OF assms(1)] in \<open>auto intro: good_evidence good_policy good_evaluate good_transition good_claim
       good_start good_recovery record_effect_failover finalize_effect\<close>)

lemma failover_ok_empty: "failover_ok \<lparr>fw_db = empty_failover, fw_requests = []\<rparr>"
  by (simp add: failover_ok_def empty_failover_def executions_ok_def requests_ok_def keyed_by_def all_spent_def unique_by_def asked_def
      ops_ok_def empty_agents_def)

interpretation failovers: step_invariant no_failovers failover_step failover_ok
  using good_step failover_ok_empty by unfold_locales (auto simp: no_failovers_def good_change_def)

section \<open>The recovery as a run\<close>

definition calm :: "(failover_world \<Rightarrow> failover_world) \<Rightarrow> bool" where
  "calm during \<longleftrightarrow> (\<forall>w. failover_step\<^sup>*\<^sup>* w (during w))"

text \<open>The outcome of a recovery: a run that, when it returns, ends by finalizing the execution \<open>i\<close> with its fence.\<close>

definition recovery_run ::
  "(nat \<Rightarrow> string) \<Rightarrow> AgentOperationReservation \<Rightarrow> string \<Rightarrow> failover_world \<Rightarrow> failover_world \<times> FailoverExecution result \<Rightarrow> bool" where
  "recovery_run op_clock op i w r \<longleftrightarrow> failover_step\<^sup>*\<^sup>* w (fst r) \<and>
     (\<forall>y. snd r = Inr y \<longrightarrow> (\<exists>w1 x clock ref. failover_step\<^sup>*\<^sup>* w w1 \<and> fe_id x = i \<and>
        finalize_failover_recovery clock op_clock x op ref (fw_db w1) = (fw_db (fst r), Inr y)))"

lemma fst_in_db [simp]: "fst (in_db w r) = w\<lparr>fw_db := fst r\<rparr>" "snd (in_db w r) = snd r"
  by (simp_all add: in_db_def)

lemma in_db_same [simp]: "in_db w (fw_db w, r) = (w, r)"
  by (simp add: in_db_def)

lemma run_finalize: "recovery_run op_clock op (fe_id x) w (in_db w (finalize_failover_recovery clock op_clock x op ref (fw_db w)))"
proof -
  have "failover_step w (fst (in_db w (finalize_failover_recovery clock op_clock x op ref (fw_db w))))"
    using failover_step.finalize by simp
  moreover have "finalize_failover_recovery clock op_clock x op ref (fw_db w) =
      (fw_db (fst (in_db w (finalize_failover_recovery clock op_clock x op ref (fw_db w)))), Inr y)"
    if "snd (in_db w (finalize_failover_recovery clock op_clock x op ref (fw_db w))) = Inr y" for y
    using that by (simp add: prod_eq_iff)
  ultimately show ?thesis unfolding recovery_run_def by blast
qed

lemma run_error: "failover_step\<^sup>*\<^sup>* w w' \<Longrightarrow> recovery_run op_clock op i w (w', Inl e)"
  by (simp add: recovery_run_def)

lemma run_after:
  assumes "failover_step\<^sup>*\<^sup>* w w1" "recovery_run op_clock op i w1 r"
  shows "recovery_run op_clock op i w r"
  using assms unfolding recovery_run_def by (meson rtranclp_trans)

lemma run_finish: "recovery_run op_clock op (fe_id x) w (recover_finish en clock op_clock x op session a from_recover result w)"
proof -
  obtain w1 r where w1: "in_db w (recover_record en (\<lambda>i. clock (20 + i)) x session a from_recover result (fw_db w)) = (w1, r)"
    by fastforce
  then have "failover_step w w1"
    using failover_step.record_result [of w en "\<lambda>i. clock (20 + i)" x session a from_recover result] by (metis fst_conv fst_in_db(1))
  then have "failover_step\<^sup>*\<^sup>* w w1" by blast
  with w1 run_after [OF this run_finalize] run_error [OF this] show ?thesis
    by (cases r) (simp_all add: recover_finish_def)
qed

lemma run_attempt:
  assumes "calm during"
  shows "recovery_run op_clock op (fe_id x) w (recover_attempt en clock op_clock during x op session driver a w)"
proof -
  have quiet: "failover_step\<^sup>*\<^sup>* w' (during w')" for w' using assms by (simp add: calm_def)
  consider (out) "recovery_outcome_for_attempt (rt_id a) (fw_db w) \<noteq> Inr None"
    | (start) "recovery_outcome_for_attempt (rt_id a) (fw_db w) = Inr None" "rt_state a = Attempt_PENDING"
    | (inspect) "recovery_outcome_for_attempt (rt_id a) (fw_db w) = Inr None" "rt_state a \<noteq> Attempt_PENDING" by blast
  then show ?thesis
  proof cases
    case out
    then show ?thesis
      by (auto simp: recover_attempt_def recover_from_outcome_def split: sum.split option.split intro: run_finalize run_error)
  next
    case start
    obtain db r where r: "recover_start (\<lambda>i. clock (10 + i)) x session a (fw_db w) = (db, r)" by fastforce
    show ?thesis
    proof (cases r)
      case (Inl e)
      with failover_step.start [OF r] start r show ?thesis by (auto simp: recover_attempt_def in_db_def intro: run_error)
    next
      case (Inr q)
      let ?w = "w\<lparr>fw_db := db, fw_requests := fw_requests w @ [q]\<rparr>"
      have "failover_step w ?w" using failover_step.start [OF r] Inr by simp
      with quiet [of ?w] have "failover_step\<^sup>*\<^sup>* w (during ?w)" by (meson converse_rtranclp_into_rtranclp)
      from start r Inr run_after [OF this run_finish] run_error [OF this] show ?thesis
        by (simp add: recover_attempt_def Let_def in_db_def split: sum.split)
    qed
  next
    case inspect
    with run_after [OF quiet run_finish] run_error [OF quiet] show ?thesis
      by (simp add: recover_attempt_def split: sum.split)
  qed
qed

lemma run_draining:
  assumes "failover_ok w"
  shows "recovery_run op_clock op (fe_id x) w (in_db w (recover_draining en clock op_clock x op session result (fw_db w)))"
proof -
  obtain db r where r: "save_failover_result result (fw_db w) = (db, r)" by fastforce
  then have db: "db = (fw_db w)\<lparr>fo_agents := fst (save_agent_dispatch_result result (fo_agents (fw_db w)))\<rparr>"
    by (cases "save_agent_dispatch_result result (fo_agents (fw_db w))") (simp add: save_failover_result_def)
  have "failover_step w (w\<lparr>fw_db := db\<rparr>)"
    unfolding db using failover_ok_sel(1) [OF assms] by (intro failover_step.agents) (simp add: ops_ok_result)
  then have step: "failover_step\<^sup>*\<^sup>* w (w\<lparr>fw_db := db\<rparr>)" by blast
  have same: "in_db (w\<lparr>fw_db := db\<rparr>) z = in_db w z" for z :: "FailoverDb \<times> FailoverExecution result" by (simp add: in_db_def)
  have fin: "recovery_run op_clock op (fe_id x) w
      (in_db w (finalize_failover_recovery clock op_clock x op (Some (dr_id result)) db))"
    by (rule run_after [OF step]) (use run_finalize [where w = "w\<lparr>fw_db := db\<rparr>"] in \<open>simp add: same\<close>)
  have err: "recovery_run op_clock op (fe_id x) w (in_db w (db, Inl e))" for e
    using run_error [OF step] by (simp add: in_db_def)
  show ?thesis
    using r fin err by (auto simp: recover_draining_def split: sum.split intro: run_error)
qed

lemma recover_claim_id:
  assumes "recover_claim en clock x session db = (db', Inr (claimed, a))" "keyed_by fe_id (fo_executions db)"
  shows "fe_id claimed = fe_id x"
proof (cases "fe_state x = FExec_BLOCKED_PREIMPORT")
  case False
  with assms(1) show ?thesis by (auto simp: recover_claim_def split: sum.splits option.splits)
next
  case True
  with assms(1) obtain t where "claim_failover_recovery (fe_id x) a t db = (db', Inr claimed)"
    by (auto simp: recover_claim_def Let_def split: sum.splits prod.splits py_error.splits if_splits)
  then obtain db1 where "transition_failover_execution (fe_id x) FExec_BLOCKED_PREIMPORT FExec_RECOVERING t None None db = (db1, Inr claimed)"
    by (auto simp: claim_failover_recovery_def split: sum.splits prod.splits option.splits)
  from transition_execution_Inr [OF this] assms(2) show ?thesis by (auto simp: same_execution_def keyed_by_def)
qed

lemma recover_run:
  assumes "failover_ok w" "calm during" "recover_begin en i initiated_by approval_id (fw_db w) = Inr (x, op)"
  shows "recovery_run op_clock op (fe_id x) w (recover_failover_execution en clock op_clock during i initiated_by approval_id w)"
proof -
  have quiet: "failover_step\<^sup>*\<^sup>* w (during w)" using assms(2) by (simp add: calm_def)
  have ok: "failover_ok (during w)" by (rule failovers.inv_rtranclp [OF quiet assms(1)])
  have keyed: "keyed_by fe_id (fo_executions (fw_db w))" using failover_ok_sel(2) [OF assms(1)] by (simp add: executions_ok_def)
  consider (reserved) "fe_state x = FExec_RESERVED" | (none) e where "fe_state x \<noteq> FExec_RESERVED" "recovery_session en x (fw_db w) = Inl e"
    | (draining) session driver where "fe_state x = FExec_DRAINING" "recovery_session en x (fw_db w) = Inr (session, driver)"
    | (blocked) session driver where "fe_state x \<notin> {FExec_RESERVED, FExec_DRAINING}" "recovery_session en x (fw_db w) = Inr (session, driver)"
    by (cases "recovery_session en x (fw_db w)") auto
  then show ?thesis
  proof cases
    case blocked
    obtain w1 r where w1: "in_db w (recover_claim en clock x session (fw_db w)) = (w1, r)" by fastforce
    have "failover_step w w1"
      using failover_step.claim [of w en clock x session] w1 by (metis fst_conv fst_in_db(1))
    then have step: "failover_step\<^sup>*\<^sup>* w w1" by blast
    have "fe_id y = fe_id x" if "r = Inr (y, a)" for y a
      using that w1 recover_claim_id [OF _ keyed] by (cases "recover_claim en clock x session (fw_db w)") (auto simp: in_db_def)
    then have "recovery_run op_clock op (fe_id x) w (recover_attempt en clock op_clock during y op session driver a w1)"
      if "r = Inr (y, a)" for y a
      using that run_after [OF step run_attempt [OF assms(2)]] by metis
    with blocked w1 assms(3) run_error [OF step] show ?thesis
      by (auto simp: recover_failover_execution_def split: sum.split prod.split)
  qed (use assms(3) run_finalize run_error [OF rtranclp.rtrancl_refl] run_error [OF quiet] run_after [OF quiet run_draining [OF ok]]
       in \<open>simp_all add: recover_failover_execution_def split: sum.split\<close>)
qed

end
