(* ===== verification/Failover_Safety.thy ===== *)
theory Failover_Safety
  imports Failover_Runs
begin

text \<open>
  What holds of failovers over all runs of \<open>failover_step\<close>: a decision is executed at most once and only
  while its evidence still justifies it, a finished execution is final, the outgoing provider is asked
  at most once to recover an execution, and a recovery gives the fence back.
\<close>

section \<open>Executions\<close>

lemma keyed_list:
  assumes "keyed_by ident t"
  shows "x \<in> set (map snd t) \<longleftrightarrow> tbl_get t (ident x) = Some x"
proof
  assume "x \<in> set (map snd t)"
  then obtain k where "(k, x) \<in> set t" by auto
  with assms have "tbl_get t k = Some x" by (simp add: keyed_by_def tbl_mem_iff)
  moreover with assms have "ident x = k" by (simp add: keyed_by_def)
  ultimately show "tbl_get t (ident x) = Some x" by simp
next
  assume "tbl_get t (ident x) = Some x"
  moreover have "tbl_ok t" using assms by (simp add: keyed_by_def)
  ultimately have "(ident x, x) \<in> set t" by (simp only: tbl_mem_iff)
  then have "snd (ident x, x) \<in> snd ` set t" by (rule imageI)
  then show "x \<in> set (map snd t)" by simp
qed

lemma listed_executions:
  assumes "failover_ok w"
  shows "x \<in> set (list_failover_executions (fw_db w)) \<longleftrightarrow> tbl_get (fo_executions (fw_db w)) (fe_id x) = Some x"
  using failover_ok_sel(2) [OF assms] unfolding list_failover_executions_def by (intro keyed_list) (simp add: executions_ok_def)

text \<open>C19: A failover decision is executed at most once. In every reachable state each execution belongs to an
  allowed decision that is marked as consumed and agrees with it on the instance, the outgoing epoch
  and provider and the generation of the fence, and no two executions belong to one decision.\<close>

theorem failover_decision_executed_once:
  assumes "reach no_failovers failover_step w"
  shows "(\<forall>x \<in> set (list_failover_executions (fw_db w)). \<exists>d. load_failover_decision (fe_decision_id x) (fw_db w) = Inr d \<and> spent_by d x) \<and>
    (\<forall>x \<in> set (list_failover_executions (fw_db w)). \<forall>y \<in> set (list_failover_executions (fw_db w)).
       fe_decision_id x = fe_decision_id y \<longrightarrow> x = y)"
proof -
  have ok: "failover_ok w" by (rule failovers.inv_reach [OF assms])
  have x: "all_spent (fo_decisions (fw_db w)) (fo_executions (fw_db w))" "unique_by fe_decision_id (fo_executions (fw_db w))"
    using failover_ok_sel(2) [OF ok] by (simp_all add: executions_ok_def)
  show ?thesis
  proof (intro conjI ballI impI)
    fix x assume "x \<in> set (list_failover_executions (fw_db w))"
    then show "\<exists>d. load_failover_decision (fe_decision_id x) (fw_db w) = Inr d \<and> spent_by d x"
      using x(1) by (fastforce simp: listed_executions [OF ok] all_spent_def load_failover_decision_def)
  next
    fix x y assume "x \<in> set (list_failover_executions (fw_db w))" "y \<in> set (list_failover_executions (fw_db w))"
      "fe_decision_id x = fe_decision_id y"
    then show "x = y" using x(2) unfolding listed_executions [OF ok] unique_by_def by (metis option.inject)
  qed
qed

lemma collected_policy_valid:
  assumes "failover_ok w" "collect_failover_evidence en i p d now (fw_db w) = Inr v"
  shows "\<forall>q. fv_policy v = Some q \<longrightarrow> failover_policy_post_init q = Inr ()"
proof -
  obtain profile where "fv_policy v = failover_policy_for profile p (fw_db w)"
    using assms(2) by (cases "failover_operation i (fo_agents (fw_db w))")
      (auto simp: collect_failover_evidence_def res_bind_Inr_iff Let_def)
  moreover have "failover_policy_for profile p (fw_db w) = Some q \<Longrightarrow> \<exists>k. tbl_get (fo_policies (fw_db w)) k = Some q" for q
    by (auto simp: failover_policy_for_def load_failover_policy_def Let_def split: if_splits sum.splits option.splits)
  ultimately show ?thesis using assms(1) unfolding failover_ok_def by metis
qed

text \<open>C18: A failover is executed only while its evidence justifies it. When the reservation of an execution succeeds
  in a reachable state, the evidence collected in that very state justifies the provider the decision
  names, the decision has not expired and no execution was made for it before; the fence of the
  instance was free, is now held under the token and the generation the execution records, and the
  decision is consumed.\<close>

theorem failover_execution_is_justified:
  assumes "reach no_failovers failover_step w"
    "execute_begin en now i d initiated_by approval_id earlier = Inr original"
    "execute_reserve en clock op_clock i d original (fw_db w) = (db, Inr (x, op))"
  shows "(\<exists>v q. collect_failover_evidence en i (fd_policy_id original) (Some d) (clock 1) (fw_db w) = Inr v \<and>
      justified_failover v q \<and> fd_incoming_provider_id original = Some q) \<and>
    decision_expired original (clock 2) = Inr () \<and>
    (\<forall>y \<in> set (list_failover_executions (fw_db w)). fe_decision_id y \<noteq> d) \<and>
    (\<forall>old. load_agent_operation i (fo_agents (fw_db w)) = Inr old \<longrightarrow> or_state old = Fence_OPEN) \<and>
    load_agent_operation i (fo_agents db) = Inr op \<and> execution_binding x op \<and>
    (\<exists>e. load_failover_decision d db = Inr e \<and> fd_consumed_at e \<noteq> None)"
proof -
  have ok: "failover_ok w" by (rule failovers.inv_reach [OF assms(1)])
  note sel = failover_ok_sel [OF ok]
  note begun = execute_begin_Inr [OF assms(2)]
  obtain again st epoch where load: "load_failover_decision d (fw_db w) = Inr original"
    and eval: "evaluate_failover_in en i (fd_policy_id original) (Some (fd_id original)) (clock 1) (fw_db w) = Inr again"
      "same_evidence original again"
    and res: "reserve op_clock i (en_new_id en ''operation.failover'') (fo_agents (fw_db w)) = (st, Inr op)"
    and exp: "decision_expired original (clock 2) = Inr ()"
    and x: "x = failover_execution_for en i original op epoch (clock 3) (clock 4)"
    and db: "db = (fw_db w)\<lparr>fo_agents := st, fo_executions := tbl_upsert (fe_id x) x (fo_executions (fw_db w)),
       fo_decisions := tbl_upsert d (original\<lparr>fd_consumed_at := Some (clock 5)\<rparr>) (fo_decisions (fw_db w))\<rparr>"
    by (rule execute_reserve_Inr [OF assms(3)])
  have "fd_id original = d"
    using load sel(2) by (simp add: load_failover_decision_def executions_ok_def keyed_by_def split: option.splits)
  with eval obtain v where v: "collect_failover_evidence en i (fd_policy_id original) (Some d) (clock 1) (fw_db w) = Inr v"
    "evaluate_failover_evidence v = Inr again" by (auto simp: evaluate_failover_in_def res_bind_Inr_iff)
  obtain q where "justified_failover v q" "fd_incoming_provider_id again = Some q"
    using allowed_iff_justified [OF v(2) collected_policy_valid [OF ok v(1)]] eval(2) begun by (auto simp: same_evidence_def)
  moreover have "\<forall>y \<in> set (list_failover_executions (fw_db w)). fe_decision_id y \<noteq> d"
    using execute_spends(2) [OF ok _ _ assms(3)] begun by (simp add: listed_executions [OF ok])
  moreover note reserve_Inr [OF sel(1) res]
  ultimately show ?thesis
    using v(1) exp eval(2) sel(6)
    by (simp add: db x same_evidence_def load_agent_operation_def load_failover_decision_def tbl_get_upsert
        execution_binding_def failover_execution_for_def split: option.splits)
qed

text \<open>A finished execution is final. An execution that was recovered, or whose transition to the incoming
  provider was started, is the same record in every later state.\<close>

theorem finished_execution_is_final:
  assumes "reach no_failovers failover_step w" "failover_step\<^sup>*\<^sup>* w w'" "load_failover_execution i (fw_db w) = Inr x"
    "fe_state x \<in> {FExec_RECOVERED, FExec_TRANSITION_STARTED}"
  shows "load_failover_execution i (fw_db w') = Inr x"
proof -
  have ok: "failover_ok w" by (rule failovers.inv_reach [OF assms(1)])
  have "failover_ok w' \<and> tbl_get (fo_executions (fw_db w')) i = Some x"
    using assms(2)
  proof (induction rule: rtranclp_induct)
    case base
    then show ?case using ok assms(3) by (simp add: load_failover_execution_def split: option.splits)
  next
    case (step y z)
    then have "good_change y z" using good_step by blast
    moreover obtain e where "tbl_get (fo_executions (fw_db z)) i = Some e" "e = x \<or> fe_state e \<in> execution_successors (fe_state x)"
      using calculation step.IH unfolding good_change_def progress_def by blast
    ultimately show ?case using assms(4) by (auto simp: good_change_def)
  qed
  then show ?thesis by (simp add: load_failover_execution_def)
qed

section \<open>Recoveries\<close>

lemma one_per_key:
  assumes "keyed_by ident t" "unique_by f t"
  shows "length (filter (\<lambda>a. f a = e) (map snd t)) \<le> 1"
proof -
  let ?xs = "filter (\<lambda>a. f a = e) (map snd t)"
  have "map ident (map snd t) = map fst t"
  proof -
    have "ident (snd p) = fst p" if "p \<in> set t" for p
      using that assms(1) tbl_mem_iff [of t "fst p" "snd p"] by (simp add: keyed_by_def)
    then show ?thesis by simp
  qed
  moreover have "distinct (map fst t)" using assms(1) by (simp add: keyed_by_def tbl_ok_distinct)
  ultimately have "distinct (map snd t)" by (metis distinct_map)
  then have len: "length ?xs = card (set ?xs)" by (simp add: distinct_card distinct_filter del: set_filter filter_map)
  have "x = y" if "x \<in> set ?xs" "y \<in> set ?xs" for x y
  proof -
    from that have "tbl_get t (ident x) = Some x" "tbl_get t (ident y) = Some y" "f x = f y"
      using keyed_list [OF assms(1)] by auto
    with assms(2) show ?thesis unfolding unique_by_def by (metis option.inject)
  qed
  then have "card (set ?xs) \<le> Suc 0" by (intro card_le_Suc0_iff_eq [THEN iffD2]) auto
  with len show ?thesis by simp
qed

text \<open>C21: The outgoing provider is asked at most once to recover an execution. In every reachable state there is
  at most one recovery attempt for an execution, and over the whole run at most one request was sent to
  a provider for an attempt.\<close>

theorem recovery_requested_once:
  assumes "reach no_failovers failover_step w"
  shows "distinct (map rq_attempt_id (fw_requests w)) \<and>
    (\<forall>q \<in> set (fw_requests w). \<exists>a. load_agent_recovery_attempt (rq_attempt_id q) (fw_db w) = Inr a \<and> rt_state a \<noteq> Attempt_PENDING) \<and>
    (\<forall>e. \<exists>a. recovery_attempt_for_execution e (fw_db w) = Inr a)"
proof -
  have ok: "requests_ok (fo_attempts (fw_db w)) (fw_requests w)"
    by (rule failover_ok_sel(3) [OF failovers.inv_reach [OF assms]])
  then have "\<exists>a. recovery_attempt_for_execution e (fw_db w) = Inr a" for e
    using one_per_key [of rt_id "fo_attempts (fw_db w)" rt_execution_id e]
    by (cases "filter (\<lambda>a. rt_execution_id a = e) (map snd (fo_attempts (fw_db w)))")
      (auto simp: requests_ok_def recovery_attempt_for_execution_def simp del: filter_map split: list.split)
  with ok show ?thesis by (fastforce simp: requests_ok_def asked_def load_agent_recovery_attempt_def)
qed

lemma executions_persist:
  assumes "failover_step\<^sup>*\<^sup>* w w'" "failover_ok w" "tbl_get (fo_executions (fw_db w)) i = Some x"
  shows "\<exists>y. tbl_get (fo_executions (fw_db w')) i = Some y \<and> same_execution x y"
  using assms(1)
proof (induction rule: rtranclp_induct)
  case base
  then show ?case using assms(3) by simp
next
  case (step y z)
  have "failover_ok y" by (rule failovers.inv_rtranclp [OF step(1) assms(2)])
  then have "progress (fo_executions (fw_db y)) (fo_executions (fw_db z))" using good_step step(2) by (simp add: good_change_def)
  moreover obtain e where "tbl_get (fo_executions (fw_db y)) i = Some e" "same_execution x e" using step.IH by blast
  ultimately obtain f where "tbl_get (fo_executions (fw_db z)) i = Some f" "same_execution e f" unfolding progress_def by blast
  with \<open>same_execution x e\<close> show ?case by (auto simp: same_execution_def)
qed

lemma release_Inr:
  assumes "ops_ok st" "release op_clock op st = (st', Inr released)"
  shows "tbl_get (as_operations st') (or_instance_id op) = Some released \<and> or_generation released = or_generation op + 1 \<and>
    or_state released = Fence_OPEN \<and> or_owner_token released = None"
proof -
  let ?y = "op\<lparr>or_generation := or_generation op + 1, or_state := Fence_OPEN, or_owner_token := None, or_updated_at := op_clock 0\<rparr>"
  have "released = ?y" and s: "save_agent_operation ?y (or_generation op) Fence_FENCED (or_owner_token op) st = (st', Inr ())"
    using assms(2) by (auto simp: release_def Let_def split: prod.splits sum.splits)
  with save_operation_cases [OF s] assms(1) show ?thesis by (auto simp: ops_ok_def tbl_get_upsert)
qed

lemma finalize_releases:
  assumes "failover_ok w" "finalize_failover_recovery clock op_clock x op ref (fw_db w) = (db, Inr y)"
    "tbl_get (fo_executions (fw_db w)) (fe_id x) = Some z"
  shows "load_failover_execution (fe_id x) db = Inr y \<and> fe_state y = FExec_RECOVERED \<and> same_execution z y \<and>
    (\<exists>o'. load_agent_operation (or_instance_id op) (fo_agents db) = Inr o' \<and> or_state o' = Fence_OPEN \<and>
       or_generation o' = or_generation op + 1 \<and> or_owner_token o' = None)"
proof -
  obtain db1 st released where db1: "\<exists>u. db1 = (fw_db w)\<lparr>fo_attempts := u\<rparr>"
    and rel: "release op_clock op (fo_agents (fw_db w)) = (st, Inr released)"
    and tr: "transition_failover_execution (fe_id x) (fe_state x) FExec_RECOVERED (clock 1) None ref (db1\<lparr>fo_agents := st\<rparr>) = (db, Inr y)"
    by (rule finalize_Inr [OF assms(2)])
  from transition_execution_Inr [OF tr] db1 assms(3) have "same_execution z y" "fe_state y = FExec_RECOVERED"
    and db: "db = db1\<lparr>fo_agents := st, fo_executions := tbl_upsert (fe_id x) y (fo_executions (fw_db w))\<rparr>" by auto
  with release_Inr [OF failover_ok_sel(1) [OF assms(1)] rel] failover_ok_sel(4) [OF assms(1)] show ?thesis
    by (simp add: load_failover_execution_def load_agent_operation_def tbl_get_upsert)
qed

text \<open>C22: A recovery gives the fence back. When the recovery of an execution returns, whatever other callers did while
  the provider worked, the run is a sequence of failover steps, the stored execution is recovered, and
  the fence of the instance is open under the next generation.\<close>

theorem recovery_releases_fence:
  assumes "reach no_failovers failover_step w" "calm during"
    "recover_failover_execution en clock op_clock during i initiated_by approval_id w = (w', Inr x)"
  shows "failover_step\<^sup>*\<^sup>* w w' \<and> load_failover_execution i (fw_db w') = Inr x \<and> fe_state x = FExec_RECOVERED \<and>
    (\<exists>op. load_agent_operation (fe_instance_id x) (fo_agents (fw_db w')) = Inr op \<and> or_state op = Fence_OPEN \<and>
       or_generation op = fe_operation_generation x + 1 \<and> or_owner_token op = None)"
proof -
  have ok: "failover_ok w" by (rule failovers.inv_reach [OF assms(1)])
  obtain x0 op where begun: "recover_begin en i initiated_by approval_id (fw_db w) = Inr (x0, op)"
    using assms(3) by (auto simp: recover_failover_execution_def split: sum.splits)
  from begun have x0: "tbl_get (fo_executions (fw_db w)) i = Some x0" and op: "execution_binding x0 op"
    "load_agent_operation (fe_instance_id x0) (fo_agents (fw_db w)) = Inr op"
    by (auto simp: recover_begin_def res_bind_Inr_iff load_failover_execution_def split: if_splits option.splits)
  have i: "fe_id x0 = i" using x0 failover_ok_sel(2) [OF ok] by (simp add: executions_ok_def keyed_by_def)
  note run = recover_run [OF ok assms(2) begun, of op_clock clock, unfolded assms(3) i]
  obtain w1 x1 c ref where steps: "failover_step\<^sup>*\<^sup>* w w1" "fe_id x1 = i"
    and fin: "finalize_failover_recovery c op_clock x1 op ref (fw_db w1) = (fw_db w', Inr x)"
    using run by (auto simp: recovery_run_def)
  have ok1: "failover_ok w1" by (rule failovers.inv_rtranclp [OF steps(1) ok])
  have op_id: "or_instance_id op = fe_instance_id x0"
    using op(2) failover_ok_sel(1) [OF ok] by (auto simp: load_agent_operation_def ops_ok_def op_ok_def split: option.splits)
  obtain z where "tbl_get (fo_executions (fw_db w1)) i = Some z" "same_execution x0 z"
    using executions_persist [OF steps(1) ok x0] by blast
  with finalize_releases [OF ok1 fin] steps(2) op(1) op_id run show ?thesis
    by (auto simp: recovery_run_def execution_binding_def same_execution_def)
qed

section \<open>Examples\<close>

definition sample_profile :: AgentInstanceProfile where
  "sample_profile = \<lparr>aip_id = ''agent.1'', aip_primary_provider_id = ''codex'', aip_transport = Trans_API, aip_workspace = ''/w'',
     aip_primary_adapter_id = None, aip_model_profile_id = None, aip_external_session_id = None,
     aip_declared_capabilities = no_capabilities, aip_required_capabilities = no_capabilities, aip_detected_capabilities = None,
     aip_credential_references = [], aip_permission_policy_ref = None, aip_execution_policy_ref = None,
     aip_provider_health_source_id = None, aip_usage_limit_source_id = None,
     aip_approved_fallback_provider_ids = [''claude'', ''gemini''], aip_controlled_failover_policy_ref = Some ''policy.1''\<rparr>"

definition sample_provider :: "string \<Rightarrow> bool \<Rightarrow> AgentProvider" where
  "sample_provider i imports_handoff = \<lparr>apr_id = i, apr_adapter_id = i, apr_capabilities = no_capabilities\<lparr>cap_handoff_import := imports_handoff\<rparr>,
     apr_transports = [], apr_display_name = None, apr_executable_allowlist = [i], apr_required_secret_references = [],
     apr_profile_ids = [], apr_health_source_id = None, apr_usage_limit_source_id = None\<rparr>"

definition sample_env :: failover_env where
  "sample_env = \<lparr>en_profile = (\<lambda>_. Inr sample_profile),
     en_providers = [(''codex'', sample_provider ''codex'' False), (''gemini'', sample_provider ''gemini'' False),
       (''claude'', sample_provider ''claude'' True)],
     en_adapter_available = (\<lambda>_. True), en_resolve = Some, en_sha256 = (\<lambda>_. ''0''), en_str = (\<lambda>_. []),
     en_authorized = (\<lambda>_ _. True),
     en_new_id = (\<lambda>p. if p = ''failover-decision'' then ''decision.1'' else p @ ''.1''),
     en_driver = (\<lambda>_ _. Inl (KeyError ''codex''))\<rparr>"

definition sample_agents :: AgentStore where
  "sample_agents = empty_agents\<lparr>as_epochs := [(''epoch.1'', sample_epoch)]\<rparr>"

definition sample_clock :: "nat \<Rightarrow> string" where
  "sample_clock n = ''2026-01-02T10:00:00+00:00''"

definition world_with :: "FailoverDb \<Rightarrow> failover_world" where
  "world_with db = \<lparr>fw_db = db, fw_requests = []\<rparr>"

definition health_rows :: "nat \<Rightarrow> (string \<times> ProviderHealthObservation) list" where
  "health_rows n = map (\<lambda>h. (ho_id h, h)) (take n (fv_health sample_evidence))"

definition policy_db :: FailoverDb where
  "policy_db = empty_failover\<lparr>fo_agents := sample_agents, fo_policies := [(''policy.1'', sample_policy)]\<rparr>"

definition evidence_db :: FailoverDb where
  "evidence_db = policy_db\<lparr>fo_health := health_rows 5, fo_checkpoints := [(''cp.1'', sample_checkpoint)]\<rparr>"

definition decided_db :: FailoverDb where
  "decided_db = evidence_db\<lparr>fo_decisions := [(''decision.1'', sample_decision)]\<rparr>"

text \<open>Every secret the sanitiser looks for contains a \<open>b\<close> or a \<open>k\<close>.\<close>

lemma startswith_set: "startswith s p \<Longrightarrow> set p \<subseteq> set s"
  by (metis startswith_def set_take_subset)

lemma no_secret_at:
  assumes "CHR ''b'' \<notin> set (py_lower s)" "CHR ''k'' \<notin> set (py_lower s)"
  shows "\<not> secret_value_at prev s"
proof -
  have "\<not> startswith t p" if "set t \<subseteq> set (py_lower s)" "CHR ''b'' \<in> set p \<or> CHR ''k'' \<in> set p" for t p
    using that assms startswith_set by blast
  from this [OF order_refl] this [OF set_drop_subset] show ?thesis
    by (auto simp: secret_value_at_def Let_def private_key_header_def token_assignment_def)
qed

lemma no_secret:
  assumes "list_all (\<lambda>c. c \<noteq> CHR ''b'' \<and> c \<noteq> CHR ''k'') (py_lower s)"
  shows "\<not> secret_value s"
proof -
  have "\<not> re_search secret_value_at prev s" for prev
    using assms
  proof (induction s arbitrary: prev)
    case Nil
    then show ?case using no_secret_at [of "[]"] by (simp add: py_lower_def)
  next
    case (Cons c s)
    then have "CHR ''b'' \<notin> set (py_lower (c # s))" "CHR ''k'' \<notin> set (py_lower (c # s))" by (auto simp: py_lower_def list_all_iff)
    with no_secret_at Cons show ?case by (simp add: py_lower_def)
  qed
  then show ?thesis by (simp add: secret_value_def)
qed

lemma plain_texts:
  assumes "list_all (list_all (\<lambda>c. c \<noteq> CHR ''b'' \<and> c \<noteq> CHR ''k'') \<circ> py_lower) ts"
  shows "check_all sanitize_text ts = Inr ()"
  using assms no_secret by (induction ts) (auto simp: sanitize_text_def)

definition plain :: "string list \<Rightarrow> bool" where
  "plain ts = list_all (list_all (\<lambda>c. c \<noteq> CHR ''b'' \<and> c \<noteq> CHR ''k'') \<circ> py_lower) ts"

lemma sample_records_plain:
  "list_all (\<lambda>h. plain (health_texts h) \<and> health_observation_post_init h = Inr ()) (fv_health sample_evidence)"
  "plain (policy_texts sample_policy)"
  "plain ([ck_id sample_checkpoint, ck_instance_id sample_checkpoint, ck_session_id sample_checkpoint, ck_driver_epoch_id sample_checkpoint] @
     List.map_filter id [ck_created_at sample_checkpoint, ck_expires_at sample_checkpoint])"
  "agent_checkpoint_post_init sample_checkpoint = Inr ()"
  "sanitize_mapping (ck_evidence sample_checkpoint) = Inr (ck_evidence sample_checkpoint)"
  by code_simp+

lemma sample_records_stored:
  "list_all (\<lambda>h. stored_plain health_texts health_observation_post_init h = Inr h) (fv_health sample_evidence)"
  "stored_plain policy_texts failover_policy_post_init sample_policy = Inr sample_policy"
  "stored_checkpoint sample_checkpoint = Inr sample_checkpoint"
proof -
  have plain: "check_all sanitize_text ts = Inr ()" if "plain ts" for ts using that plain_texts by (simp add: plain_def)
  from sample_records_plain(1) plain
  show "list_all (\<lambda>h. stored_plain health_texts health_observation_post_init h = Inr h) (fv_health sample_evidence)"
    by (auto simp: list_all_iff stored_plain_Inr)
  from sample_records_plain(2) plain sample_policy_valid
  show "stored_plain policy_texts failover_policy_post_init sample_policy = Inr sample_policy" by (simp add: stored_plain_Inr)
  have "sample_checkpoint\<lparr>ck_evidence := ck_evidence sample_checkpoint\<rparr> = sample_checkpoint" by simp
  with plain [OF sample_records_plain(3)] sample_records_plain(4,5)
  show "stored_checkpoint sample_checkpoint = Inr sample_checkpoint" unfolding stored_checkpoint_def by simp
qed

lemma sample_rows:
  "list_all (\<lambda>n. tbl_get (health_rows n) (ho_id (fv_health sample_evidence ! n)) = None \<and>
     tbl_upsert (ho_id (fv_health sample_evidence ! n)) (fv_health sample_evidence ! n) (health_rows n) = health_rows (Suc n)) [0..<5]"
  "length (fv_health sample_evidence) = 5" "fp_id sample_policy = ''policy.1''" "ck_id sample_checkpoint = ''cp.1''"
  "health_rows 0 = []"
  by code_simp+

lemma health_reach:
  assumes "reach no_failovers failover_step (world_with policy_db)" "n \<le> 5"
  shows "reach no_failovers failover_step (world_with (policy_db\<lparr>fo_health := health_rows n\<rparr>))"
  using assms(2)
proof (induction n)
  case 0
  have "policy_db\<lparr>fo_health := []\<rparr> = policy_db" by (simp add: policy_db_def empty_failover_def)
  with assms(1) show ?case by (simp add: sample_rows(5))
next
  case (Suc n)
  let ?h = "fv_health sample_evidence ! n" and ?db = "policy_db\<lparr>fo_health := health_rows n\<rparr>"
  have "stored_plain health_texts health_observation_post_init ?h = Inr ?h"
    using sample_records_stored(1) sample_rows(2) Suc.prems by (simp add: list_all_length)
  moreover have "tbl_get (health_rows n) (ho_id ?h) = None" "tbl_upsert (ho_id ?h) ?h (health_rows n) = health_rows (Suc n)"
    using sample_rows(1) Suc.prems by (auto simp: list_all_iff)
  ultimately have "fst (save_provider_health_observation ?h ?db) = policy_db\<lparr>fo_health := health_rows (Suc n)\<rparr>"
    by (simp add: save_provider_health_observation_def save_agent_record_def)
  with failover_step.health [of "world_with ?db" ?h]
  have "failover_step (world_with ?db) (world_with (policy_db\<lparr>fo_health := health_rows (Suc n)\<rparr>))" by (simp add: world_with_def)
  with Suc show ?case by (meson Suc_leD reach_step)
qed

lemma evidence_reach: "reach no_failovers failover_step (world_with evidence_db)"
proof -
  have "reach no_failovers failover_step (world_with empty_failover)" by (rule reach_init) (simp add: no_failovers_def world_with_def)
  moreover have "failover_step (world_with empty_failover) (world_with (empty_failover\<lparr>fo_agents := sample_agents\<rparr>))"
    using failover_step.agents [of sample_agents "world_with empty_failover"]
    by (simp add: world_with_def sample_agents_def ops_ok_def empty_agents_def)
  moreover have "failover_step (world_with (empty_failover\<lparr>fo_agents := sample_agents\<rparr>)) (world_with policy_db)"
    using failover_step.policy [of "world_with (empty_failover\<lparr>fo_agents := sample_agents\<rparr>)" sample_policy] sample_rows(3)
    by (simp add: world_with_def save_failover_policy_def save_agent_record_def sample_records_stored(2) policy_db_def empty_failover_def)
  ultimately have "reach no_failovers failover_step (world_with policy_db)" by (meson reach_step)
  from health_reach [OF this order_refl]
  have "reach no_failovers failover_step (world_with (policy_db\<lparr>fo_health := health_rows 5\<rparr>))" .
  moreover have "failover_step (world_with (policy_db\<lparr>fo_health := health_rows 5\<rparr>)) (world_with evidence_db)"
    using failover_step.checkpoint [of "world_with (policy_db\<lparr>fo_health := health_rows 5\<rparr>)" sample_checkpoint] sample_rows(4)
    by (simp add: world_with_def save_agent_checkpoint_def save_agent_record_def sample_records_stored(3) evidence_db_def policy_db_def
        empty_failover_def)
  ultimately show ?thesis by (rule reach_step)
qed

text \<open>The evidence the manager collects from these tables, before and after the decision is stored.\<close>

lemma sample_collected:
  "active_epoch (en_str sample_env) ''agent.1'' sample_agents = Inr sample_epoch"
  "failover_policy_for sample_profile None evidence_db = Some sample_policy"
  "failover_policy_for sample_profile (Some ''policy.1'') decided_db = Some sample_policy"
  "failover_operation ''agent.1'' sample_agents = (1, False)" "has_active_transition ''agent.1'' sample_agents = False"
  "failover_health ''agent.1'' sample_epoch (Some sample_policy) evidence_db = fv_health sample_evidence"
  "candidate_capabilities sample_env sample_profile (Some sample_policy) = fv_candidate_capabilities sample_evidence"
  "candidate_readiness sample_env [''gemini'', ''claude''] = Inr (fv_candidate_readiness sample_evidence)"
  by code_simp+

lemma sample_times:
  "isOK (read_times (Some \<circ> ho_observed_at) (fv_health sample_evidence))"
  "isOK (read_times ck_created_at [sample_checkpoint])"
  "map_sum id healthy_candidates (read_times (Some \<circ> ho_observed_at) (fv_health sample_evidence)) = Inr {''claude'', ''gemini''}"
  "map_sum id latest_first (read_times ck_created_at [sample_checkpoint]) = Inr (Some sample_checkpoint)"
  by code_simp+

lemma sample_collect:
  assumes "fo_agents db = sample_agents" "fo_health db = fo_health evidence_db" "fo_risks db = []"
    "fo_checkpoints db = fo_checkpoints evidence_db" "failover_policy_for sample_profile p db = Some sample_policy"
    "(if str_true d then the d else en_new_id sample_env ''failover-decision'') = ''decision.1''"
  shows "collect_failover_evidence sample_env ''agent.1'' p d ''2026-01-02T10:00:00+00:00'' db = Inr sample_evidence"
proof -
  obtain dated where dated: "read_times ck_created_at [sample_checkpoint] = Inr dated" "latest_first dated = Some sample_checkpoint"
    using sample_times(4) by (auto simp: map_sum_Inr_iff)
  obtain timed where timed: "read_times (Some \<circ> ho_observed_at) (fv_health sample_evidence) = Inr timed"
    "healthy_candidates timed = {''claude'', ''gemini''}"
    using sample_times(3) by (auto simp: map_sum_Inr_iff)
  have "en_profile sample_env ''agent.1'' = Inr sample_profile" by (simp add: sample_env_def)
  moreover have "filter (\<lambda>c. ck_instance_id c = ''agent.1'' \<and> ck_driver_epoch_id c = ep_id sample_epoch) (list_agent_checkpoints db) =
      [sample_checkpoint]"
    using assms(4) by (simp add: list_agent_checkpoints_def evidence_db_def sample_checkpoint_def sample_epoch_def)
  moreover have "failover_health ''agent.1'' sample_epoch (Some sample_policy) db = fv_health sample_evidence"
    using sample_collected(6) assms(2) by (simp add: failover_health_def list_provider_health_observations_def)
  moreover have "map fst (fv_candidate_capabilities sample_evidence) = [''gemini'', ''claude'']" by (simp add: sample_evidence_def)
  moreover have "list_active_agent_risks ''agent.1'' db = []" using assms(3) by (simp add: list_active_agent_risks_def)
  moreover have "sample_evidence = \<lparr>fv_decision_id = ''decision.1'', fv_instance_id = ''agent.1'', fv_outgoing_epoch = sample_epoch,
      fv_operation_generation = 1, fv_policy = Some sample_policy, fv_health = fv_health sample_evidence,
      fv_checkpoint = Some sample_checkpoint, fv_risks = [], fv_candidate_capabilities = fv_candidate_capabilities sample_evidence,
      fv_healthy_candidates = {''claude'', ''gemini''}, fv_candidate_readiness = fv_candidate_readiness sample_evidence,
      fv_required_capabilities = aip_required_capabilities sample_profile, fv_evaluated_at = ''2026-01-02T10:00:00+00:00'',
      fv_transition_changed = False\<rparr>" by (simp add: sample_evidence_def sample_profile_def)
  ultimately show ?thesis
    using assms(1,5,6) sample_collected dated timed by (simp add: collect_failover_evidence_def Let_def)
qed

lemma sample_decision_stored: "stored_plain decision_texts failover_decision_post_init sample_decision = Inr sample_decision"
proof -
  have "plain (decision_texts sample_decision)" "failover_decision_post_init sample_decision = Inr ()" by code_simp+
  then show ?thesis using plain_texts by (simp add: stored_plain_Inr plain_def)
qed

lemma sample_evaluation:
  "evaluate_failover sample_env sample_clock ''agent.1'' None evidence_db = (decided_db, Inr sample_decision)"
proof -
  have "fo_agents evidence_db = sample_agents" "fo_risks evidence_db = []"
    "(if str_true None then the None else en_new_id sample_env ''failover-decision'') = ''decision.1''"
    by (simp_all add: evidence_db_def policy_db_def empty_failover_def sample_env_def)
  note collected = sample_collect [OF this(1) refl this(2) refl sample_collected(2) this(3)]
  have "fd_allowed sample_decision" "fd_id sample_decision = ''decision.1''" "fo_decisions evidence_db = []"
    by (simp_all add: sample_decision_def failover_decision_def sample_evidence_def evidence_db_def policy_db_def empty_failover_def Let_def)
  with collected sample_decision_evaluated sample_decision_stored show ?thesis
    by (simp add: evaluate_failover_def evaluate_failover_in_def sample_clock_def save_failover_decision_def save_agent_record_def decided_db_def)
qed

lemma decided_reach: "reach no_failovers failover_step (world_with decided_db)"
proof -
  have "failover_step (world_with evidence_db) (world_with decided_db)"
    using failover_step.evaluate [of "world_with evidence_db" sample_env sample_clock "''agent.1''" None] sample_evaluation
    by (simp add: world_with_def)
  with evidence_reach show ?thesis by (rule reach_step)
qed

definition sample_reserved :: AgentOperationReservation where
  "sample_reserved = \<lparr>or_instance_id = ''agent.1'', or_generation = 1, or_state = Fence_FENCED,
     or_owner_token = Some ''operation.failover.1'', or_updated_at = ''2026-01-02T10:00:00+00:00''\<rparr>"

definition reserved_agents :: AgentStore where
  "reserved_agents = sample_agents\<lparr>as_operations := [(''agent.1'', sample_reserved)]\<rparr>"

definition sample_execution :: FailoverExecution where
  "sample_execution = failover_execution_for sample_env ''agent.1'' sample_decision sample_reserved sample_epoch
     ''2026-01-02T10:00:00+00:00'' ''2026-01-02T10:00:00+00:00''"

definition reserved_db :: FailoverDb where
  "reserved_db = decided_db\<lparr>fo_agents := reserved_agents, fo_executions := [(''failover-execution.1'', sample_execution)],
     fo_decisions := [(''decision.1'', sample_decision\<lparr>fd_consumed_at := Some ''2026-01-02T10:00:00+00:00''\<rparr>)]\<rparr>"

lemma sample_parts:
  "decision_expired sample_decision ''2026-01-02T10:00:00+00:00'' = Inr ()"
  "reserve sample_clock ''agent.1'' ''operation.failover.1'' sample_agents = (reserved_agents, Inr sample_reserved)"
  "active_epoch (en_str sample_env) ''agent.1'' reserved_agents = Inr sample_epoch"
  "failover_execution_post_init sample_execution = Inr ()" "plain (execution_texts sample_execution)"
  "failover_decision_post_init (sample_decision\<lparr>fd_consumed_at := Some ''2026-01-02T10:00:00+00:00''\<rparr>) = Inr ()"
  "plain (decision_texts (sample_decision\<lparr>fd_consumed_at := Some ''2026-01-02T10:00:00+00:00''\<rparr>))"
  by code_simp+

lemma sample_decision_sel:
  "fd_id sample_decision = ''decision.1''" "fd_instance_id sample_decision = ''agent.1''" "fd_allowed sample_decision"
  "fd_consumed_at sample_decision = None" "fd_policy_id sample_decision = Some ''policy.1''" "fd_operation_generation sample_decision = 1"
  "load_failover_decision ''decision.1'' decided_db = Inr sample_decision"
  by code_simp+

lemma sample_begun:
  "execute_begin sample_env ''2026-01-02T10:00:00+00:00'' ''agent.1'' ''decision.1'' ''operator'' ''approval.2'' decided_db = Inr sample_decision"
proof -
  have "\<not> blank ''approval.2''" "failover_authorization sample_env ''agent.1'' ''decision.1'' ''operator'' ''approval.2'' sample_decision"
    by code_simp+
  then show ?thesis by (simp add: execute_begin_def sample_decision_sel sample_parts(1))
qed

lemma sample_again:
  "evaluate_failover_in sample_env ''agent.1'' (Some ''policy.1'') (Some ''decision.1'') ''2026-01-02T10:00:00+00:00'' decided_db = Inr sample_decision"
proof -
  have "fo_agents decided_db = sample_agents" "fo_health decided_db = fo_health evidence_db" "fo_risks decided_db = []"
    "fo_checkpoints decided_db = fo_checkpoints evidence_db"
    "(if str_true (Some ''decision.1'') then the (Some ''decision.1'') else en_new_id sample_env ''failover-decision'') = ''decision.1''"
    by (simp_all add: decided_db_def evidence_db_def policy_db_def empty_failover_def)
  from sample_collect [OF this(1-4) sample_collected(3) this(5)] show ?thesis
    by (simp add: evaluate_failover_in_def sample_decision_evaluated)
qed

lemma sample_executed:
  "execute_reserve sample_env sample_clock sample_clock ''agent.1'' ''decision.1'' sample_decision decided_db =
     (reserved_db, Inr (sample_execution, sample_reserved))"
proof -
  have reserve: "reserve_for_failover sample_env sample_clock ''agent.1'' sample_agents = (reserved_agents, Inr sample_reserved)"
  proof -
    have "en_new_id sample_env ''operation.failover'' = ''operation.failover.1''" by code_simp
    with sample_parts(2) show ?thesis by (simp add: reserve_for_failover_Inr)
  qed
  have agents: "fo_agents decided_db = sample_agents" "fo_executions decided_db = []"
    "fo_decisions decided_db = [(''decision.1'', sample_decision)]"
    by (simp_all add: decided_db_def evidence_db_def policy_db_def empty_failover_def)
  have i: "fe_id sample_execution = ''failover-execution.1''" by code_simp
  have "save_failover_execution sample_execution (decided_db\<lparr>fo_agents := reserved_agents\<rparr>) =
      (decided_db\<lparr>fo_agents := reserved_agents, fo_executions := [(''failover-execution.1'', sample_execution)]\<rparr>, Inr ())" (is "_ = (?db, _)")
    using plain_texts [of "execution_texts sample_execution"] sample_parts(4,5) i agents
    by (simp add: save_failover_execution_def save_agent_record_def stored_plain_def plain_def)
  moreover have "consume_failover_decision ''decision.1'' 1 ''2026-01-02T10:00:00+00:00'' ?db =
      (reserved_db, Inr (sample_decision\<lparr>fd_consumed_at := Some ''2026-01-02T10:00:00+00:00''\<rparr>))"
    using plain_texts [OF sample_parts(7) [unfolded plain_def]] sample_parts(6) agents
    by (simp add: consume_failover_decision_def load_failover_decision_def stored_plain_def sample_decision_sel tbl_get_def reserved_db_def)
  moreover have "same_evidence sample_decision sample_decision" by (simp add: same_evidence_def)
  ultimately show ?thesis
    using reserve agents sample_again sample_parts(1,3,4)
    by (simp add: execute_reserve_def sample_decision_sel sample_clock_def sample_execution_def [symmetric] Let_def)
qed

lemma reserved_reach: "reach no_failovers failover_step (world_with reserved_db)"
proof -
  have "failover_step (world_with decided_db) (world_with reserved_db)"
    using failover_step.execute [OF sample_begun, of "world_with decided_db" sample_clock sample_clock] sample_executed
    by (simp add: world_with_def)
  with decided_reach show ?thesis by (rule reach_step)
qed

theorem failover_decision_executed_once_witness:
  "list_failover_executions reserved_db = [sample_execution] \<and>
   (\<exists>d. load_failover_decision (fe_decision_id sample_execution) reserved_db = Inr d \<and> spent_by d sample_execution)"
proof -
  have "list_failover_executions reserved_db = [sample_execution]" by (simp add: list_failover_executions_def reserved_db_def)
  with failover_decision_executed_once [OF reserved_reach] show ?thesis by (simp add: world_with_def)
qed

theorem failover_execution_is_justified_witness:
  "(\<exists>v q. collect_failover_evidence sample_env ''agent.1'' (Some ''policy.1'') (Some ''decision.1'') (sample_clock 1) decided_db = Inr v \<and>
     justified_failover v q \<and> fd_incoming_provider_id sample_decision = Some q) \<and>
   load_agent_operation ''agent.1'' (fo_agents reserved_db) = Inr sample_reserved \<and> execution_binding sample_execution sample_reserved"
  using failover_execution_is_justified [where w = "world_with decided_db", OF decided_reach sample_begun] sample_executed
  by (simp add: world_with_def sample_decision_sel)

text \<open>The recovery of the reserved execution.\<close>

definition recovered_execution :: FailoverExecution where
  "recovered_execution = sample_execution\<lparr>fe_state := FExec_RECOVERED, fe_updated_at := sample_clock 31\<rparr>"

definition recovered_db :: FailoverDb where
  "recovered_db = reserved_db\<lparr>fo_agents := reserved_agents\<lparr>as_operations := [(''agent.1'', sample_reserved\<lparr>or_generation := 2,
     or_state := Fence_OPEN, or_owner_token := None\<rparr>)]\<rparr>,
     fo_executions := [(''failover-execution.1'', recovered_execution)]\<rparr>"

lemma sample_recovery_parts:
  "recover_begin sample_env ''failover-execution.1'' ''operator'' ''approval.3'' reserved_db = Inr (sample_execution, sample_reserved)"
  "release sample_clock sample_reserved reserved_agents =
     (fo_agents recovered_db, Inr (sample_reserved\<lparr>or_generation := 2, or_state := Fence_OPEN, or_owner_token := None\<rparr>))"
  "verify_owned sample_reserved reserved_agents = Inr ()" "recovery_attempt_for_execution ''failover-execution.1'' reserved_db = Inr None"
  "failover_execution_post_init recovered_execution = Inr ()" "plain (execution_texts recovered_execution)"
  by code_simp+

lemma sample_recovered:
  "recover_failover_execution sample_env sample_clock sample_clock id ''failover-execution.1'' ''operator'' ''approval.3''
     (world_with reserved_db) = (world_with recovered_db, Inr recovered_execution)"
proof -
  have sel: "fe_id sample_execution = ''failover-execution.1''" "fe_state sample_execution = FExec_RESERVED"
    "fo_agents reserved_db = reserved_agents" "fo_executions reserved_db = [(''failover-execution.1'', sample_execution)]"
    "sample_execution\<lparr>fe_state := FExec_RECOVERED, fe_updated_at := sample_clock 31, fe_reason := None, fe_resume_result_ref := None\<rparr> =
       recovered_execution"
    by (simp_all add: sample_execution_def failover_execution_for_def sample_env_def reserved_db_def recovered_execution_def)
  have "transition_failover_execution ''failover-execution.1'' FExec_RESERVED FExec_RECOVERED (sample_clock 31) None None
      (reserved_db\<lparr>fo_agents := fo_agents recovered_db\<rparr>) = (recovered_db, Inr recovered_execution)"
    using plain_texts [OF sample_recovery_parts(6) [unfolded plain_def]] sample_recovery_parts(5) sel
    by (simp add: transition_failover_execution_def load_failover_execution_def tbl_get_def stored_plain_def recovered_db_def)
  then show ?thesis
    using sample_recovery_parts(1-4) sel
    by (simp add: recover_failover_execution_def finalize_failover_recovery_def finalize_attempt_def in_db_def world_with_def)
qed

theorem recovery_releases_fence_witness:
  "load_failover_execution ''failover-execution.1'' recovered_db = Inr recovered_execution \<and>
   failover_step\<^sup>*\<^sup>* (world_with reserved_db) (world_with recovered_db) \<and>
   (\<exists>op. load_agent_operation ''agent.1'' (fo_agents recovered_db) = Inr op \<and> or_state op = Fence_OPEN \<and> or_generation op = 2)"
proof -
  have "calm id" by (simp add: calm_def)
  moreover have "fe_instance_id recovered_execution = ''agent.1''" "fe_operation_generation recovered_execution = 1" by code_simp+
  ultimately show ?thesis
    using recovery_releases_fence [OF reserved_reach _ sample_recovered] by (auto simp: world_with_def)
qed

theorem finished_execution_is_final_witness:
  "load_failover_execution ''failover-execution.1'' (recovered_db\<lparr>fo_agents := empty_agents\<rparr>) = Inr recovered_execution"
proof -
  have "failover_step (world_with reserved_db) (world_with recovered_db)"
    using failover_step.finalize [of "world_with reserved_db" "\<lambda>i. sample_clock (30 + i)" sample_clock sample_execution sample_reserved None]
      sample_recovered sample_recovery_parts(1)
    by (simp add: recover_failover_execution_def sample_execution_def failover_execution_for_def in_db_def world_with_def)
  with reserved_reach have "reach no_failovers failover_step (world_with recovered_db)" by (rule reach_step)
  moreover have "failover_step (world_with recovered_db) (world_with (recovered_db\<lparr>fo_agents := empty_agents\<rparr>))"
    using failover_step.agents [of empty_agents "world_with recovered_db"] by (simp add: world_with_def ops_ok_def empty_agents_def)
  moreover have "load_failover_execution ''failover-execution.1'' (fw_db (world_with recovered_db)) = Inr recovered_execution"
    "fe_state recovered_execution \<in> {FExec_RECOVERED, FExec_TRANSITION_STARTED}"
    by (simp_all add: world_with_def recovered_db_def load_failover_execution_def tbl_get_def recovered_execution_def)
  ultimately show ?thesis
    using finished_execution_is_final [OF _ r_into_rtranclp] by (fastforce simp: world_with_def)
qed

text \<open>An execution blocked before the import, claimed for recovery, its request sent.\<close>

definition sample_session :: AgentSession where
  "sample_session = \<lparr>ags_id = ''session.1'', ags_provider_id = ''codex'', ags_external_session_id = None, ags_workspace = ''/w'',
     ags_transport = Trans_API, ags_capabilities = no_capabilities, ags_instance_id = None, ags_model_profile_id = None,
     ags_legacy_references = [], ags_discovered_at = None, ags_last_observed_at = None\<rparr>"

definition in_state :: "FailoverExecutionState \<Rightarrow> FailoverDb" where
  "in_state st = reserved_db\<lparr>fo_executions := [(''failover-execution.1'', sample_execution\<lparr>fe_state := st\<rparr>)]\<rparr>"

definition sample_attempt :: AgentRecoveryAttempt where
  "sample_attempt = new_recovery_attempt sample_env (sample_clock 0) (sample_clock 1) sample_execution sample_session"

definition claimed_db :: FailoverDb where
  "claimed_db = (in_state FExec_RECOVERING)\<lparr>fo_attempts := [(''recovery-attempt.1'', sample_attempt)]\<rparr>"

definition sample_request :: AgentRecoveryRequest where
  "sample_request = recovery_request_for (sample_clock 1) sample_execution sample_session sample_attempt"

definition requested_world :: failover_world where
  "requested_world = \<lparr>fw_db = claimed_db\<lparr>fo_attempts := [(''recovery-attempt.1'',
     sample_attempt\<lparr>rt_state := Attempt_EXTERNAL_STARTED\<rparr>)]\<rparr>, fw_requests = [sample_request]\<rparr>"

lemma sample_recovery_valid:
  "failover_execution_post_init (sample_execution\<lparr>fe_state := st\<rparr>) = Inr ()" "plain (execution_texts (sample_execution\<lparr>fe_state := st\<rparr>))"
  "recovery_attempt_post_init sample_attempt = Inr ()" "plain (attempt_texts sample_attempt)"
  "recovery_attempt_post_init (sample_attempt\<lparr>rt_state := Attempt_EXTERNAL_STARTED\<rparr>) = Inr ()"
  "plain (attempt_texts (sample_attempt\<lparr>rt_state := Attempt_EXTERNAL_STARTED\<rparr>))"
  "recovery_request_post_init sample_request = Inr ()"
proof -
  show "failover_execution_post_init (sample_execution\<lparr>fe_state := st\<rparr>) = Inr ()"
    using sample_parts(4) by (simp add: failover_execution_post_init_def)
  show "plain (execution_texts (sample_execution\<lparr>fe_state := st\<rparr>))" using sample_parts(5) by (simp add: execution_texts_def)
  show "recovery_attempt_post_init sample_attempt = Inr ()" "plain (attempt_texts sample_attempt)" "recovery_request_post_init sample_request = Inr ()"
    by code_simp+
  then show "recovery_attempt_post_init (sample_attempt\<lparr>rt_state := Attempt_EXTERNAL_STARTED\<rparr>) = Inr ()"
    "plain (attempt_texts (sample_attempt\<lparr>rt_state := Attempt_EXTERNAL_STARTED\<rparr>))"
    by (simp_all add: recovery_attempt_post_init_def attempt_texts_def)
qed

lemma sample_transition:
  assumes "to \<in> execution_successors from"
  shows "transition_failover_execution ''failover-execution.1'' from to (sample_clock n) None None (in_state from) =
    (in_state to, Inr (sample_execution\<lparr>fe_state := to\<rparr>))"
proof -
  have "sample_execution\<lparr>fe_state := to, fe_updated_at := sample_clock n, fe_reason := None, fe_resume_result_ref := None\<rparr> =
      sample_execution\<lparr>fe_state := to\<rparr>"
    by (simp add: sample_execution_def failover_execution_for_def sample_clock_def)
  with assms sample_recovery_valid(1) plain_texts [OF sample_recovery_valid(2) [unfolded plain_def]] show ?thesis
    by (simp add: transition_failover_execution_def load_failover_execution_def in_state_def tbl_get_def stored_plain_def)
qed

lemma blocked_reach: "reach no_failovers failover_step (world_with (in_state FExec_BLOCKED_PREIMPORT))"
proof -
  have step: "failover_step (world_with (in_state from)) (world_with (in_state to))" if "to \<in> execution_successors from" for "from" to
    using sample_transition [OF that, of 0]
      failover_step.transition [of "world_with (in_state from)" "''failover-execution.1''" "from" to "sample_clock 0" None None]
    by (simp add: world_with_def)
  have "in_state FExec_RESERVED = reserved_db"
    by (simp add: in_state_def reserved_db_def sample_execution_def failover_execution_for_def)
  with reserved_reach have "reach no_failovers failover_step (world_with (in_state FExec_RESERVED))" by simp
  moreover have "failover_step (world_with (in_state FExec_RESERVED)) (world_with (in_state FExec_DRAINING))"
    "failover_step (world_with (in_state FExec_DRAINING)) (world_with (in_state FExec_BLOCKED_PREIMPORT))" by (simp_all add: step)
  ultimately show ?thesis by (meson reach_step)
qed

lemma requested_reach: "reach no_failovers failover_step requested_world"
proof -
  let ?x = "sample_execution\<lparr>fe_state := FExec_BLOCKED_PREIMPORT\<rparr>"
  have sel: "fe_id sample_execution = ''failover-execution.1''" "rt_id sample_attempt = ''recovery-attempt.1''"
    "rt_state sample_attempt = Attempt_PENDING" "fo_attempts reserved_db = []"
    "new_recovery_attempt sample_env (sample_clock 0) (sample_clock 1) ?x sample_session = sample_attempt"
    by (simp_all add: sample_execution_def failover_execution_for_def sample_env_def sample_attempt_def new_recovery_attempt_def
        reserved_db_def decided_db_def evidence_db_def policy_db_def empty_failover_def)
  have "claim_failover_recovery ''failover-execution.1'' sample_attempt (sample_clock 2) (in_state FExec_BLOCKED_PREIMPORT) =
      (claimed_db, Inr (sample_execution\<lparr>fe_state := FExec_RECOVERING\<rparr>))"
    using sel sample_transition [of FExec_RECOVERING FExec_BLOCKED_PREIMPORT 2] sample_recovery_valid(3)
      plain_texts [OF sample_recovery_valid(4) [unfolded plain_def]]
    by (simp add: claim_failover_recovery_def recovery_attempt_for_execution_def save_agent_recovery_attempt_def save_agent_record_def
        stored_plain_def in_state_def claimed_db_def)
  then have "fst (recover_claim sample_env sample_clock ?x sample_session (in_state FExec_BLOCKED_PREIMPORT)) = claimed_db"
    using sel sample_recovery_valid(3) by (simp add: recover_claim_def recovery_attempt_for_execution_def in_state_def Let_def)
  then have "failover_step (world_with (in_state FExec_BLOCKED_PREIMPORT)) (world_with claimed_db)"
    using failover_step.claim [of "world_with (in_state FExec_BLOCKED_PREIMPORT)" sample_env sample_clock ?x sample_session]
    by (simp add: world_with_def)
  with blocked_reach have claimed: "reach no_failovers failover_step (world_with claimed_db)" by (rule reach_step)
  have same: "sample_attempt\<lparr>rt_state := Attempt_EXTERNAL_STARTED, rt_updated_at := sample_clock 0\<rparr> =
      sample_attempt\<lparr>rt_state := Attempt_EXTERNAL_STARTED\<rparr>"
    "recovery_request_for (sample_clock (Suc 0)) sample_execution sample_session (sample_attempt\<lparr>rt_state := Attempt_EXTERNAL_STARTED\<rparr>) = sample_request"
    by (simp_all add: sample_attempt_def new_recovery_attempt_def sample_clock_def sample_request_def recovery_request_for_def)
  have "recover_start sample_clock sample_execution sample_session sample_attempt claimed_db = (fw_db requested_world, Inr sample_request)"
    using sel same sample_recovery_valid(5,7) plain_texts [OF sample_recovery_valid(6) [unfolded plain_def]]
    by (simp add: recover_start_def transition_agent_recovery_attempt_def load_agent_recovery_attempt_def claimed_db_def tbl_get_def
        stored_plain_def requested_world_def Let_def)
  from failover_step.start [where w = "world_with claimed_db", simplified world_with_def, simplified, OF this]
  have "failover_step (world_with claimed_db) requested_world" by (simp add: world_with_def requested_world_def)
  with claimed show ?thesis by (rule reach_step)
qed

theorem recovery_requested_once_witness:
  "fw_requests requested_world = [sample_request] \<and>
   (\<exists>a. load_agent_recovery_attempt (rq_attempt_id sample_request) (fw_db requested_world) = Inr a \<and> rt_state a \<noteq> Attempt_PENDING)"
  using recovery_requested_once [OF requested_reach] by (simp add: requested_world_def)

end
