(* ===== verification/Crew.thy ===== *)
theory Crew
  imports Store_Model IDS_Review Iso_Time
begin

text \<open>
  Crew messages and their reviews: \<^verbatim>\<open>src/overseer/crew.py\<close> and the commands of \<^verbatim>\<open>src/overseer/cli.py\<close> that
  record, decide, resubmit, deliver and reconcile them. What an owner's dispatcher did is an
  argument (\<open>result\<close>, the mapping it returned): the dispatchers inspect and change the host. The clock is
  \<open>now\<close>, used where the command was given no time. Every review decision carries who took it, when and
  on what evidence, and a decided message is never decided again.
\<close>

section \<open>Messages\<close>

datatype CrewMessageStatus = Crew_OPEN | Crew_ACKNOWLEDGED | Crew_CLOSED

fun crew_status_value :: "CrewMessageStatus \<Rightarrow> string" where
  "crew_status_value Crew_OPEN = ''open''"
| "crew_status_value Crew_ACKNOWLEDGED = ''acknowledged''"
| "crew_status_value Crew_CLOSED = ''closed''"

datatype CrewReviewStatus =
    Review_PENDING | Review_WAITING_HUMAN_APPROVAL | Review_APPROVED | Review_CORRECTION_REQUESTED | Review_REJECTED

fun review_value :: "CrewReviewStatus \<Rightarrow> string" where
  "review_value Review_PENDING = ''pending''"
| "review_value Review_WAITING_HUMAN_APPROVAL = ''waiting_human_approval''"
| "review_value Review_APPROVED = ''approved''"
| "review_value Review_CORRECTION_REQUESTED = ''correction_requested''"
| "review_value Review_REJECTED = ''rejected''"

definition review_of :: "string \<Rightarrow> CrewReviewStatus result" where
  "review_of = enum_of ''CrewReviewStatus'' review_value
     [Review_PENDING, Review_WAITING_HUMAN_APPROVAL, Review_APPROVED, Review_CORRECTION_REQUESTED, Review_REJECTED]"

text \<open>
  The evidence of a decision is a list of optional texts: the review of a backup puts the message's
  plan id there, whether it has one or not.
\<close>

record CrewMessage =
  cm_id :: string
  cm_owner_domain :: OwnerDomain
  cm_subject :: string
  cm_message :: string
  cm_priority :: RiskLevel
  cm_status :: CrewMessageStatus
  cm_requested_by :: string
  cm_created_at :: "string option"
  cm_updated_at :: "string option"
  cm_related_resource_id :: "string option"
  cm_related_plan_id :: "string option"
  cm_related_limit_id :: "string option"
  cm_review_status :: CrewReviewStatus
  cm_decision_reason :: "string option"
  cm_correction_request :: "string option"
  cm_decision_evidence_ids :: "string option list"
  cm_decided_by :: "string option"
  cm_decided_at :: "string option"
  cm_supersedes_message_id :: "string option"
  cm_superseded_by_message_id :: "string option"
  cm_acceptance_criteria :: "string list"
  cm_request_evidence_ids :: "string list"

record CrewStore = OverseerStore +
  cs_messages :: "CrewMessage tbl"

definition save_crew_message :: "CrewMessage \<Rightarrow> 'a CrewStore_scheme \<Rightarrow> 'a CrewStore_scheme" where
  "save_crew_message m st = st\<lparr>cs_messages := tbl_upsert (cm_id m) m (cs_messages st)\<rparr>"

definition load_crew_message :: "'a CrewStore_scheme \<Rightarrow> string \<Rightarrow> CrewMessage result" where
  "load_crew_message st mid = get_payload (cs_messages st) mid"

definition list_crew_messages :: "'a CrewStore_scheme \<Rightarrow> CrewMessage list" where
  "list_crew_messages st = map snd (cs_messages st)"

text \<open>\<^verbatim>\<open>re.sub("[^a-z0-9]+", "-", subject.lower()).strip("-")\<close>\<close>

definition plain_char :: "char \<Rightarrow> bool" where
  "plain_char c = (let n = (of_char c :: nat) in (97 \<le> n \<and> n \<le> 122) \<or> is_digit c)"

fun plain_runs :: "bool \<Rightarrow> string \<Rightarrow> string" where
  "plain_runs in_run [] = []"
| "plain_runs in_run (c # s) =
     (if plain_char c then c # plain_runs False s else if in_run then plain_runs True s else CHR ''-'' # plain_runs True s)"

definition trim_dashes :: "string \<Rightarrow> string" where
  "trim_dashes s = rev (dropWhile (\<lambda>c. c = CHR ''-'') (rev (dropWhile (\<lambda>c. c = CHR ''-'') s)))"

definition crew_message_id :: "OwnerDomain \<Rightarrow> string \<Rightarrow> string \<Rightarrow> string" where
  "crew_message_id owner subject created_at =
     (let slug = trim_dashes (plain_runs False (py_lower subject));
          stamp = take 14 (filter is_digit created_at)
      in ''crew.'' @ owner_value owner @ ''.'' @ take 48 (if slug = [] then ''message'' else slug) @ ''.'' @
         (if stamp = [] then ''pending'' else stamp))"

record crew_args =
  ca_owner_domain :: string
  ca_subject :: string
  ca_message :: string
  ca_priority :: string
  ca_requested_by :: string
  ca_message_id :: "string option"
  ca_created_at :: "string option"
  ca_related_resource_id :: "string option"
  ca_related_plan_id :: "string option"
  ca_related_limit_id :: "string option"
  ca_supersedes_message_id :: "string option"
  ca_acceptance_criteria :: "string list"
  ca_request_evidence_ids :: "string list"

text \<open>\<^verbatim>\<open>datetime.now(UTC).replace(microsecond=0).isoformat()\<close>\<close>

definition now_seconds :: "int \<Rightarrow> string" where
  "now_seconds t = isoformat_utc (t - t mod MICROS)"

definition build_crew_message :: "int \<Rightarrow> crew_args \<Rightarrow> CrewMessage result" where
  "build_crew_message now a =
     (if blank (ca_subject a) then Inl (ValueError ''subject is required'')
      else if blank (ca_message a) then Inl (ValueError ''message is required'')
      else let moment = str_default (ca_created_at a) (now_seconds now)
      in res_bind (owner_of (ca_owner_domain a)) (\<lambda>domain.
         res_bind (risk_of (ca_priority a)) (\<lambda>priority.
         Inr \<lparr>cm_id = str_default (ca_message_id a) (crew_message_id domain (ca_subject a) moment), cm_owner_domain = domain,
           cm_subject = py_strip (ca_subject a), cm_message = py_strip (ca_message a), cm_priority = priority,
           cm_status = Crew_OPEN,
           cm_requested_by = (let by = py_strip (ca_requested_by a) in if by = [] then ''operator'' else by),
           cm_created_at = Some moment, cm_updated_at = Some moment, cm_related_resource_id = ca_related_resource_id a,
           cm_related_plan_id = ca_related_plan_id a, cm_related_limit_id = ca_related_limit_id a,
           cm_review_status = Review_PENDING, cm_decision_reason = None, cm_correction_request = None,
           cm_decision_evidence_ids = [], cm_decided_by = None, cm_decided_at = None,
           cm_supersedes_message_id = ca_supersedes_message_id a, cm_superseded_by_message_id = None,
           cm_acceptance_criteria = ca_acceptance_criteria a, cm_request_evidence_ids = ca_request_evidence_ids a\<rparr>)))"

definition crew_message_status :: "CrewMessage \<Rightarrow> (string, pyval) pydict" where
  "crew_message_status m =
     [(''id'', PStr (cm_id m)), (''owner_domain'', PStr (owner_value (cm_owner_domain m))),
      (''subject'', PStr (cm_subject m)), (''message'', PStr (cm_message m)),
      (''priority'', PStr (risk_value (cm_priority m))), (''status'', PStr (crew_status_value (cm_status m))),
      (''requested_by'', PStr (cm_requested_by m)), (''created_at'', opt_str (cm_created_at m)),
      (''updated_at'', opt_str (cm_updated_at m)), (''related_resource_id'', opt_str (cm_related_resource_id m)),
      (''related_plan_id'', opt_str (cm_related_plan_id m)), (''related_limit_id'', opt_str (cm_related_limit_id m)),
      (''review_status'', PStr (review_value (cm_review_status m))),
      (''decision_reason'', opt_str (cm_decision_reason m)), (''correction_request'', opt_str (cm_correction_request m)),
      (''decision_evidence_ids'', PList (map opt_str (cm_decision_evidence_ids m))),
      (''decided_by'', opt_str (cm_decided_by m)), (''decided_at'', opt_str (cm_decided_at m)),
      (''supersedes_message_id'', opt_str (cm_supersedes_message_id m)),
      (''superseded_by_message_id'', opt_str (cm_superseded_by_message_id m)),
      (''acceptance_criteria'', str_list (cm_acceptance_criteria m)),
      (''request_evidence_ids'', str_list (cm_request_evidence_ids m))]"

section \<open>Recording and deciding\<close>

text \<open>\<open>_status_id\<close>; \<^verbatim>\<open>str.isalnum\<close> on Latin-1 is the word characters without the underscore.\<close>

definition status_id :: "string \<Rightarrow> string" where
  "status_id s = trim_dashes (map (\<lambda>c. if word_char c \<and> c \<noteq> CHR ''_'' then c else CHR ''-'') (py_lower s))"

definition stripped_items :: "string list \<Rightarrow> string list" where
  "stripped_items items = filter (\<lambda>s. s \<noteq> []) (map py_strip items)"

definition record_crew_message_status ::
  "int \<Rightarrow> crew_args \<Rightarrow> 'a CrewStore_scheme \<Rightarrow> 'a CrewStore_scheme \<times> (CrewMessage \<times> AuditEvent) result" where
  "record_crew_message_status now a st =
     (case build_crew_message now (a\<lparr>ca_acceptance_criteria := stripped_items (ca_acceptance_criteria a),
        ca_request_evidence_ids := stripped_items (ca_request_evidence_ids a)\<rparr>) of
        Inl e \<Rightarrow> (st, Inl e)
      | Inr m \<Rightarrow>
          let event = \<lparr>ev_id = ''audit.'' @ cm_id m, ev_event_type = Event_REQUESTED, ev_owner_domain = cm_owner_domain m,
                ev_subject_id = cm_id m,
                ev_summary = cm_subject m @ '' routed to '' @ owner_value (cm_owner_domain m),
                ev_risk_level = cm_priority m, ev_evidence_ids = [], ev_occurred_at = cm_created_at m\<rparr>
          in (save_audit_event event (save_crew_message m st), Inr (m, event)))"

definition review_event :: "CrewReviewStatus \<Rightarrow> AuditEventType" where
  "review_event decision =
     (if decision = Review_APPROVED then Event_APPROVED
      else if decision = Review_WAITING_HUMAN_APPROVAL then Event_REQUESTED else Event_REJECTED)"

definition decided ::
  "CrewReviewStatus \<Rightarrow> string \<Rightarrow> string option \<Rightarrow> string option list \<Rightarrow> string \<Rightarrow> string \<Rightarrow> CrewMessage \<Rightarrow> CrewMessage" where
  "decided decision reason correction evidence decided_by moment m =
     m\<lparr>cm_review_status := decision, cm_decision_reason := Some reason, cm_correction_request := correction,
       cm_decision_evidence_ids := evidence, cm_decided_by := Some decided_by, cm_decided_at := Some moment,
       cm_updated_at := Some moment\<rparr>"

definition check_decision :: "CrewReviewStatus \<Rightarrow> string \<Rightarrow> string \<Rightarrow> string list \<Rightarrow> string option \<Rightarrow> unit result" where
  "check_decision decision decided_by reason evidence correction =
     run_checks
       [if decision = Review_PENDING then Inl (ValueError ''a crew review decision cannot return to pending'') else Inr (),
        if blank decided_by then Inl (ValueError ''decided_by is required'') else Inr (),
        if blank reason then Inl (ValueError ''decision reason is required'') else Inr (),
        if decision \<in> {Review_APPROVED, Review_WAITING_HUMAN_APPROVAL} \<and> evidence = []
          then Inl (ValueError ''approval or human boundary requires moment least one evidence id'') else Inr (),
        if decision \<in> {Review_CORRECTION_REQUESTED, Review_REJECTED} \<and> correction = None
          then Inl (ValueError ''correction or rejection requires correction_request'') else Inr ()]"

definition check_undecided :: "CrewReviewStatus \<Rightarrow> CrewMessage \<Rightarrow> unit result" where
  "check_undecided decision m =
     run_checks
       [if cm_status m \<noteq> Crew_ACKNOWLEDGED then Inl (ValueError ''only acknowledged crew messages can be decided'') else Inr (),
        if cm_review_status m \<notin> {Review_PENDING, Review_WAITING_HUMAN_APPROVAL}
          then Inl (ValueError ''crew message already has a review decision'') else Inr (),
        if cm_review_status m = Review_WAITING_HUMAN_APPROVAL \<and> decision = Review_WAITING_HUMAN_APPROVAL
          then Inl (ValueError ''crew message is already waiting for human approval'') else Inr ()]"

text \<open>\<^verbatim>\<open>(value or "").strip() or None\<close>\<close>

definition stripped_text :: "string option \<Rightarrow> string option" where
  "stripped_text s = (let c = py_strip (case s of None \<Rightarrow> [] | Some c \<Rightarrow> c) in if c = [] then None else Some c)"

definition decide_crew_message_status ::
  "int \<Rightarrow> string \<Rightarrow> string \<Rightarrow> string \<Rightarrow> string \<Rightarrow> string list \<Rightarrow> string option \<Rightarrow> string option \<Rightarrow> 'a CrewStore_scheme \<Rightarrow>
   'a CrewStore_scheme \<times> CrewMessage result" where
  "decide_crew_message_status now message_id review_status decided_by reason evidence_ids correction_request decided_at st =
     (let evidence = stripped_items evidence_ids;
          correction = stripped_text correction_request;
          moment = str_default decided_at (now_seconds now)
      in case res_bind (review_of review_status) (\<lambda>decision.
           res_bind (check_decision decision decided_by reason evidence correction) (\<lambda>_.
           res_bind (load_crew_message st message_id) (\<lambda>m.
           res_bind (check_undecided decision m) (\<lambda>_. Inr (decision, m))))) of
           Inl e \<Rightarrow> (st, Inl e)
         | Inr (decision, m) \<Rightarrow>
             let updated = decided decision (py_strip reason) correction (map Some evidence) (py_strip decided_by) moment m;
                 event = \<lparr>ev_id = ''audit.'' @ cm_id m @ ''.review.'' @ status_id moment, ev_event_type = review_event decision,
                   ev_owner_domain = cm_owner_domain m, ev_subject_id = cm_id m,
                   ev_summary = ''crew review '' @ review_value decision @ '': '' @ py_strip reason,
                   ev_risk_level = cm_priority m, ev_evidence_ids = evidence, ev_occurred_at = Some moment\<rparr>
             in (save_audit_event event (save_crew_message updated st), Inr updated))"

record resubmit_args =
  ra_subject :: string
  ra_message :: string
  ra_requested_by :: string
  ra_new_message_id :: "string option"
  ra_created_at :: "string option"
  ra_expected_requesters :: "string list"
  ra_related_resource_id :: "string option"
  ra_related_plan_id :: "string option"
  ra_related_limit_id :: "string option"
  ra_acceptance_criteria :: "string list"
  ra_request_evidence_ids :: "string list"

definition check_resubmit :: "resubmit_args \<Rightarrow> CrewMessage \<Rightarrow> unit result" where
  "check_resubmit a original =
     (let allowed = stripped_items (ra_expected_requesters a)
      in if allowed \<noteq> [] \<and> cm_requested_by original \<notin> set allowed
         then Inl (ValueError ''crew message does not belong to the expected requester'')
         else if cm_review_status original \<notin> {Review_CORRECTION_REQUESTED, Review_REJECTED}
         then Inl (ValueError ''only correction-requested or rejected crew messages can be resubmitted'') else Inr ())"

definition given_or :: "string option \<Rightarrow> string option \<Rightarrow> string option" where
  "given_or a b = (case a of None \<Rightarrow> b | Some s \<Rightarrow> Some s)"

definition replacement_args :: "resubmit_args \<Rightarrow> CrewMessage \<Rightarrow> crew_args" where
  "replacement_args a original =
     \<lparr>ca_owner_domain = owner_value (cm_owner_domain original), ca_subject = ra_subject a, ca_message = ra_message a,
      ca_priority = risk_value (cm_priority original), ca_requested_by = ra_requested_by a,
      ca_message_id = ra_new_message_id a, ca_created_at = ra_created_at a,
      ca_related_resource_id = given_or (ra_related_resource_id a) (cm_related_resource_id original),
      ca_related_plan_id = given_or (ra_related_plan_id a) (cm_related_plan_id original),
      ca_related_limit_id = given_or (ra_related_limit_id a) (cm_related_limit_id original),
      ca_supersedes_message_id = Some (cm_id original),
      ca_acceptance_criteria =
        (if ra_acceptance_criteria a = [] then cm_acceptance_criteria original else ra_acceptance_criteria a),
      ca_request_evidence_ids =
        (if ra_request_evidence_ids a = [] then cm_request_evidence_ids original else ra_request_evidence_ids a)\<rparr>"

text \<open>The result is the pair of the replacement and the original as the command reports them.\<close>

definition resubmit_crew_message_status ::
  "int \<Rightarrow> string \<Rightarrow> resubmit_args \<Rightarrow> 'a CrewStore_scheme \<Rightarrow>
   'a CrewStore_scheme \<times> (CrewMessage \<times> CrewMessage) result" where
  "resubmit_crew_message_status now message_id a st =
     (case res_bind (load_crew_message st message_id) (\<lambda>original.
        res_bind (check_resubmit a original) (\<lambda>_. Inr original)) of
        Inl e \<Rightarrow> (st, Inl e)
      | Inr original \<Rightarrow>
          if str_true (cm_superseded_by_message_id original)
          then (st, res_bind (load_crew_message st (the (cm_superseded_by_message_id original)))
                  (\<lambda>existing. Inr (existing, original)))
          else (case record_crew_message_status now (replacement_args a original) st of
              (st1, Inl e) \<Rightarrow> (st1, Inl e)
            | (st1, Inr (m, _)) \<Rightarrow>
                (case load_crew_message st1 (cm_id original) of
                   Inl e \<Rightarrow> (st1, Inl e)
                 | Inr latest \<Rightarrow>
                     let closed = latest\<lparr>cm_status := Crew_CLOSED, cm_superseded_by_message_id := Some (cm_id m),
                           cm_updated_at := cm_created_at m\<rparr>
                     in (save_crew_message closed st1, Inr (m, closed)))))"

section \<open>Reviews by the crew\<close>

definition kira_storage_review_complete :: "'a CrewStore_scheme \<Rightarrow> CrewMessage \<Rightarrow> bool \<times> string" where
  "kira_storage_review_complete st m =
     (let resource_id = py_strip (case cm_related_resource_id m of None \<Rightarrow> [] | Some r \<Rightarrow> r);
          criteria = py_lower (py_join [CHR 0x0A] (cm_acceptance_criteria m));
          missing = filter (\<lambda>term. \<not> py_contains term criteria) [''capacity'', ''access'', ''failure domain'']
      in if \<not> startswith resource_id ''storage.''
           then (False, ''related_resource_id must identify a registered storage.* resource'')
         else if \<not> isOK (load_resource st resource_id) then (False, ''the typed storage resource is not registered'')
         else if missing \<noteq> [] then (False, ''acceptance criteria missing '' @ py_join '', '' missing)
         else if cm_request_evidence_ids m = [] then (False, ''at least one durable request evidence id is required'')
         else (True, []))"

fun nested_host_mutation_performed :: "pyval \<Rightarrow> bool" where
  "nested_host_mutation_performed (PDict kvs) \<longleftrightarrow>
     (case dict_get kvs ''host_mutation_performed'' of None \<Rightarrow> False | Some v \<Rightarrow> py_truthy v) \<or>
     list_ex (\<lambda>(k, v). nested_host_mutation_performed v) kvs"
| "nested_host_mutation_performed (PList vs) \<longleftrightarrow> list_ex nested_host_mutation_performed vs"
| "nested_host_mutation_performed PNone \<longleftrightarrow> False"
| "nested_host_mutation_performed (PBool b) \<longleftrightarrow> False"
| "nested_host_mutation_performed (PInt i) \<longleftrightarrow> False"
| "nested_host_mutation_performed (PFloat x) \<longleftrightarrow> False"
| "nested_host_mutation_performed (PStr s) \<longleftrightarrow> False"

text \<open>The \<open>actions\<close> of a dispatch result are a list of mappings.\<close>

definition dispatch_actions :: "(string, pyval) pydict \<Rightarrow> pyval list" where
  "dispatch_actions result = (case dict_get result ''actions'' of Some (PList vs) \<Rightarrow> vs | _ \<Rightarrow> [])"

definition crew_dispatch_result_mutated_host :: "(string, pyval) pydict \<Rightarrow> bool" where
  "crew_dispatch_result_mutated_host result \<longleftrightarrow>
     (case dict_get result ''host_mutation_performed'' of None \<Rightarrow> False | Some v \<Rightarrow> py_truthy v) \<or>
     list_ex nested_host_mutation_performed (dispatch_actions result)"

definition has_status :: "(string, pyval) pydict \<Rightarrow> string \<Rightarrow> bool" where
  "has_status result s \<longleftrightarrow> dict_get result ''status'' = Some (PStr s)"

definition result_reason :: "(pyval \<Rightarrow> string) \<Rightarrow> (string, pyval) pydict \<Rightarrow> string \<Rightarrow> string" where
  "result_reason str_of result fallback =
     (case dict_get result ''reason'' of
        None \<Rightarrow> fallback | Some v \<Rightarrow> if py_truthy v then py_str str_of v else fallback)"

definition is_backup_review :: "pyval \<Rightarrow> bool" where
  "is_backup_review action = (case action of
     PDict kvs \<Rightarrow> dict_get kvs ''kind'' = Some (PStr ''donuthole_encrypted_backup_provisioning_v1'') \<and>
       dict_get kvs ''ok'' = Some (PBool True)
   | _ \<Rightarrow> False)"

definition reads_only :: "CrewMessage \<Rightarrow> bool" where
  "reads_only m \<longleftrightarrow> (let body = py_lower (cm_subject m @ [CHR 0x0A] @ cm_message m)
     in list_ex (\<lambda>marker. py_contains marker body) [''read-only'', ''read only'', ''advisory'', ''inventory'', ''review''])"

text \<open>
  A review: the decision, its reason, the correction asked for (\<open>None\<close> when the review does not touch it), the
  evidence and who decided.
\<close>

record crew_review =
  cv_decision :: CrewReviewStatus
  cv_reason :: string
  cv_correction :: "string option"
  cv_evidence :: "string option list"
  cv_by :: string

definition approving :: "string \<Rightarrow> string option list \<Rightarrow> string \<Rightarrow> crew_review" where
  "approving reason evidence by_whom = \<lparr>cv_decision = Review_APPROVED, cv_reason = reason, cv_correction = None,
     cv_evidence = evidence, cv_by = by_whom\<rparr>"

definition correcting :: "string \<Rightarrow> string option list \<Rightarrow> string \<Rightarrow> crew_review" where
  "correcting reason evidence by_whom = \<lparr>cv_decision = Review_CORRECTION_REQUESTED, cv_reason = reason,
     cv_correction = Some reason, cv_evidence = evidence, cv_by = by_whom\<rparr>"

definition waiting :: "string \<Rightarrow> string option list \<Rightarrow> string \<Rightarrow> crew_review" where
  "waiting reason evidence by_whom = \<lparr>cv_decision = Review_WAITING_HUMAN_APPROVAL, cv_reason = reason,
     cv_correction = None, cv_evidence = evidence, cv_by = by_whom\<rparr>"

definition present :: "string option \<Rightarrow> string option list" where
  "present s = (if str_true s then [s] else [])"

definition automatic_crew_review ::
  "(pyval \<Rightarrow> string) \<Rightarrow> 'a CrewStore_scheme \<Rightarrow> CrewMessage \<Rightarrow> (string, pyval) pydict \<Rightarrow> string \<Rightarrow> string \<Rightarrow> crew_review" where
  "automatic_crew_review str_of st m result evidence_id decided_by =
     (let owner = cm_owner_domain m; name = owner_value owner; requested = map Some (cm_request_evidence_ids m);
          kept = \<not> crew_dispatch_result_mutated_host result; dispatched = has_status result ''dispatched'';
          with_plan = dict_fromkeys (requested @ present (cm_related_plan_id m) @ present (Some evidence_id))
      in if has_status result ''skipped'' \<or> has_status result ''blocked'' then
           correcting (result_reason str_of result ''dispatcher could not complete the requested review'')
             [Some evidence_id] decided_by
         else if owner \<in> {Owner_KIRA, Owner_OBRIEN, Owner_SISKO, Owner_ODO_IDS} \<and>
             list_ex is_backup_review (dispatch_actions result) \<and> dispatched \<and> kept then
           approving (result_reason str_of result ''exact backup provisioning review passed'')
             (dict_fromkeys (requested @ [cm_related_plan_id m, Some evidence_id])) name
         else if owner = Owner_DAX \<and> reads_only m \<and> dispatched \<and> kept then
           approving ''Dax completed the bounded read-only inventory review without reserving or mutating a resource''
             [Some evidence_id] name
         else if owner = Owner_KIRA then
           (case kira_storage_review_complete st m of (passed, why) \<Rightarrow>
              if passed \<and> dispatched \<and> kept then
                approving ''Kira validated the typed storage advisory criteria and refreshed read-only storage evidence without mutation''
                  (dict_fromkeys (requested @ [Some evidence_id])) name
              else correcting (''Kira discovery completed, but approval requires a typed storage target, capacity requirement, access boundary, and durable evidence reference'' @
                  (if why = [] then [] else '': '' @ why)) [Some evidence_id] name)
         else if owner = Owner_ODO_IDS \<and> \<not> str_true (cm_related_plan_id m) then
           correcting ''IDS approval requires a related admin plan and its accepted advisory package; resubmit with related_plan_id''
             [Some evidence_id] name
         else if owner = Owner_SISKO \<and> has_status result ''human_approval_required'' then
           waiting (result_reason str_of result ''human approval required'') with_plan name
         else if owner = Owner_ODO_IDS \<and> has_status result ''review_required'' then
           waiting (result_reason str_of result ''exact security review is required'') with_plan name
         else if owner = Owner_ODO_IDS then
           correcting ''IDS advisory was dispatched but no accepted or revision-required result is recorded; resubmit after authoritative advisory evidence exists''
             [Some evidence_id] name
         else if dispatched then
           approving (name @ '' completed the registered bounded crew workflow'')
             (dict_fromkeys (requested @ [Some evidence_id])) name
         else correcting (result_reason str_of result ''crew dispatcher returned no terminal outcome'')
           [Some evidence_id] name)"

text \<open>
  What \<open>dispatch_crew_messages_status\<close> does with one open message once its dispatcher has returned \<open>result\<close>
  (or raised, which it turns into a blocked result).
\<close>

definition finish_crew_dispatch ::
  "(pyval \<Rightarrow> string) \<Rightarrow> CrewMessage \<Rightarrow> (string, pyval) pydict \<Rightarrow> string \<Rightarrow> string \<Rightarrow> 'a CrewStore_scheme \<Rightarrow>
   'a CrewStore_scheme \<times> CrewMessage" where
  "finish_crew_dispatch str_of m result dispatched_by moment st =
     (let audit_id = ''audit.'' @ cm_id m @ ''.dispatch.'' @ status_id moment;
          v = automatic_crew_review str_of st m result audit_id dispatched_by;
          updated = m\<lparr>cm_status := Crew_ACKNOWLEDGED, cm_updated_at := Some moment, cm_review_status := cv_decision v,
            cm_decision_reason := Some (cv_reason v),
            cm_correction_request := given_or (cv_correction v) (cm_correction_request m),
            cm_decision_evidence_ids := cv_evidence v, cm_decided_by := Some (cv_by v), cm_decided_at := Some moment\<rparr>;
          field = (\<lambda>k. case dict_get result k of None \<Rightarrow> ''None'' | Some x \<Rightarrow> py_str str_of x);
          event = \<lparr>ev_id = audit_id,
            ev_event_type = (if has_status result ''blocked'' then Event_BLOCKED else Event_EXECUTED),
            ev_owner_domain = cm_owner_domain m, ev_subject_id = cm_id m,
            ev_summary = owner_value (cm_owner_domain m) @ '' dispatch '' @ field ''status'' @ '': '' @ field ''reason'',
            ev_risk_level = cm_priority m, ev_evidence_ids = [], ev_occurred_at = Some moment\<rparr>
      in (save_audit_event event (save_crew_message updated st), updated))"

section \<open>Reconciliation\<close>

definition dispatch_evidence :: "'a CrewStore_scheme \<Rightarrow> CrewMessage \<Rightarrow> string option" where
  "dispatch_evidence st m =
     (case filter (\<lambda>e. ev_event_type e = Event_EXECUTED \<and> ev_subject_id e = cm_id m) (map snd (st_audit_events st)) of
        [] \<Rightarrow> None
      | e # es \<Rightarrow> Some (ev_id (max_by (\<lambda>x. str_default (ev_occurred_at x) (ev_id x)) e es)))"

definition reconcile_ids_review :: "HostSecurityIDSReviewPackage list \<Rightarrow> CrewMessage \<Rightarrow> string option \<Rightarrow> crew_review" where
  "reconcile_ids_review packages m evidence =
     (if \<not> str_true (cm_related_plan_id m) then
        correcting ''IDS approval requires a related admin plan and accepted advisory package; resubmit with related_plan_id''
          (present evidence) []
      else
        let linked = filter (\<lambda>p. Some (ids_plan_id p) = cm_related_plan_id m) packages;
            settled = (\<lambda>s. case filter (\<lambda>p. ids_status p = s) linked of
              p # _ \<Rightarrow> if str_true (ids_advisory_result p) then Some p else None | [] \<Rightarrow> None)
        in case settled IDS_ACCEPTED of
             Some p \<Rightarrow> approving (the (ids_advisory_result p)) [Some (ids_id p), Some (ids_plan_id p)] []
           | None \<Rightarrow> (case settled IDS_REVISION_REQUIRED of
               Some p \<Rightarrow> correcting (the (ids_advisory_result p)) [Some (ids_id p), Some (ids_plan_id p)] []
             | None \<Rightarrow> correcting ''IDS advisory has no accepted or revision-required result; resubmit after authoritative advisory evidence is recorded''
                 (present evidence @ concat (map (\<lambda>p. present (Some (ids_id p))) linked)) []))"

text \<open>The review \<open>reconcile_crew_reviews_status\<close> proposes; who decides is settled when it is applied.\<close>

definition reconcile_review ::
  "'a CrewStore_scheme \<Rightarrow> HostSecurityIDSReviewPackage list \<Rightarrow> CrewMessage \<Rightarrow> crew_review" where
  "reconcile_review st packages m =
     (let evidence = dispatch_evidence st m; owner = cm_owner_domain m;
          all_evidence = dict_fromkeys (map Some (cm_request_evidence_ids m) @ [evidence])
      in if owner = Owner_DAX \<and> reads_only m \<and> str_true evidence then
           approving ''Dax completed the bounded read-only inventory review without reserving or mutating a resource''
             [evidence] []
         else if owner = Owner_KIRA then
           (case kira_storage_review_complete st m of (passed, why) \<Rightarrow>
              if passed \<and> str_true evidence then
                approving ''Kira validated the typed storage criteria and durable evidence without host mutation'' all_evidence []
              else correcting (''Kira discovery is not a storage approval; resubmit with a typed storage target, capacity requirement, access boundary, and durable evidence reference'' @
                  (if why = [] then [] else '': '' @ why)) (present evidence) [])
         else if owner = Owner_ODO_IDS then reconcile_ids_review packages m evidence
         else if owner = Owner_SISKO \<and> str_true (cm_related_plan_id m) then
           waiting (''Human approval is required for exact admin plan '' @ the (cm_related_plan_id m))
             (dict_fromkeys (cm_related_plan_id m # present evidence)) []
         else if owner = Owner_OBRIEN \<and>
             startswith (case cm_related_resource_id m of None \<Rightarrow> [] | Some r \<Rightarrow> r) ''storage.'' then
           correcting (''O'' @ [CHR 0x27] @ ''Brien package maintenance cannot execute a storage request; provide an approved bounded storage execution adapter or exact admin plan'')
             (present evidence) []
         else if str_true evidence then
           approving (owner_value owner @ '' completed the registered bounded crew workflow'') all_evidence []
         else correcting ''No completed dispatcher evidence exists; correct the request linkage or registered crew adapter before resubmitting'' [] [])"

text \<open>
  The second phase applies the proposals to messages that are still pending, in one transaction. The audit
  event names only texts as evidence.
\<close>

definition reviewed_message :: "string \<Rightarrow> string \<Rightarrow> crew_review \<Rightarrow> CrewMessage \<Rightarrow> CrewMessage" where
  "reviewed_message reconciled_by moment v latest =
     decided (cv_decision v) (cv_reason v) (cv_correction v) (cv_evidence v)
       (if cm_owner_domain latest \<notin> {Owner_DAX, Owner_KIRA, Owner_ODO_IDS} then reconciled_by
        else owner_value (cm_owner_domain latest)) moment latest"

definition review_audit_event :: "string \<Rightarrow> crew_review \<Rightarrow> CrewMessage \<Rightarrow> AuditEvent" where
  "review_audit_event moment v latest =
     \<lparr>ev_id = ''audit.'' @ cm_id latest @ ''.review.'' @ status_id moment, ev_event_type = review_event (cv_decision v),
      ev_owner_domain = cm_owner_domain latest, ev_subject_id = cm_id latest,
      ev_summary = ''crew review '' @ review_value (cv_decision v) @ '': '' @ cv_reason v,
      ev_risk_level = cm_priority latest, ev_evidence_ids = map the (filter (\<lambda>x. x \<noteq> None) (cv_evidence v)),
      ev_occurred_at = Some moment\<rparr>"

fun apply_reviews ::
  "string \<Rightarrow> string \<Rightarrow> (CrewMessage \<times> crew_review) list \<Rightarrow> 'a CrewStore_scheme \<Rightarrow>
   ('a CrewStore_scheme \<times> CrewMessage list) result" where
  "apply_reviews reconciled_by moment [] st = Inr (st, [])"
| "apply_reviews reconciled_by moment ((m, v) # rest) st =
     res_bind (load_crew_message st (cm_id m)) (\<lambda>latest.
       if cm_review_status latest \<noteq> Review_PENDING then apply_reviews reconciled_by moment rest st
       else res_bind (apply_reviews reconciled_by moment rest
                (save_audit_event (review_audit_event moment v latest)
                   (save_crew_message (reviewed_message reconciled_by moment v latest) st)))
              (\<lambda>(st', results). Inr (st', reviewed_message reconciled_by moment v latest # results)))"

definition reconcile_crew_reviews_status ::
  "int \<Rightarrow> HostSecurityIDSReviewPackage list \<Rightarrow> string option \<Rightarrow> string \<Rightarrow> string option \<Rightarrow> 'a CrewStore_scheme \<Rightarrow>
   'a CrewStore_scheme \<times> CrewMessage list result" where
  "reconcile_crew_reviews_status now packages message_id reconciled_by reconciled_at st =
     (let messages = filter (\<lambda>m. cm_status m = Crew_ACKNOWLEDGED \<and> cm_review_status m = Review_PENDING \<and>
            (message_id = None \<or> message_id = Some (cm_id m))) (list_crew_messages st)
      in case apply_reviews reconciled_by (str_default reconciled_at (now_seconds now))
           (map (\<lambda>m. (m, reconcile_review st packages m)) messages) st of
           Inl e \<Rightarrow> (st, Inl e)
         | Inr (st', results) \<Rightarrow> (st', Inr results))"

section \<open>Every decision is on record\<close>

definition review_ok :: "CrewMessage \<Rightarrow> bool" where
  "review_ok m \<longleftrightarrow>
     (cm_review_status m \<noteq> Review_PENDING \<longrightarrow>
        cm_status m \<noteq> Crew_OPEN \<and> cm_decided_by m \<noteq> None \<and> cm_decided_at m \<noteq> None \<and> cm_decision_reason m \<noteq> None) \<and>
     (cm_review_status m \<in> {Review_APPROVED, Review_WAITING_HUMAN_APPROVAL} \<longrightarrow> cm_decision_evidence_ids m \<noteq> []) \<and>
     (cm_review_status m \<in> {Review_CORRECTION_REQUESTED, Review_REJECTED} \<longrightarrow> str_true (cm_correction_request m))"

definition crew_ok :: "'a CrewStore_scheme \<Rightarrow> bool" where
  "crew_ok st \<longleftrightarrow> keyed_by cm_id (cs_messages st) \<and> (\<forall>i m. tbl_get (cs_messages st) i = Some m \<longrightarrow> review_ok m)"

text \<open>A proposed review is fit to be recorded.\<close>

definition proposal_ok :: "crew_review \<Rightarrow> bool" where
  "proposal_ok v \<longleftrightarrow> cv_decision v \<noteq> Review_PENDING \<and>
     (cv_decision v \<in> {Review_APPROVED, Review_WAITING_HUMAN_APPROVAL} \<longrightarrow> cv_evidence v \<noteq> []) \<and>
     (cv_decision v \<in> {Review_CORRECTION_REQUESTED, Review_REJECTED} \<longrightarrow> str_true (cv_correction v))"

lemma dict_fromkeys_empty [simp]: "dict_fromkeys xs = [] \<longleftrightarrow> xs = []"
  by (metis set_dict_fromkeys set_empty)

lemma proposal_ok_intros [simp]:
  "evidence \<noteq> [] \<Longrightarrow> proposal_ok (approving reason evidence by_whom)"
  "evidence \<noteq> [] \<Longrightarrow> proposal_ok (waiting reason evidence by_whom)"
  "reason \<noteq> [] \<Longrightarrow> proposal_ok (correcting reason evidence by_whom)"
  by (simp_all add: proposal_ok_def approving_def waiting_def correcting_def)

lemma py_str_truthy: "py_truthy v \<Longrightarrow> (\<And>u. str_of u \<noteq> []) \<Longrightarrow> py_str str_of v \<noteq> []"
  by (cases v) (auto simp: str_int_def str_nat_nonempty)

lemma result_reason_nonempty: "fallback \<noteq> [] \<Longrightarrow> (\<And>u. str_of u \<noteq> []) \<Longrightarrow> result_reason str_of result fallback \<noteq> []"
  by (auto simp: result_reason_def py_str_truthy split: option.splits)

lemma automatic_review_ok:
  assumes "\<And>u. str_of u \<noteq> []" "evidence_id \<noteq> []"
  shows "proposal_ok (automatic_crew_review str_of st m result evidence_id decided_by)"
  using assms unfolding automatic_crew_review_def Let_def
  by (simp add: result_reason_nonempty present_def split: prod.split)

lemma str_true_the: "str_true s \<Longrightarrow> the s \<noteq> []"
  by (cases s) simp_all

lemma ids_review_ok: "proposal_ok (reconcile_ids_review packages m evidence)"
  unfolding reconcile_ids_review_def Let_def
  by (auto simp: str_true_the split: option.splits list.splits if_splits)

lemma reconcile_review_ok: "proposal_ok (reconcile_review st packages m)"
  unfolding reconcile_review_def Let_def by (simp add: ids_review_ok split: prod.split)

text \<open>How the messages change. A Python \<open>str\<close> of a float, list or mapping is never empty.\<close>

inductive crew_step :: "CrewStore \<Rightarrow> CrewStore \<Rightarrow> bool" where
  step_record: "crew_step st (fst (record_crew_message_status now a st))"
| step_decide: "crew_step st (fst (decide_crew_message_status now mid review decided_by reason evidence correction decided_at st))"
| step_resubmit: "crew_step st (fst (resubmit_crew_message_status now mid args st))"
| step_dispatched: "tbl_get (cs_messages st) i = Some m \<Longrightarrow> cm_status m = Crew_OPEN \<Longrightarrow> (\<And>u. str_of u \<noteq> []) \<Longrightarrow>
    crew_step st (fst (finish_crew_dispatch str_of m result dispatched_by moment st))"
| step_reconcile: "crew_step st (fst (reconcile_crew_reviews_status now packages message_id reconciled_by reconciled_at st))"
| step_elsewhere: "cs_messages st' = cs_messages st \<Longrightarrow> crew_step st st'"

lemma crew_ok_save: "crew_ok st \<Longrightarrow> review_ok m \<Longrightarrow> crew_ok (save_crew_message m st)"
  unfolding crew_ok_def save_crew_message_def
  by (auto simp: keyed_by_get intro: keyed_by_upsert split: if_splits)

lemma crew_ok_event [simp]: "crew_ok (save_audit_event e st) = crew_ok st"
  by (simp add: crew_ok_def save_audit_event_def)

lemma load_crew_message_ok:
  assumes "load_crew_message st mid = Inr m" "crew_ok st"
  shows "review_ok m" "cm_id m = mid" "tbl_get (cs_messages st) mid = Some m"
  using assms by (auto simp: load_crew_message_def get_payload_def crew_ok_def keyed_by_def split: option.splits)

lemma load_saved_message:
  assumes "crew_ok st"
  shows "load_crew_message (save_crew_message m st) mid = (if mid = cm_id m then Inr m else load_crew_message st mid)"
  using assms
  by (cases "mid = cm_id m")
    (simp_all add: load_crew_message_def get_payload_def save_crew_message_def crew_ok_def keyed_by_get [of cm_id])

lemma load_after_event [simp]: "load_crew_message (save_audit_event e st) mid = load_crew_message st mid"
  by (simp add: load_crew_message_def save_audit_event_def)

lemma build_crew_message_Inr:
  assumes "build_crew_message now a = Inr m"
  shows "cm_review_status m = Review_PENDING" "cm_status m = Crew_OPEN" "cm_decision_evidence_ids m = []" "review_ok m"
    "cm_superseded_by_message_id m = None" "cm_supersedes_message_id m = ca_supersedes_message_id a"
    "ca_message_id a = Some i \<Longrightarrow> i \<noteq> [] \<Longrightarrow> cm_id m = i"
  using assms
  by (auto simp: build_crew_message_def Let_def res_bind_Inr_iff review_ok_def str_default_def split: if_splits)

lemma record_ok: "crew_ok st \<Longrightarrow> crew_ok (fst (record_crew_message_status now a st))"
  by (auto simp: record_crew_message_status_def Let_def build_crew_message_Inr(4) intro: crew_ok_save split: sum.splits)

lemma decided_ok:
  assumes "proposal_ok v" "cm_status m \<noteq> Crew_OPEN"
  shows "review_ok (decided (cv_decision v) reason (cv_correction v) (cv_evidence v) by_whom moment m)"
  using assms by (auto simp: proposal_ok_def review_ok_def decided_def)

lemma decide_ok: "crew_ok st \<Longrightarrow>
  crew_ok (fst (decide_crew_message_status now mid review decided_by reason evidence correction decided_at st))"
proof -
  assume ok: "crew_ok st"
  have "stripped_text correction \<noteq> Some []" by (auto simp: stripped_text_def Let_def)
  then have "review_ok (decided d r (stripped_text correction) (map Some e) b t m)"
    if "check_decision d b' r' e (stripped_text correction) = Inr ()" "check_undecided d m = Inr ()" for d r e b t m b' r'
    using that by (cases d) (auto simp: check_decision_def check_undecided_def review_ok_def decided_def split: if_splits)
  with ok show ?thesis
    unfolding decide_crew_message_status_def Let_def
    by (auto simp: res_bind_Inr_iff intro!: crew_ok_save split: sum.splits)
qed

lemma resubmit_ok: "crew_ok st \<Longrightarrow> crew_ok (fst (resubmit_crew_message_status now mid args st))"
proof -
  assume ok: "crew_ok st"
  have closed: "review_ok (m\<lparr>cm_status := Crew_CLOSED, cm_superseded_by_message_id := x, cm_updated_at := y\<rparr>)"
    if "load_crew_message st1 k = Inr m" "crew_ok st1" for st1 :: "'a CrewStore_scheme" and m x y k
    using load_crew_message_ok(1) [OF that] by (simp add: review_ok_def)
  have "crew_ok st1" if "record_crew_message_status now a st = (st1, r)" for a st1 r
    using record_ok [OF ok, of now a] that by simp
  with ok closed show ?thesis
    unfolding resubmit_crew_message_status_def Let_def
    by (auto intro!: crew_ok_save split: sum.split prod.split)
qed

lemma dispatched_ok:
  assumes "crew_ok st" "\<And>u. str_of u \<noteq> []"
  shows "crew_ok (fst (finish_crew_dispatch str_of m result dispatched_by moment st))"
proof -
  let ?id = "''audit.'' @ cm_id m @ ''.dispatch.'' @ status_id moment"
  have "proposal_ok (automatic_crew_review str_of st m result ?id dispatched_by)"
    using assms(2) by (intro automatic_review_ok) auto
  with assms(1) show ?thesis
    unfolding finish_crew_dispatch_def Let_def
    by (auto simp: proposal_ok_def review_ok_def given_or_def intro!: crew_ok_save split: option.splits)
qed

lemma apply_reviews_ok:
  assumes "apply_reviews by_whom moment proposals st = Inr (st', results)" "crew_ok st"
    "\<forall>(m, v) \<in> set proposals. proposal_ok v \<and> (\<exists>x. load_crew_message st (cm_id m) = Inr x \<and> cm_status x \<noteq> Crew_OPEN)"
  shows "crew_ok st'"
  using assms
proof (induction by_whom moment proposals st arbitrary: st' results rule: apply_reviews.induct)
  case (2 by_whom moment m v rest st)
  obtain latest where latest: "load_crew_message st (cm_id m) = Inr latest" "cm_status latest \<noteq> Crew_OPEN"
    and v: "proposal_ok v" using "2.prems"(3) by auto
  show ?case
  proof (cases "cm_review_status latest = Review_PENDING")
    case False
    with "2.IH"(1) [OF latest(1)] "2.prems" latest show ?thesis by simp
  next
    case True
    define updated where "updated = reviewed_message by_whom moment v latest"
    have id: "cm_id updated = cm_id latest" "cm_status updated = cm_status latest"
      by (simp_all add: updated_def reviewed_message_def decided_def)
    have ok: "crew_ok (save_crew_message updated st)"
      unfolding updated_def reviewed_message_def by (rule crew_ok_save [OF "2.prems"(2) decided_ok [OF v latest(2)]])
    have still: "\<exists>y. load_crew_message (save_crew_message updated st) k = Inr y \<and> cm_status y \<noteq> Crew_OPEN"
      if "load_crew_message st k = Inr x" "cm_status x \<noteq> Crew_OPEN" for k x
      using that latest(2) id by (auto simp: load_saved_message [OF "2.prems"(2)])
    from "2.prems"(3) still have rest: "\<forall>(m, v) \<in> set rest. proposal_ok v \<and>
        (\<exists>x. load_crew_message (save_crew_message updated st) (cm_id m) = Inr x \<and> cm_status x \<noteq> Crew_OPEN)"
      by fastforce
    from "2.prems"(1) latest(1) True obtain more where
      "apply_reviews by_whom moment rest (save_audit_event (review_audit_event moment v latest) (save_crew_message updated st)) =
        Inr (st', more)"
      by (auto simp: res_bind_Inr_iff updated_def)
    with "2.IH"(2) [OF latest(1)] True ok rest show ?thesis unfolding updated_def by simp
  qed
qed simp

lemma listed_message:
  assumes "crew_ok st" "m \<in> set (list_crew_messages st)"
  shows "load_crew_message st (cm_id m) = Inr m"
proof -
  have t: "tbl_ok (cs_messages st)" using assms(1) by (simp add: crew_ok_def keyed_by_def)
  from assms(2) obtain i where "(i, m) \<in> set (cs_messages st)" by (auto simp: list_crew_messages_def)
  then have "tbl_get (cs_messages st) i = Some m" by (simp add: tbl_mem_iff [OF t])
  moreover from this assms(1) have "cm_id m = i" by (auto simp: crew_ok_def keyed_by_def)
  ultimately show ?thesis by (simp add: load_crew_message_def get_payload_def)
qed

lemma reconcile_ok:
  assumes "crew_ok st"
  shows "crew_ok (fst (reconcile_crew_reviews_status now packages message_id reconciled_by reconciled_at st))"
proof -
  let ?ms = "filter (\<lambda>m. cm_status m = Crew_ACKNOWLEDGED \<and> cm_review_status m = Review_PENDING \<and>
    (message_id = None \<or> message_id = Some (cm_id m))) (list_crew_messages st)"
  have "\<forall>(m, v) \<in> set (map (\<lambda>m. (m, reconcile_review st packages m)) ?ms). proposal_ok v \<and>
      (\<exists>x. load_crew_message st (cm_id m) = Inr x \<and> cm_status x \<noteq> Crew_OPEN)"
    using listed_message [OF assms] by (auto simp: reconcile_review_ok)
  with apply_reviews_ok [OF _ assms] assms show ?thesis
    unfolding reconcile_crew_reviews_status_def Let_def by (auto split: sum.split)
qed

definition no_messages :: "CrewStore \<Rightarrow> bool" where
  "no_messages st \<longleftrightarrow> cs_messages st = []"

interpretation crew: step_invariant no_messages crew_step crew_ok
proof
  fix st st'
  show "crew_ok st" if "no_messages st" using that by (simp add: no_messages_def crew_ok_def keyed_by_def)
  show "crew_ok st'" if "crew_ok st" "crew_step st st'"
    using that(2,1) by cases (simp_all add: record_ok decide_ok resubmit_ok dispatched_ok reconcile_ok, simp add: crew_ok_def)
qed

lemma decision_is_final:
  assumes "load_crew_message st mid = Inr m" "cm_review_status m \<notin> {Review_PENDING, Review_WAITING_HUMAN_APPROVAL}"
  shows "\<exists>e. decide_crew_message_status now mid review decided_by reason evidence correction decided_at st = (st, Inl (ValueError e))"
proof (cases "res_bind (review_of review) (\<lambda>d. res_bind (check_decision d decided_by reason (stripped_items evidence)
    (stripped_text correction)) (\<lambda>_. Inr d))")
  case (Inl e)
  consider "review_of review = Inl e" | d where "check_decision d decided_by reason (stripped_items evidence)
      (stripped_text correction) = Inl e"
    using Inl by (auto simp: res_bind_def split: sum.splits)
  then have "\<exists>t. e = ValueError t"
  proof cases
    case 1
    then show ?thesis by (auto simp: review_of_def enum_of_def split: option.splits)
  next
    case 2
    from run_checks_Inl [OF this [unfolded check_decision_def]] show ?thesis by (auto split: if_splits)
  qed
  with Inl show ?thesis
    by (auto simp: decide_crew_message_status_def Let_def res_bind_def split: sum.splits)
next
  case (Inr d)
  have "\<exists>t. check_undecided d m = Inl (ValueError t)"
    using assms(2) by (simp add: check_undecided_def run_checks_def res_bind_def)
  with Inr assms(1) show ?thesis
    by (auto simp: decide_crew_message_status_def Let_def res_bind_Inr_iff)
qed


definition sample_args :: crew_args where
  "sample_args = \<lparr>ca_owner_domain = ''dax'', ca_subject = ''Inventory'', ca_message = ''list it'', ca_priority = ''low'',
     ca_requested_by = ''quark'', ca_message_id = Some ''crew.dax.1'', ca_created_at = Some ''2024-05-01T10:00:00+00:00'',
     ca_related_resource_id = None, ca_related_plan_id = None, ca_related_limit_id = None,
     ca_supersedes_message_id = None, ca_acceptance_criteria = [], ca_request_evidence_ids = []\<rparr>"

definition sample_empty :: CrewStore where
  "sample_empty = \<lparr>st_resources = [], st_claims = [], st_decisions = [], st_approvals = [], st_audit_events = [],
     cs_messages = []\<rparr>"

definition sample_recorded :: CrewStore where
  "sample_recorded = fst (record_crew_message_status 0 sample_args sample_empty)"

definition sample_message :: CrewMessage where
  "sample_message = snd (hd (cs_messages sample_recorded))"

definition sample_dispatched :: CrewStore where
  "sample_dispatched = fst (finish_crew_dispatch (\<lambda>_. ''x'') sample_message
     [(''status'', PStr ''dispatched''), (''reason'', PStr ''done'')] ''sisko'' ''2024-05-01T11:00:00+00:00'' sample_recorded)"

lemma sample_messages:
  "tbl_get (cs_messages sample_recorded) ''crew.dax.1'' = Some sample_message" "cm_status sample_message = Crew_OPEN"
  "map_option cm_review_status (tbl_get (cs_messages sample_dispatched) ''crew.dax.1'') = Some Review_APPROVED"
  by code_simp+

lemma sample_recorded_reach: "reach no_messages crew_step sample_recorded"
proof -
  have "no_messages sample_empty" by (simp add: no_messages_def sample_empty_def)
  then show ?thesis unfolding sample_recorded_def by (blast intro: reach_init reach_step step_record)
qed

lemma sample_dispatch_reach:
  "reach no_messages crew_step (fst (finish_crew_dispatch (\<lambda>_. ''x'') sample_message result whom moment sample_recorded))"
proof -
  have "crew_step sample_recorded (fst (finish_crew_dispatch (\<lambda>_. ''x'') sample_message result whom moment sample_recorded))"
    by (rule step_dispatched [OF sample_messages(1,2)]) simp
  with sample_recorded_reach show ?thesis by (rule reach_step)
qed


section \<open>Resubmitting under the old name\<close>

lemma owner_of_value: "owner_of (owner_value d) = Inr d"
  by (cases d) (simp_all add: owner_of_def enum_of_def)

lemma risk_of_value: "risk_of (risk_value r) = Inr r"
  by (cases r) (simp_all add: risk_of_def enum_of_def)

lemma record_replacement:
  assumes "\<not> blank (ra_subject args)" "\<not> blank (ra_message args)" "ra_new_message_id args = Some mid" "mid \<noteq> []"
  obtains m event where
    "record_crew_message_status now (replacement_args args original) st = (save_audit_event event (save_crew_message m st), Inr (m, event))"
    "cm_id m = mid" "cm_review_status m = Review_PENDING" "cm_supersedes_message_id m = Some (cm_id original)"
proof -
  define a where "a = (replacement_args args original)\<lparr>
    ca_acceptance_criteria := stripped_items (ca_acceptance_criteria (replacement_args args original)),
    ca_request_evidence_ids := stripped_items (ca_request_evidence_ids (replacement_args args original))\<rparr>"
  have a: "ca_message_id a = Some mid" "ca_supersedes_message_id a = Some (cm_id original)"
    using assms by (simp_all add: a_def replacement_args_def)
  obtain m where m: "build_crew_message now a = Inr m"
    using assms by (simp add: a_def build_crew_message_def replacement_args_def owner_of_value risk_of_value Let_def)
  show ?thesis
    by (rule that [of _ m])
      (use m build_crew_message_Inr [OF m] a assms(4) in \<open>simp_all add: record_crew_message_status_def a_def Let_def\<close>)
qed

text \<open>C40: A resubmission under the id of the message it corrects replaces that message and then closes the
  replacement: the new request ends closed and undecided, superseded by itself, and no decision on it is accepted any more.
\<close>

theorem resubmission_under_same_id_is_lost:
  assumes "reach no_messages crew_step st" "load_crew_message st mid = Inr original" "check_resubmit args original = Inr ()"
    "\<not> str_true (cm_superseded_by_message_id original)" "ra_new_message_id args = Some mid" "mid \<noteq> []"
    "\<not> blank (ra_subject args)" "\<not> blank (ra_message args)"
  shows "\<exists>st' m lost. resubmit_crew_message_status now mid args st = (st', Inr (m, lost)) \<and>
    load_crew_message st' mid = Inr lost \<and> cm_status lost = Crew_CLOSED \<and> cm_review_status lost = Review_PENDING \<and>
    cm_supersedes_message_id lost = Some mid \<and> cm_superseded_by_message_id lost = Some mid"
proof -
  have ok: "crew_ok st" by (rule crew.inv_reach [OF assms(1)])
  have id: "cm_id original = mid" by (rule load_crew_message_ok(2) [OF assms(2) ok])
  obtain m event where m: "record_crew_message_status now (replacement_args args original) st =
      (save_audit_event event (save_crew_message m st), Inr (m, event))" "cm_id m = mid"
      "cm_review_status m = Review_PENDING" "cm_supersedes_message_id m = Some (cm_id original)"
    by (rule record_replacement [OF assms(7,8,5,6)])
  define lost where "lost = m\<lparr>cm_status := Crew_CLOSED, cm_superseded_by_message_id := Some (cm_id m), cm_updated_at := cm_created_at m\<rparr>"
  have ok1: "crew_ok (save_audit_event event (save_crew_message m st))"
    using record_ok [OF ok, of now "replacement_args args original"] m(1) by simp
  have "resubmit_crew_message_status now mid args st =
      (save_crew_message lost (save_audit_event event (save_crew_message m st)), Inr (m, lost))"
    using assms(2-4) m id
    by (simp add: resubmit_crew_message_status_def load_saved_message [OF ok] lost_def Let_def)
  moreover have "load_crew_message (save_crew_message lost (save_audit_event event (save_crew_message m st))) mid = Inr lost"
    using m(2) by (simp add: load_saved_message [OF ok1] lost_def)
  moreover have "cm_status lost = Crew_CLOSED" "cm_review_status lost = Review_PENDING"
    "cm_supersedes_message_id lost = Some mid" "cm_superseded_by_message_id lost = Some mid"
    using m id by (simp_all add: lost_def)
  ultimately show ?thesis by blast
qed

definition sample_refused :: CrewStore where
  "sample_refused = fst (finish_crew_dispatch (\<lambda>_. ''x'') sample_message
     [(''status'', PStr ''blocked''), (''reason'', PStr ''no'')] ''sisko'' ''2024-05-01T11:00:00+00:00'' sample_recorded)"

definition sample_again :: resubmit_args where
  "sample_again = \<lparr>ra_subject = ''Inventory'', ra_message = ''list it all'', ra_requested_by = ''quark'',
     ra_new_message_id = Some ''crew.dax.1'', ra_created_at = Some ''2024-05-01T12:00:00+00:00'', ra_expected_requesters = [],
     ra_related_resource_id = None, ra_related_plan_id = None, ra_related_limit_id = None, ra_acceptance_criteria = [],
     ra_request_evidence_ids = []\<rparr>"

lemma sample_refused_message:
  "map_option (check_resubmit sample_again) (tbl_get (cs_messages sample_refused) ''crew.dax.1'') = Some (Inr ())"
  "map_option cm_superseded_by_message_id (tbl_get (cs_messages sample_refused) ''crew.dax.1'') = Some None"
  "\<not> blank (ra_subject sample_again)" "\<not> blank (ra_message sample_again)"
  by code_simp+

theorem resubmission_under_same_id_is_lost_witness:
  "\<exists>st' m lost. resubmit_crew_message_status 0 ''crew.dax.1'' sample_again sample_refused = (st', Inr (m, lost)) \<and>
     cm_status lost = Crew_CLOSED \<and> cm_superseded_by_message_id lost = Some ''crew.dax.1''"
proof -
  have reached: "reach no_messages crew_step sample_refused"
    unfolding sample_refused_def by (rule sample_dispatch_reach)
  obtain original where o: "load_crew_message sample_refused ''crew.dax.1'' = Inr original"
    "check_resubmit sample_again original = Inr ()" "\<not> str_true (cm_superseded_by_message_id original)"
    using sample_refused_message(1,2) by (auto simp: load_crew_message_def get_payload_def)
  have id: "ra_new_message_id sample_again = Some ''crew.dax.1''" by (simp add: sample_again_def)
  from resubmission_under_same_id_is_lost [OF reached o id _ sample_refused_message(3,4), of 0] show ?thesis by auto
qed

end
