(* ===== verification/Storage_Adapter.thy ===== *)
theory Storage_Adapter
  imports Crew
begin

text \<open>
  The boundary to bounded storage adapters, \<^verbatim>\<open>src/overseer/storage_adapter.py\<close>: requests and their canonical
  digests, the verification of an authorization against its request, claim and approval, the client
  over an injected tool call, and the dispatcher with its idempotency records.

  \<open>storage_env\<close> collects what is not code of the repository: the SHA-256 digest of a text, Python's \<open>repr\<close> of
  a float, its \<open>str\<close> of floats, lists and mappings, and the text under which SQLite looks up a bound value that
  is not a text. JSON texts are modelled.
\<close>

record storage_env =
  se_sha256 :: "string \<Rightarrow> string"
  se_float_repr :: "rat \<Rightarrow> string"
  se_str :: "pyval \<Rightarrow> string"
  se_bind :: "pyval \<Rightarrow> string result"

section \<open>Canonical JSON\<close>

definition hex_char :: "nat \<Rightarrow> char" where
  "hex_char n = (if n < 10 then char_of (48 + n) else char_of (87 + n))"

text \<open>\<open>ensure_ascii\<close>: the two quoting characters, the short escapes, and \<^verbatim>\<open>\u00xx\<close> outside printable ASCII.\<close>

definition json_escape :: "char \<Rightarrow> string" where
  "json_escape c =
     (let n = (of_char c :: nat)
      in if n = 34 then [CHR 0x5C, CHR 0x22] else if n = 92 then [CHR 0x5C, CHR 0x5C]
         else if n = 10 then [CHR 0x5C, CHR ''n''] else if n = 13 then [CHR 0x5C, CHR ''r'']
         else if n = 9 then [CHR 0x5C, CHR ''t''] else if n = 8 then [CHR 0x5C, CHR ''b'']
         else if n = 12 then [CHR 0x5C, CHR ''f'']
         else if 32 \<le> n \<and> n \<le> 126 then [c]
         else [CHR 0x5C] @ ''u00'' @ [hex_char (n div 16), hex_char (n mod 16)])"

definition json_quote :: "string \<Rightarrow> string" where
  "json_quote s = [CHR 0x22] @ concat (map json_escape s) @ [CHR 0x22]"

text \<open>\<^verbatim>\<open>json.dumps(value, sort_keys=True, separators=(",", ":"))\<close>\<close>

fun json_text :: "(rat \<Rightarrow> string) \<Rightarrow> pyval \<Rightarrow> string" where
  "json_text fr PNone = ''null''"
| "json_text fr (PBool b) = (if b then ''true'' else ''false'')"
| "json_text fr (PInt i) = str_int i"
| "json_text fr (PFloat x) = fr x"
| "json_text fr (PStr s) = json_quote s"
| "json_text fr (PList vs) = ''['' @ py_join '','' (map (json_text fr) vs) @ '']''"
| "json_text fr (PDict kvs) =
     ''{'' @ py_join '','' (map (\<lambda>(k, t). json_quote k @ '':'' @ t)
       (sort_key fst (map (\<lambda>(k, v). (k, json_text fr v)) kvs))) @ ''}''"

definition json_digest :: "storage_env \<Rightarrow> pyval \<Rightarrow> string" where
  "json_digest env v = ''sha256:'' @ se_sha256 env (json_text (se_float_repr env) v)"

section \<open>Constants and records\<close>

definition CONTRACT_VERSION :: string where "CONTRACT_VERSION = ''1.0''"

definition ADAPTER_KIND :: string where "ADAPTER_KIND = ''bounded_storage_v1''"

definition ALLOWED_ACTIONS :: "string set" where
  "ALLOWED_ACTIONS = {''directory.create'', ''file.write'', ''path.copy'', ''path.move'', ''path.delete'',
     ''backup.create'', ''backup.verify_restore''}"

definition REQUIRED_READINESS :: "string set" where
  "REQUIRED_READINESS = {''durable_operation_journal'', ''descriptor_relative_containment'', ''strict_tool_schemas'',
     ''transport_verified''}"

definition BACKUP_ENCRYPTION_PROFILE :: string where
  "BACKUP_ENCRYPTION_PROFILE = ''gpg-symmetric-aes256-iterated-s2k''"

definition BACKUP_ACTION_PARAMETERS :: "(string, string set) pydict" where
  "BACKUP_ACTION_PARAMETERS =
     [(''backup.create'', {''source_root_id'', ''retention_count'', ''encryption_profile''}),
      (''backup.verify_restore'', {''artifact_id'', ''expected_artifact_digest'', ''expected_manifest_digest''})]"

definition BACKUP_LIMITS :: "string set" where "BACKUP_LIMITS = {''max_bytes'', ''max_items''}"

datatype StorageAdapterStatus =
    Adapter_REGISTERED | Adapter_APPROVAL_PENDING | Adapter_APPROVED | Adapter_ENABLED | Adapter_SUSPENDED
  | Adapter_EXPIRED | Adapter_REVOKED | Adapter_RETIRED

datatype StorageResultStatus =
    Result_IN_PROGRESS | Result_COMPLETED | Result_FAILED | Result_INDETERMINATE | Result_CANCELLED

record StorageAdapterRegistration =
  ar_adapter_id :: string
  ar_endpoint_ref :: string
  ar_capability_digest :: string
  ar_allowed_actions :: "string set"
  ar_registration_revision :: int
  ar_status :: StorageAdapterStatus
  ar_kind :: string
  ar_contract_version :: string
  ar_display_name :: string
  ar_transport :: string
  ar_tool_prefix :: string
  ar_owner_domain :: string
  ar_operator_owner :: string
  ar_allowed_resource_prefixes :: "string list"
  ar_approval_id :: "string option"
  ar_approved_revision :: "int option"
  ar_enabled_at :: "string option"
  ar_expires_at :: "string option"
  ar_revoked_at :: "string option"
  ar_created_at :: "string option"
  ar_updated_at :: "string option"
  ar_readiness_checks :: "string set"

record StorageExecutionRequest =
  sq_request_id :: string
  sq_adapter_id :: string
  sq_adapter_revision :: int
  sq_project_id :: string
  sq_resource_id :: string
  sq_root_id :: string
  sq_action :: string
  sq_parameters :: "(string, pyval) pydict"
  sq_policy_revision :: string
  sq_claim_id :: string
  sq_approval_id :: string
  sq_authorization_ref :: string
  sq_idempotency_key :: string
  sq_requested_by :: string
  sq_reason :: string
  sq_acceptance_criteria :: "string list"
  sq_limits :: "(string, pyval) pydict"
  sq_expires_at :: string
  sq_contract_version :: string
  sq_request_digest :: string
  sq_created_at :: "string option"

record StorageExecutionReceipt =
  sp_request_id :: string
  sp_operation_id :: string
  sp_state :: string
  sp_request_digest :: string
  sp_adapter_revision :: int

record StorageExecutionResult =
  sx_request_id :: string
  sx_operation_id :: string
  sx_adapter_id :: string
  sx_adapter_revision :: int
  sx_request_digest :: string
  sx_status :: StorageResultStatus
  sx_action :: string
  sx_summary :: string
  sx_evidence_ids :: "string list"
  sx_verification_outcome :: string
  sx_host_state_changed :: pyval
  sx_error_code :: "string option"
  sx_started_at :: "string option"
  sx_finished_at :: "string option"

record StorageDispatchRecord =
  sr_id :: string
  sr_adapter_id :: string
  sr_project_id :: string
  sr_idempotency_key :: string
  sr_request_digest :: string
  sr_request_id :: string
  sr_status :: string
  sr_operation_id :: "string option"
  sr_result :: "StorageExecutionResult option"

record StorageAuthorizationRecord =
  sa_authorization_ref :: string
  sa_request_id :: string
  sa_request_digest :: string
  sa_project_id :: string
  sa_root_id :: string
  sa_action :: string
  sa_policy_revision :: string
  sa_claim_id :: string
  sa_approval_id :: string
  sa_target_digest :: string
  sa_limits :: "(string, pyval) pydict"
  sa_approved_at :: string
  sa_expires_at :: string
  sa_status :: string
  sa_revoked_at :: "string option"

record StorageRootAuthorizationRecord =
  ro_authorization_ref :: string
  ro_action :: string
  ro_project_id :: string
  ro_root_id :: string
  ro_policy_revision :: string
  ro_root_identity :: string
  ro_alias :: string
  ro_status :: string
  ro_max_bytes :: int
  ro_target_digest :: string
  ro_approval_id :: string
  ro_approved_at :: string
  ro_expires_at :: string
  ro_authorization_status :: string
  ro_revoked_at :: "string option"

section \<open>Times, digests and identifiers\<close>

text \<open>
  \<open>_timestamp\<close> and \<open>_time\<close>: an aware datetime converted to UTC; \<open>astimezone\<close> raises when the result leaves the
  calendar.
\<close>

definition aware_instant :: "string \<Rightarrow> string \<Rightarrow> int result" where
  "aware_instant naive_message s =
     res_bind (fromisoformat (replace_char CHR ''Z'' ''+00:00'' s)) (\<lambda>parsed.
       if dt_offset parsed = None then Inl (ValueError naive_message)
       else let t = utc_instant parsed
            in if FIRST_INSTANT \<le> t \<and> t < END_INSTANT then Inr t
               else Inl (OverflowError ''date value out of range''))"

definition storage_timestamp :: "string \<Rightarrow> int result" where
  "storage_timestamp = aware_instant ''timestamp must include timezone''"

definition hex_digit :: "char \<Rightarrow> bool" where
  "hex_digit c \<longleftrightarrow> c \<in> set ''0123456789abcdef''"

definition sha256_digest :: "string \<Rightarrow> bool" where
  "sha256_digest s \<longleftrightarrow> startswith s ''sha256:'' \<and> length s = 71 \<and> list_all hex_digit (drop 7 s)"

text \<open>\<^verbatim>\<open>re.fullmatch(r"[A-Za-z0-9][A-Za-z0-9._-]{0,127}", value)\<close>\<close>

definition ident_text :: "string \<Rightarrow> bool" where
  "ident_text s = (case s of [] \<Rightarrow> False | c # cs \<Rightarrow> (is_letter c \<or> is_digit c) \<and> length cs \<le> 127 \<and>
     list_all (\<lambda>d. is_letter d \<or> is_digit d \<or> d \<in> set ''._-'') cs)"

fun opaque_id :: "pyval \<Rightarrow> bool" where
  "opaque_id (PStr s) = ident_text s"
| "opaque_id v = False"

text \<open>\<open>isinstance(v, int) and not isinstance(v, bool) and v >= low\<close>\<close>

definition int_from :: "int \<Rightarrow> pyval \<Rightarrow> bool" where
  "int_from low v = (case v of PInt i \<Rightarrow> low \<le> i | _ \<Rightarrow> False)"

definition dict_item :: "(string, pyval) pydict \<Rightarrow> string \<Rightarrow> pyval" where
  "dict_item d k = (case dict_get d k of None \<Rightarrow> PNone | Some v \<Rightarrow> v)"

section \<open>Registrations and requests\<close>

definition accepts :: "int \<Rightarrow> StorageAdapterRegistration \<Rightarrow> string \<Rightarrow> string \<Rightarrow> bool result" where
  "accepts current r resource_id action =
     (if ar_status r = Adapter_ENABLED \<and> ar_approved_revision r = Some (ar_registration_revision r) \<and>
         ar_contract_version r = CONTRACT_VERSION \<and> ar_kind r = ADAPTER_KIND \<and>
         REQUIRED_READINESS \<subseteq> ar_readiness_checks r \<and> action \<in> ar_allowed_actions r \<and>
         ar_allowed_actions r \<subseteq> ALLOWED_ACTIONS \<and>
         list_ex (\<lambda>p. startswith resource_id p) (ar_allowed_resource_prefixes r) \<and> \<not> str_true (ar_revoked_at r)
      then if \<not> str_true (ar_expires_at r) then Inr True
           else res_bind (storage_timestamp (the (ar_expires_at r))) (\<lambda>t. Inr (current < t))
      else Inr False)"

definition canonical_digest :: "storage_env \<Rightarrow> StorageExecutionRequest \<Rightarrow> string" where
  "canonical_digest env r = json_digest env (PDict
     [(''request_id'', PStr (sq_request_id r)), (''adapter_id'', PStr (sq_adapter_id r)),
      (''adapter_revision'', PInt (sq_adapter_revision r)), (''project_id'', PStr (sq_project_id r)),
      (''resource_id'', PStr (sq_resource_id r)), (''root_id'', PStr (sq_root_id r)), (''action'', PStr (sq_action r)),
      (''parameters'', PDict (sq_parameters r)), (''policy_revision'', PStr (sq_policy_revision r)),
      (''claim_id'', PStr (sq_claim_id r)), (''approval_id'', PStr (sq_approval_id r)),
      (''authorization_ref'', PStr (sq_authorization_ref r)), (''idempotency_key'', PStr (sq_idempotency_key r)),
      (''requested_by'', PStr (sq_requested_by r)), (''reason'', PStr (sq_reason r)),
      (''acceptance_criteria'', str_list (sq_acceptance_criteria r)), (''limits'', PDict (sq_limits r)),
      (''expires_at'', PStr (sq_expires_at r)), (''contract_version'', PStr (sq_contract_version r)),
      (''created_at'', opt_str (sq_created_at r))])"

definition with_digest :: "storage_env \<Rightarrow> StorageExecutionRequest \<Rightarrow> StorageExecutionRequest" where
  "with_digest env r = r\<lparr>sq_request_digest := canonical_digest env r\<rparr>"

text \<open>In the digest the parameters override the fixed fields, in the payload that is sent the fixed fields override them.\<close>

definition dict_merge :: "(string, pyval) pydict \<Rightarrow> (string, pyval) pydict \<Rightarrow> (string, pyval) pydict" where
  "dict_merge d e = fold (\<lambda>(k, v). dict_set k v) e d"

definition adapter_fields :: "StorageExecutionRequest \<Rightarrow> (string, pyval) pydict" where
  "adapter_fields r =
     [(''project_id'', PStr (sq_project_id r)), (''root_id'', PStr (sq_root_id r)), (''request_id'', PStr (sq_request_id r)),
      (''idempotency_key'', PStr (sq_idempotency_key r)), (''authorization_ref'', PStr (sq_authorization_ref r)),
      (''policy_revision'', PStr (sq_policy_revision r)), (''reason'', PStr (sq_reason r))]"

definition canonical_adapter_request_digest :: "storage_env \<Rightarrow> StorageExecutionRequest \<Rightarrow> string" where
  "canonical_adapter_request_digest env r =
     json_digest env (PDict [(''action'', PStr (sq_action r)),
       (''request'', PDict (dict_merge (adapter_fields r) (sq_parameters r)))])"

definition submitted_payload :: "StorageExecutionRequest \<Rightarrow> (string, pyval) pydict" where
  "submitted_payload r = dict_merge (sq_parameters r) (adapter_fields r)"

definition validate_storage_execution_request :: "storage_env \<Rightarrow> StorageExecutionRequest \<Rightarrow> unit result" where
  "validate_storage_execution_request env r =
     (case dict_get BACKUP_ACTION_PARAMETERS (sq_action r) of
        None \<Rightarrow> Inr ()
      | Some expected \<Rightarrow>
          let p = dict_item (sq_parameters r); text_at = (\<lambda>k. py_str (se_str env) (p k))
          in run_checks
            [if set (map fst (sq_parameters r)) \<noteq> expected
               then Inl (StorageAdapterError ''INVALID_ARGUMENT'' ''exact backup action parameters are required'') else Inr (),
             if sq_action r = ''backup.create'' then
               (if \<not> opaque_id (p ''source_root_id'') \<or> p ''retention_count'' \<notin> {PInt 3, PFloat 3} \<or>
                   p ''encryption_profile'' \<noteq> PStr BACKUP_ENCRYPTION_PROFILE
                then Inl (StorageAdapterError ''INVALID_ARGUMENT'' ''backup creation parameters are invalid'') else Inr ())
             else
               (if \<not> opaque_id (p ''artifact_id'') \<or> \<not> startswith (text_at ''artifact_id'') ''backup-'' \<or>
                   \<not> sha256_digest (text_at ''expected_artifact_digest'') \<or>
                   \<not> sha256_digest (text_at ''expected_manifest_digest'')
                then Inl (StorageAdapterError ''INVALID_ARGUMENT'' ''backup verification parameters are invalid'') else Inr ()),
             if set (map fst (sq_limits r)) \<noteq> BACKUP_LIMITS \<or> \<not> list_all (int_from 1) (dict_values (sq_limits r))
               then Inl (StorageAdapterError ''INVALID_ARGUMENT'' ''exact positive backup limits are required'') else Inr ()])"

section \<open>Verification of an authorization\<close>

definition STORAGE_CLAIM_TYPES :: "ClaimType set" where
  "STORAGE_CLAIM_TYPES = {Claim_LEASE, Claim_LOCK, Claim_CHECKOUT, Claim_HOLD}"

definition STORAGE_CLAIM_STATUSES :: "ClaimStatus set" where
  "STORAGE_CLAIM_STATUSES = {Status_APPROVED, Status_ACTIVE}"

definition dict_eq :: "(string, pyval) pydict \<Rightarrow> (string, pyval) pydict \<Rightarrow> bool" where
  "dict_eq d e \<longleftrightarrow> set d = set e"

text \<open>Raise a storage error when a condition holds.\<close>

definition reject_when :: "bool \<Rightarrow> string \<Rightarrow> string \<Rightarrow> unit result" where
  "reject_when c code message = (if c then Inl (StorageAdapterError code message) else Inr ())"

definition verify_storage_authorization ::
  "storage_env \<Rightarrow> int \<Rightarrow> StorageAuthorizationRecord \<Rightarrow> StorageExecutionRequest \<Rightarrow> Claim \<Rightarrow> ApprovalRequest \<Rightarrow>
   string \<Rightarrow> string \<Rightarrow> string \<Rightarrow> string \<Rightarrow> string \<Rightarrow> (string, pyval) pydict result" where
  "verify_storage_authorization env current a r c ap request_digest project_id root_id action policy_revision =
     res_bind (reject_when
       ((sa_request_id a, sa_target_digest a, sa_project_id a, sa_root_id a, sa_action a, sa_policy_revision a) \<noteq>
          (sq_request_id r, request_digest, project_id, root_id, action, policy_revision) \<or>
        sq_request_digest r \<noteq> sa_request_digest a \<or> canonical_digest env r \<noteq> sa_request_digest a \<or>
        canonical_adapter_request_digest env r \<noteq> request_digest)
       ''AUTHORIZATION_MISMATCH'' ''storage authorization does not match the canonical request'') (\<lambda>_.
     res_bind (if sa_status a \<noteq> ''approved'' \<or> str_true (sa_revoked_at a) then Inr True
       else res_bind (storage_timestamp (sa_expires_at a)) (\<lambda>t. Inr (t \<le> current))) (\<lambda>inactive.
     res_bind (reject_when inactive ''AUTHORIZATION_INVALID'' ''storage authorization is inactive or expired'') (\<lambda>_.
     res_bind (validate_storage_execution_request env r) (\<lambda>_.
     res_bind (reject_when (\<not> dict_eq (sa_limits a) (sq_limits r))
       ''AUTHORIZATION_MISMATCH'' ''storage authorization limits do not match'') (\<lambda>_.
     res_bind (reject_when (sq_project_id r \<noteq> project_id \<or> sq_root_id r \<noteq> root_id \<or> sq_action r \<noteq> action \<or>
         sq_policy_revision r \<noteq> policy_revision)
       ''AUTHORIZATION_MISMATCH'' ''storage request fields do not match'') (\<lambda>_.
     res_bind (reject_when (cl_id c \<noteq> sa_claim_id a \<or> cl_id c \<noteq> sq_claim_id r \<or> cl_resource_id c \<noteq> sq_resource_id r \<or>
         cl_owner_thread c \<noteq> sq_requested_by r \<or> cl_status c \<notin> STORAGE_CLAIM_STATUSES \<or> cl_claim_type c \<notin> STORAGE_CLAIM_TYPES)
       ''CLAIM_INVALID'' ''storage claim does not match or is inactive'') (\<lambda>_.
     res_bind (if \<not> str_true (cl_expires_at c) then Inr True
       else res_bind (storage_timestamp (the (cl_expires_at c))) (\<lambda>t.
         res_bind (storage_timestamp (sa_expires_at a)) (\<lambda>u. Inr (t \<le> u)))) (\<lambda>uncovered.
     res_bind (reject_when uncovered ''CLAIM_INVALID'' ''storage claim does not cover authorization expiry'') (\<lambda>_.
     res_bind (reject_when (apr_id ap \<noteq> sa_approval_id a \<or> apr_id ap \<noteq> sq_approval_id r \<or>
         apr_subject_id ap \<noteq> sq_request_id r \<or> apr_status ap \<noteq> Appr_APPROVED)
       ''AUTHORIZATION_INVALID'' ''storage approval does not match or is inactive'') (\<lambda>_.
     Inr [(''authorization_ref'', PStr (sa_authorization_ref a)), (''request_id'', PStr (sa_request_id a)),
       (''project_id'', PStr (sa_project_id a)), (''root_id'', PStr (sa_root_id a)), (''action'', PStr (sa_action a)),
       (''target_digest'', PStr (sa_target_digest a)), (''policy_revision'', PStr (sa_policy_revision a)),
       (''claim_id'', PStr (sa_claim_id a)), (''approval_id'', PStr (sa_approval_id a)),
       (''approved_at'', PStr (sa_approved_at a)), (''expires_at'', PStr (sa_expires_at a)),
       (''limits'', PDict (sa_limits a)), (''redactions_applied'', PBool True)]))))))))))"

section \<open>The client over a tool call\<close>

text \<open>
  \<open>call_tool\<close> is the injected MCP call: a tool name and a payload give a response mapping or an exception.
\<close>

type_synonym tool_call = "string \<Rightarrow> (string, pyval) pydict \<Rightarrow> (string, pyval) pydict result"

definition TOOL_BY_ACTION :: "(string, string) pydict" where
  "TOOL_BY_ACTION =
     [(''directory.create'', ''underdark_directory_create''), (''file.write'', ''underdark_file_write''),
      (''path.copy'', ''underdark_path_copy''), (''path.move'', ''underdark_path_move''),
      (''path.delete'', ''underdark_path_delete''), (''backup.create'', ''underdark_backup_create''),
      (''backup.verify_restore'', ''underdark_backup_verify_restore'')]"

definition client_capabilities :: "(string, pyval) pydict" where
  "client_capabilities = [(''contract_version'', PStr CONTRACT_VERSION),
     (''actions'', str_list (sort (map fst TOOL_BY_ACTION)))]"

definition client_health :: "tool_call \<Rightarrow> (string, pyval) pydict result" where
  "client_health call_tool = call_tool ''underdark_health_get'' []"

definition sub_mapping :: "(string, pyval) pydict \<Rightarrow> string \<Rightarrow> (string, pyval) pydict" where
  "sub_mapping d k = (case dict_get d k of Some (PDict kvs) \<Rightarrow> kvs | _ \<Rightarrow> [])"

text \<open>\<^verbatim>\<open>str(d.get(k) or fallback)\<close>\<close>

definition text_or :: "storage_env \<Rightarrow> (string, pyval) pydict \<Rightarrow> string \<Rightarrow> string \<Rightarrow> string" where
  "text_or env d k fallback = (if py_truthy (dict_item d k) then py_str (se_str env) (dict_item d k) else fallback)"

definition validate_envelope :: "(string, pyval) pydict \<Rightarrow> StorageExecutionRequest \<Rightarrow> unit result" where
  "validate_envelope response r =
     reject_when (dict_item response ''contract_version'' \<noteq> PStr CONTRACT_VERSION \<or>
         dict_item response ''request_id'' \<noteq> PStr (sq_request_id r))
       ''CONTRACT_MISMATCH'' ''adapter response identity or contract mismatch''"

definition RECEIPT_STATES :: "string set" where
  "RECEIPT_STATES = {''accepted'', ''authorized'', ''executing'', ''succeeded'', ''failed'', ''indeterminate'', ''cancelled''}"

definition client_submit ::
  "storage_env \<Rightarrow> tool_call \<Rightarrow> int \<Rightarrow> StorageExecutionRequest \<Rightarrow> StorageExecutionReceipt result" where
  "client_submit env call_tool revision r =
     res_bind (validate_storage_execution_request env r) (\<lambda>_.
     case dict_get TOOL_BY_ACTION (sq_action r) of
       None \<Rightarrow> Inl (StorageAdapterError ''REQUEST_REJECTED'' ''unsupported storage action'')
     | Some tool \<Rightarrow>
         res_bind (call_tool tool (submitted_payload r)) (\<lambda>response.
         res_bind (validate_envelope response r) (\<lambda>_.
           if dict_get response ''ok'' \<noteq> Some (PBool True)
           then Inl (StorageAdapterError (text_or env (sub_mapping response ''error'') ''code'' ''REQUEST_REJECTED'')
                  ''storage adapter rejected request'')
           else let state = text_or env (sub_mapping response ''result'') ''state'' ''accepted''
           in case dict_item response ''operation_id'' of
                PStr operation_id \<Rightarrow>
                  if state \<notin> RECEIPT_STATES then Inl (StorageAdapterError ''RESULT_INVALID'' ''adapter receipt is malformed'')
                  else Inr \<lparr>sp_request_id = sq_request_id r, sp_operation_id = operation_id, sp_state = state,
                    sp_request_digest = sq_request_digest r, sp_adapter_revision = revision\<rparr>
              | _ \<Rightarrow> Inl (StorageAdapterError ''RESULT_INVALID'' ''adapter receipt is malformed''))))"

definition result_status_of :: "string \<Rightarrow> StorageResultStatus option" where
  "result_status_of state = dict_get
     [(''accepted'', Result_IN_PROGRESS), (''authorized'', Result_IN_PROGRESS), (''executing'', Result_IN_PROGRESS),
      (''succeeded'', Result_COMPLETED), (''failed'', Result_FAILED), (''indeterminate'', Result_INDETERMINATE),
      (''cancelled'', Result_CANCELLED)] state"

fun all_texts :: "pyval list \<Rightarrow> string list option" where
  "all_texts [] = Some []"
| "all_texts (PStr s # vs) = map_option (\<lambda>ss. s # ss) (all_texts vs)"
| "all_texts (v # vs) = None"

definition client_get_operation ::
  "storage_env \<Rightarrow> tool_call \<Rightarrow> int \<Rightarrow> string \<Rightarrow> string \<Rightarrow> StorageExecutionResult result" where
  "client_get_operation env call_tool revision project_id operation_id =
     res_bind (call_tool ''underdark_operation_get''
       [(''project_id'', PStr project_id), (''operation_id'', PStr operation_id)]) (\<lambda>response.
       case (dict_get response ''ok'', dict_get response ''result'') of
         (Some (PBool True), Some (PDict result)) \<Rightarrow>
           let state = py_str (se_str env) (dict_item result ''state''); evidence = sub_mapping response ''evidence'';
               ids = (case dict_item evidence ''evidence_ids'' of PList vs \<Rightarrow> all_texts vs | _ \<Rightarrow> None)
           in (case (result_status_of state, ids) of
                 (Some status, Some texts) \<Rightarrow>
                   Inr \<lparr>sx_request_id = py_str (se_str env) (dict_item response ''request_id''), sx_operation_id = operation_id,
                     sx_adapter_id = ''storage-adapter.theunderdark'', sx_adapter_revision = revision,
                     sx_request_digest = [], sx_status = status, sx_action = text_or env result ''action'' [],
                     sx_summary = ''bounded storage operation result'', sx_evidence_ids = texts,
                     sx_verification_outcome = (if status = Result_COMPLETED then ''verified'' else state),
                     sx_host_state_changed = (case dict_get evidence ''host_state_changed'' of
                       None \<Rightarrow> PStr ''unknown'' | Some v \<Rightarrow> v),
                     sx_error_code = None, sx_started_at = None, sx_finished_at = None\<rparr>
               | _ \<Rightarrow> Inl (StorageAdapterError ''RESULT_INVALID'' ''adapter operation state or evidence is malformed''))
       | _ \<Rightarrow> Inl (StorageAdapterError ''RESULT_INVALID'' ''adapter operation result is malformed''))"

section \<open>The dispatcher\<close>

text \<open>
  The dispatcher's records, and every request that reached the client's \<open>submit\<close>, in order. \<open>submit\<close> is what the
  client built for the registration does with the request.
\<close>

type_synonym dispatch_slot = "string \<times> string \<times> string"

record StorageDispatcher =
  sd_records :: "(dispatch_slot, StorageDispatchRecord) pydict"
  sd_submitted :: "StorageExecutionRequest list"

definition dispatch_key :: "StorageExecutionRequest \<Rightarrow> dispatch_slot" where
  "dispatch_key r = (sq_adapter_id r, sq_project_id r, sq_idempotency_key r)"

fun matching_registrations ::
  "int \<Rightarrow> StorageExecutionRequest \<Rightarrow> StorageAdapterRegistration list \<Rightarrow> StorageAdapterRegistration list result" where
  "matching_registrations current r [] = Inr []"
| "matching_registrations current r (g # gs) =
     (if ar_adapter_id g = sq_adapter_id r \<and> ar_registration_revision g = sq_adapter_revision r then
        res_bind (accepts current g (sq_resource_id r) (sq_action r)) (\<lambda>b.
        res_bind (matching_registrations current r gs) (\<lambda>rest. Inr (if b then g # rest else rest)))
      else matching_registrations current r gs)"

definition check_dispatch ::
  "storage_env \<Rightarrow> int \<Rightarrow> StorageAdapterRegistration list \<Rightarrow> StorageExecutionRequest \<Rightarrow> Claim \<Rightarrow> ApprovalRequest \<Rightarrow>
   StorageAdapterRegistration result" where
  "check_dispatch env current registrations r c ap =
     res_bind (validate_storage_execution_request env r) (\<lambda>_.
     res_bind (reject_when (sq_request_digest r \<noteq> canonical_digest env r) ''REQUEST_REJECTED'' ''request digest mismatch'') (\<lambda>_.
     res_bind (matching_registrations current r registrations) (\<lambda>matches.
     res_bind (reject_when (length matches \<noteq> 1)
       ''ADAPTER_DISABLED'' ''exactly one enabled matching storage adapter is required'') (\<lambda>_.
     res_bind (storage_timestamp (sq_expires_at r)) (\<lambda>deadline.
     res_bind (reject_when (deadline \<le> current) ''AUTHORIZATION_INVALID'' ''storage request expired'') (\<lambda>_.
     res_bind (reject_when (cl_id c \<noteq> sq_claim_id r \<or> cl_resource_id c \<noteq> sq_resource_id r \<or>
         cl_owner_thread c \<noteq> sq_requested_by r \<or> cl_claim_type c \<notin> STORAGE_CLAIM_TYPES \<or> cl_status c \<notin> STORAGE_CLAIM_STATUSES)
       ''CLAIM_INVALID'' ''exclusive storage claim does not match'') (\<lambda>_.
     res_bind (if \<not> str_true (cl_expires_at c) then Inr False
       else res_bind (storage_timestamp (the (cl_expires_at c))) (\<lambda>t. Inr (t \<le> deadline))) (\<lambda>uncovered.
     res_bind (reject_when uncovered ''CLAIM_INVALID'' ''claim does not cover request deadline'') (\<lambda>_.
     res_bind (reject_when (apr_id ap \<noteq> sq_approval_id r \<or> apr_subject_id ap \<noteq> sq_request_id r \<or> apr_status ap \<noteq> Appr_APPROVED)
       ''AUTHORIZATION_INVALID'' ''operation approval does not match'') (\<lambda>_.
     Inr (hd matches)))))))))))"

definition storage_dispatch ::
  "storage_env \<Rightarrow> (StorageAdapterRegistration \<Rightarrow> StorageExecutionRequest \<Rightarrow> StorageExecutionReceipt result) \<Rightarrow> int \<Rightarrow>
   StorageAdapterRegistration list \<Rightarrow> StorageExecutionRequest \<Rightarrow> Claim \<Rightarrow> ApprovalRequest \<Rightarrow> StorageDispatcher \<Rightarrow>
   StorageDispatcher \<times> StorageDispatchRecord result" where
  "storage_dispatch env submit current registrations r c ap d =
     (case check_dispatch env current registrations r c ap of
        Inl e \<Rightarrow> (d, Inl e)
      | Inr registration \<Rightarrow>
          let key = dispatch_key r
          in case dict_get (sd_records d) key of
            Some prior \<Rightarrow>
              if sr_request_digest prior \<noteq> sq_request_digest r
              then (d, Inl (StorageAdapterError ''IDEMPOTENCY_CONFLICT'' ''idempotency key belongs to another request''))
              else (d, Inr prior)
          | None \<Rightarrow>
              let intent = \<lparr>sr_id = ''storage-dispatch.'' @ sq_request_id r, sr_adapter_id = sq_adapter_id r,
                    sr_project_id = sq_project_id r, sr_idempotency_key = sq_idempotency_key r,
                    sr_request_digest = sq_request_digest r, sr_request_id = sq_request_id r, sr_status = ''dispatching'',
                    sr_operation_id = None, sr_result = None\<rparr>;
                  d1 = d\<lparr>sd_records := dict_set key intent (sd_records d), sd_submitted := sd_submitted d @ [r]\<rparr>
              in case submit registration r of
                   Inl e \<Rightarrow>
                     (d1\<lparr>sd_records := dict_set key (intent\<lparr>sr_status := ''dispatch_unknown''\<rparr>) (sd_records d1)\<rparr>,
                      Inl (case e of StorageAdapterError code message \<Rightarrow> e
                           | _ \<Rightarrow> StorageAdapterError ''TIMEOUT_UNKNOWN'' ''storage dispatch outcome is unknown''))
                 | Inr receipt \<Rightarrow>
                     let accepted = intent\<lparr>sr_status := ''in_progress'', sr_operation_id := Some (sp_operation_id receipt)\<rparr>
                     in (d1\<lparr>sd_records := dict_set key accepted (sd_records d1)\<rparr>, Inr accepted))"

section \<open>A request is submitted at most once\<close>

inductive dispatch_step :: "storage_env \<Rightarrow> StorageDispatcher \<Rightarrow> StorageDispatcher \<Rightarrow> bool" for env where
  dispatch_step: "dispatch_step env d (fst (storage_dispatch env submit current registrations r c ap d))"

definition fresh_dispatcher :: "StorageDispatcher \<Rightarrow> bool" where
  "fresh_dispatcher d \<longleftrightarrow> d = \<lparr>sd_records = [], sd_submitted = []\<rparr>"

text \<open>Every submission left a record of its own digest under its key, and no key was submitted twice.\<close>

definition dispatcher_ok :: "StorageDispatcher \<Rightarrow> bool" where
  "dispatcher_ok d \<longleftrightarrow> distinct (map dispatch_key (sd_submitted d)) \<and>
     (\<forall>r \<in> set (sd_submitted d). \<exists>rec. dict_get (sd_records d) (dispatch_key r) = Some rec \<and>
        sr_request_digest rec = sq_request_digest r \<and> sr_status rec \<in> {''dispatch_unknown'', ''in_progress''})"

lemma dispatch_cases:
  assumes "fst (storage_dispatch env submit current registrations r c ap d) = d'"
  obtains (same) "d' = d"
  | (sent) rec where "dict_get (sd_records d) (dispatch_key r) = None" "sd_submitted d' = sd_submitted d @ [r]"
      "dict_get (sd_records d') = (dict_get (sd_records d))(dispatch_key r \<mapsto> rec)"
      "sr_request_digest rec = sq_request_digest r" "sr_status rec \<in> {''dispatch_unknown'', ''in_progress''}"
proof (cases "check_dispatch env current registrations r c ap")
  case (Inl e)
  with assms show ?thesis by (intro same) (simp add: storage_dispatch_def)
next
  case (Inr registration)
  note checked = Inr
  show ?thesis
  proof (cases "dict_get (sd_records d) (dispatch_key r)")
    case (Some prior)
    with assms checked show ?thesis by (intro same) (auto simp: storage_dispatch_def Let_def split: if_splits)
  next
    case None
    show ?thesis
    proof (cases "submit registration r")
      case (Inl e)
      with None checked assms show ?thesis
        by (intro sent) (auto simp: storage_dispatch_def Let_def fun_eq_iff)
    next
      case (Inr receipt)
      with None checked assms show ?thesis
        by (intro sent) (auto simp: storage_dispatch_def Let_def fun_eq_iff)
    qed
  qed
qed

lemma dispatcher_ok_step: "dispatch_step env d d' \<Longrightarrow> dispatcher_ok d \<Longrightarrow> dispatcher_ok d'"
proof (induction rule: dispatch_step.induct)
  case (dispatch_step d submit current registrations r c ap)
  show ?case
  proof (rule dispatch_cases [OF refl, of env submit current registrations r c ap d], goal_cases)
    case 1
    with dispatch_step show ?case by simp
  next
    case (2 rec)
    with dispatch_step have "\<forall>q \<in> set (sd_submitted d). dispatch_key q \<noteq> dispatch_key r"
      unfolding dispatcher_ok_def by fastforce
    with 2 dispatch_step show ?case unfolding dispatcher_ok_def by auto
  qed
qed

interpretation dispatcher: step_invariant fresh_dispatcher "dispatch_step env" dispatcher_ok for env
  by unfold_locales (auto simp: fresh_dispatcher_def dispatcher_ok_def dest: dispatcher_ok_step [unfolded dispatcher_ok_def])

text \<open>C8: Whatever the clients do (return a receipt, fail, time out) and whatever is dispatched in whatever order, no
  two submissions share an adapter, project and idempotency key; once a key was submitted, every further dispatch under it
  leaves the dispatcher as it is, submits nothing, and can only return the record of the very same request digest.
\<close>

theorem storage_request_submitted_once:
  assumes "reach fresh_dispatcher (dispatch_step env) d" "r \<in> set (sd_submitted d)" "dispatch_key q = dispatch_key r"
  shows "distinct (map dispatch_key (sd_submitted d)) \<and>
    fst (storage_dispatch env submit current registrations q c ap d) = d \<and>
    (\<forall>rec. snd (storage_dispatch env submit current registrations q c ap d) = Inr rec \<longrightarrow>
       sr_request_digest rec = sq_request_digest r \<and> sq_request_digest q = sq_request_digest r)"
proof -
  have ok: "dispatcher_ok d" by (rule dispatcher.inv_reach [OF assms(1)])
  with assms(2,3) obtain rec where "dict_get (sd_records d) (dispatch_key q) = Some rec"
    "sr_request_digest rec = sq_request_digest r"
    unfolding dispatcher_ok_def by fastforce
  with ok show ?thesis
    by (auto simp: storage_dispatch_def dispatcher_ok_def Let_def split: sum.splits if_splits)
qed

definition sample_env :: storage_env where
  "sample_env = \<lparr>se_sha256 = (\<lambda>_. ''0''), se_float_repr = (\<lambda>_. ''0.5''), se_str = (\<lambda>_. ''x''), se_bind = (\<lambda>_. Inr ''x'')\<rparr>"

definition sample_request :: StorageExecutionRequest where
  "sample_request = \<lparr>sq_request_id = ''q1'', sq_adapter_id = ''a1'', sq_adapter_revision = 1, sq_project_id = ''p1'',
     sq_resource_id = ''storage.x'', sq_root_id = ''r1'', sq_action = ''directory.create'',
     sq_parameters = [(''relative_path'', PStr ''d''), (''parents'', PBool True)], sq_policy_revision = ''v1'',
     sq_claim_id = ''c1'', sq_approval_id = ''ap1'', sq_authorization_ref = ''au1'', sq_idempotency_key = ''k1'',
     sq_requested_by = ''p1'', sq_reason = ''need'', sq_acceptance_criteria = [''done''], sq_limits = [(''max_bytes'', PInt 10)],
     sq_expires_at = ''2024-05-02T00:00:00+00:00'', sq_contract_version = ''1.0'', sq_request_digest = ''sha256:0'',
     sq_created_at = Some ''2024-05-01T00:00:00+00:00''\<rparr>"

definition sample_registration :: StorageAdapterRegistration where
  "sample_registration = \<lparr>ar_adapter_id = ''a1'', ar_endpoint_ref = ''e'', ar_capability_digest = ''d'',
     ar_allowed_actions = {''directory.create''}, ar_registration_revision = 1, ar_status = Adapter_ENABLED,
     ar_kind = ''bounded_storage_v1'', ar_contract_version = ''1.0'', ar_display_name = ''TheUnderdark'',
     ar_transport = ''streamable_http'', ar_tool_prefix = ''underdark_'', ar_owner_domain = ''obrien'',
     ar_operator_owner = ''local-operator'', ar_allowed_resource_prefixes = [''storage.''], ar_approval_id = None,
     ar_approved_revision = Some 1, ar_enabled_at = None, ar_expires_at = None, ar_revoked_at = None,
     ar_created_at = None, ar_updated_at = None, ar_readiness_checks = REQUIRED_READINESS\<rparr>"

definition sample_claim :: Claim where
  "sample_claim = \<lparr>cl_id = ''c1'', cl_resource_id = ''storage.x'', cl_claim_type = Claim_LEASE, cl_owner_thread = ''p1'',
     cl_owner_role = Owner_OBRIEN, cl_intent = ''write'', cl_requested_action = ''directory.create'', cl_risk_level = Risk_LOW,
     cl_status = Status_ACTIVE, cl_created_at = None, cl_starts_at = None, cl_expires_at = Some ''2024-05-03T00:00:00+00:00'',
     cl_release_condition = None, cl_approval_id = None, cl_evidence_ids = [], cl_port_reservations = {},
     cl_dependency_ids = {}, cl_exclusive_groups = {}, cl_state_mutation = []\<rparr>"

definition sample_approval :: ApprovalRequest where
  "sample_approval = \<lparr>apr_id = ''ap1'', apr_subject_id = ''q1'', apr_approval_level = Approval_HUMAN, apr_requester_thread = ''obrien'',
     apr_owner_domain = Owner_OBRIEN, apr_reason = ''ok'', apr_status = Appr_APPROVED, apr_evidence_required = [],
     apr_decided_by = Some ''op'', apr_decided_at = None\<rparr>"

text \<open>A client that always times out.\<close>

definition sample_failed :: StorageDispatcher where
  "sample_failed = fst (storage_dispatch sample_env (\<lambda>_ _. Inl (OSError ''timed out'')) 63850204800000000 [sample_registration]
     sample_request sample_claim sample_approval \<lparr>sd_records = [], sd_submitted = []\<rparr>)"

lemma sample_checked:
  "check_dispatch sample_env 63850204800000000 [sample_registration] sample_request sample_claim sample_approval =
     Inr sample_registration"
proof -
  have d: "canonical_digest sample_env sample_request = ''sha256:0''"
    by (simp add: canonical_digest_def json_digest_def sample_env_def)
  have v: "validate_storage_execution_request sample_env sample_request = Inr ()" by code_simp
  have m: "matching_registrations 63850204800000000 sample_request [sample_registration] = Inr [sample_registration]"
    by (simp add: accepts_def sample_registration_def sample_request_def CONTRACT_VERSION_def ADAPTER_KIND_def
      ALLOWED_ACTIONS_def startswith_def)
  have t: "storage_timestamp (sq_expires_at sample_request) = Inr 63850291200000000"
    "storage_timestamp ''2024-05-03T00:00:00+00:00'' = Inr 63850377600000000" by code_simp+
  from d v m t show ?thesis
    by (simp add: check_dispatch_def reject_when_def)
      (simp add: sample_request_def sample_claim_def sample_approval_def STORAGE_CLAIM_TYPES_def STORAGE_CLAIM_STATUSES_def)
qed

lemma sample_failed_submitted: "sd_submitted sample_failed = [sample_request]"
  by (simp add: sample_failed_def storage_dispatch_def sample_checked Let_def)

theorem storage_request_submitted_once_witness:
  "\<exists>r \<in> set (sd_submitted sample_failed).
     fst (storage_dispatch sample_env (\<lambda>_ _. Inl (OSError ''timed out'')) 63850204800000001 [sample_registration]
       sample_request sample_claim sample_approval sample_failed) = sample_failed \<and>
     distinct (map dispatch_key (sd_submitted sample_failed))"
proof -
  have "fresh_dispatcher \<lparr>sd_records = [], sd_submitted = []\<rparr>" by (simp add: fresh_dispatcher_def)
  then have "reach fresh_dispatcher (dispatch_step sample_env) sample_failed"
    unfolding sample_failed_def by (blast intro: reach_init reach_step dispatch_step)
  moreover have "sample_request \<in> set (sd_submitted sample_failed)" by (simp add: sample_failed_submitted)
  ultimately show ?thesis using storage_request_submitted_once [OF _ _ refl] by blast
qed

end
