(* ===== verification/Storage_Control.thy ===== *)
theory Storage_Control
  imports Storage_Adapter "HOL-Library.Product_Lexorder"
begin

text \<open>
  The lifecycle of storage authorizations, \<^verbatim>\<open>src/overseer/storage_control.py\<close>, over the storage tables of
  \<^verbatim>\<open>src/overseer/store.py\<close>: an authorization is staged with crew evidence, approved by somebody else, materialised, and
  possibly revoked; execution requests are validated and stored; the two verification endpoints of
  \<^verbatim>\<open>storage_adapter.py\<close> and the resolution of the current root authorization read the result.

  The two tables \<open>initialize_storage_control\<close> creates are empty until something is inserted, so a missing table and
  an empty one read alike. \<open>now\<close> gives the clock readings of a command in order.
\<close>

section \<open>Tables\<close>

record StorageAuthorizationStage =
  sg_stage_id :: string
  sg_kind :: string
  sg_authorization_ref :: string
  sg_approval_id :: string
  sg_payload :: "(string, pyval) pydict"
  sg_payload_digest :: string
  sg_crew_evidence_id :: string
  sg_crew_owner :: string
  sg_created_at :: string

record StorageRevocation =
  rv_kind :: string
  rv_authorization_ref :: string
  rv_revoked_by :: string
  rv_revoked_at :: string
  rv_evidence_id :: string

record StorageStore = CrewStore +
  ss_registrations :: "StorageAdapterRegistration tbl"
  ss_requests :: "StorageExecutionRequest tbl"
  ss_dispatches :: "StorageDispatchRecord tbl"
  ss_results :: "StorageExecutionResult tbl"
  ss_authorizations :: "StorageAuthorizationRecord tbl"
  ss_root_authorizations :: "StorageRootAuthorizationRecord tbl"
  ss_stages :: "StorageAuthorizationStage tbl"
  ss_revocations :: "StorageRevocation tbl"

definition save_storage_adapter_registration :: "StorageAdapterRegistration \<Rightarrow> StorageStore \<Rightarrow> StorageStore" where
  "save_storage_adapter_registration g st = st\<lparr>ss_registrations := tbl_upsert (ar_adapter_id g) g (ss_registrations st)\<rparr>"

definition load_storage_adapter_registration :: "StorageStore \<Rightarrow> string \<Rightarrow> StorageAdapterRegistration result" where
  "load_storage_adapter_registration st k = get_payload (ss_registrations st) k"

definition list_storage_adapter_registrations :: "StorageStore \<Rightarrow> StorageAdapterRegistration list" where
  "list_storage_adapter_registrations st = map snd (ss_registrations st)"

definition save_storage_execution_request :: "StorageExecutionRequest \<Rightarrow> StorageStore \<Rightarrow> StorageStore \<times> unit result" where
  "save_storage_execution_request r st =
     (case find (\<lambda>q. dispatch_key q = dispatch_key r) (map snd (ss_requests st)) of
        Some prior \<Rightarrow>
          if sq_request_digest prior \<noteq> sq_request_digest r
          then (st, Inl (ValueError ''storage idempotency key already belongs to another request'')) else (st, Inr ())
      | None \<Rightarrow>
          if tbl_get (ss_requests st) (sq_request_id r) \<noteq> None
          then (st, Inl (IntegrityError ''UNIQUE constraint failed: storage_execution_requests.id''))
          else (st\<lparr>ss_requests := tbl_upsert (sq_request_id r) r (ss_requests st)\<rparr>, Inr ()))"

definition load_storage_execution_request :: "StorageStore \<Rightarrow> string \<Rightarrow> StorageExecutionRequest result" where
  "load_storage_execution_request st k = get_payload (ss_requests st) k"

text \<open>Two records have the same JSON payload when they agree up to the order of the limits.\<close>

definition same_authorization :: "StorageAuthorizationRecord \<Rightarrow> StorageAuthorizationRecord \<Rightarrow> bool" where
  "same_authorization a b \<longleftrightarrow> a\<lparr>sa_limits := []\<rparr> = b\<lparr>sa_limits := []\<rparr> \<and> dict_eq (sa_limits a) (sa_limits b)"

definition save_storage_authorization :: "StorageAuthorizationRecord \<Rightarrow> StorageStore \<Rightarrow> StorageStore \<times> unit result" where
  "save_storage_authorization a st =
     (case tbl_get (ss_authorizations st) (sa_authorization_ref a) of
        Some prior \<Rightarrow> if \<not> same_authorization prior a
          then (st, Inl (ValueError ''storage authorization reference is immutable'')) else (st, Inr ())
      | None \<Rightarrow> (st\<lparr>ss_authorizations := tbl_upsert (sa_authorization_ref a) a (ss_authorizations st)\<rparr>, Inr ()))"

definition save_storage_root_authorization :: "StorageRootAuthorizationRecord \<Rightarrow> StorageStore \<Rightarrow> StorageStore \<times> unit result" where
  "save_storage_root_authorization a st =
     (case tbl_get (ss_root_authorizations st) (ro_authorization_ref a) of
        Some prior \<Rightarrow> if prior \<noteq> a
          then (st, Inl (ValueError ''storage root authorization reference is immutable'')) else (st, Inr ())
      | None \<Rightarrow> (st\<lparr>ss_root_authorizations := tbl_upsert (ro_authorization_ref a) a (ss_root_authorizations st)\<rparr>, Inr ()))"

definition revocation_of :: "StorageStore \<Rightarrow> string \<Rightarrow> StorageRevocation option" where
  "revocation_of st ref = find (\<lambda>v. rv_authorization_ref v = ref) (map snd (ss_revocations st))"

definition load_storage_authorization :: "StorageStore \<Rightarrow> string \<Rightarrow> StorageAuthorizationRecord result" where
  "load_storage_authorization st ref =
     res_bind (get_payload (ss_authorizations st) ref) (\<lambda>a.
       Inr (case revocation_of st ref of None \<Rightarrow> a | Some v \<Rightarrow> a\<lparr>sa_revoked_at := Some (rv_revoked_at v)\<rparr>))"

definition load_storage_root_authorization :: "StorageStore \<Rightarrow> string \<Rightarrow> StorageRootAuthorizationRecord result" where
  "load_storage_root_authorization st ref =
     res_bind (get_payload (ss_root_authorizations st) ref) (\<lambda>a.
       Inr (case revocation_of st ref of None \<Rightarrow> a | Some v \<Rightarrow> a\<lparr>ro_revoked_at := Some (rv_revoked_at v)\<rparr>))"

fun load_roots :: "StorageStore \<Rightarrow> string list \<Rightarrow> StorageRootAuthorizationRecord list result" where
  "load_roots st [] = Inr []"
| "load_roots st (k # ks) =
     res_bind (load_storage_root_authorization st k) (\<lambda>a. res_bind (load_roots st ks) (\<lambda>rest. Inr (a # rest)))"

definition list_storage_root_authorizations :: "StorageStore \<Rightarrow> StorageRootAuthorizationRecord list result" where
  "list_storage_root_authorizations st = load_roots st (map fst (ss_root_authorizations st))"

definition save_storage_dispatch_record :: "StorageDispatchRecord \<Rightarrow> StorageStore \<Rightarrow> StorageStore" where
  "save_storage_dispatch_record r st = st\<lparr>ss_dispatches := tbl_upsert (sr_id r) r (ss_dispatches st)\<rparr>"

definition load_storage_dispatch_record :: "StorageStore \<Rightarrow> string \<Rightarrow> StorageDispatchRecord result" where
  "load_storage_dispatch_record st k = get_payload (ss_dispatches st) k"

definition save_storage_execution_result :: "StorageExecutionResult \<Rightarrow> StorageStore \<Rightarrow> StorageStore" where
  "save_storage_execution_result r st =
     st\<lparr>ss_results := tbl_upsert (sx_request_id r @ '':'' @ sx_operation_id r) r (ss_results st)\<rparr>"

definition load_storage_execution_result :: "StorageStore \<Rightarrow> string \<Rightarrow> string \<Rightarrow> StorageExecutionResult result" where
  "load_storage_execution_result st request_id operation_id =
     get_payload (ss_results st) (request_id @ '':'' @ operation_id)"

section \<open>Checks\<close>

definition storage_time :: "string \<Rightarrow> int result" where
  "storage_time = aware_instant ''timezone is required''"

fun is_digest :: "pyval \<Rightarrow> bool" where
  "is_digest (PStr s) = sha256_digest s"
| "is_digest v = False"

definition require_crew :: "StorageStore \<Rightarrow> string \<Rightarrow> string \<Rightarrow> CrewMessage result" where
  "require_crew st evidence_id owner =
     res_bind (load_crew_message st evidence_id) (\<lambda>m.
       if owner_value (cm_owner_domain m) \<noteq> owner \<or> cm_status m \<noteq> Crew_ACKNOWLEDGED \<or> cm_review_status m \<noteq> Review_APPROVED \<or>
          cm_decided_by m \<noteq> Some owner \<or> \<not> str_true (cm_decided_at m)
       then Inl (ValueError ''terminal acknowledged and approved crew evidence is required'') else Inr m)"

definition opaque_field :: "(string, pyval) pydict \<Rightarrow> string \<Rightarrow> unit result" where
  "opaque_field p name = (if opaque_id (dict_item p name) then Inr () else Inl (ValueError (name @ '' is invalid'')))"

definition given_time :: "string option \<Rightarrow> int \<Rightarrow> int result" where
  "given_time given now = storage_time (str_default given (isoformat_utc now))"

text \<open>Membership of a JSON value in a set of texts: a list or mapping is not hashable.\<close>

definition in_texts :: "pyval \<Rightarrow> string set \<Rightarrow> bool result" where
  "in_texts v S = (case v of
     PList vs \<Rightarrow> Inl (TypeError ''unhashable type'') | PDict kvs \<Rightarrow> Inl (TypeError ''unhashable type'')
   | PStr s \<Rightarrow> Inr (s \<in> S) | _ \<Rightarrow> Inr False)"

definition validate_payload :: "string \<Rightarrow> (string, pyval) pydict \<Rightarrow> string option \<Rightarrow> int \<Rightarrow> unit result" where
  "validate_payload kind p created_at now =
     res_bind (check_all (opaque_field p) [''authorization_ref'', ''project_id'', ''root_id'', ''policy_revision'', ''action'']) (\<lambda>_.
     res_bind (if \<not> is_digest (dict_item p ''target_digest'') then Inr True
       else case dict_item p ''expires_at'' of
         PStr expires \<Rightarrow> res_bind (storage_time expires) (\<lambda>t. res_bind (given_time created_at now) (\<lambda>u. Inr (t \<le> u)))
       | _ \<Rightarrow> Inr True) (\<lambda>bad.
     if bad then Inl (ValueError ''digest or expiry is invalid'')
     else if kind = ''root'' then
       res_bind (if dict_item p ''action'' \<notin> {PStr ''root.register'', PStr ''root.transition''} then Inr False
         else in_texts (dict_item p ''status'') {''active'', ''suspended'', ''retired''}) (\<lambda>known.
       if \<not> known \<or> \<not> is_digest (dict_item p ''root_identity'') \<or>
          (case dict_item p ''alias'' of PStr s \<Rightarrow> s = [] | _ \<Rightarrow> True) \<or> \<not> int_from 1 (dict_item p ''max_bytes'')
       then Inl (ValueError ''root authorization fields are invalid'') else Inr ())
     else if \<not> is_digest (dict_item p ''request_digest'') \<or>
          (case dict_item p ''limits'' of PDict kvs \<Rightarrow> \<not> list_all (int_from 0) (dict_values kvs) | _ \<Rightarrow> True)
       then Inl (ValueError ''operation authorization fields are invalid'') else Inr ()))"

definition required_root :: "string set" where
  "required_root = {''authorization_ref'', ''action'', ''project_id'', ''root_id'', ''policy_revision'', ''root_identity'',
     ''alias'', ''status'', ''max_bytes'', ''target_digest'', ''expires_at''}"

definition required_op :: "string set" where
  "required_op = {''authorization_ref'', ''request_id'', ''request_digest'', ''project_id'', ''root_id'', ''action'',
     ''policy_revision'', ''claim_id'', ''approval_id'', ''target_digest'', ''limits'', ''expires_at''}"

definition item_text :: "storage_env \<Rightarrow> (string, pyval) pydict \<Rightarrow> string \<Rightarrow> string" where
  "item_text env p k = py_str (se_str env) (dict_item p k)"

section \<open>Staging and approval\<close>

definition stage_value :: "StorageAuthorizationStage \<Rightarrow> pyval" where
  "stage_value s = PDict
     [(''stage_id'', PStr (sg_stage_id s)), (''kind'', PStr (sg_kind s)), (''authorization_ref'', PStr (sg_authorization_ref s)),
      (''approval_id'', PStr (sg_approval_id s)), (''payload'', PDict (sg_payload s)),
      (''payload_digest'', PStr (sg_payload_digest s)), (''crew_evidence_id'', PStr (sg_crew_evidence_id s)),
      (''crew_owner'', PStr (sg_crew_owner s)), (''created_at'', PStr (sg_created_at s))]"

definition stage_of :: "StorageStore \<Rightarrow> string \<Rightarrow> StorageAuthorizationStage option" where
  "stage_of st ref = find (\<lambda>s. sg_authorization_ref s = ref) (map snd (ss_stages st))"

definition insert_stage :: "StorageAuthorizationStage \<Rightarrow> StorageStore \<Rightarrow> StorageStore" where
  "insert_stage s st =
     (if stage_of st (sg_authorization_ref s) \<noteq> None \<or> tbl_get (ss_stages st) (sg_stage_id s) \<noteq> None then st
      else st\<lparr>ss_stages := tbl_upsert (sg_stage_id s) s (ss_stages st)\<rparr>)"

definition check_stage ::
  "(nat \<Rightarrow> int) \<Rightarrow> string \<Rightarrow> (string, pyval) pydict \<Rightarrow> string \<Rightarrow> string \<Rightarrow> string option \<Rightarrow> unit result" where
  "check_stage now kind payload crew_evidence_id crew_owner created_at =
     (case dict_get [(''root'', ''kira''), (''operation'', ''obrien'')] kind of
        None \<Rightarrow> Inl (ValueError ''external crew evidence owner does not match authorization kind'')
      | Some expected_owner \<Rightarrow>
          if crew_owner \<noteq> expected_owner \<or> \<not> startswith crew_evidence_id ''crew.''
          then Inl (ValueError ''external crew evidence owner does not match authorization kind'')
          else if set (map fst payload) \<noteq> (if kind = ''root'' then required_root else required_op)
          then Inl (ValueError ''authorization payload fields are not exact'')
          else validate_payload kind payload created_at (now 0))"

definition build_stage ::
  "storage_env \<Rightarrow> (nat \<Rightarrow> int) \<Rightarrow> string \<Rightarrow> (string, pyval) pydict \<Rightarrow> string \<Rightarrow> string \<Rightarrow> string option \<Rightarrow>
   StorageAuthorizationStage" where
  "build_stage env now kind payload crew_evidence_id crew_owner created_at =
     (let ref = item_text env payload ''authorization_ref''
      in \<lparr>sg_stage_id = ''stage.storage.'' @ kind @ ''.'' @ ref, sg_kind = kind, sg_authorization_ref = ref,
          sg_approval_id = (if kind = ''operation'' then item_text env payload ''approval_id''
            else ''approval.storage.'' @ kind @ ''.'' @ ref),
          sg_payload = payload, sg_payload_digest = json_digest env (PDict payload),
          sg_crew_evidence_id = crew_evidence_id, sg_crew_owner = crew_owner,
          sg_created_at = str_default created_at (isoformat_utc (now 1))\<rparr>)"

definition stage_approval :: "storage_env \<Rightarrow> StorageAuthorizationStage \<Rightarrow> ApprovalRequest" where
  "stage_approval env s =
     \<lparr>apr_id = sg_approval_id s,
      apr_subject_id = (if sg_kind s = ''root'' then sg_authorization_ref s else item_text env (sg_payload s) ''request_id''),
      apr_approval_level = Approval_HUMAN, apr_requester_thread = sg_crew_owner s, apr_owner_domain = Owner_OBRIEN,
      apr_reason = ''Approve exact '' @ sg_kind s @ '' storage authorization digest '' @ sg_payload_digest s,
      apr_status = Appr_PENDING, apr_evidence_required = [sg_crew_evidence_id s, sg_payload_digest s],
      apr_decided_by = None, apr_decided_at = None\<rparr>"

definition stage_authorization ::
  "storage_env \<Rightarrow> (nat \<Rightarrow> int) \<Rightarrow> string \<Rightarrow> (string, pyval) pydict \<Rightarrow> string \<Rightarrow> string \<Rightarrow> string option \<Rightarrow> StorageStore \<Rightarrow>
   StorageStore \<times> StorageAuthorizationStage result" where
  "stage_authorization env now kind payload crew_evidence_id crew_owner created_at st =
     (let stage = build_stage env now kind payload crew_evidence_id crew_owner created_at
      in case res_bind (check_stage now kind payload crew_evidence_id crew_owner created_at) (\<lambda>_.
           res_bind (require_crew st crew_evidence_id crew_owner) (\<lambda>_.
           case stage_of st (sg_authorization_ref stage) of
             Some prior \<Rightarrow>
               if json_text (se_float_repr env) (stage_value prior) \<noteq> json_text (se_float_repr env) (stage_value stage)
               then Inl (ValueError ''authorization reference is immutable'') else Inr ()
           | None \<Rightarrow> Inr ())) of
           Inl e \<Rightarrow> (st, Inl e)
         | Inr _ \<Rightarrow> (save_approval (stage_approval env stage) (insert_stage stage st), Inr stage))"

definition stage_subject :: "StorageAuthorizationStage \<Rightarrow> pyval" where
  "stage_subject s = (if sg_kind s = ''root'' then PStr (sg_authorization_ref s) else dict_item (sg_payload s) ''request_id'')"

definition required_stage :: "StorageStore \<Rightarrow> string \<Rightarrow> StorageAuthorizationStage result" where
  "required_stage st ref = (case stage_of st ref of
     None \<Rightarrow> Inl (ValueError ''authorization stage does not exist'') | Some s \<Rightarrow> Inr s)"

definition approve_authorization ::
  "int \<Rightarrow> string \<Rightarrow> string \<Rightarrow> string option \<Rightarrow> StorageStore \<Rightarrow> StorageStore \<times> ApprovalRequest result" where
  "approve_authorization now ref approved_by approved_at st =
     (let moment = str_default approved_at (isoformat_utc now)
      in case (if blank approved_by then Inl (ValueError ''approved_by is required'')
           else res_bind (storage_time moment) (\<lambda>_.
             res_bind (required_stage st ref) (\<lambda>s.
             res_bind (require_crew st (sg_crew_evidence_id s) (sg_crew_owner s)) (\<lambda>_.
             res_bind (load_approval st (sg_approval_id s)) (\<lambda>ap.
             if approved_by = sg_crew_owner s \<or> apr_status ap \<noteq> Appr_PENDING \<or> PStr (apr_subject_id ap) \<noteq> stage_subject s \<or>
                apr_evidence_required ap \<noteq> [sg_crew_evidence_id s, sg_payload_digest s]
             then Inl (ValueError ''exact independent pending storage approval is required'')
             else Inr (ap\<lparr>apr_status := Appr_APPROVED, apr_decided_by := Some approved_by, apr_decided_at := Some moment\<rparr>)))))) of
           Inl e \<Rightarrow> (st, Inl e)
         | Inr ap \<Rightarrow> (save_approval ap st, Inr ap))"

section \<open>Materialising and revoking\<close>

text \<open>
  A text field of a staged payload. Staging and the exact comparison below leave no other value in the fields
  that are read this way.
\<close>

definition field_text :: "(string, pyval) pydict \<Rightarrow> string \<Rightarrow> string" where
  "field_text p k = (case dict_item p k of PStr s \<Rightarrow> s | _ \<Rightarrow> [])"

definition field_int :: "(string, pyval) pydict \<Rightarrow> string \<Rightarrow> int" where
  "field_int p k = (case dict_item p k of PInt i \<Rightarrow> i | _ \<Rightarrow> 0)"

definition field_dict :: "(string, pyval) pydict \<Rightarrow> string \<Rightarrow> (string, pyval) pydict" where
  "field_dict p k = (case dict_item p k of PDict d \<Rightarrow> d | _ \<Rightarrow> [])"

text \<open>The text SQLite compares a key column with.\<close>

definition sql_key :: "storage_env \<Rightarrow> pyval \<Rightarrow> string result" where
  "sql_key env v = (case v of PStr s \<Rightarrow> Inr s | _ \<Rightarrow> se_bind env v)"

definition check_materialize ::
  "string \<Rightarrow> StorageAuthorizationStage \<Rightarrow> StorageStore \<Rightarrow> ApprovalRequest result" where
  "check_materialize moment s st =
     res_bind (load_approval st (sg_approval_id s)) (\<lambda>ap.
     res_bind (require_crew st (sg_crew_evidence_id s) (sg_crew_owner s)) (\<lambda>_.
     if apr_status ap \<noteq> Appr_APPROVED \<or> \<not> str_true (apr_decided_by ap) \<or> apr_decided_by ap = Some (sg_crew_owner s) \<or>
        \<not> str_true (apr_decided_at ap) \<or> PStr (apr_subject_id ap) \<noteq> stage_subject s \<or>
        sg_crew_evidence_id s \<notin> set (apr_evidence_required ap) \<or> sg_payload_digest s \<notin> set (apr_evidence_required ap) \<or>
        apr_owner_domain ap \<noteq> Owner_OBRIEN
     then Inl (ValueError ''exact human approval and crew evidence are required'')
     else res_bind (storage_time (field_text (sg_payload s) ''expires_at'')) (\<lambda>t.
       res_bind (storage_time moment) (\<lambda>u.
       if t \<le> u then Inl (ValueError ''authorization is expired'') else Inr ap))))"

definition root_record :: "(string, pyval) pydict \<Rightarrow> ApprovalRequest \<Rightarrow> string \<Rightarrow> StorageRootAuthorizationRecord" where
  "root_record p ap moment =
     \<lparr>ro_authorization_ref = field_text p ''authorization_ref'', ro_action = field_text p ''action'',
      ro_project_id = field_text p ''project_id'', ro_root_id = field_text p ''root_id'',
      ro_policy_revision = field_text p ''policy_revision'', ro_root_identity = field_text p ''root_identity'',
      ro_alias = field_text p ''alias'', ro_status = field_text p ''status'', ro_max_bytes = field_int p ''max_bytes'',
      ro_target_digest = field_text p ''target_digest'', ro_approval_id = apr_id ap,
      ro_approved_at = str_default (apr_decided_at ap) moment, ro_expires_at = field_text p ''expires_at'',
      ro_authorization_status = ''approved'', ro_revoked_at = None\<rparr>"

definition operation_record :: "(string, pyval) pydict \<Rightarrow> ApprovalRequest \<Rightarrow> string \<Rightarrow> StorageAuthorizationRecord" where
  "operation_record p ap moment =
     \<lparr>sa_authorization_ref = field_text p ''authorization_ref'', sa_request_id = field_text p ''request_id'',
      sa_request_digest = field_text p ''request_digest'', sa_project_id = field_text p ''project_id'',
      sa_root_id = field_text p ''root_id'', sa_action = field_text p ''action'',
      sa_policy_revision = field_text p ''policy_revision'', sa_claim_id = field_text p ''claim_id'',
      sa_approval_id = apr_id ap, sa_target_digest = field_text p ''target_digest'', sa_limits = field_dict p ''limits'',
      sa_approved_at = str_default (apr_decided_at ap) moment, sa_expires_at = field_text p ''expires_at'',
      sa_status = ''approved'', sa_revoked_at = None\<rparr>"

definition exact_operation :: "storage_env \<Rightarrow> StorageExecutionRequest \<Rightarrow> (string, pyval) pydict \<Rightarrow> bool" where
  "exact_operation env r p \<longleftrightarrow>
     [PStr (sq_request_id r), PStr (sq_request_digest r), PStr (sq_project_id r), PStr (sq_root_id r), PStr (sq_action r),
      PStr (sq_policy_revision r), PStr (sq_claim_id r), PStr (sq_approval_id r), PStr (sq_authorization_ref r),
      PStr (sq_expires_at r), PStr (canonical_adapter_request_digest env r)] =
     map (dict_item p) [''request_id'', ''request_digest'', ''project_id'', ''root_id'', ''action'', ''policy_revision'',
      ''claim_id'', ''approval_id'', ''authorization_ref'', ''expires_at'', ''target_digest''] \<and>
     dict_eq (sq_limits r) (field_dict p ''limits'')"

definition check_operation ::
  "storage_env \<Rightarrow> (string, pyval) pydict \<Rightarrow> ApprovalRequest \<Rightarrow> StorageStore \<Rightarrow> unit result" where
  "check_operation env p ap st =
     res_bind (sql_key env (dict_item p ''request_id'')) (\<lambda>request_id.
     res_bind (load_storage_execution_request st request_id) (\<lambda>r.
     res_bind (sql_key env (dict_item p ''claim_id'')) (\<lambda>claim_id.
     res_bind (load_claim st claim_id) (\<lambda>c.
     res_bind (if \<not> exact_operation env r p \<or> apr_id ap \<noteq> sq_approval_id r \<or> cl_id c \<noteq> sq_claim_id r \<or>
           cl_resource_id c \<noteq> sq_resource_id r \<or> cl_owner_thread c \<noteq> sq_requested_by r \<or>
           cl_status c \<notin> STORAGE_CLAIM_STATUSES \<or> cl_claim_type c \<notin> STORAGE_CLAIM_TYPES \<or> \<not> str_true (cl_expires_at c)
         then Inr True
         else res_bind (storage_time (the (cl_expires_at c))) (\<lambda>t.
           res_bind (storage_time (field_text p ''expires_at'')) (\<lambda>u. Inr (t \<le> u)))) (\<lambda>bad.
     if bad then Inl (ValueError ''operation project, request, claim, approval, authorization, digest, or expiry does not match'')
     else Inr ())))))"

definition materialize_authorization ::
  "storage_env \<Rightarrow> int \<Rightarrow> string \<Rightarrow> string option \<Rightarrow> StorageStore \<Rightarrow> StorageStore \<times> string result" where
  "materialize_authorization env now ref materialized_at st =
     (let moment = str_default materialized_at (isoformat_utc now)
      in case res_bind (required_stage st ref) (\<lambda>s. res_bind (check_materialize moment s st) (\<lambda>ap. Inr (s, ap))) of
           Inl e \<Rightarrow> (st, Inl e)
         | Inr (s, ap) \<Rightarrow>
             let p = sg_payload s
             in if sg_kind s = ''root'' then
                  (case save_storage_root_authorization (root_record p ap moment) st of
                     (st', Inl e) \<Rightarrow> (st', Inl e) | (st', Inr _) \<Rightarrow> (st', Inr (sg_kind s)))
                else (case check_operation env p ap st of
                   Inl e \<Rightarrow> (st, Inl e)
                 | Inr _ \<Rightarrow> (case save_storage_authorization (operation_record p ap moment) st of
                     (st', Inl e) \<Rightarrow> (st', Inl e) | (st', Inr _) \<Rightarrow> (st', Inr (sg_kind s)))))"

definition materialized :: "StorageStore \<Rightarrow> string \<Rightarrow> string \<Rightarrow> bool" where
  "materialized st kind ref =
     (if kind = ''root'' then tbl_get (ss_root_authorizations st) ref \<noteq> None else tbl_get (ss_authorizations st) ref \<noteq> None)"

definition revoke_authorization ::
  "int \<Rightarrow> string \<Rightarrow> string \<Rightarrow> string \<Rightarrow> string option \<Rightarrow> StorageStore \<Rightarrow> StorageStore \<times> unit result" where
  "revoke_authorization now ref revoked_by evidence_id revoked_at st =
     (let row_id = ''revoke.'' @ ref
      in case (if revoked_by = [] \<or> evidence_id = [] then Inl (ValueError ''revoker and evidence are required'')
           else res_bind (load_crew_message st evidence_id) (\<lambda>crew.
             res_bind (require_crew st evidence_id (owner_value (cm_owner_domain crew))) (\<lambda>_.
             case stage_of st ref of
               None \<Rightarrow> Inl (ValueError ''materialized authorization does not exist'')
             | Some s \<Rightarrow>
                 if \<not> materialized st (sg_kind s) ref then Inl (ValueError ''materialized authorization does not exist'')
                 else if tbl_get (ss_revocations st) row_id \<noteq> None \<or> revocation_of st ref \<noteq> None
                 then Inl (IntegrityError ''UNIQUE constraint failed: storage_authorization_revocations'')
                 else Inr (sg_kind s)))) of
           Inl e \<Rightarrow> (st, Inl e)
         | Inr kind \<Rightarrow>
             (st\<lparr>ss_revocations := tbl_upsert row_id \<lparr>rv_kind = kind, rv_authorization_ref = ref, rv_revoked_by = revoked_by,
                rv_revoked_at = str_default revoked_at (isoformat_utc now), rv_evidence_id = evidence_id\<rparr> (ss_revocations st)\<rparr>,
              Inr ()))"

section \<open>Execution requests\<close>

definition REQUEST_FIELDS :: "string set" where
  "REQUEST_FIELDS = {''request_id'', ''adapter_id'', ''adapter_revision'', ''project_id'', ''resource_id'', ''root_id'', ''action'',
     ''parameters'', ''policy_revision'', ''claim_id'', ''approval_id'', ''authorization_ref'', ''idempotency_key'',
     ''requested_by'', ''reason'', ''acceptance_criteria'', ''limits'', ''expires_at''}"

definition REQUEST_IDENTIFIERS :: "string list" where
  "REQUEST_IDENTIFIERS = [''request_id'', ''adapter_id'', ''project_id'', ''resource_id'', ''root_id'', ''action'',
     ''policy_revision'', ''claim_id'', ''approval_id'', ''authorization_ref'', ''idempotency_key'', ''requested_by'']"

definition valid_criteria :: "pyval \<Rightarrow> bool" where
  "valid_criteria v = (case v of
     PList vs \<Rightarrow> vs \<noteq> [] \<and> list_all (\<lambda>x. case x of PStr s \<Rightarrow> \<not> blank s \<and> length s \<le> 256 | _ \<Rightarrow> False) vs
   | _ \<Rightarrow> False)"

definition check_request_fields :: "(string, pyval) pydict \<Rightarrow> unit result" where
  "check_request_fields p =
     run_checks
       [if set (map fst p) \<noteq> REQUEST_FIELDS then Inl (ValueError ''execution request fields are not exact'') else Inr (),
        if \<not> list_all (\<lambda>k. opaque_id (dict_item p k)) REQUEST_IDENTIFIERS
          then Inl (ValueError ''execution request identifiers are invalid'') else Inr (),
        if field_text p ''action'' \<notin> ALLOWED_ACTIONS \<or> \<not> int_from 1 (dict_item p ''adapter_revision'')
          then Inl (ValueError ''execution request adapter or action is invalid'') else Inr (),
        if dict_item p ''project_id'' \<noteq> dict_item p ''requested_by'' \<or>
            (case dict_item p ''reason'' of PStr s \<Rightarrow> s = [] \<or> 512 < length s | _ \<Rightarrow> True)
          then Inl (ValueError ''execution request owner or reason is invalid'') else Inr (),
        if (case dict_item p ''parameters'' of PDict _ \<Rightarrow> False | _ \<Rightarrow> True) \<or>
            (case dict_item p ''limits'' of PDict kvs \<Rightarrow> kvs = [] \<or> \<not> list_all (int_from 1) (dict_values kvs) | _ \<Rightarrow> True)
          then Inl (ValueError ''execution request parameters or limits are invalid'') else Inr (),
        if \<not> valid_criteria (dict_item p ''acceptance_criteria'')
          then Inl (ValueError ''execution request acceptance criteria are invalid'') else Inr ()]"

definition build_request :: "storage_env \<Rightarrow> (string, pyval) pydict \<Rightarrow> int \<Rightarrow> StorageExecutionRequest" where
  "build_request env p now = with_digest env
     \<lparr>sq_request_id = field_text p ''request_id'', sq_adapter_id = field_text p ''adapter_id'',
      sq_adapter_revision = field_int p ''adapter_revision'', sq_project_id = field_text p ''project_id'',
      sq_resource_id = field_text p ''resource_id'', sq_root_id = field_text p ''root_id'', sq_action = field_text p ''action'',
      sq_parameters = field_dict p ''parameters'', sq_policy_revision = field_text p ''policy_revision'',
      sq_claim_id = field_text p ''claim_id'', sq_approval_id = field_text p ''approval_id'',
      sq_authorization_ref = field_text p ''authorization_ref'', sq_idempotency_key = field_text p ''idempotency_key'',
      sq_requested_by = field_text p ''requested_by'', sq_reason = field_text p ''reason'',
      sq_acceptance_criteria = (case dict_item p ''acceptance_criteria'' of
        PList vs \<Rightarrow> map (py_str (se_str env)) vs | _ \<Rightarrow> []),
      sq_limits = field_dict p ''limits'', sq_expires_at = item_text env p ''expires_at'',
      sq_contract_version = CONTRACT_VERSION, sq_request_digest = [], sq_created_at = Some (isoformat_utc now)\<rparr>"

definition ACTION_PARAMETERS :: "(string, string set) pydict" where
  "ACTION_PARAMETERS =
     [(''directory.create'', {''relative_path'', ''parents''}),
      (''file.write'', {''relative_path'', ''content'', ''content_digest'', ''write_mode'', ''content_encoding'', ''expected_prior_digest''}),
      (''path.copy'', {''source_root_id'', ''source_relative_path'', ''relative_path'', ''destination_mode''}),
      (''path.move'', {''source_relative_path'', ''relative_path'', ''expected_source_digest'', ''expected_source_type'', ''destination_mode''}),
      (''path.delete'', {''relative_path'', ''expected_type'', ''expected_digest'', ''recursive''})]"

text \<open>A path parameter is a relative path without empty, \<open>.\<close> or \<open>..\<close> segments and without backslashes.\<close>

definition safe_path :: "pyval \<Rightarrow> bool" where
  "safe_path v = (case v of
     PStr s \<Rightarrow> s \<noteq> [] \<and> \<not> startswith s ''/'' \<and> CHR 0x5C \<notin> set s \<and>
       list_all (\<lambda>part. part \<notin> {[], ''.'', ''..''}) (split_char CHR ''/'' s)
   | _ \<Rightarrow> False)"

definition check_request_action :: "storage_env \<Rightarrow> StorageExecutionRequest \<Rightarrow> unit result" where
  "check_request_action env r =
     (if (case dict_get ACTION_PARAMETERS (sq_action r) of None \<Rightarrow> False | Some expected \<Rightarrow> set (map fst (sq_parameters r)) \<noteq> expected)
      then Inl (ValueError ''execution request action fields are invalid'')
      else if \<not> list_all (\<lambda>(k, v). endswith k ''path'' \<longrightarrow> safe_path v) (sq_parameters r)
      then Inl (ValueError ''execution request path is invalid'')
      else case validate_storage_execution_request env r of
        Inl _ \<Rightarrow> Inl (ValueError ''execution request action fields are invalid'') | Inr _ \<Rightarrow> Inr ())"

definition check_request_claim :: "StorageExecutionRequest \<Rightarrow> int \<Rightarrow> int \<Rightarrow> StorageStore \<Rightarrow> unit result" where
  "check_request_claim r now expires st =
     res_bind (load_claim st (sq_claim_id r)) (\<lambda>c.
     res_bind (load_storage_adapter_registration st (sq_adapter_id r)) (\<lambda>g.
     res_bind (if cl_resource_id c \<noteq> sq_resource_id r \<or> cl_owner_thread c \<noteq> sq_requested_by r \<or>
           cl_requested_action c \<noteq> sq_action r \<or> cl_status c \<notin> STORAGE_CLAIM_STATUSES \<or>
           cl_claim_type c \<notin> STORAGE_CLAIM_TYPES \<or> \<not> str_true (cl_expires_at c)
         then Inr True else res_bind (storage_time (the (cl_expires_at c))) (\<lambda>t. Inr (t \<le> expires))) (\<lambda>bad.
     if bad then Inl (ValueError ''execution request claim does not match or cover expiry'')
     else res_bind (if ar_registration_revision g \<noteq> sq_adapter_revision r then Inr False
         else accepts now g (sq_resource_id r) (sq_action r)) (\<lambda>enabled.
     if enabled then Inr ()
     else Inl (ValueError ''execution request adapter is not enabled for the exact action'')))))"

definition create_execution_request ::
  "storage_env \<Rightarrow> int \<Rightarrow> (string, pyval) pydict \<Rightarrow> string option \<Rightarrow> StorageStore \<Rightarrow>
   StorageStore \<times> StorageExecutionRequest result" where
  "create_execution_request env clock p created_at st =
     (case res_bind (check_request_fields p) (\<lambda>_.
        res_bind (given_time created_at clock) (\<lambda>now.
        res_bind (storage_time (item_text env p ''expires_at'')) (\<lambda>expires.
        if expires \<le> now then Inl (ValueError ''execution request is expired'')
        else let r = build_request env p now
        in res_bind (check_request_action env r) (\<lambda>_.
           res_bind (check_request_claim r now expires st) (\<lambda>_. Inr r))))) of
        Inl e \<Rightarrow> (st, Inl e)
      | Inr r \<Rightarrow> (case save_storage_execution_request r st of (st', Inl e) \<Rightarrow> (st', Inl e) | (st', Inr _) \<Rightarrow> (st', Inr r)))"

section \<open>Reading the authorizations\<close>

fun authorization_items :: "StorageStore \<Rightarrow> StorageAuthorizationStage list \<Rightarrow> pyval list result" where
  "authorization_items st [] = Inr []"
| "authorization_items st (s # ss) =
     res_bind (load_approval st (sg_approval_id s)) (\<lambda>ap.
     res_bind (authorization_items st ss) (\<lambda>rest.
     Inr (PDict
       [(''stage_id'', PStr (sg_stage_id s)), (''kind'', PStr (sg_kind s)), (''authorization_ref'', PStr (sg_authorization_ref s)),
        (''payload_digest'', PStr (sg_payload_digest s)), (''approval_id'', PStr (sg_approval_id s)),
        (''approval_status'', PStr (approval_status_value (apr_status ap))),
        (''crew_evidence_id'', PStr (sg_crew_evidence_id s)),
        (''materialized'', PBool (materialized st (sg_kind s) (sg_authorization_ref s))),
        (''revoked'', PBool (revocation_of st (sg_authorization_ref s) \<noteq> None))] # rest)))"

definition list_authorizations :: "string option \<Rightarrow> StorageStore \<Rightarrow> pyval list result" where
  "list_authorizations kind st =
     (if kind \<notin> {None, Some ''root'', Some ''operation''} then Inl (ValueError ''kind is invalid'')
      else authorization_items st (filter (\<lambda>s. kind = None \<or> kind = Some (sg_kind s)) (map snd (ss_stages st))))"

record root_query =
  rx_project :: string
  rx_root :: string
  rx_policy :: string
  rx_identity :: string
  rx_alias :: string
  rx_status :: string
  rx_max_bytes :: pyval
  rx_target :: string

definition exact_root :: "string \<Rightarrow> root_query \<Rightarrow> StorageRootAuthorizationRecord \<Rightarrow> bool" where
  "exact_root action q a \<longleftrightarrow> ro_action a = action \<and> ro_project_id a = rx_project q \<and> ro_root_id a = rx_root q \<and>
     ro_policy_revision a = rx_policy q \<and> ro_root_identity a = rx_identity q \<and> ro_alias a = rx_alias q \<and>
     ro_status a = rx_status q \<and> PInt (ro_max_bytes a) = rx_max_bytes q \<and> ro_target_digest a = rx_target q"

definition valid_query :: "root_query \<Rightarrow> bool" where
  "valid_query q \<longleftrightarrow>
     list_all (\<lambda>s. s \<noteq> []) [rx_project q, rx_root q, rx_policy q, rx_identity q, rx_alias q, rx_status q, rx_target q] \<and>
     rx_status q = ''active'' \<and> int_from 1 (rx_max_bytes q) \<and> sha256_digest (rx_identity q) \<and> sha256_digest (rx_target q)"

text \<open>Whether a root record stands at an instant; the approval time is kept for the choice below.\<close>

definition root_current :: "(string \<Rightarrow> int result) \<Rightarrow> int \<Rightarrow> StorageRootAuthorizationRecord \<Rightarrow> int option result" where
  "root_current time now a =
     (if ro_authorization_status a \<noteq> ''approved'' \<or> str_true (ro_revoked_at a) then Inr None
      else res_bind (time (ro_approved_at a)) (\<lambda>t.
        if now < t then Inr None
        else res_bind (time (ro_expires_at a)) (\<lambda>u. Inr (if u \<le> now then None else Some t))))"

fun current_candidates ::
  "root_query \<Rightarrow> int \<Rightarrow> StorageStore \<Rightarrow> StorageRootAuthorizationRecord list \<Rightarrow> (int \<times> StorageRootAuthorizationRecord) list result" where
  "current_candidates q now st [] = Inr []"
| "current_candidates q now st (a # as) =
     (if \<not> exact_root ''root.register'' q a then current_candidates q now st as
      else res_bind (root_current storage_time now a) (\<lambda>found.
        case found of
          None \<Rightarrow> current_candidates q now st as
        | Some t \<Rightarrow> res_bind (load_approval st (ro_approval_id a)) (\<lambda>ap.
            if apr_id ap \<noteq> ro_approval_id a \<or> apr_subject_id ap \<noteq> ro_authorization_ref a \<or> apr_status ap \<noteq> Appr_APPROVED
            then current_candidates q now st as
            else res_bind (current_candidates q now st as) (\<lambda>rest. Inr ((t, a) # rest)))))"

text \<open>\<^verbatim>\<open>sort(key=..., reverse=True)\<close> keeps the order of equal keys.\<close>

definition newest_first :: "(int \<times> StorageRootAuthorizationRecord) list \<Rightarrow> (int \<times> StorageRootAuthorizationRecord) list" where
  "newest_first cs = rev (sort_key (\<lambda>(t, a). (t, ro_authorization_ref a)) (rev cs))"

definition resolve_current_root_authorization ::
  "int \<Rightarrow> root_query \<Rightarrow> string option \<Rightarrow> StorageStore \<Rightarrow> StorageRootAuthorizationRecord result" where
  "resolve_current_root_authorization clock q resolved_at st =
     (if \<not> valid_query q then Inl (ValueError ''exact current root authorization fields are required'')
      else res_bind (given_time resolved_at clock) (\<lambda>now.
        res_bind (list_storage_root_authorizations st) (\<lambda>records.
        res_bind (current_candidates q now st records) (\<lambda>candidates.
        case newest_first candidates of
          [] \<Rightarrow> Inl (ValueError ''no current exact root authorization exists'')
        | [(t, a)] \<Rightarrow> Inr a
        | (t, a) # (u, b) # others \<Rightarrow>
            if t = u then Inl (ValueError ''current root authorization is ambiguous'') else Inr a))))"

section \<open>The verification endpoints\<close>

text \<open>The answer of an endpoint: the snapshot of the authorization, or the code of the refusal.\<close>

datatype verification = Verified "(string, pyval) pydict" | Refused string

definition endpoint :: "(string, pyval) pydict result \<Rightarrow> verification result" where
  "endpoint outcome = (case outcome of
     Inr snapshot \<Rightarrow> Inr (Verified snapshot)
   | Inl (KeyError k) \<Rightarrow> Inr (Refused ''AUTHORIZATION_REQUIRED'')
   | Inl (StorageAdapterError code m) \<Rightarrow> Inr (Refused code)
   | Inl (ValueError m) \<Rightarrow> Inr (Refused ''AUTHORIZATION_INVALID'')
   | Inl e \<Rightarrow> Inl e)"

definition nonempty_text :: "pyval \<Rightarrow> bool" where
  "nonempty_text v = (case v of PStr s \<Rightarrow> s \<noteq> [] | _ \<Rightarrow> False)"

definition endpoint_time :: "string option \<Rightarrow> int \<Rightarrow> int result" where
  "endpoint_time given clock = (if str_true given then storage_timestamp (the given) else Inr clock)"

definition verify_storage_authorization_status ::
  "storage_env \<Rightarrow> int \<Rightarrow> (string, pyval) pydict \<Rightarrow> string option \<Rightarrow> StorageStore \<Rightarrow> verification result" where
  "verify_storage_authorization_status env clock p verified_at st =
     (let required = [''authorization_ref'', ''request_digest'', ''project_id'', ''root_id'', ''action'', ''policy_revision'']
      in if set (map fst p) \<noteq> set required \<or> \<not> list_all (\<lambda>k. nonempty_text (dict_item p k)) required
         then Inr (Refused ''INVALID_ARGUMENT'')
         else endpoint
           (res_bind (load_storage_authorization st (field_text p ''authorization_ref'')) (\<lambda>a.
            res_bind (load_storage_execution_request st (sa_request_id a)) (\<lambda>r.
            res_bind (load_claim st (sa_claim_id a)) (\<lambda>c.
            res_bind (load_approval st (sa_approval_id a)) (\<lambda>ap.
            res_bind (endpoint_time verified_at clock) (\<lambda>now.
            verify_storage_authorization env now a r c ap (field_text p ''request_digest'') (field_text p ''project_id'')
              (field_text p ''root_id'') (field_text p ''action'') (field_text p ''policy_revision''))))))))"

definition query_of :: "(string, pyval) pydict \<Rightarrow> root_query" where
  "query_of p = \<lparr>rx_project = field_text p ''project_id'', rx_root = field_text p ''root_id'',
     rx_policy = field_text p ''policy_revision'', rx_identity = field_text p ''root_identity'', rx_alias = field_text p ''alias'',
     rx_status = field_text p ''status'', rx_max_bytes = dict_item p ''max_bytes'', rx_target = field_text p ''target_digest''\<rparr>"

definition root_snapshot :: "StorageRootAuthorizationRecord \<Rightarrow> (string, pyval) pydict" where
  "root_snapshot a =
     [(''approval_id'', PStr (ro_approval_id a)), (''action'', PStr (ro_action a)), (''project_id'', PStr (ro_project_id a)),
      (''root_id'', PStr (ro_root_id a)), (''policy_revision'', PStr (ro_policy_revision a)),
      (''root_identity'', PStr (ro_root_identity a)), (''alias'', PStr (ro_alias a)), (''status'', PStr (ro_status a)),
      (''max_bytes'', PInt (ro_max_bytes a)), (''target_digest'', PStr (ro_target_digest a)),
      (''approved_at'', PStr (ro_approved_at a)), (''expires_at'', PStr (ro_expires_at a)), (''redactions_applied'', PBool True)]"

definition valid_root_payload :: "(string, pyval) pydict \<Rightarrow> bool" where
  "valid_root_payload p \<longleftrightarrow>
     set (map fst p) = {''authorization_ref'', ''action'', ''project_id'', ''root_id'', ''policy_revision'', ''root_identity'',
       ''alias'', ''status'', ''max_bytes'', ''target_digest''} \<and>
     list_all (\<lambda>k. nonempty_text (dict_item p k)) [''authorization_ref'', ''action'', ''project_id'', ''root_id'', ''policy_revision'',
       ''root_identity'', ''alias'', ''status'', ''target_digest''] \<and>
     int_from 1 (dict_item p ''max_bytes'') \<and> field_text p ''action'' \<in> {''root.register'', ''root.transition''} \<and>
     field_text p ''status'' \<in> {''active'', ''suspended'', ''retired''} \<and>
     sha256_digest (field_text p ''root_identity'') \<and> sha256_digest (field_text p ''target_digest'')"

definition verify_storage_root_authorization_status ::
  "int \<Rightarrow> (string, pyval) pydict \<Rightarrow> string option \<Rightarrow> StorageStore \<Rightarrow> verification result" where
  "verify_storage_root_authorization_status clock p verified_at st =
     (if \<not> valid_root_payload p then Inr (Refused ''INVALID_ARGUMENT'')
      else endpoint
        (res_bind (load_storage_root_authorization st (field_text p ''authorization_ref'')) (\<lambda>a.
         res_bind (load_approval st (ro_approval_id a)) (\<lambda>ap.
         res_bind (endpoint_time verified_at clock) (\<lambda>now.
         res_bind (reject_when (\<not> exact_root (field_text p ''action'') (query_of p) a)
           ''AUTHORIZATION_MISMATCH'' ''root authorization does not match'') (\<lambda>_.
         res_bind (root_current storage_timestamp now a) (\<lambda>found.
         res_bind (reject_when (found = None) ''AUTHORIZATION_INVALID'' ''root authorization is inactive'') (\<lambda>_.
         res_bind (reject_when (apr_id ap \<noteq> ro_approval_id a \<or> apr_subject_id ap \<noteq> ro_authorization_ref a \<or> apr_status ap \<noteq> Appr_APPROVED)
           ''AUTHORIZATION_INVALID'' ''root approval does not match'') (\<lambda>_.
         Inr (root_snapshot a))))))))))"

section \<open>The API wrappers\<close>

definition stage_authorization_api ::
  "storage_env \<Rightarrow> (nat \<Rightarrow> int) \<Rightarrow> (string, pyval) pydict \<Rightarrow> StorageStore \<Rightarrow> StorageStore \<times> StorageAuthorizationStage result" where
  "stage_authorization_api env now p st =
     (case (set (map fst p) = {''kind'', ''payload'', ''crew_evidence_id'', ''crew_owner''}, dict_item p ''payload'') of
        (True, PDict payload) \<Rightarrow> stage_authorization env now (item_text env p ''kind'') payload (item_text env p ''crew_evidence_id'')
          (item_text env p ''crew_owner'') None st
      | _ \<Rightarrow> (st, Inl (ValueError ''exact stage fields are required'')))"

definition materialize_authorization_api ::
  "storage_env \<Rightarrow> int \<Rightarrow> (string, pyval) pydict \<Rightarrow> StorageStore \<Rightarrow> StorageStore \<times> string result" where
  "materialize_authorization_api env now p st =
     (if set (map fst p) \<noteq> {''authorization_ref''} then (st, Inl (ValueError ''exact materialize fields are required''))
      else materialize_authorization env now (item_text env p ''authorization_ref'') None st)"

definition revoke_authorization_api ::
  "storage_env \<Rightarrow> int \<Rightarrow> (string, pyval) pydict \<Rightarrow> StorageStore \<Rightarrow> StorageStore \<times> unit result" where
  "revoke_authorization_api env now p st =
     (if set (map fst p) \<noteq> {''authorization_ref'', ''revoked_by'', ''evidence_id''}
      then (st, Inl (ValueError ''exact revoke fields are required''))
      else revoke_authorization now (item_text env p ''authorization_ref'') (item_text env p ''revoked_by'')
        (item_text env p ''evidence_id'') None st)"

definition approve_authorization_api ::
  "storage_env \<Rightarrow> int \<Rightarrow> (string, pyval) pydict \<Rightarrow> StorageStore \<Rightarrow> StorageStore \<times> ApprovalRequest result" where
  "approve_authorization_api env now p st =
     (if set (map fst p) \<noteq> {''authorization_ref'', ''approved_by''} then (st, Inl (ValueError ''exact approve fields are required''))
      else approve_authorization now (item_text env p ''authorization_ref'') (item_text env p ''approved_by'') None st)"

definition create_execution_request_api ::
  "storage_env \<Rightarrow> int \<Rightarrow> (string, pyval) pydict \<Rightarrow> StorageStore \<Rightarrow> StorageStore \<times> StorageExecutionRequest result" where
  "create_execution_request_api env now p st =
     (case (set (map fst p) = {''payload''}, dict_item p ''payload'') of
        (True, PDict payload) \<Rightarrow> create_execution_request env now payload None st
      | _ \<Rightarrow> (st, Inl (ValueError ''exact execution request envelope is required'')))"

definition resolve_current_root_authorization_api ::
  "storage_env \<Rightarrow> int \<Rightarrow> (string, pyval) pydict \<Rightarrow> StorageStore \<Rightarrow> StorageRootAuthorizationRecord result" where
  "resolve_current_root_authorization_api env now p st =
     (if set (map fst p) \<noteq> {''project_id'', ''root_id'', ''policy_revision'', ''root_identity'', ''alias'', ''status'', ''max_bytes'',
        ''target_digest''} then Inl (ValueError ''exact current root authorization fields are required'')
      else resolve_current_root_authorization now
        \<lparr>rx_project = item_text env p ''project_id'', rx_root = item_text env p ''root_id'', rx_policy = item_text env p ''policy_revision'',
         rx_identity = item_text env p ''root_identity'', rx_alias = item_text env p ''alias'', rx_status = item_text env p ''status'',
         rx_max_bytes = dict_item p ''max_bytes'', rx_target = item_text env p ''target_digest''\<rparr> None st)"

end
