(* ===== verification/Storage_Safety.thy ===== *)
theory Storage_Safety
  imports Storage_Control
begin

text \<open>
  What the storage lifecycle guarantees over all its runs, with any other component changing claims, approvals,
  crew messages, adapter registrations and dispatch records in between: stages, authorizations, requests and
  revocations are never changed once written; an authorization exists only because its stage was approved by
  somebody other than the crew owner; a revoked one is never verified or resolved again; and the resolved root
  authorization is the newest one that stands.
\<close>

section \<open>Tables that only grow\<close>

definition grows :: "('k::linorder \<times> 'v) list \<Rightarrow> ('k \<times> 'v) list \<Rightarrow> bool" where
  "grows t t' \<longleftrightarrow> (\<forall>k v. tbl_get t k = Some v \<longrightarrow> tbl_get t' k = Some v)"

lemma grows_refl [simp]: "grows t t"
  by (simp add: grows_def)

lemma grows_trans: "grows t u \<Longrightarrow> grows u v \<Longrightarrow> grows t v"
  by (simp add: grows_def)

lemma grows_insert: "tbl_ok t \<Longrightarrow> tbl_get t k = None \<Longrightarrow> grows t (tbl_upsert k v t)"
  by (auto simp: grows_def tbl_get_upsert)

lemma keyed_insert:
  "keyed_by f t \<Longrightarrow> tbl_get t (f x) = None \<Longrightarrow> keyed_by f (tbl_upsert (f x) x t) \<and> grows t (tbl_upsert (f x) x t)"
  using keyed_by_upsert [of f t x "f x"] grows_insert [of t "f x" x] by (simp add: keyed_by_def)

lemma growsD: "grows t t' \<Longrightarrow> tbl_get t k = Some v \<Longrightarrow> tbl_get t' k = Some v"
  by (simp add: grows_def)

lemma find_column_None:
  assumes "tbl_ok t"
  shows "find (\<lambda>s. f s = x) (map snd t) = None \<longleftrightarrow> (\<forall>k s. tbl_get t k = Some s \<longrightarrow> f s \<noteq> x)"
  unfolding find_None_iff using tbl_mem_iff [OF assms] by fastforce

lemma find_column_Some:
  assumes "tbl_ok t" "find (\<lambda>s. f s = x) (map snd t) = Some s"
  shows "f s = x \<and> (\<exists>k. tbl_get t k = Some s)"
  using find_in_set [OF assms(2)] tbl_mem_iff [OF assms(1)] by fastforce

lemma find_column_unique:
  assumes "tbl_ok t" "unique_by f t" "tbl_get t k = Some s" "f s = x"
  shows "find (\<lambda>s. f s = x) (map snd t) = Some s"
proof (cases "find (\<lambda>s. f s = x) (map snd t)")
  case None
  with assms show ?thesis by (simp add: find_column_None)
next
  case (Some s')
  from find_column_Some [OF assms(1) Some] obtain k' where "f s' = x" "tbl_get t k' = Some s'" by blast
  with assms(2-4) have "k' = k" unfolding unique_by_def by metis
  with assms(3) \<open>tbl_get t k' = Some s'\<close> Some show ?thesis by simp
qed

section \<open>Steps and the invariant\<close>

definition storage_kept :: "StorageStore \<Rightarrow> StorageStore \<Rightarrow> bool" where
  "storage_kept st st' \<longleftrightarrow> ss_requests st' = ss_requests st \<and> ss_authorizations st' = ss_authorizations st \<and>
     ss_root_authorizations st' = ss_root_authorizations st \<and> ss_stages st' = ss_stages st \<and>
     ss_revocations st' = ss_revocations st"

inductive storage_step :: "storage_env \<Rightarrow> StorageStore \<Rightarrow> StorageStore \<Rightarrow> bool" for env where
  step_stage: "storage_step env st (fst (stage_authorization env now kind payload crew_evidence_id crew_owner created_at st))"
| step_approve: "storage_step env st (fst (approve_authorization clock ref approved_by approved_at st))"
| step_materialize: "storage_step env st (fst (materialize_authorization env clock ref materialized_at st))"
| step_revoke: "storage_step env st (fst (revoke_authorization clock ref revoked_by evidence_id revoked_at st))"
| step_request: "storage_step env st (fst (create_execution_request env clock payload created_at st))"
| step_elsewhere: "storage_kept st st' \<Longrightarrow> storage_step env st st'"

definition no_storage :: "StorageStore \<Rightarrow> bool" where
  "no_storage st \<longleftrightarrow> ss_requests st = [] \<and> ss_authorizations st = [] \<and> ss_root_authorizations st = [] \<and> ss_stages st = [] \<and>
     ss_revocations st = []"

definition storage_grows :: "StorageStore \<Rightarrow> StorageStore \<Rightarrow> bool" where
  "storage_grows st st' \<longleftrightarrow> grows (ss_requests st) (ss_requests st') \<and> grows (ss_authorizations st) (ss_authorizations st') \<and>
     grows (ss_root_authorizations st) (ss_root_authorizations st') \<and> grows (ss_stages st) (ss_stages st') \<and>
     grows (ss_revocations st) (ss_revocations st')"

text \<open>A request carries the digest of its own fields, and a revocation the time it was made.\<close>

definition sealed :: "storage_env \<Rightarrow> StorageExecutionRequest tbl \<Rightarrow> bool" where
  "sealed env t \<longleftrightarrow> (\<forall>k r. tbl_get t k = Some r \<longrightarrow> sq_request_digest r = canonical_digest env r)"

text \<open>
  A stage carries the digest of its payload and the reference the payload names; its crew owner goes with its
  kind.
\<close>

definition stage_ok :: "storage_env \<Rightarrow> StorageAuthorizationStage \<Rightarrow> bool" where
  "stage_ok env s \<longleftrightarrow> sg_payload_digest s = json_digest env (PDict (sg_payload s)) \<and>
     sg_authorization_ref s = field_text (sg_payload s) ''authorization_ref'' \<and>
     (sg_kind s, sg_crew_owner s) \<in> {(''root'', ''kira''), (''operation'', ''obrien'')}"

definition storage_ok :: "storage_env \<Rightarrow> StorageStore \<Rightarrow> bool" where
  "storage_ok env st \<longleftrightarrow> keyed_by sq_request_id (ss_requests st) \<and> sealed env (ss_requests st) \<and>
     keyed_by sa_authorization_ref (ss_authorizations st) \<and> keyed_by ro_authorization_ref (ss_root_authorizations st) \<and>
     keyed_by sg_stage_id (ss_stages st) \<and> unique_by sg_authorization_ref (ss_stages st) \<and>
     (\<forall>k s. tbl_get (ss_stages st) k = Some s \<longrightarrow> stage_ok env s) \<and> tbl_ok (ss_revocations st) \<and>
     (\<forall>k v. tbl_get (ss_revocations st) k = Some v \<longrightarrow> rv_revoked_at v \<noteq> [])"

definition good_move :: "storage_env \<Rightarrow> StorageStore \<Rightarrow> StorageStore \<Rightarrow> bool" where
  "good_move env st st' \<longleftrightarrow> storage_ok env st' \<and> storage_grows st st'"

lemma good_move_kept: "storage_ok env st \<Longrightarrow> storage_kept st st' \<Longrightarrow> good_move env st st'"
  by (simp add: good_move_def storage_ok_def storage_grows_def storage_kept_def)

lemma good_move_refl: "storage_ok env st \<Longrightarrow> good_move env st st"
  by (simp add: good_move_kept storage_kept_def)

lemma good_move_then_kept: "good_move env st st1 \<Longrightarrow> storage_kept st1 st2 \<Longrightarrow> good_move env st st2"
  by (simp add: good_move_def storage_ok_def storage_grows_def storage_kept_def)

lemma kept_approval [simp]: "storage_kept st (save_approval ap st)"
  by (simp add: storage_kept_def save_approval_def)

lemma good_move_stage: "storage_ok env st \<Longrightarrow> stage_ok env s \<Longrightarrow> good_move env st (insert_stage s st)"
proof -
  assume ok: "storage_ok env st" and s: "stage_ok env s"
  have t: "tbl_ok (ss_stages st)" using ok by (simp add: storage_ok_def keyed_by_def)
  show ?thesis
  proof (cases "stage_of st (sg_authorization_ref s) = None \<and> tbl_get (ss_stages st) (sg_stage_id s) = None")
    case True
    then have "\<forall>j y. tbl_get (ss_stages st) j = Some y \<longrightarrow> sg_authorization_ref y \<noteq> sg_authorization_ref s"
      unfolding stage_of_def by (simp add: find_column_None [OF t])
    with ok True t have "unique_by sg_authorization_ref (tbl_upsert (sg_stage_id s) s (ss_stages st))"
      "keyed_by sg_stage_id (tbl_upsert (sg_stage_id s) s (ss_stages st))"
      "grows (ss_stages st) (tbl_upsert (sg_stage_id s) s (ss_stages st))"
      by (simp_all add: storage_ok_def unique_by_insert keyed_by_upsert grows_insert)
    moreover have "\<forall>k y. tbl_get (tbl_upsert (sg_stage_id s) s (ss_stages st)) k = Some y \<longrightarrow> stage_ok env y"
      using ok s by (auto simp: tbl_get_upsert [OF t] storage_ok_def split: if_splits)
    ultimately show ?thesis
      using ok True unfolding insert_stage_def by (simp add: good_move_def storage_ok_def storage_grows_def)
  next
    case False
    with ok show ?thesis by (auto simp: insert_stage_def good_move_refl)
  qed
qed

lemma build_stage_ok:
  assumes "check_stage now kind payload crew_evidence_id crew_owner created_at = Inr ()"
  shows "stage_ok env (build_stage env now kind payload crew_evidence_id crew_owner created_at)"
proof -
  have kind: "(kind, crew_owner) \<in> {(''root'', ''kira''), (''operation'', ''obrien'')}"
    and v: "validate_payload kind payload created_at (now 0) = Inr ()"
    using assms by (auto simp: check_stage_def dict_get_def split: if_splits)
  from v have "opaque_field payload ''authorization_ref'' = Inr ()"
    by (simp add: validate_payload_def res_bind_Inr_iff)
  then obtain ref where "dict_item payload ''authorization_ref'' = PStr ref"
    by (cases "dict_item payload ''authorization_ref''") (auto simp: opaque_field_def)
  with kind show ?thesis by (auto simp: stage_ok_def build_stage_def item_text_def field_text_def Let_def)
qed

lemma good_move_staged: "storage_ok env st \<Longrightarrow>
  good_move env st (fst (stage_authorization env now kind payload crew_evidence_id crew_owner created_at st))"
  unfolding stage_authorization_def Let_def
  by (auto simp: res_bind_Inr_iff intro: good_move_refl good_move_then_kept [OF good_move_stage [OF _ build_stage_ok] kept_approval]
    split: sum.split)

lemma good_move_approved: "storage_ok env st \<Longrightarrow> good_move env st (fst (approve_authorization clock ref approved_by approved_at st))"
  unfolding approve_authorization_def Let_def by (auto intro: good_move_refl good_move_kept split: sum.split)

lemma good_move_root: "storage_ok env st \<Longrightarrow> good_move env st (fst (save_storage_root_authorization a st))"
proof -
  assume ok: "storage_ok env st"
  have "good_move env st (st\<lparr>ss_root_authorizations := tbl_upsert (ro_authorization_ref a) a (ss_root_authorizations st)\<rparr>)"
    if "tbl_get (ss_root_authorizations st) (ro_authorization_ref a) = None"
    using ok that by (simp add: good_move_def storage_ok_def storage_grows_def keyed_insert)
  with ok show ?thesis
    unfolding save_storage_root_authorization_def by (auto intro: good_move_refl split: option.split)
qed

lemma good_move_operation: "storage_ok env st \<Longrightarrow> good_move env st (fst (save_storage_authorization a st))"
proof -
  assume ok: "storage_ok env st"
  have "good_move env st (st\<lparr>ss_authorizations := tbl_upsert (sa_authorization_ref a) a (ss_authorizations st)\<rparr>)"
    if "tbl_get (ss_authorizations st) (sa_authorization_ref a) = None"
    using ok that by (simp add: good_move_def storage_ok_def storage_grows_def keyed_insert)
  with ok show ?thesis
    unfolding save_storage_authorization_def by (auto intro: good_move_refl split: option.split)
qed

lemma fst_case_save: "fst (case x of (st', Inl e) \<Rightarrow> (st', Inl e) | (st', Inr _) \<Rightarrow> (st', Inr y)) = fst x"
  by (cases x; cases "snd x") auto

lemma good_move_materialized: "storage_ok env st \<Longrightarrow> good_move env st (fst (materialize_authorization env clock ref materialized_at st))"
  unfolding materialize_authorization_def Let_def
  by (auto simp: fst_case_save intro: good_move_refl good_move_root good_move_operation split: sum.split)

lemma isoformat_utc_nonempty: "isoformat_utc t \<noteq> []"
  by (simp add: isoformat_utc_def Let_def)

lemma good_move_revoked: "storage_ok env st \<Longrightarrow>
  good_move env st (fst (revoke_authorization clock ref revoked_by evidence_id revoked_at st))"
proof -
  assume ok: "storage_ok env st"
  have nonempty: "str_default revoked_at (isoformat_utc clock) \<noteq> []"
    by (auto simp: str_default_def isoformat_utc_nonempty split: option.split)
  have "good_move env st (st\<lparr>ss_revocations := tbl_upsert k v (ss_revocations st)\<rparr>)"
    if "tbl_get (ss_revocations st) k = None" "rv_revoked_at v \<noteq> []" for k v
    using ok that by (auto simp: good_move_def storage_ok_def storage_grows_def grows_insert tbl_get_upsert split: if_splits)
  with ok nonempty show ?thesis
    unfolding revoke_authorization_def Let_def
    by (auto simp: res_bind_Inr_iff intro: good_move_refl split: sum.split option.splits if_splits)
qed

lemma good_move_requested: "storage_ok env st \<Longrightarrow> good_move env st (fst (create_execution_request env clock payload created_at st))"
proof -
  assume ok: "storage_ok env st"
  have sealed: "sq_request_digest (build_request env p t) = canonical_digest env (build_request env p t)" for p t
    by (simp add: build_request_def with_digest_def canonical_digest_def)
  have "good_move env st (fst (save_storage_execution_request r st))" if "sq_request_digest r = canonical_digest env r" for r
  proof (cases "tbl_get (ss_requests st) (sq_request_id r)")
    case None
    have "sealed env (tbl_upsert (sq_request_id r) r (ss_requests st))"
      using ok that by (auto simp: sealed_def storage_ok_def keyed_by_def tbl_get_upsert split: if_splits)
    with ok None have "good_move env st (st\<lparr>ss_requests := tbl_upsert (sq_request_id r) r (ss_requests st)\<rparr>)"
      by (simp add: good_move_def storage_ok_def storage_grows_def keyed_insert)
    with ok show ?thesis
      unfolding save_storage_execution_request_def by (auto intro: good_move_refl split: option.split)
  next
    case (Some q)
    with ok show ?thesis
      unfolding save_storage_execution_request_def by (auto intro: good_move_refl split: option.split)
  qed
  with ok sealed show ?thesis
    unfolding create_execution_request_def Let_def
    by (auto simp: fst_case_save res_bind_Inr_iff intro: good_move_refl split: sum.split if_splits)
qed

lemma good_move_step: "storage_step env st st' \<Longrightarrow> storage_ok env st \<Longrightarrow> good_move env st st'"
  by (induction rule: storage_step.induct)
    (simp_all add: good_move_staged good_move_approved good_move_materialized good_move_revoked good_move_requested good_move_kept)

interpretation storage: step_invariant no_storage "storage_step env" "storage_ok env" for env
proof
  fix st st'
  show "storage_ok env st" if "no_storage st"
    using that by (simp add: no_storage_def storage_ok_def keyed_by_def unique_by_def sealed_def)
  show "storage_ok env st'" if "storage_ok env st" "storage_step env st st'"
    using good_move_step [OF that(2,1)] by (simp add: good_move_def)
qed

lemma storage_runs:
  assumes "(storage_step env)\<^sup>*\<^sup>* st st'" "storage_ok env st"
  shows "good_move env st st'"
  using assms
proof (induction rule: rtranclp_induct)
  case base
  then show ?case by (rule good_move_refl)
next
  case (step st1 st2)
  then have m: "good_move env st st1" by simp
  then have "good_move env st1 st2" using good_move_step [OF step.hyps(2)] by (simp add: good_move_def)
  with m show ?case unfolding good_move_def storage_grows_def by (blast intro: grows_trans)
qed

section \<open>Revocation is final\<close>

lemma revocation_found:
  assumes "storage_ok env st" "revocation_of st ref = Some v"
  shows "\<exists>k. tbl_get (ss_revocations st) k = Some v \<and> rv_authorization_ref v = ref \<and> rv_revoked_at v \<noteq> []"
proof -
  have t: "tbl_ok (ss_revocations st)" using assms(1) by (simp add: storage_ok_def)
  from find_column_Some [OF t assms(2) [unfolded revocation_of_def]] assms(1) show ?thesis
    by (auto simp: storage_ok_def)
qed

lemma revocation_exists:
  assumes "storage_ok env st" "tbl_get (ss_revocations st) k = Some v" "rv_authorization_ref v = ref"
  shows "\<exists>v'. revocation_of st ref = Some v' \<and> rv_revoked_at v' \<noteq> []"
proof (cases "revocation_of st ref")
  case None
  with assms show ?thesis
    by (auto simp: revocation_of_def storage_ok_def find_column_None)
next
  case (Some v')
  with revocation_found [OF assms(1) Some] show ?thesis by auto
qed

definition revoked :: "StorageStore \<Rightarrow> string \<Rightarrow> bool" where
  "revoked st ref \<longleftrightarrow> (\<exists>v. revocation_of st ref = Some v \<and> rv_revoked_at v \<noteq> [])"

lemma revoked_stays:
  assumes "storage_ok env st" "revoked st ref" "(storage_step env)\<^sup>*\<^sup>* st st'"
  shows "revoked st' ref"
proof -
  have m: "good_move env st st'" by (rule storage_runs [OF assms(3,1)])
  from assms(2) obtain v where "revocation_of st ref = Some v" by (auto simp: revoked_def)
  from revocation_found [OF assms(1) this] obtain k where
    "tbl_get (ss_revocations st) k = Some v" "rv_authorization_ref v = ref" by blast
  with m have "tbl_get (ss_revocations st') k = Some v" by (auto simp: good_move_def storage_grows_def dest: growsD)
  with m revocation_exists [of env st' k v ref] \<open>rv_authorization_ref v = ref\<close> show ?thesis
    by (simp add: revoked_def good_move_def)
qed

lemma revoke_revokes:
  assumes "storage_ok env st" "revoke_authorization clock ref revoked_by evidence_id revoked_at st = (st', Inr ())"
  shows "storage_ok env st'" "revoked st' ref"
proof -
  have m: "good_move env st st'" using good_move_revoked [OF assms(1), of clock ref revoked_by evidence_id revoked_at] assms(2) by simp
  then show ok: "storage_ok env st'" by (simp add: good_move_def)
  have t: "tbl_ok (ss_revocations st)" using assms(1) by (simp add: storage_ok_def)
  from assms(2) obtain v where "ss_revocations st' = tbl_upsert (''revoke.'' @ ref) v (ss_revocations st)" "rv_authorization_ref v = ref"
    unfolding revoke_authorization_def Let_def by (auto split: sum.splits)
  with t have "tbl_get (ss_revocations st') (''revoke.'' @ ref) = Some v" by (simp add: tbl_get_upsert)
  from revocation_exists [OF ok this \<open>rv_authorization_ref v = ref\<close>] show "revoked st' ref" by (simp add: revoked_def)
qed

lemma revoked_loads:
  assumes "revoked st ref"
  shows "load_storage_authorization st ref = Inr a \<Longrightarrow> str_true (sa_revoked_at a)"
    and "load_storage_root_authorization st ref = Inr b \<Longrightarrow> str_true (ro_revoked_at b)"
  using assms by (auto simp: revoked_def load_storage_authorization_def load_storage_root_authorization_def res_bind_Inr_iff)

lemma endpoint_Verified: "endpoint r = Inr (Verified x) \<longleftrightarrow> r = Inr x"
  by (cases r) (auto simp: endpoint_def split: py_error.splits)

lemma reject_when_Inr [simp]: "reject_when c code m = Inr u \<longleftrightarrow> \<not> c"
  by (simp add: reject_when_def)

lemma verify_not_revoked:
  "verify_storage_authorization env now a r c ap d pr ro act pol = Inr x \<Longrightarrow> \<not> str_true (sa_revoked_at a)"
  by (auto simp: verify_storage_authorization_def res_bind_Inr_iff split: if_splits)

lemma root_current_not_revoked: "root_current time now a = Inr (Some t) \<Longrightarrow> \<not> str_true (ro_revoked_at a)"
  by (auto simp: root_current_def split: if_splits)

text \<open>A record that stands for a query at an instant, approved at \<open>t\<close>.\<close>

definition root_stands ::
  "StorageStore \<Rightarrow> root_query \<Rightarrow> int \<Rightarrow> StorageRootAuthorizationRecord \<Rightarrow> int \<Rightarrow> bool" where
  "root_stands st q now a t \<longleftrightarrow> exact_root ''root.register'' q a \<and> root_current storage_time now a = Inr (Some t) \<and>
     (\<exists>ap. load_approval st (ro_approval_id a) = Inr ap \<and> apr_id ap = ro_approval_id a \<and>
        apr_subject_id ap = ro_authorization_ref a \<and> apr_status ap = Appr_APPROVED)"

lemma candidate_current:
  assumes "current_candidates q now st records = Inr cs"
  shows "(t, a) \<in> set cs \<longleftrightarrow> a \<in> set records \<and> root_stands st q now a t"
  using assms
proof (induction records arbitrary: cs)
  case (Cons b bs)
  show ?case
  proof (cases "exact_root ''root.register'' q b")
    case False
    with Cons show ?thesis by (auto simp: root_stands_def)
  next
    case True
    with Cons.prems obtain found where found: "root_current storage_time now b = Inr found"
      by (auto simp: res_bind_Inr_iff)
    show ?thesis
    proof (cases found)
      case None
      with Cons True found show ?thesis by (auto simp: root_stands_def)
    next
      case (Some u)
      with Cons.prems True found obtain ap where ap: "load_approval st (ro_approval_id b) = Inr ap"
        by (auto simp: res_bind_Inr_iff)
      show ?thesis
      proof (cases "apr_id ap \<noteq> ro_approval_id b \<or> apr_subject_id ap \<noteq> ro_authorization_ref b \<or> apr_status ap \<noteq> Appr_APPROVED")
        case True
        with Cons \<open>exact_root _ _ _\<close> found Some ap show ?thesis by (auto simp: root_stands_def)
      next
        case False
        with Cons.prems True found Some ap obtain rest where
          "current_candidates q now st bs = Inr rest" "cs = (u, b) # rest"
          by (auto simp: res_bind_Inr_iff)
        with Cons.IH False True found Some ap show ?thesis by (auto simp: root_stands_def)
      qed
    qed
  qed
qed simp

lemma load_roots_listed:
  assumes "load_roots st ks = Inr records" "a \<in> set records"
  shows "\<exists>k \<in> set ks. load_storage_root_authorization st k = Inr a"
  using assms by (induction ks arbitrary: records) (auto simp: res_bind_Inr_iff)

lemma loaded_root_ref:
  assumes "storage_ok env st" "load_storage_root_authorization st k = Inr a"
  shows "ro_authorization_ref a = k"
  using assms
  by (auto simp: load_storage_root_authorization_def get_payload_def res_bind_Inr_iff storage_ok_def keyed_by_def
    split: option.splits)

lemma newest_first_set [simp]: "set (newest_first cs) = set cs"
  by (simp add: newest_first_def)

lemma resolve_Inr:
  assumes "resolve_current_root_authorization clock q resolved_at st = Inr a"
  obtains now records cs t others where "given_time resolved_at clock = Inr now"
    "list_storage_root_authorizations st = Inr records" "current_candidates q now st records = Inr cs"
    "newest_first cs = (t, a) # others" "others = [] \<or> fst (hd others) \<noteq> t"
proof -
  from assms obtain now records cs where r: "given_time resolved_at clock = Inr now"
    "list_storage_root_authorizations st = Inr records" "current_candidates q now st records = Inr cs"
    unfolding resolve_current_root_authorization_def by (auto simp: res_bind_Inr_iff split: if_splits)
  obtain t b others where n: "newest_first cs = (t, b) # others"
    using assms r unfolding resolve_current_root_authorization_def
    by (cases "newest_first cs") (auto split: if_splits)
  with assms r have "b = a \<and> (others = [] \<or> fst (hd others) \<noteq> t)"
    unfolding resolve_current_root_authorization_def by (cases others) (auto split: if_splits)
  with r n that show ?thesis by blast
qed

lemma resolved_not_revoked:
  assumes "storage_ok env st" "resolve_current_root_authorization clock q resolved_at st = Inr a"
  shows "\<not> revoked st (ro_authorization_ref a)"
proof -
  obtain now records cs t others where r: "list_storage_root_authorizations st = Inr records"
    "current_candidates q now st records = Inr cs" "newest_first cs = (t, a) # others"
    by (rule resolve_Inr [OF assms(2)])
  have "(t, a) \<in> set cs" using r(3) newest_first_set [of cs] by (metis list.set_intros(1))
  then have "a \<in> set records" "\<not> str_true (ro_revoked_at a)"
    by (auto simp: candidate_current [OF r(2)] root_stands_def dest: root_current_not_revoked)
  with load_roots_listed [OF r(1) [unfolded list_storage_root_authorizations_def]] obtain k where
    "load_storage_root_authorization st k = Inr a" by blast
  with loaded_root_ref [OF assms(1)] revoked_loads(2) \<open>\<not> str_true (ro_revoked_at a)\<close> show ?thesis by metis
qed

text \<open>C7: Once an authorization was revoked, in every later state and whatever else happened, the endpoints
  never verify it, at no time and with no payload, and it is never the resolved root authorization.
\<close>

theorem revoked_authorization_never_returns:
  assumes "reach no_storage (storage_step env) st"
    "revoke_authorization clock ref revoked_by evidence_id revoked_at st = (st1, Inr ())" "(storage_step env)\<^sup>*\<^sup>* st1 st2"
  shows "(field_text p ''authorization_ref'' = ref \<longrightarrow>
      verify_storage_authorization_status env clock2 p verified_at st2 \<noteq> Inr (Verified snapshot) \<and>
      verify_storage_root_authorization_status clock2 p verified_at st2 \<noteq> Inr (Verified snapshot)) \<and>
    (\<forall>a. resolve_current_root_authorization clock2 q verified_at st2 = Inr a \<longrightarrow> ro_authorization_ref a \<noteq> ref)"
proof -
  have ok: "storage_ok env st" by (rule storage.inv_reach [OF assms(1)])
  note r1 = revoke_revokes [OF ok assms(2)]
  have r2: "revoked st2 ref" by (rule revoked_stays [OF r1 assms(3)])
  have ok2: "storage_ok env st2" by (rule storage.inv_rtranclp [OF assms(3) r1(1)])
  have "verify_storage_authorization_status env clock2 p verified_at st2 \<noteq> Inr (Verified snapshot)"
    "verify_storage_root_authorization_status clock2 p verified_at st2 \<noteq> Inr (Verified snapshot)"
    if "field_text p ''authorization_ref'' = ref"
    using that revoked_loads [OF r2]
    by (auto simp: verify_storage_authorization_status_def verify_storage_root_authorization_status_def Let_def
      endpoint_Verified res_bind_Inr_iff dest: verify_not_revoked root_current_not_revoked)
  with resolved_not_revoked [OF ok2] r2 show ?thesis by blast
qed

section \<open>The resolved root authorization\<close>

lemma newest_first_greatest:
  assumes "newest_first cs = (t, a) # others" "others = [] \<or> fst (hd others) \<noteq> t" "(u, b) \<in> set cs" "(u, b) \<noteq> (t, a)"
  shows "u < t"
proof -
  let ?key = "\<lambda>(t, a). (t, ro_authorization_ref a)"
  have "sorted (map ?key (rev (newest_first cs)))" unfolding newest_first_def rev_rev_ident by (rule sorted_sort_key)
  then have desc: "sorted_wrt (\<lambda>x y. ?key y \<le> ?key x) (newest_first cs)"
    by (simp add: sorted_map sorted_wrt_rev)
  have "(u, b) \<in> set others" using assms newest_first_set [of cs] by (metis set_ConsD)
  then obtain v c more where others: "others = (v, c) # more" by (cases others) auto
  with desc assms(1) have "?key (v, c) \<le> ?key (t, a)" by simp
  with assms(2) others have "v < t" by (auto simp: less_eq_prod_def)
  moreover have "u \<le> v"
    using desc assms(1) others \<open>(u, b) \<in> set others\<close> by (auto simp: less_eq_prod_def)
  ultimately show ?thesis by simp
qed

lemma load_roots_complete:
  "load_roots st ks = Inr records \<Longrightarrow> k \<in> set ks \<Longrightarrow> load_storage_root_authorization st k = Inr a \<Longrightarrow> a \<in> set records"
  by (induction ks arbitrary: records) (auto simp: res_bind_Inr_iff)

lemma loaded_root_listed:
  assumes "list_storage_root_authorizations st = Inr records" "load_storage_root_authorization st k = Inr a"
  shows "a \<in> set records"
proof -
  have "tbl_get (ss_root_authorizations st) k \<noteq> None"
    using assms(2) by (auto simp: load_storage_root_authorization_def get_payload_def res_bind_Inr_iff split: option.splits)
  then have "k \<in> fst ` set (ss_root_authorizations st)" by (simp add: tbl_get_def map_of_eq_None_iff)
  with load_roots_complete [OF assms(1) [unfolded list_storage_root_authorizations_def] _ assms(2)] show ?thesis by simp
qed

text \<open>C31: The root authorization that is resolved matches every field of the query, is approved, unrevoked and
  within its time, and every other stored authorization that does so too was approved strictly earlier.
\<close>

theorem resolved_root_is_newest:
  assumes "reach no_storage (storage_step env) st" "resolve_current_root_authorization clock q resolved_at st = Inr a"
  shows "\<exists>now t. given_time resolved_at clock = Inr now \<and> root_stands st q now a t \<and>
    load_storage_root_authorization st (ro_authorization_ref a) = Inr a \<and> \<not> revoked st (ro_authorization_ref a) \<and>
    (\<forall>k b u. load_storage_root_authorization st k = Inr b \<and> root_stands st q now b u \<and> b \<noteq> a \<longrightarrow> u < t)"
proof -
  have ok: "storage_ok env st" by (rule storage.inv_reach [OF assms(1)])
  obtain now records cs t others where r: "given_time resolved_at clock = Inr now"
    "list_storage_root_authorizations st = Inr records" "current_candidates q now st records = Inr cs"
    "newest_first cs = (t, a) # others" "others = [] \<or> fst (hd others) \<noteq> t"
    by (rule resolve_Inr [OF assms(2)])
  have "(t, a) \<in> set cs" using r(4) newest_first_set [of cs] by (metis list.set_intros(1))
  then have a: "a \<in> set records" "root_stands st q now a t" by (simp_all add: candidate_current [OF r(3)])
  with load_roots_listed [OF r(2) [unfolded list_storage_root_authorizations_def]] loaded_root_ref [OF ok]
  have l: "load_storage_root_authorization st (ro_authorization_ref a) = Inr a" by metis
  have "u < t" if "load_storage_root_authorization st k = Inr b" "root_stands st q now b u" "b \<noteq> a" for k b u
    using newest_first_greatest [OF r(4,5)] candidate_current [OF r(3)] loaded_root_listed [OF r(2) that(1)] that(2,3)
    by blast
  with r(1) a(2) l resolved_not_revoked [OF ok assms(2)] show ?thesis by blast
qed

section \<open>An authorization comes from an independent approval\<close>

text \<open>The approval of a stage as it stands in a store: granted by somebody other than the crew owner, for the digest of the payload.\<close>

definition approved_in :: "StorageStore \<Rightarrow> StorageAuthorizationStage \<Rightarrow> ApprovalRequest \<Rightarrow> bool" where
  "approved_in st s ap \<longleftrightarrow> load_approval st (sg_approval_id s) = Inr ap \<and> apr_status ap = Appr_APPROVED \<and>
     (\<exists>whom. apr_decided_by ap = Some whom \<and> whom \<noteq> [] \<and> whom \<noteq> sg_crew_owner s) \<and>
     sg_payload_digest s \<in> set (apr_evidence_required ap) \<and> isOK (require_crew st (sg_crew_evidence_id s) (sg_crew_owner s))"

lemma check_materialize_approved: "check_materialize moment s st = Inr ap \<Longrightarrow> approved_in st s ap"
  by (auto simp: check_materialize_def res_bind_Inr_iff approved_in_def str_true_def split: if_splits option.splits)

lemma stage_found:
  assumes "storage_ok env st" "stage_of st ref = Some s"
  shows "stage_ok env s" "sg_authorization_ref s = ref" "\<exists>k. tbl_get (ss_stages st) k = Some s"
proof -
  have t: "tbl_ok (ss_stages st)" using assms(1) by (simp add: storage_ok_def keyed_by_def)
  from find_column_Some [OF t assms(2) [unfolded stage_of_def]] assms(1)
  show "stage_ok env s" "sg_authorization_ref s = ref" "\<exists>k. tbl_get (ss_stages st) k = Some s"
    by (auto simp: storage_ok_def)
qed

lemma stage_stays:
  assumes "storage_ok env st" "stage_of st ref = Some s" "good_move env st st'"
  shows "stage_of st' ref = Some s"
proof -
  from stage_found [OF assms(1,2)] obtain k where "tbl_get (ss_stages st) k = Some s" "sg_authorization_ref s = ref" by blast
  moreover from this assms(3) have "tbl_get (ss_stages st') k = Some s"
    by (auto simp: good_move_def storage_grows_def dest: growsD)
  ultimately show ?thesis
    using assms(3) find_column_unique [of "ss_stages st'" sg_authorization_ref k s ref]
    by (simp add: stage_of_def good_move_def storage_ok_def keyed_by_def)
qed

text \<open>Where an operation authorization can come from in one step.\<close>

definition operation_from :: "storage_env \<Rightarrow> StorageStore \<Rightarrow> string \<Rightarrow> StorageAuthorizationRecord \<Rightarrow> bool" where
  "operation_from env st ref a \<longleftrightarrow> (\<exists>s ap moment. stage_of st ref = Some s \<and> sg_kind s = ''operation'' \<and>
     approved_in st s ap \<and> a = operation_record (sg_payload s) ap moment)"

lemma unchanged_authorizations [simp]:
  "ss_authorizations (fst (stage_authorization env now kind payload crew_evidence_id crew_owner created_at st)) = ss_authorizations st"
  "ss_authorizations (fst (approve_authorization clock ref approved_by approved_at st)) = ss_authorizations st"
  "ss_authorizations (fst (revoke_authorization clock ref revoked_by evidence_id revoked_at st)) = ss_authorizations st"
  "ss_authorizations (fst (create_execution_request env clock payload2 created_at2 st)) = ss_authorizations st"
  by (auto simp: stage_authorization_def approve_authorization_def revoke_authorization_def create_execution_request_def
    save_storage_execution_request_def insert_stage_def save_approval_def fst_case_save Let_def
    split: sum.split option.split)

lemma materialized_authorization:
  assumes "storage_ok env st"
    "tbl_get (ss_authorizations (fst (materialize_authorization env clock ref0 materialized_at st))) ref = Some a"
  shows "tbl_get (ss_authorizations st) ref = Some a \<or> operation_from env st ref a"
proof (cases "res_bind (required_stage st ref0) (\<lambda>s. res_bind (check_materialize
    (str_default materialized_at (isoformat_utc clock)) s st) (\<lambda>ap. Inr (s, ap)))")
  case (Inl e)
  with assms(2) show ?thesis by (simp add: materialize_authorization_def Let_def)
next
  case (Inr p)
  obtain s ap where p: "p = (s, ap)" by (cases p)
  with Inr have s: "stage_of st ref0 = Some s" and ap: "approved_in st s ap"
    by (auto simp: res_bind_Inr_iff required_stage_def dest: check_materialize_approved split: option.splits)
  note found = stage_found [OF assms(1) s]
  let ?a = "operation_record (sg_payload s) ap (str_default materialized_at (isoformat_utc clock))"
  have ref: "sa_authorization_ref ?a = ref0" using found by (simp add: stage_ok_def operation_record_def)
  have t: "tbl_ok (ss_authorizations st)" using assms(1) by (simp add: storage_ok_def keyed_by_def)
  show ?thesis
  proof (cases "sg_kind s = ''root''")
    case True
    with assms(2) Inr p show ?thesis
      by (auto simp: materialize_authorization_def fst_case_save save_storage_root_authorization_def Let_def
        split: option.splits if_splits)
  next
    case False
    then have k: "sg_kind s = ''operation''" using found by (auto simp: stage_ok_def)
    have "ref = ref0 \<and> a = ?a" if "tbl_get (ss_authorizations st) ref \<noteq> Some a"
      using assms(2) that Inr p False ref t
      by (auto simp: materialize_authorization_def fst_case_save save_storage_authorization_def tbl_get_upsert Let_def
        split: sum.splits option.splits if_splits)
    with s k ap show ?thesis unfolding operation_from_def by blast
  qed
qed

lemma step_authorization:
  assumes "storage_step env st st'" "storage_ok env st" "tbl_get (ss_authorizations st') ref = Some a"
  shows "tbl_get (ss_authorizations st) ref = Some a \<or> operation_from env st ref a"
  using assms
  by (cases rule: storage_step.cases)
    (simp_all add: materialized_authorization, simp add: storage_kept_def)

text \<open>The history of an authorization: the state in which its stage, unchanged since, stood approved.\<close>

definition has_history :: "storage_env \<Rightarrow> StorageStore \<Rightarrow> string \<Rightarrow> StorageAuthorizationRecord \<Rightarrow> bool" where
  "has_history env st ref a \<longleftrightarrow> (\<exists>st0. reach no_storage (storage_step env) st0 \<and> (storage_step env)\<^sup>*\<^sup>* st0 st \<and>
     operation_from env st0 ref a)"

lemma authorization_history:
  assumes "reach no_storage (storage_step env) st"
  shows "tbl_get (ss_authorizations st) ref = Some a \<Longrightarrow> has_history env st ref a"
  using assms
proof (induction rule: reach.induct)
  case (reach_init st)
  then show ?case by (simp add: no_storage_def)
next
  case (reach_step st st')
  have ok: "storage_ok env st" by (rule storage.inv_reach [OF reach_step.hyps(1)])
  from step_authorization [OF reach_step.hyps(2) ok reach_step.prems]
  show ?case
  proof
    assume "tbl_get (ss_authorizations st) ref = Some a"
    with reach_step.IH reach_step.hyps(2) show ?thesis
      unfolding has_history_def by (meson rtranclp.rtrancl_into_rtrancl)
  next
    assume "operation_from env st ref a"
    with reach_step.hyps show ?thesis unfolding has_history_def by blast
  qed
qed

lemma verified_facts:
  assumes "verify_storage_authorization env now a r c ap d pr ro act pol = Inr x"
  shows "sa_target_digest a = canonical_adapter_request_digest env r \<and> sq_request_digest r = sa_request_digest a \<and>
    canonical_digest env r = sa_request_digest a \<and> sa_claim_id a = sq_claim_id r \<and>
    cl_status c \<in> STORAGE_CLAIM_STATUSES \<and> cl_owner_thread c = sq_requested_by r \<and> cl_resource_id c = sq_resource_id r \<and>
    sa_approval_id a = sq_approval_id r \<and> apr_status ap = Appr_APPROVED"
  using assms by (clarsimp simp: verify_storage_authorization_def res_bind_Inr_iff)


section \<open>A sample run\<close>

definition zero_env :: storage_env where
  "zero_env = \<lparr>se_sha256 = (\<lambda>_. replicate 64 (CHR ''0'')), se_float_repr = (\<lambda>_. ''0.5''), se_str = (\<lambda>_. ''x''),
     se_bind = (\<lambda>_. Inr ''x'')\<rparr>"

definition zero_digest :: string where
  "zero_digest = ''sha256:'' @ replicate 64 (CHR ''0'')"

definition sample_crew :: "string \<Rightarrow> OwnerDomain \<Rightarrow> CrewMessage" where
  "sample_crew i owner = \<lparr>cm_id = i, cm_owner_domain = owner, cm_subject = ''s'', cm_message = ''m'', cm_priority = Risk_LOW,
     cm_status = Crew_ACKNOWLEDGED, cm_requested_by = ''p1'', cm_created_at = None, cm_updated_at = None,
     cm_related_resource_id = None, cm_related_plan_id = None, cm_related_limit_id = None,
     cm_review_status = Review_APPROVED, cm_decision_reason = Some ''ok'', cm_correction_request = None,
     cm_decision_evidence_ids = [Some ''e''], cm_decided_by = Some (owner_value owner), cm_decided_at = Some ''2024-05-01'',
     cm_supersedes_message_id = None, cm_superseded_by_message_id = None, cm_acceptance_criteria = [],
     cm_request_evidence_ids = []\<rparr>"

text \<open>A store with a claim, an enabled adapter and approved crew evidence, but nothing of the storage lifecycle.\<close>

definition sample_start :: StorageStore where
  "sample_start = \<lparr>st_resources = [], st_claims = [(''c1'', sample_claim)], st_decisions = [], st_approvals = [],
     st_audit_events = [], cs_messages = [(''crew.k'', sample_crew ''crew.k'' Owner_KIRA), (''crew.o'', sample_crew ''crew.o'' Owner_OBRIEN)],
     ss_registrations = [(''a1'', sample_registration)], ss_requests = [], ss_dispatches = [], ss_results = [],
     ss_authorizations = [], ss_root_authorizations = [], ss_stages = [], ss_revocations = []\<rparr>"

definition sample_payload :: "(string, pyval) pydict" where
  "sample_payload =
     [(''request_id'', PStr ''q1''), (''adapter_id'', PStr ''a1''), (''adapter_revision'', PInt 1), (''project_id'', PStr ''p1''),
      (''resource_id'', PStr ''storage.x''), (''root_id'', PStr ''r1''), (''action'', PStr ''directory.create''),
      (''parameters'', PDict [(''relative_path'', PStr ''d''), (''parents'', PBool True)]), (''policy_revision'', PStr ''v1''),
      (''claim_id'', PStr ''c1''), (''approval_id'', PStr ''ap1''), (''authorization_ref'', PStr ''au1''),
      (''idempotency_key'', PStr ''k1''), (''requested_by'', PStr ''p1''), (''reason'', PStr ''need''),
      (''acceptance_criteria'', PList [PStr ''done'']), (''limits'', PDict [(''max_bytes'', PInt 10)]),
      (''expires_at'', PStr ''2024-05-02T00:00:00+00:00'')]"

definition sample_operation :: "(string, pyval) pydict" where
  "sample_operation =
     [(''authorization_ref'', PStr ''au1''), (''request_id'', PStr ''q1''), (''request_digest'', PStr zero_digest),
      (''project_id'', PStr ''p1''), (''root_id'', PStr ''r1''), (''action'', PStr ''directory.create''), (''policy_revision'', PStr ''v1''),
      (''claim_id'', PStr ''c1''), (''approval_id'', PStr ''ap1''), (''target_digest'', PStr zero_digest),
      (''limits'', PDict [(''max_bytes'', PInt 10)]), (''expires_at'', PStr ''2024-05-02T00:00:00+00:00'')]"

definition sample_time :: "string option" where "sample_time = Some ''2024-05-01T00:00:00+00:00''"

definition sample_requested :: StorageStore where
  "sample_requested = fst (create_execution_request zero_env 0 sample_payload sample_time sample_start)"

definition sample_staged :: StorageStore where
  "sample_staged = fst (stage_authorization zero_env (\<lambda>_. 0) ''operation'' sample_operation ''crew.o'' ''obrien'' sample_time sample_requested)"

definition sample_approved :: StorageStore where
  "sample_approved = fst (approve_authorization 0 ''au1'' ''ada'' sample_time sample_staged)"

definition sample_authorized :: StorageStore where
  "sample_authorized = fst (materialize_authorization zero_env 0 ''au1'' sample_time sample_approved)"

definition sample_query :: "(string, pyval) pydict" where
  "sample_query = [(''authorization_ref'', PStr ''au1''), (''request_digest'', PStr zero_digest), (''project_id'', PStr ''p1''),
     (''root_id'', PStr ''r1''), (''action'', PStr ''directory.create''), (''policy_revision'', PStr ''v1'')]"

definition is_verified :: "verification result \<Rightarrow> bool" where
  "is_verified v = (case v of Inr (Verified s) \<Rightarrow> True | _ \<Rightarrow> False)"

lemma sample_verified: "is_verified (verify_storage_authorization_status zero_env 0 sample_query sample_time sample_authorized)"
  by code_simp

lemma sample_start_empty: "no_storage sample_start"
  by (simp add: no_storage_def sample_start_def)

lemma storage_reach:
  assumes "reach no_storage (storage_step env) st"
  shows "reach no_storage (storage_step env) (fst (stage_authorization env now kind payload crew_evidence_id crew_owner created_at st))"
    "reach no_storage (storage_step env) (fst (approve_authorization clock ref approved_by approved_at st))"
    "reach no_storage (storage_step env) (fst (materialize_authorization env clock ref materialized_at st))"
    "reach no_storage (storage_step env) (fst (create_execution_request env clock payload created_at2 st))"
  by (rule reach_step [OF assms], rule step_stage step_approve step_materialize step_request)+

lemma sample_authorized_reach: "reach no_storage (storage_step zero_env) sample_authorized"
  unfolding sample_authorized_def sample_approved_def sample_staged_def sample_requested_def
  by (intro storage_reach reach_init sample_start_empty)


text \<open>Two root authorizations for the same root, approved one after the other.\<close>

definition sample_root :: "string \<Rightarrow> (string, pyval) pydict" where
  "sample_root ref =
     [(''authorization_ref'', PStr ref), (''action'', PStr ''root.register''), (''project_id'', PStr ''p1''), (''root_id'', PStr ''r1''),
      (''policy_revision'', PStr ''v1''), (''root_identity'', PStr zero_digest), (''alias'', PStr ''data''), (''status'', PStr ''active''),
      (''max_bytes'', PInt 10), (''target_digest'', PStr zero_digest), (''expires_at'', PStr ''2024-05-09T00:00:00+00:00'')]"

definition add_root :: "string \<Rightarrow> string \<Rightarrow> StorageStore \<Rightarrow> StorageStore" where
  "add_root ref moment st = fst (materialize_authorization zero_env 0 ref (Some moment)
     (fst (approve_authorization 0 ref ''ada'' (Some moment)
       (fst (stage_authorization zero_env (\<lambda>_. 0) ''root'' (sample_root ref) ''crew.k'' ''kira'' (Some moment) st)))))"

definition sample_roots :: StorageStore where
  "sample_roots = add_root ''b'' ''2024-05-02T00:00:00+00:00'' (add_root ''a'' ''2024-05-01T00:00:00+00:00'' sample_start)"

definition sample_root_query :: root_query where
  "sample_root_query = \<lparr>rx_project = ''p1'', rx_root = ''r1'', rx_policy = ''v1'', rx_identity = zero_digest, rx_alias = ''data'',
     rx_status = ''active'', rx_max_bytes = PInt 10, rx_target = zero_digest\<rparr>"

definition sample_later :: "string option" where "sample_later = Some ''2024-05-03T00:00:00+00:00''"

definition resolved_ref :: "StorageRootAuthorizationRecord result \<Rightarrow> string option" where
  "resolved_ref r = (case r of Inr a \<Rightarrow> Some (ro_authorization_ref a) | Inl _ \<Rightarrow> None)"

lemma sample_resolved:
  "resolved_ref (resolve_current_root_authorization 0 sample_root_query sample_later sample_roots) = Some ''b'' \<and>
   isOK (snd (revoke_authorization 0 ''b'' ''ada'' ''crew.k'' sample_later sample_roots))"
  by code_simp

lemma add_root_reach:
  assumes "reach no_storage (storage_step zero_env) st"
  shows "reach no_storage (storage_step zero_env) (add_root ref moment st)"
  unfolding add_root_def by (intro storage_reach assms)

lemma sample_roots_reach: "reach no_storage (storage_step zero_env) sample_roots"
  unfolding sample_roots_def by (intro add_root_reach reach_init sample_start_empty)

theorem resolved_root_is_newest_witness:
  "\<exists>a now t. resolve_current_root_authorization 0 sample_root_query sample_later sample_roots = Inr a \<and>
     ro_authorization_ref a = ''b'' \<and> root_stands sample_roots sample_root_query now a t"
proof -
  from sample_resolved obtain a where a: "resolve_current_root_authorization 0 sample_root_query sample_later sample_roots = Inr a"
    "ro_authorization_ref a = ''b''"
    by (auto simp: resolved_ref_def split: sum.splits)
  from resolved_root_is_newest [OF sample_roots_reach a(1)] a show ?thesis by blast
qed

theorem revoked_authorization_never_returns_witness:
  "\<exists>st1. revoke_authorization 0 ''b'' ''ada'' ''crew.k'' sample_later sample_roots = (st1, Inr ()) \<and>
     (\<forall>a. resolve_current_root_authorization 0 sample_root_query sample_later st1 = Inr a \<longrightarrow> ro_authorization_ref a \<noteq> ''b'')"
proof -
  obtain st1 where r: "revoke_authorization 0 ''b'' ''ada'' ''crew.k'' sample_later sample_roots = (st1, Inr ())"
    using sample_resolved
    by (cases "revoke_authorization 0 ''b'' ''ada'' ''crew.k'' sample_later sample_roots"; cases "snd (revoke_authorization 0 ''b'' ''ada'' ''crew.k'' sample_later sample_roots)") auto
  from revoked_authorization_never_returns [OF sample_roots_reach r rtranclp.rtrancl_refl] r show ?thesis by blast
qed

section \<open>Staging replaces approvals\<close>

text \<open>C39: Staging an operation saves a fresh pending approval under the approval id the payload names, whatever
  approval was stored under that id before: a decision taken there, of whatever component and about whatever subject, is gone.
\<close>

theorem staging_overwrites_any_approval:
  assumes "tables_ok st"
    "stage_authorization env now ''operation'' payload crew_evidence_id crew_owner created_at st = (st', Inr s)"
  shows "\<exists>ap. load_approval st' (item_text env payload ''approval_id'') = Inr ap \<and> apr_status ap = Appr_PENDING \<and>
    apr_decided_by ap = None \<and> apr_subject_id ap = item_text env payload ''request_id''"
proof -
  let ?s = "build_stage env now ''operation'' payload crew_evidence_id crew_owner created_at"
  from assms(2) have st': "st' = save_approval (stage_approval env ?s) (insert_stage ?s st)"
    by (auto simp: stage_authorization_def Let_def split: sum.splits)
  have "tables_ok (insert_stage ?s st)" using assms(1) by (simp add: insert_stage_def tables_ok_def)
  from tables_ok_save_back(4) [OF this] have "load_approval st' (sg_approval_id ?s) = Inr (stage_approval env ?s)"
    unfolding st' by (simp add: stage_approval_def)
  then show ?thesis by (simp add: build_stage_def stage_approval_def Let_def)
qed

definition sample_decided :: StorageStore where
  "sample_decided = sample_start\<lparr>st_approvals := [(''ap1'', sample_approval\<lparr>apr_subject_id := ''plan.7''\<rparr>)]\<rparr>"

lemma sample_overwrite:
  "isOK (snd (stage_authorization zero_env (\<lambda>_. 0) ''operation'' sample_operation ''crew.o'' ''obrien'' sample_time sample_decided))"
  by code_simp

theorem staging_overwrites_any_approval_witness:
  "\<exists>st' s ap old. load_approval sample_decided ''ap1'' = Inr old \<and> apr_status old = Appr_APPROVED \<and>
     stage_authorization zero_env (\<lambda>_. 0) ''operation'' sample_operation ''crew.o'' ''obrien'' sample_time sample_decided = (st', Inr s) \<and>
     load_approval st' ''ap1'' = Inr ap \<and> apr_status ap = Appr_PENDING"
proof -
  have ok: "tables_ok sample_decided" by (simp add: tables_ok_def sample_decided_def sample_start_def tbl_ok_def)
  have "item_text zero_env sample_operation ''approval_id'' = ''ap1''"
    by (simp add: item_text_def sample_operation_def dict_item_def dict_get_def)
  moreover obtain st' s where r: "stage_authorization zero_env (\<lambda>_. 0) ''operation'' sample_operation ''crew.o'' ''obrien'' sample_time sample_decided = (st', Inr s)"
    using sample_overwrite
    by (cases "stage_authorization zero_env (\<lambda>_. 0) ''operation'' sample_operation ''crew.o'' ''obrien'' sample_time sample_decided"; cases "snd (stage_authorization zero_env (\<lambda>_. 0) ''operation'' sample_operation ''crew.o'' ''obrien'' sample_time sample_decided)") auto
  moreover have "load_approval sample_decided ''ap1'' = Inr (sample_approval\<lparr>apr_subject_id := ''plan.7''\<rparr>)"
    "apr_status (sample_approval\<lparr>apr_subject_id := ''plan.7''\<rparr>) = Appr_APPROVED"
    by (simp_all add: load_approval_def get_payload_def tbl_get_def sample_decided_def sample_approval_def)
  ultimately show ?thesis using staging_overwrites_any_approval [OF ok r] by auto
qed

end
