(* ===== verification/Health.thy ===== *)
theory Health
  imports Core_Claims
begin

text \<open>
  Service health evidence, from \<^verbatim>\<open>src/overseer/health.py\<close>: the classification of one probe result against
  its target, the recovery of a failed service, and the summary of all targets over the recorded
  evidence. \<open>classify_probe\<close> is compared with a specification of what a passing probe is, and the
  dictionary of evidence lists behind \<open>summarize_health_targets\<close> with a reference definition that filters the
  evidence directly.
\<close>

section \<open>Targets, results and evidence\<close>

datatype ProbeType =
    Probe_HTTP | Probe_HTTPS | Probe_MCP | Probe_HTML | Probe_JSON | Probe_PROCESS | Probe_COMMAND | Probe_LOG
  | Probe_MANUAL

fun probe_type_value :: "ProbeType \<Rightarrow> string" where
  "probe_type_value Probe_HTTP = ''http''"
| "probe_type_value Probe_HTTPS = ''https''"
| "probe_type_value Probe_MCP = ''mcp''"
| "probe_type_value Probe_HTML = ''html''"
| "probe_type_value Probe_JSON = ''json''"
| "probe_type_value Probe_PROCESS = ''process''"
| "probe_type_value Probe_COMMAND = ''command''"
| "probe_type_value Probe_LOG = ''log''"
| "probe_type_value Probe_MANUAL = ''manual''"

datatype HealthStatus =
    Health_HEALTHY | Health_DEGRADED | Health_FAILED | Health_UNKNOWN | Health_RECOVERED | Health_SUSPENDED

fun health_status_value :: "HealthStatus \<Rightarrow> string" where
  "health_status_value Health_HEALTHY = ''healthy''"
| "health_status_value Health_DEGRADED = ''degraded''"
| "health_status_value Health_FAILED = ''failed''"
| "health_status_value Health_UNKNOWN = ''unknown''"
| "health_status_value Health_RECOVERED = ''recovered''"
| "health_status_value Health_SUSPENDED = ''suspended''"

record HealthTarget =
  ht_id :: string
  ht_resource_id :: string
  ht_name :: string
  ht_probe_type :: ProbeType
  ht_target :: string
  ht_owner_domain :: OwnerDomain
  ht_expected_status :: "int option"
  ht_expected_content_type :: "string option"
  ht_latency_warn_ms :: "int option"
  ht_enabled :: bool
  ht_suspension_reason :: string

record ProbeResult =
  pr_target :: string
  pr_probe_type :: ProbeType
  pr_status_code :: "int option"
  pr_content_type :: "string option"
  pr_body_summary :: string
  pr_error :: string
  pr_latency_ms :: "int option"
  pr_captured_at :: "string option"

record HealthEvidence =
  he_id :: string
  he_resource_id :: string
  he_target :: string
  he_probe_type :: ProbeType
  he_observed_status :: HealthStatus
  he_owner_domain :: OwnerDomain
  he_observed_error :: string
  he_recovery_required :: bool
  he_captured_at :: "string option"

record HealthTargetSummary =
  hs_target_id :: string
  hs_resource_id :: string
  hs_name :: string
  hs_target :: string
  hs_latest_status :: HealthStatus
  hs_owner_domain :: OwnerDomain
  hs_latest_evidence_id :: "string option"
  hs_latest_captured_at :: "string option"
  hs_recovery_required :: bool
  hs_error :: string
  hs_enabled :: bool
  hs_suspension_reason :: string

section \<open>Classification\<close>

definition content_type_matches :: "string option \<Rightarrow> string \<Rightarrow> bool" where
  "content_type_matches actual expected \<longleftrightarrow> str_true actual \<and> py_contains (py_lower expected) (py_lower (the actual))"

definition owner_for_status :: "HealthTarget \<Rightarrow> HealthStatus \<Rightarrow> string \<Rightarrow> OwnerDomain" where
  "owner_for_status target status error =
     (let lowered = py_lower error
      in if py_contains ''certificate'' lowered \<or> py_contains ''unauthorized'' lowered \<or> py_contains ''forbidden'' lowered
         then Owner_ODO
         else if py_contains ''proxy'' lowered \<or> py_contains ''gateway'' lowered then Owner_DAX
         else if status \<in> {Health_FAILED, Health_DEGRADED, Health_UNKNOWN} then ht_owner_domain target
         else ht_owner_domain target)"

definition evidence_suffix :: "ProbeResult option \<Rightarrow> string" where
  "evidence_suffix result =
     replace_char CHR ''-'' [] (replace_char CHR '':'' []
       (case result of None \<Rightarrow> ''current'' | Some r \<Rightarrow> str_default (pr_captured_at r) ''current''))"

definition health_evidence ::
  "HealthTarget \<Rightarrow> HealthStatus \<Rightarrow> string \<Rightarrow> bool \<Rightarrow> ProbeResult option \<Rightarrow> HealthEvidence" where
  "health_evidence target status error recovery_required result =
     \<lparr>he_id = ''health.'' @ ht_id target @ ''.'' @ evidence_suffix result, he_resource_id = ht_resource_id target,
      he_target = ht_target target, he_probe_type = ht_probe_type target, he_observed_status = status,
      he_owner_domain = owner_for_status target status error, he_observed_error = error,
      he_recovery_required = recovery_required,
      he_captured_at = (case result of None \<Rightarrow> None | Some r \<Rightarrow> pr_captured_at r)\<rparr>"

text \<open>\<^verbatim>\<open>target.expected_status or 200\<close>\<close>

definition expected_code :: "HealthTarget \<Rightarrow> int" where
  "expected_code target = (case ht_expected_status target of None \<Rightarrow> 200 | Some c \<Rightarrow> if c = 0 then 200 else c)"

text \<open>
  \<open>probe_verdict\<close> is the cascade of checks of \<open>classify_probe\<close> on a result that is present: the status and the
  error text of the evidence; the recovery flag is raised by every branch but the last.
\<close>

definition probe_verdict :: "HealthTarget \<Rightarrow> ProbeResult \<Rightarrow> HealthStatus \<times> string \<times> bool" where
  "probe_verdict target r =
     (if pr_target r \<noteq> ht_target target then (Health_UNKNOWN, ''probe target does not match health target'', True)
      else if pr_error r \<noteq> [] then (Health_FAILED, pr_error r, True)
      else if (case pr_status_code r of None \<Rightarrow> False | Some c \<Rightarrow> 500 \<le> c)
        then (Health_FAILED, ''HTTP '' @ str_int (the (pr_status_code r)), True)
      else if (case pr_status_code r of None \<Rightarrow> False | Some c \<Rightarrow> c \<noteq> expected_code target)
        then (Health_DEGRADED, ''expected HTTP '' @ str_int (expected_code target) @ '', got '' @
          str_int (the (pr_status_code r)), True)
      else if str_true (ht_expected_content_type target) \<and>
          \<not> content_type_matches (pr_content_type r) (the (ht_expected_content_type target))
        then (Health_DEGRADED, ''expected content type '' @ the (ht_expected_content_type target) @ '', got '' @
          str_default (pr_content_type r) ''missing'', True)
      else if ht_probe_type target = Probe_JSON \<and> py_contains ''invalid json'' (py_lower (pr_body_summary r))
        then (Health_FAILED, ''invalid JSON response'', True)
      else if (case (ht_latency_warn_ms target, pr_latency_ms r) of (Some warn, Some ms) \<Rightarrow> warn < ms | _ \<Rightarrow> False)
        then (Health_DEGRADED, ''latency '' @ str_int (the (pr_latency_ms r)) @ ''ms exceeds '' @
          str_int (the (ht_latency_warn_ms target)) @ ''ms'', True)
      else (Health_HEALTHY, [], False))"

definition classify_probe :: "HealthTarget \<Rightarrow> ProbeResult option \<Rightarrow> HealthEvidence" where
  "classify_probe target result =
     (case result of
        None \<Rightarrow> health_evidence target Health_UNKNOWN ''missing probe result'' True None
      | Some r \<Rightarrow> (case probe_verdict target r of (status, error, recovery) \<Rightarrow>
          health_evidence target status error recovery (Some r)))"

definition recovery_evidence :: "HealthEvidence \<Rightarrow> HealthEvidence \<Rightarrow> HealthEvidence" where
  "recovery_evidence failed current =
     (if he_resource_id failed \<noteq> he_resource_id current \<or> he_target failed \<noteq> he_target current then current
      else if he_observed_status failed \<in> {Health_FAILED, Health_DEGRADED, Health_UNKNOWN} \<and>
          he_observed_status current = Health_HEALTHY
        then current\<lparr>he_observed_status := Health_RECOVERED, he_observed_error := [], he_recovery_required := False\<rparr>
      else current)"

section \<open>Summaries\<close>

definition evidence_key :: "HealthEvidence \<Rightarrow> string" where
  "evidence_key e = str_default (he_captured_at e) (he_id e)"

definition latest_evidence :: "HealthEvidence list \<Rightarrow> HealthEvidence option" where
  "latest_evidence items = (case items of [] \<Rightarrow> None | x # xs \<Rightarrow> Some (max_by evidence_key x xs))"

fun evidence_by_key ::
  "HealthEvidence list \<Rightarrow> (string \<times> string, HealthEvidence list) pydict \<Rightarrow>
   (string \<times> string, HealthEvidence list) pydict" where
  "evidence_by_key [] d = d"
| "evidence_by_key (e # es) d =
     (let k = (he_resource_id e, he_target e);
          items = (case dict_get d k of None \<Rightarrow> [] | Some xs \<Rightarrow> xs)
      in evidence_by_key es (dict_set k (items @ [e]) d))"

definition target_summary ::
  "(string \<times> string, HealthEvidence list) pydict \<Rightarrow> HealthTarget \<Rightarrow> HealthTargetSummary" where
  "target_summary d target =
     (let base = \<lparr>hs_target_id = ht_id target, hs_resource_id = ht_resource_id target, hs_name = ht_name target,
            hs_target = ht_target target, hs_latest_status = Health_SUSPENDED, hs_owner_domain = ht_owner_domain target,
            hs_latest_evidence_id = None, hs_latest_captured_at = None, hs_recovery_required = False, hs_error = [],
            hs_enabled = True, hs_suspension_reason = []\<rparr>
      in if \<not> ht_enabled target
         then base\<lparr>hs_enabled := False, hs_suspension_reason := ht_suspension_reason target\<rparr>
         else case latest_evidence (case dict_get d (ht_resource_id target, ht_target target) of
                None \<Rightarrow> [] | Some xs \<Rightarrow> xs) of
           None \<Rightarrow> base\<lparr>hs_latest_status := Health_UNKNOWN, hs_recovery_required := True,
             hs_error := ''missing health evidence''\<rparr>
         | Some latest \<Rightarrow> base\<lparr>hs_latest_status := he_observed_status latest, hs_owner_domain := he_owner_domain latest,
             hs_latest_evidence_id := Some (he_id latest), hs_latest_captured_at := he_captured_at latest,
             hs_recovery_required := he_recovery_required latest, hs_error := he_observed_error latest\<rparr>)"

definition summarize_health_targets :: "HealthTarget list \<Rightarrow> HealthEvidence list \<Rightarrow> HealthTargetSummary list" where
  "summarize_health_targets targets items = map (target_summary (evidence_by_key items [])) targets"

section \<open>What a passing probe is\<close>

definition probe_passes :: "HealthTarget \<Rightarrow> ProbeResult \<Rightarrow> bool" where
  "probe_passes target r \<longleftrightarrow>
     pr_target r = ht_target target \<and> pr_error r = [] \<and>
     (\<forall>c. pr_status_code r = Some c \<longrightarrow> c = expected_code target \<and> c < 500) \<and>
     (str_true (ht_expected_content_type target) \<longrightarrow>
        content_type_matches (pr_content_type r) (the (ht_expected_content_type target))) \<and>
     \<not> (ht_probe_type target = Probe_JSON \<and> py_contains ''invalid json'' (py_lower (pr_body_summary r))) \<and>
     (\<forall>warn ms. ht_latency_warn_ms target = Some warn \<and> pr_latency_ms r = Some ms \<longrightarrow> ms \<le> warn)"

lemma probe_verdict_passes:
  "probe_verdict target r = (Health_HEALTHY, [], False) \<longleftrightarrow> probe_passes target r"
  unfolding probe_verdict_def probe_passes_def by (auto simp: not_le not_less split: option.splits)

lemma probe_verdict_flag:
  assumes "probe_verdict target r = (status, error, recovery)"
  shows "recovery \<longleftrightarrow> status \<noteq> Health_HEALTHY"
  using assms unfolding probe_verdict_def by (auto split: if_splits)

lemma probe_verdict_healthy:
  assumes "probe_verdict target r = (Health_HEALTHY, error, recovery)"
  shows "probe_passes target r"
  using assms unfolding probe_verdict_passes [symmetric] unfolding probe_verdict_def by (auto split: if_splits)

text \<open>A probe is classified healthy exactly when a result was captured, it belongs to the target, carries
  no error, has the expected status code (below 500), the expected content type, no invalid JSON and an
  acceptable latency; every other outcome demands recovery, and only those do.
\<close>

theorem healthy_iff_probe_passes:
  "(he_observed_status (classify_probe target result) = Health_HEALTHY \<longleftrightarrow>
     (case result of None \<Rightarrow> False | Some r \<Rightarrow> probe_passes target r)) \<and>
   (he_recovery_required (classify_probe target result) \<longleftrightarrow>
     he_observed_status (classify_probe target result) \<noteq> Health_HEALTHY)"
proof (cases result)
  case None
  then show ?thesis by (simp add: classify_probe_def health_evidence_def)
next
  case (Some r)
  obtain status error recovery where v: "probe_verdict target r = (status, error, recovery)"
    by (cases "probe_verdict target r")
  have "status = Health_HEALTHY \<longleftrightarrow> probe_passes target r"
    using v probe_verdict_healthy [of target r] probe_verdict_passes [of target r] by auto
  with Some v probe_verdict_flag [OF v] show ?thesis by (simp add: classify_probe_def health_evidence_def)
qed

section \<open>The summary shows the newest evidence\<close>

lemma latest_evidence_Some:
  assumes "latest_evidence items = Some e"
  shows "e \<in> set items" "z \<in> set items \<Longrightarrow> evidence_key z \<le> evidence_key e"
  using assms max_by_props [of evidence_key] by (auto simp: latest_evidence_def split: list.splits)

lemma latest_evidence_None: "latest_evidence items = None \<longleftrightarrow> items = []"
  by (auto simp: latest_evidence_def split: list.splits)

definition evidence_for :: "string \<Rightarrow> string \<Rightarrow> HealthEvidence list \<Rightarrow> HealthEvidence list" where
  "evidence_for resource_id target items =
     filter (\<lambda>e. he_resource_id e = resource_id \<and> he_target e = target) items"

lemma evidence_by_key_get:
  "(case dict_get (evidence_by_key items d) (rid, tgt) of None \<Rightarrow> [] | Some xs \<Rightarrow> xs) =
   (case dict_get d (rid, tgt) of None \<Rightarrow> [] | Some xs \<Rightarrow> xs) @ evidence_for rid tgt items"
  by (induction items d rule: evidence_by_key.induct) (auto simp: evidence_for_def Let_def split: option.splits)

definition shows_newest :: "HealthEvidence list \<Rightarrow> HealthTarget \<Rightarrow> HealthTargetSummary \<Rightarrow> bool" where
  "shows_newest items target s \<longleftrightarrow> hs_target_id s = ht_id target \<and> hs_enabled s = ht_enabled target \<and>
     (if \<not> ht_enabled target then hs_latest_status s = Health_SUSPENDED \<and> \<not> hs_recovery_required s
      else if evidence_for (ht_resource_id target) (ht_target target) items = []
        then hs_latest_status s = Health_UNKNOWN \<and> hs_recovery_required s
      else \<exists>e \<in> set (evidence_for (ht_resource_id target) (ht_target target) items).
        hs_latest_evidence_id s = Some (he_id e) \<and> hs_latest_status s = he_observed_status e \<and>
        hs_recovery_required s = he_recovery_required e \<and>
        (\<forall>z \<in> set (evidence_for (ht_resource_id target) (ht_target target) items). evidence_key z \<le> evidence_key e))"

lemma target_summary_newest: "shows_newest items target (target_summary (evidence_by_key items []) target)"
proof (cases "latest_evidence (evidence_for (ht_resource_id target) (ht_target target) items)")
  case None
  with latest_evidence_None have "evidence_for (ht_resource_id target) (ht_target target) items = []" by blast
  with None show ?thesis by (simp add: shows_newest_def target_summary_def evidence_by_key_get Let_def)
next
  case (Some e)
  from latest_evidence_Some [OF Some] latest_evidence_None Some show ?thesis
    by (auto simp: shows_newest_def target_summary_def evidence_by_key_get Let_def)
qed

text \<open>The summary has one entry per target, in the order of the targets: a disabled target is
  suspended, a target without evidence is unknown and asks for recovery, and every other one shows an item of its own
  evidence that no other item is newer than.
\<close>

theorem summaries_show_newest:
  "list_all2 (shows_newest items) targets (summarize_health_targets targets items)"
  by (simp add: summarize_health_targets_def list_all2_map2 target_summary_newest list_all2_refl)

end
