(* ===== verification/Site_Config.thy ===== *)
theory Site_Config
  imports Store_Model Usage_Limits Health
begin

text \<open>
  Physical assets (\<^verbatim>\<open>src/overseer/physical.py\<close>) and the operator's configuration (\<^verbatim>\<open>src/overseer/config.py\<close>): which
  identities clash, what a configuration is checked for, and how it is written into the store, with the
  tables of usage limits, health targets, health evidence and physical identities. Reading the JSON document into the
  records is not modelled; the search for secret-like keys in it is.
\<close>

section \<open>Physical identities\<close>

datatype PhysicalAssetKind =
    Asset_USB_DEVICE | Asset_SERIAL_PORT | Asset_COM_PORT | Asset_CONNECTED_DEVICE | Asset_POWER_RESOURCE
  | Asset_STORAGE_ARRAY | Asset_COMPOSITE

datatype PhysicalIdentitySource = Source_OPERATOR_DECLARED | Source_DISCOVERED

record PhysicalIdentity =
  pi_kind :: PhysicalAssetKind
  pi_stable_id :: string
  pi_observed_paths :: "string set"
  pi_vendor_id :: "string option"
  pi_product_id :: "string option"
  pi_serial_number :: "string option"
  pi_capabilities :: "string set"
  pi_power_profile :: "string option"
  pi_storage_profile :: "string option"
  pi_exclusive_groups :: "string set"
  pi_depends_on :: "string set"
  pi_source :: PhysicalIdentitySource
  pi_last_observed_at :: "string option"

definition identity_keys :: "PhysicalIdentity \<Rightarrow> string set" where
  "identity_keys p =
     {''stable:'' @ pi_stable_id p} \<union> (\<lambda>s. ''path:'' @ s) ` pi_observed_paths p \<union>
     (if str_true (pi_vendor_id p) \<and> str_true (pi_product_id p)
      then {''usb:'' @ the (pi_vendor_id p) @ '':'' @ the (pi_product_id p) @ '':'' @ str_default (pi_serial_number p) ''no-serial''}
      else {}) \<union>
     (if str_true (pi_serial_number p) then {''serial:'' @ the (pi_serial_number p)} else {}) \<union>
     (\<lambda>s. ''group:'' @ s) ` pi_exclusive_groups p"

definition is_complete_for_exclusive_checkout :: "PhysicalIdentity \<Rightarrow> bool" where
  "is_complete_for_exclusive_checkout p \<longleftrightarrow> pi_stable_id p \<noteq> [] \<and>
     (case pi_kind p of
        Asset_USB_DEVICE \<Rightarrow> (str_true (pi_vendor_id p) \<and> str_true (pi_product_id p)) \<or> str_true (pi_serial_number p) \<or>
          pi_observed_paths p \<noteq> {}
      | Asset_CONNECTED_DEVICE \<Rightarrow> (str_true (pi_vendor_id p) \<and> str_true (pi_product_id p)) \<or> str_true (pi_serial_number p) \<or>
          pi_observed_paths p \<noteq> {}
      | Asset_SERIAL_PORT \<Rightarrow> pi_observed_paths p \<noteq> {}
      | Asset_COM_PORT \<Rightarrow> pi_observed_paths p \<noteq> {}
      | _ \<Rightarrow> True)"

definition has_power_risk :: "PhysicalIdentity \<Rightarrow> bool" where
  "has_power_risk p \<longleftrightarrow> str_true (pi_power_profile p) \<and> the (pi_power_profile p) \<notin> {''none'', ''low''}"

definition has_storage_risk :: "PhysicalIdentity \<Rightarrow> bool" where
  "has_storage_risk p \<longleftrightarrow> str_true (pi_storage_profile p) \<and> the (pi_storage_profile p) \<notin> {''none'', ''read_only''}"

definition physical_identity_conflicts :: "PhysicalIdentity \<Rightarrow> PhysicalIdentity \<Rightarrow> bool" where
  "physical_identity_conflicts left right \<longleftrightarrow> identity_keys left \<inter> identity_keys right \<noteq> {} \<or>
     pi_depends_on left \<inter> ({pi_stable_id right} \<union> pi_depends_on right) \<noteq> {}"

section \<open>The configuration\<close>

record OverseerConfig =
  oc_resources :: "Resource list"
  oc_usage_limits :: "UsageLimit list"
  oc_health_targets :: "HealthTarget list"
  oc_physical_identities :: "PhysicalIdentity list"

definition SECRET_KEY_PARTS :: "string list" where
  "SECRET_KEY_PARTS = [''token'', ''secret'', ''password'', ''credential'', ''api_key'', ''private_key'']"

fun reject_secret_like_keys :: "pyval \<Rightarrow> unit result"
  and reject_items :: "(string \<times> pyval) list \<Rightarrow> unit result"
  and reject_values :: "pyval list \<Rightarrow> unit result" where
  "reject_secret_like_keys (PDict kvs) = reject_items kvs"
| "reject_secret_like_keys (PList vs) = reject_values vs"
| "reject_secret_like_keys PNone = Inr ()"
| "reject_secret_like_keys (PBool b) = Inr ()"
| "reject_secret_like_keys (PInt i) = Inr ()"
| "reject_secret_like_keys (PFloat x) = Inr ()"
| "reject_secret_like_keys (PStr s) = Inr ()"
| "reject_items [] = Inr ()"
| "reject_items ((k, v) # kvs) =
     (if list_ex (\<lambda>part. py_contains part (py_lower k)) SECRET_KEY_PARTS
      then Inl (ValueError (''secret-like config key is not allowed: '' @ k))
      else res_bind (reject_secret_like_keys v) (\<lambda>_. reject_items kvs))"
| "reject_values [] = Inr ()"
| "reject_values (v # vs) = res_bind (reject_secret_like_keys v) (\<lambda>_. reject_values vs)"

fun reject_duplicates :: "string \<Rightarrow> string list \<Rightarrow> string list \<Rightarrow> unit result" where
  "reject_duplicates label seen [] = Inr ()"
| "reject_duplicates label seen (v # vs) =
     (if v \<in> set seen then Inl (ValueError (''duplicate '' @ label @ '' id: '' @ v)) else reject_duplicates label (v # seen) vs)"

definition check_limit :: "string set \<Rightarrow> UsageLimit \<Rightarrow> unit result" where
  "check_limit ids l =
     (if ul_resource_id l \<notin> ids then Inl (ValueError (''usage limit references unknown resource: '' @ ul_resource_id l))
      else if ul_capacity l < 0 \<or> ul_remaining l < 0
        then Inl (ValueError ''usage limit capacity and remaining must be non-negative'')
      else if ul_capacity l < ul_remaining l then Inl (ValueError ''usage limit remaining cannot exceed capacity'')
      else Inr ())"

definition check_target :: "string set \<Rightarrow> HealthTarget \<Rightarrow> unit result" where
  "check_target ids t =
     (if ht_resource_id t \<notin> ids then Inl (ValueError (''health target references unknown resource: '' @ ht_resource_id t))
      else Inr ())"

definition check_pair :: "PhysicalIdentity \<Rightarrow> PhysicalIdentity \<Rightarrow> unit result" where
  "check_pair left right =
     (if physical_identity_conflicts left right
      then Inl (ValueError (''physical identity conflict: '' @ pi_stable_id left @ '' conflicts with '' @ pi_stable_id right))
      else Inr ())"

fun check_identities :: "PhysicalIdentity list \<Rightarrow> unit result" where
  "check_identities [] = Inr ()"
| "check_identities (left # rest) =
     (if \<not> is_complete_for_exclusive_checkout left
      then Inl (ValueError (''physical identity is incomplete for checkout: '' @ pi_stable_id left))
      else res_bind (check_all (check_pair left) rest) (\<lambda>_. check_identities rest))"

definition validate_config :: "OverseerConfig \<Rightarrow> unit result" where
  "validate_config c =
     (let ids = set (map res_id (oc_resources c))
      in res_bind (reject_duplicates ''resource'' [] (map res_id (oc_resources c))) (\<lambda>_.
         res_bind (reject_duplicates ''usage limit'' [] (map ul_id (oc_usage_limits c))) (\<lambda>_.
         res_bind (reject_duplicates ''health target'' [] (map ht_id (oc_health_targets c))) (\<lambda>_.
         res_bind (reject_duplicates ''physical identity'' [] (map pi_stable_id (oc_physical_identities c))) (\<lambda>_.
         res_bind (check_all (check_limit ids) (oc_usage_limits c)) (\<lambda>_.
         res_bind (check_all (check_target ids) (oc_health_targets c)) (\<lambda>_.
         check_identities (oc_physical_identities c))))))))"

section \<open>Seeding the store\<close>

record SiteStore = OverseerStore +
  sy_usage_limits :: "UsageLimit tbl"
  sy_health_targets :: "HealthTarget tbl"
  sy_health_evidence :: "HealthEvidence tbl"
  sy_physical_identities :: "PhysicalIdentity tbl"

definition save_usage_limit :: "UsageLimit \<Rightarrow> SiteStore \<Rightarrow> SiteStore" where
  "save_usage_limit l st = st\<lparr>sy_usage_limits := tbl_upsert (ul_id l) l (sy_usage_limits st)\<rparr>"

definition load_usage_limit :: "SiteStore \<Rightarrow> string \<Rightarrow> UsageLimit result" where
  "load_usage_limit st k = get_payload (sy_usage_limits st) k"

definition save_health_target :: "HealthTarget \<Rightarrow> SiteStore \<Rightarrow> SiteStore" where
  "save_health_target t st = st\<lparr>sy_health_targets := tbl_upsert (ht_id t) t (sy_health_targets st)\<rparr>"

definition load_health_target :: "SiteStore \<Rightarrow> string \<Rightarrow> HealthTarget result" where
  "load_health_target st k = get_payload (sy_health_targets st) k"

definition save_health_evidence :: "HealthEvidence \<Rightarrow> SiteStore \<Rightarrow> SiteStore" where
  "save_health_evidence e st = st\<lparr>sy_health_evidence := tbl_upsert (he_id e) e (sy_health_evidence st)\<rparr>"

definition load_health_evidence :: "SiteStore \<Rightarrow> string \<Rightarrow> HealthEvidence result" where
  "load_health_evidence st k = get_payload (sy_health_evidence st) k"

definition list_health_evidence :: "SiteStore \<Rightarrow> HealthEvidence list" where
  "list_health_evidence st = map snd (sy_health_evidence st)"

definition save_physical_identity :: "PhysicalIdentity \<Rightarrow> SiteStore \<Rightarrow> SiteStore" where
  "save_physical_identity p st = st\<lparr>sy_physical_identities := tbl_upsert (pi_stable_id p) p (sy_physical_identities st)\<rparr>"

definition load_physical_identity :: "SiteStore \<Rightarrow> string \<Rightarrow> PhysicalIdentity result" where
  "load_physical_identity st k = get_payload (sy_physical_identities st) k"

definition seed_store_from_config :: "OverseerConfig \<Rightarrow> SiteStore \<Rightarrow> SiteStore \<times> unit result" where
  "seed_store_from_config c st =
     (case validate_config c of
        Inl e \<Rightarrow> (st, Inl e)
      | Inr _ \<Rightarrow>
          (fold save_physical_identity (oc_physical_identities c)
            (fold save_health_target (oc_health_targets c)
              (fold save_usage_limit (oc_usage_limits c)
                (fold save_resource (oc_resources c) st))), Inr ()))"

definition delete_health_evidence :: "string \<Rightarrow> SiteStore \<Rightarrow> SiteStore" where
  "delete_health_evidence k st = st\<lparr>sy_health_evidence := filter (\<lambda>(i, e). i \<noteq> k) (sy_health_evidence st)\<rparr>"

text \<open>\<^verbatim>\<open>sorted(..., reverse=True)\<close> keeps the order of items with equal keys.\<close>

definition newest_evidence :: "HealthEvidence list \<Rightarrow> HealthEvidence list" where
  "newest_evidence items = rev (sort_key evidence_key (rev items))"

definition stale_evidence :: "nat \<Rightarrow> HealthEvidence list \<Rightarrow> HealthEvidence list" where
  "stale_evidence n items = concat (map (\<lambda>(k, bunch). drop n (newest_evidence bunch)) (evidence_by_key items []))"

definition prune_health_evidence :: "int \<Rightarrow> SiteStore \<Rightarrow> SiteStore \<times> nat result" where
  "prune_health_evidence retain st =
     (if retain < 1 then (st, Inl (ValueError ''retain_per_target must be positive''))
      else let stale = stale_evidence (nat retain) (list_health_evidence st)
           in (fold (\<lambda>e. delete_health_evidence (he_id e)) stale st, Inr (length stale)))"

section \<open>Pruning keeps every summary\<close>

lemma max_by_first: "m = max_by f x xs \<Longrightarrow> hd (filter (\<lambda>y. f y = f m) (x # xs)) = m"
proof (induction xs arbitrary: x)
  case (Cons w xs)
  show ?case
  proof (cases "f x < f w")
    case True
    then have m: "m = max_by f w xs" using Cons.prems by simp
    have "f x \<noteq> f m" unfolding m using True max_by_props [of f w xs] by (metis leD list.set_intros(1))
    with Cons.IH [OF m] show ?thesis by simp
  next
    case False
    then have m: "m = max_by f x xs" "f w \<le> f x" using Cons.prems by auto
    then have "f x \<le> f m" using max_by_props [of f x xs] by simp
    with m(2) have "f x \<noteq> f m \<Longrightarrow> f w \<noteq> f m" by (metis order.antisym)
    with Cons.IH [OF m(1)] show ?thesis by (cases "f x = f m") simp_all
  qed
qed simp

lemma latest_first:
  assumes "latest_evidence items = Some e"
  shows "hd (filter (\<lambda>z. evidence_key z = evidence_key e) items) = e"
proof (cases items)
  case (Cons x xs)
  with assms have "e = max_by evidence_key x xs" by (simp add: latest_evidence_def)
  with max_by_first [OF this] Cons show ?thesis by simp
qed (use assms in \<open>simp add: latest_evidence_def\<close>)

lemma hd_filter: "xs \<noteq> [] \<Longrightarrow> P (hd xs) \<Longrightarrow> hd (filter P xs) = hd xs"
  by (cases xs) auto

lemma latest_filter:
  assumes "latest_evidence items = Some e" "P e"
  shows "latest_evidence (filter P items) = Some e"
proof -
  have e: "e \<in> set items" "\<And>z. z \<in> set items \<Longrightarrow> evidence_key z \<le> evidence_key e"
    using latest_evidence_Some [OF assms(1)] by auto
  with assms(2) have "filter P items \<noteq> []" by (auto simp: filter_empty_conv)
  then obtain e' where e': "latest_evidence (filter P items) = Some e'" by (meson latest_evidence_None not_None_eq)
  have k: "evidence_key e' = evidence_key e"
    using latest_evidence_Some [OF e'] e assms(2) by (intro order.antisym) auto
  let ?same = "filter (\<lambda>z. evidence_key z = evidence_key e) items"
  have "hd (filter P ?same) = e'" using latest_first [OF e'] k by (simp add: conj_commute)
  moreover have "?same \<noteq> []" "hd ?same = e" using e(1) latest_first [OF assms(1)] by (auto simp: filter_empty_conv)
  ultimately show ?thesis using e' assms(2) hd_filter [of ?same P] by simp
qed

lemma newest_evidence_hd:
  assumes "latest_evidence items = Some e"
  shows "newest_evidence items \<noteq> []" "hd (newest_evidence items) = e"
proof -
  have e: "e \<in> set items" "\<And>z. z \<in> set items \<Longrightarrow> evidence_key z \<le> evidence_key e"
    using latest_evidence_Some [OF assms] by auto
  have set: "set (newest_evidence items) = set items" by (simp add: newest_evidence_def)
  with e(1) show ne: "newest_evidence items \<noteq> []" by auto
  have "sorted (map evidence_key (rev (newest_evidence items)))" unfolding newest_evidence_def rev_rev_ident by (rule sorted_sort_key)
  then have desc: "sorted_wrt (\<lambda>x y. evidence_key y \<le> evidence_key x) (newest_evidence items)"
    by (simp add: sorted_map sorted_wrt_rev)
  have "evidence_key e \<le> evidence_key (hd (newest_evidence items))"
    using desc ne e(1) unfolding set [symmetric] by (cases "newest_evidence items") auto
  with e(2) set ne have k: "evidence_key (hd (newest_evidence items)) = evidence_key e"
    by (metis hd_in_set order.antisym)
  have "filter (\<lambda>z. evidence_key z = evidence_key e) (newest_evidence items) = filter (\<lambda>z. evidence_key z = evidence_key e) items"
    by (simp add: newest_evidence_def rev_filter [symmetric] sort_key_stable)
  with latest_first [OF assms] hd_filter [OF ne, of "\<lambda>z. evidence_key z = evidence_key e"] k
  show "hd (newest_evidence items) = e" by simp
qed

lemma fold_delete:
  "sy_health_evidence (fold (\<lambda>e. delete_health_evidence (he_id e)) es st) =
     filter (\<lambda>(i, e). i \<notin> he_id ` set es) (sy_health_evidence st)"
  by (induction es arbitrary: st) (auto simp: delete_health_evidence_def intro: filter_cong)

lemma keyed_evidence_list:
  assumes "keyed_by he_id t"
  shows "map snd (filter (\<lambda>(i, e). i \<notin> S) t) = filter (\<lambda>e. he_id e \<notin> S) (map snd t)" "distinct (map he_id (map snd t))"
proof -
  have t: "tbl_ok t" using assms by (simp add: keyed_by_def)
  then have "he_id e = i" if "(i, e) \<in> set t" for i e using assms that by (auto simp: keyed_by_def tbl_mem_iff)
  then have ids: "map he_id (map snd t) = map fst t"
    and keys: "filter (\<lambda>(i, e). i \<notin> S) t = filter (\<lambda>(i, e). he_id e \<notin> S) t"
    by (auto intro!: filter_cong)
  show "map snd (filter (\<lambda>(i, e). i \<notin> S) t) = filter (\<lambda>e. he_id e \<notin> S) (map snd t)"
    unfolding keys by (induction t) auto
  show "distinct (map he_id (map snd t))" unfolding ids by (rule tbl_ok_distinct [OF t])
qed

lemma evidence_groups:
  assumes "((rid, tgt), bunch) \<in> set (evidence_by_key items [])"
  shows "bunch = evidence_for rid tgt items"
proof -
  have "dict_ok d \<Longrightarrow> dict_ok (evidence_by_key es d)" for es d
    by (induction es d rule: evidence_by_key.induct) (simp_all add: Let_def)
  then have "dict_get (evidence_by_key items []) (rid, tgt) = Some bunch"
    using assms by (simp add: dict_mem_iff [symmetric])
  with evidence_by_key_get [of items "[]" rid tgt] show ?thesis by simp
qed

text \<open>Within one group the stale items are the ones after the newest \<open>n\<close>.\<close>

lemma stale_in_group:
  assumes "distinct (map he_id items)" "e \<in> set (evidence_for rid tgt items)"
  shows "he_id e \<in> he_id ` set (stale_evidence n items) \<longleftrightarrow> e \<in> set (drop n (newest_evidence (evidence_for rid tgt items)))"
proof
  assume "he_id e \<in> he_id ` set (stale_evidence n items)"
  then obtain e' rid' tgt' bunch where e': "he_id e' = he_id e" "((rid', tgt'), bunch) \<in> set (evidence_by_key items [])"
    "e' \<in> set (drop n (newest_evidence bunch))"
    by (fastforce simp: stale_evidence_def)
  have g: "bunch = evidence_for rid' tgt' items" by (rule evidence_groups [OF e'(2)])
  have "e' \<in> set bunch" using e'(3) by (auto simp: newest_evidence_def dest: in_set_dropD)
  then have "e' \<in> set items" "he_resource_id e' = rid'" "he_target e' = tgt'" by (auto simp: g evidence_for_def)
  moreover have "e' = e"
    using assms e'(1) \<open>e' \<in> set items\<close> by (auto simp: distinct_map evidence_for_def dest: inj_onD)
  ultimately show "e \<in> set (drop n (newest_evidence (evidence_for rid tgt items)))"
    using e'(3) g assms(2) by (auto simp: evidence_for_def)
next
  assume e: "e \<in> set (drop n (newest_evidence (evidence_for rid tgt items)))"
  have "evidence_for rid tgt items \<noteq> []" using assms(2) by auto
  with evidence_by_key_get [of items "[]" rid tgt]
  have "dict_get (evidence_by_key items []) (rid, tgt) = Some (evidence_for rid tgt items)"
    by (auto split: option.splits)
  then have "((rid, tgt), evidence_for rid tgt items) \<in> set (evidence_by_key items [])"
    by (auto simp: dict_get_def dest: map_of_SomeD)
  with e show "he_id e \<in> he_id ` set (stale_evidence n items)" by (force simp: stale_evidence_def)
qed

lemma pruned_group:
  assumes "distinct (map he_id items)"
  shows "evidence_for rid tgt (filter (\<lambda>e. he_id e \<notin> he_id ` set (stale_evidence n items)) items) =
    filter (\<lambda>e. e \<notin> set (drop n (newest_evidence (evidence_for rid tgt items)))) (evidence_for rid tgt items)"
proof -
  have "evidence_for rid tgt (filter (\<lambda>e. he_id e \<notin> he_id ` set (stale_evidence n items)) items) =
      filter (\<lambda>e. he_id e \<notin> he_id ` set (stale_evidence n items)) (evidence_for rid tgt items)"
    unfolding evidence_for_def filter_filter by (rule filter_cong) auto
  also have "\<dots> = filter (\<lambda>e. e \<notin> set (drop n (newest_evidence (evidence_for rid tgt items)))) (evidence_for rid tgt items)"
    by (rule filter_cong [OF refl]) (simp add: stale_in_group [OF assms])
  finally show ?thesis .
qed

lemma pruned_latest:
  assumes "distinct bunch" "0 < n"
  shows "latest_evidence (filter (\<lambda>e. e \<notin> set (drop n (newest_evidence bunch))) bunch) = latest_evidence bunch"
proof (cases "latest_evidence bunch")
  case None
  with latest_evidence_None have "bunch = []" by blast
  then show ?thesis by simp
next
  case (Some e)
  note hd = newest_evidence_hd [OF Some]
  then obtain rest where rest: "newest_evidence bunch = e # rest" by (cases "newest_evidence bunch") auto
  have "distinct (newest_evidence bunch)" using assms(1) by (simp add: newest_evidence_def)
  with rest assms(2) have "e \<notin> set (drop n (newest_evidence bunch))" by (cases n) (auto dest: in_set_dropD)
  with latest_filter [OF Some, where P = "\<lambda>x. x \<notin> set (drop n (newest_evidence bunch))"] Some show ?thesis by simp
qed

lemma pruned_length:
  assumes "distinct bunch"
  shows "length (filter (\<lambda>e. e \<notin> set (drop n (newest_evidence bunch))) bunch) \<le> n"
proof -
  have "set (filter (\<lambda>e. e \<notin> set (drop n (newest_evidence bunch))) bunch) \<subseteq> set (take n (newest_evidence bunch))"
    by (auto simp: newest_evidence_def) (metis Un_iff append_take_drop_id set_append set_rev set_sort)
  then have "card (set (filter (\<lambda>e. e \<notin> set (drop n (newest_evidence bunch))) bunch)) \<le> card (set (take n (newest_evidence bunch)))"
    by (rule card_mono [OF finite_set])
  also have "\<dots> \<le> n" using card_length [of "take n (newest_evidence bunch)"] by simp
  finally show ?thesis unfolding distinct_card [OF distinct_filter [OF assms]] .
qed

text \<open>C33: Pruning the health evidence leaves at most the wanted number of items per target, and changes no summary: what a
  summary shows of every target is the same before and after.
\<close>

theorem pruning_keeps_summaries:
  assumes "keyed_by he_id (sy_health_evidence st)" "prune_health_evidence retain st = (st', Inr deleted)"
  shows "summarize_health_targets targets (list_health_evidence st') = summarize_health_targets targets (list_health_evidence st) \<and>
    int (length (evidence_for rid tgt (list_health_evidence st'))) \<le> retain"
proof -
  define items where "items = list_health_evidence st"
  have n: "1 \<le> retain" and st': "st' = fold (\<lambda>e. delete_health_evidence (he_id e)) (stale_evidence (nat retain) items) st"
    using assms(2) by (auto simp: prune_health_evidence_def items_def Let_def split: if_splits)
  have d: "distinct (map he_id items)" using keyed_evidence_list(2) [OF assms(1)] by (simp add: items_def list_health_evidence_def)
  have dg: "distinct (evidence_for r t items)" for r t using d by (simp add: evidence_for_def distinct_map)
  have items': "list_health_evidence st' = filter (\<lambda>e. he_id e \<notin> he_id ` set (stale_evidence (nat retain) items)) items"
    unfolding st' list_health_evidence_def fold_delete keyed_evidence_list(1) [OF assms(1)] items_def by simp
  have "latest_evidence (evidence_for r t (list_health_evidence st')) = latest_evidence (evidence_for r t items)" for r t
    unfolding items' pruned_group [OF d] by (rule pruned_latest [OF dg]) (use n in simp)
  then have "target_summary (evidence_by_key (list_health_evidence st') []) x = target_summary (evidence_by_key items []) x" for x
    by (simp add: target_summary_def evidence_by_key_get Let_def)
  moreover have "length (evidence_for rid tgt (list_health_evidence st')) \<le> nat retain"
    unfolding items' pruned_group [OF d] by (rule pruned_length [OF dg])
  ultimately show ?thesis using n by (simp add: summarize_health_targets_def items_def)
qed

definition sample_evidence :: "string \<Rightarrow> string \<Rightarrow> HealthStatus \<Rightarrow> HealthEvidence" where
  "sample_evidence i captured status = \<lparr>he_id = i, he_resource_id = ''web'', he_target = ''/'', he_probe_type = Probe_HTTP,
     he_observed_status = status, he_owner_domain = Owner_JULIAN, he_observed_error = [], he_recovery_required = False,
     he_captured_at = Some captured\<rparr>"

definition sample_site :: SiteStore where
  "sample_site = \<lparr>st_resources = [], st_claims = [], st_decisions = [], st_approvals = [], st_audit_events = [],
     sy_usage_limits = [], sy_health_targets = [],
     sy_health_evidence = [(''e1'', sample_evidence ''e1'' ''2024'' Health_FAILED), (''e2'', sample_evidence ''e2'' ''2025'' Health_HEALTHY)],
     sy_physical_identities = []\<rparr>"

theorem pruning_keeps_summaries_witness:
  "\<exists>st'. prune_health_evidence 1 sample_site = (st', Inr 1) \<and>
     summarize_health_targets [] (list_health_evidence st') = summarize_health_targets [] (list_health_evidence sample_site) \<and>
     length (evidence_for ''web'' ''/'' (list_health_evidence st')) \<le> 1"
proof -
  have keyed: "keyed_by he_id (sy_health_evidence sample_site)"
    by (auto simp: keyed_by_def tbl_ok_def sample_site_def sample_evidence_def tbl_get_def split: if_splits)
  have "snd (prune_health_evidence 1 sample_site) = Inr 1" by code_simp
  then obtain st' where r: "prune_health_evidence 1 sample_site = (st', Inr 1)"
    by (cases "prune_health_evidence 1 sample_site") auto
  from pruning_keeps_summaries [OF keyed r, of "[]" "''web''" "''/''"] r show ?thesis by auto
qed

section \<open>What a valid configuration is\<close>

lemma reject_duplicates_Inr: "reject_duplicates label seen vs = Inr () \<longleftrightarrow> distinct vs \<and> set seen \<inter> set vs = {}"
  by (induction label seen vs rule: reject_duplicates.induct) auto

lemma check_identities_Inr:
  "check_identities ps = Inr () \<longleftrightarrow> (\<forall>p \<in> set ps. is_complete_for_exclusive_checkout p) \<and>
     sorted_wrt (\<lambda>l r. \<not> physical_identity_conflicts l r) ps"
  by (induction ps rule: check_identities.induct) (auto simp: res_bind_Inr_iff check_all_Inr check_pair_def split: if_splits)

definition config_ok :: "OverseerConfig \<Rightarrow> bool" where
  "config_ok c \<longleftrightarrow> distinct (map res_id (oc_resources c)) \<and> distinct (map ul_id (oc_usage_limits c)) \<and>
     distinct (map ht_id (oc_health_targets c)) \<and> distinct (map pi_stable_id (oc_physical_identities c)) \<and>
     (\<forall>l \<in> set (oc_usage_limits c). ul_resource_id l \<in> set (map res_id (oc_resources c)) \<and> 0 \<le> ul_remaining l \<and>
        ul_remaining l \<le> ul_capacity l) \<and>
     (\<forall>t \<in> set (oc_health_targets c). ht_resource_id t \<in> set (map res_id (oc_resources c))) \<and>
     (\<forall>p \<in> set (oc_physical_identities c). is_complete_for_exclusive_checkout p) \<and>
     sorted_wrt (\<lambda>l r. identity_keys l \<inter> identity_keys r = {} \<and> pi_stable_id r \<notin> pi_depends_on l \<and>
        pi_depends_on l \<inter> pi_depends_on r = {}) (oc_physical_identities c)"

lemma validate_config_Inr: "validate_config c = Inr () \<longleftrightarrow> config_ok c"
proof -
  have "(\<lambda>l r. \<not> physical_identity_conflicts l r) = (\<lambda>l r. identity_keys l \<inter> identity_keys r = {} \<and>
      pi_stable_id r \<notin> pi_depends_on l \<and> pi_depends_on l \<inter> pi_depends_on r = {})"
    by (auto simp: fun_eq_iff physical_identity_conflicts_def)
  moreover have "check_limit ids l = Inr () \<longleftrightarrow> ul_resource_id l \<in> ids \<and> 0 \<le> ul_remaining l \<and> ul_remaining l \<le> ul_capacity l" for ids l
    by (auto simp: check_limit_def)
  moreover have "check_target ids t = Inr () \<longleftrightarrow> ht_resource_id t \<in> ids" for ids t by (simp add: check_target_def)
  ultimately show ?thesis
    by (auto simp: validate_config_def config_ok_def res_bind_Inr_iff reject_duplicates_Inr check_all_Inr check_identities_Inr Let_def)
qed

lemma seeded_table:
  assumes "tbl_ok t" "distinct (map ident xs)"
  shows "tbl_get (fold (\<lambda>x. tbl_upsert (ident x) x) xs t) k =
    (case find (\<lambda>x. ident x = k) xs of Some x \<Rightarrow> Some x | None \<Rightarrow> tbl_get t k)"
  using assms
proof (induction xs arbitrary: t)
  case (Cons x xs)
  have "find (\<lambda>y. ident y = ident x) xs = None" using Cons.prems(2) unfolding find_None_iff by (simp add: image_iff) metis
  with Cons show ?case by (cases "k = ident x") (auto simp: tbl_get_upsert split: option.splits)
qed simp

lemma fold_saves:
  "fold save_resource xs st = st\<lparr>st_resources := fold (\<lambda>x. tbl_upsert (res_id x) x) xs (st_resources st)\<rparr>"
  "fold save_usage_limit ls s = s\<lparr>sy_usage_limits := fold (\<lambda>x. tbl_upsert (ul_id x) x) ls (sy_usage_limits s)\<rparr>"
  "fold save_health_target ts s = s\<lparr>sy_health_targets := fold (\<lambda>x. tbl_upsert (ht_id x) x) ts (sy_health_targets s)\<rparr>"
  "fold save_physical_identity ps s =
     s\<lparr>sy_physical_identities := fold (\<lambda>x. tbl_upsert (pi_stable_id x) x) ps (sy_physical_identities s)\<rparr>"
proof -
  show "fold save_resource xs st = st\<lparr>st_resources := fold (\<lambda>x. tbl_upsert (res_id x) x) xs (st_resources st)\<rparr>"
    by (induction xs arbitrary: st) (simp_all add: save_resource_def)
  show "fold save_usage_limit ls s = s\<lparr>sy_usage_limits := fold (\<lambda>x. tbl_upsert (ul_id x) x) ls (sy_usage_limits s)\<rparr>"
    by (induction ls arbitrary: s) (simp_all add: save_usage_limit_def)
  show "fold save_health_target ts s = s\<lparr>sy_health_targets := fold (\<lambda>x. tbl_upsert (ht_id x) x) ts (sy_health_targets s)\<rparr>"
    by (induction ts arbitrary: s) (simp_all add: save_health_target_def)
  show "fold save_physical_identity ps s =
     s\<lparr>sy_physical_identities := fold (\<lambda>x. tbl_upsert (pi_stable_id x) x) ps (sy_physical_identities s)\<rparr>"
    by (induction ps arbitrary: s) (simp_all add: save_physical_identity_def)
qed

definition site_tables_ok :: "SiteStore \<Rightarrow> bool" where
  "site_tables_ok st \<longleftrightarrow> tables_ok st \<and> tbl_ok (sy_usage_limits st) \<and> tbl_ok (sy_health_targets st) \<and>
     tbl_ok (sy_physical_identities st)"

text \<open>An item of the configuration, or what the store had before.\<close>

definition configured_or :: "('x \<Rightarrow> string) \<Rightarrow> 'x list \<Rightarrow> 'x result \<Rightarrow> string \<Rightarrow> 'x result" where
  "configured_or ident xs before k = (case find (\<lambda>x. ident x = k) xs of Some x \<Rightarrow> Inr x | None \<Rightarrow> before)"

lemma seeded_load:
  assumes "tbl_ok t" "distinct (map ident xs)"
  shows "get_payload (fold (\<lambda>x. tbl_upsert (ident x) x) xs t) k = configured_or ident xs (get_payload t k) k"
  by (simp add: get_payload_def configured_or_def seeded_table [OF assms] split: option.splits)

text \<open>C34: Seeding succeeds exactly for the configurations that meet the specification: no duplicate ids, limits within
  their capacity and on known resources, targets on known resources, complete identities, and no identity that shares a
  key with a later one or depends on it; it changes nothing otherwise. After it every configured item loads
  exactly as configured and every other row as before.
\<close>

theorem seeding_installs_valid_configs:
  assumes "site_tables_ok st" "seed_store_from_config c st = (st', r)"
  shows "(r = Inr () \<longleftrightarrow> config_ok c) \<and> (r \<noteq> Inr () \<longrightarrow> st' = st) \<and>
    (r = Inr () \<longrightarrow>
       load_resource st' k = configured_or res_id (oc_resources c) (load_resource st k) k \<and>
       load_usage_limit st' k = configured_or ul_id (oc_usage_limits c) (load_usage_limit st k) k \<and>
       load_health_target st' k = configured_or ht_id (oc_health_targets c) (load_health_target st k) k \<and>
       load_physical_identity st' k = configured_or pi_stable_id (oc_physical_identities c) (load_physical_identity st k) k)"
proof (cases "validate_config c")
  case (Inl e)
  with assms(2) validate_config_Inr [of c] show ?thesis by (auto simp: seed_store_from_config_def)
next
  case (Inr u)
  then have ok: "config_ok c" using validate_config_Inr [of c] by simp
  have t: "tbl_ok (st_resources st)" "tbl_ok (sy_usage_limits st)" "tbl_ok (sy_health_targets st)" "tbl_ok (sy_physical_identities st)"
    using assms(1) by (simp_all add: site_tables_ok_def tables_ok_def)
  from Inr assms(2) have r: "r = Inr ()" and st': "st' = fold save_physical_identity (oc_physical_identities c)
      (fold save_health_target (oc_health_targets c) (fold save_usage_limit (oc_usage_limits c) (fold save_resource (oc_resources c) st)))"
    by (simp_all add: seed_store_from_config_def)
  have "load_resource st' k = configured_or res_id (oc_resources c) (load_resource st k) k"
    "load_usage_limit st' k = configured_or ul_id (oc_usage_limits c) (load_usage_limit st k) k"
    "load_health_target st' k = configured_or ht_id (oc_health_targets c) (load_health_target st k) k"
    "load_physical_identity st' k = configured_or pi_stable_id (oc_physical_identities c) (load_physical_identity st k) k"
    using ok t unfolding config_ok_def st' fold_saves
    by (simp_all add: load_resource_def load_usage_limit_def load_health_target_def load_physical_identity_def seeded_load)
  with r ok show ?thesis by simp
qed

section \<open>Dependencies are seen in one direction only\<close>

definition sample_device :: "string \<Rightarrow> string set \<Rightarrow> PhysicalIdentity" where
  "sample_device i needs = \<lparr>pi_kind = Asset_POWER_RESOURCE, pi_stable_id = i, pi_observed_paths = {}, pi_vendor_id = None,
     pi_product_id = None, pi_serial_number = None, pi_capabilities = {}, pi_power_profile = None, pi_storage_profile = None,
     pi_exclusive_groups = {}, pi_depends_on = needs, pi_source = Source_OPERATOR_DECLARED, pi_last_observed_at = None\<rparr>"

definition devices :: "PhysicalIdentity list \<Rightarrow> OverseerConfig" where
  "devices ps = \<lparr>oc_resources = [], oc_usage_limits = [], oc_health_targets = [], oc_physical_identities = ps\<rparr>"

text \<open>Whether a configuration is accepted depends on the order of its physical identities: a device that depends on another one
  is refused when it is listed first and accepted when it is listed after the device it depends on.
\<close>

theorem dependency_conflict_depends_on_order:
  "validate_config (devices [sample_device ''hub'' {}, sample_device ''disk'' {''hub''}]) = Inr () \<and>
   validate_config (devices [sample_device ''disk'' {''hub''}, sample_device ''hub'' {}]) =
     Inl (ValueError ''physical identity conflict: disk conflicts with hub'')"
  by code_simp

theorem seeding_installs_valid_configs_witness:
  "\<exists>st'. seed_store_from_config (devices [sample_device ''hub'' {}]) sample_site = (st', Inr ()) \<and>
     load_physical_identity st' ''hub'' = Inr (sample_device ''hub'' {})"
proof -
  have ok: "site_tables_ok sample_site" by (simp add: site_tables_ok_def tables_ok_def sample_site_def)
  have v: "validate_config (devices [sample_device ''hub'' {}]) = Inr ()" by code_simp
  define st' where "st' = fst (seed_store_from_config (devices [sample_device ''hub'' {}]) sample_site)"
  have r: "seed_store_from_config (devices [sample_device ''hub'' {}]) sample_site = (st', Inr ())"
    unfolding st'_def by (simp add: seed_store_from_config_def v)
  from seeding_installs_valid_configs [OF ok r, of "''hub''"] r show ?thesis
    by (simp add: configured_or_def devices_def sample_device_def)
qed

end
