(* ===== verification/Runtime_State.thy ===== *)
theory Runtime_State
  imports Clock
begin

text \<open>
  Liveness of the local services, \<^verbatim>\<open>src/overseer/runtime_state.py\<close>: how old a heartbeat or an inspection is and
  whether that is still fresh. Instants are integers of microseconds; \<open>now\<close> without a time is the clock.
\<close>

record RuntimeHeartbeat =
  hb_id :: string
  hb_service_name :: string
  hb_started_at :: string
  hb_last_tick_at :: string
  hb_tick_count :: int

datatype FreshnessStatus = Fresh_OK | Fresh_WARNING | Fresh_HIGH | Fresh_MISSING

record FreshnessPolicy =
  fp_warning_after_seconds :: int
  fp_high_after_seconds :: int

record FreshnessAssessment =
  fa_status :: FreshnessStatus
  fa_observed_at :: "string option"
  fa_age_seconds :: "int option"
  fa_warning_after_seconds :: int
  fa_high_after_seconds :: int
  fa_summary :: string

definition DEFAULT_RUNTIME_FRESHNESS_POLICY :: FreshnessPolicy where
  "DEFAULT_RUNTIME_FRESHNESS_POLICY = \<lparr>fp_warning_after_seconds = 90, fp_high_after_seconds = 300\<rparr>"

definition DEFAULT_HOST_INSPECTION_FRESHNESS_POLICY :: FreshnessPolicy where
  "DEFAULT_HOST_INSPECTION_FRESHNESS_POLICY = \<lparr>fp_warning_after_seconds = 120, fp_high_after_seconds = 600\<rparr>"

definition parse_runtime_datetime :: "int \<Rightarrow> string option \<Rightarrow> int result" where
  "parse_runtime_datetime clock value =
     (case value of None \<Rightarrow> Inr clock | Some s \<Rightarrow> res_bind (fromisoformat s) (\<lambda>d. Inr (utc_instant d)))"

text \<open>\<^verbatim>\<open>max(0, int(delta.total_seconds()))\<close>: \<open>int\<close> cuts the fraction off, and a negative age is none.\<close>

definition age_seconds :: "int \<Rightarrow> int \<Rightarrow> int" where
  "age_seconds now observed = max 0 ((now - observed) div MICROS)"

definition assess_freshness ::
  "int \<Rightarrow> string option \<Rightarrow> string option \<Rightarrow> FreshnessPolicy \<Rightarrow> FreshnessAssessment result" where
  "assess_freshness clock observed_at now policy =
     (let result = (\<lambda>status age summary. \<lparr>fa_status = status, fa_observed_at = observed_at, fa_age_seconds = age,
            fa_warning_after_seconds = fp_warning_after_seconds policy,
            fa_high_after_seconds = fp_high_after_seconds policy, fa_summary = summary\<rparr>)
      in case observed_at of
           None \<Rightarrow> Inr (result Fresh_MISSING None ''timestamp is missing'')
         | Some s \<Rightarrow>
             res_bind (parse_runtime_datetime clock now) (\<lambda>t.
             res_bind (parse_runtime_datetime clock observed_at) (\<lambda>u.
             let age = age_seconds t u
             in Inr (if fp_high_after_seconds policy \<le> age then result Fresh_HIGH (Some age) ''timestamp is critically stale''
                     else if fp_warning_after_seconds policy \<le> age then result Fresh_WARNING (Some age) ''timestamp is stale''
                     else result Fresh_OK (Some age) ''timestamp is fresh''))))"

section \<open>Getting older never looks fresher\<close>

fun staleness :: "FreshnessStatus \<Rightarrow> nat" where
  "staleness Fresh_OK = 0"
| "staleness Fresh_WARNING = 1"
| "staleness Fresh_HIGH = 2"
| "staleness Fresh_MISSING = 3"

lemma age_mono: "t \<le> t' \<Longrightarrow> age_seconds t u \<le> age_seconds t' u"
  unfolding age_seconds_def by (rule max.mono [OF order_refl]) (rule zdiv_mono1, simp_all add: MICROS_def)

lemma freshness_decays:
  assumes "assess_freshness t (Some s) None policy = Inr a" "assess_freshness t' (Some s) None policy = Inr b" "t \<le> t'"
  shows "staleness (fa_status a) \<le> staleness (fa_status b)"
proof -
  from assms(1,2) obtain u where "parse_runtime_datetime t (Some s) = Inr u" "parse_runtime_datetime t' (Some s) = Inr u"
    by (auto simp: assess_freshness_def parse_runtime_datetime_def res_bind_Inr_iff Let_def)
  with assms age_mono [OF assms(3), of u] show ?thesis
    by (auto simp: assess_freshness_def parse_runtime_datetime_def [of _ None] Let_def split: if_splits)
qed

end
