(* ===== verification/Task_Graph.thy ===== *)
theory Task_Graph
  imports Prelude
begin

text \<open>
  The task graph of a project handoff, \<open>_validate_task_graph\<close> of \<^verbatim>\<open>src/overseer/psychlo_contracts.py\<close>: every
  dependency names another task of the plan, and a depth-first search that marks the tasks it is visiting finds
  no cycle. The search is shown to return and to accept exactly the acyclic graphs, in whatever order Python
  iterates over the set of tasks.
\<close>

datatype task_mark = Mark_visiting | Mark_visited

type_synonym task_graph = "(string, string list) pydict"

text \<open>
  \<open>visit\<close> on every task of a list in turn, with the marks passed along: a task that is being visited closes a
  cycle, a visited one is skipped, and any other is marked, its dependencies are visited and it is marked done.
\<close>

function visit_tasks :: "task_graph \<Rightarrow> string list \<Rightarrow> (string \<rightharpoonup> task_mark) \<Rightarrow> (string \<rightharpoonup> task_mark) result" where
  "visit_tasks deps [] st = Inr st"
| "visit_tasks deps (t # ts) st =
     (case st t of
        Some Mark_visiting \<Rightarrow> Inl (ValueError ''handoff task dependency is cyclic'')
      | Some Mark_visited \<Rightarrow> visit_tasks deps ts st
      | None \<Rightarrow>
          (case dict_get deps t of
             None \<Rightarrow> Inl (KeyError t)
           | Some items \<Rightarrow>
               (case visit_tasks deps items (st(t \<mapsto> Mark_visiting)) of
                  Inl e \<Rightarrow> Inl e
                | Inr st1 \<Rightarrow> visit_tasks deps ts (st1(t \<mapsto> Mark_visited)))))"
  by pat_completeness auto

lemma visit_tasks_marks:
  "visit_tasks_dom (deps, ts, st) \<Longrightarrow> visit_tasks deps ts st = Inr st' \<Longrightarrow> dom st \<subseteq> dom st'"
proof (induction deps ts st arbitrary: st' rule: visit_tasks.pinduct)
  case (1 deps st)
  then show ?case by (simp add: visit_tasks.psimps)
next
  case (2 deps t ts st)
  then show ?case
    by (fastforce simp: visit_tasks.psimps split: option.splits task_mark.splits sum.splits)
qed

termination visit_tasks
proof (relation "measures [\<lambda>(deps, ts, st). card (fst ` set deps - dom st), \<lambda>(deps, ts, st). length ts]", goal_cases)
  case 1
  show ?case by simp
next
  case (2 deps t ts st items)
  then have "t \<in> fst ` set deps - dom st" by (force simp: dict_get_def dest: map_of_SomeD)
  then have "card (fst ` set deps - insert t (dom st)) < card (fst ` set deps - dom st)"
    by (intro psubset_card_mono) auto
  then show ?case by simp
next
  case (3 deps t ts st items st1)
  from visit_tasks_marks [OF 3(4)] 3(3) have "insert t (dom st) \<subseteq> dom st1" by simp
  moreover have "t \<in> fst ` set deps - dom st" using 3(1,2) by (force simp: dict_get_def dest: map_of_SomeD)
  ultimately have "card (fst ` set deps - insert t (dom st1)) < card (fst ` set deps - dom st)"
    by (intro psubset_card_mono) auto
  then show ?case by simp
next
  case 4
  then show ?case by simp
qed

fun check_dependencies :: "string set \<Rightarrow> task_graph \<Rightarrow> unit result" where
  "check_dependencies task_ids deps =
     check_all (\<lambda>(t, items). if list_ex (\<lambda>i. i \<notin> task_ids \<or> i = t) items
       then Inl (ValueError ''handoff task dependency is invalid'') else Inr ()) deps"

text \<open>\<open>order\<close> is the order in which the set \<open>task_ids\<close> is iterated over.\<close>

definition validate_task_graph :: "string list \<Rightarrow> task_graph \<Rightarrow> unit result" where
  "validate_task_graph order deps =
     res_bind (check_dependencies (set order) deps) (\<lambda>_.
     res_bind (visit_tasks deps order Map.empty) (\<lambda>_. Inr ()))"

section \<open>The search accepts exactly the acyclic graphs\<close>

definition task_edges :: "task_graph \<Rightarrow> (string \<times> string) set" where
  "task_edges deps = {(t, i). \<exists>items. dict_get deps t = Some items \<and> i \<in> set items}"

definition visiting :: "(string \<rightharpoonup> task_mark) \<Rightarrow> string set" where
  "visiting st = {t. st t = Some Mark_visiting}"

definition visited :: "(string \<rightharpoonup> task_mark) \<Rightarrow> string set" where
  "visited st = {t. st t = Some Mark_visited}"

text \<open>The visited tasks are closed under dependencies, and none of them lies on a cycle.\<close>

definition explored :: "task_graph \<Rightarrow> (string \<rightharpoonup> task_mark) \<Rightarrow> bool" where
  "explored deps st \<longleftrightarrow> task_edges deps `` visited st \<subseteq> visited st \<and> (\<forall>t\<in>visited st. (t, t) \<notin> (task_edges deps)\<^sup>+)"

lemma explored_reaches:
  "explored deps st \<Longrightarrow> (t, u) \<in> (task_edges deps)\<^sup>* \<Longrightarrow> t \<in> visited st \<Longrightarrow> u \<in> visited st"
  by (rotate_tac 1) (induction rule: rtrancl_induct, auto simp: explored_def)

lemma visited_done: "visited (st(t \<mapsto> Mark_visited)) = insert t (visited st)"
  by (auto simp: visited_def)

lemma visited_begin: "st t = None \<Longrightarrow> visited (st(t \<mapsto> Mark_visiting)) = visited st"
  by (auto simp: visited_def)

lemma visiting_begin: "visiting (st(t \<mapsto> Mark_visiting)) = insert t (visiting st)"
  by (auto simp: visiting_def)

lemma visiting_done: "visiting (st(t \<mapsto> Mark_visited)) = visiting st - {t}"
  by (auto simp: visiting_def)

lemma task_edges_of: "dict_get deps t = Some items \<Longrightarrow> task_edges deps `` {t} = set items"
  by (auto simp: task_edges_def)

lemma explored_done:
  assumes "explored deps st" "t \<in> visiting st" "dict_get deps t = Some items" "set items \<subseteq> visited st"
  shows "explored deps (st(t \<mapsto> Mark_visited))"
proof -
  have "(t, t) \<notin> (task_edges deps)\<^sup>+"
  proof
    assume "(t, t) \<in> (task_edges deps)\<^sup>+"
    then obtain i where i: "(t, i) \<in> task_edges deps" "(i, t) \<in> (task_edges deps)\<^sup>*" by (meson tranclD)
    have "i \<in> visited st" using i(1) assms(4) task_edges_of [OF assms(3)] by blast
    then have "t \<in> visited st" by (rule explored_reaches [OF assms(1) i(2)])
    with assms(2) show False by (simp add: visited_def visiting_def)
  qed
  moreover have "task_edges deps `` insert t (visited st) \<subseteq> insert t (visited st)"
    using assms(1,4) task_edges_of [OF assms(3)] unfolding explored_def by blast
  ultimately show ?thesis using assms(1) by (simp add: explored_def visited_done)
qed

lemma visit_tasks_Inr:
  "visit_tasks deps ts st = Inr st' \<Longrightarrow> explored deps st \<Longrightarrow>
   explored deps st' \<and> visited st \<subseteq> visited st' \<and> set ts \<subseteq> visited st' \<and> visiting st' = visiting st"
proof (induction deps ts st arbitrary: st' rule: visit_tasks.induct)
  case (1 deps st)
  then show ?case by simp
next
  case (2 deps t ts st)
  show ?case
  proof (cases "st t")
    case None
    with 2(4) obtain items st1 where s: "dict_get deps t = Some items"
      "visit_tasks deps items (st(t \<mapsto> Mark_visiting)) = Inr st1"
      "visit_tasks deps ts (st1(t \<mapsto> Mark_visited)) = Inr st'"
      by (auto split: option.splits sum.splits)
    have "explored deps (st(t \<mapsto> Mark_visiting))" using 2(5) None by (simp add: explored_def visited_begin)
    from 2(1) [OF None s(1,2) this] have i: "explored deps st1" "visited st \<subseteq> visited st1" "set items \<subseteq> visited st1"
      "visiting st1 = insert t (visiting st)" by (simp_all add: visited_begin [of st t, OF None] visiting_begin del: fun_upd_apply)
    have "explored deps (st1(t \<mapsto> Mark_visited))" using i s(1) by (intro explored_done) auto
    note 2(2) [OF None s this]
    moreover have "t \<notin> visiting st" using None by (simp add: visiting_def)
    ultimately show ?thesis using i(2,4) by (auto simp: visited_done visiting_done simp del: fun_upd_apply)
  next
    case (Some m)
    with 2(4) have m: "m = Mark_visited" "visit_tasks deps ts st = Inr st'" by (cases m, simp_all)+
    with Some have "t \<in> visited st" by (simp add: visited_def)
    with 2(3) [OF Some m 2(5)] show ?thesis by auto
  qed
qed

lemma visit_tasks_visiting: "visit_tasks deps ts st = Inr st' \<Longrightarrow> visiting st' = visiting st"
proof (induction deps ts st arbitrary: st' rule: visit_tasks.induct)
  case (1 deps st)
  then show ?case by simp
next
  case (2 deps t ts st)
  show ?case
  proof (cases "st t")
    case None
    with 2(4) obtain items st1 where s: "dict_get deps t = Some items"
      "visit_tasks deps items (st(t \<mapsto> Mark_visiting)) = Inr st1"
      "visit_tasks deps ts (st1(t \<mapsto> Mark_visited)) = Inr st'"
      by (auto split: option.splits sum.splits)
    have "t \<notin> visiting st" using None by (simp add: visiting_def)
    with 2(1) [OF None s(1,2)] 2(2) [OF None s] show ?thesis
      by (auto simp: visiting_begin visiting_done simp del: fun_upd_apply)
  next
    case (Some m)
    with 2 show ?thesis by (cases m) auto
  qed
qed

text \<open>Every task that is being visited leads to the tasks still to be visited, so meeting one closes a cycle.\<close>

lemma visit_tasks_Inl:
  assumes "\<And>t items. dict_get deps t = Some items \<Longrightarrow> set items \<subseteq> dom (dict_get deps)"
  shows "visit_tasks deps ts st = Inl e \<Longrightarrow> set ts \<subseteq> dom (dict_get deps) \<Longrightarrow>
    visiting st \<times> set ts \<subseteq> (task_edges deps)\<^sup>+ \<Longrightarrow> \<not> acyclic (task_edges deps)"
  using assms
proof (induction deps ts st rule: visit_tasks.induct)
  case (1 deps st)
  then show ?case by simp
next
  case (2 deps t ts st)
  show ?case
  proof (cases "st t")
    case None
    obtain items where items: "dict_get deps t = Some items" using 2(5) by auto
    have E: "(t, i) \<in> (task_edges deps)\<^sup>+" if "i \<in> set items" for i
      using that items by (intro r_into_trancl) (auto simp: task_edges_def)
    have path: "visiting (st(t \<mapsto> Mark_visiting)) \<times> set items \<subseteq> (task_edges deps)\<^sup>+"
      using 2(6) E by (auto simp: visiting_begin intro: trancl_trans)
    show ?thesis
    proof (cases "visit_tasks deps items (st(t \<mapsto> Mark_visiting))")
      case (Inl e')
      with None items 2(4) have "e' = e" by simp
      with Inl have "visit_tasks deps items (st(t \<mapsto> Mark_visiting)) = Inl e" by simp
      then show ?thesis by (rule 2(1) [OF None items]) (use 2(7) items path in \<open>auto simp del: fun_upd_apply\<close>)
    next
      case (Inr st1)
      have "visiting (st1(t \<mapsto> Mark_visited)) \<times> set ts \<subseteq> (task_edges deps)\<^sup>+"
        using 2(6) visit_tasks_visiting [OF Inr] by (auto simp: visiting_begin visiting_done)
      moreover have "visit_tasks deps ts (st1(t \<mapsto> Mark_visited)) = Inl e" using 2(4) None items Inr by simp
      ultimately show ?thesis by (intro 2(2) [OF None items Inr]) (use 2(5,7) in \<open>auto simp del: fun_upd_apply\<close>)
    qed
  next
    case (Some m)
    show ?thesis
    proof (cases m)
      case Mark_visiting
      with Some 2(6) have "(t, t) \<in> (task_edges deps)\<^sup>+" by (auto simp: visiting_def)
      then show ?thesis by (auto simp: acyclic_def)
    next
      case Mark_visited
      with Some 2(3) 2(4,5,6,7) show ?thesis by auto
    qed
  qed
qed

text \<open>C24: A task graph is accepted exactly when every dependency names another task of the plan and the dependencies form no
  cycle, in whatever order the tasks are visited; the search always returns.\<close>

theorem task_graph_accepted_iff_acyclic:
  assumes "set order = fst ` set deps" "dict_ok deps"
  shows "validate_task_graph order deps = Inr () \<longleftrightarrow>
    (\<forall>(t, items)\<in>set deps. set items \<subseteq> set order - {t}) \<and> acyclic (task_edges deps)"
proof -
  have "dict_get deps = map_of deps" by (simp add: fun_eq_iff dict_get_def)
  then have dom: "dom (dict_get deps) = set order" using assms(1) by (simp add: dom_map_of_conv_image_fst)
  have checked: "check_dependencies (set order) deps = Inr () \<longleftrightarrow> (\<forall>(t, items)\<in>set deps. set items \<subseteq> set order - {t})"
    by (auto simp: check_all_Inr list_ex_iff split: if_splits prod.splits)
  show ?thesis
  proof (cases "check_dependencies (set order) deps")
    case (Inl e)
    with checked show ?thesis by (simp add: validate_task_graph_def)
  next
    case (Inr u)
    have closed: "set items \<subseteq> dom (dict_get deps)" if "dict_get deps t = Some items" for t items
    proof -
      have "(t, items) \<in> set deps" using that by (auto simp: dict_get_def dest: map_of_SomeD)
      with checked Inr show ?thesis unfolding dom by fastforce
    qed
    have "isOK (visit_tasks deps order Map.empty) \<longleftrightarrow> acyclic (task_edges deps)"
    proof (cases "visit_tasks deps order Map.empty")
      case (Inl e)
      have "\<not> acyclic (task_edges deps)"
        by (rule visit_tasks_Inl [OF closed Inl]) (auto simp: dom visiting_def)
      with Inl show ?thesis by simp
    next
      case (Inr st)
      have "explored deps Map.empty" by (simp add: explored_def visited_def)
      from visit_tasks_Inr [OF Inr this] have st: "explored deps st" "set order \<subseteq> visited st" by simp_all
      have "(t, t) \<notin> (task_edges deps)\<^sup>+" for t
      proof
        assume c: "(t, t) \<in> (task_edges deps)\<^sup>+"
        then obtain i where "(t, i) \<in> task_edges deps" by (meson tranclD)
        then have "t \<in> set order" using dom by (auto simp: task_edges_def)
        with st c show False by (auto simp: explored_def)
      qed
      with Inr show ?thesis by (simp add: acyclic_def)
    qed
    with checked Inr show ?thesis
      by (cases "visit_tasks deps order Map.empty") (auto simp: validate_task_graph_def)
  qed
qed

theorem task_graph_accepted_iff_acyclic_witness:
  "validate_task_graph [''a'', ''b'', ''c''] [(''a'', [''b'', ''c'']), (''b'', [''c'']), (''c'', [])] = Inr () \<and>
   acyclic (task_edges [(''a'', [''b'', ''c'']), (''b'', [''c'']), (''c'', [])]) \<and>
   \<not> acyclic (task_edges [(''a'', [''b'']), (''b'', [''c'']), (''c'', [''a''])])"
proof -
  have 1: "validate_task_graph [''a'', ''b'', ''c''] [(''a'', [''b'', ''c'']), (''b'', [''c'']), (''c'', [])] = Inr ()"
    by code_simp
  have 2: "validate_task_graph [''c'', ''b'', ''a''] [(''a'', [''b'']), (''b'', [''c'']), (''c'', [''a''])] \<noteq> Inr ()"
    by code_simp
  show ?thesis
    using 1 2 task_graph_accepted_iff_acyclic [of "[''a'', ''b'', ''c'']" "[(''a'', [''b'', ''c'']), (''b'', [''c'']), (''c'', [])]"]
      task_graph_accepted_iff_acyclic [of "[''c'', ''b'', ''a'']" "[(''a'', [''b'']), (''b'', [''c'']), (''c'', [''a''])]"]
    by (auto simp: dict_ok_def)
qed

end
