(* ===== verification/Psychlo_Contracts.thy ===== *)
theory Psychlo_Contracts
  imports Storage_Control Task_Graph
begin

text \<open>
  The wire contracts of the Psychlo bridge, \<^verbatim>\<open>src/overseer/psychlo_contracts.py\<close>: the JSON texts whose SHA-256
  digests both sides compare, the field checks, and the parsers of project registrations
  and of concurrency canaries and ceilings. A parser returns the mapping it is given or raises; \<open>ContractError\<close> is a
  \<open>ValueError\<close> and no caller tells the two apart. Where Python iterates over a set of fields, the fields are listed
  here, which matters only for the text of the error. \<open>storage_env\<close> supplies SHA-256 and the \<open>repr\<close> of a float.
\<close>

type_synonym json_obj = "(string, pyval) pydict"

section \<open>JSON texts and comparison\<close>

text \<open>Without \<open>ensure_ascii\<close> only the quoting characters and the control characters are escaped.\<close>

definition json_quote_plain :: "string \<Rightarrow> string" where
  "json_quote_plain s = [CHR 0x22] @
     concat (map (\<lambda>c. if (of_char c :: nat) \<le> 126 then json_escape c else [c]) s) @ [CHR 0x22]"

text \<open>Keys and texts are quoted by \<open>qk\<close> and \<open>qv\<close>; \<open>sorts\<close> says whether the members of a mapping are sorted by key.\<close>

fun json_print ::
  "(string \<Rightarrow> string) \<Rightarrow> (string \<Rightarrow> string) \<Rightarrow> bool \<Rightarrow> (rat \<Rightarrow> string) \<Rightarrow> pyval \<Rightarrow> string" where
  "json_print qk qv sorts fr PNone = ''null''"
| "json_print qk qv sorts fr (PBool b) = (if b then ''true'' else ''false'')"
| "json_print qk qv sorts fr (PInt i) = str_int i"
| "json_print qk qv sorts fr (PFloat x) = fr x"
| "json_print qk qv sorts fr (PStr s) = qv s"
| "json_print qk qv sorts fr (PList vs) = ''['' @ py_join '','' (map (json_print qk qv sorts fr) vs) @ '']''"
| "json_print qk qv sorts fr (PDict kvs) =
     (let members = map (\<lambda>(k, v). (k, json_print qk qv sorts fr v)) kvs
      in ''{'' @ py_join '','' (map (\<lambda>(k, t). qk k @ '':'' @ t) (if sorts then sort_key fst members else members)) @ ''}'')"

definition canonical_text :: "storage_env \<Rightarrow> pyval \<Rightarrow> string" where
  "canonical_text env = json_print json_quote json_quote_plain True (se_float_repr env)"

definition wire_text :: "storage_env \<Rightarrow> json_obj \<Rightarrow> string" where
  "wire_text env d = json_print json_quote_plain json_quote_plain False (se_float_repr env) (PDict d)"

definition plain_digest :: "storage_env \<Rightarrow> json_obj \<Rightarrow> string" where
  "plain_digest env d = se_sha256 env (json_print json_quote json_quote False (se_float_repr env) (PDict d))"

definition content_digest :: "storage_env \<Rightarrow> json_obj \<Rightarrow> string" where
  "content_digest env d = se_sha256 env (canonical_text env (PDict (filter (\<lambda>(k, v). k \<noteq> ''digest'') d)))"

text \<open>Python's \<open>==\<close> on JSON values: numbers and booleans by value, mappings whatever their order.\<close>

fun numeric_value :: "pyval \<Rightarrow> rat option" where
  "numeric_value (PInt i) = Some (of_int i)"
| "numeric_value (PFloat x) = Some x"
| "numeric_value (PBool b) = Some (if b then 1 else 0)"
| "numeric_value v = None"

fun json_eq :: "pyval \<Rightarrow> pyval \<Rightarrow> bool" where
  "json_eq (PList vs) w = (case w of PList ws \<Rightarrow> list_all2 json_eq vs ws | _ \<Rightarrow> False)"
| "json_eq (PDict kvs) w = (case w of
     PDict kws \<Rightarrow> length kvs = length kws \<and>
       list_all (\<lambda>(k, v). case dict_get kws k of None \<Rightarrow> False | Some x \<Rightarrow> json_eq v x) kvs
   | _ \<Rightarrow> False)"
| "json_eq PNone w = (w = PNone)"
| "json_eq (PStr s) w = (w = PStr s)"
| "json_eq v w = (numeric_value v = numeric_value w)"

definition obj_eq :: "json_obj \<Rightarrow> json_obj \<Rightarrow> bool" where
  "obj_eq d e = json_eq (PDict d) (PDict e)"

fun json_hashable :: "pyval \<Rightarrow> bool" where
  "json_hashable (PList vs) = False"
| "json_hashable (PDict kvs) = False"
| "json_hashable v = True"

section \<open>Field checks\<close>

definition refuse_when :: "bool \<Rightarrow> string \<Rightarrow> unit result" where
  "refuse_when c message = (if c then Inl (ValueError message) else Inr ())"

definition json_item :: "json_obj \<Rightarrow> string \<Rightarrow> pyval result" where
  "json_item d k = (case dict_get d k of None \<Rightarrow> Inl (KeyError k) | Some v \<Rightarrow> Inr v)"

text \<open>\<open>value[k]\<close> and then a check of what was read.\<close>

definition item_check :: "json_obj \<Rightarrow> string \<Rightarrow> (pyval \<Rightarrow> unit result) \<Rightarrow> unit result" where
  "item_check d k f = res_bind (json_item d k) f"

definition item_that :: "json_obj \<Rightarrow> string \<Rightarrow> (pyval \<Rightarrow> bool) \<Rightarrow> string \<Rightarrow> unit result" where
  "item_that d k P message = item_check d k (\<lambda>v. refuse_when (\<not> P v) message)"

fun select_fields :: "json_obj \<Rightarrow> string list \<Rightarrow> json_obj result" where
  "select_fields d [] = Inr []"
| "select_fields d (k # ks) =
     res_bind (json_item d k) (\<lambda>v. res_bind (select_fields d ks) (\<lambda>rest. Inr ((k, v) # rest)))"

definition json_keys :: "json_obj \<Rightarrow> string set" where
  "json_keys d = set (map fst d)"

definition is_text :: "pyval \<Rightarrow> string \<Rightarrow> bool" where
  "is_text v s \<longleftrightarrow> v = PStr s"

definition as_object :: "string \<Rightarrow> pyval \<Rightarrow> json_obj result" where
  "as_object name v = (case v of PDict d \<Rightarrow> Inr d | _ \<Rightarrow> Inl (ValueError (name @ '' must be an object'')))"

definition check_keys :: "string \<Rightarrow> string set \<Rightarrow> json_obj \<Rightarrow> unit result" where
  "check_keys name allowed d = refuse_when (\<not> json_keys d \<subseteq> allowed) (name @ '' contains unknown fields'')"

text \<open>\<^verbatim>\<open>^[A-Za-z0-9][A-Za-z0-9._:-]{0,159}$\<close>, \<^verbatim>\<open>^[a-f0-9]{64}$\<close> and the two lengths of a Git object name\<close>

definition contract_id :: "string \<Rightarrow> bool" where
  "contract_id s = (case s of [] \<Rightarrow> False | c # cs \<Rightarrow> (is_letter c \<or> is_digit c) \<and> length cs \<le> 159 \<and>
     list_all (\<lambda>d. is_letter d \<or> is_digit d \<or> d \<in> set ''._:-'') cs)"

definition hex_text :: "nat \<Rightarrow> string \<Rightarrow> bool" where
  "hex_text n s \<longleftrightarrow> length s = n \<and> list_all hex_digit s"

definition git_text :: "string \<Rightarrow> bool" where
  "git_text s \<longleftrightarrow> hex_text 40 s \<or> hex_text 64 s"

definition text_that :: "(string \<Rightarrow> bool) \<Rightarrow> pyval \<Rightarrow> bool" where
  "text_that P v = (case v of PStr s \<Rightarrow> P s | _ \<Rightarrow> False)"

definition check_id :: "string \<Rightarrow> pyval \<Rightarrow> unit result" where
  "check_id name v = refuse_when (\<not> text_that contract_id v) (name @ '' is invalid'')"

definition MAX_TEXT :: nat where "MAX_TEXT = 6000"

definition MAX_ARRAY :: nat where "MAX_ARRAY = 64"

definition check_text :: "nat \<Rightarrow> string \<Rightarrow> pyval \<Rightarrow> unit result" where
  "check_text maximum name v =
     refuse_when (\<not> text_that (\<lambda>s. s \<noteq> [] \<and> py_strip s = s \<and> length s \<le> maximum) v) (name @ '' is invalid'')"

definition check_digest :: "string \<Rightarrow> pyval \<Rightarrow> unit result" where
  "check_digest name v = refuse_when (\<not> text_that (hex_text 64) v) (name @ '' is invalid'')"

definition wire_time :: "string \<Rightarrow> py_datetime result" where
  "wire_time s = fromisoformat (replace_char CHR ''Z'' ''+00:00'' s)"

definition check_time :: "string \<Rightarrow> pyval \<Rightarrow> unit result" where
  "check_time name v = refuse_when (\<not> text_that (\<lambda>s. isOK (wire_time s)) v) (name @ '' is invalid'')"

text \<open>Comparing a naive with an aware datetime raises.\<close>

definition time_le :: "py_datetime \<Rightarrow> py_datetime \<Rightarrow> bool result" where
  "time_le a b = (if (dt_offset a = None) = (dt_offset b = None) then Inr (utc_instant a \<le> utc_instant b)
     else Inl (TypeError ''offset-naive and offset-aware datetimes''))"

definition json_time :: "pyval \<Rightarrow> py_datetime result" where
  "json_time v = (case v of PStr s \<Rightarrow> wire_time s | _ \<Rightarrow> Inl (TypeError ''fromisoformat: argument must be str''))"

fun id_items :: "string \<Rightarrow> pyval list \<Rightarrow> string list result" where
  "id_items name [] = Inr []"
| "id_items name (v # vs) =
     res_bind (check_id (name @ '' item'') v) (\<lambda>_. res_bind (id_items name vs) (\<lambda>rest.
       Inr ((case v of PStr s \<Rightarrow> s | _ \<Rightarrow> []) # rest)))"

definition bounded_id_array :: "string \<Rightarrow> nat \<Rightarrow> pyval \<Rightarrow> string list result" where
  "bounded_id_array name maximum v = (case v of
     PList vs \<Rightarrow> if maximum < length vs then Inl (ValueError (name @ '' is invalid'')) else id_items name vs
   | _ \<Rightarrow> Inl (ValueError (name @ '' is invalid'')))"

definition check_texts :: "string \<Rightarrow> string \<Rightarrow> nat \<Rightarrow> pyval \<Rightarrow> unit result" where
  "check_texts message name maximum v = (case v of
     PList vs \<Rightarrow> if maximum < length vs then Inl (ValueError message) else check_all (check_text MAX_TEXT name) vs
   | _ \<Rightarrow> Inl (ValueError message))"

text \<open>
  \<open>_strict_protocol\<close> for a contract without a schema version: no unknown field, and the three identity fields when
  they are required.
\<close>

definition strict_protocol :: "string \<Rightarrow> string set \<Rightarrow> json_obj \<Rightarrow> unit result" where
  "strict_protocol name required d =
     res_bind (check_keys name required d) (\<lambda>_.
     check_all (\<lambda>field. if field \<notin> required then Inr ()
       else if field = ''occurredAt'' then check_time field (dict_item d field) else check_id field (dict_item d field))
       [''correlationId'', ''idempotencyKey'', ''occurredAt''])"

section \<open>Concurrency contracts\<close>

definition CANARY_FIELDS :: "string set" where
  "CANARY_FIELDS = {''authorizationId'', ''targetTemporaryCeiling'', ''expectedGlobalCeiling'', ''expectedRevision'', ''projects'',
     ''workflowId'', ''decisionVersion'', ''decisionId'', ''question'', ''deadline'', ''correlationId'', ''idempotencyKey'',
     ''occurredAt'', ''digest''}"

text \<open>Two numbers, in the sense of Python's equality.\<close>

definition is_number :: "int \<Rightarrow> pyval \<Rightarrow> bool" where
  "is_number n v = json_eq v (PInt n)"

definition item_list :: "json_obj \<Rightarrow> string \<Rightarrow> pyval list" where
  "item_list d k = (case dict_item d k of PList vs \<Rightarrow> vs | _ \<Rightarrow> [])"

definition item_object :: "json_obj \<Rightarrow> string \<Rightarrow> json_obj" where
  "item_object d k = (case dict_item d k of PDict e \<Rightarrow> e | _ \<Rightarrow> [])"

definition as_dict :: "pyval \<Rightarrow> json_obj" where
  "as_dict v = (case v of PDict d \<Rightarrow> d | _ \<Rightarrow> [])"

definition check_canary_project :: "pyval \<Rightarrow> unit result" where
  "check_canary_project v =
     res_bind (as_object ''canary project'' v) (\<lambda>p.
     res_bind (check_keys ''canary project'' {''projectId'', ''planId'', ''planVersion'', ''leadId''} p) (\<lambda>_.
     check_all (\<lambda>(field, x). check_id field x) p))"

definition canary_binding :: "json_obj \<Rightarrow> unit result" where
  "canary_binding d =
     (let message = ''canary authorization binding is invalid''
      in res_bind (item_that d ''decisionId'' (\<lambda>v. is_text v (''roadex:concurrency-canary:'' @ field_text d ''authorizationId'')) message) (\<lambda>_.
         res_bind (item_that d ''question'' (\<lambda>v. is_text v (''Approve the exact live concurrency canary '' @ field_text d ''digest'')) message) (\<lambda>_.
         res_bind (json_time (dict_item d ''deadline'')) (\<lambda>deadline.
         res_bind (json_time (dict_item d ''occurredAt'')) (\<lambda>occurred.
         res_bind (time_le deadline occurred) (\<lambda>late. refuse_when late message))))))"

definition check_sealed :: "storage_env \<Rightarrow> json_obj \<Rightarrow> string list \<Rightarrow> string \<Rightarrow> unit result" where
  "check_sealed env d names message =
     res_bind (select_fields d names) (\<lambda>base.
       refuse_when (dict_item d ''digest'' \<noteq> PStr (plain_digest env base)) message)"

definition parse_canary_authorization :: "storage_env \<Rightarrow> json_obj \<Rightarrow> json_obj result" where
  "parse_canary_authorization env d =
     res_bind (run_checks
       [strict_protocol ''concurrency canary authorization'' CANARY_FIELDS d,
        item_that d ''targetTemporaryCeiling'' (is_number 2) ''canary authorization ceiling is invalid'',
        item_that d ''expectedGlobalCeiling'' (is_number 1) ''canary authorization ceiling is invalid'',
        item_that d ''expectedRevision'' (int_from 0) ''canary authorization ceiling is invalid'',
        item_that d ''projects'' (\<lambda>v. case v of PList vs \<Rightarrow> length vs = 2 | _ \<Rightarrow> False) ''canary requires two projects'',
        check_all check_canary_project (item_list d ''projects''),
        (case item_list d ''projects'' of [p, q] \<Rightarrow>
           res_bind (json_item (as_dict p) ''projectId'') (\<lambda>x. res_bind (json_item (as_dict q) ''projectId'') (\<lambda>y.
             refuse_when (x = y) ''canary projects must differ''))
         | _ \<Rightarrow> Inr ()),
        item_check d ''authorizationId'' (check_id ''authorizationId''), item_check d ''workflowId'' (check_id ''workflowId''),
        item_check d ''decisionVersion'' (check_id ''decisionVersion''), item_check d ''decisionId'' (check_id ''decisionId''),
        item_check d ''question'' (check_text MAX_TEXT ''question''), item_check d ''deadline'' (check_time ''deadline''),
        item_check d ''digest'' (check_digest ''digest''), canary_binding d,
        check_sealed env d [''authorizationId'', ''targetTemporaryCeiling'', ''expectedGlobalCeiling'', ''expectedRevision'', ''projects'',
          ''workflowId'', ''decisionVersion'', ''deadline'', ''correlationId'', ''idempotencyKey'', ''occurredAt'']
          ''canary authorization digest mismatch'']) (\<lambda>_. Inr d)"

definition CEILING_IDS :: "string list" where
  "CEILING_IDS = [''authorizationId'', ''canaryResultId'', ''projectId'', ''planId'', ''workflowId'', ''decisionVersion'',
     ''decisionId'', ''correlationId'', ''idempotencyKey'']"

definition CEILING_FIELDS :: "string set" where
  "CEILING_FIELDS = set CEILING_IDS \<union> {''ceiling'', ''expectedRevision'', ''revision'', ''question'', ''occurredAt'', ''digest''}"

definition parse_concurrency_ceiling_authorization :: "storage_env \<Rightarrow> json_obj \<Rightarrow> json_obj result" where
  "parse_concurrency_ceiling_authorization env d =
     res_bind (run_checks
       [strict_protocol ''concurrency ceiling authorization'' CEILING_FIELDS d,
        check_all (\<lambda>field. check_id field (dict_item d field)) CEILING_IDS,
        item_check d ''question'' (check_text MAX_TEXT ''question''),
        check_all (\<lambda>field. refuse_when (\<not> int_from 0 (dict_item d field)) (field @ '' is invalid''))
          [''ceiling'', ''expectedRevision'', ''revision''],
        refuse_when (field_int d ''ceiling'' < 1 \<or> field_int d ''revision'' \<noteq> field_int d ''expectedRevision'' + 1)
          ''concurrency ceiling revision is invalid'',
        item_check d ''occurredAt'' (check_time ''occurredAt''), item_check d ''digest'' (check_digest ''digest''),
        refuse_when (field_text d ''decisionId'' \<noteq> ''roadex:concurrency:'' @ field_text d ''authorizationId'' \<or>
          field_text d ''question'' \<noteq> ''Approve the exact global concurrency operation '' @ field_text d ''digest'')
          ''concurrency ceiling decision binding is invalid'',
        check_sealed env d [''authorizationId'', ''ceiling'', ''expectedRevision'', ''revision'', ''canaryResultId'', ''projectId'',
          ''planId'', ''workflowId'', ''decisionVersion'', ''correlationId'', ''idempotencyKey'', ''occurredAt'']
          ''concurrency ceiling digest mismatch'']) (\<lambda>_. Inr d)"

text \<open>One execution of a canary result: its start and its completion, bound to each other and to the authorization.\<close>

definition RUN_IDS :: "string list" where
  "RUN_IDS = [''executionId'', ''authorizationId'', ''projectId'', ''planId'', ''planVersion'', ''roundId'', ''leadId'']"

definition COMPLETION_FIELDS :: "string list" where
  "COMPLETION_FIELDS = RUN_IDS @ [''settledAt'', ''terminalStatus'', ''resultDigest'', ''evidenceId'', ''evidenceDigest'']"

definition check_canary_execution :: "storage_env \<Rightarrow> json_obj \<Rightarrow> pyval \<Rightarrow> unit result" where
  "check_canary_execution env d v =
     res_bind (as_object ''canary execution'' v) (\<lambda>run.
     res_bind (check_keys ''canary execution'' {''executionId'', ''started'', ''completed''} run) (\<lambda>_.
     res_bind (check_id ''executionId'' (dict_item run ''executionId'')) (\<lambda>_.
     res_bind (as_object ''canary execution start'' (dict_item run ''started'')) (\<lambda>started.
     res_bind (as_object ''canary execution completion'' (dict_item run ''completed'')) (\<lambda>completed.
     run_checks
       [check_keys ''canary execution start'' (set (RUN_IDS @ [''startedAt'', ''digest''])) started,
        check_keys ''canary execution completion'' (set (COMPLETION_FIELDS @ [''digest''])) completed,
        check_all (\<lambda>field. run_checks [check_id field (dict_item started field), check_id field (dict_item completed field)]) RUN_IDS,
        refuse_when (dict_item started ''executionId'' \<noteq> dict_item run ''executionId'' \<or>
          dict_item completed ''executionId'' \<noteq> dict_item run ''executionId'' \<or>
          dict_item started ''roundId'' \<noteq> dict_item completed ''roundId'') ''canary execution binding is invalid'',
        refuse_when (dict_item started ''authorizationId'' \<noteq> dict_item d ''authorizationId'' \<or>
          dict_item completed ''authorizationId'' \<noteq> dict_item d ''authorizationId'') ''canary execution authorization is invalid'',
        item_check started ''startedAt'' (check_time ''startedAt''), item_check completed ''settledAt'' (check_time ''settledAt''),
        item_that completed ''terminalStatus'' (\<lambda>x. is_text x ''completed'') ''canary execution was not successful'',
        check_all (\<lambda>field. item_check completed field (check_digest field)) [''resultDigest'', ''evidenceDigest'', ''digest''],
        item_check completed ''evidenceId'' (check_id ''evidenceId''), item_check started ''digest'' (check_digest ''digest''),
        check_sealed env started (RUN_IDS @ [''startedAt'']) ''canary execution digest mismatch'',
        check_sealed env completed COMPLETION_FIELDS ''canary execution digest mismatch''])))))"

definition run_start :: "pyval \<Rightarrow> json_obj" where
  "run_start v = item_object (as_dict v) ''started''"

definition run_end :: "pyval \<Rightarrow> json_obj" where
  "run_end v = item_object (as_dict v) ''completed''"

text \<open>\<open>a < b\<close> is \<open>not b <= a\<close>; the comparisons are made in the order of the source and stop at the first that decides.\<close>

definition check_overlap :: "json_obj \<Rightarrow> pyval \<Rightarrow> pyval \<Rightarrow> unit result" where
  "check_overlap d v w =
     (let message = ''canary executions do not prove overlap''
      in res_bind (json_time (dict_item (run_start v) ''startedAt'')) (\<lambda>first_start.
         res_bind (json_time (dict_item (run_start w) ''startedAt'')) (\<lambda>second_start.
         res_bind (json_time (dict_item (run_end v) ''settledAt'')) (\<lambda>first_end.
         res_bind (json_time (dict_item (run_end w) ''settledAt'')) (\<lambda>second_end.
         res_bind (json_time (dict_item d ''occurredAt'')) (\<lambda>occurred.
         run_checks
           [res_bind (time_le second_end first_start) (\<lambda>b. refuse_when b message),
            res_bind (time_le first_end second_start) (\<lambda>b. refuse_when b message),
            res_bind (time_le first_end occurred) (\<lambda>b. refuse_when (\<not> b) message),
            res_bind (time_le second_end occurred) (\<lambda>b. refuse_when (\<not> b) message)]))))))"

definition parse_concurrency_canary_result :: "storage_env \<Rightarrow> json_obj \<Rightarrow> json_obj result" where
  "parse_concurrency_canary_result env d =
     res_bind (run_checks
       [check_keys ''concurrency canary result'' {''resultId'', ''authorizationId'', ''targetCeiling'', ''expectedRevision'',
          ''executions'', ''concurrencyObserved'', ''occurredAt'', ''digest''} d,
        check_id ''resultId'' (dict_item d ''resultId''), check_id ''authorizationId'' (dict_item d ''authorizationId''),
        refuse_when (field_text d ''resultId'' \<noteq> ''canary-result:'' @ field_text d ''authorizationId'' \<or>
          \<not> is_number 2 (dict_item d ''targetCeiling'') \<or> dict_item d ''concurrencyObserved'' \<noteq> PBool True)
          ''canary result identity is invalid'',
        refuse_when (\<not> int_from 0 (dict_item d ''expectedRevision'')) ''canary result revision is invalid'',
        check_time ''occurredAt'' (dict_item d ''occurredAt''), check_digest ''digest'' (dict_item d ''digest''),
        refuse_when (length (item_list d ''executions'') \<noteq> 2) ''canary result executions are invalid'',
        check_all (check_canary_execution env d) (item_list d ''executions''),
        (case item_list d ''executions'' of [v, w] \<Rightarrow>
           run_checks
             [refuse_when (dict_item (as_dict v) ''executionId'' = dict_item (as_dict w) ''executionId'' \<or>
                dict_item (run_start v) ''projectId'' = dict_item (run_start w) ''projectId'')
                ''canary executions must be distinct projects'',
              check_overlap d v w]
         | _ \<Rightarrow> Inr ()),
        check_sealed env d [''resultId'', ''authorizationId'', ''targetCeiling'', ''expectedRevision'', ''executions'',
          ''concurrencyObserved'', ''occurredAt''] ''canary result digest mismatch'']) (\<lambda>_. Inr d)"

section \<open>Project registrations\<close>

text \<open>\<^verbatim>\<open>\d{4}-\d{2}-\d{2}T\d{2}:\d{2}:\d{2}(?:\.\d+)?(?:Z|[+-]\d{2}:\d{2})\<close>; a \<open>d\<close> of a template stands for a digit.\<close>

definition fits :: "string \<Rightarrow> string \<Rightarrow> bool" where
  "fits template s = list_all2 (\<lambda>p c. if p = CHR ''d'' then is_digit c else c = p) template s"

definition offset_shape :: "string \<Rightarrow> bool" where
  "offset_shape s \<longleftrightarrow>
     (let rest = drop 19 s;
          zone = (case rest of c # cs \<Rightarrow> if c = CHR ''.'' \<and> takeWhile is_digit cs \<noteq> [] then dropWhile is_digit cs else rest | [] \<Rightarrow> [])
      in fits ''dddd-dd-ddTdd:dd:dd'' (take 19 s) \<and> (zone = ''Z'' \<or> fits ''+dd:dd'' zone \<or> fits ''-dd:dd'' zone))"

definition offset_timestamp :: "string \<Rightarrow> pyval \<Rightarrow> unit result" where
  "offset_timestamp name v = (case v of
     PStr s \<Rightarrow> res_bind (refuse_when (\<not> offset_shape s) (name @ '' is invalid'')) (\<lambda>_. res_bind (wire_time s) (\<lambda>_. Inr ()))
   | _ \<Rightarrow> Inl (ValueError (name @ '' is invalid'')))"

definition absolute_path :: "pyval \<Rightarrow> bool" where
  "absolute_path = text_that (\<lambda>s. startswith s ''/'' \<and> CHR 0x00 \<notin> set s \<and> py_strip s = s \<and> length s \<le> 2048)"

definition TASK_FIELDS :: "string set" where
  "TASK_FIELDS = {''id'', ''ownerMemberId'', ''title'', ''description'', ''dependencyIds'', ''acceptanceCriteria''}"

fun parse_tasks :: "string list \<Rightarrow> pyval list \<Rightarrow> task_graph result" where
  "parse_tasks seen [] = Inr []"
| "parse_tasks seen (raw # raws) =
     res_bind (as_object ''handoff task'' raw) (\<lambda>task.
     res_bind (refuse_when (json_keys task \<noteq> TASK_FIELDS) ''handoff task is invalid'') (\<lambda>_.
     res_bind (check_id ''task id'' (dict_item task ''id'')) (\<lambda>_.
     let task_id = field_text task ''id'' in
     res_bind (refuse_when (task_id \<in> set seen) ''handoff task ID is duplicated'') (\<lambda>_.
     res_bind (run_checks [check_id ''task owner'' (dict_item task ''ownerMemberId''),
       check_text 160 ''task title'' (dict_item task ''title''),
       check_text MAX_TEXT ''task description'' (dict_item task ''description'')]) (\<lambda>_.
     res_bind (bounded_id_array ''task dependencies'' 32 (dict_item task ''dependencyIds'')) (\<lambda>deps.
     res_bind (check_texts ''task acceptance criteria are invalid'' ''task acceptance criterion'' 32 (dict_item task ''acceptanceCriteria'')) (\<lambda>_.
     res_bind (parse_tasks (task_id # seen) raws) (\<lambda>rest. Inr ((task_id, deps) # rest)))))))))"

definition check_artifact_action :: "pyval \<Rightarrow> unit result" where
  "check_artifact_action raw =
     res_bind (as_object ''artifact action'' raw) (\<lambda>action.
     res_bind (if json_keys action \<noteq> {''artifactId'', ''artifactDigest'', ''action''} then Inr False
       else in_texts (dict_item action ''action'') {''restore'', ''replace''}) (\<lambda>known.
     run_checks [refuse_when (\<not> known) ''artifact action is invalid'', check_id ''artifactId'' (dict_item action ''artifactId''),
       check_digest ''artifactDigest'' (dict_item action ''artifactDigest'')]))"

text \<open>The lifecycle of a version-two handoff: which kind of change it is and what that kind has to name.\<close>

definition parse_handoff_lifecycle :: "storage_env \<Rightarrow> pyval \<Rightarrow> json_obj \<Rightarrow> pyval \<Rightarrow> unit result" where
  "parse_handoff_lifecycle env raw project lead_id =
     res_bind (as_object ''handoff lifecycle'' raw) (\<lambda>v.
     let kind = dict_item v ''kind''; part = dict_item v; invalid = (\<lambda>c. refuse_when c ''handoff lifecycle is invalid'') in
     if kind = PStr ''change'' then run_checks
       [invalid (json_keys v \<noteq> {''kind'', ''supersedesPlanId'', ''supersedesVersion''}),
        check_id ''supersedesPlanId'' (part ''supersedesPlanId''), check_id ''supersedesVersion'' (part ''supersedesVersion''),
        refuse_when (part ''supersedesPlanId'' = dict_item project ''planId'' \<and> part ''supersedesVersion'' = dict_item project ''planVersion'')
          ''handoff plan change is unchanged'']
     else if kind = PStr ''decommission'' then
       res_bind (if json_keys v \<noteq> {''kind'', ''deploymentAvailability''} then Inr False
         else in_texts (part ''deploymentAvailability'') {''available'', ''unavailable''}) (\<lambda>known. invalid (\<not> known))
     else if kind = PStr ''takeover'' then
       res_bind (run_checks
         [invalid (json_keys v \<noteq> {''kind'', ''repositoryPath'', ''repositoryHead'', ''dirtyStateDigest'', ''currentStateEvidence''} \<or>
            \<not> absolute_path (part ''repositoryPath'') \<or> \<not> git_text (py_str (se_str env) (part ''repositoryHead''))),
          check_digest ''dirtyStateDigest'' (part ''dirtyStateDigest'')]) (\<lambda>_.
       res_bind (bounded_id_array ''currentStateEvidence'' 32 (part ''currentStateEvidence'')) (\<lambda>evidence. invalid (evidence = [])))
     else if kind \<in> {PStr ''reconstruction'', PStr ''onboarding'', PStr ''cleanup''} then
       let classification = (if kind = PStr ''reconstruction'' then ''recover-active''
             else if kind = PStr ''onboarding'' then ''adopt-baseline'' else ''cleanup-required'') in
       run_checks
         [invalid (json_keys v \<noteq> {''kind'', ''assessmentId'', ''assessmentDigest'', ''classification'', ''teamId'', ''projectLeadId'',
              ''artifactActions''} \<or> part ''classification'' \<noteq> PStr classification \<or> \<not> json_eq (part ''projectLeadId'') lead_id),
          check_id ''assessmentId'' (part ''assessmentId''), check_id ''teamId'' (part ''teamId''),
          check_id ''projectLeadId'' (part ''projectLeadId''), check_digest ''assessmentDigest'' (part ''assessmentDigest''),
          refuse_when (case part ''artifactActions'' of PList vs \<Rightarrow> MAX_ARRAY < length vs | _ \<Rightarrow> True) ''artifact actions are invalid'',
          check_all check_artifact_action (item_list v ''artifactActions'')]
     else res_bind (if json_hashable kind then Inr () else Inl (TypeError ''unhashable type'')) (\<lambda>_. invalid True))"

definition HANDOFF_FIELDS :: "string set" where
  "HANDOFF_FIELDS = {''contractVersion'', ''source'', ''aTeamId'', ''approval'', ''project'', ''projectLead'', ''plan'', ''correlationId'',
     ''idempotencyKey'', ''occurredAt'', ''digest''}"

definition check_plan :: "json_obj \<Rightarrow> unit result" where
  "check_plan plan = run_checks
     [refuse_when (json_keys plan \<noteq> {''title'', ''summary'', ''goals'', ''constraints'', ''deliverables'', ''tasks''}) ''handoff plan is invalid'',
      check_text 160 ''plan title'' (dict_item plan ''title''), check_text MAX_TEXT ''plan summary'' (dict_item plan ''summary''),
      check_all (\<lambda>field. check_texts (''plan '' @ field @ '' is invalid'') (''plan '' @ field @ '' item'') 32 (dict_item plan field))
        [''goals'', ''constraints'', ''deliverables''],
      refuse_when (item_list plan ''tasks'' = [] \<or> 128 < length (item_list plan ''tasks'')) ''handoff tasks are invalid'']"

definition check_envelope :: "json_obj \<Rightarrow> unit result" where
  "check_envelope e =
     res_bind (in_texts (dict_item e ''contractVersion'') {''a-team.psychlo.handoff.v1'', ''a-team.psychlo.handoff.v2''}) (\<lambda>known.
     run_checks
       [refuse_when (\<not> known \<or> json_keys e \<noteq> HANDOFF_FIELDS \<union>
            (if endswith (field_text e ''contractVersion'') ''.v2'' then {''lifecycle''} else {}) \<or> dict_item e ''source'' \<noteq> PStr ''a-team'')
          ''handoff envelope contract is invalid'',
        check_id ''aTeamId'' (dict_item e ''aTeamId''), check_id ''correlationId'' (dict_item e ''correlationId''),
        check_id ''idempotencyKey'' (dict_item e ''idempotencyKey''), offset_timestamp ''occurredAt'' (dict_item e ''occurredAt''),
        res_bind (as_object ''handoff approval'' (dict_item e ''approval'')) (\<lambda>approval. run_checks
          [refuse_when (json_keys approval \<noteq> {''status'', ''approvedAt''} \<or> dict_item approval ''status'' \<noteq> PStr ''approved'')
             ''handoff approval is invalid'',
           offset_timestamp ''approvedAt'' (dict_item approval ''approvedAt'')]),
        res_bind (as_object ''handoff project'' (dict_item e ''project'')) (\<lambda>project. run_checks
          [refuse_when (json_keys project \<noteq> {''id'', ''planId'', ''planVersion'', ''provenancePath''}) ''handoff project is invalid'',
           check_all (\<lambda>field. check_id field (dict_item project field)) [''id'', ''planId'', ''planVersion''],
           refuse_when (\<not> absolute_path (dict_item project ''provenancePath'')) ''handoff provenance path is invalid'']),
        res_bind (as_object ''handoff lead'' (dict_item e ''projectLead'')) (\<lambda>lead. run_checks
          [refuse_when (json_keys lead \<noteq> {''id''}) ''handoff lead is invalid'', check_id ''projectLead.id'' (dict_item lead ''id'')]),
        res_bind (as_object ''handoff plan'' (dict_item e ''plan'')) check_plan])"

definition check_receipt :: "json_obj \<Rightarrow> json_obj \<Rightarrow> unit result" where
  "check_receipt e r =
     (let project = item_object e ''project''; same = (\<lambda>k. json_eq (dict_item r k) (dict_item e k)) in
     run_checks
       [refuse_when (json_keys r \<noteq> {''contractVersion'', ''handoffContractVersion'', ''source'', ''status'', ''receiptId'', ''aTeamId'', ''project'',
            ''correlationId'', ''idempotencyKey'', ''envelopeDigest'', ''receivedAt''} \<or>
          dict_item r ''contractVersion'' \<noteq> PStr ''a-team.psychlo.receipt.v1'' \<or>
          dict_item r ''handoffContractVersion'' \<noteq> dict_item e ''contractVersion'' \<or> dict_item r ''source'' \<noteq> PStr ''psychlo'' \<or>
          dict_item r ''status'' \<noteq> PStr ''admitted'') ''handoff receipt contract is invalid'',
        check_all (\<lambda>field. check_id (''receipt '' @ field) (dict_item r field)) [''receiptId'', ''aTeamId'', ''correlationId'', ''idempotencyKey''],
        check_digest ''receipt envelopeDigest'' (dict_item r ''envelopeDigest''), offset_timestamp ''receivedAt'' (dict_item r ''receivedAt''),
        res_bind (as_object ''receipt project'' (dict_item r ''project'')) (\<lambda>p. run_checks
          [refuse_when (json_keys p \<noteq> {''id'', ''planId'', ''planVersion''}) ''receipt project is invalid'',
           check_all (\<lambda>field. check_id (''receipt project '' @ field) (dict_item p field)) [''id'', ''planId'', ''planVersion''],
           refuse_when (\<not> same ''aTeamId'' \<or>
             \<not> obj_eq p (map (\<lambda>k. (k, dict_item project k)) [''id'', ''planId'', ''planVersion'']) \<or>
             \<not> same ''correlationId'' \<or> \<not> same ''idempotencyKey'' \<or>
             \<not> json_eq (dict_item r ''envelopeDigest'') (dict_item e ''digest'')) ''handoff receipt does not bind envelope''])])"

text \<open>\<open>order\<close> lists a set of task ids in the order in which Python iterates over it.\<close>

definition parse_project_registration ::
  "storage_env \<Rightarrow> (string list \<Rightarrow> string list) \<Rightarrow> json_obj \<Rightarrow> json_obj result" where
  "parse_project_registration env order d =
     res_bind (refuse_when (json_keys d \<noteq> {''envelope'', ''receipt''}) ''project registration fields are invalid'') (\<lambda>_.
     res_bind (as_object ''handoff envelope'' (dict_item d ''envelope'')) (\<lambda>e.
     res_bind (check_envelope e) (\<lambda>_.
     res_bind (parse_tasks [] (item_list (item_object e ''plan'') ''tasks'')) (\<lambda>deps.
     res_bind (validate_task_graph (order (map fst deps)) deps) (\<lambda>_.
     res_bind (if endswith (field_text e ''contractVersion'') ''.v2''
       then parse_handoff_lifecycle env (dict_item e ''lifecycle'') (item_object e ''project'') (dict_item (item_object e ''projectLead'') ''id'')
       else Inr ()) (\<lambda>_.
     res_bind (check_digest ''handoff digest'' (dict_item e ''digest'')) (\<lambda>_.
     res_bind (refuse_when (dict_item e ''digest'' \<noteq> PStr (content_digest env e))
       ''handoff envelope digest does not match canonical content'') (\<lambda>_.
     res_bind (as_object ''handoff receipt'' (dict_item d ''receipt'')) (\<lambda>r.
     res_bind (check_receipt e r) (\<lambda>_. Inr d))))))))))"

end
