(* ===== verification/Psychlo_Store.thy ===== *)
theory Psychlo_Store
  imports Psychlo_Contracts
begin

text \<open>
  The private store of the Psychlo bridge, \<^verbatim>\<open>src/overseer/psychlo_store.py\<close>: peer nonces, rounds under the
  concurrency ceiling, decisions, protocol records, coordination claims, intents and terminals, external
  executions and projects. A table is the list of its rows in the order of their row ids; no row is ever deleted.
  Most operations run in one transaction or are one statement. The others read, then write once, with the primary
  key or the \<open>WHERE\<close> clause guarding the write; they too are one step here, so a row inserted between their two
  statements by another process is not seen. An operation that raises leaves the store as it was. A JSON column holds
  the value it encodes. Values of \<open>self._now()\<close> are arguments; the columns that only record the time of an insertion
  are left out. The learning, telemetry and registry projections, the approval snapshots and the schema migrations
  are not modelled.
\<close>

section \<open>Tables\<close>

record PsychloRound =
  rd_round_id :: string
  rd_request :: json_obj
  rd_receipt :: json_obj
  rd_capability_hash :: string
  rd_capability_token :: string
  rd_dispatch_state :: string
  rd_result :: "json_obj option"
  rd_result_forwarded :: bool
  rd_canary_authorization_id :: "string option"
  rd_started_at :: "string option"
  rd_completed_at :: "string option"

record PsychloDecision =
  de_decision_id :: string
  de_request :: json_obj
  de_receipt :: json_obj
  de_status :: string
  de_decided_by :: "string option"
  de_decided_at :: "string option"
  de_reason :: "string option"

record DecisionIntent =
  di_decision_id :: string
  di_request :: json_obj
  di_outcome :: json_obj
  di_status :: string
  di_decided_by :: string
  di_decided_at :: string
  di_reason :: string
  di_updated_at :: string

record ProtocolRecord =
  pl_kind :: string
  pl_record_id :: string
  pl_idempotency_key :: string
  pl_digest :: string
  pl_payload :: json_obj
  pl_state :: string
  pl_attempts :: int
  pl_last_error :: "string option"
  pl_updated_at :: string
  pl_receipt :: "json_obj option"

record ExternalExecution =
  xe_reconciliation_id :: string
  xe_external_execution_id :: string
  xe_idempotency_key :: string
  xe_payload :: json_obj
  xe_digest :: string
  xe_receipt :: json_obj
  xe_status :: string
  xe_forwarded :: bool
  xe_gate_decision_id :: "string option"
  xe_gate_workflow_id :: "string option"

record CoordinationIntent =
  ci_request_id :: string
  ci_external_id :: string
  ci_payload :: json_obj
  ci_state :: string
  ci_updated_at :: string
  ci_owner_id :: "string option"
  ci_idempotency_key :: "string option"

record OperationClaim =
  oc_kind :: string
  oc_operation_id :: string
  oc_owner_id :: "string option"
  oc_lease_expires_at :: "string option"
  oc_attempts :: int
  oc_idempotency_key :: string
  oc_state :: string
  oc_updated_at :: string

record CoordinationTerminal =
  ct_request_id :: string
  ct_result_id :: string
  ct_digest :: string
  ct_payload :: json_obj

record PsychloProject =
  pj_project_id :: string
  pj_registration :: json_obj
  pj_scheduling :: json_obj

record PsychloStore =
  ps_nonces :: "(string \<times> string) list"
  ps_rounds :: "PsychloRound list"
  ps_decisions :: "PsychloDecision list"
  ps_decision_intents :: "DecisionIntent list"
  ps_protocol :: "ProtocolRecord list"
  ps_external :: "ExternalExecution list"
  ps_dispatches :: "CoordinationIntent list"
  ps_reviews :: "CoordinationIntent list"
  ps_claims :: "OperationClaim list"
  ps_terminals :: "CoordinationTerminal list"
  ps_projects :: "PsychloProject list"

definition update_rows :: "('r \<Rightarrow> bool) \<Rightarrow> ('r \<Rightarrow> 'r) \<Rightarrow> 'r list \<Rightarrow> 'r list" where
  "update_rows P f rows = map (\<lambda>r. if P r then f r else r) rows"

definition unique_error :: "string \<Rightarrow> py_error" where
  "unique_error column = IntegrityError (''UNIQUE constraint failed: '' @ column)"

text \<open>\<open>dict.get(k)\<close> as a text, where the value is one.\<close>

definition get_text :: "json_obj \<Rightarrow> string \<Rightarrow> string option" where
  "get_text d k = (case dict_item d k of PStr s \<Rightarrow> Some s | _ \<Rightarrow> None)"

section \<open>Nonces and rounds\<close>

definition claim_nonce :: "string \<Rightarrow> string \<Rightarrow> PsychloStore \<Rightarrow> PsychloStore \<times> bool" where
  "claim_nonce nonce message_id st =
     (if nonce \<in> fst ` set (ps_nonces st) then (st, False)
      else (st\<lparr>ps_nonces := ps_nonces st @ [(nonce, message_id)]\<rparr>, True))"

definition get_round :: "PsychloStore \<Rightarrow> string \<Rightarrow> PsychloRound option" where
  "get_round st round_id = find (\<lambda>r. rd_round_id r = round_id) (ps_rounds st)"

definition unfinished :: "PsychloStore \<Rightarrow> PsychloRound list" where
  "unfinished st = filter (\<lambda>r. rd_result r = None) (ps_rounds st)"

definition active_round :: "PsychloStore \<Rightarrow> string option" where
  "active_round st = (case unfinished st of [] \<Rightarrow> None | r # rs \<Rightarrow> Some (rd_round_id r))"

definition active_rounds :: "PsychloStore \<Rightarrow> json_obj list" where
  "active_rounds st = map rd_request (unfinished st)"

definition new_round :: "storage_env \<Rightarrow> string \<Rightarrow> json_obj \<Rightarrow> json_obj \<Rightarrow> string \<Rightarrow> string option \<Rightarrow> PsychloRound" where
  "new_round env round_id request receipt capability authorization_id =
     \<lparr>rd_round_id = round_id, rd_request = request, rd_receipt = receipt, rd_capability_hash = se_sha256 env capability,
      rd_capability_token = capability, rd_dispatch_state = ''pending'', rd_result = None, rd_result_forwarded = False,
      rd_canary_authorization_id = authorization_id, rd_started_at = None, rd_completed_at = None\<rparr>"

text \<open>The primary key and the unique capability hash of \<open>rounds\<close>.\<close>

definition insert_round ::
  "storage_env \<Rightarrow> json_obj \<Rightarrow> json_obj \<Rightarrow> string \<Rightarrow> string option \<Rightarrow> PsychloStore \<Rightarrow> PsychloStore \<times> unit result" where
  "insert_round env request receipt capability authorization_id st =
     (case res_bind (json_item request ''roundId'') (sql_key env) of
        Inl e \<Rightarrow> (st, Inl e)
      | Inr round_id \<Rightarrow>
          if list_ex (\<lambda>r. rd_round_id r = round_id) (ps_rounds st) then (st, Inl (unique_error ''rounds.round_id''))
          else if list_ex (\<lambda>r. rd_capability_hash r = se_sha256 env capability) (ps_rounds st)
          then (st, Inl (unique_error ''rounds.capability_hash''))
          else (st\<lparr>ps_rounds := ps_rounds st @ [new_round env round_id request receipt capability authorization_id]\<rparr>, Inr ()))"

definition record_single_stream_round ::
  "storage_env \<Rightarrow> json_obj \<Rightarrow> json_obj \<Rightarrow> string \<Rightarrow> PsychloStore \<Rightarrow> PsychloStore \<times> unit result" where
  "record_single_stream_round env request receipt capability st =
     (if unfinished st \<noteq> [] then (st, Inl (ValueError ''single_stream_busy''))
      else insert_round env request receipt capability None st)"

definition record_round :: "storage_env \<Rightarrow> json_obj \<Rightarrow> json_obj \<Rightarrow> string \<Rightarrow> PsychloStore \<Rightarrow> PsychloStore \<times> unit result" where
  "record_round env request receipt capability st = insert_round env request receipt capability None st"

definition update_round :: "string \<Rightarrow> (PsychloRound \<Rightarrow> PsychloRound) \<Rightarrow> PsychloStore \<Rightarrow> PsychloStore" where
  "update_round round_id f st = st\<lparr>ps_rounds := update_rows (\<lambda>r. rd_round_id r = round_id) f (ps_rounds st)\<rparr>"

definition coalesce :: "string option \<Rightarrow> string option \<Rightarrow> string option" where
  "coalesce a b = (case a of None \<Rightarrow> b | Some x \<Rightarrow> Some x)"

definition mark_dispatch_started :: "string \<Rightarrow> string \<Rightarrow> PsychloStore \<Rightarrow> PsychloStore" where
  "mark_dispatch_started round_id started_at = update_round round_id (\<lambda>r.
     if rd_dispatch_state r = ''pending''
     then r\<lparr>rd_dispatch_state := ''started'', rd_started_at := coalesce (rd_started_at r) (Some started_at)\<rparr> else r)"

definition mark_dispatched :: "string \<Rightarrow> json_obj \<Rightarrow> PsychloStore \<Rightarrow> PsychloStore" where
  "mark_dispatched round_id receipt =
     update_round round_id (\<lambda>r. r\<lparr>rd_dispatch_state := ''dispatched'', rd_receipt := receipt\<rparr>)"

definition round_for_capability :: "storage_env \<Rightarrow> PsychloStore \<Rightarrow> string \<Rightarrow> PsychloRound option" where
  "round_for_capability env st capability = find (\<lambda>r. rd_capability_hash r = se_sha256 env capability) (ps_rounds st)"

definition record_result :: "string \<Rightarrow> json_obj \<Rightarrow> string option \<Rightarrow> PsychloStore \<Rightarrow> PsychloStore" where
  "record_result round_id result completed_at = update_round round_id (\<lambda>r.
     if rd_result r = None
     then r\<lparr>rd_result := Some result,
       rd_completed_at := coalesce (rd_completed_at r)
         (if str_true completed_at then completed_at else get_text result ''occurredAt'')\<rparr>
     else r)"

definition mark_forwarded :: "string \<Rightarrow> PsychloStore \<Rightarrow> PsychloStore" where
  "mark_forwarded round_id = update_round round_id (\<lambda>r. r\<lparr>rd_result_forwarded := True\<rparr>)"

section \<open>Protocol records\<close>

definition protocol_record :: "PsychloStore \<Rightarrow> string \<Rightarrow> string \<Rightarrow> ProtocolRecord option" where
  "protocol_record st kind record_id = find (\<lambda>r. pl_kind r = kind \<and> pl_record_id r = record_id) (ps_protocol st)"

definition PARTICIPANT_RESULT :: string where "PARTICIPANT_RESULT = ''cross-project-participant-result''"

definition new_protocol :: "string \<Rightarrow> string \<Rightarrow> string \<Rightarrow> string \<Rightarrow> string \<Rightarrow> json_obj \<Rightarrow> string \<Rightarrow> ProtocolRecord" where
  "new_protocol now kind record_id idempotency_key digest payload state =
     \<lparr>pl_kind = kind, pl_record_id = record_id, pl_idempotency_key = idempotency_key, pl_digest = digest, pl_payload = payload,
      pl_state = state, pl_attempts = 0, pl_last_error = None, pl_updated_at = now, pl_receipt = None\<rparr>"

text \<open>
  Recording is idempotent for the same payload. The idempotency key is unique in its kind, and so is the digest
  outside the participant results: a violation of the index is reported as a conflict.
\<close>

definition record_protocol ::
  "string \<Rightarrow> string \<Rightarrow> string \<Rightarrow> string \<Rightarrow> string \<Rightarrow> json_obj \<Rightarrow> string \<Rightarrow> PsychloStore \<Rightarrow>
   PsychloStore \<times> (ProtocolRecord \<times> bool) result" where
  "record_protocol now kind record_id idempotency_key digest payload state st =
     (case protocol_record st kind record_id of
        Some existing \<Rightarrow>
          if pl_digest existing \<noteq> digest \<or> \<not> obj_eq (pl_payload existing) payload
          then (st, Inl (ValueError (kind @ '' conflict''))) else (st, Inr (existing, False))
      | None \<Rightarrow>
          let new = new_protocol now kind record_id idempotency_key digest payload state in
          if list_ex (\<lambda>r. pl_kind r = kind \<and> pl_idempotency_key r = idempotency_key) (ps_protocol st)
          then (st, Inl (ValueError (kind @ '' idempotency conflict'')))
          else if kind \<noteq> PARTICIPANT_RESULT \<and> list_ex (\<lambda>r. pl_kind r = kind \<and> pl_digest r = digest) (ps_protocol st)
          then (st, Inl (ValueError (kind @ '' conflict'')))
          else (st\<lparr>ps_protocol := ps_protocol st @ [new]\<rparr>, Inr (new, True)))"

definition transition_protocol ::
  "string \<Rightarrow> string \<Rightarrow> string \<Rightarrow> string \<Rightarrow> string option \<Rightarrow> json_obj option \<Rightarrow> PsychloStore \<Rightarrow>
   PsychloStore \<times> ProtocolRecord result" where
  "transition_protocol now kind record_id state error receipt st =
     (let st1 = st\<lparr>ps_protocol := update_rows (\<lambda>r. pl_kind r = kind \<and> pl_record_id r = record_id)
            (\<lambda>r. r\<lparr>pl_state := state, pl_attempts := pl_attempts r + 1, pl_last_error := error, pl_updated_at := now,
               pl_receipt := (case receipt of None \<Rightarrow> pl_receipt r | Some x \<Rightarrow> Some x)\<rparr>) (ps_protocol st)\<rparr>
      in (st1, case protocol_record st1 kind record_id of
           None \<Rightarrow> Inl (ValueError ''protocol record is missing'') | Some r \<Rightarrow> Inr r))"

definition list_protocol :: "PsychloStore \<Rightarrow> string \<Rightarrow> int \<Rightarrow> ProtocolRecord list" where
  "list_protocol st kind limit = take (nat (max 1 (min 1000 limit)))
     (sort_key (\<lambda>r. (pl_updated_at r, pl_record_id r)) (filter (\<lambda>r. pl_kind r = kind) (ps_protocol st)))"

definition pending_protocol :: "PsychloStore \<Rightarrow> string \<Rightarrow> int \<Rightarrow> ProtocolRecord list" where
  "pending_protocol st kind limit = take (nat (max 1 (min 100 limit)))
     (sort_key (\<lambda>r. (pl_updated_at r, pl_record_id r))
        (filter (\<lambda>r. pl_kind r = kind \<and> pl_state r \<notin> {''delivered'', ''settled'', ''rejected''}) (ps_protocol st)))"

text \<open>The one terminal result of a work request, with its protocol record, in one transaction.\<close>

definition coordination_participant_terminal :: "PsychloStore \<Rightarrow> string \<Rightarrow> ProtocolRecord option result" where
  "coordination_participant_terminal st request_id =
     (case find (\<lambda>t. ct_request_id t = request_id) (ps_terminals st) of
        None \<Rightarrow> Inr None
      | Some t \<Rightarrow>
          (case protocol_record st PARTICIPANT_RESULT (ct_result_id t) of
             None \<Rightarrow> Inl (ValueError ''participant result terminal record is invalid'')
           | Some r \<Rightarrow>
               if pl_digest r \<noteq> ct_digest t \<or> \<not> obj_eq (pl_payload r) (ct_payload t) \<or>
                  \<not> is_text (dict_item (pl_payload r) ''requestId'') request_id
               then Inl (ValueError ''participant result terminal record is invalid'') else Inr (Some r)))"

definition record_coordination_participant_terminal ::
  "storage_env \<Rightarrow> string \<Rightarrow> string \<Rightarrow> string \<Rightarrow> string \<Rightarrow> string \<Rightarrow> json_obj \<Rightarrow> PsychloStore \<Rightarrow>
   PsychloStore \<times> (ProtocolRecord \<times> bool) result" where
  "record_coordination_participant_terminal env now request_id result_id idempotency_key digest payload st =
     (if \<not> is_text (dict_item payload ''requestId'') request_id \<or> \<not> is_text (dict_item payload ''resultId'') result_id
      then (st, Inl (ValueError ''participant result terminal binding is invalid''))
      else case find (\<lambda>t. ct_request_id t = request_id) (ps_terminals st) of
        Some t \<Rightarrow>
          if ct_result_id t \<noteq> result_id \<or> ct_digest t \<noteq> digest \<or> wire_text env (ct_payload t) \<noteq> wire_text env payload
          then (st, Inl (ValueError ''participant result terminal conflict''))
          else (st, case protocol_record st PARTICIPANT_RESULT result_id of
                 None \<Rightarrow> Inl (ValueError ''participant result terminal record is missing'') | Some r \<Rightarrow> Inr (r, False))
      | None \<Rightarrow>
          if list_ex (\<lambda>r. pl_kind r = PARTICIPANT_RESULT \<and> (pl_record_id r = result_id \<or> pl_idempotency_key r = idempotency_key))
               (ps_protocol st)
          then (st, Inl (ValueError ''participant result terminal conflict''))
          else if list_ex (\<lambda>t. ct_result_id t = result_id) (ps_terminals st)
          then (st, Inl (unique_error ''coordination_terminals.result_id''))
          else let new = new_protocol now PARTICIPANT_RESULT result_id idempotency_key digest payload ''queued'' in
            (st\<lparr>ps_protocol := ps_protocol st @ [new],
                ps_terminals := ps_terminals st @ [\<lparr>ct_request_id = request_id, ct_result_id = result_id, ct_digest = digest,
                  ct_payload = payload\<rparr>]\<rparr>, Inr (new, True)))"

section \<open>Decisions\<close>

definition decision :: "PsychloStore \<Rightarrow> string \<Rightarrow> PsychloDecision option" where
  "decision st decision_id = find (\<lambda>d. de_decision_id d = decision_id) (ps_decisions st)"

definition new_decision :: "string \<Rightarrow> json_obj \<Rightarrow> json_obj \<Rightarrow> PsychloDecision" where
  "new_decision decision_id request receipt = \<lparr>de_decision_id = decision_id, de_request = request, de_receipt = receipt,
     de_status = ''staged'', de_decided_by = None, de_decided_at = None, de_reason = None\<rparr>"

definition record_decision :: "storage_env \<Rightarrow> json_obj \<Rightarrow> json_obj \<Rightarrow> PsychloStore \<Rightarrow> PsychloStore \<times> unit result" where
  "record_decision env request receipt st =
     (case res_bind (json_item request ''decisionId'') (sql_key env) of
        Inl e \<Rightarrow> (st, Inl e)
      | Inr decision_id \<Rightarrow>
          (if decision st decision_id \<noteq> None then st
           else st\<lparr>ps_decisions := ps_decisions st @ [new_decision decision_id request receipt]\<rparr>, Inr ()))"

definition list_staged_decisions :: "PsychloStore \<Rightarrow> PsychloDecision list" where
  "list_staged_decisions st = filter (\<lambda>d. de_status d = ''staged'') (ps_decisions st)"

text \<open>Only a staged decision is written: the guard of both \<open>UPDATE\<close> statements on \<open>decisions\<close>.\<close>

definition decide_staged :: "string \<Rightarrow> string \<Rightarrow> string \<Rightarrow> string \<Rightarrow> string \<Rightarrow> PsychloStore \<Rightarrow> PsychloStore" where
  "decide_staged decision_id status decided_by decided_at reason st =
     st\<lparr>ps_decisions := update_rows (\<lambda>d. de_decision_id d = decision_id \<and> de_status d = ''staged'')
       (\<lambda>d. d\<lparr>de_status := status, de_decided_by := Some decided_by, de_decided_at := Some decided_at, de_reason := Some reason\<rparr>)
       (ps_decisions st)\<rparr>"

definition decide :: "string \<Rightarrow> string \<Rightarrow> string \<Rightarrow> string \<Rightarrow> string \<Rightarrow> PsychloStore \<Rightarrow> PsychloStore \<times> unit result" where
  "decide decision_id status decided_by decided_at reason st =
     (if list_ex (\<lambda>d. de_decision_id d = decision_id \<and> de_status d = ''staged'') (ps_decisions st)
      then (decide_staged decision_id status decided_by decided_at reason st, Inr ())
      else (st, Inl (ValueError ''an exact staged Psychlo decision is required'')))"

definition decision_intent :: "PsychloStore \<Rightarrow> string \<Rightarrow> DecisionIntent option" where
  "decision_intent st decision_id = find (\<lambda>d. di_decision_id d = decision_id) (ps_decision_intents st)"

definition pending_decision_intents :: "PsychloStore \<Rightarrow> string list" where
  "pending_decision_intents st = map di_decision_id
     (sort_key (\<lambda>d. (di_updated_at d, di_decision_id d)) (filter (\<lambda>d. di_status d = ''pending'') (ps_decision_intents st)))"

definition record_decision_intent ::
  "storage_env \<Rightarrow> string \<Rightarrow> json_obj \<Rightarrow> json_obj \<Rightarrow> string \<Rightarrow> string \<Rightarrow> string \<Rightarrow> PsychloStore \<Rightarrow>
   PsychloStore \<times> DecisionIntent result" where
  "record_decision_intent env now request outcome decided_by decided_at reason st =
     (case json_item request ''decisionId'' of
        Inl e \<Rightarrow> (st, Inl e)
      | Inr v \<Rightarrow>
          let decision_id = py_str (se_str env) v in
          (case decision_intent st decision_id of
             Some existing \<Rightarrow>
               if \<not> obj_eq (di_request existing) request \<or> \<not> obj_eq (di_outcome existing) outcome \<or>
                  di_decided_by existing \<noteq> decided_by \<or> di_reason existing \<noteq> reason
               then (st, Inl (ValueError ''external decision conflict'')) else (st, Inr existing)
           | None \<Rightarrow>
               let new = \<lparr>di_decision_id = decision_id, di_request = request, di_outcome = outcome, di_status = ''pending'',
                     di_decided_by = decided_by, di_decided_at = decided_at, di_reason = reason, di_updated_at = now\<rparr>
               in (st\<lparr>ps_decision_intents := ps_decision_intents st @ [new]\<rparr>, Inr new)))"

section \<open>External executions\<close>

definition external_execution :: "PsychloStore \<Rightarrow> string \<Rightarrow> ExternalExecution option" where
  "external_execution st reconciliation_id = find (\<lambda>x. xe_reconciliation_id x = reconciliation_id) (ps_external st)"

definition update_external :: "string \<Rightarrow> (ExternalExecution \<Rightarrow> ExternalExecution) \<Rightarrow> PsychloStore \<Rightarrow> PsychloStore" where
  "update_external reconciliation_id f st =
     st\<lparr>ps_external := update_rows (\<lambda>x. xe_reconciliation_id x = reconciliation_id) f (ps_external st)\<rparr>"

definition record_external ::
  "storage_env \<Rightarrow> json_obj \<Rightarrow> string \<Rightarrow> json_obj \<Rightarrow> string option \<Rightarrow> PsychloStore \<Rightarrow> PsychloStore \<times> bool result" where
  "record_external env payload digest receipt gate_decision_id st =
     (let key = (\<lambda>k. res_bind (json_item payload k) (sql_key env)) in
      case res_bind (key ''reconciliationId'') (\<lambda>a. res_bind (key ''externalExecutionId'') (\<lambda>b.
             res_bind (key ''idempotencyKey'') (\<lambda>c. Inr (a, b, c)))) of
        Inl e \<Rightarrow> (st, Inl e)
      | Inr (rid, eid, idem) \<Rightarrow>
          if list_ex (\<lambda>x. xe_reconciliation_id x = rid \<or> xe_external_execution_id x = eid \<or> xe_idempotency_key x = idem \<or>
               xe_digest x = digest) (ps_external st)
          then (st, case external_execution st (item_text env payload ''reconciliationId'') of
                 None \<Rightarrow> Inl (ValueError ''external round conflict'')
               | Some x \<Rightarrow> if xe_digest x = digest \<and> obj_eq (xe_payload x) payload then Inr False
                   else Inl (ValueError ''external round conflict''))
          else (st\<lparr>ps_external := ps_external st @ [\<lparr>xe_reconciliation_id = rid, xe_external_execution_id = eid,
                  xe_idempotency_key = idem, xe_payload = payload, xe_digest = digest, xe_receipt = receipt,
                  xe_status = ''reconciled'', xe_forwarded = False, xe_gate_decision_id = gate_decision_id,
                  xe_gate_workflow_id = None\<rparr>]\<rparr>, Inr True))"

definition gate_free :: "ExternalExecution \<Rightarrow> string \<Rightarrow> bool" where
  "gate_free x workflow_id \<longleftrightarrow> xe_gate_workflow_id x \<in> {None, Some workflow_id}"

definition link_external_gate :: "string \<Rightarrow> string \<Rightarrow> string \<Rightarrow> PsychloStore \<Rightarrow> PsychloStore \<times> unit result" where
  "link_external_gate reconciliation_id decision_id workflow_id st =
     (case external_execution st reconciliation_id of
        None \<Rightarrow> (st, Inl (ValueError ''external decision identity conflict''))
      | Some x \<Rightarrow>
          if xe_gate_decision_id x \<noteq> Some decision_id then (st, Inl (ValueError ''external decision identity conflict''))
          else if blank workflow_id then (st, Inl (ValueError ''external decision workflow is invalid''))
          else if \<not> gate_free x workflow_id then (st, Inl (ValueError ''external decision workflow conflict''))
          else (update_external reconciliation_id (\<lambda>y. y\<lparr>xe_gate_workflow_id := Some workflow_id\<rparr>) st, Inr ()))"

definition mark_external_forwarded :: "string \<Rightarrow> string \<Rightarrow> PsychloStore \<Rightarrow> PsychloStore \<times> unit result" where
  "mark_external_forwarded reconciliation_id status st =
     (case external_execution st reconciliation_id of
        None \<Rightarrow> (st, Inl (TypeError ''NoneType is not subscriptable''))
      | Some x \<Rightarrow> (update_external reconciliation_id (\<lambda>y. y\<lparr>xe_forwarded := True, xe_status := status,
            xe_receipt := dict_set ''status'' (PStr status) (xe_receipt x)\<rparr>) st, Inr ()))"

definition update_external_receipt :: "storage_env \<Rightarrow> string \<Rightarrow> json_obj \<Rightarrow> string option \<Rightarrow> PsychloStore \<Rightarrow> PsychloStore" where
  "update_external_receipt env reconciliation_id receipt status =
     update_external reconciliation_id (\<lambda>y. y\<lparr>xe_receipt := receipt,
       xe_status := str_default status (case dict_get receipt ''status'' of
         None \<Rightarrow> ''reconciled'' | Some v \<Rightarrow> py_str (se_str env) v)\<rparr>)"

definition CLOSED_STATUSES :: "string set" where "CLOSED_STATUSES = {''approved'', ''rejected'', ''expired''}"

definition gated_project :: "string \<Rightarrow> ExternalExecution \<Rightarrow> bool" where
  "gated_project project_id x \<longleftrightarrow> is_text (dict_item (xe_payload x) ''projectId'') project_id \<and>
     py_truthy (dict_item (xe_payload x) ''explicitGate'')"

definition external_gate_pending :: "PsychloStore \<Rightarrow> string \<Rightarrow> bool" where
  "external_gate_pending st project_id = list_ex (\<lambda>x. xe_status x \<notin> CLOSED_STATUSES \<and> gated_project project_id x \<and>
     \<not> text_that (\<lambda>s. s \<in> CLOSED_STATUSES) (dict_item (xe_receipt x) ''decisionStatus'')) (ps_external st)"

definition external_gate_blocked :: "PsychloStore \<Rightarrow> string \<Rightarrow> bool" where
  "external_gate_blocked st project_id = list_ex (\<lambda>x. xe_status x \<in> {''rejected'', ''expired''} \<and> gated_project project_id x \<and>
     text_that (\<lambda>s. s \<in> {''rejected'', ''expired''}) (dict_item (xe_receipt x) ''decisionStatus'')) (ps_external st)"

text \<open>The gate decision of an external execution: staged exactly as the execution's envelope says, then settled with it.\<close>

definition expected_decision :: "storage_env \<Rightarrow> string \<Rightarrow> json_obj \<Rightarrow> json_obj result" where
  "expected_decision env decision_id e =
     res_bind (select_fields e [''projectId'', ''planId'', ''planVersion'', ''correlationId'', ''idempotencyKey'', ''explicitGate'', ''digest'']) (\<lambda>_.
       Inr [(''decisionId'', PStr decision_id), (''projectId'', dict_item e ''projectId''), (''planId'', dict_item e ''planId''),
         (''decisionVersion'', dict_item e ''planVersion''), (''correlationId'', dict_item e ''correlationId''),
         (''idempotencyKey'', PStr (''roadex:external:'' @ item_text env e ''idempotencyKey'')),
         (''question'', dict_item e ''explicitGate''), (''resultProvenanceId'', dict_item e ''digest'')])"

definition check_external_decision ::
  "storage_env \<Rightarrow> PsychloStore \<Rightarrow> string \<Rightarrow> string \<Rightarrow> json_obj \<Rightarrow> ExternalExecution result" where
  "check_external_decision env st decision_id reconciliation_id request =
     (let conflict = Inl (ValueError ''external decision identity conflict'') in
      if \<not> text_that (\<lambda>s. \<not> blank s) (dict_item request ''workflowId'') \<or> decision_id = [] \<or>
         list_ex (\<lambda>k. \<not> text_that (\<lambda>s. s \<noteq> []) (dict_item request k)) [''projectId'', ''planId'', ''decisionVersion'', ''correlationId'',
           ''idempotencyKey'', ''question'', ''resultProvenanceId''] then conflict
      else case external_execution st reconciliation_id of
        None \<Rightarrow> conflict
      | Some x \<Rightarrow>
          if xe_gate_decision_id x \<noteq> Some decision_id then conflict
          else res_bind (expected_decision env decision_id (xe_payload x)) (\<lambda>expected.
            if json_keys request \<noteq> insert ''workflowId'' (json_keys expected) \<or>
               list_ex (\<lambda>(k, v). \<not> json_eq (dict_item request k) v) expected then conflict
            else if \<not> gate_free x (field_text request ''workflowId'') then Inl (ValueError ''external decision workflow conflict'')
            else Inr x))"

definition stage_external_decision ::
  "storage_env \<Rightarrow> json_obj \<Rightarrow> json_obj \<Rightarrow> PsychloStore \<Rightarrow> PsychloStore \<times> json_obj result" where
  "stage_external_decision env request receipt st =
     (let decision_id = (case dict_get request ''decisionId'' of None \<Rightarrow> [] | Some v \<Rightarrow> py_str (se_str env) v);
          reconciliation_id = removeprefix decision_id ''roadex:external:'';
          linked = update_external reconciliation_id (\<lambda>y. y\<lparr>xe_gate_workflow_id := get_text request ''workflowId''\<rparr>)
      in case check_external_decision env st decision_id reconciliation_id request of
           Inl e \<Rightarrow> (st, Inl e)
         | Inr x \<Rightarrow>
             (case decision st decision_id of
                Some existing \<Rightarrow>
                  if \<not> obj_eq (de_request existing) request
                  then (st, Inl (ValueError ''external decision identity conflict'')) else (linked st, Inr (de_receipt existing))
              | None \<Rightarrow>
                  (linked (st\<lparr>ps_decisions := ps_decisions st @ [new_decision decision_id request receipt]\<rparr>), Inr receipt)))"

definition check_settlement :: "PsychloStore \<Rightarrow> string \<Rightarrow> string \<Rightarrow> string \<Rightarrow> ExternalExecution result" where
  "check_settlement st decision_id status reconciliation_id =
     (case decision st decision_id of
        None \<Rightarrow> Inl (ValueError ''an exact staged Psychlo decision is required'')
      | Some d \<Rightarrow>
          if de_status d \<notin> {''staged'', status} then Inl (ValueError ''external decision conflict'')
          else case external_execution st reconciliation_id of
            None \<Rightarrow> Inl (ValueError ''external decision identity conflict'')
          | Some x \<Rightarrow>
              if xe_gate_decision_id x \<noteq> Some decision_id then Inl (ValueError ''external decision identity conflict'')
              else if xe_gate_workflow_id x = None \<or> \<not> is_text (dict_item (de_request d) ''workflowId'') (the (xe_gate_workflow_id x))
              then Inl (ValueError ''external decision workflow conflict'')
              else if \<not> json_hashable (dict_item (xe_receipt x) ''decisionStatus'') then Inl (TypeError ''unhashable type'')
              else if dict_item (xe_receipt x) ''decisionStatus'' \<notin> {PNone, PStr ''pending'', PStr ''stage-pending'', PStr status}
              then Inl (ValueError ''external decision conflict'')
              else Inr x)"

definition settle_external_decision ::
  "string \<Rightarrow> string \<Rightarrow> string \<Rightarrow> string \<Rightarrow> string \<Rightarrow> string \<Rightarrow> string \<Rightarrow> PsychloStore \<Rightarrow> PsychloStore \<times> unit result" where
  "settle_external_decision now decision_id status decided_by decided_at reason reconciliation_id st =
     (case check_settlement st decision_id status reconciliation_id of
        Inl e \<Rightarrow> (st, Inl e)
      | Inr x \<Rightarrow>
          let receipt = dict_merge (xe_receipt x) [(''decisionId'', PStr decision_id), (''decisionStatus'', PStr status), (''status'', PStr status)];
              st1 = decide_staged decision_id status decided_by decided_at reason st;
              st2 = update_external reconciliation_id (\<lambda>y. y\<lparr>xe_receipt := receipt, xe_status := status\<rparr>) st1
          in (st2\<lparr>ps_decision_intents := update_rows (\<lambda>i. di_decision_id i = decision_id)
                (\<lambda>i. i\<lparr>di_status := ''settled'', di_updated_at := now\<rparr>) (ps_decision_intents st2)\<rparr>, Inr ()))"

section \<open>Coordination\<close>

definition same_operation :: "string \<Rightarrow> string \<Rightarrow> OperationClaim \<Rightarrow> bool" where
  "same_operation kind operation_id c \<longleftrightarrow> oc_kind c = kind \<and> oc_operation_id c = operation_id"

definition coordination_operation_claim :: "PsychloStore \<Rightarrow> string \<Rightarrow> string \<Rightarrow> OperationClaim option" where
  "coordination_operation_claim st kind operation_id = find (same_operation kind operation_id) (ps_claims st)"

text \<open>Whether a claim bars others at \<open>now\<close>: it is completed, or claimed under a lease that has not run out.\<close>

definition claim_holds :: "string \<Rightarrow> OperationClaim \<Rightarrow> bool result" where
  "claim_holds now c =
     (if oc_state c = ''completed'' then Inr True
      else case (oc_state c = ''claimed'', oc_lease_expires_at c) of
        (True, Some lease) \<Rightarrow>
          res_bind (wire_time lease) (\<lambda>t. res_bind (wire_time now) (\<lambda>u. res_bind (time_le t u) (\<lambda>past. Inr (\<not> past))))
      | _ \<Rightarrow> Inr False)"

definition claim_coordination_operation ::
  "string \<Rightarrow> string \<Rightarrow> string \<Rightarrow> string \<Rightarrow> string \<Rightarrow> string \<Rightarrow> PsychloStore \<Rightarrow> PsychloStore \<times> bool result" where
  "claim_coordination_operation kind operation_id owner_id lease_expires_at idempotency_key now st =
     (if kind \<notin> {''lead-dispatch'', ''supervisor-dispatch''} \<or>
         list_ex blank [operation_id, owner_id, lease_expires_at, idempotency_key, now]
      then (st, Inl (ValueError ''coordination operation claim is invalid''))
      else case coordination_operation_claim st kind operation_id of
        None \<Rightarrow>
          if list_ex (\<lambda>c. oc_kind c = kind \<and> oc_idempotency_key c = idempotency_key) (ps_claims st)
          then (st, Inl (unique_error ''coordination_operation_claims.idempotency_key''))
          else (st\<lparr>ps_claims := ps_claims st @ [\<lparr>oc_kind = kind, oc_operation_id = operation_id, oc_owner_id = Some owner_id,
                  oc_lease_expires_at = Some lease_expires_at, oc_attempts = 1, oc_idempotency_key = idempotency_key,
                  oc_state = ''claimed'', oc_updated_at = now\<rparr>]\<rparr>, Inr True)
      | Some c \<Rightarrow>
          if oc_idempotency_key c \<noteq> idempotency_key then (st, Inl (ValueError ''coordination operation idempotency conflict''))
          else case claim_holds now c of
            Inl e \<Rightarrow> (st, Inl e)
          | Inr True \<Rightarrow> (st, Inr False)
          | Inr False \<Rightarrow>
              (st\<lparr>ps_claims := update_rows (same_operation kind operation_id) (\<lambda>r. r\<lparr>oc_owner_id := Some owner_id,
                  oc_lease_expires_at := Some lease_expires_at, oc_attempts := oc_attempts r + 1, oc_state := ''claimed'',
                  oc_updated_at := now\<rparr>) (ps_claims st)\<rparr>, Inr True))"

definition claimed_by :: "string \<Rightarrow> string \<Rightarrow> string \<Rightarrow> OperationClaim \<Rightarrow> bool" where
  "claimed_by kind operation_id owner_id c \<longleftrightarrow>
     same_operation kind operation_id c \<and> oc_owner_id c = Some owner_id \<and> oc_state c = ''claimed''"

definition complete_coordination_operation ::
  "string \<Rightarrow> string \<Rightarrow> string \<Rightarrow> string \<Rightarrow> PsychloStore \<Rightarrow> PsychloStore \<times> unit result" where
  "complete_coordination_operation kind operation_id owner_id now st =
     (if list_ex (claimed_by kind operation_id owner_id) (ps_claims st)
      then (st\<lparr>ps_claims := update_rows (claimed_by kind operation_id owner_id)
              (\<lambda>c. c\<lparr>oc_state := ''completed'', oc_lease_expires_at := None, oc_updated_at := now\<rparr>) (ps_claims st)\<rparr>, Inr ())
      else (st, case coordination_operation_claim st kind operation_id of
             None \<Rightarrow> Inl (ValueError ''coordination operation claim is unavailable'')
           | Some c \<Rightarrow> if oc_state c \<noteq> ''completed'' then Inl (ValueError ''coordination operation claim is unavailable'') else Inr ()))"

definition release_coordination_operation :: "string \<Rightarrow> string \<Rightarrow> string \<Rightarrow> string \<Rightarrow> PsychloStore \<Rightarrow> PsychloStore" where
  "release_coordination_operation kind operation_id owner_id now st =
     st\<lparr>ps_claims := update_rows (claimed_by kind operation_id owner_id)
       (\<lambda>c. c\<lparr>oc_owner_id := None, oc_lease_expires_at := None, oc_state := ''pending'', oc_updated_at := now\<rparr>) (ps_claims st)\<rparr>"

text \<open>The two tables of intents have the same columns; \<open>dispatch\<close> selects the first.\<close>

definition intents_of :: "bool \<Rightarrow> PsychloStore \<Rightarrow> CoordinationIntent list" where
  "intents_of is_dispatch st = (if is_dispatch then ps_dispatches st else ps_reviews st)"

definition set_intents :: "bool \<Rightarrow> CoordinationIntent list \<Rightarrow> PsychloStore \<Rightarrow> PsychloStore" where
  "set_intents is_dispatch rows st = (if is_dispatch then st\<lparr>ps_dispatches := rows\<rparr> else st\<lparr>ps_reviews := rows\<rparr>)"

definition coordination_intent :: "bool \<Rightarrow> PsychloStore \<Rightarrow> string \<Rightarrow> CoordinationIntent option" where
  "coordination_intent is_dispatch st request_id = find (\<lambda>i. ci_request_id i = request_id) (intents_of is_dispatch st)"

definition create_coordination_intent ::
  "storage_env \<Rightarrow> bool \<Rightarrow> string \<Rightarrow> string \<Rightarrow> string \<Rightarrow> json_obj \<Rightarrow> string \<Rightarrow> string \<Rightarrow> PsychloStore \<Rightarrow>
   PsychloStore \<times> (bool \<times> CoordinationIntent) result" where
  "create_coordination_intent env is_dispatch now operation_id external_id payload owner_id idempotency_key st =
     (let encoded = (\<lambda>p. json_text (se_float_repr env) (PDict p)); rows = intents_of is_dispatch st;
          new = \<lparr>ci_request_id = operation_id, ci_external_id = external_id, ci_payload = payload, ci_state = ''uncertain'',
            ci_updated_at = now, ci_owner_id = Some owner_id, ci_idempotency_key = Some idempotency_key\<rparr>
      in if list_ex blank [operation_id, external_id, owner_id, idempotency_key]
         then (st, Inl (ValueError ''coordination intent identity is invalid''))
         else case coordination_intent is_dispatch st operation_id of
           Some i \<Rightarrow>
             if ci_external_id i \<noteq> external_id \<or> encoded (ci_payload i) \<noteq> encoded payload \<or> ci_idempotency_key i \<noteq> Some idempotency_key
             then (st, Inl (ValueError ''coordination intent conflict'')) else (st, Inr (False, i))
         | None \<Rightarrow>
             if list_ex (\<lambda>i. ci_external_id i = external_id \<or> ci_idempotency_key i = Some idempotency_key) rows
             then (st, Inl (unique_error ''coordination intents''))
             else (set_intents is_dispatch (rows @ [new]) st, Inr (True, new)))"

definition save_coordination_intent ::
  "bool \<Rightarrow> string \<Rightarrow> string \<Rightarrow> string \<Rightarrow> json_obj \<Rightarrow> string \<Rightarrow> PsychloStore \<Rightarrow> PsychloStore \<times> CoordinationIntent result" where
  "save_coordination_intent is_dispatch now request_id external_id payload state st =
     (let name = (if is_dispatch then ''coordination dispatch'' else ''coordination review'');
          new = \<lparr>ci_request_id = request_id, ci_external_id = external_id, ci_payload = payload, ci_state = state, ci_updated_at = now,
            ci_owner_id = None, ci_idempotency_key = None\<rparr>
      in if is_dispatch \<and> (request_id = [] \<or> external_id = []) then (st, Inl (ValueError ''coordination dispatch identity is required''))
         else if state \<notin> {''uncertain'', ''pending''} then (st, Inl (ValueError (name @ '' state is invalid'')))
         else case coordination_intent is_dispatch st request_id of
           Some i \<Rightarrow> if ci_external_id i \<noteq> external_id \<or> \<not> obj_eq (ci_payload i) payload
             then (st, Inl (ValueError (name @ '' conflict''))) else (st, Inr i)
         | None \<Rightarrow>
             if list_ex (\<lambda>i. ci_external_id i = external_id) (intents_of is_dispatch st) then (st, Inl (unique_error ''coordination intents''))
             else (set_intents is_dispatch (intents_of is_dispatch st @ [new]) st, Inr new))"

definition transition_coordination_intent ::
  "bool \<Rightarrow> string \<Rightarrow> string \<Rightarrow> string \<Rightarrow> PsychloStore \<Rightarrow> PsychloStore \<times> CoordinationIntent result" where
  "transition_coordination_intent is_dispatch now request_id state st =
     (let st1 = set_intents is_dispatch (update_rows (\<lambda>i. ci_request_id i = request_id)
            (\<lambda>i. i\<lparr>ci_state := state, ci_updated_at := now\<rparr>) (intents_of is_dispatch st)) st
      in (st1, case coordination_intent is_dispatch st1 request_id of
           None \<Rightarrow> Inl (ValueError ((if is_dispatch then ''coordination dispatch'' else ''coordination review'') @ '' is missing''))
         | Some i \<Rightarrow> Inr i))"

section \<open>Projects\<close>

definition project :: "PsychloStore \<Rightarrow> string \<Rightarrow> PsychloProject option" where
  "project st project_id = find (\<lambda>p. pj_project_id p = project_id) (ps_projects st)"

definition record_project :: "string \<Rightarrow> json_obj \<Rightarrow> json_obj \<Rightarrow> PsychloStore \<Rightarrow> PsychloStore \<times> unit result" where
  "record_project project_id registration scheduling st =
     (if project st project_id \<noteq> None then (st, Inl (unique_error ''projects.project_id''))
      else (st\<lparr>ps_projects := ps_projects st @ [\<lparr>pj_project_id = project_id, pj_registration = registration,
              pj_scheduling = scheduling\<rparr>]\<rparr>, Inr ()))"

text \<open>
  \<open>delivered\<close> is what the callback does: the row is replaced only after it returned, and only if it still has the
  JSON text of the expected registration.
\<close>

definition replace_project ::
  "storage_env \<Rightarrow> string \<Rightarrow> json_obj \<Rightarrow> json_obj \<Rightarrow> json_obj \<Rightarrow> unit result \<Rightarrow> PsychloStore \<Rightarrow> PsychloStore \<times> bool result" where
  "replace_project env project_id expected registration scheduling delivered st =
     (case project st project_id of
        None \<Rightarrow> (st, Inl (ValueError ''project registration conflict''))
      | Some p \<Rightarrow>
          if obj_eq (pj_registration p) registration then (st, Inr False)
          else if \<not> obj_eq (pj_registration p) expected then (st, Inl (ValueError ''project registration conflict''))
          else case delivered of
            Inl e \<Rightarrow> (st, Inl e)
          | Inr _ \<Rightarrow>
              if json_text (se_float_repr env) (PDict (pj_registration p)) \<noteq> json_text (se_float_repr env) (PDict expected)
              then (st, Inl (ValueError ''project registration conflict''))
              else (st\<lparr>ps_projects := update_rows (\<lambda>q. pj_project_id q = project_id)
                (\<lambda>q. q\<lparr>pj_registration := registration, pj_scheduling := scheduling\<rparr>) (ps_projects st)\<rparr>, Inr True))"

end
