(* ===== verification/Psychlo_Ceiling.thy ===== *)
theory Psychlo_Ceiling
  imports Psychlo_Store
begin

text \<open>
  Admission of a second stream, \<open>record_canary_round\<close>, \<open>record_durable_ceiling_round\<close> and
  \<open>record_concurrency_ceiling_change\<close> of \<^verbatim>\<open>src/overseer/psychlo_store.py\<close>. Each reads its authorization, the
  decision on it and the unfinished rounds in the transaction that inserts the round. A row whose payload no longer
  parses is refused; only contract, type and value errors of a parser are turned into a refusal.
\<close>

definition as_invalid :: "string \<Rightarrow> 'a result \<Rightarrow> 'a result" where
  "as_invalid message r = (case r of
     Inl (ValueError m) \<Rightarrow> Inl (ValueError message) | Inl (TypeError m) \<Rightarrow> Inl (ValueError message) | _ \<Rightarrow> r)"

text \<open>A stored authority: present, in one of the wanted states, parsed, and with the digest of its row.\<close>

definition read_authority ::
  "PsychloStore \<Rightarrow> string \<Rightarrow> string \<Rightarrow> string set \<Rightarrow> (json_obj \<Rightarrow> json_obj result) \<Rightarrow> string \<Rightarrow> string \<Rightarrow> string \<Rightarrow>
   json_obj result" where
  "read_authority st kind record_id states parser missing invalid conflict =
     (case protocol_record st kind record_id of
        None \<Rightarrow> Inl (ValueError missing)
      | Some row \<Rightarrow>
          if pl_state row \<notin> states then Inl (ValueError missing)
          else res_bind (as_invalid invalid (parser (pl_payload row))) (\<lambda>v.
            if dict_item v ''digest'' \<noteq> PStr (pl_digest row) then Inl (ValueError conflict) else Inr v))"

section \<open>Canary rounds\<close>

definition CANARY_AUTHORIZATION :: string where "CANARY_AUTHORIZATION = ''concurrency-canary-authorization''"

definition CEILING_AUTHORIZATION :: string where "CEILING_AUTHORIZATION = ''concurrency-ceiling-authorization''"

definition CEILING_CHANGE :: string where "CEILING_CHANGE = ''concurrency-ceiling-change''"

definition CANARY_RESULT :: string where "CANARY_RESULT = ''concurrency-canary-result''"

definition approved :: "PsychloStore \<Rightarrow> string \<Rightarrow> bool" where
  "approved st decision_id = (case decision st decision_id of None \<Rightarrow> False | Some d \<Rightarrow> de_status d = ''approved'')"

definition project_of :: "json_obj \<Rightarrow> pyval" where
  "project_of request = dict_item request ''projectId''"

text \<open>The identity of a round, and the same of a project an authorization names.\<close>

definition round_identity :: "json_obj \<Rightarrow> pyval list" where
  "round_identity request = map (dict_item request) [''projectId'', ''planId'', ''planVersion'', ''projectLeadId'']"

definition bound_identity :: "json_obj \<Rightarrow> pyval list" where
  "bound_identity p = map (dict_item p) [''projectId'', ''planId'', ''planVersion'', ''leadId'']"

definition bound_projects :: "json_obj \<Rightarrow> json_obj list" where
  "bound_projects authorization = map as_dict (item_list authorization ''projects'')"

definition identity_matches :: "pyval list \<Rightarrow> pyval list \<Rightarrow> bool" where
  "identity_matches a b = list_all2 json_eq a b"

fun check_streams :: "json_obj list \<Rightarrow> json_obj \<Rightarrow> json_obj list \<Rightarrow> unit result" where
  "check_streams projects request [] = Inr ()"
| "check_streams projects request (r # rs) =
     (if \<not> list_all json_hashable (round_identity r) then Inl (TypeError ''unhashable type'')
      else if \<not> list_ex (\<lambda>p. identity_matches (round_identity r) (bound_identity p)) projects \<or> json_eq (project_of r) (project_of request)
      then Inl (ValueError ''single_stream_busy'')
      else check_streams projects request rs)"

definition check_deadline :: "json_obj \<Rightarrow> string \<Rightarrow> unit result" where
  "check_deadline authorization now =
     res_bind (as_invalid ''concurrency canary authorization timestamp is invalid''
       (res_bind (json_time (dict_item authorization ''deadline'')) (\<lambda>t. res_bind (wire_time now) (\<lambda>u. Inr (t, u))))) (\<lambda>(deadline, observed).
     res_bind (time_le deadline observed) (\<lambda>past. refuse_when past ''concurrency canary authorization expired''))"

definition check_bound_round :: "json_obj \<Rightarrow> json_obj \<Rightarrow> unit result" where
  "check_bound_round authorization request =
     (case find (\<lambda>p. json_eq (project_of p) (project_of request)) (bound_projects authorization) of
        None \<Rightarrow> Inl (ValueError ''concurrency canary round identity is not authorized'')
      | Some p \<Rightarrow> refuse_when (\<not> identity_matches (round_identity request) (bound_identity p))
          ''concurrency canary round identity is not authorized'')"

definition check_canary_round ::
  "storage_env \<Rightarrow> PsychloStore \<Rightarrow> json_obj \<Rightarrow> string \<Rightarrow> int \<Rightarrow> string \<Rightarrow> unit result" where
  "check_canary_round env st request authorization_id expected_revision now =
     res_bind (read_authority st CANARY_AUTHORIZATION authorization_id {''delivered''} (parse_canary_authorization env)
       ''concurrency canary authorization is unavailable'' ''concurrency canary authorization is invalid''
       ''concurrency canary authorization digest conflict'') (\<lambda>authorization.
     run_checks
       [refuse_when (\<not> is_number expected_revision (dict_item authorization ''expectedRevision''))
          ''concurrency canary authorization revision conflict'',
        check_deadline authorization now,
        refuse_when (\<not> approved st (field_text authorization ''decisionId'')) ''concurrency canary authorization is not approved'',
        refuse_when (length (item_list authorization ''projects'') \<noteq> 2) ''concurrency canary authorization project binding is invalid'',
        check_bound_round authorization request,
        refuse_when (2 \<le> length (active_rounds st)) ''single_stream_busy'',
        check_streams (bound_projects authorization) request (active_rounds st)])"

definition record_canary_round ::
  "storage_env \<Rightarrow> json_obj \<Rightarrow> json_obj \<Rightarrow> string \<Rightarrow> string \<Rightarrow> int \<Rightarrow> string \<Rightarrow> PsychloStore \<Rightarrow> PsychloStore \<times> unit result" where
  "record_canary_round env request receipt capability authorization_id expected_revision now st =
     (case check_canary_round env st request authorization_id expected_revision now of
        Inl e \<Rightarrow> (st, Inl e)
      | Inr _ \<Rightarrow> insert_round env request receipt capability (Some authorization_id) st)"

section \<open>Evidence of a finished canary\<close>

definition RESULT_FIELDS :: "string list" where
  "RESULT_FIELDS = [''roundId'', ''projectId'', ''projectLeadId'', ''planId'', ''planVersion'', ''threadId'', ''model'', ''featureClass'',
     ''correlationId'', ''idempotencyKey'', ''snapshotId'', ''policyVersion'', ''expectedUsageCost'', ''scope'', ''selectionReason'',
     ''priorityRationale'', ''sourceId'', ''provenanceId'', ''status'', ''actualUsageCost'', ''deliveredScope'', ''remainingEstimate'',
     ''blockers'', ''questions'', ''reachedExplicitGates'', ''occurredAt'']"

definition round_result_digest :: "storage_env \<Rightarrow> json_obj \<Rightarrow> string" where
  "round_result_digest env result = se_sha256 env (wire_text env
     (map (\<lambda>k. (k, dict_item result k)) (filter (\<lambda>k. dict_get result k \<noteq> None) RESULT_FIELDS)))"

definition local_interval :: "PsychloRound \<Rightarrow> json_obj \<Rightarrow> (int \<times> int) result" where
  "local_interval r canary =
     (let conflict = ''canary result timing or authorization conflict'' in
      if opt_str (rd_canary_authorization_id r) \<noteq> dict_item canary ''authorizationId'' \<or> \<not> str_true (rd_started_at r) \<or> \<not> str_true (rd_completed_at r)
      then Inl (ValueError conflict)
      else res_bind (as_invalid conflict (wire_time (the (rd_started_at r)))) (\<lambda>a.
        res_bind (as_invalid conflict (wire_time (the (rd_completed_at r)))) (\<lambda>b.
        if dt_offset a = None \<or> dt_offset b = None \<or> utc_instant b < utc_instant a then Inl (ValueError conflict)
        else Inr (utc_instant a, utc_instant b))))"

definition check_result_binding :: "storage_env \<Rightarrow> PsychloRound \<Rightarrow> pyval \<Rightarrow> unit result" where
  "check_result_binding env r run =
     (let started = run_start run; completed = run_end run in run_checks
       [refuse_when (\<not> json_eq (dict_item (rd_request r) ''roundId'') (dict_item started ''roundId'') \<or>
          \<not> identity_matches (round_identity (rd_request r)) (bound_identity started)) ''canary result round identity conflict'',
        (case rd_result r of
           None \<Rightarrow> Inl (ValueError ''canary result round is not completed'')
         | Some result \<Rightarrow> run_checks
             [refuse_when (\<not> is_text (dict_item result ''status'') ''completed'') ''canary result round is not completed'',
              refuse_when (\<not> json_eq (dict_item completed ''evidenceId'') (dict_item result ''provenanceId'') \<or>
                \<not> is_text (dict_item completed ''resultDigest'') (round_result_digest env result) \<or>
                \<not> is_text (dict_item completed ''evidenceDigest'') (content_digest env
                  [(''provenanceId'', dict_item result ''provenanceId''), (''resultDigest'', PStr (round_result_digest env result))]))
                ''canary result evidence does not bind to stored round result''])])"

fun canary_intervals :: "storage_env \<Rightarrow> PsychloStore \<Rightarrow> json_obj \<Rightarrow> pyval list \<Rightarrow> (int \<times> int) list result" where
  "canary_intervals env st canary [] = Inr []"
| "canary_intervals env st canary (run # runs) =
     (case get_round st (field_text (run_start run) ''roundId'') of
        None \<Rightarrow> Inl (ValueError ''canary result round is unavailable'')
      | Some r \<Rightarrow>
          res_bind (local_interval r canary) (\<lambda>interval.
          res_bind (check_result_binding env r run) (\<lambda>_.
          res_bind (canary_intervals env st canary runs) (\<lambda>rest. Inr (interval # rest)))))"

definition verify_canary_execution_rounds :: "storage_env \<Rightarrow> PsychloStore \<Rightarrow> json_obj \<Rightarrow> unit result" where
  "verify_canary_execution_rounds env st canary =
     res_bind (canary_intervals env st canary (item_list canary ''executions'')) (\<lambda>intervals.
       refuse_when (case intervals of [(a, b), (c, d)] \<Rightarrow> \<not> (a < d \<and> c < b) | _ \<Rightarrow> True)
         ''canary result timing does not show trusted overlap'')"

section \<open>The durable ceiling\<close>

definition CHANGE_FIELDS :: "string set" where
  "CHANGE_FIELDS = {''authorizationId'', ''correlationId'', ''idempotencyKey'', ''occurredAt''}"

text \<open>\<^verbatim>\<open>ORDER BY updated_at DESC, rowid DESC LIMIT 1\<close>\<close>

definition newest_change :: "PsychloStore \<Rightarrow> ProtocolRecord option" where
  "newest_change st =
     (case rev (sort_key pl_updated_at (filter (\<lambda>r. pl_kind r = CEILING_CHANGE \<and> pl_state r \<in> {''delivered'', ''settled''}) (ps_protocol st))) of
        [] \<Rightarrow> None | r # rs \<Rightarrow> Some r)"

definition read_change :: "storage_env \<Rightarrow> PsychloStore \<Rightarrow> string result" where
  "read_change env st =
     (case newest_change st of
        None \<Rightarrow> Inl (ValueError ''concurrency ceiling is unavailable'')
      | Some change \<Rightarrow>
          if content_digest env (pl_payload change) \<noteq> pl_digest change then Inl (ValueError ''concurrency ceiling change digest conflict'')
          else if json_keys (pl_payload change) \<noteq> CHANGE_FIELDS \<or>
            \<not> text_that (\<lambda>s. \<not> blank s) (dict_item (pl_payload change) ''authorizationId'')
          then Inl (ValueError ''concurrency ceiling change binding is invalid'')
          else Inr (field_text (pl_payload change) ''authorizationId''))"

definition read_ceiling :: "storage_env \<Rightarrow> PsychloStore \<Rightarrow> string \<Rightarrow> json_obj result" where
  "read_ceiling env st authorization_id =
     read_authority st CEILING_AUTHORIZATION authorization_id {''delivered'', ''settled''} (parse_concurrency_ceiling_authorization env)
       ''concurrency ceiling authorization is unavailable'' ''concurrency ceiling authorization is invalid''
       ''concurrency ceiling authorization digest conflict''"

definition read_canary_result :: "storage_env \<Rightarrow> PsychloStore \<Rightarrow> json_obj \<Rightarrow> json_obj result" where
  "read_canary_result env st authorization =
     read_authority st CANARY_RESULT (field_text authorization ''canaryResultId'') {''delivered''} (parse_concurrency_canary_result env)
       ''successful delivered canary evidence is required'' ''successful canary evidence is invalid''
       ''concurrency canary result digest conflict''"

definition observed_projects :: "json_obj \<Rightarrow> json_obj list" where
  "observed_projects canary = map (\<lambda>run. map (\<lambda>k. (k, dict_item (run_start run) k)) [''projectId'', ''planId'', ''planVersion'', ''leadId''])
     (item_list canary ''executions'')"

definition same_projects :: "json_obj list \<Rightarrow> json_obj list \<Rightarrow> bool" where
  "same_projects ps qs = (let by_id = sort_key (\<lambda>p. field_text p ''projectId'') in list_all2 obj_eq (by_id ps) (by_id qs))"

text \<open>What the canary's own authorization says of its projects; a missing one binds nothing.\<close>

definition read_canary_projects :: "storage_env \<Rightarrow> PsychloStore \<Rightarrow> json_obj \<Rightarrow> (bool \<times> json_obj list) result" where
  "read_canary_projects env st canary =
     (case protocol_record st CANARY_AUTHORIZATION (field_text canary ''authorizationId'') of
        None \<Rightarrow> Inr (False, [])
      | Some row \<Rightarrow>
          res_bind (as_invalid ''canary authorization is invalid'' (parse_canary_authorization env (pl_payload row))) (\<lambda>v.
          if dict_item v ''digest'' \<noteq> PStr (pl_digest row) then Inl (ValueError ''canary authorization digest conflict'')
          else Inr (pl_state row \<in> {''delivered'', ''settled''}, bound_projects v)))"

definition result_bound :: "json_obj \<Rightarrow> json_obj \<Rightarrow> bool" where
  "result_bound canary authorization \<longleftrightarrow>
     json_eq (dict_item canary ''resultId'') (dict_item authorization ''canaryResultId'') \<and>
     json_eq (dict_item canary ''targetCeiling'') (dict_item authorization ''ceiling'') \<and>
     json_eq (dict_item canary ''expectedRevision'') (dict_item authorization ''expectedRevision'')"

definition check_decision_fields :: "PsychloStore \<Rightarrow> json_obj \<Rightarrow> unit result" where
  "check_decision_fields st authorization =
     (case decision st (field_text authorization ''decisionId'') of
        None \<Rightarrow> Inl (ValueError ''concurrency ceiling authorization is not approved'')
      | Some d \<Rightarrow> run_checks
          [refuse_when (de_status d \<noteq> ''approved'') ''concurrency ceiling authorization is not approved'',
           refuse_when (list_ex (\<lambda>k. \<not> json_eq (dict_item (de_request d) k) (dict_item authorization k))
               [''decisionId'', ''projectId'', ''planId'', ''workflowId'', ''decisionVersion'', ''question''] \<or>
             \<not> json_eq (dict_item (de_request d) ''resultProvenanceId'') (dict_item authorization ''digest''))
             ''concurrency ceiling decision binding is invalid''])"

definition check_durable_ceiling :: "storage_env \<Rightarrow> PsychloStore \<Rightarrow> json_obj \<Rightarrow> unit result" where
  "check_durable_ceiling env st request =
     res_bind (read_change env st) (\<lambda>authorization_id.
     res_bind (read_ceiling env st authorization_id) (\<lambda>authorization.
     res_bind (refuse_when (\<not> is_number 2 (dict_item authorization ''ceiling'') \<or>
       field_int authorization ''revision'' \<noteq> field_int authorization ''expectedRevision'' + 1) ''concurrency ceiling is invalid'') (\<lambda>_.
     res_bind (read_canary_result env st authorization) (\<lambda>canary.
     res_bind (read_canary_projects env st canary) (\<lambda>(ready, expected).
     run_checks
       [refuse_when (\<not> ready \<or> \<not> result_bound canary authorization \<or> dict_item canary ''concurrencyObserved'' \<noteq> PBool True \<or>
          length (observed_projects canary) \<noteq> 2 \<or> \<not> same_projects (observed_projects canary) expected)
          ''successful canary evidence does not bind to ceiling authorization'',
        verify_canary_execution_rounds env st canary,
        check_decision_fields st authorization,
        refuse_when (2 \<le> length (active_rounds st) \<or> list_ex (\<lambda>r. json_eq (project_of r) (project_of request)) (active_rounds st))
          ''single_stream_busy''])))))"

definition record_durable_ceiling_round ::
  "storage_env \<Rightarrow> json_obj \<Rightarrow> json_obj \<Rightarrow> string \<Rightarrow> PsychloStore \<Rightarrow> PsychloStore \<times> unit result" where
  "record_durable_ceiling_round env request receipt capability st =
     (case check_durable_ceiling env st request of
        Inl e \<Rightarrow> (st, Inl e)
      | Inr _ \<Rightarrow> insert_round env request receipt capability None st)"

definition check_ceiling_change :: "storage_env \<Rightarrow> PsychloStore \<Rightarrow> json_obj \<Rightarrow> unit result" where
  "check_ceiling_change env st payload =
     res_bind (read_ceiling env st (field_text payload ''authorizationId'')) (\<lambda>authorization.
     res_bind (read_canary_result env st authorization) (\<lambda>canary.
     res_bind (read_authority st CANARY_AUTHORIZATION (field_text canary ''authorizationId'') {''delivered'', ''settled''}
       (parse_canary_authorization env) ''canary authorization is unavailable'' ''canary authorization is invalid''
       ''canary authorization digest conflict'') (\<lambda>canary_authorization.
     res_bind (check_all (\<lambda>p. res_bind (select_fields p [''projectId'', ''planId'', ''planVersion'', ''leadId'']) (\<lambda>_. Inr ()))
       (bound_projects canary_authorization)) (\<lambda>_.
     run_checks
       [refuse_when (\<not> result_bound canary authorization \<or>
          bound_identity ` set (bound_projects canary_authorization) \<noteq> bound_identity ` set (observed_projects canary))
          ''successful canary evidence does not bind to ceiling'',
        verify_canary_execution_rounds env st canary,
        check_decision_fields st authorization,
        (case decision st (field_text authorization ''decisionId'') of
           None \<Rightarrow> Inr ()
         | Some d \<Rightarrow> res_bind (in_texts (dict_item (de_request d) ''idempotencyKey'')
             {field_text authorization ''idempotencyKey'', ''decision:'' @ field_text authorization ''idempotencyKey''}) (\<lambda>known.
             refuse_when (\<not> known) ''concurrency ceiling decision binding is invalid''))]))))"

definition record_concurrency_ceiling_change ::
  "storage_env \<Rightarrow> string \<Rightarrow> json_obj \<Rightarrow> PsychloStore \<Rightarrow> PsychloStore \<times> (ProtocolRecord \<times> bool) result" where
  "record_concurrency_ceiling_change env now payload st =
     (if json_keys payload \<noteq> CHANGE_FIELDS \<or> list_ex (\<lambda>(k, v). \<not> text_that (\<lambda>s. \<not> blank s) v) payload
      then (st, Inl (ValueError ''concurrency ceiling change is invalid''))
      else let authorization_id = field_text payload ''authorizationId''; key = field_text payload ''idempotencyKey'';
             digest = content_digest env payload; new = new_protocol now CEILING_CHANGE authorization_id key digest payload ''queued''
      in case check_ceiling_change env st payload of
           Inl e \<Rightarrow> (st, Inl e)
         | Inr _ \<Rightarrow>
             (case protocol_record st CEILING_CHANGE authorization_id of
                Some existing \<Rightarrow>
                  if pl_digest existing \<noteq> digest \<or> \<not> obj_eq (pl_payload existing) payload
                  then (st, Inl (ValueError ''concurrency ceiling change conflict'')) else (st, Inr (existing, False))
              | None \<Rightarrow>
                  if list_ex (\<lambda>r. pl_kind r = CEILING_CHANGE \<and> pl_idempotency_key r = key) (ps_protocol st)
                  then (st, Inl (ValueError ''concurrency ceiling change idempotency conflict''))
                  else if list_ex (\<lambda>r. pl_kind r = CEILING_CHANGE \<and> pl_digest r = digest) (ps_protocol st)
                  then (st, Inl (unique_error ''protocol_records.kind, protocol_records.digest''))
                  else (st\<lparr>ps_protocol := ps_protocol st @ [new]\<rparr>, Inr (new, True))))"

end
