(* ===== verification/Psychlo_Safety.thy ===== *)
theory Psychlo_Safety
  imports Psychlo_Ceiling
begin

text \<open>
  What the Psychlo store guarantees over all sequences of its operations, whichever processes issue them: at most
  two rounds are unfinished, never two of one project, and two only under an authorization whose decision was
  approved; a finished round, a decided decision, a completed operation, a terminal result and the payload of a
  protocol record never change again.
\<close>

section \<open>Rows that are kept\<close>

text \<open>A table after some steps: every row in its place, with its key and related to what it was, and new rows behind.\<close>

definition rows_kept :: "('r \<Rightarrow> 'k) \<Rightarrow> ('r \<Rightarrow> 'r \<Rightarrow> bool) \<Rightarrow> 'r list \<Rightarrow> 'r list \<Rightarrow> bool" where
  "rows_kept key good xs xs' \<longleftrightarrow>
     (\<exists>f ys. xs' = map f xs @ ys \<and> (\<forall>x\<in>set xs. key (f x) = key x \<and> good x (f x)))"

locale row_relation =
  fixes key :: "'r \<Rightarrow> 'k" and good :: "'r \<Rightarrow> 'r \<Rightarrow> bool"
  assumes good_refl: "good x x"
    and good_trans: "good x y \<Longrightarrow> good y z \<Longrightarrow> good x z"
begin

lemma kept_refl: "rows_kept key good xs xs"
  unfolding rows_kept_def by (rule exI [of _ id]) (simp add: good_refl)

lemma kept_append: "rows_kept key good xs (xs @ ys)"
  unfolding rows_kept_def by (rule exI [of _ id]) (simp add: good_refl)

lemma kept_update:
  assumes "\<And>x. x \<in> set xs \<Longrightarrow> P x \<Longrightarrow> key (f x) = key x \<and> good x (f x)"
  shows "rows_kept key good xs (update_rows P f xs)"
  unfolding rows_kept_def update_rows_def
  by (rule exI [of _ "\<lambda>x. if P x then f x else x"]) (use assms good_refl in auto)

lemma kept_trans:
  assumes "rows_kept key good xs ys" "rows_kept key good ys zs"
  shows "rows_kept key good xs zs"
proof -
  from assms(1) obtain f us where f: "ys = map f xs @ us" "\<forall>x\<in>set xs. key (f x) = key x \<and> good x (f x)"
    unfolding rows_kept_def by blast
  from assms(2) obtain g vs where g: "zs = map g ys @ vs" "\<forall>y\<in>set ys. key (g y) = key y \<and> good y (g y)"
    unfolding rows_kept_def by blast
  have "zs = map (g \<circ> f) xs @ (map g us @ vs)" using f(1) g(1) by simp
  moreover have "\<forall>x\<in>set xs. key ((g \<circ> f) x) = key x \<and> good x ((g \<circ> f) x)" using f g good_trans by auto
  ultimately show ?thesis unfolding rows_kept_def by blast
qed

lemma kept_find:
  assumes "rows_kept key good xs ys" "find (\<lambda>r. key r = k) xs = Some r"
  shows "\<exists>r'. find (\<lambda>r. key r = k) ys = Some r' \<and> good r r'"
proof -
  from assms(1) obtain f us where f: "ys = map f xs @ us" "\<forall>x\<in>set xs. key (f x) = key x \<and> good x (f x)"
    unfolding rows_kept_def by auto
  have "find (\<lambda>r. key r = k) (map f xs @ us) = Some (f r) \<and> r \<in> set xs" using assms(2) f(2)
    by (induction xs) (auto split: if_splits)
  with f show ?thesis by auto
qed

end

definition round_kept :: "PsychloRound \<Rightarrow> PsychloRound \<Rightarrow> bool" where
  "round_kept r r' \<longleftrightarrow> rd_request r' = rd_request r \<and> rd_capability_hash r' = rd_capability_hash r \<and>
     (rd_result r \<noteq> None \<longrightarrow> rd_result r' = rd_result r)"

definition decision_kept :: "PsychloDecision \<Rightarrow> PsychloDecision \<Rightarrow> bool" where
  "decision_kept d d' \<longleftrightarrow> de_request d' = de_request d \<and> (de_status d \<noteq> ''staged'' \<longrightarrow> d' = d)"

definition protocol_kept :: "ProtocolRecord \<Rightarrow> ProtocolRecord \<Rightarrow> bool" where
  "protocol_kept r r' \<longleftrightarrow> pl_payload r' = pl_payload r \<and> pl_digest r' = pl_digest r \<and> pl_idempotency_key r' = pl_idempotency_key r"

definition claim_kept :: "OperationClaim \<Rightarrow> OperationClaim \<Rightarrow> bool" where
  "claim_kept c c' \<longleftrightarrow> oc_idempotency_key c' = oc_idempotency_key c \<and> (oc_state c = ''completed'' \<longrightarrow> c' = c)"

definition protocol_key :: "ProtocolRecord \<Rightarrow> string \<times> string" where
  "protocol_key r = (pl_kind r, pl_record_id r)"

definition claim_key :: "OperationClaim \<Rightarrow> string \<times> string" where
  "claim_key c = (oc_kind c, oc_operation_id c)"

interpretation rounds: row_relation rd_round_id round_kept
  by unfold_locales (auto simp: round_kept_def)

interpretation decisions: row_relation de_decision_id decision_kept
  by unfold_locales (auto simp: decision_kept_def)

interpretation protocol: row_relation protocol_key protocol_kept
  by unfold_locales (auto simp: protocol_kept_def)

interpretation claims: row_relation claim_key claim_kept
  by unfold_locales (auto simp: claim_kept_def)

interpretation terminals: row_relation ct_request_id "(=)"
  by unfold_locales auto

interpretation nonces: row_relation fst "(=)"
  by unfold_locales auto

definition psychlo_kept :: "PsychloStore \<Rightarrow> PsychloStore \<Rightarrow> bool" where
  "psychlo_kept st st' \<longleftrightarrow>
     rows_kept rd_round_id round_kept (ps_rounds st) (ps_rounds st') \<and>
     rows_kept de_decision_id decision_kept (ps_decisions st) (ps_decisions st') \<and>
     rows_kept protocol_key protocol_kept (ps_protocol st) (ps_protocol st') \<and>
     rows_kept claim_key claim_kept (ps_claims st) (ps_claims st') \<and>
     rows_kept ct_request_id (=) (ps_terminals st) (ps_terminals st') \<and>
     rows_kept fst (=) (ps_nonces st) (ps_nonces st')"

lemmas kept_rules = rounds.kept_refl decisions.kept_refl protocol.kept_refl claims.kept_refl terminals.kept_refl nonces.kept_refl
  rounds.kept_append decisions.kept_append protocol.kept_append claims.kept_append terminals.kept_append nonces.kept_append

lemma psychlo_kept_refl: "psychlo_kept st st"
  by (simp add: psychlo_kept_def kept_rules)

lemma psychlo_kept_trans: "psychlo_kept st st1 \<Longrightarrow> psychlo_kept st1 st2 \<Longrightarrow> psychlo_kept st st2"
  unfolding psychlo_kept_def
  by (meson rounds.kept_trans decisions.kept_trans protocol.kept_trans claims.kept_trans terminals.kept_trans nonces.kept_trans)

section \<open>The steps\<close>

text \<open>
  Every operation of the store with any arguments. \<open>record_round\<close>, which inserts without looking at the ceiling, is
  left out: the bridge admits rounds only through the three guarded operations.
\<close>

inductive psychlo_step :: "storage_env \<Rightarrow> PsychloStore \<Rightarrow> PsychloStore \<Rightarrow> bool" for env where
  step_nonce: "psychlo_step env st (fst (claim_nonce nonce message_id st))"
| step_single: "psychlo_step env st (fst (record_single_stream_round env request receipt capability st))"
| step_canary: "psychlo_step env st (fst (record_canary_round env request receipt capability aid revision now st))"
| step_durable: "psychlo_step env st (fst (record_durable_ceiling_round env request receipt capability st))"
| step_started: "psychlo_step env st (mark_dispatch_started round_id started_at st)"
| step_dispatched: "psychlo_step env st (mark_dispatched round_id receipt st)"
| step_result: "psychlo_step env st (record_result round_id result completed_at st)"
| step_forwarded: "psychlo_step env st (mark_forwarded round_id st)"
| step_protocol: "psychlo_step env st (fst (record_protocol now kind rid key digest payload state st))"
| step_transition: "psychlo_step env st (fst (transition_protocol now kind rid state error answer st))"
| step_change: "psychlo_step env st (fst (record_concurrency_ceiling_change env now payload st))"
| step_terminal: "psychlo_step env st (fst (record_coordination_participant_terminal env now request_id rid key digest payload st))"
| step_decision: "psychlo_step env st (fst (record_decision env request receipt st))"
| step_decide: "psychlo_step env st (fst (decide did status decided_by decided_at reason st))"
| step_intent: "psychlo_step env st (fst (record_decision_intent env now request outcome decided_by decided_at reason st))"
| step_external: "psychlo_step env st (fst (record_external env payload digest receipt gate st))"
| step_link: "psychlo_step env st (fst (link_external_gate xid did workflow_id st))"
| step_external_forwarded: "psychlo_step env st (fst (mark_external_forwarded xid status st))"
| step_receipt: "psychlo_step env st (update_external_receipt env xid receipt new_status st)"
| step_stage: "psychlo_step env st (fst (stage_external_decision env request receipt st))"
| step_settle: "psychlo_step env st (fst (settle_external_decision now did status decided_by decided_at reason xid st))"
| step_claim: "psychlo_step env st (fst (claim_coordination_operation kind operation_id owner_id lease key now st))"
| step_complete: "psychlo_step env st (fst (complete_coordination_operation kind operation_id owner_id now st))"
| step_release: "psychlo_step env st (release_coordination_operation kind operation_id owner_id now st)"
| step_create: "psychlo_step env st (fst (create_coordination_intent env is_dispatch now operation_id xid payload owner_id key st))"
| step_save: "psychlo_step env st (fst (save_coordination_intent is_dispatch now request_id xid payload state st))"
| step_move: "psychlo_step env st (fst (transition_coordination_intent is_dispatch now request_id state st))"
| step_project: "psychlo_step env st (fst (record_project project_id registration scheduling st))"
| step_replace: "psychlo_step env st (fst (replace_project env project_id expected registration scheduling delivered st))"

lemma kept_one_table:
  "rows_kept rd_round_id round_kept (ps_rounds st) rs \<Longrightarrow> psychlo_kept st (st\<lparr>ps_rounds := rs\<rparr>)"
  "rows_kept de_decision_id decision_kept (ps_decisions st) ds \<Longrightarrow> psychlo_kept st (st\<lparr>ps_decisions := ds\<rparr>)"
  "rows_kept protocol_key protocol_kept (ps_protocol st) ps \<Longrightarrow> psychlo_kept st (st\<lparr>ps_protocol := ps\<rparr>)"
  "rows_kept claim_key claim_kept (ps_claims st) cs \<Longrightarrow> psychlo_kept st (st\<lparr>ps_claims := cs\<rparr>)"
  "rows_kept fst (=) (ps_nonces st) ns \<Longrightarrow> psychlo_kept st (st\<lparr>ps_nonces := ns\<rparr>)"
  "psychlo_kept st (st\<lparr>ps_external := xs\<rparr>)" "psychlo_kept st (st\<lparr>ps_decision_intents := intents\<rparr>)"
  "psychlo_kept st (st\<lparr>ps_projects := js\<rparr>)" "psychlo_kept st (set_intents is_dispatch rows st)"
  by (simp_all add: psychlo_kept_def kept_rules set_intents_def)

lemma update_round_kept:
  assumes "\<And>r. rd_round_id (f r) = rd_round_id r \<and> round_kept r (f r)"
  shows "psychlo_kept st (update_round round_id f st)"
  unfolding update_round_def by (intro kept_one_table rounds.kept_update) (simp add: assms)

lemma decide_staged_kept: "psychlo_kept st (decide_staged did status decided_by decided_at reason st)"
  unfolding decide_staged_def by (intro kept_one_table decisions.kept_update) (simp add: decision_kept_def)

lemma update_external_kept: "psychlo_kept st (update_external xid f st)"
  unfolding update_external_def by (rule kept_one_table)

lemma insert_round_kept: "psychlo_kept st (fst (insert_round env request receipt capability aid st))"
  by (auto simp: insert_round_def psychlo_kept_refl split: sum.splits intro: kept_one_table rounds.kept_append)

lemma append_kept:
  "psychlo_kept st (st\<lparr>ps_protocol := ps_protocol st @ ps\<rparr>)" "psychlo_kept st (st\<lparr>ps_decisions := ps_decisions st @ ds\<rparr>)"
  "psychlo_kept st (st\<lparr>ps_nonces := ps_nonces st @ ns\<rparr>)" "psychlo_kept st (st\<lparr>ps_claims := ps_claims st @ cs\<rparr>)"
  "psychlo_kept st (st\<lparr>ps_protocol := ps_protocol st @ ps, ps_terminals := ps_terminals st @ ts\<rparr>)"
  by (simp_all add: psychlo_kept_def kept_rules)

lemma transition_protocol_kept: "psychlo_kept st (fst (transition_protocol now kind rid state error answer st))"
  unfolding transition_protocol_def Let_def fst_conv
  by (intro kept_one_table protocol.kept_update) (simp add: protocol_key_def protocol_kept_def)

lemma settle_kept: "psychlo_kept st (fst (settle_external_decision now did status decided_by decided_at reason xid st))"
proof (cases "check_settlement st did status xid")
  case (Inl e)
  then show ?thesis by (simp add: settle_external_decision_def psychlo_kept_refl)
next
  case (Inr x)
  then show ?thesis unfolding settle_external_decision_def Let_def
    by simp (rule psychlo_kept_trans [OF decide_staged_kept psychlo_kept_trans [OF update_external_kept kept_one_table(7)]])
qed

lemma stage_kept: "psychlo_kept st (fst (stage_external_decision env request receipt st))"
  unfolding stage_external_decision_def Let_def
  using psychlo_kept_trans [OF append_kept(2) update_external_kept]
  by (simp add: psychlo_kept_refl update_external_kept split: sum.split option.split)

text \<open>The primary key of the claims: an operation has one row.\<close>

definition claims_unique :: "PsychloStore \<Rightarrow> bool" where
  "claims_unique st \<longleftrightarrow> distinct (map claim_key (ps_claims st))"

lemma same_operation_key: "same_operation kind operation_id = (\<lambda>c. claim_key c = (kind, operation_id))"
  by (auto simp: same_operation_def claim_key_def)

lemma claim_is_unique:
  assumes "claims_unique st" "coordination_operation_claim st kind operation_id = Some c"
    "x \<in> set (ps_claims st)" "same_operation kind operation_id x"
  shows "x = c"
proof -
  from assms(2) have "c \<in> set (ps_claims st)" "same_operation kind operation_id c"
    by (auto simp: coordination_operation_claim_def find_Some_iff)
  with assms show ?thesis unfolding claims_unique_def same_operation_key by (metis distinct_map inj_onD)
qed

lemma update_claims_unique:
  "(\<And>c. claim_key (f c) = claim_key c) \<Longrightarrow> map claim_key (update_rows P f cs) = map claim_key cs"
  by (simp add: update_rows_def)

lemma claim_kept_step:
  assumes "claims_unique st"
  shows "psychlo_kept st (fst (claim_coordination_operation kind operation_id owner_id lease key now st)) \<and>
    claims_unique (fst (claim_coordination_operation kind operation_id owner_id lease key now st))"
proof (cases "coordination_operation_claim st kind operation_id")
  case None
  then have "(kind, operation_id) \<notin> claim_key ` set (ps_claims st)"
    by (auto simp: coordination_operation_claim_def find_None_iff same_operation_key)
  with None assms show ?thesis
    by (auto simp: claim_coordination_operation_def psychlo_kept_refl claims_unique_def claim_key_def intro: append_kept)
next
  case (Some c)
  define f where "f = (\<lambda>r :: OperationClaim. r\<lparr>oc_owner_id := Some owner_id, oc_lease_expires_at := Some lease,
    oc_attempts := oc_attempts r + 1, oc_state := ''claimed'', oc_updated_at := now\<rparr>)"
  have key: "claim_key (f x) = claim_key x" for x by (simp add: f_def claim_key_def)
  show ?thesis
  proof (cases "claim_holds now c = Inr False \<and> fst (claim_coordination_operation kind operation_id owner_id lease key now st) \<noteq> st")
    case True
    then have eq: "fst (claim_coordination_operation kind operation_id owner_id lease key now st) =
        st\<lparr>ps_claims := update_rows (same_operation kind operation_id) f (ps_claims st)\<rparr>"
      using Some by (auto simp: claim_coordination_operation_def f_def split: if_splits)
    have "oc_state c \<noteq> ''completed''" using True by (auto simp: claim_holds_def split: if_splits)
    then have "claim_kept x (f x)" if "x \<in> set (ps_claims st)" "same_operation kind operation_id x" for x
      using claim_is_unique [OF assms Some that] by (simp add: claim_kept_def f_def)
    then have "psychlo_kept st (st\<lparr>ps_claims := update_rows (same_operation kind operation_id) f (ps_claims st)\<rparr>)"
      by (intro kept_one_table claims.kept_update) (simp add: key)
    then show ?thesis unfolding eq using assms by (simp add: claims_unique_def update_claims_unique [OF key])
  next
    case False
    then have "fst (claim_coordination_operation kind operation_id owner_id lease key now st) = st"
      using Some by (auto simp: claim_coordination_operation_def split: if_splits sum.splits bool.splits)
    with assms show ?thesis by (simp add: psychlo_kept_refl)
  qed
qed

lemma other_claim_steps:
  assumes "claims_unique st"
  shows "psychlo_kept st (fst (complete_coordination_operation kind operation_id owner_id now st)) \<and>
      claims_unique (fst (complete_coordination_operation kind operation_id owner_id now st))"
    "psychlo_kept st (release_coordination_operation kind operation_id owner_id now st) \<and>
      claims_unique (release_coordination_operation kind operation_id owner_id now st)"
proof -
  have key: "claim_key (c\<lparr>oc_state := s, oc_lease_expires_at := None, oc_updated_at := now\<rparr>) = claim_key c"
    "claim_key (c\<lparr>oc_owner_id := None, oc_lease_expires_at := None, oc_state := s, oc_updated_at := now\<rparr>) = claim_key c"
    for c :: OperationClaim and s by (simp_all add: claim_key_def)
  show "psychlo_kept st (fst (complete_coordination_operation kind operation_id owner_id now st)) \<and>
      claims_unique (fst (complete_coordination_operation kind operation_id owner_id now st))"
    using assms unfolding complete_coordination_operation_def
    by (auto simp: psychlo_kept_refl claim_kept_def claimed_by_def key claims_unique_def update_claims_unique intro!: kept_one_table claims.kept_update)
  show "psychlo_kept st (release_coordination_operation kind operation_id owner_id now st) \<and>
      claims_unique (release_coordination_operation kind operation_id owner_id now st)"
    using assms unfolding release_coordination_operation_def
    by (auto simp: claim_kept_def claimed_by_def key claims_unique_def update_claims_unique intro!: kept_one_table claims.kept_update)
qed

lemma insert_round_claims: "ps_claims (fst (insert_round env request receipt capability aid st)) = ps_claims st"
  by (simp add: insert_round_def split: sum.split)

lemmas guarded_rounds = record_single_stream_round_def record_canary_round_def record_durable_ceiling_round_def

lemma claims_frame:
  "ps_claims (update_external xid f st) = ps_claims st" "ps_claims (decide_staged did status decided_by decided_at reason st) = ps_claims st"
  by (simp_all add: update_external_def decide_staged_def)

lemma round_steps:
  "psychlo_kept st (fst (record_single_stream_round env request receipt capability st)) \<and>
    ps_claims (fst (record_single_stream_round env request receipt capability st)) = ps_claims st"
  "psychlo_kept st (fst (record_canary_round env request receipt capability aid revision now st)) \<and>
    ps_claims (fst (record_canary_round env request receipt capability aid revision now st)) = ps_claims st"
  "psychlo_kept st (fst (record_durable_ceiling_round env request receipt capability st)) \<and>
    ps_claims (fst (record_durable_ceiling_round env request receipt capability st)) = ps_claims st"
  by (simp_all add: guarded_rounds psychlo_kept_refl insert_round_kept insert_round_claims split: sum.split)

lemma mark_steps:
  "psychlo_kept st (mark_dispatch_started round_id started_at st) \<and> ps_claims (mark_dispatch_started round_id started_at st) = ps_claims st"
  "psychlo_kept st (mark_dispatched round_id receipt st) \<and> ps_claims (mark_dispatched round_id receipt st) = ps_claims st"
  "psychlo_kept st (record_result round_id result completed_at st) \<and> ps_claims (record_result round_id result completed_at st) = ps_claims st"
  "psychlo_kept st (mark_forwarded round_id st) \<and> ps_claims (mark_forwarded round_id st) = ps_claims st"
  unfolding mark_dispatch_started_def mark_dispatched_def record_result_def mark_forwarded_def
  by (rule conjI, rule update_round_kept, simp add: round_kept_def, simp add: update_round_def)+

lemma protocol_steps:
  "psychlo_kept st (fst (record_protocol now kind rid key digest payload state st)) \<and>
    ps_claims (fst (record_protocol now kind rid key digest payload state st)) = ps_claims st"
  "psychlo_kept st (fst (record_concurrency_ceiling_change env now payload st)) \<and>
    ps_claims (fst (record_concurrency_ceiling_change env now payload st)) = ps_claims st"
  "psychlo_kept st (fst (record_coordination_participant_terminal env now request_id rid key digest payload st)) \<and>
    ps_claims (fst (record_coordination_participant_terminal env now request_id rid key digest payload st)) = ps_claims st"
  "ps_claims (fst (transition_protocol now kind rid state error answer st)) = ps_claims st"
  by (simp_all add: record_protocol_def record_concurrency_ceiling_change_def record_coordination_participant_terminal_def
      transition_protocol_def Let_def psychlo_kept_refl append_kept split: option.split sum.split)

lemma decision_steps:
  "psychlo_kept st (fst (record_decision env request receipt st)) \<and> ps_claims (fst (record_decision env request receipt st)) = ps_claims st"
  "psychlo_kept st (fst (decide did status decided_by decided_at reason st)) \<and>
    ps_claims (fst (decide did status decided_by decided_at reason st)) = ps_claims st"
  "psychlo_kept st (fst (record_decision_intent env now request outcome decided_by decided_at reason st)) \<and>
    ps_claims (fst (record_decision_intent env now request outcome decided_by decided_at reason st)) = ps_claims st"
  "ps_claims (fst (stage_external_decision env request receipt st)) = ps_claims st"
  "ps_claims (fst (settle_external_decision now did status decided_by decided_at reason xid st)) = ps_claims st"
  by (simp_all add: record_decision_def decide_def record_decision_intent_def stage_external_decision_def
      settle_external_decision_def Let_def psychlo_kept_refl append_kept decide_staged_kept kept_one_table claims_frame
      split: option.split sum.split)

lemma external_steps:
  "psychlo_kept st (fst (record_external env payload digest receipt gate st)) \<and>
    ps_claims (fst (record_external env payload digest receipt gate st)) = ps_claims st"
  "psychlo_kept st (fst (link_external_gate xid did workflow_id st)) \<and> ps_claims (fst (link_external_gate xid did workflow_id st)) = ps_claims st"
  "psychlo_kept st (fst (mark_external_forwarded xid status st)) \<and> ps_claims (fst (mark_external_forwarded xid status st)) = ps_claims st"
  "psychlo_kept st (update_external_receipt env xid receipt new_status st) \<and> ps_claims (update_external_receipt env xid receipt new_status st) = ps_claims st"
  by (simp_all add: record_external_def link_external_gate_def mark_external_forwarded_def update_external_receipt_def Let_def
      psychlo_kept_refl kept_one_table update_external_def split: option.split sum.split prod.split)

lemma set_intents_frame:
  "ps_claims (set_intents is_dispatch rows st) = ps_claims st" "ps_rounds (set_intents is_dispatch rows st) = ps_rounds st"
  by (simp_all add: set_intents_def)

lemma intent_steps:
  "psychlo_kept st (fst (create_coordination_intent env is_dispatch now operation_id xid payload owner_id key st)) \<and>
    ps_claims (fst (create_coordination_intent env is_dispatch now operation_id xid payload owner_id key st)) = ps_claims st"
  "psychlo_kept st (fst (save_coordination_intent is_dispatch now request_id xid payload state st)) \<and>
    ps_claims (fst (save_coordination_intent is_dispatch now request_id xid payload state st)) = ps_claims st"
  "psychlo_kept st (fst (transition_coordination_intent is_dispatch now request_id state st)) \<and>
    ps_claims (fst (transition_coordination_intent is_dispatch now request_id state st)) = ps_claims st"
  "psychlo_kept st (fst (record_project project_id registration scheduling st)) \<and>
    ps_claims (fst (record_project project_id registration scheduling st)) = ps_claims st"
  "psychlo_kept st (fst (replace_project env project_id expected registration scheduling delivered st)) \<and>
    ps_claims (fst (replace_project env project_id expected registration scheduling delivered st)) = ps_claims st"
  "psychlo_kept st (fst (claim_nonce nonce message_id st)) \<and> ps_claims (fst (claim_nonce nonce message_id st)) = ps_claims st"
  by (simp_all add: create_coordination_intent_def save_coordination_intent_def transition_coordination_intent_def record_project_def
      replace_project_def claim_nonce_def Let_def psychlo_kept_refl kept_one_table append_kept set_intents_frame split: option.split sum.split)

lemma step_kept:
  assumes "psychlo_step env st st'" "claims_unique st"
  shows "psychlo_kept st st' \<and> claims_unique st'"
  using assms
proof cases
  case step_claim
  with claim_kept_step assms(2) show ?thesis by simp
next
  case step_complete
  with other_claim_steps(1) assms(2) show ?thesis by simp
next
  case step_release
  with other_claim_steps(2) assms(2) show ?thesis by simp
qed (use assms(2) in \<open>simp_all add: claims_unique_def round_steps mark_steps protocol_steps decision_steps external_steps
      intent_steps transition_protocol_kept stage_kept settle_kept\<close>)

section \<open>At most two streams\<close>

text \<open>What the ceiling promises of the unfinished rounds, and what it takes to admit one more.\<close>

definition authorised :: "storage_env \<Rightarrow> PsychloStore \<Rightarrow> bool" where
  "authorised env st \<longleftrightarrow> (\<exists>kind record_id row v.
     protocol_record st kind record_id = Some row \<and>
     (kind = CANARY_AUTHORIZATION \<and> parse_canary_authorization env (pl_payload row) = Inr v \<or>
      kind = CEILING_AUTHORIZATION \<and> parse_concurrency_ceiling_authorization env (pl_payload row) = Inr v) \<and>
     dict_item v ''digest'' = PStr (pl_digest row) \<and> approved st (field_text v ''decisionId''))"

definition other_project :: "json_obj \<Rightarrow> json_obj \<Rightarrow> bool" where
  "other_project r r' \<longleftrightarrow> \<not> json_eq (project_of r) (project_of r')"

definition streams_ok :: "storage_env \<Rightarrow> PsychloStore \<Rightarrow> bool" where
  "streams_ok env st \<longleftrightarrow> length (active_rounds st) \<le> 2 \<and> sorted_wrt other_project (active_rounds st) \<and>
     (length (active_rounds st) = 2 \<longrightarrow> authorised env st)"

definition admissible :: "storage_env \<Rightarrow> PsychloStore \<Rightarrow> json_obj \<Rightarrow> bool" where
  "admissible env st request \<longleftrightarrow> active_rounds st = [] \<or>
     length (active_rounds st) < 2 \<and> authorised env st \<and> list_all (\<lambda>r. other_project r request) (active_rounds st)"

definition fewer_streams :: "PsychloStore \<Rightarrow> PsychloStore \<Rightarrow> bool" where
  "fewer_streams st st' \<longleftrightarrow> (\<exists>P. active_rounds st' = map rd_request (filter P (unfinished st)))"

lemma same_rounds_fewer: "ps_rounds st' = ps_rounds st \<Longrightarrow> fewer_streams st st'"
  unfolding fewer_streams_def by (rule exI [of _ "\<lambda>_. True"]) (simp add: active_rounds_def unfinished_def)

lemma update_round_fewer:
  assumes "\<And>r. rd_request (f r) = rd_request r" "\<And>r. rd_result (f r) = None \<Longrightarrow> rd_result r = None"
  shows "fewer_streams st (update_round round_id f st)"
proof -
  define g where "g = (\<lambda>r. if rd_round_id r = round_id then f r else r)"
  have "filter (\<lambda>r. rd_result (g r) = None) (ps_rounds st) =
      filter (\<lambda>r. rd_result (g r) = None) (unfinished st)"
    by (auto simp: unfinished_def g_def intro!: filter_cong dest: assms(2))
  moreover have "rd_request \<circ> g = rd_request" by (auto simp: g_def assms(1))
  ultimately have "active_rounds (update_round round_id f st) = map rd_request (filter (\<lambda>r. rd_result (g r) = None) (unfinished st))"
    by (simp add: active_rounds_def unfinished_def update_round_def update_rows_def filter_map comp_def g_def [symmetric])
  then show ?thesis unfolding fewer_streams_def by blast
qed

lemma insert_round_streams:
  "fewer_streams st (fst (insert_round env request receipt capability aid st)) \<or>
   active_rounds (fst (insert_round env request receipt capability aid st)) = active_rounds st @ [request]"
  by (simp add: insert_round_def same_rounds_fewer active_rounds_def unfinished_def new_round_def split: sum.split)

lemma read_authority_Inr:
  assumes "read_authority st kind rid states parser missing invalid conflict = Inr v"
  shows "\<exists>row. protocol_record st kind rid = Some row \<and> parser (pl_payload row) = Inr v \<and> dict_item v ''digest'' = PStr (pl_digest row)"
  using assms by (auto simp: read_authority_def res_bind_Inr_iff as_invalid_def split: option.splits if_splits sum.splits py_error.splits)

lemma check_streams_Inr: "check_streams ps request rs = Inr () \<Longrightarrow> list_all (\<lambda>r. other_project r request) rs"
  by (induction ps request rs rule: check_streams.induct) (auto simp: other_project_def split: if_splits)

lemma canary_admits:
  assumes "check_canary_round env st request aid revision now = Inr ()"
  shows "admissible env st request"
proof -
  from assms obtain v where v: "read_authority st CANARY_AUTHORIZATION aid {''delivered''} (parse_canary_authorization env)
       ''concurrency canary authorization is unavailable'' ''concurrency canary authorization is invalid''
       ''concurrency canary authorization digest conflict'' = Inr v"
    and checks: "approved st (field_text v ''decisionId'')" "length (active_rounds st) < 2"
      "check_streams (bound_projects v) request (active_rounds st) = Inr ()"
    by (auto simp: check_canary_round_def res_bind_Inr_iff refuse_when_def split: if_splits)
  from read_authority_Inr [OF v] checks(1) have "authorised env st" unfolding authorised_def by blast
  with checks check_streams_Inr show ?thesis by (auto simp: admissible_def)
qed

lemma durable_admits:
  assumes "check_durable_ceiling env st request = Inr ()"
  shows "admissible env st request"
proof -
  from assms obtain aid v where v: "read_ceiling env st aid = Inr v" and decided: "check_decision_fields st v = Inr ()"
    and checks: "length (active_rounds st) < 2" "\<not> list_ex (\<lambda>r. json_eq (project_of r) (project_of request)) (active_rounds st)"
    by (auto simp: check_durable_ceiling_def res_bind_Inr_iff refuse_when_def split: if_splits)
  from decided have "approved st (field_text v ''decisionId'')"
    by (auto simp: check_decision_fields_def approved_def refuse_when_def split: option.splits if_splits)
  with read_authority_Inr [OF v [unfolded read_ceiling_def]] have "authorised env st" unfolding authorised_def by blast
  with checks show ?thesis by (auto simp: admissible_def other_project_def list_ex_iff list_all_iff)
qed

lemma round_streams:
  defines "admits \<equiv> \<lambda>env st st'. \<exists>request. admissible env st request \<and> active_rounds st' = active_rounds st @ [request]"
  shows "fewer_streams st (fst (record_single_stream_round env request receipt capability st)) \<or>
      admits env st (fst (record_single_stream_round env request receipt capability st))"
    "fewer_streams st (fst (record_canary_round env request receipt capability aid revision now st)) \<or>
      admits env st (fst (record_canary_round env request receipt capability aid revision now st))"
    "fewer_streams st (fst (record_durable_ceiling_round env request receipt capability st)) \<or>
      admits env st (fst (record_durable_ceiling_round env request receipt capability st))"
proof -
  have step: "fewer_streams st (fst (insert_round env request receipt capability aid st)) \<or>
      admits env st (fst (insert_round env request receipt capability aid st))" if "admissible env st request" for aid
    unfolding admits_def using insert_round_streams that by metis
  have none: "unfinished st = [] \<Longrightarrow> admissible env st request" by (simp add: admissible_def active_rounds_def)
  show "fewer_streams st (fst (record_single_stream_round env request receipt capability st)) \<or>
      admits env st (fst (record_single_stream_round env request receipt capability st))"
    using step none by (simp add: guarded_rounds same_rounds_fewer)
  show "fewer_streams st (fst (record_canary_round env request receipt capability aid revision now st)) \<or>
      admits env st (fst (record_canary_round env request receipt capability aid revision now st))"
    using step canary_admits by (simp add: guarded_rounds same_rounds_fewer split: sum.split)
  show "fewer_streams st (fst (record_durable_ceiling_round env request receipt capability st)) \<or>
      admits env st (fst (record_durable_ceiling_round env request receipt capability st))"
    using step durable_admits by (simp add: guarded_rounds same_rounds_fewer split: sum.split)
qed

lemma mark_streams:
  "fewer_streams st (mark_dispatch_started round_id started_at st)" "fewer_streams st (mark_dispatched round_id receipt st)"
  "fewer_streams st (record_result round_id result completed_at st)" "fewer_streams st (mark_forwarded round_id st)"
  unfolding mark_dispatch_started_def mark_dispatched_def record_result_def mark_forwarded_def
  by (rule update_round_fewer; simp split: if_splits)+

lemma rounds_frame:
  "ps_rounds (fst (claim_nonce nonce message_id st)) = ps_rounds st"
  "ps_rounds (fst (record_protocol now kind rid key digest payload state st)) = ps_rounds st"
  "ps_rounds (fst (transition_protocol now kind rid state error answer st)) = ps_rounds st"
  "ps_rounds (fst (record_concurrency_ceiling_change env now payload st)) = ps_rounds st"
  "ps_rounds (fst (record_coordination_participant_terminal env now request_id rid key digest payload st)) = ps_rounds st"
  "ps_rounds (fst (record_decision env request receipt st)) = ps_rounds st"
  "ps_rounds (fst (decide did status decided_by decided_at reason st)) = ps_rounds st"
  "ps_rounds (fst (record_decision_intent env now request outcome decided_by decided_at reason st)) = ps_rounds st"
  by (simp_all add: claim_nonce_def record_protocol_def transition_protocol_def record_concurrency_ceiling_change_def
      record_coordination_participant_terminal_def record_decision_def decide_def decide_staged_def record_decision_intent_def
      Let_def split: option.split sum.split)

lemma rounds_frame_external:
  "ps_rounds (fst (record_external env payload digest receipt gate st)) = ps_rounds st"
  "ps_rounds (fst (link_external_gate xid did workflow_id st)) = ps_rounds st"
  "ps_rounds (fst (mark_external_forwarded xid status st)) = ps_rounds st"
  "ps_rounds (update_external_receipt env xid receipt new_status st) = ps_rounds st"
  "ps_rounds (fst (stage_external_decision env request receipt st)) = ps_rounds st"
  "ps_rounds (fst (settle_external_decision now did status decided_by decided_at reason xid st)) = ps_rounds st"
  by (simp_all add: record_external_def link_external_gate_def mark_external_forwarded_def update_external_receipt_def
      stage_external_decision_def settle_external_decision_def update_external_def decide_staged_def Let_def
      split: option.split sum.split prod.split)

lemma rounds_frame_coordination:
  "ps_rounds (fst (claim_coordination_operation kind operation_id owner_id lease key now st)) = ps_rounds st"
  "ps_rounds (fst (complete_coordination_operation kind operation_id owner_id now st)) = ps_rounds st"
  "ps_rounds (release_coordination_operation kind operation_id owner_id now st) = ps_rounds st"
  "ps_rounds (fst (create_coordination_intent env is_dispatch now operation_id xid payload owner_id key st)) = ps_rounds st"
  "ps_rounds (fst (save_coordination_intent is_dispatch now request_id xid payload state st)) = ps_rounds st"
  "ps_rounds (fst (transition_coordination_intent is_dispatch now request_id state st)) = ps_rounds st"
  "ps_rounds (fst (record_project project_id registration scheduling st)) = ps_rounds st"
  "ps_rounds (fst (replace_project env project_id expected registration scheduling delivered st)) = ps_rounds st"
  by (simp_all add: claim_coordination_operation_def complete_coordination_operation_def release_coordination_operation_def
      create_coordination_intent_def save_coordination_intent_def transition_coordination_intent_def record_project_def
      replace_project_def set_intents_frame Let_def split: option.split sum.split bool.split)

lemma step_streams:
  assumes "psychlo_step env st st'"
  shows "fewer_streams st st' \<or> (\<exists>request. admissible env st request \<and> active_rounds st' = active_rounds st @ [request])"
  using assms
  by cases (simp_all add: round_streams mark_streams same_rounds_fewer rounds_frame rounds_frame_external rounds_frame_coordination)

lemma authorised_kept:
  assumes "authorised env st" "psychlo_kept st st'"
  shows "authorised env st'"
proof -
  have row_of: "protocol_record x kind rid = find (\<lambda>r. protocol_key r = (kind, rid)) (ps_protocol x)" for x kind rid
    by (simp add: protocol_record_def protocol_key_def)
  have "\<exists>row'. protocol_record st' kind rid = Some row' \<and> protocol_kept row row'" if "protocol_record st kind rid = Some row" for kind rid row
    using assms(2) that unfolding psychlo_kept_def row_of by (blast intro: protocol.kept_find)
  moreover have "approved st' did" if "approved st did" for did
  proof -
    from that obtain d where d: "decision st did = Some d" "de_status d = ''approved''"
      by (auto simp: approved_def split: option.splits)
    from decisions.kept_find [of "ps_decisions st" "ps_decisions st'" did d] assms(2) d(1)
    obtain d' where "decision st' did = Some d'" "decision_kept d d'" by (auto simp: psychlo_kept_def decision_def)
    with d(2) show ?thesis by (simp add: approved_def decision_kept_def)
  qed
  ultimately show ?thesis using assms(1) unfolding authorised_def protocol_kept_def by metis
qed

lemma streams_ok_step:
  assumes "psychlo_step env st st'" "claims_unique st" "streams_ok env st"
  shows "streams_ok env st'"
proof -
  from step_kept assms have kept: "psychlo_kept st st'" by blast
  from step_streams [OF assms(1)] show ?thesis
  proof (elim disjE exE conjE)
    assume "fewer_streams st st'"
    then obtain P where P: "active_rounds st' = map rd_request (filter P (unfinished st))" by (auto simp: fewer_streams_def)
    have le: "length (active_rounds st') \<le> length (active_rounds st)" by (simp add: P) (simp add: active_rounds_def)
    have "sorted_wrt other_project (active_rounds st')"
      using assms(3) unfolding P by (simp add: streams_ok_def active_rounds_def sorted_wrt_map sorted_wrt_filter)
    with le authorised_kept [OF _ kept] assms(3) show ?thesis by (auto simp: streams_ok_def)
  next
    fix request
    assume "admissible env st request" "active_rounds st' = active_rounds st @ [request]"
    with assms(3) authorised_kept [OF _ kept] show ?thesis
      by (auto simp: streams_ok_def admissible_def sorted_wrt_append list_all_iff)
  qed
qed

definition psychlo_empty :: PsychloStore where
  "psychlo_empty = \<lparr>ps_nonces = [], ps_rounds = [], ps_decisions = [], ps_decision_intents = [], ps_protocol = [], ps_external = [],
     ps_dispatches = [], ps_reviews = [], ps_claims = [], ps_terminals = [], ps_projects = []\<rparr>"

interpretation psychlo: step_invariant "\<lambda>st. st = psychlo_empty" "psychlo_step env" "\<lambda>st. claims_unique st \<and> streams_ok env st" for env
proof
  show "claims_unique st \<and> streams_ok env st" if "st = psychlo_empty" for st
    using that by (simp add: claims_unique_def streams_ok_def active_rounds_def unfinished_def psychlo_empty_def)
qed (use step_kept streams_ok_step in blast)

section \<open>A run with two streams\<close>

definition sample_zeros :: "nat \<Rightarrow> string" where "sample_zeros n = replicate n CHR ''0''"

definition sample_digests :: storage_env where
  "sample_digests = \<lparr>se_sha256 = (\<lambda>s. if s = ''two'' then CHR ''1'' # sample_zeros 63 else sample_zeros 64), se_float_repr = (\<lambda>_. ''0.0''),
     se_str = (\<lambda>_. []), se_bind = (\<lambda>_. Inr [])\<rparr>"

definition sample_member :: "string \<Rightarrow> pyval" where
  "sample_member name = PDict [(''projectId'', PStr name), (''planId'', PStr ''plan.1''), (''planVersion'', PStr ''v1''), (''leadId'', PStr ''lead.1'')]"

definition sample_canary :: json_obj where
  "sample_canary = [(''authorizationId'', PStr ''auth.1''), (''targetTemporaryCeiling'', PInt 2), (''expectedGlobalCeiling'', PInt 1),
     (''expectedRevision'', PInt 0), (''projects'', PList [sample_member ''alpha'', sample_member ''beta'']), (''workflowId'', PStr ''wf.1''),
     (''decisionVersion'', PStr ''v1''), (''decisionId'', PStr ''roadex:concurrency-canary:auth.1''),
     (''question'', PStr (''Approve the exact live concurrency canary '' @ sample_zeros 64)), (''deadline'', PStr ''2026-02-01T00:00:00+00:00''),
     (''correlationId'', PStr ''corr.1''), (''idempotencyKey'', PStr ''key.1''), (''occurredAt'', PStr ''2026-01-01T00:00:00+00:00''),
     (''digest'', PStr (sample_zeros 64))]"

definition sample_round :: "string \<Rightarrow> string \<Rightarrow> json_obj" where
  "sample_round round_id name = [(''roundId'', PStr round_id), (''projectId'', PStr name), (''planId'', PStr ''plan.1''),
     (''planVersion'', PStr ''v1''), (''projectLeadId'', PStr ''lead.1'')]"

definition approved_store :: PsychloStore where
  "approved_store = fst (decide ''roadex:concurrency-canary:auth.1'' ''approved'' ''operator'' ''2026-01-01T01:00:00+00:00'' ''ok''
     (fst (record_decision sample_digests [(''decisionId'', PStr ''roadex:concurrency-canary:auth.1'')] []
     (fst (record_protocol ''2026-01-01T00:00:00+00:00'' CANARY_AUTHORIZATION ''auth.1'' ''key.1'' (sample_zeros 64) sample_canary ''delivered''
        psychlo_empty)))))"

definition first_stream :: PsychloStore where
  "first_stream = fst (record_single_stream_round sample_digests (sample_round ''round.1'' ''alpha'') [] ''one'' approved_store)"

definition second_stream :: PsychloStore where
  "second_stream = fst (record_canary_round sample_digests (sample_round ''round.2'' ''beta'') [] ''two'' ''auth.1'' 0
     ''2026-01-02T00:00:00+00:00'' first_stream)"

lemmas psychlo_next = reach.reach_step [where step = "psychlo_step env" for env]

lemma second_stream_reached: "reach (\<lambda>st. st = psychlo_empty) (psychlo_step sample_digests) second_stream"
  unfolding second_stream_def first_stream_def approved_store_def
  by (intro psychlo_next [OF _ step_canary] psychlo_next [OF _ step_single] psychlo_next [OF _ step_decide]
      psychlo_next [OF _ step_decision] psychlo_next [OF _ step_protocol] reach.reach_init) simp

lemma second_stream_active:
  "active_rounds second_stream = [sample_round ''round.1'' ''alpha'', sample_round ''round.2'' ''beta'']"
  by code_simp



section \<open>What is final\<close>

lemma run_kept:
  assumes "(psychlo_step env)\<^sup>*\<^sup>* st st'" "claims_unique st"
  shows "psychlo_kept st st'" "claims_unique st'"
proof -
  from assms have "psychlo_kept st st' \<and> claims_unique st'"
    by (induction rule: rtranclp_induct) (use psychlo_kept_refl psychlo_kept_trans step_kept in blast)+
  then show "psychlo_kept st st'" "claims_unique st'" by simp_all
qed

lemma completed_claim_bars:
  assumes "coordination_operation_claim st kind operation_id = Some c" "oc_state c = ''completed''"
  shows "snd (claim_coordination_operation kind operation_id owner_id lease key now st) \<noteq> Inr True \<and>
    fst (claim_coordination_operation kind operation_id owner_id lease key now st) = st"
  using assms by (simp add: claim_coordination_operation_def claim_holds_def)

lemma claim_found_again:
  assumes "psychlo_kept st st'" "coordination_operation_claim st kind operation_id = Some c" "oc_state c = ''completed''"
  shows "coordination_operation_claim st' kind operation_id = Some c"
  using claims.kept_find [of "ps_claims st" "ps_claims st'" "(kind, operation_id)" c] assms
  by (auto simp: psychlo_kept_def coordination_operation_claim_def same_operation_key claim_kept_def)

lemma nonce_kept:
  assumes "psychlo_kept st st'" "nonce \<in> fst ` set (ps_nonces st)"
  shows "nonce \<in> fst ` set (ps_nonces st')"
  using assms by (auto simp: psychlo_kept_def rows_kept_def image_iff)

lemma result_kept:
  assumes "psychlo_kept st st'" "get_round st round_id = Some r" "rd_result r = Some result"
  shows "\<exists>r'. get_round st' round_id = Some r' \<and> rd_request r' = rd_request r \<and> rd_result r' = Some result"
  using rounds.kept_find [of "ps_rounds st" "ps_rounds st'" round_id r] assms
  by (auto simp: psychlo_kept_def get_round_def round_kept_def)

lemma taken_decision_kept:
  assumes "psychlo_kept st st'" "decision st did = Some d" "de_status d \<noteq> ''staged''"
  shows "decision st' did = Some d"
  using decisions.kept_find [of "ps_decisions st" "ps_decisions st'" did d] assms
  by (auto simp: psychlo_kept_def decision_def decision_kept_def)

text \<open>C23: Whatever the Psychlo bridge does after a reachable store, a nonce seen once is refused, the result of a
  finished round stays as recorded, a decision that was taken stays as taken, and a completed coordination operation is
  never claimed again.\<close>

theorem psychlo_outcomes_final:
  assumes "reach (\<lambda>st. st = psychlo_empty) (psychlo_step env) st" and "(psychlo_step env)\<^sup>*\<^sup>* st st'"
  shows "(nonce \<in> fst ` set (ps_nonces st) \<longrightarrow> claim_nonce nonce message_id st' = (st', False)) \<and>
    (get_round st round_id = Some r \<and> rd_result r = Some result \<longrightarrow>
       (\<exists>r'. get_round st' round_id = Some r' \<and> rd_request r' = rd_request r \<and> rd_result r' = Some result)) \<and>
    (decision st did = Some d \<and> de_status d \<noteq> ''staged'' \<longrightarrow> decision st' did = Some d) \<and>
    (coordination_operation_claim st kind operation_id = Some c \<and> oc_state c = ''completed'' \<longrightarrow>
       snd (claim_coordination_operation kind operation_id owner_id lease key now st') \<noteq> Inr True)"
proof -
  from psychlo.inv_reach [OF assms(1)] run_kept(1) [OF assms(2)] have kept: "psychlo_kept st st'" by simp
  show ?thesis using nonce_kept [OF kept] result_kept [OF kept] taken_decision_kept [OF kept]
      completed_claim_bars [OF claim_found_again [OF kept]] by (auto simp: claim_nonce_def)
qed

definition worked_store :: PsychloStore where
  "worked_store = fst (complete_coordination_operation ''lead-dispatch'' ''op.1'' ''owner.1'' ''t2''
     (fst (claim_coordination_operation ''lead-dispatch'' ''op.1'' ''owner.1'' ''2026-01-03T00:00:00+00:00'' ''key.2'' ''t1''
     (fst (claim_nonce ''nonce.1'' ''message.1'' (record_result ''round.1'' [(''status'', PStr ''completed'')] None second_stream))))))"

lemma worked_store_reached: "reach (\<lambda>st. st = psychlo_empty) (psychlo_step sample_digests) worked_store"
  unfolding worked_store_def
  by (intro psychlo_next [OF _ step_complete] psychlo_next [OF _ step_claim] psychlo_next [OF _ step_nonce]
      psychlo_next [OF _ step_result] second_stream_reached)

lemma worked_store_values:
  "map fst (ps_nonces worked_store) = [''nonce.1'']"
  "map_option oc_state (coordination_operation_claim worked_store ''lead-dispatch'' ''op.1'') = Some ''completed''"
  "map_option de_status (decision worked_store ''roadex:concurrency-canary:auth.1'') = Some ''approved''"
  by code_simp+

text \<open>A finished operation and a seen nonce stay barred after the other stream has finished too.\<close>

theorem psychlo_outcomes_final_witness:
  "claim_nonce ''nonce.1'' ''message.2'' (record_result ''round.2'' [] None worked_store) =
     (record_result ''round.2'' [] None worked_store, False) \<and>
   snd (claim_coordination_operation ''lead-dispatch'' ''op.1'' ''owner.2'' ''lease'' ''key.2'' ''t3''
     (record_result ''round.2'' [] None worked_store)) \<noteq> Inr True \<and>
   map_option de_status (decision (record_result ''round.2'' [] None worked_store) ''roadex:concurrency-canary:auth.1'') = Some ''approved''"
proof -
  have run: "(psychlo_step sample_digests)\<^sup>*\<^sup>* worked_store (record_result ''round.2'' [] None worked_store)"
    by (rule r_into_rtranclp) (rule step_result)
  from worked_store_values obtain c d where c: "coordination_operation_claim worked_store ''lead-dispatch'' ''op.1'' = Some c"
      "oc_state c = ''completed''" and d: "decision worked_store ''roadex:concurrency-canary:auth.1'' = Some d" "de_status d = ''approved''"
    by auto
  have "''nonce.1'' \<in> fst ` set (ps_nonces worked_store)" using worked_store_values(1) by (simp flip: set_map)
  with psychlo_outcomes_final [OF worked_store_reached run] c d show ?thesis by fastforce
qed

end
