(* ===== verification/Spec2Isabelle.thy ===== *)
theory Spec2Isabelle
  imports Claim_Cleanup Planner Policy Quark_Runs Quark_Effort Key_Broker Remote_Auth Agent_Drain Agent_Retry
    Failover_Safety Storage_Safety Site_Config Runtime_State Psychlo_Safety
begin

text \<open>
  A verification development of Overseer (\<^verbatim>\<open>src/src/overseer\<close>), the local coordinator that lets several
  threads of work share one host: resources are claimed, risky claims and administrative changes wait
  for an approval, work under a usage limit is planned around a reserve, and every decision leaves an
  audit event in a SQLite store.

  \<^bold>\<open>The parts and how they interact.\<close> A CLI command rebuilds an \<^verbatim>\<open>OverseerCoordinator\<close> from the store; the
  coordinator runs the \<^verbatim>\<open>ResourceRegistry\<close>, whose decisions come from \<^verbatim>\<open>core.decide_claim\<close>, and writes the
  claim, the resource, the decision, the approval request and the audit event back. Administrative
  changes take another road: a builder stages an \<^verbatim>\<open>AdminChangePlan\<close>, a person approves it, the policy
  evaluates it (with the IDS review package where one is required), and the executor runs its steps
  with verification and rollback. The planner turns maintenance, security and limited-work decisions
  into execution requests for a dry-run executor. Quark divides the capacity of a usage limit among
  the queued work items. The agent manager sends prompts to provider drivers: every dispatch is stored
  under an idempotency key and bound to the generation of its instance, and a fence on the instance
  stops new work before a handoff. When a provider keeps failing, a failover decision is evaluated from
  stored evidence, persisted, and executed at most once under that fence. The key broker issues short-lived tokens for approved requests, and
  remote testing authorizes the requests of test agents by scoped tokens. The crew are the owners of the
  domains: an operator leaves them messages, whose approved review is the evidence that a storage
  authorization needs. Such an authorization is staged, approved by somebody else, materialised, verified by the
  storage adapter at execution time and may be revoked; the dispatcher sends a request to the adapter once. The
  Psychlo bridge keeps its own store: the rounds of work another program hands out, one at a time unless an approved
  canary or ceiling authorization admits a second stream, with their results, decisions and coordination claims.

  \<^bold>\<open>Theories and the code they model.\<close>
  \<^item> \<open>Prelude\<close>: results with Python exceptions (\<open>py_error + 'a\<close>), the string operations the code calls,
    insertion-ordered dictionaries (\<open>pydict\<close>), tables sorted by primary key (\<open>tbl\<close>), and three
    interfaces: \<open>keyed_table\<close> (lookup after update), \<open>table_copy\<close> (one table rebuilt from the rows of
    another) and \<open>step_invariant\<close> (an invariant of a step relation holds in every reachable state).
  \<^item> \<open>Core_Claims\<close> (\<^verbatim>\<open>core.py\<close>): enumerations, resources, claims, \<open>required_approval\<close>, \<open>decide_claim\<close>; the
    interface \<open>risk_graded\<close> (approval grows with risk), interpreted here, in \<open>Maintenance\<close> and in
    \<open>Security\<close>.
  \<^item> \<open>Registry\<close> (\<^verbatim>\<open>registry.py\<close>): request, release, activate and restore; exclusiveness of active claims
    over all runs, and exactness of \<^verbatim>\<open>current_claim_id\<close> over runs that do not re-request a held claim.
  \<^item> \<open>Audit_Log\<close> (\<^verbatim>\<open>audit.py\<close>), \<open>Store_Model\<close> (the four tables of \<^verbatim>\<open>store.py\<close> the coordinator uses),
    \<open>Coordinator\<close> (\<^verbatim>\<open>service.py\<close> with the order of its writes): the store refines the registry, and a
    coordinator rebuilt from the store has the same registry.
  \<^item> \<open>Clock\<close> (\<^verbatim>\<open>datetime.fromisoformat\<close> on the accepted formats), \<open>Claim_Commands\<close> and \<open>Claim_Cleanup\<close>
    (the claim commands of \<^verbatim>\<open>cli.py\<close>): mutual exclusion over every sequence of commands, the approval
    gates of activation and cleanup.
  \<^item> \<open>Maintenance\<close>, \<open>Usage_Limits\<close>, \<open>Security\<close>, \<open>Scheduling\<close> (the files of these names): readiness gates,
    capacity decisions, responses to signals, window conflicts. \<open>Planner\<close> (\<^verbatim>\<open>adapters.py\<close>, \<^verbatim>\<open>planner.py\<close>):
    the interface \<open>safe_executor\<close>, interpreted on the dry-run executor.
  \<^item> \<open>Admin_Plans\<close>, \<open>Admin_Exec\<close>, \<open>Admin_Lifecycle\<close> (\<^verbatim>\<open>admin.py\<close>): the plan builders, approval, cancellation
    and archiving, execution with verification and rollback, and what holds of a plan in every state
    reachable from a builder. \<open>IDS_Review\<close> (\<^verbatim>\<open>ids_review.py\<close>, \<^verbatim>\<open>source_review.py\<close>): the review package and its
    life cycle. \<open>Policy\<close> (\<^verbatim>\<open>policy.py\<close>): the checks, profiles and answers; the policy agrees with the
    executor on reachable plans.
  \<^item> \<open>Quark_Plan\<close> (the planning part of \<^verbatim>\<open>quark_scheduler.py\<close>): the allocation loop ends, keeps the
    reserve, and serves every waiting item before it leaves capacity unused.
    \<open>Quark_Work\<close>, \<open>Quark_Exec\<close> and \<open>Quark_Cycle\<close> add the work store with its slice ledger, the executor and
    the cycle; \<open>Quark_Runs\<close> shows that the ledger stays consistent over interleaved schedulers, that a
    stale result changes nothing and that a cycle returns; \<open>Quark_Effort\<close> that the effort report adds up.
  \<^item> \<open>Iso_Time\<close> and \<open>Py_Paths\<close>: printing instants as \<^verbatim>\<open>datetime.isoformat\<close> and \<^verbatim>\<open>strftime\<close> do, with the
    round trip through the reader of \<open>Clock\<close>, and POSIX paths as component lists.
  \<^item> \<open>Key_Broker\<close> (\<^verbatim>\<open>key_broker.py\<close> and its tables): a grant exists only for an approved request, expires on
    time, and loses its token file when it is revoked.
  \<^item> \<open>Remote_Testing\<close> and \<open>Remote_Auth\<close> (\<^verbatim>\<open>remote_testing.py\<close>): an authorized request is in the scope of its
    token, a scope violation locks the account, and the route matcher agrees with its language.
  \<^item> \<open>Agent_Contracts\<close> (\<^verbatim>\<open>agent_contracts.py\<close>), \<open>Agent_Store\<close> (the agent tables of \<^verbatim>\<open>store.py\<close>, the sanitiser
    and the SQL trigger), \<open>Agent_Operations\<close> (\<^verbatim>\<open>agent_operations.py\<close>) and \<open>Agent_Manager\<close> (the dispatch path
    of \<^verbatim>\<open>agent_manager.py\<close>). \<open>Agent_Runs\<close> interleaves the callers of these operations: a fence is
    exclusive, stops its generation for good, and quiescence lasts. \<open>Agent_Drain\<close>: a drain reaches
    quiescence, and stored records are valid and free of secrets. \<open>Agent_Retry\<close>: a retry changes
    nothing and reports the recorded outcome.
  \<^item> \<open>Agent_Failover\<close> (\<^verbatim>\<open>evaluate_failover_evidence\<close> of \<^verbatim>\<open>agent_handoff.py\<close>), \<open>Failover_Store\<close> (the failover
    tables), \<open>Failover_Manager\<close> (evaluating, executing and recovering a failover in \<^verbatim>\<open>agent_manager.py\<close>):
    the evaluation meets its specification \<open>justified_failover\<close>. \<open>Failover_Runs\<close> and \<open>Failover_Safety\<close>
    interleave the callers: a decision is executed once and only while it is justified, a provider is
    asked once to recover an execution, and a recovery gives the fence back.
  \<^item> \<open>Health\<close> (\<^verbatim>\<open>health.py\<close>): a probe is healthy exactly when it passes, and a summary shows the newest evidence.
    \<open>Site_Config\<close> (\<^verbatim>\<open>physical.py\<close>, \<^verbatim>\<open>config.py\<close> and their tables): seeding installs exactly the valid
    configurations, and pruning health evidence changes no summary. \<open>Runtime_State\<close> (\<^verbatim>\<open>runtime_state.py\<close>): a
    timestamp only grows staler.
  \<^item> \<open>Crew\<close> (\<^verbatim>\<open>crew.py\<close> and the crew commands of \<^verbatim>\<open>cli.py\<close>): recording, reviewing, deciding, resubmitting and
    reconciling messages; an approved message is delivered and evidenced, and its decision is final.
  \<^item> \<open>Storage_Adapter\<close> (\<^verbatim>\<open>storage_adapter.py\<close>: requests and their digests, verification, the client, the
    dispatcher), \<open>Storage_Control\<close> (\<^verbatim>\<open>storage_control.py\<close> and the storage tables). \<open>Storage_Safety\<close> runs
    them with any change to the other tables in between: what the endpoint verifies was approved for exactly its payload,
    a revoked authorization never returns, and the resolved root authorization is the newest.
  \<^item> \<open>Task_Graph\<close> (the dependency check of \<^verbatim>\<open>psychlo_contracts.py\<close>): the depth-first search accepts exactly the
    acyclic graphs. \<open>Psychlo_Contracts\<close> (digests and parsers of \<^verbatim>\<open>psychlo_contracts.py\<close>), \<open>Psychlo_Store\<close> and
    \<open>Psychlo_Ceiling\<close> (\<^verbatim>\<open>psychlo_store.py\<close>). \<open>Psychlo_Safety\<close> runs the store: at most two streams, of different
    projects and the second only if authorized, and outcomes that are final. Its interface \<open>row_relation\<close> says what of a
    row survives every step; it is interpreted for each of six tables.

  \<^bold>\<open>How the code is represented.\<close> A dataclass is a record whose fields carry a short prefix, an enum a
  datatype whose constructors carry the class name. \<^verbatim>\<open>str\<close> is \<open>string\<close> (the Latin-1 part of Unicode),
  \<^verbatim>\<open>None\<close>-able values are options, a frozenset is a set, a tuple a list, a dict an association list in
  insertion order, a SQLite table an association list sorted by its key. A method that changes an
  object returns the new object with its result, also when it raises, so that the writes made before an
  exception are kept. Python integers are \<open>int\<close>; floating-point amounts are rationals, so rounding is
  not modelled. Timestamps are compared as the code compares them: as strings where it compares
  strings, as microseconds where it parses them. The subprocess runner is a parameter, a function from
  a step and a host state to a result and a host state; the uuid and clock values a command draws are
  arguments of the command. The clock, the random texts, SHA-256, the GitHub exchange and the provider
  drivers are parameters as well; no theorem assumes more of them than that a random text is not drawn
  twice, that the clock reads instants a \<^verbatim>\<open>datetime\<close> can hold, and, for the drain, that the provider
  confirms the cancellation. The storage theories take SHA-256, the printing of floats and of other objects and
  the binding of a JSON value to an SQL column from a record \<open>storage_env\<close>, the adapter's tool call and the
  result of a crew owner's dispatcher as arguments, and assume nothing of them; a table that is created on
  first use is an empty table before. Regular expressions are written out as recursive matchers. Quark's
  allocation loop is a \<^verbatim>\<open>partial_function (option)\<close>, shown to return; the waiting loop of a drain takes
  the number of polls its deadline leaves, and what is shown of a drain holds for every number.

  \<^bold>\<open>Runs.\<close> \<open>registry_step\<close>, \<open>coordinator_step\<close>, \<open>command_step\<close>, \<open>plan_step\<close>, \<open>ids_step\<close>, \<open>broker_step\<close>,
  \<open>remote_step\<close>, \<open>op_step\<close>, \<open>quark_step\<close>, \<open>failover_step\<close>, \<open>crew_step\<close>, \<open>dispatch_step\<close>, \<open>storage_step\<close> and \<open>psychlo_step\<close>
  are the step relations; \<open>reach\<close> collects the
  states reachable from the initial ones, and each relation interprets \<open>step_invariant\<close> with the invariant of its component. In
  \<open>op_step\<close>, \<open>quark_step\<close> and \<open>failover_step\<close> an operation that reads and writes outside a transaction is
  several steps, so that any number of callers interleave as the code lets them. In
  \<open>psychlo_step\<close> an operation is one transaction or one guarded write, so its runs stand for those of several
  processes. In the other relations one process works on the store
  at a time: the code takes no lock between the read and the write of a command, and interleavings of
  two processes are not modelled there.

  \<^bold>\<open>What the theorems found.\<close> A claim queued at request time is activated without the approval its
  activation decision asks for; cleaning up an expired claim lifts a quarantine; re-requesting a held
  exclusive claim leaves a stale \<^verbatim>\<open>current_claim_id\<close>; a command that cannot be started skips the rollback;
  windows written with different UTC offsets are not seen to overlap; an approval given in the second
  of its request replaces the audit event of the request; a padded account id lifts a lock-out; a
  running result read before a drain brings a cancelled dispatch back into flight; an exception of the
  executor leaves a work item running with its units reserved for good; a second slice of a cycle
  restarts an item the first one completed; staging a storage operation overwrites whatever approval its
  payload names; a crew message resubmitted under its own id is lost; whether two devices conflict
  depends on the order in which a configuration lists them. Each is a theorem on the model.

  \<^bold>\<open>Not modelled.\<close> The remaining tables of the store, which repeat the save, load and list pattern of the
  modelled ones, and the JSON serialization of rows; the HTTP API, the user interface and the rest of the
  CLI, which parse and print around the modelled operations; host inspection, health probes, discovery,
  the dispatchers of the crew owners and evidence summaries, which read the host; the staged identity, image, virtual and
  backup operations, whose work is done by the commands of other tools; the agent drivers, agent activation and
  the handoff to another provider; the signed protocol of the Psychlo bridge and its
  learning, telemetry and registry projections; the Roadex projection; the files
  of the remote test queue, and the firewall builder that normalises addresses with \<^verbatim>\<open>ipaddress\<close>.
\<close>

end
